(* ===== verification/Prelude.thy ===== *)
theory Prelude
  imports Complex_Main "HOL-Library.Word" "HOL-Library.Multiset"
begin

text \<open>
  What the components share: the Go types the models use (byte strings, 64-bit integers,
  durations and instants), the conversions of \<^verbatim>\<open>strconv\<close>, \<^verbatim>\<open>fmt\<close> and \<^verbatim>\<open>strings\<close> the
  source calls, and generic lemmas on them.
  The collections \<open>go_defs\<close> (unfolding of straight-line code) and \<open>inv_intros\<close>
  (preservation of invariants) are filled by the component theories.
\<close>

named_theorems go_defs "definitions of straight-line Go code"
named_theorems inv_intros "preservation of the components' invariants"

section \<open>Integers of fixed width\<close>

type_synonym uint64 = "64 word"
type_synonym byte = "8 word"

text \<open>
  A Go \<^verbatim>\<open>int64\<close> (also \<^verbatim>\<open>int\<close> and \<^verbatim>\<open>time.Duration\<close> on the supported platforms) is an
  \<open>int\<close> kept in range by \<open>wrap64\<close>, two's complement wrap-around.
\<close>

definition wrap64 :: "int \<Rightarrow> int" where
  "wrap64 x = (x + 2 ^ 63) mod 2 ^ 64 - 2 ^ 63"

definition int64_range :: "int \<Rightarrow> bool" where
  "int64_range x \<longleftrightarrow> - (2 ^ 63) \<le> x \<and> x < 2 ^ 63"

lemma wrap64_id [simp]: "int64_range x \<Longrightarrow> wrap64 x = x"
  by (simp add: wrap64_def int64_range_def)

lemma wrap64_range [simp]: "int64_range (wrap64 x)"
  by (simp add: wrap64_def int64_range_def)

text \<open>Go's integer division truncates towards zero.\<close>

definition go_div :: "int \<Rightarrow> int \<Rightarrow> int" where
  "go_div a b = sgn a * sgn b * (\<bar>a\<bar> div \<bar>b\<bar>)"

lemma go_div_nonneg [simp]: "0 \<le> a \<Longrightarrow> 0 < b \<Longrightarrow> go_div a b = a div b"
  by (cases "a = 0") (simp_all add: go_div_def)

lemma go_div_mono: "0 < b \<Longrightarrow> a \<le> a' \<Longrightarrow> go_div a b \<le> go_div a' b"
proof -
  assume b: "0 < b" "a \<le> a'"
  have neg: "go_div x b = - ((- x) div b)" if "x < 0" for x
    using that b by (simp add: go_div_def)
  show ?thesis
  proof (cases "a < 0")
    case True
    show ?thesis
    proof (cases "a' < 0")
      case True
      with \<open>a < 0\<close> b show ?thesis by (simp add: neg zdiv_mono1)
    next
      case False
      with \<open>a < 0\<close> b have "go_div a b \<le> 0" "0 \<le> go_div a' b"
        by (simp_all add: neg pos_imp_zdiv_nonneg_iff)
      then show ?thesis by linarith
    qed
  next
    case False
    with b show ?thesis by (simp add: zdiv_mono1)
  qed
qed

section \<open>Time\<close>

text \<open>
  A \<^verbatim>\<open>time.Time\<close> is the number of nanoseconds since the Unix epoch, an unbounded \<open>int\<close>:
  Go keeps seconds and nanoseconds apart, so its range is far beyond \<^verbatim>\<open>int64\<close> nanoseconds.
  \<^verbatim>\<open>t.Sub(u)\<close> saturates at the bounds of \<^verbatim>\<open>time.Duration\<close>.
\<close>

type_synonym instant = int
type_synonym duration = int

definition nanosecond_hour :: int where
  "nanosecond_hour = 3600 * 10 ^ 9"

definition nanosecond_day :: int where
  "nanosecond_day = 24 * nanosecond_hour"

definition zero_time :: instant where
  "zero_time = - 62135596800 * 10 ^ 9"

definition time_sub :: "instant \<Rightarrow> instant \<Rightarrow> duration" where
  "time_sub t u = max (- (2 ^ 63)) (min (2 ^ 63 - 1) (t - u))"

lemma time_sub_range [simp]: "int64_range (time_sub t u)"
  by (auto simp: time_sub_def int64_range_def max_def min_def)

lemma time_sub_exact: "int64_range (t - u) \<Longrightarrow> time_sub t u = t - u"
  by (auto simp: time_sub_def int64_range_def)

lemma time_sub_sign: "time_sub t u \<le> 0 \<longleftrightarrow> t \<le> u"
  by (auto simp: time_sub_def max_def min_def)

section \<open>Outcomes of channel operations\<close>

text \<open>
  An operation on channels returns, blocks for ever in the given state (it waits for another
  goroutine), or panics.
\<close>

datatype 'a outcome = Done 'a | Blocks | Panics

fun bind_outcome :: "'a outcome \<Rightarrow> ('a \<Rightarrow> 'b outcome) \<Rightarrow> 'b outcome" where
  "bind_outcome (Done x) f = f x"
| "bind_outcome Blocks f = Blocks"
| "bind_outcome Panics f = Panics"

lemma bind_outcome_Done: "bind_outcome m f = Done y \<longleftrightarrow> (\<exists>x. m = Done x \<and> f x = Done y)"
  by (cases m) auto

lemma case_sum_eq_Inr [simp]:
  "(case r of Inl e \<Rightarrow> Inl e | Inr x \<Rightarrow> Inr (f x)) = Inr y \<longleftrightarrow> (\<exists>x. r = Inr x \<and> f x = y)"
  by (cases r) auto

section \<open>Strings\<close>

text \<open>
  A Go string is a sequence of bytes, an Isabelle \<open>string\<close>. \<open>show_nat\<close> and
  \<open>show_int\<close> are \<^verbatim>\<open>strconv.Itoa\<close> and the verb \<^verbatim>\<open>%d\<close>, \<open>join\<close> is
  \<^verbatim>\<open>strings.Join\<close>.
\<close>

definition digit_char :: "nat \<Rightarrow> char" where
  "digit_char d = char_of (48 + d)"

fun show_nat :: "nat \<Rightarrow> string" where
  "show_nat n = (if n < 10 then [digit_char n] else show_nat (n div 10) @ [digit_char (n mod 10)])"

declare show_nat.simps [simp del]

definition show_int :: "int \<Rightarrow> string" where
  "show_int i = (if i < 0 then CHR ''-'' # show_nat (nat (- i)) else show_nat (nat i))"

fun join :: "string \<Rightarrow> string list \<Rightarrow> string" where
  "join sep [] = []"
| "join sep [s] = s"
| "join sep (s # t # ss) = s @ sep @ join sep (t # ss)"

text \<open>The ASCII part of \<^verbatim>\<open>strings.ToLower\<close>.\<close>

definition ascii_lower :: "char \<Rightarrow> char" where
  "ascii_lower c = (let n = (of_char c :: nat) in if 65 \<le> n \<and> n \<le> 90 then char_of (n + 32) else c)"

lemma show_nat_nonempty [simp]: "show_nat n \<noteq> []"
  by (subst show_nat.simps) simp

lemma digit_char_inj: "d < 10 \<Longrightarrow> e < 10 \<Longrightarrow> digit_char d = digit_char e \<longleftrightarrow> d = e"
proof -
  assume "d < 10" "e < 10"
  then have "(of_char (char_of (48 + d) :: char) :: nat) = 48 + d"
    and "(of_char (char_of (48 + e) :: char) :: nat) = 48 + e"
    by simp_all
  then show ?thesis unfolding digit_char_def by (metis add_left_cancel)
qed

lemma show_nat_small: "n < 10 \<Longrightarrow> show_nat n = [digit_char n]"
  by (subst show_nat.simps) simp

lemma show_nat_big: "\<not> n < 10 \<Longrightarrow> show_nat n = show_nat (n div 10) @ [digit_char (n mod 10)]"
  by (subst show_nat.simps) simp

lemma show_nat_nonempty2 [simp]: "[] \<noteq> show_nat n"
  by (metis show_nat_nonempty)

lemma show_nat_inj: "show_nat m = show_nat n \<Longrightarrow> m = n"
proof (induction m arbitrary: n rule: show_nat.induct)
  case (1 m)
  show ?case
  proof (cases "m < 10"; cases "n < 10")
    assume "m < 10" "n < 10"
    with "1.prems" show ?thesis by (simp add: show_nat_small digit_char_inj)
  next
    assume "m < 10" "\<not> n < 10"
    with "1.prems" show ?thesis by (simp add: show_nat_small show_nat_big [of n])
  next
    assume "\<not> m < 10" "n < 10"
    with "1.prems" show ?thesis by (simp add: show_nat_small show_nat_big [of m])
  next
    assume big: "\<not> m < 10" "\<not> n < 10"
    with "1.prems" have "show_nat (m div 10) = show_nat (n div 10)"
      and "m mod 10 = n mod 10"
      by (simp_all add: show_nat_big [of m] show_nat_big [of n] digit_char_inj)
    with "1.IH" [OF big(1)] have "m div 10 = n div 10" by blast
    with \<open>m mod 10 = n mod 10\<close> show ?thesis by (metis div_mult_mod_eq)
  qed
qed

lemma join_Cons: "join sep (s # ss) = s @ (if ss = [] then [] else sep @ join sep ss)"
  by (cases ss) simp_all

end
