(* ===== verification/LicenseGuard.thy ===== *)
theory LicenseGuard
  imports Prelude
begin

text \<open>
  \<^verbatim>\<open>extension/licenseguardextension\<close>: the extension that verifies the license JWT, keeps
  the verdict in its state and re-validates it on a ticker.
  The JWT, PEM and X.509 libraries and the metric instruments are parameters; \<^verbatim>\<open>time.Now\<close>
  and \<^verbatim>\<open>time.Until\<close> read a clock that is an argument (\<open>clock i\<close> is the \<open>i\<close>-th
  reading inside one call). Days that Go computes in \<^verbatim>\<open>float64\<close> are exact rationals.
  The interface \<^verbatim>\<open>LicenseChecker\<close> is a record of functions (the method set) and the
  locale \<open>license_checker\<close> its contract.
\<close>

section \<open>Configuration and state\<close>

record guard_config =
  LicenseKey :: string
  LicenseKeyEnv :: string
  PublicKeyPEM :: string
  CheckInterval :: duration
  GracePeriodDays :: int
  FailMode :: string

definition FailModeClosed :: string where
  "FailModeClosed = ''closed''"

definition FailModeOpen :: string where
  "FailModeOpen = ''open''"

definition defaultCheckInterval :: duration where
  "defaultCheckInterval = 1 * nanosecond_hour"

definition defaultGracePeriodDays :: int where
  "defaultGracePeriodDays = 7"

definition guard_createDefaultConfig :: guard_config where
  "guard_createDefaultConfig =
     \<lparr>LicenseKey = [], LicenseKeyEnv = [], PublicKeyPEM = [],
      CheckInterval = defaultCheckInterval, GracePeriodDays = defaultGracePeriodDays,
      FailMode = FailModeClosed\<rparr>"

record LicenseClaims =
  claim_TenantID :: string
  claim_ClusterID :: string
  claim_ContractID :: string
  claim_ExpiresAt :: "instant option"

text \<open>
  One sample of the three gauges: \<^verbatim>\<open>otel_license_valid\<close>,
  \<^verbatim>\<open>otel_license_expires_in_days\<close> and \<^verbatim>\<open>otel_grace_period_remaining_days\<close>, with
  the attributes they were recorded under.
\<close>

record gauge_sample =
  sample_attrs :: "(string \<times> string) list"
  validGauge :: int
  expiresInDaysGauge :: rat
  gracePeriodDaysGauge :: rat

record licenseMetrics =
  metric_attrs :: "(string \<times> string) list"
  recorded :: "gauge_sample list"

definition newLicenseMetrics :: "(string + unit) \<Rightarrow> (string + unit) \<Rightarrow> (string + unit) \<Rightarrow> string + licenseMetrics" where
  "newLicenseMetrics valid_gauge expires_gauge grace_gauge =
     (case valid_gauge of Inl err \<Rightarrow> Inl err | Inr _ \<Rightarrow>
      case expires_gauge of Inl err \<Rightarrow> Inl err | Inr _ \<Rightarrow>
      case grace_gauge of Inl err \<Rightarrow> Inl err | Inr _ \<Rightarrow>
        Inr \<lparr>metric_attrs = [], recorded = []\<rparr>)"

definition setAttributes :: "string \<Rightarrow> string \<Rightarrow> licenseMetrics \<Rightarrow> licenseMetrics" where
  "setAttributes tenant contract m =
     m\<lparr>metric_attrs := [(''tenant_id'', tenant), (''contract_id'', contract)]\<rparr>"

definition days :: "duration \<Rightarrow> rat" where
  "days d = of_int d / of_int nanosecond_day"

definition time_until :: "instant \<Rightarrow> instant \<Rightarrow> duration" where
  "time_until now t = time_sub t now"

definition record_metrics :: "instant \<Rightarrow> instant \<Rightarrow> bool \<Rightarrow> instant \<Rightarrow> bool \<Rightarrow> instant \<Rightarrow> licenseMetrics \<Rightarrow> licenseMetrics" where
  "record_metrics now1 now2 is_valid expires_at grace_period grace_end m =
     m\<lparr>recorded := recorded m @
        [\<lparr>sample_attrs = metric_attrs m,
          validGauge = (if is_valid then 1 else 0),
          expiresInDaysGauge = days (time_until now1 expires_at),
          gracePeriodDaysGauge =
            (if grace_period then days (time_until now2 grace_end) else 0)\<rparr>]\<rparr>"

record 'k licenseGuardExtension =
  guard_conf :: guard_config
  publicKey :: "'k option"
  guard_valid :: bool
  gracePeriod :: bool
  expiresAt :: instant
  gracePeriodEnd :: instant
  guard_tenantID :: string
  guard_contractID :: string
  passThrough :: bool
  guard_running :: bool
  guard_metrics :: "licenseMetrics option"

section \<open>Construction\<close>

datatype key_error = PEMDecodeFailed | PKIXParseFailed string | NotRSAPublicKey

datatype 'k pkix_key = RSAPublicKey 'k | OtherPublicKey

text \<open>\<^verbatim>\<open>pem.Decode\<close> and \<^verbatim>\<open>x509.ParsePKIXPublicKey\<close> are the parameters.\<close>

definition parsePublicKey :: "(string \<Rightarrow> string option) \<Rightarrow> (string \<Rightarrow> string + 'k pkix_key) \<Rightarrow> string \<Rightarrow> key_error + 'k" where
  "parsePublicKey pem_decode parse_pkix pem_str =
     (case pem_decode pem_str of None \<Rightarrow> Inl PEMDecodeFailed
      | Some block \<Rightarrow>
         (case parse_pkix block of Inl err \<Rightarrow> Inl (PKIXParseFailed err)
          | Inr pub \<Rightarrow>
             (case pub of RSAPublicKey k \<Rightarrow> Inr k | OtherPublicKey \<Rightarrow> Inl NotRSAPublicKey)))"

datatype verify_error =
    SignatureVerificationFailed string
  | InvalidTokenOrClaims
  | TenantIDMissing
  | ExpClaimMissing

datatype guard_error =
    PublicKeyRequired
  | ParsePublicKeyFailed key_error
  | MetricsInitFailed string
  | JWTVerificationFailed verify_error

text \<open>
  \<^verbatim>\<open>os.Getenv\<close>, the key parser and the outcome of \<open>newLicenseMetrics\<close> are the arguments.
  The resolved key is written back to the shared configuration (\<^verbatim>\<open>cfg.LicenseKey = licenseKey\<close>).
\<close>

definition newLicenseGuardExtension ::
    "(string \<Rightarrow> string) \<Rightarrow> (string \<Rightarrow> key_error + 'k) \<Rightarrow> (string + licenseMetrics) \<Rightarrow> guard_config
      \<Rightarrow> guard_error + 'k licenseGuardExtension" where
  "newLicenseGuardExtension getenv parse_key new_metrics cfg =
     (let licenseKey =
            (if LicenseKey cfg = [] \<and> LicenseKeyEnv cfg \<noteq> []
             then getenv (LicenseKeyEnv cfg) else LicenseKey cfg);
          cfg = cfg\<lparr>LicenseKey := licenseKey\<rparr>;
          ext = \<lparr>guard_conf = cfg, publicKey = None, guard_valid = False, gracePeriod = False,
                 expiresAt = zero_time, gracePeriodEnd = zero_time, guard_tenantID = [],
                 guard_contractID = [], passThrough = False, guard_running = False,
                 guard_metrics = None\<rparr>
      in if LicenseKey cfg = [] then Inr (ext\<lparr>passThrough := True, guard_valid := True\<rparr>)
         else if PublicKeyPEM cfg = [] then Inl PublicKeyRequired
         else (case parse_key (PublicKeyPEM cfg) of
                 Inl err \<Rightarrow> Inl (ParsePublicKeyFailed err)
               | Inr pub_key \<Rightarrow>
                  (case new_metrics of
                     Inl err \<Rightarrow> Inl (MetricsInitFailed err)
                   | Inr m \<Rightarrow> Inr (ext\<lparr>publicKey := Some pub_key, guard_metrics := Some m\<rparr>))))"

section \<open>Verification of the token\<close>

text \<open>
  \<^verbatim>\<open>jwt.ParseWithClaims\<close> is a parameter: from the accepted methods, the option that skips
  the claims validation, the key function and the token string it gives an error or a token.
\<close>

datatype signing_method = SigningMethodRSA string | OtherSigningMethod string

record jwt_token =
  token_claims :: "LicenseClaims option"
  token_valid :: bool

type_synonym 'k jwt_parser =
  "string list \<Rightarrow> bool \<Rightarrow> (signing_method \<Rightarrow> string + 'k option) \<Rightarrow> string \<Rightarrow> string + jwt_token"

definition keyfunc :: "'k option \<Rightarrow> signing_method \<Rightarrow> string + 'k option" where
  "keyfunc key m =
     (case m of SigningMethodRSA _ \<Rightarrow> Inr key
      | OtherSigningMethod alg \<Rightarrow> Inl (''unexpected signing method: '' @ alg))"

definition verifyJWT :: "'k jwt_parser \<Rightarrow> 'k licenseGuardExtension \<Rightarrow> string \<Rightarrow> verify_error + LicenseClaims" where
  "verifyJWT parse_with_claims e tokenString =
     (case parse_with_claims [''RS256''] True (keyfunc (publicKey e)) tokenString of
        Inl err \<Rightarrow> Inl (SignatureVerificationFailed err)
      | Inr token \<Rightarrow>
         (case token_claims token of
            None \<Rightarrow> Inl InvalidTokenOrClaims
          | Some claims \<Rightarrow>
             if \<not> token_valid token then Inl InvalidTokenOrClaims
             else if claim_TenantID claims = [] then Inl TenantIDMissing
             else if claim_ExpiresAt claims = None then Inl ExpClaimMissing
             else Inr claims))"

section \<open>The check\<close>

datatype guard_log =
    LogFailOpen verify_error
  | LogExpiringSoon
  | LogExpiringThisWeek
  | LogGracePeriodActive
  | LogGracePeriodEnded
  | LogValidated bool
  | LogPassThrough
  | LogInitialFailed guard_error
  | LogRevalidationFailed guard_error

text \<open>
  \<^verbatim>\<open>time.Duration(GracePeriodDays) * 24 * time.Hour\<close> is computed in \<^verbatim>\<open>int64\<close>, each product
  wrapping around.
\<close>

definition grace_duration :: "int \<Rightarrow> duration" where
  "grace_duration n = wrap64 (wrap64 (n * 24) * nanosecond_hour)"

definition claims_expiry :: "LicenseClaims \<Rightarrow> instant" where
  "claims_expiry c = the (claim_ExpiresAt c)"

definition claims_grace_end :: "guard_config \<Rightarrow> LicenseClaims \<Rightarrow> instant" where
  "claims_grace_end cfg c = claims_expiry c + grace_duration (GracePeriodDays cfg)"

definition checkLicense ::
    "'k jwt_parser \<Rightarrow> (nat \<Rightarrow> instant) \<Rightarrow> 'k licenseGuardExtension
      \<Rightarrow> 'k licenseGuardExtension \<times> guard_error option \<times> guard_log list" where
  "checkLicense parse_with_claims clock e =
     (case verifyJWT parse_with_claims e (LicenseKey (guard_conf e)) of
        Inl err \<Rightarrow>
          if FailMode (guard_conf e) = FailModeOpen
          then (e\<lparr>guard_valid := True, gracePeriod := False\<rparr>, None, [LogFailOpen err])
          else (e\<lparr>guard_valid := False, gracePeriod := False\<rparr>, Some (JWTVerificationFailed err), [])
      | Inr claims \<Rightarrow>
          let now = clock 0;
              grace_end = claims_grace_end (guard_conf e) claims;
              daysUntilExpiry = days (time_until (clock 1) (claims_expiry claims));
              e1 = e\<lparr>guard_tenantID := claim_TenantID claims,
                     guard_contractID := claim_ContractID claims,
                     expiresAt := claims_expiry claims, gracePeriodEnd := grace_end\<rparr>;
              (e2, logs) =
                (if now < claims_expiry claims
                 then (e1\<lparr>guard_valid := True, gracePeriod := False\<rparr>,
                       (if daysUntilExpiry \<le> 30 then [LogExpiringSoon] else []) @
                       (if daysUntilExpiry \<le> 7 then [LogExpiringThisWeek] else []))
                 else if now < grace_end
                 then (e1\<lparr>guard_valid := True, gracePeriod := True\<rparr>, [LogGracePeriodActive])
                 else (e1\<lparr>guard_valid := False, gracePeriod := False\<rparr>, [LogGracePeriodEnded]));
              logs = logs @ (if guard_valid e2 then [LogValidated (gracePeriod e2)] else []);
              e3 = e2\<lparr>guard_metrics :=
                     map_option (\<lambda>m. record_metrics (clock 2) (clock 3) (guard_valid e2) (expiresAt e2)
                         (gracePeriod e2) (gracePeriodEnd e2)
                         (setAttributes (claim_TenantID claims) (claim_ContractID claims) m))
                       (guard_metrics e2)\<rparr>
          in (e3, None, logs))"

section \<open>Life cycle\<close>

text \<open>
  One event of the loop's \<^verbatim>\<open>select\<close>: the context was cancelled, or the ticker fired and the
  check reads the given clock.
\<close>

datatype loop_event = Cancelled | Tick "nat \<Rightarrow> instant"

fun validationLoop ::
    "'k jwt_parser \<Rightarrow> loop_event list \<Rightarrow> 'k licenseGuardExtension
      \<Rightarrow> 'k licenseGuardExtension \<times> guard_log list" where
  "validationLoop parse_with_claims [] e = (e, [])"
| "validationLoop parse_with_claims (Cancelled # evs) e = (e, [])"
| "validationLoop parse_with_claims (Tick clock # evs) e =
     (let (e', err, logs) = checkLicense parse_with_claims clock e;
          logs = logs @ (case err of None \<Rightarrow> [] | Some x \<Rightarrow> [LogRevalidationFailed x]);
          (e'', logs') = validationLoop parse_with_claims evs e'
      in (e'', logs @ logs'))"

text \<open>\<^verbatim>\<open>Start\<close> checks once and starts the loop; it never returns an error.\<close>

definition guard_Start ::
    "'k jwt_parser \<Rightarrow> (nat \<Rightarrow> instant) \<Rightarrow> 'k licenseGuardExtension
      \<Rightarrow> 'k licenseGuardExtension \<times> guard_log list" where
  "guard_Start parse_with_claims clock e =
     (if passThrough e then (e, [LogPassThrough])
      else let (e', err, logs) = checkLicense parse_with_claims clock e
           in (e'\<lparr>guard_running := True\<rparr>,
               logs @ (case err of None \<Rightarrow> [] | Some x \<Rightarrow> [LogInitialFailed x])))"

definition guard_Shutdown :: "'k licenseGuardExtension \<Rightarrow> 'k licenseGuardExtension" where
  "guard_Shutdown e = e\<lparr>guard_running := False\<rparr>"

section \<open>The LicenseChecker interface\<close>

record 'c LicenseChecker =
  IsValid :: "'c \<Rightarrow> bool"
  IsGracePeriod :: "'c \<Rightarrow> bool"
  ExpiresInDays :: "instant \<Rightarrow> 'c \<Rightarrow> rat"
  GracePeriodRemainingDays :: "instant \<Rightarrow> 'c \<Rightarrow> rat"
  TenantID :: "'c \<Rightarrow> string"
  ContractID :: "'c \<Rightarrow> string"

definition guard_IsValid :: "'k licenseGuardExtension \<Rightarrow> bool" where
  "guard_IsValid e = (if passThrough e then True else guard_valid e)"

definition guard_IsGracePeriod :: "'k licenseGuardExtension \<Rightarrow> bool" where
  "guard_IsGracePeriod e = (if passThrough e then False else gracePeriod e)"

definition max_float64 :: rat where
  "max_float64 = of_int ((2 ^ 53 - 1) * 2 ^ 971)"

definition guard_ExpiresInDays :: "instant \<Rightarrow> 'k licenseGuardExtension \<Rightarrow> rat" where
  "guard_ExpiresInDays now e =
     (if passThrough e then max_float64 else days (time_until now (expiresAt e)))"

definition guard_GracePeriodRemainingDays :: "instant \<Rightarrow> 'k licenseGuardExtension \<Rightarrow> rat" where
  "guard_GracePeriodRemainingDays now e =
     (if passThrough e then 0
      else if \<not> gracePeriod e then 0
      else days (time_until now (gracePeriodEnd e)))"

definition guard_TenantID :: "'k licenseGuardExtension \<Rightarrow> string" where
  "guard_TenantID e = guard_tenantID e"

definition guard_ContractID :: "'k licenseGuardExtension \<Rightarrow> string" where
  "guard_ContractID e = guard_contractID e"

definition guard_checker :: "'k licenseGuardExtension LicenseChecker" where
  "guard_checker =
     \<lparr>IsValid = guard_IsValid, IsGracePeriod = guard_IsGracePeriod,
      ExpiresInDays = guard_ExpiresInDays,
      GracePeriodRemainingDays = guard_GracePeriodRemainingDays,
      TenantID = guard_TenantID, ContractID = guard_ContractID\<rparr>"

section \<open>Lemmas\<close>

lemmas guard_ops_defs [go_defs] =
  guard_IsValid_def guard_IsGracePeriod_def guard_GracePeriodRemainingDays_def
  guard_ExpiresInDays_def guard_TenantID_def guard_ContractID_def

lemma grace_duration_exact:
  assumes "0 \<le> n" and "n \<le> 106751"
  shows "grace_duration n = n * nanosecond_day"
proof -
  have "wrap64 (n * 24) = n * 24"
    using assms by (intro wrap64_id) (simp add: int64_range_def)
  moreover have "wrap64 (n * 24 * nanosecond_hour) = n * 24 * nanosecond_hour"
    using assms by (intro wrap64_id) (simp add: int64_range_def nanosecond_hour_def)
  ultimately show ?thesis by (simp add: grace_duration_def nanosecond_day_def)
qed

lemma verifyJWT_Inr:
  "verifyJWT P e s = Inr c \<longleftrightarrow>
     (\<exists>t. P [''RS256''] True (keyfunc (publicKey e)) s = Inr t \<and> token_valid t
        \<and> token_claims t = Some c) \<and> claim_TenantID c \<noteq> [] \<and> claim_ExpiresAt c \<noteq> None"
  by (auto simp: verifyJWT_def split: sum.splits option.splits if_splits)

text \<open>What a check never writes: configuration, key, mode.\<close>

lemma checkLicense_frame:
  assumes "checkLicense P clock e = (e', err, logs)"
  shows "guard_conf e' = guard_conf e" and "publicKey e' = publicKey e"
    and "passThrough e' = passThrough e" and "guard_running e' = guard_running e"
  using assms by (auto simp: checkLicense_def Let_def split: sum.splits if_splits)

lemma verifyJWT_cong:
  "publicKey e' = publicKey e \<Longrightarrow> verifyJWT P e' s = verifyJWT P e s"
  by (simp add: verifyJWT_def)

lemma checkLicense_Inl:
  assumes "verifyJWT P e (LicenseKey (guard_conf e)) = Inl x"
  shows "checkLicense P clock e =
    (e\<lparr>guard_valid := (FailMode (guard_conf e) = FailModeOpen), gracePeriod := False\<rparr>,
     if FailMode (guard_conf e) = FailModeOpen then None else Some (JWTVerificationFailed x),
     if FailMode (guard_conf e) = FailModeOpen then [LogFailOpen x] else [])"
  using assms by (simp add: checkLicense_def)

lemma checkLicense_Inr:
  assumes "verifyJWT P e (LicenseKey (guard_conf e)) = Inr c"
    and "checkLicense P clock e = (e', err, logs)"
  shows "err = None"
    and "guard_valid e' \<longleftrightarrow>
      clock 0 < claims_expiry c \<or> clock 0 < claims_grace_end (guard_conf e) c"
    and "gracePeriod e' \<longleftrightarrow>
      claims_expiry c \<le> clock 0 \<and> clock 0 < claims_grace_end (guard_conf e) c"
    and "expiresAt e' = claims_expiry c"
    and "gracePeriodEnd e' = claims_grace_end (guard_conf e) c"
    and "guard_tenantID e' = claim_TenantID c" and "guard_contractID e' = claim_ContractID c"
  using assms by (auto simp: checkLicense_def Let_def split: if_splits)

lemma checkLicense_grace_valid [inv_intros]:
  assumes "checkLicense P clock e = (e', err, logs)"
  shows "gracePeriod e' \<longrightarrow> guard_valid e'"
proof (cases "verifyJWT P e (LicenseKey (guard_conf e))")
  case (Inl x)
  with assms show ?thesis by (auto simp: checkLicense_Inl)
next
  case (Inr c)
  with checkLicense_Inr(2,3) [OF Inr assms] show ?thesis by auto
qed

section \<open>Reachable states\<close>

text \<open>
  The states a running extension goes through, whatever the clock and the scheduler do:
  built by the constructor, started, re-checked by the ticker, shut down.
\<close>

inductive guard_reachable ::
    "'k jwt_parser \<Rightarrow> (string \<Rightarrow> key_error + 'k) \<Rightarrow> 'k licenseGuardExtension \<Rightarrow> bool"
  for P :: "'k jwt_parser" and parse_key :: "string \<Rightarrow> key_error + 'k"
where
  created: "newLicenseGuardExtension getenv parse_key new_metrics cfg = Inr e
    \<Longrightarrow> guard_reachable P parse_key e"
| started: "guard_reachable P parse_key e \<Longrightarrow> guard_Start P clock e = (e', logs)
    \<Longrightarrow> guard_reachable P parse_key e'"
| ticked: "guard_reachable P parse_key e \<Longrightarrow> guard_running e
    \<Longrightarrow> checkLicense P clock e = (e', err, logs) \<Longrightarrow> guard_reachable P parse_key e'"
| stopped: "guard_reachable P parse_key e \<Longrightarrow> guard_reachable P parse_key (guard_Shutdown e)"

text \<open>
  The invariant: a grace period is a valid license; pass-through is the mode without a key,
  is never left and never started; otherwise the key the constructor parsed is in place.
\<close>

definition guard_inv :: "(string \<Rightarrow> key_error + 'k) \<Rightarrow> 'k licenseGuardExtension \<Rightarrow> bool" where
  "guard_inv parse_key e \<longleftrightarrow>
     (gracePeriod e \<longrightarrow> guard_valid e)
   \<and> (passThrough e \<longleftrightarrow> LicenseKey (guard_conf e) = [])
   \<and> (passThrough e \<longrightarrow> guard_valid e \<and> \<not> gracePeriod e \<and> \<not> guard_running e)
   \<and> (\<not> passThrough e \<longrightarrow>
        (\<exists>k. publicKey e = Some k \<and> parse_key (PublicKeyPEM (guard_conf e)) = Inr k))"

lemma guard_inv_created:
  "newLicenseGuardExtension getenv parse_key new_metrics cfg = Inr e \<Longrightarrow> guard_inv parse_key e"
  by (auto simp: newLicenseGuardExtension_def guard_inv_def Let_def split: if_splits sum.splits)

lemma guard_inv_checked:
  assumes "guard_inv parse_key e" and "\<not> passThrough e"
    and "checkLicense P clock e = (e', err, logs)"
  shows "guard_inv parse_key e'"
  using assms(1,2) checkLicense_frame [OF assms(3)] checkLicense_grace_valid [OF assms(3)]
  by (auto simp: guard_inv_def)

lemma guard_inv_started:
  assumes "guard_inv parse_key e" and "guard_Start P clock e = (e', logs)"
  shows "guard_inv parse_key e'"
proof (cases "passThrough e")
  case True
  with assms show ?thesis by (simp add: guard_Start_def)
next
  case False
  obtain e1 err ls where chk: "checkLicense P clock e = (e1, err, ls)" by (metis prod_cases3)
  with assms(2) False have "e' = e1\<lparr>guard_running := True\<rparr>" by (simp add: guard_Start_def)
  moreover have "\<not> passThrough e1" using checkLicense_frame(3) [OF chk] False by simp
  ultimately show ?thesis
    using guard_inv_checked [OF assms(1) False chk] by (auto simp: guard_inv_def)
qed

lemma guard_reachable_inv:
  "guard_reachable P parse_key e \<Longrightarrow> guard_inv parse_key e"
proof (induction rule: guard_reachable.induct)
  case (created getenv new_metrics cfg e)
  then show ?case by (rule guard_inv_created)
next
  case (started e clock e' logs)
  then show ?case by (blast intro: guard_inv_started)
next
  case (ticked e clock e' err logs)
  then show ?case by (metis guard_inv_checked guard_inv_def)
next
  case (stopped e)
  then show ?case by (auto simp: guard_inv_def guard_Shutdown_def)
qed

section \<open>The contract of a license checker\<close>

text \<open>
  What \<^verbatim>\<open>licensegateprocessor\<close> relies on: a grace period is a valid license, and outside a
  grace period no grace days remain.
\<close>

locale license_checker =
  fixes ops :: "'c LicenseChecker"
    and inv :: "'c \<Rightarrow> bool"
  assumes grace_valid: "inv c \<Longrightarrow> IsGracePeriod ops c \<Longrightarrow> IsValid ops c"
    and no_grace_no_days: "\<not> IsGracePeriod ops c \<Longrightarrow> GracePeriodRemainingDays ops now c = 0"
begin

lemma invalid_no_grace: "inv c \<Longrightarrow> \<not> IsValid ops c \<Longrightarrow> \<not> IsGracePeriod ops c"
  using grace_valid by blast

lemma invalid_no_days: "inv c \<Longrightarrow> \<not> IsValid ops c \<Longrightarrow> GracePeriodRemainingDays ops now c = 0"
  using invalid_no_grace no_grace_no_days by blast

end

interpretation guard: license_checker guard_checker "guard_inv parse_key"
  by unfold_locales (auto simp: guard_checker_def guard_inv_def go_defs)

section \<open>Properties\<close>


definition sample_claims :: "instant \<Rightarrow> LicenseClaims" where
  "sample_claims expiry =
     \<lparr>claim_TenantID = ''t1'', claim_ClusterID = ''c1'', claim_ContractID = ''k1'',
      claim_ExpiresAt = Some expiry\<rparr>"

definition sample_parser :: "instant \<Rightarrow> string jwt_parser" where
  "sample_parser expiry methods skip kf tok =
     (if ''RS256'' \<in> set methods \<and> kf (SigningMethodRSA ''RS256'') = Inr (Some ''pub'') \<and> tok = ''signed''
      then Inr \<lparr>token_claims = Some (sample_claims expiry), token_valid = True\<rparr>
      else Inl ''bad signature'')"

definition sample_guard :: "string \<Rightarrow> string licenseGuardExtension" where
  "sample_guard mode =
     \<lparr>guard_conf = guard_createDefaultConfig\<lparr>LicenseKey := ''signed'', PublicKeyPEM := ''pem'', FailMode := mode\<rparr>,
      publicKey = Some ''pub'', guard_valid = False, gracePeriod = False, expiresAt = zero_time,
      gracePeriodEnd = zero_time, guard_tenantID = [], guard_contractID = [], passThrough = False,
      guard_running = False, guard_metrics = None\<rparr>"

lemmas sample_defs = sample_claims_def sample_parser_def sample_guard_def
  guard_createDefaultConfig_def defaultGracePeriodDays_def keyfunc_def verifyJWT_def FailModeClosed_def FailModeOpen_def

lemma sample_verified:
  "verifyJWT (sample_parser x) (sample_guard m) (LicenseKey (guard_conf (sample_guard m)))
     = Inr (sample_claims x)"
  by (simp add: sample_defs)


text \<open>When the token does not verify, the fail mode alone decides: \<^verbatim>\<open>open\<close> lets data
  through and reports nothing, anything else blocks and returns the error; the tenant, the dates
  and the metrics of the last good check stay as they were.\<close>

theorem checkLicense_failure_mode:
  assumes "verifyJWT P e (LicenseKey (guard_conf e)) = Inl x"
    and "checkLicense P clock e = (e', err, logs)"
  shows "(guard_valid e' \<longleftrightarrow> FailMode (guard_conf e) = FailModeOpen) \<and> \<not> gracePeriod e'
    \<and> (err = None \<longleftrightarrow> FailMode (guard_conf e) = FailModeOpen)
    \<and> e' = e\<lparr>guard_valid := guard_valid e', gracePeriod := False\<rparr>"
  using assms by (auto simp: checkLicense_Inl split: if_splits)

theorem checkLicense_failure_mode_witness:
  "guard_valid (fst (checkLicense (\<lambda>_ _ _ _. Inl ''x'') (\<lambda>_. 0) (sample_guard FailModeOpen)))
   \<and> \<not> guard_valid (fst (checkLicense (\<lambda>_ _ _ _. Inl ''x'') (\<lambda>_. 0) (sample_guard FailModeClosed)))"
proof -
  have v: "verifyJWT (\<lambda>_ _ _ _. Inl ''x'') (sample_guard m) k = Inl (SignatureVerificationFailed ''x'')"
    for m k by (simp add: verifyJWT_def)
  have "guard_valid (fst (checkLicense (\<lambda>_ _ _ _. Inl ''x'') (\<lambda>_. 0) (sample_guard m)))
    \<longleftrightarrow> FailMode (guard_conf (sample_guard m)) = FailModeOpen" for m
    by (metis checkLicense_failure_mode [OF v] prod_cases3 fst_conv)
  then show ?thesis by (simp add: sample_defs)
qed

text \<open>
  What golang-jwt documents of \<^verbatim>\<open>ParseWithClaims\<close>: a valid token was signed by one of the
  accepted methods, and its signature verifies under the key the key function returned for it.
\<close>

definition alg_of :: "signing_method \<Rightarrow> string" where
  "alg_of m = (case m of SigningMethodRSA a \<Rightarrow> a | OtherSigningMethod a \<Rightarrow> a)"

definition jwt_sound :: "'k jwt_parser \<Rightarrow> ('k \<Rightarrow> signing_method \<Rightarrow> string \<Rightarrow> bool) \<Rightarrow> bool" where
  "jwt_sound P verifies \<longleftrightarrow>
     (\<forall>methods skip kf tok t. P methods skip kf tok = Inr t \<longrightarrow> token_valid t \<longrightarrow>
        (\<exists>m k. alg_of m \<in> set methods \<and> kf m = Inr (Some k) \<and> verifies k m tok))"

text \<open>C11: A reachable extension that is not in pass-through mode and does not fail open reports
  a valid license after a check only when the license key carries an RS256 signature that verifies
  under the public key parsed from the configuration.\<close>

theorem valid_license_is_signed:
  assumes sound: "jwt_sound P verifies"
    and reach: "guard_reachable P parse_key e" and "\<not> passThrough e"
    and closed: "FailMode (guard_conf e) \<noteq> FailModeOpen"
    and chk: "checkLicense P clock e = (e', err, logs)"
    and valid: "guard_IsValid e'"
  shows "\<exists>k. parse_key (PublicKeyPEM (guard_conf e)) = Inr k
    \<and> verifies k (SigningMethodRSA ''RS256'') (LicenseKey (guard_conf e))"
proof -
  have "guard_valid e'"
    using valid assms(3) checkLicense_frame(3) [OF chk] by (simp add: guard_IsValid_def)
  then obtain c where "verifyJWT P e (LicenseKey (guard_conf e)) = Inr c"
    using closed chk by (cases "verifyJWT P e (LicenseKey (guard_conf e))") (auto simp: checkLicense_Inl)
  then obtain t where "P [''RS256''] True (keyfunc (publicKey e)) (LicenseKey (guard_conf e)) = Inr t"
    and "token_valid t" by (auto simp: verifyJWT_Inr)
  with sound obtain m k where "alg_of m = ''RS256''" and "keyfunc (publicKey e) m = Inr (Some k)"
    and "verifies k m (LicenseKey (guard_conf e))"
    unfolding jwt_sound_def by fastforce
  moreover from this have "m = SigningMethodRSA ''RS256''" and "publicKey e = Some k"
    by (cases m; auto simp: alg_of_def keyfunc_def)+
  moreover obtain k' where "publicKey e = Some k'" and "parse_key (PublicKeyPEM (guard_conf e)) = Inr k'"
    using guard_reachable_inv [OF reach] assms(3) by (auto simp: guard_inv_def)
  ultimately show ?thesis by auto
qed

theorem valid_license_is_signed_witness:
  "\<exists>k. k = ''pub'' \<and> jwt_sound (sample_parser 1000) (\<lambda>k m tok. k = ''pub'' \<and> tok = ''signed'')"
proof -
  let ?V = "\<lambda>(k::string) (m::signing_method) tok. k = ''pub'' \<and> tok = ''signed''"
  have sound: "jwt_sound (sample_parser 1000) ?V"
    unfolding jwt_sound_def sample_parser_def
    by (auto simp: alg_of_def intro!: exI [of _ "SigningMethodRSA ''RS256''"] split: if_splits)
  let ?cfg = "guard_createDefaultConfig\<lparr>LicenseKey := ''signed'', PublicKeyPEM := ''pem''\<rparr>"
  let ?e = "(sample_guard FailModeClosed)\<lparr>guard_metrics := Some \<lparr>metric_attrs = [], recorded = []\<rparr>\<rparr>"
  have new: "newLicenseGuardExtension (\<lambda>_. []) (\<lambda>_. Inr ''pub'') (Inr \<lparr>metric_attrs = [], recorded = []\<rparr>) ?cfg = Inr ?e"
    by (simp add: newLicenseGuardExtension_def sample_defs)
  have reach: "guard_reachable (sample_parser 1000) (\<lambda>_. Inr ''pub'') ?e"
    by (rule guard_reachable.created [OF new])
  obtain e' err logs where c: "checkLicense (sample_parser 1000) (\<lambda>_. 5) ?e = (e', err, logs)"
    by (metis prod_cases3)
  have v: "verifyJWT (sample_parser 1000) ?e (LicenseKey (guard_conf ?e)) = Inr (sample_claims 1000)"
    by (simp add: sample_defs)
  have "guard_IsValid e'"
    using checkLicense_Inr(2) [OF v c] by (simp add: guard_IsValid_def claims_expiry_def sample_claims_def)
  moreover have "\<not> passThrough ?e" and "FailMode (guard_conf ?e) \<noteq> FailModeOpen"
    by (simp_all add: sample_defs)
  ultimately have "\<exists>k. (\<lambda>_. Inr ''pub'' :: key_error + string) (PublicKeyPEM (guard_conf ?e)) = Inr k
      \<and> ?V k (SigningMethodRSA ''RS256'') (LicenseKey (guard_conf ?e))"
    using valid_license_is_signed [OF sound reach _ _ c] by blast
  with sound show ?thesis by blast
qed

lemma validationLoop_ticks:
  assumes "verifyJWT P e (LicenseKey (guard_conf e)) = Inr c"
    and "validationLoop P (map Tick clocks @ Cancelled # rest) e = (e', logs)"
  shows "guard_conf e' = guard_conf e \<and> passThrough e' = passThrough e
    \<and> (clocks \<noteq> [] \<longrightarrow> (guard_valid e' \<longleftrightarrow>
         last clocks 0 < max (claims_expiry c) (claims_grace_end (guard_conf e) c)))"
  using assms
proof (induction clocks arbitrary: e logs)
  case Nil
  then show ?case by simp
next
  case (Cons clock clocks)
  obtain e1 err ls where chk: "checkLicense P clock e = (e1, err, ls)" by (metis prod_cases3)
  note frame = checkLicense_frame [OF chk]
  have v1: "verifyJWT P e1 (LicenseKey (guard_conf e1)) = Inr c"
    using Cons.prems(1) frame(1) verifyJWT_cong [OF frame(2)] by simp
  obtain logs' where rest: "validationLoop P (map Tick clocks @ Cancelled # rest) e1 = (e', logs')"
    using Cons.prems(2) by (auto simp: chk Let_def split: prod.splits)
  note IH = Cons.IH [OF v1 rest]
  show ?case
  proof (cases "clocks = []")
    case True
    with rest have "e' = e1" by simp
    with True checkLicense_Inr(2) [OF Cons.prems(1) chk] frame show ?thesis by (auto simp: max_def)
  next
    case False
    with IH frame show ?thesis by simp
  qed
qed

text \<open>The re-validation loop is memoryless: after any non-empty sequence of ticks followed by
  the cancellation, whatever events come later, the license is valid exactly when the clock of the
  last check was before the end of the license, so data keeps flowing for less than one check
  interval after that end.\<close>

theorem validationLoop_last_check:
  assumes "verifyJWT P e (LicenseKey (guard_conf e)) = Inr c" and "clocks \<noteq> []"
    and "\<not> passThrough e"
    and "validationLoop P (map Tick clocks @ Cancelled # rest) e = (e', logs)"
  shows "(guard_IsValid e' \<longleftrightarrow>
      last clocks 0 < max (claims_expiry c) (claims_grace_end (guard_conf e) c))
    \<and> (guard_IsValid e' \<longrightarrow> t \<le> last clocks 0 + CheckInterval (guard_conf e) \<longrightarrow>
      t < max (claims_expiry c) (claims_grace_end (guard_conf e) c) + CheckInterval (guard_conf e))"
  using validationLoop_ticks [OF assms(1,4)] assms(2,3) by (auto simp: guard_IsValid_def)

theorem validationLoop_last_check_witness:
  "guard_IsValid (fst (validationLoop (sample_parser 1000)
      (map Tick [\<lambda>_. 700000000000000, \<lambda>_. 500] @ Cancelled # [Tick (\<lambda>_. 0)]) (sample_guard FailModeClosed)))"
proof -
  obtain e' logs where l: "validationLoop (sample_parser 1000)
      (map Tick [\<lambda>_. 700000000000000, \<lambda>_. 500] @ Cancelled # [Tick (\<lambda>_. 0)]) (sample_guard FailModeClosed) = (e', logs)"
    by (metis prod.exhaust)
  have "\<not> passThrough (sample_guard FailModeClosed)" by (simp add: sample_defs)
  from validationLoop_last_check [OF sample_verified _ this l] l show ?thesis
    by (simp add: claims_expiry_def sample_claims_def max_def)
qed

text \<open>In every state the extension can reach, under any clock and any schedule of ticks,
  a grace period is reported only together with a valid license, an invalid license leaves no grace
  days, and pass-through mode is exactly the absence of a license key and always lets data through.\<close>

theorem guard_states_consistent:
  assumes "guard_reachable P parse_key e"
  shows "(guard_IsGracePeriod e \<longrightarrow> guard_IsValid e)
    \<and> (\<not> guard_IsValid e \<longrightarrow> guard_GracePeriodRemainingDays now e = 0)
    \<and> (passThrough e \<longleftrightarrow> LicenseKey (guard_conf e) = []) \<and> (passThrough e \<longrightarrow> guard_IsValid e)"
  using guard.grace_valid [OF guard_reachable_inv [OF assms]]
    guard.invalid_no_days [OF guard_reachable_inv [OF assms]] guard_reachable_inv [OF assms]
  by (simp add: guard_checker_def guard_inv_def guard_IsValid_def)

theorem guard_states_consistent_witness:
  "\<exists>e :: string licenseGuardExtension. passThrough e \<and> guard_IsValid e \<and> LicenseKey (guard_conf e) = []"
proof -
  obtain e :: "string licenseGuardExtension" where
    new: "newLicenseGuardExtension (\<lambda>_. []) (\<lambda>_. Inr ''pub'') (Inl []) guard_createDefaultConfig = Inr e"
      and "passThrough e"
    by (simp add: newLicenseGuardExtension_def guard_createDefaultConfig_def Let_def)
  with guard_states_consistent [OF guard_reachable.created [OF new]] show ?thesis by blast
qed

text \<open>For every grace period from 0 to 106751 days the int64 product does not overflow and
  the grace period is that many days; one day more wraps to a negative duration, so the grace
  period is over before the license expires.\<close>

theorem grace_period_exact:
  "(\<forall>n \<in> {0..106751}. claims_grace_end (cfg\<lparr>GracePeriodDays := n\<rparr>) c = claims_expiry c + n * nanosecond_day)
   \<and> claims_grace_end (cfg\<lparr>GracePeriodDays := 106752\<rparr>) c < claims_expiry c"
proof -
  have "grace_duration 106752 < 0"
    by (simp add: grace_duration_def wrap64_def nanosecond_hour_def)
  then show ?thesis by (simp add: claims_grace_end_def grace_duration_exact)
qed

theorem grace_period_exact_witness:
  "claims_grace_end (guard_createDefaultConfig\<lparr>GracePeriodDays := 7\<rparr>) (sample_claims 0) = 7 * nanosecond_day"
  using grace_period_exact [of guard_createDefaultConfig "sample_claims 0"]
  by (simp add: claims_expiry_def sample_claims_def)

end
