(* ===== verification/LicenseGate.thy ===== *)
theory LicenseGate
  imports LicenseGuard
begin

text \<open>
  \<^verbatim>\<open>processor/licensegateprocessor\<close>: the processor in front of the pipelines that asks the
  license extension before every batch. The batch types and their counts, the next consumer and
  the collector's host are parameters; the linked checker is the identifier of an extension, whose
  current state the host holds (\<open>exts\<close>), because the extension changes behind the gate's back.
\<close>

section \<open>State\<close>

record 'i host_extension =
  ext_type :: string
  ext_id :: 'i
  ext_is_checker :: bool

datatype gate_log =
    LogLinked string
  | LogNotFound string
  | LogGraceAccepted string int
  | LogDropped string int string

text \<open>The counter \<^verbatim>\<open>otel_data_dropped_total\<close> is the list of its increments: count, reason, signal.\<close>

type_synonym gateMetrics = "(int \<times> string \<times> string) list"

record 'i licenseGateProcessor =
  ExtensionName :: string
  gate_checker :: "'i option"
  checkerOnce :: bool
  gate_host :: "'i host_extension list option"
  gate_metrics :: "gateMetrics option"

definition gate_createDefaultConfig :: string where
  "gate_createDefaultConfig = ''license_guard''"

definition newLicenseGateProcessor :: "(string + unit) \<Rightarrow> string \<Rightarrow> string + 'i licenseGateProcessor" where
  "newLicenseGateProcessor new_counter cfg =
     (case new_counter of Inl err \<Rightarrow> Inl (''failed to initialize gate metrics: '' @ err)
      | Inr _ \<Rightarrow> Inr \<lparr>ExtensionName = cfg, gate_checker = None, checkerOnce = False,
                      gate_host = None, gate_metrics = Some []\<rparr>)"

definition gate_Start :: "'i host_extension list \<Rightarrow> 'i licenseGateProcessor \<Rightarrow> 'i licenseGateProcessor" where
  "gate_Start host p = p\<lparr>gate_host := Some host\<rparr>"

definition recordDropped :: "int \<Rightarrow> string \<Rightarrow> gateMetrics \<Rightarrow> gateMetrics" where
  "recordDropped n signal m = m @ [(n, ''license_expired'', signal)]"

section \<open>Linking\<close>

text \<open>
  \<^verbatim>\<open>getChecker\<close> resolves the extension once (\<^verbatim>\<open>sync.Once\<close>): the first entry of the host's
  map with the configured type, in the order the map is iterated, decides. Without a host the one
  attempt is spent.
\<close>

definition getChecker :: "'i licenseGateProcessor \<Rightarrow> 'i option \<times> 'i licenseGateProcessor \<times> gate_log list" where
  "getChecker p =
     (if checkerOnce p then (gate_checker p, p, [])
      else let p = p\<lparr>checkerOnce := True\<rparr>
           in case gate_host p of None \<Rightarrow> (gate_checker p, p, [])
              | Some host \<Rightarrow>
                  let (p, logs) =
                    (case find (\<lambda>x. ext_type x = ExtensionName p) host of
                       None \<Rightarrow> (p, [])
                     | Some x \<Rightarrow>
                         if ext_is_checker x
                         then (p\<lparr>gate_checker := Some (ext_id x)\<rparr>, [LogLinked (ExtensionName p)])
                         else (p, []))
                  in (gate_checker p, p,
                      logs @ (if gate_checker p = None then [LogNotFound (ExtensionName p)] else [])))"

section \<open>The three consumers\<close>

text \<open>
  Each takes the checker's method set, the host's extension states, the count of the batch, the
  next consumer (which may return an error) and the batch; it returns the processor, the batches
  passed on, the error and the log.
\<close>

type_synonym ('i, 'd) gate_result =
  "'i licenseGateProcessor \<times> 'd list \<times> string option \<times> gate_log list"

definition ConsumeTraces ::
    "'c LicenseChecker \<Rightarrow> ('i \<Rightarrow> 'c) \<Rightarrow> ('d \<Rightarrow> int) \<Rightarrow> ('d \<Rightarrow> string option) \<Rightarrow> 'i licenseGateProcessor \<Rightarrow> 'd
      \<Rightarrow> ('i, 'd) gate_result" where
  "ConsumeTraces ops exts SpanCount next_traces p td =
     (let (checker, p, logs) = getChecker p
      in case checker of
           None \<Rightarrow> (p, [td], next_traces td, logs)
         | Some i \<Rightarrow>
             if IsValid ops (exts i)
             then (p, [td], next_traces td,
                   logs @ (if IsGracePeriod ops (exts i) then [LogGraceAccepted ''traces'' (SpanCount td)] else []))
             else let n = SpanCount td
                  in (p\<lparr>gate_metrics := map_option (recordDropped n ''traces'') (gate_metrics p)\<rparr>,
                      [], None, logs @ [LogDropped ''traces'' n (TenantID ops (exts i))]))"

definition ConsumeLogs ::
    "'c LicenseChecker \<Rightarrow> ('i \<Rightarrow> 'c) \<Rightarrow> ('d \<Rightarrow> int) \<Rightarrow> ('d \<Rightarrow> string option) \<Rightarrow> 'i licenseGateProcessor \<Rightarrow> 'd
      \<Rightarrow> ('i, 'd) gate_result" where
  "ConsumeLogs ops exts LogRecordCount next_logs p ld =
     (let (checker, p, logs) = getChecker p
      in case checker of
           None \<Rightarrow> (p, [ld], next_logs ld, logs)
         | Some i \<Rightarrow>
             if IsValid ops (exts i)
             then (p, [ld], next_logs ld,
                   logs @ (if IsGracePeriod ops (exts i) then [LogGraceAccepted ''logs'' (LogRecordCount ld)] else []))
             else let n = LogRecordCount ld
                  in (p\<lparr>gate_metrics := map_option (recordDropped n ''logs'') (gate_metrics p)\<rparr>,
                      [], None, logs @ [LogDropped ''logs'' n (TenantID ops (exts i))]))"

definition ConsumeMetrics ::
    "'c LicenseChecker \<Rightarrow> ('i \<Rightarrow> 'c) \<Rightarrow> ('d \<Rightarrow> int) \<Rightarrow> ('d \<Rightarrow> string option) \<Rightarrow> 'i licenseGateProcessor \<Rightarrow> 'd
      \<Rightarrow> ('i, 'd) gate_result" where
  "ConsumeMetrics ops exts MetricCount next_metrics p md =
     (let (checker, p, logs) = getChecker p
      in case checker of
           None \<Rightarrow> (p, [md], next_metrics md, logs)
         | Some i \<Rightarrow>
             if IsValid ops (exts i)
             then (p, [md], next_metrics md,
                   logs @ (if IsGracePeriod ops (exts i) then [LogGraceAccepted ''metrics'' (MetricCount md)] else []))
             else let n = MetricCount md
                  in (p\<lparr>gate_metrics := map_option (recordDropped n ''metrics'') (gate_metrics p)\<rparr>,
                      [], None, logs @ [LogDropped ''metrics'' n (TenantID ops (exts i))]))"

section \<open>Lemmas\<close>

text \<open>The three consumers are one function of the signal's name.\<close>

definition gate_consume ::
    "string \<Rightarrow> 'c LicenseChecker \<Rightarrow> ('i \<Rightarrow> 'c) \<Rightarrow> ('d \<Rightarrow> int) \<Rightarrow> ('d \<Rightarrow> string option)
      \<Rightarrow> 'i licenseGateProcessor \<Rightarrow> 'd \<Rightarrow> ('i, 'd) gate_result" where
  "gate_consume signal =
     (if signal = ''traces'' then ConsumeTraces
      else if signal = ''logs'' then ConsumeLogs else ConsumeMetrics)"

definition signals :: "string list" where
  "signals = [''traces'', ''logs'', ''metrics'']"

text \<open>What the gate decides: pass when unlinked or the license is valid.\<close>

definition gate_passes :: "'c LicenseChecker \<Rightarrow> ('i \<Rightarrow> 'c) \<Rightarrow> 'i option \<Rightarrow> bool" where
  "gate_passes ops exts checker = (case checker of None \<Rightarrow> True | Some i \<Rightarrow> IsValid ops (exts i))"

lemma getChecker_once:
  "getChecker p = (c, p', logs) \<Longrightarrow>
     checkerOnce p' \<and> gate_checker p' = c \<and> getChecker p' = (c, p', [])
   \<and> gate_metrics p' = gate_metrics p \<and> ExtensionName p' = ExtensionName p \<and> gate_host p' = gate_host p"
  by (auto simp: getChecker_def Let_def split: if_splits option.splits)

lemma gate_consume_pass:
  assumes "signal \<in> set signals" and "getChecker p = (c, p1, logs)" and "gate_passes ops exts c"
    and "gate_consume signal ops exts cnt next p d = (p', fwd, err, ls)"
  shows "p' = p1 \<and> fwd = [d] \<and> err = next d"
  using assms
  by (auto simp: signals_def gate_consume_def gate_passes_def ConsumeTraces_def ConsumeLogs_def
      ConsumeMetrics_def Let_def split: option.splits if_splits)

lemma gate_consume_drop:
  assumes "signal \<in> set signals" and "getChecker p = (c, p1, logs)" and "\<not> gate_passes ops exts c"
    and "gate_consume signal ops exts cnt next p d = (p', fwd, err, ls)"
  shows "p' = p1\<lparr>gate_metrics := map_option (recordDropped (cnt d) signal) (gate_metrics p1)\<rparr>
    \<and> fwd = [] \<and> err = None"
  using assms
  by (auto simp: signals_def gate_consume_def gate_passes_def ConsumeTraces_def ConsumeLogs_def
      ConsumeMetrics_def Let_def split: option.splits if_splits)

text \<open>What a gate in front of any checker that keeps its contract does.\<close>

context license_checker
begin

lemma gate_passes_in_grace:
  "inv (exts i) \<Longrightarrow> IsGracePeriod ops (exts i) \<Longrightarrow> gate_passes ops exts (Some i)"
  by (simp add: gate_passes_def grace_valid)

lemma gate_drop_after_grace:
  "inv (exts i) \<Longrightarrow> \<not> gate_passes ops exts (Some i) \<Longrightarrow>
     \<not> IsGracePeriod ops (exts i) \<and> GracePeriodRemainingDays ops now (exts i) = 0"
  by (auto simp: gate_passes_def dest: invalid_no_grace intro: invalid_no_days)

end

text \<open>A pipeline run: each batch meets the extension states of its moment.\<close>

fun gate_run ::
    "string \<Rightarrow> 'c LicenseChecker \<Rightarrow> ('d \<Rightarrow> int) \<Rightarrow> ('d \<Rightarrow> string option)
      \<Rightarrow> 'i licenseGateProcessor \<Rightarrow> (('i \<Rightarrow> 'c) \<times> 'd) list \<Rightarrow> 'i licenseGateProcessor \<times> 'd list" where
  "gate_run signal ops cnt next p [] = (p, [])"
| "gate_run signal ops cnt next p ((exts, d) # xs) =
     (let (p', fwd, err, logs) = gate_consume signal ops exts cnt next p d;
          (p'', fwds) = gate_run signal ops cnt next p' xs
      in (p'', fwd @ fwds))"

lemma getChecker_linked:
  assumes "getChecker p = (c, p1, ls)"
  shows "getChecker (p1\<lparr>gate_metrics := m\<rparr>) = (c, p1\<lparr>gate_metrics := m\<rparr>, [])"
  using getChecker_once [OF assms] by (simp add: getChecker_def)

lemma gate_run_accounts:
  assumes "signal \<in> set signals" and "gate_run signal ops cnt next p xs = (p', fwd)"
    and "gate_metrics p = Some m" and "getChecker p = (c, p1, ls)"
  shows "fwd = map snd (filter (\<lambda>(exts, d). gate_passes ops exts c) xs)
    \<and> gate_metrics p' = Some (m @ map (\<lambda>(exts, d). (cnt d, ''license_expired'', signal))
         (filter (\<lambda>(exts, d). \<not> gate_passes ops exts c) xs))"
  using assms(2-)
proof (induction xs arbitrary: p p1 m fwd ls)
  case Nil
  then show ?case by simp
next
  case (Cons x xs)
  obtain exts d where x: "x = (exts, d)" by fastforce
  obtain p2 fwd1 err ls1 where con: "gate_consume signal ops exts cnt next p d = (p2, fwd1, err, ls1)"
    by (metis prod_cases4)
  obtain fwd2 where run: "gate_run signal ops cnt next p2 xs = (p', fwd2)" and fwd: "fwd = fwd1 @ fwd2"
    using Cons.prems(1) con by (auto simp: x Let_def split: prod.splits)
  note once = getChecker_once [OF Cons.prems(3)]
  show ?case
  proof (cases "gate_passes ops exts c")
    case True
    with gate_consume_pass [OF assms(1) Cons.prems(3) True con] once Cons.prems(2)
    have "p2 = p1" "fwd1 = [d]" "gate_metrics p2 = Some m" "getChecker p2 = (c, p2, [])" by auto
    with Cons.IH [OF run this(3,4)] True fwd show ?thesis by (simp add: x)
  next
    case False
    with gate_consume_drop [OF assms(1) Cons.prems(3) False con] once Cons.prems(2)
    have "fwd1 = []" and p2: "p2 = p1\<lparr>gate_metrics := Some (m @ [(cnt d, ''license_expired'', signal)])\<rparr>"
      by (auto simp: recordDropped_def)
    moreover have "getChecker p2 = (c, p2, [])"
      unfolding p2 by (rule getChecker_linked [OF Cons.prems(3)])
    ultimately show ?thesis
      using Cons.IH [OF run _ \<open>getChecker p2 = (c, p2, [])\<close>] False fwd by (simp add: x)
  qed
qed

lemma sum_filter_split:
  "sum_list (map f (filter P xs)) + sum_list (map f (filter (\<lambda>x. \<not> P x) xs)) = (sum_list (map f xs) :: int)"
  by (induction xs) auto

section \<open>Properties\<close>

text \<open>For every signal, one batch is either handed unchanged to the next consumer, whose error
  is returned, or dropped without an error and counted with its size under its signal; it is handed
  on exactly when no license extension is linked or the linked one reports a valid license.\<close>

theorem gate_decides:
  assumes "signal \<in> {''traces'', ''logs'', ''metrics''}" and "getChecker p = (c, p1, logs)"
    and "gate_consume signal ops exts cnt next p d = (p', fwd, err, ls)"
  shows "if (case c of None \<Rightarrow> True | Some i \<Rightarrow> IsValid ops (exts i))
    then fwd = [d] \<and> err = next d \<and> gate_metrics p' = gate_metrics p
    else fwd = [] \<and> err = None \<and> gate_metrics p' =
      map_option (\<lambda>m. m @ [(cnt d, ''license_expired'', signal)]) (gate_metrics p)"
proof -
  have sig: "signal \<in> set signals" using assms(1) by (simp add: signals_def)
  note once = getChecker_once [OF assms(2)]
  show ?thesis
  proof (cases "gate_passes ops exts c")
    case True
    from gate_consume_pass [OF sig assms(2) this assms(3)] True once show ?thesis
      by (simp add: gate_passes_def)
  next
    case False
    have "recordDropped (cnt d) signal = (\<lambda>m. m @ [(cnt d, ''license_expired'', signal)])"
      by (simp add: recordDropped_def fun_eq_iff)
    with gate_consume_drop [OF sig assms(2) False assms(3)] False once show ?thesis
      by (simp add: gate_passes_def)
  qed
qed

definition sample_gate :: "nat licenseGateProcessor" where
  "sample_gate = \<lparr>ExtensionName = ''license_guard'', gate_checker = None, checkerOnce = False,
     gate_host = Some [\<lparr>ext_type = ''health_check'', ext_id = 0, ext_is_checker = False\<rparr>,
                       \<lparr>ext_type = ''license_guard'', ext_id = 1, ext_is_checker = True\<rparr>],
     gate_metrics = Some []\<rparr>"

lemma sample_gate_links: "\<exists>p1 logs. getChecker sample_gate = (Some 1, p1, logs)"
  by (simp add: getChecker_def sample_gate_def)

theorem gate_decides_witness:
  "gate_metrics (fst (gate_consume ''logs'' guard_checker (\<lambda>_. sample_guard FailModeClosed) int
      (\<lambda>_. Some ''unused'') sample_gate (42::nat))) = Some [(42, ''license_expired'', ''logs'')]"
proof -
  obtain p1 logs where link: "getChecker sample_gate = (Some 1, p1, logs)" using sample_gate_links by blast
  obtain p' fwd err ls where
    c: "gate_consume ''logs'' guard_checker (\<lambda>_. sample_guard FailModeClosed) int
      (\<lambda>_. Some ''unused'') sample_gate (42::nat) = (p', fwd, err, ls)" by (metis prod_cases4)
  show ?thesis
    using gate_decides [OF _ link c] c by (simp add: guard_checker_def guard_IsValid_def sample_guard_def sample_gate_def)
qed

text \<open>Over any run of batches, with the license state changing between them, the batches
  passed on are those that met a valid license, in order, and their sizes plus the counter's
  increments add up to everything received: nothing is lost uncounted and nothing counted twice.\<close>

theorem gate_run_conserves:
  assumes "signal \<in> {''traces'', ''logs'', ''metrics''}"
    and "gate_run signal ops cnt next p xs = (p', fwd)" and "gate_metrics p = Some []"
  shows "\<exists>drops. gate_metrics p' = Some drops
    \<and> sum_list (map cnt fwd) + sum_list (map fst drops) = sum_list (map (\<lambda>(exts, d). cnt d) xs)
    \<and> fwd = map snd (filter (\<lambda>(exts, d). case fst (getChecker p) of None \<Rightarrow> True
                                | Some i \<Rightarrow> IsValid ops (exts i)) xs)"
proof -
  obtain c p1 ls where link: "getChecker p = (c, p1, ls)" by (metis prod_cases3)
  have "signal \<in> set signals" using assms(1) by (simp add: signals_def)
  from gate_run_accounts [OF this assms(2,3) link]
  show ?thesis
    using sum_filter_split [of "\<lambda>(exts, d). cnt d" "\<lambda>(exts, d). gate_passes ops exts c" xs]
    by (simp add: link gate_passes_def case_prod_unfold comp_def)
qed

theorem gate_run_conserves_witness:
  "\<exists>drops. gate_metrics (fst (gate_run ''traces'' guard_checker int (\<lambda>_. None) sample_gate
       [(\<lambda>_. sample_guard FailModeClosed, 3), ((\<lambda>_. (sample_guard FailModeClosed)\<lparr>guard_valid := True\<rparr>), 4::nat)])) = Some drops
     \<and> 4 + sum_list (map fst drops) = 7"
proof -
  let ?xs = "[((\<lambda>_. sample_guard FailModeClosed), 3), ((\<lambda>_. (sample_guard FailModeClosed)\<lparr>guard_valid := True\<rparr>), 4::nat)]"
  obtain p' fwd where r: "gate_run ''traces'' guard_checker int (\<lambda>_. None) sample_gate ?xs = (p', fwd)"
    by (metis prod.exhaust)
  have "gate_metrics sample_gate = Some []" by (simp add: sample_gate_def)
  from gate_run_conserves [OF _ r this] r sample_gate_links show ?thesis
    by (auto simp: guard_checker_def guard_IsValid_def sample_guard_def)
qed

text \<open>The extension is resolved once. A new gate that is started before its first batch
  links to the first extension of the configured type, if that is a license checker; a gate that
  sees a batch before \<^verbatim>\<open>Start\<close> stays unlinked for ever and lets everything through.\<close>

theorem gate_links_once:
  assumes "newLicenseGateProcessor (Inr ()) cfg = Inr p"
  shows "fst (getChecker (gate_Start host p)) =
      (case find (\<lambda>x. ext_type x = cfg) host of None \<Rightarrow> None
       | Some x \<Rightarrow> if ext_is_checker x then Some (ext_id x) else None)
    \<and> fst (getChecker (gate_Start host (fst (snd (getChecker p))))) = None"
  using assms
  by (auto simp: newLicenseGateProcessor_def getChecker_def gate_Start_def Let_def split: option.splits)

theorem gate_links_once_witness:
  "\<exists>p :: nat licenseGateProcessor. newLicenseGateProcessor (Inr ()) ''license_guard'' = Inr p
     \<and> fst (getChecker (gate_Start [\<lparr>ext_type = ''license_guard'', ext_id = 1, ext_is_checker = True\<rparr>] p)) = Some 1"
proof -
  obtain p :: "nat licenseGateProcessor" where n: "newLicenseGateProcessor (Inr ()) ''license_guard'' = Inr p"
    by (simp add: newLicenseGateProcessor_def)
  with gate_links_once [OF n, of "[\<lparr>ext_type = ''license_guard'', ext_id = 1, ext_is_checker = True\<rparr>]"]
  show ?thesis by auto
qed

end
