(* ===== verification/Float64.thy ===== *)
theory Float64
  imports Prelude "HOL-Library.Log_Nat"
begin

text \<open>
  Binary floating point as the tail sampler uses it: a \<^verbatim>\<open>float64\<close> is its exact value or a
  special value, and \<^verbatim>\<open>math/big\<close>'s \<^verbatim>\<open>Float\<close> rounds to a given number of significant bits,
  to nearest even. Only positive results are rounded here; negative ones are truncated to 0 by the
  conversion to \<^verbatim>\<open>uint64\<close> that follows.
\<close>

section \<open>Rounding\<close>

datatype float64 = Finite_f64 rat | PosInf | NegInf | NaN

definition pow2 :: "int \<Rightarrow> rat" where
  "pow2 e = (if 0 \<le> e then 2 ^ nat e else 1 / 2 ^ nat (- e))"

text \<open>The binary exponent of a positive rational, from the lengths of its numerator and denominator.\<close>

definition exponent :: "rat \<Rightarrow> int" where
  "exponent x = (let (a, b) = quotient_of x; e = int (nat (bitlen a)) - int (nat (bitlen b))
                 in if pow2 e \<le> x then e else e - 1)"

definition round_half_even :: "rat \<Rightarrow> int" where
  "round_half_even x = (let f = \<lfloor>x\<rfloor>; r = x - of_int f
                        in if r < 1 / 2 then f else if 1 / 2 < r then f + 1 else if even f then f else f + 1)"

definition round_at :: "int \<Rightarrow> rat \<Rightarrow> rat" where
  "round_at q x = of_int (round_half_even (x / pow2 q)) * pow2 q"

definition round_bits :: "int \<Rightarrow> rat \<Rightarrow> rat" where
  "round_bits p x = (if x \<le> 0 then 0 else round_at (exponent x - p + 1) x)"

text \<open>A \<^verbatim>\<open>float64\<close> has 53 significant bits and no quantum below \<open>2\<close> to the power \<open>-1074\<close>.\<close>

definition round_float64 :: "rat \<Rightarrow> rat" where
  "round_float64 x = (if x \<le> 0 then 0 else round_at (max (exponent x - 52) (- 1074)) x)"

section \<open>Powers of two and exponents\<close>

lemma pow2_pos [simp]: "0 < pow2 e"
  by (simp add: pow2_def)

lemma pow2_nz [simp]: "pow2 e \<noteq> 0"
  using pow2_pos [of e] by linarith

lemma pow2_eq_powi: "pow2 e = 2 powi e"
  by (simp add: pow2_def power_int_def inverse_eq_divide power_divide)

lemma pow2_add: "pow2 (a + b) = pow2 a * pow2 b"
  by (simp add: pow2_eq_powi power_int_add)

lemma pow2_mono: "a \<le> b \<Longrightarrow> pow2 a \<le> pow2 b"
  by (simp add: pow2_eq_powi power_int_increasing)

lemma pow2_less: "a < b \<Longrightarrow> pow2 a < pow2 b"
  by (simp add: pow2_eq_powi power_int_strict_increasing)

lemma bitlen_gt_0: "0 < a \<Longrightarrow> 0 < bitlen a"
  using bitlen_nonneg [of a] bitlen_eq_zero_iff [of a] by linarith

lemma bitlen_bounds_rat: "0 < a \<Longrightarrow> pow2 (bitlen a - 1) \<le> of_int a \<and> of_int a < pow2 (bitlen a)"
proof -
  assume a: "0 < a"
  then have p: "0 < bitlen a" by (simp add: bitlen_gt_0)
  from bitlen_bounds [OF a] have "2 ^ nat (bitlen a - 1) \<le> a" "a < 2 ^ nat (bitlen a)" by auto
  then have "(of_int (2 ^ nat (bitlen a - 1)) :: rat) \<le> of_int a" "(of_int a :: rat) < of_int (2 ^ nat (bitlen a))"
    by (simp_all only: of_int_le_iff of_int_less_iff)
  with p show ?thesis by (simp add: pow2_def)
qed

lemma exponent_bounds: "0 < x \<Longrightarrow> pow2 (exponent x) \<le> x \<and> x < pow2 (exponent x + 1)"
proof -
  assume x: "0 < x"
  obtain a b where q: "quotient_of x = (a, b)" by (cases "quotient_of x")
  have b: "0 < b" using q quotient_of_denom_pos by simp
  have xe: "x = of_int a / of_int b" using q quotient_of_div by simp
  have a: "0 < a" using x b unfolding xe by (simp add: zero_less_divide_iff)
  let ?A = "bitlen a" and ?B = "bitlen b"
  have AB: "0 < ?A" "0 < ?B" using a b by (simp_all add: bitlen_gt_0)
  from bitlen_bounds_rat [OF a] bitlen_bounds_rat [OF b]
  have la: "pow2 (?A - 1) \<le> of_int a" "of_int a < pow2 ?A"
    and lb: "pow2 (?B - 1) \<le> of_int b" "of_int b < pow2 ?B" by auto
  have up: "x < pow2 (?A - ?B + 1)"
  proof -
    have "of_int a < pow2 ?A" by (rule la)
    also have "\<dots> = pow2 (?A - ?B + 1) * pow2 (?B - 1)" by (simp flip: pow2_add)
    also have "\<dots> \<le> pow2 (?A - ?B + 1) * of_int b" using lb(1) by (simp add: mult_left_mono less_imp_le)
    finally show ?thesis using b unfolding xe by (simp add: divide_less_eq)
  qed
  have low: "pow2 (?A - ?B - 1) \<le> x"
  proof -
    have "pow2 (?A - ?B - 1) * of_int b \<le> pow2 (?A - ?B - 1) * pow2 ?B" using lb(2) by simp
    also have "\<dots> = pow2 (?A - 1)" by (simp flip: pow2_add)
    also have "\<dots> \<le> of_int a" by (rule la)
    finally show ?thesis using b unfolding xe by (simp add: le_divide_eq)
  qed
  have "exponent x = (if pow2 (?A - ?B) \<le> x then ?A - ?B else ?A - ?B - 1)"
    using AB by (simp add: exponent_def q)
  then show ?thesis using up low by (auto simp: not_le)
qed

lemma exponent_mono: "0 < x \<Longrightarrow> x \<le> y \<Longrightarrow> exponent x \<le> exponent y"
proof (rule ccontr)
  assume x: "0 < x" "x \<le> y" and "\<not> exponent x \<le> exponent y"
  then have "pow2 (exponent y + 1) \<le> pow2 (exponent x)" by (intro pow2_mono) simp
  with exponent_bounds [of x] exponent_bounds [of y] x show False by fastforce
qed

section \<open>Rounding is monotone\<close>

lemma round_half_even_mono: "x \<le> y \<Longrightarrow> round_half_even x \<le> round_half_even y"
proof (cases "\<lfloor>x\<rfloor> = \<lfloor>y\<rfloor>")
  case True
  assume "x \<le> y"
  then show ?thesis by (auto simp: round_half_even_def Let_def True)
next
  case False
  assume "x \<le> y"
  then have "\<lfloor>x\<rfloor> + 1 \<le> \<lfloor>y\<rfloor>" using False floor_mono [of x y] by linarith
  moreover have "round_half_even x \<le> \<lfloor>x\<rfloor> + 1" "\<lfloor>y\<rfloor> \<le> round_half_even y"
    by (auto simp: round_half_even_def Let_def)
  ultimately show ?thesis by linarith
qed

lemma round_half_even_int [simp]: "round_half_even (of_int i) = i"
  by (simp add: round_half_even_def)

lemma round_at_mono: "x \<le> y \<Longrightarrow> round_at q x \<le> round_at q y"
  by (simp add: round_at_def round_half_even_mono divide_right_mono less_imp_le)

lemma round_at_pow2: "q \<le> e \<Longrightarrow> round_at q (pow2 e) = pow2 e"
proof -
  assume "q \<le> e"
  then have "pow2 e / pow2 q = pow2 (e - q)" using pow2_add [of "e - q" q] by simp
  also have "\<dots> = of_int (2 ^ nat (e - q))" using \<open>q \<le> e\<close> by (simp add: pow2_def)
  finally have "pow2 e / pow2 q = of_int (2 ^ nat (e - q))" .
  then have "round_at q (pow2 e) = of_int (2 ^ nat (e - q)) * pow2 q"
    unfolding round_at_def by (simp only: round_half_even_int)
  also have "\<dots> = pow2 e"
    using \<open>pow2 e / pow2 q = of_int (2 ^ nat (e - q))\<close> by (simp add: divide_eq_eq)
  finally show ?thesis .
qed

text \<open>Rounding with a quantum that grows with the exponent, as both formats do, is monotone.\<close>

lemma round_at_exponent_mono:
  assumes x: "0 < x" "x \<le> y"
    and le: "g (exponent y) \<le> exponent y \<or> g (exponent x) = g (exponent y)"
    and lx: "g (exponent x) \<le> exponent y \<or> g (exponent x) = g (exponent y)"
  shows "round_at (g (exponent x)) x \<le> round_at (g (exponent y)) y"
proof (cases "g (exponent x) = g (exponent y)")
  case True
  then show ?thesis using round_at_mono [OF x(2)] by simp
next
  case False
  then have "exponent x \<noteq> exponent y" by metis
  with exponent_mono [OF x] have ne: "exponent x + 1 \<le> exponent y" by linarith
  have "x \<le> pow2 (exponent y)"
    using exponent_bounds [OF x(1)] pow2_mono [OF ne] by linarith
  then have "round_at (g (exponent x)) x \<le> round_at (g (exponent x)) (pow2 (exponent y))"
    by (rule round_at_mono)
  also have "\<dots> = pow2 (exponent y)" using lx False by (intro round_at_pow2) simp
  also have "\<dots> = round_at (g (exponent y)) (pow2 (exponent y))"
    using le False by (simp add: round_at_pow2)
  also have "\<dots> \<le> round_at (g (exponent y)) y"
    using exponent_bounds [of y] x by (intro round_at_mono) simp
  finally show ?thesis .
qed

lemma round_at_nonneg: "0 \<le> x \<Longrightarrow> 0 \<le> round_at q x"
  using round_half_even_mono [of 0 "x / pow2 q"] round_half_even_int [of 0]
  by (simp add: round_at_def less_imp_le)

lemma round_bits_mono: "1 \<le> p \<Longrightarrow> x \<le> y \<Longrightarrow> round_bits p x \<le> round_bits p y"
proof (cases "0 < x")
  case True
  assume "1 \<le> p" "x \<le> y"
  then have "round_at (exponent x - p + 1) x \<le> round_at (exponent y - p + 1) y"
    using exponent_mono [OF True \<open>x \<le> y\<close>]
    by (intro round_at_exponent_mono [OF True, of y "\<lambda>e. e - p + 1"]) auto
  with True \<open>x \<le> y\<close> show ?thesis by (simp add: round_bits_def)
qed (auto simp: round_bits_def round_at_nonneg)

lemma round_float64_mono: "x \<le> y \<Longrightarrow> round_float64 x \<le> round_float64 y"
proof (cases "0 < x")
  case True
  assume "x \<le> y"
  then have "exponent x \<le> exponent y" by (rule exponent_mono [OF True])
  have "round_at (max (exponent x - 52) (- 1074)) x \<le> round_at (max (exponent y - 52) (- 1074)) y"
    using \<open>x \<le> y\<close> \<open>exponent x \<le> exponent y\<close>
    by (intro round_at_exponent_mono [OF True, of y "\<lambda>e. max (e - 52) (- 1074)"]) (auto simp: max_def)
  with True \<open>x \<le> y\<close> show ?thesis by (simp add: round_float64_def)
qed (auto simp: round_float64_def round_at_nonneg)

lemma round_bits_nonneg: "0 \<le> round_bits p x"
  by (auto simp: round_bits_def intro: round_at_nonneg)

lemma round_float64_nonneg: "0 \<le> round_float64 x"
  by (auto simp: round_float64_def intro: round_at_nonneg)

end
