(* ===== verification/Sampling.thy ===== *)
theory Sampling
  imports Float64
begin

unbundle bit_operations_syntax

text \<open>
  \<^verbatim>\<open>processor/signoztailsampler/internal/sampling\<close>: the trace data and the policy evaluators.
  An evaluator is a state; evaluating gives the decision, the error and the next state. Spans and
  attribute values of \<^verbatim>\<open>pdata\<close> are records of what their accessors return. The LRU cache and
  the regular expressions are the parameter \<open>lib\<close>.
\<close>

section \<open>Trace data\<close>

type_synonym trace_id = "byte list"

record attr_value =
  Value_Int :: int
  Value_Str :: string

type_synonym attributes = "string \<Rightarrow> attr_value option"

datatype StatusCode = StatusCodeUnset | StatusCodeOk | StatusCodeError | StatusCodeOther int

record span =
  Span_TraceID :: trace_id
  Span_Attributes :: attributes
  StartTimestamp :: uint64
  EndTimestamp :: uint64
  Status_Code :: StatusCode
  TraceState_AsRaw :: string

record resource_spans =
  Resource_Attributes :: attributes
  ScopeSpans :: "span list list"

type_synonym traces = "resource_spans list"

datatype Decision =
  Unspecified | Pending | Sampled | NotSampled | Dropped | Error | InvertSampled | InvertNotSampled | NoResult

record TraceData =
  Decisions :: "Decision list"
  ArrivalTime :: instant
  DecisionTime :: instant
  SpanCount :: int
  ReceivedBatches :: traces
  FinalDecision :: Decision

text \<open>The interface \<^verbatim>\<open>PolicyEvaluator\<close>: the evaluators' states and their dynamic dispatch.\<close>

type_synonym 'e PolicyEvaluator = "'e \<Rightarrow> trace_id \<Rightarrow> TraceData \<Rightarrow> (Decision \<times> string option) \<times> 'e"

section \<open>Iterating over spans\<close>

text \<open>A callback may keep state (the latency filter's minimum and maximum, a matcher's cache).\<close>

fun spans_any :: "('p \<Rightarrow> 's \<Rightarrow> bool \<times> 's) \<Rightarrow> 'p list \<Rightarrow> 's \<Rightarrow> bool \<times> 's" where
  "spans_any check [] s = (False, s)"
| "spans_any check (p # ps) s =
     (case check p s of (b, s') \<Rightarrow> if b then (True, s') else spans_any check ps s')"

fun spans_all :: "('p \<Rightarrow> 's \<Rightarrow> bool \<times> 's) \<Rightarrow> 'p list \<Rightarrow> 's \<Rightarrow> bool \<times> 's" where
  "spans_all check [] s = (True, s)"
| "spans_all check (p # ps) s =
     (case check p s of (b, s') \<Rightarrow> if \<not> b then (False, s') else spans_all check ps s')"

fun hasInstrumentationLibrarySpanWithCondition :: "(span \<Rightarrow> 's \<Rightarrow> bool \<times> 's) \<Rightarrow> span list list \<Rightarrow> 's \<Rightarrow> bool \<times> 's" where
  "hasInstrumentationLibrarySpanWithCondition check [] s = (False, s)"
| "hasInstrumentationLibrarySpanWithCondition check (ils # ilss) s =
     (case spans_any check ils s of (b, s') \<Rightarrow>
        if b then (True, s') else hasInstrumentationLibrarySpanWithCondition check ilss s')"

fun invertHasInstrumentationLibrarySpanWithCondition :: "(span \<Rightarrow> 's \<Rightarrow> bool \<times> 's) \<Rightarrow> span list list \<Rightarrow> 's \<Rightarrow> bool \<times> 's" where
  "invertHasInstrumentationLibrarySpanWithCondition check [] s = (True, s)"
| "invertHasInstrumentationLibrarySpanWithCondition check (ils # ilss) s =
     (case spans_all check ils s of (b, s') \<Rightarrow>
        if \<not> b then (False, s') else invertHasInstrumentationLibrarySpanWithCondition check ilss s')"

fun hasSpanWithCondition :: "(span \<Rightarrow> 's \<Rightarrow> bool \<times> 's) \<Rightarrow> traces \<Rightarrow> 's \<Rightarrow> Decision \<times> 's" where
  "hasSpanWithCondition check [] s = (NotSampled, s)"
| "hasSpanWithCondition check (rs # td) s =
     (case hasInstrumentationLibrarySpanWithCondition check (ScopeSpans rs) s of (b, s') \<Rightarrow>
        if b then (Sampled, s') else hasSpanWithCondition check td s')"

fun hasResourceOrSpanWithCondition ::
  "(attributes \<Rightarrow> 's \<Rightarrow> bool \<times> 's) \<Rightarrow> (span \<Rightarrow> 's \<Rightarrow> bool \<times> 's) \<Rightarrow> traces \<Rightarrow> 's \<Rightarrow> Decision \<times> 's" where
  "hasResourceOrSpanWithCondition shouldSampleResource shouldSampleSpan [] s = (NotSampled, s)"
| "hasResourceOrSpanWithCondition shouldSampleResource shouldSampleSpan (rs # td) s =
     (case shouldSampleResource (Resource_Attributes rs) s of (b, s') \<Rightarrow>
        if b then (Sampled, s')
        else (case hasInstrumentationLibrarySpanWithCondition shouldSampleSpan (ScopeSpans rs) s' of (b2, s'') \<Rightarrow>
          if b2 then (Sampled, s'')
          else hasResourceOrSpanWithCondition shouldSampleResource shouldSampleSpan td s''))"

fun invertHasResourceOrSpanWithCondition ::
  "(attributes \<Rightarrow> 's \<Rightarrow> bool \<times> 's) \<Rightarrow> (span \<Rightarrow> 's \<Rightarrow> bool \<times> 's) \<Rightarrow> traces \<Rightarrow> 's \<Rightarrow> Decision \<times> 's" where
  "invertHasResourceOrSpanWithCondition shouldSampleResource shouldSampleSpan [] s = (InvertSampled, s)"
| "invertHasResourceOrSpanWithCondition shouldSampleResource shouldSampleSpan (rs # td) s =
     (case shouldSampleResource (Resource_Attributes rs) s of (b, s') \<Rightarrow>
        if \<not> b then (InvertNotSampled, s')
        else (case invertHasInstrumentationLibrarySpanWithCondition shouldSampleSpan (ScopeSpans rs) s' of (b2, s'') \<Rightarrow>
          if \<not> b2 then (InvertNotSampled, s'')
          else invertHasResourceOrSpanWithCondition shouldSampleResource shouldSampleSpan td s''))"

text \<open>The spans of a trace, and callbacks that compute a predicate whatever their state.\<close>

definition spans_of :: "resource_spans \<Rightarrow> span list" where
  "spans_of rs = concat (ScopeSpans rs)"

definition all_spans :: "traces \<Rightarrow> span list" where
  "all_spans td = concat (map spans_of td)"

definition computes :: "('s \<Rightarrow> bool) \<Rightarrow> ('p \<Rightarrow> 's \<Rightarrow> bool \<times> 's) \<Rightarrow> ('p \<Rightarrow> bool) \<Rightarrow> bool" where
  "computes I check P \<longleftrightarrow> (\<forall>p s. I s \<longrightarrow> fst (check p s) = P p \<and> I (snd (check p s)))"

lemma computesD: "computes I check P \<Longrightarrow> I s \<Longrightarrow> check p s = (b, s') \<Longrightarrow> b = P p \<and> I s'"
  unfolding computes_def by (metis fst_conv snd_conv)

lemma spans_any_computes:
  "computes I check P \<Longrightarrow> I s \<Longrightarrow> spans_any check ps s = (b, s') \<Longrightarrow> b = (\<exists>p\<in>set ps. P p) \<and> I s'"
  by (induction ps arbitrary: s) (auto split: prod.splits if_splits dest: computesD)

lemma spans_all_computes:
  "computes I check P \<Longrightarrow> I s \<Longrightarrow> spans_all check ps s = (b, s') \<Longrightarrow> b = (\<forall>p\<in>set ps. P p) \<and> I s'"
  by (induction ps arbitrary: s) (auto split: prod.splits if_splits dest: computesD)

lemma library_any_computes:
  "computes I check P \<Longrightarrow> I s \<Longrightarrow> hasInstrumentationLibrarySpanWithCondition check ilss s = (b, s') \<Longrightarrow>
     b = (\<exists>p\<in>set (concat ilss). P p) \<and> I s'"
proof (induction ilss arbitrary: s)
  case (Cons ils ilss)
  obtain b1 s1 where r: "spans_any check ils s = (b1, s1)" by fastforce
  from spans_any_computes [OF Cons.prems(1,2) r] Cons.prems r Cons.IH [of s1]
  show ?case by (cases b1) (auto simp: bex_Un)
qed simp

lemma library_all_computes:
  "computes I check P \<Longrightarrow> I s \<Longrightarrow> invertHasInstrumentationLibrarySpanWithCondition check ilss s = (b, s') \<Longrightarrow>
     b = (\<forall>p\<in>set (concat ilss). P p) \<and> I s'"
proof (induction ilss arbitrary: s)
  case (Cons ils ilss)
  obtain b1 s1 where r: "spans_all check ils s = (b1, s1)" by fastforce
  from spans_all_computes [OF Cons.prems(1,2) r] Cons.prems r Cons.IH [of s1]
  show ?case by (cases b1) (auto simp: ball_Un)
qed simp

lemma hasSpanWithCondition_computes:
  "computes I check P \<Longrightarrow> I s \<Longrightarrow> hasSpanWithCondition check td s = (d, s') \<Longrightarrow>
     d = (if \<exists>p\<in>set (all_spans td). P p then Sampled else NotSampled) \<and> I s'"
proof (induction td arbitrary: s)
  case (Cons rs td)
  obtain b s1 where r: "hasInstrumentationLibrarySpanWithCondition check (ScopeSpans rs) s = (b, s1)" by fastforce
  from library_any_computes [OF Cons.prems(1,2) r] Cons.prems r Cons.IH [of s1]
  show ?case by (cases b) (auto simp: all_spans_def spans_of_def)
qed (simp add: all_spans_def)

lemma hasResourceOrSpan_computes:
  assumes "computes I checkR PR" "computes I checkS PS"
  shows "I s \<Longrightarrow> hasResourceOrSpanWithCondition checkR checkS td s = (d, s') \<Longrightarrow>
     d = (if \<exists>rs\<in>set td. PR (Resource_Attributes rs) \<or> (\<exists>p\<in>set (spans_of rs). PS p)
          then Sampled else NotSampled) \<and> I s'"
proof (induction td arbitrary: s)
  case (Cons rs td)
  obtain b s1 where r: "checkR (Resource_Attributes rs) s = (b, s1)" by fastforce
  with assms(1) Cons.prems(1) have b: "b = PR (Resource_Attributes rs)" "I s1" by (auto dest: computesD)
  obtain b2 s2 where r2: "hasInstrumentationLibrarySpanWithCondition checkS (ScopeSpans rs) s1 = (b2, s2)" by fastforce
  from library_any_computes [OF assms(2) b(2) r2] b Cons.prems(2) r r2 Cons.IH [of s2]
  show ?case by (cases b; cases b2) (auto simp: spans_of_def)
qed simp

lemma invertHasResourceOrSpan_computes:
  assumes "computes I checkR PR" "computes I checkS PS"
  shows "I s \<Longrightarrow> invertHasResourceOrSpanWithCondition checkR checkS td s = (d, s') \<Longrightarrow>
     d = (if \<forall>rs\<in>set td. PR (Resource_Attributes rs) \<and> (\<forall>p\<in>set (spans_of rs). PS p)
          then InvertSampled else InvertNotSampled) \<and> I s'"
proof (induction td arbitrary: s)
  case (Cons rs td)
  obtain b s1 where r: "checkR (Resource_Attributes rs) s = (b, s1)" by fastforce
  with assms(1) Cons.prems(1) have b: "b = PR (Resource_Attributes rs)" "I s1" by (auto dest: computesD)
  obtain b2 s2 where r2: "invertHasInstrumentationLibrarySpanWithCondition checkS (ScopeSpans rs) s1 = (b2, s2)" by fastforce
  from library_all_computes [OF assms(2) b(2) r2] b Cons.prems(2) r r2 Cons.IH [of s2]
  show ?case by (cases b; cases b2) (auto simp: spans_of_def)
qed simp

section \<open>The evaluators\<close>

subsection \<open>Always, never, span count, status code, numeric attribute, trace state\<close>

definition alwaysSample_Evaluate :: "Decision \<times> string option" where
  "alwaysSample_Evaluate = (Sampled, None)"

definition neverSample_Evaluate :: "Decision \<times> string option" where
  "neverSample_Evaluate = (NotSampled, None)"

definition spanCount_Evaluate :: "int \<Rightarrow> TraceData \<Rightarrow> Decision \<times> string option" where
  "spanCount_Evaluate minSpans traceData =
     (if minSpans \<le> SpanCount traceData then (Sampled, None) else (NotSampled, None))"

definition parse_status_code :: "string \<Rightarrow> string + StatusCode" where
  "parse_status_code s =
     (if s = ''OK'' then Inr StatusCodeOk
      else if s = ''ERROR'' then Inr StatusCodeError
      else if s = ''UNSET'' then Inr StatusCodeUnset
      else Inl s)"

fun parse_status_codes :: "string list \<Rightarrow> string + StatusCode list" where
  "parse_status_codes [] = Inr []"
| "parse_status_codes (s # ss) =
     (case parse_status_code s of Inl e \<Rightarrow> Inl e
      | Inr c \<Rightarrow> (case parse_status_codes ss of Inl e \<Rightarrow> Inl e | Inr cs \<Rightarrow> Inr (c # cs)))"

datatype status_filter_error = NoStatusCodes | UnknownStatusCode string

definition NewStatusCodeFilter :: "string list \<Rightarrow> status_filter_error + StatusCode list" where
  "NewStatusCodeFilter statusCodeString =
     (if length statusCodeString = 0 then Inl NoStatusCodes
      else (case parse_status_codes statusCodeString of Inl s \<Rightarrow> Inl (UnknownStatusCode s)
            | Inr statusCodes \<Rightarrow> Inr statusCodes))"

definition stateless :: "('p \<Rightarrow> bool) \<Rightarrow> 'p \<Rightarrow> unit \<Rightarrow> bool \<times> unit" where
  "stateless P p s = (P p, s)"

definition statusCode_Evaluate :: "StatusCode list \<Rightarrow> TraceData \<Rightarrow> Decision \<times> string option" where
  "statusCode_Evaluate statusCodes trace =
     (fst (hasSpanWithCondition
             (stateless (\<lambda>sp. list_ex (\<lambda>statusCode. Status_Code sp = statusCode) statusCodes))
             (ReceivedBatches trace) ()), None)"

record numericAttributeFilter =
  naf_key :: string
  minValue :: int
  maxValue :: int

definition numeric_in_range :: "numericAttributeFilter \<Rightarrow> span \<Rightarrow> bool" where
  "numeric_in_range naf sp =
     (case Span_Attributes sp (naf_key naf) of
        Some v \<Rightarrow> minValue naf \<le> Value_Int v \<and> Value_Int v \<le> maxValue naf
      | None \<Rightarrow> False)"

definition numericAttribute_Evaluate :: "numericAttributeFilter \<Rightarrow> TraceData \<Rightarrow> Decision \<times> string option" where
  "numericAttribute_Evaluate naf trace =
     (fst (hasSpanWithCondition (stateless (numeric_in_range naf)) (ReceivedBatches trace) ()), None)"

text \<open>
  \<^verbatim>\<open>ParseTraceState\<close> is the OpenTelemetry API: \<open>parse\<close> gives the lookup function of a
  well-formed trace state, where an absent key reads as the empty string.
\<close>

record traceStateFilter =
  tsf_key :: string
  tsf_values :: "string list"

definition NewTraceStateFilter :: "string \<Rightarrow> string list \<Rightarrow> traceStateFilter" where
  "NewTraceStateFilter key values =
     \<lparr>tsf_key = key,
      tsf_values = filter (\<lambda>v. v \<noteq> [] \<and> length key + length v < 256) values\<rparr>"

definition traceState_Evaluate ::
  "(string \<Rightarrow> (string \<Rightarrow> string) option) \<Rightarrow> traceStateFilter \<Rightarrow> TraceData \<Rightarrow> Decision \<times> string option" where
  "traceState_Evaluate parse tsf trace =
     (fst (hasSpanWithCondition
             (stateless (\<lambda>sp. case parse (TraceState_AsRaw sp) of None \<Rightarrow> False
                              | Some get \<Rightarrow> get (tsf_key tsf) \<in> set (tsf_values tsf)))
             (ReceivedBatches trace) ()), None)"

lemma stateless_computes [simp]: "computes (\<lambda>_. True) (stateless P) P"
  by (simp add: computes_def stateless_def)

lemma hasSpanWithCondition_stateless:
  "fst (hasSpanWithCondition (stateless P) td s) = (if \<exists>p\<in>set (all_spans td). P p then Sampled else NotSampled)"
proof -
  obtain d u where e: "hasSpanWithCondition (stateless P) td s = (d, u)" by (rule prod.exhaust)
  from hasSpanWithCondition_computes [OF stateless_computes TrueI e] e show ?thesis by simp
qed

subsection \<open>Latency\<close>

text \<open>
  \<^verbatim>\<open>AsTime\<close> reads the timestamp as a signed number of nanoseconds; the callback keeps the
  earliest start and the latest end seen so far, 0 meaning not set.
\<close>

definition AsTime :: "uint64 \<Rightarrow> instant" where
  "AsTime ts = sint ts"

definition latency_min :: "span \<Rightarrow> uint64 \<Rightarrow> uint64" where
  "latency_min sp minTime = (if minTime = 0 \<or> StartTimestamp sp < minTime then StartTimestamp sp else minTime)"

definition latency_max :: "span \<Rightarrow> uint64 \<Rightarrow> uint64" where
  "latency_max sp maxTime = (if maxTime = 0 \<or> maxTime < EndTimestamp sp then EndTimestamp sp else maxTime)"

definition latency_check :: "int \<Rightarrow> span \<Rightarrow> uint64 \<times> uint64 \<Rightarrow> bool \<times> (uint64 \<times> uint64)" where
  "latency_check thresholdMs sp = (\<lambda>(minTime, maxTime).
     let minTime = latency_min sp minTime; maxTime = latency_max sp maxTime;
         duration = time_sub (AsTime maxTime) (AsTime minTime)
     in (thresholdMs \<le> go_div duration 1000000, (minTime, maxTime)))"

definition latency_Evaluate :: "int \<Rightarrow> TraceData \<Rightarrow> Decision \<times> string option" where
  "latency_Evaluate thresholdMs traceData =
     (fst (hasSpanWithCondition (latency_check thresholdMs) (ReceivedBatches traceData) (0, 0)), None)"

lemma hasSpanWithCondition_flat:
  "hasSpanWithCondition check td s =
     (case spans_any check (all_spans td) s of (b, s') \<Rightarrow> (if b then Sampled else NotSampled, s'))"
proof (induction td arbitrary: s)
  case (Cons rs td)
  have app: "spans_any check (ps @ qs) u =
      (case spans_any check ps u of (b, u') \<Rightarrow> if b then (True, u') else spans_any check qs u')" for ps qs u
    by (induction ps arbitrary: u) (auto split: prod.splits)
  have lib: "hasInstrumentationLibrarySpanWithCondition check ilss u = spans_any check (concat ilss) u" for ilss u
    by (induction ilss arbitrary: u) (auto simp: app split: prod.splits)
  show ?case using Cons by (auto simp: lib app all_spans_def spans_of_def split: prod.splits)
qed (simp add: all_spans_def)

definition latency_fold :: "span list \<Rightarrow> uint64 \<times> uint64 \<Rightarrow> uint64 \<times> uint64" where
  "latency_fold ps = (\<lambda>(mn, mx). (fold latency_min ps mn, fold latency_max ps mx))"

definition duration_ms :: "uint64 \<times> uint64 \<Rightarrow> int" where
  "duration_ms = (\<lambda>(mn, mx). go_div (time_sub (AsTime mx) (AsTime mn)) 1000000)"

text \<open>A timestamp that is set and below the year 2262, where \<^verbatim>\<open>int64\<close> nanoseconds end.\<close>

definition real_timestamp :: "uint64 \<Rightarrow> bool" where
  "real_timestamp ts \<longleftrightarrow> ts \<noteq> 0 \<and> ts < 2 ^ 63"

definition real_times :: "span \<Rightarrow> bool" where
  "real_times sp \<longleftrightarrow> real_timestamp (StartTimestamp sp) \<and> real_timestamp (EndTimestamp sp)"

lemma AsTime_mono:
  assumes "b < 2 ^ 63" "a \<le> b" shows "AsTime a \<le> AsTime b"
proof -
  have nb: "uint (2 ^ 63 :: uint64) = 2 ^ 63" by simp
  have "uint b < 2 ^ 63" using assms(1) nb by (simp only: word_less_def)
  moreover have "uint a \<le> uint b" using assms(2) by (simp add: word_le_def)
  ultimately have "sint a = uint a" "sint b = uint b"
    by (simp_all add: sint_uint signed_take_bit_eq_if_positive bit_iff_odd signed_take_bit_int_eq_self take_bit_int_eq_self)
  then show ?thesis using \<open>uint a \<le> uint b\<close> by (simp add: AsTime_def)
qed

lemma duration_ms_mono:
  assumes "mx' < 2 ^ 63" "mx \<le> mx'" "mn < 2 ^ 63" "mn' \<le> mn"
  shows "duration_ms (mn, mx) \<le> duration_ms (mn', mx')"
proof -
  have "AsTime mx - AsTime mn \<le> AsTime mx' - AsTime mn'"
    using AsTime_mono [OF assms(1,2)] AsTime_mono [OF assms(3,4)] by linarith
  then have "time_sub (AsTime mx) (AsTime mn) \<le> time_sub (AsTime mx') (AsTime mn')"
    by (auto simp: time_sub_def)
  then show ?thesis by (simp add: duration_ms_def go_div_mono)
qed

lemma latency_fold_grows:
  "\<forall>sp\<in>set ps. real_times sp \<Longrightarrow> real_timestamp mn \<Longrightarrow> real_timestamp mx \<Longrightarrow>
     real_timestamp (fold latency_min ps mn) \<and> real_timestamp (fold latency_max ps mx)
   \<and> fold latency_min ps mn \<le> mn \<and> mx \<le> fold latency_max ps mx"
proof (induction ps arbitrary: mn mx)
  case (Cons sp ps)
  have "real_timestamp (latency_min sp mn)" "real_timestamp (latency_max sp mx)"
    "latency_min sp mn \<le> mn" "mx \<le> latency_max sp mx"
    using Cons.prems by (auto simp: latency_min_def latency_max_def real_times_def real_timestamp_def)
  with Cons.IH [of "latency_min sp mn" "latency_max sp mx"] Cons.prems(1) show ?case by fastforce
qed simp

lemma latency_spans_any:
  assumes "\<forall>sp\<in>set ps. real_times sp" "real_timestamp mn" "real_timestamp mx"
    and "\<not> thresholdMs \<le> duration_ms (mn, mx)"
  shows "fst (spans_any (latency_check thresholdMs) ps (mn, mx)) \<longleftrightarrow>
     thresholdMs \<le> duration_ms (latency_fold ps (mn, mx))"
  using assms
proof (induction ps arbitrary: mn mx)
  case (Cons sp ps)
  let ?s = "(latency_min sp mn, latency_max sp mx)"
  have c: "latency_check thresholdMs sp (mn, mx) = (thresholdMs \<le> duration_ms ?s, ?s)"
    by (simp add: latency_check_def duration_ms_def Let_def)
  have g: "real_timestamp (latency_min sp mn)" "real_timestamp (latency_max sp mx)"
    using Cons.prems by (auto simp: latency_min_def latency_max_def real_times_def real_timestamp_def)
  have "duration_ms ?s \<le> duration_ms (latency_fold ps ?s)"
    using latency_fold_grows [OF _ g] Cons.prems(1) g
    unfolding latency_fold_def by (auto simp: real_timestamp_def intro!: duration_ms_mono)
  with c g Cons.IH [of "latency_min sp mn" "latency_max sp mx"] Cons.prems(1)
  show ?case by (auto simp: latency_fold_def)
qed (simp add: latency_fold_def)

lemma latency_fold_Min_Max:
  assumes "\<forall>sp\<in>set ps. real_times sp" "real_timestamp mn" "real_timestamp mx"
  shows "latency_fold ps (mn, mx) = (Min (insert mn (StartTimestamp ` set ps)), Max (insert mx (EndTimestamp ` set ps)))"
  using assms
proof (induction ps arbitrary: mn mx)
  case (Cons sp ps)
  have m: "latency_min sp mn = min (StartTimestamp sp) mn" "latency_max sp mx = max (EndTimestamp sp) mx"
    using Cons.prems by (auto simp: latency_min_def latency_max_def real_timestamp_def min_def max_def)
  moreover have "real_timestamp (latency_min sp mn)" "real_timestamp (latency_max sp mx)"
    using Cons.prems by (auto simp: latency_min_def latency_max_def real_times_def real_timestamp_def)
  ultimately show ?case using Cons.IH [of "latency_min sp mn" "latency_max sp mx"] Cons.prems(1)
    by (cases "ps = []") (auto simp: latency_fold_def insert_commute Min_insert Max_insert min.assoc max.assoc min.left_commute max.left_commute
      min.commute max.commute)
qed (simp add: latency_fold_def)

subsection \<open>String attributes\<close>

record 'c sampling_lib =
  lru_New :: "int \<Rightarrow> 'c"
  lru_Get :: "string \<Rightarrow> 'c \<Rightarrow> bool option \<times> 'c"
  lru_Add :: "string \<Rightarrow> bool \<Rightarrow> 'c \<Rightarrow> 'c"
  regex_Compiles :: "string \<Rightarrow> bool"
  regex_MatchString :: "string \<Rightarrow> string \<Rightarrow> bool"

datatype 'c matcher = ExactMatcher "string list" | RegexMatcher 'c "string list"

record 'c stringAttributeFilter =
  saf_key :: string
  saf_matcher :: "'c matcher"
  saf_invertMatch :: bool

definition defaultCacheSize :: int where
  "defaultCacheSize = 128"

text \<open>\<^verbatim>\<open>regexp.MustCompile\<close> panics on an expression that does not compile.\<close>

fun addFilters :: "'c sampling_lib \<Rightarrow> string list \<Rightarrow> string list outcome" where
  "addFilters lib [] = Done []"
| "addFilters lib (entry # exprs) =
     (if regex_Compiles lib entry then bind_outcome (addFilters lib exprs) (\<lambda>rules. Done (entry # rules))
      else Panics)"

definition NewStringAttributeFilter ::
  "'c sampling_lib \<Rightarrow> string \<Rightarrow> string list \<Rightarrow> bool \<Rightarrow> int \<Rightarrow> bool \<Rightarrow> 'c stringAttributeFilter outcome" where
  "NewStringAttributeFilter lib key values regexMatchEnabled evictSize invertMatch =
     (if regexMatchEnabled
      then (let evictSize = (if evictSize \<le> 0 then defaultCacheSize else evictSize)
            in bind_outcome (addFilters lib values) (\<lambda>filterList.
                 Done \<lparr>saf_key = key, saf_matcher = RegexMatcher (lru_New lib evictSize) filterList,
                       saf_invertMatch = invertMatch\<rparr>))
      else Done \<lparr>saf_key = key, saf_matcher = ExactMatcher (filter (\<lambda>v. v \<noteq> []) values),
                 saf_invertMatch = invertMatch\<rparr>)"

fun run_matcher :: "'c sampling_lib \<Rightarrow> string \<Rightarrow> 'c matcher \<Rightarrow> bool \<times> 'c matcher" where
  "run_matcher lib toMatch (ExactMatcher valuesMap) = (toMatch \<in> set valuesMap, ExactMatcher valuesMap)"
| "run_matcher lib toMatch (RegexMatcher matchedAttrs filterList) =
     (case lru_Get lib toMatch matchedAttrs of
        (Some v, matchedAttrs) \<Rightarrow> (v, RegexMatcher matchedAttrs filterList)
      | (None, matchedAttrs) \<Rightarrow>
          if list_ex (\<lambda>r. regex_MatchString lib r toMatch) filterList
          then (True, RegexMatcher (lru_Add lib toMatch True matchedAttrs) filterList)
          else (False, RegexMatcher (lru_Add lib toMatch False matchedAttrs) filterList))"

definition saf_resource :: "'c sampling_lib \<Rightarrow> string \<Rightarrow> attributes \<Rightarrow> 'c matcher \<Rightarrow> bool \<times> 'c matcher" where
  "saf_resource lib key attrs m =
     (case attrs key of Some v \<Rightarrow> run_matcher lib (Value_Str v) m | None \<Rightarrow> (False, m))"

definition saf_span :: "'c sampling_lib \<Rightarrow> string \<Rightarrow> span \<Rightarrow> 'c matcher \<Rightarrow> bool \<times> 'c matcher" where
  "saf_span lib key sp m =
     (case Span_Attributes sp key of
        Some v \<Rightarrow> if 0 < length (Value_Str v) then run_matcher lib (Value_Str v) m else (False, m)
      | None \<Rightarrow> (False, m))"

definition negated :: "('p \<Rightarrow> 's \<Rightarrow> bool \<times> 's) \<Rightarrow> 'p \<Rightarrow> 's \<Rightarrow> bool \<times> 's" where
  "negated check p s = (case check p s of (b, s') \<Rightarrow> (\<not> b, s'))"

definition stringAttribute_Evaluate ::
  "'c sampling_lib \<Rightarrow> 'c stringAttributeFilter \<Rightarrow> TraceData \<Rightarrow> (Decision \<times> string option) \<times> 'c stringAttributeFilter" where
  "stringAttribute_Evaluate lib saf trace =
     (let (decision, m) =
        (if saf_invertMatch saf
         then invertHasResourceOrSpanWithCondition
                (negated (saf_resource lib (saf_key saf))) (negated (saf_span lib (saf_key saf)))
                (ReceivedBatches trace) (saf_matcher saf)
         else hasResourceOrSpanWithCondition
                (saf_resource lib (saf_key saf)) (saf_span lib (saf_key saf))
                (ReceivedBatches trace) (saf_matcher saf))
      in ((decision, None), saf\<lparr>saf_matcher := m\<rparr>))"

text \<open>
  What the LRU cache promises: it starts empty, a lookup gives what is stored, an entry may be
  evicted at any time and is never invented.
\<close>

definition lru_lawful :: "'c sampling_lib \<Rightarrow> ('c \<Rightarrow> string \<Rightarrow> bool option) \<Rightarrow> bool" where
  "lru_lawful lib contents \<longleftrightarrow>
     (\<forall>n. contents (lru_New lib n) = Map.empty)
   \<and> (\<forall>k c. fst (lru_Get lib k c) = contents c k \<and> contents (snd (lru_Get lib k c)) \<subseteq>\<^sub>m contents c)
   \<and> (\<forall>k v c. contents (lru_Add lib k v c) \<subseteq>\<^sub>m (contents c)(k \<mapsto> v))"

fun matcher_meaning :: "'c sampling_lib \<Rightarrow> 'c matcher \<Rightarrow> string \<Rightarrow> bool" where
  "matcher_meaning lib (ExactMatcher vs) s \<longleftrightarrow> s \<in> set vs"
| "matcher_meaning lib (RegexMatcher c rs) s \<longleftrightarrow> (\<exists>r\<in>set rs. regex_MatchString lib r s)"

fun matcher_ok :: "'c sampling_lib \<Rightarrow> ('c \<Rightarrow> string \<Rightarrow> bool option) \<Rightarrow> 'c matcher \<Rightarrow> bool" where
  "matcher_ok lib contents (ExactMatcher vs) \<longleftrightarrow> True"
| "matcher_ok lib contents (RegexMatcher c rs) \<longleftrightarrow>
     (\<forall>k v. contents c k = Some v \<longrightarrow> v = (\<exists>r\<in>set rs. regex_MatchString lib r k))"

lemma map_le_Some: "m \<subseteq>\<^sub>m n \<Longrightarrow> m k = Some v \<Longrightarrow> n k = Some v"
  by (metis domI map_le_def)

lemma run_matcher_correct:
  assumes lawful: "lru_lawful lib contents" and ok: "matcher_ok lib contents m"
    and run: "run_matcher lib s m = (b, m')"
  shows "b = matcher_meaning lib m s \<and> matcher_ok lib contents m' \<and> matcher_meaning lib m' = matcher_meaning lib m"
proof (cases m)
  case (ExactMatcher vs)
  with run show ?thesis by auto
next
  case (RegexMatcher c rs)
  obtain r c' where g: "lru_Get lib s c = (r, c')" by fastforce
  with lawful have r: "r = contents c s" and le: "contents c' \<subseteq>\<^sub>m contents c"
    unfolding lru_lawful_def by (metis fst_conv snd_conv)+
  have add: "contents (lru_Add lib s v c') \<subseteq>\<^sub>m (contents c')(s \<mapsto> v)" for v
    using lawful unfolding lru_lawful_def by blast
  have sub: "contents c' k = Some v \<Longrightarrow> v = (\<exists>r\<in>set rs. regex_MatchString lib r k)" for k v
    using map_le_Some [OF le] ok RegexMatcher by auto
  have new: "v = (\<exists>r\<in>set rs. regex_MatchString lib r s) \<Longrightarrow> contents (lru_Add lib s v c') k = Some w \<Longrightarrow>
      w = (\<exists>r\<in>set rs. regex_MatchString lib r k)" for v k w
    using map_le_Some [OF add] sub [of k w] by (cases "k = s") fastforce+
  show ?thesis
  proof (cases r)
    case None
    with run g RegexMatcher have b: "b = (\<exists>r\<in>set rs. regex_MatchString lib r s)"
      and m': "m' = RegexMatcher (lru_Add lib s b c') rs"
      by (auto simp: list_ex_iff split: if_splits)
    with new [of b] have "matcher_ok lib contents m'" by simp
    with b m' show ?thesis unfolding RegexMatcher by (simp add: fun_eq_iff)
  next
    case (Some v)
    with run g RegexMatcher have b: "b = v" and m': "m' = RegexMatcher c' rs" by auto
    have "contents c s = Some v" using r Some by simp
    then have "v = (\<exists>r\<in>set rs. regex_MatchString lib r s)" using ok unfolding RegexMatcher by simp
    moreover have "matcher_ok lib contents m'" unfolding m' using sub by simp
    ultimately show ?thesis unfolding RegexMatcher b m' by (simp add: fun_eq_iff)
  qed
qed

text \<open>The reference: which attribute values the filter looks for, without a cache.\<close>

definition attr_hit :: "(string \<Rightarrow> bool) \<Rightarrow> string \<Rightarrow> attributes \<Rightarrow> bool" where
  "attr_hit P key attrs = (case attrs key of Some v \<Rightarrow> P (Value_Str v) | None \<Rightarrow> False)"

definition trace_hit :: "(string \<Rightarrow> bool) \<Rightarrow> string \<Rightarrow> traces \<Rightarrow> bool" where
  "trace_hit P key td \<longleftrightarrow> (\<exists>rs\<in>set td. attr_hit P key (Resource_Attributes rs)
     \<or> (\<exists>sp\<in>set (spans_of rs). attr_hit (\<lambda>s. s \<noteq> [] \<and> P s) key (Span_Attributes sp)))"

definition string_decision :: "(string \<Rightarrow> bool) \<Rightarrow> string \<Rightarrow> bool \<Rightarrow> traces \<Rightarrow> Decision" where
  "string_decision P key invert td =
     (if invert then (if trace_hit P key td then InvertNotSampled else InvertSampled)
      else (if trace_hit P key td then Sampled else NotSampled))"

definition saf_meaning :: "'c sampling_lib \<Rightarrow> 'c stringAttributeFilter \<Rightarrow> TraceData \<Rightarrow> Decision" where
  "saf_meaning lib saf trace =
     string_decision (matcher_meaning lib (saf_matcher saf)) (saf_key saf) (saf_invertMatch saf) (ReceivedBatches trace)"

lemma saf_callbacks_compute:
  assumes "lru_lawful lib contents"
  shows "computes (\<lambda>m. matcher_ok lib contents m \<and> matcher_meaning lib m = P) (saf_resource lib key) (attr_hit P key)"
    and "computes (\<lambda>m. matcher_ok lib contents m \<and> matcher_meaning lib m = P) (saf_span lib key)
           (\<lambda>sp. attr_hit (\<lambda>s. s \<noteq> [] \<and> P s) key (Span_Attributes sp))"
  by (auto simp: computes_def saf_resource_def saf_span_def attr_hit_def split: option.splits
      dest: run_matcher_correct [OF assms _ prod.collapse [symmetric]])

lemma negated_computes: "computes I check P \<Longrightarrow> computes I (negated check) (\<lambda>p. \<not> P p)"
  by (simp add: computes_def negated_def case_prod_beta)

lemma stringAttribute_Evaluate_correct:
  assumes "lru_lawful lib contents" and "matcher_ok lib contents (saf_matcher saf)"
    and "stringAttribute_Evaluate lib saf trace = (r, saf')"
  shows "r = (saf_meaning lib saf trace, None) \<and> matcher_ok lib contents (saf_matcher saf')
       \<and> saf_meaning lib saf' = saf_meaning lib saf"
proof -
  let ?P = "matcher_meaning lib (saf_matcher saf)"
  note c = saf_callbacks_compute [OF assms(1), of ?P "saf_key saf"]
  note n = c [THEN negated_computes]
  show ?thesis
  proof (cases "saf_invertMatch saf")
    case True
    then obtain d m where e: "invertHasResourceOrSpanWithCondition (negated (saf_resource lib (saf_key saf)))
        (negated (saf_span lib (saf_key saf))) (ReceivedBatches trace) (saf_matcher saf) = (d, m)"
      and r: "r = (d, None)" and s': "saf' = saf\<lparr>saf_matcher := m\<rparr>"
      using assms(3) by (auto simp: stringAttribute_Evaluate_def split: prod.splits)
    from invertHasResourceOrSpan_computes [OF n _ e] assms(2)
    have "d = string_decision ?P (saf_key saf) True (ReceivedBatches trace)"
      and "matcher_ok lib contents m" and "matcher_meaning lib m = ?P"
      by (auto simp: string_decision_def trace_hit_def)
    with True r s' show ?thesis by (auto simp: saf_meaning_def)
  next
    case False
    then obtain d m where e: "hasResourceOrSpanWithCondition (saf_resource lib (saf_key saf))
        (saf_span lib (saf_key saf)) (ReceivedBatches trace) (saf_matcher saf) = (d, m)"
      and r: "r = (d, None)" and s': "saf' = saf\<lparr>saf_matcher := m\<rparr>"
      using assms(3) by (auto simp: stringAttribute_Evaluate_def split: prod.splits)
    from hasResourceOrSpan_computes [OF c _ e] assms(2)
    have "d = string_decision ?P (saf_key saf) False (ReceivedBatches trace)"
      and "matcher_ok lib contents m" and "matcher_meaning lib m = ?P"
      by (auto simp: string_decision_def trace_hit_def)
    with False r s' show ?thesis by (auto simp: saf_meaning_def)
  qed
qed

subsection \<open>Probabilistic\<close>

text \<open>\<^verbatim>\<open>hash/fnv\<close>'s 64-bit FNV-1a.\<close>

definition fnv_offset64 :: uint64 where
  "fnv_offset64 = 14695981039346656037"

definition fnv_prime64 :: uint64 where
  "fnv_prime64 = 1099511628211"

definition fnv1a_step :: "byte \<Rightarrow> uint64 \<Rightarrow> uint64" where
  "fnv1a_step b h = (h XOR ucast b) * fnv_prime64"

definition fnv1a_write :: "byte list \<Rightarrow> uint64 \<Rightarrow> uint64" where
  "fnv1a_write bs h = fold fnv1a_step bs h"

definition string_bytes :: "string \<Rightarrow> byte list" where
  "string_bytes s = map of_char s"

definition hashTraceID :: "string \<Rightarrow> byte list \<Rightarrow> uint64" where
  "hashTraceID salt b = fnv1a_write b (fnv1a_write (string_bytes salt) fnv_offset64)"

text \<open>Dividing a \<^verbatim>\<open>float64\<close> by 100.\<close>

fun float64_div_100 :: "float64 \<Rightarrow> float64" where
  "float64_div_100 (Finite_f64 r) = Finite_f64 (if 0 \<le> r then round_float64 (r / 100) else - round_float64 (- r / 100))"
| "float64_div_100 x = x"

definition MaxUint64 :: rat where
  "MaxUint64 = 2 ^ 64 - 1"

text \<open>
  \<^verbatim>\<open>big.NewFloat\<close> panics on a NaN; \<^verbatim>\<open>SetInt\<close> gives the boundary 64 bits of precision, which
  \<^verbatim>\<open>Mul\<close> keeps; \<^verbatim>\<open>Uint64\<close> truncates towards zero and saturates.
\<close>

definition float_to_uint64 :: "rat \<Rightarrow> uint64" where
  "float_to_uint64 r = (if r \<le> 0 then 0 else if MaxUint64 \<le> r then - 1 else word_of_int \<lfloor>r\<rfloor>)"

fun calculateThreshold :: "float64 \<Rightarrow> uint64 outcome" where
  "calculateThreshold (Finite_f64 ratio) = Done (float_to_uint64 (round_bits 64 (MaxUint64 * ratio)))"
| "calculateThreshold PosInf = Done (- 1)"
| "calculateThreshold NegInf = Done 0"
| "calculateThreshold NaN = Panics"

record probabilisticSampler =
  threshold :: uint64
  hashSalt :: string

definition defaultHashSalt :: string where
  "defaultHashSalt = ''default-hash-seed''"

definition NewProbabilisticSampler :: "string \<Rightarrow> float64 \<Rightarrow> probabilisticSampler outcome" where
  "NewProbabilisticSampler salt samplingPercentage =
     bind_outcome (calculateThreshold (float64_div_100 samplingPercentage)) (\<lambda>t.
       Done \<lparr>threshold = t, hashSalt = (if salt = [] then defaultHashSalt else salt)\<rparr>)"

definition probabilistic_Evaluate :: "probabilisticSampler \<Rightarrow> trace_id \<Rightarrow> Decision \<times> string option" where
  "probabilistic_Evaluate s traceID =
     (if hashTraceID (hashSalt s) traceID \<le> threshold s then (Sampled, None) else (NotSampled, None))"

lemma float_to_uint64_mono: "r \<le> r' \<Longrightarrow> float_to_uint64 r \<le> float_to_uint64 r'"
proof -
  assume r: "r \<le> r'"
  have fl: "\<lfloor>x\<rfloor> < 2 ^ 64" if "\<not> MaxUint64 \<le> x" for x :: rat
  proof -
    have "x < 2 ^ 64" using that by (simp add: MaxUint64_def)
    then have "x < of_int (2 ^ 64)" by simp
    then show ?thesis by (simp only: floor_less_iff)
  qed
  have "word_of_int \<lfloor>r\<rfloor> \<le> (word_of_int \<lfloor>r'\<rfloor> :: uint64)" if "0 < r" "\<not> MaxUint64 \<le> r'"
  proof -
    have "0 \<le> \<lfloor>r\<rfloor>" "\<lfloor>r\<rfloor> \<le> \<lfloor>r'\<rfloor>" using that r floor_mono [OF r] by simp_all
    with fl [of r'] that r show ?thesis
      by (simp add: word_le_def unsigned_of_int take_bit_int_eq_self)
  qed
  with r show ?thesis by (auto simp: float_to_uint64_def)
qed

lemma float64_div_100_mono: "p \<le> q \<Longrightarrow> \<exists>x y. float64_div_100 (Finite_f64 p) = Finite_f64 x
    \<and> float64_div_100 (Finite_f64 q) = Finite_f64 y \<and> x \<le> y"
  using round_float64_mono [of "p / 100" "q / 100"] round_float64_mono [of "- q / 100" "- p / 100"]
    round_float64_nonneg [of "- p / 100"] round_float64_nonneg [of "q / 100"]
  by (auto simp: divide_right_mono)

lemma threshold_mono:
  assumes "p \<le> q" and "NewProbabilisticSampler salt (Finite_f64 p) = Done s"
    and "NewProbabilisticSampler salt (Finite_f64 q) = Done s'"
  shows "threshold s \<le> threshold s' \<and> hashSalt s = hashSalt s'"
proof -
  from float64_div_100_mono [OF assms(1)] obtain x y where xy:
    "float64_div_100 (Finite_f64 p) = Finite_f64 x" "float64_div_100 (Finite_f64 q) = Finite_f64 y" "x \<le> y"
    by blast
  have "MaxUint64 * x \<le> MaxUint64 * y" using xy(3) by (simp add: MaxUint64_def)
  then have "round_bits 64 (MaxUint64 * x) \<le> round_bits 64 (MaxUint64 * y)" by (simp add: round_bits_mono)
  then show ?thesis using assms(2,3) xy(1,2) float_to_uint64_mono
    by (auto simp: NewProbabilisticSampler_def simp del: float64_div_100.simps)
qed

subsection \<open>Rate limiting\<close>

record rateLimiting =
  rl_currentSecond :: int
  spansInCurrentSecond :: int
  spansPerSecond :: int

definition NewRateLimiting :: "int \<Rightarrow> rateLimiting" where
  "NewRateLimiting sps = \<lparr>rl_currentSecond = 0, spansInCurrentSecond = 0, spansPerSecond = sps\<rparr>"

definition rateLimiting_Evaluate :: "int \<Rightarrow> rateLimiting \<Rightarrow> TraceData \<Rightarrow> (Decision \<times> string option) \<times> rateLimiting" where
  "rateLimiting_Evaluate currSecond r trace =
     (let r = (if rl_currentSecond r \<noteq> currSecond
               then r\<lparr>rl_currentSecond := currSecond, spansInCurrentSecond := 0\<rparr> else r);
          spansInSecondIfSampled = wrap64 (spansInCurrentSecond r + SpanCount trace)
      in if spansInSecondIfSampled < spansPerSecond r
         then ((Sampled, None), r\<lparr>spansInCurrentSecond := spansInSecondIfSampled\<rparr>)
         else ((NotSampled, None), r))"

subsection \<open>And, composite\<close>

text \<open>These are clients of the interface: \<open>eval\<close> is the dispatch to a sub-policy.\<close>

fun And_Evaluate :: "'e PolicyEvaluator \<Rightarrow> 'e list \<Rightarrow> trace_id \<Rightarrow> TraceData \<Rightarrow> (Decision \<times> string option) \<times> 'e list" where
  "And_Evaluate eval [] traceID trace = ((Sampled, None), [])"
| "And_Evaluate eval (sub # subs) traceID trace =
     (case eval sub traceID trace of ((decision, err), sub') \<Rightarrow>
        case err of Some e \<Rightarrow> ((Unspecified, Some e), sub' # subs)
        | None \<Rightarrow>
            if decision = NotSampled \<or> decision = InvertNotSampled
            then ((NotSampled, None), sub' # subs)
            else (case And_Evaluate eval subs traceID trace of (r, subs') \<Rightarrow> (r, sub' # subs')))"

definition And_OnDroppedSpans :: "Decision \<times> string option" where
  "And_OnDroppedSpans = (Sampled, None)"

record 'e subpolicy =
  sub_evaluator :: 'e
  allocatedSPS :: int
  sampledSPS :: int

record 'e Composite =
  subpolicies :: "'e subpolicy list"
  maxTotalSPS :: int
  comp_currentSecond :: int

definition NewComposite :: "int \<Rightarrow> ('e \<times> int) list \<Rightarrow> 'e Composite" where
  "NewComposite maxTotalSpansPerSecond subPolicyParams =
     \<lparr>subpolicies = map (\<lambda>(e, sps). \<lparr>sub_evaluator = e, allocatedSPS = sps, sampledSPS = 0\<rparr>) subPolicyParams,
      maxTotalSPS = maxTotalSpansPerSecond, comp_currentSecond = 0\<rparr>"

fun composite_loop ::
  "'e PolicyEvaluator \<Rightarrow> int \<Rightarrow> 'e subpolicy list \<Rightarrow> trace_id \<Rightarrow> TraceData \<Rightarrow> (Decision \<times> string option) \<times> 'e subpolicy list" where
  "composite_loop eval maxTotal [] traceID trace = ((NotSampled, None), [])"
| "composite_loop eval maxTotal (sub # subs) traceID trace =
     (case eval (sub_evaluator sub) traceID trace of ((decision, err), e') \<Rightarrow>
        let sub' = sub\<lparr>sub_evaluator := e'\<rparr> in
        case err of Some er \<Rightarrow> ((Unspecified, Some er), sub' # subs)
        | None \<Rightarrow>
            if decision = Sampled \<or> decision = InvertSampled
            then (let spansInSecondIfSampled = wrap64 (sampledSPS sub + SpanCount trace)
                  in if spansInSecondIfSampled \<le> allocatedSPS sub \<and> spansInSecondIfSampled \<le> maxTotal
                     then ((Sampled, None), sub'\<lparr>sampledSPS := spansInSecondIfSampled\<rparr> # subs)
                     else ((NotSampled, None), sub' # subs))
            else (case composite_loop eval maxTotal subs traceID trace of (r, subs') \<Rightarrow> (r, sub' # subs')))"

definition Composite_Evaluate ::
  "'e PolicyEvaluator \<Rightarrow> int \<Rightarrow> 'e Composite \<Rightarrow> trace_id \<Rightarrow> TraceData \<Rightarrow> (Decision \<times> string option) \<times> 'e Composite" where
  "Composite_Evaluate eval currSecond c traceID trace =
     (let c = (if comp_currentSecond c \<noteq> currSecond
               then c\<lparr>comp_currentSecond := currSecond,
                      subpolicies := map (\<lambda>sub. sub\<lparr>sampledSPS := 0\<rparr>) (subpolicies c)\<rparr>
               else c)
      in case composite_loop eval (maxTotalSPS c) (subpolicies c) traceID trace of
           (r, subs') \<Rightarrow> (r, c\<lparr>subpolicies := subs'\<rparr>))"

definition Composite_OnDroppedSpans :: "Decision \<times> string option" where
  "Composite_OnDroppedSpans = (Sampled, None)"

section \<open>The contract of an evaluator\<close>

text \<open>
  What the evaluators the processor is configured with promise their clients: the decision depends
  on the trace only, whatever has been evaluated before, and evaluating keeps that meaning.
\<close>

locale steady_evaluator =
  fixes eval :: "'e PolicyEvaluator"
    and meaning :: "'e \<Rightarrow> trace_id \<Rightarrow> TraceData \<Rightarrow> Decision \<times> string option"
    and ok :: "'e \<Rightarrow> bool"
  assumes eval_meaning: "ok e \<Longrightarrow> eval e traceID trace = (r, e') \<Longrightarrow> r = meaning e traceID trace"
    and eval_keeps: "ok e \<Longrightarrow> eval e traceID trace = (r, e') \<Longrightarrow> ok e' \<and> meaning e' = meaning e"
begin

lemma And_sampled:
  "\<forall>e\<in>set es. ok e \<Longrightarrow> And_Evaluate eval es traceID trace = ((d, None), es') \<Longrightarrow>
     d = (if \<exists>e\<in>set es. fst (meaning e traceID trace) \<in> {NotSampled, InvertNotSampled} then NotSampled else Sampled)
   \<and> (\<forall>e\<in>set es'. ok e)"
proof (induction es arbitrary: es')
  case (Cons e es)
  obtain d1 err e1 where ev: "eval e traceID trace = ((d1, err), e1)" by (metis prod.exhaust)
  have m: "meaning e traceID trace = (d1, err)" and k: "ok e1"
    using eval_meaning [OF _ ev] eval_keeps [OF _ ev] Cons.prems(1) by auto
  show ?case
  proof (cases err)
    case None
    with ev m k Cons show ?thesis by (auto split: if_splits prod.splits)
  next
    case (Some er)
    with ev Cons.prems show ?thesis by auto
  qed
qed simp

end

section \<open>Properties\<close>

lemma AsTime_range: "real_timestamp ts \<Longrightarrow> 0 < AsTime ts \<and> AsTime ts < 2 ^ 63"
proof -
  assume ts: "real_timestamp ts"
  then have "AsTime ts \<le> AsTime (2 ^ 63 - 1)" by (intro AsTime_mono) (auto simp: real_timestamp_def word_le_def word_less_def uint_sub_if')
  moreover have "AsTime 1 \<le> AsTime ts"
    using ts by (intro AsTime_mono) (auto simp: real_timestamp_def word_le_sub1 word_neq_0_conv)
  ultimately show ?thesis by (simp add: AsTime_def)
qed

text \<open>On a trace with spans whose timestamps are set, the latency filter, which may stop at any
  span, decides exactly by the time from the earliest start to the latest end of all its spans.\<close>

theorem latency_exact:
  assumes "all_spans (ReceivedBatches trace) \<noteq> []"
    and "\<forall>sp\<in>set (all_spans (ReceivedBatches trace)). real_times sp"
  shows "latency_Evaluate thresholdMs trace =
    (if thresholdMs \<le> go_div (AsTime (Max (EndTimestamp ` set (all_spans (ReceivedBatches trace))))
                         - AsTime (Min (StartTimestamp ` set (all_spans (ReceivedBatches trace))))) 1000000
     then Sampled else NotSampled, None)"
proof -
  let ?all = "all_spans (ReceivedBatches trace)"
  obtain sp ps where all: "?all = sp # ps" using assms(1) by (cases ?all) auto
  let ?s = "(StartTimestamp sp, EndTimestamp sp)"
  have real: "real_times sp" "\<forall>sp\<in>set ps. real_times sp" using assms(2) all by auto
  then have r: "real_timestamp (StartTimestamp sp)" "real_timestamp (EndTimestamp sp)"
    by (simp_all add: real_times_def)
  note fold = latency_fold_Min_Max [OF real(2) r]
  let ?f = "latency_fold ps ?s"
  have c: "latency_check thresholdMs sp (0, 0) = (thresholdMs \<le> duration_ms ?s, ?s)"
    by (simp add: latency_check_def duration_ms_def latency_min_def latency_max_def Let_def)
  have le: "duration_ms ?s \<le> duration_ms ?f"
    using latency_fold_grows [OF real(2) r] r unfolding latency_fold_def
    by (auto simp: real_timestamp_def intro!: duration_ms_mono)
  have any: "fst (spans_any (latency_check thresholdMs) ?all (0, 0)) \<longleftrightarrow> thresholdMs \<le> duration_ms ?f"
    using latency_spans_any [OF real(2) r] le c by (auto simp: all)
  have "time_sub (AsTime (snd ?f)) (AsTime (fst ?f)) = AsTime (snd ?f) - AsTime (fst ?f)"
    using latency_fold_grows [OF real(2) r] AsTime_range unfolding latency_fold_def
    by (intro time_sub_exact) (smt (verit) case_prod_conv fst_conv snd_conv int64_range_def)
  with any fold show ?thesis
    by (simp add: latency_Evaluate_def hasSpanWithCondition_flat case_prod_beta all duration_ms_def)
qed

definition sample_trace :: "(string \<times> attr_value) list \<Rightarrow> (uint64 \<times> uint64) list \<Rightarrow> TraceData" where
  "sample_trace attrs iv =
     \<lparr>Decisions = [], ArrivalTime = 0, DecisionTime = 0, SpanCount = int (length iv),
      ReceivedBatches = [\<lparr>Resource_Attributes = map_of attrs,
        ScopeSpans = [map (\<lambda>(s, e). \<lparr>Span_TraceID = [1], Span_Attributes = map_of attrs, StartTimestamp = s,
          EndTimestamp = e, Status_Code = StatusCodeUnset, TraceState_AsRaw = []\<rparr>) iv]\<rparr>],
      FinalDecision = Unspecified\<rparr>"

theorem latency_exact_witness:
  "latency_Evaluate 11 (sample_trace [] [(2000000, 4000000), (1000000, 12000000)]) = (Sampled, None)
   \<and> latency_Evaluate 12 (sample_trace [] [(2000000, 4000000), (1000000, 12000000)]) = (NotSampled, None)"
  by (subst (1 2) latency_exact)
     (simp_all add: sample_trace_def all_spans_def spans_of_def real_times_def real_timestamp_def AsTime_def)

text \<open>The filter evaluates trace after trace, keeping its cache.\<close>

fun stringAttribute_run :: "'c sampling_lib \<Rightarrow> 'c stringAttributeFilter \<Rightarrow> TraceData list \<Rightarrow> (Decision \<times> string option) list" where
  "stringAttribute_run lib saf [] = []"
| "stringAttribute_run lib saf (t # ts) =
     (case stringAttribute_Evaluate lib saf t of (r, saf') \<Rightarrow> r # stringAttribute_run lib saf' ts)"

lemma addFilters_Done: "addFilters lib es = Done rules \<Longrightarrow> rules = es"
  by (induction es arbitrary: rules) (auto simp: bind_outcome_Done split: if_splits)

lemma NewStringAttributeFilter_ok:
  assumes "lru_lawful lib contents" "NewStringAttributeFilter lib key values regexp n invert = Done saf"
  shows "matcher_ok lib contents (saf_matcher saf) \<and> saf_key saf = key \<and> saf_invertMatch saf = invert
    \<and> matcher_meaning lib (saf_matcher saf) =
        (\<lambda>s. if regexp then \<exists>r\<in>set values. regex_MatchString lib r s else s \<noteq> [] \<and> s \<in> set values)"
  using assms by (auto simp: NewStringAttributeFilter_def bind_outcome_Done Let_def lru_lawful_def fun_eq_iff
      dest!: addFilters_Done split: if_splits)

lemma stringAttribute_run_meaning:
  "lru_lawful lib contents \<Longrightarrow> matcher_ok lib contents (saf_matcher saf) \<Longrightarrow>
     stringAttribute_run lib saf ts = map (\<lambda>t. (saf_meaning lib saf t, None)) ts"
proof (induction ts arbitrary: saf)
  case (Cons t ts)
  obtain r saf' where e: "stringAttribute_Evaluate lib saf t = (r, saf')" by fastforce
  from stringAttribute_Evaluate_correct [OF Cons.prems e] Cons.IH [OF Cons.prems(1), of saf'] e
  show ?case by simp
qed simp

text \<open>Caching is transparent: whatever the LRU cache evicts, a string attribute filter decides
  every trace of a sequence as the plain search for a matching resource or span attribute does.\<close>

theorem string_filter_cache_transparent:
  assumes "lru_lawful lib contents"
    and "NewStringAttributeFilter lib key values regexp n invert = Done saf"
  shows "stringAttribute_run lib saf ts =
    map (\<lambda>t. (string_decision
                (\<lambda>s. if regexp then \<exists>r\<in>set values. regex_MatchString lib r s else s \<noteq> [] \<and> s \<in> set values)
                key invert (ReceivedBatches t), None)) ts"
  using stringAttribute_run_meaning [OF assms(1)] NewStringAttributeFilter_ok [OF assms]
  by (simp add: saf_meaning_def)

text \<open>A cache of one entry and prefix patterns.\<close>

definition sample_lib :: "(string \<times> bool) list sampling_lib" where
  "sample_lib = \<lparr>lru_New = (\<lambda>_. []), lru_Get = (\<lambda>k c. (map_of c k, c)), lru_Add = (\<lambda>k v c. [(k, v)]),
     regex_Compiles = (\<lambda>r. r \<noteq> ''(''), regex_MatchString = (\<lambda>r s. take (length r) s = r)\<rparr>"

lemma sample_lib_lawful: "lru_lawful sample_lib map_of"
  by (auto simp: lru_lawful_def sample_lib_def map_le_def)

theorem string_filter_cache_transparent_witness:
  "\<exists>saf. NewStringAttributeFilter sample_lib ''env'' [''prod''] True 1 False = Done saf
   \<and> stringAttribute_run sample_lib saf
       [sample_trace [(''env'', \<lparr>Value_Int = 0, Value_Str = ''prod-eu''\<rparr>)] [(1, 2)],
        sample_trace [(''env'', \<lparr>Value_Int = 0, Value_Str = ''dev''\<rparr>)] [(1, 2)]]
       = [(Sampled, None), (NotSampled, None)]"
proof -
  obtain saf where n: "NewStringAttributeFilter sample_lib ''env'' [''prod''] True 1 False = Done saf"
    by (simp add: NewStringAttributeFilter_def sample_lib_def)
  show ?thesis
    by (rule exI [of _ saf], rule conjI [OF n], subst string_filter_cache_transparent [OF sample_lib_lawful n])
       (simp add: string_decision_def trace_hit_def attr_hit_def sample_trace_def spans_of_def sample_lib_def)
qed

lemma threshold_100: "calculateThreshold (float64_div_100 (Finite_f64 100)) = Done (- 1)"
  by code_simp

text \<open>Probabilistic sampling is nested: with the same salt, what a sampling percentage keeps every
  larger percentage keeps too, and from 100 on every trace is kept.\<close>

theorem probabilistic_nested:
  assumes "NewProbabilisticSampler salt (Finite_f64 p) = Done s"
    and "NewProbabilisticSampler salt (Finite_f64 q) = Done s'" and "p \<le> q"
  shows "(probabilistic_Evaluate s traceID = (Sampled, None) \<longrightarrow> probabilistic_Evaluate s' traceID = (Sampled, None))
    \<and> (100 \<le> q \<longrightarrow> probabilistic_Evaluate s' traceID = (Sampled, None))"
proof -
  have "threshold s' = - 1" if "100 \<le> q"
  proof -
    obtain m where m: "NewProbabilisticSampler salt (Finite_f64 100) = Done m" "threshold m = - 1"
      by (simp add: NewProbabilisticSampler_def threshold_100 del: float64_div_100.simps)
    with threshold_mono [OF that m(1) assms(2)] show ?thesis by (simp add: word_order.extremum_uniqueI)
  qed
  with threshold_mono [OF assms(3,1,2)] show ?thesis
    by (auto simp: probabilistic_Evaluate_def split: if_splits)
qed

theorem probabilistic_nested_witness:
  "\<exists>s s'. NewProbabilisticSampler [] (Finite_f64 10) = Done s \<and> NewProbabilisticSampler [] (Finite_f64 100) = Done s'
     \<and> probabilistic_Evaluate s' [1, 2, 3] = (Sampled, None)"
proof -
  obtain s s' where s: "NewProbabilisticSampler [] (Finite_f64 10) = Done s"
    "NewProbabilisticSampler [] (Finite_f64 100) = Done s'"
    by (simp add: NewProbabilisticSampler_def)
  from probabilistic_nested [OF s, of "[1, 2, 3]"] s show ?thesis by auto
qed

text \<open>A sequence of evaluations, each at the second its clock reads: per evaluation, the second and
  the spans let through.\<close>

fun rateLimiting_run :: "rateLimiting \<Rightarrow> (int \<times> TraceData) list \<Rightarrow> (int \<times> int) list" where
  "rateLimiting_run r [] = []"
| "rateLimiting_run r ((sec, t) # ts) =
     (case rateLimiting_Evaluate sec r t of ((d, err), r') \<Rightarrow>
        (sec, if d = Sampled then SpanCount t else 0) # rateLimiting_run r' ts)"

definition admitted :: "int \<Rightarrow> (int \<times> int) list \<Rightarrow> int" where
  "admitted sec out = (\<Sum>(s, n)\<leftarrow>out. if s = sec then n else 0)"

lemma admitted_simps [simp]:
  "admitted sec [] = 0" "admitted sec ((s, n) # out) = (if s = sec then n else 0) + admitted sec out"
  by (simp_all add: admitted_def)

lemma admitted_before:
  "\<forall>(s, t)\<in>set ts. sec < s \<Longrightarrow> admitted sec (rateLimiting_run r ts) = 0"
  by (induction r ts rule: rateLimiting_run.induct) (auto split: prod.splits)

definition small_counts :: "int \<Rightarrow> (int \<times> TraceData) list \<Rightarrow> bool" where
  "small_counts limit ts \<longleftrightarrow> (\<forall>(s, t)\<in>set ts. 0 \<le> SpanCount t \<and> SpanCount t + max 0 limit < 2 ^ 63)"

lemma rateLimiting_run_bound:
  assumes "small_counts (spansPerSecond r) ts" and "sorted (rl_currentSecond r # map fst ts)"
    and "0 \<le> spansInCurrentSecond r" and "spansInCurrentSecond r \<le> max 0 (spansPerSecond r - 1)"
  shows "admitted sec (rateLimiting_run r ts)
      + (if sec = rl_currentSecond r then spansInCurrentSecond r else 0) \<le> max 0 (spansPerSecond r - 1)"
  using assms
proof (induction r ts rule: rateLimiting_run.induct)
  case (1 r)
  then show ?case by simp
next
  case (2 r now t ts)
  define r0 where "r0 = (if rl_currentSecond r \<noteq> now
    then r\<lparr>rl_currentSecond := now, spansInCurrentSecond := 0\<rparr> else r)"
  have r0: "rl_currentSecond r0 = now" "spansPerSecond r0 = spansPerSecond r" "0 \<le> spansInCurrentSecond r0"
    "spansInCurrentSecond r0 \<le> max 0 (spansPerSecond r - 1)"
    using "2.prems" by (auto simp: r0_def)
  have n: "0 \<le> SpanCount t" "SpanCount t + max 0 (spansPerSecond r) < 2 ^ 63"
    using "2.prems"(1) by (auto simp: small_counts_def)
  then have w: "wrap64 (spansInCurrentSecond r0 + SpanCount t) = spansInCurrentSecond r0 + SpanCount t"
    using r0 by (intro wrap64_id) (auto simp: int64_range_def)
  define adm where "adm = (if spansInCurrentSecond r0 + SpanCount t < spansPerSecond r then SpanCount t else 0)"
  define r1 where "r1 = r0\<lparr>spansInCurrentSecond := spansInCurrentSecond r0 + adm\<rparr>"
  have ev: "rateLimiting_Evaluate now r t = ((if adm = SpanCount t \<and> spansInCurrentSecond r0 + SpanCount t < spansPerSecond r
      then Sampled else NotSampled, None), r1)"
    by (auto simp: rateLimiting_Evaluate_def Let_def w r1_def adm_def r0(2) simp flip: r0_def)
  then have run: "rateLimiting_run r ((now, t) # ts) = (now, adm) # rateLimiting_run r1 ts"
    by (auto simp: adm_def)
  have r1: "rl_currentSecond r1 = now" "spansPerSecond r1 = spansPerSecond r"
    "0 \<le> spansInCurrentSecond r1" "spansInCurrentSecond r1 \<le> max 0 (spansPerSecond r - 1)"
    "spansInCurrentSecond r1 = spansInCurrentSecond r0 + adm"
    using r0 n by (auto simp: r1_def adm_def)
  have IH: "admitted sec (rateLimiting_run r1 ts) + (if sec = now then spansInCurrentSecond r1 else 0)
      \<le> max 0 (spansPerSecond r - 1)"
    using "2.IH" [OF ev [symmetric] refl] "2.prems" r1 by (auto simp: small_counts_def)
  show ?case
  proof (cases "sec = rl_currentSecond r \<and> now \<noteq> sec")
    case True
    with "2.prems"(2) have "\<forall>(s, t)\<in>set ((now, t) # ts). sec < s" by fastforce
    from admitted_before [OF this] True "2.prems"(4) show ?thesis by simp
  next
    case False
    then show ?thesis using IH r1(5) "2.prems"(3) unfolding run by (auto simp: r0_def)
  qed
qed

text \<open>The rate limiter lets fewer spans through in every second than the configured number (none
  when that is not positive), whatever the traces, as long as the clock does not go backwards.\<close>

theorem rate_limit_bound:
  assumes "small_counts limit ts" and "sorted (0 # map fst ts)"
  shows "admitted sec (rateLimiting_run (NewRateLimiting limit) ts) \<le> max 0 (limit - 1)"
  using rateLimiting_run_bound [of "NewRateLimiting limit" ts sec] assms
  by (auto simp: NewRateLimiting_def split: if_splits)

theorem rate_limit_bound_witness:
  "let ts = [(5, sample_trace [] [(1, 2), (1, 3)]), (5, sample_trace [] [(1, 2)]), (6, sample_trace [] [(1, 2)])]
   in admitted 5 (rateLimiting_run (NewRateLimiting 3) ts) = 2 \<and> admitted 5 (rateLimiting_run (NewRateLimiting 3) ts) \<le> max 0 (3 - 1)"
proof -
  let ?ts = "[(5, sample_trace [] [(1, 2), (1, 3)]), (5, sample_trace [] [(1, 2)]), (6, sample_trace [] [(1, 2)])]"
  have "admitted 5 (rateLimiting_run (NewRateLimiting 3) ?ts) \<le> max 0 (3 - 1)"
    by (rule rate_limit_bound) (simp_all add: small_counts_def sample_trace_def)
  moreover have "admitted 5 (rateLimiting_run (NewRateLimiting 3) ?ts) = 2"
    by (simp add: rateLimiting_Evaluate_def NewRateLimiting_def sample_trace_def wrap64_def)
  ultimately show ?thesis by simp
qed

text \<open>The traces a composite evaluator lets through within one second.\<close>

fun Composite_run :: "'e PolicyEvaluator \<Rightarrow> int \<Rightarrow> 'e Composite \<Rightarrow> (trace_id \<times> TraceData) list \<Rightarrow> int \<times> 'e Composite" where
  "Composite_run eval sec c [] = (0, c)"
| "Composite_run eval sec c ((i, t) # ts) =
     (case Composite_Evaluate eval sec c i t of ((d, err), c') \<Rightarrow>
        case Composite_run eval sec c' ts of (n, c'') \<Rightarrow> ((if d = Sampled then SpanCount t else 0) + n, c''))"

definition sub_cap :: "int \<Rightarrow> 'e subpolicy \<Rightarrow> int" where
  "sub_cap maxTotal sub = max 0 (min (allocatedSPS sub) maxTotal)"

definition subs_within :: "int \<Rightarrow> 'e subpolicy list \<Rightarrow> bool" where
  "subs_within maxTotal subs \<longleftrightarrow> (\<forall>sub\<in>set subs. 0 \<le> sampledSPS sub \<and> sampledSPS sub \<le> sub_cap maxTotal sub)"

definition sampled_total :: "'e subpolicy list \<Rightarrow> int" where
  "sampled_total subs = (\<Sum>sub\<leftarrow>subs. sampledSPS sub)"

lemma composite_loop_counts:
  assumes "0 \<le> SpanCount trace" "SpanCount trace + max 0 maxTotal < 2 ^ 63"
  shows "subs_within maxTotal subs \<Longrightarrow> composite_loop eval maxTotal subs i trace = ((d, err), subs') \<Longrightarrow>
    subs_within maxTotal subs' \<and> map (sub_cap maxTotal) subs' = map (sub_cap maxTotal) subs
  \<and> sampled_total subs' = sampled_total subs + (if d = Sampled then SpanCount trace else 0)"
proof (induction subs arbitrary: d err subs')
  case (Cons sub subs)
  obtain d1 er e' where ev: "eval (sub_evaluator sub) i trace = ((d1, er), e')" by (metis prod.exhaust)
  have "0 \<le> sampledSPS sub" "sampledSPS sub \<le> max 0 maxTotal"
    using Cons.prems(1) by (auto simp: subs_within_def sub_cap_def)
  then have w: "wrap64 (sampledSPS sub + SpanCount trace) = sampledSPS sub + SpanCount trace"
    using assms by (intro wrap64_id) (auto simp: int64_range_def)
  let ?n = "sampledSPS sub + SpanCount trace"
  show ?case
  proof (cases "er = None \<and> d1 \<noteq> Sampled \<and> d1 \<noteq> InvertSampled")
    case True
    obtain s1 where rest: "composite_loop eval maxTotal subs i trace = ((d, err), s1)"
      and s: "subs' = sub\<lparr>sub_evaluator := e'\<rparr> # s1"
      using True Cons.prems(2) ev by (auto simp: Let_def split: prod.splits)
    have "subs_within maxTotal subs" using Cons.prems(1) by (simp add: subs_within_def)
    from Cons.IH [OF this rest] Cons.prems(1) show ?thesis
      unfolding s by (simp add: subs_within_def sub_cap_def sampled_total_def)
  next
    case False
    define adm where "adm \<longleftrightarrow> er = None \<and> ?n \<le> allocatedSPS sub \<and> ?n \<le> maxTotal"
    have s: "subs' = sub\<lparr>sub_evaluator := e', sampledSPS := (if adm then ?n else sampledSPS sub)\<rparr> # subs"
      and d: "d = Sampled \<longleftrightarrow> adm"
      using False Cons.prems(2) ev by (auto simp: w adm_def Let_def split: option.splits if_splits)
    show ?thesis using Cons.prems(1) assms(1)
      unfolding s d by (simp add: adm_def subs_within_def sub_cap_def sampled_total_def)
  qed
qed (auto simp: subs_within_def sampled_total_def)

lemma Composite_run_counts:
  assumes "\<forall>(i, t)\<in>set ts. 0 \<le> SpanCount t \<and> SpanCount t + max 0 (maxTotalSPS c) < 2 ^ 63"
    and "subs_within (maxTotalSPS c) (subpolicies c)" and "comp_currentSecond c = sec"
    and "Composite_run eval sec c ts = (n, c')"
  shows "subs_within (maxTotalSPS c) (subpolicies c')
    \<and> map (sub_cap (maxTotalSPS c)) (subpolicies c') = map (sub_cap (maxTotalSPS c)) (subpolicies c)
    \<and> sampled_total (subpolicies c') = sampled_total (subpolicies c) + n"
  using assms
proof (induction eval sec c ts arbitrary: n c' rule: Composite_run.induct)
  case (1 eval sec c)
  then show ?case by simp
next
  case (2 eval sec c i t ts)
  obtain d err subs1 where l: "composite_loop eval (maxTotalSPS c) (subpolicies c) i t = ((d, err), subs1)"
    by (metis prod.exhaust)
  let ?c1 = "c\<lparr>subpolicies := subs1\<rparr>"
  have ev: "Composite_Evaluate eval sec c i t = ((d, err), ?c1)"
    using "2.prems"(3) l by (simp add: Composite_Evaluate_def)
  obtain m where run: "Composite_run eval sec ?c1 ts = (m, c')"
    and n: "n = (if d = Sampled then SpanCount t else 0) + m"
    using "2.prems"(4) ev by (auto split: prod.splits)
  have step: "subs_within (maxTotalSPS c) subs1"
    "map (sub_cap (maxTotalSPS c)) subs1 = map (sub_cap (maxTotalSPS c)) (subpolicies c)"
    "sampled_total subs1 = sampled_total (subpolicies c) + (if d = Sampled then SpanCount t else 0)"
    using composite_loop_counts [OF _ _ "2.prems"(2) l] "2.prems"(1) by auto
  from "2.IH" [OF ev [symmetric] refl, of m c'] "2.prems"(1,3) step run n show ?case by auto
qed

lemma sampled_total_le: "subs_within maxTotal subs \<Longrightarrow> sampled_total subs \<le> sum_list (map (sub_cap maxTotal) subs)"
  by (auto simp: subs_within_def sampled_total_def intro!: sum_list_mono)

text \<open>Within a second, starting from its reset counters, a composite evaluator lets through at
  most the sum over the sub-policies of the smaller of their allocation and the total, whatever the
  sub-policies decide.\<close>

theorem composite_rate_bound:
  assumes "\<forall>(i, t)\<in>set ts. 0 \<le> SpanCount t \<and> SpanCount t + max 0 budget < 2 ^ 63"
    and "sec \<noteq> 0" and "Composite_run eval sec (NewComposite budget params) ts = (n, c)"
  shows "n \<le> (\<Sum>(e, sps)\<leftarrow>params. max 0 (min sps budget))"
proof -
  let ?subs = "map (\<lambda>(e, sps). \<lparr>sub_evaluator = e, allocatedSPS = sps, sampledSPS = 0\<rparr>) params"
  let ?c = "\<lparr>subpolicies = ?subs, maxTotalSPS = budget, comp_currentSecond = sec\<rparr>"
  have z: "map (\<lambda>sub. sub\<lparr>sampledSPS := 0\<rparr>) ?subs = ?subs" by auto
  have first: "Composite_Evaluate eval sec (NewComposite budget params) i t = Composite_Evaluate eval sec ?c i t" for i t
    using assms(2) z by (simp add: Composite_Evaluate_def NewComposite_def del: map_map)
  have caps: "map (sub_cap budget) ?subs = map (\<lambda>(e, sps). max 0 (min sps budget)) params"
    by (auto simp: sub_cap_def)
  show ?thesis
  proof (cases ts)
    case Nil
    have "0 \<le> (\<Sum>(e, sps)\<leftarrow>params. max 0 (min sps budget))" by (intro sum_list_nonneg) auto
    with Nil assms(3) show ?thesis by simp
  next
    case (Cons a ts')
    obtain i t where "a = (i, t)" by fastforce
    with assms(3) first Cons have run: "Composite_run eval sec ?c ts = (n, c)" by simp
    have within: "subs_within budget ?subs" by (auto simp: subs_within_def sub_cap_def)
    have "sampled_total ?subs = 0" by (induction params) (auto simp: sampled_total_def)
    with Composite_run_counts [of ts ?c sec, OF _ _ _ run] assms(1) within
    have "subs_within budget (subpolicies c)" "map (sub_cap budget) (subpolicies c) = map (sub_cap budget) ?subs"
      "sampled_total (subpolicies c) = n" by auto
    with sampled_total_le [of budget "subpolicies c"] caps show ?thesis by (simp del: map_map)
  qed
qed

text \<open>Two sub-policies, each claiming the traces of one id.\<close>

definition sample_claimer :: "trace_id PolicyEvaluator" where
  "sample_claimer e traceID trace = ((if traceID = e then Sampled else NoResult, None), e)"

definition sample_three_spans :: TraceData where
  "sample_three_spans = sample_trace [] [(1, 2), (1, 3), (1, 4)]"

lemma sample_composite_run:
  "fst (Composite_run sample_claimer 7 (NewComposite 3 [([1], 3), ([2], 3)])
     [([1], sample_three_spans), ([2], sample_three_spans), ([1], sample_three_spans)]) = 6"
  by (simp add: Composite_Evaluate_def NewComposite_def sample_claimer_def sample_three_spans_def
      sample_trace_def wrap64_def)

theorem composite_rate_bound_witness:
  "(6 :: int) \<le> (\<Sum>(e, sps)\<leftarrow>[([1] :: trace_id, 3), ([2], 3)]. max 0 (min sps 3))"
proof -
  let ?ts = "[([1], sample_three_spans), ([2], sample_three_spans), ([1], sample_three_spans)]"
  obtain c where "Composite_run sample_claimer 7 (NewComposite 3 [([1], 3), ([2], 3)]) ?ts = (6, c)"
    using sample_composite_run by (metis prod.collapse)
  from composite_rate_bound [OF _ _ this] show ?thesis
    by (simp add: sample_three_spans_def sample_trace_def)
qed

text \<open>The configured total of a composite evaluator is not a bound on what it lets through in a
  second: it is compared with each sub-policy's own counter, so two sub-policies sharing a total of 3
  spans per second let 6 through.\<close>

theorem composite_total_exceeded:
  "\<exists>ts n c. Composite_run sample_claimer 7 (NewComposite 3 [([1], 3), ([2], 3)]) ts = (n, c)
     \<and> maxTotalSPS c < n"
proof -
  let ?c0 = "NewComposite 3 [([1 :: byte], 3), ([2], 3)]"
  let ?ts = "[([1 :: byte], sample_three_spans), ([2], sample_three_spans), ([1], sample_three_spans)]"
  have "maxTotalSPS (snd (Composite_run sample_claimer 7 ?c0 ?ts)) = 3"
    by (simp add: Composite_Evaluate_def NewComposite_def sample_claimer_def sample_three_spans_def
        sample_trace_def wrap64_def)
  moreover obtain n c where "Composite_run sample_claimer 7 ?c0 ?ts = (n, c)" by fastforce
  ultimately show ?thesis using sample_composite_run by (intro exI [of _ ?ts] exI [of _ n] exI [of _ c]) simp
qed

end
