(* ===== verification/TailEvaluator.thy ===== *)
theory TailEvaluator
  imports Sampling
begin

text \<open>
  \<^verbatim>\<open>processor/signoztailsampler/config.go\<close> and \<^verbatim>\<open>evaluator.go\<close>: the configured policies and
  the evaluator built from each. \<^verbatim>\<open>sort.Slice\<close>, which is not stable, is the parameter
  \<open>srt\<close>: any sorting of the sub-policies by priority.
\<close>

section \<open>Configuration\<close>

record NumericAttributeCfg =
  nc_Key :: string
  nc_MinValue :: int
  nc_MaxValue :: int

record ProbabilisticCfg =
  HashSalt :: string
  SamplingPercentage :: float64

record StringAttributeCfg =
  sc_Key :: string
  sc_Values :: "string list"
  EnabledRegexMatching :: bool
  CacheMaxSize :: int
  InvertMatch :: bool

record PolicyFilterCfg =
  FilterOp :: string
  StringAttributeCfgs :: "StringAttributeCfg list"
  NumericAttributeCfgs :: "NumericAttributeCfg list"

record BasePolicy =
  bp_Name :: string
  bp_Type :: string
  bp_Priority :: int
  bp_ProbabilisticCfg :: ProbabilisticCfg
  bp_PolicyFilterCfg :: PolicyFilterCfg

record PolicyGroupCfg =
  pg_BasePolicy :: BasePolicy
  SubPolicies :: "BasePolicy list"

record tail_Config =
  DecisionWait :: duration
  NumTraces :: uint64
  ExpectedNewTracesPerSec :: uint64
  PolicyCfgs :: "PolicyGroupCfg list"
  cfg_Version :: int

definition tail_createDefaultConfig :: tail_Config where
  "tail_createDefaultConfig = \<lparr>DecisionWait = 30 * 10 ^ 9, NumTraces = 50000,
     ExpectedNewTracesPerSec = 0, PolicyCfgs = [], cfg_Version = 0\<rparr>"

text \<open>The names of the policies without an explicit priority: no name, no error.\<close>

definition tail_Validate :: "tail_Config \<Rightarrow> string list" where
  "tail_Validate c =
     map (\<lambda>p. bp_Name (pg_BasePolicy p) @ '': priority must be greater than 1'')
       (filter (\<lambda>p. bp_Priority (pg_BasePolicy p) = 0) (PolicyCfgs c))"

section \<open>Filters and samplers\<close>

text \<open>The implementations of the interface that the configured evaluator uses.\<close>

datatype 'c filter_evaluator =
  StringFilter "'c stringAttributeFilter"
| NumericFilter numericAttributeFilter

fun filter_Evaluate :: "'c sampling_lib \<Rightarrow> 'c filter_evaluator PolicyEvaluator" where
  "filter_Evaluate lib (StringFilter saf) traceID trace =
     (case stringAttribute_Evaluate lib saf trace of (r, saf') \<Rightarrow> (r, StringFilter saf'))"
| "filter_Evaluate lib (NumericFilter naf) traceID trace = (numericAttribute_Evaluate naf trace, NumericFilter naf)"

datatype sampler_evaluator = NeverSampler | AlwaysSampler | ProbabilisticSampler probabilisticSampler

fun sampler_Evaluate :: "sampler_evaluator \<Rightarrow> trace_id \<Rightarrow> TraceData \<Rightarrow> Decision \<times> string option" where
  "sampler_Evaluate NeverSampler traceID trace = neverSample_Evaluate"
| "sampler_Evaluate AlwaysSampler traceID trace = alwaysSample_Evaluate"
| "sampler_Evaluate (ProbabilisticSampler s) traceID trace = probabilistic_Evaluate s traceID"

fun prepare_string_filters :: "'c sampling_lib \<Rightarrow> StringAttributeCfg list \<Rightarrow> 'c filter_evaluator list outcome" where
  "prepare_string_filters lib [] = Done []"
| "prepare_string_filters lib (s # ss) =
     bind_outcome (NewStringAttributeFilter lib (sc_Key s) (sc_Values s) (EnabledRegexMatching s) (CacheMaxSize s) (InvertMatch s)) (\<lambda>f.
     bind_outcome (prepare_string_filters lib ss) (\<lambda>fs. Done (StringFilter f # fs)))"

definition prepareFilterEvaluators :: "'c sampling_lib \<Rightarrow> PolicyFilterCfg \<Rightarrow> 'c filter_evaluator list outcome" where
  "prepareFilterEvaluators lib cfg =
     bind_outcome (prepare_string_filters lib (StringAttributeCfgs cfg)) (\<lambda>fs.
       Done (fs @ map (\<lambda>n. NumericFilter \<lparr>naf_key = nc_Key n, minValue = nc_MinValue n, maxValue = nc_MaxValue n\<rparr>)
                      (NumericAttributeCfgs cfg)))"

section \<open>The evaluator of a policy\<close>

datatype 'c defaultEvaluator =
  DefaultEvaluator (de_name: string) (de_sampler: sampler_evaluator) (samplingMethod: string)
    (filterOperator: string) (filters: "'c filter_evaluator list") (subEvaluators: "'c defaultEvaluator list")

definition choose_sampler :: "float64 \<Rightarrow> (string \<times> sampler_evaluator) outcome" where
  "choose_sampler percentage =
     (if percentage = Finite_f64 0 then Done (''exclude_all'', NeverSampler)
      else if percentage = Finite_f64 100 then Done (''include_all'', AlwaysSampler)
      else bind_outcome (NewProbabilisticSampler [] percentage) (\<lambda>s. Done (''probabilistic'', ProbabilisticSampler s)))"

definition new_evaluator ::
  "'c sampling_lib \<Rightarrow> BasePolicy \<Rightarrow> 'c defaultEvaluator list outcome \<Rightarrow> 'c defaultEvaluator outcome" where
  "new_evaluator lib policyCfg subs =
     bind_outcome (prepareFilterEvaluators lib (bp_PolicyFilterCfg policyCfg)) (\<lambda>fs.
     bind_outcome subs (\<lambda>subEvals.
     bind_outcome (choose_sampler (SamplingPercentage (bp_ProbabilisticCfg policyCfg))) (\<lambda>(mname, smp).
       Done (DefaultEvaluator (bp_Name policyCfg) smp mname (FilterOp (bp_PolicyFilterCfg policyCfg)) fs subEvals))))"

fun new_sub_evaluators :: "'c sampling_lib \<Rightarrow> BasePolicy list \<Rightarrow> 'c defaultEvaluator list outcome" where
  "new_sub_evaluators lib [] = Done []"
| "new_sub_evaluators lib (subRule # rules) =
     bind_outcome (new_evaluator lib subRule (Done [])) (\<lambda>e.
     bind_outcome (new_sub_evaluators lib rules) (\<lambda>es. Done (e # es)))"

definition NewDefaultEvaluator ::
  "'c sampling_lib \<Rightarrow> (BasePolicy list \<Rightarrow> BasePolicy list) \<Rightarrow> BasePolicy \<Rightarrow> BasePolicy list \<Rightarrow> 'c defaultEvaluator outcome" where
  "NewDefaultEvaluator lib srt policyCfg subCfgs =
     new_evaluator lib policyCfg (new_sub_evaluators lib (srt subCfgs))"

text \<open>
  \<^verbatim>\<open>strings.ToLower(op) == "and"\<close>: no other character has one of these letters as its lower case.
\<close>

definition is_and :: "string \<Rightarrow> bool" where
  "is_and op \<longleftrightarrow> map ascii_lower op = ''and''"

datatype filter_outcome = FiltersFailed Decision | FiltersPassed bool

fun filter_loop ::
  "'c sampling_lib \<Rightarrow> string \<Rightarrow> 'c filter_evaluator list \<Rightarrow> bool \<Rightarrow> trace_id \<Rightarrow> TraceData \<Rightarrow> filter_outcome \<times> 'c filter_evaluator list" where
  "filter_loop lib op [] filterMatched traceID trace = (FiltersPassed filterMatched, [])"
| "filter_loop lib op (fe # fes) filterMatched traceID trace =
     (case filter_Evaluate lib fe traceID trace of ((filterResult, err), fe') \<Rightarrow>
        case err of Some e \<Rightarrow> (FiltersFailed Error, fe' # fes)
        | None \<Rightarrow>
            if filterResult = NotSampled \<and> is_and op then (FiltersFailed NoResult, fe' # fes)
            else (case filter_loop lib op fes (filterMatched \<or> filterResult = Sampled) traceID trace of
                    (r, fes') \<Rightarrow> (r, fe' # fes')))"

fun default_Evaluate ::
  "'c sampling_lib \<Rightarrow> 'c defaultEvaluator \<Rightarrow> trace_id \<Rightarrow> TraceData \<Rightarrow> (Decision \<times> string option) \<times> 'c defaultEvaluator"
  and sub_loop ::
  "'c sampling_lib \<Rightarrow> 'c defaultEvaluator list \<Rightarrow> trace_id \<Rightarrow> TraceData \<Rightarrow> Decision option \<times> 'c defaultEvaluator list" where
  "default_Evaluate lib (DefaultEvaluator nm smp mname op fs subs) traceID trace =
     (case filter_loop lib op fs False traceID trace of
        (FiltersFailed d, fs') \<Rightarrow> ((d, None), DefaultEvaluator nm smp mname op fs' subs)
      | (FiltersPassed filterMatched, fs') \<Rightarrow>
          if filterMatched
          then (case sub_loop lib subs traceID trace of
                  (Some d, subs') \<Rightarrow> ((d, None), DefaultEvaluator nm smp mname op fs' subs')
                | (None, subs') \<Rightarrow>
                    (sampler_Evaluate smp traceID trace, DefaultEvaluator nm smp mname op fs' subs'))
          else ((NoResult, None), DefaultEvaluator nm smp mname op fs' subs))"
| "sub_loop lib [] traceID trace = (None, [])"
| "sub_loop lib (sp # sps) traceID trace =
     (case default_Evaluate lib sp traceID trace of ((decision, err), sp') \<Rightarrow>
        if err = None \<and> decision \<noteq> NoResult then (Some decision, sp' # sps)
        else (case sub_loop lib sps traceID trace of (r, sps') \<Rightarrow> (r, sp' # sps')))"

section \<open>What the evaluators mean\<close>

fun filter_meaning :: "'c sampling_lib \<Rightarrow> 'c filter_evaluator \<Rightarrow> TraceData \<Rightarrow> Decision" where
  "filter_meaning lib (StringFilter saf) trace = saf_meaning lib saf trace"
| "filter_meaning lib (NumericFilter naf) trace =
     (if \<exists>sp\<in>set (all_spans (ReceivedBatches trace)). numeric_in_range naf sp then Sampled else NotSampled)"

fun filter_ok :: "'c sampling_lib \<Rightarrow> ('c \<Rightarrow> string \<Rightarrow> bool option) \<Rightarrow> 'c filter_evaluator \<Rightarrow> bool" where
  "filter_ok lib contents (StringFilter saf) \<longleftrightarrow> matcher_ok lib contents (saf_matcher saf)"
| "filter_ok lib contents (NumericFilter naf) \<longleftrightarrow> True"

interpretation filter_evaluators: steady_evaluator "filter_Evaluate lib"
    "\<lambda>e traceID trace. (filter_meaning lib e trace, None)"
    "\<lambda>e. lru_lawful lib contents \<and> filter_ok lib contents e" for lib contents
proof
  fix e traceID trace r e'
  assume ok: "lru_lawful lib contents \<and> filter_ok lib contents e"
    and ev: "filter_Evaluate lib e traceID trace = (r, e')"
  have "r = (filter_meaning lib e trace, None) \<and> filter_ok lib contents e'
      \<and> filter_meaning lib e' = filter_meaning lib e"
  proof (cases e)
    case (StringFilter saf)
    with ev obtain saf' where s: "stringAttribute_Evaluate lib saf trace = (r, saf')" "e' = StringFilter saf'"
      by (auto split: prod.splits)
    with stringAttribute_Evaluate_correct [OF _ _ s(1)] ok StringFilter show ?thesis
      by (auto simp: fun_eq_iff)
  next
    case (NumericFilter naf)
    with ev show ?thesis by (auto simp: numericAttribute_Evaluate_def hasSpanWithCondition_stateless)
  qed
  with ok show "r = (filter_meaning lib e trace, None)"
    and "(lru_lawful lib contents \<and> filter_ok lib contents e') \<and>
      (\<lambda>traceID trace. (filter_meaning lib e' trace, None)) = (\<lambda>traceID trace. (filter_meaning lib e trace, None))"
    by simp_all
qed

definition filters_apply :: "string \<Rightarrow> Decision list \<Rightarrow> bool" where
  "filters_apply op ds \<longleftrightarrow> Sampled \<in> set ds \<and> (is_and op \<longrightarrow> NotSampled \<notin> set ds)"

fun default_meaning :: "'c sampling_lib \<Rightarrow> 'c defaultEvaluator \<Rightarrow> trace_id \<Rightarrow> TraceData \<Rightarrow> Decision" where
  "default_meaning lib (DefaultEvaluator nm smp mname op fs subs) traceID trace =
     (if filters_apply op (map (\<lambda>f. filter_meaning lib f trace) fs)
      then (case find (\<lambda>d. d \<noteq> NoResult) (map (\<lambda>sp. default_meaning lib sp traceID trace) subs) of
              Some d \<Rightarrow> d | None \<Rightarrow> fst (sampler_Evaluate smp traceID trace))
      else NoResult)"

fun evaluator_ok :: "'c sampling_lib \<Rightarrow> ('c \<Rightarrow> string \<Rightarrow> bool option) \<Rightarrow> 'c defaultEvaluator \<Rightarrow> bool" where
  "evaluator_ok lib contents (DefaultEvaluator nm smp mname op fs subs) \<longleftrightarrow>
     (\<forall>f\<in>set fs. filter_ok lib contents f) \<and> (\<forall>sp\<in>set subs. evaluator_ok lib contents sp)"

lemma sampler_no_error [simp]: "snd (sampler_Evaluate smp traceID trace) = None"
  by (cases smp) (auto simp: neverSample_Evaluate_def alwaysSample_Evaluate_def probabilistic_Evaluate_def)

lemma sampler_decides: "fst (sampler_Evaluate smp traceID trace) \<in> {Sampled, NotSampled}"
  by (cases smp) (auto simp: neverSample_Evaluate_def alwaysSample_Evaluate_def probabilistic_Evaluate_def)

lemma filter_loop_meaning:
  assumes "lru_lawful lib contents"
  shows "\<forall>f\<in>set fs. filter_ok lib contents f \<Longrightarrow> filter_loop lib op fs matched traceID trace = (r, fs') \<Longrightarrow>
    r = (if is_and op \<and> NotSampled \<in> (\<lambda>f. filter_meaning lib f trace) ` set fs then FiltersFailed NoResult
         else FiltersPassed (matched \<or> Sampled \<in> (\<lambda>f. filter_meaning lib f trace) ` set fs))
  \<and> (\<forall>f\<in>set fs'. filter_ok lib contents f) \<and> map (filter_meaning lib) fs' = map (filter_meaning lib) fs"
proof (induction fs arbitrary: matched r fs')
  case (Cons f fs)
  obtain d err f' where ev: "filter_Evaluate lib f traceID trace = ((d, err), f')" by (metis prod.exhaust)
  from filter_evaluators.eval_meaning [OF _ ev, of contents] filter_evaluators.eval_keeps [OF _ ev, of contents] assms Cons.prems(1)
  have d: "d = filter_meaning lib f trace" "err = None" and k: "filter_ok lib contents f'"
    and m: "filter_meaning lib f' = filter_meaning lib f"
    by (auto simp: fun_eq_iff)
  show ?case
  proof (cases "d = NotSampled \<and> is_and op")
    case True
    with Cons.prems ev d k m show ?thesis by auto
  next
    case False
    obtain r1 fs1 where rest: "filter_loop lib op fs (matched \<or> d = Sampled) traceID trace = (r1, fs1)" by fastforce
    with False Cons.prems(2) ev d have "r = r1" "fs' = f' # fs1" by auto
    with Cons.IH [OF _ rest] Cons.prems(1) False d k m show ?thesis by auto
  qed
qed auto

lemma find_map_cong: "map f xs = map f ys \<Longrightarrow> find P (map (\<lambda>x. g (f x)) xs) = find P (map (\<lambda>x. g (f x)) ys)"
proof -
  assume "map f xs = map f ys"
  then have "map g (map f xs) = map g (map f ys)" by (simp only:)
  then have "map (\<lambda>x. g (f x)) xs = map (\<lambda>x. g (f x)) ys" by (simp add: comp_def)
  then show ?thesis by (simp only:)
qed

lemma default_Evaluate_meaning:
  shows "lru_lawful lib contents \<Longrightarrow> evaluator_ok lib contents e \<Longrightarrow>
      default_Evaluate lib e traceID trace = (r, e') \<Longrightarrow>
      r = (default_meaning lib e traceID trace, None) \<and> evaluator_ok lib contents e'
    \<and> default_meaning lib e' = default_meaning lib e"
    and "lru_lawful lib contents \<Longrightarrow> \<forall>e\<in>set es. evaluator_ok lib contents e \<Longrightarrow>
      sub_loop lib es traceID trace = (q, es') \<Longrightarrow>
      q = find (\<lambda>d. d \<noteq> NoResult) (map (\<lambda>sp. default_meaning lib sp traceID trace) es)
    \<and> (\<forall>e\<in>set es'. evaluator_ok lib contents e) \<and> map (default_meaning lib) es' = map (default_meaning lib) es"
proof (induction lib e traceID trace and lib es traceID trace arbitrary: r e' and q es' rule: default_Evaluate_sub_loop.induct)
  case (1 lib nm smp mname op fs subs traceID trace)
  obtain fr fs' where loop: "filter_loop lib op fs False traceID trace = (fr, fs')" by fastforce
  from filter_loop_meaning [OF "1.prems"(1) _ loop] "1.prems"(2)
  have fr: "fr = (if is_and op \<and> NotSampled \<in> (\<lambda>f. filter_meaning lib f trace) ` set fs then FiltersFailed NoResult
      else FiltersPassed (Sampled \<in> (\<lambda>f. filter_meaning lib f trace) ` set fs))"
    and fok: "\<forall>f\<in>set fs'. filter_ok lib contents f"
    and fm: "map (filter_meaning lib) fs' = map (filter_meaning lib) fs" by auto
  have same: "map (\<lambda>f. filter_meaning lib f t) fs' = map (\<lambda>f. filter_meaning lib f t) fs" for t
    using arg_cong [OF fm, of "map (\<lambda>m. m t)"] by (simp add: comp_def)
  show ?case
  proof (cases "filters_apply op (map (\<lambda>f. filter_meaning lib f trace) fs)")
    case False
    then have "fr = FiltersFailed NoResult \<or> fr = FiltersPassed False"
      using fr by (auto simp: filters_apply_def)
    then have "r = (NoResult, None)" "e' = DefaultEvaluator nm smp mname op fs' subs"
      using "1.prems"(3) loop by auto
    then show ?thesis using False fok same "1.prems"(2) by (auto simp: fun_eq_iff)
  next
    case True
    then have passed: "fr = FiltersPassed True" using fr by (auto simp: filters_apply_def)
    obtain q subs' where sub: "sub_loop lib subs traceID trace = (q, subs')" by fastforce
    have "\<forall>e\<in>set subs. evaluator_ok lib contents e" using "1.prems"(2) by simp
    from "1.IH" [OF loop [symmetric] passed TrueI "1.prems"(1) this sub]
    have q: "q = find (\<lambda>d. d \<noteq> NoResult) (map (\<lambda>sp. default_meaning lib sp traceID trace) subs)"
      and sok: "\<forall>e\<in>set subs'. evaluator_ok lib contents e"
      and sm: "map (default_meaning lib) subs' = map (default_meaning lib) subs" by auto
    have r: "r = (default_meaning lib (DefaultEvaluator nm smp mname op fs subs) traceID trace, None)"
      and e': "e' = DefaultEvaluator nm smp mname op fs' subs'"
      using "1.prems"(3) loop passed sub True q
      by (auto split: option.splits intro: prod_eqI)
    have "default_meaning lib e' i t = default_meaning lib (DefaultEvaluator nm smp mname op fs subs) i t" for i t
      using find_map_cong [OF sm, of "\<lambda>d. d \<noteq> NoResult" "\<lambda>m. m i t"] same unfolding e' by simp
    then show ?thesis using r fok sok unfolding e' by (auto simp: fun_eq_iff)
  qed
next
  case (2 lib traceID trace)
  then show ?case by simp
next
  case (3 lib sp sps traceID trace)
  obtain d err sp' where ev: "default_Evaluate lib sp traceID trace = ((d, err), sp')" by (metis prod.exhaust)
  have d: "d = default_meaning lib sp traceID trace" "err = None" "evaluator_ok lib contents sp'"
    "default_meaning lib sp' = default_meaning lib sp"
    using "3.IH"(1) [OF "3.prems"(1) _ ev] "3.prems"(2) by auto
  show ?case
  proof (cases "d = NoResult")
    case False
    with "3.prems" ev d show ?thesis by auto
  next
    case True
    obtain q1 sps' where rest: "sub_loop lib sps traceID trace = (q1, sps')" by fastforce
    have "\<forall>e\<in>set sps. evaluator_ok lib contents e" using "3.prems"(2) by simp
    moreover have "\<not> (err = None \<and> d \<noteq> NoResult)" using True by simp
    ultimately have "q1 = find (\<lambda>d. d \<noteq> NoResult) (map (\<lambda>sp. default_meaning lib sp traceID trace) sps)
      \<and> (\<forall>e\<in>set sps'. evaluator_ok lib contents e) \<and> map (default_meaning lib) sps' = map (default_meaning lib) sps"
      using "3.IH"(2) [OF ev [symmetric] refl] "3.prems"(1) rest by blast
    with True "3.prems"(3) ev rest d show ?thesis by auto
  qed
qed

interpretation default_evaluators: steady_evaluator "default_Evaluate lib"
    "\<lambda>e traceID trace. (default_meaning lib e traceID trace, None)"
    "\<lambda>e. lru_lawful lib contents \<and> evaluator_ok lib contents e" for lib contents
  using default_Evaluate_meaning(1) by unfold_locales (fastforce simp: fun_eq_iff)+

section \<open>What the configuration means\<close>

definition string_cfg_hit :: "'c sampling_lib \<Rightarrow> StringAttributeCfg \<Rightarrow> string \<Rightarrow> bool" where
  "string_cfg_hit lib s v =
     (if EnabledRegexMatching s then \<exists>r\<in>set (sc_Values s). regex_MatchString lib r v
      else v \<noteq> [] \<and> v \<in> set (sc_Values s))"

definition cfg_decisions :: "'c sampling_lib \<Rightarrow> PolicyFilterCfg \<Rightarrow> traces \<Rightarrow> Decision list" where
  "cfg_decisions lib cfg td =
     map (\<lambda>s. string_decision (string_cfg_hit lib s) (sc_Key s) (InvertMatch s) td) (StringAttributeCfgs cfg)
   @ map (\<lambda>n. if \<exists>sp\<in>set (all_spans td). \<exists>v. Span_Attributes sp (nc_Key n) = Some v
                  \<and> nc_MinValue n \<le> Value_Int v \<and> Value_Int v \<le> nc_MaxValue n
              then Sampled else NotSampled) (NumericAttributeCfgs cfg)"

definition policy_applies :: "'c sampling_lib \<Rightarrow> BasePolicy \<Rightarrow> traces \<Rightarrow> bool" where
  "policy_applies lib bp td =
     filters_apply (FilterOp (bp_PolicyFilterCfg bp)) (cfg_decisions lib (bp_PolicyFilterCfg bp) td)"

definition percentage_decision :: "float64 \<Rightarrow> trace_id \<Rightarrow> Decision" where
  "percentage_decision percentage traceID =
     (if percentage = Finite_f64 0 then NotSampled
      else if percentage = Finite_f64 100 then Sampled
      else case calculateThreshold (float64_div_100 percentage) of
        Done t \<Rightarrow> if hashTraceID defaultHashSalt traceID \<le> t then Sampled else NotSampled
      | _ \<Rightarrow> NoResult)"

definition policy_percentage :: "BasePolicy \<Rightarrow> float64" where
  "policy_percentage bp = SamplingPercentage (bp_ProbabilisticCfg bp)"

text \<open>
  A policy group: where its own filters apply, the first sub-policy, by priority, whose filters
  apply too decides with its percentage, and the group's own percentage decides otherwise.
\<close>

definition group_decision ::
  "'c sampling_lib \<Rightarrow> (BasePolicy list \<Rightarrow> BasePolicy list) \<Rightarrow> BasePolicy \<Rightarrow> BasePolicy list \<Rightarrow> trace_id \<Rightarrow> TraceData \<Rightarrow> Decision" where
  "group_decision lib srt bp subs traceID trace =
     (if policy_applies lib bp (ReceivedBatches trace)
      then (case find (\<lambda>s. policy_applies lib s (ReceivedBatches trace)) (srt subs) of
              Some s \<Rightarrow> percentage_decision (policy_percentage s) traceID
            | None \<Rightarrow> percentage_decision (policy_percentage bp) traceID)
      else NoResult)"

lemma prepare_string_filters_meaning:
  "lru_lawful lib contents \<Longrightarrow> prepare_string_filters lib ss = Done fs \<Longrightarrow>
     (\<forall>f\<in>set fs. filter_ok lib contents f)
   \<and> map (\<lambda>f. filter_meaning lib f trace) fs =
       map (\<lambda>s. string_decision (string_cfg_hit lib s) (sc_Key s) (InvertMatch s) (ReceivedBatches trace)) ss"
proof (induction ss arbitrary: fs)
  case (Cons s ss)
  then obtain f fs1 where n: "NewStringAttributeFilter lib (sc_Key s) (sc_Values s) (EnabledRegexMatching s)
        (CacheMaxSize s) (InvertMatch s) = Done f"
    and rest: "prepare_string_filters lib ss = Done fs1" and fs: "fs = StringFilter f # fs1"
    by (auto simp: bind_outcome_Done)
  have hit: "matcher_meaning lib (saf_matcher f) = string_cfg_hit lib s"
    using NewStringAttributeFilter_ok [OF Cons.prems(1) n] by (simp add: string_cfg_hit_def fun_eq_iff)
  show ?case using Cons.IH [OF Cons.prems(1) rest] NewStringAttributeFilter_ok [OF Cons.prems(1) n]
    unfolding fs by (simp add: saf_meaning_def hit)
qed simp

lemma prepareFilterEvaluators_meaning:
  assumes "lru_lawful lib contents" "prepareFilterEvaluators lib cfg = Done fs"
  shows "(\<forall>f\<in>set fs. filter_ok lib contents f)
    \<and> map (\<lambda>f. filter_meaning lib f trace) fs = cfg_decisions lib cfg (ReceivedBatches trace)"
proof -
  obtain gs where g: "prepare_string_filters lib (StringAttributeCfgs cfg) = Done gs"
    and fs: "fs = gs @ map (\<lambda>n. NumericFilter \<lparr>naf_key = nc_Key n, minValue = nc_MinValue n, maxValue = nc_MaxValue n\<rparr>)
                      (NumericAttributeCfgs cfg)"
    using assms(2) by (auto simp: prepareFilterEvaluators_def bind_outcome_Done)
  have num: "numeric_in_range \<lparr>naf_key = k, minValue = a, maxValue = b\<rparr> sp \<longleftrightarrow>
      (\<exists>v. Span_Attributes sp k = Some v \<and> a \<le> Value_Int v \<and> Value_Int v \<le> b)" for k a b sp
    by (simp add: numeric_in_range_def split: option.splits)
  show ?thesis using prepare_string_filters_meaning [OF assms(1) g]
    unfolding fs by (auto simp: cfg_decisions_def num)
qed

lemma choose_sampler_meaning:
  "choose_sampler percentage = Done (mname, smp) \<Longrightarrow>
     fst (sampler_Evaluate smp traceID trace) = percentage_decision percentage traceID"
  by (auto simp: choose_sampler_def percentage_decision_def NewProbabilisticSampler_def bind_outcome_Done
      neverSample_Evaluate_def alwaysSample_Evaluate_def probabilistic_Evaluate_def split: if_splits)

lemma percentage_not_NoResult:
  assumes "choose_sampler percentage = Done x" shows "percentage_decision percentage traceID \<noteq> NoResult"
proof -
  obtain mname smp where "x = (mname, smp)" by fastforce
  with assms choose_sampler_meaning have
    "fst (sampler_Evaluate smp traceID trace) = percentage_decision percentage traceID" for trace by blast
  with sampler_decides [of smp traceID] show ?thesis by fastforce
qed

lemma new_evaluator_meaning:
  assumes "lru_lawful lib contents" and "new_evaluator lib bp subs = Done e"
  shows "\<exists>es x. subs = Done es \<and> choose_sampler (policy_percentage bp) = Done x
    \<and> ((\<forall>s\<in>set es. evaluator_ok lib contents s) \<longrightarrow> evaluator_ok lib contents e)
    \<and> default_meaning lib e traceID trace =
        (if policy_applies lib bp (ReceivedBatches trace)
         then (case find (\<lambda>d. d \<noteq> NoResult) (map (\<lambda>sp. default_meaning lib sp traceID trace) es) of
                 Some d \<Rightarrow> d | None \<Rightarrow> percentage_decision (policy_percentage bp) traceID)
         else NoResult)"
proof -
  obtain fs es mname smp where f: "prepareFilterEvaluators lib (bp_PolicyFilterCfg bp) = Done fs"
    and s: "subs = Done es" and c: "choose_sampler (policy_percentage bp) = Done (mname, smp)"
    and e: "e = DefaultEvaluator (bp_Name bp) smp mname (FilterOp (bp_PolicyFilterCfg bp)) fs es"
    using assms(2) by (auto simp: new_evaluator_def bind_outcome_Done policy_percentage_def)
  from prepareFilterEvaluators_meaning [OF assms(1) f] choose_sampler_meaning [OF c] s c show ?thesis
    unfolding e by (auto simp: policy_applies_def split: option.split)
qed

lemma new_sub_evaluators_meaning:
  assumes "lru_lawful lib contents"
  shows "new_sub_evaluators lib rules = Done es \<Longrightarrow>
     (\<forall>s\<in>set es. evaluator_ok lib contents s)
   \<and> find (\<lambda>d. d \<noteq> NoResult) (map (\<lambda>sp. default_meaning lib sp traceID trace) es) =
       map_option (\<lambda>s. percentage_decision (policy_percentage s) traceID)
         (find (\<lambda>s. policy_applies lib s (ReceivedBatches trace)) rules)"
proof (induction rules arbitrary: es)
  case (Cons r rules)
  then obtain e1 es1 where n: "new_evaluator lib r (Done []) = Done e1"
    and rest: "new_sub_evaluators lib rules = Done es1" and es: "es = e1 # es1"
    by (auto simp: bind_outcome_Done)
  obtain x where x: "choose_sampler (policy_percentage r) = Done x" and ok: "evaluator_ok lib contents e1"
    and m: "default_meaning lib e1 traceID trace =
        (if policy_applies lib r (ReceivedBatches trace) then percentage_decision (policy_percentage r) traceID
         else NoResult)"
    using new_evaluator_meaning [OF assms n, of traceID trace] by (auto cong: if_cong)
  show ?case using Cons.IH [OF rest] ok m percentage_not_NoResult [OF x] unfolding es by simp
qed simp

lemma NewDefaultEvaluator_meaning:
  assumes "lru_lawful lib contents" and "NewDefaultEvaluator lib srt bp subs = Done e"
  shows "evaluator_ok lib contents e
    \<and> default_meaning lib e traceID trace = group_decision lib srt bp subs traceID trace"
proof -
  have n: "new_evaluator lib bp (new_sub_evaluators lib (srt subs)) = Done e"
    using assms(2) by (simp add: NewDefaultEvaluator_def)
  from new_evaluator_meaning [OF assms(1) n, of traceID trace] obtain es where
    es: "new_sub_evaluators lib (srt subs) = Done es"
    and ok: "(\<forall>s\<in>set es. evaluator_ok lib contents s) \<longrightarrow> evaluator_ok lib contents e"
    and m: "default_meaning lib e traceID trace =
        (if policy_applies lib bp (ReceivedBatches trace)
         then (case find (\<lambda>d. d \<noteq> NoResult) (map (\<lambda>sp. default_meaning lib sp traceID trace) es) of
                 Some d \<Rightarrow> d | None \<Rightarrow> percentage_decision (policy_percentage bp) traceID)
         else NoResult)" by blast
  from new_sub_evaluators_meaning [OF assms(1) es, of traceID trace] ok m show ?thesis
    by (cases "find (\<lambda>s. policy_applies lib s (ReceivedBatches trace)) (srt subs)")
       (simp_all add: group_decision_def)
qed

section \<open>Properties\<close>

text \<open>An evaluator deciding one trace after another.\<close>

fun default_run :: "'c sampling_lib \<Rightarrow> 'c defaultEvaluator \<Rightarrow> (trace_id \<times> TraceData) list \<Rightarrow> (Decision \<times> string option) list" where
  "default_run lib e [] = []"
| "default_run lib e ((i, t) # ts) = (case default_Evaluate lib e i t of (r, e') \<Rightarrow> r # default_run lib e' ts)"

lemma default_run_meaning:
  "lru_lawful lib contents \<Longrightarrow> evaluator_ok lib contents e \<Longrightarrow>
     default_run lib e ts = map (\<lambda>(i, t). (default_meaning lib e i t, None)) ts"
proof (induction ts arbitrary: e)
  case (Cons it ts)
  obtain i t where it: "it = (i, t)" by fastforce
  obtain r e' where ev: "default_Evaluate lib e i t = (r, e')" by fastforce
  from default_Evaluate_meaning(1) [OF Cons.prems ev] Cons.IH [OF Cons.prems(1), of e'] show ?case
    by (simp add: it ev)
qed simp


definition sample_policy :: "string \<Rightarrow> StringAttributeCfg list \<Rightarrow> rat \<Rightarrow> BasePolicy" where
  "sample_policy nm cfgs percentage =
     \<lparr>bp_Name = nm, bp_Type = ''policy_group'', bp_Priority = 1,
      bp_ProbabilisticCfg = \<lparr>HashSalt = [], SamplingPercentage = Finite_f64 percentage\<rparr>,
      bp_PolicyFilterCfg = \<lparr>FilterOp = [], StringAttributeCfgs = cfgs, NumericAttributeCfgs = []\<rparr>\<rparr>"

definition sample_string_cfg :: "string \<Rightarrow> string \<Rightarrow> bool \<Rightarrow> StringAttributeCfg" where
  "sample_string_cfg key v invert =
     \<lparr>sc_Key = key, sc_Values = [v], EnabledRegexMatching = False, CacheMaxSize = 0, InvertMatch = invert\<rparr>"

definition sample_tagged :: "string \<Rightarrow> TraceData" where
  "sample_tagged v = sample_trace [(''env'', \<lparr>Value_Int = 0, Value_Str = v\<rparr>)] [(1, 2)]"

lemmas sample_policy_defs = sample_policy_def sample_string_cfg_def sample_tagged_def sample_trace_def


text \<open>A policy all of whose filters are inverted never applies: an inverted filter answers
  \<^verbatim>\<open>InvertSampled\<close> or \<^verbatim>\<open>InvertNotSampled\<close>, which the evaluator counts neither as a match
  nor as a failure, so the policy has no opinion on any trace, even those its filters select.\<close>

theorem inverted_policy_never_applies:
  assumes "lru_lawful lib contents" and "NewDefaultEvaluator lib srt bp subs = Done e"
    and "\<forall>s\<in>set (StringAttributeCfgs (bp_PolicyFilterCfg bp)). InvertMatch s"
    and "NumericAttributeCfgs (bp_PolicyFilterCfg bp) = []"
  shows "fst (default_Evaluate lib e traceID trace) = (NoResult, None)"
proof -
  have "Sampled \<notin> set (cfg_decisions lib (bp_PolicyFilterCfg bp) (ReceivedBatches trace))"
    using assms(3,4) by (auto simp: cfg_decisions_def string_decision_def split: if_splits)
  then have "group_decision lib srt bp subs traceID trace = NoResult"
    by (simp add: group_decision_def policy_applies_def filters_apply_def)
  with NewDefaultEvaluator_meaning [OF assms(1,2), of traceID trace]
    default_Evaluate_meaning(1) [OF assms(1) _ prod.collapse [symmetric], of e traceID trace]
  show ?thesis by simp
qed

theorem inverted_policy_never_applies_witness:
  "\<exists>e. NewDefaultEvaluator sample_lib id (sample_policy ''root'' [sample_string_cfg ''env'' ''prod'' True] 100) [] = Done e
     \<and> fst (default_Evaluate sample_lib e [1] (sample_tagged ''dev'')) = (NoResult, None)"
proof -
  obtain e where e: "NewDefaultEvaluator sample_lib id (sample_policy ''root'' [sample_string_cfg ''env'' ''prod'' True] 100) [] = Done e"
    by (simp add: NewDefaultEvaluator_def new_evaluator_def prepareFilterEvaluators_def choose_sampler_def
        NewStringAttributeFilter_def sample_policy_defs)
  from inverted_policy_never_applies [OF sample_lib_lawful e] e show ?thesis
    by (auto simp: sample_policy_defs)
qed

end
