(* ===== verification/IdBatcher.thy ===== *)
theory IdBatcher
  imports Prelude
begin

text \<open>
  \<^verbatim>\<open>processor/signoztailsampler/internal/idbatcher\<close>: the pipe of batches of trace ids that
  delays the decision on a trace. Channels are lists with their capacity. The goroutine that moves
  ids from \<^verbatim>\<open>pendingIds\<close> to the current batch is the step \<open>batcher_drain\<close>; the scheduler may
  run it at any point between the operations.
\<close>

section \<open>State and operations\<close>

record 'i batcher =
  pendingIds :: "'i list"
  pendingCap :: nat
  pendingClosed :: bool
  batches :: "'i list list"
  batchesCap :: nat
  batchesClosed :: bool
  currentBatch :: "'i list"
  newBatchesInitialCapacity :: uint64
  stopped :: bool

datatype batcher_error = ErrInvalidNumBatches | ErrInvalidBatchChannelSize

definition batcher_New :: "uint64 \<Rightarrow> uint64 \<Rightarrow> uint64 \<Rightarrow> batcher_error + 'i batcher" where
  "batcher_New numBatches initial_capacity batchChannelSize =
     (if numBatches < 1 then Inl ErrInvalidNumBatches
      else if batchChannelSize < 1 then Inl ErrInvalidBatchChannelSize
      else Inr \<lparr>pendingIds = [], pendingCap = unat batchChannelSize, pendingClosed = False,
                batches = replicate (unat numBatches) [], batchesCap = unat numBatches,
                batchesClosed = False, currentBatch = [],
                newBatchesInitialCapacity = initial_capacity, stopped = False\<rparr>)"

text \<open>The body of the goroutine's loop, for one id received.\<close>

definition batcher_drain :: "'i batcher \<Rightarrow> 'i batcher outcome" where
  "batcher_drain b =
     (case pendingIds b of [] \<Rightarrow> Blocks
      | i # rest \<Rightarrow> Done (b\<lparr>pendingIds := rest, currentBatch := currentBatch b @ [i]\<rparr>))"

definition AddToCurrentBatch :: "'i \<Rightarrow> 'i batcher \<Rightarrow> 'i batcher outcome" where
  "AddToCurrentBatch i b =
     (if pendingClosed b then Panics
      else if length (pendingIds b) < pendingCap b
      then Done (b\<lparr>pendingIds := pendingIds b @ [i]\<rparr>)
      else Blocks)"

definition CloseCurrentAndTakeFirstBatch :: "'i batcher \<Rightarrow> ('i list \<times> bool \<times> 'i batcher) outcome" where
  "CloseCurrentAndTakeFirstBatch b =
     (case batches b of
        readBatch # rest \<Rightarrow>
          if \<not> stopped b
          then (if length rest < batchesCap b
                then Done (readBatch, True, b\<lparr>batches := rest @ [currentBatch b], currentBatch := []\<rparr>)
                else Blocks)
          else Done (readBatch, True, b\<lparr>batches := rest\<rparr>)
      | [] \<Rightarrow>
          if batchesClosed b
          then Done (currentBatch b, False, b\<lparr>currentBatch := []\<rparr>)
          else Blocks)"

text \<open>
  \<^verbatim>\<open>Stop\<close> closes the channel of pending ids and waits, holding the lock the readers need, until
  the goroutine has drained it; then the pipe is closed.
\<close>

definition batcher_Stop :: "'i batcher \<Rightarrow> 'i batcher outcome" where
  "batcher_Stop b =
     (if pendingClosed b then Panics
      else Done (b\<lparr>pendingClosed := True, currentBatch := currentBatch b @ pendingIds b,
                  pendingIds := [], stopped := True, batchesClosed := True\<rparr>))"

lemmas batcher_ops_defs = batcher_drain_def AddToCurrentBatch_def
  CloseCurrentAndTakeFirstBatch_def batcher_Stop_def

section \<open>Invariant and contents\<close>

definition batcher_inv :: "'i batcher \<Rightarrow> bool" where
  "batcher_inv b \<longleftrightarrow> 1 \<le> batchesCap b \<and> length (pendingIds b) \<le> pendingCap b
   \<and> pendingClosed b = stopped b \<and> batchesClosed b = stopped b
   \<and> (\<not> stopped b \<longrightarrow> length (batches b) = batchesCap b)
   \<and> (stopped b \<longrightarrow> pendingIds b = [] \<and> length (batches b) \<le> batchesCap b)"

definition held :: "'i batcher \<Rightarrow> 'i multiset" where
  "held b = mset (concat (batches b)) + mset (currentBatch b) + mset (pendingIds b)"

lemma batcher_New_inv:
  "batcher_New n c k = Inr b \<Longrightarrow> batcher_inv b \<and> held b = {#} \<and> batchesCap b = unat n"
  by (auto simp: batcher_New_def batcher_inv_def held_def word_less_nat_alt split: if_splits)

lemma AddToCurrentBatch_inv:
  "batcher_inv b \<Longrightarrow> AddToCurrentBatch i b = Done b' \<Longrightarrow> batcher_inv b' \<and> held b' = add_mset i (held b)"
  by (auto simp: AddToCurrentBatch_def batcher_inv_def held_def split: if_splits)

lemma batcher_drain_inv:
  "batcher_inv b \<Longrightarrow> batcher_drain b = Done b' \<Longrightarrow> batcher_inv b' \<and> held b' = held b"
  by (auto simp: batcher_drain_def batcher_inv_def held_def split: list.splits)

lemma CloseCurrentAndTakeFirstBatch_inv:
  "batcher_inv b \<Longrightarrow> CloseCurrentAndTakeFirstBatch b = Done (ids, has_more, b') \<Longrightarrow>
     batcher_inv b' \<and> held b = mset ids + held b'"
  by (auto simp: CloseCurrentAndTakeFirstBatch_def batcher_inv_def held_def split: list.splits if_splits)

lemma batcher_Stop_inv:
  "batcher_inv b \<Longrightarrow> batcher_Stop b = Done b' \<Longrightarrow> batcher_inv b' \<and> held b' = held b"
  by (auto simp: batcher_Stop_def batcher_inv_def held_def split: if_splits)

lemma CloseCurrentAndTakeFirstBatch_returns:
  "batcher_inv b \<Longrightarrow> \<exists>r. CloseCurrentAndTakeFirstBatch b = Done r"
  by (auto simp: CloseCurrentAndTakeFirstBatch_def batcher_inv_def split: list.splits)

section \<open>The contract of a batcher\<close>

text \<open>
  The interface \<^verbatim>\<open>Batcher\<close> for its client, the tail sampler: what is added is held, what is
  taken is no longer held, and taking never blocks.
\<close>

locale batcher_contract =
  fixes add :: "'i \<Rightarrow> 'b \<Rightarrow> 'b outcome"
    and take_first :: "'b \<Rightarrow> ('i list \<times> bool \<times> 'b) outcome"
    and contents :: "'b \<Rightarrow> 'i multiset"
    and inv :: "'b \<Rightarrow> bool"
  assumes add_holds: "inv b \<Longrightarrow> add i b = Done b' \<Longrightarrow> inv b' \<and> contents b' = add_mset i (contents b)"
    and take_moves: "inv b \<Longrightarrow> take_first b = Done (ids, has_more, b') \<Longrightarrow>
      inv b' \<and> contents b = mset ids + contents b'"
    and take_returns: "inv b \<Longrightarrow> \<exists>r. take_first b = Done r"
begin

lemma taken_was_held: "inv b \<Longrightarrow> take_first b = Done (ids, has_more, b') \<Longrightarrow> i \<in> set ids \<Longrightarrow> i \<in># contents b"
  using take_moves by fastforce

lemma still_held: "inv b \<Longrightarrow> take_first b = Done (ids, has_more, b') \<Longrightarrow> i \<in># contents b' \<Longrightarrow> i \<in># contents b"
  using take_moves by fastforce

end

interpretation id_batcher: batcher_contract AddToCurrentBatch CloseCurrentAndTakeFirstBatch held batcher_inv
  by unfold_locales
     (erule (1) AddToCurrentBatch_inv CloseCurrentAndTakeFirstBatch_inv
        | erule CloseCurrentAndTakeFirstBatch_returns)+

section \<open>Runs\<close>

datatype 'i batcher_event = EvAdd 'i | EvDrain | EvTake | EvStop

text \<open>A run gives the final state, the ids added and the batches taken out.\<close>

fun batcher_run :: "'i batcher_event list \<Rightarrow> 'i batcher \<Rightarrow> ('i batcher \<times> 'i list \<times> 'i list list) outcome" where
  "batcher_run [] b = Done (b, [], [])"
| "batcher_run (EvAdd i # es) b =
     bind_outcome (AddToCurrentBatch i b) (\<lambda>b1.
     bind_outcome (batcher_run es b1) (\<lambda>(b', ins, outs). Done (b', i # ins, outs)))"
| "batcher_run (EvDrain # es) b = bind_outcome (batcher_drain b) (batcher_run es)"
| "batcher_run (EvTake # es) b =
     bind_outcome (CloseCurrentAndTakeFirstBatch b) (\<lambda>(ids, has_more, b1).
     bind_outcome (batcher_run es b1) (\<lambda>(b', ins, outs). Done (b', ins, ids # outs)))"
| "batcher_run (EvStop # es) b = bind_outcome (batcher_Stop b) (batcher_run es)"

lemma batcher_run_conserves:
  "batcher_inv b \<Longrightarrow> batcher_run es b = Done (b', ins, outs) \<Longrightarrow>
     batcher_inv b' \<and> held b + mset ins = mset (concat outs) + held b'"
proof (induction es b arbitrary: b' ins outs rule: batcher_run.induct)
  case (1 b)
  then show ?case by simp
next
  case (2 i es b)
  from "2.prems"(2) obtain b1 ins1 where add: "AddToCurrentBatch i b = Done b1"
    and run: "batcher_run es b1 = Done (b', ins1, outs)" and "ins = i # ins1"
    by (auto simp: bind_outcome_Done)
  with AddToCurrentBatch_inv [OF "2.prems"(1) add] "2.IH" [OF _ run] show ?case by auto
next
  case (3 es b)
  from "3.prems"(2) obtain b1 where "batcher_drain b = Done b1" "batcher_run es b1 = Done (b', ins, outs)"
    by (auto simp: bind_outcome_Done)
  with batcher_drain_inv [OF "3.prems"(1)] "3.IH" show ?case by metis
next
  case (4 es b)
  from "4.prems"(2) obtain ids has_more b1 outs1 where
    tk: "CloseCurrentAndTakeFirstBatch b = Done (ids, has_more, b1)"
    and run: "batcher_run es b1 = Done (b', ins, outs1)" and outs: "outs = ids # outs1"
    by (auto simp: bind_outcome_Done)
  from CloseCurrentAndTakeFirstBatch_inv [OF "4.prems"(1) tk] "4.IH" [OF _ run]
  have "batcher_inv b'" and "held b1 + mset ins = mset (concat outs1) + held b'"
    and "held b = mset ids + held b1" by auto
  then show ?case unfolding outs by (simp add: union_assoc)
next
  case (5 es b)
  from "5.prems"(2) obtain b1 where "batcher_Stop b = Done b1" "batcher_run es b1 = Done (b', ins, outs)"
    by (auto simp: bind_outcome_Done)
  with batcher_Stop_inv [OF "5.prems"(1)] "5.IH" show ?case by metis
qed

text \<open>
  The pipe as one queue: what comes out, then what is in the pipe, then the current batch. Every
  event extends the current batch or appends new batches behind it.
\<close>

lemma batcher_run_queue:
  "batcher_inv b \<Longrightarrow> \<not> stopped b \<Longrightarrow> EvStop \<notin> set es \<Longrightarrow> batcher_run es b = Done (b', ins, outs) \<Longrightarrow>
     length outs = count_list es EvTake \<and> batchesCap b' = batchesCap b \<and> \<not> stopped b'
   \<and> (\<exists>new later. outs @ batches b' @ [currentBatch b'] = batches b @ (currentBatch b @ new) # later)"
proof (induction es b arbitrary: b' ins outs rule: batcher_run.induct)
  case (1 b)
  then show ?case by simp
next
  case (2 i es b)
  from "2.prems"(4) obtain b1 ins1 where add: "AddToCurrentBatch i b = Done b1"
    and run: "batcher_run es b1 = Done (b', ins1, outs)"
    by (auto simp: bind_outcome_Done)
  have "batcher_inv b1" using AddToCurrentBatch_inv [OF "2.prems"(1) add] by simp
  moreover have b1: "\<not> stopped b1" "batches b1 = batches b" "currentBatch b1 = currentBatch b"
      "batchesCap b1 = batchesCap b"
    using add "2.prems"(2) by (auto simp: AddToCurrentBatch_def split: if_splits)
  ultimately show ?case using "2.IH" [OF _ _ _ run] "2.prems"(3) by simp
next
  case (3 es b)
  from "3.prems"(4) obtain b1 where dr: "batcher_drain b = Done b1"
    and run: "batcher_run es b1 = Done (b', ins, outs)"
    by (auto simp: bind_outcome_Done)
  have "batcher_inv b1" using batcher_drain_inv [OF "3.prems"(1) dr] by simp
  moreover obtain i where "\<not> stopped b1" "batches b1 = batches b" "currentBatch b1 = currentBatch b @ [i]"
      "batchesCap b1 = batchesCap b"
    using dr "3.prems"(2) by (auto simp: batcher_drain_def split: list.splits)
  ultimately show ?case using "3.IH" [OF _ _ _ run] "3.prems"(3) by auto
next
  case (4 es b)
  from "4.prems"(4) obtain ids has_more b1 outs1 where
    tk: "CloseCurrentAndTakeFirstBatch b = Done (ids, has_more, b1)"
    and run: "batcher_run es b1 = Done (b', ins, outs1)" and outs: "outs = ids # outs1"
    by (auto simp: bind_outcome_Done)
  have "batcher_inv b1" using CloseCurrentAndTakeFirstBatch_inv [OF "4.prems"(1) tk] by simp
  moreover have b1: "\<not> stopped b1" "ids # batches b1 = batches b @ [currentBatch b]" "currentBatch b1 = []"
      "batchesCap b1 = batchesCap b"
    using tk "4.prems"(1,2)
    by (auto simp: CloseCurrentAndTakeFirstBatch_def batcher_inv_def split: list.splits if_splits)
  ultimately obtain new later where len: "length outs1 = count_list es EvTake" "batchesCap b' = batchesCap b"
      "\<not> stopped b'"
    and eq: "outs1 @ batches b' @ [currentBatch b'] = batches b1 @ (currentBatch b1 @ new) # later"
    using "4.IH" [OF _ _ _ run] "4.prems"(3) by auto
  have "outs @ batches b' @ [currentBatch b'] = batches b @ (currentBatch b @ []) # new # later"
    using eq b1(2,3) unfolding outs by (simp add: append_eq_Cons_conv Cons_eq_append_conv)
  with len outs show ?case by auto
next
  case (5 es b)
  then show ?case by simp
qed

section \<open>Properties\<close>

text \<open>C32: Whatever the interleaving of producers, the draining goroutine, the consumer and a stop,
  no id is lost or duplicated: what the batcher held and what was added is what came out of it and
  what it still holds.\<close>

theorem batcher_no_loss:
  assumes "batcher_New n c k = Inr b" and "batcher_run es b = Done (b', ins, outs)"
  shows "mset ins = mset (concat outs) + mset (concat (batches b')) + mset (currentBatch b') + mset (pendingIds b')"
proof -
  from batcher_New_inv [OF assms(1)] have "batcher_inv b" and "held b = {#}" by simp_all
  with batcher_run_conserves [OF _ assms(2)] have "mset ins = mset (concat outs) + held b'" by simp
  then show ?thesis by (simp add: held_def union_assoc)
qed

theorem batcher_no_loss_witness:
  "\<exists>b :: nat batcher. batcher_New 2 10 4 = Inr b \<and>
     (\<exists>b' ins outs. batcher_run [EvAdd 7, EvDrain, EvTake, EvAdd 8, EvTake, EvStop, EvTake] b = Done (b', ins, outs)
        \<and> mset ins = {#7, 8#} \<and> mset (concat outs) = {#7#})"
proof -
  have rep: "replicate 2 ([] :: nat list) = [[], []]" by (simp add: numeral_2_eq_2)
  obtain b :: "nat batcher" where b: "batcher_New 2 10 4 = Inr b"
    by (simp add: batcher_New_def)
  let ?es = "[EvAdd 7, EvDrain, EvTake, EvAdd 8, EvTake, EvStop, EvTake]"
  obtain b' ins outs where r: "batcher_run ?es b = Done (b', ins, outs)"
    and o: "outs = [[], [], [7]]" "ins = [7, 8]"
    using b by (auto simp: batcher_New_def batcher_ops_defs rep)
  from batcher_no_loss [OF b r] o b r show ?thesis by auto
qed

text \<open>A running batcher delays by exactly the length of its pipe: while batches are taken, with
  any number of additions and drains in between, the first as many batches taken as the pipe is long
  were already closed, and the next one is the batch that was current at the start, with only ids
  added behind it.\<close>

theorem batcher_delay:
  assumes "batcher_inv b" and "\<not> stopped b" and "EvStop \<notin> set es"
    and "batcher_run es b = Done (b', ins, outs)" and "count_list es EvTake = Suc (batchesCap b)"
  shows "take (batchesCap b) outs = batches b \<and> (\<exists>new. last outs = currentBatch b @ new)"
proof -
  from batcher_run_queue [OF assms(1-4)] assms(5) obtain new later where
    len: "length outs = Suc (batchesCap b)"
    and eq: "outs @ batches b' @ [currentBatch b'] = batches b @ (currentBatch b @ new) # later"
    by auto
  have cap: "length (batches b) = batchesCap b" using assms(1,2) by (simp add: batcher_inv_def)
  have "outs = take (Suc (batchesCap b)) (batches b @ (currentBatch b @ new) # later)"
    using len by (simp flip: eq)
  also have "\<dots> = batches b @ [currentBatch b @ new]" by (simp add: cap)
  finally show ?thesis by (auto simp: cap)
qed

theorem batcher_delay_witness:
  "\<exists>b :: nat batcher. currentBatch b = [7] \<and>
     (\<exists>b' ins outs new. batcher_run [EvTake, EvAdd 8, EvDrain, EvTake, EvTake] b = Done (b', ins, outs)
        \<and> last outs = [7] @ new)"
proof -
  let ?b = "\<lparr>pendingIds = [], pendingCap = 4, pendingClosed = False, batches = [[], [1]], batchesCap = 2,
      batchesClosed = False, currentBatch = [7], newBatchesInitialCapacity = 0, stopped = False\<rparr> :: nat batcher"
  let ?es = "[EvTake, EvAdd 8, EvDrain, EvTake, EvTake]"
  obtain b' ins outs where r: "batcher_run ?es ?b = Done (b', ins, outs)"
    by (simp add: batcher_ops_defs)
  have "batcher_inv ?b" by (simp add: batcher_inv_def)
  from batcher_delay [OF this _ _ r] have "\<exists>new. last outs = [7] @ new" by simp
  with r show ?thesis by (intro exI [of _ ?b]) auto
qed

end
