(* ===== verification/TailSampler.thy ===== *)
theory TailSampler
  imports TailEvaluator IdBatcher
begin

text \<open>
  \<^verbatim>\<open>processor/signoztailsampler/processor.go\<close> and \<^verbatim>\<open>internal/timeutils/ticker.go\<close>: the tail
  sampling processor. A call of \<^verbatim>\<open>ConsumeTraces\<close> and a tick are atomic steps; what they send
  downstream or record is the list of events they return. Reads of the clock are the parameter
  \<open>clock\<close>, the iteration order of a Go map is the parameter \<open>order\<close>.
\<close>

section \<open>State\<close>

record 'c policy =
  policy_name :: string
  policy_evaluator :: "'c defaultEvaluator"

datatype stop_channel = NilChannel | OpenChannel | ClosedChannel

record PolicyTicker =
  StopCh :: stop_channel
  tick_every :: duration

record 'c tailSamplingSpanProcessor =
  maxNumTraces :: uint64
  policies :: "'c policy list"
  idToTrace :: "trace_id \<Rightarrow> TraceData option"
  policyTicker :: PolicyTicker
  tickerFrequency :: duration
  decisionBatcher :: "trace_id batcher"
  deleteChan :: "trace_id list"
  deleteChanCap :: nat
  numTracesOnMap :: uint64

text \<open>The context a batch is sent with: that of a policy, or the processor's own.\<close>

datatype tail_event =
  ForwardTraces "string option" traces
| TraceRemoved duration
| TraceNotOnTable
| LateSpanAge duration
| UnexpectedDecision Decision
| NewTraceIDs int

record policyMetrics =
  idNotFoundOnMapCount :: int
  evaluateErrorCount :: int
  decisionSampled :: int
  decisionNotSampled :: int

definition zero_policyMetrics :: policyMetrics where
  "zero_policyMetrics = \<lparr>idNotFoundOnMapCount = 0, evaluateErrorCount = 0, decisionSampled = 0, decisionNotSampled = 0\<rparr>"

section \<open>Creation\<close>

text \<open>
  \<^verbatim>\<open>Duration.Seconds()\<close> and its conversion to \<^verbatim>\<open>uint64\<close>; the conversion of a negative
  number is left to the platform (\<open>neg\<close>).
\<close>

definition duration_seconds :: "duration \<Rightarrow> rat" where
  "duration_seconds d = round_float64 (of_int (d div 10 ^ 9) + round_float64 (of_int (d mod 10 ^ 9) / 10 ^ 9))"

definition decision_batches :: "(duration \<Rightarrow> uint64) \<Rightarrow> duration \<Rightarrow> uint64" where
  "decision_batches neg d = (if d < 0 then neg d else word_of_int \<lfloor>duration_seconds d\<rfloor>)"

text \<open>The builtin \<^verbatim>\<open>copy\<close> writes as many elements as the shorter slice has.\<close>

definition go_copy :: "'a list \<Rightarrow> 'a list \<Rightarrow> 'a list" where
  "go_copy dst src = take (min (length dst) (length src)) src @ drop (min (length dst) (length src)) dst"

datatype tail_error = ConfigInvalid "string list" | BatcherError batcher_error | TagError string

record 'c tail_env =
  env_lib :: "'c sampling_lib"
  sort_groups :: "PolicyGroupCfg list \<Rightarrow> PolicyGroupCfg list"
  sort_policies :: "BasePolicy list \<Rightarrow> BasePolicy list"
  tag_New :: "string \<Rightarrow> string option"
  NumCPU :: nat
  neg_seconds :: "duration \<Rightarrow> uint64"

fun new_policies :: "'c tail_env \<Rightarrow> PolicyGroupCfg list \<Rightarrow> (tail_error + 'c policy list) outcome" where
  "new_policies env [] = Done (Inr [])"
| "new_policies env (cfg # cfgs) =
     (case tag_New env (bp_Name (pg_BasePolicy cfg)) of
        Some err \<Rightarrow> Done (Inl (TagError err))
      | None \<Rightarrow>
          bind_outcome (NewDefaultEvaluator (env_lib env) (sort_policies env) (pg_BasePolicy cfg) (SubPolicies cfg)) (\<lambda>eval.
          bind_outcome (new_policies env cfgs) (\<lambda>rest.
            Done (case rest of Inl e \<Rightarrow> Inl e
                  | Inr ps \<Rightarrow> Inr (\<lparr>policy_name = bp_Name (pg_BasePolicy cfg), policy_evaluator = eval\<rparr> # ps)))))"

definition newTracesProcessor :: "'c tail_env \<Rightarrow> tail_Config \<Rightarrow> (tail_error + 'c tailSamplingSpanProcessor) outcome" where
  "newTracesProcessor env cfg =
     (if tail_Validate cfg \<noteq> [] then Done (Inl (ConfigInvalid (tail_Validate cfg)))
      else case batcher_New (decision_batches (neg_seconds env) (DecisionWait cfg)) (ExpectedNewTracesPerSec cfg)
                  (word_of_nat (2 * NumCPU env)) of
        Inl err \<Rightarrow> Done (Inl (BatcherError err))
      | Inr inBatcher \<Rightarrow>
          (let policyGroups = go_copy [] (PolicyCfgs cfg)
           in bind_outcome (new_policies env (sort_groups env policyGroups)) (\<lambda>r.
                Done (case r of Inl e \<Rightarrow> Inl e
                  | Inr ps \<Rightarrow> Inr
                      \<lparr>maxNumTraces = NumTraces cfg, policies = ps, idToTrace = Map.empty,
                       policyTicker = \<lparr>StopCh = NilChannel, tick_every = 0\<rparr>, tickerFrequency = 10 ^ 9,
                       decisionBatcher = inBatcher, deleteChan = [], deleteChanCap = unat (NumTraces cfg),
                       numTracesOnMap = 0\<rparr>))))"

section \<open>Deciding\<close>

fun decide_loop ::
  "'c sampling_lib \<Rightarrow> nat \<Rightarrow> 'c policy list \<Rightarrow> trace_id \<Rightarrow> TraceData \<Rightarrow> policyMetrics \<Rightarrow>
   ((Decision \<times> string) option \<times> 'c policy list \<times> TraceData \<times> policyMetrics) outcome" where
  "decide_loop lib i [] traceID trace metrics = Done (None, [], trace, metrics)"
| "decide_loop lib i (p # ps) traceID trace metrics =
     (case default_Evaluate lib (policy_evaluator p) traceID trace of ((decision, err), e') \<Rightarrow>
        if length (Decisions trace) \<le> i then Panics
        else let trace' = trace\<lparr>Decisions := (Decisions trace)[i := decision]\<rparr>;
                 metrics' = (if err \<noteq> None then metrics\<lparr>evaluateErrorCount := evaluateErrorCount metrics + 1\<rparr> else metrics);
                 p' = p\<lparr>policy_evaluator := e'\<rparr>
             in if decision = Sampled \<or> decision = NotSampled
                then Done (Some (decision, policy_name p), p' # ps, trace', metrics')
                else bind_outcome (decide_loop lib (Suc i) ps traceID trace' metrics') (\<lambda>(r, ps', trace'', metrics'').
                       Done (r, p' # ps', trace'', metrics'')))"

definition makeDecision ::
  "'c sampling_lib \<Rightarrow> 'c policy list \<Rightarrow> trace_id \<Rightarrow> TraceData \<Rightarrow> policyMetrics \<Rightarrow>
   (Decision \<times> string option \<times> 'c policy list \<times> TraceData \<times> policyMetrics) outcome" where
  "makeDecision lib ps traceID trace metrics =
     bind_outcome (decide_loop lib 0 ps traceID trace metrics) (\<lambda>(r, ps', trace', metrics').
       let (finalDecision, ctx) = (case r of Some (d, nm) \<Rightarrow> (d, Some nm) | None \<Rightarrow> (Sampled, None));
           metrics'' = (if finalDecision = Sampled then metrics'\<lparr>decisionSampled := decisionSampled metrics' + 1\<rparr>
                        else if finalDecision = NotSampled
                        then metrics'\<lparr>decisionNotSampled := decisionNotSampled metrics' + 1\<rparr> else metrics')
       in Done (finalDecision, ctx, ps', trace', metrics''))"

text \<open>The loop over the batch of a tick; \<open>clock k\<close> is the time read for its \<open>k\<close>-th id.\<close>

fun tick_loop ::
  "'c sampling_lib \<Rightarrow> (nat \<Rightarrow> instant) \<Rightarrow> nat \<Rightarrow> trace_id list \<Rightarrow> 'c tailSamplingSpanProcessor \<Rightarrow> policyMetrics \<Rightarrow>
   ('c tailSamplingSpanProcessor \<times> policyMetrics \<times> tail_event list) outcome" where
  "tick_loop lib clock k [] tsp metrics = Done (tsp, metrics, [])"
| "tick_loop lib clock k (i # ids) tsp metrics =
     (case idToTrace tsp i of
        None \<Rightarrow> tick_loop lib clock (Suc k) ids tsp (metrics\<lparr>idNotFoundOnMapCount := idNotFoundOnMapCount metrics + 1\<rparr>)
      | Some trace \<Rightarrow>
          bind_outcome (makeDecision lib (policies tsp) i (trace\<lparr>DecisionTime := clock k\<rparr>) metrics)
            (\<lambda>(decision, ctx, ps', trace', metrics').
             let tsp' = tsp\<lparr>policies := ps', idToTrace := (idToTrace tsp)(i \<mapsto> trace'\<lparr>FinalDecision := decision\<rparr>)\<rparr>;
                 sent = (if decision = Sampled then [ForwardTraces ctx (ReceivedBatches trace')] else [])
             in bind_outcome (tick_loop lib clock (Suc k) ids tsp' metrics') (\<lambda>(tsp'', metrics'', evs).
                  Done (tsp'', metrics'', sent @ evs))))"

definition samplingPolicyOnTick ::
  "'c sampling_lib \<Rightarrow> (nat \<Rightarrow> instant) \<Rightarrow> 'c tailSamplingSpanProcessor \<Rightarrow>
   ('c tailSamplingSpanProcessor \<times> policyMetrics \<times> tail_event list) outcome" where
  "samplingPolicyOnTick lib clock tsp =
     bind_outcome (CloseCurrentAndTakeFirstBatch (decisionBatcher tsp)) (\<lambda>(batch, has_more, b').
       tick_loop lib clock 0 batch (tsp\<lparr>decisionBatcher := b'\<rparr>) zero_policyMetrics)"

section \<open>Consuming\<close>

definition appendToTraces :: "traces \<Rightarrow> resource_spans \<Rightarrow> span list \<Rightarrow> traces" where
  "appendToTraces dest rss spans =
     dest @ [\<lparr>Resource_Attributes = Resource_Attributes rss, ScopeSpans = [spans]\<rparr>]"

fun group_spans :: "span list \<Rightarrow> (trace_id \<Rightarrow> span list option) \<Rightarrow> trace_id \<Rightarrow> span list option" where
  "group_spans [] idToSpans = idToSpans"
| "group_spans (sp # sps) idToSpans =
     group_spans sps (idToSpans(Span_TraceID sp \<mapsto>
       (case idToSpans (Span_TraceID sp) of None \<Rightarrow> [] | Some l \<Rightarrow> l) @ [sp]))"

fun groupSpansByTraceKey :: "span list list \<Rightarrow> (trace_id \<Rightarrow> span list option) \<Rightarrow> trace_id \<Rightarrow> span list option" where
  "groupSpansByTraceKey [] idToSpans = idToSpans"
| "groupSpansByTraceKey (ils # ilss) idToSpans = groupSpansByTraceKey ilss (group_spans ils idToSpans)"

definition dropTrace ::
  "trace_id \<Rightarrow> instant \<Rightarrow> 'c tailSamplingSpanProcessor \<Rightarrow> 'c tailSamplingSpanProcessor \<times> tail_event list" where
  "dropTrace traceID deletionTime tsp =
     (case idToTrace tsp traceID of
        Some trace \<Rightarrow>
          (tsp\<lparr>idToTrace := (idToTrace tsp)(traceID := None), numTracesOnMap := numTracesOnMap tsp + NOT 0\<rparr>,
           [TraceRemoved (go_div (time_sub deletionTime (ArrivalTime trace)) (10 ^ 9))])
      | None \<Rightarrow> (tsp, [TraceNotOnTable]))"

text \<open>
  The select loop: send the id when there is room, else receive the oldest and drop its trace.
  Receiving from an empty channel without room waits for ever: only this loop sends.
\<close>

fun delete_loop ::
  "trace_id \<Rightarrow> instant \<Rightarrow> trace_id list \<Rightarrow> 'c tailSamplingSpanProcessor \<Rightarrow> ('c tailSamplingSpanProcessor \<times> tail_event list) outcome" where
  "delete_loop i currTime [] tsp =
     (if 0 < deleteChanCap tsp then Done (tsp\<lparr>deleteChan := [i]\<rparr>, []) else Blocks)"
| "delete_loop i currTime (traceKeyToDrop # rest) tsp =
     (if length (traceKeyToDrop # rest) < deleteChanCap tsp
      then Done (tsp\<lparr>deleteChan := (traceKeyToDrop # rest) @ [i]\<rparr>, [])
      else (case dropTrace traceKeyToDrop currTime tsp of (tsp', evs) \<Rightarrow>
             bind_outcome (delete_loop i currTime rest tsp') (\<lambda>(tsp'', evs'). Done (tsp'', evs @ evs'))))"

text \<open>Adding to the batcher waits, when its channel is full, for the goroutine to take one id.\<close>

definition batcher_add_waiting :: "'i \<Rightarrow> 'i batcher \<Rightarrow> 'i batcher outcome" where
  "batcher_add_waiting i b =
     (case AddToCurrentBatch i b of
        Blocks \<Rightarrow> bind_outcome (batcher_drain b) (AddToCurrentBatch i)
      | r \<Rightarrow> r)"

definition new_trace :: "nat \<Rightarrow> instant \<Rightarrow> int \<Rightarrow> TraceData" where
  "new_trace lenPolicies now lenSpans =
     \<lparr>Decisions = replicate lenPolicies Pending, ArrivalTime = now, DecisionTime = zero_time,
      SpanCount = lenSpans, ReceivedBatches = [], FinalDecision = Unspecified\<rparr>"

text \<open>Look the trace up or store a new one, with the eviction that makes room for it.\<close>

definition load_or_store ::
  "(nat \<Rightarrow> instant) \<Rightarrow> trace_id \<Rightarrow> int \<Rightarrow> 'c tailSamplingSpanProcessor \<Rightarrow>
   (TraceData \<times> bool \<times> 'c tailSamplingSpanProcessor \<times> tail_event list) outcome" where
  "load_or_store clock i lenSpans tsp =
     (case idToTrace tsp i of
        Some d \<Rightarrow>
          (let d' = d\<lparr>SpanCount := wrap64 (SpanCount d + lenSpans)\<rparr>
           in Done (d', True, tsp\<lparr>idToTrace := (idToTrace tsp)(i \<mapsto> d')\<rparr>, []))
      | None \<Rightarrow>
          (let d = new_trace (length (policies tsp)) (clock 0) lenSpans;
               tsp1 = tsp\<lparr>idToTrace := (idToTrace tsp)(i \<mapsto> d)\<rparr>
           in bind_outcome (batcher_add_waiting i (decisionBatcher tsp1)) (\<lambda>b'.
              let tsp2 = tsp1\<lparr>decisionBatcher := b', numTracesOnMap := numTracesOnMap tsp1 + 1\<rparr>
              in bind_outcome (delete_loop i (clock 1) (deleteChan tsp2) tsp2) (\<lambda>(tsp3, evs).
                   Done (d, False, tsp3, evs)))))"

definition process_spans ::
  "(nat \<Rightarrow> instant) \<Rightarrow> resource_spans \<Rightarrow> trace_id \<Rightarrow> span list \<Rightarrow> 'c tailSamplingSpanProcessor \<Rightarrow>
   (bool \<times> 'c tailSamplingSpanProcessor \<times> tail_event list) outcome" where
  "process_spans clock resourceSpans i spans tsp =
     bind_outcome (load_or_store clock i (int (length spans)) tsp) (\<lambda>(actualData, loaded, tsp', evs).
       let finalDecision = FinalDecision actualData
       in if finalDecision = Unspecified
          then let d' = actualData\<lparr>ReceivedBatches := appendToTraces (ReceivedBatches actualData) resourceSpans spans\<rparr>
               in Done (loaded,
                        if idToTrace tsp' i \<noteq> None then tsp'\<lparr>idToTrace := (idToTrace tsp')(i \<mapsto> d')\<rparr> else tsp',
                        evs)
          else Done (loaded, tsp',
                 evs @ (if finalDecision = Sampled then [ForwardTraces None (appendToTraces [] resourceSpans spans)]
                        else if finalDecision = NotSampled
                        then [LateSpanAge (go_div (time_sub (clock 2) (DecisionTime actualData)) (10 ^ 9))]
                        else [UnexpectedDecision finalDecision])))"

fun process_groups ::
  "(trace_id \<Rightarrow> nat \<Rightarrow> instant) \<Rightarrow> resource_spans \<Rightarrow> (trace_id \<times> span list) list \<Rightarrow> 'c tailSamplingSpanProcessor \<Rightarrow>
   (int \<times> 'c tailSamplingSpanProcessor \<times> tail_event list) outcome" where
  "process_groups clock rss [] tsp = Done (0, tsp, [])"
| "process_groups clock rss ((i, spans) # gs) tsp =
     bind_outcome (process_spans (clock i) rss i spans tsp) (\<lambda>(loaded, tsp', evs).
     bind_outcome (process_groups clock rss gs tsp') (\<lambda>(n, tsp'', evs').
       Done ((if loaded then 0 else 1) + n, tsp'', evs @ evs')))"

definition processTraces ::
  "(trace_id \<Rightarrow> nat \<Rightarrow> instant) \<Rightarrow> (trace_id list \<Rightarrow> trace_id list) \<Rightarrow> resource_spans \<Rightarrow> 'c tailSamplingSpanProcessor \<Rightarrow>
   ('c tailSamplingSpanProcessor \<times> tail_event list) outcome" where
  "processTraces clock order rss tsp =
     (let idToSpans = groupSpansByTraceKey (ScopeSpans rss) Map.empty;
          ids = order (remdups (map Span_TraceID (concat (ScopeSpans rss))))
      in bind_outcome (process_groups clock rss (map (\<lambda>i. (i, the (idToSpans i))) ids) tsp) (\<lambda>(n, tsp', evs).
           Done (tsp', evs @ [NewTraceIDs n])))"

fun tail_ConsumeTraces ::
  "(trace_id \<Rightarrow> nat \<Rightarrow> instant) \<Rightarrow> (trace_id list \<Rightarrow> trace_id list) \<Rightarrow> traces \<Rightarrow> 'c tailSamplingSpanProcessor \<Rightarrow>
   ('c tailSamplingSpanProcessor \<times> tail_event list) outcome" where
  "tail_ConsumeTraces clock order [] tsp = Done (tsp, [])"
| "tail_ConsumeTraces clock order (rss # td) tsp =
     bind_outcome (processTraces clock order rss tsp) (\<lambda>(tsp', evs).
     bind_outcome (tail_ConsumeTraces clock order td tsp') (\<lambda>(tsp'', evs'). Done (tsp'', evs @ evs')))"

section \<open>Lifecycle\<close>

definition ticker_Start :: "duration \<Rightarrow> PolicyTicker \<Rightarrow> PolicyTicker" where
  "ticker_Start d pt = \<lparr>StopCh = OpenChannel, tick_every = d\<rparr>"

definition ticker_Stop :: "PolicyTicker \<Rightarrow> PolicyTicker outcome" where
  "ticker_Stop pt =
     (case StopCh pt of NilChannel \<Rightarrow> Done pt
      | OpenChannel \<Rightarrow> Done (pt\<lparr>StopCh := ClosedChannel\<rparr>)
      | ClosedChannel \<Rightarrow> Panics)"

definition tail_Start :: "'c tailSamplingSpanProcessor \<Rightarrow> 'c tailSamplingSpanProcessor" where
  "tail_Start tsp = tsp\<lparr>policyTicker := ticker_Start (tickerFrequency tsp) (policyTicker tsp)\<rparr>"

definition tail_Shutdown :: "'c tailSamplingSpanProcessor \<Rightarrow> 'c tailSamplingSpanProcessor outcome" where
  "tail_Shutdown tsp =
     bind_outcome (batcher_Stop (decisionBatcher tsp)) (\<lambda>b'.
     bind_outcome (ticker_Stop (policyTicker tsp)) (\<lambda>pt'.
       Done (tsp\<lparr>decisionBatcher := b', policyTicker := pt'\<rparr>)))"

section \<open>Invariant\<close>

definition tail_inv :: "'c tailSamplingSpanProcessor \<Rightarrow> bool" where
  "tail_inv tsp \<longleftrightarrow> batcher_inv (decisionBatcher tsp) \<and> 1 \<le> pendingCap (decisionBatcher tsp)
   \<and> distinct (deleteChan tsp) \<and> set (deleteChan tsp) = dom (idToTrace tsp)
   \<and> length (deleteChan tsp) \<le> deleteChanCap tsp \<and> deleteChanCap tsp = unat (maxNumTraces tsp)
   \<and> numTracesOnMap tsp = word_of_nat (length (deleteChan tsp))
   \<and> (\<forall>i t. idToTrace tsp i = Some t \<longrightarrow> length (Decisions t) = length (policies tsp)
        \<and> FinalDecision t \<in> {Unspecified, Sampled, NotSampled})"

lemma delete_loop_exact:
  "0 < deleteChanCap tsp \<Longrightarrow> length ch \<le> deleteChanCap tsp \<Longrightarrow>
   delete_loop i now ch tsp =
     (if length ch < deleteChanCap tsp then Done (tsp\<lparr>deleteChan := ch @ [i]\<rparr>, [])
      else case dropTrace (hd ch) now tsp of (tsp', evs) \<Rightarrow> Done (tsp'\<lparr>deleteChan := tl ch @ [i]\<rparr>, evs))"
proof (cases ch)
  case Nil
  assume "0 < deleteChanCap tsp" "length ch \<le> deleteChanCap tsp"
  then show ?thesis using Nil by simp
next
  case (Cons k rest)
  assume cap: "0 < deleteChanCap tsp" "length ch \<le> deleteChanCap tsp"
  obtain tsp' evs where d: "dropTrace k now tsp = (tsp', evs)" by fastforce
  then have "deleteChanCap tsp' = deleteChanCap tsp" by (auto simp: dropTrace_def split: option.splits)
  with cap Cons d show ?thesis by (cases rest) auto
qed

lemma delete_loop_keeps:
  assumes cap: "0 < deleteChanCap tsp" "length ch \<le> deleteChanCap tsp"
    and ch: "distinct (i # ch)" "dom (idToTrace tsp) = insert i (set ch)"
    and n: "numTracesOnMap tsp = word_of_nat (Suc (length ch))"
  shows "\<exists>ids m k evs. delete_loop i now ch tsp =
      Done (tsp\<lparr>deleteChan := ids, idToTrace := m, numTracesOnMap := k\<rparr>, evs)
    \<and> distinct ids \<and> set ids = dom m \<and> length ids \<le> deleteChanCap tsp \<and> k = word_of_nat (length ids)
    \<and> m \<subseteq>\<^sub>m idToTrace tsp \<and> i \<in> dom m
    \<and> m = (if length ch < deleteChanCap tsp then idToTrace tsp else (idToTrace tsp)(hd ch := None))"
proof (cases "length ch < deleteChanCap tsp")
  case True
  then have "delete_loop i now ch tsp = Done (tsp\<lparr>deleteChan := ch @ [i], idToTrace := idToTrace tsp,
      numTracesOnMap := numTracesOnMap tsp\<rparr>, [])"
    using delete_loop_exact [OF cap] by simp
  then show ?thesis using ch n True
    by (intro exI [of _ "ch @ [i]"] exI [of _ "idToTrace tsp"] exI [of _ "numTracesOnMap tsp"] exI [of _ "[]"]) auto
next
  case False
  then obtain k rest where k: "ch = k # rest" using cap by (cases ch) auto
  with ch obtain t where t: "idToTrace tsp k = Some t" by fastforce
  let ?m = "(idToTrace tsp)(k := None)"
  let ?n = "numTracesOnMap tsp + NOT 0"
  have "delete_loop i now ch tsp = Done (tsp\<lparr>deleteChan := rest @ [i], idToTrace := ?m, numTracesOnMap := ?n\<rparr>,
      [TraceRemoved (go_div (time_sub now (ArrivalTime t)) (10 ^ 9))])"
    using delete_loop_exact [OF cap] False k t by (simp add: dropTrace_def)
  moreover have "?n = word_of_nat (length (rest @ [i]))" using n k by simp
  moreover have "set (rest @ [i]) = dom ?m" "distinct (rest @ [i])" "i \<in> dom ?m"
    using ch k by auto
  moreover have "?m = (if length ch < deleteChanCap tsp then idToTrace tsp else (idToTrace tsp)(hd ch := None))"
    using False k by simp
  moreover have "length (rest @ [i]) \<le> deleteChanCap tsp" using cap k by simp
  ultimately show ?thesis
    by (intro exI [of _ "rest @ [i]"] exI [of _ ?m] exI [of _ ?n] exI) (simp add: map_le_def)
qed

lemma batcher_add_waiting_keeps:
  assumes "batcher_inv b" "1 \<le> pendingCap b" "\<not> stopped b"
  shows "\<exists>b'. batcher_add_waiting i b = Done b' \<and> batcher_inv b' \<and> pendingCap b' = pendingCap b \<and> \<not> stopped b'
    \<and> held b' = add_mset i (held b)"
proof (cases "length (pendingIds b) < pendingCap b")
  case True
  with assms show ?thesis
    by (auto simp: batcher_add_waiting_def AddToCurrentBatch_def batcher_inv_def held_def)
next
  case False
  with assms obtain j rest where "pendingIds b = j # rest" by (cases "pendingIds b") auto
  with assms False show ?thesis
    by (auto simp: batcher_add_waiting_def AddToCurrentBatch_def batcher_drain_def batcher_inv_def held_def)
qed

lemma batcher_add_waiting_Done:
  assumes "batcher_inv b" "1 \<le> pendingCap b" "batcher_add_waiting i b = Done b'"
  shows "\<not> stopped b"
  using assms by (auto simp: batcher_add_waiting_def AddToCurrentBatch_def batcher_inv_def split: if_splits)

text \<open>A new trace is stored, its id queued, and when the map was full the oldest trace dropped.\<close>

lemma load_or_store_new:
  assumes inv: "tail_inv tsp" and cap: "0 < deleteChanCap tsp" and new: "idToTrace tsp i = None"
    and run: "\<not> stopped (decisionBatcher tsp)"
  shows "\<exists>tsp' evs. load_or_store clock i n tsp = Done (new_trace (length (policies tsp)) (clock 0) n, False, tsp', evs)
    \<and> tail_inv tsp' \<and> policies tsp' = policies tsp \<and> deleteChanCap tsp' = deleteChanCap tsp
    \<and> \<not> stopped (decisionBatcher tsp')
    \<and> held (decisionBatcher tsp') = add_mset i (held (decisionBatcher tsp))
    \<and> idToTrace tsp' = (if length (deleteChan tsp) < deleteChanCap tsp then idToTrace tsp
         else (idToTrace tsp)(hd (deleteChan tsp) := None))(i \<mapsto> new_trace (length (policies tsp)) (clock 0) n)"
proof -
  let ?d = "new_trace (length (policies tsp)) (clock 0) n"
  obtain b' where b': "batcher_add_waiting i (decisionBatcher tsp) = Done b'" "batcher_inv b'"
      "pendingCap b' = pendingCap (decisionBatcher tsp)" "\<not> stopped b'"
      "held b' = add_mset i (held (decisionBatcher tsp))"
    using batcher_add_waiting_keeps [of "decisionBatcher tsp" i] inv run by (auto simp: tail_inv_def)
  define t2 where "t2 = tsp\<lparr>idToTrace := (idToTrace tsp)(i \<mapsto> ?d), decisionBatcher := b', numTracesOnMap := numTracesOnMap tsp + 1\<rparr>"
  have t2: "deleteChanCap t2 = deleteChanCap tsp" "idToTrace t2 = (idToTrace tsp)(i \<mapsto> ?d)"
    "numTracesOnMap t2 = word_of_nat (Suc (length (deleteChan tsp)))" "decisionBatcher t2 = b'"
    "policies t2 = policies tsp" "maxNumTraces t2 = maxNumTraces tsp" "deleteChan t2 = deleteChan tsp"
    using inv by (simp_all add: t2_def tail_inv_def)
  have i: "i \<notin> set (deleteChan tsp)" using inv new by (auto simp: tail_inv_def)
  have "0 < deleteChanCap t2" "length (deleteChan tsp) \<le> deleteChanCap t2"
    "distinct (i # deleteChan tsp)" "dom (idToTrace t2) = insert i (set (deleteChan tsp))"
    using inv cap i t2 by (auto simp: tail_inv_def)
  from delete_loop_keeps [OF this t2(3), of "clock 1"]
  obtain ids m k evs where l: "delete_loop i (clock 1) (deleteChan tsp) t2 =
      Done (t2\<lparr>deleteChan := ids, idToTrace := m, numTracesOnMap := k\<rparr>, evs)"
    and ids: "distinct ids" "set ids = dom m" "length ids \<le> deleteChanCap tsp" "k = word_of_nat (length ids)"
    and m: "m = (if length (deleteChan tsp) < deleteChanCap tsp then idToTrace t2
        else (idToTrace t2)(hd (deleteChan tsp) := None))"
    unfolding t2(1) by blast
  have "hd (deleteChan tsp) \<noteq> i" if "\<not> length (deleteChan tsp) < deleteChanCap tsp"
    using i cap that by (cases "deleteChan tsp") auto
  then have m': "m = (if length (deleteChan tsp) < deleteChanCap tsp then idToTrace tsp
         else (idToTrace tsp)(hd (deleteChan tsp) := None))(i \<mapsto> ?d)"
    using m t2(2) by (auto simp: fun_upd_twist)
  let ?t3 = "t2\<lparr>deleteChan := ids, idToTrace := m, numTracesOnMap := k\<rparr>"
  have le: "m j = Some t \<Longrightarrow> idToTrace tsp j = Some t \<or> t = ?d" for j t
    unfolding m' by (auto split: if_splits)
  have "\<forall>j t. m j = Some t \<longrightarrow> length (Decisions t) = length (policies tsp)
      \<and> FinalDecision t \<in> {Unspecified, Sampled, NotSampled}"
    using inv le by (fastforce simp: tail_inv_def new_trace_def)
  then have "tail_inv ?t3" using inv ids b' t2 by (simp add: tail_inv_def)
  moreover have "load_or_store clock i n tsp = Done (?d, False, ?t3, evs)"
    using l b'(1) new inv by (simp add: load_or_store_def Let_def t2_def)
  ultimately show ?thesis using m' b' t2 by (intro exI [of _ ?t3] exI [of _ evs]) auto
qed

lemma load_or_store_Done:
  assumes inv: "tail_inv tsp" and run: "load_or_store clock i n tsp = Done r" and new: "idToTrace tsp i = None"
  shows "0 < deleteChanCap tsp \<and> \<not> stopped (decisionBatcher tsp)"
proof -
  obtain b' where b': "batcher_add_waiting i (decisionBatcher tsp) = Done b'"
    using run new by (auto simp: load_or_store_def Let_def bind_outcome_Done)
  have "0 < deleteChanCap tsp"
  proof (rule ccontr)
    assume "\<not> 0 < deleteChanCap tsp"
    then have z: "deleteChan tsp = []" "deleteChanCap tsp = 0" using inv by (auto simp: tail_inv_def)
    then show False using run new b' by (simp add: load_or_store_def Let_def)
  qed
  with batcher_add_waiting_Done [OF _ _ b'] inv show ?thesis by (auto simp: tail_inv_def)
qed

lemma tail_inv_update:
  assumes "tail_inv tsp" and "idToTrace tsp i \<noteq> None" and "length (Decisions t) = length (policies tsp)"
    and "FinalDecision t \<in> {Unspecified, Sampled, NotSampled}"
  shows "tail_inv (tsp\<lparr>idToTrace := (idToTrace tsp)(i \<mapsto> t)\<rparr>)"
  using assms by (auto simp: tail_inv_def insert_absorb domI)

lemma load_or_store_inv:
  assumes inv: "tail_inv tsp" and run: "load_or_store clock i n tsp = Done (d, loaded, tsp', evs)"
  shows "tail_inv tsp' \<and> policies tsp' = policies tsp \<and> maxNumTraces tsp' = maxNumTraces tsp
    \<and> idToTrace tsp' i = Some d \<and> loaded = (idToTrace tsp i \<noteq> None)"
proof (cases "idToTrace tsp i")
  case None
  from load_or_store_Done [OF inv run None] load_or_store_new [OF inv _ None, of clock n] run
  have r: "tail_inv tsp'" "policies tsp' = policies tsp" "deleteChanCap tsp' = deleteChanCap tsp"
    "idToTrace tsp' i = Some d" "\<not> loaded" by auto
  have "unat (maxNumTraces tsp') = unat (maxNumTraces tsp)" using r inv by (simp add: tail_inv_def)
  with r None show ?thesis by (simp add: word_unat_eq_iff)
next
  case (Some t)
  then have "tsp' = tsp\<lparr>idToTrace := (idToTrace tsp)(i \<mapsto> d)\<rparr>" "d = t\<lparr>SpanCount := wrap64 (SpanCount t + n)\<rparr>" loaded
    using run by (auto simp: load_or_store_def Let_def)
  then show ?thesis using tail_inv_update [OF inv, of i d] Some inv by (auto simp: tail_inv_def)
qed

lemma process_spans_inv [inv_intros]:
  assumes inv: "tail_inv tsp" and run: "process_spans clock rss i spans tsp = Done (loaded, tsp', evs)"
  shows "tail_inv tsp' \<and> policies tsp' = policies tsp \<and> maxNumTraces tsp' = maxNumTraces tsp"
proof -
  from run obtain d loaded1 tsp1 evs1 where ls: "load_or_store clock i (int (length spans)) tsp = Done (d, loaded1, tsp1, evs1)"
    by (auto simp: process_spans_def bind_outcome_Done)
  with run have tsp': "tsp' = (if FinalDecision d = Unspecified \<and> idToTrace tsp1 i \<noteq> None
      then tsp1\<lparr>idToTrace := (idToTrace tsp1)(i \<mapsto> d\<lparr>ReceivedBatches := appendToTraces (ReceivedBatches d) rss spans\<rparr>)\<rparr> else tsp1)"
    by (simp add: process_spans_def Let_def split: if_splits)
  from load_or_store_inv [OF inv ls] have l: "tail_inv tsp1" "policies tsp1 = policies tsp"
    "maxNumTraces tsp1 = maxNumTraces tsp" "idToTrace tsp1 i = Some d" by auto
  then have "length (Decisions d) = length (policies tsp1)" "FinalDecision d \<in> {Unspecified, Sampled, NotSampled}"
    by (auto simp: tail_inv_def)
  with tail_inv_update [OF l(1)] l show ?thesis unfolding tsp' by auto
qed

lemma process_groups_inv:
  "tail_inv tsp \<Longrightarrow> process_groups clock rss gs tsp = Done (n, tsp', evs) \<Longrightarrow>
     tail_inv tsp' \<and> policies tsp' = policies tsp \<and> maxNumTraces tsp' = maxNumTraces tsp"
proof (induction clock rss gs tsp arbitrary: n evs rule: process_groups.induct)
  case (2 clock rss i spans gs tsp)
  then obtain loaded tsp1 evs1 n1 evs2 where p: "process_spans (clock i) rss i spans tsp = Done (loaded, tsp1, evs1)"
    and g: "process_groups clock rss gs tsp1 = Done (n1, tsp', evs2)"
    by (auto simp: bind_outcome_Done)
  from process_spans_inv [OF "2.prems"(1) p] "2.IH" [OF _ g] show ?case by simp
qed simp

lemma tail_ConsumeTraces_inv [inv_intros]:
  "tail_inv tsp \<Longrightarrow> tail_ConsumeTraces clock order td tsp = Done (tsp', evs) \<Longrightarrow>
     tail_inv tsp' \<and> policies tsp' = policies tsp \<and> maxNumTraces tsp' = maxNumTraces tsp"
proof (induction clock order td tsp arbitrary: evs rule: tail_ConsumeTraces.induct)
  case (2 clock order rss td tsp)
  then obtain tsp1 evs1 evs2 where p: "processTraces clock order rss tsp = Done (tsp1, evs1)"
    and g: "tail_ConsumeTraces clock order td tsp1 = Done (tsp', evs2)"
    by (auto simp: bind_outcome_Done)
  from p obtain n evs3 where "process_groups clock rss
      (map (\<lambda>i. (i, the (groupSpansByTraceKey (ScopeSpans rss) Map.empty i)))
        (order (remdups (map Span_TraceID (concat (ScopeSpans rss)))))) tsp = Done (n, tsp1, evs3)"
    by (auto simp: processTraces_def bind_outcome_Done Let_def)
  from process_groups_inv [OF "2.prems"(1) this] "2.IH" [OF _ g] show ?case by simp
qed simp

section \<open>Deciding\<close>

text \<open>The decision the policies mean: that of the first policy which samples or does not.\<close>

fun policies_meaning :: "'c sampling_lib \<Rightarrow> 'c policy list \<Rightarrow> trace_id \<Rightarrow> TraceData \<Rightarrow> (Decision \<times> string) option" where
  "policies_meaning lib [] i t = None"
| "policies_meaning lib (p # ps) i t =
     (let d = default_meaning lib (policy_evaluator p) i t
      in if d = Sampled \<or> d = NotSampled then Some (d, policy_name p) else policies_meaning lib ps i t)"

lemma decide_loop_frame:
  "decide_loop lib k ps i t m = Done (r, ps', t', m') \<Longrightarrow>
     length ps' = length ps \<and> map policy_name ps' = map policy_name ps
   \<and> t' = t\<lparr>Decisions := Decisions t'\<rparr> \<and> length (Decisions t') = length (Decisions t)
   \<and> (case r of None \<Rightarrow> True | Some (d, nm) \<Rightarrow> d \<in> {Sampled, NotSampled} \<and> nm \<in> policy_name ` set ps)
   \<and> (ps = [] \<longrightarrow> r = None) \<and> idNotFoundOnMapCount m' = idNotFoundOnMapCount m
   \<and> decisionSampled m' = decisionSampled m \<and> decisionNotSampled m' = decisionNotSampled m"
proof (induction ps arbitrary: k t m r ps' t' m')
  case (Cons p ps)
  obtain d err e' where ev: "default_Evaluate lib (policy_evaluator p) i t = ((d, err), e')" by (metis prod.exhaust)
  let ?t = "t\<lparr>Decisions := (Decisions t)[k := d]\<rparr>"
  let ?m = "if err \<noteq> None then m\<lparr>evaluateErrorCount := evaluateErrorCount m + 1\<rparr> else m"
  show ?case
  proof (cases "d = Sampled \<or> d = NotSampled")
    case True
    with Cons.prems ev show ?thesis by (auto simp: Let_def split: if_splits)
  next
    case False
    then obtain ps1 where rest: "decide_loop lib (Suc k) ps i ?t ?m = Done (r, ps1, t', m')"
      and ps': "ps' = p\<lparr>policy_evaluator := e'\<rparr> # ps1"
      using Cons.prems ev by (auto simp: Let_def bind_outcome_Done split: if_splits)
    from Cons.IH [OF rest] show ?thesis unfolding ps' by (auto split: option.splits if_splits)
  qed
qed simp

lemma filter_meaning_Decisions [simp]: "filter_meaning lib f (t\<lparr>Decisions := ds\<rparr>) = filter_meaning lib f t"
  by (cases f) (simp_all add: saf_meaning_def)

lemma sampler_Evaluate_trace: "sampler_Evaluate smp i t = sampler_Evaluate smp i t'"
  by (cases smp) simp_all

lemma default_meaning_Decisions [simp]: "default_meaning lib e i (t\<lparr>Decisions := ds\<rparr>) = default_meaning lib e i t"
proof (induction lib e i t rule: default_meaning.induct)
  case (1 lib nm smp mname op fs subs i t)
  show ?case
  proof (cases "filters_apply op (map (\<lambda>f. filter_meaning lib f t) fs)")
    case True
    with 1 have "map (\<lambda>sp. default_meaning lib sp i (t\<lparr>Decisions := ds\<rparr>)) subs = map (\<lambda>sp. default_meaning lib sp i t) subs"
      by (intro map_cong) auto
    then show ?thesis
      by (simp only: default_meaning.simps filter_meaning_Decisions sampler_Evaluate_trace [of smp i "t\<lparr>Decisions := ds\<rparr>" t])
  qed simp
qed

lemma policies_meaning_Decisions [simp]: "policies_meaning lib ps i (t\<lparr>Decisions := ds\<rparr>) = policies_meaning lib ps i t"
  by (induction ps) (simp_all add: Let_def)

definition policies_ok :: "'c sampling_lib \<Rightarrow> ('c \<Rightarrow> string \<Rightarrow> bool option) \<Rightarrow> 'c policy list \<Rightarrow> bool" where
  "policies_ok lib contents ps \<longleftrightarrow> (\<forall>p\<in>set ps. evaluator_ok lib contents (policy_evaluator p))"

lemma decide_loop_meaning:
  assumes lawful: "lru_lawful lib contents"
  shows "policies_ok lib contents ps \<Longrightarrow> k + length ps \<le> length (Decisions t) \<Longrightarrow>
     \<exists>ps' t' m'. decide_loop lib k ps i t m = Done (policies_meaning lib ps i t, ps', t', m')
       \<and> policies_ok lib contents ps'"
proof (induction ps arbitrary: k t m)
  case (Cons p ps)
  obtain d err e' where ev: "default_Evaluate lib (policy_evaluator p) i t = ((d, err), e')" by (metis prod.exhaust)
  from default_Evaluate_meaning(1) [OF lawful _ ev] Cons.prems(1)
  have d: "d = default_meaning lib (policy_evaluator p) i t" "err = None" "evaluator_ok lib contents e'"
    by (auto simp: policies_ok_def)
  have ok: "policies_ok lib contents ps" "\<not> length (Decisions t) \<le> k"
    "Suc k + length ps \<le> length (Decisions (t\<lparr>Decisions := (Decisions t)[k := d]\<rparr>))"
    using Cons.prems by (auto simp: policies_ok_def)
  show ?case
  proof (cases "d = Sampled \<or> d = NotSampled")
    case True
    with ev d ok show ?thesis by (auto simp: Let_def policies_ok_def)
  next
    case False
    from Cons.IH [OF ok(1,3), of m] obtain ps1 t1 m1 where
      "decide_loop lib (Suc k) ps i (t\<lparr>Decisions := (Decisions t)[k := d]\<rparr>) m = Done (policies_meaning lib ps i t, ps1, t1, m1)"
      "policies_ok lib contents ps1" by auto
    with False ev d ok show ?thesis by (auto simp: Let_def policies_ok_def)
  qed
qed (simp add: policies_ok_def)

lemma makeDecision_meaning:
  assumes "lru_lawful lib contents" "policies_ok lib contents ps" "length (Decisions t) = length ps"
  shows "\<exists>ps' t' m'. makeDecision lib ps i t m =
    Done (case policies_meaning lib ps i t of Some (d, nm) \<Rightarrow> (d, Some nm, ps', t', m') | None \<Rightarrow> (Sampled, None, ps', t', m'))
    \<and> policies_ok lib contents ps'"
proof -
  from decide_loop_meaning [OF assms(1,2), of 0 t i m] assms(3) obtain ps' t' m' where
    "decide_loop lib 0 ps i t m = Done (policies_meaning lib ps i t, ps', t', m')" "policies_ok lib contents ps'"
    by auto
  then show ?thesis
    by (cases "policies_meaning lib ps i t") (force simp: makeDecision_def Let_def)+
qed

lemma makeDecision_frame:
  assumes "makeDecision lib ps i t m = Done (d, ctx, ps', t', m')"
  shows "length ps' = length ps \<and> d \<in> {Sampled, NotSampled} \<and> (\<exists>ds. t' = t\<lparr>Decisions := ds\<rparr> \<and> length ds = length (Decisions t)) \<and> (ps = [] \<longrightarrow> d = Sampled \<and> ctx = None)
    \<and> (ctx = None \<longrightarrow> d = Sampled)"
proof -
  obtain r m1 where l: "decide_loop lib 0 ps i t m = Done (r, ps', t', m1)"
    and d: "(d, ctx) = (case r of Some (d, nm) \<Rightarrow> (d, Some nm) | None \<Rightarrow> (Sampled, None))"
    using assms by (auto simp: makeDecision_def bind_outcome_Done Let_def split: option.splits prod.splits)
  from decide_loop_frame [OF l] have t: "\<exists>ds. t' = t\<lparr>Decisions := ds\<rparr> \<and> length ds = length (Decisions t)"
    by metis
  have "length ps' = length ps" "ps = [] \<longrightarrow> r = None"
    "case r of None \<Rightarrow> True | Some (d, nm) \<Rightarrow> d \<in> {Sampled, NotSampled} \<and> nm \<in> policy_name ` set ps"
    using decide_loop_frame [OF l] by blast+
  with t d show ?thesis by (cases r) auto
qed

text \<open>A tick decides the traces of the batch that are still on the map; nothing else changes.\<close>

lemma tick_loop_cases:
  assumes "tick_loop lib clock k (i # ids) tsp m = Done (tsp', m', evs)"
  obtains (gone) "idToTrace tsp i = None"
      "tick_loop lib clock (Suc k) ids tsp (m\<lparr>idNotFoundOnMapCount := idNotFoundOnMapCount m + 1\<rparr>) = Done (tsp', m', evs)"
  | (decided) t d ctx ps ds m1 evs1 where "idToTrace tsp i = Some t"
      "tick_loop lib clock (Suc k) ids (tsp\<lparr>policies := ps,
         idToTrace := (idToTrace tsp)(i \<mapsto> t\<lparr>DecisionTime := clock k, Decisions := ds, FinalDecision := d\<rparr>)\<rparr>) m1
       = Done (tsp', m', evs1)"
      "evs = (if d = Sampled then [ForwardTraces ctx (ReceivedBatches t)] else []) @ evs1"
      "length ps = length (policies tsp)" "d \<in> {Sampled, NotSampled}" "length ds = length (Decisions t)"
      "policies tsp = [] \<longrightarrow> ps = [] \<and> d = Sampled \<and> ctx = None"
proof (cases "idToTrace tsp i")
  case None
  with assms gone show thesis by simp
next
  case (Some t)
  with assms obtain d ctx ps1 t1 m1 evs1 where
    mk: "makeDecision lib (policies tsp) i (t\<lparr>DecisionTime := clock k\<rparr>) m = Done (d, ctx, ps1, t1, m1)"
    and rest: "tick_loop lib clock (Suc k) ids
      (tsp\<lparr>policies := ps1, idToTrace := (idToTrace tsp)(i \<mapsto> t1\<lparr>FinalDecision := d\<rparr>)\<rparr>) m1 = Done (tsp', m', evs1)"
    and evs: "evs = (if d = Sampled then [ForwardTraces ctx (ReceivedBatches t1)] else []) @ evs1"
    by (auto simp: bind_outcome_Done Let_def)
  note fr0 = makeDecision_frame [OF mk]
  then have fr: "length ps1 = length (policies tsp)" "d \<in> {Sampled, NotSampled}"
    "policies tsp = [] \<longrightarrow> ps1 = [] \<and> d = Sampled \<and> ctx = None"
    by auto
  from fr0 obtain ds where t1: "t1 = t\<lparr>DecisionTime := clock k, Decisions := ds\<rparr>"
    "length ds = length (Decisions t)" by (elim conjE exE) simp
  have rest': "tick_loop lib clock (Suc k) ids (tsp\<lparr>policies := ps1,
      idToTrace := (idToTrace tsp)(i \<mapsto> t\<lparr>DecisionTime := clock k, Decisions := ds, FinalDecision := d\<rparr>)\<rparr>) m1
      = Done (tsp', m', evs1)"
    using rest unfolding t1 by simp
  have evs': "evs = (if d = Sampled then [ForwardTraces ctx (ReceivedBatches t)] else []) @ evs1"
    using evs unfolding t1 by simp
  show thesis by (rule decided [OF Some rest' evs' fr(1,2) t1(2) fr(3)])
qed

definition decided_from :: "bool \<Rightarrow> bool \<Rightarrow> TraceData \<Rightarrow> TraceData \<Rightarrow> bool" where
  "decided_from in_batch unconfigured t t' \<longleftrightarrow>
     ReceivedBatches t' = ReceivedBatches t \<and> SpanCount t' = SpanCount t
   \<and> (if in_batch then FinalDecision t' \<in> {Sampled, NotSampled} else t' = t)
   \<and> (in_batch \<and> unconfigured \<longrightarrow> FinalDecision t' = Sampled)"

lemma decided_from_trans:
  "decided_from b u t t1 \<Longrightarrow> decided_from b' u t1 t' \<Longrightarrow> decided_from (b \<or> b') u t t'"
  by (auto simp: decided_from_def split: if_splits)

lemma decided_from_refl [simp]: "decided_from False u t t"
  by (simp add: decided_from_def)

lemma tick_loop_inv:
  "tail_inv tsp \<Longrightarrow> tick_loop lib clock k ids tsp m = Done (tsp', m', evs) \<Longrightarrow>
     tail_inv tsp' \<and> length (policies tsp') = length (policies tsp) \<and> maxNumTraces tsp' = maxNumTraces tsp
   \<and> decisionBatcher tsp' = decisionBatcher tsp \<and> deleteChan tsp' = deleteChan tsp"
proof (induction ids arbitrary: k tsp m evs)
  case (Cons i ids)
  from Cons.prems(2) show ?case
  proof (cases rule: tick_loop_cases)
    case gone
    from Cons.IH [OF Cons.prems(1) gone(2)] show ?thesis .
  next
    case (decided t d ctx ps ds m1 evs1)
    let ?tsp = "tsp\<lparr>policies := ps, idToTrace := (idToTrace tsp)(i \<mapsto> t\<lparr>DecisionTime := clock k, Decisions := ds, FinalDecision := d\<rparr>)\<rparr>"
    have "tail_inv ?tsp" using Cons.prems(1) decided by (auto simp: tail_inv_def)
    from Cons.IH [OF this decided(2)] decided(4) show ?thesis by simp
  qed
qed simp

lemma tick_loop_traces:
  "tick_loop lib clock k ids tsp m = Done (tsp', m', evs) \<Longrightarrow> idToTrace tsp j = Some t \<Longrightarrow>
     \<exists>t'. idToTrace tsp' j = Some t' \<and> decided_from (j \<in> set ids) (policies tsp = []) t t'"
proof (induction ids arbitrary: k tsp m evs t)
  case (Cons i ids)
  from Cons.prems(1) show ?case
  proof (cases rule: tick_loop_cases)
    case gone
    with Cons.prems(2) have "j \<noteq> i" by auto
    with Cons.IH [OF gone(2) Cons.prems(2)] show ?thesis by simp
  next
    case (decided s d ctx ps ds m1 evs1)
    let ?s = "s\<lparr>DecisionTime := clock k, Decisions := ds, FinalDecision := d\<rparr>"
    have u: "(ps = []) = (policies tsp = [])" using decided(4) by (metis length_0_conv)
    show ?thesis
    proof (cases "j = i")
      case True
      with Cons.prems(2) decided(1) have s: "s = t" by simp
      have "decided_from True (policies tsp = []) t ?s"
        using decided(5,7) unfolding s by (simp add: decided_from_def)
      moreover obtain t' where "idToTrace tsp' j = Some t'"
        "decided_from (j \<in> set ids) (policies tsp = []) ?s t'"
        using Cons.IH [OF decided(2), of ?s] True u by auto
      ultimately show ?thesis using decided_from_trans [of True] True by auto
    next
      case False
      then show ?thesis using Cons.IH [OF decided(2), of t] Cons.prems(2) u by auto
    qed
  qed
qed simp

definition sent_batches :: "(trace_id \<Rightarrow> TraceData option) \<Rightarrow> trace_id list \<Rightarrow> tail_event list" where
  "sent_batches m ids =
     map (\<lambda>i. ForwardTraces None (ReceivedBatches (the (m i)))) (filter (\<lambda>i. m i \<noteq> None) ids)"

lemma sent_batches_Cons:
  "sent_batches m (i # ids) = (case m i of None \<Rightarrow> [] | Some t \<Rightarrow> [ForwardTraces None (ReceivedBatches t)]) @ sent_batches m ids"
  by (simp add: sent_batches_def split: option.split)

lemma sent_batches_upd:
  "m i = Some t \<Longrightarrow> ReceivedBatches t' = ReceivedBatches t \<Longrightarrow> sent_batches (m(i \<mapsto> t')) ids = sent_batches m ids"
  by (induction ids) (auto simp: sent_batches_def)

lemma tick_loop_unconfigured:
  "tick_loop lib clock k ids tsp m = Done (tsp', m', evs) \<Longrightarrow> policies tsp = [] \<Longrightarrow>
     evs = sent_batches (idToTrace tsp) ids"
proof (induction ids arbitrary: k tsp m evs)
  case (Cons i ids)
  from Cons.prems(1) show ?case
  proof (cases rule: tick_loop_cases)
    case gone
    from Cons.IH [OF gone(2) Cons.prems(2)] gone(1) show ?thesis by (simp add: sent_batches_Cons)
  next
    case (decided t d ctx ps ds m1 evs1)
    have "sent_batches ((idToTrace tsp)(i \<mapsto> t\<lparr>DecisionTime := clock k, Decisions := ds, FinalDecision := d\<rparr>)) ids
        = sent_batches (idToTrace tsp) ids"
      using decided(1) by (intro sent_batches_upd) simp_all
    with Cons.IH [OF decided(2)] Cons.prems(2) decided(1,3,7) show ?thesis
      by (simp add: sent_batches_Cons del: fun_upd_apply)
  qed
qed (simp add: sent_batches_def)

lemma samplingPolicyOnTick_cases:
  assumes "samplingPolicyOnTick lib clock tsp = Done (tsp', m, evs)"
  obtains ids has_more b' where "CloseCurrentAndTakeFirstBatch (decisionBatcher tsp) = Done (ids, has_more, b')"
    "tick_loop lib clock 0 ids (tsp\<lparr>decisionBatcher := b'\<rparr>) zero_policyMetrics = Done (tsp', m, evs)"
  using assms by (auto simp: samplingPolicyOnTick_def bind_outcome_Done)

lemma samplingPolicyOnTick_inv [inv_intros]:
  assumes "tail_inv tsp" and "samplingPolicyOnTick lib clock tsp = Done (tsp', m, evs)"
  shows "tail_inv tsp' \<and> length (policies tsp') = length (policies tsp) \<and> maxNumTraces tsp' = maxNumTraces tsp
    \<and> deleteChan tsp' = deleteChan tsp"
  using assms(2)
proof (cases rule: samplingPolicyOnTick_cases)
  case (1 ids has_more b')
  have "pendingCap b' = pendingCap (decisionBatcher tsp)"
    using 1(1) by (auto simp: CloseCurrentAndTakeFirstBatch_def split: list.splits if_splits)
  with assms(1) CloseCurrentAndTakeFirstBatch_inv [OF _ 1(1)] have "tail_inv (tsp\<lparr>decisionBatcher := b'\<rparr>)"
    by (simp add: tail_inv_def)
  from tick_loop_inv [OF this 1(2)] show ?thesis by simp
qed

section \<open>Reachable states\<close>

definition drain_step :: "'c tailSamplingSpanProcessor \<Rightarrow> 'c tailSamplingSpanProcessor outcome" where
  "drain_step tsp = bind_outcome (batcher_drain (decisionBatcher tsp)) (\<lambda>b'. Done (tsp\<lparr>decisionBatcher := b'\<rparr>))"

inductive tail_reachable :: "'c tail_env \<Rightarrow> tail_Config \<Rightarrow> 'c tailSamplingSpanProcessor \<Rightarrow> bool" for env cfg where
  created: "newTracesProcessor env cfg = Done (Inr tsp) \<Longrightarrow> tail_reachable env cfg tsp"
| started: "tail_reachable env cfg tsp \<Longrightarrow> tail_reachable env cfg (tail_Start tsp)"
| consumed: "tail_reachable env cfg tsp \<Longrightarrow> tail_ConsumeTraces clock order td tsp = Done (tsp', evs) \<Longrightarrow>
    tail_reachable env cfg tsp'"
| drained: "tail_reachable env cfg tsp \<Longrightarrow> drain_step tsp = Done tsp' \<Longrightarrow> tail_reachable env cfg tsp'"
| ticked: "tail_reachable env cfg tsp \<Longrightarrow> samplingPolicyOnTick (env_lib env) clock tsp = Done (tsp', m, evs) \<Longrightarrow>
    tail_reachable env cfg tsp'"
| shut_down: "tail_reachable env cfg tsp \<Longrightarrow> tail_Shutdown tsp = Done tsp' \<Longrightarrow> tail_reachable env cfg tsp'"

definition few_cpus :: "'c tail_env \<Rightarrow> bool" where
  "few_cpus env \<longleftrightarrow> 1 \<le> NumCPU env \<and> 2 * NumCPU env < 2 ^ 64"

lemma newTracesProcessor_inv:
  assumes "newTracesProcessor env cfg = Done (Inr tsp)" and "few_cpus env"
  shows "tail_inv tsp \<and> maxNumTraces tsp = NumTraces cfg
    \<and> new_policies env (sort_groups env (go_copy [] (PolicyCfgs cfg))) = Done (Inr (policies tsp))"
proof -
  obtain b :: "trace_id batcher" and ps where b: "batcher_New (decision_batches (neg_seconds env) (DecisionWait cfg)) (ExpectedNewTracesPerSec cfg)
                  (word_of_nat (2 * NumCPU env)) = Inr b"
    and ps: "new_policies env (sort_groups env (go_copy [] (PolicyCfgs cfg))) = Done (Inr ps)"
    and tsp: "tsp = \<lparr>maxNumTraces = NumTraces cfg, policies = ps, idToTrace = Map.empty,
                       policyTicker = \<lparr>StopCh = NilChannel, tick_every = 0\<rparr>, tickerFrequency = 10 ^ 9,
                       decisionBatcher = b, deleteChan = [], deleteChanCap = unat (NumTraces cfg),
                       numTracesOnMap = 0\<rparr>"
  proof -
    obtain b :: "trace_id batcher" where b: "batcher_New (decision_batches (neg_seconds env) (DecisionWait cfg)) (ExpectedNewTracesPerSec cfg)
        (word_of_nat (2 * NumCPU env)) = Inr b"
      using assms(1) by (auto simp: newTracesProcessor_def split: if_splits sum.splits)
    with assms(1) obtain r where r: "new_policies env (sort_groups env (go_copy [] (PolicyCfgs cfg))) = Done r"
      by (auto simp: newTracesProcessor_def bind_outcome_Done Let_def split: if_splits)
    with assms(1) b that show thesis
      by (cases r) (auto simp: newTracesProcessor_def Let_def split: if_splits)
  qed
  have "unat (word_of_nat (2 * NumCPU env) :: uint64) = 2 * NumCPU env"
    using assms(2) unfolding few_cpus_def unat_of_nat by simp
  then have "1 \<le> pendingCap b"
    using b assms(2) by (auto simp: batcher_New_def few_cpus_def simp del: of_nat_mult split: if_splits)
  with batcher_New_inv [OF b] ps show ?thesis unfolding tsp by (simp add: tail_inv_def)
qed

lemma tail_reachable_inv:
  assumes "tail_reachable env cfg tsp" and "few_cpus env"
  shows "tail_inv tsp \<and> maxNumTraces tsp = NumTraces cfg
    \<and> (\<exists>ps. new_policies env (sort_groups env (go_copy [] (PolicyCfgs cfg))) = Done (Inr ps)
         \<and> length (policies tsp) = length ps)"
  using assms(1)
proof (induction rule: tail_reachable.induct)
  case (created tsp)
  with newTracesProcessor_inv assms(2) show ?case by blast
next
  case (started tsp)
  have "tail_inv (tsp\<lparr>policyTicker := x\<rparr>) = tail_inv tsp" for x by (simp add: tail_inv_def)
  with started show ?case by (simp add: tail_Start_def)
next
  case (consumed tsp clock order td tsp' evs)
  with tail_ConsumeTraces_inv [of tsp clock order td tsp' evs] show ?case by auto
next
  case (drained tsp tsp')
  then obtain b' where b': "batcher_drain (decisionBatcher tsp) = Done b'" "tsp' = tsp\<lparr>decisionBatcher := b'\<rparr>"
    by (auto simp: drain_step_def bind_outcome_Done)
  have "pendingCap b' = pendingCap (decisionBatcher tsp)"
    using b'(1) by (auto simp: batcher_drain_def split: list.splits)
  with drained.IH b' batcher_drain_inv [of "decisionBatcher tsp" b'] show ?case by (auto simp: tail_inv_def)
next
  case (ticked tsp clock tsp' m evs)
  with samplingPolicyOnTick_inv [of tsp "env_lib env" clock tsp' m evs] show ?case by auto
next
  case (shut_down tsp tsp')
  then obtain b' pt where b': "batcher_Stop (decisionBatcher tsp) = Done b'"
    "tsp' = tsp\<lparr>decisionBatcher := b', policyTicker := pt\<rparr>"
    by (auto simp: tail_Shutdown_def bind_outcome_Done)
  have "pendingCap b' = pendingCap (decisionBatcher tsp)"
    using b'(1) by (auto simp: batcher_Stop_def split: if_splits)
  with shut_down.IH b' batcher_Stop_inv [of "decisionBatcher tsp" b'] show ?case by (auto simp: tail_inv_def)
qed

section \<open>Properties\<close>

text \<open>C12: In every state the processor can reach, the traces on the map are at most the configured
  \<^verbatim>\<open>NumTraces\<close>, each once in the deletion queue, and the counter of traces is their number.\<close>

theorem tail_memory_bounded:
  assumes "tail_reachable env cfg tsp" and "few_cpus env"
  shows "finite (dom (idToTrace tsp)) \<and> card (dom (idToTrace tsp)) \<le> unat (NumTraces cfg)
    \<and> distinct (deleteChan tsp) \<and> set (deleteChan tsp) = dom (idToTrace tsp)
    \<and> numTracesOnMap tsp = word_of_nat (card (dom (idToTrace tsp)))"
proof -
  from tail_reachable_inv [OF assms] have inv: "tail_inv tsp" and m: "maxNumTraces tsp = NumTraces cfg" by auto
  then have d: "distinct (deleteChan tsp)" "set (deleteChan tsp) = dom (idToTrace tsp)" by (auto simp: tail_inv_def)
  have "card (dom (idToTrace tsp)) = length (deleteChan tsp)"
    using distinct_card [OF d(1)] d(2) by simp
  with inv m d show ?thesis by (metis List.finite_set tail_inv_def)
qed

text \<open>A processor of capacity one on a machine with one processor, and its two traces.\<close>

definition sample_env :: "(string \<times> bool) list tail_env" where
  "sample_env = \<lparr>env_lib = sample_lib, sort_groups = id, sort_policies = id, tag_New = (\<lambda>_. None), NumCPU = 1,
     neg_seconds = (\<lambda>_. 0)\<rparr>"

definition sample_cfg :: "uint64 \<Rightarrow> tail_Config" where
  "sample_cfg n = \<lparr>DecisionWait = 10 ^ 9, NumTraces = n, ExpectedNewTracesPerSec = 0,
     PolicyCfgs = [\<lparr>pg_BasePolicy = sample_policy ''drop'' [sample_string_cfg ''env'' ''dev'' False] 0, SubPolicies = []\<rparr>],
     cfg_Version = 0\<rparr>"

definition sample_batcher :: "trace_id list \<Rightarrow> trace_id batcher" where
  "sample_batcher pend = \<lparr>pendingIds = pend, pendingCap = 2, pendingClosed = False, batches = [[]], batchesCap = 1,
     batchesClosed = False, currentBatch = [], newBatchesInitialCapacity = 0, stopped = False\<rparr>"

definition sample_processor :: "uint64 \<Rightarrow> trace_id list \<Rightarrow> (trace_id \<times> TraceData) list \<Rightarrow> (string \<times> bool) list tailSamplingSpanProcessor" where
  "sample_processor n pend traces = \<lparr>maxNumTraces = n, policies = [], idToTrace = map_of traces,
     policyTicker = \<lparr>StopCh = NilChannel, tick_every = 0\<rparr>, tickerFrequency = 10 ^ 9,
     decisionBatcher = sample_batcher pend, deleteChan = map fst traces, deleteChanCap = unat n,
     numTracesOnMap = word_of_nat (length traces)\<rparr>"

definition sample_span :: "trace_id \<Rightarrow> span" where
  "sample_span i = \<lparr>Span_TraceID = i, Span_Attributes = Map.empty, StartTimestamp = 1, EndTimestamp = 2,
     Status_Code = StatusCodeUnset, TraceState_AsRaw = []\<rparr>"

definition sample_resource :: "span list \<Rightarrow> resource_spans" where
  "sample_resource sps = \<lparr>Resource_Attributes = Map.empty, ScopeSpans = [sps]\<rparr>"

lemma sample_batches: "decision_batches (\<lambda>_. 0) (10 ^ 9) = 1"
  by code_simp

lemma sample_created: "newTracesProcessor sample_env (sample_cfg n) = Done (Inr (sample_processor n [] []))"
proof -
  have "unat (2 :: uint64) = 2" "unat (1 :: uint64) = 1" by simp_all
  then show ?thesis
    by (simp add: newTracesProcessor_def sample_env_def sample_cfg_def sample_policy_def tail_Validate_def
        go_copy_def batcher_New_def sample_batches [simplified] sample_processor_def sample_batcher_def)
qed

lemma sample_consumed:
  "tail_ConsumeTraces (\<lambda>_ _. 0) id [sample_resource [sample_span [1], sample_span [2]]] (sample_processor 1 [] [])
   = Done (sample_processor 1 [[1], [2]]
       [([2], new_trace 0 0 1\<lparr>ReceivedBatches := [sample_resource [sample_span [2]]]\<rparr>)],
       [TraceRemoved 0, NewTraceIDs 2])"
  by (simp add: processTraces_def process_spans_def load_or_store_def new_trace_def sample_processor_def
      sample_resource_def sample_span_def batcher_add_waiting_def AddToCurrentBatch_def sample_batcher_def
      dropTrace_def time_sub_def appendToTraces_def Let_def)

lemma sample_reachable:
  "tail_reachable sample_env (sample_cfg 1) (sample_processor 1 [[1], [2]]
       [([2], new_trace 0 0 1\<lparr>ReceivedBatches := [sample_resource [sample_span [2]]]\<rparr>)])"
  by (rule tail_reachable.consumed [OF tail_reachable.created [OF sample_created] sample_consumed])

theorem tail_memory_bounded_witness:
  "\<exists>tsp. tail_reachable sample_env (sample_cfg 1) tsp \<and> card (dom (idToTrace tsp)) = 1
     \<and> card (dom (idToTrace tsp)) \<le> unat (1 :: uint64)"
proof -
  have few: "few_cpus sample_env" by (simp add: few_cpus_def sample_env_def)
  show ?thesis
    by (rule exI, intro conjI, rule sample_reachable)
       (use tail_memory_bounded [OF sample_reachable few] in
         \<open>simp_all add: sample_processor_def sample_cfg_def\<close>)
qed

text \<open>C18: The processor never loads its configured policies: the slice they are copied into is empty
  and \<^verbatim>\<open>copy\<close> writes as many elements as the shorter slice has. So every trace a tick decides is
  sampled and forwarded, whatever the configuration.\<close>

theorem tail_sampler_samples_everything:
  assumes "tail_reachable env cfg tsp" and "few_cpus env" and "sort_groups env [] = []"
    and "samplingPolicyOnTick (env_lib env) clock tsp = Done (tsp', m, evs)"
  shows "policies tsp = [] \<and> (\<exists>ids has_more b'. CloseCurrentAndTakeFirstBatch (decisionBatcher tsp) = Done (ids, has_more, b')
      \<and> evs = sent_batches (idToTrace tsp) ids
      \<and> (\<forall>i\<in>set ids. \<forall>t. idToTrace tsp' i = Some t \<longrightarrow> FinalDecision t = Sampled))"
proof -
  have p: "policies tsp = []"
    using tail_reachable_inv [OF assms(1,2)] assms(3) by (auto simp: go_copy_def)
  from assms(4) show ?thesis
  proof (cases rule: samplingPolicyOnTick_cases)
    case (1 ids has_more b')
    have inv: "tail_inv tsp" using tail_reachable_inv [OF assms(1,2)] by simp
    have "FinalDecision t' = Sampled" if "i \<in> set ids" "idToTrace tsp' i = Some t'" for i t'
    proof -
      have "deleteChan tsp' = deleteChan tsp" "tail_inv tsp'"
        using samplingPolicyOnTick_inv [OF inv assms(4)] by simp_all
      then have "dom (idToTrace tsp') = dom (idToTrace tsp)" using inv by (simp add: tail_inv_def)
      with that(2) obtain t where "idToTrace tsp i = Some t" by blast
      with tick_loop_traces [OF 1(2), of i t] that p show ?thesis by (auto simp: decided_from_def)
    qed
    with 1 p tick_loop_unconfigured [OF 1(2)] show ?thesis by auto
  qed
qed

definition sample_dev :: resource_spans where
  "sample_dev = \<lparr>Resource_Attributes = map_of [(''env'', \<lparr>Value_Int = 0, Value_Str = ''dev''\<rparr>)],
     ScopeSpans = [[sample_span [1]]]\<rparr>"

definition sample_dev_state :: "trace_id batcher \<Rightarrow> (string \<times> bool) list tailSamplingSpanProcessor" where
  "sample_dev_state b = sample_processor 1 [] [([1], new_trace 0 0 1\<lparr>ReceivedBatches := [sample_dev]\<rparr>)]\<lparr>decisionBatcher := b\<rparr>"

lemma sample_dev_reachable:
  "tail_reachable sample_env (sample_cfg 1) (sample_dev_state (sample_batcher []\<lparr>batches := [[[1]]]\<rparr>))"
proof -
  have "tail_ConsumeTraces (\<lambda>_ _. 0) id [sample_dev] (sample_processor 1 [] [])
      = Done (sample_dev_state (sample_batcher [[1]]), [NewTraceIDs 1])"
    by (simp add: processTraces_def process_spans_def load_or_store_def new_trace_def sample_processor_def
      sample_dev_def sample_dev_state_def sample_span_def batcher_add_waiting_def AddToCurrentBatch_def
      sample_batcher_def appendToTraces_def Let_def)
  from tail_reachable.consumed [OF tail_reachable.created [OF sample_created] this]
  have a: "tail_reachable sample_env (sample_cfg 1) (sample_dev_state (sample_batcher [[1]]))" .
  have "drain_step (sample_dev_state (sample_batcher [[1]])) = Done (sample_dev_state (sample_batcher []\<lparr>currentBatch := [[1]]\<rparr>))"
    by (simp add: drain_step_def batcher_drain_def sample_dev_state_def sample_batcher_def)
  from tail_reachable.drained [OF a this]
  have b: "tail_reachable sample_env (sample_cfg 1) (sample_dev_state (sample_batcher []\<lparr>currentBatch := [[1]]\<rparr>))" .
  have "samplingPolicyOnTick (env_lib sample_env) (\<lambda>_. 0) (sample_dev_state (sample_batcher []\<lparr>currentBatch := [[1]]\<rparr>))
      = Done (sample_dev_state (sample_batcher []\<lparr>batches := [[[1]]]\<rparr>), zero_policyMetrics, [])"
    by (simp add: samplingPolicyOnTick_def CloseCurrentAndTakeFirstBatch_def sample_dev_state_def sample_batcher_def)
  from tail_reachable.ticked [OF b this] show ?thesis .
qed

theorem tail_sampler_samples_everything_witness:
  "\<exists>tsp tsp' m. tail_reachable sample_env (sample_cfg 1) tsp
     \<and> samplingPolicyOnTick sample_lib (\<lambda>_. 0) tsp = Done (tsp', m, [ForwardTraces None [sample_dev]])"
proof -
  let ?s = "sample_dev_state (sample_batcher []\<lparr>batches := [[[1]]]\<rparr>)"
  have few: "few_cpus sample_env" by (simp add: few_cpus_def sample_env_def)
  obtain tsp' m evs where t: "samplingPolicyOnTick (env_lib sample_env) (\<lambda>_. 0) ?s = Done (tsp', m, evs)"
    by (simp add: samplingPolicyOnTick_def CloseCurrentAndTakeFirstBatch_def sample_dev_state_def sample_batcher_def
        sample_processor_def makeDecision_def Let_def)
  have "sort_groups sample_env [] = []" by (simp add: sample_env_def)
  from tail_sampler_samples_everything [OF sample_dev_reachable few this t]
  have "evs = [ForwardTraces None [sample_dev]]"
    by (auto simp: CloseCurrentAndTakeFirstBatch_def sample_dev_state_def sample_batcher_def sample_processor_def
        sent_batches_def)
  with t sample_dev_reachable show ?thesis by (auto simp: sample_env_def)
qed

text \<open>A tick decides every trace of the batch that is still on the map as sampled or not and
  leaves every other trace as it was. The spans received for a decided trace stay on the map, so an
  id that is in the pipe a second time is decided and forwarded a second time.\<close>

theorem tick_decides_and_keeps:
  assumes "samplingPolicyOnTick lib clock tsp = Done (tsp', m, evs)" and "idToTrace tsp i = Some t"
  shows "\<exists>ids has_more b' t'. CloseCurrentAndTakeFirstBatch (decisionBatcher tsp) = Done (ids, has_more, b')
    \<and> idToTrace tsp' i = Some t' \<and> ReceivedBatches t' = ReceivedBatches t
    \<and> (if i \<in> set ids then FinalDecision t' \<in> {Sampled, NotSampled} else t' = t)"
  using assms(1)
proof (cases rule: samplingPolicyOnTick_cases)
  case (1 ids has_more b')
  with tick_loop_traces [OF 1(2), of i t] assms(2) show ?thesis by (auto simp: decided_from_def)
qed

theorem tick_decides_and_keeps_witness:
  "\<exists>tsp' m evs t'. samplingPolicyOnTick sample_lib (\<lambda>_. 0) (sample_dev_state (sample_batcher []\<lparr>batches := [[[1]]]\<rparr>)) = Done (tsp', m, evs)
     \<and> idToTrace tsp' [1] = Some t' \<and> FinalDecision t' \<in> {Sampled, NotSampled} \<and> ReceivedBatches t' = [sample_dev]"
proof -
  let ?s = "sample_dev_state (sample_batcher []\<lparr>batches := [[[1]]]\<rparr>)"
  obtain tsp' m evs where t: "samplingPolicyOnTick sample_lib (\<lambda>_. 0) ?s = Done (tsp', m, evs)"
    by (simp add: samplingPolicyOnTick_def CloseCurrentAndTakeFirstBatch_def sample_dev_state_def sample_batcher_def
        sample_processor_def makeDecision_def Let_def)
  have "idToTrace ?s [1] = Some (new_trace 0 0 1\<lparr>ReceivedBatches := [sample_dev]\<rparr>)"
    by (simp add: sample_dev_state_def sample_processor_def)
  from tick_decides_and_keeps [OF t this] t show ?thesis
    by (auto simp: CloseCurrentAndTakeFirstBatch_def sample_dev_state_def sample_batcher_def)
qed

lemma new_policies_meaning:
  assumes "lru_lawful (env_lib env) contents"
  shows "new_policies env cfgs = Done (Inr ps) \<Longrightarrow>
     policies_ok (env_lib env) contents ps \<and> length ps = length cfgs
   \<and> policies_meaning (env_lib env) ps i t =
       map_option (\<lambda>g. (group_decision (env_lib env) (sort_policies env) (pg_BasePolicy g) (SubPolicies g) i t,
                        bp_Name (pg_BasePolicy g)))
         (find (\<lambda>g. group_decision (env_lib env) (sort_policies env) (pg_BasePolicy g) (SubPolicies g) i t
                      \<in> {Sampled, NotSampled}) cfgs)"
proof (induction cfgs arbitrary: ps)
  case (Cons g cfgs)
  then obtain e ps1 where e: "NewDefaultEvaluator (env_lib env) (sort_policies env) (pg_BasePolicy g) (SubPolicies g) = Done e"
    and rest: "new_policies env cfgs = Done (Inr ps1)"
    and ps: "ps = \<lparr>policy_name = bp_Name (pg_BasePolicy g), policy_evaluator = e\<rparr> # ps1"
    by (auto simp: bind_outcome_Done split: option.splits)
  from NewDefaultEvaluator_meaning [OF assms e, of i t] Cons.IH [OF rest] show ?case
    unfolding ps by (simp add: Let_def policies_ok_def)
qed (simp add: policies_ok_def)



text \<open>What happens to newly received spans of a trace is decided by the state of the trace: a new
  trace or one not decided yet stores them, for a sampled trace they are forwarded at once, for one
  that is not sampled they are dropped and recorded as late.\<close>

theorem spans_follow_decision:
  assumes "tail_reachable env cfg tsp" and "few_cpus env" and "NumTraces cfg \<noteq> 0"
    and "\<not> stopped (decisionBatcher tsp)"
  shows "\<exists>loaded tsp' evs. process_spans clock rss i spans tsp = Done (loaded, tsp', evs)
    \<and> (case idToTrace tsp i of
         None \<Rightarrow> \<not> loaded \<and> (\<exists>t'. idToTrace tsp' i = Some t' \<and> FinalDecision t' = Unspecified
           \<and> ReceivedBatches t' = appendToTraces [] rss spans \<and> SpanCount t' = int (length spans))
       | Some t \<Rightarrow> loaded
         \<and> (FinalDecision t = Unspecified \<longrightarrow> evs = [] \<and> (\<exists>t'. idToTrace tsp' i = Some t'
              \<and> FinalDecision t' = Unspecified \<and> ReceivedBatches t' = appendToTraces (ReceivedBatches t) rss spans))
         \<and> (FinalDecision t = Sampled \<longrightarrow> evs = [ForwardTraces None (appendToTraces [] rss spans)])
         \<and> (FinalDecision t = NotSampled \<longrightarrow>
              evs = [LateSpanAge (go_div (time_sub (clock 2) (DecisionTime t)) (10 ^ 9))]))"
proof -
  from tail_reachable_inv [OF assms(1,2)] have inv: "tail_inv tsp" and "maxNumTraces tsp = NumTraces cfg" by auto
  then have cap: "0 < deleteChanCap tsp" using assms(3) by (simp add: tail_inv_def unat_gt_0)
  show ?thesis
  proof (cases "idToTrace tsp i")
    case None
    let ?d = "new_trace (length (policies tsp)) (clock 0) (int (length spans))"
    from load_or_store_new [OF inv cap None assms(4), of clock "int (length spans)"]
    obtain tsp1 evs1 where ls: "load_or_store clock i (int (length spans)) tsp = Done (?d, False, tsp1, evs1)"
      and "idToTrace tsp1 i = Some ?d" by auto
    with None show ?thesis by (auto simp: process_spans_def new_trace_def Let_def)
  next
    case (Some t)
    then show ?thesis
      by (cases "FinalDecision t") (auto simp: process_spans_def load_or_store_def Let_def)
  qed
qed

theorem spans_follow_decision_witness:
  "\<exists>loaded tsp' evs t'. process_spans (\<lambda>_. 0) sample_dev [1] [sample_span [1]]
       (sample_dev_state (sample_batcher []\<lparr>batches := [[[1]]]\<rparr>)) = Done (loaded, tsp', evs)
     \<and> idToTrace tsp' [1] = Some t' \<and> ReceivedBatches t' = appendToTraces [sample_dev] sample_dev [sample_span [1]]"
proof -
  let ?s = "sample_dev_state (sample_batcher []\<lparr>batches := [[[1]]]\<rparr>)"
  have few: "few_cpus sample_env" by (simp add: few_cpus_def sample_env_def)
  have "NumTraces (sample_cfg 1) \<noteq> 0" "\<not> stopped (decisionBatcher ?s)"
    by (simp_all add: sample_cfg_def sample_dev_state_def sample_batcher_def)
  from spans_follow_decision [OF sample_dev_reachable few this, of "\<lambda>_. 0" sample_dev "[1]" "[sample_span [1]]"]
  show ?thesis by (auto simp: sample_dev_state_def sample_processor_def new_trace_def)
qed

text \<open>With \<^verbatim>\<open>NumTraces\<close> 0, which the validation accepts, the first spans the processor
  receives block it for ever: the deletion channel has no room and nothing to receive.\<close>

theorem zero_capacity_blocks:
  assumes "newTracesProcessor env cfg = Done (Inr tsp)" and "few_cpus env" and "NumTraces cfg = 0"
    and "concat (ScopeSpans rss) \<noteq> []" and "\<And>ids. set (order ids) = set ids"
  shows "tail_ConsumeTraces clock order (rss # td) tsp = Blocks"
proof -
  from newTracesProcessor_inv [OF assms(1,2)] have inv: "tail_inv tsp" and cap: "maxNumTraces tsp = NumTraces cfg" by auto
  then have z: "deleteChanCap tsp = 0" "deleteChan tsp = []" using assms(3) by (auto simp: tail_inv_def)
  have "dom (idToTrace tsp) = {}" using inv z by (auto simp: tail_inv_def)
  then have none: "idToTrace tsp i = None" for i by (simp add: dom_def)
  have run: "\<not> stopped (decisionBatcher tsp)"
    using assms(1) by (auto simp: newTracesProcessor_def bind_outcome_Done batcher_New_def Let_def split: if_splits)
  have blocks: "load_or_store c i n tsp = Blocks" for c i n
  proof -
    from batcher_add_waiting_keeps [of "decisionBatcher tsp" i] inv run
    obtain b' where "batcher_add_waiting i (decisionBatcher tsp) = Done b'" by (auto simp: tail_inv_def)
    then show ?thesis by (simp add: load_or_store_def none Let_def z)
  qed
  let ?ids = "order (remdups (map Span_TraceID (concat (ScopeSpans rss))))"
  have "set ?ids \<noteq> {}" using assms(4,5) by simp
  then obtain j js where "?ids = j # js" by (cases ?ids) auto
  then have "processTraces clock order rss tsp = Blocks"
    by (simp add: processTraces_def Let_def process_spans_def blocks)
  then show ?thesis by simp
qed

theorem zero_capacity_blocks_witness:
  "newTracesProcessor sample_env (sample_cfg 0) = Done (Inr (sample_processor 0 [] []))
   \<and> tail_ConsumeTraces (\<lambda>_ _. 0) id [sample_resource [sample_span [1]]] (sample_processor 0 [] []) = Blocks"
proof -
  have few: "few_cpus sample_env" by (simp add: few_cpus_def sample_env_def)
  have "NumTraces (sample_cfg 0) = 0" by (simp add: sample_cfg_def)
  from zero_capacity_blocks [OF sample_created few this, of "sample_resource [sample_span [1]]" id] sample_created
  show ?thesis by (simp add: sample_resource_def del: tail_ConsumeTraces.simps)
qed

end
