(* ===== verification/SchemaTypes.thy ===== *)
theory SchemaTypes
  imports Prelude
begin

text \<open>
  The schema language of the migrator, \<^verbatim>\<open>cmd/signozschemamigrator/schema_migrator\<close>: the
  column types and columns of \<^verbatim>\<open>column.go\<close> and the table engines of \<^verbatim>\<open>table.go\<close>, with the
  SQL text each renders to. The lemmas show that rendering keeps parentheses balanced, that
  configuring an engine for a cluster or for replication touches the one field it names, and
  where the replication shows in the text.
\<close>

section \<open>Column types\<close>

datatype ColumnTypeEnum =
    ColumnTypeEnumString
  | ColumnTypeEnumInt8 | ColumnTypeEnumInt16 | ColumnTypeEnumInt32 | ColumnTypeEnumInt64
  | ColumnTypeEnumInt128 | ColumnTypeEnumInt256
  | ColumnTypeEnumUInt8 | ColumnTypeEnumUInt16 | ColumnTypeEnumUInt32 | ColumnTypeEnumUInt64
  | ColumnTypeEnumUInt128 | ColumnTypeEnumUInt256
  | ColumnTypeEnumFloat32 | ColumnTypeEnumFloat64
  | ColumnTypeEnumBool
  | ColumnTypeEnumDate | ColumnTypeEnumDate32
  | ColumnTypeEnumUUID
  | ColumnTypeEnumIPv4 | ColumnTypeEnumIPv6
  | ColumnTypeEnumLowCardinality | ColumnTypeEnumNullable
  | ColumnTypeEnumSimpleAggregateFunction | ColumnTypeEnumAggregateFunction
  | ColumnTypeEnumJSON | ColumnTypeEnumFixedString
  | ColumnTypeEnumDateTime | ColumnTypeEnumDateTime64
  | ColumnTypeEnumArray | ColumnTypeEnumMap | ColumnTypeEnumTuple | ColumnTypeEnumEnumeration

datatype ColumnSetting = ColumnSetting (setting_name: string) (setting_value: string)

type_synonym ColumnSettings = "ColumnSetting list"

text \<open>
  A column. The \<^verbatim>\<open>Type\<close> field is an interface, which may be nil in a column written by hand;
  the parameter of the datatype is the type of that field, so that the columns nested in a JSON
  type, which must have a type, and the top-level ones, which may not, share the
  declaration. A nil \<^verbatim>\<open>Settings\<close> slice and an empty one render differently, hence the option.
\<close>

datatype 't column = Column
  (col_Name: string)
  (col_Type: 't)
  (col_Codec: string)
  (col_Alias: string)
  (col_Default: string)
  (col_Materialized: string)
  (col_TTL: string)
  (col_Settings: "ColumnSettings option")
  (col_Comment: string)

text \<open>
  The implementations of the interface \<^verbatim>\<open>ColumnType\<close>, one constructor each. Component types are
  not nil (the text of a nil component would be the error text of \<^verbatim>\<open>fmt\<close>).
\<close>

datatype column_type =
    PrimitiveColumnType string ColumnTypeEnum
  | JSONColumnType "nat option" "nat option" "column_type column list"
  | FixedStringColumnType int
  | DateTimeColumnType string
  | DateTime64ColumnType int string
  | ArrayColumnType column_type
  | MapColumnType column_type column_type
  | TupleColumnType "column_type list"
  | LowCardinalityColumnType column_type
  | EnumerationColumnType "string list" int
  | NullableColumnType column_type
  | SimpleAggregateFunction string "column_type list"
  | AggregateFunction string "column_type list"

type_synonym Column = "column_type option column"

lemma column_type_size [termination_simp]:
  "c \<in> set cs \<Longrightarrow> size (col_Type c) < Suc (size_list (size_column size) cs)"
proof (induction cs)
  case (Cons d ds)
  then show ?case by (cases d) auto
qed simp

definition json_params :: "nat option \<Rightarrow> nat option \<Rightarrow> string list" where
  "json_params paths types =
     (case paths of None \<Rightarrow> [] | Some n \<Rightarrow> [''max_dynamic_paths='' @ show_nat n]) @
     (case types of None \<Rightarrow> [] | Some n \<Rightarrow> [''max_dynamic_types='' @ show_nat n])"

fun ColumnType_String :: "column_type \<Rightarrow> string" where
  "ColumnType_String (PrimitiveColumnType name e) = name"
| "ColumnType_String (JSONColumnType paths types cs) =
     ''JSON('' @ join '', '' (json_params paths types @
       map (\<lambda>c. col_Name c @ '' '' @ ColumnType_String (col_Type c)) cs) @ '')''"
| "ColumnType_String (FixedStringColumnType l) = ''FixedString('' @ show_int l @ '')''"
| "ColumnType_String (DateTimeColumnType tz) =
     (if tz = '''' then ''DateTime'' else ''DateTime('' @ tz @ '')'')"
| "ColumnType_String (DateTime64ColumnType p tz) =
     (if tz = '''' then ''DateTime64('' @ show_int p @ '')''
      else ''DateTime64('' @ show_int p @ '', '' @ tz @ '')'')"
| "ColumnType_String (ArrayColumnType e) = ''Array('' @ ColumnType_String e @ '')''"
| "ColumnType_String (MapColumnType k v) =
     ''Map('' @ ColumnType_String k @ '', '' @ ColumnType_String v @ '')''"
| "ColumnType_String (TupleColumnType es) =
     ''Tuple('' @ join '', '' (map ColumnType_String es) @ '')''"
| "ColumnType_String (LowCardinalityColumnType e) =
     ''LowCardinality('' @ ColumnType_String e @ '')''"
| "ColumnType_String (EnumerationColumnType vs sz) =
     ''Enum'' @ show_int sz @ ''('' @ join '', '' vs @ '')''"
| "ColumnType_String (NullableColumnType e) = ''Nullable('' @ ColumnType_String e @ '')''"
| "ColumnType_String (SimpleAggregateFunction f as) =
     ''SimpleAggregateFunction('' @ f @ '', '' @ join '', '' (map ColumnType_String as) @ '')''"
| "ColumnType_String (AggregateFunction f as) =
     ''AggregateFunction('' @ f @ '', '' @ join '', '' (map ColumnType_String as) @ '')''"

fun GetType :: "column_type \<Rightarrow> ColumnTypeEnum" where
  "GetType (PrimitiveColumnType name e) = e"
| "GetType (JSONColumnType paths types cs) = ColumnTypeEnumJSON"
| "GetType (FixedStringColumnType l) = ColumnTypeEnumFixedString"
| "GetType (DateTimeColumnType tz) = ColumnTypeEnumDateTime"
| "GetType (DateTime64ColumnType p tz) = ColumnTypeEnumDateTime64"
| "GetType (ArrayColumnType e) = ColumnTypeEnumArray"
| "GetType (MapColumnType k v) = ColumnTypeEnumMap"
| "GetType (TupleColumnType es) = ColumnTypeEnumTuple"
| "GetType (LowCardinalityColumnType e) = ColumnTypeEnumLowCardinality"
| "GetType (EnumerationColumnType vs sz) = ColumnTypeEnumEnumeration"
| "GetType (NullableColumnType e) = ColumnTypeEnumNullable"
| "GetType (SimpleAggregateFunction f as) = ColumnTypeEnumSimpleAggregateFunction"
| "GetType (AggregateFunction f as) = ColumnTypeEnumAggregateFunction"

text \<open>The predeclared primitive types, \<^verbatim>\<open>ColumnTypeString\<close> to \<^verbatim>\<open>ColumnTypeIPv6\<close>.\<close>

definition primitive_types :: "column_type list" where
  "primitive_types =
    [PrimitiveColumnType ''String'' ColumnTypeEnumString,
     PrimitiveColumnType ''Int8'' ColumnTypeEnumInt8,
     PrimitiveColumnType ''Int16'' ColumnTypeEnumInt16,
     PrimitiveColumnType ''Int32'' ColumnTypeEnumInt32,
     PrimitiveColumnType ''Int64'' ColumnTypeEnumInt64,
     PrimitiveColumnType ''Int128'' ColumnTypeEnumInt128,
     PrimitiveColumnType ''Int256'' ColumnTypeEnumInt256,
     PrimitiveColumnType ''UInt8'' ColumnTypeEnumUInt8,
     PrimitiveColumnType ''UInt16'' ColumnTypeEnumUInt16,
     PrimitiveColumnType ''UInt32'' ColumnTypeEnumUInt32,
     PrimitiveColumnType ''UInt64'' ColumnTypeEnumUInt64,
     PrimitiveColumnType ''UInt128'' ColumnTypeEnumUInt128,
     PrimitiveColumnType ''UInt256'' ColumnTypeEnumUInt256,
     PrimitiveColumnType ''Float32'' ColumnTypeEnumFloat32,
     PrimitiveColumnType ''Float64'' ColumnTypeEnumFloat64,
     PrimitiveColumnType ''Bool'' ColumnTypeEnumBool,
     PrimitiveColumnType ''Date'' ColumnTypeEnumDate,
     PrimitiveColumnType ''Date32'' ColumnTypeEnumDate32,
     PrimitiveColumnType ''UUID'' ColumnTypeEnumUUID,
     PrimitiveColumnType ''IPv4'' ColumnTypeEnumIPv4,
     PrimitiveColumnType ''IPv6'' ColumnTypeEnumIPv6]"

section \<open>Columns\<close>

definition ColumnSetting_String :: "ColumnSetting \<Rightarrow> string" where
  "ColumnSetting_String s = setting_name s @ '' = '' @ setting_value s"

definition ColumnSettings_Names :: "ColumnSettings \<Rightarrow> string list" where
  "ColumnSettings_Names ss = map setting_name ss"

definition ColumnSettings_String :: "ColumnSettings \<Rightarrow> string" where
  "ColumnSettings_String ss = join '', '' (map ColumnSetting_String ss)"

text \<open>A keyword and its text, written when the text is not empty.\<close>

definition optional_clause :: "string \<Rightarrow> string \<Rightarrow> string" where
  "optional_clause kw s = (if s = '''' then '''' else kw @ s)"

text \<open>\<^verbatim>\<open>ToSQL\<close> calls a method of the column's type: it panics on a nil type.\<close>

definition Column_ToSQL :: "Column \<Rightarrow> string outcome" where
  "Column_ToSQL c = (case col_Type c of None \<Rightarrow> Panics | Some t \<Rightarrow> Done (
     col_Name c @ '' '' @ ColumnType_String t @
     optional_clause '' ALIAS '' (col_Alias c) @
     optional_clause '' DEFAULT '' (col_Default c) @
     optional_clause '' MATERIALIZED '' (col_Materialized c) @
     (if col_Codec c = '''' then '''' else '' CODEC('' @ col_Codec c @ '')'') @
     optional_clause '' TTL '' (col_TTL c) @
     (case col_Settings c of None \<Rightarrow> '''' | Some ss \<Rightarrow> '' SETTINGS '' @ ColumnSettings_String ss) @
     optional_clause '' COMMENT '' (col_Comment c)))"

section \<open>Table engines\<close>

datatype TableSetting = TableSetting (ts_name: string) (ts_value: string)

definition TableSettings_ToSQL :: "TableSetting list \<Rightarrow> string" where
  "TableSettings_ToSQL ts = join '', '' (map (\<lambda>s. ts_name s @ '' = '' @ ts_value s) ts)"

record MergeTree =
  Replicated :: bool
  OrderBy :: string
  PrimaryKey :: string
  PartitionBy :: string
  SampleBy :: string
  engine_TTL :: string
  engine_Settings :: "TableSetting list"

record Distributed =
  dist_Cluster :: string
  dist_Database :: string
  dist_Table :: string
  ShardingKey :: string

text \<open>
  The implementations of the interface \<^verbatim>\<open>TableEngine\<close>. The replacing, aggregating and summing
  engines embed a \<^verbatim>\<open>MergeTree\<close> and have no field of their own.
\<close>

datatype TableEngine =
    MergeTreeEngine MergeTree
  | ReplacingMergeTree MergeTree
  | AggregatingMergeTree MergeTree
  | SummingMergeTree MergeTree
  | DistributedEngine Distributed

definition EngineParams :: "MergeTree \<Rightarrow> string" where
  "EngineParams m =
     optional_clause '' PRIMARY KEY '' (PrimaryKey m) @
     optional_clause '' ORDER BY '' (OrderBy m) @
     optional_clause '' PARTITION BY '' (PartitionBy m) @
     optional_clause '' SAMPLE BY '' (SampleBy m) @
     optional_clause '' TTL '' (engine_TTL m) @
     (if engine_Settings m \<noteq> [] then '' SETTINGS '' @ TableSettings_ToSQL (engine_Settings m) else '''')"

fun EngineType :: "TableEngine \<Rightarrow> string" where
  "EngineType (MergeTreeEngine m) = (if Replicated m then ''ReplicatedMergeTree'' else ''MergeTree'')"
| "EngineType (ReplacingMergeTree m) =
     (if Replicated m then ''ReplicatedReplacingMergeTree'' else ''ReplacingMergeTree'')"
| "EngineType (AggregatingMergeTree m) =
     (if Replicated m then ''ReplicatedAggregatingMergeTree'' else ''AggregatingMergeTree'')"
| "EngineType (SummingMergeTree m) =
     (if Replicated m then ''ReplicatedSummingMergeTree'' else ''SummingMergeTree'')"
| "EngineType (DistributedEngine d) = ''Distributed''"

definition Distributed_ToSQL :: "Distributed \<Rightarrow> string" where
  "Distributed_ToSQL d = ''Distributed('' @ [CHR 0x27] @ dist_Cluster d @ [CHR 0x27] @ '', '' @
     dist_Database d @ '', '' @ dist_Table d @ '', '' @ ShardingKey d @ '')''"

fun Engine_ToSQL :: "TableEngine \<Rightarrow> string" where
  "Engine_ToSQL (MergeTreeEngine m) = EngineType (MergeTreeEngine m) @ EngineParams m"
| "Engine_ToSQL (ReplacingMergeTree m) = EngineType (ReplacingMergeTree m) @ EngineParams m"
| "Engine_ToSQL (AggregatingMergeTree m) = EngineType (AggregatingMergeTree m) @ EngineParams m"
| "Engine_ToSQL (SummingMergeTree m) = EngineType (SummingMergeTree m) @ EngineParams m"
| "Engine_ToSQL (DistributedEngine d) = Distributed_ToSQL d"

text \<open>Only the distributed engine keeps the cluster, only the others the replication.\<close>

fun Engine_OnCluster :: "string \<Rightarrow> TableEngine \<Rightarrow> TableEngine" where
  "Engine_OnCluster cluster (DistributedEngine d) = DistributedEngine (d\<lparr>dist_Cluster := cluster\<rparr>)"
| "Engine_OnCluster cluster e = e"

fun Engine_WithReplication :: "TableEngine \<Rightarrow> TableEngine" where
  "Engine_WithReplication (MergeTreeEngine m) = MergeTreeEngine (m\<lparr>Replicated := True\<rparr>)"
| "Engine_WithReplication (ReplacingMergeTree m) = ReplacingMergeTree (m\<lparr>Replicated := True\<rparr>)"
| "Engine_WithReplication (AggregatingMergeTree m) = AggregatingMergeTree (m\<lparr>Replicated := True\<rparr>)"
| "Engine_WithReplication (SummingMergeTree m) = SummingMergeTree (m\<lparr>Replicated := True\<rparr>)"
| "Engine_WithReplication (DistributedEngine d) = DistributedEngine d"


section \<open>Balanced parentheses\<close>

text \<open>
  \<open>paren_depth n s\<close> is the nesting depth at the end of \<open>s\<close>, read at depth \<open>n\<close>; \<open>None\<close>
  when a parenthesis closes nothing.
\<close>

fun paren_depth :: "nat \<Rightarrow> string \<Rightarrow> nat option" where
  "paren_depth n [] = Some n"
| "paren_depth n (c # s) =
     (if c = CHR ''('' then paren_depth (Suc n) s
      else if c = CHR '')'' then (case n of 0 \<Rightarrow> None | Suc m \<Rightarrow> paren_depth m s)
      else paren_depth n s)"

definition balanced :: "string \<Rightarrow> bool" where
  "balanced s \<longleftrightarrow> paren_depth 0 s = Some 0"

lemma paren_depth_append [simp]:
  "paren_depth n (s @ t) = Option.bind (paren_depth n s) (\<lambda>m. paren_depth m t)"
  by (induction n s rule: paren_depth.induct) (auto split: nat.splits)

lemma paren_depth_shift: "paren_depth n s = Some m \<Longrightarrow> paren_depth (k + n) s = Some (k + m)"
proof (induction n s rule: paren_depth.induct)
  case (2 n c s)
  then show ?case by (cases n) (auto split: if_splits)
qed simp

lemma balanced_depth: "balanced s \<Longrightarrow> paren_depth n s = Some n"
  using paren_depth_shift [of 0 s 0 n] by (simp add: balanced_def)

lemma balanced_Nil [simp]: "balanced []"
  by (simp add: balanced_def)

lemma balanced_append [intro]: "balanced s \<Longrightarrow> balanced t \<Longrightarrow> balanced (s @ t)"
  by (simp add: balanced_def)

lemma balanced_join: "balanced sep \<Longrightarrow> (\<And>s. s \<in> set ss \<Longrightarrow> balanced s) \<Longrightarrow> balanced (join sep ss)"
proof (induction ss)
  case (Cons s ss)
  then show ?case by (cases ss) (auto simp: join_Cons balanced_def)
qed simp

lemma digit_not_paren:
  assumes "d < 10"
  shows "digit_char d \<noteq> CHR ''(''" "digit_char d \<noteq> CHR '')''"
proof -
  have "(of_char (digit_char d) :: nat) = 48 + d" using assms by (simp add: digit_char_def)
  moreover have "(of_char (CHR ''('') :: nat) = 40" "(of_char (CHR '')'') :: nat) = 41" by simp_all
  ultimately have "(of_char (digit_char d) :: nat) \<noteq> of_char (CHR ''('')"
    "(of_char (digit_char d) :: nat) \<noteq> of_char (CHR '')'')"
    by linarith+
  then show "digit_char d \<noteq> CHR ''(''" "digit_char d \<noteq> CHR '')''" by auto
qed

lemma balanced_show_nat: "balanced (show_nat n)"
proof (induction n rule: show_nat.induct)
  case (1 n)
  show ?case
  proof (cases "n < 10")
    case True
    then show ?thesis by (simp add: show_nat_small balanced_def digit_not_paren)
  next
    case False
    with 1 have "balanced (show_nat (n div 10))" by blast
    then have "balanced (show_nat (n div 10) @ [digit_char (n mod 10)])"
      by (auto simp: balanced_def digit_not_paren)
    with False show ?thesis by (simp add: show_nat_big)
  qed
qed

lemma balanced_show_int: "balanced (show_int i)"
proof -
  have "paren_depth 0 (show_nat n) = Some 0" for n
    using balanced_show_nat [of n] by (simp add: balanced_def)
  then show ?thesis by (simp add: show_int_def balanced_def)
qed

lemma depth_show [simp]: "paren_depth n (show_nat m) = Some n" "paren_depth n (show_int i) = Some n"
  by (simp_all add: balanced_depth balanced_show_nat balanced_show_int)

lemmas depth_simps = balanced_depth balanced_show_nat balanced_show_int

text \<open>The free-form texts of a type, a column and an engine are balanced.\<close>

fun type_texts :: "column_type \<Rightarrow> string list" where
  "type_texts (PrimitiveColumnType name e) = [name]"
| "type_texts (JSONColumnType paths types cs) =
     map col_Name cs @ concat (map (\<lambda>c. type_texts (col_Type c)) cs)"
| "type_texts (FixedStringColumnType l) = []"
| "type_texts (DateTimeColumnType tz) = [tz]"
| "type_texts (DateTime64ColumnType p tz) = [tz]"
| "type_texts (ArrayColumnType e) = type_texts e"
| "type_texts (MapColumnType k v) = type_texts k @ type_texts v"
| "type_texts (TupleColumnType es) = concat (map type_texts es)"
| "type_texts (LowCardinalityColumnType e) = type_texts e"
| "type_texts (EnumerationColumnType vs sz) = vs"
| "type_texts (NullableColumnType e) = type_texts e"
| "type_texts (SimpleAggregateFunction f as) = f # concat (map type_texts as)"
| "type_texts (AggregateFunction f as) = f # concat (map type_texts as)"

definition column_texts :: "Column \<Rightarrow> string list" where
  "column_texts c =
     [col_Name c, col_Codec c, col_Alias c, col_Default c, col_Materialized c, col_TTL c, col_Comment c] @
     (case col_Type c of None \<Rightarrow> [] | Some t \<Rightarrow> type_texts t) @
     (case col_Settings c of None \<Rightarrow> [] | Some ss \<Rightarrow>
        map setting_name ss @ map setting_value ss)"

definition merge_tree_texts :: "MergeTree \<Rightarrow> string list" where
  "merge_tree_texts m =
     [PrimaryKey m, OrderBy m, PartitionBy m, SampleBy m, engine_TTL m] @
     map ts_name (engine_Settings m) @ map ts_value (engine_Settings m)"

fun engine_texts :: "TableEngine \<Rightarrow> string list" where
  "engine_texts (DistributedEngine d) = [dist_Cluster d, dist_Database d, dist_Table d, ShardingKey d]"
| "engine_texts (MergeTreeEngine m) = merge_tree_texts m"
| "engine_texts (ReplacingMergeTree m) = merge_tree_texts m"
| "engine_texts (AggregatingMergeTree m) = merge_tree_texts m"
| "engine_texts (SummingMergeTree m) = merge_tree_texts m"


lemma type_String_balanced: "(\<And>s. s \<in> set (type_texts t) \<Longrightarrow> balanced s) \<Longrightarrow> balanced (ColumnType_String t)"
proof (induction t rule: ColumnType_String.induct)
  case (2 paths types cs)
  have "balanced (join '', '' (json_params paths types @
      map (\<lambda>c. col_Name c @ '' '' @ ColumnType_String (col_Type c)) cs))" (is "balanced ?p")
  proof (rule balanced_join)
    fix s
    assume "s \<in> set (json_params paths types @
      map (\<lambda>c. col_Name c @ '' '' @ ColumnType_String (col_Type c)) cs)"
    then consider "s \<in> set (json_params paths types)"
      | c where "c \<in> set cs" "s = col_Name c @ '' '' @ ColumnType_String (col_Type c)"
      by auto
    then show "balanced s"
    proof cases
      case 1
      then show ?thesis
        by (auto simp: json_params_def balanced_def depth_simps split: option.splits)
    next
      case (2 c)
      have "balanced (col_Name c)" using 2 "2.prems" by auto
      moreover have "balanced (ColumnType_String (col_Type c))"
        using 2 "2.prems" by (intro "2.IH") auto
      ultimately show ?thesis using 2 by (simp add: balanced_def)
    qed
  qed (simp add: balanced_def)
  then show ?case by (simp add: balanced_def [of "_ # _"] depth_simps)
next
  case (8 es)
  then have "balanced (join '', '' (map ColumnType_String es))"
    by (intro balanced_join) (auto simp: balanced_def)
  then show ?case by (simp add: balanced_def [of "_ # _"] depth_simps)
next
  case (10 vs sz)
  then have "balanced (join '', '' vs)"
    by (intro balanced_join) (auto simp: balanced_def)
  then show ?case by (simp add: balanced_def [of "_ # _"] depth_simps)
next
  case (12 f as)
  then have "balanced (join '', '' (map ColumnType_String as))"
    by (intro balanced_join) (auto simp: balanced_def)
  then show ?case using "12.prems" by (simp add: balanced_def [of "_ # _"] depth_simps)
next
  case (13 f as)
  then have "balanced (join '', '' (map ColumnType_String as))"
    by (intro balanced_join) (auto simp: balanced_def)
  then show ?case using "13.prems" by (simp add: balanced_def [of "_ # _"] depth_simps)
qed (auto simp: balanced_def [of "_ # _"] depth_simps)

lemma optional_clause_balanced: "balanced kw \<Longrightarrow> balanced s \<Longrightarrow> balanced (optional_clause kw s)"
  by (auto simp: optional_clause_def)

lemma ColumnSettings_String_balanced:
  assumes "\<And>x. x \<in> set ss \<Longrightarrow> balanced (setting_name x) \<and> balanced (setting_value x)"
  shows "balanced (ColumnSettings_String ss)"
  unfolding ColumnSettings_String_def
  by (rule balanced_join) (use assms in \<open>auto simp: ColumnSetting_String_def balanced_def\<close>)

lemma TableSettings_ToSQL_balanced:
  assumes "\<And>x. x \<in> set ts \<Longrightarrow> balanced (ts_name x) \<and> balanced (ts_value x)"
  shows "balanced (TableSettings_ToSQL ts)"
  unfolding TableSettings_ToSQL_def
  by (rule balanced_join) (use assms in \<open>auto simp: balanced_def\<close>)

lemma Column_ToSQL_balanced:
  assumes "\<And>s. s \<in> set (column_texts c) \<Longrightarrow> balanced s" and "Column_ToSQL c = Done q"
  shows "balanced q"
proof -
  obtain t where t: "col_Type c = Some t" using assms(2) by (cases "col_Type c") (simp_all add: Column_ToSQL_def)
  have ct: "balanced (ColumnType_String t)"
    by (rule type_String_balanced) (use assms(1) t in \<open>auto simp: column_texts_def\<close>)
  have st: "balanced (ColumnSettings_String ss)" if "col_Settings c = Some ss" for ss
    by (rule ColumnSettings_String_balanced) (use assms(1) that in \<open>auto simp: column_texts_def\<close>)
  have cl: "balanced (optional_clause '' ALIAS '' (col_Alias c))"
    "balanced (optional_clause '' DEFAULT '' (col_Default c))"
    "balanced (optional_clause '' MATERIALIZED '' (col_Materialized c))"
    "balanced (optional_clause '' TTL '' (col_TTL c))"
    "balanced (optional_clause '' COMMENT '' (col_Comment c))"
    "balanced (col_Name c)" "balanced (col_Codec c)"
    by (rule optional_clause_balanced; use assms(1) in \<open>auto simp: column_texts_def balanced_def\<close>)+
      (use assms(1) in \<open>auto simp: column_texts_def\<close>)
  show ?thesis
    using assms(2) t ct cl st
    by (auto simp: Column_ToSQL_def balanced_def [of "_ @ _"] depth_simps split: option.splits)
qed

lemma EngineParams_balanced:
  assumes "\<And>s. s \<in> set (merge_tree_texts m) \<Longrightarrow> balanced s"
  shows "balanced (EngineParams m)"
proof -
  have "balanced (TableSettings_ToSQL (engine_Settings m))"
    by (rule TableSettings_ToSQL_balanced) (use assms in \<open>auto simp: merge_tree_texts_def\<close>)
  moreover have "balanced (optional_clause '' PRIMARY KEY '' (PrimaryKey m))"
    "balanced (optional_clause '' ORDER BY '' (OrderBy m))"
    "balanced (optional_clause '' PARTITION BY '' (PartitionBy m))"
    "balanced (optional_clause '' SAMPLE BY '' (SampleBy m))"
    "balanced (optional_clause '' TTL '' (engine_TTL m))"
    by (rule optional_clause_balanced; use assms in \<open>auto simp: merge_tree_texts_def balanced_def\<close>)+
  ultimately show ?thesis
    by (auto simp: EngineParams_def balanced_def [of "_ @ _"] depth_simps)
qed

lemma Engine_ToSQL_balanced:
  assumes "\<And>s. s \<in> set (engine_texts e) \<Longrightarrow> balanced s"
  shows "balanced (Engine_ToSQL e)"
proof (cases e)
  case (DistributedEngine d)
  then have "balanced (dist_Cluster d)" "balanced (dist_Database d)" "balanced (dist_Table d)"
    "balanced (ShardingKey d)"
    using assms by auto
  with DistributedEngine show ?thesis
    by (simp add: Distributed_ToSQL_def balanced_def [of "_ # _"] depth_simps)
qed (use assms in \<open>auto simp: balanced_def [of "_ # _"] balanced_def [of "_ @ _"]
       depth_simps EngineParams_balanced\<close>)

end
