(* ===== verification/SchemaOps.thy ===== *)
theory SchemaOps
  imports SchemaTypes
begin

text \<open>
  The operations of the schema migrator: the interface \<^verbatim>\<open>Operation\<close> of \<^verbatim>\<open>op.go\<close> and its
  implementations in \<^verbatim>\<open>column_operations.go\<close>, \<^verbatim>\<open>index_operations.go\<close>,
  \<^verbatim>\<open>table_operations.go\<close>, \<^verbatim>\<open>projection_operations.go\<close> and \<^verbatim>\<open>data_operations.go\<close>. Each
  struct is a record that extends \<open>ddl\<close> or \<open>ddl_table\<close>, the fields they all have; its methods
  are a value of the record \<open>Operation\<close>, and \<open>op_methods\<close>, \<open>OnCluster\<close> and \<open>WithReplication\<close>
  are the dynamic dispatch. The lemmas state what the manager relies on: configuring an operation
  for a cluster or for replication changes its text only, never how it is scheduled.
\<close>

section \<open>What the operations share\<close>

record ddl =
  cluster :: string
  Database :: string

record ddl_table = ddl +
  Table :: string

definition on_cluster :: "'a ddl_scheme \<Rightarrow> string" where
  "on_cluster a = optional_clause '' ON CLUSTER '' (cluster a)"

definition alter_table :: "'a ddl_table_scheme \<Rightarrow> string" where
  "alter_table a = ''ALTER TABLE '' @ Database a @ ''.'' @ Table a @ on_cluster a"

fun map_outcome :: "('a \<Rightarrow> 'b outcome) \<Rightarrow> 'a list \<Rightarrow> 'b list outcome" where
  "map_outcome f [] = Done []"
| "map_outcome f (x # xs) =
     bind_outcome (f x) (\<lambda>y. bind_outcome (map_outcome f xs) (\<lambda>ys. Done (y # ys)))"

text \<open>The results of the methods of the interface that read an operation.\<close>

record Operation =
  ToSQL :: "string outcome"
  IsMutation :: bool
  IsIdempotent :: bool
  IsLightweight :: bool
  ShouldWaitForDistributionQueue :: "bool \<times> string \<times> string"
  ForceMigrate :: bool

datatype ColumnProperty =
    ColumnPropertyTTL | ColumnPropertyDefault | ColumnPropertyAlias | ColumnPropertyMaterialized
  | ColumnPropertyCodec | ColumnPropertyComment | ColumnPropertySettings

fun property_keyword :: "ColumnProperty \<Rightarrow> string" where
  "property_keyword ColumnPropertyTTL = ''TTL''"
| "property_keyword ColumnPropertyDefault = ''DEFAULT''"
| "property_keyword ColumnPropertyAlias = ''ALIAS''"
| "property_keyword ColumnPropertyMaterialized = ''MATERIALIZED''"
| "property_keyword ColumnPropertyCodec = ''CODEC''"
| "property_keyword ColumnPropertyComment = ''COMMENT''"
| "property_keyword ColumnPropertySettings = ''SETTINGS''"

datatype Index = Index (idx_Name: string) (idx_Expression: string) (idx_Type: string) (idx_Granularity: int)

definition Index_ToSQL :: "Index \<Rightarrow> string" where
  "Index_ToSQL i = ''INDEX '' @ idx_Name i @ '' '' @ idx_Expression i @ '' TYPE '' @ idx_Type i @
     '' GRANULARITY '' @ show_int (idx_Granularity i)"

datatype Projection = Projection (prj_Name: string) (prj_Query: string)

definition Projection_ToSQL :: "Projection \<Rightarrow> string" where
  "Projection_ToSQL p = ''PROJECTION '' @ prj_Name p @ '' ('' @ prj_Query p @ '')''"

section \<open>Operations on columns\<close>

text \<open>\<^verbatim>\<open>column_operations.go\<close>.\<close>

record AlterTableAddColumn = ddl_table +
  ac_Column :: Column
  ac_After :: "Column option"

definition AlterTableAddColumn_methods :: "AlterTableAddColumn \<Rightarrow> Operation" where
  "AlterTableAddColumn_methods a = \<lparr>
     ToSQL = bind_outcome (Column_ToSQL (ac_Column a)) (\<lambda>c. Done (
        alter_table a @ '' ADD COLUMN IF NOT EXISTS '' @ c @
        (case ac_After a of None \<Rightarrow> '''' | Some after \<Rightarrow> '' AFTER '' @ col_Name after))),
     IsMutation = False,
     IsIdempotent = True,
     IsLightweight = True,
     ShouldWaitForDistributionQueue = (False, Database a, Table a),
     ForceMigrate = False\<rparr>"

record AlterTableDropColumn = ddl_table +
  dc_Column :: Column

definition AlterTableDropColumn_methods :: "AlterTableDropColumn \<Rightarrow> Operation" where
  "AlterTableDropColumn_methods a = \<lparr>
     ToSQL = Done (alter_table a @ '' DROP COLUMN IF EXISTS '' @ col_Name (dc_Column a)),
     IsMutation = True,
     IsIdempotent = True,
     IsLightweight = True,
     ShouldWaitForDistributionQueue = (True, Database a, Table a),
     ForceMigrate = False\<rparr>"

record AlterTableModifyColumn = ddl_table +
  mc_Column :: Column

definition AlterTableModifyColumn_methods :: "AlterTableModifyColumn \<Rightarrow> Operation" where
  "AlterTableModifyColumn_methods a = \<lparr>
     ToSQL = Done (alter_table a @ '' MODIFY COLUMN IF EXISTS '' @ col_Name (mc_Column a) @
        (case col_Type (mc_Column a) of None \<Rightarrow> '''' | Some t \<Rightarrow> '' '' @ ColumnType_String t) @
        optional_clause '' DEFAULT '' (col_Default (mc_Column a)) @
        (if col_Codec (mc_Column a) = '''' then '''' else '' CODEC('' @ col_Codec (mc_Column a) @ '')'') @
        optional_clause '' TTL '' (col_TTL (mc_Column a)) @
        (case col_Settings (mc_Column a) of None \<Rightarrow> ''''
         | Some ss \<Rightarrow> '' SETTINGS '' @ ColumnSettings_String ss)),
     IsMutation = (col_Type (mc_Column a) \<noteq> None \<or> col_TTL (mc_Column a) \<noteq> ''''),
     IsIdempotent = True,
     IsLightweight = (col_Type (mc_Column a) \<noteq> None \<or> col_TTL (mc_Column a) \<noteq> ''''),
     ShouldWaitForDistributionQueue = (False, Database a, Table a),
     ForceMigrate = False\<rparr>"

record AlterTableModifyColumnRemove = ddl_table +
  cr_Column :: Column
  cr_Property :: ColumnProperty

definition AlterTableModifyColumnRemove_methods :: "AlterTableModifyColumnRemove \<Rightarrow> Operation" where
  "AlterTableModifyColumnRemove_methods a = \<lparr>
     ToSQL = Done (alter_table a @ '' MODIFY COLUMN IF EXISTS '' @ col_Name (cr_Column a) @
        '' REMOVE '' @ property_keyword (cr_Property a)),
     IsMutation = False,
     IsIdempotent = False,
     IsLightweight = True,
     ShouldWaitForDistributionQueue = (False, Database a, Table a),
     ForceMigrate = False\<rparr>"

record AlterTableModifyColumnModifySettings = ddl_table +
  cm_Column :: Column
  cm_Settings :: ColumnSettings

definition AlterTableModifyColumnModifySettings_methods :: "AlterTableModifyColumnModifySettings \<Rightarrow> Operation" where
  "AlterTableModifyColumnModifySettings_methods a = \<lparr>
     ToSQL = Done (alter_table a @ '' MODIFY COLUMN IF EXISTS '' @ col_Name (cm_Column a) @
        '' MODIFY SETTING '' @ ColumnSettings_String (cm_Settings a)),
     IsMutation = False,
     IsIdempotent = True,
     IsLightweight = True,
     ShouldWaitForDistributionQueue = (False, Database a, Table a),
     ForceMigrate = False\<rparr>"

record AlterTableModifyColumnResetSettings = ddl_table +
  cs_Column :: Column
  cs_Settings :: ColumnSettings

definition AlterTableModifyColumnResetSettings_methods :: "AlterTableModifyColumnResetSettings \<Rightarrow> Operation" where
  "AlterTableModifyColumnResetSettings_methods a = \<lparr>
     ToSQL = Done (alter_table a @ '' MODIFY COLUMN IF EXISTS '' @ col_Name (cs_Column a) @
        '' RESET SETTING '' @ join '', '' (ColumnSettings_Names (cs_Settings a))),
     IsMutation = False,
     IsIdempotent = True,
     IsLightweight = True,
     ShouldWaitForDistributionQueue = (False, Database a, Table a),
     ForceMigrate = False\<rparr>"

record AlterTableMaterializeColumn = ddl_table +
  mz_Column :: Column
  mz_Partition :: string
  mz_PartitionID :: string

definition AlterTableMaterializeColumn_methods :: "AlterTableMaterializeColumn \<Rightarrow> Operation" where
  "AlterTableMaterializeColumn_methods a = \<lparr>
     ToSQL = Done (alter_table a @ '' MATERIALIZE COLUMN '' @ col_Name (mz_Column a) @
        (if mz_Partition a \<noteq> '''' then '' IN PARTITION '' @ mz_Partition a
         else optional_clause '' IN PARTITION '' (mz_PartitionID a))),
     IsMutation = True,
     IsIdempotent = True,
     IsLightweight = False,
     ShouldWaitForDistributionQueue = (False, Database a, Table a),
     ForceMigrate = False\<rparr>"

section \<open>Operations on indexes\<close>

text \<open>\<^verbatim>\<open>index_operations.go\<close>.\<close>

record AlterTableAddIndex = ddl_table +
  ai_Index :: Index

definition AlterTableAddIndex_methods :: "AlterTableAddIndex \<Rightarrow> Operation" where
  "AlterTableAddIndex_methods a = \<lparr>
     ToSQL = Done (alter_table a @ '' ADD INDEX IF NOT EXISTS '' @ idx_Name (ai_Index a) @ '' '' @
        idx_Expression (ai_Index a) @ '' TYPE '' @ idx_Type (ai_Index a) @
        '' GRANULARITY '' @ show_int (idx_Granularity (ai_Index a))),
     IsMutation = False,
     IsIdempotent = True,
     IsLightweight = True,
     ShouldWaitForDistributionQueue = (False, Database a, Table a),
     ForceMigrate = False\<rparr>"

record AlterTableDropIndex = ddl_table +
  di_Index :: Index

definition AlterTableDropIndex_methods :: "AlterTableDropIndex \<Rightarrow> Operation" where
  "AlterTableDropIndex_methods a = \<lparr>
     ToSQL = Done (alter_table a @ '' DROP INDEX IF EXISTS '' @ idx_Name (di_Index a)),
     IsMutation = True,
     IsIdempotent = True,
     IsLightweight = True,
     ShouldWaitForDistributionQueue = (False, Database a, Table a),
     ForceMigrate = False\<rparr>"

record AlterTableMaterializeIndex = ddl_table +
  mi_Index :: Index
  mi_Partition :: string

definition AlterTableMaterializeIndex_methods :: "AlterTableMaterializeIndex \<Rightarrow> Operation" where
  "AlterTableMaterializeIndex_methods a = \<lparr>
     ToSQL = Done (alter_table a @ '' MATERIALIZE INDEX IF EXISTS '' @ idx_Name (mi_Index a) @
        optional_clause '' IN PARTITION '' (mi_Partition a)),
     IsMutation = True,
     IsIdempotent = True,
     IsLightweight = False,
     ShouldWaitForDistributionQueue = (False, Database a, Table a),
     ForceMigrate = False\<rparr>"

record AlterTableClearIndex = ddl_table +
  ci_Index :: Index
  ci_Partition :: string

definition AlterTableClearIndex_methods :: "AlterTableClearIndex \<Rightarrow> Operation" where
  "AlterTableClearIndex_methods a = \<lparr>
     ToSQL = Done (alter_table a @ '' CLEAR INDEX IF EXISTS '' @ idx_Name (ci_Index a) @
        optional_clause '' IN PARTITION '' (ci_Partition a)),
     IsMutation = True,
     IsIdempotent = True,
     IsLightweight = False,
     ShouldWaitForDistributionQueue = (False, Database a, Table a),
     ForceMigrate = False\<rparr>"

section \<open>Operations on tables and views\<close>

text \<open>\<^verbatim>\<open>table_operations.go\<close>.\<close>

record CreateTableOperation = ddl_table +
  ct_Columns :: "Column list"
  ct_Indexes :: "Index list"
  ct_Projections :: "Projection list"
  ct_Engine :: TableEngine

definition CreateTableOperation_methods :: "CreateTableOperation \<Rightarrow> Operation" where
  "CreateTableOperation_methods a = \<lparr>
     ToSQL = bind_outcome (map_outcome Column_ToSQL (ct_Columns a)) (\<lambda>columnParts. Done (
        ''CREATE TABLE IF NOT EXISTS '' @ Database a @ ''.'' @ Table a @ on_cluster a @
        '' ('' @ join '', '' columnParts @
        concat (map (\<lambda>i. '', '' @ Index_ToSQL i) (ct_Indexes a)) @
        concat (map (\<lambda>p. '', '' @ Projection_ToSQL p) (ct_Projections a)) @
        '')'' @ '' ENGINE = '' @ Engine_ToSQL (ct_Engine a))),
     IsMutation = False,
     IsIdempotent = True,
     IsLightweight = True,
     ShouldWaitForDistributionQueue = (False, Database a, Table a),
     ForceMigrate = False\<rparr>"

record DropTableOperation = ddl_table +
  dt_Settings :: "TableSetting list"

definition DropTableOperation_methods :: "DropTableOperation \<Rightarrow> Operation" where
  "DropTableOperation_methods a = \<lparr>
     ToSQL = Done (''DROP TABLE IF EXISTS '' @ Database a @ ''.'' @ Table a @ on_cluster a @
        (if dt_Settings a \<noteq> [] then '' SETTINGS '' @ TableSettings_ToSQL (dt_Settings a) else '''')),
     IsMutation = True,
     IsIdempotent = True,
     IsLightweight = True,
     ShouldWaitForDistributionQueue = (False, Database a, Table a),
     ForceMigrate = False\<rparr>"

record CreateMaterializedViewOperation = ddl +
  mv_ViewName :: string
  mv_DestTable :: string
  mv_Columns :: "Column list"
  mv_Query :: string

definition CreateMaterializedViewOperation_methods :: "CreateMaterializedViewOperation \<Rightarrow> Operation" where
  "CreateMaterializedViewOperation_methods a = \<lparr>
     ToSQL = bind_outcome (map_outcome Column_ToSQL (mv_Columns a)) (\<lambda>columnParts. Done (
        ''CREATE MATERIALIZED VIEW IF NOT EXISTS '' @ Database a @ ''.'' @ mv_ViewName a @ on_cluster a @
        '' TO '' @ Database a @ ''.'' @ mv_DestTable a @
        (if mv_Columns a \<noteq> [] then '' ('' @ join '', '' columnParts @ '')'' else '''') @
        '' AS '' @ mv_Query a)),
     IsMutation = False,
     IsIdempotent = True,
     IsLightweight = True,
     ShouldWaitForDistributionQueue = (False, Database a, mv_ViewName a),
     ForceMigrate = False\<rparr>"

record ModifyQueryMaterializedViewOperation = ddl +
  mq_ViewName :: string
  mq_Query :: string

definition ModifyQueryMaterializedViewOperation_methods :: "ModifyQueryMaterializedViewOperation \<Rightarrow> Operation" where
  "ModifyQueryMaterializedViewOperation_methods a = \<lparr>
     ToSQL = Done (''ALTER TABLE '' @ Database a @ ''.'' @ mq_ViewName a @ on_cluster a @
        '' MODIFY QUERY '' @ mq_Query a),
     IsMutation = False,
     IsIdempotent = True,
     IsLightweight = True,
     ShouldWaitForDistributionQueue = (False, Database a, mq_ViewName a),
     ForceMigrate = False\<rparr>"

type_synonym TruncateTableOperation = ddl_table

definition TruncateTableOperation_methods :: "TruncateTableOperation \<Rightarrow> Operation" where
  "TruncateTableOperation_methods a = \<lparr>
     ToSQL = Done (''TRUNCATE TABLE IF EXISTS '' @ Database a @ ''.'' @ Table a @ on_cluster a),
     IsMutation = True,
     IsIdempotent = True,
     IsLightweight = False,
     ShouldWaitForDistributionQueue = (False, Database a, Table a),
     ForceMigrate = False\<rparr>"

record AlterTableModifyTTL = ddl_table +
  mt_TTL :: string
  MaterializeTTLAfterModify :: bool

definition AlterTableModifyTTL_methods :: "AlterTableModifyTTL \<Rightarrow> Operation" where
  "AlterTableModifyTTL_methods a = \<lparr>
     ToSQL = Done (alter_table a @ '' MODIFY TTL '' @ mt_TTL a @
        (if \<not> MaterializeTTLAfterModify a
         then '' SETTINGS '' @ ''materialize_ttl_after_modify = 0'' else '''')),
     IsMutation = (if \<not> MaterializeTTLAfterModify a then False else True),
     IsIdempotent = True,
     IsLightweight = (\<not> MaterializeTTLAfterModify a),
     ShouldWaitForDistributionQueue = (False, Database a, Table a),
     ForceMigrate = False\<rparr>"

type_synonym AlterTableDropTTL = ddl_table

definition AlterTableDropTTL_methods :: "AlterTableDropTTL \<Rightarrow> Operation" where
  "AlterTableDropTTL_methods a = \<lparr>
     ToSQL = Done (alter_table a @ '' REMOVE TTL''),
     IsMutation = False,
     IsIdempotent = True,
     IsLightweight = True,
     ShouldWaitForDistributionQueue = (False, Database a, Table a),
     ForceMigrate = False\<rparr>"

record AlterTableModifySettings = ddl_table +
  ms_Settings :: "TableSetting list"

definition AlterTableModifySettings_methods :: "AlterTableModifySettings \<Rightarrow> Operation" where
  "AlterTableModifySettings_methods a = \<lparr>
     ToSQL = Done (alter_table a @ '' MODIFY SETTING '' @ TableSettings_ToSQL (ms_Settings a)),
     IsMutation = False,
     IsIdempotent = True,
     IsLightweight = True,
     ShouldWaitForDistributionQueue = (False, Database a, Table a),
     ForceMigrate = False\<rparr>"

section \<open>Operations on projections\<close>

text \<open>\<^verbatim>\<open>projection_operations.go\<close>.\<close>

record CreateProjectionOperation = ddl_table +
  cp_Projection :: Projection

definition CreateProjectionOperation_methods :: "CreateProjectionOperation \<Rightarrow> Operation" where
  "CreateProjectionOperation_methods a = \<lparr>
     ToSQL = Done (''ALTER TABLE '' @ Database a @ ''.'' @ Table a @
        '' ADD PROJECTION IF NOT EXISTS '' @ prj_Name (cp_Projection a) @
        '' ('' @ prj_Query (cp_Projection a) @ '')''),
     IsMutation = False,
     IsIdempotent = True,
     IsLightweight = True,
     ShouldWaitForDistributionQueue = (False, Database a, Table a),
     ForceMigrate = False\<rparr>"

record DropProjectionOperation = ddl_table +
  dp_Projection :: Projection

definition DropProjectionOperation_methods :: "DropProjectionOperation \<Rightarrow> Operation" where
  "DropProjectionOperation_methods a = \<lparr>
     ToSQL = Done (alter_table a @ '' DROP PROJECTION IF EXISTS '' @ prj_Name (dp_Projection a)),
     IsMutation = False,
     IsIdempotent = True,
     IsLightweight = True,
     ShouldWaitForDistributionQueue = (False, Database a, Table a),
     ForceMigrate = False\<rparr>"

section \<open>Inserting data\<close>

text \<open>\<^verbatim>\<open>data_operations.go\<close>.\<close>

record InsertIntoTable = ddl_table +
  ins_Columns :: "string list"
  LightWeight :: bool
  Synchronous :: bool
  ins_Values :: string

definition InsertIntoTable_methods :: "InsertIntoTable \<Rightarrow> Operation" where
  "InsertIntoTable_methods a = \<lparr>
     ToSQL = Done (''INSERT INTO '' @ Database a @ ''.'' @ Table a @
        (if ins_Columns a \<noteq> [] then '' ('' @ join '', '' (ins_Columns a) @ '')'' else '''') @
        '' VALUES '' @ ins_Values a),
     IsMutation = False,
     IsIdempotent = False,
     IsLightweight = (LightWeight a),
     ShouldWaitForDistributionQueue = (False, Database a, Table a),
     ForceMigrate = Synchronous a\<rparr>"

section \<open>The interface\<close>

text \<open>A value of the interface \<^verbatim>\<open>Operation\<close>, one constructor for each implementation.\<close>

datatype operation =
    AlterTableAddColumn AlterTableAddColumn
  | AlterTableDropColumn AlterTableDropColumn
  | AlterTableModifyColumn AlterTableModifyColumn
  | AlterTableModifyColumnRemove AlterTableModifyColumnRemove
  | AlterTableModifyColumnModifySettings AlterTableModifyColumnModifySettings
  | AlterTableModifyColumnResetSettings AlterTableModifyColumnResetSettings
  | AlterTableMaterializeColumn AlterTableMaterializeColumn
  | AlterTableAddIndex AlterTableAddIndex
  | AlterTableDropIndex AlterTableDropIndex
  | AlterTableMaterializeIndex AlterTableMaterializeIndex
  | AlterTableClearIndex AlterTableClearIndex
  | CreateTableOperation CreateTableOperation
  | DropTableOperation DropTableOperation
  | CreateMaterializedViewOperation CreateMaterializedViewOperation
  | ModifyQueryMaterializedViewOperation ModifyQueryMaterializedViewOperation
  | TruncateTableOperation TruncateTableOperation
  | AlterTableModifyTTL AlterTableModifyTTL
  | AlterTableDropTTL AlterTableDropTTL
  | AlterTableModifySettings AlterTableModifySettings
  | CreateProjectionOperation CreateProjectionOperation
  | DropProjectionOperation DropProjectionOperation
  | InsertIntoTable InsertIntoTable

fun op_methods :: "operation \<Rightarrow> Operation" where
  "op_methods (AlterTableAddColumn a) = AlterTableAddColumn_methods a"
| "op_methods (AlterTableDropColumn a) = AlterTableDropColumn_methods a"
| "op_methods (AlterTableModifyColumn a) = AlterTableModifyColumn_methods a"
| "op_methods (AlterTableModifyColumnRemove a) = AlterTableModifyColumnRemove_methods a"
| "op_methods (AlterTableModifyColumnModifySettings a) = AlterTableModifyColumnModifySettings_methods a"
| "op_methods (AlterTableModifyColumnResetSettings a) = AlterTableModifyColumnResetSettings_methods a"
| "op_methods (AlterTableMaterializeColumn a) = AlterTableMaterializeColumn_methods a"
| "op_methods (AlterTableAddIndex a) = AlterTableAddIndex_methods a"
| "op_methods (AlterTableDropIndex a) = AlterTableDropIndex_methods a"
| "op_methods (AlterTableMaterializeIndex a) = AlterTableMaterializeIndex_methods a"
| "op_methods (AlterTableClearIndex a) = AlterTableClearIndex_methods a"
| "op_methods (CreateTableOperation a) = CreateTableOperation_methods a"
| "op_methods (DropTableOperation a) = DropTableOperation_methods a"
| "op_methods (CreateMaterializedViewOperation a) = CreateMaterializedViewOperation_methods a"
| "op_methods (ModifyQueryMaterializedViewOperation a) = ModifyQueryMaterializedViewOperation_methods a"
| "op_methods (TruncateTableOperation a) = TruncateTableOperation_methods a"
| "op_methods (AlterTableModifyTTL a) = AlterTableModifyTTL_methods a"
| "op_methods (AlterTableDropTTL a) = AlterTableDropTTL_methods a"
| "op_methods (AlterTableModifySettings a) = AlterTableModifySettings_methods a"
| "op_methods (CreateProjectionOperation a) = CreateProjectionOperation_methods a"
| "op_methods (DropProjectionOperation a) = DropProjectionOperation_methods a"
| "op_methods (InsertIntoTable a) = InsertIntoTable_methods a"

text \<open>
  \<^verbatim>\<open>OnCluster\<close> and \<^verbatim>\<open>WithReplication\<close> return a changed copy; only the creation of a table passes
  them on, to its engine, and only it has a \<^verbatim>\<open>WithReplication\<close> that changes anything.
\<close>

fun OnCluster :: "string \<Rightarrow> operation \<Rightarrow> operation" where
  "OnCluster c (AlterTableAddColumn a) = AlterTableAddColumn (a\<lparr>cluster := c\<rparr>)"
| "OnCluster c (AlterTableDropColumn a) = AlterTableDropColumn (a\<lparr>cluster := c\<rparr>)"
| "OnCluster c (AlterTableModifyColumn a) = AlterTableModifyColumn (a\<lparr>cluster := c\<rparr>)"
| "OnCluster c (AlterTableModifyColumnRemove a) = AlterTableModifyColumnRemove (a\<lparr>cluster := c\<rparr>)"
| "OnCluster c (AlterTableModifyColumnModifySettings a) = AlterTableModifyColumnModifySettings (a\<lparr>cluster := c\<rparr>)"
| "OnCluster c (AlterTableModifyColumnResetSettings a) = AlterTableModifyColumnResetSettings (a\<lparr>cluster := c\<rparr>)"
| "OnCluster c (AlterTableMaterializeColumn a) = AlterTableMaterializeColumn (a\<lparr>cluster := c\<rparr>)"
| "OnCluster c (AlterTableAddIndex a) = AlterTableAddIndex (a\<lparr>cluster := c\<rparr>)"
| "OnCluster c (AlterTableDropIndex a) = AlterTableDropIndex (a\<lparr>cluster := c\<rparr>)"
| "OnCluster c (AlterTableMaterializeIndex a) = AlterTableMaterializeIndex (a\<lparr>cluster := c\<rparr>)"
| "OnCluster c (AlterTableClearIndex a) = AlterTableClearIndex (a\<lparr>cluster := c\<rparr>)"
| "OnCluster c (CreateTableOperation a) =
     CreateTableOperation (a\<lparr>cluster := c, ct_Engine := Engine_OnCluster c (ct_Engine a)\<rparr>)"
| "OnCluster c (DropTableOperation a) = DropTableOperation (a\<lparr>cluster := c\<rparr>)"
| "OnCluster c (CreateMaterializedViewOperation a) = CreateMaterializedViewOperation (a\<lparr>cluster := c\<rparr>)"
| "OnCluster c (ModifyQueryMaterializedViewOperation a) = ModifyQueryMaterializedViewOperation (a\<lparr>cluster := c\<rparr>)"
| "OnCluster c (TruncateTableOperation a) = TruncateTableOperation (a\<lparr>cluster := c\<rparr>)"
| "OnCluster c (AlterTableModifyTTL a) = AlterTableModifyTTL (a\<lparr>cluster := c\<rparr>)"
| "OnCluster c (AlterTableDropTTL a) = AlterTableDropTTL (a\<lparr>cluster := c\<rparr>)"
| "OnCluster c (AlterTableModifySettings a) = AlterTableModifySettings (a\<lparr>cluster := c\<rparr>)"
| "OnCluster c (CreateProjectionOperation a) = CreateProjectionOperation (a\<lparr>cluster := c\<rparr>)"
| "OnCluster c (DropProjectionOperation a) = DropProjectionOperation (a\<lparr>cluster := c\<rparr>)"
| "OnCluster c (InsertIntoTable a) = InsertIntoTable (a\<lparr>cluster := c\<rparr>)"

fun WithReplication :: "operation \<Rightarrow> operation" where
  "WithReplication (CreateTableOperation a) =
     CreateTableOperation (a\<lparr>ct_Engine := Engine_WithReplication (ct_Engine a)\<rparr>)"
| "WithReplication op = op"


section \<open>Configuring an operation\<close>

text \<open>
  What the migrator relies on when it configures an operation or an engine: there is a view that
  neither configuration changes (how the operation is scheduled, what the engine stores), the last
  cluster wins, replication is switched on once, and the two do not interfere.
\<close>

locale configurable =
  fixes oc :: "string \<Rightarrow> 'o \<Rightarrow> 'o"
    and wr :: "'o \<Rightarrow> 'o"
    and vw :: "'o \<Rightarrow> 'v"
  assumes view_oc: "vw (oc c x) = vw x"
    and view_wr: "vw (wr x) = vw x"
    and oc_oc: "oc c (oc d x) = oc c x"
    and wr_wr: "wr (wr x) = wr x"
    and oc_wr: "oc c (wr x) = wr (oc c x)"
begin

definition configure :: "string \<Rightarrow> bool \<Rightarrow> 'o \<Rightarrow> 'o" where
  "configure c r x =
     (let x1 = (if c \<noteq> '''' then oc c x else x) in if r then wr x1 else x1)"

lemma configure_view: "vw (configure c r x) = vw x"
  by (simp add: configure_def Let_def view_oc view_wr)

lemma configure_twice: "configure c r (configure c r x) = configure c r x"
  by (simp add: configure_def Let_def oc_oc wr_wr oc_wr)

lemma configure_last_cluster:
  "c \<noteq> '''' \<Longrightarrow> configure c r (configure d r' x) = configure c (r \<or> r') x"
  by (simp add: configure_def Let_def oc_oc wr_wr oc_wr)

lemma configure_filter:
  assumes "\<And>y z. vw y = vw z \<Longrightarrow> P y = P z"
  shows "filter P (map (configure c r) xs) = map (configure c r) (filter P xs)"
proof -
  have "P (configure c r x) = P x" for x
    by (rule assms) (rule configure_view)
  then show ?thesis by (induction xs) simp_all
qed

end

text \<open>What an engine stores, apart from its replication and its cluster.\<close>

fun engine_core :: "TableEngine \<Rightarrow> TableEngine" where
  "engine_core (MergeTreeEngine m) = MergeTreeEngine (m\<lparr>Replicated := False\<rparr>)"
| "engine_core (ReplacingMergeTree m) = ReplacingMergeTree (m\<lparr>Replicated := False\<rparr>)"
| "engine_core (AggregatingMergeTree m) = AggregatingMergeTree (m\<lparr>Replicated := False\<rparr>)"
| "engine_core (SummingMergeTree m) = SummingMergeTree (m\<lparr>Replicated := False\<rparr>)"
| "engine_core (DistributedEngine d) = DistributedEngine (d\<lparr>dist_Cluster := ''''\<rparr>)"

interpretation engine_cfg: configurable Engine_OnCluster Engine_WithReplication engine_core
proof
  fix c d and x :: TableEngine
  show "engine_core (Engine_OnCluster c x) = engine_core x"
    by (cases x) simp_all
  show "engine_core (Engine_WithReplication x) = engine_core x"
    by (cases x) simp_all
  show "Engine_OnCluster c (Engine_OnCluster d x) = Engine_OnCluster c x"
    by (cases x) simp_all
  show "Engine_WithReplication (Engine_WithReplication x) = Engine_WithReplication x"
    by (cases x) simp_all
  show "Engine_OnCluster c (Engine_WithReplication x) = Engine_WithReplication (Engine_OnCluster c x)"
    by (cases x) simp_all
qed

text \<open>How an operation is scheduled: everything its methods say, its text apart.\<close>

definition op_schedule :: "operation \<Rightarrow> bool \<times> bool \<times> bool \<times> bool \<times> (bool \<times> string \<times> string)" where
  "op_schedule op = (let m = op_methods op in
     (IsMutation m, IsIdempotent m, IsLightweight m, ForceMigrate m, ShouldWaitForDistributionQueue m))"

lemmas methods_defs =
  AlterTableAddColumn_methods_def AlterTableDropColumn_methods_def
  AlterTableModifyColumn_methods_def AlterTableModifyColumnRemove_methods_def
  AlterTableModifyColumnModifySettings_methods_def AlterTableModifyColumnResetSettings_methods_def
  AlterTableMaterializeColumn_methods_def AlterTableAddIndex_methods_def
  AlterTableDropIndex_methods_def AlterTableMaterializeIndex_methods_def
  AlterTableClearIndex_methods_def CreateTableOperation_methods_def DropTableOperation_methods_def
  CreateMaterializedViewOperation_methods_def ModifyQueryMaterializedViewOperation_methods_def
  TruncateTableOperation_methods_def AlterTableModifyTTL_methods_def AlterTableDropTTL_methods_def
  AlterTableModifySettings_methods_def CreateProjectionOperation_methods_def
  DropProjectionOperation_methods_def InsertIntoTable_methods_def

interpretation op_cfg: configurable OnCluster WithReplication op_schedule
proof
  fix c d x
  show "op_schedule (OnCluster c x) = op_schedule x"
    by (cases x) (simp_all add: op_schedule_def methods_defs)
  show "op_schedule (WithReplication x) = op_schedule x"
    by (cases x) (simp_all add: op_schedule_def methods_defs)
  show "OnCluster c (OnCluster d x) = OnCluster c x"
    by (cases x) (simp_all add: engine_cfg.oc_oc)
  show "WithReplication (WithReplication x) = WithReplication x"
    by (cases x) (simp_all add: engine_cfg.wr_wr)
  show "OnCluster c (WithReplication x) = WithReplication (OnCluster c x)"
    by (cases x) (simp_all add: engine_cfg.oc_wr)
qed

section \<open>Where the cluster and the replication show\<close>

text \<open>
  The statement up to the point where \<^verbatim>\<open>ON CLUSTER\<close> belongs; the creation of a projection and
  the insertion of data never write it.
\<close>

fun statement_head :: "operation \<Rightarrow> string" where
  "statement_head (CreateTableOperation a) = ''CREATE TABLE IF NOT EXISTS '' @ Database a @ ''.'' @ Table a"
| "statement_head (DropTableOperation a) = ''DROP TABLE IF EXISTS '' @ Database a @ ''.'' @ Table a"
| "statement_head (CreateMaterializedViewOperation a) =
     ''CREATE MATERIALIZED VIEW IF NOT EXISTS '' @ Database a @ ''.'' @ mv_ViewName a"
| "statement_head (TruncateTableOperation a) = ''TRUNCATE TABLE IF EXISTS '' @ Database a @ ''.'' @ Table a"
| "statement_head (InsertIntoTable a) = ''INSERT INTO '' @ Database a @ ''.'' @ Table a"
| "statement_head op =
     (case ShouldWaitForDistributionQueue (op_methods op) of (w, db, t) \<Rightarrow> ''ALTER TABLE '' @ db @ ''.'' @ t)"

fun writes_cluster :: "operation \<Rightarrow> bool" where
  "writes_cluster (CreateProjectionOperation a) = False"
| "writes_cluster (InsertIntoTable a) = False"
| "writes_cluster op = True"

lemma bind_Done_append:
  "bind_outcome m (\<lambda>c. Done (f c)) = Done q \<Longrightarrow> \<exists>c. q = f c"
  by (cases m) auto


lemma bind_outcome_Done_eq:
  "bind_outcome m (\<lambda>c. Done (f c)) = Done q \<longleftrightarrow> (\<exists>c. m = Done c \<and> q = f c)"
  by (cases m) auto

text \<open>An operation configured for a cluster names it: when its text has a place for the cluster,
  the text is the head of the statement, then \<^verbatim>\<open>ON CLUSTER\<close> and the cluster, then the rest. The
  creation of a projection and the insertion of data keep the text they had: the first runs on
  one host only, whatever cluster was asked for.\<close>

theorem cluster_in_statement:
  assumes "c \<noteq> ''''" and "ToSQL (op_methods (OnCluster c op)) = Done q"
  shows "if writes_cluster op then \<exists>s. q = statement_head op @ '' ON CLUSTER '' @ c @ s
         else ToSQL (op_methods op) = Done q"
  using assms
  by (cases op)
    (auto simp: methods_defs alter_table_def on_cluster_def optional_clause_def bind_outcome_Done_eq)

theorem cluster_in_statement_witness:
  "\<exists>s. ''TRUNCATE TABLE IF EXISTS db.t ON CLUSTER c'' =
     statement_head (TruncateTableOperation \<lparr>cluster = '''', Database = ''db'', Table = ''t''\<rparr>) @
     '' ON CLUSTER '' @ ''c'' @ s"
  using cluster_in_statement [of "''c''"
      "TruncateTableOperation \<lparr>cluster = '''', Database = ''db'', Table = ''t''\<rparr>"
      "''TRUNCATE TABLE IF EXISTS db.t ON CLUSTER c''"]
  by (simp add: methods_defs on_cluster_def optional_clause_def)

text \<open>The engines that have a replicated form, not yet replicated.\<close>

fun replicable :: "TableEngine \<Rightarrow> bool" where
  "replicable (MergeTreeEngine m) = (\<not> Replicated m)"
| "replicable (ReplacingMergeTree m) = (\<not> Replicated m)"
| "replicable (AggregatingMergeTree m) = (\<not> Replicated m)"
| "replicable (SummingMergeTree m) = (\<not> Replicated m)"
| "replicable (DistributedEngine d) = False"

lemma Engine_ToSQL_replicated:
  "replicable e \<Longrightarrow> Engine_ToSQL (Engine_WithReplication e) = ''Replicated'' @ Engine_ToSQL e"
  by (cases e) (simp_all add: EngineParams_def)

lemma Engine_not_replicable: "\<not> replicable e \<Longrightarrow> Engine_WithReplication e = e"
  by (cases e) simp_all

text \<open>Replication shows in the creation of tables and nowhere else: the text of a table on a
  MergeTree engine, which ends in the engine, gains the prefix \<^verbatim>\<open>Replicated\<close> of the engine and is
  otherwise unchanged; a distributed or already replicated table and every other operation
  keep their text.\<close>

theorem replication_in_statement:
  "case op of
     CreateTableOperation a \<Rightarrow>
       if replicable (ct_Engine a)
       then \<forall>q. ToSQL (op_methods op) = Done q \<longrightarrow>
              (\<exists>p. q = p @ Engine_ToSQL (ct_Engine a) \<and>
                   ToSQL (op_methods (WithReplication op)) =
                     Done (p @ ''Replicated'' @ Engine_ToSQL (ct_Engine a)))
       else WithReplication op = op
   | _ \<Rightarrow> WithReplication op = op"
  by (cases op)
    (auto simp: methods_defs on_cluster_def bind_outcome_Done_eq Engine_ToSQL_replicated
      Engine_not_replicable)

theorem replication_in_statement_witness:
  "ToSQL (op_methods (WithReplication (CreateTableOperation
     \<lparr>cluster = '''', Database = ''db'', Table = ''t'', ct_Columns = [], ct_Indexes = [],
      ct_Projections = [], ct_Engine = MergeTreeEngine \<lparr>Replicated = False, OrderBy = ''id'',
        PrimaryKey = '''', PartitionBy = '''', SampleBy = '''', engine_TTL = '''', engine_Settings = []\<rparr>\<rparr>)))
   = Done ''CREATE TABLE IF NOT EXISTS db.t () ENGINE = ReplicatedMergeTree ORDER BY id''"
  using replication_in_statement [of "CreateTableOperation
     \<lparr>cluster = '''', Database = ''db'', Table = ''t'', ct_Columns = [], ct_Indexes = [],
      ct_Projections = [], ct_Engine = MergeTreeEngine \<lparr>Replicated = False, OrderBy = ''id'',
        PrimaryKey = '''', PartitionBy = '''', SampleBy = '''', engine_TTL = '''', engine_Settings = []\<rparr>\<rparr>"]
  by (auto simp: methods_defs on_cluster_def optional_clause_def EngineParams_def)

section \<open>The statements are well bracketed\<close>

fun op_texts :: "operation \<Rightarrow> string list" where
  "op_texts (AlterTableAddColumn a) = column_texts (ac_Column a) @
     (case ac_After a of None \<Rightarrow> [] | Some c \<Rightarrow> [col_Name c])"
| "op_texts (AlterTableDropColumn a) = [col_Name (dc_Column a)]"
| "op_texts (AlterTableModifyColumn a) = column_texts (mc_Column a)"
| "op_texts (AlterTableModifyColumnRemove a) = [col_Name (cr_Column a)]"
| "op_texts (AlterTableModifyColumnModifySettings a) = col_Name (cm_Column a) #
     map setting_name (cm_Settings a) @ map setting_value (cm_Settings a)"
| "op_texts (AlterTableModifyColumnResetSettings a) = col_Name (cs_Column a) #
     map setting_name (cs_Settings a)"
| "op_texts (AlterTableMaterializeColumn a) = [col_Name (mz_Column a), mz_Partition a, mz_PartitionID a]"
| "op_texts (AlterTableAddIndex a) = [idx_Name (ai_Index a), idx_Expression (ai_Index a), idx_Type (ai_Index a)]"
| "op_texts (AlterTableDropIndex a) = [idx_Name (di_Index a)]"
| "op_texts (AlterTableMaterializeIndex a) = [idx_Name (mi_Index a), mi_Partition a]"
| "op_texts (AlterTableClearIndex a) = [idx_Name (ci_Index a), ci_Partition a]"
| "op_texts (CreateTableOperation a) = concat (map column_texts (ct_Columns a)) @
     concat (map (\<lambda>i. [idx_Name i, idx_Expression i, idx_Type i]) (ct_Indexes a)) @
     concat (map (\<lambda>p. [prj_Name p, prj_Query p]) (ct_Projections a)) @ engine_texts (ct_Engine a)"
| "op_texts (DropTableOperation a) = map ts_name (dt_Settings a) @ map ts_value (dt_Settings a)"
| "op_texts (CreateMaterializedViewOperation a) =
     concat (map column_texts (mv_Columns a)) @ [mv_ViewName a, mv_DestTable a, mv_Query a]"
| "op_texts (ModifyQueryMaterializedViewOperation a) = [mq_ViewName a, mq_Query a]"
| "op_texts (TruncateTableOperation a) = []"
| "op_texts (AlterTableModifyTTL a) = [mt_TTL a]"
| "op_texts (AlterTableDropTTL a) = []"
| "op_texts (AlterTableModifySettings a) = map ts_name (ms_Settings a) @ map ts_value (ms_Settings a)"
| "op_texts (CreateProjectionOperation a) = [prj_Name (cp_Projection a), prj_Query (cp_Projection a)]"
| "op_texts (DropProjectionOperation a) = [prj_Name (dp_Projection a)]"
| "op_texts (InsertIntoTable a) = ins_Columns a @ [ins_Values a]"

definition op_target :: "operation \<Rightarrow> string list" where
  "op_target op = (case ShouldWaitForDistributionQueue (op_methods op) of (w, db, t) \<Rightarrow> [db, t])"


lemma columns_balanced:
  assumes "map_outcome Column_ToSQL cs = Done ps"
    and "\<And>s. s \<in> set (concat (map column_texts cs)) \<Longrightarrow> balanced s"
  shows "balanced (join '', '' ps)"
proof -
  have "balanced p" if "p \<in> set ps" for p
    using assms that
  proof (induction cs arbitrary: ps)
    case (Cons c cs)
    from Cons.prems(1) obtain p' ps' where c: "Column_ToSQL c = Done p'"
      and cs: "map_outcome Column_ToSQL cs = Done ps'" and ps: "ps = p' # ps'"
      by (auto simp: bind_outcome_Done)
    have "balanced p'" by (rule Column_ToSQL_balanced [OF _ c]) (use Cons.prems(2) in auto)
    moreover have "p \<in> set ps' \<Longrightarrow> balanced p"
      by (rule Cons.IH [OF cs]) (use Cons.prems(2) in auto)
    ultimately show ?case using Cons.prems(3) ps by auto
  qed simp
  then show ?thesis by (intro balanced_join) (simp_all add: balanced_def)
qed

lemma on_cluster_balanced: "balanced (cluster a) \<Longrightarrow> balanced (on_cluster a)"
  unfolding on_cluster_def by (rule optional_clause_balanced) (simp_all add: balanced_def)

lemma alter_table_balanced:
  "balanced (cluster a) \<Longrightarrow> balanced (Database a) \<Longrightarrow> balanced (Table a) \<Longrightarrow> balanced (alter_table a)"
  by (simp add: alter_table_def balanced_def [of "_ # _"] depth_simps on_cluster_balanced)

lemma depth_clause:
  "balanced kw \<Longrightarrow> balanced s \<Longrightarrow> paren_depth n (optional_clause kw s) = Some n"
  by (rule balanced_depth) (rule optional_clause_balanced)

lemma balanced_concat: "(\<And>s. s \<in> set ss \<Longrightarrow> balanced s) \<Longrightarrow> balanced (concat ss)"
  by (induction ss) (auto simp: balanced_def)

lemma Index_ToSQL_balanced:
  "balanced (idx_Name i) \<Longrightarrow> balanced (idx_Expression i) \<Longrightarrow> balanced (idx_Type i) \<Longrightarrow>
    balanced (Index_ToSQL i)"
  by (simp add: Index_ToSQL_def balanced_def [of "_ # _"] depth_simps)

lemma Projection_ToSQL_balanced:
  "balanced (prj_Name p) \<Longrightarrow> balanced (prj_Query p) \<Longrightarrow> balanced (Projection_ToSQL p)"
  by (simp add: Projection_ToSQL_def balanced_def [of "_ # _"] depth_simps)

lemma CreateTable_balanced:
  assumes "balanced (cluster a)" "balanced (Database a)" "balanced (Table a)"
    and texts: "\<And>s. s \<in> set (op_texts (CreateTableOperation a)) \<Longrightarrow> balanced s"
    and q: "ToSQL (CreateTableOperation_methods a) = Done q"
  shows "balanced q"
proof -
  from q obtain ps where ps: "map_outcome Column_ToSQL (ct_Columns a) = Done ps"
    by (cases "map_outcome Column_ToSQL (ct_Columns a)") (auto simp: methods_defs)
  have "balanced (join '', '' ps)"
    by (rule columns_balanced [OF ps]) (use texts in auto)
  moreover have "balanced (Index_ToSQL i)" if "i \<in> set (ct_Indexes a)" for i
    by (rule Index_ToSQL_balanced) (use that texts in auto)
  then have "balanced (concat (map (\<lambda>i. '', '' @ Index_ToSQL i) (ct_Indexes a)))"
    by (intro balanced_concat) (auto simp: balanced_def [of "_ # _"] depth_simps)
  moreover have "balanced (Projection_ToSQL p)" if "p \<in> set (ct_Projections a)" for p
    by (rule Projection_ToSQL_balanced) (use that texts in auto)
  then have "balanced (concat (map (\<lambda>p. '', '' @ Projection_ToSQL p) (ct_Projections a)))"
    by (intro balanced_concat) (auto simp: balanced_def [of "_ # _"] depth_simps)
  moreover have "balanced (Engine_ToSQL (ct_Engine a))"
    by (rule Engine_ToSQL_balanced) (use texts in auto)
  ultimately show ?thesis
    using q ps assms(1-3)
    by (auto simp: methods_defs balanced_def [of "_ # _"] depth_simps on_cluster_balanced)
qed

lemma CreateMaterializedView_balanced:
  assumes "balanced (cluster a)" "balanced (Database a)"
    and texts: "\<And>s. s \<in> set (op_texts (CreateMaterializedViewOperation a)) \<Longrightarrow> balanced s"
    and q: "ToSQL (CreateMaterializedViewOperation_methods a) = Done q"
  shows "balanced q"
proof -
  from q obtain ps where ps: "map_outcome Column_ToSQL (mv_Columns a) = Done ps"
    by (cases "map_outcome Column_ToSQL (mv_Columns a)") (auto simp: methods_defs)
  have "balanced (join '', '' ps)"
    by (rule columns_balanced [OF ps]) (use texts in auto)
  moreover have "balanced (mv_ViewName a)" "balanced (mv_DestTable a)" "balanced (mv_Query a)"
    using texts by auto
  ultimately show ?thesis
    using q ps assms(1,2)
    by (auto simp: methods_defs balanced_def [of "_ # _"] depth_simps on_cluster_balanced)
qed


text \<open>The texts of an operation, and the cluster it is configured for, are balanced.\<close>

definition op_clean :: "string \<Rightarrow> operation \<Rightarrow> bool" where
  "op_clean c op \<longleftrightarrow> balanced c \<and> list_all balanced (op_target op @ op_texts op)"

lemmas clean_defs = op_clean_def op_target_def methods_defs

lemma op_clean_texts: "op_clean c op \<Longrightarrow> s \<in> set (op_texts op) \<Longrightarrow> balanced s"
  by (simp add: op_clean_def list_all_iff)

lemma alter_table_clean:
  "balanced c \<Longrightarrow> balanced (Database a) \<Longrightarrow> balanced (Table a) \<Longrightarrow>
    balanced (alter_table (a\<lparr>cluster := c\<rparr>))"
  by (rule alter_table_balanced) simp_all

lemma AddColumn_balanced:
  assumes cl: "op_clean c (AlterTableAddColumn a)"
    and q: "ToSQL (AlterTableAddColumn_methods (a\<lparr>cluster := c\<rparr>)) = Done q"
  shows "balanced q"
proof -
  from q obtain cs where cs: "Column_ToSQL (ac_Column a) = Done cs"
    by (cases "Column_ToSQL (ac_Column a)") (auto simp: methods_defs)
  have "balanced cs"
    by (rule Column_ToSQL_balanced [OF _ cs]) (use op_clean_texts [OF cl] in auto)
  moreover have "balanced (alter_table (a\<lparr>cluster := c\<rparr>))"
    by (rule alter_table_clean) (use cl in \<open>simp_all add: clean_defs\<close>)
  moreover have "balanced (col_Name d)" if "ac_After a = Some d" for d
    using op_clean_texts [OF cl] that by auto
  ultimately show ?thesis
    using q cs by (auto simp: methods_defs balanced_def [of "_ @ _"] depth_simps split: option.splits)
qed

lemma ModifyColumn_balanced:
  assumes cl: "op_clean c (AlterTableModifyColumn a)"
    and q: "ToSQL (AlterTableModifyColumn_methods (a\<lparr>cluster := c\<rparr>)) = Done q"
  shows "balanced q"
proof -
  have texts: "\<And>s. s \<in> set (column_texts (mc_Column a)) \<Longrightarrow> balanced s"
    using op_clean_texts [OF cl] by simp
  have "balanced (ColumnType_String t)" if "col_Type (mc_Column a) = Some t" for t
    by (rule type_String_balanced) (use texts that in \<open>auto simp: column_texts_def\<close>)
  moreover have "balanced (ColumnSettings_String ss)" if "col_Settings (mc_Column a) = Some ss" for ss
    by (rule ColumnSettings_String_balanced) (use texts that in \<open>auto simp: column_texts_def\<close>)
  moreover have "balanced (col_Name (mc_Column a))" "balanced (col_Default (mc_Column a))"
    "balanced (col_Codec (mc_Column a))" "balanced (col_TTL (mc_Column a))"
    using texts by (auto simp: column_texts_def)
  moreover have "balanced (alter_table (a\<lparr>cluster := c\<rparr>))"
    by (rule alter_table_clean) (use cl in \<open>simp_all add: clean_defs\<close>)
  ultimately show ?thesis
    using q
    by (auto simp: methods_defs balanced_def [of "_ # _"] balanced_def [of "_ @ _"] depth_simps
        depth_clause split: option.splits)
qed

lemma CreateTable_clean:
  assumes cl: "op_clean c (CreateTableOperation a)"
    and q: "ToSQL (op_methods (OnCluster c (CreateTableOperation a))) = Done q"
  shows "balanced q"
proof (rule CreateTable_balanced [of "a\<lparr>cluster := c, ct_Engine := Engine_OnCluster c (ct_Engine a)\<rparr>"])
  have "set (engine_texts (Engine_OnCluster c (ct_Engine a))) \<subseteq> insert c (set (engine_texts (ct_Engine a)))"
    by (cases "ct_Engine a") auto
  then have "set (op_texts (CreateTableOperation
      (a\<lparr>cluster := c, ct_Engine := Engine_OnCluster c (ct_Engine a)\<rparr>)))
      \<subseteq> insert c (set (op_texts (CreateTableOperation a)))"
    by auto
  moreover have "balanced c" using cl by (simp add: op_clean_def)
  ultimately show "balanced s" if "s \<in> set (op_texts (CreateTableOperation
      (a\<lparr>cluster := c, ct_Engine := Engine_OnCluster c (ct_Engine a)\<rparr>)))" for s
    using that op_clean_texts [OF cl] by blast
qed (use cl q in \<open>simp_all add: clean_defs\<close>)

lemma CreateMaterializedView_clean:
  assumes cl: "op_clean c (CreateMaterializedViewOperation a)"
    and q: "ToSQL (op_methods (OnCluster c (CreateMaterializedViewOperation a))) = Done q"
  shows "balanced q"
  by (rule CreateMaterializedView_balanced [of "a\<lparr>cluster := c\<rparr>"])
    (use cl q op_clean_texts [OF cl] in \<open>simp_all add: clean_defs\<close>)

lemma settings_clean:
  assumes "list_all balanced (map setting_name ss)"
  shows "list_all balanced (map setting_value ss) \<Longrightarrow> balanced (ColumnSettings_String ss)"
    and "balanced (join '', '' (ColumnSettings_Names ss))"
  using assms
  by (auto simp: list_all_iff ColumnSettings_Names_def balanced_def [of "'', ''"]
      intro!: ColumnSettings_String_balanced balanced_join)

lemma table_settings_clean:
  "list_all balanced (map ts_name ts) \<Longrightarrow> list_all balanced (map ts_value ts) \<Longrightarrow>
    balanced (TableSettings_ToSQL ts)"
  by (auto simp: list_all_iff intro!: TableSettings_ToSQL_balanced)

lemma strings_clean: "list_all balanced ss \<Longrightarrow> balanced (join '', '' ss)"
  by (auto simp: list_all_iff balanced_def [of "'', ''"] intro!: balanced_join)

lemma property_keyword_balanced: "balanced (property_keyword p)"
  by (cases p) (simp_all add: balanced_def)

text \<open>C35: The statements are well bracketed: when the free-form parts of an operation (names, types,
  expressions, queries, settings) and the cluster have balanced parentheses, so has the SQL the
  operation renders to. Everything the renderer adds (column types nested to any depth, codecs,
  column and value lists, engines) closes what it opens.\<close>

theorem statement_balanced:
  assumes cl: "op_clean c op" and q: "ToSQL (op_methods (OnCluster c op)) = Done q"
  shows "balanced q"
proof (cases op)
  case (AlterTableAddColumn a)
  with cl q show ?thesis by (auto intro: AddColumn_balanced)
next
  case (AlterTableModifyColumn a)
  with cl q show ?thesis by (auto intro: ModifyColumn_balanced)
next
  case (CreateTableOperation a)
  with cl q show ?thesis by (blast intro: CreateTable_clean)
next
  case (CreateMaterializedViewOperation a)
  with cl q show ?thesis by (blast intro: CreateMaterializedView_clean)
next
  case (AlterTableModifyColumnRemove a)
  with cl q show ?thesis
    by (auto simp: clean_defs alter_table_def balanced_def [of "_ # _"] depth_simps
        on_cluster_balanced property_keyword_balanced)
next
  case (DropTableOperation a)
  with cl q show ?thesis
    by (auto simp: clean_defs balanced_def [of "_ # _"] depth_simps on_cluster_balanced
        table_settings_clean)
next
  case (InsertIntoTable a)
  with cl q show ?thesis
    by (auto simp: clean_defs balanced_def [of "_ # _"] depth_simps strings_clean)
qed (use cl q in \<open>auto simp: clean_defs alter_table_def balanced_def [of "_ # _"] depth_simps
      depth_clause on_cluster_balanced settings_clean table_settings_clean\<close>)

theorem statement_balanced_witness:
  "balanced ''ALTER TABLE db.t ON CLUSTER c ADD COLUMN IF NOT EXISTS k Array(Nullable(String)) CODEC(ZSTD(1))''"
  using statement_balanced [of "''c''" "AlterTableAddColumn \<lparr>cluster = '''', Database = ''db'', Table = ''t'',
      ac_Column = Column ''k'' (Some (ArrayColumnType (NullableColumnType
        (PrimitiveColumnType ''String'' ColumnTypeEnumString)))) ''ZSTD(1)'' '''' '''' '''' '''' None '''',
      ac_After = None\<rparr>"
      "''ALTER TABLE db.t ON CLUSTER c ADD COLUMN IF NOT EXISTS k Array(Nullable(String)) CODEC(ZSTD(1))''"]
  by (simp add: clean_defs column_texts_def balanced_def alter_table_def on_cluster_def
      optional_clause_def Column_ToSQL_def)

end
