(* ===== verification/MigrationManager.thy ===== *)
theory MigrationManager
  imports SchemaOps
begin

text \<open>
  The manager of the schema migrations, \<^verbatim>\<open>schema_migrator/manager.go\<close>: what it asks of the
  database, the hosts of the cluster, the waits before and after an operation, and the run of
  one operation with its entry in the table of migrations.
  ClickHouse, its driver, the clock and the backoff are parameters: a \<open>driver\<close> is a record of
  functions on the rest of the world, whose type is left open. Every statement executed is also
  appended to \<open>executed\<close>, so that lemmas can speak of the order of the statements.
\<close>

section \<open>Errors and the state of the manager\<close>

text \<open>
  The error values of the package, those of its parameters (\<open>DriverError\<close>, with the text), and
  \<^verbatim>\<open>errors.Join\<close>.
\<close>

datatype migration_error =
    ErrFailedToGetConn | ErrFailedToGetHostAddrs | ErrFailedToCreateDBs | ErrFailedToRunOperation
  | ErrFailedToWaitForMutations | ErrFailedToWaitForDDLQueue | ErrFailedToWaitForDistributionQueue
  | ErrFailedToRunSquashedMigrations | ErrFailedToCreateSchemaMigrationsV2 | ErrDistributionQueueError
  | ErrBackoffStopped
  | DriverError string
  | JoinError migration_error migration_error

fun Error :: "migration_error \<Rightarrow> string" where
  "Error ErrFailedToGetConn = ''failed to get conn''"
| "Error ErrFailedToGetHostAddrs = ''failed to get host addrs''"
| "Error ErrFailedToCreateDBs = ''failed to create dbs''"
| "Error ErrFailedToRunOperation = ''failed to run operation''"
| "Error ErrFailedToWaitForMutations = ''failed to wait for mutations''"
| "Error ErrFailedToWaitForDDLQueue = ''failed to wait for DDL queue''"
| "Error ErrFailedToWaitForDistributionQueue = ''failed to wait for distribution queue''"
| "Error ErrFailedToRunSquashedMigrations = ''failed to run squashed migrations''"
| "Error ErrFailedToCreateSchemaMigrationsV2 = ''failed to create schema_migrations_v2 table''"
| "Error ErrDistributionQueueError =
     ''distribution_queue has entries with error_count != 0 or is_blocked = 1''"
| "Error ErrBackoffStopped = ''backoff stopped''"
| "Error (DriverError s) = s"
| "Error (JoinError e f) = Error e @ CHR 0x0A # Error f"

definition InProgressStatus :: string where
  "InProgressStatus = ''in-progress''"

definition FinishedStatus :: string where
  "FinishedStatus = ''finished''"

definition FailedStatus :: string where
  "FailedStatus = ''failed''"

text \<open>The databases, in the order of \<^verbatim>\<open>dbs\<close>.\<close>

definition SignozTracesDB :: string where "SignozTracesDB = ''signoz_traces''"
definition SignozMetricsDB :: string where "SignozMetricsDB = ''signoz_metrics''"
definition SignozLogsDB :: string where "SignozLogsDB = ''signoz_logs''"
definition SignozMetadataDB :: string where "SignozMetadataDB = ''signoz_metadata''"
definition SignozAnalyticsDB :: string where "SignozAnalyticsDB = ''signoz_analytics''"
definition SignozMeterDB :: string where "SignozMeterDB = ''signoz_meter''"

definition dbs :: "string list" where
  "dbs = [SignozTracesDB, SignozMetricsDB, SignozLogsDB, SignozMetadataDB, SignozAnalyticsDB, SignozMeterDB]"

text \<open>
  What the manager executes: the creation of a database on a cluster, the insertion and the
  update of the entry of a migration (status, error, time), and the text of an operation.
\<close>

datatype statement =
    CreateDatabase string string
  | InsertEntry string nat string string
  | UpdateEntry string string nat string string string
  | OperationSQL string

fun statement_text :: "statement \<Rightarrow> string \<times> string list" where
  "statement_text (CreateDatabase db cl) =
     (''CREATE DATABASE IF NOT EXISTS '' @ db @ '' ON CLUSTER '' @ cl, [])"
| "statement_text (InsertEntry db i status now) =
     (''INSERT INTO '' @ db @ ''.distributed_schema_migrations_v2 (migration_id, status, created_at) VALUES ('' @
      show_nat i @ '', '' @ CHR 0x27 # status @ CHR 0x27 # '', '' @ CHR 0x27 # now @ CHR 0x27 # '')'', [])"
| "statement_text (UpdateEntry db cl i status err now) =
     (''ALTER TABLE '' @ db @ ''.schema_migrations_v2 ON CLUSTER '' @ cl @
      '' UPDATE status = $1, error = $2, updated_at = $3 WHERE migration_id = $4'',
      [status, err, now, show_nat i])"
| "statement_text (OperationSQL sql) = (sql, [])"

text \<open>
  The answers to a query of the distributed DDL queue, of the row of a migration, and what can
  happen while the distribution queue of a table is watched: the context is cancelled, the timer
  fires, or the poll of the two counts (blocked entries, entries with data files) returns.
\<close>

datatype select_error = Exception int string | OtherError string

datatype row_result = NoRows | RowError string | StatusRow string

datatype queue_event = CtxDone string | TimerFired | Polled "string + nat" "string + nat"

text \<open>
  The operations of the driver, of the clock and of the backoff on the rest of the world \<open>'w\<close>.
  A query names the host whose connection it uses, \<open>None\<close> for the manager's own connection.
  \<open>MapOrder\<close> is the iteration order of a Go map; \<open>AddrPort\<close> is \<^verbatim>\<open>netip.ParseAddr\<close> followed by
  \<^verbatim>\<open>AddrPortFrom\<close> and \<^verbatim>\<open>String\<close>.
\<close>

record 'w driver =
  Exec :: "statement \<Rightarrow> 'w \<Rightarrow> string option \<times> 'w"
  Now :: "'w \<Rightarrow> string"
  CountTables :: "string \<Rightarrow> string \<Rightarrow> 'w \<Rightarrow> (string + nat) \<times> 'w"
  CountV2Migrations :: "string \<Rightarrow> 'w \<Rightarrow> (string + nat) \<times> 'w"
  ClusterRows :: "string option \<Rightarrow> 'w \<Rightarrow> (string + (string + string \<times> nat) list) \<times> 'w"
  AddrPort :: "string \<Rightarrow> nat \<Rightarrow> string + string"
  MapOrder :: "string list \<Rightarrow> string list"
  Open :: "string \<Rightarrow> 'w \<Rightarrow> string option \<times> 'w"
  RunningMutations :: "string \<Rightarrow> 'w \<Rightarrow> (string + nat) \<times> 'w"
  DDLQueue :: "'w \<Rightarrow> (select_error + nat) \<times> 'w"
  ErrorCount :: "string \<Rightarrow> string \<Rightarrow> string \<Rightarrow> 'w \<Rightarrow> (string + nat) \<times> 'w"
  QueueEvents :: "string \<Rightarrow> string \<Rightarrow> string \<Rightarrow> 'w \<Rightarrow> queue_event list \<times> 'w"
  MigrationRow :: "string \<Rightarrow> nat \<Rightarrow> 'w \<Rightarrow> row_result \<times> 'w"
  BackoffReset :: "'w \<Rightarrow> 'w"
  NextBackOff :: "'w \<Rightarrow> int \<times> 'w"
  Sleep :: "int \<Rightarrow> 'w \<Rightarrow> 'w"

definition backoff_Stop :: int where
  "backoff_Stop = - 1"

text \<open>The manager. The last two fields are the rest of the world and the statements executed.\<close>

record 'w MigrationManager =
  addrs :: "string list"
  conns :: "string list"
  clusterName :: string
  replicationEnabled :: bool
  development :: bool
  world :: 'w
  executed :: "statement list"

section \<open>Programs on the manager\<close>

text \<open>
  A method returns an error or a value and the changed manager; it may also panic, or never
  return (\<open>Blocks\<close>).
\<close>

type_synonym ('w, 'a) program =
  "'w MigrationManager \<Rightarrow> ((migration_error + 'a) \<times> 'w MigrationManager) outcome"

definition returning :: "'a \<Rightarrow> ('w, 'a) program" where
  "returning x m = Done (Inr x, m)"

definition failing :: "migration_error \<Rightarrow> ('w, 'a) program" where
  "failing e m = Done (Inl e, m)"

definition andthen :: "('w, 'a) program \<Rightarrow> ('a \<Rightarrow> ('w, 'b) program) \<Rightarrow> ('w, 'b) program" where
  "andthen p f m = bind_outcome (p m) (\<lambda>(r, m'). case r of Inl e \<Rightarrow> Done (Inl e, m') | Inr x \<Rightarrow> f x m')"

definition on_error :: "('w, 'a) program \<Rightarrow> (migration_error \<Rightarrow> ('w, 'a) program) \<Rightarrow> ('w, 'a) program" where
  "on_error p h m = bind_outcome (p m) (\<lambda>(r, m'). case r of Inl e \<Rightarrow> h e m' | Inr x \<Rightarrow> Done (Inr x, m'))"

fun for_each :: "('a \<Rightarrow> ('w, unit) program) \<Rightarrow> 'a list \<Rightarrow> ('w, unit) program" where
  "for_each f [] = returning ()"
| "for_each f (x # xs) = andthen (f x) (\<lambda>_. for_each f xs)"

text \<open>A call of the driver, whose error is joined behind the error given.\<close>

definition wrap_error :: "migration_error option \<Rightarrow> string \<Rightarrow> migration_error" where
  "wrap_error w s = (case w of None \<Rightarrow> DriverError s | Some e \<Rightarrow> JoinError e (DriverError s))"

definition asking :: "migration_error option \<Rightarrow> ('w \<Rightarrow> (string + 'a) \<times> 'w) \<Rightarrow> ('w, 'a) program" where
  "asking wr q m = (case q (world m) of (r, w) \<Rightarrow>
     Done (case r of Inl s \<Rightarrow> Inl (wrap_error wr s) | Inr x \<Rightarrow> Inr x, m\<lparr>world := w\<rparr>))"

definition open_host :: "'w driver \<Rightarrow> migration_error option \<Rightarrow> string \<Rightarrow> ('w, unit) program" where
  "open_host D wr host m = (case Open D host (world m) of (r, w) \<Rightarrow>
     Done (case r of Some s \<Rightarrow> Inl (wrap_error wr s) | None \<Rightarrow> Inr (), m\<lparr>world := w\<rparr>))"

definition executing :: "'w driver \<Rightarrow> statement \<Rightarrow> ('w, unit) program" where
  "executing D st m = (case Exec D st (world m) of (r, w) \<Rightarrow>
     Done (case r of Some s \<Rightarrow> Inl (DriverError s) | None \<Rightarrow> Inr (),
       m\<lparr>world := w, executed := executed m @ [st]\<rparr>))"

lemmas program_defs = returning_def failing_def andthen_def on_error_def asking_def open_host_def
  executing_def

section \<open>The hosts of the cluster\<close>

text \<open>The rows of \<^verbatim>\<open>system.clusters\<close>, added to the set of addresses.\<close>

fun add_hosts :: "'w driver \<Rightarrow> (string + string \<times> nat) list \<Rightarrow> string list \<Rightarrow> string + string list" where
  "add_hosts D [] hs = Inr hs"
| "add_hosts D (Inl e # rows) hs = Inl e"
| "add_hosts D (Inr (a, p) # rows) hs =
     (case AddrPort D a p of
        Inl e \<Rightarrow> Inl e
      | Inr ap \<Rightarrow> add_hosts D rows (if ap \<in> set hs then hs else hs @ [ap]))"

definition parse_hosts ::
  "'w driver \<Rightarrow> (string + string \<times> nat) list \<Rightarrow> string list \<Rightarrow> ('w, string list) program" where
  "parse_hosts D rows hs =
     (case add_hosts D rows hs of
        Inl e \<Rightarrow> failing (JoinError ErrFailedToGetHostAddrs (DriverError e))
      | Inr hs' \<Rightarrow> returning hs')"

text \<open>
  One more host is asked for the hosts it knows, the first of the map iteration; its connection
  is not kept.
\<close>

definition hosts_of_another ::
  "'w driver \<Rightarrow> string list \<Rightarrow> ('w, string list) program" where
  "hosts_of_another D hs =
     (case MapOrder D hs of
        [] \<Rightarrow> returning hs
      | h # _ \<Rightarrow>
          andthen (open_host D (Some ErrFailedToGetConn) h) (\<lambda>_.
          andthen (asking (Some ErrFailedToGetConn) (ClusterRows D (Some h))) (\<lambda>rows.
          parse_hosts D rows hs)))"

definition remember_addrs :: "string list \<Rightarrow> ('w, string list) program" where
  "remember_addrs as m = Done (Inr as, m\<lparr>addrs := as\<rparr>)"

definition ask_hosts :: "'w driver \<Rightarrow> ('w, string list) program" where
  "ask_hosts D = andthen (asking (Some ErrFailedToGetHostAddrs) (ClusterRows D None)) (\<lambda>rows.
     andthen (parse_hosts D rows []) (\<lambda>hs.
     andthen (if hs \<noteq> [] then hosts_of_another D hs else returning hs) (\<lambda>hs'.
     remember_addrs (MapOrder D hs'))))"

definition HostAddrs :: "'w driver \<Rightarrow> ('w, string list) program" where
  "HostAddrs D m =
     (if development m then returning [] m
      else if addrs m \<noteq> [] then returning (addrs m) m
      else ask_hosts D m)"

definition connect :: "'w driver \<Rightarrow> string \<Rightarrow> ('w, unit) program" where
  "connect D host = andthen (open_host D None host)
     (\<lambda>_ m'. Done (Inr (), m'\<lparr>conns := host # conns m'\<rparr>))"

definition getConn :: "'w driver \<Rightarrow> string \<Rightarrow> ('w, unit) program" where
  "getConn D host m = (if host \<in> set (conns m) then returning () m else connect D host m)"

section \<open>Waiting\<close>

text \<open>
  The loop that both waits share: stop when the backoff stops, fail when the query fails, sleep
  and ask again while rows are left. The backoff is asked twice in a round; a sleep for
  \<open>backoff_Stop\<close> does not sleep.
\<close>

partial_function (option) wait_loop ::
  "'w driver \<Rightarrow> ('w \<Rightarrow> (migration_error + nat) \<times> 'w) \<Rightarrow> 'w \<Rightarrow> (migration_error option \<times> 'w) option" where
  "wait_loop D q w =
     (case NextBackOff D w of (d, w1) \<Rightarrow>
        if d = backoff_Stop then Some (Some ErrBackoffStopped, w1)
        else case q w1 of (r, w2) \<Rightarrow>
          (case r of
             Inl e \<Rightarrow> Some (Some e, w2)
           | Inr n \<Rightarrow>
               if n \<noteq> 0 then (case NextBackOff D w2 of (d2, w3) \<Rightarrow> wait_loop D q (Sleep D d2 w3))
               else Some (None, w2)))"

definition waiting :: "'w driver \<Rightarrow> ('w \<Rightarrow> (migration_error + nat) \<times> 'w) \<Rightarrow> ('w, unit) program" where
  "waiting D q m =
     (case wait_loop D q (world m) of
        None \<Rightarrow> Blocks
      | Some (e, w) \<Rightarrow>
          Done (case e of Some err \<Rightarrow> Inl err | None \<Rightarrow> Inr (), m\<lparr>world := w\<rparr>))"

definition reset_backoff :: "'w driver \<Rightarrow> ('w, unit) program" where
  "reset_backoff D m = Done (Inr (), m\<lparr>world := BackoffReset D (world m)\<rparr>)"

definition select_mutations :: "'w driver \<Rightarrow> string \<Rightarrow> 'w \<Rightarrow> (migration_error + nat) \<times> 'w" where
  "select_mutations D host w = (case RunningMutations D host w of (r, w') \<Rightarrow>
     (case r of Inl s \<Rightarrow> Inl (DriverError s) | Inr n \<Rightarrow> Inr n, w'))"

definition waitForMutationsOnHost :: "'w driver \<Rightarrow> string \<Rightarrow> ('w, unit) program" where
  "waitForMutationsOnHost D host =
     andthen (reset_backoff D) (\<lambda>_.
     andthen (getConn D host) (\<lambda>_.
     waiting D (select_mutations D host)))"

definition join_error :: "migration_error \<Rightarrow> ('w, 'a) program \<Rightarrow> ('w, 'a) program" where
  "join_error w p = on_error p (\<lambda>e. failing (JoinError w e))"

definition WaitForRunningMutations :: "'w driver \<Rightarrow> ('w, unit) program" where
  "WaitForRunningMutations D =
     andthen (HostAddrs D) (\<lambda>as.
     for_each (\<lambda>host. join_error ErrFailedToWaitForMutations (waitForMutationsOnHost D host)) as)"

text \<open>\<^verbatim>\<open>strings.Contains\<close>.\<close>

fun str_contains :: "string \<Rightarrow> string \<Rightarrow> bool" where
  "str_contains [] sub = (sub = [])"
| "str_contains (c # s) sub = (take (length sub) (c # s) = sub \<or> str_contains s sub)"

fun retryable :: "select_error \<Rightarrow> bool" where
  "retryable (Exception code msg) = (code = 999 \<and> str_contains msg ''No node'')"
| "retryable (OtherError msg) = False"

fun select_error_text :: "select_error \<Rightarrow> string" where
  "select_error_text (Exception code msg) = msg"
| "select_error_text (OtherError msg) = msg"

text \<open>The attempts left; when none is, the queue that was never read, which is empty, is returned.\<close>

fun ddl_attempts :: "'w driver \<Rightarrow> nat \<Rightarrow> 'w \<Rightarrow> (migration_error + nat) \<times> 'w" where
  "ddl_attempts D 0 w = (Inr 0, w)"
| "ddl_attempts D (Suc k) w =
     (case DDLQueue D w of (r, w') \<Rightarrow>
        (case r of
           Inl e \<Rightarrow> if retryable e then ddl_attempts D k w' else (Inl (DriverError (select_error_text e)), w')
         | Inr n \<Rightarrow> (Inr n, w')))"

definition getDistributedDDLQueue :: "'w driver \<Rightarrow> 'w \<Rightarrow> (migration_error + nat) \<times> 'w" where
  "getDistributedDDLQueue D w = ddl_attempts D 10 w"

definition WaitDistributedDDLQueue :: "'w driver \<Rightarrow> ('w, unit) program" where
  "WaitDistributedDDLQueue D =
     andthen (reset_backoff D) (\<lambda>_. waiting D (getDistributedDDLQueue D))"

text \<open>
  The watch over the distribution queue of a table: \<open>n\<close> polls have found inserts so far. A failed
  count of inserts is tried again; a list of events that ends before the watch does means that
  the watch goes on.
\<close>

fun watch_queue :: "nat \<Rightarrow> queue_event list \<Rightarrow> (migration_error + unit) option" where
  "watch_queue n [] = None"
| "watch_queue n (CtxDone s # es) = Some (Inl (DriverError s))"
| "watch_queue n (TimerFired # es) = Some (Inr ())"
| "watch_queue n (Polled (Inl s) c # es) =
     Some (Inl (JoinError ErrFailedToWaitForDistributionQueue (DriverError s)))"
| "watch_queue n (Polled (Inr errCount) c # es) =
     (if errCount \<noteq> 0 then Some (Inl ErrDistributionQueueError)
      else case c of
        Inl s \<Rightarrow> watch_queue n es
      | Inr files \<Rightarrow>
          let n' = (if files > 0 then n + 1 else n) in
          if n' \<ge> 16 then Some (Inr ()) else watch_queue n' es)"

definition waitForDistributionQueueOnHost ::
  "'w driver \<Rightarrow> string \<Rightarrow> string \<Rightarrow> string \<Rightarrow> ('w, unit) program" where
  "waitForDistributionQueueOnHost D host db table =
     andthen (asking (Some ErrFailedToWaitForDistributionQueue) (ErrorCount D host db table)) (\<lambda>errCount.
     if errCount \<noteq> 0 then failing ErrDistributionQueueError
     else (\<lambda>m. case QueueEvents D host db table (world m) of (es, w) \<Rightarrow>
       (case watch_queue 0 es of None \<Rightarrow> Blocks | Some r \<Rightarrow> Done (r, m\<lparr>world := w\<rparr>))))"

definition WaitForDistributionQueue :: "'w driver \<Rightarrow> string \<Rightarrow> string \<Rightarrow> ('w, unit) program" where
  "WaitForDistributionQueue D db table =
     andthen (join_error ErrFailedToWaitForDistributionQueue (HostAddrs D)) (\<lambda>as.
     for_each (\<lambda>host.
       andthen (join_error ErrFailedToWaitForDistributionQueue (getConn D host)) (\<lambda>_.
       join_error ErrFailedToWaitForDistributionQueue (waitForDistributionQueueOnHost D host db table))) as)"

section \<open>One operation\<close>

definition insertMigrationEntry :: "'w driver \<Rightarrow> string \<Rightarrow> nat \<Rightarrow> string \<Rightarrow> ('w, unit) program" where
  "insertMigrationEntry D db i status m = executing D (InsertEntry db i status (Now D (world m))) m"

definition updateMigrationEntry ::
  "'w driver \<Rightarrow> string \<Rightarrow> nat \<Rightarrow> string \<Rightarrow> string \<Rightarrow> ('w, unit) program" where
  "updateMigrationEntry D db i status err m =
     executing D (UpdateEntry db (clusterName m) i status err (Now D (world m))) m"

text \<open>The error path of every step of \<^verbatim>\<open>RunOperation\<close>: mark the migration failed and return.\<close>

definition marking_failed :: "'w driver \<Rightarrow> string \<Rightarrow> nat \<Rightarrow> ('w, 'a) program \<Rightarrow> ('w, 'a) program" where
  "marking_failed D db i p = on_error p (\<lambda>e.
     andthen (on_error (updateMigrationEntry D db i FailedStatus (Error e))
               (\<lambda>updateErr. failing (JoinError e updateErr)))
       (\<lambda>_. failing e))"

definition configure_op :: "'w MigrationManager \<Rightarrow> operation \<Rightarrow> operation" where
  "configure_op m op =
     (let op1 = (if clusterName m \<noteq> '''' then OnCluster (clusterName m) op else op)
      in if replicationEnabled m then WithReplication op1 else op1)"

text \<open>
  The wait an operation asks for. The database it names hides the one of the migration: a failure
  of this wait is entered in the table of the operation's database.
\<close>

definition distribution_wait :: "'w driver \<Rightarrow> nat \<Rightarrow> operation \<Rightarrow> ('w, unit) program" where
  "distribution_wait D i op =
     (case ShouldWaitForDistributionQueue (op_methods op) of (should, database, table) \<Rightarrow>
        if should then marking_failed D database i (WaitForDistributionQueue D database table)
        else returning ())"

definition execute_sql :: "'w driver \<Rightarrow> operation \<Rightarrow> ('w, unit) program" where
  "execute_sql D op m = bind_outcome (ToSQL (op_methods op)) (\<lambda>sql. executing D (OperationSQL sql) m)"

text \<open>The steps of \<^verbatim>\<open>RunOperation\<close> once the operation is configured.\<close>

definition run_configured ::
  "'w driver \<Rightarrow> operation \<Rightarrow> nat \<Rightarrow> string \<Rightarrow> bool \<Rightarrow> ('w, unit) program" where
  "run_configured D op i db skip =
     andthen (marking_failed D db i (WaitForRunningMutations D)) (\<lambda>_.
     andthen (marking_failed D db i (WaitDistributedDDLQueue D)) (\<lambda>_.
     andthen (distribution_wait D i op) (\<lambda>_.
     andthen (if skip then returning () else insertMigrationEntry D db i InProgressStatus) (\<lambda>_.
     andthen (marking_failed D db i (execute_sql D op)) (\<lambda>_.
     andthen (marking_failed D db i (WaitForRunningMutations D)) (\<lambda>_.
     andthen (marking_failed D db i (WaitDistributedDDLQueue D)) (\<lambda>_.
     if skip then returning () else updateMigrationEntry D db i FinishedStatus [])))))))"

definition RunOperation ::
  "'w driver \<Rightarrow> operation \<Rightarrow> nat \<Rightarrow> string \<Rightarrow> bool \<Rightarrow> ('w, unit) program" where
  "RunOperation D op i db skip m = run_configured D (configure_op m op) i db skip m"

section \<open>What a program executes\<close>

text \<open>The configuration of the manager, which no method changes.\<close>

type_synonym mgr_config = "string \<times> bool \<times> bool"

definition config_of :: "'w MigrationManager \<Rightarrow> mgr_config" where
  "config_of m = (clusterName m, replicationEnabled m, development m)"

text \<open>
  \<open>executes p P\<close>: whenever \<open>p\<close> returns, the statements it executed are related by \<open>P\<close> to the
  configuration and the result, and the configuration is what it was.
\<close>

definition executes ::
  "('w, 'a) program \<Rightarrow> (mgr_config \<Rightarrow> migration_error + 'a \<Rightarrow> statement list \<Rightarrow> bool) \<Rightarrow> bool" where
  "executes p P \<longleftrightarrow> (\<forall>m r m'. p m = Done (r, m') \<longrightarrow>
     config_of m' = config_of m \<and> (\<exists>l. executed m' = executed m @ l \<and> P (config_of m) r l))"

abbreviation quiet :: "('w, 'a) program \<Rightarrow> bool" where
  "quiet p \<equiv> executes p (\<lambda>c r l. l = [])"

lemma executesD:
  "executes p P \<Longrightarrow> p m = Done (r, m') \<Longrightarrow>
    config_of m' = config_of m \<and> (\<exists>l. executed m' = executed m @ l \<and> P (config_of m) r l)"
  by (simp add: executes_def)

lemma executes_mono: "executes p P \<Longrightarrow> (\<And>c r l. P c r l \<Longrightarrow> Q c r l) \<Longrightarrow> executes p Q"
  unfolding executes_def by meson

lemma executes_returning: "executes (returning x) (\<lambda>c r l. r = Inr x \<and> l = [])"
  by (simp add: executes_def returning_def)

lemma executes_andthen:
  assumes p: "executes p P" and f: "\<And>x. executes (f x) (Q x)"
  shows "executes (andthen p f) (\<lambda>c r l.
    (\<exists>e. r = Inl e \<and> P c (Inl e) l) \<or> (\<exists>x l1 l2. P c (Inr x) l1 \<and> Q x c r l2 \<and> l = l1 @ l2))"
  unfolding executes_def
proof (intro allI impI)
  fix m r m'
  assume a: "andthen p f m = Done (r, m')"
  then obtain r1 m1 where 1: "p m = Done (r1, m1)"
    by (cases "p m") (auto simp: andthen_def)
  from executesD [OF p 1] obtain l1
    where l1: "config_of m1 = config_of m" "executed m1 = executed m @ l1" "P (config_of m) r1 l1"
    by blast
  show "config_of m' = config_of m \<and> (\<exists>l. executed m' = executed m @ l \<and>
    ((\<exists>e. r = Inl e \<and> P (config_of m) (Inl e) l) \<or>
     (\<exists>x l1 l2. P (config_of m) (Inr x) l1 \<and> Q x (config_of m) r l2 \<and> l = l1 @ l2)))"
  proof (cases r1)
    case (Inl e)
    with a 1 l1 show ?thesis by (auto simp: andthen_def)
  next
    case (Inr x)
    with a 1 have "f x m1 = Done (r, m')" by (simp add: andthen_def)
    from executesD [OF f this] obtain l2
      where "config_of m' = config_of m1" "executed m' = executed m1 @ l2" "Q x (config_of m1) r l2"
      by blast
    with l1 Inr show ?thesis by auto
  qed
qed

lemma executes_on_error:
  assumes p: "executes p P" and h: "\<And>e. executes (h e) (Q e)"
  shows "executes (on_error p h) (\<lambda>c r l.
    (\<exists>x. r = Inr x \<and> P c (Inr x) l) \<or> (\<exists>e l1 l2. P c (Inl e) l1 \<and> Q e c r l2 \<and> l = l1 @ l2))"
  unfolding executes_def
proof (intro allI impI)
  fix m r m'
  assume a: "on_error p h m = Done (r, m')"
  then obtain r1 m1 where 1: "p m = Done (r1, m1)"
    by (cases "p m") (auto simp: on_error_def)
  from executesD [OF p 1] obtain l1
    where l1: "config_of m1 = config_of m" "executed m1 = executed m @ l1" "P (config_of m) r1 l1"
    by blast
  show "config_of m' = config_of m \<and> (\<exists>l. executed m' = executed m @ l \<and>
    ((\<exists>x. r = Inr x \<and> P (config_of m) (Inr x) l) \<or>
     (\<exists>e l1 l2. P (config_of m) (Inl e) l1 \<and> Q e (config_of m) r l2 \<and> l = l1 @ l2)))"
  proof (cases r1)
    case (Inr x)
    with a 1 l1 show ?thesis by (auto simp: on_error_def)
  next
    case (Inl e)
    with a 1 have "h e m1 = Done (r, m')" by (simp add: on_error_def)
    from executesD [OF h this] obtain l2
      where "config_of m' = config_of m1" "executed m' = executed m1 @ l2" "Q e (config_of m1) r l2"
      by blast
    with l1 Inl show ?thesis by auto
  qed
qed

lemma executes_executing:
  "executes (executing D st) (\<lambda>c r l. l = [st])"
  by (auto simp: executes_def executing_def config_of_def split: prod.splits)

lemma quiet_simple [inv_intros]:
  "quiet (returning x)" "quiet (failing e)" "quiet (asking wr q)" "quiet (open_host D wr host)"
  "quiet (reset_backoff D)" "quiet (waiting D w)" "quiet (remember_addrs as)"
  "quiet (\<lambda>m. Done (Inr (), m\<lparr>conns := host # conns m\<rparr>))"
  by (auto simp: executes_def program_defs reset_backoff_def waiting_def remember_addrs_def config_of_def
      split: prod.splits option.splits)

lemma quiet_andthen [inv_intros]: "quiet p \<Longrightarrow> (\<And>x. quiet (f x)) \<Longrightarrow> quiet (andthen p f)"
  by (rule executes_mono [OF executes_andthen]) auto

lemma quiet_on_error [inv_intros]: "quiet p \<Longrightarrow> (\<And>e. quiet (h e)) \<Longrightarrow> quiet (on_error p h)"
  by (rule executes_mono [OF executes_on_error]) auto

lemma quiet_for_each [inv_intros]: "(\<And>x. quiet (f x)) \<Longrightarrow> quiet (for_each f xs)"
  by (induction xs) (auto intro: inv_intros)

lemma quiet_state: "(\<And>m. \<exists>p. q m = p m \<and> quiet p) \<Longrightarrow> quiet q"
  unfolding executes_def by metis

lemma quiet_parse_hosts [inv_intros]: "quiet (parse_hosts D rows hs)"
  by (cases "add_hosts D rows hs") (auto simp: parse_hosts_def intro: inv_intros)

lemma quiet_hosts_of_another [inv_intros]: "quiet (hosts_of_another D hs)"
  by (cases "MapOrder D hs") (auto simp: hosts_of_another_def intro!: inv_intros)

lemma quiet_ask_hosts [inv_intros]: "quiet (ask_hosts D)"
proof -
  have "quiet (if hs \<noteq> [] then hosts_of_another D hs else returning hs)" for hs
    by (simp add: inv_intros)
  then show ?thesis unfolding ask_hosts_def by (intro inv_intros)
qed

lemma quiet_HostAddrs [inv_intros]: "quiet (HostAddrs D)"
proof (rule quiet_state)
  fix m
  have "HostAddrs D m = (if development m then returning [] else if addrs m \<noteq> [] then returning (addrs m)
      else ask_hosts D) m"
    by (simp add: HostAddrs_def)
  moreover have "quiet (if development m then returning [] else if addrs m \<noteq> [] then returning (addrs m)
      else ask_hosts D)"
    by (simp add: inv_intros)
  ultimately show "\<exists>p. HostAddrs D m = p m \<and> quiet p" by blast
qed

lemma quiet_connect [inv_intros]: "quiet (connect D host)"
  unfolding connect_def by (intro inv_intros)

lemma quiet_getConn [inv_intros]: "quiet (getConn D host)"
proof (rule quiet_state)
  fix m
  have "getConn D host m = (if host \<in> set (conns m) then returning () else connect D host) m"
    by (simp add: getConn_def)
  moreover have "quiet (if host \<in> set (conns m) then returning () else connect D host)"
    by (simp add: inv_intros)
  ultimately show "\<exists>p. getConn D host m = p m \<and> quiet p" by blast
qed

lemma quiet_waits [inv_intros]:
  "quiet (join_error e p)" if "quiet p"
  using that by (auto simp: join_error_def intro!: inv_intros)

lemma quiet_WaitForRunningMutations [inv_intros]: "quiet (WaitForRunningMutations D)"
  unfolding WaitForRunningMutations_def waitForMutationsOnHost_def by (intro inv_intros)

lemma quiet_WaitDistributedDDLQueue [inv_intros]: "quiet (WaitDistributedDDLQueue D)"
  unfolding WaitDistributedDDLQueue_def by (intro inv_intros)

lemma quiet_watch [inv_intros]:
  "quiet (\<lambda>m. case QueueEvents D host db table (world m) of (es, w) \<Rightarrow>
     (case watch_queue 0 es of None \<Rightarrow> Blocks | Some r \<Rightarrow> Done (r, m\<lparr>world := w\<rparr>)))"
  by (auto simp: executes_def config_of_def split: prod.splits option.splits)

lemma quiet_WaitForDistributionQueue [inv_intros]: "quiet (WaitForDistributionQueue D db table)"
  unfolding WaitForDistributionQueue_def waitForDistributionQueueOnHost_def
  by (intro inv_intros) (auto intro!: inv_intros)


section \<open>The statements of one operation\<close>

lemma configure_op_config: "config_of m' = config_of m \<Longrightarrow> configure_op m' = configure_op m"
  by (rule ext) (simp add: config_of_def configure_op_def)

lemma configure_op_locale:
  "configure_op m op = op_cfg.configure (clusterName m) (replicationEnabled m) op"
  by (simp add: configure_op_def op_cfg.configure_def)

lemma executes_insert:
  "executes (insertMigrationEntry D db i s) (\<lambda>c r l. \<exists>t. l = [InsertEntry db i s t])"
  using executes_executing by (fastforce simp: executes_def insertMigrationEntry_def)

lemma executes_update:
  "executes (updateMigrationEntry D db i s e) (\<lambda>c r l. \<exists>t. l = [UpdateEntry db (fst c) i s e t])"
  using executes_executing by (fastforce simp: executes_def updateMigrationEntry_def config_of_def)

lemma executes_marking_failed:
  assumes p: "executes p P"
  shows "executes (marking_failed D db i p) (\<lambda>c r l.
    case r of
      Inr x \<Rightarrow> P c (Inr x) l
    | Inl e \<Rightarrow> \<exists>e0 l0 t. P c (Inl e0) l0 \<and> l = l0 @ [UpdateEntry db (fst c) i FailedStatus (Error e0) t])"
proof -
  have upd: "executes (on_error (updateMigrationEntry D db i FailedStatus (Error e))
      (\<lambda>u. failing (JoinError e u))) (\<lambda>c r l. \<exists>t. l = [UpdateEntry db (fst c) i FailedStatus (Error e) t])" for e
    by (rule executes_mono [OF executes_on_error [OF executes_update inv_intros(2)]]) auto
  have fail: "executes (failing e) (\<lambda>c r l. r = Inl e \<and> l = [])" for e :: migration_error
    by (auto simp: executes_def failing_def)
  have "executes (andthen (on_error (updateMigrationEntry D db i FailedStatus (Error e))
      (\<lambda>u. failing (JoinError e u))) (\<lambda>_. failing e))
      (\<lambda>c r l. isl r \<and> (\<exists>t. l = [UpdateEntry db (fst c) i FailedStatus (Error e) t]))" for e
    by (rule executes_mono [OF executes_andthen [OF upd fail]]) auto
  from executes_on_error [OF p this]
  have "executes (marking_failed D db i p) (\<lambda>c r l. (\<exists>x. r = Inr x \<and> P c (Inr x) l) \<or>
      (\<exists>e l1 l2. P c (Inl e) l1 \<and>
        (isl r \<and> (\<exists>t. l2 = [UpdateEntry db (fst c) i FailedStatus (Error e) t])) \<and> l = l1 @ l2))"
    unfolding marking_failed_def .
  then show ?thesis
    by (rule executes_mono) (auto split: sum.splits)
qed

text \<open>
  The statements of a run of an operation, configured as \<open>op\<close>: those of a run that succeeds, and
  those of one that fails, by the step that failed.
\<close>

definition entered :: "string \<Rightarrow> nat \<Rightarrow> bool \<Rightarrow> statement list \<Rightarrow> bool" where
  "entered db i skip l \<longleftrightarrow> (if skip then l = [] else \<exists>t. l = [InsertEntry db i InProgressStatus t])"

definition ran :: "operation \<Rightarrow> string \<Rightarrow> nat \<Rightarrow> bool \<Rightarrow> statement list \<Rightarrow> bool" where
  "ran op db i skip l \<longleftrightarrow>
     (\<exists>l0 sql. entered db i skip l0 \<and> ToSQL (op_methods op) = Done sql \<and> l = l0 @ [OperationSQL sql])"

definition succeeded :: "string \<Rightarrow> operation \<Rightarrow> string \<Rightarrow> nat \<Rightarrow> bool \<Rightarrow> statement list \<Rightarrow> bool" where
  "succeeded cl op db i skip l \<longleftrightarrow>
     (\<exists>l0 l1. ran op db i skip l0 \<and> l = l0 @ l1 \<and>
        (if skip then l1 = [] else \<exists>t. l1 = [UpdateEntry db cl i FinishedStatus '''' t]))"

definition failed :: "string \<Rightarrow> operation \<Rightarrow> string \<Rightarrow> nat \<Rightarrow> bool \<Rightarrow> statement list \<Rightarrow> bool" where
  "failed cl op db i skip l \<longleftrightarrow>
     (\<exists>l0 d e t. (l0 = [] \<or> ran op db i skip l0) \<and> l = l0 @ [UpdateEntry d cl i FailedStatus e t]) \<or>
     (\<not> skip \<and> (entered db i skip l \<or> succeeded cl op db i skip l))"

lemma executes_distribution_wait:
  "executes (distribution_wait D i op) (\<lambda>c r l. case r of
     Inr x \<Rightarrow> l = [] | Inl e \<Rightarrow> \<exists>d e0 t. l = [UpdateEntry d (fst c) i FailedStatus e0 t])"
proof (cases "ShouldWaitForDistributionQueue (op_methods op)")
  case (fields should db table)
  show ?thesis
  proof (cases should)
    case True
    have "executes (marking_failed D db i (WaitForDistributionQueue D db table)) (\<lambda>c r l. case r of
        Inr x \<Rightarrow> l = [] | Inl e \<Rightarrow> \<exists>d e0 t. l = [UpdateEntry d (fst c) i FailedStatus e0 t])"
      by (rule executes_mono [OF executes_marking_failed [OF quiet_WaitForDistributionQueue]])
        (auto split: sum.splits)
    with True fields show ?thesis by (simp add: distribution_wait_def)
  next
    case False
    with fields show ?thesis
      by (auto simp: distribution_wait_def executes_def returning_def)
  qed
qed

lemma executes_execute_sql:
  "executes (execute_sql D op) (\<lambda>c r l. \<exists>sql. ToSQL (op_methods op) = Done sql \<and> l = [OperationSQL sql])"
  unfolding executes_def
proof (intro allI impI)
  fix m r m'
  assume a: "execute_sql D op m = Done (r, m')"
  then obtain sql where "ToSQL (op_methods op) = Done sql" "executing D (OperationSQL sql) m = Done (r, m')"
    by (auto simp: execute_sql_def bind_outcome_Done)
  with executesD [OF executes_executing this(2)]
  show "config_of m' = config_of m \<and> (\<exists>l. executed m' = executed m @ l \<and>
      (\<exists>sql. ToSQL (op_methods op) = Done sql \<and> l = [OperationSQL sql]))"
    by auto
qed


text \<open>A step that either adds nothing or fails with the failure entered.\<close>

definition marked :: "nat \<Rightarrow> mgr_config \<Rightarrow> statement list \<Rightarrow> bool" where
  "marked i c l \<longleftrightarrow> (\<exists>d e t. l = [UpdateEntry d (fst c) i FailedStatus e t])"

abbreviation guarded :: "nat \<Rightarrow> ('w, 'a) program \<Rightarrow> bool" where
  "guarded i p \<equiv> executes p (\<lambda>c r l. case r of Inr x \<Rightarrow> l = [] | Inl e \<Rightarrow> marked i c l)"

lemma guarded_marking_failed:
  assumes q: "quiet p"
  shows "guarded i (marking_failed D db i p)"
  by (rule executes_mono [OF executes_marking_failed [OF q]]) (auto simp: marked_def split: sum.splits)

lemma guarded_distribution_wait: "guarded i (distribution_wait D i op)"
  by (rule executes_mono [OF executes_distribution_wait]) (auto simp: marked_def split: sum.splits)

lemma executes_after_guard:
  assumes p: "guarded i p" and q: "executes q Q" and m: "\<And>c e l. marked i c l \<Longrightarrow> Q c (Inl e) l"
  shows "executes (andthen p (\<lambda>_. q)) Q"
proof (rule executes_mono [OF executes_andthen [OF p q]])
  fix c r l
  assume "(\<exists>e. r = Inl e \<and> (case Inl e of Inl e \<Rightarrow> marked i c l | Inr x \<Rightarrow> l = [])) \<or>
    (\<exists>x l1 l2. (case Inr x of Inl e \<Rightarrow> marked i c l1 | Inr x \<Rightarrow> l1 = []) \<and> Q c r l2 \<and> l = l1 @ l2)"
  then consider e where "r = Inl e" "marked i c l" | "Q c r l" by auto
  then show "Q c r l" by cases (simp_all add: m)
qed

definition closed_by :: "bool \<Rightarrow> string \<Rightarrow> nat \<Rightarrow> mgr_config \<Rightarrow> statement list \<Rightarrow> bool" where
  "closed_by skip db i c l \<longleftrightarrow>
     (if skip then l = [] else \<exists>t. l = [UpdateEntry db (fst c) i FinishedStatus '''' t])"

lemma executes_finish:
  "executes (if skip then returning () else updateMigrationEntry D db i FinishedStatus '''')
     (\<lambda>c r l. closed_by skip db i c l \<and> (isl r \<longrightarrow> \<not> skip))"
  by (auto intro: executes_mono [OF executes_update] executes_mono [OF executes_returning]
      simp: closed_by_def)

lemma executes_after_sql:
  "executes (andthen (marking_failed D db i (WaitForRunningMutations D)) (\<lambda>_.
      andthen (marking_failed D db i (WaitDistributedDDLQueue D)) (\<lambda>_.
      if skip then returning () else updateMigrationEntry D db i FinishedStatus '''')))
     (\<lambda>c r l. case r of Inr x \<Rightarrow> closed_by skip db i c l
        | Inl e \<Rightarrow> marked i c l \<or> \<not> skip \<and> closed_by skip db i c l)" (is "executes _ ?P")
proof -
  have fin: "executes (if skip then returning () else updateMigrationEntry D db i FinishedStatus '''') ?P"
    by (rule executes_mono [OF executes_finish]) (auto split: sum.splits)
  show ?thesis
    by (rule executes_after_guard [OF guarded_marking_failed [OF quiet_WaitForRunningMutations]
          executes_after_guard [OF guarded_marking_failed [OF quiet_WaitDistributedDDLQueue] fin]])
      simp_all
qed

lemma run_error:
  "entered db i skip l0 \<Longrightarrow> ToSQL (op_methods op) = Done q \<Longrightarrow> marked i c l1 \<Longrightarrow>
    failed (fst c) op db i skip (l0 @ OperationSQL q # l1)"
  unfolding failed_def ran_def marked_def by fastforce

lemma run_finished:
  assumes "entered db i skip l0" "ToSQL (op_methods op) = Done q" "closed_by skip db i c l1"
  shows "succeeded (fst c) op db i skip (l0 @ OperationSQL q # l1)"
proof -
  have "ran op db i skip (l0 @ [OperationSQL q])" using assms by (auto simp: ran_def)
  with assms(3) show ?thesis
    unfolding succeeded_def closed_by_def
    by (intro exI [of _ "l0 @ [OperationSQL q]"] exI [of _ l1]) auto
qed

lemma executes_from_sql:
  "executes (andthen (marking_failed D db i (execute_sql D op)) (\<lambda>_.
      andthen (marking_failed D db i (WaitForRunningMutations D)) (\<lambda>_.
      andthen (marking_failed D db i (WaitDistributedDDLQueue D)) (\<lambda>_.
      if skip then returning () else updateMigrationEntry D db i FinishedStatus ''''))))
     (\<lambda>c r l. \<exists>q l1. ToSQL (op_methods op) = Done q \<and> l = OperationSQL q # l1 \<and>
       (case r of Inr x \<Rightarrow> closed_by skip db i c l1
        | Inl e \<Rightarrow> marked i c l1 \<or> \<not> skip \<and> closed_by skip db i c l1))"
proof -
  have sql: "executes (marking_failed D db i (execute_sql D op)) (\<lambda>c r l. \<exists>q l1.
      ToSQL (op_methods op) = Done q \<and> l = OperationSQL q # l1 \<and>
      (case r of Inr x \<Rightarrow> l1 = [] | Inl e \<Rightarrow> marked i c l1))"
    by (rule executes_mono [OF executes_marking_failed [OF executes_execute_sql]])
      (auto simp: marked_def split: sum.splits)
  show ?thesis
    by (rule executes_mono [OF executes_andthen [OF sql executes_after_sql]])
      (auto split: sum.splits)
qed

lemma executes_from_insert:
  "executes (andthen (if skip then returning () else insertMigrationEntry D db i InProgressStatus) (\<lambda>_.
      andthen (marking_failed D db i (execute_sql D op)) (\<lambda>_.
      andthen (marking_failed D db i (WaitForRunningMutations D)) (\<lambda>_.
      andthen (marking_failed D db i (WaitDistributedDDLQueue D)) (\<lambda>_.
      if skip then returning () else updateMigrationEntry D db i FinishedStatus '''')))))
     (\<lambda>c r l. case r of Inr x \<Rightarrow> succeeded (fst c) op db i skip l | Inl e \<Rightarrow> failed (fst c) op db i skip l)"
    (is "executes (andthen ?ins (\<lambda>_. ?rest)) ?P")
proof -
  have ins: "executes ?ins (\<lambda>c r l. entered db i skip l \<and> (isl r \<longrightarrow> \<not> skip))"
    by (auto intro: executes_mono [OF executes_insert] executes_mono [OF executes_returning]
        simp: entered_def)
  have fin: "failed a op db i False (l0 @ OperationSQL q # l1)"
    if "entered db i False l0" "ToSQL (op_methods op) = Done q" "closed_by False db i (a, b, d) l1" for a b d l0 q l1
    using run_finished [OF that] by (simp add: failed_def)
  have ins_failed: "entered db i False l \<Longrightarrow> failed cl op db i False l" for cl l
    by (simp add: failed_def)
  show ?thesis
    by (rule executes_mono [OF executes_andthen [OF ins executes_from_sql]])
      (auto split: sum.splits intro: run_error run_finished fin ins_failed)
qed

lemma executes_run_configured:
  "executes (run_configured D op i db skip) (\<lambda>c r l. case r of
     Inr x \<Rightarrow> succeeded (fst c) op db i skip l | Inl e \<Rightarrow> failed (fst c) op db i skip l)"
    (is "executes _ ?P")
proof -
  have mk: "marked i c l \<Longrightarrow> ?P c (Inl e) l" for c e l
    by (auto simp: marked_def failed_def)
  show ?thesis
    unfolding run_configured_def
    by (rule executes_after_guard [OF guarded_marking_failed [OF quiet_WaitForRunningMutations]
          executes_after_guard [OF guarded_marking_failed [OF quiet_WaitDistributedDDLQueue]
            executes_after_guard [OF guarded_distribution_wait executes_from_insert]]])
      (rule mk; assumption)+
qed

lemma executes_RunOperation:
  assumes "RunOperation D op i db skip m = Done (r, m')"
  shows "config_of m' = config_of m \<and> (\<exists>l. executed m' = executed m @ l \<and>
     (case r of Inr x \<Rightarrow> succeeded (clusterName m) (configure_op m op) db i skip l
      | Inl e \<Rightarrow> failed (clusterName m) (configure_op m op) db i skip l))"
proof -
  have "fst (config_of m) = clusterName m" by (simp add: config_of_def)
  with executesD [OF executes_run_configured assms [unfolded RunOperation_def]] show ?thesis
    by (simp only:)
qed

end
