(* ===== verification/MigrationRun.thy ===== *)
theory MigrationRun
  imports MigrationManager
begin

text \<open>
  The runs of the migration manager, the rest of \<^verbatim>\<open>schema_migrator/manager.go\<close>: its options,
  the creation of the databases and of the tables of migrations, the squashed migrations, the
  decision whether a migration runs, and the synchronous and asynchronous runs up and down.
  The lists of migrations, data of the package, are a parameter. The lemmas show what each run
  executes, that the runs return when the backoff stops, and what the entry of a migration
  says after one of its operations.
\<close>

section \<open>Migrations and options\<close>

record SchemaMigrationRecord =
  MigrationID :: nat
  UpItems :: "operation list"
  DownItems :: "operation list"

record migration_lists =
  V2MigrationTablesLogs :: "SchemaMigrationRecord list"
  V2MigrationTablesMetrics :: "SchemaMigrationRecord list"
  V2MigrationTablesTraces :: "SchemaMigrationRecord list"
  V2MigrationTablesMetadata :: "SchemaMigrationRecord list"
  V2MigrationTablesAnalytics :: "SchemaMigrationRecord list"
  V2MigrationTablesMeter :: "SchemaMigrationRecord list"
  CustomRetentionLogsMigrations :: "SchemaMigrationRecord list"
  SquashedLogsMigrations :: "SchemaMigrationRecord list"
  SquashedMetricsMigrations :: "SchemaMigrationRecord list"
  SquashedTracesMigrations :: "SchemaMigrationRecord list"
  TracesMigrations :: "SchemaMigrationRecord list"
  LogsMigrations :: "SchemaMigrationRecord list"
  LogsMigrationsV2 :: "SchemaMigrationRecord list"
  MetricsMigrations :: "SchemaMigrationRecord list"
  MetadataMigrations :: "SchemaMigrationRecord list"
  AnalyticsMigrations :: "SchemaMigrationRecord list"
  MeterMigrations :: "SchemaMigrationRecord list"
  EnableLogsMigrationsV2 :: bool

text \<open>
  The functional options that concern the model, applied in order; the connection stands for the
  world it reaches. The connection options, the logger and the backoff change nothing here.
\<close>

datatype 'w Option =
    WithClusterName string
  | WithDevelopment bool
  | WithReplicationEnabled bool
  | WithConn "'w option"
  | WithConnOptions | WithLogger | WithBackoff

fun apply_option ::
  "'w Option \<Rightarrow> string \<times> bool \<times> bool \<times> 'w option \<Rightarrow> string \<times> bool \<times> bool \<times> 'w option" where
  "apply_option (WithClusterName c) (cl, dev, rep, conn) = (c, dev, rep, conn)"
| "apply_option (WithDevelopment d) (cl, dev, rep, conn) = (cl, d, rep, conn)"
| "apply_option (WithReplicationEnabled r) (cl, dev, rep, conn) = (cl, dev, r, conn)"
| "apply_option (WithConn w) (cl, dev, rep, conn) = (cl, dev, rep, w)"
| "apply_option WithConnOptions s = s"
| "apply_option WithLogger s = s"
| "apply_option WithBackoff s = s"

definition NewMigrationManager :: "'w Option list \<Rightarrow> string + 'w MigrationManager" where
  "NewMigrationManager opts =
     (case fold apply_option opts ('''', False, False, None) of
        (cl, dev, rep, None) \<Rightarrow> Inl ''conn is required''
      | (cl, dev, rep, Some w) \<Rightarrow> Inr \<lparr>addrs = [], conns = [], clusterName = cl,
          replicationEnabled = rep, development = dev, world = w, executed = []\<rparr>)"

section \<open>Databases and tables of migrations\<close>

definition createDB :: "'w driver \<Rightarrow> string \<Rightarrow> ('w, unit) program" where
  "createDB D db m = join_error ErrFailedToCreateDBs (executing D (CreateDatabase db (clusterName m))) m"

definition createDBs :: "'w driver \<Rightarrow> ('w, unit) program" where
  "createDBs D = for_each (createDB D) dbs"

text \<open>Every operation of every migration of a list, in order, whatever their entries say.\<close>

definition run_all ::
  "'w driver \<Rightarrow> bool \<Rightarrow> string \<Rightarrow> SchemaMigrationRecord list \<Rightarrow> ('w, unit) program" where
  "run_all D skip db migs =
     for_each (\<lambda>mig. for_each (\<lambda>item. RunOperation D item (MigrationID mig) db skip) (UpItems mig)) migs"

definition Bootstrap :: "'w driver \<Rightarrow> migration_lists \<Rightarrow> ('w, unit) program" where
  "Bootstrap D M =
     andthen (join_error ErrFailedToCreateDBs (createDBs D)) (\<lambda>_.
     for_each (\<lambda>(db, migs). join_error ErrFailedToCreateSchemaMigrationsV2 (run_all D True db migs))
       [(SignozLogsDB, V2MigrationTablesLogs M),
        (SignozMetricsDB, V2MigrationTablesMetrics M),
        (SignozTracesDB, V2MigrationTablesTraces M),
        (SignozMetadataDB, V2MigrationTablesMetadata M),
        (SignozAnalyticsDB, V2MigrationTablesAnalytics M),
        (SignozMeterDB, V2MigrationTablesMeter M)])"

section \<open>Squashed migrations\<close>

definition legacyMigrationsTable :: string where
  "legacyMigrationsTable = ''schema_migrations''"

definition shouldRunSquashed :: "'w driver \<Rightarrow> string \<Rightarrow> ('w, bool) program" where
  "shouldRunSquashed D db =
     andthen (asking None (CountTables D db legacyMigrationsTable)) (\<lambda>n.
     andthen (asking None (CountTables D db ''schema_migrations_v2'')) (\<lambda>countV2.
     andthen (if countV2 > 0 then andthen (asking None (CountV2Migrations D db)) (\<lambda>k. returning (k > 0))
              else returning False) (\<lambda>didMigrateV2.
     returning (n = 0 \<and> \<not> didMigrateV2))))"

definition run_squashed ::
  "'w driver \<Rightarrow> string \<Rightarrow> SchemaMigrationRecord list \<Rightarrow> ('w, unit) program" where
  "run_squashed D db migs =
     andthen (shouldRunSquashed D db) (\<lambda>should.
     if \<not> should then returning () else run_all D False db migs)"

definition runCustomRetentionMigrationsForLogs :: "'w driver \<Rightarrow> migration_lists \<Rightarrow> ('w, unit) program" where
  "runCustomRetentionMigrationsForLogs D M = run_squashed D ''signoz_logs'' (CustomRetentionLogsMigrations M)"

definition runSquashedMigrationsForLogs :: "'w driver \<Rightarrow> migration_lists \<Rightarrow> ('w, unit) program" where
  "runSquashedMigrationsForLogs D M = run_squashed D ''signoz_logs'' (SquashedLogsMigrations M)"

definition runSquashedMigrationsForMetrics :: "'w driver \<Rightarrow> migration_lists \<Rightarrow> ('w, unit) program" where
  "runSquashedMigrationsForMetrics D M = run_squashed D SignozMetricsDB (SquashedMetricsMigrations M)"

definition runSquashedMigrationsForTraces :: "'w driver \<Rightarrow> migration_lists \<Rightarrow> ('w, unit) program" where
  "runSquashedMigrationsForTraces D M = run_squashed D SignozTracesDB (SquashedTracesMigrations M)"

definition RunSquashedMigrations :: "'w driver \<Rightarrow> migration_lists \<Rightarrow> ('w, unit) program" where
  "RunSquashedMigrations D M =
     for_each (join_error ErrFailedToRunSquashedMigrations)
       [runCustomRetentionMigrationsForLogs D M,
        runSquashedMigrationsForMetrics D M,
        runSquashedMigrationsForTraces D M]"

section \<open>Runs up and down\<close>

text \<open>A failed query of the entry panics, unless there is no entry.\<close>

definition shouldRunMigration :: "'w driver \<Rightarrow> string \<Rightarrow> nat \<Rightarrow> nat list \<Rightarrow> ('w, bool) program" where
  "shouldRunMigration D db i versions m =
     (if versions \<noteq> [] \<and> i \<notin> set versions then returning False m
      else case MigrationRow D db i (world m) of (row, w) \<Rightarrow>
        (case row of
           NoRows \<Rightarrow> returning True (m\<lparr>world := w\<rparr>)
         | RowError s \<Rightarrow> Panics
         | StatusRow status \<Rightarrow>
             returning (status \<noteq> InProgressStatus \<and> status \<noteq> FinishedStatus) (m\<lparr>world := w\<rparr>)))"

definition sync_op :: "operation \<Rightarrow> bool" where
  "sync_op item = (let om = op_methods item in
     ForceMigrate om \<or> (\<not> IsMutation om \<and> IsIdempotent om \<and> IsLightweight om))"

definition executeSyncOperations ::
  "'w driver \<Rightarrow> operation list \<Rightarrow> nat \<Rightarrow> string \<Rightarrow> ('w, unit) program" where
  "executeSyncOperations D operations i db =
     for_each (\<lambda>item. if sync_op item then RunOperation D item i db False else returning ()) operations"

text \<open>The body of the asynchronous runs: the early \<^verbatim>\<open>continue\<close>s, then the test.\<close>

definition async_op :: "operation \<Rightarrow> bool" where
  "async_op item = (let om = op_methods item in
     if ForceMigrate om then False
     else if \<not> IsMutation om \<and> IsIdempotent om \<and> IsLightweight om then False
     else IsIdempotent om)"

definition executeAsyncOperations ::
  "'w driver \<Rightarrow> operation list \<Rightarrow> nat \<Rightarrow> string \<Rightarrow> ('w, unit) program" where
  "executeAsyncOperations D operations i db =
     for_each (\<lambda>item. if async_op item then RunOperation D item i db False else returning ()) operations"

definition migrate_one ::
  "'w driver \<Rightarrow> (SchemaMigrationRecord \<Rightarrow> ('w, unit) program) \<Rightarrow> nat list \<Rightarrow> string \<Rightarrow>
    SchemaMigrationRecord \<Rightarrow> ('w, unit) program" where
  "migrate_one D run versions db mig =
     andthen (shouldRunMigration D db (MigrationID mig) versions) (\<lambda>should.
     if \<not> should then returning () else run mig)"

definition migrate_groups ::
  "'w driver \<Rightarrow> (string \<Rightarrow> SchemaMigrationRecord \<Rightarrow> ('w, unit) program) \<Rightarrow> nat list \<Rightarrow>
    (string \<times> SchemaMigrationRecord list) list \<Rightarrow> ('w, unit) program" where
  "migrate_groups D run versions groups =
     for_each (\<lambda>(db, migs). for_each (migrate_one D (run db) versions db) migs) groups"

definition logs_migrations :: "migration_lists \<Rightarrow> SchemaMigrationRecord list" where
  "logs_migrations M = (if EnableLogsMigrationsV2 M then LogsMigrationsV2 M else LogsMigrations M)"

definition MigrateUpSync :: "'w driver \<Rightarrow> migration_lists \<Rightarrow> nat list \<Rightarrow> ('w, unit) program" where
  "MigrateUpSync D M upVersions =
     migrate_groups D (\<lambda>db mig. executeSyncOperations D (UpItems mig) (MigrationID mig) db) upVersions
       [(SignozTracesDB, TracesMigrations M),
        (SignozLogsDB, logs_migrations M),
        (SignozMetricsDB, MetricsMigrations M),
        (SignozMetadataDB, MetadataMigrations M),
        (SignozAnalyticsDB, AnalyticsMigrations M),
        (SignozMeterDB, MeterMigrations M)]"

text \<open>No metadata here.\<close>

definition MigrateDownSync :: "'w driver \<Rightarrow> migration_lists \<Rightarrow> nat list \<Rightarrow> ('w, unit) program" where
  "MigrateDownSync D M downVersions =
     migrate_groups D (\<lambda>db mig. executeSyncOperations D (DownItems mig) (MigrationID mig) db) downVersions
       [(SignozTracesDB, TracesMigrations M),
        (SignozLogsDB, logs_migrations M),
        (SignozMetricsDB, MetricsMigrations M),
        (SignozAnalyticsDB, AnalyticsMigrations M),
        (SignozMeterDB, MeterMigrations M)]"

text \<open>Only traces, metrics and logs have asynchronous runs, in that order.\<close>

definition MigrateUpAsync :: "'w driver \<Rightarrow> migration_lists \<Rightarrow> nat list \<Rightarrow> ('w, unit) program" where
  "MigrateUpAsync D M upVersions =
     migrate_groups D (\<lambda>db mig. executeAsyncOperations D (UpItems mig) (MigrationID mig) db) upVersions
       [(SignozTracesDB, TracesMigrations M),
        (SignozMetricsDB, MetricsMigrations M),
        (SignozLogsDB, logs_migrations M)]"

text \<open>The first version of the logs migrations, whether or not the second is enabled.\<close>

definition MigrateDownAsync :: "'w driver \<Rightarrow> migration_lists \<Rightarrow> nat list \<Rightarrow> ('w, unit) program" where
  "MigrateDownAsync D M downVersions =
     migrate_groups D (\<lambda>db mig. executeAsyncOperations D (DownItems mig) (MigrationID mig) db) downVersions
       [(SignozTracesDB, TracesMigrations M),
        (SignozMetricsDB, MetricsMigrations M),
        (SignozLogsDB, LogsMigrations M)]"


section \<open>What the runs execute\<close>

lemma sync_op_schedule: "op_schedule x = op_schedule y \<Longrightarrow> sync_op x = sync_op y"
  by (simp add: op_schedule_def sync_op_def Let_def)

lemma async_op_schedule: "op_schedule x = op_schedule y \<Longrightarrow> async_op x = async_op y"
  by (simp add: op_schedule_def async_op_def Let_def)

text \<open>An operation belongs to the synchronous run, to the asynchronous run, or to neither, never
  to both, and configuring it for a cluster or for replication does not move it. It belongs to
  neither exactly when it is not idempotent and not forced: such an operation is never executed,
  for instance every removal of a column property, and every insertion not marked synchronous.\<close>

theorem operations_scheduled_once:
  "\<not> (sync_op op \<and> async_op op) \<and>
   (\<not> sync_op op \<and> \<not> async_op op \<longleftrightarrow>
      \<not> IsIdempotent (op_methods op) \<and> \<not> ForceMigrate (op_methods op)) \<and>
   sync_op (configure_op m op) = sync_op op \<and> async_op (configure_op m op) = async_op op \<and>
   \<not> sync_op (AlterTableModifyColumnRemove a) \<and> \<not> async_op (AlterTableModifyColumnRemove a) \<and>
   (sync_op (InsertIntoTable b) \<longleftrightarrow> Synchronous b) \<and> \<not> async_op (InsertIntoTable b)"
  by (intro conjI sync_op_schedule async_op_schedule)
    (auto simp: sync_op_def async_op_def Let_def configure_op_locale op_cfg.configure_view methods_defs)

text \<open>C21: A run of an operation that returns without error has executed exactly this, in this order:
  the entry of the migration as in progress, the text of the operation configured for the manager's
  cluster and replication, the update of the entry to finished. With the status updates
  skipped, the text alone.\<close>

theorem run_operation_success:
  assumes "RunOperation D op i db skip m = Done (Inr (), m')"
  shows "\<exists>sql t1 t2. ToSQL (op_methods (configure_op m op)) = Done sql \<and>
    executed m' = executed m @
      (if skip then [OperationSQL sql]
       else [InsertEntry db i InProgressStatus t1, OperationSQL sql,
             UpdateEntry db (clusterName m) i FinishedStatus '''' t2])"
proof -
  from executes_RunOperation [OF assms] obtain l
    where "executed m' = executed m @ l" "succeeded (clusterName m) (configure_op m op) db i skip l"
    by auto
  then show ?thesis
    by (auto simp: succeeded_def ran_def entered_def split: if_splits)
qed

text \<open>A run of an operation that fails has entered the failure with the error's text as its last
  statement, either before anything else was executed or after the text of the operation; the
  exceptions are the failures of the two statements on the entry itself: the insertion, after which
  nothing runs, and the final update.\<close>

theorem run_operation_failure:
  assumes "RunOperation D op i db skip m = Done (Inl e, m')"
  shows "\<exists>l. executed m' = executed m @ l \<and>
    ((\<exists>l0 d err t. l = l0 @ [UpdateEntry d (clusterName m) i FailedStatus err t] \<and>
        (l0 = [] \<or> last l0 = OperationSQL (case ToSQL (op_methods (configure_op m op)) of Done sql \<Rightarrow> sql))) \<or>
     \<not> skip \<and> (\<exists>t. l = [InsertEntry db i InProgressStatus t]) \<or>
     \<not> skip \<and> (\<exists>l0 t. l = l0 @ [UpdateEntry db (clusterName m) i FinishedStatus '''' t]))"
proof -
  from executes_RunOperation [OF assms] obtain l
    where l: "executed m' = executed m @ l" "failed (clusterName m) (configure_op m op) db i skip l"
    by auto
  from l(2) consider
      l0 d err t where "l0 = [] \<or> ran (configure_op m op) db i skip l0"
        "l = l0 @ [UpdateEntry d (clusterName m) i FailedStatus err t]"
    | "\<not> skip" "entered db i skip l"
    | "\<not> skip" "succeeded (clusterName m) (configure_op m op) db i skip l"
    unfolding failed_def by blast
  then show ?thesis
  proof cases
    case 1
    then have "l0 = [] \<or> last l0 = OperationSQL (case ToSQL (op_methods (configure_op m op)) of Done sql \<Rightarrow> sql)"
      by (auto simp: ran_def)
    with 1 l(1) show ?thesis by blast
  next
    case 2
    with l(1) show ?thesis by (auto simp: entered_def)
  next
    case 3
    with l(1) show ?thesis by (auto simp: succeeded_def)
  qed
qed

lemma andthen_ok:
  "andthen p f m = Done (Inr y, m') \<longleftrightarrow> (\<exists>x m1. p m = Done (Inr x, m1) \<and> f x m1 = Done (Inr y, m'))"
  by (cases "p m") (auto simp: andthen_def split: prod.splits sum.splits)

lemma on_error_ok:
  "on_error p h m = Done (Inr x, m') \<longleftrightarrow>
    p m = Done (Inr x, m') \<or> (\<exists>e m1. p m = Done (Inl e, m1) \<and> h e m1 = Done (Inr x, m'))"
  by (cases "p m") (auto simp: on_error_def split: prod.splits sum.splits)

text \<open>The selected operations of a list, one after the other.\<close>

lemma for_each_selected:
  assumes "for_each (\<lambda>item. if P item then RunOperation D item i db False else returning ()) ops m =
    Done (Inr (), m')"
  shows "config_of m' = config_of m \<and> (\<exists>ls. executed m' = executed m @ concat ls \<and>
    list_all2 (\<lambda>item l. succeeded (clusterName m) (configure_op m item) db i False l) (filter P ops) ls)"
  using assms
proof (induction ops arbitrary: m)
  case Nil
  then show ?case by (auto simp: returning_def intro: exI [of _ "[]"])
next
  case (Cons x xs)
  let ?f = "\<lambda>item. if P item then RunOperation D item i db False else returning ()"
  from Cons.prems obtain m1 where x: "?f x m = Done (Inr (), m1)" and xs: "for_each ?f xs m1 = Done (Inr (), m')"
    by (auto simp: andthen_ok simp del: if_split_asm)
  from Cons.IH [OF xs] obtain ls where ls: "config_of m' = config_of m1" "executed m' = executed m1 @ concat ls"
    "list_all2 (\<lambda>item l. succeeded (clusterName m1) (configure_op m1 item) db i False l) (filter P xs) ls"
    by blast
  show ?case
  proof (cases "P x")
    case True
    with x have "RunOperation D x i db False m = Done (Inr (), m1)" by simp
    from executes_RunOperation [OF this] obtain l where l: "config_of m1 = config_of m"
      "executed m1 = executed m @ l" "succeeded (clusterName m) (configure_op m x) db i False l"
      by auto
    then have "configure_op m1 = configure_op m" "clusterName m1 = clusterName m"
      by (auto intro: configure_op_config simp: config_of_def)
    with l ls True show ?thesis by (auto intro!: exI [of _ "l # ls"])
  next
    case False
    with x ls show ?thesis by (auto simp: returning_def)
  qed
qed


text \<open>A synchronous run over the operations of a migration that returns without error has executed
  the complete runs of its synchronous operations, in their order, and nothing else; so has the
  asynchronous run for the asynchronous ones.\<close>

theorem runs_execute_their_operations:
  assumes "run = executeSyncOperations \<and> P = sync_op \<or> run = executeAsyncOperations \<and> P = async_op"
    and "run D ops i db m = Done (Inr (), m')"
  shows "\<exists>ls. executed m' = executed m @ concat ls \<and>
    list_all2 (\<lambda>item l. \<exists>sql t1 t2. ToSQL (op_methods (configure_op m item)) = Done sql \<and>
      l = [InsertEntry db i InProgressStatus t1, OperationSQL sql,
           UpdateEntry db (clusterName m) i FinishedStatus '''' t2]) (filter P ops) ls"
proof -
  from assms have "for_each (\<lambda>item. if P item then RunOperation D item i db False else returning ()) ops m
      = Done (Inr (), m')"
    by (auto simp: executeSyncOperations_def executeAsyncOperations_def)
  from for_each_selected [OF this] obtain ls where ls: "executed m' = executed m @ concat ls"
    "list_all2 (\<lambda>item l. succeeded (clusterName m) (configure_op m item) db i False l) (filter P ops) ls"
    by blast
  from ls(2) have "list_all2 (\<lambda>item l. \<exists>sql t1 t2. ToSQL (op_methods (configure_op m item)) = Done sql \<and>
      l = [InsertEntry db i InProgressStatus t1, OperationSQL sql,
           UpdateEntry db (clusterName m) i FinishedStatus '''' t2]) (filter P ops) ls"
    by (rule list_all2_mono) (auto simp: succeeded_def ran_def entered_def)
  with ls(1) show ?thesis by blast
qed

section \<open>The waits return\<close>

text \<open>
  The backoff stops: a measure on the world bounds the number of intervals it still gives out.
  (The default backoff stops when its maximal elapsed time is over.)
\<close>

definition backoff_stops :: "'w driver \<Rightarrow> ('w \<Rightarrow> nat) \<Rightarrow> bool" where
  "backoff_stops D b \<longleftrightarrow>
     (\<forall>w. b (snd (NextBackOff D w)) \<le> b w \<and>
        (fst (NextBackOff D w) \<noteq> backoff_Stop \<longrightarrow> b (snd (NextBackOff D w)) < b w)) \<and>
     (\<forall>d w. b (Sleep D d w) \<le> b w) \<and>
     (\<forall>h w. b (snd (RunningMutations D h w)) \<le> b w) \<and>
     (\<forall>w. b (snd (DDLQueue D w)) \<le> b w)"

text \<open>The watch over the distribution queue ends: its timer fires at the latest.\<close>

definition watch_ends :: "'w driver \<Rightarrow> bool" where
  "watch_ends D \<longleftrightarrow> (\<forall>h db t w. watch_queue 0 (fst (QueueEvents D h db t w)) \<noteq> None)"

definition returns :: "('w, 'a) program \<Rightarrow> bool" where
  "returns p \<longleftrightarrow> (\<forall>m. p m \<noteq> Blocks)"

lemma backoff_next:
  assumes "backoff_stops D b" "NextBackOff D w = (d, w')"
  shows "b w' \<le> b w" "d \<noteq> backoff_Stop \<Longrightarrow> b w' < b w"
proof -
  have "b (snd (NextBackOff D w)) \<le> b w \<and>
      (fst (NextBackOff D w) \<noteq> backoff_Stop \<longrightarrow> b (snd (NextBackOff D w)) < b w)"
    using assms(1) unfolding backoff_stops_def by blast
  with assms(2) show "b w' \<le> b w" "d \<noteq> backoff_Stop \<Longrightarrow> b w' < b w" by simp_all
qed

lemma backoff_others:
  assumes "backoff_stops D b"
  shows "b (Sleep D d w) \<le> b w" "b (snd (RunningMutations D h w)) \<le> b w" "b (snd (DDLQueue D w)) \<le> b w"
  using assms unfolding backoff_stops_def by blast+

lemma wait_loop_returns:
  assumes stops: "backoff_stops D b" and q: "\<And>w. b (snd (q w)) \<le> b w"
  shows "\<exists>r. wait_loop D q w = Some r"
proof (induction "b w" arbitrary: w rule: less_induct)
  case less
  obtain d w1 where n: "NextBackOff D w = (d, w1)" by (cases "NextBackOff D w")
  obtain r w2 where r: "q w1 = (r, w2)" by (cases "q w1")
  obtain d2 w3 where n2: "NextBackOff D w2 = (d2, w3)" by (cases "NextBackOff D w2")
  show ?case
  proof (cases "d = backoff_Stop")
    case True
    with n show ?thesis by (subst wait_loop.simps) simp
  next
    case False
    with stops n have "b w1 < b w" by (simp add: backoff_next)
    moreover have "b w2 \<le> b w1" using q [of w1] r by simp
    moreover have "b w3 \<le> b w2" "b (Sleep D d2 w3) \<le> b w3"
      using stops n2 by (simp_all add: backoff_next backoff_others)
    ultimately have "\<exists>r. wait_loop D q (Sleep D d2 w3) = Some r" by (intro less) linarith
    with n r n2 False show ?thesis by (subst wait_loop.simps) (auto split: sum.splits)
  qed
qed

lemma returns_simple [inv_intros]:
  "returns (returning x)" "returns (failing e)" "returns (asking wr q)" "returns (open_host D wr host)"
  "returns (reset_backoff D)" "returns (remember_addrs as)" "returns (executing D st)"
  "returns (\<lambda>m. Done (Inr (), m\<lparr>conns := host # conns m\<rparr>))"
  "returns (insertMigrationEntry D db i s)" "returns (updateMigrationEntry D db i s err)"
  by (auto simp: returns_def program_defs reset_backoff_def remember_addrs_def
      insertMigrationEntry_def updateMigrationEntry_def split: prod.splits option.splits)

lemma returns_andthen [inv_intros]:
  assumes "returns p" "\<And>x. returns (f x)"
  shows "returns (andthen p f)"
  unfolding returns_def
proof
  fix m
  show "andthen p f m \<noteq> Blocks"
    using assms by (cases "p m") (auto simp: returns_def andthen_def split: sum.splits)
qed

lemma returns_on_error [inv_intros]:
  assumes "returns p" "\<And>e. returns (h e)"
  shows "returns (on_error p h)"
  unfolding returns_def
proof
  fix m
  show "on_error p h m \<noteq> Blocks"
    using assms by (cases "p m") (auto simp: returns_def on_error_def split: sum.splits)
qed

lemma returns_for_each [inv_intros]: "(\<And>x. returns (f x)) \<Longrightarrow> returns (for_each f xs)"
  by (induction xs) (auto intro: inv_intros)

lemma returns_join_error [inv_intros]: "returns p \<Longrightarrow> returns (join_error e p)"
  unfolding join_error_def by (intro inv_intros)

lemma returns_HostAddrs [inv_intros]: "returns (HostAddrs D)"
proof -
  have parse: "returns (parse_hosts D rows hs)" for rows hs
    by (cases "add_hosts D rows hs") (auto simp: parse_hosts_def intro: inv_intros)
  have other: "returns (hosts_of_another D hs)" for hs
    by (cases "MapOrder D hs") (auto simp: hosts_of_another_def intro!: inv_intros parse)
  have "returns (if hs \<noteq> [] then hosts_of_another D hs else returning hs)" for hs
    by (simp add: other inv_intros)
  then have "returns (ask_hosts D)" unfolding ask_hosts_def by (intro inv_intros parse)
  then show ?thesis by (auto simp: returns_def HostAddrs_def returning_def)
qed

lemma returns_getConn [inv_intros]: "returns (getConn D host)"
proof -
  have "returns (connect D host)" unfolding connect_def by (intro inv_intros)
  then show ?thesis by (auto simp: returns_def getConn_def returning_def)
qed

lemma returns_waiting:
  assumes "backoff_stops D b" "\<And>w. b (snd (q w)) \<le> b w"
  shows "returns (waiting D q)"
  unfolding returns_def waiting_def
proof
  fix m
  from wait_loop_returns [OF assms] obtain r where "wait_loop D q (world m) = Some r" by blast
  then show "(case wait_loop D q (world m) of None \<Rightarrow> Blocks | Some (e, w) \<Rightarrow>
      Done (case e of Some err \<Rightarrow> Inl err | None \<Rightarrow> Inr (), m\<lparr>world := w\<rparr>)) \<noteq> Blocks"
    by (cases r) simp
qed

lemma ddl_attempts_budget:
  assumes "backoff_stops D b"
  shows "b (snd (ddl_attempts D k w)) \<le> b w"
proof (induction k arbitrary: w)
  case (Suc k)
  obtain r w' where r: "DDLQueue D w = (r, w')" by (cases "DDLQueue D w")
  then have "b w' \<le> b w" using backoff_others(3) [OF assms, of w] by simp
  moreover have "b (snd (ddl_attempts D k w')) \<le> b w'" by (rule Suc)
  ultimately show ?case using r by (auto split: sum.splits)
qed simp

lemma returns_waits:
  assumes "backoff_stops D b"
  shows "returns (WaitForRunningMutations D)" "returns (WaitDistributedDDLQueue D)"
proof -
  have "b (snd (select_mutations D h w)) \<le> b w" for h w
    using backoff_others(2) [OF assms, of h w]
    by (cases "RunningMutations D h w") (simp add: select_mutations_def)
  then have "returns (waiting D (select_mutations D h))" for h
    by (rule returns_waiting [OF assms])
  then show "returns (WaitForRunningMutations D)"
    unfolding WaitForRunningMutations_def waitForMutationsOnHost_def by (intro inv_intros)
  have "returns (waiting D (getDistributedDDLQueue D))"
    by (rule returns_waiting [OF assms]) (simp add: getDistributedDDLQueue_def ddl_attempts_budget [OF assms])
  then show "returns (WaitDistributedDDLQueue D)"
    unfolding WaitDistributedDDLQueue_def by (intro inv_intros)
qed

lemma returns_distribution_queue:
  assumes "watch_ends D"
  shows "returns (WaitForDistributionQueue D db table)"
proof -
  have w: "returns (\<lambda>m. case QueueEvents D host db table (world m) of (es, w) \<Rightarrow>
      (case watch_queue 0 es of None \<Rightarrow> Blocks | Some r \<Rightarrow> Done (r, m\<lparr>world := w\<rparr>)))" for host
    unfolding returns_def
  proof
    fix m :: "'a MigrationManager"
    show "(case QueueEvents D host db table (world m) of (es, w) \<Rightarrow>
      (case watch_queue 0 es of None \<Rightarrow> Blocks | Some r \<Rightarrow> Done (r, m\<lparr>world := w\<rparr>))) \<noteq> Blocks"
    proof (cases "QueueEvents D host db table (world m)")
      case (Pair es w)
      have "watch_queue 0 (fst (QueueEvents D host db table (world m))) \<noteq> None"
        using assms by (simp add: watch_ends_def)
      with Pair obtain r where "watch_queue 0 es = Some r" by auto
      with Pair show ?thesis by simp
    qed
  qed
  have "returns (waitForDistributionQueueOnHost D host db table)" for host
    unfolding waitForDistributionQueueOnHost_def
    by (rule returns_andthen) (auto intro: inv_intros w)
  then show ?thesis unfolding WaitForDistributionQueue_def by (intro inv_intros)
qed


lemma Column_ToSQL_returns: "Column_ToSQL c \<noteq> Blocks"
  by (simp add: Column_ToSQL_def split: option.splits)

lemma map_outcome_returns: "(\<And>x. f x \<noteq> Blocks) \<Longrightarrow> map_outcome f xs \<noteq> Blocks"
proof (induction xs)
  case (Cons x xs)
  from Cons.prems [of x] Cons.IH [OF Cons.prems] show ?case
    by (cases "f x"; cases "map_outcome f xs") simp_all
qed simp

lemma bind_Done_returns: "m \<noteq> Blocks \<Longrightarrow> bind_outcome m (\<lambda>c. Done (f c)) \<noteq> Blocks"
  by (cases m) simp_all

lemma ToSQL_returns: "ToSQL (op_methods op) \<noteq> Blocks"
  by (cases op)
    (simp_all add: methods_defs bind_Done_returns Column_ToSQL_returns map_outcome_returns)

lemma returns_run_configured:
  assumes "backoff_stops D b" and "watch_ends D"
  shows "returns (run_configured D op i db skip)"
proof -
  have mf: "returns p \<Longrightarrow> returns (marking_failed D db i p)" for db i and p :: "('a, unit) program"
    unfolding marking_failed_def by (intro inv_intros)
  have sql: "returns (execute_sql D op)"
    unfolding returns_def execute_sql_def
  proof
    fix m
    show "bind_outcome (ToSQL (op_methods op)) (\<lambda>sql. executing D (OperationSQL sql) m) \<noteq> Blocks"
      using ToSQL_returns [of op] inv_intros by (cases "ToSQL (op_methods op)")
        (simp_all add: executing_def split: prod.splits)
  qed
  have dist: "returns (distribution_wait D i op)"
    by (auto simp: distribution_wait_def split: prod.splits
        intro: mf returns_distribution_queue [OF assms(2)] inv_intros)
  have ins: "returns (if skip then returning () else insertMigrationEntry D db i InProgressStatus)"
    and fin: "returns (if skip then returning () else updateMigrationEntry D db i FinishedStatus [])"
    by (simp_all add: inv_intros)
  show ?thesis
    unfolding run_configured_def
    by (intro returns_andthen mf sql dist ins fin returns_waits [OF assms(1)])
qed

text \<open>A run of an operation does not wait for ever: when the backoff stops, and the watch over the
  distribution queue of a table ends (its timer fires at the latest), the run returns, whether the
  mutations and the distributed DDL queue drain or not.\<close>

theorem run_operation_returns:
  assumes "backoff_stops D b" and "watch_ends D"
  shows "RunOperation D op i db skip m \<noteq> Blocks"
  using returns_run_configured [OF assms] by (simp add: RunOperation_def returns_def)

section \<open>The entry of a migration\<close>

text \<open>
  The table of migrations as the driver shows it: \<open>st w\<close> maps a database and a migration to its
  status. Only statements on entries change it: an insertion sets the status, an update changes
  the status of an entry that is there, and the row of a migration is read back.
\<close>

fun apply_statement :: "statement \<Rightarrow> (string \<times> nat \<Rightarrow> string option) \<Rightarrow> (string \<times> nat \<Rightarrow> string option)" where
  "apply_statement (InsertEntry db i s t) f = f((db, i) \<mapsto> s)"
| "apply_statement (UpdateEntry db c i s e t) f = (if f (db, i) = None then f else f((db, i) \<mapsto> s))"
| "apply_statement (CreateDatabase db c) f = f"
| "apply_statement (OperationSQL sql) f = f"

definition status_table :: "'w driver \<Rightarrow> ('w \<Rightarrow> string \<times> nat \<Rightarrow> string option) \<Rightarrow> bool" where
  "status_table D st \<longleftrightarrow>
     (\<forall>s w. fst (Exec D s w) = None \<longrightarrow> st (snd (Exec D s w)) = apply_statement s (st w)) \<and>
     (\<forall>db i w. st (snd (MigrationRow D db i w)) = st w \<and>
        fst (MigrationRow D db i w) = (case st w (db, i) of None \<Rightarrow> NoRows | Some s \<Rightarrow> StatusRow s)) \<and>
     (\<forall>h w. st (snd (ClusterRows D h w)) = st w) \<and> (\<forall>h w. st (snd (Open D h w)) = st w) \<and>
     (\<forall>h w. st (snd (RunningMutations D h w)) = st w) \<and> (\<forall>w. st (snd (DDLQueue D w)) = st w) \<and>
     (\<forall>h db t w. st (snd (ErrorCount D h db t w)) = st w \<and> st (snd (QueueEvents D h db t w)) = st w) \<and>
     (\<forall>w. st (BackoffReset D w) = st w) \<and> (\<forall>w. st (snd (NextBackOff D w)) = st w) \<and>
     (\<forall>d w. st (Sleep D d w) = st w)"

lemma status_tableD:
  assumes "status_table D st"
  shows "Exec D s w = (None, w') \<Longrightarrow> st w' = apply_statement s (st w)"
    and "MigrationRow D db i w = (row, w') \<Longrightarrow>
      st w' = st w \<and> row = (case st w (db, i) of None \<Rightarrow> NoRows | Some s \<Rightarrow> StatusRow s)"
    and "ClusterRows D ho w = (hr, w') \<Longrightarrow> st w' = st w" and "Open D h w = (u, w') \<Longrightarrow> st w' = st w"
    and "RunningMutations D h w = (r, w') \<Longrightarrow> st w' = st w" and "DDLQueue D w = (dr, w') \<Longrightarrow> st w' = st w"
    and "ErrorCount D h db t w = (r, w') \<Longrightarrow> st w' = st w"
    and "QueueEvents D h db t w = (es, w') \<Longrightarrow> st w' = st w"
    and "st (BackoffReset D w) = st w" and "NextBackOff D w = (d, w') \<Longrightarrow> st w' = st w"
    and "st (Sleep D d w) = st w"
  using assms unfolding status_table_def by (metis fst_conv snd_conv)+

text \<open>A program that succeeds leaves the table as its statements, applied in order, make it.\<close>

definition tracks :: "('w \<Rightarrow> string \<times> nat \<Rightarrow> string option) \<Rightarrow> ('w, 'a) program \<Rightarrow> bool" where
  "tracks st p \<longleftrightarrow> (\<forall>m x m'. p m = Done (Inr x, m') \<longrightarrow>
     (\<exists>l. executed m' = executed m @ l \<and> st (world m') = fold apply_statement l (st (world m))))"

lemma tracks_returning: "tracks st (returning x)" "tracks st (failing e)"
  "tracks st (remember_addrs as)" "tracks st (\<lambda>m. Done (Inr (), m\<lparr>conns := host # conns m\<rparr>))"
  by (auto simp: tracks_def returning_def failing_def remember_addrs_def)

lemma tracks_andthen:
  assumes "tracks st p" "\<And>x. tracks st (f x)"
  shows "tracks st (andthen p f)"
  unfolding tracks_def
proof (intro allI impI)
  fix m y m'
  assume "andthen p f m = Done (Inr y, m')"
  then obtain x m1 where 1: "p m = Done (Inr x, m1)" and 2: "f x m1 = Done (Inr y, m')"
    by (auto simp: andthen_ok)
  from assms(1) 1 obtain l1 where l1: "executed m1 = executed m @ l1"
    "st (world m1) = fold apply_statement l1 (st (world m))" unfolding tracks_def by blast
  from assms(2) 2 obtain l2 where "executed m' = executed m1 @ l2"
    "st (world m') = fold apply_statement l2 (st (world m1))" unfolding tracks_def by blast
  with l1 show "\<exists>l. executed m' = executed m @ l \<and> st (world m') = fold apply_statement l (st (world m))"
    by (intro exI [of _ "l1 @ l2"]) simp
qed

text \<open>An error handler that never succeeds.\<close>

definition never_ok :: "('w, 'a) program \<Rightarrow> bool" where
  "never_ok p \<longleftrightarrow> (\<forall>m x m'. p m \<noteq> Done (Inr x, m'))"

lemma never_ok_failing: "never_ok (failing e)" "never_ok (andthen p (\<lambda>_. failing e))"
  by (auto simp: never_ok_def failing_def andthen_ok)

lemma tracks_on_error:
  assumes "tracks st p" "\<And>e. never_ok (h e)"
  shows "tracks st (on_error p h)"
  unfolding tracks_def
proof (intro allI impI)
  fix m x m'
  assume "on_error p h m = Done (Inr x, m')"
  with assms(2) have "p m = Done (Inr x, m')"
    by (auto simp: on_error_ok never_ok_def)
  with assms(1) show "\<exists>l. executed m' = executed m @ l \<and> st (world m') = fold apply_statement l (st (world m))"
    unfolding tracks_def by blast
qed


lemma tracks_for_each: "(\<And>x. tracks st (f x)) \<Longrightarrow> tracks st (for_each f xs)"
  by (induction xs) (auto intro: tracks_returning tracks_andthen)

lemma tracks_driver:
  assumes "status_table D st"
  shows "tracks st (asking wr (ClusterRows D ho))" "tracks st (open_host D wr h)"
    "tracks st (asking wr (ErrorCount D h db t))" "tracks st (reset_backoff D)" "tracks st (executing D s)"
proof -
  note D = status_tableD [OF assms]
  show "tracks st (asking wr (ClusterRows D ho))"
    by (auto simp: tracks_def asking_def split: prod.splits dest: D(3))
  show "tracks st (open_host D wr h)"
    by (auto simp: tracks_def open_host_def split: prod.splits dest: D(4))
  show "tracks st (asking wr (ErrorCount D h db t))"
    by (auto simp: tracks_def asking_def split: prod.splits dest: D(7))
  show "tracks st (reset_backoff D)"
    by (auto simp: tracks_def reset_backoff_def D(9))
  show "tracks st (executing D s)"
    by (auto simp: tracks_def executing_def split: prod.splits option.splits dest: D(1))
qed

lemma wait_loop_status:
  assumes "status_table D st" and "\<And>w. st (snd (q w)) = st w"
    and res: "wait_loop D q w = Some r"
  shows "st (snd r) = st w"
proof -
  have "status_table D st \<and> (\<forall>w. st (snd (q w)) = st w) \<longrightarrow> st (snd r) = st w"
  proof (rule wait_loop.raw_induct
      [OF _ res, where P = "\<lambda>D q w r. status_table D st \<and> (\<forall>w. st (snd (q w)) = st w) \<longrightarrow> st (snd r) = st w"], intro impI)
    fix loop D q w r
    assume IH: "\<And>D q w r. loop D q w = Some r \<Longrightarrow>
        status_table D st \<and> (\<forall>w. st (snd (q w)) = st w) \<longrightarrow> st (snd r) = st w"
      and body: "(case NextBackOff D w of (d, w1) \<Rightarrow>
        if d = backoff_Stop then Some (Some ErrBackoffStopped, w1)
        else case q w1 of (r, w2) \<Rightarrow>
          (case r of
             Inl e \<Rightarrow> Some (Some e, w2)
           | Inr n \<Rightarrow>
               if n \<noteq> 0 then (case NextBackOff D w2 of (d2, w3) \<Rightarrow> loop D q (Sleep D d2 w3))
               else Some (None, w2))) = Some r"
      and tab: "status_table D st \<and> (\<forall>w. st (snd (q w)) = st w)"
    note D = status_tableD [OF conjunct1 [OF tab]]
    obtain d w1 where n: "NextBackOff D w = (d, w1)" by (cases "NextBackOff D w")
    obtain a w2 where a: "q w1 = (a, w2)" by (cases "q w1")
    obtain d2 w3 where n2: "NextBackOff D w2 = (d2, w3)" by (cases "NextBackOff D w2")
    have "st (snd (q w1)) = st w1" using tab by blast
    then have "st w1 = st w" "st w2 = st w1" "st (Sleep D d2 w3) = st w2"
      using D(10) [OF n] D(10) [OF n2] D(11) a by auto
    moreover have "loop D q (Sleep D d2 w3) = Some r \<Longrightarrow> st (snd r) = st (Sleep D d2 w3)"
      using IH tab by blast
    ultimately show "st (snd r) = st w"
      using body n a n2 by (auto split: if_splits sum.splits)
  qed
  with assms(1,2) show ?thesis by blast
qed

lemma tracks_waiting:
  assumes tab: "status_table D st" and q: "\<And>w. st (snd (q w)) = st w"
  shows "tracks st (waiting D q)"
  using wait_loop_status [OF tab q]
  by (force simp: tracks_def waiting_def split: option.splits prod.splits)

lemma ddl_attempts_status:
  assumes tab: "status_table D st"
  shows "st (snd (ddl_attempts D k w)) = st w"
proof (induction k arbitrary: w)
  case (Suc k)
  obtain r w' where r: "DDLQueue D w = (r, w')" by (cases "DDLQueue D w")
  with Suc status_tableD(6) [OF tab r] show ?case by (auto split: sum.splits)
qed simp

lemma tracks_HostAddrs:
  assumes tab: "status_table D st"
  shows "tracks st (HostAddrs D)"
proof -
  note T = tracks_driver [OF tab] tracks_returning
  have parse: "tracks st (parse_hosts D rows hs)" for rows hs
    by (cases "add_hosts D rows hs") (simp_all add: parse_hosts_def T)
  have other: "tracks st (hosts_of_another D hs)" for hs
    by (cases "MapOrder D hs") (auto simp: hosts_of_another_def intro!: tracks_andthen T parse)
  have "tracks st (if hs \<noteq> [] then hosts_of_another D hs else returning hs)" for hs
    by (simp add: other T)
  then have "tracks st (ask_hosts D)" unfolding ask_hosts_def by (intro tracks_andthen parse T)
  then show ?thesis by (auto simp: tracks_def HostAddrs_def returning_def)
qed

lemma tracks_getConn:
  assumes tab: "status_table D st"
  shows "tracks st (getConn D host)"
proof -
  have "tracks st (connect D host)"
    unfolding connect_def by (intro tracks_andthen tracks_driver [OF tab] tracks_returning)
  then show ?thesis by (auto simp: tracks_def getConn_def returning_def)
qed

lemma tracks_join_error: "tracks st p \<Longrightarrow> tracks st (join_error e p)"
  unfolding join_error_def by (intro tracks_on_error never_ok_failing)

lemma tracks_marking_failed: "tracks st p \<Longrightarrow> tracks st (marking_failed D db i p)"
  unfolding marking_failed_def by (intro tracks_on_error never_ok_failing)

lemma tracks_waits:
  assumes tab: "status_table D st"
  shows "tracks st (WaitForRunningMutations D)" "tracks st (WaitDistributedDDLQueue D)"
    "tracks st (WaitForDistributionQueue D db table)"
proof -
  note T = tracks_driver [OF tab] tracks_returning tracks_HostAddrs [OF tab] tracks_getConn [OF tab]
  have "st (snd (select_mutations D h w)) = st w" for h w
    using status_tableD(5) [OF tab, of h w] by (cases "RunningMutations D h w") (simp add: select_mutations_def)
  then have w: "tracks st (waiting D (select_mutations D h))" for h
    by (rule tracks_waiting [OF tab])
  show "tracks st (WaitForRunningMutations D)"
    unfolding WaitForRunningMutations_def waitForMutationsOnHost_def
    by (intro tracks_andthen tracks_for_each tracks_join_error T w)
  have w2: "tracks st (waiting D (getDistributedDDLQueue D))"
    by (rule tracks_waiting [OF tab]) (simp add: getDistributedDDLQueue_def ddl_attempts_status [OF tab])
  show "tracks st (WaitDistributedDDLQueue D)"
    unfolding WaitDistributedDDLQueue_def by (intro tracks_andthen T w2)
  have ev: "tracks st (\<lambda>m. case QueueEvents D host db table (world m) of (es, w) \<Rightarrow>
      (case watch_queue 0 es of None \<Rightarrow> Blocks | Some r \<Rightarrow> Done (r, m\<lparr>world := w\<rparr>)))" for host
    by (auto simp: tracks_def split: prod.splits option.splits dest: status_tableD(8) [OF tab])
  have "tracks st (waitForDistributionQueueOnHost D host db table)" for host
    unfolding waitForDistributionQueueOnHost_def
    by (rule tracks_andthen) (auto intro: T ev)
  then show "tracks st (WaitForDistributionQueue D db table)"
    unfolding WaitForDistributionQueue_def
    by (intro tracks_andthen tracks_for_each tracks_join_error T)
qed

lemma tracks_run_configured:
  assumes tab: "status_table D st"
  shows "tracks st (run_configured D op i db skip)"
proof -
  note E = tracks_driver(5) [OF tab]
  have ins: "tracks st (if skip then returning () else insertMigrationEntry D db i InProgressStatus)"
    and fin: "tracks st (if skip then returning () else updateMigrationEntry D db i FinishedStatus [])"
    using E by (auto simp: tracks_def insertMigrationEntry_def updateMigrationEntry_def returning_def)
  have sql: "tracks st (execute_sql D op)"
    using E by (auto simp: tracks_def execute_sql_def bind_outcome_Done)
  have dist: "tracks st (distribution_wait D i op)"
    by (auto simp: distribution_wait_def split: prod.splits
        intro: tracks_marking_failed tracks_waits(3) [OF tab] tracks_returning)
  show ?thesis
    unfolding run_configured_def
    by (intro tracks_andthen tracks_marking_failed sql dist ins fin tracks_waits(1,2) [OF tab])
qed



section \<open>What the waits do not wait for\<close>

text \<open>The wait for the distributed DDL queue can end without having read the queue: after ten
  retryable errors in a row the queue counts as empty, and the wait succeeds.\<close>

theorem ddl_wait_gives_up:
  assumes retry: "\<And>w. \<exists>msg. fst (DDLQueue D w) = Inl (Exception 999 msg) \<and> str_contains msg ''No node''"
    and go: "fst (NextBackOff D (BackoffReset D (world m))) \<noteq> backoff_Stop"
  shows "\<exists>w. WaitDistributedDDLQueue D m = Done (Inr (), m\<lparr>world := w\<rparr>)"
proof -
  have "\<exists>w'. ddl_attempts D k w = (Inr 0, w')" for k w
  proof (induction k arbitrary: w)
    case (Suc k)
    from retry [of w] obtain msg w1 where "DDLQueue D w = (Inl (Exception 999 msg), w1)"
      "str_contains msg ''No node''"
      by (metis prod.collapse)
    with Suc show ?case by simp
  qed simp
  then obtain w2 where q: "getDistributedDDLQueue D (snd (NextBackOff D (BackoffReset D (world m)))) = (Inr 0, w2)"
    by (metis getDistributedDDLQueue_def)
  obtain d w1 where n: "NextBackOff D (BackoffReset D (world m)) = (d, w1)"
    by (cases "NextBackOff D (BackoffReset D (world m))")
  from go n q have "wait_loop D (getDistributedDDLQueue D) (BackoffReset D (world m)) = Some (None, w2)"
    by (subst wait_loop.simps) simp
  then have "WaitDistributedDDLQueue D m = Done (Inr (), m\<lparr>world := w2\<rparr>)"
    by (simp add: WaitDistributedDDLQueue_def andthen_def reset_backoff_def waiting_def)
  then show ?thesis by blast
qed

text \<open>A poll that found nothing wrong.\<close>

fun clean_poll :: "queue_event \<Rightarrow> bool" where
  "clean_poll (Polled (Inr errCount) c) = (errCount = 0)"
| "clean_poll _ = False"

fun inserts_poll :: "queue_event \<Rightarrow> bool" where
  "inserts_poll (Polled e (Inr files)) = (files > 0)"
| "inserts_poll _ = False"

lemma watch_queue_done:
  "watch_queue n es = Some (Inr ()) \<Longrightarrow> n < 16 \<Longrightarrow>
    \<exists>es1 e es2. es = es1 @ e # es2 \<and> list_all clean_poll es1 \<and>
      (e = TimerFired \<or> clean_poll e \<and> 16 \<le> n + length (filter inserts_poll (es1 @ [e])))"
proof (induction n es rule: watch_queue.induct)
  case (3 n es)
  then show ?case by (auto intro!: exI [of _ "[]"])
next
  case (5 n errCount c es)
  from "5.prems" have zero: "errCount = 0" by (auto split: if_splits)
  let ?e = "Polled (Inr errCount) c"
  let ?n = "n + length (filter inserts_poll [?e])"
  show ?case
  proof (cases "inserts_poll ?e \<and> 16 \<le> ?n")
    case True
    with zero show ?thesis by (intro exI [of _ "[]"] exI [of _ ?e] exI [of _ es]) auto
  next
    case False
    have "\<exists>es1 e es2. es = es1 @ e # es2 \<and> list_all clean_poll es1 \<and>
      (e = TimerFired \<or> clean_poll e \<and> 16 \<le> ?n + length (filter inserts_poll (es1 @ [e])))"
    proof (cases c)
      case (Inl s)
      with "5.prems" zero have "watch_queue n es = Some (Inr ())" by simp
      from "5.IH"(1) [OF _ Inl this "5.prems"(2)] zero Inl show ?thesis by (simp del: filter.simps)
    next
      case (Inr files)
      with False "5.prems"(2) have small: "\<not> 16 \<le> (if files > 0 then n + 1 else n)" by auto
      with "5.prems" zero Inr have w: "watch_queue (if files > 0 then n + 1 else n) es = Some (Inr ())"
        by (simp add: Let_def)
      from small have "(if files > 0 then n + 1 else n) < 16" by simp
      from "5.IH"(2) [OF _ Inr refl small w this] zero Inr show ?thesis by (auto split: if_splits)
    qed
    then obtain es1 e es2 where "es = es1 @ e # es2" "list_all clean_poll es1"
      "e = TimerFired \<or> clean_poll e \<and> 16 \<le> ?n + length (filter inserts_poll (es1 @ [e]))"
      by blast
    with zero show ?thesis
      by (intro exI [of _ "?e # es1"] exI [of _ e] exI [of _ es2]) (auto split: if_splits)
  qed
qed auto


text \<open>The wait for the distribution queue of a table succeeds only for one of two reasons: the timer
  fired, or at least sixteen polls found inserts in the queue; until then every poll found no
  blocked and no failing entry. (Polls, not inserts: one insert that stays queued is counted
  at every poll.)\<close>

theorem distribution_wait_ends:
  assumes "waitForDistributionQueueOnHost D host db table m = Done (Inr (), m')"
  shows "\<exists>es1 e es2 w. fst (QueueEvents D host db table w) = es1 @ e # es2 \<and> list_all clean_poll es1 \<and>
    (e = TimerFired \<or> clean_poll e \<and> 16 \<le> length (filter inserts_poll (es1 @ [e])))"
proof -
  from assms obtain m1 where "(case QueueEvents D host db table (world m1) of (es, w) \<Rightarrow>
       (case watch_queue 0 es of None \<Rightarrow> Blocks | Some r \<Rightarrow> Done (r, m1\<lparr>world := w\<rparr>))) = Done (Inr (), m')"
    by (auto simp: waitForDistributionQueueOnHost_def andthen_ok failing_def split: if_splits)
  then obtain es w where es: "QueueEvents D host db table (world m1) = (es, w)" "watch_queue 0 es = Some (Inr ())"
    by (auto split: prod.splits option.splits)
  from watch_queue_done [OF es(2)] es(1) show ?thesis by (metis add_0 fst_conv zero_less_numeral)
qed


section \<open>A concrete world\<close>

text \<open>
  A driver on which every hypothesis above holds: a cluster of one node where statements succeed,
  nothing is pending and the backoff gives fifteen intervals. The world is the number of
  intervals left and the table of migrations.
\<close>

type_synonym idle_world = "nat \<times> (string \<times> nat \<Rightarrow> string option)"

definition idle_driver :: "idle_world driver" where
  "idle_driver = \<lparr>
     Exec = \<lambda>s w. (None, (fst w, apply_statement s (snd w))),
     Now = \<lambda>w. ''2024-01-01 00:00:00'',
     CountTables = \<lambda>db n w. (Inr 0, w),
     CountV2Migrations = \<lambda>db w. (Inr 0, w),
     ClusterRows = \<lambda>h w. (Inr [], w),
     AddrPort = \<lambda>a p. Inr (a @ '':'' @ show_nat p),
     MapOrder = \<lambda>hs. hs,
     Open = \<lambda>h w. (None, w),
     RunningMutations = \<lambda>h w. (Inr 0, w),
     DDLQueue = \<lambda>w. (Inr 0, w),
     ErrorCount = \<lambda>h db t w. (Inr 0, w),
     QueueEvents = \<lambda>h db t w. ([TimerFired], w),
     MigrationRow = \<lambda>db i w. (case snd w (db, i) of None \<Rightarrow> NoRows | Some s \<Rightarrow> StatusRow s, w),
     BackoffReset = \<lambda>w. (15, snd w),
     NextBackOff = \<lambda>w. (if fst w = 0 then backoff_Stop else 500, (fst w - 1, snd w)),
     Sleep = \<lambda>d w. w\<rparr>"

definition idle_manager :: "idle_world MigrationManager" where
  "idle_manager = \<lparr>addrs = [], conns = [], clusterName = ''c'', replicationEnabled = False,
     development = True, world = (0, \<lambda>_. None), executed = []\<rparr>"

definition truncate_op :: operation where
  "truncate_op = TruncateTableOperation \<lparr>cluster = '''', Database = ''db'', Table = ''t''\<rparr>"

lemma idle_status_table: "status_table idle_driver snd"
  by (simp add: status_table_def idle_driver_def)

lemma idle_backoff_stops: "backoff_stops idle_driver fst"
  by (simp add: backoff_stops_def idle_driver_def backoff_Stop_def)

lemma idle_watch_ends: "watch_ends idle_driver"
  by (simp add: watch_ends_def idle_driver_def)

lemma idle_wait [simp]:
  "wait_loop idle_driver (getDistributedDDLQueue idle_driver) (15, t) = Some (None, (14, t))"
  by (subst wait_loop.simps)
    (simp add: idle_driver_def getDistributedDDLQueue_def backoff_Stop_def numeral_eq_Suc)

lemmas run_defs = RunOperation_def run_configured_def marking_failed_def on_error_def andthen_def
  WaitForRunningMutations_def HostAddrs_def WaitDistributedDDLQueue_def reset_backoff_def waiting_def
  distribution_wait_def execute_sql_def insertMigrationEntry_def updateMigrationEntry_def
  executing_def returning_def failing_def configure_op_def

lemma idle_run:
  "RunOperation idle_driver truncate_op 7 ''db'' False idle_manager =
     Done (Inr (), idle_manager\<lparr>world := (14, (\<lambda>_. None)((''db'', 7) \<mapsto> FinishedStatus)),
       executed := [InsertEntry ''db'' 7 InProgressStatus ''2024-01-01 00:00:00'',
         OperationSQL ''TRUNCATE TABLE IF EXISTS db.t ON CLUSTER c'',
         UpdateEntry ''db'' ''c'' 7 FinishedStatus '''' ''2024-01-01 00:00:00'']\<rparr>)"
proof -
  have "Now idle_driver w = ''2024-01-01 00:00:00''"
    "Exec idle_driver s w = (None, (fst w, apply_statement s (snd w)))"
    "BackoffReset idle_driver w = (15, snd w)" for s w
    by (simp_all add: idle_driver_def)
  then show ?thesis
    by (simp add: run_defs idle_manager_def truncate_op_def methods_defs on_cluster_def optional_clause_def
        FinishedStatus_def InProgressStatus_def)
qed


theorem run_operation_success_witness:
  "\<exists>sql t1 t2. ToSQL (op_methods (configure_op idle_manager truncate_op)) = Done sql \<and>
     [InsertEntry ''db'' 7 InProgressStatus ''2024-01-01 00:00:00'',
      OperationSQL ''TRUNCATE TABLE IF EXISTS db.t ON CLUSTER c'',
      UpdateEntry ''db'' ''c'' 7 FinishedStatus '''' ''2024-01-01 00:00:00''] =
     [InsertEntry ''db'' 7 InProgressStatus t1, OperationSQL sql, UpdateEntry ''db'' ''c'' 7 FinishedStatus '''' t2]"
  using run_operation_success [OF idle_run] by (simp add: idle_manager_def)


theorem run_operation_returns_witness:
  "RunOperation idle_driver truncate_op 7 ''db'' False idle_manager \<noteq> Blocks"
  using run_operation_returns [OF idle_backoff_stops idle_watch_ends] .

lemma idle_async:
  "executeAsyncOperations idle_driver [truncate_op] 7 ''db'' idle_manager =
     Done (Inr (), idle_manager\<lparr>world := (14, (\<lambda>_. None)((''db'', 7) \<mapsto> FinishedStatus)),
       executed := [InsertEntry ''db'' 7 InProgressStatus ''2024-01-01 00:00:00'',
         OperationSQL ''TRUNCATE TABLE IF EXISTS db.t ON CLUSTER c'',
         UpdateEntry ''db'' ''c'' 7 FinishedStatus '''' ''2024-01-01 00:00:00'']\<rparr>)"
proof -
  have "async_op truncate_op" by (simp add: async_op_def truncate_op_def methods_defs)
  then show ?thesis by (simp add: executeAsyncOperations_def andthen_def idle_run returning_def)
qed

theorem runs_execute_their_operations_witness:
  "\<exists>ls. concat ls = [InsertEntry ''db'' 7 InProgressStatus ''2024-01-01 00:00:00'',
         OperationSQL ''TRUNCATE TABLE IF EXISTS db.t ON CLUSTER c'',
         UpdateEntry ''db'' ''c'' 7 FinishedStatus '''' ''2024-01-01 00:00:00''] \<and>
     length ls = length (filter async_op [truncate_op])"
proof -
  from runs_execute_their_operations [OF disjI2 [OF conjI [OF refl refl]] idle_async]
  obtain ls where "executed (idle_manager\<lparr>world := (14, (\<lambda>_. None)((''db'', 7) \<mapsto> FinishedStatus)),
       executed := [InsertEntry ''db'' 7 InProgressStatus ''2024-01-01 00:00:00'',
         OperationSQL ''TRUNCATE TABLE IF EXISTS db.t ON CLUSTER c'',
         UpdateEntry ''db'' ''c'' 7 FinishedStatus '''' ''2024-01-01 00:00:00'']\<rparr>) =
      executed idle_manager @ concat ls"
    "length (filter async_op [truncate_op]) = length ls"
    by (blast dest: list_all2_lengthD)
  then show ?thesis by (intro exI [of _ ls]) (simp add: idle_manager_def)
qed

text \<open>The same cluster, where the statement of an operation fails.\<close>

definition refusing_driver :: "idle_world driver" where
  "refusing_driver = idle_driver\<lparr>Exec := \<lambda>s w.
     (case s of OperationSQL q \<Rightarrow> Some ''refused'' | _ \<Rightarrow> None, w)\<rparr>"

lemma wait_loop_none:
  "NextBackOff D w = (d, w1) \<Longrightarrow> d \<noteq> backoff_Stop \<Longrightarrow> q w1 = (Inr 0, w2) \<Longrightarrow>
    wait_loop D q w = Some (None, w2)"
  by (subst wait_loop.simps) simp

lemma refused_run:
  "RunOperation refusing_driver truncate_op 7 ''db'' False idle_manager =
     Done (Inl (DriverError ''refused''), idle_manager\<lparr>world := (14, \<lambda>_. None),
       executed := [InsertEntry ''db'' 7 InProgressStatus ''2024-01-01 00:00:00'',
         OperationSQL ''TRUNCATE TABLE IF EXISTS db.t ON CLUSTER c'',
         UpdateEntry ''db'' ''c'' 7 FailedStatus ''refused'' ''2024-01-01 00:00:00'']\<rparr>)"
proof -
  have "Now refusing_driver w = ''2024-01-01 00:00:00''"
    "Exec refusing_driver s w = (case s of OperationSQL q \<Rightarrow> Some ''refused'' | _ \<Rightarrow> None, w)"
    "BackoffReset refusing_driver w = (15, snd w)" for s w
    by (simp_all add: refusing_driver_def idle_driver_def)
  moreover have "wait_loop refusing_driver (getDistributedDDLQueue refusing_driver) (15, t) = Some (None, (14, t))" for t
    by (rule wait_loop_none [where d = 500])
      (simp_all add: refusing_driver_def idle_driver_def getDistributedDDLQueue_def backoff_Stop_def numeral_eq_Suc)
  ultimately show ?thesis
    by (simp add: run_defs idle_manager_def truncate_op_def methods_defs on_cluster_def optional_clause_def
        wrap_error_def)
qed

theorem run_operation_failure_witness:
  "\<exists>l. l = [InsertEntry ''db'' 7 InProgressStatus ''2024-01-01 00:00:00'',
         OperationSQL ''TRUNCATE TABLE IF EXISTS db.t ON CLUSTER c'',
         UpdateEntry ''db'' ''c'' 7 FailedStatus ''refused'' ''2024-01-01 00:00:00''] \<and>
     (\<exists>l0 d err t. l = l0 @ [UpdateEntry d ''c'' 7 FailedStatus err t])"
  using run_operation_failure [OF refused_run]
  by (auto simp: idle_manager_def FailedStatus_def FinishedStatus_def)

theorem ddl_wait_gives_up_witness:
  "\<exists>w. WaitDistributedDDLQueue (idle_driver\<lparr>DDLQueue := \<lambda>w. (Inl (Exception 999 ''No node''), w)\<rparr>)
     idle_manager = Done (Inr (), idle_manager\<lparr>world := w\<rparr>)"
  by (rule ddl_wait_gives_up) (simp_all add: idle_driver_def backoff_Stop_def)

theorem distribution_wait_ends_witness:
  "\<exists>es1 e es2 w. fst (QueueEvents idle_driver ''h'' ''db'' ''t'' w) = es1 @ e # es2 \<and> list_all clean_poll es1 \<and>
    (e = TimerFired \<or> clean_poll e \<and> 16 \<le> length (filter inserts_poll (es1 @ [e])))"
  by (rule distribution_wait_ends [where m = idle_manager and m' = idle_manager])
    (simp add: waitForDistributionQueueOnHost_def andthen_def asking_def idle_driver_def)

end
