(* ===== verification/SchemaIndex.thy ===== *)
theory SchemaIndex
  imports Prelude
begin

text \<open>
  Indexes on the sub-columns of a JSON column, \<^verbatim>\<open>schema_migrator/index_operations.go\<close>: the name
  and the expression of such an index and the reverse of the expression,
  \<^verbatim>\<open>UnfoldJSONSubColumnIndexExpr\<close>, with the two regular expressions it tries written out as
  leftmost, shortest-first matchers. The reverse works for expressions on strings and for no other.
\<close>

section \<open>Names and expressions\<close>

definition backtick :: char where
  "backtick = CHR 0x60"

definition quote_char :: char where
  "quote_char = CHR 0x27"

definition IsBacktickRequired :: "string \<Rightarrow> bool" where
  "IsBacktickRequired key \<longleftrightarrow> list_ex (\<lambda>c. c \<in> set '':@-'') key"

text \<open>\<^verbatim>\<open>strings.Split(s, ".")\<close> and \<^verbatim>\<open>strings.Trim(s, "`")\<close>.\<close>

fun split_dots :: "string \<Rightarrow> string list" where
  "split_dots [] = [[]]"
| "split_dots (c # s) =
     (if c = CHR ''.'' then [] # split_dots s
      else case split_dots s of [] \<Rightarrow> [[c]] | p # ps \<Rightarrow> (c # p) # ps)"

definition trim_backticks :: "string \<Rightarrow> string" where
  "trim_backticks s = rev (dropWhile (\<lambda>c. c = backtick) (rev (dropWhile (\<lambda>c. c = backtick) s)))"

definition quote_part :: "string \<Rightarrow> string" where
  "quote_part p = (if IsBacktickRequired p then backtick # trim_backticks p @ [backtick] else p)"

definition quote_path :: "string \<Rightarrow> string" where
  "quote_path expr = join ''.'' (map quote_part (split_dots expr))"

definition jsonSubColumnIndexExprFormat :: "string \<Rightarrow> string \<Rightarrow> string" where
  "jsonSubColumnIndexExprFormat expr typeColumn =
     (if typeColumn \<noteq> ''String''
      then ''assumeNotNull(dynamicElement('' @ quote_path expr @ '', '' @ quote_char # typeColumn @ quote_char # ''))''
      else ''lower(assumeNotNull(dynamicElement('' @ quote_path expr @ '', '' @ quote_char # typeColumn @ quote_char # '')))'')"

definition JSONSubColumnIndexExpr :: "string \<Rightarrow> string \<Rightarrow> string \<Rightarrow> string" where
  "JSONSubColumnIndexExpr column path typeColumn =
     jsonSubColumnIndexExprFormat (column @ ''.'' @ path) typeColumn"

definition JSONSubColumnIndexName :: "string \<Rightarrow> string \<Rightarrow> string \<Rightarrow> string \<Rightarrow> string" where
  "JSONSubColumnIndexName column path typeColumn index =
     backtick # (column @ ''.'' @ path) @ ''_'' @ typeColumn @ ''_'' @ index @ [backtick]"

section \<open>The reverse\<close>

text \<open>
  A match of \<^verbatim>\<open>PRE(?P<expr>.+?),\s*'(?P<type>[^']+)'\)\)\)$\<close>: \<open>match_tail\<close> matches from the comma
  to the end of the text, \<open>lazy_expr\<close> tries the shortest \<^verbatim>\<open>expr\<close> first (its dot does not match a
  line feed) and \<open>find_match\<close> the leftmost occurrence of the prefix.
\<close>

definition regex_space :: "char \<Rightarrow> bool" where
  "regex_space c \<longleftrightarrow> c \<in> {CHR 0x09, CHR 0x0A, CHR 0x0C, CHR 0x0D, CHR '' ''}"

fun strip_prefix :: "string \<Rightarrow> string \<Rightarrow> string option" where
  "strip_prefix [] s = Some s"
| "strip_prefix (p # ps) [] = None"
| "strip_prefix (p # ps) (c # s) = (if p = c then strip_prefix ps s else None)"

fun match_tail :: "string \<Rightarrow> string option" where
  "match_tail [] = None"
| "match_tail (c # s) =
     (if c \<noteq> CHR '','' then None
      else case dropWhile regex_space s of
        [] \<Rightarrow> None
      | q # r \<Rightarrow>
          if q \<noteq> quote_char then None
          else let t = takeWhile (\<lambda>c. c \<noteq> quote_char) r in
            if t \<noteq> [] \<and> dropWhile (\<lambda>c. c \<noteq> quote_char) r = quote_char # '')))'' then Some t else None)"

fun lazy_expr :: "string \<Rightarrow> string \<Rightarrow> (string \<times> string) option" where
  "lazy_expr e [] = None"
| "lazy_expr e (c # s) =
     (if c = CHR 0x0A then None
      else case match_tail s of
        Some t \<Rightarrow> Some (e @ [c], t)
      | None \<Rightarrow> lazy_expr (e @ [c]) s)"

fun find_match :: "string \<Rightarrow> string \<Rightarrow> (string \<times> string) option" where
  "find_match pre [] = None"
| "find_match pre (c # s) =
     (case strip_prefix pre (c # s) of
        None \<Rightarrow> find_match pre s
      | Some r \<Rightarrow> (case lazy_expr [] r of Some m \<Rightarrow> Some m | None \<Rightarrow> find_match pre s))"

text \<open>Both expressions end in three closing parentheses, the one for non-strings too.\<close>

definition jsonStringSubColumnIndexExprRe :: "string \<Rightarrow> (string \<times> string) option" where
  "jsonStringSubColumnIndexExprRe = find_match ''lower(assumeNotNull(dynamicElement(''"

definition jsonNumberSubColumnIndexExprRe :: "string \<Rightarrow> (string \<times> string) option" where
  "jsonNumberSubColumnIndexExprRe = find_match ''assumeNotNull(dynamicElement(''"

definition processMatches :: "(string \<Rightarrow> (string \<times> string) option) \<Rightarrow> string \<Rightarrow> (string \<times> string) option" where
  "processMatches re expr =
     (case re expr of
        None \<Rightarrow> None
      | Some (subExpr, typeColumn) \<Rightarrow>
          if subExpr = '''' \<or> typeColumn = '''' then None else Some (subExpr, typeColumn))"

definition UnfoldJSONSubColumnIndexExpr :: "string \<Rightarrow> string + string \<times> string" where
  "UnfoldJSONSubColumnIndexExpr expr =
     (case processMatches jsonStringSubColumnIndexExprRe expr of
        Some m \<Rightarrow> Inr m
      | None \<Rightarrow>
          (case processMatches jsonNumberSubColumnIndexExprRe expr of
             Some m \<Rightarrow> Inr m
           | None \<Rightarrow> Inl (''invalid expression: '' @ expr)))"

section \<open>Correctness\<close>

lemma match_tail_ends: "match_tail s = Some t \<Longrightarrow> \<exists>p. s = p @ '')))''"
proof (cases s)
  case (Cons c r)
  assume m: "match_tail s = Some t"
  have ne: "dropWhile regex_space r = [] \<Longrightarrow> match_tail s = None"
    by (simp only: Cons match_tail.simps list.case if_cancel split: if_split)
  with m obtain q u where q: "dropWhile regex_space r = q # u"
    by (cases "dropWhile regex_space r") simp_all
  with m Cons have "dropWhile (\<lambda>c. c \<noteq> quote_char) u = quote_char # '')))''"
    by (auto simp: Let_def split: if_splits)
  then have "u = (takeWhile (\<lambda>c. c \<noteq> quote_char) u @ [quote_char]) @ '')))''"
    by (metis append_Cons append_Nil append_assoc takeWhile_dropWhile_id)
  moreover have "r = takeWhile regex_space r @ q # u"
    using q by (metis takeWhile_dropWhile_id)
  ultimately show ?thesis using Cons by (metis append_Cons append_assoc)
qed simp

lemma lazy_expr_ends: "lazy_expr e s = Some m \<Longrightarrow> \<exists>p. s = p @ '')))''"
proof (induction e s rule: lazy_expr.induct)
  case (2 e c s)
  then show ?case
  proof (cases "match_tail s")
    case (Some t)
    then obtain p where "s = p @ '')))''" using match_tail_ends by blast
    then have "c # s = (c # p) @ '')))''" by simp
    then show ?thesis by blast
  next
    case None
    with 2 obtain p where "s = p @ '')))''" by (auto split: if_splits)
    then have "c # s = (c # p) @ '')))''" by simp
    then show ?thesis by blast
  qed
qed simp

lemma strip_prefix_Some: "strip_prefix p s = Some r \<longleftrightarrow> s = p @ r"
  by (induction p s rule: strip_prefix.induct) auto

lemma find_match_ends: "find_match pre s = Some m \<Longrightarrow> \<exists>p. s = p @ '')))''"
proof (induction pre s rule: find_match.induct)
  case (2 pre c s)
  show ?case
  proof (cases "\<exists>r. strip_prefix pre (c # s) = Some r \<and> lazy_expr [] r \<noteq> None")
    case True
    then obtain r m' where r: "c # s = pre @ r" "lazy_expr [] r = Some m'"
      by (auto simp: strip_prefix_Some)
    then obtain p where "r = p @ '')))''" using lazy_expr_ends by blast
    with r(1) have "c # s = pre @ p @ '')))''" by simp
    then have "c # s = (pre @ p) @ '')))''" by simp
    then show ?thesis by blast
  next
    case False
    with "2.prems" have f: "find_match pre s = Some m" by (auto split: option.splits)
    have "\<exists>p. s = p @ '')))''"
    proof (cases "strip_prefix pre (c # s)")
      case None
      with "2.IH"(1) f show ?thesis by blast
    next
      case (Some r)
      with False have "lazy_expr [] r = None" by blast
      with Some "2.IH"(2) f show ?thesis by blast
    qed
    then obtain p where "s = p @ '')))''" by blast
    then have "c # s = (c # p) @ '')))''" by simp
    then show ?thesis by blast
  qed
qed simp


text \<open>The index expression of a sub-column that is not a string is never unfolded: it ends in
  two closing parentheses, both regular expressions ask for three, so the reverse of an expression
  the package itself produced is an error, whatever the column, the path and the type.\<close>

theorem number_index_never_unfolds:
  "typeColumn \<noteq> ''String'' \<Longrightarrow>
   UnfoldJSONSubColumnIndexExpr (JSONSubColumnIndexExpr column path typeColumn) =
     Inl (''invalid expression: '' @ JSONSubColumnIndexExpr column path typeColumn)"
proof -
  assume t: "typeColumn \<noteq> ''String''"
  let ?e = "JSONSubColumnIndexExpr column path typeColumn"
  obtain q where "?e = q @ quote_char # ''))''"
    using t by (force simp: JSONSubColumnIndexExpr_def jsonSubColumnIndexExprFormat_def)
  then have "\<nexists>p. ?e = p @ '')))''"
    by (auto simp: quote_char_def append_eq_append_conv2 append_eq_Cons_conv Cons_eq_append_conv)
  then have "find_match pre ?e = None" for pre
    using find_match_ends by (cases "find_match pre ?e") auto
  then show ?thesis
    by (simp add: UnfoldJSONSubColumnIndexExpr_def processMatches_def
        jsonStringSubColumnIndexExprRe_def jsonNumberSubColumnIndexExprRe_def)
qed

theorem number_index_never_unfolds_witness:
  "UnfoldJSONSubColumnIndexExpr (JSONSubColumnIndexExpr ''body'' ''size'' ''Int64'') =
     Inl (''invalid expression: '' @ JSONSubColumnIndexExpr ''body'' ''size'' ''Int64'')"
  by (rule number_index_never_unfolds) simp

lemma match_tail_quoted:
  assumes "t \<noteq> []" "quote_char \<notin> set t"
  shows "match_tail ('', '' @ quote_char # t @ quote_char # '')))'') = Some t"
proof -
  have "\<not> regex_space quote_char" "regex_space (CHR '' '')"
    by (simp_all add: regex_space_def quote_char_def)
  moreover have "takeWhile (\<lambda>c. c \<noteq> quote_char) (t @ quote_char # x) = t"
    "dropWhile (\<lambda>c. c \<noteq> quote_char) (t @ quote_char # x) = quote_char # x" for x
    using assms(2) by (auto simp: takeWhile_append dropWhile_append)
  ultimately show ?thesis using assms(1) by simp
qed

text \<open>Before the end of the expression no tail matches: its type would contain a quote.\<close>

lemma dropWhile_quotes:
  "length (filter (\<lambda>c. c = quote_char) (dropWhile (\<lambda>c. c \<noteq> quote_char) v)) =
   length (filter (\<lambda>c. c = quote_char) v)"
  by (induction v) auto

lemma first_comma:
  assumes "r @ CHR '','' # x = w @ q # v" "CHR '','' \<notin> set w" "q \<noteq> CHR '',''"
  shows "\<exists>u. v = u @ CHR '','' # x"
proof -
  from assms(1) consider us where "r = w @ us" "us @ CHR '','' # x = q # v"
    | us where "w = r @ us" "CHR '','' # x = us @ q # v"
    by (auto simp: append_eq_append_conv2)
  then show ?thesis
  proof cases
    case 1
    with assms(3) show ?thesis by (cases us) auto
  next
    case 2
    with assms(2,3) show ?thesis by (cases us) auto
  qed
qed

lemma match_tail_early:
  assumes "match_tail (e @ '', '' @ quote_char # t @ quote_char # '')))'') = Some u"
  shows "e = []"
proof (rule ccontr)
  assume "e \<noteq> []"
  then obtain c r where e: "e = c # r" by (cases e) auto
  let ?x = "CHR '' '' # quote_char # t @ quote_char # '')))''"
  let ?rest = "r @ CHR '','' # ?x"
  have "CHR '','' \<in> set ?rest" and sp: "\<not> regex_space (CHR '','')" by (simp_all add: regex_space_def)
  then have "dropWhile regex_space ?rest \<noteq> []" by (metis dropWhile_eq_Nil_conv)
  then obtain q v where q: "dropWhile regex_space ?rest = q # v" by (meson neq_Nil_conv)
  have "match_tail (c # ?rest) = Some u" using assms e by simp
  then have qq: "q = quote_char"
    and v: "dropWhile (\<lambda>c. c \<noteq> quote_char) v = quote_char # '')))''"
    using q by (auto simp: Let_def simp del: dropWhile_append split: if_splits)
  have "?rest = takeWhile regex_space ?rest @ q # v"
    using q by (metis takeWhile_dropWhile_id)
  moreover have "CHR '','' \<notin> set (takeWhile regex_space ?rest)"
    using sp set_takeWhileD by metis
  ultimately have "\<exists>w. v = w @ CHR '','' # ?x"
    by (rule first_comma) (simp add: qq quote_char_def)
  then obtain w where "v = w @ CHR '','' # ?x" by blast
  then have "2 \<le> length (filter (\<lambda>c. c = quote_char) v)" by simp
  moreover have "length (filter (\<lambda>c. c = quote_char) v) = 1"
    using dropWhile_quotes [of v] v by (simp add: quote_char_def)
  ultimately show False by simp
qed

lemma lazy_expr_quoted:
  assumes t: "t \<noteq> []" "quote_char \<notin> set t" and nl: "CHR 0x0A \<notin> set e" "e \<noteq> []"
  shows "lazy_expr d (e @ '', '' @ quote_char # t @ quote_char # '')))'') = Some (d @ e, t)"
  using nl
proof (induction e arbitrary: d)
  case (Cons c e)
  let ?tail = "'', '' @ quote_char # t @ quote_char # '')))''"
  have c: "c \<noteq> CHR 0x0A" using Cons.prems by auto
  show ?case
  proof (cases "e = []")
    case True
    then show ?thesis using c match_tail_quoted [OF t] by (simp del: match_tail.simps)
  next
    case False
    then have "match_tail (e @ ?tail) = None" using match_tail_early by (metis not_None_eq)
    moreover have "lazy_expr (d @ [c]) (e @ ?tail) = Some ((d @ [c]) @ e, t)"
      by (rule Cons.IH) (use Cons.prems False in auto)
    ultimately have "lazy_expr d (c # (e @ ?tail)) = Some ((d @ [c]) @ e, t)"
      using c by (simp only: lazy_expr.simps if_False option.case)
    then show ?thesis by simp
  qed
qed simp

lemma split_dots_chars: "p \<in> set (split_dots s) \<Longrightarrow> set p \<subseteq> set s"
proof (induction s arbitrary: p)
  case (Cons a s)
  show ?case
  proof (cases "a = CHR ''.'' \<or> split_dots s = []")
    case True
    with Cons show ?thesis by (auto split: if_splits)
  next
    case False
    then obtain r rs where r: "split_dots s = r # rs" by (cases "split_dots s") auto
    with Cons.IH have "set r \<subseteq> set s" "\<And>x. x \<in> set rs \<Longrightarrow> set x \<subseteq> set s" by simp_all
    moreover have "p = a # r \<or> p \<in> set rs" using Cons.prems False r by simp
    ultimately show ?thesis by fastforce
  qed
qed simp

lemma set_join: "c \<in> set (join sep ss) \<Longrightarrow> c \<in> set sep \<or> (\<exists>s \<in> set ss. c \<in> set s)"
  by (induction ss) (auto simp: join_Cons split: if_splits)

lemma set_trim: "c \<in> set (trim_backticks s) \<Longrightarrow> c \<in> set s"
  by (auto simp: trim_backticks_def dest!: set_dropWhileD)

lemma quote_path_chars: "c \<in> set (quote_path s) \<Longrightarrow> c = CHR ''.'' \<or> c = backtick \<or> c \<in> set s"
proof -
  assume "c \<in> set (quote_path s)"
  then consider "c = CHR ''.''" | p where "p \<in> set (split_dots s)" "c \<in> set (quote_part p)"
    using set_join [of c "''.''" "map quote_part (split_dots s)"] by (auto simp: quote_path_def)
  then show ?thesis
  proof cases
    case (2 p)
    then have "c = backtick \<or> c \<in> set p" by (auto simp: quote_part_def dest: set_trim split: if_splits)
    with split_dots_chars [OF 2(1)] show ?thesis by blast
  qed simp
qed

lemma quote_path_nonempty: "quote_path (column @ ''.'' @ path) \<noteq> []"
proof -
  have ne: "split_dots b \<noteq> []" for b by (induction b) (auto split: list.splits)
  have "\<exists>p q ps. split_dots (a @ CHR ''.'' # b) = p # q # ps" for a b
  proof (induction a)
    case Nil
    then show ?case using ne [of b] by (cases "split_dots b") auto
  qed (auto split: list.splits)
  then obtain p q ps where "split_dots (column @ CHR ''.'' # path) = p # q # ps" by blast
  then show ?thesis by (simp add: quote_path_def)
qed

text \<open>C34: The index expression of a string sub-column unfolds to what it was built from: the quoted
  path and the type, provided no line feed is in the column and the path (the dot of the regular
  expression does not match one). Commas, quotes and parentheses in the path do no harm.\<close>

theorem string_index_roundtrip:
  assumes "CHR 0x0A \<notin> set column" "CHR 0x0A \<notin> set path"
  shows "UnfoldJSONSubColumnIndexExpr (JSONSubColumnIndexExpr column path ''String'') =
     Inr (quote_path (column @ ''.'' @ path), ''String'')"
proof -
  let ?q = "quote_path (column @ ''.'' @ path)"
  let ?pre = "''lower(assumeNotNull(dynamicElement(''"
  let ?body = "?q @ '', '' @ quote_char # ''String'' @ quote_char # '')))''"
  have "CHR 0x0A \<notin> set ?q"
    using assms quote_path_chars [of "CHR 0x0A" "column @ ''.'' @ path"] by (auto simp: backtick_def)
  then have l: "lazy_expr [] ?body = Some (?q, ''String'')"
    using lazy_expr_quoted [of "''String''" ?q "[]"] quote_path_nonempty by (simp add: quote_char_def)
  have "strip_prefix ?pre (?pre @ ?body) = Some ?body" by (simp only: strip_prefix_Some)
  with l have "find_match ?pre (?pre @ ?body) = Some (?q, ''String'')"
    by (cases "?pre @ ?body") (simp_all del: strip_prefix.simps)
  moreover have "JSONSubColumnIndexExpr column path ''String'' = ?pre @ ?body"
    by (simp add: JSONSubColumnIndexExpr_def jsonSubColumnIndexExprFormat_def)
  ultimately show ?thesis
    using quote_path_nonempty
    by (simp add: UnfoldJSONSubColumnIndexExpr_def processMatches_def jsonStringSubColumnIndexExprRe_def
        del: find_match.simps)
qed

theorem string_index_roundtrip_witness:
  "UnfoldJSONSubColumnIndexExpr (JSONSubColumnIndexExpr ''body'' ''order-id'' ''String'') =
     Inr (''body.'' @ backtick # ''order-id'' @ [backtick], ''String'')"
  using string_index_roundtrip [of "''body''" "''order-id''"]
  by (simp add: quote_path_def quote_part_def IsBacktickRequired_def trim_backticks_def backtick_def)

end
