(* ===== verification/MigrationTerms.thy ===== *)
theory MigrationTerms
  imports MigrationRun SchemaIndex
begin

text \<open>
  What the lists of migrations are written with: the predeclared column types of
  \<^verbatim>\<open>column.go\<close>, the names of \<^verbatim>\<open>constants/constants.go\<close>, the composite literals of a column
  (a Go literal sets the fields it names and leaves the others zero) and the texts of several lines.
\<close>

section \<open>Predeclared names\<close>

definition ColumnTypeString :: column_type where
  "ColumnTypeString = PrimitiveColumnType ''String'' ColumnTypeEnumString"

definition ColumnTypeInt8 :: column_type where
  "ColumnTypeInt8 = PrimitiveColumnType ''Int8'' ColumnTypeEnumInt8"

definition ColumnTypeInt16 :: column_type where
  "ColumnTypeInt16 = PrimitiveColumnType ''Int16'' ColumnTypeEnumInt16"

definition ColumnTypeInt32 :: column_type where
  "ColumnTypeInt32 = PrimitiveColumnType ''Int32'' ColumnTypeEnumInt32"

definition ColumnTypeInt64 :: column_type where
  "ColumnTypeInt64 = PrimitiveColumnType ''Int64'' ColumnTypeEnumInt64"

definition ColumnTypeUInt8 :: column_type where
  "ColumnTypeUInt8 = PrimitiveColumnType ''UInt8'' ColumnTypeEnumUInt8"

definition ColumnTypeUInt16 :: column_type where
  "ColumnTypeUInt16 = PrimitiveColumnType ''UInt16'' ColumnTypeEnumUInt16"

definition ColumnTypeUInt32 :: column_type where
  "ColumnTypeUInt32 = PrimitiveColumnType ''UInt32'' ColumnTypeEnumUInt32"

definition ColumnTypeUInt64 :: column_type where
  "ColumnTypeUInt64 = PrimitiveColumnType ''UInt64'' ColumnTypeEnumUInt64"

definition ColumnTypeFloat32 :: column_type where
  "ColumnTypeFloat32 = PrimitiveColumnType ''Float32'' ColumnTypeEnumFloat32"

definition ColumnTypeFloat64 :: column_type where
  "ColumnTypeFloat64 = PrimitiveColumnType ''Float64'' ColumnTypeEnumFloat64"

definition ColumnTypeBool :: column_type where
  "ColumnTypeBool = PrimitiveColumnType ''Bool'' ColumnTypeEnumBool"

definition BodyJSONColumn :: string where
  "BodyJSONColumn = ''body_json''"

definition BodyPromotedColumn :: string where
  "BodyPromotedColumn = ''body_json_promoted''"

definition LocalPathTypesTable :: string where
  "LocalPathTypesTable = ''json_path_types''"

definition DistributedPathTypesTable :: string where
  "DistributedPathTypesTable = ''distributed_json_path_types''"

definition LocalPromotedPathsTable :: string where
  "LocalPromotedPathsTable = ''json_promoted_paths''"

definition DistributedPromotedPathsTable :: string where
  "DistributedPromotedPathsTable = ''distributed_json_promoted_paths''"

definition PathTypesTablePathColumn :: string where
  "PathTypesTablePathColumn = ''path''"

definition PathTypesTableTypeColumn :: string where
  "PathTypesTableTypeColumn = ''type''"

definition PathTypesTableLastSeenColumn :: string where
  "PathTypesTableLastSeenColumn = ''last_seen''"

definition IndexTypeTokenBF :: string where
  "IndexTypeTokenBF = ''tokenbf_v1''"

definition IndexTypeNGramBF :: string where
  "IndexTypeNGramBF = ''ngrambf_v1''"

section \<open>Literals\<close>

abbreviation Col :: "string \<Rightarrow> column_type \<Rightarrow> Column" where
  "Col name t \<equiv> Column name (Some t) '''' '''' '''' '''' '''' None ''''"

abbreviation Col_Name :: "string \<Rightarrow> Column" where
  "Col_Name name \<equiv> Column name None '''' '''' '''' '''' '''' None ''''"

abbreviation Col_Codec :: "string \<Rightarrow> column_type \<Rightarrow> string \<Rightarrow> Column" where
  "Col_Codec name t codec \<equiv> Column name (Some t) codec '''' '''' '''' '''' None ''''"

abbreviation Col_Default :: "string \<Rightarrow> column_type \<Rightarrow> string \<Rightarrow> Column" where
  "Col_Default name t dflt \<equiv> Column name (Some t) '''' '''' dflt '''' '''' None ''''"

abbreviation Col_Codec_Default :: "string \<Rightarrow> column_type \<Rightarrow> string \<Rightarrow> string \<Rightarrow> Column" where
  "Col_Codec_Default name t codec dflt \<equiv> Column name (Some t) codec '''' dflt '''' '''' None ''''"

abbreviation Col_Alias :: "string \<Rightarrow> column_type \<Rightarrow> string \<Rightarrow> Column" where
  "Col_Alias name t alias \<equiv> Column name (Some t) '''' alias '''' '''' '''' None ''''"

text \<open>A raw string of several lines, each indented by tabs.\<close>

definition text_lines :: "string list \<Rightarrow> string" where
  "text_lines ls = join [CHR 0x0A] ls"

definition indent :: "nat \<Rightarrow> string \<Rightarrow> string" where
  "indent n s = replicate n (CHR 0x09) @ s"

abbreviation quote :: char where
  "quote \<equiv> CHR 0x27"

end
