(* ===== verification/MigrationsTraces.thy ===== *)
theory MigrationsTraces
  imports MigrationTerms
begin

text \<open>
  The lists of migrations of the database of the traces,
  one definition per migration (or per part of one, where it is long).
\<close>

section \<open>\<^verbatim>\<open>squashed_traces_migrations.go\<close>\<close>

definition SquashedTraces_1 :: "SchemaMigrationRecord" where
  "SquashedTraces_1 = \<lparr>
    MigrationID = 1,
    UpItems = [
      CreateTableOperation \<lparr>cluster = '''', Database = ''signoz_traces'', Table = ''signoz_index_v2'',
         ct_Columns = [
           Col_Codec ''timestamp'' (DateTime64ColumnType 9 '''') ''DoubleDelta, LZ4'',
           Col_Codec ''traceID'' (FixedStringColumnType 32) ''ZSTD(1)'',
           Col_Codec ''spanID'' ColumnTypeString ''ZSTD(1)'',
           Col_Codec ''parentSpanID'' ColumnTypeString ''ZSTD(1)'',
           Col_Codec ''serviceName'' (LowCardinalityColumnType ColumnTypeString) ''ZSTD(1)'',
           Col_Codec ''name'' (LowCardinalityColumnType ColumnTypeString) ''ZSTD(1)'',
           Col_Codec ''kind'' ColumnTypeInt8 ''T64, ZSTD(1)'',
           Col_Codec ''durationNano'' ColumnTypeUInt64 ''T64, ZSTD(1)'',
           Col_Codec ''statusCode'' ColumnTypeInt16 ''T64, ZSTD(1)'',
           Col_Codec ''externalHttpMethod'' (LowCardinalityColumnType ColumnTypeString) ''ZSTD(1)'',
           Col_Codec ''externalHttpUrl'' (LowCardinalityColumnType ColumnTypeString) ''ZSTD(1)'',
           Col_Codec ''dbSystem'' (LowCardinalityColumnType ColumnTypeString) ''ZSTD(1)'',
           Col_Codec ''dbName'' (LowCardinalityColumnType ColumnTypeString) ''ZSTD(1)'',
           Col_Codec ''dbOperation'' (LowCardinalityColumnType ColumnTypeString) ''ZSTD(1)'',
           Col_Codec ''peerService'' (LowCardinalityColumnType ColumnTypeString) ''ZSTD(1)'',
           Col_Codec ''events'' (ArrayColumnType ColumnTypeString) ''ZSTD(2)'',
           Col_Codec ''httpMethod'' (LowCardinalityColumnType ColumnTypeString) ''ZSTD(1)'',
           Col_Codec ''httpUrl'' (LowCardinalityColumnType ColumnTypeString) ''ZSTD(1)'',
           Col_Codec ''httpRoute'' (LowCardinalityColumnType ColumnTypeString) ''ZSTD(1)'',
           Col_Codec ''httpHost'' (LowCardinalityColumnType ColumnTypeString) ''ZSTD(1)'',
           Col_Codec ''msgSystem'' (LowCardinalityColumnType ColumnTypeString) ''ZSTD(1)'',
           Col_Codec ''msgOperation'' (LowCardinalityColumnType ColumnTypeString) ''ZSTD(1)'',
           Col_Codec ''hasError'' ColumnTypeBool ''T64, ZSTD(1)'',
           Col_Codec ''rpcSystem'' (LowCardinalityColumnType ColumnTypeString) ''ZSTD(1)'',
           Col_Codec ''rpcService'' (LowCardinalityColumnType ColumnTypeString) ''ZSTD(1)'',
           Col_Codec ''rpcMethod'' (LowCardinalityColumnType ColumnTypeString) ''ZSTD(1)'',
           Col_Codec ''responseStatusCode'' (LowCardinalityColumnType ColumnTypeString) ''ZSTD(1)'',
           Col_Codec ''stringTagMap'' (MapColumnType ColumnTypeString ColumnTypeString) ''ZSTD(1)'',
           Col_Codec ''numberTagMap'' (MapColumnType ColumnTypeString ColumnTypeFloat64) ''ZSTD(1)'',
           Col_Codec ''boolTagMap'' (MapColumnType ColumnTypeString ColumnTypeBool) ''ZSTD(1)'',
           Col_Codec ''resourceTagsMap'' (MapColumnType (LowCardinalityColumnType ColumnTypeString) ColumnTypeString) ''ZSTD(1)'',
           Col_Codec ''isRemote'' (LowCardinalityColumnType ColumnTypeString) ''ZSTD(1)'',
           Col_Codec ''statusMessage'' ColumnTypeString ''ZSTD(1)'',
           Col_Codec ''statusCodeString'' ColumnTypeString ''ZSTD(1)'',
           Col_Codec ''spanKind'' ColumnTypeString ''ZSTD(1)''],
         ct_Indexes = [
           Index ''idx_service'' ''serviceName'' ''bloom_filter'' 4,
           Index ''idx_name'' ''name'' ''bloom_filter'' 4,
           Index ''idx_kind'' ''kind'' ''minmax'' 4,
           Index ''idx_duration'' ''durationNano'' ''minmax'' 1,
           Index ''idx_hasError'' ''hasError'' ''set(2)'' 1,
           Index ''idx_httpRoute'' ''httpRoute'' ''bloom_filter'' 4,
           Index ''idx_httpUrl'' ''httpUrl'' ''bloom_filter'' 4,
           Index ''idx_httpHost'' ''httpHost'' ''bloom_filter'' 4,
           Index ''idx_httpMethod'' ''httpMethod'' ''bloom_filter'' 4,
           Index ''idx_timestamp'' ''timestamp'' ''minmax'' 1,
           Index ''idx_rpcMethod'' ''rpcMethod'' ''bloom_filter'' 4,
           Index ''idx_responseStatusCode'' ''responseStatusCode'' ''set(0)'' 1,
           Index ''idx_resourceTagsMapKeys'' ''mapKeys(resourceTagsMap)'' ''bloom_filter(0.01)'' 64,
           Index ''idx_resourceTagsMapValues'' ''mapValues(resourceTagsMap)'' ''bloom_filter(0.01)'' 64,
           Index ''idx_statusCodeString'' ''statusCodeString'' ''set(3)'' 4,
           Index ''idx_spanKind'' ''spanKind'' ''set(5)'' 4,
           Index ''idx_stringTagMapKeys'' ''mapKeys(stringTagMap)'' ''tokenbf_v1(1024, 2, 0)'' 1,
           Index ''idx_stringTagMapValues'' ''mapValues(stringTagMap)'' ''ngrambf_v1(4, 5000, 2, 0)'' 1,
           Index ''idx_numberTagMapKeys'' ''mapKeys(numberTagMap)'' ''tokenbf_v1(1024, 2, 0)'' 1,
           Index ''idx_numberTagMapValues'' ''mapValues(numberTagMap)'' ''bloom_filter(0.01)'' 1,
           Index ''idx_boolTagMapKeys'' ''mapKeys(boolTagMap)'' ''tokenbf_v1(1024, 2, 0)'' 1,
           Index ''idx_resourceTagMapKeys'' ''mapKeys(resourceTagsMap)'' ''tokenbf_v1(1024, 2, 0)'' 1,
           Index ''idx_resourceTagMapValues'' ''mapValues(resourceTagsMap)'' ''ngrambf_v1(4, 5000, 2, 0)'' 1],
         ct_Projections = [
           Projection ''timestampSort'' ''SELECT * ORDER BY timestamp''],
         ct_Engine = MergeTreeEngine
           \<lparr>Replicated = False,
            OrderBy = ''(serviceName, hasError, toStartOfHour(timestamp), name, timestamp)'',
            PrimaryKey = ''(serviceName, hasError, toStartOfHour(timestamp), name)'',
            PartitionBy = ''toDate(timestamp)'',
            SampleBy = '''',
            engine_TTL = ''toDateTime(timestamp) + toIntervalSecond(1296000)'',
            engine_Settings = [TableSetting ''index_granularity'' ''8192'', TableSetting ''ttl_only_drop_parts'' ''1'']\<rparr>\<rparr>],
    DownItems = [
      DropTableOperation \<lparr>cluster = '''', Database = ''signoz_traces'', Table = ''signoz_index_v2'',
         dt_Settings = []\<rparr>]\<rparr>"

definition SquashedTraces_2 :: "SchemaMigrationRecord" where
  "SquashedTraces_2 = \<lparr>
    MigrationID = 2,
    UpItems = [
      CreateTableOperation \<lparr>cluster = '''', Database = ''signoz_traces'', Table = ''distributed_signoz_index_v2'',
         ct_Columns = [
           Col_Codec ''timestamp'' (DateTime64ColumnType 9 '''') ''DoubleDelta, LZ4'',
           Col_Codec ''traceID'' (FixedStringColumnType 32) ''ZSTD(1)'',
           Col_Codec ''spanID'' ColumnTypeString ''ZSTD(1)'',
           Col_Codec ''parentSpanID'' ColumnTypeString ''ZSTD(1)'',
           Col_Codec ''serviceName'' (LowCardinalityColumnType ColumnTypeString) ''ZSTD(1)'',
           Col_Codec ''name'' (LowCardinalityColumnType ColumnTypeString) ''ZSTD(1)'',
           Col_Codec ''kind'' ColumnTypeInt8 ''T64, ZSTD(1)'',
           Col_Codec ''durationNano'' ColumnTypeUInt64 ''T64, ZSTD(1)'',
           Col_Codec ''statusCode'' ColumnTypeInt16 ''T64, ZSTD(1)'',
           Col_Codec ''externalHttpMethod'' (LowCardinalityColumnType ColumnTypeString) ''ZSTD(1)'',
           Col_Codec ''externalHttpUrl'' (LowCardinalityColumnType ColumnTypeString) ''ZSTD(1)'',
           Col_Codec ''dbSystem'' (LowCardinalityColumnType ColumnTypeString) ''ZSTD(1)'',
           Col_Codec ''dbName'' (LowCardinalityColumnType ColumnTypeString) ''ZSTD(1)'',
           Col_Codec ''dbOperation'' (LowCardinalityColumnType ColumnTypeString) ''ZSTD(1)'',
           Col_Codec ''peerService'' (LowCardinalityColumnType ColumnTypeString) ''ZSTD(1)'',
           Col_Codec ''events'' (ArrayColumnType ColumnTypeString) ''ZSTD(2)'',
           Col_Codec ''httpMethod'' (LowCardinalityColumnType ColumnTypeString) ''ZSTD(1)'',
           Col_Codec ''httpUrl'' (LowCardinalityColumnType ColumnTypeString) ''ZSTD(1)'',
           Col_Codec ''httpRoute'' (LowCardinalityColumnType ColumnTypeString) ''ZSTD(1)'',
           Col_Codec ''httpHost'' (LowCardinalityColumnType ColumnTypeString) ''ZSTD(1)'',
           Col_Codec ''msgSystem'' (LowCardinalityColumnType ColumnTypeString) ''ZSTD(1)'',
           Col_Codec ''msgOperation'' (LowCardinalityColumnType ColumnTypeString) ''ZSTD(1)'',
           Col_Codec ''hasError'' ColumnTypeBool ''T64, ZSTD(1)'',
           Col_Codec ''rpcSystem'' (LowCardinalityColumnType ColumnTypeString) ''ZSTD(1)'',
           Col_Codec ''rpcService'' (LowCardinalityColumnType ColumnTypeString) ''ZSTD(1)'',
           Col_Codec ''rpcMethod'' (LowCardinalityColumnType ColumnTypeString) ''ZSTD(1)'',
           Col_Codec ''responseStatusCode'' (LowCardinalityColumnType ColumnTypeString) ''ZSTD(1)'',
           Col_Codec ''stringTagMap'' (MapColumnType ColumnTypeString ColumnTypeString) ''ZSTD(1)'',
           Col_Codec ''numberTagMap'' (MapColumnType ColumnTypeString ColumnTypeFloat64) ''ZSTD(1)'',
           Col_Codec ''boolTagMap'' (MapColumnType ColumnTypeString ColumnTypeBool) ''ZSTD(1)'',
           Col_Codec ''resourceTagsMap'' (MapColumnType (LowCardinalityColumnType ColumnTypeString) ColumnTypeString) ''ZSTD(1)'',
           Col_Codec ''isRemote'' (LowCardinalityColumnType ColumnTypeString) ''ZSTD(1)'',
           Col_Codec ''statusMessage'' ColumnTypeString ''ZSTD(1)'',
           Col_Codec ''statusCodeString'' ColumnTypeString ''ZSTD(1)'',
           Col_Codec ''spanKind'' ColumnTypeString ''ZSTD(1)''],
         ct_Indexes = [],
         ct_Projections = [],
         ct_Engine = DistributedEngine
           \<lparr>dist_Cluster = '''', dist_Database = ''signoz_traces'',
           dist_Table = ''signoz_index_v2'',
           ShardingKey = ''cityHash64(traceID)''\<rparr>\<rparr>],
    DownItems = [
      DropTableOperation \<lparr>cluster = '''', Database = ''signoz_traces'', Table = ''distributed_signoz_index_v2'',
         dt_Settings = []\<rparr>]\<rparr>"

definition SquashedTraces_3 :: "SchemaMigrationRecord" where
  "SquashedTraces_3 = \<lparr>
    MigrationID = 3,
    UpItems = [
      CreateTableOperation \<lparr>cluster = '''', Database = ''signoz_traces'', Table = ''durationSort'',
         ct_Columns = [
           Col_Codec ''timestamp'' (DateTime64ColumnType 9 '''') ''DoubleDelta, LZ4'',
           Col_Codec ''traceID'' (FixedStringColumnType 32) ''ZSTD(1)'',
           Col_Codec ''spanID'' ColumnTypeString ''ZSTD(1)'',
           Col_Codec ''parentSpanID'' ColumnTypeString ''ZSTD(1)'',
           Col_Codec ''serviceName'' (LowCardinalityColumnType ColumnTypeString) ''ZSTD(1)'',
           Col_Codec ''name'' (LowCardinalityColumnType ColumnTypeString) ''ZSTD(1)'',
           Col_Codec ''kind'' ColumnTypeInt8 ''T64, ZSTD(1)'',
           Col_Codec ''durationNano'' ColumnTypeUInt64 ''T64, ZSTD(1)'',
           Col_Codec ''statusCode'' ColumnTypeInt16 ''T64, ZSTD(1)'',
           Col_Codec ''httpMethod'' (LowCardinalityColumnType ColumnTypeString) ''ZSTD(1)'',
           Col_Codec ''httpUrl'' (LowCardinalityColumnType ColumnTypeString) ''ZSTD(1)'',
           Col_Codec ''httpRoute'' (LowCardinalityColumnType ColumnTypeString) ''ZSTD(1)'',
           Col_Codec ''httpHost'' (LowCardinalityColumnType ColumnTypeString) ''ZSTD(1)'',
           Col_Codec ''hasError'' ColumnTypeBool ''T64, ZSTD(1)'',
           Col_Codec ''rpcSystem'' (LowCardinalityColumnType ColumnTypeString) ''ZSTD(1)'',
           Col_Codec ''rpcService'' (LowCardinalityColumnType ColumnTypeString) ''ZSTD(1)'',
           Col_Codec ''rpcMethod'' (LowCardinalityColumnType ColumnTypeString) ''ZSTD(1)'',
           Col_Codec ''responseStatusCode'' (LowCardinalityColumnType ColumnTypeString) ''ZSTD(1)'',
           Col_Codec ''stringTagMap'' (MapColumnType ColumnTypeString ColumnTypeString) ''ZSTD(1)'',
           Col_Codec ''numberTagMap'' (MapColumnType ColumnTypeString ColumnTypeFloat64) ''ZSTD(1)'',
           Col_Codec ''boolTagMap'' (MapColumnType ColumnTypeString ColumnTypeBool) ''ZSTD(1)'',
           Col_Codec ''isRemote'' (LowCardinalityColumnType ColumnTypeString) ''ZSTD(1)'',
           Col_Codec ''statusMessage'' ColumnTypeString ''ZSTD(1)'',
           Col_Codec ''statusCodeString'' ColumnTypeString ''ZSTD(1)'',
           Col_Codec ''spanKind'' ColumnTypeString ''ZSTD(1)''],
         ct_Indexes = [
           Index ''idx_service'' ''serviceName'' ''bloom_filter'' 4,
           Index ''idx_name'' ''name'' ''bloom_filter'' 4,
           Index ''idx_kind'' ''kind'' ''minmax'' 4,
           Index ''idx_duration'' ''durationNano'' ''minmax'' 1,
           Index ''idx_hasError'' ''hasError'' ''set(2)'' 1,
           Index ''idx_httpRoute'' ''httpRoute'' ''bloom_filter'' 4,
           Index ''idx_httpUrl'' ''httpUrl'' ''bloom_filter'' 4,
           Index ''idx_httpHost'' ''httpHost'' ''bloom_filter'' 4,
           Index ''idx_httpMethod'' ''httpMethod'' ''bloom_filter'' 4,
           Index ''idx_timestamp'' ''timestamp'' ''minmax'' 1,
           Index ''idx_rpcMethod'' ''rpcMethod'' ''bloom_filter'' 4,
           Index ''idx_responseStatusCode'' ''responseStatusCode'' ''set(0)'' 1],
         ct_Projections = [],
         ct_Engine = MergeTreeEngine
           \<lparr>Replicated = False,
            OrderBy = ''(durationNano, timestamp)'',
            PrimaryKey = '''',
            PartitionBy = ''toDate(timestamp)'',
            SampleBy = '''',
            engine_TTL = ''toDateTime(timestamp) + toIntervalSecond(1296000)'',
            engine_Settings = [TableSetting ''index_granularity'' ''8192'', TableSetting ''ttl_only_drop_parts'' ''1'']\<rparr>\<rparr>],
    DownItems = [
      DropTableOperation \<lparr>cluster = '''', Database = ''signoz_traces'', Table = ''durationSort'',
         dt_Settings = []\<rparr>]\<rparr>"

definition SquashedTraces_4 :: "SchemaMigrationRecord" where
  "SquashedTraces_4 = \<lparr>
    MigrationID = 4,
    UpItems = [
      CreateMaterializedViewOperation \<lparr>cluster = '''', Database = ''signoz_traces'',
         mv_ViewName = ''durationSortMV'',
         mv_DestTable = ''durationSort'',
         mv_Columns = [
           Col_Codec ''timestamp'' (DateTime64ColumnType 9 '''') ''DoubleDelta, LZ4'',
           Col_Codec ''traceID'' (FixedStringColumnType 32) ''ZSTD(1)'',
           Col_Codec ''spanID'' ColumnTypeString ''ZSTD(1)'',
           Col_Codec ''parentSpanID'' ColumnTypeString ''ZSTD(1)'',
           Col_Codec ''serviceName'' (LowCardinalityColumnType ColumnTypeString) ''ZSTD(1)'',
           Col_Codec ''name'' (LowCardinalityColumnType ColumnTypeString) ''ZSTD(1)'',
           Col_Codec ''kind'' ColumnTypeInt8 ''T64, ZSTD(1)'',
           Col_Codec ''durationNano'' ColumnTypeUInt64 ''T64, ZSTD(1)'',
           Col_Codec ''statusCode'' ColumnTypeInt16 ''T64, ZSTD(1)'',
           Col_Codec ''httpMethod'' (LowCardinalityColumnType ColumnTypeString) ''ZSTD(1)'',
           Col_Codec ''httpUrl'' (LowCardinalityColumnType ColumnTypeString) ''ZSTD(1)'',
           Col_Codec ''httpRoute'' (LowCardinalityColumnType ColumnTypeString) ''ZSTD(1)'',
           Col_Codec ''httpHost'' (LowCardinalityColumnType ColumnTypeString) ''ZSTD(1)'',
           Col_Codec ''hasError'' ColumnTypeBool ''T64, ZSTD(1)'',
           Col_Codec ''rpcSystem'' (LowCardinalityColumnType ColumnTypeString) ''ZSTD(1)'',
           Col_Codec ''rpcService'' (LowCardinalityColumnType ColumnTypeString) ''ZSTD(1)'',
           Col_Codec ''rpcMethod'' (LowCardinalityColumnType ColumnTypeString) ''ZSTD(1)'',
           Col_Codec ''responseStatusCode'' (LowCardinalityColumnType ColumnTypeString) ''ZSTD(1)'',
           Col_Codec ''stringTagMap'' (MapColumnType ColumnTypeString ColumnTypeString) ''ZSTD(1)'',
           Col_Codec ''numberTagMap'' (MapColumnType ColumnTypeString ColumnTypeFloat64) ''ZSTD(1)'',
           Col_Codec ''boolTagMap'' (MapColumnType ColumnTypeString ColumnTypeBool) ''ZSTD(1)'',
           Col_Codec ''isRemote'' (LowCardinalityColumnType ColumnTypeString) ''ZSTD(1)'',
           Col_Codec ''statusMessage'' ColumnTypeString ''ZSTD(1)'',
           Col_Codec ''statusCodeString'' ColumnTypeString ''ZSTD(1)'',
           Col_Codec ''spanKind'' ColumnTypeString ''ZSTD(1)''],
         mv_Query = (text_lines [
           ''SELECT'',
           ''    timestamp,'',
           ''    traceID,'',
           ''    spanID,'',
           ''    parentSpanID,'',
           ''    serviceName,'',
           ''    name,'',
           ''    kind,'',
           ''    durationNano,'',
           ''    statusCode,'',
           ''    httpMethod,'',
           ''    httpUrl,'',
           ''    httpRoute,'',
           ''    httpHost,'',
           ''    hasError,'',
           ''    rpcSystem,'',
           ''    rpcService,'',
           ''    rpcMethod,'',
           ''    responseStatusCode,'',
           ''    stringTagMap,'',
           ''    numberTagMap,'',
           ''    boolTagMap,'',
           ''    isRemote,'',
           ''    statusMessage,'',
           ''    statusCodeString,'',
           ''    spanKind'',
           ''FROM signoz_traces.signoz_index_v2'',
           ''ORDER BY'',
           ''    durationNano ASC,'',
           ''    timestamp ASC''])\<rparr>],
    DownItems = [
      DropTableOperation \<lparr>cluster = '''', Database = ''signoz_traces'', Table = ''durationSortMV'',
         dt_Settings = []\<rparr>]\<rparr>"

definition SquashedTraces_5 :: "SchemaMigrationRecord" where
  "SquashedTraces_5 = \<lparr>
    MigrationID = 5,
    UpItems = [
      CreateTableOperation \<lparr>cluster = '''', Database = ''signoz_traces'', Table = ''distributed_durationSort'',
         ct_Columns = [
           Col_Codec ''timestamp'' (DateTime64ColumnType 9 '''') ''DoubleDelta, LZ4'',
           Col_Codec ''traceID'' (FixedStringColumnType 32) ''ZSTD(1)'',
           Col_Codec ''spanID'' ColumnTypeString ''ZSTD(1)'',
           Col_Codec ''parentSpanID'' ColumnTypeString ''ZSTD(1)'',
           Col_Codec ''serviceName'' (LowCardinalityColumnType ColumnTypeString) ''ZSTD(1)'',
           Col_Codec ''name'' (LowCardinalityColumnType ColumnTypeString) ''ZSTD(1)'',
           Col_Codec ''kind'' ColumnTypeInt8 ''T64, ZSTD(1)'',
           Col_Codec ''durationNano'' ColumnTypeUInt64 ''T64, ZSTD(1)'',
           Col_Codec ''statusCode'' ColumnTypeInt16 ''T64, ZSTD(1)'',
           Col_Codec ''httpMethod'' (LowCardinalityColumnType ColumnTypeString) ''ZSTD(1)'',
           Col_Codec ''httpUrl'' (LowCardinalityColumnType ColumnTypeString) ''ZSTD(1)'',
           Col_Codec ''httpRoute'' (LowCardinalityColumnType ColumnTypeString) ''ZSTD(1)'',
           Col_Codec ''httpHost'' (LowCardinalityColumnType ColumnTypeString) ''ZSTD(1)'',
           Col_Codec ''hasError'' ColumnTypeBool ''T64, ZSTD(1)'',
           Col_Codec ''rpcSystem'' (LowCardinalityColumnType ColumnTypeString) ''ZSTD(1)'',
           Col_Codec ''rpcService'' (LowCardinalityColumnType ColumnTypeString) ''ZSTD(1)'',
           Col_Codec ''rpcMethod'' (LowCardinalityColumnType ColumnTypeString) ''ZSTD(1)'',
           Col_Codec ''responseStatusCode'' (LowCardinalityColumnType ColumnTypeString) ''ZSTD(1)'',
           Col_Codec ''stringTagMap'' (MapColumnType ColumnTypeString ColumnTypeString) ''ZSTD(1)'',
           Col_Codec ''numberTagMap'' (MapColumnType ColumnTypeString ColumnTypeFloat64) ''ZSTD(1)'',
           Col_Codec ''boolTagMap'' (MapColumnType ColumnTypeString ColumnTypeBool) ''ZSTD(1)'',
           Col_Codec ''isRemote'' (LowCardinalityColumnType ColumnTypeString) ''ZSTD(1)'',
           Col_Codec ''statusMessage'' ColumnTypeString ''ZSTD(1)'',
           Col_Codec ''statusCodeString'' ColumnTypeString ''ZSTD(1)'',
           Col_Codec ''spanKind'' ColumnTypeString ''ZSTD(1)''],
         ct_Indexes = [],
         ct_Projections = [],
         ct_Engine = DistributedEngine
           \<lparr>dist_Cluster = '''', dist_Database = ''signoz_traces'',
           dist_Table = ''durationSort'',
           ShardingKey = ''cityHash64(traceID)''\<rparr>\<rparr>],
    DownItems = [
      DropTableOperation \<lparr>cluster = '''', Database = ''signoz_traces'', Table = ''distributed_durationSort'',
         dt_Settings = []\<rparr>]\<rparr>"

definition SquashedTraces_6 :: "SchemaMigrationRecord" where
  "SquashedTraces_6 = \<lparr>
    MigrationID = 6,
    UpItems = [
      CreateTableOperation \<lparr>cluster = '''', Database = ''signoz_traces'', Table = ''signoz_error_index_v2'',
         ct_Columns = [
           Col_Codec ''timestamp'' (DateTime64ColumnType 9 '''') ''DoubleDelta, LZ4'',
           Col_Codec ''errorID'' (FixedStringColumnType 32) ''ZSTD(1)'',
           Col_Codec ''groupID'' (FixedStringColumnType 32) ''ZSTD(1)'',
           Col_Codec ''traceID'' (FixedStringColumnType 32) ''ZSTD(1)'',
           Col_Codec ''spanID'' ColumnTypeString ''ZSTD(1)'',
           Col_Codec ''serviceName'' (LowCardinalityColumnType ColumnTypeString) ''ZSTD(1)'',
           Col_Codec ''exceptionType'' (LowCardinalityColumnType ColumnTypeString) ''ZSTD(1)'',
           Col_Codec ''exceptionMessage'' ColumnTypeString ''ZSTD(1)'',
           Col_Codec ''exceptionStacktrace'' ColumnTypeString ''ZSTD(1)'',
           Col_Codec ''exceptionEscaped'' ColumnTypeBool ''T64, ZSTD(1)'',
           Col_Codec ''resourceTagsMap'' (MapColumnType (LowCardinalityColumnType ColumnTypeString) ColumnTypeString) ''ZSTD(1)''],
         ct_Indexes = [
           Index ''idx_error_id'' ''errorID'' ''bloom_filter'' 4,
           Index ''idx_resourceTagsMapKeys'' ''mapKeys(resourceTagsMap)'' ''bloom_filter(0.01)'' 64,
           Index ''idx_resourceTagsMapValues'' ''mapValues(resourceTagsMap)'' ''bloom_filter(0.01)'' 64],
         ct_Projections = [],
         ct_Engine = MergeTreeEngine
           \<lparr>Replicated = False,
            OrderBy = ''(timestamp, groupID)'',
            PrimaryKey = '''',
            PartitionBy = ''toDate(timestamp)'',
            SampleBy = '''',
            engine_TTL = ''toDateTime(timestamp) + toIntervalSecond(1296000)'',
            engine_Settings = [TableSetting ''index_granularity'' ''8192'', TableSetting ''ttl_only_drop_parts'' ''1'']\<rparr>\<rparr>],
    DownItems = [
      DropTableOperation \<lparr>cluster = '''', Database = ''signoz_traces'', Table = ''signoz_error_index_v2'',
         dt_Settings = []\<rparr>]\<rparr>"

definition SquashedTraces_7 :: "SchemaMigrationRecord" where
  "SquashedTraces_7 = \<lparr>
    MigrationID = 7,
    UpItems = [
      CreateTableOperation \<lparr>cluster = '''', Database = ''signoz_traces'', Table = ''distributed_signoz_error_index_v2'',
         ct_Columns = [
           Col_Codec ''timestamp'' (DateTime64ColumnType 9 '''') ''DoubleDelta, LZ4'',
           Col_Codec ''errorID'' (FixedStringColumnType 32) ''ZSTD(1)'',
           Col_Codec ''groupID'' (FixedStringColumnType 32) ''ZSTD(1)'',
           Col_Codec ''traceID'' (FixedStringColumnType 32) ''ZSTD(1)'',
           Col_Codec ''spanID'' ColumnTypeString ''ZSTD(1)'',
           Col_Codec ''serviceName'' (LowCardinalityColumnType ColumnTypeString) ''ZSTD(1)'',
           Col_Codec ''exceptionType'' (LowCardinalityColumnType ColumnTypeString) ''ZSTD(1)'',
           Col_Codec ''exceptionMessage'' ColumnTypeString ''ZSTD(1)'',
           Col_Codec ''exceptionStacktrace'' ColumnTypeString ''ZSTD(1)'',
           Col_Codec ''exceptionEscaped'' ColumnTypeBool ''T64, ZSTD(1)'',
           Col_Codec ''resourceTagsMap'' (MapColumnType (LowCardinalityColumnType ColumnTypeString) ColumnTypeString) ''ZSTD(1)''],
         ct_Indexes = [],
         ct_Projections = [],
         ct_Engine = DistributedEngine
           \<lparr>dist_Cluster = '''', dist_Database = ''signoz_traces'',
           dist_Table = ''signoz_error_index_v2'',
           ShardingKey = ''cityHash64(groupID)''\<rparr>\<rparr>],
    DownItems = [
      DropTableOperation \<lparr>cluster = '''', Database = ''signoz_traces'', Table = ''distributed_signoz_error_index_v2'',
         dt_Settings = []\<rparr>]\<rparr>"

definition SquashedTraces_8 :: "SchemaMigrationRecord" where
  "SquashedTraces_8 = \<lparr>
    MigrationID = 8,
    UpItems = [
      CreateTableOperation \<lparr>cluster = '''', Database = ''signoz_traces'', Table = ''signoz_spans'',
         ct_Columns = [
           Col_Codec ''timestamp'' (DateTime64ColumnType 9 '''') ''DoubleDelta, LZ4'',
           Col_Codec ''traceID'' (FixedStringColumnType 32) ''ZSTD(1)'',
           Col_Codec ''model'' ColumnTypeString ''ZSTD(9)''],
         ct_Indexes = [],
         ct_Projections = [],
         ct_Engine = MergeTreeEngine
           \<lparr>Replicated = False,
            OrderBy = ''(traceID)'',
            PrimaryKey = '''',
            PartitionBy = ''toDate(timestamp)'',
            SampleBy = '''',
            engine_TTL = ''toDateTime(timestamp) + toIntervalSecond(1296000)'',
            engine_Settings = [TableSetting ''index_granularity'' ''1024'', TableSetting ''ttl_only_drop_parts'' ''1'']\<rparr>\<rparr>],
    DownItems = [
      DropTableOperation \<lparr>cluster = '''', Database = ''signoz_traces'', Table = ''signoz_spans'',
         dt_Settings = []\<rparr>]\<rparr>"

definition SquashedTraces_9 :: "SchemaMigrationRecord" where
  "SquashedTraces_9 = \<lparr>
    MigrationID = 9,
    UpItems = [
      CreateTableOperation \<lparr>cluster = '''', Database = ''signoz_traces'', Table = ''distributed_signoz_spans'',
         ct_Columns = [
           Col_Codec ''timestamp'' (DateTime64ColumnType 9 '''') ''DoubleDelta, LZ4'',
           Col_Codec ''traceID'' (FixedStringColumnType 32) ''ZSTD(1)'',
           Col_Codec ''model'' ColumnTypeString ''ZSTD(9)''],
         ct_Indexes = [],
         ct_Projections = [],
         ct_Engine = DistributedEngine
           \<lparr>dist_Cluster = '''', dist_Database = ''signoz_traces'',
           dist_Table = ''signoz_spans'',
           ShardingKey = ''cityHash64(traceID)''\<rparr>\<rparr>],
    DownItems = [
      DropTableOperation \<lparr>cluster = '''', Database = ''signoz_traces'', Table = ''distributed_signoz_spans'',
         dt_Settings = []\<rparr>]\<rparr>"

definition SquashedTraces_10 :: "SchemaMigrationRecord" where
  "SquashedTraces_10 = \<lparr>
    MigrationID = 10,
    UpItems = [
      CreateTableOperation \<lparr>cluster = '''', Database = ''signoz_traces'', Table = ''dependency_graph_minutes_v2'',
         ct_Columns = [
           Col_Codec ''src'' (LowCardinalityColumnType ColumnTypeString) ''ZSTD(1)'',
           Col_Codec ''dest'' (LowCardinalityColumnType ColumnTypeString) ''ZSTD(1)'',
           Col_Codec ''duration_quantiles_state'' (AggregateFunction ''quantiles(0.5, 0.75, 0.9, 0.95, 0.99)'' [ColumnTypeFloat64]) ''Default'',
           Col_Codec ''error_count'' (SimpleAggregateFunction ''sum'' [ColumnTypeUInt64]) ''T64, ZSTD(1)'',
           Col_Codec ''total_count'' (SimpleAggregateFunction ''sum'' [ColumnTypeUInt64]) ''T64, ZSTD(1)'',
           Col_Codec ''timestamp'' (DateTimeColumnType '''') ''DoubleDelta, LZ4'',
           Col_Codec ''deployment_environment'' (LowCardinalityColumnType ColumnTypeString) ''ZSTD(1)'',
           Col_Codec ''k8s_cluster_name'' (LowCardinalityColumnType ColumnTypeString) ''ZSTD(1)'',
           Col_Codec ''k8s_namespace_name'' (LowCardinalityColumnType ColumnTypeString) ''ZSTD(1)''],
         ct_Indexes = [],
         ct_Projections = [],
         ct_Engine = AggregatingMergeTree
           \<lparr>Replicated = False,
            OrderBy = ''(timestamp, src, dest, deployment_environment, k8s_cluster_name, k8s_namespace_name)'',
            PrimaryKey = '''',
            PartitionBy = ''toDate(timestamp)'',
            SampleBy = '''',
            engine_TTL = ''toDateTime(timestamp) + toIntervalSecond(1296000)'',
            engine_Settings = [TableSetting ''index_granularity'' ''8192'']\<rparr>\<rparr>],
    DownItems = [
      DropTableOperation \<lparr>cluster = '''', Database = ''signoz_traces'', Table = ''dependency_graph_minutes_v2'',
         dt_Settings = []\<rparr>]\<rparr>"

definition SquashedTraces_11 :: "SchemaMigrationRecord" where
  "SquashedTraces_11 = \<lparr>
    MigrationID = 11,
    UpItems = [
      CreateMaterializedViewOperation \<lparr>cluster = '''', Database = ''signoz_traces'',
         mv_ViewName = ''dependency_graph_minutes_db_calls_mv_v2'',
         mv_DestTable = ''dependency_graph_minutes_v2'',
         mv_Columns = [
           Col_Codec ''src'' (LowCardinalityColumnType ColumnTypeString) ''ZSTD(1)'',
           Col_Codec ''dest'' (LowCardinalityColumnType ColumnTypeString) ''ZSTD(1)'',
           Col_Codec ''duration_quantiles_state'' (AggregateFunction ''quantiles(0.5, 0.75, 0.9, 0.95, 0.99)'' [ColumnTypeFloat64]) ''Default'',
           Col_Codec ''error_count'' (SimpleAggregateFunction ''sum'' [ColumnTypeUInt64]) ''T64, ZSTD(1)'',
           Col_Codec ''total_count'' (SimpleAggregateFunction ''sum'' [ColumnTypeUInt64]) ''T64, ZSTD(1)'',
           Col_Codec ''timestamp'' (DateTimeColumnType '''') ''DoubleDelta, LZ4'',
           Col_Codec ''deployment_environment'' (LowCardinalityColumnType ColumnTypeString) ''ZSTD(1)'',
           Col_Codec ''k8s_cluster_name'' (LowCardinalityColumnType ColumnTypeString) ''ZSTD(1)'',
           Col_Codec ''k8s_namespace_name'' (LowCardinalityColumnType ColumnTypeString) ''ZSTD(1)''],
         mv_Query = (text_lines [
           ''SELECT'',
           ''    serviceName AS src,'',
           ''    dbSystem AS dest,'',
           ''    quantilesState(0.5, 0.75, 0.9, 0.95, 0.99)(toFloat64(durationNano)) AS duration_quantiles_state,'',
           ''    countIf(statusCode = 2) AS error_count,'',
           ''    count(*) AS total_count,'',
           ''    toStartOfMinute(timestamp) AS timestamp,'',
           ''    resourceTagsMap['deployment.environment'] AS deployment_environment,'',
           ''    resourceTagsMap['k8s.cluster.name'] AS k8s_cluster_name,'',
           ''    resourceTagsMap['k8s.namespace.name'] AS k8s_namespace_name'',
           ''FROM signoz_traces.signoz_index_v2'',
           ''WHERE (dest != '' @ [quote] @ [quote] @ '') AND (kind != 2)'',
           ''GROUP BY'',
           ''    timestamp,'',
           ''    src,'',
           ''    dest,'',
           ''    deployment_environment,'',
           ''    k8s_cluster_name,'',
           ''    k8s_namespace_name''])\<rparr>],
    DownItems = [
      DropTableOperation \<lparr>cluster = '''', Database = ''signoz_traces'', Table = ''dependency_graph_minutes_db_calls_mv_v2'',
         dt_Settings = []\<rparr>]\<rparr>"

definition SquashedTraces_12 :: "SchemaMigrationRecord" where
  "SquashedTraces_12 = \<lparr>
    MigrationID = 12,
    UpItems = [
      CreateMaterializedViewOperation \<lparr>cluster = '''', Database = ''signoz_traces'',
         mv_ViewName = ''dependency_graph_minutes_messaging_calls_mv_v2'',
         mv_DestTable = ''dependency_graph_minutes_v2'',
         mv_Columns = [
           Col_Codec ''src'' (LowCardinalityColumnType ColumnTypeString) ''ZSTD(1)'',
           Col_Codec ''dest'' (LowCardinalityColumnType ColumnTypeString) ''ZSTD(1)'',
           Col_Codec ''duration_quantiles_state'' (AggregateFunction ''quantiles(0.5, 0.75, 0.9, 0.95, 0.99)'' [ColumnTypeFloat64]) ''Default'',
           Col_Codec ''error_count'' (SimpleAggregateFunction ''sum'' [ColumnTypeUInt64]) ''T64, ZSTD(1)'',
           Col_Codec ''total_count'' (SimpleAggregateFunction ''sum'' [ColumnTypeUInt64]) ''T64, ZSTD(1)'',
           Col_Codec ''timestamp'' (DateTimeColumnType '''') ''DoubleDelta, LZ4'',
           Col_Codec ''deployment_environment'' (LowCardinalityColumnType ColumnTypeString) ''ZSTD(1)'',
           Col_Codec ''k8s_cluster_name'' (LowCardinalityColumnType ColumnTypeString) ''ZSTD(1)'',
           Col_Codec ''k8s_namespace_name'' (LowCardinalityColumnType ColumnTypeString) ''ZSTD(1)''],
         mv_Query = (text_lines [
           ''SELECT'',
           ''    serviceName AS src,'',
           ''    msgSystem AS dest,'',
           ''    quantilesState(0.5, 0.75, 0.9, 0.95, 0.99)(toFloat64(durationNano)) AS duration_quantiles_state,'',
           ''    countIf(statusCode = 2) AS error_count,'',
           ''    count(*) AS total_count,'',
           ''    toStartOfMinute(timestamp) AS timestamp,'',
           ''    resourceTagsMap['deployment.environment'] AS deployment_environment,'',
           ''    resourceTagsMap['k8s.cluster.name'] AS k8s_cluster_name,'',
           ''    resourceTagsMap['k8s.namespace.name'] AS k8s_namespace_name'',
           ''FROM signoz_traces.signoz_index_v2'',
           ''WHERE (dest != '' @ [quote] @ [quote] @ '') AND (kind != 2)'',
           ''GROUP BY'',
           ''    timestamp,'',
           ''    src,'',
           ''    dest,'',
           ''    deployment_environment,'',
           ''    k8s_cluster_name,'',
           ''    k8s_namespace_name''])\<rparr>],
    DownItems = [
      DropTableOperation \<lparr>cluster = '''', Database = ''signoz_traces'', Table = ''dependency_graph_minutes_messaging_calls_mv_v2'',
         dt_Settings = []\<rparr>]\<rparr>"

definition SquashedTraces_13 :: "SchemaMigrationRecord" where
  "SquashedTraces_13 = \<lparr>
    MigrationID = 13,
    UpItems = [
      CreateMaterializedViewOperation \<lparr>cluster = '''', Database = ''signoz_traces'',
         mv_ViewName = ''dependency_graph_minutes_service_calls_mv_v2'',
         mv_DestTable = ''dependency_graph_minutes_v2'',
         mv_Columns = [
           Col_Codec ''src'' (LowCardinalityColumnType ColumnTypeString) ''ZSTD(1)'',
           Col_Codec ''dest'' (LowCardinalityColumnType ColumnTypeString) ''ZSTD(1)'',
           Col_Codec ''duration_quantiles_state'' (AggregateFunction ''quantiles(0.5, 0.75, 0.9, 0.95, 0.99)'' [ColumnTypeFloat64]) ''Default'',
           Col_Codec ''error_count'' (SimpleAggregateFunction ''sum'' [ColumnTypeUInt64]) ''T64, ZSTD(1)'',
           Col_Codec ''total_count'' (SimpleAggregateFunction ''sum'' [ColumnTypeUInt64]) ''T64, ZSTD(1)'',
           Col_Codec ''timestamp'' (DateTimeColumnType '''') ''DoubleDelta, LZ4'',
           Col_Codec ''deployment_environment'' (LowCardinalityColumnType ColumnTypeString) ''ZSTD(1)'',
           Col_Codec ''k8s_cluster_name'' (LowCardinalityColumnType ColumnTypeString) ''ZSTD(1)'',
           Col_Codec ''k8s_namespace_name'' (LowCardinalityColumnType ColumnTypeString) ''ZSTD(1)''],
         mv_Query = (text_lines [
           ''SELECT'',
           ''    A.serviceName AS src,'',
           ''    B.serviceName AS dest,'',
           ''    quantilesState(0.5, 0.75, 0.9, 0.95, 0.99)(toFloat64(B.durationNano)) AS duration_quantiles_state,'',
           ''    countIf(B.statusCode = 2) AS error_count,'',
           ''    count(*) AS total_count,'',
           ''    toStartOfMinute(B.timestamp) AS timestamp,'',
           ''    B.resourceTagsMap['deployment.environment'] AS deployment_environment,'',
           ''    B.resourceTagsMap['k8s.cluster.name'] AS k8s_cluster_name,'',
           ''    B.resourceTagsMap['k8s.namespace.name'] AS k8s_namespace_name'',
           ''FROM signoz_traces.signoz_index_v2 AS A, signoz_traces.signoz_index_v2 AS B'',
           ''WHERE (A.serviceName != B.serviceName) AND (A.spanID = B.parentSpanID)'',
           ''GROUP BY'',
           ''    timestamp,'',
           ''    src,'',
           ''    dest,'',
           ''    deployment_environment,'',
           ''    k8s_cluster_name,'',
           ''    k8s_namespace_name''])\<rparr>],
    DownItems = [
      DropTableOperation \<lparr>cluster = '''', Database = ''signoz_traces'', Table = ''dependency_graph_minutes_service_calls_mv_v2'',
         dt_Settings = []\<rparr>]\<rparr>"

definition SquashedTraces_14 :: "SchemaMigrationRecord" where
  "SquashedTraces_14 = \<lparr>
    MigrationID = 14,
    UpItems = [
      CreateTableOperation \<lparr>cluster = '''', Database = ''signoz_traces'', Table = ''distributed_dependency_graph_minutes_v2'',
         ct_Columns = [
           Col_Codec ''src'' (LowCardinalityColumnType ColumnTypeString) ''ZSTD(1)'',
           Col_Codec ''dest'' (LowCardinalityColumnType ColumnTypeString) ''ZSTD(1)'',
           Col_Codec ''duration_quantiles_state'' (AggregateFunction ''quantiles(0.5, 0.75, 0.9, 0.95, 0.99)'' [ColumnTypeFloat64]) ''Default'',
           Col_Codec ''error_count'' (SimpleAggregateFunction ''sum'' [ColumnTypeUInt64]) ''T64, ZSTD(1)'',
           Col_Codec ''total_count'' (SimpleAggregateFunction ''sum'' [ColumnTypeUInt64]) ''T64, ZSTD(1)'',
           Col_Codec ''timestamp'' (DateTimeColumnType '''') ''DoubleDelta, LZ4'',
           Col_Codec ''deployment_environment'' (LowCardinalityColumnType ColumnTypeString) ''ZSTD(1)'',
           Col_Codec ''k8s_cluster_name'' (LowCardinalityColumnType ColumnTypeString) ''ZSTD(1)'',
           Col_Codec ''k8s_namespace_name'' (LowCardinalityColumnType ColumnTypeString) ''ZSTD(1)''],
         ct_Indexes = [],
         ct_Projections = [],
         ct_Engine = DistributedEngine
           \<lparr>dist_Cluster = '''', dist_Database = ''signoz_traces'',
           dist_Table = ''dependency_graph_minutes_v2'',
           ShardingKey = ''cityHash64(rand())''\<rparr>\<rparr>],
    DownItems = [
      DropTableOperation \<lparr>cluster = '''', Database = ''signoz_traces'', Table = ''distributed_dependency_graph_minutes_v2'',
         dt_Settings = []\<rparr>]\<rparr>"

definition SquashedTraces_15 :: "SchemaMigrationRecord" where
  "SquashedTraces_15 = \<lparr>
    MigrationID = 15,
    UpItems = [
      CreateTableOperation \<lparr>cluster = '''', Database = ''signoz_traces'', Table = ''usage_explorer'',
         ct_Columns = [
           Col_Codec ''timestamp'' (DateTime64ColumnType 9 '''') ''DoubleDelta, LZ4'',
           Col_Codec ''service_name'' (LowCardinalityColumnType ColumnTypeString) ''ZSTD(1)'',
           Col_Codec ''count'' ColumnTypeUInt64 ''T64, ZSTD(1)''],
         ct_Indexes = [],
         ct_Projections = [],
         ct_Engine = SummingMergeTree
           \<lparr>Replicated = False,
            OrderBy = ''(timestamp, service_name)'',
            PrimaryKey = '''',
            PartitionBy = ''toDate(timestamp)'',
            SampleBy = '''',
            engine_TTL = ''toDateTime(timestamp) + toIntervalSecond(1296000)'',
            engine_Settings = [TableSetting ''index_granularity'' ''8192'', TableSetting ''ttl_only_drop_parts'' ''1'']\<rparr>\<rparr>],
    DownItems = [
      DropTableOperation \<lparr>cluster = '''', Database = ''signoz_traces'', Table = ''usage_explorer'',
         dt_Settings = []\<rparr>]\<rparr>"

definition SquashedTraces_16 :: "SchemaMigrationRecord" where
  "SquashedTraces_16 = \<lparr>
    MigrationID = 16,
    UpItems = [
      CreateMaterializedViewOperation \<lparr>cluster = '''', Database = ''signoz_traces'',
         mv_ViewName = ''usage_explorer_mv'',
         mv_DestTable = ''usage_explorer'',
         mv_Columns = [
           Col_Codec ''timestamp'' (DateTime64ColumnType 9 '''') ''DoubleDelta, LZ4'',
           Col_Codec ''service_name'' (LowCardinalityColumnType ColumnTypeString) ''ZSTD(1)'',
           Col_Codec ''count'' ColumnTypeUInt64 ''T64, ZSTD(1)''],
         mv_Query = (text_lines [
           ''SELECT'',
           ''    toStartOfHour(timestamp) AS timestamp,'',
           ''    serviceName AS service_name,'',
           ''    count() AS count'',
           ''FROM signoz_traces.signoz_index_v2'',
           ''GROUP BY'',
           ''    timestamp,'',
           ''    serviceName''])\<rparr>],
    DownItems = [
      DropTableOperation \<lparr>cluster = '''', Database = ''signoz_traces'', Table = ''usage_explorer_mv'',
         dt_Settings = []\<rparr>]\<rparr>"

definition SquashedTraces_17 :: "SchemaMigrationRecord" where
  "SquashedTraces_17 = \<lparr>
    MigrationID = 17,
    UpItems = [
      CreateTableOperation \<lparr>cluster = '''', Database = ''signoz_traces'', Table = ''distributed_usage_explorer'',
         ct_Columns = [
           Col_Codec ''timestamp'' (DateTime64ColumnType 9 '''') ''DoubleDelta, LZ4'',
           Col_Codec ''service_name'' (LowCardinalityColumnType ColumnTypeString) ''ZSTD(1)'',
           Col_Codec ''count'' ColumnTypeUInt64 ''T64, ZSTD(1)''],
         ct_Indexes = [],
         ct_Projections = [],
         ct_Engine = DistributedEngine
           \<lparr>dist_Cluster = '''', dist_Database = ''signoz_traces'',
           dist_Table = ''usage_explorer'',
           ShardingKey = ''cityHash64(rand())''\<rparr>\<rparr>],
    DownItems = [
      DropTableOperation \<lparr>cluster = '''', Database = ''signoz_traces'', Table = ''distributed_usage_explorer'',
         dt_Settings = []\<rparr>]\<rparr>"

definition SquashedTraces_18 :: "SchemaMigrationRecord" where
  "SquashedTraces_18 = \<lparr>
    MigrationID = 18,
    UpItems = [
      CreateTableOperation \<lparr>cluster = '''', Database = ''signoz_traces'', Table = ''top_level_operations'',
         ct_Columns = [
           Col_Codec ''name'' (LowCardinalityColumnType ColumnTypeString) ''ZSTD(1)'',
           Col_Codec ''serviceName'' (LowCardinalityColumnType ColumnTypeString) ''ZSTD(1)'',
           Col_Codec_Default ''time'' (DateTimeColumnType '''') ''ZSTD(1)'' ''now()''],
         ct_Indexes = [],
         ct_Projections = [],
         ct_Engine = ReplacingMergeTree
           \<lparr>Replicated = False,
            OrderBy = ''(serviceName, name)'',
            PrimaryKey = '''',
            PartitionBy = '''',
            SampleBy = '''',
            engine_TTL = ''time + toIntervalMonth(1)'',
            engine_Settings = [TableSetting ''index_granularity'' ''8192'']\<rparr>\<rparr>],
    DownItems = [
      DropTableOperation \<lparr>cluster = '''', Database = ''signoz_traces'', Table = ''top_level_operations'',
         dt_Settings = []\<rparr>]\<rparr>"

definition SquashedTraces_19 :: "SchemaMigrationRecord" where
  "SquashedTraces_19 = \<lparr>
    MigrationID = 19,
    UpItems = [
      CreateTableOperation \<lparr>cluster = '''', Database = ''signoz_traces'', Table = ''distributed_top_level_operations'',
         ct_Columns = [
           Col_Codec ''name'' (LowCardinalityColumnType ColumnTypeString) ''ZSTD(1)'',
           Col_Codec ''serviceName'' (LowCardinalityColumnType ColumnTypeString) ''ZSTD(1)'',
           Col_Codec_Default ''time'' (DateTimeColumnType '''') ''ZSTD(1)'' ''now()''],
         ct_Indexes = [],
         ct_Projections = [],
         ct_Engine = DistributedEngine
           \<lparr>dist_Cluster = '''', dist_Database = ''signoz_traces'',
           dist_Table = ''top_level_operations'',
           ShardingKey = ''cityHash64(rand())''\<rparr>\<rparr>],
    DownItems = [
      DropTableOperation \<lparr>cluster = '''', Database = ''signoz_traces'', Table = ''distributed_top_level_operations'',
         dt_Settings = []\<rparr>]\<rparr>"

definition SquashedTraces_20 :: "SchemaMigrationRecord" where
  "SquashedTraces_20 = \<lparr>
    MigrationID = 20,
    UpItems = [
      CreateMaterializedViewOperation \<lparr>cluster = '''', Database = ''signoz_traces'',
         mv_ViewName = ''root_operations'',
         mv_DestTable = ''top_level_operations'',
         mv_Columns = [
           Col_Codec ''name'' (LowCardinalityColumnType ColumnTypeString) ''ZSTD(1)'',
           Col_Codec ''serviceName'' (LowCardinalityColumnType ColumnTypeString) ''ZSTD(1)''],
         mv_Query = (text_lines [
           ''SELECT DISTINCT'',
           ''    name,'',
           ''    serviceName'',
           ''FROM signoz_traces.signoz_index_v2'',
           ''WHERE parentSpanID = '' @ [quote] @ [quote]])\<rparr>],
    DownItems = [
      DropTableOperation \<lparr>cluster = '''', Database = ''signoz_traces'', Table = ''root_operations'',
         dt_Settings = []\<rparr>]\<rparr>"

definition SquashedTraces_21 :: "SchemaMigrationRecord" where
  "SquashedTraces_21 = \<lparr>
    MigrationID = 21,
    UpItems = [
      CreateMaterializedViewOperation \<lparr>cluster = '''', Database = ''signoz_traces'',
         mv_ViewName = ''sub_root_operations'',
         mv_DestTable = ''top_level_operations'',
         mv_Columns = [
           Col_Codec ''name'' (LowCardinalityColumnType ColumnTypeString) ''ZSTD(1)'',
           Col_Codec ''serviceName'' (LowCardinalityColumnType ColumnTypeString) ''ZSTD(1)''],
         mv_Query = (text_lines [
           ''SELECT DISTINCT'',
           ''    name,'',
           ''    serviceName'',
           ''FROM signoz_traces.signoz_index_v2 AS A, signoz_traces.signoz_index_v2 AS B'',
           ''WHERE (A.serviceName != B.serviceName) AND (A.parentSpanID = B.spanID)''])\<rparr>],
    DownItems = [
      DropTableOperation \<lparr>cluster = '''', Database = ''signoz_traces'', Table = ''sub_root_operations'',
         dt_Settings = []\<rparr>]\<rparr>"

definition SquashedTraces_22 :: "SchemaMigrationRecord" where
  "SquashedTraces_22 = \<lparr>
    MigrationID = 22,
    UpItems = [
      CreateTableOperation \<lparr>cluster = '''', Database = ''signoz_traces'', Table = ''span_attributes'',
         ct_Columns = [
           Col_Codec ''timestamp'' (DateTimeColumnType '''') ''DoubleDelta, ZSTD(1)'',
           Col_Codec ''tagKey'' (LowCardinalityColumnType ColumnTypeString) ''ZSTD(1)'',
           Col_Codec ''tagType'' (EnumerationColumnType [[quote] @ ''tag' = 1'', [quote] @ ''resource' = 2''] 8) ''ZSTD(1)'',
           Col_Codec ''dataType'' (EnumerationColumnType [[quote] @ ''string' = 1'', [quote] @ ''bool' = 2'', [quote] @ ''float64' = 3''] 8) ''ZSTD(1)'',
           Col_Codec ''stringTagValue'' ColumnTypeString ''ZSTD(1)'',
           Col_Codec ''float64TagValue'' (NullableColumnType ColumnTypeFloat64) ''ZSTD(1)'',
           Col_Codec ''isColumn'' ColumnTypeBool ''ZSTD(1)''],
         ct_Indexes = [],
         ct_Projections = [],
         ct_Engine = ReplacingMergeTree
           \<lparr>Replicated = False,
            OrderBy = ''(tagKey, tagType, dataType, stringTagValue, float64TagValue, isColumn)'',
            PrimaryKey = '''',
            PartitionBy = '''',
            SampleBy = '''',
            engine_TTL = ''toDateTime(timestamp) + toIntervalSecond(172800)'',
            engine_Settings = [TableSetting ''index_granularity'' ''8192'', TableSetting ''ttl_only_drop_parts'' ''1'', TableSetting ''allow_nullable_key'' ''1'']\<rparr>\<rparr>],
    DownItems = [
      DropTableOperation \<lparr>cluster = '''', Database = ''signoz_traces'', Table = ''span_attributes'',
         dt_Settings = []\<rparr>]\<rparr>"

definition SquashedTraces_23 :: "SchemaMigrationRecord" where
  "SquashedTraces_23 = \<lparr>
    MigrationID = 23,
    UpItems = [
      CreateTableOperation \<lparr>cluster = '''', Database = ''signoz_traces'', Table = ''distributed_span_attributes'',
         ct_Columns = [
           Col_Codec ''timestamp'' (DateTimeColumnType '''') ''DoubleDelta, ZSTD(1)'',
           Col_Codec ''tagKey'' (LowCardinalityColumnType ColumnTypeString) ''ZSTD(1)'',
           Col_Codec ''tagType'' (EnumerationColumnType [[quote] @ ''tag' = 1'', [quote] @ ''resource' = 2''] 8) ''ZSTD(1)'',
           Col_Codec ''dataType'' (EnumerationColumnType [[quote] @ ''string' = 1'', [quote] @ ''bool' = 2'', [quote] @ ''float64' = 3''] 8) ''ZSTD(1)'',
           Col_Codec ''stringTagValue'' ColumnTypeString ''ZSTD(1)'',
           Col_Codec ''float64TagValue'' (NullableColumnType ColumnTypeFloat64) ''ZSTD(1)'',
           Col_Codec ''isColumn'' ColumnTypeBool ''ZSTD(1)''],
         ct_Indexes = [],
         ct_Projections = [],
         ct_Engine = DistributedEngine
           \<lparr>dist_Cluster = '''', dist_Database = ''signoz_traces'',
           dist_Table = ''span_attributes'',
           ShardingKey = ''cityHash64(rand())''\<rparr>\<rparr>],
    DownItems = [
      DropTableOperation \<lparr>cluster = '''', Database = ''signoz_traces'', Table = ''distributed_span_attributes'',
         dt_Settings = []\<rparr>]\<rparr>"

definition SquashedTraces_24 :: "SchemaMigrationRecord" where
  "SquashedTraces_24 = \<lparr>
    MigrationID = 24,
    UpItems = [
      CreateTableOperation \<lparr>cluster = '''', Database = ''signoz_traces'', Table = ''span_attributes_keys'',
         ct_Columns = [
           Col_Codec ''tagKey'' (LowCardinalityColumnType ColumnTypeString) ''ZSTD(1)'',
           Col_Codec ''tagType'' (EnumerationColumnType [[quote] @ ''tag' = 1'', [quote] @ ''resource' = 2''] 8) ''ZSTD(1)'',
           Col_Codec ''dataType'' (EnumerationColumnType [[quote] @ ''string' = 1'', [quote] @ ''bool' = 2'', [quote] @ ''float64' = 3''] 8) ''ZSTD(1)'',
           Col_Codec ''isColumn'' ColumnTypeBool ''ZSTD(1)''],
         ct_Indexes = [],
         ct_Projections = [],
         ct_Engine = ReplacingMergeTree
           \<lparr>Replicated = False,
            OrderBy = ''(tagKey, tagType, dataType, isColumn)'',
            PrimaryKey = '''',
            PartitionBy = '''',
            SampleBy = '''',
            engine_TTL = '''',
            engine_Settings = []\<rparr>\<rparr>],
    DownItems = [
      DropTableOperation \<lparr>cluster = '''', Database = ''signoz_traces'', Table = ''span_attributes_keys'',
         dt_Settings = []\<rparr>]\<rparr>"

definition SquashedTraces_25 :: "SchemaMigrationRecord" where
  "SquashedTraces_25 = \<lparr>
    MigrationID = 25,
    UpItems = [
      CreateTableOperation \<lparr>cluster = '''', Database = ''signoz_traces'', Table = ''distributed_span_attributes_keys'',
         ct_Columns = [
           Col_Codec ''tagKey'' (LowCardinalityColumnType ColumnTypeString) ''ZSTD(1)'',
           Col_Codec ''tagType'' (EnumerationColumnType [[quote] @ ''tag' = 1'', [quote] @ ''resource' = 2''] 8) ''ZSTD(1)'',
           Col_Codec ''dataType'' (EnumerationColumnType [[quote] @ ''string' = 1'', [quote] @ ''bool' = 2'', [quote] @ ''float64' = 3''] 8) ''ZSTD(1)'',
           Col_Codec ''isColumn'' ColumnTypeBool ''ZSTD(1)''],
         ct_Indexes = [],
         ct_Projections = [],
         ct_Engine = DistributedEngine
           \<lparr>dist_Cluster = '''', dist_Database = ''signoz_traces'',
           dist_Table = ''span_attributes_keys'',
           ShardingKey = ''cityHash64(rand())''\<rparr>\<rparr>],
    DownItems = [
      DropTableOperation \<lparr>cluster = '''', Database = ''signoz_traces'', Table = ''distributed_span_attributes_keys'',
         dt_Settings = []\<rparr>]\<rparr>"

definition SquashedTraces_26 :: "SchemaMigrationRecord" where
  "SquashedTraces_26 = \<lparr>
    MigrationID = 26,
    UpItems = [
      CreateTableOperation \<lparr>cluster = '''', Database = ''signoz_traces'', Table = ''usage'',
         ct_Columns = [
           Col_Codec ''tenant'' ColumnTypeString ''ZSTD(1)'',
           Col_Codec ''collector_id'' ColumnTypeString ''ZSTD(1)'',
           Col_Codec ''exporter_id'' ColumnTypeString ''ZSTD(1)'',
           Col_Codec ''timestamp'' (DateTimeColumnType '''') ''ZSTD(1)'',
           Col_Codec ''data'' ColumnTypeString ''ZSTD(1)''],
         ct_Indexes = [],
         ct_Projections = [],
         ct_Engine = MergeTreeEngine
           \<lparr>Replicated = False,
            OrderBy = ''(tenant, collector_id, exporter_id, timestamp)'',
            PrimaryKey = '''',
            PartitionBy = '''',
            SampleBy = '''',
            engine_TTL = ''timestamp + toIntervalDay(3)'',
            engine_Settings = [TableSetting ''index_granularity'' ''8192'']\<rparr>\<rparr>],
    DownItems = [
      DropTableOperation \<lparr>cluster = '''', Database = ''signoz_traces'', Table = ''usage'',
         dt_Settings = []\<rparr>]\<rparr>"

definition SquashedTraces_27 :: "SchemaMigrationRecord" where
  "SquashedTraces_27 = \<lparr>
    MigrationID = 27,
    UpItems = [
      CreateTableOperation \<lparr>cluster = '''', Database = ''signoz_traces'', Table = ''distributed_usage'',
         ct_Columns = [
           Col_Codec ''tenant'' ColumnTypeString ''ZSTD(1)'',
           Col_Codec ''collector_id'' ColumnTypeString ''ZSTD(1)'',
           Col_Codec ''exporter_id'' ColumnTypeString ''ZSTD(1)'',
           Col_Codec ''timestamp'' (DateTimeColumnType '''') ''ZSTD(1)'',
           Col_Codec ''data'' ColumnTypeString ''ZSTD(1)''],
         ct_Indexes = [],
         ct_Projections = [],
         ct_Engine = DistributedEngine
           \<lparr>dist_Cluster = '''', dist_Database = ''signoz_traces'',
           dist_Table = ''usage'',
           ShardingKey = ''cityHash64(rand())''\<rparr>\<rparr>],
    DownItems = []\<rparr>"

definition SquashedTraces_list :: "SchemaMigrationRecord list" where
  "SquashedTraces_list = [
    SquashedTraces_1, SquashedTraces_2, SquashedTraces_3, SquashedTraces_4,
    SquashedTraces_5, SquashedTraces_6, SquashedTraces_7, SquashedTraces_8,
    SquashedTraces_9, SquashedTraces_10, SquashedTraces_11, SquashedTraces_12,
    SquashedTraces_13, SquashedTraces_14, SquashedTraces_15, SquashedTraces_16,
    SquashedTraces_17, SquashedTraces_18, SquashedTraces_19, SquashedTraces_20,
    SquashedTraces_21, SquashedTraces_22, SquashedTraces_23, SquashedTraces_24,
    SquashedTraces_25, SquashedTraces_26, SquashedTraces_27]"

section \<open>\<^verbatim>\<open>traces_migrations.go\<close>\<close>

definition Traces_1000_up_1 :: "operation list" where
  "Traces_1000_up_1 = [
     CreateTableOperation \<lparr>cluster = '''', Database = ''signoz_traces'', Table = ''signoz_index_v3'',
        ct_Columns = [
          Col_Codec ''ts_bucket_start'' ColumnTypeUInt64 ''DoubleDelta, LZ4'',
          Col_Codec ''resource_fingerprint'' ColumnTypeString ''ZSTD(1)'',
          Col_Codec ''timestamp'' (DateTime64ColumnType 9 '''') ''DoubleDelta, LZ4'',
          Col_Codec ''trace_id'' (FixedStringColumnType 32) ''ZSTD(1)'',
          Col_Codec ''span_id'' ColumnTypeString ''ZSTD(1)'',
          Col_Codec ''trace_state'' ColumnTypeString ''ZSTD(1)'',
          Col_Codec ''parent_span_id'' ColumnTypeString ''ZSTD(1)'',
          Col_Codec ''flags'' ColumnTypeUInt32 ''T64, ZSTD(1)'',
          Col_Codec ''name'' (LowCardinalityColumnType ColumnTypeString) ''ZSTD(1)'',
          Col_Codec ''kind'' ColumnTypeInt8 ''T64, ZSTD(1)'',
          Col_Codec ''kind_string'' ColumnTypeString ''ZSTD(1)'',
          Col_Codec ''duration_nano'' ColumnTypeUInt64 ''T64, ZSTD(1)'',
          Col_Codec ''status_code'' ColumnTypeInt16 ''T64, ZSTD(1)'',
          Col_Codec ''status_message'' ColumnTypeString ''ZSTD(1)'',
          Col_Codec ''status_code_string'' ColumnTypeString ''ZSTD(1)'',
          Col_Codec ''attributes_string'' (MapColumnType (LowCardinalityColumnType ColumnTypeString) ColumnTypeString) ''ZSTD(1)'',
          Col_Codec ''attributes_number'' (MapColumnType (LowCardinalityColumnType ColumnTypeString) ColumnTypeFloat64) ''ZSTD(1)'',
          Col_Codec ''attributes_bool'' (MapColumnType (LowCardinalityColumnType ColumnTypeString) ColumnTypeBool) ''ZSTD(1)'',
          Col_Codec ''resources_string'' (MapColumnType (LowCardinalityColumnType ColumnTypeString) ColumnTypeString) ''ZSTD(1)'',
          Col_Codec ''events'' (ArrayColumnType ColumnTypeString) ''ZSTD(2)'',
          Col_Codec ''links'' ColumnTypeString ''ZSTD(1)'',
          Col_Codec ''response_status_code'' (LowCardinalityColumnType ColumnTypeString) ''ZSTD(1)'',
          Col_Codec ''external_http_url'' (LowCardinalityColumnType ColumnTypeString) ''ZSTD(1)'',
          Col_Codec ''http_url'' (LowCardinalityColumnType ColumnTypeString) ''ZSTD(1)'',
          Col_Codec ''external_http_method'' (LowCardinalityColumnType ColumnTypeString) ''ZSTD(1)'',
          Col_Codec ''http_method'' (LowCardinalityColumnType ColumnTypeString) ''ZSTD(1)'',
          Col_Codec ''http_host'' (LowCardinalityColumnType ColumnTypeString) ''ZSTD(1)'',
          Col_Codec ''db_name'' (LowCardinalityColumnType ColumnTypeString) ''ZSTD(1)'',
          Col_Codec ''db_operation'' (LowCardinalityColumnType ColumnTypeString) ''ZSTD(1)'',
          Col_Codec ''has_error'' ColumnTypeBool ''T64, ZSTD(1)'',
          Col_Codec ''is_remote'' (LowCardinalityColumnType ColumnTypeString) ''ZSTD(1)'',
          Col_Codec_Default ''resource_string_service$$name'' (LowCardinalityColumnType ColumnTypeString) ''ZSTD(1)'' ''resources_string['service.name']'',
          Col_Codec_Default ''attribute_string_http$$route'' (LowCardinalityColumnType ColumnTypeString) ''ZSTD(1)'' ''attributes_string['http.route']'',
          Col_Codec_Default ''attribute_string_messaging$$system'' (LowCardinalityColumnType ColumnTypeString) ''ZSTD(1)'' ''attributes_string['messaging.system']'',
          Col_Codec_Default ''attribute_string_messaging$$operation'' (LowCardinalityColumnType ColumnTypeString) ''ZSTD(1)'' ''attributes_string['messaging.operation']'',
          Col_Codec_Default ''attribute_string_db$$system'' (LowCardinalityColumnType ColumnTypeString) ''ZSTD(1)'' ''attributes_string['db.system']'',
          Col_Codec_Default ''attribute_string_rpc$$system'' (LowCardinalityColumnType ColumnTypeString) ''ZSTD(1)'' ''attributes_string['rpc.system']'',
          Col_Codec_Default ''attribute_string_rpc$$service'' (LowCardinalityColumnType ColumnTypeString) ''ZSTD(1)'' ''attributes_string['rpc.service']'',
          Col_Codec_Default ''attribute_string_rpc$$method'' (LowCardinalityColumnType ColumnTypeString) ''ZSTD(1)'' ''attributes_string['rpc.method']'',
          Col_Codec_Default ''attribute_string_peer$$service'' (LowCardinalityColumnType ColumnTypeString) ''ZSTD(1)'' ''attributes_string['peer.service']'',
          Col_Alias ''traceID'' (FixedStringColumnType 32) ''trace_id'',
          Col_Alias ''spanID'' ColumnTypeString ''span_id'',
          Col_Alias ''parentSpanID'' ColumnTypeString ''parent_span_id'',
          Col_Alias ''spanKind'' ColumnTypeString ''kind_string'',
          Col_Alias ''durationNano'' ColumnTypeUInt64 ''duration_nano'',
          Col_Alias ''statusCode'' ColumnTypeInt16 ''status_code'',
          Col_Alias ''statusMessage'' ColumnTypeString ''status_message'',
          Col_Alias ''statusCodeString'' ColumnTypeString ''status_code_string'',
          Col_Alias ''references'' ColumnTypeString ''links'',
          Col_Alias ''responseStatusCode'' (LowCardinalityColumnType ColumnTypeString) ''response_status_code'',
          Col_Alias ''externalHttpUrl'' (LowCardinalityColumnType ColumnTypeString) ''external_http_url'',
          Col_Alias ''httpUrl'' (LowCardinalityColumnType ColumnTypeString) ''http_url'',
          Col_Alias ''externalHttpMethod'' (LowCardinalityColumnType ColumnTypeString) ''external_http_method'',
          Col_Alias ''httpMethod'' (LowCardinalityColumnType ColumnTypeString) ''http_method'',
          Col_Alias ''httpHost'' (LowCardinalityColumnType ColumnTypeString) ''http_host'',
          Col_Alias ''dbName'' (LowCardinalityColumnType ColumnTypeString) ''db_name'',
          Col_Alias ''dbOperation'' (LowCardinalityColumnType ColumnTypeString) ''db_operation'',
          Col_Alias ''hasError'' ColumnTypeBool ''has_error'',
          Col_Alias ''isRemote'' (LowCardinalityColumnType ColumnTypeString) ''is_remote'',
          Col_Alias ''serviceName'' (LowCardinalityColumnType ColumnTypeString) ''resource_string_service$$name'',
          Col_Alias ''httpRoute'' (LowCardinalityColumnType ColumnTypeString) ''attribute_string_http$$route'',
          Col_Alias ''msgSystem'' (LowCardinalityColumnType ColumnTypeString) ''attribute_string_messaging$$system'',
          Col_Alias ''msgOperation'' (LowCardinalityColumnType ColumnTypeString) ''attribute_string_messaging$$operation'',
          Col_Alias ''dbSystem'' (LowCardinalityColumnType ColumnTypeString) ''attribute_string_db$$system'',
          Col_Alias ''rpcSystem'' (LowCardinalityColumnType ColumnTypeString) ''attribute_string_rpc$$system'',
          Col_Alias ''rpcService'' (LowCardinalityColumnType ColumnTypeString) ''attribute_string_rpc$$service'',
          Col_Alias ''rpcMethod'' (LowCardinalityColumnType ColumnTypeString) ''attribute_string_rpc$$method'',
          Col_Alias ''peerService'' (LowCardinalityColumnType ColumnTypeString) ''attribute_string_peer$$service''],
        ct_Indexes = [
          Index ''idx_trace_id'' ''trace_id'' ''tokenbf_v1(10000, 5,0)'' 1,
          Index ''idx_span_id'' ''span_id'' ''tokenbf_v1(5000, 5,0)'' 1,
          Index ''idx_duration'' ''duration_nano'' ''minmax'' 1,
          Index ''idx_name'' ''name'' ''ngrambf_v1(4, 5000, 2, 0)'' 1,
          Index ''idx_kind'' ''kind'' ''minmax'' 4,
          Index ''idx_http_route'' ''attribute_string_http$$route'' ''bloom_filter'' 4,
          Index ''idx_http_url'' ''http_url'' ''bloom_filter'' 4,
          Index ''idx_http_host'' ''http_host'' ''bloom_filter'' 4,
          Index ''idx_http_method'' ''http_method'' ''bloom_filter'' 4,
          Index ''idx_timestamp'' ''timestamp'' ''minmax'' 1,
          Index ''idx_rpc_method'' ''attribute_string_rpc$$method'' ''bloom_filter'' 4,
          Index ''idx_response_statusCode'' ''response_status_code'' ''set(0)'' 1,
          Index ''idx_status_code_string'' ''status_code_string'' ''set(3)'' 4,
          Index ''idx_kind_string'' ''kind_string'' ''set(5)'' 4,
          Index ''attributes_string_idx_key'' ''mapKeys(attributes_string)'' ''tokenbf_v1(1024, 2, 0)'' 1,
          Index ''attributes_string_idx_val'' ''mapValues(attributes_string)'' ''ngrambf_v1(4, 5000, 2, 0)'' 1,
          Index ''attributes_number_idx_key'' ''mapKeys(attributes_number)'' ''tokenbf_v1(1024, 2, 0)'' 1,
          Index ''attributes_number_idx_val'' ''mapValues(attributes_number)'' ''bloom_filter'' 1,
          Index ''attributes_bool_idx_key'' ''mapKeys(attributes_bool)'' ''tokenbf_v1(1024, 2, 0)'' 1,
          Index ''resources_string_idx_key'' ''mapKeys(resources_string)'' ''tokenbf_v1(1024, 2, 0)'' 1,
          Index ''resources_string_idx_val'' ''mapValues(resources_string)'' ''ngrambf_v1(4, 5000, 2, 0)'' 1],
        ct_Projections = [],
        ct_Engine = MergeTreeEngine
          \<lparr>Replicated = False,
           OrderBy = ''(ts_bucket_start, resource_fingerprint, has_error, name, timestamp)'',
           PrimaryKey = '''',
           PartitionBy = ''toDate(timestamp)'',
           SampleBy = '''',
           engine_TTL = ''toDateTime(timestamp) + toIntervalSecond(1296000)'',
           engine_Settings = [TableSetting ''index_granularity'' ''8192'', TableSetting ''ttl_only_drop_parts'' ''1'']\<rparr>\<rparr>]"

definition Traces_1000_up_2 :: "operation list" where
  "Traces_1000_up_2 = [
     CreateTableOperation \<lparr>cluster = '''', Database = ''signoz_traces'', Table = ''distributed_signoz_index_v3'',
        ct_Columns = [
          Col_Codec ''ts_bucket_start'' ColumnTypeUInt64 ''DoubleDelta, LZ4'',
          Col_Codec ''resource_fingerprint'' ColumnTypeString ''ZSTD(1)'',
          Col_Codec ''timestamp'' (DateTime64ColumnType 9 '''') ''DoubleDelta, LZ4'',
          Col_Codec ''trace_id'' (FixedStringColumnType 32) ''ZSTD(1)'',
          Col_Codec ''span_id'' ColumnTypeString ''ZSTD(1)'',
          Col_Codec ''trace_state'' ColumnTypeString ''ZSTD(1)'',
          Col_Codec ''parent_span_id'' ColumnTypeString ''ZSTD(1)'',
          Col_Codec ''flags'' ColumnTypeUInt32 ''T64, ZSTD(1)'',
          Col_Codec ''name'' (LowCardinalityColumnType ColumnTypeString) ''ZSTD(1)'',
          Col_Codec ''kind'' ColumnTypeInt8 ''T64, ZSTD(1)'',
          Col_Codec ''kind_string'' ColumnTypeString ''ZSTD(1)'',
          Col_Codec ''duration_nano'' ColumnTypeUInt64 ''T64, ZSTD(1)'',
          Col_Codec ''status_code'' ColumnTypeInt16 ''T64, ZSTD(1)'',
          Col_Codec ''status_message'' ColumnTypeString ''ZSTD(1)'',
          Col_Codec ''status_code_string'' ColumnTypeString ''ZSTD(1)'',
          Col_Codec ''attributes_string'' (MapColumnType (LowCardinalityColumnType ColumnTypeString) ColumnTypeString) ''ZSTD(1)'',
          Col_Codec ''attributes_number'' (MapColumnType (LowCardinalityColumnType ColumnTypeString) ColumnTypeFloat64) ''ZSTD(1)'',
          Col_Codec ''attributes_bool'' (MapColumnType (LowCardinalityColumnType ColumnTypeString) ColumnTypeBool) ''ZSTD(1)'',
          Col_Codec ''resources_string'' (MapColumnType (LowCardinalityColumnType ColumnTypeString) ColumnTypeString) ''ZSTD(1)'',
          Col_Codec ''events'' (ArrayColumnType ColumnTypeString) ''ZSTD(2)'',
          Col_Codec ''links'' ColumnTypeString ''ZSTD(1)'',
          Col_Codec ''response_status_code'' (LowCardinalityColumnType ColumnTypeString) ''ZSTD(1)'',
          Col_Codec ''external_http_url'' (LowCardinalityColumnType ColumnTypeString) ''ZSTD(1)'',
          Col_Codec ''http_url'' (LowCardinalityColumnType ColumnTypeString) ''ZSTD(1)'',
          Col_Codec ''external_http_method'' (LowCardinalityColumnType ColumnTypeString) ''ZSTD(1)'',
          Col_Codec ''http_method'' (LowCardinalityColumnType ColumnTypeString) ''ZSTD(1)'',
          Col_Codec ''http_host'' (LowCardinalityColumnType ColumnTypeString) ''ZSTD(1)'',
          Col_Codec ''db_name'' (LowCardinalityColumnType ColumnTypeString) ''ZSTD(1)'',
          Col_Codec ''db_operation'' (LowCardinalityColumnType ColumnTypeString) ''ZSTD(1)'',
          Col_Codec ''has_error'' ColumnTypeBool ''T64, ZSTD(1)'',
          Col_Codec ''is_remote'' (LowCardinalityColumnType ColumnTypeString) ''ZSTD(1)'',
          Col_Codec_Default ''resource_string_service$$name'' (LowCardinalityColumnType ColumnTypeString) ''ZSTD(1)'' ''resources_string['service.name']'',
          Col_Codec_Default ''attribute_string_http$$route'' (LowCardinalityColumnType ColumnTypeString) ''ZSTD(1)'' ''attributes_string['http.route']'',
          Col_Codec_Default ''attribute_string_messaging$$system'' (LowCardinalityColumnType ColumnTypeString) ''ZSTD(1)'' ''attributes_string['messaging.system']'',
          Col_Codec_Default ''attribute_string_messaging$$operation'' (LowCardinalityColumnType ColumnTypeString) ''ZSTD(1)'' ''attributes_string['messaging.operation']'',
          Col_Codec_Default ''attribute_string_db$$system'' (LowCardinalityColumnType ColumnTypeString) ''ZSTD(1)'' ''attributes_string['db.system']'',
          Col_Codec_Default ''attribute_string_rpc$$system'' (LowCardinalityColumnType ColumnTypeString) ''ZSTD(1)'' ''attributes_string['rpc.system']'',
          Col_Codec_Default ''attribute_string_rpc$$service'' (LowCardinalityColumnType ColumnTypeString) ''ZSTD(1)'' ''attributes_string['rpc.service']'',
          Col_Codec_Default ''attribute_string_rpc$$method'' (LowCardinalityColumnType ColumnTypeString) ''ZSTD(1)'' ''attributes_string['rpc.method']'',
          Col_Codec_Default ''attribute_string_peer$$service'' (LowCardinalityColumnType ColumnTypeString) ''ZSTD(1)'' ''attributes_string['peer.service']'',
          Col_Alias ''traceID'' (FixedStringColumnType 32) ''trace_id'',
          Col_Alias ''spanID'' ColumnTypeString ''span_id'',
          Col_Alias ''parentSpanID'' ColumnTypeString ''parent_span_id'',
          Col_Alias ''spanKind'' ColumnTypeString ''kind_string'',
          Col_Alias ''durationNano'' ColumnTypeUInt64 ''duration_nano'',
          Col_Alias ''statusCode'' ColumnTypeInt16 ''status_code'',
          Col_Alias ''statusMessage'' ColumnTypeString ''status_message'',
          Col_Alias ''statusCodeString'' ColumnTypeString ''status_code_string'',
          Col_Alias ''references'' ColumnTypeString ''links'',
          Col_Alias ''responseStatusCode'' (LowCardinalityColumnType ColumnTypeString) ''response_status_code'',
          Col_Alias ''externalHttpUrl'' (LowCardinalityColumnType ColumnTypeString) ''external_http_url'',
          Col_Alias ''httpUrl'' (LowCardinalityColumnType ColumnTypeString) ''http_url'',
          Col_Alias ''externalHttpMethod'' (LowCardinalityColumnType ColumnTypeString) ''external_http_method'',
          Col_Alias ''httpMethod'' (LowCardinalityColumnType ColumnTypeString) ''http_method'',
          Col_Alias ''httpHost'' (LowCardinalityColumnType ColumnTypeString) ''http_host'',
          Col_Alias ''dbName'' (LowCardinalityColumnType ColumnTypeString) ''db_name'',
          Col_Alias ''dbOperation'' (LowCardinalityColumnType ColumnTypeString) ''db_operation'',
          Col_Alias ''hasError'' ColumnTypeBool ''has_error'',
          Col_Alias ''isRemote'' (LowCardinalityColumnType ColumnTypeString) ''is_remote'',
          Col_Alias ''serviceName'' (LowCardinalityColumnType ColumnTypeString) ''resource_string_service$$name'',
          Col_Alias ''httpRoute'' (LowCardinalityColumnType ColumnTypeString) ''attribute_string_http$$route'',
          Col_Alias ''msgSystem'' (LowCardinalityColumnType ColumnTypeString) ''attribute_string_messaging$$system'',
          Col_Alias ''msgOperation'' (LowCardinalityColumnType ColumnTypeString) ''attribute_string_messaging$$operation'',
          Col_Alias ''dbSystem'' (LowCardinalityColumnType ColumnTypeString) ''attribute_string_db$$system'',
          Col_Alias ''rpcSystem'' (LowCardinalityColumnType ColumnTypeString) ''attribute_string_rpc$$system'',
          Col_Alias ''rpcService'' (LowCardinalityColumnType ColumnTypeString) ''attribute_string_rpc$$service'',
          Col_Alias ''rpcMethod'' (LowCardinalityColumnType ColumnTypeString) ''attribute_string_rpc$$method'',
          Col_Alias ''peerService'' (LowCardinalityColumnType ColumnTypeString) ''attribute_string_peer$$service''],
        ct_Indexes = [],
        ct_Projections = [],
        ct_Engine = DistributedEngine
          \<lparr>dist_Cluster = '''', dist_Database = ''signoz_traces'',
          dist_Table = ''signoz_index_v3'',
          ShardingKey = ''cityHash64(trace_id)''\<rparr>\<rparr>,
     CreateTableOperation \<lparr>cluster = '''', Database = ''signoz_traces'', Table = ''traces_v3_resource'',
        ct_Columns = [
          Col_Codec ''labels'' ColumnTypeString ''ZSTD(5)'',
          Col_Codec ''fingerprint'' ColumnTypeString ''ZSTD(1)'',
          Col_Codec ''seen_at_ts_bucket_start'' ColumnTypeInt64 ''Delta(8), ZSTD(1)''],
        ct_Indexes = [
          Index ''idx_labels'' ''lower(labels)'' ''ngrambf_v1(4, 1024, 3, 0)'' 1,
          Index ''idx_labels_v1'' ''labels'' ''ngrambf_v1(4, 1024, 3, 0)'' 1],
        ct_Projections = [],
        ct_Engine = ReplacingMergeTree
          \<lparr>Replicated = False,
           OrderBy = ''(labels, fingerprint, seen_at_ts_bucket_start)'',
           PrimaryKey = '''',
           PartitionBy = ''toDate(seen_at_ts_bucket_start)'',
           SampleBy = '''',
           engine_TTL = ''toDateTime(seen_at_ts_bucket_start) + INTERVAL 1296000 SECOND + INTERVAL 1800 SECOND DELETE'',
           engine_Settings = [TableSetting ''ttl_only_drop_parts'' ''1'', TableSetting ''index_granularity'' ''8192'']\<rparr>\<rparr>,
     CreateTableOperation \<lparr>cluster = '''', Database = ''signoz_traces'', Table = ''distributed_traces_v3_resource'',
        ct_Columns = [
          Col_Codec ''labels'' ColumnTypeString ''ZSTD(5)'',
          Col_Codec ''fingerprint'' ColumnTypeString ''ZSTD(1)'',
          Col_Codec ''seen_at_ts_bucket_start'' ColumnTypeInt64 ''Delta(8), ZSTD(1)''],
        ct_Indexes = [],
        ct_Projections = [],
        ct_Engine = DistributedEngine
          \<lparr>dist_Cluster = '''', dist_Database = ''signoz_traces'',
          dist_Table = ''traces_v3_resource'',
          ShardingKey = ''cityHash64(labels, fingerprint)''\<rparr>\<rparr>]"

definition Traces_1000_up_3 :: "operation list" where
  "Traces_1000_up_3 = [
     CreateTableOperation \<lparr>cluster = '''', Database = ''signoz_traces'', Table = ''trace_summary'',
        ct_Columns = [
          Col_Codec ''trace_id'' ColumnTypeString ''ZSTD(1)'',
          Col_Codec ''start'' (SimpleAggregateFunction ''min'' [(DateTime64ColumnType 9 '''')]) ''ZSTD(1)'',
          Col_Codec ''end'' (SimpleAggregateFunction ''max'' [(DateTime64ColumnType 9 '''')]) ''ZSTD(1)'',
          Col_Codec ''num_spans'' (SimpleAggregateFunction ''sum'' [ColumnTypeUInt64]) ''ZSTD(1)''],
        ct_Indexes = [],
        ct_Projections = [],
        ct_Engine = AggregatingMergeTree
          \<lparr>Replicated = False,
           OrderBy = ''(trace_id)'',
           PrimaryKey = '''',
           PartitionBy = ''toDate(end)'',
           SampleBy = '''',
           engine_TTL = ''toDateTime(end) + toIntervalSecond(1296000)'',
           engine_Settings = [TableSetting ''index_granularity'' ''8192'', TableSetting ''ttl_only_drop_parts'' ''1'']\<rparr>\<rparr>,
     CreateTableOperation \<lparr>cluster = '''', Database = ''signoz_traces'', Table = ''distributed_trace_summary'',
        ct_Columns = [
          Col_Codec ''trace_id'' ColumnTypeString ''ZSTD(1)'',
          Col_Codec ''start'' (SimpleAggregateFunction ''min'' [(DateTime64ColumnType 9 '''')]) ''ZSTD(1)'',
          Col_Codec ''end'' (SimpleAggregateFunction ''max'' [(DateTime64ColumnType 9 '''')]) ''ZSTD(1)'',
          Col_Codec ''num_spans'' (SimpleAggregateFunction ''sum'' [ColumnTypeUInt64]) ''ZSTD(1)''],
        ct_Indexes = [],
        ct_Projections = [],
        ct_Engine = DistributedEngine
          \<lparr>dist_Cluster = '''', dist_Database = ''signoz_traces'',
          dist_Table = ''trace_summary'',
          ShardingKey = ''cityHash64(trace_id)''\<rparr>\<rparr>,
     CreateMaterializedViewOperation \<lparr>cluster = '''', Database = ''signoz_traces'',
        mv_ViewName = ''trace_summary_mv'',
        mv_DestTable = ''trace_summary'',
        mv_Columns = [],
        mv_Query = (text_lines [
          ''SELECT'',
          indent 7 ''trace_id,'',
          indent 7 ''min(timestamp) AS start,'',
          indent 7 ''max(timestamp) AS end,'',
          indent 7 ''toUInt64(count()) AS num_spans'',
          indent 6 ''FROM signoz_traces.signoz_index_v3'',
          indent 6 ''GROUP BY trace_id;''])\<rparr>,
     ModifyQueryMaterializedViewOperation \<lparr>cluster = '''', Database = ''signoz_traces'',
        mq_ViewName = ''root_operations'',
        mq_Query = (text_lines [
          ''SELECT DISTINCT'',
          indent 7 ''name,'',
          indent 7 ''resource_string_service$$name as serviceName'',
          indent 6 ''FROM signoz_traces.signoz_index_v3'',
          indent 6 (''WHERE parent_span_id = '' @ [quote] @ [quote])])\<rparr>,
     ModifyQueryMaterializedViewOperation \<lparr>cluster = '''', Database = ''signoz_traces'',
        mq_ViewName = ''sub_root_operations'',
        mq_Query = (text_lines [
          ''SELECT DISTINCT'',
          indent 7 ''name,'',
          indent 7 ''resource_string_service$$name as serviceName'',
          indent 6 ''FROM signoz_traces.signoz_index_v3 AS A, signoz_traces.signoz_index_v3 AS B'',
          indent 6 ''WHERE (A.resource_string_service$$name != B.resource_string_service$$name) AND (A.parent_span_id = B.span_id)''])\<rparr>]"

definition Traces_1000_down :: "operation list" where
  "Traces_1000_down = [
     DropTableOperation \<lparr>cluster = '''', Database = ''signoz_traces'', Table = ''signoz_index_v3'',
        dt_Settings = []\<rparr>,
     DropTableOperation \<lparr>cluster = '''', Database = ''signoz_traces'', Table = ''distributed_signoz_index_v3'',
        dt_Settings = []\<rparr>,
     DropTableOperation \<lparr>cluster = '''', Database = ''signoz_traces'', Table = ''traces_v3_resource'',
        dt_Settings = []\<rparr>,
     DropTableOperation \<lparr>cluster = '''', Database = ''signoz_traces'', Table = ''distributed_traces_v3_resource'',
        dt_Settings = []\<rparr>,
     DropTableOperation \<lparr>cluster = '''', Database = ''signoz_traces'', Table = ''trace_summary'',
        dt_Settings = []\<rparr>,
     DropTableOperation \<lparr>cluster = '''', Database = ''signoz_traces'', Table = ''distributed_trace_summary'',
        dt_Settings = []\<rparr>,
     DropTableOperation \<lparr>cluster = '''', Database = ''signoz_traces'', Table = ''trace_summary_mv'',
        dt_Settings = []\<rparr>,
     ModifyQueryMaterializedViewOperation \<lparr>cluster = '''', Database = ''signoz_traces'',
        mq_ViewName = ''root_operations'',
        mq_Query = (text_lines [
          ''SELECT DISTINCT'',
          indent 7 ''name,'',
          indent 7 ''serviceName'',
          indent 6 ''FROM signoz_traces.signoz_index_v2'',
          indent 6 (''WHERE parentSpanID = '' @ [quote] @ [quote])])\<rparr>,
     ModifyQueryMaterializedViewOperation \<lparr>cluster = '''', Database = ''signoz_traces'',
        mq_ViewName = ''sub_root_operations'',
        mq_Query = (text_lines [
          ''SELECT DISTINCT'',
          indent 7 ''name,'',
          indent 7 ''serviceName'',
          indent 6 ''FROM signoz_traces.signoz_index_v2 AS A, signoz_traces.signoz_index_v2 AS B'',
          indent 6 ''WHERE (A.serviceName != B.serviceName) AND (A.parentSpanID = B.spanID)''])\<rparr>]"

definition Traces_1000 :: "SchemaMigrationRecord" where
  "Traces_1000 = \<lparr>
    MigrationID = 1000,
    UpItems = Traces_1000_up_1 @ Traces_1000_up_2 @ Traces_1000_up_3,
    DownItems = Traces_1000_down\<rparr>"

definition Traces_1001 :: "SchemaMigrationRecord" where
  "Traces_1001 = \<lparr>
    MigrationID = 1001,
    UpItems = [
      DropTableOperation \<lparr>cluster = '''', Database = ''signoz_traces'', Table = ''durationSortMV'',
         dt_Settings = []\<rparr>,
      DropTableOperation \<lparr>cluster = '''', Database = ''signoz_traces'', Table = ''distributed_durationSort'',
         dt_Settings = []\<rparr>],
    DownItems = []\<rparr>"

definition Traces_1002 :: "SchemaMigrationRecord" where
  "Traces_1002 = \<lparr>
    MigrationID = 1002,
    UpItems = [
      ModifyQueryMaterializedViewOperation \<lparr>cluster = '''', Database = ''signoz_traces'',
         mq_ViewName = ''dependency_graph_minutes_db_calls_mv_v2'',
         mq_Query = (text_lines [
           ''SELECT'',
           indent 7 ''resource_string_service$$name AS src,'',
           indent 7 ''attribute_string_db$$system AS dest,'',
           indent 7 ''quantilesState(0.5, 0.75, 0.9, 0.95, 0.99)(toFloat64(duration_nano)) AS duration_quantiles_state,'',
           indent 7 ''countIf(status_code = 2) AS error_count,'',
           indent 7 ''count(*) AS total_count,'',
           indent 7 ''toStartOfMinute(timestamp) AS timestamp,'',
           indent 7 ''resources_string['deployment.environment'] AS deployment_environment,'',
           indent 7 ''resources_string['k8s.cluster.name'] AS k8s_cluster_name,'',
           indent 7 ''resources_string['k8s.namespace.name'] AS k8s_namespace_name'',
           indent 6 ''FROM signoz_traces.signoz_index_v3'',
           indent 6 (''WHERE (dest != '' @ [quote] @ [quote] @ '') AND (kind != 2)''),
           indent 6 ''GROUP BY'',
           indent 7 ''timestamp,'',
           indent 7 ''src,'',
           indent 7 ''dest,'',
           indent 7 ''deployment_environment,'',
           indent 7 ''k8s_cluster_name,'',
           indent 7 ''k8s_namespace_name''])\<rparr>,
      ModifyQueryMaterializedViewOperation \<lparr>cluster = '''', Database = ''signoz_traces'',
         mq_ViewName = ''dependency_graph_minutes_messaging_calls_mv_v2'',
         mq_Query = (text_lines [
           ''SELECT'',
           indent 7 ''resource_string_service$$name  AS src,'',
           indent 7 ''attribute_string_messaging$$system AS dest,'',
           indent 7 ''quantilesState(0.5, 0.75, 0.9, 0.95, 0.99)(toFloat64(duration_nano)) AS duration_quantiles_state,'',
           indent 7 ''countIf(status_code = 2) AS error_count,'',
           indent 7 ''count(*) AS total_count,'',
           indent 7 ''toStartOfMinute(timestamp) AS timestamp,'',
           indent 7 ''resources_string['deployment.environment'] AS deployment_environment,'',
           indent 7 ''resources_string['k8s.cluster.name'] AS k8s_cluster_name,'',
           indent 7 ''resources_string['k8s.namespace.name'] AS k8s_namespace_name'',
           indent 6 ''FROM signoz_traces.signoz_index_v3'',
           indent 6 (''WHERE (dest != '' @ [quote] @ [quote] @ '') AND (kind != 2)''),
           indent 6 ''GROUP BY'',
           indent 7 ''timestamp,'',
           indent 7 ''src,'',
           indent 7 ''dest,'',
           indent 7 ''deployment_environment,'',
           indent 7 ''k8s_cluster_name,'',
           indent 7 ''k8s_namespace_name''])\<rparr>,
      ModifyQueryMaterializedViewOperation \<lparr>cluster = '''', Database = ''signoz_traces'',
         mq_ViewName = ''dependency_graph_minutes_service_calls_mv_v2'',
         mq_Query = (text_lines [
           ''SELECT'',
           indent 7 ''A.resource_string_service$$name AS src,'',
           indent 7 ''B.resource_string_service$$name AS dest,'',
           indent 7 ''quantilesState(0.5, 0.75, 0.9, 0.95, 0.99)(toFloat64(B.duration_nano)) AS duration_quantiles_state,'',
           indent 7 ''countIf(B.status_code = 2) AS error_count,'',
           indent 7 ''count(*) AS total_count,'',
           indent 7 ''toStartOfMinute(B.timestamp) AS timestamp,'',
           indent 7 ''B.resources_string['deployment.environment'] AS deployment_environment,'',
           indent 7 ''B.resources_string['k8s.cluster.name'] AS k8s_cluster_name,'',
           indent 7 ''B.resources_string['k8s.namespace.name'] AS k8s_namespace_name'',
           indent 6 ''FROM signoz_traces.signoz_index_v3 AS A, signoz_traces.signoz_index_v3 AS B'',
           indent 6 ''WHERE (A.resource_string_service$$name != B.resource_string_service$$name) AND (A.span_id = B.parent_span_id)'',
           indent 6 ''GROUP BY'',
           indent 7 ''timestamp,'',
           indent 7 ''src,'',
           indent 7 ''dest,'',
           indent 7 ''deployment_environment,'',
           indent 7 ''k8s_cluster_name,'',
           indent 7 ''k8s_namespace_name''])\<rparr>],
    DownItems = []\<rparr>"

definition Traces_1003 :: "SchemaMigrationRecord" where
  "Traces_1003 = \<lparr>
    MigrationID = 1003,
    UpItems = [
      DropTableOperation \<lparr>cluster = '''', Database = ''signoz_traces'', Table = ''dependency_graph_minutes_db_calls_mv'',
         dt_Settings = []\<rparr>,
      DropTableOperation \<lparr>cluster = '''', Database = ''signoz_traces'', Table = ''dependency_graph_minutes_messaging_calls_mv'',
         dt_Settings = []\<rparr>,
      DropTableOperation \<lparr>cluster = '''', Database = ''signoz_traces'', Table = ''dependency_graph_minutes_service_calls_mv'',
         dt_Settings = []\<rparr>,
      DropTableOperation \<lparr>cluster = '''', Database = ''signoz_traces'', Table = ''distributed_dependency_graph_minutes'',
         dt_Settings = []\<rparr>],
    DownItems = []\<rparr>"

definition Traces_1004 :: "SchemaMigrationRecord" where
  "Traces_1004 = \<lparr>
    MigrationID = 1004,
    UpItems = [
      CreateTableOperation \<lparr>cluster = '''', Database = ''signoz_traces'', Table = ''tag_attributes_v2'',
         ct_Columns = [
           Col_Codec ''unix_milli'' ColumnTypeInt64 ''Delta(8), ZSTD(1)'',
           Col_Codec ''tag_key'' ColumnTypeString ''ZSTD(1)'',
           Col_Codec ''tag_type'' (LowCardinalityColumnType ColumnTypeString) ''ZSTD(1)'',
           Col_Codec ''tag_data_type'' (LowCardinalityColumnType ColumnTypeString) ''ZSTD(1)'',
           Col_Codec ''string_value'' ColumnTypeString ''ZSTD(1)'',
           Col_Codec ''number_value'' (NullableColumnType ColumnTypeFloat64) ''ZSTD(1)''],
         ct_Indexes = [
           Index ''string_value_index'' ''string_value'' ''ngrambf_v1(4, 1024, 3, 0)'' 1,
           Index ''number_value_index'' ''number_value'' ''minmax'' 1],
         ct_Projections = [],
         ct_Engine = ReplacingMergeTree
           \<lparr>Replicated = False,
            OrderBy = ''(tag_key, tag_type, tag_data_type, string_value, number_value)'',
            PrimaryKey = '''',
            PartitionBy = ''toDate(unix_milli / 1000)'',
            SampleBy = '''',
            engine_TTL = ''toDateTime(unix_milli / 1000) + toIntervalSecond(1296000)'',
            engine_Settings = [TableSetting ''index_granularity'' ''8192'', TableSetting ''ttl_only_drop_parts'' ''1'', TableSetting ''allow_nullable_key'' ''1'']\<rparr>\<rparr>,
      CreateTableOperation \<lparr>cluster = '''', Database = ''signoz_traces'', Table = ''distributed_tag_attributes_v2'',
         ct_Columns = [
           Col_Codec ''unix_milli'' ColumnTypeInt64 ''Delta(8), ZSTD(1)'',
           Col_Codec ''tag_key'' ColumnTypeString ''ZSTD(1)'',
           Col_Codec ''tag_type'' (LowCardinalityColumnType ColumnTypeString) ''ZSTD(1)'',
           Col_Codec ''tag_data_type'' (LowCardinalityColumnType ColumnTypeString) ''ZSTD(1)'',
           Col_Codec ''string_value'' ColumnTypeString ''ZSTD(1)'',
           Col_Codec ''number_value'' (NullableColumnType ColumnTypeFloat64) ''ZSTD(1)''],
         ct_Indexes = [],
         ct_Projections = [],
         ct_Engine = DistributedEngine
           \<lparr>dist_Cluster = '''', dist_Database = ''signoz_traces'',
           dist_Table = ''tag_attributes_v2'',
           ShardingKey = ''cityHash64(rand())''\<rparr>\<rparr>],
    DownItems = []\<rparr>"

definition Traces_1005_up_1 :: "operation list" where
  "Traces_1005_up_1 = [
     AlterTableAddColumn \<lparr>cluster = '''', Database = ''signoz_traces'', Table = ''signoz_index_v3'',
        ac_Column = Col_Codec_Default ''resource_string_service$$name_exists'' ColumnTypeBool ''ZSTD(1)'' ''if(mapContains(resources_string, 'service.name') != 0, true, false)'',
        ac_After = None\<rparr>,
     AlterTableAddColumn \<lparr>cluster = '''', Database = ''signoz_traces'', Table = ''signoz_index_v3'',
        ac_Column = Col_Codec_Default ''attribute_string_http$$route_exists'' ColumnTypeBool ''ZSTD(1)'' ''if(mapContains(attributes_string, 'http.route') != 0, true, false)'',
        ac_After = None\<rparr>,
     AlterTableAddColumn \<lparr>cluster = '''', Database = ''signoz_traces'', Table = ''signoz_index_v3'',
        ac_Column = Col_Codec_Default ''attribute_string_messaging$$system_exists'' ColumnTypeBool ''ZSTD(1)'' ''if(mapContains(attributes_string, 'messaging.system') != 0, true, false)'',
        ac_After = None\<rparr>,
     AlterTableAddColumn \<lparr>cluster = '''', Database = ''signoz_traces'', Table = ''signoz_index_v3'',
        ac_Column = Col_Codec_Default ''attribute_string_messaging$$operation_exists'' ColumnTypeBool ''ZSTD(1)'' ''if(mapContains(attributes_string, 'messaging.operation') != 0, true, false)'',
        ac_After = None\<rparr>,
     AlterTableAddColumn \<lparr>cluster = '''', Database = ''signoz_traces'', Table = ''signoz_index_v3'',
        ac_Column = Col_Codec_Default ''attribute_string_db$$system_exists'' ColumnTypeBool ''ZSTD(1)'' ''if(mapContains(attributes_string, 'db.system') != 0, true, false)'',
        ac_After = None\<rparr>,
     AlterTableAddColumn \<lparr>cluster = '''', Database = ''signoz_traces'', Table = ''signoz_index_v3'',
        ac_Column = Col_Codec_Default ''attribute_string_rpc$$system_exists'' ColumnTypeBool ''ZSTD(1)'' ''if(mapContains(attributes_string, 'rpc.system') != 0, true, false)'',
        ac_After = None\<rparr>,
     AlterTableAddColumn \<lparr>cluster = '''', Database = ''signoz_traces'', Table = ''signoz_index_v3'',
        ac_Column = Col_Codec_Default ''attribute_string_rpc$$service_exists'' ColumnTypeBool ''ZSTD(1)'' ''if(mapContains(attributes_string, 'rpc.service') != 0, true, false)'',
        ac_After = None\<rparr>,
     AlterTableAddColumn \<lparr>cluster = '''', Database = ''signoz_traces'', Table = ''signoz_index_v3'',
        ac_Column = Col_Codec_Default ''attribute_string_rpc$$method_exists'' ColumnTypeBool ''ZSTD(1)'' ''if(mapContains(attributes_string, 'rpc.method') != 0, true, false)'',
        ac_After = None\<rparr>,
     AlterTableAddColumn \<lparr>cluster = '''', Database = ''signoz_traces'', Table = ''signoz_index_v3'',
        ac_Column = Col_Codec_Default ''attribute_string_peer$$service_exists'' ColumnTypeBool ''ZSTD(1)'' ''if(mapContains(attributes_string, 'peer.service') != 0, true, false)'',
        ac_After = None\<rparr>,
     AlterTableAddColumn \<lparr>cluster = '''', Database = ''signoz_traces'', Table = ''distributed_signoz_index_v3'',
        ac_Column = Col_Codec_Default ''resource_string_service$$name_exists'' ColumnTypeBool ''ZSTD(1)'' ''if(mapContains(resources_string, 'service.name') != 0, true, false)'',
        ac_After = None\<rparr>,
     AlterTableAddColumn \<lparr>cluster = '''', Database = ''signoz_traces'', Table = ''distributed_signoz_index_v3'',
        ac_Column = Col_Codec_Default ''attribute_string_http$$route_exists'' ColumnTypeBool ''ZSTD(1)'' ''if(mapContains(attributes_string, 'http.route') != 0, true, false)'',
        ac_After = None\<rparr>,
     AlterTableAddColumn \<lparr>cluster = '''', Database = ''signoz_traces'', Table = ''distributed_signoz_index_v3'',
        ac_Column = Col_Codec_Default ''attribute_string_messaging$$system_exists'' ColumnTypeBool ''ZSTD(1)'' ''if(mapContains(attributes_string, 'messaging.system') != 0, true, false)'',
        ac_After = None\<rparr>,
     AlterTableAddColumn \<lparr>cluster = '''', Database = ''signoz_traces'', Table = ''distributed_signoz_index_v3'',
        ac_Column = Col_Codec_Default ''attribute_string_messaging$$operation_exists'' ColumnTypeBool ''ZSTD(1)'' ''if(mapContains(attributes_string, 'messaging.operation') != 0, true, false)'',
        ac_After = None\<rparr>,
     AlterTableAddColumn \<lparr>cluster = '''', Database = ''signoz_traces'', Table = ''distributed_signoz_index_v3'',
        ac_Column = Col_Codec_Default ''attribute_string_db$$system_exists'' ColumnTypeBool ''ZSTD(1)'' ''if(mapContains(attributes_string, 'db.system') != 0, true, false)'',
        ac_After = None\<rparr>]"

definition Traces_1005_up_2 :: "operation list" where
  "Traces_1005_up_2 = [
     AlterTableAddColumn \<lparr>cluster = '''', Database = ''signoz_traces'', Table = ''distributed_signoz_index_v3'',
        ac_Column = Col_Codec_Default ''attribute_string_rpc$$system_exists'' ColumnTypeBool ''ZSTD(1)'' ''if(mapContains(attributes_string, 'rpc.system') != 0, true, false)'',
        ac_After = None\<rparr>,
     AlterTableAddColumn \<lparr>cluster = '''', Database = ''signoz_traces'', Table = ''distributed_signoz_index_v3'',
        ac_Column = Col_Codec_Default ''attribute_string_rpc$$service_exists'' ColumnTypeBool ''ZSTD(1)'' ''if(mapContains(attributes_string, 'rpc.service') != 0, true, false)'',
        ac_After = None\<rparr>,
     AlterTableAddColumn \<lparr>cluster = '''', Database = ''signoz_traces'', Table = ''distributed_signoz_index_v3'',
        ac_Column = Col_Codec_Default ''attribute_string_rpc$$method_exists'' ColumnTypeBool ''ZSTD(1)'' ''if(mapContains(attributes_string, 'rpc.method') != 0, true, false)'',
        ac_After = None\<rparr>,
     AlterTableAddColumn \<lparr>cluster = '''', Database = ''signoz_traces'', Table = ''distributed_signoz_index_v3'',
        ac_Column = Col_Codec_Default ''attribute_string_peer$$service_exists'' ColumnTypeBool ''ZSTD(1)'' ''if(mapContains(attributes_string, 'peer.service') != 0, true, false)'',
        ac_After = None\<rparr>]"

definition Traces_1005_down :: "operation list" where
  "Traces_1005_down = [
     AlterTableDropColumn \<lparr>cluster = '''', Database = ''signoz_traces'', Table = ''distributed_signoz_index_v3'',
        dc_Column = Col_Name ''resource_string_service$$name_exists''\<rparr>,
     AlterTableDropColumn \<lparr>cluster = '''', Database = ''signoz_traces'', Table = ''distributed_signoz_index_v3'',
        dc_Column = Col_Name ''attribute_string_http$$route_exists''\<rparr>,
     AlterTableDropColumn \<lparr>cluster = '''', Database = ''signoz_traces'', Table = ''distributed_signoz_index_v3'',
        dc_Column = Col_Name ''attribute_string_messaging$$system_exists''\<rparr>,
     AlterTableDropColumn \<lparr>cluster = '''', Database = ''signoz_traces'', Table = ''distributed_signoz_index_v3'',
        dc_Column = Col_Name ''attribute_string_messaging$$operation_exists''\<rparr>,
     AlterTableDropColumn \<lparr>cluster = '''', Database = ''signoz_traces'', Table = ''distributed_signoz_index_v3'',
        dc_Column = Col_Name ''attribute_string_db$$system_exists''\<rparr>,
     AlterTableDropColumn \<lparr>cluster = '''', Database = ''signoz_traces'', Table = ''distributed_signoz_index_v3'',
        dc_Column = Col_Name ''attribute_string_rpc$$system_exists''\<rparr>,
     AlterTableDropColumn \<lparr>cluster = '''', Database = ''signoz_traces'', Table = ''distributed_signoz_index_v3'',
        dc_Column = Col_Name ''attribute_string_rpc$$service_exists''\<rparr>,
     AlterTableDropColumn \<lparr>cluster = '''', Database = ''signoz_traces'', Table = ''distributed_signoz_index_v3'',
        dc_Column = Col_Name ''attribute_string_rpc$$method_exists''\<rparr>,
     AlterTableDropColumn \<lparr>cluster = '''', Database = ''signoz_traces'', Table = ''distributed_signoz_index_v3'',
        dc_Column = Col_Name ''attribute_string_peer$$service_exists''\<rparr>,
     AlterTableDropColumn \<lparr>cluster = '''', Database = ''signoz_traces'', Table = ''signoz_index_v3'',
        dc_Column = Col_Name ''resource_string_service$$name_exists''\<rparr>,
     AlterTableDropColumn \<lparr>cluster = '''', Database = ''signoz_traces'', Table = ''signoz_index_v3'',
        dc_Column = Col_Name ''attribute_string_http$$route_exists''\<rparr>,
     AlterTableDropColumn \<lparr>cluster = '''', Database = ''signoz_traces'', Table = ''signoz_index_v3'',
        dc_Column = Col_Name ''attribute_string_messaging$$system_exists''\<rparr>,
     AlterTableDropColumn \<lparr>cluster = '''', Database = ''signoz_traces'', Table = ''signoz_index_v3'',
        dc_Column = Col_Name ''attribute_string_messaging$$operation_exists''\<rparr>,
     AlterTableDropColumn \<lparr>cluster = '''', Database = ''signoz_traces'', Table = ''signoz_index_v3'',
        dc_Column = Col_Name ''attribute_string_db$$system_exists''\<rparr>,
     AlterTableDropColumn \<lparr>cluster = '''', Database = ''signoz_traces'', Table = ''signoz_index_v3'',
        dc_Column = Col_Name ''attribute_string_rpc$$system_exists''\<rparr>,
     AlterTableDropColumn \<lparr>cluster = '''', Database = ''signoz_traces'', Table = ''signoz_index_v3'',
        dc_Column = Col_Name ''attribute_string_rpc$$service_exists''\<rparr>,
     AlterTableDropColumn \<lparr>cluster = '''', Database = ''signoz_traces'', Table = ''signoz_index_v3'',
        dc_Column = Col_Name ''attribute_string_rpc$$method_exists''\<rparr>,
     AlterTableDropColumn \<lparr>cluster = '''', Database = ''signoz_traces'', Table = ''signoz_index_v3'',
        dc_Column = Col_Name ''attribute_string_peer$$service_exists''\<rparr>]"

definition Traces_1005 :: "SchemaMigrationRecord" where
  "Traces_1005 = \<lparr>
    MigrationID = 1005,
    UpItems = Traces_1005_up_1 @ Traces_1005_up_2,
    DownItems = Traces_1005_down\<rparr>"

definition Traces_1006 :: "SchemaMigrationRecord" where
  "Traces_1006 = \<lparr>
    MigrationID = 1006,
    UpItems = [
      AlterTableAddColumn \<lparr>cluster = '''', Database = ''signoz_traces'', Table = ''signoz_index_v3'',
         ac_Column = Col_Codec ''resource'' (JSONColumnType (Some 100) None []) ''ZSTD(1)'',
         ac_After = None\<rparr>,
      AlterTableAddColumn \<lparr>cluster = '''', Database = ''signoz_traces'', Table = ''distributed_signoz_index_v3'',
         ac_Column = Col_Codec ''resource'' (JSONColumnType (Some 100) None []) ''ZSTD(1)'',
         ac_After = None\<rparr>],
    DownItems = [
      AlterTableDropColumn \<lparr>cluster = '''', Database = ''signoz_traces'', Table = ''distributed_signoz_index_v3'',
         dc_Column = Col_Name ''resource''\<rparr>,
      AlterTableDropColumn \<lparr>cluster = '''', Database = ''signoz_traces'', Table = ''signoz_index_v3'',
         dc_Column = Col_Name ''resource''\<rparr>]\<rparr>"

definition Traces_1007 :: "SchemaMigrationRecord" where
  "Traces_1007 = \<lparr>
    MigrationID = 1007,
    UpItems = [
      ModifyQueryMaterializedViewOperation \<lparr>cluster = '''', Database = ''signoz_traces'',
         mq_ViewName = ''dependency_graph_minutes_service_calls_mv_v2'',
         mq_Query = (text_lines [
           ''SELECT'',
           indent 7 ''A.resource_string_service$$name AS src,'',
           indent 7 ''B.resource_string_service$$name AS dest,'',
           indent 7 ''quantilesState(0.5, 0.75, 0.9, 0.95, 0.99)(toFloat64(B.duration_nano)) AS duration_quantiles_state,'',
           indent 7 ''countIf(B.status_code = 2) AS error_count,'',
           indent 7 ''count(*) AS total_count,'',
           indent 7 ''toStartOfMinute(B.timestamp) AS timestamp,'',
           indent 7 ''B.resources_string['deployment.environment'] AS deployment_environment,'',
           indent 7 ''B.resources_string['k8s.cluster.name'] AS k8s_cluster_name,'',
           indent 7 ''B.resources_string['k8s.namespace.name'] AS k8s_namespace_name'',
           indent 6 ''FROM signoz_traces.signoz_index_v3 AS A, signoz_traces.signoz_index_v3 AS B'',
           indent 6 ''WHERE (A.resource_string_service$$name != B.resource_string_service$$name) AND (A.span_id = B.parent_span_id)'',
           indent 7 (''AND B.span_id != '' @ [quote] @ [quote] @ '' AND A.span_id != '' @ [quote] @ [quote]),
           indent 6 ''GROUP BY'',
           indent 7 ''timestamp,'',
           indent 7 ''src,'',
           indent 7 ''dest,'',
           indent 7 ''deployment_environment,'',
           indent 7 ''k8s_cluster_name,'',
           indent 7 ''k8s_namespace_name;''])\<rparr>,
      ModifyQueryMaterializedViewOperation \<lparr>cluster = '''', Database = ''signoz_traces'',
         mq_ViewName = ''sub_root_operations'',
         mq_Query = (text_lines [
           ''SELECT DISTINCT'',
           indent 7 ''name,'',
           indent 7 ''resource_string_service$$name AS serviceName'',
           indent 6 ''FROM signoz_traces.signoz_index_v3 AS A, signoz_traces.signoz_index_v3 AS B'',
           indent 6 (''WHERE (A.resource_string_service$$name != B.resource_string_service$$name) AND (A.parent_span_id = B.span_id) AND B.span_id != '' @ [quote] @ [quote] @ '' AND A.span_id != '' @ [quote] @ [quote])])\<rparr>],
    DownItems = [
      ModifyQueryMaterializedViewOperation \<lparr>cluster = '''', Database = ''signoz_traces'',
         mq_ViewName = ''dependency_graph_minutes_service_calls_mv_v2'',
         mq_Query = (text_lines [
           ''SELECT'',
           indent 7 ''A.resource_string_service$$name AS src,'',
           indent 7 ''B.resource_string_service$$name AS dest,'',
           indent 7 ''quantilesState(0.5, 0.75, 0.9, 0.95, 0.99)(toFloat64(B.duration_nano)) AS duration_quantiles_state,'',
           indent 7 ''countIf(B.status_code = 2) AS error_count,'',
           indent 7 ''count(*) AS total_count,'',
           indent 7 ''toStartOfMinute(B.timestamp) AS timestamp,'',
           indent 7 ''B.resources_string['deployment.environment'] AS deployment_environment,'',
           indent 7 ''B.resources_string['k8s.cluster.name'] AS k8s_cluster_name,'',
           indent 7 ''B.resources_string['k8s.namespace.name'] AS k8s_namespace_name'',
           indent 6 ''FROM signoz_traces.signoz_index_v3 AS A, signoz_traces.signoz_index_v3 AS B'',
           indent 6 ''WHERE (A.resource_string_service$$name != B.resource_string_service$$name) AND (A.span_id = B.parent_span_id)'',
           indent 6 ''GROUP BY'',
           indent 7 ''timestamp,'',
           indent 7 ''src,'',
           indent 7 ''dest,'',
           indent 7 ''deployment_environment,'',
           indent 7 ''k8s_cluster_name,'',
           indent 7 ''k8s_namespace_name;''])\<rparr>,
      ModifyQueryMaterializedViewOperation \<lparr>cluster = '''', Database = ''signoz_traces'',
         mq_ViewName = ''sub_root_operations'',
         mq_Query = (text_lines [
           ''SELECT DISTINCT'',
           indent 7 ''name,'',
           indent 7 ''resource_string_service$$name AS serviceName'',
           indent 6 ''FROM signoz_traces.signoz_index_v3 AS A, signoz_traces.signoz_index_v3 AS B'',
           indent 6 ''WHERE (A.resource_string_service$$name != B.resource_string_service$$name) AND (A.parent_span_id = B.span_id)''])\<rparr>]\<rparr>"

definition Traces_1008 :: "SchemaMigrationRecord" where
  "Traces_1008 = \<lparr>
    MigrationID = 1008,
    UpItems = [
      AlterTableAddColumn \<lparr>cluster = '''', Database = ''signoz_traces'', Table = ''span_attributes_keys'',
         ac_Column = Col_Default ''timestamp'' (DateTimeColumnType '''') ''toDateTime(now())'',
         ac_After = None\<rparr>,
      AlterTableModifyTTL \<lparr>cluster = '''', Database = ''signoz_traces'', Table = ''span_attributes_keys'',
         mt_TTL = ''timestamp + INTERVAL 15 DAY'',
         MaterializeTTLAfterModify = False\<rparr>],
    DownItems = [
      AlterTableDropColumn \<lparr>cluster = '''', Database = ''signoz_traces'', Table = ''span_attributes_keys'',
         dc_Column = Col_Name ''timestamp''\<rparr>,
      AlterTableDropTTL \<lparr>cluster = '''', Database = ''signoz_traces'', Table = ''span_attributes_keys''\<rparr>]\<rparr>"

definition Traces_list :: "SchemaMigrationRecord list" where
  "Traces_list = [
    Traces_1000, Traces_1001, Traces_1002, Traces_1003, Traces_1004, Traces_1005,
    Traces_1006, Traces_1007, Traces_1008]"

end
