(* ===== verification/MigrationsMetrics.thy ===== *)
theory MigrationsMetrics
  imports MigrationTerms
begin

text \<open>
  The lists of migrations of the database of the metrics,
  one definition per migration (or per part of one, where it is long).
\<close>

section \<open>\<^verbatim>\<open>squashed_metrics_migrations.go\<close>\<close>

definition SquashedMetrics_1 :: "SchemaMigrationRecord" where
  "SquashedMetrics_1 = \<lparr>
    MigrationID = 1,
    UpItems = [
      CreateTableOperation \<lparr>cluster = '''', Database = ''signoz_metrics'', Table = ''samples_v2'',
         ct_Columns = [
           Col ''metric_name'' (LowCardinalityColumnType ColumnTypeString),
           Col_Codec ''fingerprint'' ColumnTypeUInt64 ''ZSTD(1)'',
           Col_Codec ''timestamp_ms'' ColumnTypeInt64 ''DoubleDelta, LZ4'',
           Col_Codec ''value'' ColumnTypeFloat64 ''Gorilla, LZ4''],
         ct_Indexes = [],
         ct_Projections = [],
         ct_Engine = MergeTreeEngine
           \<lparr>Replicated = False,
            OrderBy = ''(metric_name, fingerprint, timestamp_ms)'',
            PrimaryKey = '''',
            PartitionBy = ''toDate(timestamp_ms / 1000)'',
            SampleBy = '''',
            engine_TTL = ''toDateTime(timestamp_ms / 1000) + toIntervalSecond(2592000)'',
            engine_Settings = [TableSetting ''index_granularity'' ''8192'', TableSetting ''ttl_only_drop_parts'' ''1'']\<rparr>\<rparr>],
    DownItems = [
      DropTableOperation \<lparr>cluster = '''', Database = ''signoz_metrics'', Table = ''samples_v2'',
         dt_Settings = []\<rparr>]\<rparr>"

definition SquashedMetrics_2 :: "SchemaMigrationRecord" where
  "SquashedMetrics_2 = \<lparr>
    MigrationID = 2,
    UpItems = [
      CreateTableOperation \<lparr>cluster = '''', Database = ''signoz_metrics'', Table = ''distributed_samples_v2'',
         ct_Columns = [
           Col ''metric_name'' (LowCardinalityColumnType ColumnTypeString),
           Col_Codec ''fingerprint'' ColumnTypeUInt64 ''ZSTD(1)'',
           Col_Codec ''timestamp_ms'' ColumnTypeInt64 ''DoubleDelta, LZ4'',
           Col_Codec ''value'' ColumnTypeFloat64 ''Gorilla, LZ4''],
         ct_Indexes = [],
         ct_Projections = [],
         ct_Engine = DistributedEngine
           \<lparr>dist_Cluster = '''', dist_Database = ''signoz_metrics'',
           dist_Table = ''samples_v2'',
           ShardingKey = ''cityHash64(metric_name, fingerprint)''\<rparr>\<rparr>],
    DownItems = [
      DropTableOperation \<lparr>cluster = '''', Database = ''signoz_metrics'', Table = ''distributed_samples_v2'',
         dt_Settings = []\<rparr>]\<rparr>"

definition SquashedMetrics_3 :: "SchemaMigrationRecord" where
  "SquashedMetrics_3 = \<lparr>
    MigrationID = 3,
    UpItems = [
      CreateTableOperation \<lparr>cluster = '''', Database = ''signoz_metrics'', Table = ''time_series_v2'',
         ct_Columns = [
           Col ''metric_name'' (LowCardinalityColumnType ColumnTypeString),
           Col_Codec ''fingerprint'' ColumnTypeUInt64 ''ZSTD(1)'',
           Col_Codec ''timestamp_ms'' ColumnTypeInt64 ''DoubleDelta, LZ4'',
           Col_Codec ''labels'' ColumnTypeString ''ZSTD(5)'',
           Col_Codec_Default ''temporality'' (LowCardinalityColumnType ColumnTypeString) ''ZSTD(5)'' ([quote] @ ''Unspecified'' @ [quote]),
           Col_Codec_Default ''description'' (LowCardinalityColumnType ColumnTypeString) ''ZSTD(1)'' ([quote] @ [quote]),
           Col_Codec_Default ''unit'' (LowCardinalityColumnType ColumnTypeString) ''ZSTD(1)'' ([quote] @ [quote]),
           Col_Codec_Default ''type'' (LowCardinalityColumnType ColumnTypeString) ''ZSTD(1)'' ([quote] @ [quote]),
           Col_Codec_Default ''is_monotonic'' ColumnTypeBool ''ZSTD(1)'' ''false''],
         ct_Indexes = [
           Index ''temporality_index'' ''temporality'' ''SET(3)'' 1],
         ct_Projections = [],
         ct_Engine = ReplacingMergeTree
           \<lparr>Replicated = False,
            OrderBy = ''(metric_name, fingerprint)'',
            PrimaryKey = '''',
            PartitionBy = ''toDate(timestamp_ms / 1000)'',
            SampleBy = '''',
            engine_TTL = '''',
            engine_Settings = [TableSetting ''index_granularity'' ''8192'']\<rparr>\<rparr>],
    DownItems = []\<rparr>"

definition SquashedMetrics_4 :: "SchemaMigrationRecord" where
  "SquashedMetrics_4 = \<lparr>
    MigrationID = 4,
    UpItems = [
      CreateTableOperation \<lparr>cluster = '''', Database = ''signoz_metrics'', Table = ''distributed_time_series_v2'',
         ct_Columns = [
           Col ''metric_name'' (LowCardinalityColumnType ColumnTypeString),
           Col_Codec ''fingerprint'' ColumnTypeUInt64 ''ZSTD(1)'',
           Col_Codec ''timestamp_ms'' ColumnTypeInt64 ''DoubleDelta, LZ4'',
           Col_Codec ''labels'' ColumnTypeString ''ZSTD(5)'',
           Col_Codec_Default ''temporality'' (LowCardinalityColumnType ColumnTypeString) ''ZSTD(5)'' ([quote] @ ''Unspecified'' @ [quote]),
           Col_Codec_Default ''description'' (LowCardinalityColumnType ColumnTypeString) ''ZSTD(1)'' ([quote] @ [quote]),
           Col_Codec_Default ''unit'' (LowCardinalityColumnType ColumnTypeString) ''ZSTD(1)'' ([quote] @ [quote]),
           Col_Codec_Default ''type'' (LowCardinalityColumnType ColumnTypeString) ''ZSTD(1)'' ([quote] @ [quote]),
           Col_Codec_Default ''is_monotonic'' ColumnTypeBool ''ZSTD(1)'' ''false''],
         ct_Indexes = [],
         ct_Projections = [],
         ct_Engine = DistributedEngine
           \<lparr>dist_Cluster = '''', dist_Database = ''signoz_metrics'',
           dist_Table = ''time_series_v2'',
           ShardingKey = ''cityHash64(metric_name, fingerprint)''\<rparr>\<rparr>],
    DownItems = []\<rparr>"

definition SquashedMetrics_5 :: "SchemaMigrationRecord" where
  "SquashedMetrics_5 = \<lparr>
    MigrationID = 5,
    UpItems = [
      CreateTableOperation \<lparr>cluster = '''', Database = ''signoz_metrics'', Table = ''exp_hist'',
         ct_Columns = [
           Col_Default ''env'' (LowCardinalityColumnType ColumnTypeString) ([quote] @ ''default'' @ [quote]),
           Col_Default ''temporality'' (LowCardinalityColumnType ColumnTypeString) ([quote] @ ''Unspecified'' @ [quote]),
           Col ''metric_name'' (LowCardinalityColumnType ColumnTypeString),
           Col_Codec ''fingerprint'' ColumnTypeUInt64 ''Delta(8), ZSTD(1)'',
           Col_Codec ''unix_milli'' ColumnTypeInt64 ''DoubleDelta, ZSTD(1)'',
           Col_Codec ''count'' ColumnTypeUInt64 ''ZSTD(1)'',
           Col_Codec ''sum'' ColumnTypeFloat64 ''Gorilla, ZSTD(1)'',
           Col_Codec ''min'' ColumnTypeFloat64 ''Gorilla, ZSTD(1)'',
           Col_Codec ''max'' ColumnTypeFloat64 ''Gorilla, ZSTD(1)'',
           Col_Codec ''sketch'' (AggregateFunction ''quantilesDD(0.01, 0.5, 0.75, 0.9, 0.95, 0.99)'' [ColumnTypeUInt64]) ''ZSTD(1)''],
         ct_Indexes = [],
         ct_Projections = [],
         ct_Engine = MergeTreeEngine
           \<lparr>Replicated = False,
            OrderBy = ''(env, temporality, metric_name, fingerprint, unix_milli)'',
            PrimaryKey = '''',
            PartitionBy = ''toDate(unix_milli / 1000)'',
            SampleBy = '''',
            engine_TTL = ''toDateTime(unix_milli / 1000) + toIntervalSecond(2592000)'',
            engine_Settings = [TableSetting ''index_granularity'' ''8192'', TableSetting ''ttl_only_drop_parts'' ''1'']\<rparr>\<rparr>],
    DownItems = [
      DropTableOperation \<lparr>cluster = '''', Database = ''signoz_metrics'', Table = ''exp_hist'',
         dt_Settings = []\<rparr>]\<rparr>"

definition SquashedMetrics_6 :: "SchemaMigrationRecord" where
  "SquashedMetrics_6 = \<lparr>
    MigrationID = 6,
    UpItems = [
      CreateTableOperation \<lparr>cluster = '''', Database = ''signoz_metrics'', Table = ''distributed_exp_hist'',
         ct_Columns = [
           Col_Default ''env'' (LowCardinalityColumnType ColumnTypeString) ([quote] @ ''default'' @ [quote]),
           Col_Default ''temporality'' (LowCardinalityColumnType ColumnTypeString) ([quote] @ ''Unspecified'' @ [quote]),
           Col ''metric_name'' (LowCardinalityColumnType ColumnTypeString),
           Col_Codec ''fingerprint'' ColumnTypeUInt64 ''Delta(8), ZSTD(1)'',
           Col_Codec ''unix_milli'' ColumnTypeInt64 ''DoubleDelta, ZSTD(1)'',
           Col_Codec ''count'' ColumnTypeUInt64 ''ZSTD(1)'',
           Col_Codec ''sum'' ColumnTypeFloat64 ''Gorilla, ZSTD(1)'',
           Col_Codec ''min'' ColumnTypeFloat64 ''Gorilla, ZSTD(1)'',
           Col_Codec ''max'' ColumnTypeFloat64 ''Gorilla, ZSTD(1)'',
           Col_Codec ''sketch'' (AggregateFunction ''quantilesDD(0.01, 0.5, 0.75, 0.9, 0.95, 0.99)'' [ColumnTypeUInt64]) ''ZSTD(1)''],
         ct_Indexes = [],
         ct_Projections = [],
         ct_Engine = DistributedEngine
           \<lparr>dist_Cluster = '''', dist_Database = ''signoz_metrics'',
           dist_Table = ''exp_hist'',
           ShardingKey = ''cityHash64(env, temporality, metric_name, fingerprint)''\<rparr>\<rparr>],
    DownItems = [
      DropTableOperation \<lparr>cluster = '''', Database = ''signoz_metrics'', Table = ''distributed_exp_hist'',
         dt_Settings = []\<rparr>]\<rparr>"

definition SquashedMetrics_7 :: "SchemaMigrationRecord" where
  "SquashedMetrics_7 = \<lparr>
    MigrationID = 7,
    UpItems = [
      CreateTableOperation \<lparr>cluster = '''', Database = ''signoz_metrics'', Table = ''samples_v4'',
         ct_Columns = [
           Col_Default ''env'' (LowCardinalityColumnType ColumnTypeString) ([quote] @ ''default'' @ [quote]),
           Col_Default ''temporality'' (LowCardinalityColumnType ColumnTypeString) ([quote] @ ''Unspecified'' @ [quote]),
           Col ''metric_name'' (LowCardinalityColumnType ColumnTypeString),
           Col_Codec ''fingerprint'' ColumnTypeUInt64 ''Delta(8), ZSTD(1)'',
           Col_Codec ''unix_milli'' ColumnTypeInt64 ''DoubleDelta, ZSTD(1)'',
           Col_Codec ''value'' ColumnTypeFloat64 ''Gorilla, ZSTD(1)''],
         ct_Indexes = [],
         ct_Projections = [],
         ct_Engine = MergeTreeEngine
           \<lparr>Replicated = False,
            OrderBy = ''(env, temporality, metric_name, fingerprint, unix_milli)'',
            PrimaryKey = '''',
            PartitionBy = ''toDate(unix_milli / 1000)'',
            SampleBy = '''',
            engine_TTL = ''toDateTime(unix_milli / 1000) + toIntervalSecond(2592000)'',
            engine_Settings = [TableSetting ''index_granularity'' ''8192'', TableSetting ''ttl_only_drop_parts'' ''1'']\<rparr>\<rparr>],
    DownItems = [
      DropTableOperation \<lparr>cluster = '''', Database = ''signoz_metrics'', Table = ''samples_v4'',
         dt_Settings = []\<rparr>]\<rparr>"

definition SquashedMetrics_8 :: "SchemaMigrationRecord" where
  "SquashedMetrics_8 = \<lparr>
    MigrationID = 8,
    UpItems = [
      CreateTableOperation \<lparr>cluster = '''', Database = ''signoz_metrics'', Table = ''distributed_samples_v4'',
         ct_Columns = [
           Col_Default ''env'' (LowCardinalityColumnType ColumnTypeString) ([quote] @ ''default'' @ [quote]),
           Col_Default ''temporality'' (LowCardinalityColumnType ColumnTypeString) ([quote] @ ''Unspecified'' @ [quote]),
           Col ''metric_name'' (LowCardinalityColumnType ColumnTypeString),
           Col_Codec ''fingerprint'' ColumnTypeUInt64 ''Delta(8), ZSTD(1)'',
           Col_Codec ''unix_milli'' ColumnTypeInt64 ''DoubleDelta, ZSTD(1)'',
           Col_Codec ''value'' ColumnTypeFloat64 ''Gorilla, ZSTD(1)''],
         ct_Indexes = [],
         ct_Projections = [],
         ct_Engine = DistributedEngine
           \<lparr>dist_Cluster = '''', dist_Database = ''signoz_metrics'',
           dist_Table = ''samples_v4'',
           ShardingKey = ''cityHash64(env, temporality, metric_name, fingerprint)''\<rparr>\<rparr>],
    DownItems = [
      DropTableOperation \<lparr>cluster = '''', Database = ''signoz_metrics'', Table = ''distributed_samples_v4'',
         dt_Settings = []\<rparr>]\<rparr>"

definition SquashedMetrics_9 :: "SchemaMigrationRecord" where
  "SquashedMetrics_9 = \<lparr>
    MigrationID = 9,
    UpItems = [
      CreateTableOperation \<lparr>cluster = '''', Database = ''signoz_metrics'', Table = ''time_series_v4'',
         ct_Columns = [
           Col_Default ''env'' (LowCardinalityColumnType ColumnTypeString) ([quote] @ ''default'' @ [quote]),
           Col_Default ''temporality'' (LowCardinalityColumnType ColumnTypeString) ([quote] @ ''Unspecified'' @ [quote]),
           Col ''metric_name'' (LowCardinalityColumnType ColumnTypeString),
           Col_Codec_Default ''description'' (LowCardinalityColumnType ColumnTypeString) ''ZSTD(1)'' ([quote] @ [quote]),
           Col_Codec_Default ''unit'' (LowCardinalityColumnType ColumnTypeString) ''ZSTD(1)'' ([quote] @ [quote]),
           Col_Codec_Default ''type'' (LowCardinalityColumnType ColumnTypeString) ''ZSTD(1)'' ([quote] @ [quote]),
           Col_Codec_Default ''is_monotonic'' ColumnTypeBool ''ZSTD(1)'' ''false'',
           Col_Codec ''fingerprint'' ColumnTypeUInt64 ''Delta(8), ZSTD(1)'',
           Col_Codec ''unix_milli'' ColumnTypeInt64 ''Delta(8), ZSTD(1)'',
           Col_Codec ''labels'' ColumnTypeString ''ZSTD(5)''],
         ct_Indexes = [],
         ct_Projections = [],
         ct_Engine = ReplacingMergeTree
           \<lparr>Replicated = False,
            OrderBy = ''(env, temporality, metric_name, fingerprint, unix_milli)'',
            PrimaryKey = '''',
            PartitionBy = ''toDate(unix_milli / 1000)'',
            SampleBy = '''',
            engine_TTL = ''toDateTime(unix_milli / 1000) + toIntervalSecond(2592000)'',
            engine_Settings = [TableSetting ''index_granularity'' ''8192'', TableSetting ''ttl_only_drop_parts'' ''1'']\<rparr>\<rparr>],
    DownItems = [
      DropTableOperation \<lparr>cluster = '''', Database = ''signoz_metrics'', Table = ''time_series_v4'',
         dt_Settings = []\<rparr>]\<rparr>"

definition SquashedMetrics_10 :: "SchemaMigrationRecord" where
  "SquashedMetrics_10 = \<lparr>
    MigrationID = 10,
    UpItems = [
      CreateTableOperation \<lparr>cluster = '''', Database = ''signoz_metrics'', Table = ''distributed_time_series_v4'',
         ct_Columns = [
           Col_Default ''env'' (LowCardinalityColumnType ColumnTypeString) ([quote] @ ''default'' @ [quote]),
           Col_Default ''temporality'' (LowCardinalityColumnType ColumnTypeString) ([quote] @ ''Unspecified'' @ [quote]),
           Col ''metric_name'' (LowCardinalityColumnType ColumnTypeString),
           Col_Codec_Default ''description'' (LowCardinalityColumnType ColumnTypeString) ''ZSTD(1)'' ([quote] @ [quote]),
           Col_Codec_Default ''unit'' (LowCardinalityColumnType ColumnTypeString) ''ZSTD(1)'' ([quote] @ [quote]),
           Col_Codec_Default ''type'' (LowCardinalityColumnType ColumnTypeString) ''ZSTD(1)'' ([quote] @ [quote]),
           Col_Codec_Default ''is_monotonic'' ColumnTypeBool ''ZSTD(1)'' ''false'',
           Col_Codec ''fingerprint'' ColumnTypeUInt64 ''Delta(8), ZSTD(1)'',
           Col_Codec ''unix_milli'' ColumnTypeInt64 ''Delta(8), ZSTD(1)'',
           Col_Codec ''labels'' ColumnTypeString ''ZSTD(5)''],
         ct_Indexes = [],
         ct_Projections = [],
         ct_Engine = DistributedEngine
           \<lparr>dist_Cluster = '''', dist_Database = ''signoz_metrics'',
           dist_Table = ''time_series_v4'',
           ShardingKey = ''cityHash64(env, temporality, metric_name, fingerprint)''\<rparr>\<rparr>],
    DownItems = [
      DropTableOperation \<lparr>cluster = '''', Database = ''signoz_metrics'', Table = ''distributed_time_series_v4'',
         dt_Settings = []\<rparr>]\<rparr>"

definition SquashedMetrics_11 :: "SchemaMigrationRecord" where
  "SquashedMetrics_11 = \<lparr>
    MigrationID = 11,
    UpItems = [
      CreateTableOperation \<lparr>cluster = '''', Database = ''signoz_metrics'', Table = ''time_series_v4_6hrs'',
         ct_Columns = [
           Col_Default ''env'' (LowCardinalityColumnType ColumnTypeString) ([quote] @ ''default'' @ [quote]),
           Col_Default ''temporality'' (LowCardinalityColumnType ColumnTypeString) ([quote] @ ''Unspecified'' @ [quote]),
           Col ''metric_name'' (LowCardinalityColumnType ColumnTypeString),
           Col_Codec_Default ''description'' (LowCardinalityColumnType ColumnTypeString) ''ZSTD(1)'' ([quote] @ [quote]),
           Col_Codec_Default ''unit'' (LowCardinalityColumnType ColumnTypeString) ''ZSTD(1)'' ([quote] @ [quote]),
           Col_Codec_Default ''type'' (LowCardinalityColumnType ColumnTypeString) ''ZSTD(1)'' ([quote] @ [quote]),
           Col_Codec_Default ''is_monotonic'' ColumnTypeBool ''ZSTD(1)'' ''false'',
           Col_Codec ''fingerprint'' ColumnTypeUInt64 ''Delta(8), ZSTD(1)'',
           Col_Codec ''unix_milli'' ColumnTypeInt64 ''Delta(8), ZSTD(1)'',
           Col_Codec ''labels'' ColumnTypeString ''ZSTD(5)''],
         ct_Indexes = [],
         ct_Projections = [],
         ct_Engine = ReplacingMergeTree
           \<lparr>Replicated = False,
            OrderBy = ''(env, temporality, metric_name, fingerprint, unix_milli)'',
            PrimaryKey = '''',
            PartitionBy = ''toDate(unix_milli / 1000)'',
            SampleBy = '''',
            engine_TTL = ''toDateTime(unix_milli / 1000) + toIntervalSecond(2592000)'',
            engine_Settings = [TableSetting ''index_granularity'' ''8192'', TableSetting ''ttl_only_drop_parts'' ''1'']\<rparr>\<rparr>],
    DownItems = [
      DropTableOperation \<lparr>cluster = '''', Database = ''signoz_metrics'', Table = ''time_series_v4_6hrs'',
         dt_Settings = []\<rparr>]\<rparr>"

definition SquashedMetrics_12 :: "SchemaMigrationRecord" where
  "SquashedMetrics_12 = \<lparr>
    MigrationID = 12,
    UpItems = [
      CreateTableOperation \<lparr>cluster = '''', Database = ''signoz_metrics'', Table = ''distributed_time_series_v4_6hrs'',
         ct_Columns = [
           Col_Default ''env'' (LowCardinalityColumnType ColumnTypeString) ([quote] @ ''default'' @ [quote]),
           Col_Default ''temporality'' (LowCardinalityColumnType ColumnTypeString) ([quote] @ ''Unspecified'' @ [quote]),
           Col ''metric_name'' (LowCardinalityColumnType ColumnTypeString),
           Col_Codec_Default ''description'' (LowCardinalityColumnType ColumnTypeString) ''ZSTD(1)'' ([quote] @ [quote]),
           Col_Codec_Default ''unit'' (LowCardinalityColumnType ColumnTypeString) ''ZSTD(1)'' ([quote] @ [quote]),
           Col_Codec_Default ''type'' (LowCardinalityColumnType ColumnTypeString) ''ZSTD(1)'' ([quote] @ [quote]),
           Col_Codec_Default ''is_monotonic'' ColumnTypeBool ''ZSTD(1)'' ''false'',
           Col_Codec ''fingerprint'' ColumnTypeUInt64 ''Delta(8), ZSTD(1)'',
           Col_Codec ''unix_milli'' ColumnTypeInt64 ''Delta(8), ZSTD(1)'',
           Col_Codec ''labels'' ColumnTypeString ''ZSTD(5)''],
         ct_Indexes = [],
         ct_Projections = [],
         ct_Engine = DistributedEngine
           \<lparr>dist_Cluster = '''', dist_Database = ''signoz_metrics'',
           dist_Table = ''time_series_v4_6hrs'',
           ShardingKey = ''cityHash64(env, temporality, metric_name, fingerprint)''\<rparr>\<rparr>],
    DownItems = [
      DropTableOperation \<lparr>cluster = '''', Database = ''signoz_metrics'', Table = ''distributed_time_series_v4_6hrs'',
         dt_Settings = []\<rparr>]\<rparr>"

definition SquashedMetrics_13 :: "SchemaMigrationRecord" where
  "SquashedMetrics_13 = \<lparr>
    MigrationID = 13,
    UpItems = [
      CreateTableOperation \<lparr>cluster = '''', Database = ''signoz_metrics'', Table = ''time_series_v4_1day'',
         ct_Columns = [
           Col_Default ''env'' (LowCardinalityColumnType ColumnTypeString) ([quote] @ ''default'' @ [quote]),
           Col_Default ''temporality'' (LowCardinalityColumnType ColumnTypeString) ([quote] @ ''Unspecified'' @ [quote]),
           Col ''metric_name'' (LowCardinalityColumnType ColumnTypeString),
           Col_Codec_Default ''description'' (LowCardinalityColumnType ColumnTypeString) ''ZSTD(1)'' ([quote] @ [quote]),
           Col_Codec_Default ''unit'' (LowCardinalityColumnType ColumnTypeString) ''ZSTD(1)'' ([quote] @ [quote]),
           Col_Codec_Default ''type'' (LowCardinalityColumnType ColumnTypeString) ''ZSTD(1)'' ([quote] @ [quote]),
           Col_Codec_Default ''is_monotonic'' ColumnTypeBool ''ZSTD(1)'' ''false'',
           Col_Codec ''fingerprint'' ColumnTypeUInt64 ''Delta(8), ZSTD(1)'',
           Col_Codec ''unix_milli'' ColumnTypeInt64 ''Delta(8), ZSTD(1)'',
           Col_Codec ''labels'' ColumnTypeString ''ZSTD(5)''],
         ct_Indexes = [],
         ct_Projections = [],
         ct_Engine = ReplacingMergeTree
           \<lparr>Replicated = False,
            OrderBy = ''(env, temporality, metric_name, fingerprint, unix_milli)'',
            PrimaryKey = '''',
            PartitionBy = ''toDate(unix_milli / 1000)'',
            SampleBy = '''',
            engine_TTL = ''toDateTime(unix_milli / 1000) + toIntervalSecond(2592000)'',
            engine_Settings = [TableSetting ''index_granularity'' ''8192'', TableSetting ''ttl_only_drop_parts'' ''1'']\<rparr>\<rparr>],
    DownItems = [
      DropTableOperation \<lparr>cluster = '''', Database = ''signoz_metrics'', Table = ''time_series_v4_1day'',
         dt_Settings = []\<rparr>]\<rparr>"

definition SquashedMetrics_14 :: "SchemaMigrationRecord" where
  "SquashedMetrics_14 = \<lparr>
    MigrationID = 14,
    UpItems = [
      CreateTableOperation \<lparr>cluster = '''', Database = ''signoz_metrics'', Table = ''distributed_time_series_v4_1day'',
         ct_Columns = [
           Col_Default ''env'' (LowCardinalityColumnType ColumnTypeString) ([quote] @ ''default'' @ [quote]),
           Col_Default ''temporality'' (LowCardinalityColumnType ColumnTypeString) ([quote] @ ''Unspecified'' @ [quote]),
           Col ''metric_name'' (LowCardinalityColumnType ColumnTypeString),
           Col_Codec_Default ''description'' (LowCardinalityColumnType ColumnTypeString) ''ZSTD(1)'' ([quote] @ [quote]),
           Col_Codec_Default ''unit'' (LowCardinalityColumnType ColumnTypeString) ''ZSTD(1)'' ([quote] @ [quote]),
           Col_Codec_Default ''type'' (LowCardinalityColumnType ColumnTypeString) ''ZSTD(1)'' ([quote] @ [quote]),
           Col_Codec_Default ''is_monotonic'' ColumnTypeBool ''ZSTD(1)'' ''false'',
           Col_Codec ''fingerprint'' ColumnTypeUInt64 ''Delta(8), ZSTD(1)'',
           Col_Codec ''unix_milli'' ColumnTypeInt64 ''Delta(8), ZSTD(1)'',
           Col_Codec ''labels'' ColumnTypeString ''ZSTD(5)''],
         ct_Indexes = [],
         ct_Projections = [],
         ct_Engine = DistributedEngine
           \<lparr>dist_Cluster = '''', dist_Database = ''signoz_metrics'',
           dist_Table = ''time_series_v4_1day'',
           ShardingKey = ''cityHash64(env, temporality, metric_name, fingerprint)''\<rparr>\<rparr>],
    DownItems = [
      DropTableOperation \<lparr>cluster = '''', Database = ''signoz_metrics'', Table = ''distributed_time_series_v4_1day'',
         dt_Settings = []\<rparr>]\<rparr>"

definition SquashedMetrics_15 :: "SchemaMigrationRecord" where
  "SquashedMetrics_15 = \<lparr>
    MigrationID = 15,
    UpItems = [
      CreateTableOperation \<lparr>cluster = '''', Database = ''signoz_metrics'', Table = ''time_series_v4_1week'',
         ct_Columns = [
           Col_Default ''env'' (LowCardinalityColumnType ColumnTypeString) ([quote] @ ''default'' @ [quote]),
           Col_Default ''temporality'' (LowCardinalityColumnType ColumnTypeString) ([quote] @ ''Unspecified'' @ [quote]),
           Col ''metric_name'' (LowCardinalityColumnType ColumnTypeString),
           Col_Codec_Default ''description'' (LowCardinalityColumnType ColumnTypeString) ''ZSTD(1)'' ([quote] @ [quote]),
           Col_Codec_Default ''unit'' (LowCardinalityColumnType ColumnTypeString) ''ZSTD(1)'' ([quote] @ [quote]),
           Col_Codec_Default ''type'' (LowCardinalityColumnType ColumnTypeString) ''ZSTD(1)'' ([quote] @ [quote]),
           Col_Codec_Default ''is_monotonic'' ColumnTypeBool ''ZSTD(1)'' ''false'',
           Col_Codec ''fingerprint'' ColumnTypeUInt64 ''Delta(8), ZSTD(1)'',
           Col_Codec ''unix_milli'' ColumnTypeInt64 ''Delta(8), ZSTD(1)'',
           Col_Codec ''labels'' ColumnTypeString ''ZSTD(5)''],
         ct_Indexes = [],
         ct_Projections = [],
         ct_Engine = ReplacingMergeTree
           \<lparr>Replicated = False,
            OrderBy = ''(env, temporality, metric_name, fingerprint, unix_milli)'',
            PrimaryKey = '''',
            PartitionBy = ''toDate(unix_milli / 1000)'',
            SampleBy = '''',
            engine_TTL = ''toDateTime(unix_milli / 1000) + toIntervalSecond(2592000)'',
            engine_Settings = [TableSetting ''index_granularity'' ''8192'', TableSetting ''ttl_only_drop_parts'' ''1'']\<rparr>\<rparr>],
    DownItems = [
      DropTableOperation \<lparr>cluster = '''', Database = ''signoz_metrics'', Table = ''time_series_v4_1week'',
         dt_Settings = []\<rparr>]\<rparr>"

definition SquashedMetrics_16 :: "SchemaMigrationRecord" where
  "SquashedMetrics_16 = \<lparr>
    MigrationID = 16,
    UpItems = [
      CreateTableOperation \<lparr>cluster = '''', Database = ''signoz_metrics'', Table = ''distributed_time_series_v4_1week'',
         ct_Columns = [
           Col_Default ''env'' (LowCardinalityColumnType ColumnTypeString) ([quote] @ ''default'' @ [quote]),
           Col_Default ''temporality'' (LowCardinalityColumnType ColumnTypeString) ([quote] @ ''Unspecified'' @ [quote]),
           Col ''metric_name'' (LowCardinalityColumnType ColumnTypeString),
           Col_Codec_Default ''description'' (LowCardinalityColumnType ColumnTypeString) ''ZSTD(1)'' ([quote] @ [quote]),
           Col_Codec_Default ''unit'' (LowCardinalityColumnType ColumnTypeString) ''ZSTD(1)'' ([quote] @ [quote]),
           Col_Codec_Default ''type'' (LowCardinalityColumnType ColumnTypeString) ''ZSTD(1)'' ([quote] @ [quote]),
           Col_Codec_Default ''is_monotonic'' ColumnTypeBool ''ZSTD(1)'' ''false'',
           Col_Codec ''fingerprint'' ColumnTypeUInt64 ''Delta(8), ZSTD(1)'',
           Col_Codec ''unix_milli'' ColumnTypeInt64 ''Delta(8), ZSTD(1)'',
           Col_Codec ''labels'' ColumnTypeString ''ZSTD(5)''],
         ct_Indexes = [],
         ct_Projections = [],
         ct_Engine = DistributedEngine
           \<lparr>dist_Cluster = '''', dist_Database = ''signoz_metrics'',
           dist_Table = ''time_series_v4_1week'',
           ShardingKey = ''cityHash64(env, temporality, metric_name, fingerprint)''\<rparr>\<rparr>],
    DownItems = [
      DropTableOperation \<lparr>cluster = '''', Database = ''signoz_metrics'', Table = ''distributed_time_series_v4_1week'',
         dt_Settings = []\<rparr>]\<rparr>"

definition SquashedMetrics_17 :: "SchemaMigrationRecord" where
  "SquashedMetrics_17 = \<lparr>
    MigrationID = 17,
    UpItems = [
      CreateMaterializedViewOperation \<lparr>cluster = '''', Database = ''signoz_metrics'',
         mv_ViewName = ''time_series_v4_6hrs_mv'',
         mv_DestTable = ''time_series_v4_6hrs'',
         mv_Columns = [
           Col_Default ''env'' (LowCardinalityColumnType ColumnTypeString) ([quote] @ ''default'' @ [quote]),
           Col_Default ''temporality'' (LowCardinalityColumnType ColumnTypeString) ([quote] @ ''Unspecified'' @ [quote]),
           Col ''metric_name'' (LowCardinalityColumnType ColumnTypeString),
           Col_Codec_Default ''description'' (LowCardinalityColumnType ColumnTypeString) ''ZSTD(1)'' ([quote] @ [quote]),
           Col_Codec_Default ''unit'' (LowCardinalityColumnType ColumnTypeString) ''ZSTD(1)'' ([quote] @ [quote]),
           Col_Codec_Default ''type'' (LowCardinalityColumnType ColumnTypeString) ''ZSTD(1)'' ([quote] @ [quote]),
           Col_Codec_Default ''is_monotonic'' ColumnTypeBool ''ZSTD(1)'' ''false'',
           Col_Codec ''fingerprint'' ColumnTypeUInt64 ''Delta(8), ZSTD(1)'',
           Col_Codec ''unix_milli'' ColumnTypeInt64 ''Delta(8), ZSTD(1)'',
           Col_Codec ''labels'' ColumnTypeString ''ZSTD(5)''],
         mv_Query = (text_lines [
           ''SELECT'',
           ''    env,'',
           ''    temporality,'',
           ''    metric_name,'',
           ''    description,'',
           ''    unit,'',
           ''    type,'',
           ''    is_monotonic,'',
           ''    fingerprint,'',
           ''    floor(unix_milli / 21600000) * 21600000 AS unix_milli,'',
           ''    labels'',
           ''FROM signoz_metrics.time_series_v4''])\<rparr>],
    DownItems = [
      DropTableOperation \<lparr>cluster = '''', Database = ''signoz_metrics'', Table = ''time_series_v4_6hrs_mv'',
         dt_Settings = []\<rparr>]\<rparr>"

definition SquashedMetrics_18 :: "SchemaMigrationRecord" where
  "SquashedMetrics_18 = \<lparr>
    MigrationID = 18,
    UpItems = [
      CreateMaterializedViewOperation \<lparr>cluster = '''', Database = ''signoz_metrics'',
         mv_ViewName = ''time_series_v4_1day_mv'',
         mv_DestTable = ''time_series_v4_1day'',
         mv_Columns = [
           Col_Default ''env'' (LowCardinalityColumnType ColumnTypeString) ([quote] @ ''default'' @ [quote]),
           Col_Default ''temporality'' (LowCardinalityColumnType ColumnTypeString) ([quote] @ ''Unspecified'' @ [quote]),
           Col ''metric_name'' (LowCardinalityColumnType ColumnTypeString),
           Col_Codec_Default ''description'' (LowCardinalityColumnType ColumnTypeString) ''ZSTD(1)'' ([quote] @ [quote]),
           Col_Codec_Default ''unit'' (LowCardinalityColumnType ColumnTypeString) ''ZSTD(1)'' ([quote] @ [quote]),
           Col_Codec_Default ''type'' (LowCardinalityColumnType ColumnTypeString) ''ZSTD(1)'' ([quote] @ [quote]),
           Col_Codec_Default ''is_monotonic'' ColumnTypeBool ''ZSTD(1)'' ''false'',
           Col_Codec ''fingerprint'' ColumnTypeUInt64 ''Delta(8), ZSTD(1)'',
           Col_Codec ''unix_milli'' ColumnTypeInt64 ''Delta(8), ZSTD(1)'',
           Col_Codec ''labels'' ColumnTypeString ''ZSTD(5)''],
         mv_Query = (text_lines [
           ''SELECT'',
           ''    env,'',
           ''    temporality,'',
           ''    metric_name,'',
           ''    description,'',
           ''    unit,'',
           ''    type,'',
           ''    is_monotonic,'',
           ''    fingerprint,'',
           ''    floor(unix_milli / 86400000) * 86400000 AS unix_milli,'',
           ''    labels'',
           ''FROM signoz_metrics.time_series_v4''])\<rparr>],
    DownItems = [
      DropTableOperation \<lparr>cluster = '''', Database = ''signoz_metrics'', Table = ''time_series_v4_1day_mv'',
         dt_Settings = []\<rparr>]\<rparr>"

definition SquashedMetrics_19 :: "SchemaMigrationRecord" where
  "SquashedMetrics_19 = \<lparr>
    MigrationID = 19,
    UpItems = [
      CreateMaterializedViewOperation \<lparr>cluster = '''', Database = ''signoz_metrics'',
         mv_ViewName = ''time_series_v4_1week_mv'',
         mv_DestTable = ''time_series_v4_1week'',
         mv_Columns = [
           Col_Default ''env'' (LowCardinalityColumnType ColumnTypeString) ([quote] @ ''default'' @ [quote]),
           Col_Default ''temporality'' (LowCardinalityColumnType ColumnTypeString) ([quote] @ ''Unspecified'' @ [quote]),
           Col ''metric_name'' (LowCardinalityColumnType ColumnTypeString),
           Col_Codec_Default ''description'' (LowCardinalityColumnType ColumnTypeString) ''ZSTD(1)'' ([quote] @ [quote]),
           Col_Codec_Default ''unit'' (LowCardinalityColumnType ColumnTypeString) ''ZSTD(1)'' ([quote] @ [quote]),
           Col_Codec_Default ''type'' (LowCardinalityColumnType ColumnTypeString) ''ZSTD(1)'' ([quote] @ [quote]),
           Col_Codec_Default ''is_monotonic'' ColumnTypeBool ''ZSTD(1)'' ''false'',
           Col_Codec ''fingerprint'' ColumnTypeUInt64 ''Delta(8), ZSTD(1)'',
           Col_Codec ''unix_milli'' ColumnTypeInt64 ''Delta(8), ZSTD(1)'',
           Col_Codec ''labels'' ColumnTypeString ''ZSTD(5)''],
         mv_Query = (text_lines [
           ''SELECT'',
           ''    env,'',
           ''    temporality,'',
           ''    metric_name,'',
           ''    description,'',
           ''    unit,'',
           ''    type,'',
           ''    is_monotonic,'',
           ''    fingerprint,'',
           ''    floor(unix_milli / 604800000) * 604800000 AS unix_milli,'',
           ''    labels'',
           ''FROM signoz_metrics.time_series_v4_1day''])\<rparr>],
    DownItems = [
      DropTableOperation \<lparr>cluster = '''', Database = ''signoz_metrics'', Table = ''time_series_v4_1week_mv'',
         dt_Settings = []\<rparr>]\<rparr>"

definition SquashedMetrics_20 :: "SchemaMigrationRecord" where
  "SquashedMetrics_20 = \<lparr>
    MigrationID = 20,
    UpItems = [
      CreateTableOperation \<lparr>cluster = '''', Database = ''signoz_metrics'', Table = ''samples_v4_agg_5m'',
         ct_Columns = [
           Col_Default ''env'' (LowCardinalityColumnType ColumnTypeString) ([quote] @ ''default'' @ [quote]),
           Col_Default ''temporality'' (LowCardinalityColumnType ColumnTypeString) ([quote] @ ''Unspecified'' @ [quote]),
           Col ''metric_name'' (LowCardinalityColumnType ColumnTypeString),
           Col_Codec ''fingerprint'' ColumnTypeUInt64 ''ZSTD(1)'',
           Col_Codec ''unix_milli'' ColumnTypeInt64 ''Delta(8), ZSTD(1)'',
           Col_Codec ''last'' (SimpleAggregateFunction ''anyLast'' [ColumnTypeFloat64]) ''ZSTD(1)'',
           Col_Codec ''min'' (SimpleAggregateFunction ''min'' [ColumnTypeFloat64]) ''ZSTD(1)'',
           Col_Codec ''max'' (SimpleAggregateFunction ''max'' [ColumnTypeFloat64]) ''ZSTD(1)'',
           Col_Codec ''sum'' (SimpleAggregateFunction ''sum'' [ColumnTypeFloat64]) ''ZSTD(1)'',
           Col_Codec ''count'' (SimpleAggregateFunction ''sum'' [ColumnTypeUInt64]) ''ZSTD(1)''],
         ct_Indexes = [],
         ct_Projections = [],
         ct_Engine = AggregatingMergeTree
           \<lparr>Replicated = False,
            OrderBy = ''(env, temporality, metric_name, fingerprint, unix_milli)'',
            PrimaryKey = '''',
            PartitionBy = ''toDate(unix_milli / 1000)'',
            SampleBy = '''',
            engine_TTL = ''toDateTime(unix_milli / 1000) + toIntervalSecond(2592000)'',
            engine_Settings = [TableSetting ''index_granularity'' ''8192'', TableSetting ''ttl_only_drop_parts'' ''1'']\<rparr>\<rparr>],
    DownItems = [
      DropTableOperation \<lparr>cluster = '''', Database = ''signoz_metrics'', Table = ''samples_v4_agg_5m'',
         dt_Settings = []\<rparr>]\<rparr>"

definition SquashedMetrics_21 :: "SchemaMigrationRecord" where
  "SquashedMetrics_21 = \<lparr>
    MigrationID = 21,
    UpItems = [
      CreateTableOperation \<lparr>cluster = '''', Database = ''signoz_metrics'', Table = ''samples_v4_agg_30m'',
         ct_Columns = [
           Col_Default ''env'' (LowCardinalityColumnType ColumnTypeString) ([quote] @ ''default'' @ [quote]),
           Col_Default ''temporality'' (LowCardinalityColumnType ColumnTypeString) ([quote] @ ''Unspecified'' @ [quote]),
           Col ''metric_name'' (LowCardinalityColumnType ColumnTypeString),
           Col_Codec ''fingerprint'' ColumnTypeUInt64 ''ZSTD(1)'',
           Col_Codec ''unix_milli'' ColumnTypeInt64 ''Delta(8), ZSTD(1)'',
           Col_Codec ''last'' (SimpleAggregateFunction ''anyLast'' [ColumnTypeFloat64]) ''ZSTD(1)'',
           Col_Codec ''min'' (SimpleAggregateFunction ''min'' [ColumnTypeFloat64]) ''ZSTD(1)'',
           Col_Codec ''max'' (SimpleAggregateFunction ''max'' [ColumnTypeFloat64]) ''ZSTD(1)'',
           Col_Codec ''sum'' (SimpleAggregateFunction ''sum'' [ColumnTypeFloat64]) ''ZSTD(1)'',
           Col_Codec ''count'' (SimpleAggregateFunction ''sum'' [ColumnTypeUInt64]) ''ZSTD(1)''],
         ct_Indexes = [],
         ct_Projections = [],
         ct_Engine = AggregatingMergeTree
           \<lparr>Replicated = False,
            OrderBy = ''(env, temporality, metric_name, fingerprint, unix_milli)'',
            PrimaryKey = '''',
            PartitionBy = ''toDate(unix_milli / 1000)'',
            SampleBy = '''',
            engine_TTL = ''toDateTime(unix_milli / 1000) + toIntervalSecond(2592000)'',
            engine_Settings = [TableSetting ''index_granularity'' ''8192'', TableSetting ''ttl_only_drop_parts'' ''1'']\<rparr>\<rparr>],
    DownItems = [
      DropTableOperation \<lparr>cluster = '''', Database = ''signoz_metrics'', Table = ''samples_v4_agg_30m'',
         dt_Settings = []\<rparr>]\<rparr>"

definition SquashedMetrics_22 :: "SchemaMigrationRecord" where
  "SquashedMetrics_22 = \<lparr>
    MigrationID = 22,
    UpItems = [
      CreateMaterializedViewOperation \<lparr>cluster = '''', Database = ''signoz_metrics'',
         mv_ViewName = ''samples_v4_agg_5m_mv'',
         mv_DestTable = ''samples_v4_agg_5m'',
         mv_Columns = [],
         mv_Query = (text_lines [
           ''SELECT'',
           ''    env,'',
           ''    temporality,'',
           ''    metric_name,'',
           ''    fingerprint,'',
           ''    intDiv(unix_milli, 300000) * 300000 as unix_milli,'',
           ''    anyLast(value) as last,'',
           ''    min(value) as min,'',
           ''    max(value) as max,'',
           ''    sum(value) as sum,'',
           ''    count(*) as count'',
           ''FROM signoz_metrics.samples_v4 '',
           ''GROUP BY'',
           ''    env,'',
           ''    temporality,'',
           ''    metric_name,'',
           ''    fingerprint,'',
           ''    unix_milli;''])\<rparr>],
    DownItems = [
      DropTableOperation \<lparr>cluster = '''', Database = ''signoz_metrics'', Table = ''samples_v4_agg_5m_mv'',
         dt_Settings = []\<rparr>]\<rparr>"

definition SquashedMetrics_23 :: "SchemaMigrationRecord" where
  "SquashedMetrics_23 = \<lparr>
    MigrationID = 23,
    UpItems = [
      CreateMaterializedViewOperation \<lparr>cluster = '''', Database = ''signoz_metrics'',
         mv_ViewName = ''samples_v4_agg_30m_mv'',
         mv_DestTable = ''samples_v4_agg_30m'',
         mv_Columns = [],
         mv_Query = (text_lines [
           ''SELECT'',
           ''    env,'',
           ''    temporality,'',
           ''    metric_name,'',
           ''    fingerprint,'',
           ''    intDiv(unix_milli, 1800000) * 1800000 as unix_milli,'',
           ''    anyLast(last) as last,'',
           ''    min(min) as min,'',
           ''    max(max) as max,'',
           ''    sum(sum) as sum,'',
           ''    sum(count) as count'',
           ''FROM signoz_metrics.samples_v4_agg_5m '',
           ''GROUP BY'',
           ''    env,'',
           ''    temporality,'',
           ''    metric_name,'',
           ''    fingerprint,'',
           ''    unix_milli;''])\<rparr>],
    DownItems = [
      DropTableOperation \<lparr>cluster = '''', Database = ''signoz_metrics'', Table = ''samples_v4_agg_30m_mv'',
         dt_Settings = []\<rparr>]\<rparr>"

definition SquashedMetrics_24 :: "SchemaMigrationRecord" where
  "SquashedMetrics_24 = \<lparr>
    MigrationID = 24,
    UpItems = [
      CreateTableOperation \<lparr>cluster = '''', Database = ''signoz_metrics'', Table = ''distributed_samples_v4_agg_5m'',
         ct_Columns = [
           Col_Default ''env'' (LowCardinalityColumnType ColumnTypeString) ([quote] @ ''default'' @ [quote]),
           Col_Default ''temporality'' (LowCardinalityColumnType ColumnTypeString) ([quote] @ ''Unspecified'' @ [quote]),
           Col ''metric_name'' (LowCardinalityColumnType ColumnTypeString),
           Col_Codec ''fingerprint'' ColumnTypeUInt64 ''ZSTD(1)'',
           Col_Codec ''unix_milli'' ColumnTypeInt64 ''Delta(8), ZSTD(1)'',
           Col_Codec ''last'' (SimpleAggregateFunction ''anyLast'' [ColumnTypeFloat64]) ''ZSTD(1)'',
           Col_Codec ''min'' (SimpleAggregateFunction ''min'' [ColumnTypeFloat64]) ''ZSTD(1)'',
           Col_Codec ''max'' (SimpleAggregateFunction ''max'' [ColumnTypeFloat64]) ''ZSTD(1)'',
           Col_Codec ''sum'' (SimpleAggregateFunction ''sum'' [ColumnTypeFloat64]) ''ZSTD(1)'',
           Col_Codec ''count'' (SimpleAggregateFunction ''sum'' [ColumnTypeUInt64]) ''ZSTD(1)''],
         ct_Indexes = [],
         ct_Projections = [],
         ct_Engine = DistributedEngine
           \<lparr>dist_Cluster = '''', dist_Database = ''signoz_metrics'',
           dist_Table = ''samples_v4_agg_5m'',
           ShardingKey = ''cityHash64(env, temporality, metric_name, fingerprint)''\<rparr>\<rparr>],
    DownItems = [
      DropTableOperation \<lparr>cluster = '''', Database = ''signoz_metrics'', Table = ''distributed_samples_v4_agg_5m'',
         dt_Settings = []\<rparr>]\<rparr>"

definition SquashedMetrics_25 :: "SchemaMigrationRecord" where
  "SquashedMetrics_25 = \<lparr>
    MigrationID = 25,
    UpItems = [
      CreateTableOperation \<lparr>cluster = '''', Database = ''signoz_metrics'', Table = ''distributed_samples_v4_agg_30m'',
         ct_Columns = [
           Col_Default ''env'' (LowCardinalityColumnType ColumnTypeString) ([quote] @ ''default'' @ [quote]),
           Col_Default ''temporality'' (LowCardinalityColumnType ColumnTypeString) ([quote] @ ''Unspecified'' @ [quote]),
           Col ''metric_name'' (LowCardinalityColumnType ColumnTypeString),
           Col_Codec ''fingerprint'' ColumnTypeUInt64 ''ZSTD(1)'',
           Col_Codec ''unix_milli'' ColumnTypeInt64 ''Delta(8), ZSTD(1)'',
           Col_Codec ''last'' (SimpleAggregateFunction ''anyLast'' [ColumnTypeFloat64]) ''ZSTD(1)'',
           Col_Codec ''min'' (SimpleAggregateFunction ''min'' [ColumnTypeFloat64]) ''ZSTD(1)'',
           Col_Codec ''max'' (SimpleAggregateFunction ''max'' [ColumnTypeFloat64]) ''ZSTD(1)'',
           Col_Codec ''sum'' (SimpleAggregateFunction ''sum'' [ColumnTypeFloat64]) ''ZSTD(1)'',
           Col_Codec ''count'' (SimpleAggregateFunction ''sum'' [ColumnTypeUInt64]) ''ZSTD(1)''],
         ct_Indexes = [],
         ct_Projections = [],
         ct_Engine = DistributedEngine
           \<lparr>dist_Cluster = '''', dist_Database = ''signoz_metrics'',
           dist_Table = ''samples_v4_agg_30m'',
           ShardingKey = ''cityHash64(env, temporality, metric_name, fingerprint)''\<rparr>\<rparr>],
    DownItems = [
      DropTableOperation \<lparr>cluster = '''', Database = ''signoz_metrics'', Table = ''distributed_samples_v4_agg_30m'',
         dt_Settings = []\<rparr>]\<rparr>"

definition SquashedMetrics_26 :: "SchemaMigrationRecord" where
  "SquashedMetrics_26 = \<lparr>
    MigrationID = 26,
    UpItems = [
      CreateTableOperation \<lparr>cluster = '''', Database = ''signoz_metrics'', Table = ''usage'',
         ct_Columns = [
           Col_Codec ''tenant'' ColumnTypeString ''ZSTD(1)'',
           Col_Codec ''collector_id'' ColumnTypeString ''ZSTD(1)'',
           Col_Codec ''exporter_id'' ColumnTypeString ''ZSTD(1)'',
           Col_Codec ''timestamp'' (DateTimeColumnType '''') ''ZSTD(1)'',
           Col_Codec ''data'' ColumnTypeString ''ZSTD(1)''],
         ct_Indexes = [],
         ct_Projections = [],
         ct_Engine = MergeTreeEngine
           \<lparr>Replicated = False,
            OrderBy = ''(tenant, collector_id, exporter_id, timestamp)'',
            PrimaryKey = '''',
            PartitionBy = '''',
            SampleBy = '''',
            engine_TTL = ''timestamp + toIntervalDay(3)'',
            engine_Settings = [TableSetting ''index_granularity'' ''8192'']\<rparr>\<rparr>],
    DownItems = [
      DropTableOperation \<lparr>cluster = '''', Database = ''signoz_metrics'', Table = ''usage'',
         dt_Settings = []\<rparr>]\<rparr>"

definition SquashedMetrics_27 :: "SchemaMigrationRecord" where
  "SquashedMetrics_27 = \<lparr>
    MigrationID = 27,
    UpItems = [
      CreateTableOperation \<lparr>cluster = '''', Database = ''signoz_metrics'', Table = ''distributed_usage'',
         ct_Columns = [
           Col_Codec ''tenant'' ColumnTypeString ''ZSTD(1)'',
           Col_Codec ''collector_id'' ColumnTypeString ''ZSTD(1)'',
           Col_Codec ''exporter_id'' ColumnTypeString ''ZSTD(1)'',
           Col_Codec ''timestamp'' (DateTimeColumnType '''') ''ZSTD(1)'',
           Col_Codec ''data'' ColumnTypeString ''ZSTD(1)''],
         ct_Indexes = [],
         ct_Projections = [],
         ct_Engine = DistributedEngine
           \<lparr>dist_Cluster = '''', dist_Database = ''signoz_metrics'',
           dist_Table = ''usage'',
           ShardingKey = ''cityHash64(rand())''\<rparr>\<rparr>],
    DownItems = [
      DropTableOperation \<lparr>cluster = '''', Database = ''signoz_metrics'', Table = ''distributed_usage'',
         dt_Settings = []\<rparr>]\<rparr>"

definition SquashedMetrics_28_up_1 :: "operation list" where
  "SquashedMetrics_28_up_1 = [
     CreateTableOperation \<lparr>cluster = '''', Database = ''signoz_metrics'', Table = ''samples_v4_agg_5m'',
        ct_Columns = [
          Col_Default ''env'' (LowCardinalityColumnType ColumnTypeString) ([quote] @ ''default'' @ [quote]),
          Col_Default ''temporality'' (LowCardinalityColumnType ColumnTypeString) ([quote] @ ''Unspecified'' @ [quote]),
          Col ''metric_name'' (LowCardinalityColumnType ColumnTypeString),
          Col_Codec ''fingerprint'' ColumnTypeUInt64 ''ZSTD(1)'',
          Col_Codec ''unix_milli'' ColumnTypeInt64 ''Delta(8), ZSTD(1)'',
          Col_Codec ''last'' (SimpleAggregateFunction ''anyLast'' [ColumnTypeFloat64]) ''ZSTD(1)'',
          Col_Codec ''min'' (SimpleAggregateFunction ''min'' [ColumnTypeFloat64]) ''ZSTD(1)'',
          Col_Codec ''max'' (SimpleAggregateFunction ''max'' [ColumnTypeFloat64]) ''ZSTD(1)'',
          Col_Codec ''sum'' (SimpleAggregateFunction ''sum'' [ColumnTypeFloat64]) ''ZSTD(1)'',
          Col_Codec ''count'' (SimpleAggregateFunction ''sum'' [ColumnTypeUInt64]) ''ZSTD(1)''],
        ct_Indexes = [],
        ct_Projections = [],
        ct_Engine = AggregatingMergeTree
          \<lparr>Replicated = False,
           OrderBy = ''(env, temporality, metric_name, fingerprint, unix_milli)'',
           PrimaryKey = '''',
           PartitionBy = ''toDate(unix_milli / 1000)'',
           SampleBy = '''',
           engine_TTL = ''toDateTime(unix_milli/1000) + INTERVAL 2592000 SECOND DELETE'',
           engine_Settings = [TableSetting ''ttl_only_drop_parts'' ''1'']\<rparr>\<rparr>,
     CreateTableOperation \<lparr>cluster = '''', Database = ''signoz_metrics'', Table = ''samples_v4_agg_30m'',
        ct_Columns = [
          Col_Default ''env'' (LowCardinalityColumnType ColumnTypeString) ([quote] @ ''default'' @ [quote]),
          Col_Default ''temporality'' (LowCardinalityColumnType ColumnTypeString) ([quote] @ ''Unspecified'' @ [quote]),
          Col ''metric_name'' (LowCardinalityColumnType ColumnTypeString),
          Col_Codec ''fingerprint'' ColumnTypeUInt64 ''ZSTD(1)'',
          Col_Codec ''unix_milli'' ColumnTypeInt64 ''Delta(8), ZSTD(1)'',
          Col_Codec ''last'' (SimpleAggregateFunction ''anyLast'' [ColumnTypeFloat64]) ''ZSTD(1)'',
          Col_Codec ''min'' (SimpleAggregateFunction ''min'' [ColumnTypeFloat64]) ''ZSTD(1)'',
          Col_Codec ''max'' (SimpleAggregateFunction ''max'' [ColumnTypeFloat64]) ''ZSTD(1)'',
          Col_Codec ''sum'' (SimpleAggregateFunction ''sum'' [ColumnTypeFloat64]) ''ZSTD(1)'',
          Col_Codec ''count'' (SimpleAggregateFunction ''sum'' [ColumnTypeUInt64]) ''ZSTD(1)''],
        ct_Indexes = [],
        ct_Projections = [],
        ct_Engine = AggregatingMergeTree
          \<lparr>Replicated = False,
           OrderBy = ''(env, temporality, metric_name, fingerprint, unix_milli)'',
           PrimaryKey = '''',
           PartitionBy = ''toDate(unix_milli / 1000)'',
           SampleBy = '''',
           engine_TTL = ''toDateTime(unix_milli/1000) + INTERVAL 2592000 SECOND DELETE'',
           engine_Settings = [TableSetting ''ttl_only_drop_parts'' ''1'']\<rparr>\<rparr>,
     CreateMaterializedViewOperation \<lparr>cluster = '''', Database = ''signoz_metrics'',
        mv_ViewName = ''samples_v4_agg_5m_mv'',
        mv_DestTable = ''samples_v4_agg_5m'',
        mv_Columns = [
          Col_Default ''env'' (LowCardinalityColumnType ColumnTypeString) ([quote] @ ''default'' @ [quote]),
          Col_Default ''temporality'' (LowCardinalityColumnType ColumnTypeString) ([quote] @ ''Unspecified'' @ [quote]),
          Col ''metric_name'' (LowCardinalityColumnType ColumnTypeString),
          Col_Codec ''fingerprint'' ColumnTypeUInt64 ''ZSTD(1)'',
          Col_Codec ''unix_milli'' ColumnTypeInt64 ''Delta(8), ZSTD(1)'',
          Col_Codec ''last'' (SimpleAggregateFunction ''anyLast'' [ColumnTypeFloat64]) ''ZSTD(1)'',
          Col_Codec ''min'' (SimpleAggregateFunction ''min'' [ColumnTypeFloat64]) ''ZSTD(1)'',
          Col_Codec ''max'' (SimpleAggregateFunction ''max'' [ColumnTypeFloat64]) ''ZSTD(1)'',
          Col_Codec ''sum'' (SimpleAggregateFunction ''sum'' [ColumnTypeFloat64]) ''ZSTD(1)'',
          Col_Codec ''count'' (SimpleAggregateFunction ''sum'' [ColumnTypeUInt64]) ''ZSTD(1)''],
        mv_Query = (text_lines [
          ''SELECT'',
          ''    env,'',
          ''    temporality,'',
          ''    metric_name,'',
          ''    fingerprint,'',
          ''    intDiv(unix_milli, 300000) * 300000 as unix_milli,'',
          ''    anyLast(value) as last,'',
          ''    min(value) as min,'',
          ''    max(value) as max,'',
          ''    sum(value) as sum,'',
          ''    count(*) as count'',
          ''FROM signoz_metrics.samples_v4 '',
          ''GROUP BY'',
          ''    env,'',
          ''    temporality,'',
          ''    metric_name,'',
          ''    fingerprint,'',
          ''    unix_milli;''])\<rparr>,
     CreateMaterializedViewOperation \<lparr>cluster = '''', Database = ''signoz_metrics'',
        mv_ViewName = ''samples_v4_agg_30m_mv'',
        mv_DestTable = ''samples_v4_agg_30m'',
        mv_Columns = [
          Col_Default ''env'' (LowCardinalityColumnType ColumnTypeString) ([quote] @ ''default'' @ [quote]),
          Col_Default ''temporality'' (LowCardinalityColumnType ColumnTypeString) ([quote] @ ''Unspecified'' @ [quote]),
          Col ''metric_name'' (LowCardinalityColumnType ColumnTypeString),
          Col_Codec ''fingerprint'' ColumnTypeUInt64 ''ZSTD(1)'',
          Col_Codec ''unix_milli'' ColumnTypeInt64 ''Delta(8), ZSTD(1)'',
          Col_Codec ''last'' (SimpleAggregateFunction ''anyLast'' [ColumnTypeFloat64]) ''ZSTD(1)'',
          Col_Codec ''min'' (SimpleAggregateFunction ''min'' [ColumnTypeFloat64]) ''ZSTD(1)'',
          Col_Codec ''max'' (SimpleAggregateFunction ''max'' [ColumnTypeFloat64]) ''ZSTD(1)'',
          Col_Codec ''sum'' (SimpleAggregateFunction ''sum'' [ColumnTypeFloat64]) ''ZSTD(1)'',
          Col_Codec ''count'' (SimpleAggregateFunction ''sum'' [ColumnTypeUInt64]) ''ZSTD(1)''],
        mv_Query = (text_lines [
          ''SELECT'',
          ''    env,'',
          ''    temporality,'',
          ''    metric_name,'',
          ''    fingerprint,'',
          ''    intDiv(unix_milli, 1800000) * 1800000 as unix_milli,'',
          ''    anyLast(last) as last,'',
          ''    min(min) as min,'',
          ''    max(max) as max,'',
          ''    sum(sum) as sum,'',
          ''    sum(count) as count'',
          ''FROM signoz_metrics.samples_v4_agg_5m '',
          ''GROUP BY'',
          ''    env,'',
          ''    temporality,'',
          ''    metric_name,'',
          ''    fingerprint,'',
          ''    unix_milli;''])\<rparr>,
     CreateTableOperation \<lparr>cluster = '''', Database = ''signoz_metrics'', Table = ''distributed_samples_v4_agg_5m'',
        ct_Columns = [
          Col_Default ''env'' (LowCardinalityColumnType ColumnTypeString) ([quote] @ ''default'' @ [quote]),
          Col_Default ''temporality'' (LowCardinalityColumnType ColumnTypeString) ([quote] @ ''Unspecified'' @ [quote]),
          Col ''metric_name'' (LowCardinalityColumnType ColumnTypeString),
          Col_Codec ''fingerprint'' ColumnTypeUInt64 ''ZSTD(1)'',
          Col_Codec ''unix_milli'' ColumnTypeInt64 ''Delta(8), ZSTD(1)'',
          Col_Codec ''last'' (SimpleAggregateFunction ''anyLast'' [ColumnTypeFloat64]) ''ZSTD(1)'',
          Col_Codec ''min'' (SimpleAggregateFunction ''min'' [ColumnTypeFloat64]) ''ZSTD(1)'',
          Col_Codec ''max'' (SimpleAggregateFunction ''max'' [ColumnTypeFloat64]) ''ZSTD(1)'',
          Col_Codec ''sum'' (SimpleAggregateFunction ''sum'' [ColumnTypeFloat64]) ''ZSTD(1)'',
          Col_Codec ''count'' (SimpleAggregateFunction ''sum'' [ColumnTypeUInt64]) ''ZSTD(1)''],
        ct_Indexes = [],
        ct_Projections = [],
        ct_Engine = DistributedEngine
          \<lparr>dist_Cluster = '''', dist_Database = ''signoz_metrics'',
          dist_Table = ''samples_v4_agg_5m'',
          ShardingKey = ''cityHash64(env, temporality, metric_name, fingerprint)''\<rparr>\<rparr>]"

definition SquashedMetrics_28_up_2 :: "operation list" where
  "SquashedMetrics_28_up_2 = [
     CreateTableOperation \<lparr>cluster = '''', Database = ''signoz_metrics'', Table = ''distributed_samples_v4_agg_30m'',
        ct_Columns = [
          Col_Default ''env'' (LowCardinalityColumnType ColumnTypeString) ([quote] @ ''default'' @ [quote]),
          Col_Default ''temporality'' (LowCardinalityColumnType ColumnTypeString) ([quote] @ ''Unspecified'' @ [quote]),
          Col ''metric_name'' (LowCardinalityColumnType ColumnTypeString),
          Col_Codec ''fingerprint'' ColumnTypeUInt64 ''ZSTD(1)'',
          Col_Codec ''unix_milli'' ColumnTypeInt64 ''Delta(8), ZSTD(1)'',
          Col_Codec ''last'' (SimpleAggregateFunction ''anyLast'' [ColumnTypeFloat64]) ''ZSTD(1)'',
          Col_Codec ''min'' (SimpleAggregateFunction ''min'' [ColumnTypeFloat64]) ''ZSTD(1)'',
          Col_Codec ''max'' (SimpleAggregateFunction ''max'' [ColumnTypeFloat64]) ''ZSTD(1)'',
          Col_Codec ''sum'' (SimpleAggregateFunction ''sum'' [ColumnTypeFloat64]) ''ZSTD(1)'',
          Col_Codec ''count'' (SimpleAggregateFunction ''sum'' [ColumnTypeUInt64]) ''ZSTD(1)''],
        ct_Indexes = [],
        ct_Projections = [],
        ct_Engine = DistributedEngine
          \<lparr>dist_Cluster = '''', dist_Database = ''signoz_metrics'',
          dist_Table = ''samples_v4_agg_30m'',
          ShardingKey = ''cityHash64(env, temporality, metric_name, fingerprint)''\<rparr>\<rparr>,
     CreateTableOperation \<lparr>cluster = '''', Database = ''signoz_metrics'', Table = ''time_series_v4_1week'',
        ct_Columns = [
          Col_Default ''env'' (LowCardinalityColumnType ColumnTypeString) ([quote] @ ''default'' @ [quote]),
          Col_Default ''temporality'' (LowCardinalityColumnType ColumnTypeString) ([quote] @ ''Unspecified'' @ [quote]),
          Col ''metric_name'' (LowCardinalityColumnType ColumnTypeString),
          Col_Default ''description'' (LowCardinalityColumnType ColumnTypeString) ([quote] @ ''default'' @ [quote]),
          Col_Default ''unit'' (LowCardinalityColumnType ColumnTypeString) ([quote] @ ''default'' @ [quote]),
          Col_Default ''type'' (LowCardinalityColumnType ColumnTypeString) ([quote] @ ''default'' @ [quote]),
          Col_Default ''is_monotonic'' ColumnTypeBool ''false'',
          Col_Codec ''fingerprint'' ColumnTypeUInt64 ''Delta(8), ZSTD(1)'',
          Col_Codec ''unix_milli'' ColumnTypeInt64 ''Delta(8), ZSTD(1)'',
          Col_Codec ''labels'' ColumnTypeString ''ZSTD(5)''],
        ct_Indexes = [],
        ct_Projections = [],
        ct_Engine = ReplacingMergeTree
          \<lparr>Replicated = False,
           OrderBy = ''(env, temporality, metric_name, fingerprint, unix_milli)'',
           PrimaryKey = '''',
           PartitionBy = ''toDate(unix_milli / 1000)'',
           SampleBy = '''',
           engine_TTL = ''toDateTime(unix_milli/1000) + INTERVAL 2592000 SECOND DELETE'',
           engine_Settings = [TableSetting ''ttl_only_drop_parts'' ''1'']\<rparr>\<rparr>,
     CreateMaterializedViewOperation \<lparr>cluster = '''', Database = ''signoz_metrics'',
        mv_ViewName = ''time_series_v4_1week_mv'',
        mv_DestTable = ''time_series_v4_1week'',
        mv_Columns = [
          Col_Default ''env'' (LowCardinalityColumnType ColumnTypeString) ([quote] @ ''default'' @ [quote]),
          Col_Default ''temporality'' (LowCardinalityColumnType ColumnTypeString) ([quote] @ ''Unspecified'' @ [quote]),
          Col ''metric_name'' (LowCardinalityColumnType ColumnTypeString),
          Col_Default ''description'' (LowCardinalityColumnType ColumnTypeString) ([quote] @ ''default'' @ [quote]),
          Col_Default ''unit'' (LowCardinalityColumnType ColumnTypeString) ([quote] @ ''default'' @ [quote]),
          Col_Default ''type'' (LowCardinalityColumnType ColumnTypeString) ([quote] @ ''default'' @ [quote]),
          Col_Default ''is_monotonic'' ColumnTypeBool ''false'',
          Col_Codec ''fingerprint'' ColumnTypeUInt64 ''Delta(8), ZSTD(1)'',
          Col_Codec ''unix_milli'' ColumnTypeInt64 ''Delta(8), ZSTD(1)'',
          Col_Codec ''labels'' ColumnTypeString ''ZSTD(5)''],
        mv_Query = (text_lines [
          ''SELECT'',
          ''    env,'',
          ''    temporality,'',
          ''    metric_name,'',
          ''    description,'',
          ''    unit,'',
          ''    type,'',
          ''    is_monotonic,'',
          ''    fingerprint,'',
          ''    floor(unix_milli/604800000)*604800000 AS unix_milli,'',
          ''    labels'',
          ''FROM signoz_metrics.time_series_v4_1day;''])\<rparr>,
     CreateTableOperation \<lparr>cluster = '''', Database = ''signoz_metrics'', Table = ''distributed_time_series_v4_1week'',
        ct_Columns = [
          Col_Default ''env'' (LowCardinalityColumnType ColumnTypeString) ([quote] @ ''default'' @ [quote]),
          Col_Default ''temporality'' (LowCardinalityColumnType ColumnTypeString) ([quote] @ ''Unspecified'' @ [quote]),
          Col ''metric_name'' (LowCardinalityColumnType ColumnTypeString),
          Col_Default ''description'' (LowCardinalityColumnType ColumnTypeString) ([quote] @ ''default'' @ [quote])],
        ct_Indexes = [],
        ct_Projections = [],
        ct_Engine = DistributedEngine
          \<lparr>dist_Cluster = '''', dist_Database = ''signoz_metrics'',
          dist_Table = ''time_series_v4_1week'',
          ShardingKey = ''cityHash64(env, temporality, metric_name, fingerprint)''\<rparr>\<rparr>]"

definition SquashedMetrics_28_down :: "operation list" where
  "SquashedMetrics_28_down = [
     DropTableOperation \<lparr>cluster = '''', Database = ''signoz_metrics'', Table = ''samples_v4_agg_5m'',
        dt_Settings = []\<rparr>,
     DropTableOperation \<lparr>cluster = '''', Database = ''signoz_metrics'', Table = ''samples_v4_agg_5m_mv'',
        dt_Settings = []\<rparr>,
     DropTableOperation \<lparr>cluster = '''', Database = ''signoz_metrics'', Table = ''samples_v4_agg_30m'',
        dt_Settings = []\<rparr>,
     DropTableOperation \<lparr>cluster = '''', Database = ''signoz_metrics'', Table = ''samples_v4_agg_30m_mv'',
        dt_Settings = []\<rparr>,
     DropTableOperation \<lparr>cluster = '''', Database = ''signoz_metrics'', Table = ''distributed_samples_v4_agg_5m'',
        dt_Settings = []\<rparr>,
     DropTableOperation \<lparr>cluster = '''', Database = ''signoz_metrics'', Table = ''distributed_samples_v4_agg_30m'',
        dt_Settings = []\<rparr>,
     DropTableOperation \<lparr>cluster = '''', Database = ''signoz_metrics'', Table = ''time_series_v4_1week'',
        dt_Settings = []\<rparr>,
     DropTableOperation \<lparr>cluster = '''', Database = ''signoz_metrics'', Table = ''distributed_time_series_v4_1week'',
        dt_Settings = []\<rparr>,
     DropTableOperation \<lparr>cluster = '''', Database = ''signoz_metrics'', Table = ''time_series_v4_1week_mv'',
        dt_Settings = []\<rparr>]"

definition SquashedMetrics_28 :: "SchemaMigrationRecord" where
  "SquashedMetrics_28 = \<lparr>
    MigrationID = 28,
    UpItems = SquashedMetrics_28_up_1 @ SquashedMetrics_28_up_2,
    DownItems = SquashedMetrics_28_down\<rparr>"

definition SquashedMetrics_list :: "SchemaMigrationRecord list" where
  "SquashedMetrics_list = [
    SquashedMetrics_1, SquashedMetrics_2, SquashedMetrics_3, SquashedMetrics_4,
    SquashedMetrics_5, SquashedMetrics_6, SquashedMetrics_7, SquashedMetrics_8,
    SquashedMetrics_9, SquashedMetrics_10, SquashedMetrics_11, SquashedMetrics_12,
    SquashedMetrics_13, SquashedMetrics_14, SquashedMetrics_15, SquashedMetrics_16,
    SquashedMetrics_17, SquashedMetrics_18, SquashedMetrics_19, SquashedMetrics_20,
    SquashedMetrics_21, SquashedMetrics_22, SquashedMetrics_23, SquashedMetrics_24,
    SquashedMetrics_25, SquashedMetrics_26, SquashedMetrics_27, SquashedMetrics_28]"

section \<open>\<^verbatim>\<open>metrics_migrations.go\<close>\<close>

definition Metrics_1000_up_1 :: "operation list" where
  "Metrics_1000_up_1 = [
     AlterTableAddColumn \<lparr>cluster = '''', Database = ''signoz_metrics'', Table = ''time_series_v4'',
        ac_Column = Col_Codec_Default ''attrs'' (MapColumnType (LowCardinalityColumnType ColumnTypeString) ColumnTypeString) ''ZSTD(1)'' ''map()'',
        ac_After = None\<rparr>,
     AlterTableAddColumn \<lparr>cluster = '''', Database = ''signoz_metrics'', Table = ''time_series_v4'',
        ac_Column = Col_Codec_Default ''scope_attrs'' (MapColumnType (LowCardinalityColumnType ColumnTypeString) ColumnTypeString) ''ZSTD(1)'' ''map()'',
        ac_After = None\<rparr>,
     AlterTableAddColumn \<lparr>cluster = '''', Database = ''signoz_metrics'', Table = ''time_series_v4'',
        ac_Column = Col_Codec_Default ''resource_attrs'' (MapColumnType (LowCardinalityColumnType ColumnTypeString) ColumnTypeString) ''ZSTD(1)'' ''map()'',
        ac_After = None\<rparr>,
     AlterTableAddColumn \<lparr>cluster = '''', Database = ''signoz_metrics'', Table = ''distributed_time_series_v4'',
        ac_Column = Col_Codec_Default ''attrs'' (MapColumnType (LowCardinalityColumnType ColumnTypeString) ColumnTypeString) ''ZSTD(1)'' ''map()'',
        ac_After = None\<rparr>,
     AlterTableAddColumn \<lparr>cluster = '''', Database = ''signoz_metrics'', Table = ''distributed_time_series_v4'',
        ac_Column = Col_Codec_Default ''scope_attrs'' (MapColumnType (LowCardinalityColumnType ColumnTypeString) ColumnTypeString) ''ZSTD(1)'' ''map()'',
        ac_After = None\<rparr>,
     AlterTableAddColumn \<lparr>cluster = '''', Database = ''signoz_metrics'', Table = ''distributed_time_series_v4'',
        ac_Column = Col_Codec_Default ''resource_attrs'' (MapColumnType (LowCardinalityColumnType ColumnTypeString) ColumnTypeString) ''ZSTD(1)'' ''map()'',
        ac_After = None\<rparr>,
     AlterTableAddColumn \<lparr>cluster = '''', Database = ''signoz_metrics'', Table = ''time_series_v4_6hrs'',
        ac_Column = Col_Codec_Default ''attrs'' (MapColumnType (LowCardinalityColumnType ColumnTypeString) ColumnTypeString) ''ZSTD(1)'' ''map()'',
        ac_After = None\<rparr>,
     AlterTableAddColumn \<lparr>cluster = '''', Database = ''signoz_metrics'', Table = ''time_series_v4_6hrs'',
        ac_Column = Col_Codec_Default ''scope_attrs'' (MapColumnType (LowCardinalityColumnType ColumnTypeString) ColumnTypeString) ''ZSTD(1)'' ''map()'',
        ac_After = None\<rparr>,
     AlterTableAddColumn \<lparr>cluster = '''', Database = ''signoz_metrics'', Table = ''time_series_v4_6hrs'',
        ac_Column = Col_Codec_Default ''resource_attrs'' (MapColumnType (LowCardinalityColumnType ColumnTypeString) ColumnTypeString) ''ZSTD(1)'' ''map()'',
        ac_After = None\<rparr>,
     AlterTableAddColumn \<lparr>cluster = '''', Database = ''signoz_metrics'', Table = ''distributed_time_series_v4_6hrs'',
        ac_Column = Col_Codec_Default ''attrs'' (MapColumnType (LowCardinalityColumnType ColumnTypeString) ColumnTypeString) ''ZSTD(1)'' ''map()'',
        ac_After = None\<rparr>,
     AlterTableAddColumn \<lparr>cluster = '''', Database = ''signoz_metrics'', Table = ''distributed_time_series_v4_6hrs'',
        ac_Column = Col_Codec_Default ''scope_attrs'' (MapColumnType (LowCardinalityColumnType ColumnTypeString) ColumnTypeString) ''ZSTD(1)'' ''map()'',
        ac_After = None\<rparr>]"

definition Metrics_1000_up_2 :: "operation list" where
  "Metrics_1000_up_2 = [
     AlterTableAddColumn \<lparr>cluster = '''', Database = ''signoz_metrics'', Table = ''distributed_time_series_v4_6hrs'',
        ac_Column = Col_Codec_Default ''resource_attrs'' (MapColumnType (LowCardinalityColumnType ColumnTypeString) ColumnTypeString) ''ZSTD(1)'' ''map()'',
        ac_After = None\<rparr>,
     AlterTableAddColumn \<lparr>cluster = '''', Database = ''signoz_metrics'', Table = ''time_series_v4_1day'',
        ac_Column = Col_Codec_Default ''attrs'' (MapColumnType (LowCardinalityColumnType ColumnTypeString) ColumnTypeString) ''ZSTD(1)'' ''map()'',
        ac_After = None\<rparr>,
     AlterTableAddColumn \<lparr>cluster = '''', Database = ''signoz_metrics'', Table = ''time_series_v4_1day'',
        ac_Column = Col_Codec_Default ''scope_attrs'' (MapColumnType (LowCardinalityColumnType ColumnTypeString) ColumnTypeString) ''ZSTD(1)'' ''map()'',
        ac_After = None\<rparr>,
     AlterTableAddColumn \<lparr>cluster = '''', Database = ''signoz_metrics'', Table = ''time_series_v4_1day'',
        ac_Column = Col_Codec_Default ''resource_attrs'' (MapColumnType (LowCardinalityColumnType ColumnTypeString) ColumnTypeString) ''ZSTD(1)'' ''map()'',
        ac_After = None\<rparr>,
     AlterTableAddColumn \<lparr>cluster = '''', Database = ''signoz_metrics'', Table = ''distributed_time_series_v4_1day'',
        ac_Column = Col_Codec_Default ''attrs'' (MapColumnType (LowCardinalityColumnType ColumnTypeString) ColumnTypeString) ''ZSTD(1)'' ''map()'',
        ac_After = None\<rparr>,
     AlterTableAddColumn \<lparr>cluster = '''', Database = ''signoz_metrics'', Table = ''distributed_time_series_v4_1day'',
        ac_Column = Col_Codec_Default ''scope_attrs'' (MapColumnType (LowCardinalityColumnType ColumnTypeString) ColumnTypeString) ''ZSTD(1)'' ''map()'',
        ac_After = None\<rparr>,
     AlterTableAddColumn \<lparr>cluster = '''', Database = ''signoz_metrics'', Table = ''distributed_time_series_v4_1day'',
        ac_Column = Col_Codec_Default ''resource_attrs'' (MapColumnType (LowCardinalityColumnType ColumnTypeString) ColumnTypeString) ''ZSTD(1)'' ''map()'',
        ac_After = None\<rparr>,
     AlterTableAddColumn \<lparr>cluster = '''', Database = ''signoz_metrics'', Table = ''time_series_v4_1week'',
        ac_Column = Col_Codec_Default ''attrs'' (MapColumnType (LowCardinalityColumnType ColumnTypeString) ColumnTypeString) ''ZSTD(1)'' ''map()'',
        ac_After = None\<rparr>,
     AlterTableAddColumn \<lparr>cluster = '''', Database = ''signoz_metrics'', Table = ''time_series_v4_1week'',
        ac_Column = Col_Codec_Default ''scope_attrs'' (MapColumnType (LowCardinalityColumnType ColumnTypeString) ColumnTypeString) ''ZSTD(1)'' ''map()'',
        ac_After = None\<rparr>,
     AlterTableAddColumn \<lparr>cluster = '''', Database = ''signoz_metrics'', Table = ''time_series_v4_1week'',
        ac_Column = Col_Codec_Default ''resource_attrs'' (MapColumnType (LowCardinalityColumnType ColumnTypeString) ColumnTypeString) ''ZSTD(1)'' ''map()'',
        ac_After = None\<rparr>,
     AlterTableAddColumn \<lparr>cluster = '''', Database = ''signoz_metrics'', Table = ''distributed_time_series_v4_1week'',
        ac_Column = Col_Codec_Default ''attrs'' (MapColumnType (LowCardinalityColumnType ColumnTypeString) ColumnTypeString) ''ZSTD(1)'' ''map()'',
        ac_After = None\<rparr>]"

definition Metrics_1000_up_3 :: "operation list" where
  "Metrics_1000_up_3 = [
     AlterTableAddColumn \<lparr>cluster = '''', Database = ''signoz_metrics'', Table = ''distributed_time_series_v4_1week'',
        ac_Column = Col_Codec_Default ''scope_attrs'' (MapColumnType (LowCardinalityColumnType ColumnTypeString) ColumnTypeString) ''ZSTD(1)'' ''map()'',
        ac_After = None\<rparr>,
     AlterTableAddColumn \<lparr>cluster = '''', Database = ''signoz_metrics'', Table = ''distributed_time_series_v4_1week'',
        ac_Column = Col_Codec_Default ''resource_attrs'' (MapColumnType (LowCardinalityColumnType ColumnTypeString) ColumnTypeString) ''ZSTD(1)'' ''map()'',
        ac_After = None\<rparr>,
     CreateTableOperation \<lparr>cluster = '''', Database = ''signoz_metrics'', Table = ''metadata'',
        ct_Columns = [
          Col_Codec ''temporality'' (LowCardinalityColumnType ColumnTypeString) ''ZSTD(1)'',
          Col_Codec ''metric_name'' (LowCardinalityColumnType ColumnTypeString) ''ZSTD(1)'',
          Col_Codec ''description'' ColumnTypeString ''ZSTD(1)'',
          Col_Codec ''unit'' (LowCardinalityColumnType ColumnTypeString) ''ZSTD(1)'',
          Col_Codec ''type'' (LowCardinalityColumnType ColumnTypeString) ''ZSTD(1)'',
          Col_Codec ''is_monotonic'' ColumnTypeBool ''ZSTD(1)'',
          Col_Codec ''attr_name'' (LowCardinalityColumnType ColumnTypeString) ''ZSTD(1)'',
          Col_Codec ''attr_type'' (LowCardinalityColumnType ColumnTypeString) ''ZSTD(1)'',
          Col_Codec ''attr_datatype'' (LowCardinalityColumnType ColumnTypeString) ''ZSTD(1)'',
          Col_Codec ''attr_string_value'' ColumnTypeString ''ZSTD(1)'',
          Col_Codec ''first_reported_unix_milli'' (SimpleAggregateFunction ''min'' [ColumnTypeUInt64]) ''ZSTD(1)'',
          Col_Codec ''last_reported_unix_milli'' (SimpleAggregateFunction ''max'' [ColumnTypeUInt64]) ''ZSTD(1)''],
        ct_Indexes = [],
        ct_Projections = [],
        ct_Engine = AggregatingMergeTree
          \<lparr>Replicated = False,
           OrderBy = ''(temporality, metric_name, attr_name, attr_type, attr_datatype, attr_string_value)'',
           PrimaryKey = '''',
           PartitionBy = ''toDate(last_reported_unix_milli / 1000)'',
           SampleBy = '''',
           engine_TTL = ''toDateTime(last_reported_unix_milli / 1000) + toIntervalSecond(2592000)'',
           engine_Settings = [TableSetting ''ttl_only_drop_parts'' ''1'']\<rparr>\<rparr>,
     CreateTableOperation \<lparr>cluster = '''', Database = ''signoz_metrics'', Table = ''distributed_metadata'',
        ct_Columns = [
          Col_Codec ''temporality'' (LowCardinalityColumnType ColumnTypeString) ''ZSTD(1)'',
          Col_Codec ''metric_name'' (LowCardinalityColumnType ColumnTypeString) ''ZSTD(1)'',
          Col_Codec ''description'' ColumnTypeString ''ZSTD(1)'',
          Col_Codec ''unit'' (LowCardinalityColumnType ColumnTypeString) ''ZSTD(1)'',
          Col_Codec ''type'' (LowCardinalityColumnType ColumnTypeString) ''ZSTD(1)'',
          Col_Codec ''is_monotonic'' ColumnTypeBool ''ZSTD(1)'',
          Col_Codec ''attr_name'' (LowCardinalityColumnType ColumnTypeString) ''ZSTD(1)'',
          Col_Codec ''attr_type'' (LowCardinalityColumnType ColumnTypeString) ''ZSTD(1)'',
          Col_Codec ''attr_datatype'' (LowCardinalityColumnType ColumnTypeString) ''ZSTD(1)'',
          Col_Codec ''attr_string_value'' ColumnTypeString ''ZSTD(1)'',
          Col_Codec ''first_reported_unix_milli'' (SimpleAggregateFunction ''min'' [ColumnTypeUInt64]) ''ZSTD(1)'',
          Col_Codec ''last_reported_unix_milli'' (SimpleAggregateFunction ''max'' [ColumnTypeUInt64]) ''ZSTD(1)''],
        ct_Indexes = [],
        ct_Projections = [],
        ct_Engine = DistributedEngine
          \<lparr>dist_Cluster = '''', dist_Database = ''signoz_metrics'',
          dist_Table = ''metadata'',
          ShardingKey = ''rand()''\<rparr>\<rparr>,
     CreateMaterializedViewOperation \<lparr>cluster = '''', Database = ''signoz_metrics'',
        mv_ViewName = ''time_series_v4_6hrs_mv_separate_attrs'',
        mv_DestTable = ''time_series_v4_6hrs'',
        mv_Columns = [
          Col_Default ''env'' (LowCardinalityColumnType ColumnTypeString) ([quote] @ ''default'' @ [quote]),
          Col_Default ''temporality'' (LowCardinalityColumnType ColumnTypeString) ([quote] @ ''Unspecified'' @ [quote]),
          Col ''metric_name'' (LowCardinalityColumnType ColumnTypeString),
          Col_Codec_Default ''description'' (LowCardinalityColumnType ColumnTypeString) ''ZSTD(1)'' ([quote] @ [quote]),
          Col_Codec_Default ''unit'' (LowCardinalityColumnType ColumnTypeString) ''ZSTD(1)'' ([quote] @ [quote]),
          Col_Codec_Default ''type'' (LowCardinalityColumnType ColumnTypeString) ''ZSTD(1)'' ([quote] @ [quote]),
          Col_Codec_Default ''is_monotonic'' ColumnTypeBool ''ZSTD(1)'' ''false'',
          Col_Codec ''fingerprint'' ColumnTypeUInt64 ''Delta(8), ZSTD(1)'',
          Col_Codec ''unix_milli'' ColumnTypeInt64 ''Delta(8), ZSTD(1)'',
          Col_Codec ''labels'' ColumnTypeString ''ZSTD(5)'',
          Col_Codec ''attrs'' (MapColumnType (LowCardinalityColumnType ColumnTypeString) ColumnTypeString) ''ZSTD(1)'',
          Col_Codec ''scope_attrs'' (MapColumnType (LowCardinalityColumnType ColumnTypeString) ColumnTypeString) ''ZSTD(1)'',
          Col_Codec ''resource_attrs'' (MapColumnType (LowCardinalityColumnType ColumnTypeString) ColumnTypeString) ''ZSTD(1)''],
        mv_Query = (text_lines [
          ''SELECT'',
          indent 7 ''env,'',
          indent 7 ''temporality,'',
          indent 7 ''metric_name,'',
          indent 7 ''description,'',
          indent 7 ''unit,'',
          indent 7 ''type,'',
          indent 7 ''is_monotonic,'',
          indent 7 ''fingerprint,'',
          indent 7 ''floor(unix_milli / 21600000) * 21600000 AS unix_milli,'',
          indent 7 ''labels,'',
          indent 7 ''attrs,'',
          indent 7 ''scope_attrs,'',
          indent 7 ''resource_attrs'',
          indent 6 ''FROM signoz_metrics.time_series_v4''])\<rparr>,
     CreateMaterializedViewOperation \<lparr>cluster = '''', Database = ''signoz_metrics'',
        mv_ViewName = ''time_series_v4_1day_mv_separate_attrs'',
        mv_DestTable = ''time_series_v4_1day'',
        mv_Columns = [
          Col_Default ''env'' (LowCardinalityColumnType ColumnTypeString) ([quote] @ ''default'' @ [quote]),
          Col_Default ''temporality'' (LowCardinalityColumnType ColumnTypeString) ([quote] @ ''Unspecified'' @ [quote]),
          Col ''metric_name'' (LowCardinalityColumnType ColumnTypeString),
          Col_Codec_Default ''description'' (LowCardinalityColumnType ColumnTypeString) ''ZSTD(1)'' ([quote] @ [quote]),
          Col_Codec_Default ''unit'' (LowCardinalityColumnType ColumnTypeString) ''ZSTD(1)'' ([quote] @ [quote]),
          Col_Codec_Default ''type'' (LowCardinalityColumnType ColumnTypeString) ''ZSTD(1)'' ([quote] @ [quote]),
          Col_Codec_Default ''is_monotonic'' ColumnTypeBool ''ZSTD(1)'' ''false'',
          Col_Codec ''fingerprint'' ColumnTypeUInt64 ''Delta(8), ZSTD(1)'',
          Col_Codec ''unix_milli'' ColumnTypeInt64 ''Delta(8), ZSTD(1)'',
          Col_Codec ''labels'' ColumnTypeString ''ZSTD(5)'',
          Col_Codec ''attrs'' (MapColumnType (LowCardinalityColumnType ColumnTypeString) ColumnTypeString) ''ZSTD(1)'',
          Col_Codec ''scope_attrs'' (MapColumnType (LowCardinalityColumnType ColumnTypeString) ColumnTypeString) ''ZSTD(1)'',
          Col_Codec ''resource_attrs'' (MapColumnType (LowCardinalityColumnType ColumnTypeString) ColumnTypeString) ''ZSTD(1)''],
        mv_Query = (text_lines [
          ''SELECT'',
          indent 7 ''env,'',
          indent 7 ''temporality,'',
          indent 7 ''metric_name,'',
          indent 7 ''description,'',
          indent 7 ''unit,'',
          indent 7 ''type,'',
          indent 7 ''is_monotonic,'',
          indent 7 ''fingerprint,'',
          indent 7 ''floor(unix_milli / 86400000) * 86400000 AS unix_milli,'',
          indent 7 ''labels,'',
          indent 7 ''attrs,'',
          indent 7 ''scope_attrs,'',
          indent 7 ''resource_attrs'',
          indent 6 ''FROM signoz_metrics.time_series_v4_6hrs''])\<rparr>]"

definition Metrics_1000_up_4 :: "operation list" where
  "Metrics_1000_up_4 = [
     CreateMaterializedViewOperation \<lparr>cluster = '''', Database = ''signoz_metrics'',
        mv_ViewName = ''time_series_v4_1week_mv_separate_attrs'',
        mv_DestTable = ''time_series_v4_1week'',
        mv_Columns = [
          Col_Default ''env'' (LowCardinalityColumnType ColumnTypeString) ([quote] @ ''default'' @ [quote]),
          Col_Default ''temporality'' (LowCardinalityColumnType ColumnTypeString) ([quote] @ ''Unspecified'' @ [quote]),
          Col ''metric_name'' (LowCardinalityColumnType ColumnTypeString),
          Col_Codec_Default ''description'' (LowCardinalityColumnType ColumnTypeString) ''ZSTD(1)'' ([quote] @ [quote]),
          Col_Codec_Default ''unit'' (LowCardinalityColumnType ColumnTypeString) ''ZSTD(1)'' ([quote] @ [quote]),
          Col_Codec_Default ''type'' (LowCardinalityColumnType ColumnTypeString) ''ZSTD(1)'' ([quote] @ [quote]),
          Col_Codec_Default ''is_monotonic'' ColumnTypeBool ''ZSTD(1)'' ''false'',
          Col_Codec ''fingerprint'' ColumnTypeUInt64 ''Delta(8), ZSTD(1)'',
          Col_Codec ''unix_milli'' ColumnTypeInt64 ''Delta(8), ZSTD(1)'',
          Col_Codec ''labels'' ColumnTypeString ''ZSTD(5)'',
          Col_Codec ''attrs'' (MapColumnType (LowCardinalityColumnType ColumnTypeString) ColumnTypeString) ''ZSTD(1)'',
          Col_Codec ''scope_attrs'' (MapColumnType (LowCardinalityColumnType ColumnTypeString) ColumnTypeString) ''ZSTD(1)'',
          Col_Codec ''resource_attrs'' (MapColumnType (LowCardinalityColumnType ColumnTypeString) ColumnTypeString) ''ZSTD(1)''],
        mv_Query = (text_lines [
          ''SELECT'',
          indent 7 ''env,'',
          indent 7 ''temporality,'',
          indent 7 ''metric_name,'',
          indent 7 ''description,'',
          indent 7 ''unit,'',
          indent 7 ''type,'',
          indent 7 ''is_monotonic,'',
          indent 7 ''fingerprint,'',
          indent 7 ''floor(unix_milli / 604800000) * 604800000 AS unix_milli,'',
          indent 7 ''labels,'',
          indent 7 ''attrs,'',
          indent 7 ''scope_attrs,'',
          indent 7 ''resource_attrs'',
          indent 6 ''FROM signoz_metrics.time_series_v4_1day''])\<rparr>]"

definition Metrics_1000 :: "SchemaMigrationRecord" where
  "Metrics_1000 = \<lparr>
    MigrationID = 1000,
    UpItems = Metrics_1000_up_1 @ Metrics_1000_up_2 @ Metrics_1000_up_3 @ Metrics_1000_up_4,
    DownItems = []\<rparr>"

definition Metrics_1001_up_1 :: "operation list" where
  "Metrics_1001_up_1 = [
     AlterTableAddColumn \<lparr>cluster = '''', Database = ''signoz_metrics'', Table = ''time_series_v4'',
        ac_Column = Col_Codec_Default ''__normalized'' ColumnTypeBool ''ZSTD(1)'' ''true'',
        ac_After = None\<rparr>,
     AlterTableAddColumn \<lparr>cluster = '''', Database = ''signoz_metrics'', Table = ''distributed_time_series_v4'',
        ac_Column = Col_Codec_Default ''__normalized'' ColumnTypeBool ''ZSTD(1)'' ''true'',
        ac_After = None\<rparr>,
     AlterTableAddColumn \<lparr>cluster = '''', Database = ''signoz_metrics'', Table = ''time_series_v4_6hrs'',
        ac_Column = Col_Codec_Default ''__normalized'' ColumnTypeBool ''ZSTD(1)'' ''true'',
        ac_After = None\<rparr>,
     AlterTableAddColumn \<lparr>cluster = '''', Database = ''signoz_metrics'', Table = ''distributed_time_series_v4_6hrs'',
        ac_Column = Col_Codec_Default ''__normalized'' ColumnTypeBool ''ZSTD(1)'' ''true'',
        ac_After = None\<rparr>,
     AlterTableAddColumn \<lparr>cluster = '''', Database = ''signoz_metrics'', Table = ''time_series_v4_1day'',
        ac_Column = Col_Codec_Default ''__normalized'' ColumnTypeBool ''ZSTD(1)'' ''true'',
        ac_After = None\<rparr>,
     AlterTableAddColumn \<lparr>cluster = '''', Database = ''signoz_metrics'', Table = ''distributed_time_series_v4_1day'',
        ac_Column = Col_Codec_Default ''__normalized'' ColumnTypeBool ''ZSTD(1)'' ''true'',
        ac_After = None\<rparr>,
     AlterTableAddColumn \<lparr>cluster = '''', Database = ''signoz_metrics'', Table = ''time_series_v4_1week'',
        ac_Column = Col_Codec_Default ''__normalized'' ColumnTypeBool ''ZSTD(1)'' ''true'',
        ac_After = None\<rparr>,
     AlterTableAddColumn \<lparr>cluster = '''', Database = ''signoz_metrics'', Table = ''distributed_time_series_v4_1week'',
        ac_Column = Col_Codec_Default ''__normalized'' ColumnTypeBool ''ZSTD(1)'' ''true'',
        ac_After = None\<rparr>,
     ModifyQueryMaterializedViewOperation \<lparr>cluster = '''', Database = ''signoz_metrics'',
        mq_ViewName = ''time_series_v4_6hrs_mv'',
        mq_Query = (text_lines [
          ''SELECT'',
          indent 7 ''env,'',
          indent 7 ''temporality,'',
          indent 7 ''metric_name,'',
          indent 7 ''description,'',
          indent 7 ''unit,'',
          indent 7 ''type,'',
          indent 7 ''is_monotonic,'',
          indent 7 ''fingerprint,'',
          indent 7 ''floor(unix_milli / 21600000) * 21600000 AS unix_milli,'',
          indent 7 ''labels,'',
          indent 7 ''__normalized'',
          indent 6 ''FROM signoz_metrics.time_series_v4''])\<rparr>,
     ModifyQueryMaterializedViewOperation \<lparr>cluster = '''', Database = ''signoz_metrics'',
        mq_ViewName = ''time_series_v4_1day_mv'',
        mq_Query = (text_lines [
          ''SELECT'',
          indent 7 ''env,'',
          indent 7 ''temporality,'',
          indent 7 ''metric_name,'',
          indent 7 ''description,'',
          indent 7 ''unit,'',
          indent 7 ''type,'',
          indent 7 ''is_monotonic,'',
          indent 7 ''fingerprint,'',
          indent 7 ''floor(unix_milli / 86400000) * 86400000 AS unix_milli,'',
          indent 7 ''labels,'',
          indent 7 ''__normalized'',
          indent 6 ''FROM signoz_metrics.time_series_v4_6hrs''])\<rparr>,
     ModifyQueryMaterializedViewOperation \<lparr>cluster = '''', Database = ''signoz_metrics'',
        mq_ViewName = ''time_series_v4_1week_mv'',
        mq_Query = (text_lines [
          ''SELECT'',
          indent 7 ''env,'',
          indent 7 ''temporality,'',
          indent 7 ''metric_name,'',
          indent 7 ''description,'',
          indent 7 ''unit,'',
          indent 7 ''type,'',
          indent 7 ''is_monotonic,'',
          indent 7 ''fingerprint,'',
          indent 7 ''floor(unix_milli / 604800000) * 604800000 AS unix_milli,'',
          indent 7 ''labels,'',
          indent 7 ''__normalized'',
          indent 6 ''FROM signoz_metrics.time_series_v4_1day''])\<rparr>]"

definition Metrics_1001_up_2 :: "operation list" where
  "Metrics_1001_up_2 = [
     ModifyQueryMaterializedViewOperation \<lparr>cluster = '''', Database = ''signoz_metrics'',
        mq_ViewName = ''time_series_v4_6hrs_mv_separate_attrs'',
        mq_Query = (text_lines [
          ''SELECT'',
          indent 7 ''env,'',
          indent 7 ''temporality,'',
          indent 7 ''metric_name,'',
          indent 7 ''description,'',
          indent 7 ''unit,'',
          indent 7 ''type,'',
          indent 7 ''is_monotonic,'',
          indent 7 ''fingerprint,'',
          indent 7 ''floor(unix_milli / 21600000) * 21600000 AS unix_milli,'',
          indent 7 ''labels,'',
          indent 7 ''attrs,'',
          indent 7 ''scope_attrs,'',
          indent 7 ''resource_attrs,'',
          indent 7 ''__normalized'',
          indent 6 ''FROM signoz_metrics.time_series_v4''])\<rparr>,
     ModifyQueryMaterializedViewOperation \<lparr>cluster = '''', Database = ''signoz_metrics'',
        mq_ViewName = ''time_series_v4_1day_mv_separate_attrs'',
        mq_Query = (text_lines [
          ''SELECT'',
          indent 7 ''env,'',
          indent 7 ''temporality,'',
          indent 7 ''metric_name,'',
          indent 7 ''description,'',
          indent 7 ''unit,'',
          indent 7 ''type,'',
          indent 7 ''is_monotonic,'',
          indent 7 ''fingerprint,'',
          indent 7 ''floor(unix_milli / 86400000) * 86400000 AS unix_milli,'',
          indent 7 ''labels,'',
          indent 7 ''attrs,'',
          indent 7 ''scope_attrs,'',
          indent 7 ''resource_attrs,'',
          indent 7 ''__normalized'',
          indent 6 ''FROM signoz_metrics.time_series_v4_6hrs''])\<rparr>,
     ModifyQueryMaterializedViewOperation \<lparr>cluster = '''', Database = ''signoz_metrics'',
        mq_ViewName = ''time_series_v4_1week_mv_separate_attrs'',
        mq_Query = (text_lines [
          ''SELECT'',
          indent 7 ''env,'',
          indent 7 ''temporality,'',
          indent 7 ''metric_name,'',
          indent 7 ''description,'',
          indent 7 ''unit,'',
          indent 7 ''type,'',
          indent 7 ''is_monotonic,'',
          indent 7 ''fingerprint,'',
          indent 7 ''floor(unix_milli / 604800000) * 604800000 AS unix_milli,'',
          indent 7 ''labels,'',
          indent 7 ''attrs,'',
          indent 7 ''scope_attrs,'',
          indent 7 ''resource_attrs,'',
          indent 7 ''__normalized'',
          indent 6 ''FROM signoz_metrics.time_series_v4_1day''])\<rparr>]"

definition Metrics_1001 :: "SchemaMigrationRecord" where
  "Metrics_1001 = \<lparr>
    MigrationID = 1001,
    UpItems = Metrics_1001_up_1 @ Metrics_1001_up_2,
    DownItems = []\<rparr>"

definition Metrics_1002 :: "SchemaMigrationRecord" where
  "Metrics_1002 = \<lparr>
    MigrationID = 1002,
    UpItems = [
      CreateTableOperation \<lparr>cluster = '''', Database = ''signoz_metrics'', Table = ''updated_metadata'',
         ct_Columns = [
           Col_Codec ''metric_name'' (LowCardinalityColumnType ColumnTypeString) ''ZSTD(1)'',
           Col_Codec ''temporality'' (LowCardinalityColumnType ColumnTypeString) ''ZSTD(1)'',
           Col_Codec ''is_monotonic'' ColumnTypeBool ''ZSTD(1)'',
           Col_Codec ''type'' (LowCardinalityColumnType ColumnTypeString) ''ZSTD(1)'',
           Col_Codec ''description'' (LowCardinalityColumnType ColumnTypeString) ''ZSTD(1)'',
           Col_Codec ''unit'' (LowCardinalityColumnType ColumnTypeString) ''ZSTD(1)'',
           Col_Codec ''created_at'' ColumnTypeInt64 ''ZSTD(1)''],
         ct_Indexes = [],
         ct_Projections = [],
         ct_Engine = MergeTreeEngine
           \<lparr>Replicated = False,
            OrderBy = ''(metric_name)'',
            PrimaryKey = '''',
            PartitionBy = '''',
            SampleBy = '''',
            engine_TTL = '''',
            engine_Settings = []\<rparr>\<rparr>,
      CreateTableOperation \<lparr>cluster = '''', Database = ''signoz_metrics'', Table = ''distributed_updated_metadata'',
         ct_Columns = [
           Col_Codec ''metric_name'' (LowCardinalityColumnType ColumnTypeString) ''ZSTD(1)'',
           Col_Codec ''temporality'' (LowCardinalityColumnType ColumnTypeString) ''ZSTD(1)'',
           Col_Codec ''is_monotonic'' ColumnTypeBool ''ZSTD(1)'',
           Col_Codec ''type'' (LowCardinalityColumnType ColumnTypeString) ''ZSTD(1)'',
           Col_Codec ''description'' (LowCardinalityColumnType ColumnTypeString) ''ZSTD(1)'',
           Col_Codec ''unit'' (LowCardinalityColumnType ColumnTypeString) ''ZSTD(1)'',
           Col_Codec ''created_at'' ColumnTypeInt64 ''ZSTD(1)''],
         ct_Indexes = [],
         ct_Projections = [],
         ct_Engine = DistributedEngine
           \<lparr>dist_Cluster = '''', dist_Database = ''signoz_metrics'',
           dist_Table = ''updated_metadata'',
           ShardingKey = ''cityHash64(metric_name)''\<rparr>\<rparr>],
    DownItems = []\<rparr>"

definition Metrics_1003 :: "SchemaMigrationRecord" where
  "Metrics_1003 = \<lparr>
    MigrationID = 1003,
    UpItems = [
      AlterTableAddColumn \<lparr>cluster = '''', Database = ''signoz_metrics'', Table = ''samples_v4'',
         ac_Column = Col_Codec_Default ''flags'' ColumnTypeUInt32 ''ZSTD(1)'' ''0'',
         ac_After = None\<rparr>,
      AlterTableAddColumn \<lparr>cluster = '''', Database = ''signoz_metrics'', Table = ''distributed_samples_v4'',
         ac_Column = Col_Codec_Default ''flags'' ColumnTypeUInt32 ''ZSTD(1)'' ''0'',
         ac_After = None\<rparr>,
      AlterTableAddColumn \<lparr>cluster = '''', Database = ''signoz_metrics'', Table = ''exp_hist'',
         ac_Column = Col_Codec_Default ''flags'' ColumnTypeUInt32 ''ZSTD(1)'' ''0'',
         ac_After = None\<rparr>,
      AlterTableAddColumn \<lparr>cluster = '''', Database = ''signoz_metrics'', Table = ''distributed_exp_hist'',
         ac_Column = Col_Codec_Default ''flags'' ColumnTypeUInt32 ''ZSTD(1)'' ''0'',
         ac_After = None\<rparr>,
      ModifyQueryMaterializedViewOperation \<lparr>cluster = '''', Database = ''signoz_metrics'',
         mq_ViewName = ''samples_v4_agg_5m_mv'',
         mq_Query = (text_lines [
           ''SELECT'',
           indent 7 ''env,'',
           indent 7 ''temporality,'',
           indent 7 ''metric_name,'',
           indent 7 ''fingerprint,'',
           indent 7 ''intDiv(unix_milli, 300000) * 300000 as unix_milli,'',
           indent 7 ''anyLast(value) as last,'',
           indent 7 ''min(value) as min,'',
           indent 7 ''max(value) as max,'',
           indent 7 ''sum(value) as sum,'',
           indent 7 ''count(*) as count'',
           indent 6 ''FROM signoz_metrics.samples_v4'',
           indent 6 ''WHERE bitAnd(flags, 1) = 0'',
           indent 6 ''GROUP BY'',
           indent 7 ''env,'',
           indent 7 ''temporality,'',
           indent 7 ''metric_name,'',
           indent 7 ''fingerprint,'',
           indent 7 ''unix_milli;''])\<rparr>,
      ModifyQueryMaterializedViewOperation \<lparr>cluster = '''', Database = ''signoz_metrics'',
         mq_ViewName = ''samples_v4_agg_30m_mv'',
         mq_Query = (text_lines [
           ''SELECT'',
           indent 7 ''env,'',
           indent 7 ''temporality,'',
           indent 7 ''metric_name,'',
           indent 7 ''fingerprint,'',
           indent 7 ''intDiv(unix_milli, 1800000) * 1800000 AS unix_milli,'',
           indent 7 ''anyLast(last) AS last,'',
           indent 7 ''min(min) AS min,'',
           indent 7 ''max(max) AS max,'',
           indent 7 ''sum(sum) AS sum,'',
           indent 7 ''sum(count) AS count'',
           indent 6 ''FROM signoz_metrics.samples_v4_agg_5m'',
           indent 6 ''GROUP BY'',
           indent 7 ''env,'',
           indent 7 ''temporality,'',
           indent 7 ''metric_name,'',
           indent 7 ''fingerprint,'',
           indent 7 ''unix_milli;''])\<rparr>],
    DownItems = []\<rparr>"

definition Metrics_1004 :: "SchemaMigrationRecord" where
  "Metrics_1004 = \<lparr>
    MigrationID = 1004,
    UpItems = [
      ModifyQueryMaterializedViewOperation \<lparr>cluster = '''', Database = ''signoz_metrics'',
         mq_ViewName = ''time_series_v4_6hrs_mv'',
         mq_Query = (text_lines [
           ''SELECT'',
           indent 7 ''env,'',
           indent 7 ''temporality,'',
           indent 7 ''metric_name,'',
           indent 7 ''description,'',
           indent 7 ''unit,'',
           indent 7 ''type,'',
           indent 7 ''is_monotonic,'',
           indent 7 ''fingerprint,'',
           indent 7 ''floor(unix_milli / 21600000) * 21600000 AS unix_milli,'',
           indent 7 ''labels,'',
           indent 7 ''attrs,'',
           indent 7 ''scope_attrs,'',
           indent 7 ''resource_attrs,'',
           indent 7 ''__normalized'',
           indent 6 ''FROM signoz_metrics.time_series_v4''])\<rparr>,
      ModifyQueryMaterializedViewOperation \<lparr>cluster = '''', Database = ''signoz_metrics'',
         mq_ViewName = ''time_series_v4_1day_mv'',
         mq_Query = (text_lines [
           ''SELECT'',
           indent 7 ''env,'',
           indent 7 ''temporality,'',
           indent 7 ''metric_name,'',
           indent 7 ''description,'',
           indent 7 ''unit,'',
           indent 7 ''type,'',
           indent 7 ''is_monotonic,'',
           indent 7 ''fingerprint,'',
           indent 7 ''floor(unix_milli / 86400000) * 86400000 AS unix_milli,'',
           indent 7 ''labels,'',
           indent 7 ''attrs,'',
           indent 7 ''scope_attrs,'',
           indent 7 ''resource_attrs,'',
           indent 7 ''__normalized'',
           indent 6 ''FROM signoz_metrics.time_series_v4_6hrs''])\<rparr>,
      ModifyQueryMaterializedViewOperation \<lparr>cluster = '''', Database = ''signoz_metrics'',
         mq_ViewName = ''time_series_v4_1week_mv'',
         mq_Query = (text_lines [
           ''SELECT'',
           indent 7 ''env,'',
           indent 7 ''temporality,'',
           indent 7 ''metric_name,'',
           indent 7 ''description,'',
           indent 7 ''unit,'',
           indent 7 ''type,'',
           indent 7 ''is_monotonic,'',
           indent 7 ''fingerprint,'',
           indent 7 ''floor(unix_milli / 604800000) * 604800000 AS unix_milli,'',
           indent 7 ''labels,'',
           indent 7 ''attrs,'',
           indent 7 ''scope_attrs,'',
           indent 7 ''resource_attrs,'',
           indent 7 ''__normalized'',
           indent 6 ''FROM signoz_metrics.time_series_v4_1day''])\<rparr>],
    DownItems = []\<rparr>"

definition Metrics_1005 :: "SchemaMigrationRecord" where
  "Metrics_1005 = \<lparr>
    MigrationID = 1005,
    UpItems = [
      DropTableOperation \<lparr>cluster = '''', Database = ''signoz_metrics'', Table = ''time_series_v4_6hrs_mv_separate_attrs'',
         dt_Settings = []\<rparr>,
      DropTableOperation \<lparr>cluster = '''', Database = ''signoz_metrics'', Table = ''time_series_v4_1day_mv_separate_attrs'',
         dt_Settings = []\<rparr>,
      DropTableOperation \<lparr>cluster = '''', Database = ''signoz_metrics'', Table = ''time_series_v4_1week_mv_separate_attrs'',
         dt_Settings = []\<rparr>],
    DownItems = []\<rparr>"

definition Metrics_1006 :: "SchemaMigrationRecord" where
  "Metrics_1006 = \<lparr>
    MigrationID = 1006,
    UpItems = [
      AlterTableDropIndex \<lparr>cluster = '''', Database = ''signoz_metrics'', Table = ''time_series_v4'',
         di_Index = Index ''idx_labels'' '''' '''' 0\<rparr>,
      AlterTableDropIndex \<lparr>cluster = '''', Database = ''signoz_metrics'', Table = ''time_series_v4_6hrs'',
         di_Index = Index ''idx_labels'' '''' '''' 0\<rparr>,
      AlterTableDropIndex \<lparr>cluster = '''', Database = ''signoz_metrics'', Table = ''time_series_v4_1day'',
         di_Index = Index ''idx_labels'' '''' '''' 0\<rparr>,
      AlterTableDropIndex \<lparr>cluster = '''', Database = ''signoz_metrics'', Table = ''time_series_v4_1week'',
         di_Index = Index ''idx_labels'' '''' '''' 0\<rparr>],
    DownItems = []\<rparr>"

definition Metrics_list :: "SchemaMigrationRecord list" where
  "Metrics_list = [
    Metrics_1000, Metrics_1001, Metrics_1002, Metrics_1003, Metrics_1004, Metrics_1005,
    Metrics_1006]"

end
