(* ===== verification/MigrationsLogs.thy ===== *)
theory MigrationsLogs
  imports MigrationTerms
begin

text \<open>
  The lists of migrations of the database of the logs,
  one definition per migration (or per part of one, where it is long).
\<close>

section \<open>\<^verbatim>\<open>squashed_logs_migrations.go\<close>\<close>

definition SquashedLogs_1 :: "SchemaMigrationRecord" where
  "SquashedLogs_1 = \<lparr>
    MigrationID = 1,
    UpItems = [
      CreateTableOperation \<lparr>cluster = '''', Database = ''signoz_logs'', Table = ''logs'',
         ct_Columns = [
           Col_Codec ''timestamp'' ColumnTypeUInt64 ''DoubleDelta, LZ4'',
           Col_Codec ''observed_timestamp'' ColumnTypeUInt64 ''DoubleDelta, LZ4'',
           Col_Codec ''id'' ColumnTypeString ''ZSTD(1)'',
           Col_Codec ''trace_id'' ColumnTypeString ''ZSTD(1)'',
           Col_Codec ''span_id'' ColumnTypeString ''ZSTD(1)'',
           Col ''trace_flags'' ColumnTypeUInt32,
           Col_Codec ''severity_text'' (LowCardinalityColumnType ColumnTypeString) ''ZSTD(1)'',
           Col ''severity_number'' ColumnTypeUInt8,
           Col_Codec ''body'' ColumnTypeString ''ZSTD(2)'',
           Col_Codec ''resources_string_key'' (ArrayColumnType ColumnTypeString) ''ZSTD(1)'',
           Col_Codec ''resources_string_value'' (ArrayColumnType ColumnTypeString) ''ZSTD(1)'',
           Col_Codec ''attributes_string_key'' (ArrayColumnType ColumnTypeString) ''ZSTD(1)'',
           Col_Codec ''attributes_string_value'' (ArrayColumnType ColumnTypeString) ''ZSTD(1)'',
           Col_Codec ''attributes_int64_key'' (ArrayColumnType ColumnTypeString) ''ZSTD(1)'',
           Col_Codec ''attributes_int64_value'' (ArrayColumnType ColumnTypeInt64) ''ZSTD(1)'',
           Col_Codec ''attributes_float64_key'' (ArrayColumnType ColumnTypeString) ''ZSTD(1)'',
           Col_Codec ''attributes_float64_value'' (ArrayColumnType ColumnTypeFloat64) ''ZSTD(1)'',
           Col_Codec ''attributes_bool_key'' (ArrayColumnType ColumnTypeString) ''ZSTD(1)'',
           Col_Codec ''attributes_bool_value'' (ArrayColumnType ColumnTypeBool) ''ZSTD(1)'',
           Col_Codec ''scope_name'' ColumnTypeString ''ZSTD(1)'',
           Col_Codec ''scope_version'' ColumnTypeString ''ZSTD(1)'',
           Col_Codec ''scope_string_key'' (ArrayColumnType ColumnTypeString) ''ZSTD(1)'',
           Col_Codec ''scope_string_value'' (ArrayColumnType ColumnTypeString) ''ZSTD(1)''],
         ct_Indexes = [
           Index ''id_minmax'' ''id'' ''minmax'' 1,
           Index ''severity_number_idx'' ''severity_number'' ''set(25)'' 4,
           Index ''severity_text_idx'' ''severity_text'' ''set(25)'' 4,
           Index ''trace_flags_idx'' ''trace_flags'' ''bloom_filter'' 4,
           Index ''body_idx'' ''lower(body)'' ''ngrambf_v1(4, 60000, 5, 0)'' 1,
           Index ''scope_name_idx'' ''scope_name'' ''tokenbf_v1(10240, 3, 0)'' 4],
         ct_Projections = [],
         ct_Engine = MergeTreeEngine
           \<lparr>Replicated = False,
            OrderBy = ''(timestamp, id)'',
            PrimaryKey = '''',
            PartitionBy = ''toDate(timestamp / 1000000000)'',
            SampleBy = '''',
            engine_TTL = ''toDateTime(timestamp / 1000000000) + toIntervalSecond(1296000)'',
            engine_Settings = [TableSetting ''index_granularity'' ''8192'', TableSetting ''ttl_only_drop_parts'' ''1'']\<rparr>\<rparr>],
    DownItems = [
      DropTableOperation \<lparr>cluster = '''', Database = ''signoz_logs'', Table = ''logs'',
         dt_Settings = []\<rparr>]\<rparr>"

definition SquashedLogs_2 :: "SchemaMigrationRecord" where
  "SquashedLogs_2 = \<lparr>
    MigrationID = 2,
    UpItems = [
      CreateTableOperation \<lparr>cluster = '''', Database = ''signoz_logs'', Table = ''distributed_logs'',
         ct_Columns = [
           Col_Codec ''timestamp'' ColumnTypeUInt64 ''DoubleDelta, LZ4'',
           Col_Codec ''observed_timestamp'' ColumnTypeUInt64 ''DoubleDelta, LZ4'',
           Col_Codec ''id'' ColumnTypeString ''ZSTD(1)'',
           Col_Codec ''trace_id'' ColumnTypeString ''ZSTD(1)'',
           Col_Codec ''span_id'' ColumnTypeString ''ZSTD(1)'',
           Col ''trace_flags'' ColumnTypeUInt32,
           Col_Codec ''severity_text'' (LowCardinalityColumnType ColumnTypeString) ''ZSTD(1)'',
           Col ''severity_number'' ColumnTypeUInt8,
           Col_Codec ''body'' ColumnTypeString ''ZSTD(2)'',
           Col_Codec ''resources_string_key'' (ArrayColumnType ColumnTypeString) ''ZSTD(1)'',
           Col_Codec ''resources_string_value'' (ArrayColumnType ColumnTypeString) ''ZSTD(1)'',
           Col_Codec ''attributes_string_key'' (ArrayColumnType ColumnTypeString) ''ZSTD(1)'',
           Col_Codec ''attributes_string_value'' (ArrayColumnType ColumnTypeString) ''ZSTD(1)'',
           Col_Codec ''attributes_int64_key'' (ArrayColumnType ColumnTypeString) ''ZSTD(1)'',
           Col_Codec ''attributes_int64_value'' (ArrayColumnType ColumnTypeInt64) ''ZSTD(1)'',
           Col_Codec ''attributes_float64_key'' (ArrayColumnType ColumnTypeString) ''ZSTD(1)'',
           Col_Codec ''attributes_float64_value'' (ArrayColumnType ColumnTypeFloat64) ''ZSTD(1)'',
           Col_Codec ''attributes_bool_key'' (ArrayColumnType ColumnTypeString) ''ZSTD(1)'',
           Col_Codec ''attributes_bool_value'' (ArrayColumnType ColumnTypeBool) ''ZSTD(1)'',
           Col_Codec ''scope_name'' ColumnTypeString ''ZSTD(1)'',
           Col_Codec ''scope_version'' ColumnTypeString ''ZSTD(1)'',
           Col_Codec ''scope_string_key'' (ArrayColumnType ColumnTypeString) ''ZSTD(1)'',
           Col_Codec ''scope_string_value'' (ArrayColumnType ColumnTypeString) ''ZSTD(1)''],
         ct_Indexes = [],
         ct_Projections = [],
         ct_Engine = DistributedEngine
           \<lparr>dist_Cluster = '''', dist_Database = ''signoz_logs'',
           dist_Table = ''logs'',
           ShardingKey = ''cityHash64(id)''\<rparr>\<rparr>],
    DownItems = [
      DropTableOperation \<lparr>cluster = '''', Database = ''signoz_logs'', Table = ''distributed_logs'',
         dt_Settings = []\<rparr>]\<rparr>"

definition SquashedLogs_3 :: "SchemaMigrationRecord" where
  "SquashedLogs_3 = \<lparr>
    MigrationID = 3,
    UpItems = [
      CreateTableOperation \<lparr>cluster = '''', Database = ''signoz_logs'', Table = ''logs_attribute_keys'',
         ct_Columns = [
           Col ''name'' ColumnTypeString,
           Col ''datatype'' ColumnTypeString],
         ct_Indexes = [],
         ct_Projections = [],
         ct_Engine = ReplacingMergeTree
           \<lparr>Replicated = False,
            OrderBy = ''(name, datatype)'',
            PrimaryKey = '''',
            PartitionBy = '''',
            SampleBy = '''',
            engine_TTL = '''',
            engine_Settings = [TableSetting ''index_granularity'' ''8192'']\<rparr>\<rparr>],
    DownItems = [
      DropTableOperation \<lparr>cluster = '''', Database = ''signoz_logs'', Table = ''logs_attribute_keys'',
         dt_Settings = []\<rparr>]\<rparr>"

definition SquashedLogs_4 :: "SchemaMigrationRecord" where
  "SquashedLogs_4 = \<lparr>
    MigrationID = 4,
    UpItems = [
      CreateTableOperation \<lparr>cluster = '''', Database = ''signoz_logs'', Table = ''distributed_logs_attribute_keys'',
         ct_Columns = [
           Col ''name'' ColumnTypeString,
           Col ''datatype'' ColumnTypeString],
         ct_Indexes = [],
         ct_Projections = [],
         ct_Engine = DistributedEngine
           \<lparr>dist_Cluster = '''', dist_Database = ''signoz_logs'',
           dist_Table = ''logs_attribute_keys'',
           ShardingKey = ''cityHash64(datatype)''\<rparr>\<rparr>],
    DownItems = [
      DropTableOperation \<lparr>cluster = '''', Database = ''signoz_logs'', Table = ''distributed_logs_attribute_keys'',
         dt_Settings = []\<rparr>]\<rparr>"

definition SquashedLogs_5 :: "SchemaMigrationRecord" where
  "SquashedLogs_5 = \<lparr>
    MigrationID = 5,
    UpItems = [
      CreateMaterializedViewOperation \<lparr>cluster = '''', Database = ''signoz_logs'',
         mv_ViewName = ''attribute_keys_bool_final_mv'',
         mv_DestTable = ''logs_attribute_keys'',
         mv_Columns = [
           Col ''name'' ColumnTypeString,
           Col ''datatype'' ColumnTypeString],
         mv_Query = (text_lines [
           ''SELECT DISTINCT'',
           ''    arrayJoin(attributes_bool_key) AS name,'',
           ''    'Bool' AS datatype'',
           ''FROM signoz_logs.logs'',
           ''ORDER BY name ASC''])\<rparr>],
    DownItems = [
      DropTableOperation \<lparr>cluster = '''', Database = ''signoz_logs'', Table = ''attribute_keys_bool_final_mv'',
         dt_Settings = []\<rparr>]\<rparr>"

definition SquashedLogs_6 :: "SchemaMigrationRecord" where
  "SquashedLogs_6 = \<lparr>
    MigrationID = 6,
    UpItems = [
      CreateMaterializedViewOperation \<lparr>cluster = '''', Database = ''signoz_logs'',
         mv_ViewName = ''attribute_keys_float64_final_mv'',
         mv_DestTable = ''logs_attribute_keys'',
         mv_Columns = [
           Col ''name'' ColumnTypeString,
           Col ''datatype'' ColumnTypeString],
         mv_Query = (text_lines [
           ''SELECT DISTINCT'',
           ''    arrayJoin(attributes_float64_key) AS name,'',
           ''    'Float64' AS datatype'',
           ''FROM signoz_logs.logs'',
           ''ORDER BY name ASC''])\<rparr>],
    DownItems = [
      DropTableOperation \<lparr>cluster = '''', Database = ''signoz_logs'', Table = ''attribute_keys_float64_final_mv'',
         dt_Settings = []\<rparr>]\<rparr>"

definition SquashedLogs_7 :: "SchemaMigrationRecord" where
  "SquashedLogs_7 = \<lparr>
    MigrationID = 7,
    UpItems = [
      CreateMaterializedViewOperation \<lparr>cluster = '''', Database = ''signoz_logs'',
         mv_ViewName = ''attribute_keys_int64_final_mv'',
         mv_DestTable = ''logs_attribute_keys'',
         mv_Columns = [
           Col ''name'' ColumnTypeString,
           Col ''datatype'' ColumnTypeString],
         mv_Query = (text_lines [
           ''SELECT DISTINCT'',
           ''    arrayJoin(attributes_int64_key) AS name,'',
           ''    'Int64' AS datatype'',
           ''FROM signoz_logs.logs'',
           ''ORDER BY name ASC''])\<rparr>],
    DownItems = [
      DropTableOperation \<lparr>cluster = '''', Database = ''signoz_logs'', Table = ''attribute_keys_int64_final_mv'',
         dt_Settings = []\<rparr>]\<rparr>"

definition SquashedLogs_8 :: "SchemaMigrationRecord" where
  "SquashedLogs_8 = \<lparr>
    MigrationID = 8,
    UpItems = [
      CreateMaterializedViewOperation \<lparr>cluster = '''', Database = ''signoz_logs'',
         mv_ViewName = ''attribute_keys_string_final_mv'',
         mv_DestTable = ''logs_attribute_keys'',
         mv_Columns = [
           Col ''name'' ColumnTypeString,
           Col ''datatype'' ColumnTypeString],
         mv_Query = (text_lines [
           ''SELECT DISTINCT'',
           ''    arrayJoin(attributes_string_key) AS name,'',
           ''    'String' AS datatype'',
           ''FROM signoz_logs.logs'',
           ''ORDER BY name ASC''])\<rparr>],
    DownItems = [
      DropTableOperation \<lparr>cluster = '''', Database = ''signoz_logs'', Table = ''attribute_keys_string_final_mv'',
         dt_Settings = []\<rparr>]\<rparr>"

definition SquashedLogs_9 :: "SchemaMigrationRecord" where
  "SquashedLogs_9 = \<lparr>
    MigrationID = 9,
    UpItems = [
      CreateTableOperation \<lparr>cluster = '''', Database = ''signoz_logs'', Table = ''logs_resource_keys'',
         ct_Columns = [
           Col ''name'' ColumnTypeString,
           Col ''datatype'' ColumnTypeString],
         ct_Indexes = [],
         ct_Projections = [],
         ct_Engine = ReplacingMergeTree
           \<lparr>Replicated = False,
            OrderBy = ''(name, datatype)'',
            PrimaryKey = '''',
            PartitionBy = '''',
            SampleBy = '''',
            engine_TTL = '''',
            engine_Settings = [TableSetting ''index_granularity'' ''8192'']\<rparr>\<rparr>],
    DownItems = [
      DropTableOperation \<lparr>cluster = '''', Database = ''signoz_logs'', Table = ''logs_resource_keys'',
         dt_Settings = []\<rparr>]\<rparr>"

definition SquashedLogs_10 :: "SchemaMigrationRecord" where
  "SquashedLogs_10 = \<lparr>
    MigrationID = 10,
    UpItems = [
      CreateTableOperation \<lparr>cluster = '''', Database = ''signoz_logs'', Table = ''distributed_logs_resource_keys'',
         ct_Columns = [
           Col ''name'' ColumnTypeString,
           Col ''datatype'' ColumnTypeString],
         ct_Indexes = [],
         ct_Projections = [],
         ct_Engine = DistributedEngine
           \<lparr>dist_Cluster = '''', dist_Database = ''signoz_logs'',
           dist_Table = ''logs_resource_keys'',
           ShardingKey = ''cityHash64(datatype)''\<rparr>\<rparr>],
    DownItems = []\<rparr>"

definition SquashedLogs_11 :: "SchemaMigrationRecord" where
  "SquashedLogs_11 = \<lparr>
    MigrationID = 11,
    UpItems = [
      CreateMaterializedViewOperation \<lparr>cluster = '''', Database = ''signoz_logs'',
         mv_ViewName = ''resource_keys_string_final_mv'',
         mv_DestTable = ''logs_resource_keys'',
         mv_Columns = [
           Col ''name'' ColumnTypeString,
           Col ''datatype'' ColumnTypeString],
         mv_Query = (text_lines [
           ''SELECT DISTINCT'',
           ''    arrayJoin(resources_string_key) AS name,'',
           ''    'String' AS datatype'',
           ''FROM signoz_logs.logs'',
           ''ORDER BY name ASC''])\<rparr>],
    DownItems = [
      DropTableOperation \<lparr>cluster = '''', Database = ''signoz_logs'', Table = ''resource_keys_string_final_mv'',
         dt_Settings = []\<rparr>]\<rparr>"

definition SquashedLogs_12 :: "SchemaMigrationRecord" where
  "SquashedLogs_12 = \<lparr>
    MigrationID = 12,
    UpItems = [
      CreateTableOperation \<lparr>cluster = '''', Database = ''signoz_logs'', Table = ''tag_attributes'',
         ct_Columns = [
           Col_Codec ''timestamp'' (DateTimeColumnType '''') ''ZSTD(1)'',
           Col_Codec ''tagKey'' (LowCardinalityColumnType ColumnTypeString) ''ZSTD(1)'',
           Col_Codec ''tagType'' (EnumerationColumnType [[quote] @ ''tag' = 1'', [quote] @ ''resource' = 2'', [quote] @ ''scope' = 3''] 8) ''ZSTD(1)'',
           Col_Codec ''tagDataType'' (EnumerationColumnType [[quote] @ ''string' = 1'', [quote] @ ''bool' = 2'', [quote] @ ''int64' = 3'', [quote] @ ''float64' = 4''] 8) ''ZSTD(1)'',
           Col_Codec ''stringTagValue'' ColumnTypeString ''ZSTD(1)'',
           Col_Codec ''int64TagValue'' (NullableColumnType ColumnTypeInt64) ''ZSTD(1)'',
           Col_Codec ''float64TagValue'' (NullableColumnType ColumnTypeFloat64) ''ZSTD(1)''],
         ct_Indexes = [],
         ct_Projections = [],
         ct_Engine = ReplacingMergeTree
           \<lparr>Replicated = False,
            OrderBy = ''(tagKey, tagType, tagDataType, stringTagValue, int64TagValue, float64TagValue)'',
            PrimaryKey = '''',
            PartitionBy = '''',
            SampleBy = '''',
            engine_TTL = ''toDateTime(timestamp) + toIntervalSecond(172800)'',
            engine_Settings = [TableSetting ''index_granularity'' ''8192'', TableSetting ''ttl_only_drop_parts'' ''1'', TableSetting ''allow_nullable_key'' ''1'']\<rparr>\<rparr>],
    DownItems = [
      DropTableOperation \<lparr>cluster = '''', Database = ''signoz_logs'', Table = ''tag_attributes'',
         dt_Settings = []\<rparr>]\<rparr>"

definition SquashedLogs_13 :: "SchemaMigrationRecord" where
  "SquashedLogs_13 = \<lparr>
    MigrationID = 13,
    UpItems = [
      CreateTableOperation \<lparr>cluster = '''', Database = ''signoz_logs'', Table = ''distributed_tag_attributes'',
         ct_Columns = [
           Col_Codec ''timestamp'' (DateTimeColumnType '''') ''ZSTD(1)'',
           Col_Codec ''tagKey'' (LowCardinalityColumnType ColumnTypeString) ''ZSTD(1)'',
           Col_Codec ''tagType'' (EnumerationColumnType [[quote] @ ''tag' = 1'', [quote] @ ''resource' = 2'', [quote] @ ''scope' = 3''] 8) ''ZSTD(1)'',
           Col_Codec ''tagDataType'' (EnumerationColumnType [[quote] @ ''string' = 1'', [quote] @ ''bool' = 2'', [quote] @ ''int64' = 3'', [quote] @ ''float64' = 4''] 8) ''ZSTD(1)'',
           Col_Codec ''stringTagValue'' ColumnTypeString ''ZSTD(1)'',
           Col_Codec ''int64TagValue'' (NullableColumnType ColumnTypeInt64) ''ZSTD(1)'',
           Col_Codec ''float64TagValue'' (NullableColumnType ColumnTypeFloat64) ''ZSTD(1)''],
         ct_Indexes = [],
         ct_Projections = [],
         ct_Engine = DistributedEngine
           \<lparr>dist_Cluster = '''', dist_Database = ''signoz_logs'',
           dist_Table = ''tag_attributes'',
           ShardingKey = ''rand()''\<rparr>\<rparr>],
    DownItems = [
      DropTableOperation \<lparr>cluster = '''', Database = ''signoz_logs'', Table = ''distributed_tag_attributes'',
         dt_Settings = []\<rparr>]\<rparr>"

definition SquashedLogs_14 :: "SchemaMigrationRecord" where
  "SquashedLogs_14 = \<lparr>
    MigrationID = 14,
    UpItems = [
      CreateTableOperation \<lparr>cluster = '''', Database = ''signoz_logs'', Table = ''usage'',
         ct_Columns = [
           Col_Codec ''tenant'' ColumnTypeString ''ZSTD(1)'',
           Col_Codec ''collector_id'' ColumnTypeString ''ZSTD(1)'',
           Col_Codec ''exporter_id'' ColumnTypeString ''ZSTD(1)'',
           Col_Codec ''timestamp'' (DateTimeColumnType '''') ''ZSTD(1)'',
           Col_Codec ''data'' ColumnTypeString ''ZSTD(1)''],
         ct_Indexes = [],
         ct_Projections = [],
         ct_Engine = MergeTreeEngine
           \<lparr>Replicated = False,
            OrderBy = ''(tenant, collector_id, exporter_id, timestamp)'',
            PrimaryKey = '''',
            PartitionBy = '''',
            SampleBy = '''',
            engine_TTL = ''timestamp + toIntervalDay(3)'',
            engine_Settings = [TableSetting ''index_granularity'' ''8192'']\<rparr>\<rparr>],
    DownItems = [
      DropTableOperation \<lparr>cluster = '''', Database = ''signoz_logs'', Table = ''usage'',
         dt_Settings = []\<rparr>]\<rparr>"

definition SquashedLogs_15 :: "SchemaMigrationRecord" where
  "SquashedLogs_15 = \<lparr>
    MigrationID = 15,
    UpItems = [
      CreateTableOperation \<lparr>cluster = '''', Database = ''signoz_logs'', Table = ''distributed_usage'',
         ct_Columns = [
           Col_Codec ''tenant'' ColumnTypeString ''ZSTD(1)'',
           Col_Codec ''collector_id'' ColumnTypeString ''ZSTD(1)'',
           Col_Codec ''exporter_id'' ColumnTypeString ''ZSTD(1)'',
           Col_Codec ''timestamp'' (DateTimeColumnType '''') ''ZSTD(1)'',
           Col_Codec ''data'' ColumnTypeString ''ZSTD(1)''],
         ct_Indexes = [],
         ct_Projections = [],
         ct_Engine = DistributedEngine
           \<lparr>dist_Cluster = '''', dist_Database = ''signoz_logs'',
           dist_Table = ''usage'',
           ShardingKey = ''cityHash64(rand())''\<rparr>\<rparr>],
    DownItems = [
      DropTableOperation \<lparr>cluster = '''', Database = ''signoz_logs'', Table = ''distributed_usage'',
         dt_Settings = []\<rparr>]\<rparr>"

definition SquashedLogs_16 :: "SchemaMigrationRecord" where
  "SquashedLogs_16 = \<lparr>
    MigrationID = 16,
    UpItems = [
      CreateTableOperation \<lparr>cluster = '''', Database = ''signoz_logs'', Table = ''logs_v2'',
         ct_Columns = [
           Col_Codec ''ts_bucket_start'' ColumnTypeUInt64 ''DoubleDelta, LZ4'',
           Col_Codec ''resource_fingerprint'' ColumnTypeString ''ZSTD(1)'',
           Col_Codec ''timestamp'' ColumnTypeUInt64 ''DoubleDelta, LZ4'',
           Col_Codec ''observed_timestamp'' ColumnTypeUInt64 ''DoubleDelta, LZ4'',
           Col_Codec ''id'' ColumnTypeString ''ZSTD(1)'',
           Col_Codec ''trace_id'' ColumnTypeString ''ZSTD(1)'',
           Col_Codec ''span_id'' ColumnTypeString ''ZSTD(1)'',
           Col ''trace_flags'' ColumnTypeUInt32,
           Col_Codec ''severity_text'' (LowCardinalityColumnType ColumnTypeString) ''ZSTD(1)'',
           Col ''severity_number'' ColumnTypeUInt8,
           Col_Codec ''body'' ColumnTypeString ''ZSTD(2)'',
           Col_Codec ''attributes_string'' (MapColumnType (LowCardinalityColumnType ColumnTypeString) ColumnTypeString) ''ZSTD(1)'',
           Col_Codec ''attributes_number'' (MapColumnType (LowCardinalityColumnType ColumnTypeString) ColumnTypeFloat64) ''ZSTD(1)'',
           Col_Codec ''attributes_bool'' (MapColumnType (LowCardinalityColumnType ColumnTypeString) ColumnTypeBool) ''ZSTD(1)'',
           Col_Codec ''resources_string'' (MapColumnType (LowCardinalityColumnType ColumnTypeString) ColumnTypeString) ''ZSTD(1)'',
           Col_Codec ''scope_name'' ColumnTypeString ''ZSTD(1)'',
           Col_Codec ''scope_version'' ColumnTypeString ''ZSTD(1)'',
           Col_Codec ''scope_string'' (MapColumnType (LowCardinalityColumnType ColumnTypeString) ColumnTypeString) ''ZSTD(1)''],
         ct_Indexes = [
           Index ''id_minmax'' ''id'' ''minmax'' 1,
           Index ''severity_number_idx'' ''severity_number'' ''set(25)'' 4,
           Index ''severity_text_idx'' ''severity_text'' ''set(25)'' 4,
           Index ''trace_flags_idx'' ''trace_flags'' ''bloom_filter'' 4,
           Index ''body_idx'' ''lower(body)'' ''ngrambf_v1(4, 60000, 5, 0)'' 1,
           Index ''scope_name_idx'' ''scope_name'' ''tokenbf_v1(10240, 3, 0)'' 4,
           Index ''attributes_string_idx_key'' ''mapKeys(attributes_string)'' ''tokenbf_v1(1024, 2, 0)'' 1,
           Index ''attributes_string_idx_val'' ''mapValues(attributes_string)'' ''ngrambf_v1(4, 5000, 2, 0)'' 1,
           Index ''attributes_number_idx_key'' ''mapKeys(attributes_number)'' ''tokenbf_v1(1024, 2, 0)'' 1,
           Index ''attributes_number_idx_val'' ''mapValues(attributes_number)'' ''bloom_filter'' 1,
           Index ''attributes_bool_idx_key'' ''mapKeys(attributes_bool)'' ''tokenbf_v1(1024, 2, 0)'' 1],
         ct_Projections = [],
         ct_Engine = MergeTreeEngine
           \<lparr>Replicated = False,
            OrderBy = ''(ts_bucket_start, resource_fingerprint, severity_text, timestamp, id)'',
            PrimaryKey = '''',
            PartitionBy = ''toDate(timestamp / 1000000000)'',
            SampleBy = '''',
            engine_TTL = ''toDateTime(timestamp / 1000000000) + toIntervalSecond(1296000)'',
            engine_Settings = [TableSetting ''index_granularity'' ''8192'', TableSetting ''ttl_only_drop_parts'' ''1'']\<rparr>\<rparr>],
    DownItems = [
      DropTableOperation \<lparr>cluster = '''', Database = ''signoz_logs'', Table = ''logs_v2'',
         dt_Settings = []\<rparr>]\<rparr>"

definition SquashedLogs_17 :: "SchemaMigrationRecord" where
  "SquashedLogs_17 = \<lparr>
    MigrationID = 17,
    UpItems = [
      CreateTableOperation \<lparr>cluster = '''', Database = ''signoz_logs'', Table = ''distributed_logs_v2'',
         ct_Columns = [
           Col_Codec ''ts_bucket_start'' ColumnTypeUInt64 ''DoubleDelta, LZ4'',
           Col_Codec ''resource_fingerprint'' ColumnTypeString ''ZSTD(1)'',
           Col_Codec ''timestamp'' ColumnTypeUInt64 ''DoubleDelta, LZ4'',
           Col_Codec ''observed_timestamp'' ColumnTypeUInt64 ''DoubleDelta, LZ4'',
           Col_Codec ''id'' ColumnTypeString ''ZSTD(1)'',
           Col_Codec ''trace_id'' ColumnTypeString ''ZSTD(1)'',
           Col_Codec ''span_id'' ColumnTypeString ''ZSTD(1)'',
           Col ''trace_flags'' ColumnTypeUInt32,
           Col_Codec ''severity_text'' (LowCardinalityColumnType ColumnTypeString) ''ZSTD(1)'',
           Col ''severity_number'' ColumnTypeUInt8,
           Col_Codec ''body'' ColumnTypeString ''ZSTD(2)'',
           Col_Codec ''attributes_string'' (MapColumnType (LowCardinalityColumnType ColumnTypeString) ColumnTypeString) ''ZSTD(1)'',
           Col_Codec ''attributes_number'' (MapColumnType (LowCardinalityColumnType ColumnTypeString) ColumnTypeFloat64) ''ZSTD(1)'',
           Col_Codec ''attributes_bool'' (MapColumnType (LowCardinalityColumnType ColumnTypeString) ColumnTypeBool) ''ZSTD(1)'',
           Col_Codec ''resources_string'' (MapColumnType (LowCardinalityColumnType ColumnTypeString) ColumnTypeString) ''ZSTD(1)'',
           Col_Codec ''scope_name'' ColumnTypeString ''ZSTD(1)'',
           Col_Codec ''scope_version'' ColumnTypeString ''ZSTD(1)'',
           Col_Codec ''scope_string'' (MapColumnType (LowCardinalityColumnType ColumnTypeString) ColumnTypeString) ''ZSTD(1)''],
         ct_Indexes = [],
         ct_Projections = [],
         ct_Engine = DistributedEngine
           \<lparr>dist_Cluster = '''', dist_Database = ''signoz_logs'',
           dist_Table = ''logs_v2'',
           ShardingKey = ''cityHash64(id)''\<rparr>\<rparr>],
    DownItems = [
      DropTableOperation \<lparr>cluster = '''', Database = ''signoz_logs'', Table = ''distributed_logs_v2'',
         dt_Settings = []\<rparr>]\<rparr>"

definition SquashedLogs_18 :: "SchemaMigrationRecord" where
  "SquashedLogs_18 = \<lparr>
    MigrationID = 18,
    UpItems = [
      DropTableOperation \<lparr>cluster = '''', Database = ''signoz_logs'', Table = ''resource_keys_string_final_mv'',
         dt_Settings = []\<rparr>,
      DropTableOperation \<lparr>cluster = '''', Database = ''signoz_logs'', Table = ''attribute_keys_float64_final_mv'',
         dt_Settings = []\<rparr>,
      DropTableOperation \<lparr>cluster = '''', Database = ''signoz_logs'', Table = ''attribute_keys_int64_final_mv'',
         dt_Settings = []\<rparr>,
      DropTableOperation \<lparr>cluster = '''', Database = ''signoz_logs'', Table = ''attribute_keys_string_final_mv'',
         dt_Settings = []\<rparr>,
      DropTableOperation \<lparr>cluster = '''', Database = ''signoz_logs'', Table = ''attribute_keys_bool_final_mv'',
         dt_Settings = []\<rparr>],
    DownItems = []\<rparr>"

definition SquashedLogs_19 :: "SchemaMigrationRecord" where
  "SquashedLogs_19 = \<lparr>
    MigrationID = 19,
    UpItems = [
      CreateMaterializedViewOperation \<lparr>cluster = '''', Database = ''signoz_logs'',
         mv_ViewName = ''attribute_keys_string_final_mv'',
         mv_DestTable = ''logs_attribute_keys'',
         mv_Columns = [
           Col ''name'' ColumnTypeString,
           Col ''datatype'' ColumnTypeString],
         mv_Query = (text_lines [
           ''SELECT DISTINCT'',
           ''    arrayJoin(mapKeys(attributes_string)) AS name,'',
           ''    'String' AS datatype'',
           ''FROM signoz_logs.logs_v2'',
           ''ORDER BY name ASC''])\<rparr>,
      CreateMaterializedViewOperation \<lparr>cluster = '''', Database = ''signoz_logs'',
         mv_ViewName = ''attribute_keys_float64_final_mv'',
         mv_DestTable = ''logs_attribute_keys'',
         mv_Columns = [
           Col ''name'' ColumnTypeString,
           Col ''datatype'' ColumnTypeString],
         mv_Query = (text_lines [
           ''SELECT DISTINCT'',
           ''    arrayJoin(mapKeys(attributes_number)) AS name,'',
           ''    'Float64' AS datatype'',
           ''FROM signoz_logs.logs_v2'',
           ''ORDER BY name ASC''])\<rparr>,
      CreateMaterializedViewOperation \<lparr>cluster = '''', Database = ''signoz_logs'',
         mv_ViewName = ''attribute_keys_bool_final_mv'',
         mv_DestTable = ''logs_attribute_keys'',
         mv_Columns = [
           Col ''name'' ColumnTypeString,
           Col ''datatype'' ColumnTypeString],
         mv_Query = (text_lines [
           ''SELECT DISTINCT'',
           ''    arrayJoin(mapKeys(attributes_bool)) AS name,'',
           ''    'Bool' AS datatype'',
           ''FROM signoz_logs.logs_v2'',
           ''ORDER BY name ASC''])\<rparr>,
      CreateMaterializedViewOperation \<lparr>cluster = '''', Database = ''signoz_logs'',
         mv_ViewName = ''resource_keys_string_final_mv'',
         mv_DestTable = ''logs_resource_keys'',
         mv_Columns = [
           Col ''name'' ColumnTypeString,
           Col ''datatype'' ColumnTypeString],
         mv_Query = (text_lines [
           ''SELECT DISTINCT'',
           ''    arrayJoin(mapKeys(resources_string)) AS name,'',
           ''    'String' AS datatype'',
           ''FROM signoz_logs.logs_v2'',
           ''ORDER BY name ASC''])\<rparr>],
    DownItems = []\<rparr>"

definition SquashedLogs_20 :: "SchemaMigrationRecord" where
  "SquashedLogs_20 = \<lparr>
    MigrationID = 20,
    UpItems = [
      CreateTableOperation \<lparr>cluster = '''', Database = ''signoz_logs'', Table = ''logs_v2_resource'',
         ct_Columns = [
           Col_Codec ''labels'' ColumnTypeString ''ZSTD(5)'',
           Col_Codec ''fingerprint'' ColumnTypeString ''ZSTD(1)'',
           Col_Codec ''seen_at_ts_bucket_start'' ColumnTypeInt64 ''Delta(8), ZSTD(1)''],
         ct_Indexes = [
           Index ''idx_labels'' ''lower(labels)'' ''ngrambf_v1(4, 1024, 3, 0)'' 1,
           Index ''idx_labels_v1'' ''labels'' ''ngrambf_v1(4, 1024, 3, 0)'' 1],
         ct_Projections = [],
         ct_Engine = ReplacingMergeTree
           \<lparr>Replicated = False,
            OrderBy = ''(labels, fingerprint, seen_at_ts_bucket_start)'',
            PrimaryKey = '''',
            PartitionBy = ''toDate(seen_at_ts_bucket_start / 1000)'',
            SampleBy = '''',
            engine_TTL = ''toDateTime(seen_at_ts_bucket_start) + INTERVAL 1296000 SECOND + INTERVAL 1800 SECOND DELETE'',
            engine_Settings = [TableSetting ''ttl_only_drop_parts'' ''1'', TableSetting ''index_granularity'' ''8192'']\<rparr>\<rparr>,
      CreateTableOperation \<lparr>cluster = '''', Database = ''signoz_logs'', Table = ''distributed_logs_v2_resource'',
         ct_Columns = [
           Col_Codec ''labels'' ColumnTypeString ''ZSTD(5)'',
           Col_Codec ''fingerprint'' ColumnTypeString ''ZSTD(1)'',
           Col_Codec ''seen_at_ts_bucket_start'' ColumnTypeInt64 ''Delta(8), ZSTD(1)''],
         ct_Indexes = [],
         ct_Projections = [],
         ct_Engine = DistributedEngine
           \<lparr>dist_Cluster = '''', dist_Database = ''signoz_logs'',
           dist_Table = ''logs_v2_resource'',
           ShardingKey = ''cityHash64(labels, fingerprint)''\<rparr>\<rparr>],
    DownItems = [
      DropTableOperation \<lparr>cluster = '''', Database = ''signoz_logs'', Table = ''logs_v2_resource'',
         dt_Settings = []\<rparr>,
      DropTableOperation \<lparr>cluster = '''', Database = ''signoz_logs'', Table = ''distributed_logs_v2_resource'',
         dt_Settings = []\<rparr>]\<rparr>"

definition SquashedLogs_list :: "SchemaMigrationRecord list" where
  "SquashedLogs_list = [
    SquashedLogs_1, SquashedLogs_2, SquashedLogs_3, SquashedLogs_4, SquashedLogs_5,
    SquashedLogs_6, SquashedLogs_7, SquashedLogs_8, SquashedLogs_9, SquashedLogs_10,
    SquashedLogs_11, SquashedLogs_12, SquashedLogs_13, SquashedLogs_14, SquashedLogs_15,
    SquashedLogs_16, SquashedLogs_17, SquashedLogs_18, SquashedLogs_19, SquashedLogs_20]"

section \<open>\<^verbatim>\<open>v2_squashed_logs_migration.go\<close>\<close>

definition CustomRetentionLogs_1 :: "SchemaMigrationRecord" where
  "CustomRetentionLogs_1 = \<lparr>
    MigrationID = 1,
    UpItems = [
      CreateTableOperation \<lparr>cluster = '''', Database = ''signoz_logs'', Table = ''logs_attribute_keys'',
         ct_Columns = [
           Col ''name'' ColumnTypeString,
           Col ''datatype'' ColumnTypeString],
         ct_Indexes = [],
         ct_Projections = [],
         ct_Engine = ReplacingMergeTree
           \<lparr>Replicated = False,
            OrderBy = ''(name, datatype)'',
            PrimaryKey = '''',
            PartitionBy = '''',
            SampleBy = '''',
            engine_TTL = '''',
            engine_Settings = [TableSetting ''index_granularity'' ''8192'']\<rparr>\<rparr>],
    DownItems = [
      DropTableOperation \<lparr>cluster = '''', Database = ''signoz_logs'', Table = ''logs_attribute_keys'',
         dt_Settings = []\<rparr>]\<rparr>"

definition CustomRetentionLogs_2 :: "SchemaMigrationRecord" where
  "CustomRetentionLogs_2 = \<lparr>
    MigrationID = 2,
    UpItems = [
      CreateTableOperation \<lparr>cluster = '''', Database = ''signoz_logs'', Table = ''distributed_logs_attribute_keys'',
         ct_Columns = [
           Col ''name'' ColumnTypeString,
           Col ''datatype'' ColumnTypeString],
         ct_Indexes = [],
         ct_Projections = [],
         ct_Engine = DistributedEngine
           \<lparr>dist_Cluster = '''', dist_Database = ''signoz_logs'',
           dist_Table = ''logs_attribute_keys'',
           ShardingKey = ''cityHash64(datatype)''\<rparr>\<rparr>],
    DownItems = [
      DropTableOperation \<lparr>cluster = '''', Database = ''signoz_logs'', Table = ''distributed_logs_attribute_keys'',
         dt_Settings = []\<rparr>]\<rparr>"

definition CustomRetentionLogs_3 :: "SchemaMigrationRecord" where
  "CustomRetentionLogs_3 = \<lparr>
    MigrationID = 3,
    UpItems = [
      CreateTableOperation \<lparr>cluster = '''', Database = ''signoz_logs'', Table = ''logs_resource_keys'',
         ct_Columns = [
           Col ''name'' ColumnTypeString,
           Col ''datatype'' ColumnTypeString],
         ct_Indexes = [],
         ct_Projections = [],
         ct_Engine = ReplacingMergeTree
           \<lparr>Replicated = False,
            OrderBy = ''(name, datatype)'',
            PrimaryKey = '''',
            PartitionBy = '''',
            SampleBy = '''',
            engine_TTL = '''',
            engine_Settings = [TableSetting ''index_granularity'' ''8192'']\<rparr>\<rparr>],
    DownItems = [
      DropTableOperation \<lparr>cluster = '''', Database = ''signoz_logs'', Table = ''logs_resource_keys'',
         dt_Settings = []\<rparr>]\<rparr>"

definition CustomRetentionLogs_4 :: "SchemaMigrationRecord" where
  "CustomRetentionLogs_4 = \<lparr>
    MigrationID = 4,
    UpItems = [
      CreateTableOperation \<lparr>cluster = '''', Database = ''signoz_logs'', Table = ''distributed_logs_resource_keys'',
         ct_Columns = [
           Col ''name'' ColumnTypeString,
           Col ''datatype'' ColumnTypeString],
         ct_Indexes = [],
         ct_Projections = [],
         ct_Engine = DistributedEngine
           \<lparr>dist_Cluster = '''', dist_Database = ''signoz_logs'',
           dist_Table = ''logs_resource_keys'',
           ShardingKey = ''cityHash64(datatype)''\<rparr>\<rparr>],
    DownItems = []\<rparr>"

definition CustomRetentionLogs_5 :: "SchemaMigrationRecord" where
  "CustomRetentionLogs_5 = \<lparr>
    MigrationID = 5,
    UpItems = [
      CreateTableOperation \<lparr>cluster = '''', Database = ''signoz_logs'', Table = ''usage'',
         ct_Columns = [
           Col_Codec ''tenant'' ColumnTypeString ''ZSTD(1)'',
           Col_Codec ''collector_id'' ColumnTypeString ''ZSTD(1)'',
           Col_Codec ''exporter_id'' ColumnTypeString ''ZSTD(1)'',
           Col_Codec ''timestamp'' (DateTimeColumnType '''') ''ZSTD(1)'',
           Col_Codec ''data'' ColumnTypeString ''ZSTD(1)''],
         ct_Indexes = [],
         ct_Projections = [],
         ct_Engine = MergeTreeEngine
           \<lparr>Replicated = False,
            OrderBy = ''(tenant, collector_id, exporter_id, timestamp)'',
            PrimaryKey = '''',
            PartitionBy = '''',
            SampleBy = '''',
            engine_TTL = ''timestamp + toIntervalDay(3)'',
            engine_Settings = [TableSetting ''index_granularity'' ''8192'']\<rparr>\<rparr>],
    DownItems = [
      DropTableOperation \<lparr>cluster = '''', Database = ''signoz_logs'', Table = ''usage'',
         dt_Settings = []\<rparr>]\<rparr>"

definition CustomRetentionLogs_6 :: "SchemaMigrationRecord" where
  "CustomRetentionLogs_6 = \<lparr>
    MigrationID = 6,
    UpItems = [
      CreateTableOperation \<lparr>cluster = '''', Database = ''signoz_logs'', Table = ''distributed_usage'',
         ct_Columns = [
           Col_Codec ''tenant'' ColumnTypeString ''ZSTD(1)'',
           Col_Codec ''collector_id'' ColumnTypeString ''ZSTD(1)'',
           Col_Codec ''exporter_id'' ColumnTypeString ''ZSTD(1)'',
           Col_Codec ''timestamp'' (DateTimeColumnType '''') ''ZSTD(1)'',
           Col_Codec ''data'' ColumnTypeString ''ZSTD(1)''],
         ct_Indexes = [],
         ct_Projections = [],
         ct_Engine = DistributedEngine
           \<lparr>dist_Cluster = '''', dist_Database = ''signoz_logs'',
           dist_Table = ''usage'',
           ShardingKey = ''cityHash64(rand())''\<rparr>\<rparr>],
    DownItems = [
      DropTableOperation \<lparr>cluster = '''', Database = ''signoz_logs'', Table = ''distributed_usage'',
         dt_Settings = []\<rparr>]\<rparr>"

definition CustomRetentionLogs_7 :: "SchemaMigrationRecord" where
  "CustomRetentionLogs_7 = \<lparr>
    MigrationID = 7,
    UpItems = [
      CreateTableOperation \<lparr>cluster = '''', Database = ''signoz_logs'', Table = ''logs_v2'',
         ct_Columns = [
           Col_Codec ''ts_bucket_start'' ColumnTypeUInt64 ''DoubleDelta, LZ4'',
           Col_Codec ''resource_fingerprint'' ColumnTypeString ''ZSTD(1)'',
           Col_Codec ''timestamp'' ColumnTypeUInt64 ''DoubleDelta, LZ4'',
           Col_Codec ''observed_timestamp'' ColumnTypeUInt64 ''DoubleDelta, LZ4'',
           Col_Codec ''id'' ColumnTypeString ''ZSTD(1)'',
           Col_Codec ''trace_id'' ColumnTypeString ''ZSTD(1)'',
           Col_Codec ''span_id'' ColumnTypeString ''ZSTD(1)'',
           Col ''trace_flags'' ColumnTypeUInt32,
           Col_Codec ''severity_text'' (LowCardinalityColumnType ColumnTypeString) ''ZSTD(1)'',
           Col ''severity_number'' ColumnTypeUInt8,
           Col_Codec ''body'' ColumnTypeString ''ZSTD(2)'',
           Col_Codec ''attributes_string'' (MapColumnType (LowCardinalityColumnType ColumnTypeString) ColumnTypeString) ''ZSTD(1)'',
           Col_Codec ''attributes_number'' (MapColumnType (LowCardinalityColumnType ColumnTypeString) ColumnTypeFloat64) ''ZSTD(1)'',
           Col_Codec ''attributes_bool'' (MapColumnType (LowCardinalityColumnType ColumnTypeString) ColumnTypeBool) ''ZSTD(1)'',
           Col_Codec ''resources_string'' (MapColumnType (LowCardinalityColumnType ColumnTypeString) ColumnTypeString) ''ZSTD(1)'',
           Col_Codec ''scope_name'' ColumnTypeString ''ZSTD(1)'',
           Col_Codec ''scope_version'' ColumnTypeString ''ZSTD(1)'',
           Col_Codec ''scope_string'' (MapColumnType (LowCardinalityColumnType ColumnTypeString) ColumnTypeString) ''ZSTD(1)'',
           Col_Default ''_retention_days'' ColumnTypeUInt16 ''15'',
           Col_Default ''_retention_days_cold'' ColumnTypeUInt16 ''0''],
         ct_Indexes = [
           Index ''id_minmax'' ''id'' ''minmax'' 1,
           Index ''severity_number_idx'' ''severity_number'' ''set(25)'' 4,
           Index ''severity_text_idx'' ''severity_text'' ''set(25)'' 4,
           Index ''trace_flags_idx'' ''trace_flags'' ''bloom_filter'' 4,
           Index ''body_idx'' ''lower(body)'' ''ngrambf_v1(4, 60000, 5, 0)'' 1,
           Index ''scope_name_idx'' ''scope_name'' ''tokenbf_v1(10240, 3, 0)'' 4,
           Index ''attributes_string_idx_key'' ''mapKeys(attributes_string)'' ''tokenbf_v1(1024, 2, 0)'' 1,
           Index ''attributes_string_idx_val'' ''mapValues(attributes_string)'' ''ngrambf_v1(4, 5000, 2, 0)'' 1,
           Index ''attributes_number_idx_key'' ''mapKeys(attributes_number)'' ''tokenbf_v1(1024, 2, 0)'' 1,
           Index ''attributes_number_idx_val'' ''mapValues(attributes_number)'' ''bloom_filter'' 1,
           Index ''attributes_bool_idx_key'' ''mapKeys(attributes_bool)'' ''tokenbf_v1(1024, 2, 0)'' 1],
         ct_Projections = [],
         ct_Engine = MergeTreeEngine
           \<lparr>Replicated = False,
            OrderBy = ''(ts_bucket_start, resource_fingerprint, severity_text, timestamp, id)'',
            PrimaryKey = '''',
            PartitionBy = ''(toDate(timestamp / 1000000000), _retention_days, _retention_days_cold)'',
            SampleBy = '''',
            engine_TTL = ''toDateTime(timestamp / 1000000000) + toIntervalDay(_retention_days)'',
            engine_Settings = [TableSetting ''index_granularity'' ''8192'', TableSetting ''ttl_only_drop_parts'' ''1'']\<rparr>\<rparr>],
    DownItems = [
      DropTableOperation \<lparr>cluster = '''', Database = ''signoz_logs'', Table = ''logs_v2'',
         dt_Settings = []\<rparr>]\<rparr>"

definition CustomRetentionLogs_8 :: "SchemaMigrationRecord" where
  "CustomRetentionLogs_8 = \<lparr>
    MigrationID = 8,
    UpItems = [
      CreateTableOperation \<lparr>cluster = '''', Database = ''signoz_logs'', Table = ''distributed_logs_v2'',
         ct_Columns = [
           Col_Codec ''ts_bucket_start'' ColumnTypeUInt64 ''DoubleDelta, LZ4'',
           Col_Codec ''resource_fingerprint'' ColumnTypeString ''ZSTD(1)'',
           Col_Codec ''timestamp'' ColumnTypeUInt64 ''DoubleDelta, LZ4'',
           Col_Codec ''observed_timestamp'' ColumnTypeUInt64 ''DoubleDelta, LZ4'',
           Col_Codec ''id'' ColumnTypeString ''ZSTD(1)'',
           Col_Codec ''trace_id'' ColumnTypeString ''ZSTD(1)'',
           Col_Codec ''span_id'' ColumnTypeString ''ZSTD(1)'',
           Col ''trace_flags'' ColumnTypeUInt32,
           Col_Codec ''severity_text'' (LowCardinalityColumnType ColumnTypeString) ''ZSTD(1)'',
           Col ''severity_number'' ColumnTypeUInt8,
           Col_Codec ''body'' ColumnTypeString ''ZSTD(2)'',
           Col_Codec ''attributes_string'' (MapColumnType (LowCardinalityColumnType ColumnTypeString) ColumnTypeString) ''ZSTD(1)'',
           Col_Codec ''attributes_number'' (MapColumnType (LowCardinalityColumnType ColumnTypeString) ColumnTypeFloat64) ''ZSTD(1)'',
           Col_Codec ''attributes_bool'' (MapColumnType (LowCardinalityColumnType ColumnTypeString) ColumnTypeBool) ''ZSTD(1)'',
           Col_Codec ''resources_string'' (MapColumnType (LowCardinalityColumnType ColumnTypeString) ColumnTypeString) ''ZSTD(1)'',
           Col_Codec ''scope_name'' ColumnTypeString ''ZSTD(1)'',
           Col_Codec ''scope_version'' ColumnTypeString ''ZSTD(1)'',
           Col_Codec ''scope_string'' (MapColumnType (LowCardinalityColumnType ColumnTypeString) ColumnTypeString) ''ZSTD(1)'',
           Col_Default ''_retention_days'' ColumnTypeUInt16 ''15'',
           Col_Default ''_retention_days_cold'' ColumnTypeUInt16 ''0''],
         ct_Indexes = [],
         ct_Projections = [],
         ct_Engine = DistributedEngine
           \<lparr>dist_Cluster = '''', dist_Database = ''signoz_logs'',
           dist_Table = ''logs_v2'',
           ShardingKey = ''cityHash64(id)''\<rparr>\<rparr>],
    DownItems = [
      DropTableOperation \<lparr>cluster = '''', Database = ''signoz_logs'', Table = ''distributed_logs_v2'',
         dt_Settings = []\<rparr>]\<rparr>"

definition CustomRetentionLogs_9 :: "SchemaMigrationRecord" where
  "CustomRetentionLogs_9 = \<lparr>
    MigrationID = 9,
    UpItems = [
      CreateTableOperation \<lparr>cluster = '''', Database = ''signoz_logs'', Table = ''logs_v2_resource'',
         ct_Columns = [
           Col_Codec ''labels'' ColumnTypeString ''ZSTD(5)'',
           Col_Codec ''fingerprint'' ColumnTypeString ''ZSTD(1)'',
           Col_Codec ''seen_at_ts_bucket_start'' ColumnTypeInt64 ''Delta(8), ZSTD(1)'',
           Col_Default ''_retention_days'' ColumnTypeUInt16 ''15'',
           Col_Default ''_retention_days_cold'' ColumnTypeUInt16 ''0''],
         ct_Indexes = [
           Index ''idx_labels'' ''lower(labels)'' ''ngrambf_v1(4, 1024, 3, 0)'' 1,
           Index ''idx_labels_v1'' ''labels'' ''ngrambf_v1(4, 1024, 3, 0)'' 1],
         ct_Projections = [],
         ct_Engine = ReplacingMergeTree
           \<lparr>Replicated = False,
            OrderBy = ''(labels, fingerprint, seen_at_ts_bucket_start)'',
            PrimaryKey = '''',
            PartitionBy = ''(toDate(seen_at_ts_bucket_start), _retention_days, _retention_days_cold)'',
            SampleBy = '''',
            engine_TTL = ''toDateTime(seen_at_ts_bucket_start) + toIntervalDay(_retention_days) + toIntervalSecond(1800)'',
            engine_Settings = [TableSetting ''ttl_only_drop_parts'' ''1'', TableSetting ''index_granularity'' ''8192'']\<rparr>\<rparr>,
      CreateTableOperation \<lparr>cluster = '''', Database = ''signoz_logs'', Table = ''distributed_logs_v2_resource'',
         ct_Columns = [
           Col_Codec ''labels'' ColumnTypeString ''ZSTD(5)'',
           Col_Codec ''fingerprint'' ColumnTypeString ''ZSTD(1)'',
           Col_Codec ''seen_at_ts_bucket_start'' ColumnTypeInt64 ''Delta(8), ZSTD(1)'',
           Col_Default ''_retention_days'' ColumnTypeUInt16 ''15'',
           Col_Default ''_retention_days_cold'' ColumnTypeUInt16 ''0''],
         ct_Indexes = [],
         ct_Projections = [],
         ct_Engine = DistributedEngine
           \<lparr>dist_Cluster = '''', dist_Database = ''signoz_logs'',
           dist_Table = ''logs_v2_resource'',
           ShardingKey = ''cityHash64(labels, fingerprint)''\<rparr>\<rparr>],
    DownItems = [
      DropTableOperation \<lparr>cluster = '''', Database = ''signoz_logs'', Table = ''logs_v2_resource'',
         dt_Settings = []\<rparr>,
      DropTableOperation \<lparr>cluster = '''', Database = ''signoz_logs'', Table = ''distributed_logs_v2_resource'',
         dt_Settings = []\<rparr>]\<rparr>"

definition CustomRetentionLogs_list :: "SchemaMigrationRecord list" where
  "CustomRetentionLogs_list = [
    CustomRetentionLogs_1, CustomRetentionLogs_2, CustomRetentionLogs_3,
    CustomRetentionLogs_4, CustomRetentionLogs_5, CustomRetentionLogs_6,
    CustomRetentionLogs_7, CustomRetentionLogs_8, CustomRetentionLogs_9]"

section \<open>\<^verbatim>\<open>logs_migrations.go\<close>\<close>

definition Logs_1000 :: "SchemaMigrationRecord" where
  "Logs_1000 = \<lparr>
    MigrationID = 1000,
    UpItems = [
      DropTableOperation \<lparr>cluster = '''', Database = ''signoz_logs'', Table = ''attribute_keys_bool_final_mv'',
         dt_Settings = []\<rparr>,
      DropTableOperation \<lparr>cluster = '''', Database = ''signoz_logs'', Table = ''attribute_keys_float64_final_mv'',
         dt_Settings = []\<rparr>,
      DropTableOperation \<lparr>cluster = '''', Database = ''signoz_logs'', Table = ''attribute_keys_string_final_mv'',
         dt_Settings = []\<rparr>,
      DropTableOperation \<lparr>cluster = '''', Database = ''signoz_logs'', Table = ''resource_keys_string_final_mv'',
         dt_Settings = []\<rparr>],
    DownItems = [
      CreateMaterializedViewOperation \<lparr>cluster = '''', Database = ''signoz_logs'',
         mv_ViewName = ''attribute_keys_bool_final_mv'',
         mv_DestTable = ''logs_attribute_keys'',
         mv_Columns = [
           Col ''name'' ColumnTypeString,
           Col ''datatype'' ColumnTypeString],
         mv_Query = (text_lines [
           ''SELECT DISTINCT'',
           ''arrayJoin(mapKeys(attributes_bool)) AS name,'',
           [quote] @ ''Bool' AS datatype'',
           ''FROM signoz_logs.logs_v2'',
           ''ORDER BY name ASC''])\<rparr>,
      CreateMaterializedViewOperation \<lparr>cluster = '''', Database = ''signoz_logs'',
         mv_ViewName = ''attribute_keys_float64_final_mv'',
         mv_DestTable = ''logs_attribute_keys'',
         mv_Columns = [
           Col ''name'' ColumnTypeString,
           Col ''datatype'' ColumnTypeString],
         mv_Query = (text_lines [
           ''SELECT DISTINCT'',
           ''arrayJoin(mapKeys(attributes_number)) AS name,'',
           [quote] @ ''Float64' AS datatype'',
           ''FROM signoz_logs.logs_v2'',
           ''ORDER BY name ASC''])\<rparr>,
      CreateMaterializedViewOperation \<lparr>cluster = '''', Database = ''signoz_logs'',
         mv_ViewName = ''attribute_keys_string_final_mv'',
         mv_DestTable = ''logs_attribute_keys'',
         mv_Columns = [
           Col ''name'' ColumnTypeString,
           Col ''datatype'' ColumnTypeString],
         mv_Query = (text_lines [
           ''SELECT DISTINCT'',
           ''arrayJoin(mapKeys(attributes_string)) AS name,'',
           [quote] @ ''String' AS datatype'',
           ''FROM signoz_logs.logs_v2'',
           ''ORDER BY name ASC''])\<rparr>,
      CreateMaterializedViewOperation \<lparr>cluster = '''', Database = ''signoz_logs'',
         mv_ViewName = ''resource_keys_string_final_mv'',
         mv_DestTable = ''logs_resource_keys'',
         mv_Columns = [
           Col ''name'' ColumnTypeString,
           Col ''datatype'' ColumnTypeString],
         mv_Query = (text_lines [
           ''SELECT DISTINCT'',
           ''arrayJoin(mapKeys(resources_string)) AS name,'',
           [quote] @ ''String' AS datatype'',
           ''FROM signoz_logs.logs_v2'',
           ''ORDER BY name ASC''])\<rparr>]\<rparr>"

definition Logs_1001 :: "SchemaMigrationRecord" where
  "Logs_1001 = \<lparr>
    MigrationID = 1001,
    UpItems = [
      CreateTableOperation \<lparr>cluster = '''', Database = ''signoz_logs'', Table = ''tag_attributes_v2'',
         ct_Columns = [
           Col_Codec ''unix_milli'' ColumnTypeInt64 ''Delta(8), ZSTD(1)'',
           Col_Codec ''tag_key'' ColumnTypeString ''ZSTD(1)'',
           Col_Codec ''tag_type'' (LowCardinalityColumnType ColumnTypeString) ''ZSTD(1)'',
           Col_Codec ''tag_data_type'' (LowCardinalityColumnType ColumnTypeString) ''ZSTD(1)'',
           Col_Codec ''string_value'' ColumnTypeString ''ZSTD(1)'',
           Col_Codec ''number_value'' (NullableColumnType ColumnTypeFloat64) ''ZSTD(1)''],
         ct_Indexes = [
           Index ''string_value_index'' ''string_value'' ''ngrambf_v1(4, 1024, 3, 0)'' 1,
           Index ''number_value_index'' ''number_value'' ''minmax'' 1],
         ct_Projections = [],
         ct_Engine = ReplacingMergeTree
           \<lparr>Replicated = False,
            OrderBy = ''(tag_key, tag_type, tag_data_type, string_value, number_value)'',
            PrimaryKey = '''',
            PartitionBy = ''toDate(unix_milli / 1000)'',
            SampleBy = '''',
            engine_TTL = ''toDateTime(unix_milli / 1000) + toIntervalSecond(1296000)'',
            engine_Settings = [TableSetting ''index_granularity'' ''8192'', TableSetting ''ttl_only_drop_parts'' ''1'', TableSetting ''allow_nullable_key'' ''1'']\<rparr>\<rparr>,
      CreateTableOperation \<lparr>cluster = '''', Database = ''signoz_logs'', Table = ''distributed_tag_attributes_v2'',
         ct_Columns = [
           Col_Codec ''unix_milli'' ColumnTypeInt64 ''Delta(8), ZSTD(1)'',
           Col_Codec ''tag_key'' ColumnTypeString ''ZSTD(1)'',
           Col_Codec ''tag_type'' (LowCardinalityColumnType ColumnTypeString) ''ZSTD(1)'',
           Col_Codec ''tag_data_type'' (LowCardinalityColumnType ColumnTypeString) ''ZSTD(1)'',
           Col_Codec ''string_value'' ColumnTypeString ''ZSTD(1)'',
           Col_Codec ''number_value'' (NullableColumnType ColumnTypeFloat64) ''ZSTD(1)''],
         ct_Indexes = [],
         ct_Projections = [],
         ct_Engine = DistributedEngine
           \<lparr>dist_Cluster = '''', dist_Database = ''signoz_logs'',
           dist_Table = ''tag_attributes_v2'',
           ShardingKey = ''cityHash64(rand())''\<rparr>\<rparr>],
    DownItems = []\<rparr>"

definition Logs_1002 :: "SchemaMigrationRecord" where
  "Logs_1002 = \<lparr>
    MigrationID = 1002,
    UpItems = [
      AlterTableAddColumn \<lparr>cluster = '''', Database = ''signoz_logs'', Table = ''logs_attribute_keys'',
         ac_Column = Col_Default ''timestamp'' (DateTimeColumnType '''') ''toDateTime(now())'',
         ac_After = None\<rparr>,
      AlterTableAddColumn \<lparr>cluster = '''', Database = ''signoz_logs'', Table = ''logs_resource_keys'',
         ac_Column = Col_Default ''timestamp'' (DateTimeColumnType '''') ''toDateTime(now())'',
         ac_After = None\<rparr>,
      AlterTableModifyTTL \<lparr>cluster = '''', Database = ''signoz_logs'', Table = ''logs_attribute_keys'',
         mt_TTL = ''timestamp + INTERVAL 15 DAY'',
         MaterializeTTLAfterModify = False\<rparr>,
      AlterTableModifyTTL \<lparr>cluster = '''', Database = ''signoz_logs'', Table = ''logs_resource_keys'',
         mt_TTL = ''timestamp + INTERVAL 15 DAY'',
         MaterializeTTLAfterModify = False\<rparr>],
    DownItems = []\<rparr>"

definition Logs_1003 :: "SchemaMigrationRecord" where
  "Logs_1003 = \<lparr>
    MigrationID = 1003,
    UpItems = [
      AlterTableMaterializeColumn \<lparr>cluster = '''', Database = ''signoz_logs'', Table = ''logs_attribute_keys'',
         mz_Column = Col_Name ''timestamp'',
         mz_Partition = '''',
         mz_PartitionID = ''''\<rparr>,
      AlterTableMaterializeColumn \<lparr>cluster = '''', Database = ''signoz_logs'', Table = ''logs_resource_keys'',
         mz_Column = Col_Name ''timestamp'',
         mz_Partition = '''',
         mz_PartitionID = ''''\<rparr>],
    DownItems = []\<rparr>"

definition Logs_1004 :: "SchemaMigrationRecord" where
  "Logs_1004 = \<lparr>
    MigrationID = 1004,
    UpItems = [
      AlterTableAddColumn \<lparr>cluster = '''', Database = ''signoz_logs'', Table = ''logs_v2'',
         ac_Column = Col_Codec ''resource'' (JSONColumnType (Some 100) None []) ''ZSTD(1)'',
         ac_After = None\<rparr>,
      AlterTableAddColumn \<lparr>cluster = '''', Database = ''signoz_logs'', Table = ''distributed_logs_v2'',
         ac_Column = Col_Codec ''resource'' (JSONColumnType (Some 100) None []) ''ZSTD(1)'',
         ac_After = None\<rparr>],
    DownItems = [
      AlterTableDropColumn \<lparr>cluster = '''', Database = ''signoz_logs'', Table = ''distributed_logs_v2'',
         dc_Column = Col_Name ''resource''\<rparr>,
      AlterTableDropColumn \<lparr>cluster = '''', Database = ''signoz_logs'', Table = ''logs_v2'',
         dc_Column = Col_Name ''resource''\<rparr>]\<rparr>"

definition Logs_list :: "SchemaMigrationRecord list" where
  "Logs_list = [
    Logs_1000, Logs_1001, Logs_1002, Logs_1003, Logs_1004]"

section \<open>\<^verbatim>\<open>logs_migrations_v2.go\<close>\<close>

definition LogsV2_1000 :: "SchemaMigrationRecord" where
  "LogsV2_1000 = \<lparr>
    MigrationID = 1000,
    UpItems = [
      DropTableOperation \<lparr>cluster = '''', Database = ''signoz_logs'', Table = ''attribute_keys_bool_final_mv'',
         dt_Settings = []\<rparr>,
      DropTableOperation \<lparr>cluster = '''', Database = ''signoz_logs'', Table = ''attribute_keys_float64_final_mv'',
         dt_Settings = []\<rparr>,
      DropTableOperation \<lparr>cluster = '''', Database = ''signoz_logs'', Table = ''attribute_keys_string_final_mv'',
         dt_Settings = []\<rparr>,
      DropTableOperation \<lparr>cluster = '''', Database = ''signoz_logs'', Table = ''resource_keys_string_final_mv'',
         dt_Settings = []\<rparr>],
    DownItems = [
      CreateMaterializedViewOperation \<lparr>cluster = '''', Database = ''signoz_logs'',
         mv_ViewName = ''attribute_keys_bool_final_mv'',
         mv_DestTable = ''logs_attribute_keys'',
         mv_Columns = [
           Col ''name'' ColumnTypeString,
           Col ''datatype'' ColumnTypeString],
         mv_Query = (text_lines [
           ''SELECT DISTINCT'',
           ''arrayJoin(mapKeys(attributes_bool)) AS name,'',
           [quote] @ ''Bool' AS datatype'',
           ''FROM signoz_logs.logs_v2'',
           ''ORDER BY name ASC''])\<rparr>,
      CreateMaterializedViewOperation \<lparr>cluster = '''', Database = ''signoz_logs'',
         mv_ViewName = ''attribute_keys_float64_final_mv'',
         mv_DestTable = ''logs_attribute_keys'',
         mv_Columns = [
           Col ''name'' ColumnTypeString,
           Col ''datatype'' ColumnTypeString],
         mv_Query = (text_lines [
           ''SELECT DISTINCT'',
           ''arrayJoin(mapKeys(attributes_number)) AS name,'',
           [quote] @ ''Float64' AS datatype'',
           ''FROM signoz_logs.logs_v2'',
           ''ORDER BY name ASC''])\<rparr>,
      CreateMaterializedViewOperation \<lparr>cluster = '''', Database = ''signoz_logs'',
         mv_ViewName = ''attribute_keys_string_final_mv'',
         mv_DestTable = ''logs_attribute_keys'',
         mv_Columns = [
           Col ''name'' ColumnTypeString,
           Col ''datatype'' ColumnTypeString],
         mv_Query = (text_lines [
           ''SELECT DISTINCT'',
           ''arrayJoin(mapKeys(attributes_string)) AS name,'',
           [quote] @ ''String' AS datatype'',
           ''FROM signoz_logs.logs_v2'',
           ''ORDER BY name ASC''])\<rparr>,
      CreateMaterializedViewOperation \<lparr>cluster = '''', Database = ''signoz_logs'',
         mv_ViewName = ''resource_keys_string_final_mv'',
         mv_DestTable = ''logs_resource_keys'',
         mv_Columns = [
           Col ''name'' ColumnTypeString,
           Col ''datatype'' ColumnTypeString],
         mv_Query = (text_lines [
           ''SELECT DISTINCT'',
           ''arrayJoin(mapKeys(resources_string)) AS name,'',
           [quote] @ ''String' AS datatype'',
           ''FROM signoz_logs.logs_v2'',
           ''ORDER BY name ASC''])\<rparr>]\<rparr>"

definition LogsV2_1001 :: "SchemaMigrationRecord" where
  "LogsV2_1001 = \<lparr>
    MigrationID = 1001,
    UpItems = [
      CreateTableOperation \<lparr>cluster = '''', Database = ''signoz_logs'', Table = ''tag_attributes_v2'',
         ct_Columns = [
           Col_Codec ''unix_milli'' ColumnTypeInt64 ''Delta(8), ZSTD(1)'',
           Col_Codec ''tag_key'' ColumnTypeString ''ZSTD(1)'',
           Col_Codec ''tag_type'' (LowCardinalityColumnType ColumnTypeString) ''ZSTD(1)'',
           Col_Codec ''tag_data_type'' (LowCardinalityColumnType ColumnTypeString) ''ZSTD(1)'',
           Col_Codec ''string_value'' ColumnTypeString ''ZSTD(1)'',
           Col_Codec ''number_value'' (NullableColumnType ColumnTypeFloat64) ''ZSTD(1)''],
         ct_Indexes = [
           Index ''string_value_index'' ''string_value'' ''ngrambf_v1(4, 1024, 3, 0)'' 1,
           Index ''number_value_index'' ''number_value'' ''minmax'' 1],
         ct_Projections = [],
         ct_Engine = ReplacingMergeTree
           \<lparr>Replicated = False,
            OrderBy = ''(tag_key, tag_type, tag_data_type, string_value, number_value)'',
            PrimaryKey = '''',
            PartitionBy = ''toDate(unix_milli / 1000)'',
            SampleBy = '''',
            engine_TTL = ''toDateTime(unix_milli / 1000) + toIntervalSecond(1296000)'',
            engine_Settings = [TableSetting ''index_granularity'' ''8192'', TableSetting ''ttl_only_drop_parts'' ''1'', TableSetting ''allow_nullable_key'' ''1'']\<rparr>\<rparr>,
      CreateTableOperation \<lparr>cluster = '''', Database = ''signoz_logs'', Table = ''distributed_tag_attributes_v2'',
         ct_Columns = [
           Col_Codec ''unix_milli'' ColumnTypeInt64 ''Delta(8), ZSTD(1)'',
           Col_Codec ''tag_key'' ColumnTypeString ''ZSTD(1)'',
           Col_Codec ''tag_type'' (LowCardinalityColumnType ColumnTypeString) ''ZSTD(1)'',
           Col_Codec ''tag_data_type'' (LowCardinalityColumnType ColumnTypeString) ''ZSTD(1)'',
           Col_Codec ''string_value'' ColumnTypeString ''ZSTD(1)'',
           Col_Codec ''number_value'' (NullableColumnType ColumnTypeFloat64) ''ZSTD(1)''],
         ct_Indexes = [],
         ct_Projections = [],
         ct_Engine = DistributedEngine
           \<lparr>dist_Cluster = '''', dist_Database = ''signoz_logs'',
           dist_Table = ''tag_attributes_v2'',
           ShardingKey = ''cityHash64(rand())''\<rparr>\<rparr>],
    DownItems = []\<rparr>"

definition LogsV2_1002 :: "SchemaMigrationRecord" where
  "LogsV2_1002 = \<lparr>
    MigrationID = 1002,
    UpItems = [
      AlterTableAddColumn \<lparr>cluster = '''', Database = ''signoz_logs'', Table = ''logs_attribute_keys'',
         ac_Column = Col_Default ''timestamp'' (DateTimeColumnType '''') ''toDateTime(now())'',
         ac_After = None\<rparr>,
      AlterTableAddColumn \<lparr>cluster = '''', Database = ''signoz_logs'', Table = ''logs_resource_keys'',
         ac_Column = Col_Default ''timestamp'' (DateTimeColumnType '''') ''toDateTime(now())'',
         ac_After = None\<rparr>,
      AlterTableModifyTTL \<lparr>cluster = '''', Database = ''signoz_logs'', Table = ''logs_attribute_keys'',
         mt_TTL = ''timestamp + INTERVAL 15 DAY'',
         MaterializeTTLAfterModify = False\<rparr>,
      AlterTableModifyTTL \<lparr>cluster = '''', Database = ''signoz_logs'', Table = ''logs_resource_keys'',
         mt_TTL = ''timestamp + INTERVAL 15 DAY'',
         MaterializeTTLAfterModify = False\<rparr>],
    DownItems = []\<rparr>"

definition LogsV2_1003 :: "SchemaMigrationRecord" where
  "LogsV2_1003 = \<lparr>
    MigrationID = 1003,
    UpItems = [
      AlterTableMaterializeColumn \<lparr>cluster = '''', Database = ''signoz_logs'', Table = ''logs_attribute_keys'',
         mz_Column = Col_Name ''timestamp'',
         mz_Partition = '''',
         mz_PartitionID = ''''\<rparr>,
      AlterTableMaterializeColumn \<lparr>cluster = '''', Database = ''signoz_logs'', Table = ''logs_resource_keys'',
         mz_Column = Col_Name ''timestamp'',
         mz_Partition = '''',
         mz_PartitionID = ''''\<rparr>],
    DownItems = []\<rparr>"

definition LogsV2_1004 :: "SchemaMigrationRecord" where
  "LogsV2_1004 = \<lparr>
    MigrationID = 1004,
    UpItems = [
      AlterTableAddColumn \<lparr>cluster = '''', Database = ''signoz_logs'', Table = ''logs_v2'',
         ac_Column = Col_Codec ''resource'' (JSONColumnType (Some 100) None []) ''ZSTD(1)'',
         ac_After = None\<rparr>,
      AlterTableAddColumn \<lparr>cluster = '''', Database = ''signoz_logs'', Table = ''distributed_logs_v2'',
         ac_Column = Col_Codec ''resource'' (JSONColumnType (Some 100) None []) ''ZSTD(1)'',
         ac_After = None\<rparr>],
    DownItems = [
      AlterTableDropColumn \<lparr>cluster = '''', Database = ''signoz_logs'', Table = ''distributed_logs_v2'',
         dc_Column = Col_Name ''resource''\<rparr>,
      AlterTableDropColumn \<lparr>cluster = '''', Database = ''signoz_logs'', Table = ''logs_v2'',
         dc_Column = Col_Name ''resource''\<rparr>]\<rparr>"

definition LogsV2_2005_up_1 :: "operation list" where
  "LogsV2_2005_up_1 = [
     CreateTableOperation \<lparr>cluster = '''', Database = SignozMetadataDB, Table = LocalPathTypesTable,
        ct_Columns = [
          Col_Codec PathTypesTablePathColumn ColumnTypeString ''ZSTD(1)'',
          Col_Codec PathTypesTableTypeColumn ColumnTypeString ''ZSTD(1)'',
          Col_Codec PathTypesTableLastSeenColumn ColumnTypeUInt64 ''DoubleDelta, LZ4''],
        ct_Indexes = [],
        ct_Projections = [],
        ct_Engine = ReplacingMergeTree
          \<lparr>Replicated = False,
           OrderBy = ''('' @ PathTypesTablePathColumn @ '', '' @ PathTypesTableTypeColumn @ '')'',
           PrimaryKey = '''',
           PartitionBy = ''toDate(last_seen / 1000000000)'',
           SampleBy = '''',
           engine_TTL = ''toDateTime(last_seen / 1000000000) + toIntervalSecond(1296000)'',
           engine_Settings = [TableSetting ''index_granularity'' ''8192'', TableSetting ''ttl_only_drop_parts'' ''1'']\<rparr>\<rparr>,
     CreateTableOperation \<lparr>cluster = '''', Database = SignozMetadataDB, Table = DistributedPathTypesTable,
        ct_Columns = [
          Col_Codec PathTypesTablePathColumn ColumnTypeString ''ZSTD(1)'',
          Col_Codec PathTypesTableTypeColumn ColumnTypeString ''ZSTD(1)'',
          Col_Codec PathTypesTableLastSeenColumn ColumnTypeUInt64 ''DoubleDelta, LZ4''],
        ct_Indexes = [],
        ct_Projections = [],
        ct_Engine = DistributedEngine
          \<lparr>dist_Cluster = '''', dist_Database = SignozMetadataDB,
          dist_Table = LocalPathTypesTable,
          ShardingKey = ''cityHash64('' @ PathTypesTablePathColumn @ '', '' @ PathTypesTableTypeColumn @ '')''\<rparr>\<rparr>,
     CreateTableOperation \<lparr>cluster = '''', Database = SignozMetadataDB, Table = LocalPromotedPathsTable,
        ct_Columns = [
          Col_Codec ''path'' ColumnTypeString ''ZSTD(1)'',
          Col_Codec ''created_at'' ColumnTypeUInt64 ''DoubleDelta, LZ4''],
        ct_Indexes = [],
        ct_Projections = [],
        ct_Engine = ReplacingMergeTree
          \<lparr>Replicated = False,
           OrderBy = ''path'',
           PrimaryKey = '''',
           PartitionBy = ''toDate(created_at / 1000000000)'',
           SampleBy = '''',
           engine_TTL = '''',
           engine_Settings = [TableSetting ''index_granularity'' ''8192'']\<rparr>\<rparr>,
     CreateTableOperation \<lparr>cluster = '''', Database = SignozMetadataDB, Table = DistributedPromotedPathsTable,
        ct_Columns = [
          Col_Codec ''path'' ColumnTypeString ''ZSTD(1)'',
          Col_Codec ''created_at'' ColumnTypeUInt64 ''DoubleDelta, LZ4''],
        ct_Indexes = [],
        ct_Projections = [],
        ct_Engine = DistributedEngine
          \<lparr>dist_Cluster = '''', dist_Database = SignozMetadataDB,
          dist_Table = LocalPromotedPathsTable,
          ShardingKey = ''cityHash64(path)''\<rparr>\<rparr>,
     AlterTableModifySettings \<lparr>cluster = '''', Database = ''signoz_logs'', Table = ''logs_v2'',
        ms_Settings = [TableSetting ''object_serialization_version'' ([quote] @ ''v3'' @ [quote]), TableSetting ''object_shared_data_serialization_version'' ([quote] @ ''advanced'' @ [quote])]\<rparr>,
     AlterTableAddColumn \<lparr>cluster = '''', Database = ''signoz_logs'', Table = ''logs_v2'',
        ac_Column = Col_Codec BodyJSONColumn (JSONColumnType (Some 0) None []) ''ZSTD(1)'',
        ac_After = Some (Col_Name ''body'')\<rparr>,
     AlterTableAddColumn \<lparr>cluster = '''', Database = ''signoz_logs'', Table = ''distributed_logs_v2'',
        ac_Column = Col_Codec BodyJSONColumn (JSONColumnType (Some 0) None []) ''ZSTD(1)'',
        ac_After = Some (Col_Name ''body'')\<rparr>,
     AlterTableAddColumn \<lparr>cluster = '''', Database = ''signoz_logs'', Table = ''logs_v2'',
        ac_Column = Col_Codec BodyPromotedColumn (JSONColumnType None None []) ''ZSTD(1)'',
        ac_After = Some (Col_Name BodyJSONColumn)\<rparr>,
     AlterTableAddColumn \<lparr>cluster = '''', Database = ''signoz_logs'', Table = ''distributed_logs_v2'',
        ac_Column = Col_Codec BodyPromotedColumn (JSONColumnType None None []) ''ZSTD(1)'',
        ac_After = Some (Col_Name BodyJSONColumn)\<rparr>,
     InsertIntoTable \<lparr>cluster = '''', Database = SignozMetadataDB, Table = DistributedPromotedPathsTable,
        ins_Columns = [''path'', ''created_at''],
        LightWeight = True,
        Synchronous = True,
        ins_Values = ''('message', '' @ show_int 0 @ '')''\<rparr>,
     AlterTableAddIndex \<lparr>cluster = '''', Database = ''signoz_logs'', Table = ''logs_v2'',
        ai_Index = Index (JSONSubColumnIndexName BodyPromotedColumn ''message'' ''String'' IndexTypeTokenBF) (JSONSubColumnIndexExpr BodyPromotedColumn ''message'' ''String'') ''tokenbf_v1(10000, 2, 0)'' 1\<rparr>]"

definition LogsV2_2005_up_2 :: "operation list" where
  "LogsV2_2005_up_2 = [
     AlterTableAddIndex \<lparr>cluster = '''', Database = ''signoz_logs'', Table = ''logs_v2'',
        ai_Index = Index (JSONSubColumnIndexName BodyPromotedColumn ''message'' ''String'' IndexTypeNGramBF) (JSONSubColumnIndexExpr BodyPromotedColumn ''message'' ''String'') ''ngrambf_v1(4, 15000, 3, 0)'' 1\<rparr>]"

definition LogsV2_2005_down :: "operation list" where
  "LogsV2_2005_down = [
     AlterTableDropIndex \<lparr>cluster = '''', Database = ''signoz_logs'', Table = ''logs_v2'',
        di_Index = Index (JSONSubColumnIndexName BodyPromotedColumn ''message'' ''String'' IndexTypeNGramBF) '''' '''' 0\<rparr>,
     AlterTableDropIndex \<lparr>cluster = '''', Database = ''signoz_logs'', Table = ''logs_v2'',
        di_Index = Index (JSONSubColumnIndexName BodyPromotedColumn ''message'' ''String'' IndexTypeTokenBF) '''' '''' 0\<rparr>,
     AlterTableDropColumn \<lparr>cluster = '''', Database = ''signoz_logs'', Table = ''logs_v2'',
        dc_Column = Col_Name BodyPromotedColumn\<rparr>,
     AlterTableDropColumn \<lparr>cluster = '''', Database = ''signoz_logs'', Table = ''logs_v2'',
        dc_Column = Col_Name BodyJSONColumn\<rparr>,
     DropTableOperation \<lparr>cluster = '''', Database = SignozMetadataDB, Table = LocalPathTypesTable,
        dt_Settings = []\<rparr>,
     DropTableOperation \<lparr>cluster = '''', Database = SignozMetadataDB, Table = DistributedPathTypesTable,
        dt_Settings = []\<rparr>,
     DropTableOperation \<lparr>cluster = '''', Database = SignozMetadataDB, Table = LocalPromotedPathsTable,
        dt_Settings = []\<rparr>,
     DropTableOperation \<lparr>cluster = '''', Database = SignozMetadataDB, Table = DistributedPromotedPathsTable,
        dt_Settings = []\<rparr>]"

definition LogsV2_2005 :: "SchemaMigrationRecord" where
  "LogsV2_2005 = \<lparr>
    MigrationID = 2005,
    UpItems = LogsV2_2005_up_1 @ LogsV2_2005_up_2,
    DownItems = LogsV2_2005_down\<rparr>"

definition LogsV2_list :: "SchemaMigrationRecord list" where
  "LogsV2_list = [
    LogsV2_1000, LogsV2_1001, LogsV2_1002, LogsV2_1003, LogsV2_1004, LogsV2_2005]"

end
