(* ===== verification/MigrationsOthers.thy ===== *)
theory MigrationsOthers
  imports MigrationTerms
begin

text \<open>
  The lists of migrations of the databases of the metadata, of the analytics and of the meter, and the tables that record the migrations,
  one definition per migration (or per part of one, where it is long).
\<close>

section \<open>\<^verbatim>\<open>metadata_migrations.go\<close>\<close>

definition Metadata_1000 :: "SchemaMigrationRecord" where
  "Metadata_1000 = \<lparr>
    MigrationID = 1000,
    UpItems = [
      CreateTableOperation \<lparr>cluster = '''', Database = ''signoz_metadata'', Table = ''attributes_metadata'',
         ct_Columns = [
           Col ''unix_milli'' ColumnTypeUInt64,
           Col ''data_source'' ColumnTypeString,
           Col ''resource_fingerprint'' ColumnTypeUInt64,
           Col ''attrs_fingerprint'' ColumnTypeUInt64,
           Col ''resource_attributes'' (MapColumnType (LowCardinalityColumnType ColumnTypeString) ColumnTypeString),
           Col ''attributes'' (MapColumnType (LowCardinalityColumnType ColumnTypeString) ColumnTypeString)],
         ct_Indexes = [
           Index ''idx_resource_attributes_map_keys'' ''mapKeys(resource_attributes)'' ''tokenbf_v1(1024, 2, 0)'' 1,
           Index ''idx_attributes_map_keys'' ''mapKeys(attributes)'' ''tokenbf_v1(1024, 2, 0)'' 1,
           Index ''idx_resource_attributes_map_values'' ''mapValues(resource_attributes)'' ''ngrambf_v1(4, 5000, 2, 0)'' 1,
           Index ''idx_attributes_map_values'' ''mapValues(attributes)'' ''ngrambf_v1(4, 5000, 2, 0)'' 1],
         ct_Projections = [],
         ct_Engine = ReplacingMergeTree
           \<lparr>Replicated = False,
            OrderBy = ''(data_source, unix_milli, resource_fingerprint, attrs_fingerprint)'',
            PrimaryKey = '''',
            PartitionBy = ''toDate(unix_milli / 1000)'',
            SampleBy = '''',
            engine_TTL = ''toDateTime(unix_milli / 1000) + INTERVAL 2592000 SECOND DELETE'',
            engine_Settings = [TableSetting ''ttl_only_drop_parts'' ''1'', TableSetting ''index_granularity'' ''8192'']\<rparr>\<rparr>,
      CreateTableOperation \<lparr>cluster = '''', Database = ''signoz_metadata'', Table = ''distributed_attributes_metadata'',
         ct_Columns = [
           Col ''unix_milli'' ColumnTypeUInt64,
           Col ''data_source'' ColumnTypeString,
           Col ''resource_fingerprint'' ColumnTypeUInt64,
           Col ''attrs_fingerprint'' ColumnTypeUInt64,
           Col ''resource_attributes'' (MapColumnType (LowCardinalityColumnType ColumnTypeString) ColumnTypeString),
           Col ''attributes'' (MapColumnType (LowCardinalityColumnType ColumnTypeString) ColumnTypeString)],
         ct_Indexes = [],
         ct_Projections = [],
         ct_Engine = DistributedEngine
           \<lparr>dist_Cluster = '''', dist_Database = ''signoz_metadata'',
           dist_Table = ''attributes_metadata'',
           ShardingKey = ''cityHash64(data_source, resource_fingerprint, attrs_fingerprint)''\<rparr>\<rparr>],
    DownItems = [
      DropTableOperation \<lparr>cluster = '''', Database = ''signoz_metadata'', Table = ''distributed_attributes_metadata'',
         dt_Settings = []\<rparr>,
      DropTableOperation \<lparr>cluster = '''', Database = ''signoz_metadata'', Table = ''attributes_metadata'',
         dt_Settings = []\<rparr>]\<rparr>"

definition Metadata_list :: "SchemaMigrationRecord list" where
  "Metadata_list = [
    Metadata_1000]"

section \<open>\<^verbatim>\<open>analytics_migrations.go\<close>\<close>

definition Analytics_1 :: "SchemaMigrationRecord" where
  "Analytics_1 = \<lparr>
    MigrationID = 1,
    UpItems = [
      CreateTableOperation \<lparr>cluster = '''', Database = ''signoz_analytics'', Table = ''rule_state_history_v0'',
         ct_Columns = [
           Col_Default ''_retention_days'' ColumnTypeUInt32 ''180'',
           Col ''rule_id'' (LowCardinalityColumnType ColumnTypeString),
           Col ''rule_name'' (LowCardinalityColumnType ColumnTypeString),
           Col ''overall_state'' (LowCardinalityColumnType ColumnTypeString),
           Col ''overall_state_changed'' ColumnTypeBool,
           Col ''state'' (LowCardinalityColumnType ColumnTypeString),
           Col ''state_changed'' ColumnTypeBool,
           Col_Codec ''unix_milli'' ColumnTypeInt64 ''Delta(8), ZSTD(1)'',
           Col_Codec ''fingerprint'' ColumnTypeUInt64 ''ZSTD(1)'',
           Col_Codec ''value'' ColumnTypeFloat64 ''Gorilla, ZSTD(1)'',
           Col_Codec ''labels'' ColumnTypeString ''ZSTD(5)''],
         ct_Indexes = [],
         ct_Projections = [],
         ct_Engine = MergeTreeEngine
           \<lparr>Replicated = False,
            OrderBy = ''(rule_id, unix_milli)'',
            PrimaryKey = '''',
            PartitionBy = ''toDate(unix_milli / 1000)'',
            SampleBy = '''',
            engine_TTL = ''toDateTime(unix_milli / 1000) + toIntervalDay(_retention_days)'',
            engine_Settings = [TableSetting ''ttl_only_drop_parts'' ''1'', TableSetting ''index_granularity'' ''8192'']\<rparr>\<rparr>,
      CreateTableOperation \<lparr>cluster = '''', Database = ''signoz_analytics'', Table = ''distributed_rule_state_history_v0'',
         ct_Columns = [
           Col ''rule_id'' (LowCardinalityColumnType ColumnTypeString),
           Col ''rule_name'' (LowCardinalityColumnType ColumnTypeString),
           Col ''overall_state'' (LowCardinalityColumnType ColumnTypeString),
           Col ''overall_state_changed'' ColumnTypeBool,
           Col ''state'' (LowCardinalityColumnType ColumnTypeString),
           Col ''state_changed'' ColumnTypeBool,
           Col_Codec ''unix_milli'' ColumnTypeInt64 ''Delta(8), ZSTD(1)'',
           Col_Codec ''fingerprint'' ColumnTypeUInt64 ''ZSTD(1)'',
           Col_Codec ''value'' ColumnTypeFloat64 ''Gorilla, ZSTD(1)'',
           Col_Codec ''labels'' ColumnTypeString ''ZSTD(5)''],
         ct_Indexes = [],
         ct_Projections = [],
         ct_Engine = DistributedEngine
           \<lparr>dist_Cluster = '''', dist_Database = ''signoz_analytics'',
           dist_Table = ''rule_state_history_v0'',
           ShardingKey = ''cityHash64(rule_id, rule_name, fingerprint)''\<rparr>\<rparr>],
    DownItems = [
      DropTableOperation \<lparr>cluster = '''', Database = ''signoz_analytics'', Table = ''distributed_rule_state_history_v0'',
         dt_Settings = []\<rparr>,
      DropTableOperation \<lparr>cluster = '''', Database = ''signoz_analytics'', Table = ''rule_state_history_v0'',
         dt_Settings = []\<rparr>]\<rparr>"

definition Analytics_list :: "SchemaMigrationRecord list" where
  "Analytics_list = [
    Analytics_1]"

section \<open>\<^verbatim>\<open>meter_migrations.go\<close>\<close>

definition Meter_1 :: "SchemaMigrationRecord" where
  "Meter_1 = \<lparr>
    MigrationID = 1,
    UpItems = [
      CreateTableOperation \<lparr>cluster = '''', Database = ''signoz_meter'', Table = ''samples'',
         ct_Columns = [
           Col_Default ''temporality'' (LowCardinalityColumnType ColumnTypeString) ([quote] @ ''Unspecified'' @ [quote]),
           Col ''metric_name'' (LowCardinalityColumnType ColumnTypeString),
           Col_Default ''description'' (LowCardinalityColumnType ColumnTypeString) ([quote] @ ''default'' @ [quote]),
           Col_Default ''unit'' (LowCardinalityColumnType ColumnTypeString) ([quote] @ ''default'' @ [quote]),
           Col_Default ''type'' (LowCardinalityColumnType ColumnTypeString) ([quote] @ ''default'' @ [quote]),
           Col_Default ''is_monotonic'' ColumnTypeBool ''false'',
           Col_Codec ''labels'' ColumnTypeString ''ZSTD(5)'',
           Col_Codec ''fingerprint'' ColumnTypeUInt64 ''Delta(8), ZSTD(1)'',
           Col_Codec ''unix_milli'' ColumnTypeInt64 ''DoubleDelta, ZSTD(1)'',
           Col_Codec ''value'' ColumnTypeFloat64 ''Gorilla, ZSTD(1)''],
         ct_Indexes = [],
         ct_Projections = [],
         ct_Engine = MergeTreeEngine
           \<lparr>Replicated = False,
            OrderBy = ''(temporality, metric_name, fingerprint, toDayOfMonth(toDateTime(intDiv(unix_milli, 1000))))'',
            PrimaryKey = '''',
            PartitionBy = ''toYYYYMM(toDateTime(intDiv(unix_milli, 1000)))'',
            SampleBy = '''',
            engine_TTL = ''toDateTime(intDiv(unix_milli, 1000)) + toIntervalYear(1)'',
            engine_Settings = [TableSetting ''index_granularity'' ''8192'', TableSetting ''ttl_only_drop_parts'' ''1'']\<rparr>\<rparr>],
    DownItems = [
      DropTableOperation \<lparr>cluster = '''', Database = ''signoz_meter'', Table = ''samples'',
         dt_Settings = []\<rparr>]\<rparr>"

definition Meter_2 :: "SchemaMigrationRecord" where
  "Meter_2 = \<lparr>
    MigrationID = 2,
    UpItems = [
      CreateTableOperation \<lparr>cluster = '''', Database = ''signoz_meter'', Table = ''distributed_samples'',
         ct_Columns = [
           Col_Default ''temporality'' (LowCardinalityColumnType ColumnTypeString) ([quote] @ ''Unspecified'' @ [quote]),
           Col ''metric_name'' (LowCardinalityColumnType ColumnTypeString),
           Col_Default ''description'' (LowCardinalityColumnType ColumnTypeString) ([quote] @ ''default'' @ [quote]),
           Col_Default ''unit'' (LowCardinalityColumnType ColumnTypeString) ([quote] @ ''default'' @ [quote]),
           Col_Default ''type'' (LowCardinalityColumnType ColumnTypeString) ([quote] @ ''default'' @ [quote]),
           Col_Default ''is_monotonic'' ColumnTypeBool ''false'',
           Col_Codec ''labels'' ColumnTypeString ''ZSTD(5)'',
           Col_Codec ''fingerprint'' ColumnTypeUInt64 ''Delta(8), ZSTD(1)'',
           Col_Codec ''unix_milli'' ColumnTypeInt64 ''DoubleDelta, ZSTD(1)'',
           Col_Codec ''value'' ColumnTypeFloat64 ''Gorilla, ZSTD(1)''],
         ct_Indexes = [],
         ct_Projections = [],
         ct_Engine = DistributedEngine
           \<lparr>dist_Cluster = '''', dist_Database = ''signoz_meter'',
           dist_Table = ''samples'',
           ShardingKey = ''cityHash64(temporality, metric_name, fingerprint)''\<rparr>\<rparr>],
    DownItems = [
      DropTableOperation \<lparr>cluster = '''', Database = ''signoz_meter'', Table = ''distributed_samples'',
         dt_Settings = []\<rparr>]\<rparr>"

definition Meter_3 :: "SchemaMigrationRecord" where
  "Meter_3 = \<lparr>
    MigrationID = 3,
    UpItems = [
      CreateTableOperation \<lparr>cluster = '''', Database = ''signoz_meter'', Table = ''samples_agg_1d'',
         ct_Columns = [
           Col_Default ''temporality'' (LowCardinalityColumnType ColumnTypeString) ([quote] @ ''Unspecified'' @ [quote]),
           Col ''metric_name'' (LowCardinalityColumnType ColumnTypeString),
           Col_Default ''description'' (LowCardinalityColumnType ColumnTypeString) ([quote] @ ''default'' @ [quote]),
           Col_Default ''unit'' (LowCardinalityColumnType ColumnTypeString) ([quote] @ ''default'' @ [quote]),
           Col_Default ''type'' (LowCardinalityColumnType ColumnTypeString) ([quote] @ ''default'' @ [quote]),
           Col_Default ''is_monotonic'' ColumnTypeBool ''false'',
           Col_Codec ''labels'' ColumnTypeString ''ZSTD(5)'',
           Col_Codec ''fingerprint'' ColumnTypeUInt64 ''Delta(8), ZSTD(1)'',
           Col_Codec ''unix_milli'' ColumnTypeInt64 ''DoubleDelta, ZSTD(1)'',
           Col_Codec ''last'' (SimpleAggregateFunction ''anyLast'' [ColumnTypeFloat64]) ''ZSTD(1)'',
           Col_Codec ''min'' (SimpleAggregateFunction ''min'' [ColumnTypeFloat64]) ''ZSTD(1)'',
           Col_Codec ''max'' (SimpleAggregateFunction ''max'' [ColumnTypeFloat64]) ''ZSTD(1)'',
           Col_Codec ''sum'' (SimpleAggregateFunction ''sum'' [ColumnTypeFloat64]) ''ZSTD(1)'',
           Col_Codec ''count'' (SimpleAggregateFunction ''sum'' [ColumnTypeUInt64]) ''ZSTD(1)''],
         ct_Indexes = [],
         ct_Projections = [],
         ct_Engine = AggregatingMergeTree
           \<lparr>Replicated = False,
            OrderBy = ''(temporality, metric_name, fingerprint, toDayOfMonth(toDateTime(intDiv(unix_milli, 1000))))'',
            PrimaryKey = '''',
            PartitionBy = ''toYYYYMM(toDateTime(intDiv(unix_milli, 1000)))'',
            SampleBy = '''',
            engine_TTL = ''toDateTime(intDiv(unix_milli, 1000)) + toIntervalYear(1)'',
            engine_Settings = [TableSetting ''index_granularity'' ''8192'', TableSetting ''ttl_only_drop_parts'' ''1'']\<rparr>\<rparr>],
    DownItems = [
      DropTableOperation \<lparr>cluster = '''', Database = ''signoz_meter'', Table = ''samples_agg_1d'',
         dt_Settings = []\<rparr>]\<rparr>"

definition Meter_4 :: "SchemaMigrationRecord" where
  "Meter_4 = \<lparr>
    MigrationID = 4,
    UpItems = [
      CreateTableOperation \<lparr>cluster = '''', Database = ''signoz_meter'', Table = ''distributed_samples_agg_1d'',
         ct_Columns = [
           Col_Default ''temporality'' (LowCardinalityColumnType ColumnTypeString) ([quote] @ ''Unspecified'' @ [quote]),
           Col ''metric_name'' (LowCardinalityColumnType ColumnTypeString),
           Col_Default ''description'' (LowCardinalityColumnType ColumnTypeString) ([quote] @ ''default'' @ [quote]),
           Col_Default ''unit'' (LowCardinalityColumnType ColumnTypeString) ([quote] @ ''default'' @ [quote]),
           Col_Default ''type'' (LowCardinalityColumnType ColumnTypeString) ([quote] @ ''default'' @ [quote]),
           Col_Default ''is_monotonic'' ColumnTypeBool ''false'',
           Col_Codec ''labels'' ColumnTypeString ''ZSTD(5)'',
           Col_Codec ''fingerprint'' ColumnTypeUInt64 ''Delta(8), ZSTD(1)'',
           Col_Codec ''unix_milli'' ColumnTypeInt64 ''DoubleDelta, ZSTD(1)'',
           Col_Codec ''last'' (SimpleAggregateFunction ''anyLast'' [ColumnTypeFloat64]) ''ZSTD(1)'',
           Col_Codec ''min'' (SimpleAggregateFunction ''min'' [ColumnTypeFloat64]) ''ZSTD(1)'',
           Col_Codec ''max'' (SimpleAggregateFunction ''max'' [ColumnTypeFloat64]) ''ZSTD(1)'',
           Col_Codec ''sum'' (SimpleAggregateFunction ''sum'' [ColumnTypeFloat64]) ''ZSTD(1)'',
           Col_Codec ''count'' (SimpleAggregateFunction ''sum'' [ColumnTypeUInt64]) ''ZSTD(1)''],
         ct_Indexes = [],
         ct_Projections = [],
         ct_Engine = DistributedEngine
           \<lparr>dist_Cluster = '''', dist_Database = ''signoz_meter'',
           dist_Table = ''samples_agg_1d'',
           ShardingKey = ''cityHash64(temporality, metric_name, fingerprint)''\<rparr>\<rparr>],
    DownItems = [
      DropTableOperation \<lparr>cluster = '''', Database = ''signoz_meter'', Table = ''distributed_samples_agg_1d'',
         dt_Settings = []\<rparr>]\<rparr>"

definition Meter_5 :: "SchemaMigrationRecord" where
  "Meter_5 = \<lparr>
    MigrationID = 5,
    UpItems = [
      CreateMaterializedViewOperation \<lparr>cluster = '''', Database = ''signoz_meter'',
         mv_ViewName = ''samples_agg_1d_mv'',
         mv_DestTable = ''samples_agg_1d'',
         mv_Columns = [
           Col_Default ''temporality'' (LowCardinalityColumnType ColumnTypeString) ([quote] @ ''Unspecified'' @ [quote]),
           Col ''metric_name'' (LowCardinalityColumnType ColumnTypeString),
           Col_Default ''description'' (LowCardinalityColumnType ColumnTypeString) ([quote] @ ''default'' @ [quote]),
           Col_Default ''unit'' (LowCardinalityColumnType ColumnTypeString) ([quote] @ ''default'' @ [quote]),
           Col_Default ''type'' (LowCardinalityColumnType ColumnTypeString) ([quote] @ ''default'' @ [quote]),
           Col_Default ''is_monotonic'' ColumnTypeBool ''false'',
           Col_Codec ''labels'' ColumnTypeString ''ZSTD(5)'',
           Col_Codec ''fingerprint'' ColumnTypeUInt64 ''Delta(8), ZSTD(1)'',
           Col_Codec ''unix_milli'' ColumnTypeInt64 ''DoubleDelta, ZSTD(1)'',
           Col_Codec ''last'' (SimpleAggregateFunction ''anyLast'' [ColumnTypeFloat64]) ''ZSTD(1)'',
           Col_Codec ''min'' (SimpleAggregateFunction ''min'' [ColumnTypeFloat64]) ''ZSTD(1)'',
           Col_Codec ''max'' (SimpleAggregateFunction ''max'' [ColumnTypeFloat64]) ''ZSTD(1)'',
           Col_Codec ''sum'' (SimpleAggregateFunction ''sum'' [ColumnTypeFloat64]) ''ZSTD(1)'',
           Col_Codec ''count'' (SimpleAggregateFunction ''sum'' [ColumnTypeUInt64]) ''ZSTD(1)''],
         mv_Query = (text_lines [
           ''SELECT'',
           indent 7 ''temporality,'',
           indent 7 ''metric_name,'',
           indent 7 ''description,'',
           indent 7 ''unit,'',
           indent 7 ''type,'',
           indent 7 ''is_monotonic,'',
           indent 7 ''labels,'',
           indent 7 ''fingerprint,'',
           indent 7 ''intDiv(unix_milli,86400000) * 86400000 as unix_milli,'',
           indent 7 ''anyLast(value) as last,'',
           indent 7 ''min(value) as min,'',
           indent 7 ''max(value) as max,'',
           indent 7 ''sum(value) as sum,'',
           indent 7 ''count(*) as count'',
           indent 6 ''FROM signoz_meter.samples'',
           indent 6 ''GROUP BY'',
           indent 7 ''temporality,'',
           indent 7 ''metric_name,'',
           indent 7 ''fingerprint,'',
           indent 7 ''description,'',
           indent 7 ''unit,'',
           indent 7 ''type,'',
           indent 7 ''is_monotonic,'',
           indent 7 ''labels,'',
           indent 7 ''unix_milli;''])\<rparr>],
    DownItems = [
      DropTableOperation \<lparr>cluster = '''', Database = ''signoz_meter'', Table = ''samples_agg_1d_mv'',
         dt_Settings = []\<rparr>]\<rparr>"

definition Meter_list :: "SchemaMigrationRecord list" where
  "Meter_list = [
    Meter_1, Meter_2, Meter_3, Meter_4, Meter_5]"

section \<open>\<^verbatim>\<open>schema_migrations_v2_tables.go\<close>\<close>

definition V2Tables_Logs_1 :: "SchemaMigrationRecord" where
  "V2Tables_Logs_1 = \<lparr>
    MigrationID = 1,
    UpItems = [
      CreateTableOperation \<lparr>cluster = '''', Database = ''signoz_logs'', Table = ''schema_migrations_v2'',
         ct_Columns = [
           Col ''migration_id'' ColumnTypeUInt64,
           Col ''status'' ColumnTypeString,
           Col ''error'' ColumnTypeString,
           Col ''created_at'' (DateTime64ColumnType 9 ''''),
           Col ''updated_at'' (DateTime64ColumnType 9 '''')],
         ct_Indexes = [],
         ct_Projections = [],
         ct_Engine = ReplacingMergeTree
           \<lparr>Replicated = False,
            OrderBy = ''migration_id'',
            PrimaryKey = ''migration_id'',
            PartitionBy = '''',
            SampleBy = '''',
            engine_TTL = '''',
            engine_Settings = []\<rparr>\<rparr>],
    DownItems = []\<rparr>"

definition V2Tables_Logs_2 :: "SchemaMigrationRecord" where
  "V2Tables_Logs_2 = \<lparr>
    MigrationID = 2,
    UpItems = [
      CreateTableOperation \<lparr>cluster = '''', Database = ''signoz_logs'', Table = ''distributed_schema_migrations_v2'',
         ct_Columns = [
           Col ''migration_id'' ColumnTypeUInt64,
           Col ''status'' ColumnTypeString,
           Col ''error'' ColumnTypeString,
           Col ''created_at'' (DateTime64ColumnType 9 ''''),
           Col ''updated_at'' (DateTime64ColumnType 9 '''')],
         ct_Indexes = [],
         ct_Projections = [],
         ct_Engine = DistributedEngine
           \<lparr>dist_Cluster = '''', dist_Database = ''signoz_logs'',
           dist_Table = ''schema_migrations_v2'',
           ShardingKey = ''rand()''\<rparr>\<rparr>],
    DownItems = []\<rparr>"

definition V2Tables_Logs_list :: "SchemaMigrationRecord list" where
  "V2Tables_Logs_list = [
    V2Tables_Logs_1, V2Tables_Logs_2]"

definition V2Tables_Traces_3 :: "SchemaMigrationRecord" where
  "V2Tables_Traces_3 = \<lparr>
    MigrationID = 3,
    UpItems = [
      CreateTableOperation \<lparr>cluster = '''', Database = ''signoz_traces'', Table = ''schema_migrations_v2'',
         ct_Columns = [
           Col ''migration_id'' ColumnTypeUInt64,
           Col ''status'' ColumnTypeString,
           Col ''error'' ColumnTypeString,
           Col ''created_at'' (DateTime64ColumnType 9 ''''),
           Col ''updated_at'' (DateTime64ColumnType 9 '''')],
         ct_Indexes = [],
         ct_Projections = [],
         ct_Engine = ReplacingMergeTree
           \<lparr>Replicated = False,
            OrderBy = ''migration_id'',
            PrimaryKey = ''migration_id'',
            PartitionBy = '''',
            SampleBy = '''',
            engine_TTL = '''',
            engine_Settings = []\<rparr>\<rparr>],
    DownItems = []\<rparr>"

definition V2Tables_Traces_4 :: "SchemaMigrationRecord" where
  "V2Tables_Traces_4 = \<lparr>
    MigrationID = 4,
    UpItems = [
      CreateTableOperation \<lparr>cluster = '''', Database = ''signoz_traces'', Table = ''distributed_schema_migrations_v2'',
         ct_Columns = [
           Col ''migration_id'' ColumnTypeUInt64,
           Col ''status'' ColumnTypeString,
           Col ''error'' ColumnTypeString,
           Col ''created_at'' (DateTime64ColumnType 9 ''''),
           Col ''updated_at'' (DateTime64ColumnType 9 '''')],
         ct_Indexes = [],
         ct_Projections = [],
         ct_Engine = DistributedEngine
           \<lparr>dist_Cluster = '''', dist_Database = ''signoz_traces'',
           dist_Table = ''schema_migrations_v2'',
           ShardingKey = ''rand()''\<rparr>\<rparr>],
    DownItems = []\<rparr>"

definition V2Tables_Traces_list :: "SchemaMigrationRecord list" where
  "V2Tables_Traces_list = [
    V2Tables_Traces_3, V2Tables_Traces_4]"

definition V2Tables_Metrics_5 :: "SchemaMigrationRecord" where
  "V2Tables_Metrics_5 = \<lparr>
    MigrationID = 5,
    UpItems = [
      CreateTableOperation \<lparr>cluster = '''', Database = ''signoz_metrics'', Table = ''schema_migrations_v2'',
         ct_Columns = [
           Col ''migration_id'' ColumnTypeUInt64,
           Col ''status'' ColumnTypeString,
           Col ''error'' ColumnTypeString,
           Col ''created_at'' (DateTime64ColumnType 9 ''''),
           Col ''updated_at'' (DateTime64ColumnType 9 '''')],
         ct_Indexes = [],
         ct_Projections = [],
         ct_Engine = ReplacingMergeTree
           \<lparr>Replicated = False,
            OrderBy = ''migration_id'',
            PrimaryKey = ''migration_id'',
            PartitionBy = '''',
            SampleBy = '''',
            engine_TTL = '''',
            engine_Settings = []\<rparr>\<rparr>],
    DownItems = []\<rparr>"

definition V2Tables_Metrics_6 :: "SchemaMigrationRecord" where
  "V2Tables_Metrics_6 = \<lparr>
    MigrationID = 6,
    UpItems = [
      CreateTableOperation \<lparr>cluster = '''', Database = ''signoz_metrics'', Table = ''distributed_schema_migrations_v2'',
         ct_Columns = [
           Col ''migration_id'' ColumnTypeUInt64,
           Col ''status'' ColumnTypeString,
           Col ''error'' ColumnTypeString,
           Col ''created_at'' (DateTime64ColumnType 9 ''''),
           Col ''updated_at'' (DateTime64ColumnType 9 '''')],
         ct_Indexes = [],
         ct_Projections = [],
         ct_Engine = DistributedEngine
           \<lparr>dist_Cluster = '''', dist_Database = ''signoz_metrics'',
           dist_Table = ''schema_migrations_v2'',
           ShardingKey = ''rand()''\<rparr>\<rparr>],
    DownItems = []\<rparr>"

definition V2Tables_Metrics_list :: "SchemaMigrationRecord list" where
  "V2Tables_Metrics_list = [
    V2Tables_Metrics_5, V2Tables_Metrics_6]"

definition V2Tables_Metadata_7 :: "SchemaMigrationRecord" where
  "V2Tables_Metadata_7 = \<lparr>
    MigrationID = 7,
    UpItems = [
      CreateTableOperation \<lparr>cluster = '''', Database = ''signoz_metadata'', Table = ''schema_migrations_v2'',
         ct_Columns = [
           Col ''migration_id'' ColumnTypeUInt64,
           Col ''status'' ColumnTypeString,
           Col ''error'' ColumnTypeString,
           Col ''created_at'' (DateTime64ColumnType 9 ''''),
           Col ''updated_at'' (DateTime64ColumnType 9 '''')],
         ct_Indexes = [],
         ct_Projections = [],
         ct_Engine = ReplacingMergeTree
           \<lparr>Replicated = False,
            OrderBy = ''migration_id'',
            PrimaryKey = ''migration_id'',
            PartitionBy = '''',
            SampleBy = '''',
            engine_TTL = '''',
            engine_Settings = []\<rparr>\<rparr>],
    DownItems = []\<rparr>"

definition V2Tables_Metadata_8 :: "SchemaMigrationRecord" where
  "V2Tables_Metadata_8 = \<lparr>
    MigrationID = 8,
    UpItems = [
      CreateTableOperation \<lparr>cluster = '''', Database = ''signoz_metadata'', Table = ''distributed_schema_migrations_v2'',
         ct_Columns = [
           Col ''migration_id'' ColumnTypeUInt64,
           Col ''status'' ColumnTypeString,
           Col ''error'' ColumnTypeString,
           Col ''created_at'' (DateTime64ColumnType 9 ''''),
           Col ''updated_at'' (DateTime64ColumnType 9 '''')],
         ct_Indexes = [],
         ct_Projections = [],
         ct_Engine = DistributedEngine
           \<lparr>dist_Cluster = '''', dist_Database = ''signoz_metadata'',
           dist_Table = ''schema_migrations_v2'',
           ShardingKey = ''rand()''\<rparr>\<rparr>],
    DownItems = []\<rparr>"

definition V2Tables_Metadata_list :: "SchemaMigrationRecord list" where
  "V2Tables_Metadata_list = [
    V2Tables_Metadata_7, V2Tables_Metadata_8]"

definition V2Tables_Analytics_9 :: "SchemaMigrationRecord" where
  "V2Tables_Analytics_9 = \<lparr>
    MigrationID = 9,
    UpItems = [
      CreateTableOperation \<lparr>cluster = '''', Database = ''signoz_analytics'', Table = ''schema_migrations_v2'',
         ct_Columns = [
           Col ''migration_id'' ColumnTypeUInt64,
           Col ''status'' ColumnTypeString,
           Col ''error'' ColumnTypeString,
           Col ''created_at'' (DateTime64ColumnType 9 ''''),
           Col ''updated_at'' (DateTime64ColumnType 9 '''')],
         ct_Indexes = [],
         ct_Projections = [],
         ct_Engine = ReplacingMergeTree
           \<lparr>Replicated = False,
            OrderBy = ''migration_id'',
            PrimaryKey = ''migration_id'',
            PartitionBy = '''',
            SampleBy = '''',
            engine_TTL = '''',
            engine_Settings = []\<rparr>\<rparr>,
      CreateTableOperation \<lparr>cluster = '''', Database = ''signoz_analytics'', Table = ''distributed_schema_migrations_v2'',
         ct_Columns = [
           Col ''migration_id'' ColumnTypeUInt64,
           Col ''status'' ColumnTypeString,
           Col ''error'' ColumnTypeString,
           Col ''created_at'' (DateTime64ColumnType 9 ''''),
           Col ''updated_at'' (DateTime64ColumnType 9 '''')],
         ct_Indexes = [],
         ct_Projections = [],
         ct_Engine = DistributedEngine
           \<lparr>dist_Cluster = '''', dist_Database = ''signoz_analytics'',
           dist_Table = ''schema_migrations_v2'',
           ShardingKey = ''rand()''\<rparr>\<rparr>],
    DownItems = []\<rparr>"

definition V2Tables_Analytics_list :: "SchemaMigrationRecord list" where
  "V2Tables_Analytics_list = [
    V2Tables_Analytics_9]"

definition V2Tables_Meter_10 :: "SchemaMigrationRecord" where
  "V2Tables_Meter_10 = \<lparr>
    MigrationID = 10,
    UpItems = [
      CreateTableOperation \<lparr>cluster = '''', Database = ''signoz_meter'', Table = ''schema_migrations_v2'',
         ct_Columns = [
           Col ''migration_id'' ColumnTypeUInt64,
           Col ''status'' ColumnTypeString,
           Col ''error'' ColumnTypeString,
           Col ''created_at'' (DateTime64ColumnType 9 ''''),
           Col ''updated_at'' (DateTime64ColumnType 9 '''')],
         ct_Indexes = [],
         ct_Projections = [],
         ct_Engine = ReplacingMergeTree
           \<lparr>Replicated = False,
            OrderBy = ''migration_id'',
            PrimaryKey = ''migration_id'',
            PartitionBy = '''',
            SampleBy = '''',
            engine_TTL = '''',
            engine_Settings = []\<rparr>\<rparr>,
      CreateTableOperation \<lparr>cluster = '''', Database = ''signoz_meter'', Table = ''distributed_schema_migrations_v2'',
         ct_Columns = [
           Col ''migration_id'' ColumnTypeUInt64,
           Col ''status'' ColumnTypeString,
           Col ''error'' ColumnTypeString,
           Col ''created_at'' (DateTime64ColumnType 9 ''''),
           Col ''updated_at'' (DateTime64ColumnType 9 '''')],
         ct_Indexes = [],
         ct_Projections = [],
         ct_Engine = DistributedEngine
           \<lparr>dist_Cluster = '''', dist_Database = ''signoz_meter'',
           dist_Table = ''schema_migrations_v2'',
           ShardingKey = ''rand()''\<rparr>\<rparr>],
    DownItems = []\<rparr>"

definition V2Tables_Meter_list :: "SchemaMigrationRecord list" where
  "V2Tables_Meter_list = [
    V2Tables_Meter_10]"

end
