(* ===== verification/ShippedMigrations.thy ===== *)
theory ShippedMigrations
  imports MigrationsTraces MigrationsMetrics MigrationsLogs MigrationsOthers
begin

text \<open>
  The lists of migrations the program ships, as the argument the manager's runs take, and what
  holds of them: their identifiers increase, no migration up is split between the two runs, an
  installation refers to no table it has not created, and the distributed tables agree with the
  local ones. The statements are closed and are decided by evaluation. The migrations down of
  three databases turn out to be out of reach of both runs.
\<close>

section \<open>The lists\<close>

definition shipped :: "bool \<Rightarrow> migration_lists" where
  "shipped enableLogsMigrationsV2 = \<lparr>
     V2MigrationTablesLogs = V2Tables_Logs_list,
     V2MigrationTablesMetrics = V2Tables_Metrics_list,
     V2MigrationTablesTraces = V2Tables_Traces_list,
     V2MigrationTablesMetadata = V2Tables_Metadata_list,
     V2MigrationTablesAnalytics = V2Tables_Analytics_list,
     V2MigrationTablesMeter = V2Tables_Meter_list,
     CustomRetentionLogsMigrations = CustomRetentionLogs_list,
     SquashedLogsMigrations = SquashedLogs_list,
     SquashedMetricsMigrations = SquashedMetrics_list,
     SquashedTracesMigrations = SquashedTraces_list,
     TracesMigrations = Traces_list,
     LogsMigrations = Logs_list,
     LogsMigrationsV2 = LogsV2_list,
     MetricsMigrations = Metrics_list,
     MetadataMigrations = Metadata_list,
     AnalyticsMigrations = Analytics_list,
     MeterMigrations = Meter_list,
     EnableLogsMigrationsV2 = enableLogsMigrationsV2\<rparr>"

section \<open>What is run\<close>

text \<open>The schedule of an operation by its constructor; its text is not needed, and is never computed.\<close>

fun schedule_flags :: "operation \<Rightarrow> bool \<times> bool" where
  "schedule_flags (AlterTableModifyColumnRemove a) = (False, False)"
| "schedule_flags (InsertIntoTable a) = (Synchronous a, False)"
| "schedule_flags (AlterTableModifyTTL a) = (\<not> MaterializeTTLAfterModify a, MaterializeTTLAfterModify a)"
| "schedule_flags (AlterTableDropColumn a) = (False, True)"
| "schedule_flags (AlterTableMaterializeColumn a) = (False, True)"
| "schedule_flags (AlterTableDropIndex a) = (False, True)"
| "schedule_flags (AlterTableMaterializeIndex a) = (False, True)"
| "schedule_flags (AlterTableClearIndex a) = (False, True)"
| "schedule_flags (DropTableOperation a) = (False, True)"
| "schedule_flags (TruncateTableOperation a) = (False, True)"
| "schedule_flags (AlterTableModifyColumn a) = (let om = AlterTableModifyColumn_methods a in
     (ForceMigrate om \<or> \<not> IsMutation om \<and> IsIdempotent om \<and> IsLightweight om,
      \<not> ForceMigrate om \<and> \<not> (\<not> IsMutation om \<and> IsIdempotent om \<and> IsLightweight om) \<and> IsIdempotent om))"
| "schedule_flags _ = (True, False)"

lemma schedule_flags: "schedule_flags op = (sync_op op, async_op op)"
  by (cases op) (auto simp: sync_op_def async_op_def methods_defs Let_def)

lemma sync_op_flags [code]: "sync_op op = fst (schedule_flags op)"
  by (simp add: schedule_flags)

lemma async_op_flags [code]: "async_op op = snd (schedule_flags op)"
  by (simp add: schedule_flags)

definition increasing_ids :: "SchemaMigrationRecord list \<Rightarrow> bool" where
  "increasing_ids migs = sorted_wrt (<) (map MigrationID migs)"

text \<open>The identifiers of every list increase: the migrations of a list have entries of their own
  and are run in the order of their numbers.\<close>

theorem shipped_ids_increasing:
  "list_all increasing_ids
     [Traces_list, Metrics_list, Logs_list, LogsV2_list, Metadata_list, Analytics_list, Meter_list,
      SquashedTraces_list, SquashedMetrics_list, SquashedLogs_list, CustomRetentionLogs_list,
      V2Tables_Logs_list @ V2Tables_Traces_list @ V2Tables_Metrics_list @ V2Tables_Metadata_list @
      V2Tables_Analytics_list @ V2Tables_Meter_list]"
  by code_simp

text \<open>No migration up is split between the runs: its operations are all synchronous or all
  asynchronous, so that the first one, which marks the whole migration finished, does not keep the
  others from being run; and the databases the asynchronous run leaves out need no such run.\<close>

theorem shipped_ups_not_split:
  "list_all (\<lambda>mig. list_all sync_op (UpItems mig) \<or> list_all async_op (UpItems mig))
     (Traces_list @ Metrics_list @ Logs_list @ LogsV2_list) \<and>
   list_all (\<lambda>mig. list_all sync_op (UpItems mig)) (Metadata_list @ Analytics_list @ Meter_list)"
  by code_simp

definition never_run_down :: "SchemaMigrationRecord \<Rightarrow> bool" where
  "never_run_down mig = (DownItems mig \<noteq> [] \<and> list_all (\<lambda>op. \<not> sync_op op) (DownItems mig))"

lemma nothing_selected:
  "list_all (\<lambda>op. \<not> sync_op op) ops \<Longrightarrow> executeSyncOperations D ops i db m = returning () m"
  unfolding executeSyncOperations_def by (induction ops) (simp_all add: andthen_def returning_def)

lemma never_run_down_sync:
  "never_run_down mig \<Longrightarrow> executeSyncOperations D (DownItems mig) i db m = returning () m"
  by (simp add: never_run_down_def nothing_selected)

text \<open>C28: The migrations down of the metadata, of the analytics and of the meter are never executed:
  all their operations are asynchronous, a synchronous run of them does nothing, and the
  asynchronous run down does not read these lists.\<close>

theorem shipped_downs_never_run:
  "list_all (\<lambda>mig. DownItems mig \<noteq> [] \<and> executeSyncOperations D (DownItems mig) i db m = returning () m)
     (Metadata_list @ Analytics_list @ Meter_list) \<and>
   MigrateDownAsync D (M\<lparr>MetadataMigrations := xs, AnalyticsMigrations := ys, MeterMigrations := zs\<rparr>) =
     MigrateDownAsync D M"
proof (intro conjI)
  have "list_all never_run_down (Metadata_list @ Analytics_list @ Meter_list)"
    by code_simp
  then show "list_all (\<lambda>mig. DownItems mig \<noteq> [] \<and>
      executeSyncOperations D (DownItems mig) i db m = returning () m)
    (Metadata_list @ Analytics_list @ Meter_list)"
    by (rule list.pred_mono_strong) (simp add: never_run_down_sync, simp add: never_run_down_def)
qed (simp add: MigrateDownAsync_def fun_eq_iff)

section \<open>Tables and views in scope\<close>

text \<open>
  A discipline of names over the operations, in the way of a definite initialisation: a scope is
  the list of the tables and of the views created so far and not dropped. An operation may be
  executed in a scope when every table it names is in it; creations and removals change the scope
  as their \<^verbatim>\<open>IF NOT EXISTS\<close> and \<^verbatim>\<open>IF EXISTS\<close> say. Nothing is said of the data.
\<close>

datatype relation = Relation (rel_name: string) (rel_database: string) (rel_view: bool)

fun among :: "string \<Rightarrow> string \<Rightarrow> relation list \<Rightarrow> bool" where
  "among tbl db [] = False"
| "among tbl db (r # rs) = (if rel_name r = tbl then if rel_database r = db then True else among tbl db rs
     else among tbl db rs)"

definition needs :: "bool \<Rightarrow> relation list \<Rightarrow> relation list option" where
  "needs b rs = (if b then Some rs else None)"

fun scope_of :: "operation \<Rightarrow> relation list \<Rightarrow> relation list option" where
  "scope_of (CreateTableOperation a) rs =
     (case ct_Engine a of
        DistributedEngine d \<Rightarrow> needs (among (dist_Table d) (dist_Database d) rs)
          (if among (Table a) (Database a) rs then rs else Relation (Table a) (Database a) False # rs)
      | _ \<Rightarrow> Some (if among (Table a) (Database a) rs then rs else Relation (Table a) (Database a) False # rs))"
| "scope_of (DropTableOperation a) rs =
     Some (filter (\<lambda>r. \<not> (rel_name r = Table a \<and> rel_database r = Database a)) rs)"
| "scope_of (CreateMaterializedViewOperation a) rs = needs (among (mv_DestTable a) (Database a) rs)
     (if among (mv_ViewName a) (Database a) rs then rs else Relation (mv_ViewName a) (Database a) True # rs)"
| "scope_of (ModifyQueryMaterializedViewOperation a) rs =
     needs (among (mq_ViewName a) (Database a) (filter rel_view rs)) rs"
| "scope_of (AlterTableAddColumn a) rs = needs (among (Table a) (Database a) rs) rs"
| "scope_of (AlterTableDropColumn a) rs = needs (among (Table a) (Database a) rs) rs"
| "scope_of (AlterTableMaterializeColumn a) rs = needs (among (Table a) (Database a) rs) rs"
| "scope_of (InsertIntoTable a) rs = needs (among (Table a) (Database a) rs) rs"
| "scope_of (AlterTableAddIndex a) rs = needs (among (Table a) (Database a) rs) rs"
| "scope_of (AlterTableDropIndex a) rs = needs (among (Table a) (Database a) rs) rs"
| "scope_of (AlterTableModifyTTL a) rs = needs (among (Table a) (Database a) rs) rs"
| "scope_of (AlterTableDropTTL a) rs = needs (among (Table a) (Database a) rs) rs"
| "scope_of (AlterTableModifySettings a) rs = needs (among (Table a) (Database a) rs) rs"
| "scope_of _ rs = None"

fun in_scope :: "operation list \<Rightarrow> relation list \<Rightarrow> relation list option" where
  "in_scope [] rs = Some rs"
| "in_scope (op # ops) rs = (case scope_of op rs of None \<Rightarrow> None | Some rs' \<Rightarrow> in_scope ops rs')"

definition ups :: "SchemaMigrationRecord list \<Rightarrow> operation list" where
  "ups migs = concat (map UpItems migs)"

text \<open>
  The operations of a first installation of a database, in the order the program executes them:
  the tables of migrations, the squashed migrations, the synchronous run and the asynchronous run.
\<close>

definition installation ::
  "SchemaMigrationRecord list \<Rightarrow> SchemaMigrationRecord list \<Rightarrow> SchemaMigrationRecord list \<Rightarrow> operation list" where
  "installation tables squashed migs =
     ups tables @ ups squashed @ filter sync_op (ups migs) @ filter async_op (ups migs)"

lemma traces_in_scope: "in_scope (installation V2Tables_Traces_list SquashedTraces_list Traces_list) [] \<noteq> None"
  by code_simp

lemma metrics_in_scope: "in_scope (installation V2Tables_Metrics_list SquashedMetrics_list Metrics_list) [] \<noteq> None"
  by code_simp

lemma logs_in_scope: "in_scope (installation V2Tables_Logs_list CustomRetentionLogs_list Logs_list) [] \<noteq> None"
  by code_simp

lemma logs_v2_in_scope: "in_scope (installation V2Tables_Logs_list CustomRetentionLogs_list LogsV2_list) [] \<noteq> None"
  by code_simp

lemma others_in_scope:
  "in_scope (installation V2Tables_Metadata_list [] Metadata_list) [] \<noteq> None"
  "in_scope (installation V2Tables_Analytics_list [] Analytics_list) [] \<noteq> None"
  "in_scope (installation V2Tables_Meter_list [] Meter_list) [] \<noteq> None"
  by code_simp+


section \<open>Distributed tables\<close>

fun columns_among :: "(string \<times> column_type option) list \<Rightarrow> (string \<times> column_type option) list \<Rightarrow> bool" where
  "columns_among [] ys = True"
| "columns_among (x # xs) [] = False"
| "columns_among (x # xs) (y # ys) = (if x = y then columns_among xs ys else columns_among (x # xs) ys)"

definition declared :: "Column list \<Rightarrow> (string \<times> column_type option) list" where
  "declared cs = map (\<lambda>c. (col_Name c, col_Type c)) cs"

datatype creation = Creation
  (cr_name: string) (cr_database: string) (cr_target: "(string \<times> string) option")
  (cr_columns: "(string \<times> column_type option) list")

fun creations :: "operation list \<Rightarrow> creation list" where
  "creations [] = []"
| "creations (CreateTableOperation a # ops) = Creation (Table a) (Database a)
     (case ct_Engine a of DistributedEngine d \<Rightarrow> Some (dist_Table d, dist_Database d) | _ \<Rightarrow> None)
     (declared (ct_Columns a)) # creations ops"
| "creations (op # ops) = creations ops"

fun columns_at :: "string \<Rightarrow> string \<Rightarrow> creation list \<Rightarrow> (string \<times> column_type option) list option" where
  "columns_at tbl db [] = None"
| "columns_at tbl db (c # cs) =
     (if cr_name c = tbl then if cr_database c = db then Some (cr_columns c) else columns_at tbl db cs
      else columns_at tbl db cs)"

definition reads_local :: "creation list \<Rightarrow> creation \<Rightarrow> bool" where
  "reads_local cs c = (case cr_target c of None \<Rightarrow> True
     | Some (tbl, db) \<Rightarrow>
       (case columns_at tbl db cs of None \<Rightarrow> False
        | Some ls \<Rightarrow> columns_among (cr_columns c) ls))"

definition distributed_agree :: "SchemaMigrationRecord list \<Rightarrow> bool" where
  "distributed_agree migs = (let cs = creations (ups migs) in list_all (reads_local cs) cs)"

lemma distributed_traces: "distributed_agree SquashedTraces_list" "distributed_agree Traces_list"
  by code_simp+

lemma distributed_metrics: "distributed_agree SquashedMetrics_list" "distributed_agree Metrics_list"
  by code_simp+

lemma distributed_logs:
  "distributed_agree SquashedLogs_list" "distributed_agree CustomRetentionLogs_list"
  "distributed_agree Logs_list" "distributed_agree LogsV2_list"
  by code_simp+

lemma distributed_others:
  "distributed_agree Metadata_list" "distributed_agree Analytics_list" "distributed_agree Meter_list"
  by code_simp+

text \<open>Every distributed table of the lists stands for a local table of the same list, and declares
  columns of it only, by the same names, with the same types and in the same order.\<close>

theorem shipped_distributed_columns:
  "list_all distributed_agree
     [SquashedTraces_list, Traces_list, SquashedMetrics_list, Metrics_list, SquashedLogs_list,
      CustomRetentionLogs_list, Logs_list, LogsV2_list, Metadata_list, Analytics_list, Meter_list]"
  by (simp add: distributed_traces distributed_metrics distributed_logs distributed_others)

end
