(* ===== verification/SpanCache.thy ===== *)
theory SpanCache
  imports Prelude "HOL-Library.AList"
begin

text \<open>
  The cache of the span metrics processor
  (\<^verbatim>\<open>processor/signozspanmetricsprocessor/internal/cache/cache.go\<close>): an LRU cache that keeps
  what it evicts in a second map until \<^verbatim>\<open>RemoveEvictedItems\<close>, and its use by the
  processor: \<open>lookup_or_add\<close> remembers a value once, \<open>get_each\<close> reads the values of
  a list of keys back. The LRU cache of \<^verbatim>\<open>hashicorp/golang-lru\<close> is a parameter with the
  laws \<open>lru_promises\<close> of its documentation; the evicted map is an association list.
\<close>

section \<open>The LRU cache\<close>

text \<open>
  The functions of \<^verbatim>\<open>simplelru\<close> the source calls. \<open>lru_Insert\<close> is \<^verbatim>\<open>Add\<close>: its
  answer says whether an entry was evicted; the entries handed to the eviction callback are
  returned beside the new cache, as for \<open>lru_Clear\<close>, \<^verbatim>\<open>Purge\<close>.
\<close>

record ('k, 'v, 'l) simplelru =
  lru_NewLRU :: "int \<Rightarrow> string + 'l"
  lru_Insert :: "'k \<Rightarrow> 'v \<Rightarrow> 'l \<Rightarrow> bool \<times> 'l \<times> ('k \<times> 'v) list"
  lru_Find :: "'k \<Rightarrow> 'l \<Rightarrow> 'v option \<times> 'l"
  lru_Holds :: "'k \<Rightarrow> 'l \<Rightarrow> bool"
  lru_Size :: "'l \<Rightarrow> nat"
  lru_Clear :: "'l \<Rightarrow> 'l \<times> ('k \<times> 'v) list"

text \<open>
  What the documentation promises, for the entries \<open>contents\<close> and the size \<open>cap\<close> of a cache:
  a new cache is empty; a lookup changes no entry; an insertion evicts nothing while there is
  room or the key is present, and one other entry, handed to the callback, otherwise.
\<close>

definition lru_valid :: "('l \<Rightarrow> 'k \<Rightarrow> 'v option) \<Rightarrow> ('l \<Rightarrow> nat) \<Rightarrow> 'l \<Rightarrow> bool" where
  "lru_valid contents cap l \<longleftrightarrow>
     0 < cap l \<and> finite (dom (contents l)) \<and> card (dom (contents l)) \<le> cap l"

definition insert_promise ::
  "('l \<Rightarrow> 'k \<Rightarrow> 'v option) \<Rightarrow> ('l \<Rightarrow> nat) \<Rightarrow> 'k \<Rightarrow> 'v \<Rightarrow> 'l \<Rightarrow> bool \<times> 'l \<times> ('k \<times> 'v) list \<Rightarrow> bool" where
  "insert_promise contents cap k v l = (\<lambda>(evict, l', evs). cap l' = cap l \<and>
     (if k \<in> dom (contents l) \<or> card (dom (contents l)) < cap l
      then \<not> evict \<and> evs = [] \<and> contents l' = (contents l)(k \<mapsto> v)
      else evict \<and> (\<exists>k' v'. evs = [(k', v')] \<and> contents l k' = Some v' \<and>
             contents l' = (contents l)(k' := None, k \<mapsto> v))))"

definition lru_promises ::
  "('k, 'v, 'l) simplelru \<Rightarrow> ('l \<Rightarrow> 'k \<Rightarrow> 'v option) \<Rightarrow> ('l \<Rightarrow> nat) \<Rightarrow> bool" where
  "lru_promises L contents cap \<longleftrightarrow>
     (\<forall>n l. lru_NewLRU L n = Inr l \<longrightarrow> 0 < n \<and> contents l = Map.empty \<and> cap l = nat n)
   \<and> (\<forall>n. 0 < n \<longrightarrow> (\<exists>l. lru_NewLRU L n = Inr l))
   \<and> (\<forall>k l. lru_valid contents cap l \<longrightarrow> fst (lru_Find L k l) = contents l k \<and>
        contents (snd (lru_Find L k l)) = contents l \<and> cap (snd (lru_Find L k l)) = cap l)
   \<and> (\<forall>k v l. lru_valid contents cap l \<longrightarrow> insert_promise contents cap k v l (lru_Insert L k v l))
   \<and> (\<forall>k l. lru_valid contents cap l \<longrightarrow> lru_Holds L k l = (k \<in> dom (contents l)))
   \<and> (\<forall>l. lru_valid contents cap l \<longrightarrow> lru_Size L l = card (dom (contents l)))
   \<and> (\<forall>l. lru_valid contents cap l \<longrightarrow> contents (fst (lru_Clear L l)) = Map.empty \<and>
        cap (fst (lru_Clear L l)) = cap l)"

section \<open>The cache\<close>

record ('k, 'v, 'l) Cache =
  cache_lru :: 'l
  evictedItems :: "('k \<times> 'v) list"

text \<open>The eviction callback: \<^verbatim>\<open>evictedItems[key] = value\<close>.\<close>

definition on_evict :: "('k \<times> 'v) list \<Rightarrow> ('k \<times> 'v) list \<Rightarrow> ('k \<times> 'v) list" where
  "on_evict evs evicted = fold (\<lambda>(k, v). AList.update k v) evs evicted"

definition NewCache :: "('k, 'v, 'l) simplelru \<Rightarrow> int \<Rightarrow> string + ('k, 'v, 'l) Cache" where
  "NewCache L n =
     (case lru_NewLRU L n of
        Inl err \<Rightarrow> Inl err
      | Inr lruCache \<Rightarrow> Inr \<lparr>cache_lru = lruCache, evictedItems = []\<rparr>)"

definition RemoveEvictedItems :: "('k, 'v, 'l) Cache \<Rightarrow> ('k, 'v, 'l) Cache" where
  "RemoveEvictedItems c = c\<lparr>evictedItems := []\<rparr>"

definition Cache_Add :: "('k, 'v, 'l) simplelru \<Rightarrow> 'k \<Rightarrow> 'v \<Rightarrow> ('k, 'v, 'l) Cache \<Rightarrow> bool \<times> ('k, 'v, 'l) Cache" where
  "Cache_Add L key val c =
     (case lru_Insert L key val (cache_lru c) of
        (evict, l, evs) \<Rightarrow> (evict, c\<lparr>cache_lru := l, evictedItems := on_evict evs (evictedItems c)\<rparr>))"

definition Cache_Get :: "('k, 'v, 'l) simplelru \<Rightarrow> 'k \<Rightarrow> ('k, 'v, 'l) Cache \<Rightarrow> 'v option \<times> ('k, 'v, 'l) Cache" where
  "Cache_Get L key c =
     (case lru_Find L key (cache_lru c) of
        (Some val, l) \<Rightarrow> (Some val, c\<lparr>cache_lru := l\<rparr>)
      | (None, l) \<Rightarrow>
         (case map_of (evictedItems c) key of
            None \<Rightarrow> (None, c\<lparr>cache_lru := l\<rparr>)
          | Some val \<Rightarrow>
              (Some val, snd (Cache_Add L key val
                 (c\<lparr>cache_lru := l, evictedItems := AList.delete key (evictedItems c)\<rparr>)))))"

definition Cache_Contains :: "('k, 'v, 'l) simplelru \<Rightarrow> 'k \<Rightarrow> ('k, 'v, 'l) Cache \<Rightarrow> bool" where
  "Cache_Contains L key c = lru_Holds L key (cache_lru c)"

definition Cache_Len :: "('k, 'v, 'l) simplelru \<Rightarrow> ('k, 'v, 'l) Cache \<Rightarrow> nat" where
  "Cache_Len L c = lru_Size L (cache_lru c)"

definition Cache_Purge :: "('k, 'v, 'l) simplelru \<Rightarrow> ('k, 'v, 'l) Cache \<Rightarrow> ('k, 'v, 'l) Cache" where
  "Cache_Purge L c =
     (case lru_Clear L (cache_lru c) of
        (l, evs) \<Rightarrow> RemoveEvictedItems (c\<lparr>cache_lru := l, evictedItems := on_evict evs (evictedItems c)\<rparr>))"

section \<open>Maps that remember\<close>

text \<open>
  What the processor relies on: a store whose lookups read an abstract map and keep it, and whose
  insertions update it.
\<close>

locale remembering =
  fixes get :: "'k \<Rightarrow> 's \<Rightarrow> 'v option \<times> 's"
    and add :: "'k \<Rightarrow> 'v \<Rightarrow> 's \<Rightarrow> bool \<times> 's"
    and view :: "'s \<Rightarrow> 'k \<Rightarrow> 'v option"
    and ok :: "'s \<Rightarrow> bool"
  assumes get_view: "ok s \<Longrightarrow> fst (get k s) = view s k"
    and get_keeps: "ok s \<Longrightarrow> view (snd (get k s)) = view s"
    and get_ok: "ok s \<Longrightarrow> ok (snd (get k s))"
    and add_view: "ok s \<Longrightarrow> view (snd (add k v s)) = (view s)(k \<mapsto> v)"
    and add_ok: "ok s \<Longrightarrow> ok (snd (add k v s))"

text \<open>A value is added only on a miss; the values of a list of keys are read one after the other,
  until one is missing.\<close>

definition lookup_or_add ::
  "('k \<Rightarrow> 's \<Rightarrow> 'v option \<times> 's) \<Rightarrow> ('k \<Rightarrow> 'v \<Rightarrow> 's \<Rightarrow> bool \<times> 's) \<Rightarrow> 'k \<Rightarrow> 'v \<Rightarrow> 's \<Rightarrow> 's" where
  "lookup_or_add get add k v s =
     (case get k s of (Some _, s') \<Rightarrow> s' | (None, s') \<Rightarrow> snd (add k v s'))"

fun get_each :: "('k \<Rightarrow> 's \<Rightarrow> 'v option \<times> 's) \<Rightarrow> 'k list \<Rightarrow> 's \<Rightarrow> ('k + 'v list) \<times> 's" where
  "get_each get [] s = (Inr [], s)"
| "get_each get (k # ks) s =
     (case get k s of
        (None, s') \<Rightarrow> (Inl k, s')
      | (Some v, s') \<Rightarrow>
         (case get_each get ks s' of
            (Inl k', s'') \<Rightarrow> (Inl k', s'')
          | (Inr vs, s'') \<Rightarrow> (Inr (v # vs), s'')))"

context remembering
begin

lemma lookup_or_add_ok: "ok s \<Longrightarrow> ok (lookup_or_add get add k v s)"
  using get_ok [of s k] add_ok by (auto simp: lookup_or_add_def split: prod.split option.split)

lemma lookup_or_add_view:
  "ok s \<Longrightarrow> view (lookup_or_add get add k v s) = (case view s k of Some _ \<Rightarrow> view s | None \<Rightarrow> (view s)(k \<mapsto> v))"
  using get_view [of s k] get_keeps [of s k] get_ok [of s k] add_view
  by (auto simp: lookup_or_add_def split: prod.split option.split)

lemma lookup_or_add_dom: "ok s \<Longrightarrow> dom (view (lookup_or_add get add k v s)) = insert k (dom (view s))"
  by (auto simp: lookup_or_add_view split: option.split)

lemma get_each_found:
  "ok s \<Longrightarrow> set ks \<subseteq> dom (view s) \<Longrightarrow>
    \<exists>s'. get_each get ks s = (Inr (map (the \<circ> view s) ks), s') \<and> view s' = view s \<and> ok s'"
proof (induction ks arbitrary: s)
  case (Cons k ks)
  obtain r s1 where g: "get k s = (r, s1)" by fastforce
  from Cons.prems get_view [of s k] g have r: "r = view s k" "k \<in> dom (view s)" by auto
  then obtain v where v: "r = Some v" "view s k = Some v" by auto
  from Cons.prems get_keeps [of s k] get_ok [of s k] g have s1: "view s1 = view s" "ok s1" by auto
  from Cons.IH [OF s1(2)] Cons.prems s1(1) obtain s' where
    "get_each get ks s1 = (Inr (map (the \<circ> view s) ks), s')" "view s' = view s" "ok s'" by auto
  with g v show ?case by simp
qed simp

end

section \<open>The cache remembers\<close>

definition cache_view :: "('l \<Rightarrow> 'k \<Rightarrow> 'v option) \<Rightarrow> ('k, 'v, 'l) Cache \<Rightarrow> 'k \<Rightarrow> 'v option" where
  "cache_view contents c = map_of (evictedItems c) ++ contents (cache_lru c)"

definition cache_ok ::
  "('k, 'v, 'l) simplelru \<Rightarrow> ('l \<Rightarrow> 'k \<Rightarrow> 'v option) \<Rightarrow> ('l \<Rightarrow> nat) \<Rightarrow> nat \<Rightarrow> ('k, 'v, 'l) Cache \<Rightarrow> bool" where
  "cache_ok L contents cap n c \<longleftrightarrow>
     lru_promises L contents cap \<and> lru_valid contents cap (cache_lru c) \<and> cap (cache_lru c) = n"

lemma lru_find:
  assumes "lru_promises L contents cap" "lru_valid contents cap l" "lru_Find L k l = (r, l')"
  shows "r = contents l k" "contents l' = contents l" "cap l' = cap l" "lru_valid contents cap l'"
proof -
  have "fst (lru_Find L k l) = contents l k \<and> contents (snd (lru_Find L k l)) = contents l \<and>
      cap (snd (lru_Find L k l)) = cap l"
    using assms(1,2) unfolding lru_promises_def by blast
  with assms(3) show "r = contents l k" "contents l' = contents l" "cap l' = cap l" by simp_all
  with assms(2) show "lru_valid contents cap l'" by (simp add: lru_valid_def)
qed

lemma lru_insert:
  assumes "lru_promises L contents cap" "lru_valid contents cap l" "lru_Insert L k v l = (evict, l', evs)"
  shows "lru_valid contents cap l' \<and> cap l' = cap l \<and>
    (\<forall>m. map_of (on_evict evs m) ++ contents l' = (map_of m ++ contents l)(k \<mapsto> v))"
proof -
  have p: "insert_promise contents cap k v l (evict, l', evs)"
    using assms unfolding lru_promises_def by metis
  note v = assms(2) [unfolded lru_valid_def]
  show ?thesis
  proof (cases "k \<in> dom (contents l) \<or> card (dom (contents l)) < cap l")
    case True
    with p have q: "evs = []" "contents l' = (contents l)(k \<mapsto> v)" "cap l' = cap l"
      by (auto simp: insert_promise_def)
    from True v have "card (insert k (dom (contents l))) \<le> cap l"
      by (auto simp: insert_absorb card_insert_if)
    with q v show ?thesis by (simp add: lru_valid_def on_evict_def)
  next
    case False
    with p obtain k' v' where q: "evs = [(k', v')]" "contents l k' = Some v'"
      "contents l' = (contents l)(k' := None, k \<mapsto> v)" "cap l' = cap l"
      by (auto simp: insert_promise_def)
    from q(2) False have kk: "k' \<noteq> k" "k' \<in> dom (contents l)" by auto
    have "dom (contents l') = insert k (dom (contents l) - {k'})" using kk q(3) by auto
    then have "card (dom (contents l')) = card (dom (contents l))"
      using kk v False by (simp add: card_Diff_singleton card_gt_0_iff)
        (metis Suc_pred card_gt_0_iff empty_iff)
    moreover have "map_of (on_evict evs m) ++ contents l' = (map_of m ++ contents l)(k \<mapsto> v)" for m
      using q kk by (auto simp: on_evict_def AList.update_conv' map_add_def fun_eq_iff split: option.split)
    ultimately show ?thesis using q v by (simp add: lru_valid_def)
  qed
qed

lemma Cache_Add_view:
  assumes "cache_ok L contents cap n c"
  shows "cache_ok L contents cap n (snd (Cache_Add L k v c)) \<and>
    cache_view contents (snd (Cache_Add L k v c)) = (cache_view contents c)(k \<mapsto> v)"
proof -
  obtain evict l evs where i: "lru_Insert L k v (cache_lru c) = (evict, l, evs)" by (metis prod_cases3)
  from assms have "lru_promises L contents cap" "lru_valid contents cap (cache_lru c)" by (simp_all add: cache_ok_def)
  from lru_insert [OF this i] assms show ?thesis
    by (simp add: cache_ok_def cache_view_def Cache_Add_def i)
qed

lemma Cache_Get_view:
  assumes ok: "cache_ok L contents cap n c"
  shows "fst (Cache_Get L k c) = cache_view contents c k \<and>
    cache_view contents (snd (Cache_Get L k c)) = cache_view contents c \<and>
    cache_ok L contents cap n (snd (Cache_Get L k c))"
proof -
  obtain r l where f: "lru_Find L k (cache_lru c) = (r, l)" by fastforce
  from ok have "lru_promises L contents cap" "lru_valid contents cap (cache_lru c)" by (simp_all add: cache_ok_def)
  note F = lru_find [OF this f]
  let ?c = "c\<lparr>cache_lru := l\<rparr>"
  have c: "cache_ok L contents cap n ?c" "cache_view contents ?c = cache_view contents c"
    using ok F by (simp_all add: cache_ok_def cache_view_def)
  have v: "cache_view contents c k = (case r of Some v \<Rightarrow> Some v | None \<Rightarrow> map_of (evictedItems c) k)"
    using F(1) by (simp add: cache_view_def map_add_def)
  show ?thesis
  proof (cases "r = None \<and> k \<in> dom (map_of (evictedItems c))")
    case False
    then have "Cache_Get L k c = (cache_view contents c k, ?c)"
      by (auto simp: Cache_Get_def f v split: option.split)
    with c show ?thesis by simp
  next
    case True
    then obtain w where w: "map_of (evictedItems c) k = Some w" by auto
    let ?d = "?c\<lparr>evictedItems := AList.delete k (evictedItems c)\<rparr>"
    have d: "cache_ok L contents cap n ?d" using c by (simp add: cache_ok_def)
    have e: "cache_view contents c k = Some w" using True v w by simp
    then have "(cache_view contents ?d)(k \<mapsto> w) = cache_view contents c"
      using F(2) by (auto simp: cache_view_def map_add_def fun_eq_iff AList.delete_conv' split: option.split)
    moreover have "Cache_Get L k c = (Some w, snd (Cache_Add L k w ?d))"
      using True w by (simp add: Cache_Get_def f)
    ultimately show ?thesis using Cache_Add_view [OF d, of k w] e by simp
  qed
qed

interpretation span_cache: remembering "Cache_Get L" "Cache_Add L" "cache_view contents" "cache_ok L contents cap n"
  for L contents cap n
  by unfold_locales (simp_all add: Cache_Get_view Cache_Add_view)


lemma NewCache_ok:
  assumes "lru_promises L contents cap" "NewCache L n = Inr c"
  shows "0 < n \<and> cache_ok L contents cap (nat n) c \<and> cache_view contents c = Map.empty"
proof -
  from assms(2) obtain l where l: "lru_NewLRU L n = Inr l" "c = \<lparr>cache_lru = l, evictedItems = []\<rparr>"
    by (auto simp: NewCache_def split: sum.splits)
  with assms(1) have "0 < n" "contents l = Map.empty" "cap l = nat n" unfolding lru_promises_def by blast+
  with l assms(1) show ?thesis by (simp add: cache_ok_def cache_view_def lru_valid_def)
qed

lemma NewCache_total:
  assumes "lru_promises L contents cap" "0 < n"
  obtains c where "NewCache L n = Inr c"
  using assms by (auto simp: lru_promises_def NewCache_def)

lemma RemoveEvictedItems_view [simp]:
  "cache_view contents (RemoveEvictedItems c) = contents (cache_lru c)"
  by (simp add: cache_view_def RemoveEvictedItems_def)

lemma RemoveEvictedItems_ok [simp]:
  "cache_ok L contents cap n (RemoveEvictedItems c) = cache_ok L contents cap n c"
  by (simp add: cache_ok_def RemoveEvictedItems_def)

lemma cache_contents_bound:
  "cache_ok L contents cap n c \<Longrightarrow> finite (dom (contents (cache_lru c))) \<and> card (dom (contents (cache_lru c))) \<le> n"
  by (auto simp: cache_ok_def lru_valid_def)

lemma Cache_Contains_view:
  "cache_ok L contents cap n c \<Longrightarrow> Cache_Contains L k c \<longleftrightarrow> k \<in> dom (contents (cache_lru c))"
  unfolding cache_ok_def Cache_Contains_def lru_promises_def by blast

lemma Cache_Len_view:
  "cache_ok L contents cap n c \<Longrightarrow> Cache_Len L c = card (dom (contents (cache_lru c)))"
  unfolding cache_ok_def Cache_Len_def lru_promises_def by blast

lemma Cache_Purge_view:
  assumes "cache_ok L contents cap n c"
  shows "cache_ok L contents cap n (Cache_Purge L c) \<and> cache_view contents (Cache_Purge L c) = Map.empty"
proof -
  obtain l evs where p: "lru_Clear L (cache_lru c) = (l, evs)" by fastforce
  have "contents (fst (lru_Clear L (cache_lru c))) = Map.empty \<and> cap (fst (lru_Clear L (cache_lru c))) = cap (cache_lru c)"
    using assms unfolding cache_ok_def lru_promises_def by blast
  with p assms show ?thesis
    by (simp add: Cache_Purge_def RemoveEvictedItems_def cache_ok_def cache_view_def lru_valid_def)
qed

text \<open>An LRU cache as a list, newest entry first, and the laws for it.\<close>

type_synonym ('k, 'v) list_lru = "nat \<times> ('k \<times> 'v) list"

definition list_lru :: "('k, 'v, ('k, 'v) list_lru) simplelru" where
  "list_lru = \<lparr>lru_NewLRU = (\<lambda>n. if 0 < n then Inr (nat n, []) else Inl ''must provide a positive size''),
     lru_Insert = (\<lambda>k v (n, l).
       if k \<in> set (map fst l) then (False, (n, (k, v) # AList.delete k l), [])
       else if length l < n then (False, (n, (k, v) # l), [])
       else (True, (n, (k, v) # butlast l), [last l])),
     lru_Find = (\<lambda>k (n, l). case map_of l k of None \<Rightarrow> (None, (n, l))
       | Some v \<Rightarrow> (Some v, (n, (k, v) # AList.delete k l))),
     lru_Holds = (\<lambda>k (n, l). k \<in> set (map fst l)),
     lru_Size = (\<lambda>(n, l). card (set (map fst l))),
     lru_Clear = (\<lambda>(n, l). ((n, []), l))\<rparr>"

text \<open>Lists with a key twice are no state of it.\<close>

definition list_cap :: "('k, 'v) list_lru \<Rightarrow> nat" where
  "list_cap = (\<lambda>(n, l). if distinct (map fst l) then n else 0)"

lemma card_dom_map_of: "distinct (map fst l) \<Longrightarrow> card (dom (map_of l)) = length l"
  using distinct_card [of "map fst l"] by (simp add: dom_map_of_conv_image_fst)

lemma list_lru_insert:
  assumes v: "lru_valid (\<lambda>l. map_of (snd l)) list_cap (n, l)"
  shows "insert_promise (\<lambda>l. map_of (snd l)) list_cap k v (n, l) (lru_Insert list_lru k v (n, l))"
proof -
  from v have d: "distinct (map fst l)" "0 < n" "length l \<le> n"
    by (auto simp: lru_valid_def list_cap_def card_dom_map_of split: if_splits)
  show ?thesis
  proof (cases "k \<in> set (map fst l)")
    case True
    then have "k \<in> dom (map_of l)" by (simp add: dom_map_of_conv_image_fst)
    with True d show ?thesis
      by (auto simp: insert_promise_def list_lru_def list_cap_def AList.delete_conv' AList.distinct_delete
          AList.delete_keys distinct_removeAll fun_eq_iff)
  next
    case new: False
    then have k: "k \<notin> dom (map_of l)" by (simp add: dom_map_of_conv_image_fst)
    show ?thesis
    proof (cases "length l < n")
      case True
      with new k d show ?thesis
        by (auto simp: insert_promise_def list_lru_def list_cap_def card_dom_map_of)
    next
      case False
      then have "l \<noteq> []" using d by auto
      then obtain xs k' v' where l: "l = xs @ [(k', v')]" by (metis append_butlast_last_id surj_pair)
      have "map_of xs k' = None" using d(1) l by (auto simp: map_of_eq_None_iff)
      then have e: "map_of xs = (map_of l)(k' := None)" "map_of l k' = Some v'"
        by (auto simp: l map_add_def fun_eq_iff split: option.split)
      have r: "lru_Insert list_lru k v (n, l) = (True, (n, (k, v) # xs), [(k', v')])"
        using new False l by (simp add: list_lru_def)
      have "\<not> card (dom (map_of l)) < n" using False d by (simp add: card_dom_map_of)
      moreover have "list_cap (n, (k, v) # xs) = n" "list_cap (n, l) = n" using d new l by (auto simp: list_cap_def)
      moreover have "map_of ((k, v) # xs) = (map_of l)(k' := None, k \<mapsto> v)" by (simp only: map_of.simps e(1)) simp
      ultimately show ?thesis using k e(2) unfolding insert_promise_def r by simp
    qed
  qed
qed

lemma list_lru_promises: "lru_promises list_lru (\<lambda>l. map_of (snd l)) list_cap"
proof -
  have find: "fst (lru_Find list_lru k l) = map_of (snd l) k \<and>
      map_of (snd (snd (lru_Find list_lru k l))) = map_of (snd l) \<and>
      list_cap (snd (lru_Find list_lru k l)) = list_cap l"
    if "lru_valid (\<lambda>l. map_of (snd l)) list_cap l" for k :: 'a and l :: "('a, 'b) list_lru"
    using that by (cases l) (auto simp: list_lru_def list_cap_def lru_valid_def AList.delete_conv'
        AList.delete_keys distinct_removeAll fun_eq_iff split: option.split if_splits)
  have new: "\<forall>n l. lru_NewLRU (list_lru :: ('a, 'b, ('a, 'b) list_lru) simplelru) n = Inr l \<longrightarrow>
      0 < n \<and> map_of (snd l) = Map.empty \<and> list_cap l = nat n"
    "\<forall>n>0. \<exists>l. lru_NewLRU (list_lru :: ('a, 'b, ('a, 'b) list_lru) simplelru) n = Inr l"
    by (auto simp: list_lru_def list_cap_def split: if_splits)
  have holds: "lru_Holds list_lru k l = (k \<in> dom (map_of (snd l)))" "lru_Size list_lru l = card (dom (map_of (snd l)))"
    for k :: 'a and l :: "('a, 'b) list_lru"
    by (cases l, simp add: list_lru_def dom_map_of_conv_image_fst)+
  have clear: "map_of (snd (fst (lru_Clear list_lru l))) = Map.empty \<and> list_cap (fst (lru_Clear list_lru l)) = list_cap l"
    if "lru_valid (\<lambda>l. map_of (snd l)) list_cap l" for l :: "('a, 'b) list_lru"
    using that by (cases l) (simp add: list_lru_def list_cap_def lru_valid_def split: if_splits)
  have ins: "insert_promise (\<lambda>l. map_of (snd l)) list_cap k v l (lru_Insert list_lru k v l)"
    if "lru_valid (\<lambda>l. map_of (snd l)) list_cap l" for k :: 'a and v and l :: "('a, 'b) list_lru"
    using list_lru_insert [of "fst l" "snd l"] that by simp
  show ?thesis
    unfolding lru_promises_def by (intro conjI allI impI new holds find ins clear) (simp_all add: new find clear)
qed

text \<open>C37: The cache is a map that forgets nothing before it is told to. Whatever the LRU cache evicts,
  a lookup answers from the abstract map of everything added and does not change it, and an insertion
  updates it; only removing the evicted items shrinks the map, to at most as many entries as the
  size of the cache, exactly those Contains answers for; a purge empties it.\<close>

theorem cache_refines_map:
  assumes "cache_ok L contents cap n c"
  shows "(let view = cache_view contents; ok = cache_ok L contents cap n in
    fst (Cache_Get L k c) = view c k \<and>
    view (snd (Cache_Get L k c)) = view c \<and> ok (snd (Cache_Get L k c)) \<and>
    view (snd (Cache_Add L k v c)) = (view c)(k \<mapsto> v) \<and> ok (snd (Cache_Add L k v c)) \<and>
    view (RemoveEvictedItems c) \<subseteq>\<^sub>m view c \<and> card (dom (view (RemoveEvictedItems c))) \<le> n \<and>
    ok (RemoveEvictedItems c) \<and>
    Cache_Contains L k c = (view (RemoveEvictedItems c) k \<noteq> None) \<and>
    Cache_Len L c = card (dom (view (RemoveEvictedItems c))) \<and>
    view (Cache_Purge L c) = Map.empty \<and> ok (Cache_Purge L c))"
proof -
  have "contents (cache_lru c) \<subseteq>\<^sub>m cache_view contents c" by (simp add: cache_view_def)
  with assms span_cache.get_view [OF assms] span_cache.get_keeps [OF assms] span_cache.get_ok [OF assms]
    span_cache.add_view [OF assms] span_cache.add_ok [OF assms] Cache_Purge_view [OF assms]
    Cache_Contains_view [OF assms] Cache_Len_view [OF assms] cache_contents_bound [OF assms]
  show ?thesis by (simp add: Let_def dom_def)
qed

theorem cache_refines_map_witness:
  "\<exists>c :: (string, nat, (string, nat) list_lru) Cache. NewCache list_lru 1 = Inr c \<and>
    (let c2 = snd (Cache_Add list_lru ''b'' 2 (snd (Cache_Add list_lru ''a'' 1 c))) in
      evictedItems c2 = [(''a'', 1)] \<and> fst (Cache_Get list_lru ''a'' c2) = Some 1)"
proof -
  let ?c = "\<lparr>cache_lru = (1, []), evictedItems = []\<rparr> :: (string, nat, (string, nat) list_lru) Cache"
  have new: "NewCache list_lru 1 = Inr ?c"
    by (simp add: NewCache_def list_lru_def)
  let ?c2 = "snd (Cache_Add list_lru ''b'' 2 (snd (Cache_Add list_lru ''a'' 1 ?c)))"
  from NewCache_ok [OF list_lru_promises new]
  have ok: "cache_ok list_lru (\<lambda>l. map_of (snd l)) list_cap 1 ?c" by simp
  have ok2: "cache_ok list_lru (\<lambda>l. map_of (snd l)) list_cap 1 ?c2"
    by (rule span_cache.add_ok [OF span_cache.add_ok [OF ok]])
  have e: "?c2 = \<lparr>cache_lru = (1, [(''b'', 2)]), evictedItems = [(''a'', 1)]\<rparr>"
    by (simp add: Cache_Add_def list_lru_def on_evict_def)
  have "cache_view (\<lambda>l. map_of (snd l)) ?c2 ''a'' = Some 1" by (simp only: e) (simp add: cache_view_def)
  with cache_refines_map [OF ok2, of "''a''" 0] have "fst (Cache_Get list_lru ''a'' ?c2) = Some 1" by (simp add: Let_def)
  with new e show ?thesis by simp
qed

end
