(* ===== verification/Runes.thy ===== *)
theory Runes
  imports Prelude
begin

text \<open>
  The runes of a Go string, which a \<^verbatim>\<open>range\<close> over it goes through: \<open>rune_at\<close> is
  \<^verbatim>\<open>utf8.DecodeRuneInString\<close>, the rune at the start with its width; a byte that starts no
  rune is the replacement character of width 1.
\<close>

definition continuation :: "nat \<Rightarrow> nat \<Rightarrow> string \<Rightarrow> nat \<Rightarrow> bool" where
  "continuation lo hi s i = (i < length s \<and> lo \<le> of_char (s ! i) \<and> (of_char (s ! i) :: nat) \<le> hi)"

definition low_bits :: "string \<Rightarrow> nat \<Rightarrow> nat" where
  "low_bits s i = of_char (s ! i) mod 64"

definition rune_at :: "string \<Rightarrow> nat \<times> nat" where
  "rune_at s = (let b = (of_char (hd s) :: nat) in
     if b < 0x80 then (b, 1)
     else if 0xC2 \<le> b \<and> b \<le> 0xDF \<and> continuation 0x80 0xBF s 1
     then ((b mod 32) * 64 + low_bits s 1, 2)
     else if 0xE0 \<le> b \<and> b \<le> 0xEF \<and>
       continuation (if b = 0xE0 then 0xA0 else 0x80) (if b = 0xED then 0x9F else 0xBF) s 1 \<and>
       continuation 0x80 0xBF s 2
     then (((b mod 16) * 64 + low_bits s 1) * 64 + low_bits s 2, 3)
     else if 0xF0 \<le> b \<and> b \<le> 0xF4 \<and>
       continuation (if b = 0xF0 then 0x90 else 0x80) (if b = 0xF4 then 0x8F else 0xBF) s 1 \<and>
       continuation 0x80 0xBF s 2 \<and> continuation 0x80 0xBF s 3
     then ((((b mod 8) * 64 + low_bits s 1) * 64 + low_bits s 2) * 64 + low_bits s 3, 4)
     else (0xFFFD, 1))"

definition ascii_digit :: "nat \<Rightarrow> bool" where
  "ascii_digit r \<longleftrightarrow> 48 \<le> r \<and> r \<le> 57"

definition ascii_letter :: "nat \<Rightarrow> bool" where
  "ascii_letter r \<longleftrightarrow> 65 \<le> r \<and> r \<le> 90 \<or> 97 \<le> r \<and> r \<le> 122"

lemma rune_at_width: "0 < snd (rune_at s)"
  by (simp add: rune_at_def Let_def)

function runes :: "string \<Rightarrow> nat list" where
  "runes [] = []"
| "runes (c # s) = fst (rune_at (c # s)) # runes (drop (snd (rune_at (c # s))) (c # s))"
  by pat_completeness auto

termination
  by (relation "measure length") (simp_all add: rune_at_width)

declare runes.simps(2) [simp del]

lemma runes_ascii [simp]: "(of_char c :: nat) < 128 \<Longrightarrow> runes (c # s) = of_char c # runes s"
  by (simp add: runes.simps(2) rune_at_def)

lemma runes_all_ascii: "list_all (\<lambda>c. (of_char c :: nat) < 128) s \<Longrightarrow> runes s = map of_char s"
  by (induction s) simp_all

lemma length_runes: "length (runes s) \<le> length s"
proof (induction s rule: length_induct)
  case (1 s)
  show ?case
  proof (cases s)
    case (Cons c t)
    have "length (drop (snd (rune_at s)) s) < length s"
      using rune_at_width [of s] Cons by simp
    with 1 have "length (runes (drop (snd (rune_at s)) s)) \<le> length (drop (snd (rune_at s)) s)" by blast
    with \<open>length (drop (snd (rune_at s)) s) < length s\<close> show ?thesis by (simp add: Cons runes.simps(2))
  qed simp
qed

end
