(* ===== verification/SpanMetrics.thy ===== *)
theory SpanMetrics
  imports SpanCache Float64 Runes
begin

text \<open>
  The span metrics processor (\<^verbatim>\<open>processor/signozspanmetricsprocessor\<close>), first part: its
  configuration, the validation of the dimensions, the metric keys and the labels, the histograms
  and the aggregation of spans. Attribute maps are association lists in the order of the wire; a
  value is its string, or for the other types the text \<^verbatim>\<open>AsString\<close> gives. A Go map is an
  association list too. A \<^verbatim>\<open>float64\<close> is its exact value, rounded to nearest even after every
  operation. The key buffer is reset before each use, so keys are built as strings.
\<close>

section \<open>Configuration\<close>

datatype temporality = AggregationTemporalityDelta | AggregationTemporalityCumulative

record Dimension =
  Dimension_Name :: string
  Dimension_Default :: "string option"

record ExcludePattern =
  Pattern_Name :: string
  Pattern_Pattern :: string

record spanmetrics_Config =
  MetricsExporter :: string
  LatencyHistogramBuckets :: "duration list option"
  Dimensions :: "Dimension list"
  ExcludePatterns :: "ExcludePattern list"
  DimensionsCacheSize :: int
  AggregationTemporality :: string
  skipSanitizeLabel :: bool
  MetricsFlushInterval :: duration
  TimeBucketInterval :: duration
  EnableExpHistogram :: bool
  MaxServicesToTrack :: int
  MaxOperationsToTrackPerService :: int
  SkipSpansOlderThan :: duration

definition defaultTimeBucketInterval :: duration where
  "defaultTimeBucketInterval = 60 * 10 ^ 9"

definition defaultSkipSpansOlderThan :: duration where
  "defaultSkipSpansOlderThan = 24 * nanosecond_hour"

definition GetAggregationTemporality :: "spanmetrics_Config \<Rightarrow> temporality" where
  "GetAggregationTemporality c =
     (if AggregationTemporality c = ''AGGREGATION_TEMPORALITY_DELTA'' then AggregationTemporalityDelta
      else AggregationTemporalityCumulative)"

definition GetTimeBucketInterval :: "spanmetrics_Config \<Rightarrow> duration" where
  "GetTimeBucketInterval c = (if TimeBucketInterval c = 0 then defaultTimeBucketInterval else TimeBucketInterval c)"

definition GetSkipSpansOlderThan :: "spanmetrics_Config \<Rightarrow> duration" where
  "GetSkipSpansOlderThan c = (if SkipSpansOlderThan c \<le> 0 then defaultSkipSpansOlderThan else SkipSpansOlderThan c)"

text \<open>The defaults of the factory; the feature gate is an argument.\<close>

definition createDefaultConfig :: "bool \<Rightarrow> spanmetrics_Config" where
  "createDefaultConfig permissive =
     \<lparr>MetricsExporter = [], LatencyHistogramBuckets = None, Dimensions = [], ExcludePatterns = [],
      DimensionsCacheSize = 1000, AggregationTemporality = ''AGGREGATION_TEMPORALITY_CUMULATIVE'',
      skipSanitizeLabel = permissive, MetricsFlushInterval = 60 * 10 ^ 9, TimeBucketInterval = 0,
      EnableExpHistogram = False, MaxServicesToTrack = 256, MaxOperationsToTrackPerService = 2048,
      SkipSpansOlderThan = 0\<rparr>"

section \<open>Names\<close>

definition serviceNameKey :: string where "serviceNameKey = ''service.name''"
definition operationKey :: string where "operationKey = ''operation''"
definition spanKindKey :: string where "spanKindKey = ''span.kind''"
definition statusCodeKey :: string where "statusCodeKey = ''status.code''"
definition tagHTTPStatusCode :: string where "tagHTTPStatusCode = ''http.status_code''"
definition tagHTTPStatusCodeStable :: string where "tagHTTPStatusCodeStable = ''http.response.status_code''"
definition signozID :: string where "signozID = ''signoz.collector.id''"
definition resourcePrefix :: string where "resourcePrefix = ''resource_''"
definition overflowServiceName :: string where "overflowServiceName = ''overflow_service''"
definition overflowOperation :: string where "overflowOperation = ''overflow_operation''"
definition metricKeySeparator :: string where "metricKeySeparator = [CHR 0x00]"

lemmas key_names = serviceNameKey_def operationKey_def spanKindKey_def statusCodeKey_def

section \<open>Sanitized labels\<close>

text \<open>
  \<^verbatim>\<open>strings.Map\<close> goes through the runes of a string. A kept rune keeps its bytes. Which runes beyond
  ASCII are letters or digits is an argument, the Unicode tables.
\<close>

definition keeps_rune :: "(nat \<Rightarrow> bool) \<Rightarrow> nat \<Rightarrow> bool" where
  "keeps_rune beyond_ascii r = (if r < 128 then ascii_letter r \<or> ascii_digit r else r \<noteq> 0xFFFD \<and> beyond_ascii r)"

function sanitize_runes :: "(nat \<Rightarrow> bool) \<Rightarrow> string \<Rightarrow> string" where
  "sanitize_runes u [] = []"
| "sanitize_runes u (c # s) =
     (let r = fst (rune_at (c # s)); w = snd (rune_at (c # s))
      in (if keeps_rune u r then take w (c # s) else ''_'') @ sanitize_runes u (drop w (c # s)))"
  by pat_completeness auto

termination
  by (relation "measure (\<lambda>(u, s). length s)") (simp_all add: rune_at_width)

declare sanitize_runes.simps(2) [simp del]

lemma sanitize_runes_ascii:
  assumes "(of_char c :: nat) < 128"
  shows "sanitize_runes u (c # s) =
    (if ascii_letter (of_char c) \<or> ascii_digit (of_char c) then c else CHR ''_'') # sanitize_runes u s"
  using assms by (subst sanitize_runes.simps(2)) (simp add: rune_at_def keeps_rune_def)

definition has_prefix :: "string \<Rightarrow> string \<Rightarrow> bool" where
  "has_prefix p s = (take (length p) s = p)"

definition sanitize :: "(nat \<Rightarrow> bool) \<Rightarrow> string \<Rightarrow> bool \<Rightarrow> string" where
  "sanitize u s skip =
     (if length s = 0 then s
      else let s = sanitize_runes u s;
               s = (if ascii_digit (of_char (hd s)) then ''key_'' @ s else s);
               s = (if \<not> skip \<and> has_prefix ''_'' s then ''key'' @ s else s)
           in if has_prefix ''__'' s then ''key'' @ s else s)"

section \<open>Validation of the dimensions\<close>

datatype dimension_error = DuplicateDimension string | DuplicateAfterSanitization string

text \<open>\<open>labelNames\<close> is the set of names seen so far.\<close>

fun validate_loop :: "(nat \<Rightarrow> bool) \<Rightarrow> bool \<Rightarrow> string list \<Rightarrow> Dimension list \<Rightarrow> dimension_error option" where
  "validate_loop u skip labelNames [] = None"
| "validate_loop u skip labelNames (key # ks) =
     (if Dimension_Name key \<in> set labelNames then Some (DuplicateDimension (Dimension_Name key))
      else let labelNames = Dimension_Name key # labelNames;
               sanitizedName = sanitize u (Dimension_Name key) skip
           in if sanitizedName = Dimension_Name key then validate_loop u skip labelNames ks
              else if sanitizedName \<in> set labelNames then Some (DuplicateAfterSanitization sanitizedName)
              else validate_loop u skip (sanitizedName # labelNames) ks)"

definition validateDimensions :: "(nat \<Rightarrow> bool) \<Rightarrow> Dimension list \<Rightarrow> bool \<Rightarrow> dimension_error option" where
  "validateDimensions u dims skip =
     validate_loop u skip
       (operationKey # concat (map (\<lambda>key. [key, sanitize u key skip]) [serviceNameKey, spanKindKey, statusCodeKey])) dims"

lemma validate_loop_distinct:
  assumes "validate_loop u skip seen dims = None"
    and "distinct (map (\<lambda>n. sanitize u n skip) names)"
    and "set names \<union> (\<lambda>n. sanitize u n skip) ` set names \<subseteq> set seen"
  shows "distinct (map (\<lambda>n. sanitize u n skip) (names @ map Dimension_Name dims))"
proof -
  let ?s = "\<lambda>n. sanitize u n skip"
  show "distinct (map ?s (names @ map Dimension_Name dims))"
    using assms
  proof (induction dims arbitrary: seen names)
    case (Cons d dims)
    let ?n = "Dimension_Name d"
    from Cons.prems(1) have n: "?n \<notin> set seen" and s: "?s ?n = ?n \<or> ?s ?n \<notin> set seen"
      by (auto simp: Let_def split: if_splits)
    let ?seen = "if ?s ?n = ?n then ?n # seen else ?s ?n # ?n # seen"
    have seen': "validate_loop u skip ?seen dims = None"
      using Cons.prems(1) by (auto simp: Let_def split: if_splits)
    have "?s ?n \<notin> ?s ` set names" using n s Cons.prems(3) by auto
    then have "distinct (map ?s (names @ [?n]))" using Cons.prems(2) by auto
    moreover have "set (names @ [?n]) \<union> ?s ` set (names @ [?n]) \<subseteq> set ?seen"
      using Cons.prems(3) by auto
    ultimately show ?case using Cons.IH [OF seen', of "names @ [?n]"] by simp
  qed simp
qed

lemma sanitize_reserved:
  "sanitize u serviceNameKey skip = ''service_name''" "sanitize u operationKey skip = operationKey"
  "sanitize u spanKindKey skip = ''span_kind''" "sanitize u statusCodeKey skip = ''status_code''"
  by (simp_all add: sanitize_def key_names sanitize_runes_ascii ascii_letter_def ascii_digit_def has_prefix_def)

text \<open>Validation of the dimensions. When the configured dimensions are accepted, no two labels of a
  latency series collide, neither as configured nor after the sanitization the Prometheus exporters
  apply to them.\<close>

theorem validated_dimensions_distinct:
  assumes "validateDimensions u dims skip = None"
  shows "let names = [serviceNameKey, operationKey, spanKindKey, statusCodeKey] @ map Dimension_Name dims in
    distinct names \<and> distinct (map (\<lambda>n. sanitize u n skip) names)"
proof -
  let ?names = "[serviceNameKey, operationKey, spanKindKey, statusCodeKey]"
  have "distinct (map (\<lambda>n. sanitize u n skip) (?names @ map Dimension_Name dims))"
  proof (rule validate_loop_distinct [OF assms [unfolded validateDimensions_def]])
    show "distinct (map (\<lambda>n. sanitize u n skip) ?names)"
      using sanitize_reserved(2) [of u skip] by (simp add: sanitize_reserved(1,3,4) operationKey_def)
    show "set ?names \<union> (\<lambda>n. sanitize u n skip) ` set ?names \<subseteq>
      set (operationKey # concat (map (\<lambda>key. [key, sanitize u key skip]) [serviceNameKey, spanKindKey, statusCodeKey]))"
      by (auto simp: sanitize_reserved)
  qed
  then show ?thesis by (simp only: Let_def distinct_map)
qed


theorem validated_dimensions_distinct_witness:
  "let dims = [\<lparr>Dimension_Name = ''http.method'', Dimension_Default = None\<rparr>,
      \<lparr>Dimension_Name = ''_id'', Dimension_Default = Some ''x''\<rparr>] in
    validateDimensions (\<lambda>_. True) dims False = None \<and>
    map (\<lambda>n. sanitize (\<lambda>_. True) n False) (map Dimension_Name dims) = [''http_method'', ''key_id''] \<and>
    distinct (map (\<lambda>n. sanitize (\<lambda>_. True) n False)
      ([serviceNameKey, operationKey, spanKindKey, statusCodeKey] @ map Dimension_Name dims))"
proof -
  let ?u = "\<lambda>_ :: nat. True"
  let ?dims = "[\<lparr>Dimension_Name = ''http.method'', Dimension_Default = None\<rparr>,
      \<lparr>Dimension_Name = ''_id'', Dimension_Default = Some ''x''\<rparr>]"
  have s: "sanitize ?u ''http.method'' False = ''http_method''" "sanitize ?u ''_id'' False = ''key_id''"
    by (simp_all add: sanitize_def sanitize_runes_ascii ascii_letter_def ascii_digit_def has_prefix_def)
  have v: "validateDimensions ?u ?dims False = None"
    by (simp add: validateDimensions_def Let_def s sanitize_reserved) (simp add: key_names)
  from validated_dimensions_distinct [OF v] v s show ?thesis by (simp add: Let_def)
qed

section \<open>Spans and attributes\<close>

datatype pvalue = StrValue string | OtherValue string

fun Value_AsStr :: "pvalue \<Rightarrow> string" where
  "Value_AsStr (StrValue s) = s"
| "Value_AsStr (OtherValue text) = []"

fun Value_AsString :: "pvalue \<Rightarrow> string" where
  "Value_AsString (StrValue s) = s"
| "Value_AsString (OtherValue text) = text"

type_synonym pmap = "(string \<times> pvalue) list"

datatype SpanKind = SpanKindUnspecified | SpanKindInternal | SpanKindServer | SpanKindClient
  | SpanKindProducer | SpanKindConsumer | SpanKindOther int

datatype SpanStatus = SpanStatusUnset | SpanStatusOk | SpanStatusError | SpanStatusOther int

record mspan =
  ms_Name :: string
  ms_Kind :: SpanKind
  ms_Status :: SpanStatus
  ms_TraceID :: "byte list"
  ms_SpanID :: "byte list"
  ms_Start :: uint64
  ms_End :: uint64
  ms_Attributes :: pmap

record mresource =
  mr_Attributes :: pmap
  mr_Scopes :: "mspan list list"

fun SpanKindStr :: "SpanKind \<Rightarrow> string" where
  "SpanKindStr SpanKindUnspecified = ''SPAN_KIND_UNSPECIFIED''"
| "SpanKindStr SpanKindInternal = ''SPAN_KIND_INTERNAL''"
| "SpanKindStr SpanKindServer = ''SPAN_KIND_SERVER''"
| "SpanKindStr SpanKindClient = ''SPAN_KIND_CLIENT''"
| "SpanKindStr SpanKindProducer = ''SPAN_KIND_PRODUCER''"
| "SpanKindStr SpanKindConsumer = ''SPAN_KIND_CONSUMER''"
| "SpanKindStr (SpanKindOther _) = []"

fun StatusCodeStr :: "SpanStatus \<Rightarrow> string" where
  "StatusCodeStr SpanStatusUnset = ''STATUS_CODE_UNSET''"
| "StatusCodeStr SpanStatusOk = ''STATUS_CODE_OK''"
| "StatusCodeStr SpanStatusError = ''STATUS_CODE_ERROR''"
| "StatusCodeStr (SpanStatusOther _) = []"

text \<open>The time of a \<^verbatim>\<open>pcommon.Timestamp\<close>: \<^verbatim>\<open>time.Unix(0, int64(ts))\<close>.\<close>

definition AsTime :: "uint64 \<Rightarrow> instant" where
  "AsTime ts = sint ts"

text \<open>\<^verbatim>\<open>NewTimestampFromTime\<close>: \<^verbatim>\<open>uint64(t.UnixNano())\<close>, which wraps around.\<close>

definition NewTimestampFromTime :: "instant \<Rightarrow> uint64" where
  "NewTimestampFromTime t = word_of_int t"

text \<open>\<^verbatim>\<open>t.Truncate(d)\<close> rounds down to a multiple of \<open>d\<close> since the zero time.\<close>

definition time_Truncate :: "instant \<Rightarrow> duration \<Rightarrow> instant" where
  "time_Truncate t d = (if d \<le> 0 then t else t - (t - zero_time) mod d)"

section \<open>The processor\<close>

record dimension =
  dim_name :: string
  dim_value :: "pvalue option"

definition newDimensions :: "Dimension list \<Rightarrow> dimension list" where
  "newDimensions cfgDims =
     map (\<lambda>d. \<lparr>dim_name = Dimension_Name d, dim_value = map_option StrValue (Dimension_Default d)\<rparr>) cfgDims"

record exemplarData =
  ex_traceID :: "byte list"
  ex_spanID :: "byte list"
  ex_value :: rat

record histogramData =
  hd_count :: uint64
  hd_sum :: rat
  bucketCounts :: "uint64 list"
  exemplarsData :: "exemplarData list"

type_synonym metricKey = string
type_synonym series = "(metricKey \<times> histogramData) list"
type_synonym 'l dims_cache = "(metricKey, pmap, 'l) Cache"

text \<open>
  What the processor uses of code outside the repository: the LRU caches, regular expressions, the
  names \<^verbatim>\<open>pdata\<close> prints kinds and status codes with, the host of a URL, the Unicode tables
  and the exponential histograms of \<^verbatim>\<open>go-expohisto\<close>.
\<close>

record expo_buckets =
  eb_Offset :: int
  eb_Counts :: "uint64 list"

record 'h expo_lib =
  expo_Init :: 'h
  expo_Update :: "rat \<Rightarrow> 'h \<Rightarrow> 'h"
  expo_Count :: "'h \<Rightarrow> uint64"
  expo_Sum :: "'h \<Rightarrow> rat"
  expo_Min :: "'h \<Rightarrow> rat"
  expo_Max :: "'h \<Rightarrow> rat"
  expo_ZeroCount :: "'h \<Rightarrow> uint64"
  expo_Scale :: "'h \<Rightarrow> int"
  expo_Positive :: "'h \<Rightarrow> expo_buckets"
  expo_Negative :: "'h \<Rightarrow> expo_buckets"

record ('l, 'h) metrics_env =
  dims_lru :: "(metricKey, pmap, 'l) simplelru"
  pattern_Compiles :: "string \<Rightarrow> bool"
  pattern_MatchString :: "string \<Rightarrow> string \<Rightarrow> bool"
  Kind_String :: "SpanKind \<Rightarrow> string"
  Code_String :: "SpanStatus \<Rightarrow> string"
  url_Host :: "string \<Rightarrow> string option"
  unicode_letter_digit :: "nat \<Rightarrow> bool"
  expo :: "'h expo_lib"

record ('l, 'h) processorImp =
  instanceID :: string
  sp_config :: spanmetrics_Config
  metricsConsumer :: "string list"
  sp_dimensions :: "dimension list"
  expDimensions :: "dimension list"
  callDimensions :: "dimension list"
  dbCallDimensions :: "dimension list"
  externalCallDimensions :: "dimension list"
  sp_startTimestamp :: uint64
  histograms :: series
  latencyBounds :: "rat list"
  expHistograms :: "(metricKey \<times> 'h) list"
  callHistograms :: series
  dbCallHistograms :: series
  externalCallHistograms :: series
  metricKeyToDimensions :: "'l dims_cache"
  expHistogramKeyToDimensions :: "'l dims_cache"
  callMetricKeyToDimensions :: "'l dims_cache"
  dbCallMetricKeyToDimensions :: "'l dims_cache"
  externalCallMetricKeyToDimensions :: "'l dims_cache"
  attrsCardinality :: "(string \<times> string list) list"
  excludePatternRegex :: "(string \<times> string) list"
  sp_started :: bool
  sp_stopped :: bool
  shutdownOnce :: bool
  serviceToOperations :: "(string \<times> string list) list"
  maxNumberOfServicesToTrack :: int
  maxNumberOfOperationsToTrackPerService :: int

text \<open>The conversion of an integer, and the division, rounded to \<^verbatim>\<open>float64\<close>.\<close>

definition float64_of :: "rat \<Rightarrow> rat" where
  "float64_of x = (if x < 0 then - round_float64 (- x) else round_float64 x)"

definition durationToMillis :: "duration \<Rightarrow> rat" where
  "durationToMillis d = float64_of (float64_of (of_int d) / 10 ^ 6)"

definition mapDurationsToMillis :: "duration list \<Rightarrow> rat list" where
  "mapDurationsToMillis vs = map durationToMillis vs"

definition defaultLatencyHistogramBucketsMs :: "rat list" where
  "defaultLatencyHistogramBucketsMs = [2, 4, 6, 8, 10, 50, 100, 200, 400, 800, 1000, 1400, 2000, 5000, 10000, 15000]"

datatype processor_error =
    InvalidDimensions dimension_error
  | InvalidCacheSize int
  | CacheError string

text \<open>The map of the exclude patterns: a later pattern for a name replaces an earlier one, and one that
  does not compile panics.\<close>

fun compile_patterns :: "(string \<Rightarrow> bool) \<Rightarrow> ExcludePattern list \<Rightarrow> (string \<times> string) list \<Rightarrow> (string \<times> string) list outcome" where
  "compile_patterns compiles [] m = Done m"
| "compile_patterns compiles (pat # ps) m =
     (if compiles (Pattern_Pattern pat)
      then compile_patterns compiles ps (AList.update (Pattern_Name pat) (Pattern_Pattern pat) m)
      else Panics)"

definition named_dimension :: "string \<Rightarrow> Dimension" where
  "named_dimension n = \<lparr>Dimension_Name = n, Dimension_Default = None\<rparr>"

definition newProcessor ::
  "('l, 'h) metrics_env \<Rightarrow> string \<Rightarrow> instant \<Rightarrow> spanmetrics_Config \<Rightarrow> (processor_error + ('l, 'h) processorImp) outcome" where
  "newProcessor env instance_id now config =
     (let cfg = (if TimeBucketInterval config = 0 then config\<lparr>TimeBucketInterval := defaultTimeBucketInterval\<rparr> else config);
          bounds = (case LatencyHistogramBuckets cfg of Some bs \<Rightarrow> mapDurationsToMillis bs
                    | None \<Rightarrow> defaultLatencyHistogramBucketsMs)
      in case validateDimensions (unicode_letter_digit env) (Dimensions cfg) (skipSanitizeLabel cfg) of
        Some err \<Rightarrow> Done (Inl (InvalidDimensions err))
      | None \<Rightarrow>
      (if DimensionsCacheSize cfg \<le> 0 then Done (Inl (InvalidCacheSize (DimensionsCacheSize cfg)))
       else case NewCache (dims_lru env) (DimensionsCacheSize cfg) of
          Inl err \<Rightarrow> Done (Inl (CacheError err))
        | Inr cache \<Rightarrow>
            bind_outcome (compile_patterns (pattern_Compiles env) (ExcludePatterns cfg) []) (\<lambda>patterns.
              Done (Inr
                \<lparr>instanceID = instance_id, sp_config = cfg, metricsConsumer = [],
                 sp_dimensions = newDimensions (Dimensions cfg),
                 expDimensions = newDimensions (Dimensions cfg),
                 callDimensions = newDimensions (named_dimension tagHTTPStatusCode # Dimensions cfg),
                 dbCallDimensions = newDimensions (named_dimension ''db.system'' # named_dimension ''db.name'' # Dimensions cfg),
                 externalCallDimensions = newDimensions (named_dimension tagHTTPStatusCode # Dimensions cfg),
                 sp_startTimestamp = NewTimestampFromTime now,
                 histograms = [], latencyBounds = bounds, expHistograms = [], callHistograms = [],
                 dbCallHistograms = [], externalCallHistograms = [],
                 metricKeyToDimensions = cache, expHistogramKeyToDimensions = cache,
                 callMetricKeyToDimensions = cache, dbCallMetricKeyToDimensions = cache,
                 externalCallMetricKeyToDimensions = cache,
                 attrsCardinality = [], excludePatternRegex = patterns,
                 sp_started = False, sp_stopped = False, shutdownOnce = False, serviceToOperations = [],
                 maxNumberOfServicesToTrack = MaxServicesToTrack cfg,
                 maxNumberOfOperationsToTrackPerService = MaxOperationsToTrackPerService cfg\<rparr>))))"

text \<open>The factory: the id of the instance is the attribute \<^verbatim>\<open>service.instance.id\<close> of the collector, or a
  fresh one.\<close>

definition createTracesProcessor ::
  "('l, 'h) metrics_env \<Rightarrow> pvalue option \<Rightarrow> string \<Rightarrow> instant \<Rightarrow> spanmetrics_Config
     \<Rightarrow> (processor_error + ('l, 'h) processorImp) outcome" where
  "createTracesProcessor env serviceInstanceId uuid now cfg =
     newProcessor env (case serviceInstanceId of Some v \<Rightarrow> Value_AsString v | None \<Rightarrow> uuid) now cfg"

end
