(* ===== verification/SpanAggregate.thy ===== *)
theory SpanAggregate
  imports SpanMetrics
begin

text \<open>
  The span metrics processor, second part: from spans to series. The metric keys with their time
  buckets, the labels, the tracking of services and operations, the histograms, and the
  aggregation of a batch of traces. The main invariants are that every series has its labels in
  the cache, that every histogram is consistent, and that every span that is not skipped is
  counted exactly once.
\<close>

section \<open>Dimensions of a span\<close>

text \<open>\<open>map_of\<close> is \<^verbatim>\<open>pcommon.Map.Get\<close>: the first entry with the key.\<close>

definition getDimensionValue :: "dimension \<Rightarrow> pmap \<Rightarrow> pmap \<Rightarrow> pvalue option" where
  "getDimensionValue d spanAttr resourceAttr =
     (case map_of spanAttr (dim_name d) of
        Some attr \<Rightarrow> Some attr
      | None \<Rightarrow>
         (case (if dim_name d = tagHTTPStatusCode then map_of spanAttr tagHTTPStatusCodeStable else None) of
            Some attr \<Rightarrow> Some attr
          | None \<Rightarrow>
             (case map_of resourceAttr (dim_name d) of
                Some attr \<Rightarrow> Some attr
              | None \<Rightarrow> dim_value d)))"

text \<open>The second component is \<^verbatim>\<open>foundInResource\<close>; \<^verbatim>\<open>ok\<close> is whether there is a value.\<close>

definition getDimensionValueWithResource :: "dimension \<Rightarrow> pmap \<Rightarrow> pmap \<Rightarrow> pvalue option \<times> bool" where
  "getDimensionValueWithResource d spanAttr resourceAttr =
     (case map_of spanAttr (dim_name d) of
        Some attr \<Rightarrow> (Some attr, map_of resourceAttr (dim_name d) \<noteq> None)
      | None \<Rightarrow>
         (case (if dim_name d = tagHTTPStatusCode then map_of spanAttr tagHTTPStatusCodeStable else None) of
            Some attr \<Rightarrow> (Some attr, False)
          | None \<Rightarrow>
             (case map_of resourceAttr (dim_name d) of
                Some attr \<Rightarrow> (Some attr, True)
              | None \<Rightarrow> (dim_value d, False))))"

lemma getDimensionValue_fst: "fst (getDimensionValueWithResource d s r) = getDimensionValue d s r"
  by (auto simp: getDimensionValue_def getDimensionValueWithResource_def split: option.split)

section \<open>Metric keys\<close>

definition concatDimensionValue :: "string \<Rightarrow> string \<Rightarrow> bool \<Rightarrow> string" where
  "concatDimensionValue dest val prefixSep = dest @ (if prefixSep then metricKeySeparator else []) @ val"

definition tracked_ops :: "(string \<times> string list) list \<Rightarrow> string \<Rightarrow> string list" where
  "tracked_ops m service = (case map_of m service of Some ops \<Rightarrow> ops | None \<Rightarrow> [])"

text \<open>The service and the operation a span is tracked under: the overflow names once too many are
  tracked. \<^verbatim>\<open>buildKey\<close> and \<^verbatim>\<open>buildDimensionKVs\<close> start with it.\<close>

definition overflow_names :: "('l, 'h) processorImp \<Rightarrow> string \<Rightarrow> string \<Rightarrow> string \<times> string" where
  "overflow_names p serviceName spanName =
     (let serviceName = (if maxNumberOfServicesToTrack p < int (length (serviceToOperations p))
                         then overflowServiceName else serviceName);
          spanName = (if maxNumberOfOperationsToTrackPerService p < int (length (tracked_ops (serviceToOperations p) serviceName))
                      then overflowOperation else spanName)
      in (serviceName, spanName))"

text \<open>A set as a list without repetition.\<close>

definition set_add :: "'a \<Rightarrow> 'a list \<Rightarrow> 'a list" where
  "set_add x xs = (if x \<in> set xs then xs else xs @ [x])"

definition track :: "string \<Rightarrow> string \<Rightarrow> (string \<times> string list) list \<Rightarrow> (string \<times> string list) list" where
  "track service op m = AList.update service (set_add op (tracked_ops m service)) m"

definition key_dims :: "string \<Rightarrow> dimension list \<Rightarrow> pmap \<Rightarrow> pmap \<Rightarrow> string" where
  "key_dims dest dims spanAttr resourceAttr =
     fold (\<lambda>d dest. case getDimensionValue d spanAttr resourceAttr of
                      Some v \<Rightarrow> concatDimensionValue dest (Value_AsString v) True
                    | None \<Rightarrow> dest) dims dest"

definition buildKey ::
  "string \<Rightarrow> string \<Rightarrow> mspan \<Rightarrow> dimension list \<Rightarrow> pmap \<Rightarrow> ('l, 'h) processorImp \<Rightarrow> string \<times> ('l, 'h) processorImp" where
  "buildKey dest serviceName sp optionalDims resourceAttrs p =
     (let (serviceName, spanName) = overflow_names p serviceName (ms_Name sp);
          dest = concatDimensionValue dest serviceName False;
          dest = concatDimensionValue dest spanName True;
          dest = concatDimensionValue dest (SpanKindStr (ms_Kind sp)) True;
          dest = concatDimensionValue dest (StatusCodeStr (ms_Status sp)) True;
          dest = key_dims dest optionalDims (ms_Attributes sp) resourceAttrs
      in (dest, p\<lparr>serviceToOperations := track serviceName spanName (serviceToOperations p)\<rparr>))"

definition buildCustomKey ::
  "string \<Rightarrow> string \<Rightarrow> mspan \<Rightarrow> dimension list \<Rightarrow> pmap \<Rightarrow> string list \<Rightarrow> string" where
  "buildCustomKey dest serviceName sp optionalDims resourceAttrs extraVals =
     (let dest = concatDimensionValue dest serviceName False;
          dest = concatDimensionValue dest (StatusCodeStr (ms_Status sp)) True;
          dest = fold (\<lambda>val dest. concatDimensionValue dest val True) extraVals dest
      in fold (\<lambda>d dest. case getDimensionValueWithResource d (ms_Attributes sp) resourceAttrs of
             (None, _) \<Rightarrow> dest
           | (Some v, foundInResource) \<Rightarrow>
               (let dest = concatDimensionValue dest (Value_AsString v) True
                in if foundInResource then concatDimensionValue dest (resourcePrefix @ Value_AsString v) True else dest))
           optionalDims dest)"

text \<open>The time bucket a key starts with in delta temporality: \<^verbatim>\<open>bucket.Unix()\<close> rounds down to
  seconds.\<close>

definition AddTimeToKeyBuf :: "spanmetrics_Config \<Rightarrow> instant \<Rightarrow> string \<Rightarrow> string" where
  "AddTimeToKeyBuf cfg t dest =
     dest @ show_int (time_Truncate t (GetTimeBucketInterval cfg) div 10 ^ 9) @ metricKeySeparator"

definition key_start :: "('l, 'h) processorImp \<Rightarrow> mspan \<Rightarrow> string" where
  "key_start p sp =
     (if GetAggregationTemporality (sp_config p) = AggregationTemporalityDelta
      then AddTimeToKeyBuf (sp_config p) (AsTime (ms_Start sp)) [] else [])"

definition buildMetricKey ::
  "string \<Rightarrow> mspan \<Rightarrow> dimension list \<Rightarrow> pmap \<Rightarrow> ('l, 'h) processorImp \<Rightarrow> metricKey \<times> ('l, 'h) processorImp" where
  "buildMetricKey serviceName sp dims resourceAttr p =
     buildKey (key_start p sp) serviceName sp dims resourceAttr p"

definition buildCustomMetricKey ::
  "string \<Rightarrow> mspan \<Rightarrow> dimension list \<Rightarrow> pmap \<Rightarrow> string list \<Rightarrow> ('l, 'h) processorImp \<Rightarrow> metricKey" where
  "buildCustomMetricKey serviceName sp dims resourceAttr extraVals p =
     buildCustomKey (key_start p sp) serviceName sp dims resourceAttr extraVals"

section \<open>Labels\<close>

definition put_dims :: "dimension list \<Rightarrow> pmap \<Rightarrow> pmap \<Rightarrow> pmap \<Rightarrow> pmap" where
  "put_dims optionalDims spanAttr resourceAttrs dims =
     fold (\<lambda>d dims. case getDimensionValueWithResource d spanAttr resourceAttrs of
             (None, _) \<Rightarrow> dims
           | (Some v, foundInResource) \<Rightarrow>
               (let dims = AList.update (dim_name d) v dims
                in if foundInResource then AList.update (resourcePrefix @ dim_name d) v dims else dims))
       optionalDims dims"

definition note_cardinality :: "pmap \<Rightarrow> (string \<times> string list) list \<Rightarrow> (string \<times> string list) list" where
  "note_cardinality dims cards = fold (\<lambda>(k, v). track k (Value_AsString v)) dims cards"

definition buildDimensionKVs ::
  "string \<Rightarrow> mspan \<Rightarrow> dimension list \<Rightarrow> pmap \<Rightarrow> ('l, 'h) processorImp \<Rightarrow> pmap \<times> ('l, 'h) processorImp" where
  "buildDimensionKVs serviceName sp optionalDims resourceAttrs p =
     (let (serviceName, spanName) = overflow_names p serviceName (ms_Name sp);
          dims = AList.update serviceNameKey (StrValue serviceName) [];
          dims = AList.update operationKey (StrValue spanName) dims;
          dims = AList.update spanKindKey (StrValue (SpanKindStr (ms_Kind sp))) dims;
          dims = AList.update statusCodeKey (StrValue (StatusCodeStr (ms_Status sp))) dims;
          dims = put_dims optionalDims (ms_Attributes sp) resourceAttrs dims
      in (dims, p\<lparr>attrsCardinality := note_cardinality dims (attrsCardinality p)\<rparr>))"

text \<open>\<open>extraDims\<close> is a map with at most one entry.\<close>

definition buildCustomDimensionKVs ::
  "string \<Rightarrow> mspan \<Rightarrow> dimension list \<Rightarrow> pmap \<Rightarrow> pmap \<Rightarrow> ('l, 'h) processorImp \<Rightarrow> pmap \<times> ('l, 'h) processorImp" where
  "buildCustomDimensionKVs serviceName sp optionalDims resourceAttrs extraDims p =
     (let dims = AList.update serviceNameKey (StrValue serviceName) [];
          dims = fold (\<lambda>(k, v). AList.update k v) extraDims dims;
          dims = AList.update statusCodeKey (StrValue (StatusCodeStr (ms_Status sp))) dims;
          dims = put_dims optionalDims (ms_Attributes sp) resourceAttrs dims
      in (dims, p\<lparr>attrsCardinality := note_cardinality dims (attrsCardinality p)\<rparr>))"

section \<open>Histograms\<close>

text \<open>\<^verbatim>\<open>sort.SearchFloat64s\<close>: the binary search of the standard library.\<close>

function search_floats :: "rat list \<Rightarrow> rat \<Rightarrow> nat \<Rightarrow> nat \<Rightarrow> nat" where
  "search_floats a x i j =
     (if i < j
      then let h = (i + j) div 2
           in if \<not> x \<le> a ! h then search_floats a x (h + 1) j else search_floats a x i h
      else i)"
  by pat_completeness auto

termination
  by (relation "measure (\<lambda>(a, x, i, j). j - i)") auto

declare search_floats.simps [simp del]

definition SearchFloat64s :: "rat list \<Rightarrow> rat \<Rightarrow> nat" where
  "SearchFloat64s a x = search_floats a x 0 (length a)"

text \<open>What the four update functions do to their map of histograms; all use \<^verbatim>\<open>latencyBounds\<close>.\<close>

definition new_histogram :: "rat list \<Rightarrow> histogramData" where
  "new_histogram bounds =
     \<lparr>hd_count = 0, hd_sum = 0, bucketCounts = replicate (length bounds + 1) 0, exemplarsData = []\<rparr>"

definition observe :: "rat list \<Rightarrow> rat \<Rightarrow> byte list \<Rightarrow> byte list \<Rightarrow> histogramData \<Rightarrow> histogramData" where
  "observe bounds latency traceID spanID histo =
     (let index = SearchFloat64s bounds latency
      in histo\<lparr>hd_sum := float64_of (hd_sum histo + latency), hd_count := hd_count histo + 1,
               bucketCounts := (bucketCounts histo)[index := bucketCounts histo ! index + 1],
               exemplarsData := exemplarsData histo @ [\<lparr>ex_traceID = traceID, ex_spanID = spanID, ex_value = latency\<rparr>]\<rparr>)"

definition update_series ::
  "rat list \<Rightarrow> metricKey \<Rightarrow> rat \<Rightarrow> byte list \<Rightarrow> byte list \<Rightarrow> series \<Rightarrow> series" where
  "update_series bounds key latency traceID spanID hs =
     (let histo = (case map_of hs key of Some histo \<Rightarrow> histo | None \<Rightarrow> new_histogram bounds)
      in AList.update key (observe bounds latency traceID spanID histo) hs)"

definition updateHistogram ::
  "metricKey \<Rightarrow> rat \<Rightarrow> byte list \<Rightarrow> byte list \<Rightarrow> ('l, 'h) processorImp \<Rightarrow> ('l, 'h) processorImp" where
  "updateHistogram key latency traceID spanID p =
     p\<lparr>histograms := update_series (latencyBounds p) key latency traceID spanID (histograms p)\<rparr>"

definition updateCallHistogram ::
  "metricKey \<Rightarrow> rat \<Rightarrow> byte list \<Rightarrow> byte list \<Rightarrow> ('l, 'h) processorImp \<Rightarrow> ('l, 'h) processorImp" where
  "updateCallHistogram key latency traceID spanID p =
     p\<lparr>callHistograms := update_series (latencyBounds p) key latency traceID spanID (callHistograms p)\<rparr>"

definition updateDBHistogram ::
  "metricKey \<Rightarrow> rat \<Rightarrow> byte list \<Rightarrow> byte list \<Rightarrow> ('l, 'h) processorImp \<Rightarrow> ('l, 'h) processorImp" where
  "updateDBHistogram key latency traceID spanID p =
     p\<lparr>dbCallHistograms := update_series (latencyBounds p) key latency traceID spanID (dbCallHistograms p)\<rparr>"

definition updateExternalHistogram ::
  "metricKey \<Rightarrow> rat \<Rightarrow> byte list \<Rightarrow> byte list \<Rightarrow> ('l, 'h) processorImp \<Rightarrow> ('l, 'h) processorImp" where
  "updateExternalHistogram key latency traceID spanID p =
     p\<lparr>externalCallHistograms := update_series (latencyBounds p) key latency traceID spanID (externalCallHistograms p)\<rparr>"

definition updateExpHistogram ::
  "'h expo_lib \<Rightarrow> metricKey \<Rightarrow> rat \<Rightarrow> ('l, 'h) processorImp \<Rightarrow> ('l, 'h) processorImp" where
  "updateExpHistogram lib key latency p =
     (let histo = (case map_of (expHistograms p) key of Some histo \<Rightarrow> histo | None \<Rightarrow> expo_Init lib)
      in p\<lparr>expHistograms := AList.update key (expo_Update lib latency histo) (expHistograms p)\<rparr>)"


section \<open>Caching the labels of a key\<close>

definition sp_cache ::
  "('l, 'h) metrics_env \<Rightarrow> string \<Rightarrow> mspan \<Rightarrow> metricKey \<Rightarrow> pmap \<Rightarrow> ('l, 'h) processorImp \<Rightarrow> ('l, 'h) processorImp" where
  "sp_cache env serviceName sp k resourceAttrs p =
     (case Cache_Get (dims_lru env) k (metricKeyToDimensions p) of
        (Some _, c) \<Rightarrow> p\<lparr>metricKeyToDimensions := c\<rparr>
      | (None, c) \<Rightarrow>
         (case buildDimensionKVs serviceName sp (sp_dimensions p) resourceAttrs p of
            (dims, p) \<Rightarrow> p\<lparr>metricKeyToDimensions := snd (Cache_Add (dims_lru env) k dims c)\<rparr>))"

definition expHistogramCache ::
  "('l, 'h) metrics_env \<Rightarrow> string \<Rightarrow> mspan \<Rightarrow> metricKey \<Rightarrow> pmap \<Rightarrow> ('l, 'h) processorImp \<Rightarrow> ('l, 'h) processorImp" where
  "expHistogramCache env serviceName sp k resourceAttrs p =
     (case Cache_Get (dims_lru env) k (expHistogramKeyToDimensions p) of
        (Some _, c) \<Rightarrow> p\<lparr>expHistogramKeyToDimensions := c\<rparr>
      | (None, c) \<Rightarrow>
         (case buildDimensionKVs serviceName sp (expDimensions p) resourceAttrs p of
            (dims, p) \<Rightarrow> p\<lparr>expHistogramKeyToDimensions := snd (Cache_Add (dims_lru env) k dims c)\<rparr>))"

definition callCache ::
  "('l, 'h) metrics_env \<Rightarrow> string \<Rightarrow> mspan \<Rightarrow> metricKey \<Rightarrow> pmap \<Rightarrow> ('l, 'h) processorImp \<Rightarrow> ('l, 'h) processorImp" where
  "callCache env serviceName sp k resourceAttrs p =
     (case Cache_Get (dims_lru env) k (callMetricKeyToDimensions p) of
        (Some _, c) \<Rightarrow> p\<lparr>callMetricKeyToDimensions := c\<rparr>
      | (None, c) \<Rightarrow>
         (case buildDimensionKVs serviceName sp (callDimensions p) resourceAttrs p of
            (dims, p) \<Rightarrow> p\<lparr>callMetricKeyToDimensions := snd (Cache_Add (dims_lru env) k dims c)\<rparr>))"

definition dbCallCache ::
  "('l, 'h) metrics_env \<Rightarrow> string \<Rightarrow> mspan \<Rightarrow> metricKey \<Rightarrow> pmap \<Rightarrow> ('l, 'h) processorImp \<Rightarrow> ('l, 'h) processorImp" where
  "dbCallCache env serviceName sp k resourceAttrs p =
     (case Cache_Get (dims_lru env) k (dbCallMetricKeyToDimensions p) of
        (Some _, c) \<Rightarrow> p\<lparr>dbCallMetricKeyToDimensions := c\<rparr>
      | (None, c) \<Rightarrow>
         (case buildCustomDimensionKVs serviceName sp (dbCallDimensions p) resourceAttrs [] p of
            (dims, p) \<Rightarrow> p\<lparr>dbCallMetricKeyToDimensions := snd (Cache_Add (dims_lru env) k dims c)\<rparr>))"

definition externalCallCache ::
  "('l, 'h) metrics_env \<Rightarrow> string \<Rightarrow> mspan \<Rightarrow> metricKey \<Rightarrow> pmap \<Rightarrow> pmap \<Rightarrow> ('l, 'h) processorImp \<Rightarrow> ('l, 'h) processorImp" where
  "externalCallCache env serviceName sp k resourceAttrs extraDims p =
     (case Cache_Get (dims_lru env) k (externalCallMetricKeyToDimensions p) of
        (Some _, c) \<Rightarrow> p\<lparr>externalCallMetricKeyToDimensions := c\<rparr>
      | (None, c) \<Rightarrow>
         (case buildCustomDimensionKVs serviceName sp (externalCallDimensions p) resourceAttrs extraDims p of
            (dims, p) \<Rightarrow> p\<lparr>externalCallMetricKeyToDimensions := snd (Cache_Add (dims_lru env) k dims c)\<rparr>))"

section \<open>Remote addresses\<close>

definition address_with_port :: "pmap \<Rightarrow> string \<Rightarrow> string \<Rightarrow> string option" where
  "address_with_port attrs name port =
     (case map_of attrs name of
        None \<Rightarrow> None
      | Some addr \<Rightarrow> Some (Value_AsStr addr @
          (case map_of attrs port of Some p \<Rightarrow> '':'' @ Value_AsStr p | None \<Rightarrow> [])))"

fun first_some :: "'a option list \<Rightarrow> 'a option" where
  "first_some [] = None"
| "first_some (Some x # xs) = Some x"
| "first_some (None # xs) = first_some xs"

definition getPeerAddress :: "pmap \<Rightarrow> string option" where
  "getPeerAddress attrs = first_some
     [address_with_port attrs ''net.peer.name'' ''net.peer.port'',
      address_with_port attrs ''server.address'' ''server.port'',
      address_with_port attrs ''net.peer.ip'' ''net.peer.port'',
      address_with_port attrs ''net.sock.peer.addr'' ''net.sock.peer.port'',
      address_with_port attrs ''network.peer.address'' ''network.peer.port'']"

definition getRemoteAddress :: "(string \<Rightarrow> string option) \<Rightarrow> mspan \<Rightarrow> string option" where
  "getRemoteAddress host_of sp =
     (let attrs = ms_Attributes sp
      in if map_of attrs ''rpc.system'' \<noteq> None
         then let addr = (case map_of attrs ''rpc.service'' of Some service \<Rightarrow> Value_AsStr service | None \<Rightarrow> []) @
                         (case map_of attrs ''rpc.method'' of Some m \<Rightarrow> ''/'' @ Value_AsStr m | None \<Rightarrow> [])
              in if addr \<noteq> [] then Some addr else getPeerAddress attrs
         else
         (case map_of attrs ''http.host'' of
            Some host \<Rightarrow> Some (Value_AsStr host)
          | None \<Rightarrow>
         (case getPeerAddress attrs of
            Some peerAddress \<Rightarrow>
              (case map_of attrs ''net.transport'' of
                 Some transport \<Rightarrow>
                   if Value_AsStr transport = ''unix'' \<and> Value_AsStr transport = ''pipe'' then None else Some peerAddress
               | None \<Rightarrow> Some peerAddress)
          | None \<Rightarrow>
         (case first_some [map_of attrs ''http.url'', map_of attrs ''url.full''] of
            Some httpURL \<Rightarrow>
              (let urlValue = Value_AsStr httpURL;
                   urlValue = (if \<not> has_prefix ''http://'' urlValue \<and> \<not> has_prefix ''https://'' urlValue
                               then ''http://'' @ urlValue else urlValue)
               in host_of urlValue)
          | None \<Rightarrow>
         (case map_of attrs ''peer.service'' of
            Some peerService \<Rightarrow> Some (Value_AsStr peerService)
          | None \<Rightarrow> None)))))"

section \<open>Aggregation\<close>

definition shouldSkip ::
  "('l, 'h) metrics_env \<Rightarrow> string \<Rightarrow> mspan \<Rightarrow> pmap \<Rightarrow> ('l, 'h) processorImp \<Rightarrow> bool" where
  "shouldSkip env serviceName sp resourceAttrs p =
     list_ex (\<lambda>(key, pattern). let matches = pattern_MatchString env pattern in
        key = serviceNameKey \<and> matches serviceName \<or>
        key = operationKey \<and> matches (ms_Name sp) \<or>
        key = spanKindKey \<and> matches (Kind_String env (ms_Kind sp)) \<or>
        key = statusCodeKey \<and> matches (Code_String env (ms_Status sp)) \<or>
        list_ex (\<lambda>(k, v). key = k \<and> matches (Value_AsString v)) (ms_Attributes sp) \<or>
        list_ex (\<lambda>(k, v). key = k \<and> matches (Value_AsString v)) resourceAttrs)
       (excludePatternRegex p)"

definition stale :: "spanmetrics_Config \<Rightarrow> instant \<Rightarrow> mspan \<Rightarrow> bool" where
  "stale cfg now sp =
     (let spanSkipWindow = GetSkipSpansOlderThan cfg
      in 0 < spanSkipWindow \<and> AsTime (ms_Start sp) < now - spanSkipWindow)"

definition span_latency :: "mspan \<Rightarrow> rat" where
  "span_latency sp =
     (if ms_Start sp < ms_End sp
      then float64_of (float64_of (of_int (uint (ms_End sp - ms_Start sp))) / 10 ^ 6) else 0)"

text \<open>The five blocks of \<^verbatim>\<open>aggregateMetricsForSpan\<close>, one for each kind of series.\<close>

definition aggregate_latency ::
  "('l, 'h) metrics_env \<Rightarrow> string \<Rightarrow> mspan \<Rightarrow> pmap \<Rightarrow> ('l, 'h) processorImp \<Rightarrow> ('l, 'h) processorImp" where
  "aggregate_latency env serviceName sp resourceAttr p =
     (case buildMetricKey serviceName sp (sp_dimensions p) resourceAttr p of
        (key, p) \<Rightarrow> updateHistogram key (span_latency sp) (ms_TraceID sp) (ms_SpanID sp)
                     (sp_cache env serviceName sp key resourceAttr p))"

definition aggregate_exp ::
  "('l, 'h) metrics_env \<Rightarrow> string \<Rightarrow> mspan \<Rightarrow> pmap \<Rightarrow> ('l, 'h) processorImp \<Rightarrow> ('l, 'h) processorImp" where
  "aggregate_exp env serviceName sp resourceAttr p =
     (if EnableExpHistogram (sp_config p)
      then case buildMetricKey serviceName sp (expDimensions p) resourceAttr p of
        (expKey, p) \<Rightarrow> updateExpHistogram (expo env) expKey (span_latency sp)
                        (expHistogramCache env serviceName sp expKey resourceAttr p)
      else p)"

definition aggregate_calls ::
  "('l, 'h) metrics_env \<Rightarrow> string \<Rightarrow> mspan \<Rightarrow> pmap \<Rightarrow> ('l, 'h) processorImp \<Rightarrow> ('l, 'h) processorImp" where
  "aggregate_calls env serviceName sp resourceAttr p =
     (case buildMetricKey serviceName sp (callDimensions p) resourceAttr p of
        (callKey, p) \<Rightarrow> updateCallHistogram callKey (span_latency sp) (ms_TraceID sp) (ms_SpanID sp)
                         (callCache env serviceName sp callKey resourceAttr p))"

definition aggregate_external ::
  "('l, 'h) metrics_env \<Rightarrow> string \<Rightarrow> mspan \<Rightarrow> pmap \<Rightarrow> ('l, 'h) processorImp \<Rightarrow> ('l, 'h) processorImp" where
  "aggregate_external env serviceName sp resourceAttr p =
     (case getRemoteAddress (url_Host env) sp of
        Some remoteAddr \<Rightarrow>
          if ms_Kind sp = SpanKindClient
          then let externalCallKey = buildCustomMetricKey serviceName sp (externalCallDimensions p) resourceAttr [remoteAddr] p
               in updateExternalHistogram externalCallKey (span_latency sp) (ms_TraceID sp) (ms_SpanID sp)
                    (externalCallCache env serviceName sp externalCallKey resourceAttr [(''address'', StrValue remoteAddr)] p)
          else p
      | None \<Rightarrow> p)"

definition aggregate_db ::
  "('l, 'h) metrics_env \<Rightarrow> string \<Rightarrow> mspan \<Rightarrow> pmap \<Rightarrow> ('l, 'h) processorImp \<Rightarrow> ('l, 'h) processorImp" where
  "aggregate_db env serviceName sp resourceAttr p =
     (if ms_Kind sp \<noteq> SpanKindServer \<and> map_of (ms_Attributes sp) ''db.system'' \<noteq> None
      then let dbCallKey = buildCustomMetricKey serviceName sp (dbCallDimensions p) resourceAttr [] p
           in updateDBHistogram dbCallKey (span_latency sp) (ms_TraceID sp) (ms_SpanID sp)
                (dbCallCache env serviceName sp dbCallKey resourceAttr p)
      else p)"

definition aggregateMetricsForSpan ::
  "('l, 'h) metrics_env \<Rightarrow> instant \<Rightarrow> string \<Rightarrow> mspan \<Rightarrow> pmap \<Rightarrow> ('l, 'h) processorImp \<Rightarrow> ('l, 'h) processorImp" where
  "aggregateMetricsForSpan env now serviceName sp resourceAttr p =
     (if stale (sp_config p) now sp then p
      else if shouldSkip env serviceName sp resourceAttr p then p
      else
        let p = aggregate_latency env serviceName sp resourceAttr p;
            p = aggregate_exp env serviceName sp resourceAttr p;
            p = aggregate_calls env serviceName sp resourceAttr p;
            p = aggregate_external env serviceName sp resourceAttr p
        in aggregate_db env serviceName sp resourceAttr p)"

text \<open>The loops over the spans of a resource and over the resources; \<open>now\<close> gives the clock at the
  \<open>i\<close>-th span aggregated. \<^verbatim>\<open>PutStr\<close> changes the resource of the traces handed on.\<close>

fun aggregate_spans ::
  "('l, 'h) metrics_env \<Rightarrow> (nat \<Rightarrow> instant) \<Rightarrow> string \<Rightarrow> pmap \<Rightarrow> nat \<Rightarrow> mspan list \<Rightarrow> ('l, 'h) processorImp
     \<Rightarrow> nat \<times> ('l, 'h) processorImp" where
  "aggregate_spans env now serviceName resourceAttr i [] p = (i, p)"
| "aggregate_spans env now serviceName resourceAttr i (sp # spans) p =
     aggregate_spans env now serviceName resourceAttr (Suc i) spans
       (aggregateMetricsForSpan env (now i) serviceName sp resourceAttr p)"

fun aggregate_scopes ::
  "('l, 'h) metrics_env \<Rightarrow> (nat \<Rightarrow> instant) \<Rightarrow> string \<Rightarrow> pmap \<Rightarrow> nat \<Rightarrow> mspan list list \<Rightarrow> ('l, 'h) processorImp
     \<Rightarrow> nat \<times> ('l, 'h) processorImp" where
  "aggregate_scopes env now serviceName resourceAttr i [] p = (i, p)"
| "aggregate_scopes env now serviceName resourceAttr i (spans # ilsSlice) p =
     (case aggregate_spans env now serviceName resourceAttr i spans p of
        (i, p) \<Rightarrow> aggregate_scopes env now serviceName resourceAttr i ilsSlice p)"

definition put_instance :: "string \<Rightarrow> pmap \<Rightarrow> pmap" where
  "put_instance instance_id attrs = AList.update signozID (StrValue instance_id) attrs"

fun aggregate_resources ::
  "('l, 'h) metrics_env \<Rightarrow> (nat \<Rightarrow> instant) \<Rightarrow> nat \<Rightarrow> mresource list \<Rightarrow> ('l, 'h) processorImp
     \<Rightarrow> mresource list \<times> ('l, 'h) processorImp" where
  "aggregate_resources env now i [] p = ([], p)"
| "aggregate_resources env now i (rspans # traces) p =
     (case map_of (mr_Attributes rspans) serviceNameKey of
        None \<Rightarrow> (case aggregate_resources env now i traces p of (traces', p) \<Rightarrow> (rspans # traces', p))
      | Some serviceAttr \<Rightarrow>
          (let resourceAttr = put_instance (instanceID p) (mr_Attributes rspans);
               (i, p) = aggregate_scopes env now (Value_AsStr serviceAttr) resourceAttr i (mr_Scopes rspans) p;
               (traces', p) = aggregate_resources env now i traces p
           in (rspans\<lparr>mr_Attributes := resourceAttr\<rparr> # traces', p)))"

definition aggregateMetrics ::
  "('l, 'h) metrics_env \<Rightarrow> (nat \<Rightarrow> instant) \<Rightarrow> mresource list \<Rightarrow> ('l, 'h) processorImp
     \<Rightarrow> mresource list \<times> ('l, 'h) processorImp" where
  "aggregateMetrics env now traces p = aggregate_resources env now 0 traces p"

text \<open>The traces handed to the next consumer and its answer are returned beside the new state.\<close>

definition spanmetrics_ConsumeTraces ::
  "('l, 'h) metrics_env \<Rightarrow> (nat \<Rightarrow> instant) \<Rightarrow> (mresource list \<Rightarrow> string option) \<Rightarrow> mresource list
     \<Rightarrow> ('l, 'h) processorImp \<Rightarrow> mresource list \<times> string option \<times> ('l, 'h) processorImp" where
  "spanmetrics_ConsumeTraces env now next_traces traces p =
     (case aggregateMetrics env now traces p of (traces', p) \<Rightarrow> (traces', next_traces traces', p))"


section \<open>What a span changes\<close>

text \<open>The parts of the state that never change after creation, and the five pairs of series and labels.\<close>

definition sp_setup where
  "sp_setup p = (instanceID p, sp_config p, metricsConsumer p,
     (sp_dimensions p, expDimensions p, callDimensions p, dbCallDimensions p, externalCallDimensions p),
     sp_startTimestamp p, latencyBounds p, excludePatternRegex p,
     maxNumberOfServicesToTrack p, maxNumberOfOperationsToTrackPerService p)"

definition latency_pair where "latency_pair p = (histograms p, metricKeyToDimensions p)"
definition exp_pair where "exp_pair p = (expHistograms p, expHistogramKeyToDimensions p)"
definition call_pair where "call_pair p = (callHistograms p, callMetricKeyToDimensions p)"
definition db_pair where "db_pair p = (dbCallHistograms p, dbCallMetricKeyToDimensions p)"
definition external_pair where "external_pair p = (externalCallHistograms p, externalCallMetricKeyToDimensions p)"

lemmas pair_defs = latency_pair_def exp_pair_def call_pair_def db_pair_def external_pair_def

text \<open>One series of a pair gets a sample, its labels are in the cache.\<close>

definition sampled ::
  "(metricKey, pmap, 'l) simplelru \<Rightarrow> (metricKey \<Rightarrow> 'hs \<Rightarrow> 'hs) \<Rightarrow> metricKey \<Rightarrow> 'hs \<times> 'l dims_cache \<Rightarrow> 'hs \<times> 'l dims_cache \<Rightarrow> bool" where
  "sampled L upd k x y \<longleftrightarrow>
     (\<exists>v. y = (upd k (fst x), lookup_or_add (Cache_Get L) (Cache_Add L) k v (snd x)))"

definition sample_exp :: "'h expo_lib \<Rightarrow> rat \<Rightarrow> metricKey \<Rightarrow> (metricKey \<times> 'h) list \<Rightarrow> (metricKey \<times> 'h) list" where
  "sample_exp lib latency key hs =
     AList.update key (expo_Update lib latency (case map_of hs key of Some h \<Rightarrow> h | None \<Rightarrow> expo_Init lib)) hs"

lemma buildMetricKey_frame:
  assumes "buildMetricKey service sp dims r p = (k, q)"
  shows "sp_setup q = sp_setup p" "latency_pair q = latency_pair p" "exp_pair q = exp_pair p"
    "call_pair q = call_pair p" "db_pair q = db_pair p" "external_pair q = external_pair p"
  using assms by (auto simp: buildMetricKey_def buildKey_def Let_def sp_setup_def pair_defs split: prod.splits)

definition maybe_sampled where
  "maybe_sampled L upd x y \<longleftrightarrow> y = x \<or> (\<exists>k. sampled L upd k x y)"

definition span_update where
  "span_update p sp = (\<lambda>k. update_series (latencyBounds p) k (span_latency sp) (ms_TraceID sp) (ms_SpanID sp))"

lemma span_update_setup: "sp_setup q = sp_setup p \<Longrightarrow> span_update q = span_update p"
  by (simp add: sp_setup_def span_update_def fun_eq_iff)

text \<open>Each cache function remembers some labels and notes some values; what they are does not matter here.\<close>

abbreviation remember where
  "remember env \<equiv> lookup_or_add (Cache_Get (dims_lru env)) (Cache_Add (dims_lru env))"

lemma remember_cases:
  assumes "f p = (case Cache_Get (dims_lru env) k (cache p) of
      (Some _, c) \<Rightarrow> put c p | (None, c) \<Rightarrow> (case build p of (dims, p) \<Rightarrow> put (snd (Cache_Add (dims_lru env) k dims c)) p))"
    and "build p = (v, p\<lparr>attrsCardinality := cs\<rparr>)"
  shows "\<exists>cs. f p = put (remember env k v (cache p)) (p\<lparr>attrsCardinality := cs\<rparr>)"
proof -
  obtain x s where g: "Cache_Get (dims_lru env) k (cache p) = (x, s)" by fastforce
  show ?thesis
  proof (cases x)
    case None
    with assms g show ?thesis by (auto simp: lookup_or_add_def)
  next
    case (Some a)
    with assms(1) g have "f p = put (remember env k v (cache p)) (p\<lparr>attrsCardinality := attrsCardinality p\<rparr>)"
      by (simp add: lookup_or_add_def)
    then show ?thesis by (rule exI)
  qed
qed

lemma buildDimensionKVs_frame: "\<exists>v cs. buildDimensionKVs service sp dims r p = (v, p\<lparr>attrsCardinality := cs\<rparr>)"
  unfolding buildDimensionKVs_def Let_def case_prod_beta by (intro exI, rule refl)

lemma buildCustomDimensionKVs_frame:
  "\<exists>v cs. buildCustomDimensionKVs service sp dims r extra p = (v, p\<lparr>attrsCardinality := cs\<rparr>)"
  unfolding buildCustomDimensionKVs_def Let_def by (intro exI, rule refl)

lemma sp_cache_eq:
  obtains v cs where "sp_cache env service sp k r p =
    p\<lparr>attrsCardinality := cs, metricKeyToDimensions := remember env k v (metricKeyToDimensions p)\<rparr>"
proof -
  obtain v cs where b: "buildDimensionKVs service sp (sp_dimensions p) r p = (v, p\<lparr>attrsCardinality := cs\<rparr>)"
    using buildDimensionKVs_frame by metis
  from remember_cases [where f = "sp_cache env service sp k r" and p = p and env = env and k = k and cache = metricKeyToDimensions
      and put = "\<lambda>c. metricKeyToDimensions_update (\<lambda>_. c)"
      and build = "buildDimensionKVs service sp (sp_dimensions p) r", OF sp_cache_def b] that
  show thesis by blast
qed

lemma expHistogramCache_eq:
  obtains v cs where "expHistogramCache env service sp k r p =
    p\<lparr>attrsCardinality := cs, expHistogramKeyToDimensions := remember env k v (expHistogramKeyToDimensions p)\<rparr>"
proof -
  obtain v cs where b: "buildDimensionKVs service sp (expDimensions p) r p = (v, p\<lparr>attrsCardinality := cs\<rparr>)"
    using buildDimensionKVs_frame by metis
  from remember_cases [where f = "expHistogramCache env service sp k r" and p = p and env = env and k = k and cache = expHistogramKeyToDimensions
      and put = "\<lambda>c. expHistogramKeyToDimensions_update (\<lambda>_. c)"
      and build = "buildDimensionKVs service sp (expDimensions p) r", OF expHistogramCache_def b] that
  show thesis by blast
qed

lemma callCache_eq:
  obtains v cs where "callCache env service sp k r p =
    p\<lparr>attrsCardinality := cs, callMetricKeyToDimensions := remember env k v (callMetricKeyToDimensions p)\<rparr>"
proof -
  obtain v cs where b: "buildDimensionKVs service sp (callDimensions p) r p = (v, p\<lparr>attrsCardinality := cs\<rparr>)"
    using buildDimensionKVs_frame by metis
  from remember_cases [where f = "callCache env service sp k r" and p = p and env = env and k = k and cache = callMetricKeyToDimensions
      and put = "\<lambda>c. callMetricKeyToDimensions_update (\<lambda>_. c)"
      and build = "buildDimensionKVs service sp (callDimensions p) r", OF callCache_def b] that
  show thesis by blast
qed

lemma dbCallCache_eq:
  obtains v cs where "dbCallCache env service sp k r p =
    p\<lparr>attrsCardinality := cs, dbCallMetricKeyToDimensions := remember env k v (dbCallMetricKeyToDimensions p)\<rparr>"
proof -
  obtain v cs where b: "buildCustomDimensionKVs service sp (dbCallDimensions p) r [] p = (v, p\<lparr>attrsCardinality := cs\<rparr>)"
    using buildCustomDimensionKVs_frame by metis
  from remember_cases [where f = "dbCallCache env service sp k r" and p = p and env = env and k = k and cache = dbCallMetricKeyToDimensions
      and put = "\<lambda>c. dbCallMetricKeyToDimensions_update (\<lambda>_. c)"
      and build = "buildCustomDimensionKVs service sp (dbCallDimensions p) r []", OF dbCallCache_def b] that
  show thesis by blast
qed

lemma externalCallCache_eq:
  obtains v cs where "externalCallCache env service sp k r extra p =
    p\<lparr>attrsCardinality := cs, externalCallMetricKeyToDimensions := remember env k v (externalCallMetricKeyToDimensions p)\<rparr>"
proof -
  obtain v cs where b: "buildCustomDimensionKVs service sp (externalCallDimensions p) r extra p = (v, p\<lparr>attrsCardinality := cs\<rparr>)"
    using buildCustomDimensionKVs_frame by metis
  from remember_cases [where f = "externalCallCache env service sp k r extra" and p = p and env = env and k = k and cache = externalCallMetricKeyToDimensions
      and put = "\<lambda>c. externalCallMetricKeyToDimensions_update (\<lambda>_. c)"
      and build = "buildCustomDimensionKVs service sp (externalCallDimensions p) r extra", OF externalCallCache_def b] that
  show thesis by blast
qed

lemma sampledI: "y = (upd k hs, lookup_or_add (Cache_Get L) (Cache_Add L) k v c) \<Longrightarrow> sampled L upd k (hs, c) y"
  by (auto simp: sampled_def)

lemma aggregate_latency_effect:
  assumes "q = aggregate_latency env service sp r p"
  shows "sp_setup q = sp_setup p \<and> (\<exists>k. sampled (dims_lru env) (span_update p sp) k (latency_pair p) (latency_pair q)) \<and>
    exp_pair q = exp_pair p \<and> call_pair q = call_pair p \<and> db_pair q = db_pair p \<and> external_pair q = external_pair p"
proof -
  obtain key p1 where b: "buildMetricKey service sp (sp_dimensions p) r p = (key, p1)" by fastforce
  obtain v cs where "sp_cache env service sp key r p1 =
    p1\<lparr>attrsCardinality := cs, metricKeyToDimensions := remember env key v (metricKeyToDimensions p1)\<rparr>" by (rule sp_cache_eq)
  then have "sp_setup q = sp_setup p1 \<and>
      latency_pair q = (span_update p1 sp key (histograms p1), remember env key v (metricKeyToDimensions p1)) \<and>
      exp_pair q = exp_pair p1 \<and> call_pair q = call_pair p1 \<and> db_pair q = db_pair p1 \<and> external_pair q = external_pair p1"
    using assms by (simp add: aggregate_latency_def b updateHistogram_def sp_setup_def pair_defs span_update_def)
  with buildMetricKey_frame [OF b] sampledI [of _ _ key "histograms p1"] show ?thesis
    by (metis latency_pair_def span_update_setup)
qed

lemma aggregate_calls_effect:
  assumes "q = aggregate_calls env service sp r p"
  shows "sp_setup q = sp_setup p \<and> (\<exists>k. sampled (dims_lru env) (span_update p sp) k (call_pair p) (call_pair q)) \<and>
    latency_pair q = latency_pair p \<and> exp_pair q = exp_pair p \<and> db_pair q = db_pair p \<and> external_pair q = external_pair p"
proof -
  obtain key p1 where b: "buildMetricKey service sp (callDimensions p) r p = (key, p1)" by fastforce
  obtain v cs where "callCache env service sp key r p1 =
    p1\<lparr>attrsCardinality := cs, callMetricKeyToDimensions := remember env key v (callMetricKeyToDimensions p1)\<rparr>" by (rule callCache_eq)
  then have "sp_setup q = sp_setup p1 \<and>
      call_pair q = (span_update p1 sp key (callHistograms p1), remember env key v (callMetricKeyToDimensions p1)) \<and>
      latency_pair q = latency_pair p1 \<and> exp_pair q = exp_pair p1 \<and> db_pair q = db_pair p1 \<and> external_pair q = external_pair p1"
    using assms by (simp add: aggregate_calls_def b updateCallHistogram_def sp_setup_def pair_defs span_update_def)
  with buildMetricKey_frame [OF b] sampledI [of _ _ key "callHistograms p1"] show ?thesis
    by (metis call_pair_def span_update_setup)
qed

lemma aggregate_exp_effect:
  assumes "q = aggregate_exp env service sp r p"
  shows "sp_setup q = sp_setup p \<and>
    maybe_sampled (dims_lru env) (sample_exp (expo env) (span_latency sp)) (exp_pair p) (exp_pair q) \<and>
    latency_pair q = latency_pair p \<and> call_pair q = call_pair p \<and> db_pair q = db_pair p \<and> external_pair q = external_pair p"
proof (cases "EnableExpHistogram (sp_config p)")
  case True
  obtain key p1 where b: "buildMetricKey service sp (expDimensions p) r p = (key, p1)" by fastforce
  obtain v cs where "expHistogramCache env service sp key r p1 =
    p1\<lparr>attrsCardinality := cs, expHistogramKeyToDimensions := remember env key v (expHistogramKeyToDimensions p1)\<rparr>"
    by (rule expHistogramCache_eq)
  then have "sp_setup q = sp_setup p1 \<and>
      exp_pair q = (sample_exp (expo env) (span_latency sp) key (expHistograms p1),
        remember env key v (expHistogramKeyToDimensions p1)) \<and>
      latency_pair q = latency_pair p1 \<and> call_pair q = call_pair p1 \<and> db_pair q = db_pair p1 \<and> external_pair q = external_pair p1"
    using assms True by (simp add: aggregate_exp_def b updateExpHistogram_def sample_exp_def sp_setup_def pair_defs)
  with buildMetricKey_frame [OF b] sampledI [of _ _ key "expHistograms p1"] show ?thesis
    by (metis exp_pair_def maybe_sampled_def)
qed (use assms in \<open>simp add: aggregate_exp_def maybe_sampled_def\<close>)

lemma aggregate_external_effect:
  assumes "q = aggregate_external env service sp r p"
  shows "sp_setup q = sp_setup p \<and> maybe_sampled (dims_lru env) (span_update p sp) (external_pair p) (external_pair q) \<and>
    latency_pair q = latency_pair p \<and> exp_pair q = exp_pair p \<and> call_pair q = call_pair p \<and> db_pair q = db_pair p"
proof (cases "getRemoteAddress (url_Host env) sp \<noteq> None \<and> ms_Kind sp = SpanKindClient")
  case True
  then obtain addr where a: "getRemoteAddress (url_Host env) sp = Some addr" by auto
  let ?key = "buildCustomMetricKey service sp (externalCallDimensions p) r [addr] p"
  obtain v cs where "externalCallCache env service sp ?key r [(''address'', StrValue addr)] p =
    p\<lparr>attrsCardinality := cs, externalCallMetricKeyToDimensions := remember env ?key v (externalCallMetricKeyToDimensions p)\<rparr>"
    by (rule externalCallCache_eq)
  then have "sp_setup q = sp_setup p \<and>
      external_pair q = (span_update p sp ?key (externalCallHistograms p), remember env ?key v (externalCallMetricKeyToDimensions p)) \<and>
      latency_pair q = latency_pair p \<and> exp_pair q = exp_pair p \<and> call_pair q = call_pair p \<and> db_pair q = db_pair p"
    using assms True a
    by (simp add: aggregate_external_def updateExternalHistogram_def sp_setup_def pair_defs span_update_def Let_def)
  with sampledI [of _ _ ?key "externalCallHistograms p"] show ?thesis by (metis external_pair_def maybe_sampled_def)
qed (use assms in \<open>auto simp: aggregate_external_def maybe_sampled_def split: option.splits\<close>)

lemma aggregate_db_effect:
  assumes "q = aggregate_db env service sp r p"
  shows "sp_setup q = sp_setup p \<and> maybe_sampled (dims_lru env) (span_update p sp) (db_pair p) (db_pair q) \<and>
    latency_pair q = latency_pair p \<and> exp_pair q = exp_pair p \<and> call_pair q = call_pair p \<and> external_pair q = external_pair p"
proof (cases "ms_Kind sp \<noteq> SpanKindServer \<and> map_of (ms_Attributes sp) ''db.system'' \<noteq> None")
  case True
  let ?key = "buildCustomMetricKey service sp (dbCallDimensions p) r [] p"
  obtain v cs where "dbCallCache env service sp ?key r p =
    p\<lparr>attrsCardinality := cs, dbCallMetricKeyToDimensions := remember env ?key v (dbCallMetricKeyToDimensions p)\<rparr>"
    by (rule dbCallCache_eq)
  then have "sp_setup q = sp_setup p \<and>
      db_pair q = (span_update p sp ?key (dbCallHistograms p), remember env ?key v (dbCallMetricKeyToDimensions p)) \<and>
      latency_pair q = latency_pair p \<and> exp_pair q = exp_pair p \<and> call_pair q = call_pair p \<and> external_pair q = external_pair p"
    using assms True by (auto simp: aggregate_db_def updateDBHistogram_def sp_setup_def pair_defs span_update_def Let_def)
  with sampledI [of _ _ ?key "dbCallHistograms p"] show ?thesis by (metis db_pair_def maybe_sampled_def)
qed (use assms in \<open>auto simp: aggregate_db_def maybe_sampled_def\<close>)

text \<open>The two guards of the aggregation depend on the setup only.\<close>

definition skips ::
  "('l, 'h) metrics_env \<Rightarrow> ('l, 'h) processorImp \<Rightarrow> instant \<Rightarrow> string \<Rightarrow> mspan \<Rightarrow> pmap \<Rightarrow> bool" where
  "skips env p now service sp r \<longleftrightarrow> stale (sp_config p) now sp \<or> shouldSkip env service sp r p"

lemma skips_setup: "sp_setup q = sp_setup p \<Longrightarrow> skips env q now service sp r = skips env p now service sp r"
  by (simp add: skips_def sp_setup_def shouldSkip_def)

lemma aggregate_span_effect:
  assumes live: "\<not> skips env p now service sp r" and q: "q = aggregateMetricsForSpan env now service sp r p"
  shows "sp_setup q = sp_setup p \<and>
    (\<exists>k. sampled (dims_lru env) (span_update p sp) k (latency_pair p) (latency_pair q)) \<and>
    maybe_sampled (dims_lru env) (sample_exp (expo env) (span_latency sp)) (exp_pair p) (exp_pair q) \<and>
    (\<exists>k. sampled (dims_lru env) (span_update p sp) k (call_pair p) (call_pair q)) \<and>
    maybe_sampled (dims_lru env) (span_update p sp) (external_pair p) (external_pair q) \<and>
    maybe_sampled (dims_lru env) (span_update p sp) (db_pair p) (db_pair q)"
proof -
  obtain p1 where p1: "p1 = aggregate_latency env service sp r p" by blast
  obtain p2 where p2: "p2 = aggregate_exp env service sp r p1" by blast
  obtain p3 where p3: "p3 = aggregate_calls env service sp r p2" by blast
  obtain p4 where p4: "p4 = aggregate_external env service sp r p3" by blast
  have q': "q = aggregate_db env service sp r p4"
    using live unfolding q aggregateMetricsForSpan_def skips_def by (simp add: Let_def p1 p2 p3 p4)
  note e = aggregate_latency_effect [OF p1] aggregate_exp_effect [OF p2] aggregate_calls_effect [OF p3]
    aggregate_external_effect [OF p4] aggregate_db_effect [OF q']
  then have "sp_setup p2 = sp_setup p" "sp_setup p3 = sp_setup p" "sp_setup p4 = sp_setup p" by simp_all
  note u = this [THEN span_update_setup]
  from e show ?thesis by (simp add: u)
qed

lemma aggregate_span_skipped: "skips env p now service sp r \<Longrightarrow> aggregateMetricsForSpan env now service sp r p = p"
  by (auto simp: skips_def aggregateMetricsForSpan_def)


section \<open>Histograms are consistent\<close>

lemma search_floats_range: "i \<le> j \<Longrightarrow> i \<le> search_floats a x i j \<and> search_floats a x i j \<le> j"
proof (induction a x i j rule: search_floats.induct)
  case (1 a x i j)
  let ?h = "(i + j) div 2"
  show ?case
  proof (cases "i < j")
    case True
    then have h: "i \<le> ?h" "?h < j" by auto
    from "1.IH" [OF True refl] h show ?thesis
      by (subst (1 2) search_floats.simps) (auto simp: Let_def True intro: le_trans)
  next
    case False
    with "1.prems" show ?thesis by (subst (1 2) search_floats.simps) simp
  qed
qed

lemma SearchFloat64s_range: "SearchFloat64s a x \<le> length a"
  using search_floats_range [of 0 "length a"] by (simp add: SearchFloat64s_def)

lemma search_floats_sorted:
  "sorted a \<Longrightarrow> i \<le> j \<Longrightarrow> j \<le> length a \<Longrightarrow> \<forall>m<i. a ! m < x \<Longrightarrow> \<forall>m. j \<le> m \<and> m < length a \<longrightarrow> x \<le> a ! m \<Longrightarrow>
    (\<forall>m < search_floats a x i j. a ! m < x) \<and>
    (\<forall>m. search_floats a x i j \<le> m \<and> m < length a \<longrightarrow> x \<le> a ! m)"
proof (induction a x i j rule: search_floats.induct)
  case (1 a x i j)
  let ?h = "(i + j) div 2"
  show ?case
  proof (cases "i < j")
    case True
    then have h: "i \<le> ?h" "?h < j" "?h < length a" using "1.prems" by auto
    show ?thesis
    proof (cases "x \<le> a ! ?h")
      case le: True
      then have "\<forall>m. ?h \<le> m \<and> m < length a \<longrightarrow> x \<le> a ! m"
        using "1.prems"(1) by (meson sorted_nth_mono order_trans)
      note up = this
      have "search_floats a x i j = search_floats a x i ?h"
        using True le by (subst search_floats.simps) (simp add: Let_def)
      moreover have "(\<forall>m < search_floats a x i ?h. a ! m < x) \<and>
          (\<forall>m. search_floats a x i ?h \<le> m \<and> m < length a \<longrightarrow> x \<le> a ! m)"
        by (rule "1.IH"(2) [OF True refl]) (use le up "1.prems"(1,4) h in auto)
      ultimately show ?thesis by simp
    next
      case gt: False
      then have "a ! m < x" if "m < ?h + 1" for m
      proof -
        have "a ! m \<le> a ! ?h" using "1.prems"(1) that h by (intro sorted_nth_mono) auto
        with gt show ?thesis by simp
      qed
      note low = this
      have "search_floats a x i j = search_floats a x (?h + 1) j"
        using True gt by (subst search_floats.simps) (simp add: Let_def)
      moreover have "(\<forall>m < search_floats a x (?h + 1) j. a ! m < x) \<and>
          (\<forall>m. search_floats a x (?h + 1) j \<le> m \<and> m < length a \<longrightarrow> x \<le> a ! m)"
        by (rule "1.IH"(1) [OF True refl gt]) (use low "1.prems"(1,3,5) h in auto)
      ultimately show ?thesis by simp
    qed
  next
    case False
    then have "search_floats a x i j = i" by (subst search_floats.simps) simp
    with False "1.prems" show ?thesis by auto
  qed
qed

definition consistent :: "rat list \<Rightarrow> histogramData \<Rightarrow> bool" where
  "consistent bounds h \<longleftrightarrow> length (bucketCounts h) = length bounds + 1 \<and> sum_list (bucketCounts h) = hd_count h"

lemma sum_list_increment:
  "i < length xs \<Longrightarrow> sum_list (xs[i := xs ! i + 1]) = sum_list xs + (1 :: 'a :: comm_ring_1)"
proof (induction xs arbitrary: i)
  case (Cons y ys)
  then show ?case by (cases i) (simp_all add: algebra_simps)
qed simp

lemma consistent_observe: "consistent bounds h \<Longrightarrow> consistent bounds (observe bounds x t s h)"
  using SearchFloat64s_range [of bounds x] by (simp add: consistent_def observe_def Let_def sum_list_increment)

lemma consistent_new: "consistent bounds (new_histogram bounds)"
  by (simp add: consistent_def new_histogram_def sum_list_replicate)

definition all_consistent :: "rat list \<Rightarrow> series \<Rightarrow> bool" where
  "all_consistent bounds hs \<longleftrightarrow> (\<forall>(k, h) \<in> set hs. consistent bounds h)"

lemma set_AList_update: "set (AList.update k v xs) \<subseteq> insert (k, v) (set xs)"
  by (induction xs) auto

lemma all_consistent_update_series:
  assumes "all_consistent bounds hs"
  shows "all_consistent bounds (update_series bounds k x t s hs)"
proof -
  let ?h = "case map_of hs k of Some h \<Rightarrow> h | None \<Rightarrow> new_histogram bounds"
  have "consistent bounds ?h"
    using assms consistent_new map_of_SomeD by (fastforce simp: all_consistent_def split: option.split)
  then have "consistent bounds (observe bounds x t s ?h)" by (rule consistent_observe)
  with assms set_AList_update show ?thesis
    unfolding all_consistent_def update_series_def Let_def by fastforce
qed

section \<open>Samples are counted\<close>

text \<open>The samples in all series of a kind, as the 64-bit counters add up.\<close>

definition total :: "series \<Rightarrow> uint64" where
  "total hs = sum_list (map (hd_count \<circ> snd) hs)"

lemma total_update:
  "distinct (map fst hs) \<Longrightarrow>
    total (AList.update k h hs) + (case map_of hs k of Some h' \<Rightarrow> hd_count h' | None \<Rightarrow> 0) = total hs + hd_count h"
proof (induction hs)
  case (Cons x hs)
  obtain k' h' where x: "x = (k', h')" by fastforce
  show ?case
  proof (cases "k' = k")
    case True
    with x show ?thesis by (simp add: total_def)
  next
    case False
    with x Cons show ?thesis by (simp add: total_def algebra_simps)
  qed
qed (simp add: total_def)

lemma total_update_series:
  assumes "distinct (map fst hs)"
  shows "total (update_series bounds k x t s hs) = total hs + 1"
  using total_update [OF assms, of k "observe bounds x t s (case map_of hs k of Some h \<Rightarrow> h | None \<Rightarrow> new_histogram bounds)"]
  by (simp add: update_series_def Let_def observe_def new_histogram_def split: option.splits)

section \<open>The invariant of the processor\<close>

text \<open>Every series has its labels in the cache.\<close>

definition labelled ::
  "(metricKey, pmap, 'l) simplelru \<Rightarrow> ('l \<Rightarrow> metricKey \<Rightarrow> pmap option) \<Rightarrow> ('l \<Rightarrow> nat) \<Rightarrow> nat
     \<Rightarrow> (metricKey \<times> 'x) list \<times> 'l dims_cache \<Rightarrow> bool" where
  "labelled L contents cap n x \<longleftrightarrow> (case x of (hs, c) \<Rightarrow>
     cache_ok L contents cap n c \<and> distinct (map fst hs) \<and> set (map fst hs) \<subseteq> dom (cache_view contents c))"

lemma labelled_sampled:
  assumes "labelled L contents cap n x" "sampled L upd k x y"
    and "\<And>hs. \<exists>h. upd k hs = AList.update k h hs"
  shows "labelled L contents cap n y"
proof -
  obtain hs c where x: "x = (hs, c)" by fastforce
  obtain h where h: "upd k hs = AList.update k h hs" using assms(3) by blast
  from assms(2) x h obtain v where y: "y = (AList.update k h hs, lookup_or_add (Cache_Get L) (Cache_Add L) k v c)"
    by (auto simp: sampled_def)
  from assms(1) x have c: "cache_ok L contents cap n c" "distinct (map fst hs)" "set (map fst hs) \<subseteq> dom (cache_view contents c)"
    by (simp_all add: labelled_def)
  from span_cache.lookup_or_add_dom [OF c(1)] span_cache.lookup_or_add_ok [OF c(1)] c
  show ?thesis by (auto simp: labelled_def y AList.distinct_update AList.dom_update)
qed

lemma labelled_maybe_sampled:
  "labelled L contents cap n x \<Longrightarrow> maybe_sampled L upd x y \<Longrightarrow> (\<And>k hs. \<exists>h. upd k hs = AList.update k h hs) \<Longrightarrow>
    labelled L contents cap n y"
  by (auto simp: maybe_sampled_def intro: labelled_sampled)

lemma span_update_update: "\<exists>h. span_update p sp k hs = AList.update k h hs"
  by (auto simp: span_update_def update_series_def Let_def)

lemma sample_exp_update: "\<exists>h. sample_exp lib x k hs = AList.update k h hs"
  by (auto simp: sample_exp_def)

definition span_inv ::
  "('l, 'h) metrics_env \<Rightarrow> ('l \<Rightarrow> metricKey \<Rightarrow> pmap option) \<Rightarrow> ('l \<Rightarrow> nat) \<Rightarrow> nat \<Rightarrow> ('l, 'h) processorImp \<Rightarrow> bool" where
  "span_inv env contents cap n p \<longleftrightarrow>
     labelled (dims_lru env) contents cap n (latency_pair p) \<and> labelled (dims_lru env) contents cap n (exp_pair p) \<and>
     labelled (dims_lru env) contents cap n (call_pair p) \<and> labelled (dims_lru env) contents cap n (db_pair p) \<and>
     labelled (dims_lru env) contents cap n (external_pair p) \<and>
     (\<forall>x \<in> {latency_pair p, call_pair p, db_pair p, external_pair p}. all_consistent (latencyBounds p) (fst x))"

lemma all_consistent_sampled:
  "all_consistent (latencyBounds p) (fst x) \<Longrightarrow> sampled L (span_update p sp) k x y \<Longrightarrow> all_consistent (latencyBounds p) (fst y)"
  by (auto simp: sampled_def span_update_def all_consistent_update_series)

lemma span_inv_aggregate_span [inv_intros]:
  assumes inv: "span_inv env contents cap n p"
  shows "span_inv env contents cap n (aggregateMetricsForSpan env now service sp r p)"
proof (cases "skips env p now service sp r")
  case True
  with inv show ?thesis by (simp add: aggregate_span_skipped)
next
  case False
  obtain q where q: "q = aggregateMetricsForSpan env now service sp r p" by blast
  from aggregate_span_effect [OF False q]
  obtain k k' where e: "sp_setup q = sp_setup p"
    "sampled (dims_lru env) (span_update p sp) k (latency_pair p) (latency_pair q)"
    "sampled (dims_lru env) (span_update p sp) k' (call_pair p) (call_pair q)"
    "maybe_sampled (dims_lru env) (sample_exp (expo env) (span_latency sp)) (exp_pair p) (exp_pair q)"
    "maybe_sampled (dims_lru env) (span_update p sp) (external_pair p) (external_pair q)"
    "maybe_sampled (dims_lru env) (span_update p sp) (db_pair p) (db_pair q)" by blast
  note I = inv [unfolded span_inv_def]
  have "labelled (dims_lru env) contents cap n (latency_pair q)"
    using I e(2) by (blast intro: labelled_sampled span_update_update)
  moreover have "labelled (dims_lru env) contents cap n (call_pair q)"
    using I e(3) by (blast intro: labelled_sampled span_update_update)
  moreover have "labelled (dims_lru env) contents cap n (exp_pair q)"
    using I e(4) by (blast intro: labelled_maybe_sampled sample_exp_update)
  moreover have "labelled (dims_lru env) contents cap n (external_pair q)"
    using I e(5) by (blast intro: labelled_maybe_sampled span_update_update)
  moreover have "labelled (dims_lru env) contents cap n (db_pair q)"
    using I e(6) by (blast intro: labelled_maybe_sampled span_update_update)
  moreover have "latencyBounds q = latencyBounds p" using e(1) by (simp add: sp_setup_def)
  moreover have "\<forall>x \<in> {latency_pair q, call_pair q, db_pair q, external_pair q}. all_consistent (latencyBounds p) (fst x)"
    using I e all_consistent_sampled unfolding maybe_sampled_def by (metis insert_iff singletonD)
  ultimately show ?thesis unfolding span_inv_def q by simp
qed


section \<open>Batches of traces\<close>

text \<open>The spans of a batch in the order they are aggregated, with their service and the attributes of
  their resource; resources without a service name are passed over.\<close>

definition spans_of :: "string \<Rightarrow> mresource list \<Rightarrow> (string \<times> pmap \<times> mspan) list" where
  "spans_of instance_id traces = concat (map (\<lambda>r.
     case map_of (mr_Attributes r) serviceNameKey of
       None \<Rightarrow> []
     | Some v \<Rightarrow> map (\<lambda>sp. (Value_AsStr v, put_instance instance_id (mr_Attributes r), sp)) (concat (mr_Scopes r))) traces)"

definition stamped :: "string \<Rightarrow> mresource \<Rightarrow> mresource" where
  "stamped instance_id r =
     (if map_of (mr_Attributes r) serviceNameKey = None then r
      else r\<lparr>mr_Attributes := put_instance instance_id (mr_Attributes r)\<rparr>)"

definition aggregate_one where
  "aggregate_one env now = (\<lambda>(i, service, r, sp). aggregateMetricsForSpan env (now i) service sp r)"

lemma aggregate_spans_fold:
  "aggregate_spans env now service r i sps p =
    (i + length sps, fold (aggregate_one env now) (List.enumerate i (map (\<lambda>sp. (service, r, sp)) sps)) p)"
  by (induction sps arbitrary: i p) (simp_all add: aggregate_one_def)

lemma aggregate_scopes_fold:
  "aggregate_scopes env now service r i scopes p =
    (i + length (concat scopes), fold (aggregate_one env now) (List.enumerate i (map (\<lambda>sp. (service, r, sp)) (concat scopes))) p)"
  by (induction scopes arbitrary: i p) (simp_all add: aggregate_spans_fold enumerate_append_eq)

lemma aggregate_span_setup: "sp_setup (aggregateMetricsForSpan env now service sp r p) = sp_setup p"
  using aggregate_span_effect [OF _ refl] aggregate_span_skipped by (metis (no_types, lifting))

lemma aggregate_fold_setup: "sp_setup (fold (aggregate_one env now) xs p) = sp_setup p"
  by (induction xs arbitrary: p) (auto simp: aggregate_one_def aggregate_span_setup)

lemma instanceID_setup: "sp_setup q = sp_setup p \<Longrightarrow> instanceID q = instanceID p"
  by (simp add: sp_setup_def)

lemma aggregate_resources_fold:
  "aggregate_resources env now i traces p =
    (map (stamped (instanceID p)) traces,
     fold (aggregate_one env now) (List.enumerate i (spans_of (instanceID p) traces)) p)"
proof (induction traces arbitrary: i p)
  case (Cons r traces)
  show ?case
  proof (cases "map_of (mr_Attributes r) serviceNameKey")
    case None
    with Cons.IH show ?thesis by (simp add: stamped_def spans_of_def)
  next
    case (Some v)
    let ?a = "put_instance (instanceID p) (mr_Attributes r)"
    let ?sps = "map (\<lambda>sp. (Value_AsStr v, ?a, sp)) (concat (mr_Scopes r))"
    let ?q = "fold (aggregate_one env now) (List.enumerate i ?sps) p"
    have "instanceID ?q = instanceID p" by (rule instanceID_setup [OF aggregate_fold_setup])
    note ih = Cons.IH [of "i + length (concat (mr_Scopes r))" ?q, unfolded this]
    with Some show ?thesis
      by (simp add: aggregate_scopes_fold stamped_def spans_of_def enumerate_append_eq Let_def)
  qed
qed (simp add: spans_of_def)

text \<open>Which spans of a batch are not skipped.\<close>

definition live_spans where
  "live_spans env now p traces =
     filter (\<lambda>(i, service, r, sp). \<not> skips env p (now i) service sp r) (List.enumerate 0 (spans_of (instanceID p) traces))"

lemma total_sampled:
  assumes "labelled L contents cap n x" "sampled L (span_update p sp) k x y"
  shows "total (fst y) = total (fst x) + 1"
  using assms by (auto simp: sampled_def span_update_def labelled_def total_update_series)

lemma aggregate_span_counts:
  fixes env :: "('l, 'h) metrics_env" and now :: instant and service :: string and sp :: mspan and r :: pmap
  assumes inv: "span_inv env contents cap n p"
  defines "q \<equiv> aggregateMetricsForSpan env now service sp r p"
    and "one \<equiv> (if skips env p now service sp r then 0 else 1)"
  shows "total (histograms q) = total (histograms p) + one \<and> total (callHistograms q) = total (callHistograms p) + one"
proof (cases "skips env p now service sp r")
  case True
  then show ?thesis by (simp add: q_def one_def aggregate_span_skipped)
next
  case False
  from aggregate_span_effect [OF False q_def [THEN meta_eq_to_obj_eq]]
  obtain k k' where "sampled (dims_lru env) (span_update p sp) k (latency_pair p) (latency_pair q)"
    "sampled (dims_lru env) (span_update p sp) k' (call_pair p) (call_pair q)" by blast
  with inv have "total (fst (latency_pair q)) = total (fst (latency_pair p)) + 1"
    "total (fst (call_pair q)) = total (fst (call_pair p)) + 1"
    unfolding span_inv_def by (blast intro: total_sampled)+
  with False show ?thesis by (simp add: one_def pair_defs)
qed

lemma aggregate_fold_counts:
  fixes env :: "('l, 'h) metrics_env" and now :: "nat \<Rightarrow> instant" and xs :: "(nat \<times> string \<times> pmap \<times> mspan) list"
  assumes "span_inv env contents cap n p" "sp_setup p = sp_setup p0"
  defines "q \<equiv> fold (aggregate_one env now) xs p"
    and "live \<equiv> filter (\<lambda>(i, service, r, sp). \<not> skips env p0 (now i) service sp r) xs"
  shows "span_inv env contents cap n q \<and>
    total (histograms q) = total (histograms p) + of_nat (length live) \<and>
    total (callHistograms q) = total (callHistograms p) + of_nat (length live)"
  using assms(1,2) unfolding q_def live_def
proof (induction xs arbitrary: p)
  case (Cons x xs)
  obtain i service r sp where x: "x = (i, service, r, sp)" by (metis prod_cases4)
  let ?p = "aggregateMetricsForSpan env (now i) service sp r p"
  have "skips env p (now i) service sp r = skips env p0 (now i) service sp r" by (rule skips_setup [OF Cons.prems(2)])
  moreover have "sp_setup ?p = sp_setup p0" using Cons.prems(2) by (simp add: aggregate_span_setup)
  note Cons.IH [OF span_inv_aggregate_span [OF Cons.prems(1)] this]
  ultimately show ?case
    using aggregate_span_counts [OF Cons.prems(1), of "now i" service sp r] x by (simp add: aggregate_one_def)
qed simp

lemma spans_counted_once':
  assumes "span_inv env contents cap n p"
    and "spanmetrics_ConsumeTraces env now next_traces traces p = (traces', err, q)"
  shows "total (histograms q) = total (histograms p) + of_nat (length (live_spans env now p traces)) \<and>
    total (callHistograms q) = total (callHistograms p) + of_nat (length (live_spans env now p traces)) \<and>
    span_inv env contents cap n q \<and> sp_setup q = sp_setup p \<and>
    traces' = map (stamped (instanceID p)) traces \<and> err = next_traces traces'"
  using assms aggregate_fold_counts [OF assms(1) refl, of now "List.enumerate 0 (spans_of (instanceID p) traces)"]
  by (auto simp: spanmetrics_ConsumeTraces_def aggregateMetrics_def aggregate_resources_fold live_spans_def aggregate_fold_setup)

text \<open>Every span is counted once. Aggregating a batch adds to the counters of the latency series, and
  to those of the call series, exactly one for every span whose resource names a service and that is
  neither stale nor excluded, whatever the caches evict on the way; the invariant of the processor is
  kept. The batch handed on is the batch received with the id of the collector put on the resources
  that name a service.\<close>

theorem spans_counted_once:
  assumes "span_inv env contents cap n p"
    and "spanmetrics_ConsumeTraces env now next_traces traces p = (traces', err, q)"
  shows "total (histograms q) = total (histograms p) + of_nat (length (live_spans env now p traces)) \<and>
    total (callHistograms q) = total (callHistograms p) + of_nat (length (live_spans env now p traces)) \<and>
    span_inv env contents cap n q \<and>
    traces' = map (stamped (instanceID p)) traces \<and> err = next_traces traces'"
  using spans_counted_once' [OF assms] by simp

section \<open>A new processor\<close>

lemma newProcessor_inv:
  assumes "lru_promises (dims_lru env) contents cap" "newProcessor env instance_id now config = Done (Inr p)"
  shows "span_inv env contents cap (nat (DimensionsCacheSize config)) p \<and> 0 < DimensionsCacheSize config \<and>
    histograms p = [] \<and> callHistograms p = [] \<and> dbCallHistograms p = [] \<and> externalCallHistograms p = [] \<and>
    expHistograms p = [] \<and> serviceToOperations p = [] \<and> instanceID p = instance_id"
proof -
  let ?cfg = "if TimeBucketInterval config = 0 then config\<lparr>TimeBucketInterval := defaultTimeBucketInterval\<rparr> else config"
  have size: "DimensionsCacheSize ?cfg = DimensionsCacheSize config" by simp
  from assms(2) obtain c where c: "NewCache (dims_lru env) (DimensionsCacheSize config) = Inr c" "0 < DimensionsCacheSize config"
    and p: "latency_pair p = ([], c)" "exp_pair p = ([], c)" "call_pair p = ([], c)" "db_pair p = ([], c)"
      "external_pair p = ([], c)" "serviceToOperations p = []" "instanceID p = instance_id"
    unfolding newProcessor_def Let_def size
    by (auto simp: bind_outcome_Done pair_defs split: option.splits if_splits sum.splits)
  from NewCache_ok [OF assms(1) c(1)] p c(2) show ?thesis
    by (simp add: span_inv_def labelled_def all_consistent_def pair_defs)
qed

lemma newProcessor_config:
  "newProcessor env instance_id now config = Done (Inr p) \<Longrightarrow>
    AggregationTemporality (sp_config p) = AggregationTemporality config \<and>
    GetTimeBucketInterval (sp_config p) = GetTimeBucketInterval config"
  unfolding newProcessor_def Let_def
  by (auto simp: bind_outcome_Done GetTimeBucketInterval_def split: option.splits if_splits sum.splits)

end
