(* ===== verification/SpanExport.thy ===== *)
theory SpanExport
  imports SpanAggregate
begin

text \<open>
  The span metrics processor, third part: from series to metrics. The five collect functions,
  \<^verbatim>\<open>buildMetrics\<close> with its clean-up, the export on a tick, the start and the shutdown. The
  order in which Go iterates over a map and the clock are arguments: \<open>order\<close> permutes the keys of
  the map collected for a metric, \<open>now\<close> is the time read for a key. A loop that fails drops the
  points built before, so a collect function first reads the labels of all keys.
\<close>

section \<open>Data points\<close>

datatype exemplar = EmptyExemplar | Exemplar rat uint64 "byte list" "byte list"

datatype number = IntValue int | DoubleValue rat

record number_point =
  np_start :: uint64
  np_time :: uint64
  np_value :: number
  np_attributes :: pmap

record histogram_point =
  hp_start :: uint64
  hp_time :: uint64
  hp_bounds :: "rat list"
  hp_buckets :: "uint64 list"
  hp_count :: uint64
  hp_sum :: rat
  hp_exemplars :: "exemplar list"
  hp_attributes :: pmap

record exp_point =
  ep_start :: uint64
  ep_time :: uint64
  ep_count :: uint64
  ep_sum :: rat
  ep_min_max :: "(rat \<times> rat) option"
  ep_zero_count :: uint64
  ep_scale :: int
  ep_positive :: expo_buckets
  ep_negative :: expo_buckets
  ep_attributes :: pmap

datatype metric_data =
    MetricHistogram temporality "histogram_point list"
  | MetricSum bool temporality "number_point list"
  | MetricExponentialHistogram temporality "exp_point list"

record metric =
  metric_name :: string
  metric_unit :: string
  metric_data :: metric_data

section \<open>Times of a key\<close>

text \<open>\<^verbatim>\<open>strconv.ParseInt(s, 10, 64)\<close>.\<close>

fun digits_value :: "nat \<Rightarrow> string \<Rightarrow> nat option" where
  "digits_value acc [] = Some acc"
| "digits_value acc (c # cs) =
     (let d = (of_char c :: nat) in if 48 \<le> d \<and> d \<le> 57 then digits_value (10 * acc + (d - 48)) cs else None)"

definition ParseInt :: "string \<Rightarrow> int option" where
  "ParseInt s =
     (let neg = (s \<noteq> [] \<and> hd s = CHR ''-'');
          ds = (if s \<noteq> [] \<and> (hd s = CHR ''-'' \<or> hd s = CHR ''+'') then tl s else s)
      in if ds = [] then None
         else case digits_value 0 ds of
           None \<Rightarrow> None
         | Some n \<Rightarrow> (let v = (if neg then - int n else int n) in if int64_range v then Some v else None))"

definition parseTimesFromKeyOrNow :: "metricKey \<Rightarrow> instant \<Rightarrow> uint64 \<Rightarrow> uint64 \<times> uint64" where
  "parseTimesFromKeyOrNow k now processorStartTime =
     (let prefix = takeWhile (\<lambda>c. c \<noteq> CHR 0x00) k
      in if prefix = [] \<or> prefix = k then (processorStartTime, NewTimestampFromTime now)
         else case ParseInt prefix of
           None \<Rightarrow> (processorStartTime, NewTimestampFromTime now)
         | Some u \<Rightarrow> (let bucketStart = u * 10 ^ 9
                     in (NewTimestampFromTime bucketStart, NewTimestampFromTime bucketStart)))"

section \<open>Collecting\<close>

datatype export_error = DimensionsNotFound string metricKey

type_synonym range_order = "string \<Rightarrow> metricKey list \<Rightarrow> metricKey list"
type_synonym export_clock = "string \<Rightarrow> metricKey \<Rightarrow> instant"

text \<open>The entries of a map in the order of the iteration.\<close>

definition ranged :: "(metricKey list \<Rightarrow> metricKey list) \<Rightarrow> (metricKey \<times> 'x) list \<Rightarrow> (metricKey \<times> 'x) list" where
  "ranged order_keys hs = List.map_filter (\<lambda>k. map_option (Pair k) (map_of hs k)) (order_keys (map fst hs))"

text \<open>A trace id is empty when all its bytes are zero; its exemplar stays empty.\<close>

definition setExemplars :: "exemplarData list \<Rightarrow> uint64 \<Rightarrow> exemplar list" where
  "setExemplars exs timestamp = map (\<lambda>ed.
     if list_all (\<lambda>b. b = 0) (ex_traceID ed) then EmptyExemplar
     else Exemplar (ex_value ed) timestamp (ex_traceID ed) (ex_spanID ed)) exs"

definition latency_point ::
  "('l, 'h) processorImp \<Rightarrow> export_clock \<Rightarrow> (metricKey \<times> histogramData) \<Rightarrow> pmap \<Rightarrow> histogram_point" where
  "latency_point p now = (\<lambda>(key, hist) dims.
     (let (start, stop) = parseTimesFromKeyOrNow key (now ''signoz_latency'' key) (sp_startTimestamp p)
      in \<lparr>hp_start = start, hp_time = stop, hp_bounds = latencyBounds p, hp_buckets = bucketCounts hist,
          hp_count = hd_count hist, hp_sum = hd_sum hist, hp_exemplars = setExemplars (exemplarsData hist) stop,
          hp_attributes = dims\<rparr>))"

definition collectLatencyMetrics ::
  "('l, 'h) metrics_env \<Rightarrow> range_order \<Rightarrow> export_clock \<Rightarrow> ('l, 'h) processorImp
     \<Rightarrow> (export_error + metric list) \<times> ('l, 'h) processorImp" where
  "collectLatencyMetrics env order now p =
     (let entries = ranged (order ''signoz_latency'') (histograms p);
          (r, c) = get_each (Cache_Get (dims_lru env)) (map fst entries) (metricKeyToDimensions p);
          q = p\<lparr>metricKeyToDimensions := c\<rparr>
      in case r of
           Inl k \<Rightarrow> (Inl (DimensionsNotFound ''metricKeyToDimensions'' k), q)
         | Inr dims \<Rightarrow> (Inr [\<lparr>metric_name = ''signoz_latency'', metric_unit = ''ms'',
             metric_data = MetricHistogram (GetAggregationTemporality (sp_config p))
               (map2 (latency_point p now) entries dims)\<rparr>], q))"

definition expoHistToExponentialDataPoint :: "'h expo_lib \<Rightarrow> 'h \<Rightarrow> uint64 \<times> uint64 \<Rightarrow> pmap \<Rightarrow> exp_point" where
  "expoHistToExponentialDataPoint lib agg ts dims =
     \<lparr>ep_start = fst ts, ep_time = snd ts, ep_count = expo_Count lib agg, ep_sum = expo_Sum lib agg,
      ep_min_max = (if expo_Count lib agg \<noteq> 0 then Some (expo_Min lib agg, expo_Max lib agg) else None),
      ep_zero_count = expo_ZeroCount lib agg, ep_scale = expo_Scale lib agg,
      ep_positive = expo_Positive lib agg, ep_negative = expo_Negative lib agg, ep_attributes = dims\<rparr>"

definition collectExpHistogramMetrics ::
  "('l, 'h) metrics_env \<Rightarrow> range_order \<Rightarrow> export_clock \<Rightarrow> ('l, 'h) processorImp
     \<Rightarrow> (export_error + metric list) \<times> ('l, 'h) processorImp" where
  "collectExpHistogramMetrics env order now p =
     (let entries = ranged (order ''exp_histogram'') (expHistograms p);
          (r, c) = get_each (Cache_Get (dims_lru env)) (map fst entries) (expHistogramKeyToDimensions p);
          q = p\<lparr>expHistogramKeyToDimensions := c\<rparr>
      in case r of
           Inl k \<Rightarrow> (Inl (DimensionsNotFound ''expHistogramKeyToDimensions'' k), q)
         | Inr dims \<Rightarrow> (Inr [\<lparr>metric_name = ''signoz_latency'', metric_unit = ''ms'',
             metric_data = MetricExponentialHistogram (GetAggregationTemporality (sp_config p))
               (map2 (\<lambda>(key, h). expoHistToExponentialDataPoint (expo env) h
                  (parseTimesFromKeyOrNow key (now ''exp_histogram'' key) (sp_startTimestamp p))) entries dims)\<rparr>], q))"

definition sum_point ::
  "('l, 'h) processorImp \<Rightarrow> instant \<Rightarrow> metricKey \<Rightarrow> number \<Rightarrow> pmap \<Rightarrow> number_point" where
  "sum_point p now key val dims =
     (let (start, stop) = parseTimesFromKeyOrNow key now (sp_startTimestamp p)
      in \<lparr>np_start = start, np_time = stop, np_value = val, np_attributes = dims\<rparr>)"

definition sum_metric :: "('l, 'h) processorImp \<Rightarrow> string \<Rightarrow> string \<Rightarrow> number_point list \<Rightarrow> metric" where
  "sum_metric p name un points =
     \<lparr>metric_name = name, metric_unit = un,
      metric_data = MetricSum True (GetAggregationTemporality (sp_config p)) points\<rparr>"

text \<open>\<^verbatim>\<open>int64(count)\<close> is the signed reading of the counter.\<close>

definition sum_points where
  "sum_points p now name val = map2 (\<lambda>(key, h). sum_point p (now name key) key (val h))"

definition count_value :: "histogramData \<Rightarrow> number" where
  "count_value h = IntValue (sint (hd_count h))"

definition sum_value :: "histogramData \<Rightarrow> number" where
  "sum_value h = DoubleValue (hd_sum h)"

definition collectDBCallMetrics ::
  "('l, 'h) metrics_env \<Rightarrow> range_order \<Rightarrow> export_clock \<Rightarrow> ('l, 'h) processorImp
     \<Rightarrow> (export_error + metric list) \<times> ('l, 'h) processorImp" where
  "collectDBCallMetrics env order now p =
     (let entries = ranged (order ''signoz_db_latency'') (dbCallHistograms p);
          (r, c) = get_each (Cache_Get (dims_lru env)) (map fst entries) (dbCallMetricKeyToDimensions p);
          q = p\<lparr>dbCallMetricKeyToDimensions := c\<rparr>
      in case r of
           Inl k \<Rightarrow> (Inl (DimensionsNotFound ''dbCallMetricKeyToDimensions'' k), q)
         | Inr dims \<Rightarrow>
            (Inr [sum_metric p ''signoz_db_latency_sum'' ''1'' (sum_points p now ''signoz_db_latency'' sum_value entries dims),
                  sum_metric p ''signoz_db_latency_count'' ''1'' (sum_points p now ''signoz_db_latency'' count_value entries dims)], q))"

definition collectExternalCallMetrics ::
  "('l, 'h) metrics_env \<Rightarrow> range_order \<Rightarrow> export_clock \<Rightarrow> ('l, 'h) processorImp
     \<Rightarrow> (export_error + metric list) \<times> ('l, 'h) processorImp" where
  "collectExternalCallMetrics env order now p =
     (let entries = ranged (order ''signoz_external_call_latency'') (externalCallHistograms p);
          (r, c) = get_each (Cache_Get (dims_lru env)) (map fst entries) (externalCallMetricKeyToDimensions p);
          q = p\<lparr>externalCallMetricKeyToDimensions := c\<rparr>
      in case r of
           Inl k \<Rightarrow> (Inl (DimensionsNotFound ''externalCallMetricKeyToDimensions'' k), q)
         | Inr dims \<Rightarrow>
            (Inr [sum_metric p ''signoz_external_call_latency_sum'' ''1''
                    (sum_points p now ''signoz_external_call_latency'' sum_value entries dims),
                  sum_metric p ''signoz_external_call_latency_count'' ''1''
                    (sum_points p now ''signoz_external_call_latency'' count_value entries dims)], q))"

definition collectCallMetrics ::
  "('l, 'h) metrics_env \<Rightarrow> range_order \<Rightarrow> export_clock \<Rightarrow> ('l, 'h) processorImp
     \<Rightarrow> (export_error + metric list) \<times> ('l, 'h) processorImp" where
  "collectCallMetrics env order now p =
     (let entries = ranged (order ''signoz_calls_total'') (callHistograms p);
          (r, c) = get_each (Cache_Get (dims_lru env)) (map fst entries) (callMetricKeyToDimensions p);
          q = p\<lparr>callMetricKeyToDimensions := c\<rparr>
      in case r of
           Inl k \<Rightarrow> (Inl (DimensionsNotFound ''callMetricKeyToDimensions'' k), q)
         | Inr dims \<Rightarrow> (Inr [sum_metric p ''signoz_calls_total'' []
             (sum_points p now ''signoz_calls_total'' count_value entries dims)], q))"

section \<open>Building\<close>

definition resetExemplarData :: "('l, 'h) processorImp \<Rightarrow> ('l, 'h) processorImp" where
  "resetExemplarData p =
     (let reset = map (\<lambda>(k, histo). (k, histo\<lparr>exemplarsData := []\<rparr>))
      in p\<lparr>histograms := reset (histograms p), callHistograms := reset (callHistograms p),
           dbCallHistograms := reset (dbCallHistograms p),
           externalCallHistograms := reset (externalCallHistograms p)\<rparr>)"

definition resetAccumulatedMetrics :: "('l, 'h) metrics_env \<Rightarrow> ('l, 'h) processorImp \<Rightarrow> ('l, 'h) processorImp" where
  "resetAccumulatedMetrics env p =
     (let purge = Cache_Purge (dims_lru env)
      in p\<lparr>histograms := [], expHistograms := [], callHistograms := [], dbCallHistograms := [],
           externalCallHistograms := [],
           metricKeyToDimensions := purge (metricKeyToDimensions p),
           expHistogramKeyToDimensions := purge (expHistogramKeyToDimensions p),
           callMetricKeyToDimensions := purge (callMetricKeyToDimensions p),
           dbCallMetricKeyToDimensions := purge (dbCallMetricKeyToDimensions p),
           externalCallMetricKeyToDimensions := purge (externalCallMetricKeyToDimensions p)\<rparr>)"

definition removeAllEvicted :: "('l, 'h) processorImp \<Rightarrow> ('l, 'h) processorImp" where
  "removeAllEvicted p =
     p\<lparr>metricKeyToDimensions := RemoveEvictedItems (metricKeyToDimensions p),
       expHistogramKeyToDimensions := RemoveEvictedItems (expHistogramKeyToDimensions p),
       callMetricKeyToDimensions := RemoveEvictedItems (callMetricKeyToDimensions p),
       dbCallMetricKeyToDimensions := RemoveEvictedItems (dbCallMetricKeyToDimensions p),
       externalCallMetricKeyToDimensions := RemoveEvictedItems (externalCallMetricKeyToDimensions p)\<rparr>"

text \<open>The loops that delete the series whose labels have left the cache.\<close>

definition contained where
  "contained env hs c = filter (\<lambda>(k, h). Cache_Contains (dims_lru env) k c) hs"

definition deleteUncached :: "('l, 'h) metrics_env \<Rightarrow> ('l, 'h) processorImp \<Rightarrow> ('l, 'h) processorImp" where
  "deleteUncached env p =
     p\<lparr>histograms := contained env (histograms p) (metricKeyToDimensions p),
       callHistograms := contained env (callHistograms p) (callMetricKeyToDimensions p),
       dbCallHistograms := contained env (dbCallHistograms p) (dbCallMetricKeyToDimensions p),
       externalCallHistograms := contained env (externalCallHistograms p) (externalCallMetricKeyToDimensions p),
       expHistograms := contained env (expHistograms p) (expHistogramKeyToDimensions p)\<rparr>"

fun collect_all ::
  "(('l, 'h) processorImp \<Rightarrow> (export_error + metric list) \<times> ('l, 'h) processorImp) list \<Rightarrow> ('l, 'h) processorImp
     \<Rightarrow> (export_error + metric list) \<times> ('l, 'h) processorImp" where
  "collect_all [] p = (Inr [], p)"
| "collect_all (collect # cs) p =
     (case collect p of
        (Inl err, p) \<Rightarrow> (Inl err, p)
      | (Inr ms, p) \<Rightarrow>
         (case collect_all cs p of
            (Inl err, p) \<Rightarrow> (Inl err, p)
          | (Inr ms', p) \<Rightarrow> (Inr (ms @ ms'), p)))"

definition buildMetrics ::
  "('l, 'h) metrics_env \<Rightarrow> range_order \<Rightarrow> export_clock \<Rightarrow> ('l, 'h) processorImp
     \<Rightarrow> (export_error + metric list) \<times> ('l, 'h) processorImp" where
  "buildMetrics env order now p =
     (case collect_all
        [collectCallMetrics env order now, collectLatencyMetrics env order now,
         collectExternalCallMetrics env order now, collectDBCallMetrics env order now,
         collectExpHistogramMetrics env order now] p of
        (Inl err, p) \<Rightarrow> (Inl err, p)
      | (Inr m, p) \<Rightarrow>
         (let p = removeAllEvicted p;
              p = deleteUncached env p;
              p = (if GetAggregationTemporality (sp_config p) = AggregationTemporalityDelta
                   then resetAccumulatedMetrics env p else p)
          in (Inr m, resetExemplarData p)))"

text \<open>A tick hands the metrics to every consumer, whatever the others answered; after an error they are
  the zero value, \<open>None\<close>.\<close>

definition exportMetrics ::
  "('l, 'h) metrics_env \<Rightarrow> range_order \<Rightarrow> export_clock \<Rightarrow> ('l, 'h) processorImp
     \<Rightarrow> (string \<times> metric list option) list \<times> ('l, 'h) processorImp" where
  "exportMetrics env order now p =
     (case buildMetrics env order now p of
        (r, p) \<Rightarrow>
          (let p = resetExemplarData p
           in (map (\<lambda>consumer. (consumer, case r of Inl _ \<Rightarrow> None | Inr m \<Rightarrow> Some m)) (metricsConsumer p), p)))"


section \<open>Collecting never fails\<close>

definition fair_order :: "range_order \<Rightarrow> bool" where
  "fair_order order \<longleftrightarrow> (\<forall>name ks. mset (order name ks) = mset ks)"

definition labels_of :: "('l \<Rightarrow> metricKey \<Rightarrow> pmap option) \<Rightarrow> 'l dims_cache \<Rightarrow> metricKey \<Rightarrow> pmap" where
  "labels_of contents c k = the (cache_view contents c k)"

lemma map_filter_keys:
  "set ks \<subseteq> set (map fst hs) \<Longrightarrow> map fst (List.map_filter (\<lambda>k. map_option (Pair k) (map_of hs k)) ks) = ks"
proof (induction ks)
  case (Cons k ks)
  then have "map_of hs k \<noteq> None" by (simp add: map_of_eq_None_iff)
  with Cons.IH Cons.prems show ?case by (auto simp: List.map_filter_def)
qed (simp add: List.map_filter_def)

lemma ranged_keys: "mset (ord (map fst hs)) = mset (map fst hs) \<Longrightarrow> map fst (ranged ord hs) = ord (map fst hs)"
  unfolding ranged_def by (rule map_filter_keys) (metis mset_eq_setD order_refl)

lemma ranged_subset: "set (ranged ord hs) \<subseteq> set hs"
  by (auto simp: ranged_def List.map_filter_def dest: map_of_SomeD)

lemma ranged_mset:
  assumes "mset (ord (map fst hs)) = mset (map fst hs)" "distinct (map fst hs)"
  shows "mset (ranged ord hs) = mset hs"
proof -
  have keys: "map fst (ranged ord hs) = ord (map fst hs)" using assms(1) by (rule ranged_keys)
  have "distinct (map fst (ranged ord hs))" using assms keys by (metis mset_eq_imp_distinct_iff)
  then have d: "distinct (ranged ord hs)" "distinct hs" using assms(2) by (simp_all add: distinct_map)
  have "length (ranged ord hs) = length hs" using keys assms(1) by (metis length_map size_mset)
  then have "set (ranged ord hs) = set hs"
    using ranged_subset [of ord hs] d by (metis card_subset_eq distinct_card finite_set)
  with d show ?thesis by (simp add: set_eq_iff_mset_eq_distinct)
qed

lemma labelled_get_each:
  assumes "labelled L contents cap n (hs, c)" "mset (ord (map fst hs)) = mset (map fst hs)"
  obtains c' where "get_each (Cache_Get L) (map fst (ranged ord hs)) c =
      (Inr (map (\<lambda>e. labels_of contents c (fst e)) (ranged ord hs)), c')"
    "labelled L contents cap n (hs, c')" "cache_view contents c' = cache_view contents c"
proof -
  from assms(1) have c: "cache_ok L contents cap n c" "distinct (map fst hs)" "set (map fst hs) \<subseteq> dom (cache_view contents c)"
    by (simp_all add: labelled_def)
  have "set (map fst (ranged ord hs)) \<subseteq> dom (cache_view contents c)"
    using c(3) image_mono [OF ranged_subset [of ord hs], of fst] by (simp only: set_map)
  from span_cache.get_each_found [OF c(1) this] obtain c' where
    "get_each (Cache_Get L) (map fst (ranged ord hs)) c = (Inr (map (the \<circ> cache_view contents c) (map fst (ranged ord hs))), c')"
    "cache_view contents c' = cache_view contents c" "cache_ok L contents cap n c'" by blast
  moreover have "labelled L contents cap n (hs, c')"
    using calculation(2,3) c(2,3) by (simp add: labelled_def)
  ultimately show thesis by (intro that [of c']) (simp_all only: labels_of_def comp_def map_map)
qed

lemma zip_map_self: "zip xs (map g xs) = map (\<lambda>x. (x, g x)) xs"
  by (induction xs) simp_all

text \<open>The metrics each collect function is to build: one point for every series, with its labels.\<close>

definition call_metrics where
  "call_metrics contents order now p =
     [sum_metric p ''signoz_calls_total'' []
        (map (\<lambda>(k, h). sum_point p (now ''signoz_calls_total'' k) k (count_value h)
           (labels_of contents (callMetricKeyToDimensions p) k)) (ranged (order ''signoz_calls_total'') (callHistograms p)))]"

definition latency_metrics where
  "latency_metrics contents order now p =
     [\<lparr>metric_name = ''signoz_latency'', metric_unit = ''ms'',
       metric_data = MetricHistogram (GetAggregationTemporality (sp_config p))
        (map (\<lambda>(k, h). latency_point p now (k, h) (labels_of contents (metricKeyToDimensions p) k))
          (ranged (order ''signoz_latency'') (histograms p)))\<rparr>]"

definition custom_metrics where
  "custom_metrics contents now p name entries c =
     (let points = (\<lambda>val. map (\<lambda>(k, h). sum_point p (now name k) k (val h) (labels_of contents c k)) entries)
      in [sum_metric p (name @ ''_sum'') ''1'' (points sum_value), sum_metric p (name @ ''_count'') ''1'' (points count_value)])"

definition external_metrics where
  "external_metrics contents order now p =
     custom_metrics contents now p ''signoz_external_call_latency''
       (ranged (order ''signoz_external_call_latency'') (externalCallHistograms p)) (externalCallMetricKeyToDimensions p)"

definition db_metrics where
  "db_metrics contents order now p =
     custom_metrics contents now p ''signoz_db_latency''
       (ranged (order ''signoz_db_latency'') (dbCallHistograms p)) (dbCallMetricKeyToDimensions p)"

definition exp_metrics where
  "exp_metrics contents env order now p =
     [\<lparr>metric_name = ''signoz_latency'', metric_unit = ''ms'',
       metric_data = MetricExponentialHistogram (GetAggregationTemporality (sp_config p))
        (map (\<lambda>(k, h). expoHistToExponentialDataPoint (expo env) h
            (parseTimesFromKeyOrNow k (now ''exp_histogram'' k) (sp_startTimestamp p))
            (labels_of contents (expHistogramKeyToDimensions p) k)) (ranged (order ''exp_histogram'') (expHistograms p)))\<rparr>]"

lemma collectCall_eq:
  assumes "labelled (dims_lru env) contents cap n (call_pair p)" "fair_order order"
  obtains c where "collectCallMetrics env order now p =
      (Inr (call_metrics contents order now p), p\<lparr>callMetricKeyToDimensions := c\<rparr>)"
    "labelled (dims_lru env) contents cap n (callHistograms p, c)"
proof -
  let ?o = "order ''signoz_calls_total''"
  from labelled_get_each [OF assms(1) [unfolded call_pair_def], of ?o] assms(2)
  obtain c where "get_each (Cache_Get (dims_lru env)) (map fst (ranged ?o (callHistograms p))) (callMetricKeyToDimensions p) =
      (Inr (map (\<lambda>e. labels_of contents (callMetricKeyToDimensions p) (fst e)) (ranged ?o (callHistograms p))), c)"
    "labelled (dims_lru env) contents cap n (callHistograms p, c)" unfolding fair_order_def by metis
  then show thesis
    by (intro that [of c]) (simp_all add: collectCallMetrics_def call_metrics_def Let_def sum_points_def zip_map_self comp_def case_prod_unfold)
qed

lemma collectLatency_eq:
  assumes "labelled (dims_lru env) contents cap n (latency_pair p)" "fair_order order"
  obtains c where "collectLatencyMetrics env order now p =
      (Inr (latency_metrics contents order now p), p\<lparr>metricKeyToDimensions := c\<rparr>)"
    "labelled (dims_lru env) contents cap n (histograms p, c)"
proof -
  let ?o = "order ''signoz_latency''"
  from labelled_get_each [OF assms(1) [unfolded latency_pair_def], of ?o] assms(2)
  obtain c where "get_each (Cache_Get (dims_lru env)) (map fst (ranged ?o (histograms p))) (metricKeyToDimensions p) =
      (Inr (map (\<lambda>e. labels_of contents (metricKeyToDimensions p) (fst e)) (ranged ?o (histograms p))), c)"
    "labelled (dims_lru env) contents cap n (histograms p, c)" unfolding fair_order_def by metis
  then show thesis
    by (intro that [of c]) (simp_all add: collectLatencyMetrics_def latency_metrics_def Let_def zip_map_self comp_def case_prod_unfold)
qed

lemma collectExternal_eq:
  assumes "labelled (dims_lru env) contents cap n (external_pair p)" "fair_order order"
  obtains c where "collectExternalCallMetrics env order now p =
      (Inr (external_metrics contents order now p), p\<lparr>externalCallMetricKeyToDimensions := c\<rparr>)"
    "labelled (dims_lru env) contents cap n (externalCallHistograms p, c)"
proof -
  let ?o = "order ''signoz_external_call_latency''"
  from labelled_get_each [OF assms(1) [unfolded external_pair_def], of ?o] assms(2)
  obtain c where "get_each (Cache_Get (dims_lru env)) (map fst (ranged ?o (externalCallHistograms p))) (externalCallMetricKeyToDimensions p) =
      (Inr (map (\<lambda>e. labels_of contents (externalCallMetricKeyToDimensions p) (fst e)) (ranged ?o (externalCallHistograms p))), c)"
    "labelled (dims_lru env) contents cap n (externalCallHistograms p, c)" unfolding fair_order_def by metis
  then show thesis
    by (intro that [of c]) (simp_all add: collectExternalCallMetrics_def external_metrics_def custom_metrics_def Let_def
        sum_points_def zip_map_self comp_def case_prod_unfold)
qed

lemma collectDB_eq:
  assumes "labelled (dims_lru env) contents cap n (db_pair p)" "fair_order order"
  obtains c where "collectDBCallMetrics env order now p =
      (Inr (db_metrics contents order now p), p\<lparr>dbCallMetricKeyToDimensions := c\<rparr>)"
    "labelled (dims_lru env) contents cap n (dbCallHistograms p, c)"
proof -
  let ?o = "order ''signoz_db_latency''"
  from labelled_get_each [OF assms(1) [unfolded db_pair_def], of ?o] assms(2)
  obtain c where "get_each (Cache_Get (dims_lru env)) (map fst (ranged ?o (dbCallHistograms p))) (dbCallMetricKeyToDimensions p) =
      (Inr (map (\<lambda>e. labels_of contents (dbCallMetricKeyToDimensions p) (fst e)) (ranged ?o (dbCallHistograms p))), c)"
    "labelled (dims_lru env) contents cap n (dbCallHistograms p, c)" unfolding fair_order_def by metis
  then show thesis
    by (intro that [of c]) (simp_all add: collectDBCallMetrics_def db_metrics_def custom_metrics_def Let_def
        sum_points_def zip_map_self comp_def case_prod_unfold)
qed

lemma collectExp_eq:
  assumes "labelled (dims_lru env) contents cap n (exp_pair p)" "fair_order order"
  obtains c where "collectExpHistogramMetrics env order now p =
      (Inr (exp_metrics contents env order now p), p\<lparr>expHistogramKeyToDimensions := c\<rparr>)"
    "labelled (dims_lru env) contents cap n (expHistograms p, c)"
proof -
  let ?o = "order ''exp_histogram''"
  from labelled_get_each [OF assms(1) [unfolded exp_pair_def], of ?o] assms(2)
  obtain c where "get_each (Cache_Get (dims_lru env)) (map fst (ranged ?o (expHistograms p))) (expHistogramKeyToDimensions p) =
      (Inr (map (\<lambda>e. labels_of contents (expHistogramKeyToDimensions p) (fst e)) (ranged ?o (expHistograms p))), c)"
    "labelled (dims_lru env) contents cap n (expHistograms p, c)" unfolding fair_order_def by metis
  then show thesis
    by (intro that [of c]) (simp_all add: collectExpHistogramMetrics_def exp_metrics_def Let_def zip_map_self comp_def case_prod_unfold)
qed

text \<open>The five together: the metrics of all series, and only the order of use in the caches changes.\<close>

definition all_metrics where
  "all_metrics contents env order now p =
     call_metrics contents order now p @ latency_metrics contents order now p @
     external_metrics contents order now p @ db_metrics contents order now p @ exp_metrics contents env order now p"

lemma collect_all_eq:
  assumes inv: "span_inv env contents cap n p" and fair: "fair_order order"
  obtains q where "collect_all
      [collectCallMetrics env order now, collectLatencyMetrics env order now,
       collectExternalCallMetrics env order now, collectDBCallMetrics env order now,
       collectExpHistogramMetrics env order now] p = (Inr (all_metrics contents env order now p), q)"
    "span_inv env contents cap n q" "sp_setup q = sp_setup p"
    "histograms q = histograms p" "callHistograms q = callHistograms p"
proof -
  note I = inv [unfolded span_inv_def]
  let ?L = "\<lambda>x. labelled (dims_lru env) contents cap n x"
  obtain c1 where 1: "collectCallMetrics env order now p = (Inr (call_metrics contents order now p), p\<lparr>callMetricKeyToDimensions := c1\<rparr>)"
    "?L (callHistograms p, c1)" using collectCall_eq I fair by metis
  define p1 where "p1 = p\<lparr>callMetricKeyToDimensions := c1\<rparr>"
  have "?L (latency_pair p1)" using I by (simp add: p1_def pair_defs)
  then obtain c2 where 2: "collectLatencyMetrics env order now p1 = (Inr (latency_metrics contents order now p1), p1\<lparr>metricKeyToDimensions := c2\<rparr>)"
    "?L (histograms p1, c2)" using collectLatency_eq fair by metis
  define p2 where "p2 = p1\<lparr>metricKeyToDimensions := c2\<rparr>"
  have "?L (external_pair p2)" using I by (simp add: p2_def p1_def pair_defs)
  then obtain c3 where 3: "collectExternalCallMetrics env order now p2 = (Inr (external_metrics contents order now p2), p2\<lparr>externalCallMetricKeyToDimensions := c3\<rparr>)"
    "?L (externalCallHistograms p2, c3)" using collectExternal_eq fair by metis
  define p3 where "p3 = p2\<lparr>externalCallMetricKeyToDimensions := c3\<rparr>"
  have "?L (db_pair p3)" using I by (simp add: p3_def p2_def p1_def pair_defs)
  then obtain c4 where 4: "collectDBCallMetrics env order now p3 = (Inr (db_metrics contents order now p3), p3\<lparr>dbCallMetricKeyToDimensions := c4\<rparr>)"
    "?L (dbCallHistograms p3, c4)" using collectDB_eq fair by metis
  define p4 where "p4 = p3\<lparr>dbCallMetricKeyToDimensions := c4\<rparr>"
  have "?L (exp_pair p4)" using I by (simp add: p4_def p3_def p2_def p1_def pair_defs)
  then obtain c5 where 5: "collectExpHistogramMetrics env order now p4 = (Inr (exp_metrics contents env order now p4), p4\<lparr>expHistogramKeyToDimensions := c5\<rparr>)"
    "?L (expHistograms p4, c5)" using collectExp_eq fair by metis
  define p5 where "p5 = p4\<lparr>expHistogramKeyToDimensions := c5\<rparr>"
  note ps = p5_def p4_def p3_def p2_def p1_def
  have m: "latency_metrics contents order now p1 = latency_metrics contents order now p"
    "external_metrics contents order now p2 = external_metrics contents order now p"
    "db_metrics contents order now p3 = db_metrics contents order now p"
    "exp_metrics contents env order now p4 = exp_metrics contents env order now p"
    by (simp_all add: ps latency_metrics_def external_metrics_def db_metrics_def exp_metrics_def custom_metrics_def
        sum_metric_def sum_point_def latency_point_def)
  show thesis
  proof (rule that [of p5])
    show "collect_all
      [collectCallMetrics env order now, collectLatencyMetrics env order now,
       collectExternalCallMetrics env order now, collectDBCallMetrics env order now,
       collectExpHistogramMetrics env order now] p = (Inr (all_metrics contents env order now p), p5)"
      by (simp add: 1(1) 2(1) 3(1) 4(1) 5(1) m all_metrics_def flip: ps)
    show "span_inv env contents cap n p5"
      using I 1(2) 2(2) 3(2) 4(2) 5(2) by (simp add: span_inv_def ps pair_defs)
  qed (simp_all add: ps sp_setup_def)
qed


section \<open>Cleaning up\<close>

lemma labelled_contained:
  assumes "labelled (dims_lru env) contents cap n (hs, c)"
  shows "labelled (dims_lru env) contents cap n (contained env hs (RemoveEvictedItems c), RemoveEvictedItems c) \<and>
    length (contained env hs (RemoveEvictedItems c)) \<le> n"
proof -
  let ?c = "RemoveEvictedItems c" and ?K = "dom (contents (cache_lru c))"
  from assms have c: "cache_ok (dims_lru env) contents cap n c" "distinct (map fst hs)" by (simp_all add: labelled_def)
  then have ok: "cache_ok (dims_lru env) contents cap n ?c" by simp
  have l: "cache_lru ?c = cache_lru c" by (simp add: RemoveEvictedItems_def)
  have f: "contained env hs ?c = filter (\<lambda>(k, h). k \<in> ?K) hs"
    using Cache_Contains_view [OF ok] l by (simp add: contained_def)
  then have d: "distinct (map fst (contained env hs ?c))" using c(2) by (simp add: distinct_map_filter)
  have s: "set (map fst (contained env hs ?c)) \<subseteq> ?K" by (auto simp: f)
  with d cache_contents_bound [OF c(1)] have "length (contained env hs ?c) \<le> n"
    by (metis card_mono distinct_card le_trans length_map)
  with d s ok l show ?thesis by (simp add: labelled_def)
qed

lemma labelled_purged:
  "cache_ok L contents cap n c \<Longrightarrow> labelled L contents cap n ([], Cache_Purge L c)"
  by (simp add: labelled_def Cache_Purge_view)

lemma labelled_reset:
  "labelled L contents cap n (map (\<lambda>(k, h). (k, f h)) hs, c) = labelled L contents cap n (hs, c)"
  by (simp add: labelled_def case_prod_unfold comp_def image_image)

lemma all_consistent_reset:
  "all_consistent bounds hs \<Longrightarrow> all_consistent bounds (map (\<lambda>(k, h). (k, h\<lparr>exemplarsData := []\<rparr>)) hs)"
  by (auto simp: all_consistent_def consistent_def)

lemma all_consistent_contained: "all_consistent bounds hs \<Longrightarrow> all_consistent bounds (contained env hs c)"
  by (auto simp: all_consistent_def contained_def)

definition series_sizes where
  "series_sizes p = [length (histograms p), length (expHistograms p), length (callHistograms p),
     length (dbCallHistograms p), length (externalCallHistograms p)]"

lemma resetExemplarData_inv:
  assumes "span_inv env contents cap n p"
  shows "span_inv env contents cap n (resetExemplarData p) \<and> sp_setup (resetExemplarData p) = sp_setup p \<and>
    series_sizes (resetExemplarData p) = series_sizes p"
  using assms
  by (auto simp: span_inv_def resetExemplarData_def Let_def pair_defs labelled_reset all_consistent_reset sp_setup_def
      series_sizes_def)

lemma deleteUncached_inv:
  assumes "span_inv env contents cap n p"
  defines "q \<equiv> deleteUncached env (removeAllEvicted p)"
  shows "span_inv env contents cap n q \<and> sp_setup q = sp_setup p \<and> (\<forall>s \<in> set (series_sizes q). s \<le> n)"
proof -
  note I = assms(1) [unfolded span_inv_def pair_defs]
  have l: "labelled (dims_lru env) contents cap n (hs, c) \<Longrightarrow>
      labelled (dims_lru env) contents cap n (contained env hs (RemoveEvictedItems c), RemoveEvictedItems c)"
    "labelled (dims_lru env) contents cap n (hs, c) \<Longrightarrow> length (contained env hs (RemoveEvictedItems c)) \<le> n"
    for hs :: "(metricKey \<times> 'x) list" and c using labelled_contained by blast+
  have "span_inv env contents cap n q"
    using I by (simp add: span_inv_def pair_defs q_def deleteUncached_def removeAllEvicted_def l all_consistent_contained)
  moreover have "sp_setup q = sp_setup p" by (simp add: q_def deleteUncached_def removeAllEvicted_def sp_setup_def)
  moreover have "\<forall>s \<in> set (series_sizes q). s \<le> n"
    using I by (simp add: series_sizes_def q_def deleteUncached_def removeAllEvicted_def l)
  ultimately show ?thesis by blast
qed

lemma resetAccumulatedMetrics_inv:
  assumes "span_inv env contents cap n p"
  defines "q \<equiv> resetAccumulatedMetrics env p"
  shows "span_inv env contents cap n q \<and> sp_setup q = sp_setup p \<and> series_sizes q = [0, 0, 0, 0, 0] \<and>
    histograms q = [] \<and> callHistograms q = []"
proof -
  note I = assms(1) [unfolded span_inv_def pair_defs]
  from I have "cache_ok (dims_lru env) contents cap n (metricKeyToDimensions p)"
    "cache_ok (dims_lru env) contents cap n (expHistogramKeyToDimensions p)"
    "cache_ok (dims_lru env) contents cap n (callMetricKeyToDimensions p)"
    "cache_ok (dims_lru env) contents cap n (dbCallMetricKeyToDimensions p)"
    "cache_ok (dims_lru env) contents cap n (externalCallMetricKeyToDimensions p)"
    by (simp_all add: labelled_def)
  then have "span_inv env contents cap n q"
    by (simp add: span_inv_def pair_defs q_def resetAccumulatedMetrics_def Let_def all_consistent_def labelled_purged)
  then show ?thesis
    by (simp add: q_def resetAccumulatedMetrics_def Let_def sp_setup_def series_sizes_def)
qed

lemma buildMetrics_eq:
  assumes inv: "span_inv env contents cap n p" and fair: "fair_order order"
  obtains q where "buildMetrics env order now p = (Inr (all_metrics contents env order now p), q)"
    "span_inv env contents cap n q" "sp_setup q = sp_setup p" "\<forall>s \<in> set (series_sizes q). s \<le> n"
    "GetAggregationTemporality (sp_config p) = AggregationTemporalityDelta \<Longrightarrow>
       series_sizes q = [0, 0, 0, 0, 0] \<and> histograms q = [] \<and> callHistograms q = []"
proof -
  obtain p1 where c: "collect_all
      [collectCallMetrics env order now, collectLatencyMetrics env order now,
       collectExternalCallMetrics env order now, collectDBCallMetrics env order now,
       collectExpHistogramMetrics env order now] p = (Inr (all_metrics contents env order now p), p1)"
    and p1: "span_inv env contents cap n p1" "sp_setup p1 = sp_setup p" by (rule collect_all_eq [OF inv fair])
  define p2 where "p2 = deleteUncached env (removeAllEvicted p1)"
  have p2: "span_inv env contents cap n p2" "sp_setup p2 = sp_setup p" "\<forall>s \<in> set (series_sizes p2). s \<le> n"
    using deleteUncached_inv [OF p1(1)] p1(2) by (simp_all add: p2_def)
  have cfg: "sp_config p2 = sp_config p" using p2(2) by (simp add: sp_setup_def)
  define p3 where "p3 = (if GetAggregationTemporality (sp_config p) = AggregationTemporalityDelta
    then resetAccumulatedMetrics env p2 else p2)"
  have p3: "span_inv env contents cap n p3" "sp_setup p3 = sp_setup p" "\<forall>s \<in> set (series_sizes p3). s \<le> n"
    using p2 resetAccumulatedMetrics_inv [OF p2(1)] by (auto simp: p3_def)
  note r = resetExemplarData_inv [OF p3(1)]
  have "buildMetrics env order now p = (Inr (all_metrics contents env order now p), resetExemplarData p3)"
    by (simp only: buildMetrics_def c prod.case sum.case Let_def cfg p3_def flip: p2_def)
  moreover have "series_sizes (resetExemplarData p3) = [0, 0, 0, 0, 0] \<and> histograms (resetExemplarData p3) = [] \<and>
      callHistograms (resetExemplarData p3) = []"
    if "GetAggregationTemporality (sp_config p) = AggregationTemporalityDelta"
    using that r resetAccumulatedMetrics_inv [OF p2(1)]
    by (simp add: p3_def) (simp add: resetExemplarData_def Let_def)
  ultimately show thesis using that r p3 by metis
qed

lemma export_eq:
  assumes "span_inv env contents cap n p" and "fair_order order"
  obtains q where "exportMetrics env order now p =
      (map (\<lambda>consumer. (consumer, Some (all_metrics contents env order now p))) (metricsConsumer p), q)"
    "span_inv env contents cap n q" "sp_setup q = sp_setup p" "\<forall>s \<in> set (series_sizes q). s \<le> n"
    "GetAggregationTemporality (sp_config p) = AggregationTemporalityDelta \<Longrightarrow> series_sizes q = [0, 0, 0, 0, 0]"
    "GetAggregationTemporality (sp_config p) = AggregationTemporalityDelta \<Longrightarrow> callHistograms q = []"
proof -
  obtain q where b: "buildMetrics env order now p = (Inr (all_metrics contents env order now p), q)"
    "span_inv env contents cap n q" "sp_setup q = sp_setup p" "\<forall>s \<in> set (series_sizes q). s \<le> n"
    "GetAggregationTemporality (sp_config p) = AggregationTemporalityDelta \<Longrightarrow>
       series_sizes q = [0, 0, 0, 0, 0] \<and> histograms q = [] \<and> callHistograms q = []"
    using buildMetrics_eq [OF assms] by blast
  note r = resetExemplarData_inv [OF b(2)]
  have "metricsConsumer (resetExemplarData q) = metricsConsumer p" using r b(3) by (simp add: sp_setup_def)
  then have "exportMetrics env order now p =
      (map (\<lambda>consumer. (consumer, Some (all_metrics contents env order now p))) (metricsConsumer p), resetExemplarData q)"
    by (simp add: exportMetrics_def Let_def b(1))
  moreover have "callHistograms (resetExemplarData q) = []" if "callHistograms q = []"
    using that by (simp add: resetExemplarData_def Let_def)
  ultimately show thesis using that r b by metis
qed

text \<open>C16: Exporting never fails and keeps memory bounded. Whatever was evicted from the caches, in
  whatever order the maps are iterated over, a tick finds the labels of every series: each consumer
  receives the metrics of all series, every series once with its labels; afterwards no kind has more
  series than the dimensions cache has entries, and none is left in delta temporality.\<close>

theorem export_never_fails:
  assumes "span_inv env contents cap n p" and "fair_order order"
  shows "\<exists>q. exportMetrics env order now p =
      (map (\<lambda>consumer. (consumer, Some (all_metrics contents env order now p))) (metricsConsumer p), q) \<and>
    span_inv env contents cap n q \<and>
    (\<forall>s \<in> set (series_sizes q). s \<le> n) \<and>
    (GetAggregationTemporality (sp_config p) = AggregationTemporalityDelta \<longrightarrow> series_sizes q = [0, 0, 0, 0, 0])"
  using export_eq [OF assms] by metis


section \<open>Start and shutdown\<close>

text \<open>\<^verbatim>\<open>strings.Split\<close> at commas, and the ASCII part of \<^verbatim>\<open>strings.TrimSpace\<close>.\<close>

fun split_commas :: "string \<Rightarrow> string list" where
  "split_commas [] = [[]]"
| "split_commas (c # s) =
     (if c = CHR '','' then [] # split_commas s
      else case split_commas s of w # ws \<Rightarrow> (c # w) # ws | [] \<Rightarrow> [[c]])"

definition is_space :: "char \<Rightarrow> bool" where
  "is_space c = (let n = (of_char c :: nat) in n = 32 \<or> 9 \<le> n \<and> n \<le> 13)"

definition TrimSpace :: "string \<Rightarrow> string" where
  "TrimSpace s = rev (dropWhile is_space (rev (dropWhile is_space s)))"

datatype start_error = NoExporters | NotMetricsExporter string | MetricsExporterNotFound string "string list"

text \<open>The loop over the metrics exporters of the host, pairs of a name and whether it is an exporter of
  metrics, in the order of the iteration.\<close>

fun start_loop ::
  "string list \<Rightarrow> (string \<times> bool) list \<Rightarrow> ('l, 'h) processorImp \<Rightarrow> start_error option \<times> ('l, 'h) processorImp" where
  "start_loop exporterNames [] p = (None, p)"
| "start_loop exporterNames ((k, ok) # exporters) p =
     (if \<not> ok then (Some (NotMetricsExporter k), p)
      else start_loop exporterNames exporters
             (p\<lparr>metricsConsumer := metricsConsumer p @ filter (\<lambda>name. k = name) exporterNames\<rparr>))"

definition spanmetrics_Start ::
  "(string \<times> bool) list option \<Rightarrow> ('l, 'h) processorImp \<Rightarrow> start_error option \<times> ('l, 'h) processorImp" where
  "spanmetrics_Start host_exporters p =
     (case host_exporters of
        None \<Rightarrow> (Some NoExporters, p)
      | Some exporters \<Rightarrow>
         (case start_loop (map TrimSpace (split_commas (MetricsExporter (sp_config p)))) exporters p of
            (Some err, p) \<Rightarrow> (Some err, p)
          | (None, p) \<Rightarrow>
              if metricsConsumer p = []
              then (Some (MetricsExporterNotFound (MetricsExporter (sp_config p)) (map fst exporters)), p)
              else (None, p\<lparr>sp_started := True\<rparr>)))"

text \<open>\<^verbatim>\<open>Shutdown\<close> waits for the exporting goroutine, which runs from the start until \<^verbatim>\<open>done\<close> is
  closed; a second shutdown closes nothing.\<close>

definition spanmetrics_Shutdown :: "('l, 'h) processorImp \<Rightarrow> ('l, 'h) processorImp outcome" where
  "spanmetrics_Shutdown p =
     (let p = (if shutdownOnce p then p
               else if sp_started p then p\<lparr>shutdownOnce := True, sp_stopped := True, sp_started := False\<rparr>
               else p\<lparr>shutdownOnce := True\<rparr>)
      in if sp_started p then Blocks else Done p)"

lemma start_loop_frame:
  "start_loop names exporters p = (e, q) \<Longrightarrow> \<exists>cs. q = p\<lparr>metricsConsumer := metricsConsumer p @ cs\<rparr>"
proof (induction names exporters p rule: start_loop.induct)
  case (1 names p)
  then have "q = p\<lparr>metricsConsumer := metricsConsumer p @ []\<rparr>" by simp
  then show ?case by blast
next
  case (2 names k ok exporters p)
  show ?case
  proof (cases ok)
    case True
    with 2 obtain cs where "q = (p\<lparr>metricsConsumer := metricsConsumer p @ filter (\<lambda>name. k = name) names\<rparr>)
      \<lparr>metricsConsumer := (metricsConsumer p @ filter (\<lambda>name. k = name) names) @ cs\<rparr>" by auto
    then have "q = p\<lparr>metricsConsumer := metricsConsumer p @ (filter (\<lambda>name. k = name) names @ cs)\<rparr>" by simp
    then show ?thesis by blast
  next
    case False
    with 2 have "q = p\<lparr>metricsConsumer := metricsConsumer p @ []\<rparr>" by simp
    then show ?thesis by blast
  qed
qed

lemma Start_frame:
  assumes "spanmetrics_Start hosts p = (None, q)"
  shows "\<exists>cs. q = p\<lparr>metricsConsumer := cs, sp_started := True\<rparr>"
proof -
  from assms obtain exporters p1 where
    l: "start_loop (map TrimSpace (split_commas (MetricsExporter (sp_config p)))) exporters p = (None, p1)"
    and q: "q = p1\<lparr>sp_started := True\<rparr>"
    by (auto simp: spanmetrics_Start_def split: option.splits prod.splits if_splits)
  from start_loop_frame [OF l] q show ?thesis by auto
qed

section \<open>Whole runs\<close>

datatype sp_event = Batch "nat \<Rightarrow> instant" "mresource list" | Tick range_order export_clock

fun sp_run ::
  "('l, 'h) metrics_env \<Rightarrow> sp_event list \<Rightarrow> ('l, 'h) processorImp
     \<Rightarrow> (string \<times> metric list option) list \<times> ('l, 'h) processorImp" where
  "sp_run env [] p = ([], p)"
| "sp_run env (Batch now traces # es) p =
     (case spanmetrics_ConsumeTraces env now (\<lambda>_. None) traces p of (_, _, p) \<Rightarrow> sp_run env es p)"
| "sp_run env (Tick order now # es) p =
     (case exportMetrics env order now p of (sent, p) \<Rightarrow>
       (case sp_run env es p of (sent', p) \<Rightarrow> (sent @ sent', p)))"

text \<open>The calls a consumer was told of, summed as 64-bit counters, and the spans the run counted.\<close>

fun point_count :: "number \<Rightarrow> uint64" where
  "point_count (IntValue i) = word_of_int i"
| "point_count (DoubleValue d) = 0"

definition calls_in :: "metric list \<Rightarrow> uint64" where
  "calls_in ms = sum_list (map (\<lambda>m. case metric_data m of
     MetricSum _ _ points \<Rightarrow>
       if metric_name m = ''signoz_calls_total'' then sum_list (map (point_count \<circ> np_value) points) else 0
   | _ \<Rightarrow> 0) ms)"

definition calls_sent :: "string \<Rightarrow> (string \<times> metric list option) list \<Rightarrow> uint64" where
  "calls_sent c sent = sum_list (map (\<lambda>(c', m). if c' = c then (case m of Some ms \<Rightarrow> calls_in ms | None \<Rightarrow> 0) else 0) sent)"

fun fair_events :: "sp_event list \<Rightarrow> bool" where
  "fair_events [] = True"
| "fair_events (Batch now traces # es) = fair_events es"
| "fair_events (Tick order now # es) = (fair_order order \<and> fair_events es)"

fun live_count where
  "live_count env p [] = 0"
| "live_count env p (Batch now traces # es) = length (live_spans env now p traces) + live_count env p es"
| "live_count env p (Tick order now # es) = live_count env p es"

lemma live_spans_setup: "sp_setup q = sp_setup p \<Longrightarrow> live_spans env now q traces = live_spans env now p traces"
  using skips_setup [of q p] instanceID_setup [of q p] by (simp add: live_spans_def)

lemma calls_in_append: "calls_in (xs @ ys) = calls_in xs + calls_in ys"
  by (simp add: calls_in_def)

lemma calls_in_others:
  "calls_in (latency_metrics contents order now p) = 0" "calls_in (external_metrics contents order now p) = 0"
  "calls_in (db_metrics contents order now p) = 0" "calls_in (exp_metrics contents env order now p) = 0"
  by (simp_all add: calls_in_def latency_metrics_def external_metrics_def db_metrics_def exp_metrics_def
      custom_metrics_def sum_metric_def Let_def)

lemma calls_in_calls:
  "calls_in (call_metrics contents order now p) =
    sum_list (map (hd_count \<circ> snd) (ranged (order ''signoz_calls_total'') (callHistograms p)))"
proof -
  have "point_count (np_value (sum_point p t k (count_value h) v)) = hd_count h" for t k h v
    by (simp add: sum_point_def count_value_def split: prod.split)
  then show ?thesis
    by (simp add: calls_in_def call_metrics_def sum_metric_def comp_def split_def)
qed

lemma calls_in_all_metrics:
  assumes "labelled L contents cap n (call_pair p)" "fair_order order"
  shows "calls_in (all_metrics contents env order now p) = total (callHistograms p)"
proof -
  let ?o = "order ''signoz_calls_total''"
  have "calls_in (all_metrics contents env order now p) = sum_list (map (hd_count \<circ> snd) (ranged ?o (callHistograms p)))"
    by (simp add: all_metrics_def calls_in_append calls_in_others calls_in_calls)
  also have "\<dots> = sum_mset (image_mset (hd_count \<circ> snd) (mset (ranged ?o (callHistograms p))))"
    by (simp only: mset_map [symmetric] sum_mset_sum_list)
  also have "mset (ranged ?o (callHistograms p)) = mset (callHistograms p)"
    using assms by (intro ranged_mset) (simp_all add: fair_order_def labelled_def pair_defs)
  also have "sum_mset (image_mset (hd_count \<circ> snd) (mset (callHistograms p))) = total (callHistograms p)"
    unfolding total_def by (simp only: mset_map [symmetric] sum_mset_sum_list)
  finally show ?thesis .
qed

lemma calls_sent_append: "calls_sent c (xs @ ys) = calls_sent c xs + calls_sent c ys"
  by (simp add: calls_sent_def)

lemma calls_sent_all:
  "count_list cs c = 1 \<Longrightarrow> calls_sent c (map (\<lambda>consumer. (consumer, Some ms)) cs) = calls_in ms"
proof -
  have "calls_sent c (map (\<lambda>consumer. (consumer, Some ms)) cs) = of_nat (count_list cs c) * calls_in ms"
    by (induction cs) (simp_all add: calls_sent_def algebra_simps)
  then show "count_list cs c = 1 \<Longrightarrow> ?thesis" by simp
qed

lemma sp_run_counts:
  assumes "span_inv env contents cap n p" "sp_setup p = sp_setup p0"
    and "GetAggregationTemporality (sp_config p0) = AggregationTemporalityDelta"
    and "count_list (metricsConsumer p0) c = 1"
    and "fair_events es"
    and "sp_run env es p = (sent, q)"
  shows "calls_sent c sent + total (callHistograms q) = total (callHistograms p) + of_nat (live_count env p0 es) \<and>
    span_inv env contents cap n q"
  using assms(1,2,5,6)
proof (induction es arbitrary: p sent)
  case Nil
  then show ?case by (simp add: calls_sent_def)
next
  case (Cons e es)
  show ?case
  proof (cases e)
    case (Batch now traces)
    obtain traces' err p1 where s: "spanmetrics_ConsumeTraces env now (\<lambda>_. None) traces p = (traces', err, p1)"
      by (metis prod_cases3)
    note st = spans_counted_once' [OF Cons.prems(1) s]
    have "sp_setup p1 = sp_setup p0" using st Cons.prems(2) by simp
    moreover have "live_spans env now p traces = live_spans env now p0 traces" by (rule live_spans_setup [OF Cons.prems(2)])
    ultimately show ?thesis
      using Cons.IH [of p1 sent] Cons.prems st Batch s by (simp add: algebra_simps)
  next
    case (Tick order now)
    have fair: "fair_order order" using Cons.prems(3) Tick by simp
    have c: "sp_config p = sp_config p0" "metricsConsumer p = metricsConsumer p0" using Cons.prems(2) by (simp_all add: sp_setup_def)
    obtain p1 where e: "exportMetrics env order now p =
        (map (\<lambda>consumer. (consumer, Some (all_metrics contents env order now p))) (metricsConsumer p), p1)"
      and p1: "span_inv env contents cap n p1" "sp_setup p1 = sp_setup p" "callHistograms p1 = []"
      using export_eq [OF Cons.prems(1) fair] c(1) assms(3) by metis
    obtain sent' q' where r: "sp_run env es p1 = (sent', q')" by fastforce
    with Cons.prems(4) Tick e have q: "q' = q" "sent = map (\<lambda>consumer. (consumer, Some (all_metrics contents env order now p))) (metricsConsumer p) @ sent'"
      by simp_all
    have "labelled (dims_lru env) contents cap n (call_pair p)" using Cons.prems(1) by (simp add: span_inv_def)
    note k = calls_in_all_metrics [OF this fair, of env now]
    from Cons.IH [of p1 sent'] p1 Cons.prems(2,3) Tick r q(1)
    have "calls_sent c sent' + total (callHistograms q) = of_nat (live_count env p0 es)" "span_inv env contents cap n q"
      by (simp_all add: total_def)
    then show ?thesis
      using Tick q(2) k c(2) assms(4) by (simp add: calls_sent_append calls_sent_all algebra_simps)
  qed
qed

text \<open>C4: End to end, every span is reported exactly once. In delta temporality, for a consumer that the
  start of the processor has found: however batches and ticks follow each other, whatever the caches
  evict and in whatever order the maps are iterated over, the calls reported to it and those waiting
  for the next tick are together, as 64-bit counters, the spans that were neither stale nor
  excluded.\<close>

theorem every_span_reported_once:
  assumes lru: "lru_promises (dims_lru env) contents cap"
    and new: "newProcessor env instance_id created config = Done (Inr p0)"
    and start: "spanmetrics_Start hosts p0 = (None, p)"
    and delta: "AggregationTemporality config = ''AGGREGATION_TEMPORALITY_DELTA''"
    and consumer: "count_list (metricsConsumer p) c = 1"
    and fair: "fair_events es"
    and run: "sp_run env es p = (sent, q)"
  shows "calls_sent c sent + total (callHistograms q) = of_nat (live_count env p es)"
proof -
  obtain cs where p: "p = p0\<lparr>metricsConsumer := cs, sp_started := True\<rparr>" using Start_frame [OF start] by blast
  from newProcessor_inv [OF lru new] newProcessor_config [OF new]
  have "span_inv env contents cap (nat (DimensionsCacheSize config)) p" "callHistograms p = []"
    "GetAggregationTemporality (sp_config p) = AggregationTemporalityDelta"
    using delta by (auto simp: p span_inv_def pair_defs GetAggregationTemporality_def)
  from sp_run_counts [OF this(1) refl this(3) consumer fair run] this(2) show ?thesis by (simp add: total_def)
qed

end
