(* ===== verification/SpanLabels.thy ===== *)
theory SpanLabels
  imports SpanExport
begin

text \<open>
  The span metrics processor, last part: what its keys and labels promise. The services and the
  operations tracked are bounded over every run; a key names the labels of its series, as long as
  nothing overflows; the time bucket written in front of a key is read back as the time of its
  points; the bucket of a sample is the one its bounds say.
\<close>

section \<open>Capped sets\<close>

text \<open>A set that, once it has more than \<open>M\<close> elements, takes only the overflow element \<open>ov\<close>.\<close>

definition capped :: "int \<Rightarrow> 'a \<Rightarrow> 'a list \<Rightarrow> bool" where
  "capped M ov xs \<longleftrightarrow> distinct xs \<and> int (length (filter (\<lambda>x. x \<noteq> ov) xs)) \<le> max 0 (M + 1)"

lemma capped_empty [simp]: "capped M ov []"
  by (simp add: capped_def)

lemma capped_length: "capped M ov xs \<Longrightarrow> int (length xs) \<le> max 0 (M + 1) + 1"
proof -
  assume c: "capped M ov xs"
  have "length (filter (\<lambda>x. x = ov) xs) \<le> 1"
    using c by (induction xs) (auto simp: capped_def filter_empty_conv)
  with c sum_length_filter_compl [of "\<lambda>x. x = ov" xs] show ?thesis by (simp add: capped_def)
qed

lemma capped_add:
  assumes "capped M ov xs" "y = (if M < int (length xs) then ov else x)"
  shows "capped M ov (set_add y xs)"
proof (cases "y = ov \<or> y \<in> set xs")
  case False
  then have "int (length xs) \<le> M" using assms(2) by (auto split: if_splits)
  then have "int (length (filter (\<lambda>x. x \<noteq> ov) xs)) \<le> M" using length_filter_le [of "\<lambda>x. x \<noteq> ov" xs] by linarith
  with assms(1) False show ?thesis by (simp add: capped_def set_add_def)
qed (use assms(1) in \<open>auto simp: capped_def set_add_def\<close>)

definition tracking_ok :: "('l, 'h) processorImp \<Rightarrow> bool" where
  "tracking_ok p \<longleftrightarrow>
     capped (maxNumberOfServicesToTrack p) overflowServiceName (map fst (serviceToOperations p)) \<and>
     (\<forall>(service, ops) \<in> set (serviceToOperations p). capped (maxNumberOfOperationsToTrackPerService p) overflowOperation ops)"

lemma track_ok:
  assumes ok: "tracking_ok p" and n: "overflow_names p service name = (s, op)"
    and q: "serviceToOperations q = track s op (serviceToOperations p)" "sp_setup q = sp_setup p"
  shows "tracking_ok q"
proof -
  let ?m = "serviceToOperations p" and ?O = "maxNumberOfOperationsToTrackPerService p"
  have lim: "maxNumberOfServicesToTrack q = maxNumberOfServicesToTrack p" "maxNumberOfOperationsToTrackPerService q = ?O"
    using q(2) by (simp_all add: sp_setup_def)
  have s: "s = (if maxNumberOfServicesToTrack p < int (length (map fst ?m)) then overflowServiceName else service)"
    and o: "op = (if ?O < int (length (tracked_ops ?m s)) then overflowOperation else name)"
    using n by (auto simp: overflow_names_def Let_def)
  have "map fst (track s op ?m) = set_add s (map fst ?m)" by (simp add: track_def set_add_def AList.update_keys)
  then have "capped (maxNumberOfServicesToTrack p) overflowServiceName (map fst (track s op ?m))"
    using capped_add [OF _ s] ok by (simp add: tracking_ok_def)
  moreover have "capped ?O overflowOperation (tracked_ops ?m s)"
    using ok by (auto simp: tracking_ok_def tracked_ops_def split: option.split dest: map_of_SomeD)
  then have "capped ?O overflowOperation (set_add op (tracked_ops ?m s))" by (rule capped_add [OF _ o])
  then have "\<forall>(service, ops) \<in> set (track s op ?m). capped ?O overflowOperation ops"
    using ok set_AList_update [of s "set_add op (tracked_ops ?m s)" ?m] unfolding tracking_ok_def track_def by blast
  ultimately show ?thesis by (simp add: tracking_ok_def q(1) lim)
qed

lemma tracking_ok_cong:
  "serviceToOperations q = serviceToOperations p \<Longrightarrow> sp_setup q = sp_setup p \<Longrightarrow> tracking_ok q = tracking_ok p"
  by (simp add: tracking_ok_def sp_setup_def)

lemma buildMetricKey_tracks:
  assumes "buildMetricKey service sp dims r p = (k, q)" "tracking_ok p"
  shows "tracking_ok q"
proof -
  obtain s op where n: "overflow_names p service (ms_Name sp) = (s, op)" by fastforce
  from assms(1) n have "serviceToOperations q = track s op (serviceToOperations p)"
    by (auto simp: buildMetricKey_def buildKey_def Let_def)
  from track_ok [OF assms(2) n this buildMetricKey_frame(1) [OF assms(1)]] show ?thesis .
qed

lemma aggregate_latency_tracks: "tracking_ok p \<Longrightarrow> tracking_ok (aggregate_latency env service sp r p)"
proof -
  assume ok: "tracking_ok p"
  obtain k p1 where b: "buildMetricKey service sp (sp_dimensions p) r p = (k, p1)" by fastforce
  obtain v cs where "sp_cache env service sp k r p1 =
    p1\<lparr>attrsCardinality := cs, metricKeyToDimensions := remember env k v (metricKeyToDimensions p1)\<rparr>" by (rule sp_cache_eq)
  with buildMetricKey_tracks [OF b ok] show ?thesis
    by (simp add: aggregate_latency_def b updateHistogram_def tracking_ok_def)
qed

lemma aggregate_exp_tracks: "tracking_ok p \<Longrightarrow> tracking_ok (aggregate_exp env service sp r p)"
proof -
  assume ok: "tracking_ok p"
  obtain k p1 where b: "buildMetricKey service sp (expDimensions p) r p = (k, p1)" by fastforce
  obtain v cs where "expHistogramCache env service sp k r p1 =
    p1\<lparr>attrsCardinality := cs, expHistogramKeyToDimensions := remember env k v (expHistogramKeyToDimensions p1)\<rparr>"
    by (rule expHistogramCache_eq)
  with buildMetricKey_tracks [OF b ok] ok show ?thesis
    by (simp add: aggregate_exp_def b updateExpHistogram_def tracking_ok_def Let_def)
qed

lemma aggregate_calls_tracks: "tracking_ok p \<Longrightarrow> tracking_ok (aggregate_calls env service sp r p)"
proof -
  assume ok: "tracking_ok p"
  obtain k p1 where b: "buildMetricKey service sp (callDimensions p) r p = (k, p1)" by fastforce
  obtain v cs where "callCache env service sp k r p1 =
    p1\<lparr>attrsCardinality := cs, callMetricKeyToDimensions := remember env k v (callMetricKeyToDimensions p1)\<rparr>"
    by (rule callCache_eq)
  with buildMetricKey_tracks [OF b ok] show ?thesis
    by (simp add: aggregate_calls_def b updateCallHistogram_def tracking_ok_def)
qed

lemma aggregate_external_tracks: "tracking_ok (aggregate_external env service sp r p) = tracking_ok p"
proof (cases "getRemoteAddress (url_Host env) sp")
  case (Some addr)
  let ?key = "buildCustomMetricKey service sp (externalCallDimensions p) r [addr] p"
  obtain v cs where "externalCallCache env service sp ?key r [(''address'', StrValue addr)] p =
    p\<lparr>attrsCardinality := cs, externalCallMetricKeyToDimensions := remember env ?key v (externalCallMetricKeyToDimensions p)\<rparr>"
    by (rule externalCallCache_eq)
  with Some show ?thesis by (simp add: aggregate_external_def updateExternalHistogram_def tracking_ok_def Let_def)
qed (simp add: aggregate_external_def)

lemma aggregate_db_tracks: "tracking_ok (aggregate_db env service sp r p) = tracking_ok p"
proof -
  let ?key = "buildCustomMetricKey service sp (dbCallDimensions p) r [] p"
  obtain v cs where "dbCallCache env service sp ?key r p =
    p\<lparr>attrsCardinality := cs, dbCallMetricKeyToDimensions := remember env ?key v (dbCallMetricKeyToDimensions p)\<rparr>"
    by (rule dbCallCache_eq)
  then show ?thesis by (simp add: aggregate_db_def updateDBHistogram_def tracking_ok_def Let_def)
qed

lemma aggregate_span_tracks: "tracking_ok p \<Longrightarrow> tracking_ok (aggregateMetricsForSpan env now service sp r p)"
  by (simp add: aggregateMetricsForSpan_def Let_def aggregate_latency_tracks aggregate_exp_tracks aggregate_calls_tracks
      aggregate_external_tracks aggregate_db_tracks)

lemma batch_tracks:
  assumes "tracking_ok p" "spanmetrics_ConsumeTraces env now next_traces traces p = (traces', err, q)"
  shows "tracking_ok q"
proof -
  have "tracking_ok (fold (aggregate_one env now) xs p)" if "tracking_ok p" for xs and p :: "('a, 'b) processorImp"
    using that by (induction xs arbitrary: p) (auto simp: aggregate_one_def aggregate_span_tracks)
  with assms show ?thesis by (auto simp: spanmetrics_ConsumeTraces_def aggregateMetrics_def aggregate_resources_fold)
qed

text \<open>An export does not touch what is tracked.\<close>

lemma collect_tracks:
  "serviceToOperations (snd (collectCallMetrics env order now p)) = serviceToOperations p"
  "serviceToOperations (snd (collectLatencyMetrics env order now p)) = serviceToOperations p"
  "serviceToOperations (snd (collectExternalCallMetrics env order now p)) = serviceToOperations p"
  "serviceToOperations (snd (collectDBCallMetrics env order now p)) = serviceToOperations p"
  "serviceToOperations (snd (collectExpHistogramMetrics env order now p)) = serviceToOperations p"
  by (simp_all add: collectCallMetrics_def collectLatencyMetrics_def collectExternalCallMetrics_def
      collectDBCallMetrics_def collectExpHistogramMetrics_def Let_def split: prod.split sum.split)

lemma collect_all_tracks:
  assumes "\<And>f p. f \<in> set fs \<Longrightarrow> serviceToOperations (snd (f p)) = serviceToOperations p"
  shows "serviceToOperations (snd (collect_all fs p)) = serviceToOperations p"
  using assms
proof (induction fs arbitrary: p)
  case (Cons f fs)
  obtain x p1 where f: "f p = (x, p1)" by fastforce
  with Cons.prems [of f p] have "serviceToOperations p1 = serviceToOperations p" by simp
  moreover have "serviceToOperations (snd (collect_all fs p1)) = serviceToOperations p1" using Cons by simp
  ultimately show ?case by (cases x; cases "collect_all fs p1"; cases "fst (collect_all fs p1)") (simp_all add: f)
qed simp

lemma export_tracks: "serviceToOperations (snd (exportMetrics env order now p)) = serviceToOperations p"
proof -
  obtain x p1 where c: "collect_all
      [collectCallMetrics env order now, collectLatencyMetrics env order now,
       collectExternalCallMetrics env order now, collectDBCallMetrics env order now,
       collectExpHistogramMetrics env order now] p = (x, p1)" by fastforce
  have "serviceToOperations (snd (collect_all
      [collectCallMetrics env order now, collectLatencyMetrics env order now,
       collectExternalCallMetrics env order now, collectDBCallMetrics env order now,
       collectExpHistogramMetrics env order now] p)) = serviceToOperations p"
    by (rule collect_all_tracks) (auto simp del: collect_all.simps simp: collect_tracks)
  then have "serviceToOperations p1 = serviceToOperations p" by (simp only: c snd_conv)
  then show ?thesis
    unfolding exportMetrics_def buildMetrics_def c
    by (simp add: Let_def resetExemplarData_def resetAccumulatedMetrics_def deleteUncached_def removeAllEvicted_def
        split: sum.split)
qed


lemma sp_run_tracks:
  assumes "span_inv env contents cap n p" "tracking_ok p" "fair_events es" "sp_run env es p = (sent, q)"
  shows "tracking_ok q \<and> sp_setup q = sp_setup p"
  using assms
proof (induction es arbitrary: p sent)
  case (Cons e es)
  show ?case
  proof (cases e)
    case (Batch now traces)
    obtain traces' err p1 where s: "spanmetrics_ConsumeTraces env now (\<lambda>_. None) traces p = (traces', err, p1)"
      by (metis prod_cases3)
    from spans_counted_once' [OF Cons.prems(1) s] batch_tracks [OF Cons.prems(2) s] Cons.IH [of p1 sent] Cons.prems(3,4) Batch s
    show ?thesis by simp
  next
    case (Tick order now)
    with Cons.prems(3) have "fair_order order" by simp
    from export_eq [OF Cons.prems(1) this] obtain p1 out where
      e: "exportMetrics env order now p = (out, p1)" "span_inv env contents cap n p1" "sp_setup p1 = sp_setup p" by metis
    have "serviceToOperations p1 = serviceToOperations p" using export_tracks [of env order now p] e(1) by simp
    then have "tracking_ok p1" using Cons.prems(2) tracking_ok_cong e(3) by blast
    with Cons.IH [of p1] e Cons.prems(3,4) Tick show ?thesis by (auto split: prod.splits)
  qed
qed simp

text \<open>What is tracked is bounded. Over every run of a processor it tracks at most
  \<^verbatim>\<open>max_services_to_track\<close> + 2 services, and for each at most
  \<^verbatim>\<open>max_operations_to_track_per_service\<close> + 2 operations: one beyond the limit, and the overflow
  name.\<close>

theorem tracking_bounded:
  assumes lru: "lru_promises (dims_lru env) contents cap"
    and new: "newProcessor env instance_id created config = Done (Inr p)"
    and fair: "fair_events es" and run: "sp_run env es p = (sent, q)"
  shows "int (length (serviceToOperations q)) \<le> max 0 (MaxServicesToTrack config + 1) + 1 \<and>
    (\<forall>(service, ops) \<in> set (serviceToOperations q).
      int (length ops) \<le> max 0 (MaxOperationsToTrackPerService config + 1) + 1)"
proof -
  note i = newProcessor_inv [OF lru new]
  have limits: "maxNumberOfServicesToTrack p = MaxServicesToTrack config"
    "maxNumberOfOperationsToTrackPerService p = MaxOperationsToTrackPerService config"
    using new unfolding newProcessor_def Let_def
    by (auto simp: bind_outcome_Done split: option.splits if_splits sum.splits)
  have "tracking_ok p" using i by (simp add: tracking_ok_def)
  with sp_run_tracks [OF _ this fair run] i have "tracking_ok q" "sp_setup q = sp_setup p" by blast+
  with limits show ?thesis using capped_length by (fastforce simp: tracking_ok_def sp_setup_def)
qed

section \<open>What a key says\<close>

definition no_nul :: "string \<Rightarrow> bool" where
  "no_nul s \<longleftrightarrow> CHR 0x00 \<notin> set s"

lemma split_at_nul:
  "no_nul x \<Longrightarrow> no_nul y \<Longrightarrow> x @ [CHR 0x00] @ s = y @ [CHR 0x00] @ t \<longleftrightarrow> x = y \<and> s = t"
proof (induction x arbitrary: y)
  case Nil
  then show ?case by (cases y) (auto simp: no_nul_def)
next
  case (Cons c x)
  then show ?case by (cases y) (auto simp: no_nul_def)
qed

lemma nul_join_inj:
  "list_all no_nul xs \<Longrightarrow> list_all no_nul ys \<Longrightarrow> xs \<noteq> [] \<Longrightarrow> ys \<noteq> [] \<Longrightarrow>
    join metricKeySeparator xs = join metricKeySeparator ys \<Longrightarrow> xs = ys"
proof (induction xs arbitrary: ys)
  case (Cons x xs)
  then obtain y ys' where ys: "ys = y # ys'" by (cases ys) auto
  have n: "no_nul x" "no_nul y" using Cons.prems ys by simp_all
  have nul: "\<not> no_nul (a @ metricKeySeparator @ b)" for a b by (simp add: no_nul_def metricKeySeparator_def)
  consider "xs = []" "ys' = []" | "xs = []" "ys' \<noteq> []" | "xs \<noteq> []" "ys' = []" | "xs \<noteq> []" "ys' \<noteq> []" by blast
  then show ?case
  proof cases
    case 1
    then show ?thesis using Cons.prems ys by simp
  next
    case 2
    then have "x = y @ metricKeySeparator @ join metricKeySeparator ys'" using Cons.prems(5) ys by (simp add: join_Cons)
    with n nul show ?thesis by metis
  next
    case 3
    then have "x @ metricKeySeparator @ join metricKeySeparator xs = y" using Cons.prems(5) ys by (simp add: join_Cons)
    with n nul show ?thesis by metis
  next
    case 4
    then have "x @ [CHR 0x00] @ join metricKeySeparator xs = y @ [CHR 0x00] @ join metricKeySeparator ys'"
      using Cons.prems(5) ys by (simp add: join_Cons metricKeySeparator_def)
    then have "x = y" "join metricKeySeparator xs = join metricKeySeparator ys'" using split_at_nul [OF n] by blast+
    with Cons.IH [of ys'] Cons.prems 4 ys show ?thesis by simp
  qed
qed simp

definition dim_texts :: "dimension list \<Rightarrow> pmap \<Rightarrow> pmap \<Rightarrow> string list" where
  "dim_texts dims a r = List.map_filter (\<lambda>d. map_option Value_AsString (getDimensionValue d a r)) dims"

lemma key_dims_join:
  "key_dims (join metricKeySeparator (xs @ [y])) dims a r = join metricKeySeparator (xs @ [y] @ dim_texts dims a r)"
proof (induction dims arbitrary: xs y)
  case (Cons d dims)
  have snoc: "join metricKeySeparator (xs @ [y]) @ metricKeySeparator @ v = join metricKeySeparator ((xs @ [y]) @ [v])" for v
    by (induction xs) (simp_all add: join_Cons)
  show ?case
  proof (cases "getDimensionValue d a r")
    case None
    with Cons show ?thesis by (simp add: key_dims_def dim_texts_def List.map_filter_def)
  next
    case (Some v)
    with Cons.IH [of "xs @ [y]" "Value_AsString v"] snoc show ?thesis
      by (simp add: key_dims_def dim_texts_def List.map_filter_def concatDimensionValue_def)
  qed
qed (simp add: key_dims_def dim_texts_def List.map_filter_def)


definition time_prefix :: "('l, 'h) processorImp \<Rightarrow> mspan \<Rightarrow> string list" where
  "time_prefix p sp =
     (if GetAggregationTemporality (sp_config p) = AggregationTemporalityDelta
      then [show_int (time_Truncate (AsTime (ms_Start sp)) (GetTimeBucketInterval (sp_config p)) div 10 ^ 9)] else [])"

definition key_fields where
  "key_fields p service sp dims r =
     time_prefix p sp @ [fst (overflow_names p service (ms_Name sp)), snd (overflow_names p service (ms_Name sp)),
       SpanKindStr (ms_Kind sp), StatusCodeStr (ms_Status sp)] @ dim_texts dims (ms_Attributes sp) r"

lemma buildMetricKey_fields:
  "fst (buildMetricKey service sp dims r p) = join metricKeySeparator (key_fields p service sp dims r)"
proof -
  obtain s op where n: "overflow_names p service (ms_Name sp) = (s, op)" by fastforce
  let ?k = "SpanKindStr (ms_Kind sp)" and ?c = "StatusCodeStr (ms_Status sp)"
  have "fst (buildMetricKey service sp dims r p) =
      key_dims (join metricKeySeparator ((time_prefix p sp @ [s, op, ?k]) @ [?c])) dims (ms_Attributes sp) r"
    by (simp add: buildMetricKey_def buildKey_def n Let_def key_start_def AddTimeToKeyBuf_def time_prefix_def
        concatDimensionValue_def join_Cons)
  also have "\<dots> = join metricKeySeparator ((time_prefix p sp @ [s, op, ?k]) @ [?c] @ dim_texts dims (ms_Attributes sp) r)"
    by (rule key_dims_join)
  finally show ?thesis by (simp add: key_fields_def n)
qed

lemma no_nul_digit: "d < 10 \<Longrightarrow> digit_char d \<noteq> CHR 0x00"
proof
  assume "d < 10" "digit_char d = CHR 0x00"
  then have "(of_char (char_of (48 + d) :: char) :: nat) = 0" by (simp add: digit_char_def)
  with \<open>d < 10\<close> show False by simp
qed

lemma no_nul_show_nat: "no_nul (show_nat n)"
proof (induction n rule: show_nat.induct)
  case (1 n)
  show ?case
    using 1 no_nul_digit [of n] no_nul_digit [of "n mod 10"]
    by (cases "n < 10") (auto simp: show_nat_small show_nat_big no_nul_def)
qed

lemma no_nul_show_int: "no_nul (show_int i)"
  using no_nul_show_nat by (simp add: show_int_def) (simp add: no_nul_def)

lemma no_nul_kind: "no_nul (SpanKindStr k)" and no_nul_status: "no_nul (StatusCodeStr c)"
  by (cases k; simp add: no_nul_def) (cases c; simp add: no_nul_def)

lemma no_nul_overflow: "no_nul overflowServiceName" "no_nul overflowOperation"
  by (simp_all add: no_nul_def overflowServiceName_def overflowOperation_def)

lemmas no_nul_names = no_nul_overflow no_nul_kind no_nul_status

text \<open>A span whose dimensions all have a value, and whose texts hold no NUL.\<close>

definition complete_span :: "string \<Rightarrow> mspan \<Rightarrow> dimension list \<Rightarrow> pmap \<Rightarrow> bool" where
  "complete_span service sp dims r \<longleftrightarrow> no_nul service \<and> no_nul (ms_Name sp) \<and>
     (\<forall>d \<in> set dims. case getDimensionValue d (ms_Attributes sp) r of None \<Rightarrow> False | Some v \<Rightarrow> no_nul (Value_AsString v))"

lemma dim_texts_complete:
  "\<forall>d \<in> set dims. getDimensionValue d a r \<noteq> None \<Longrightarrow>
    dim_texts dims a r = map (\<lambda>d. Value_AsString (the (getDimensionValue d a r))) dims"
  by (induction dims) (auto simp: dim_texts_def List.map_filter_def)

lemma complete_key_fields: "complete_span service sp dims r \<Longrightarrow> list_all no_nul (key_fields p service sp dims r)"
  by (auto simp: complete_span_def key_fields_def time_prefix_def no_nul_names no_nul_show_int overflow_names_def Let_def
      dim_texts_def List.map_filter_def list_all_iff split: option.splits)

definition label_texts :: "pmap \<Rightarrow> (string \<times> string) list" where
  "label_texts m = map (\<lambda>(k, v). (k, Value_AsString v)) m"

lemma label_texts_update: "label_texts (AList.update k v m) = AList.update k (Value_AsString v) (label_texts m)"
  by (induction m) (auto simp: label_texts_def)

lemma put_dims_texts:
  assumes "\<forall>d \<in> set dims. map_option Value_AsString (fst (getDimensionValueWithResource d a1 r1)) =
      map_option Value_AsString (fst (getDimensionValueWithResource d a2 r2)) \<and>
      snd (getDimensionValueWithResource d a1 r1) = snd (getDimensionValueWithResource d a2 r2)"
    and "label_texts m1 = label_texts m2"
  shows "label_texts (put_dims dims a1 r1 m1) = label_texts (put_dims dims a2 r2 m2)"
  using assms
proof (induction dims arbitrary: m1 m2)
  case (Cons d dims)
  obtain x f where 1: "getDimensionValueWithResource d a1 r1 = (x, f)" by fastforce
  with Cons.prems(1) obtain y where 2: "getDimensionValueWithResource d a2 r2 = (y, f)"
    and t: "map_option Value_AsString x = map_option Value_AsString y" by (cases "getDimensionValueWithResource d a2 r2") auto
  define st where "st = (\<lambda>(z :: pvalue option) m. case z of None \<Rightarrow> m
    | Some v \<Rightarrow> (let m = AList.update (dim_name d) v m
               in if f then AList.update (resourcePrefix @ dim_name d) v m else m))"
  have step: "put_dims (d # dims) a r m = put_dims dims a r (st z m)" if "getDimensionValueWithResource d a r = (z, f)" for a r z m
    using that by (cases z) (simp_all add: put_dims_def st_def Let_def)
  have "label_texts (st x m1) = label_texts (st y m2)"
    using t Cons.prems(2) by (cases x; cases y) (simp_all add: st_def Let_def label_texts_update)
  with Cons.IH [of "st x m1" "st y m2"] Cons.prems(1) show ?case
    unfolding step [OF 1] step [OF 2] by simp
qed (simp add: put_dims_def)



section \<open>The first span that overflows\<close>

lemma put_dims_keeps:
  assumes "k \<notin> dim_name ` set dims" "k \<notin> (\<lambda>d. resourcePrefix @ dim_name d) ` set dims"
  shows "map_of (put_dims dims a r m) k = map_of m k"
  using assms
proof (induction dims arbitrary: m)
  case (Cons d dims)
  obtain x f where g: "getDimensionValueWithResource d a r = (x, f)" by fastforce
  obtain m' where m': "put_dims (d # dims) a r m = put_dims dims a r m'" "map_of m' k = map_of m k"
    using Cons.prems g by (cases x; cases f) (auto simp: put_dims_def Let_def AList.update_conv')
  with Cons show ?case by simp
qed (simp add: put_dims_def)

lemma not_service_resource: "serviceNameKey \<noteq> resourcePrefix @ n"
  by (simp add: serviceNameKey_def resourcePrefix_def)

lemma service_label:
  assumes "serviceNameKey \<notin> dim_name ` set dims"
  shows "map_of (fst (buildDimensionKVs service sp dims r p)) serviceNameKey =
    Some (StrValue (fst (overflow_names p service (ms_Name sp))))"
proof -
  obtain s op where n: "overflow_names p service (ms_Name sp) = (s, op)" by fastforce
  have "serviceNameKey \<notin> (\<lambda>d. resourcePrefix @ dim_name d) ` set dims" using not_service_resource by fastforce
  from put_dims_keeps [OF assms this] show ?thesis
    by (simp add: buildDimensionKVs_def n Let_def AList.update_conv') (simp add: key_names)
qed

text \<open>The span that fills the last place gets the wrong label. When as many services are tracked as
  allowed and a span of another service comes, its key still starts with its own service, but the
  labels cached for that key say \<^verbatim>\<open>overflow_service\<close>; the next span of the same service gets a
  key that starts with \<^verbatim>\<open>overflow_service\<close>, and the same label: two series with one service
  label.\<close>

theorem overflow_mislabels:
  assumes full: "int (length (serviceToOperations p)) = maxNumberOfServicesToTrack p"
    and fresh: "service \<notin> set (map fst (serviceToOperations p))" "service \<noteq> overflowServiceName"
    and dims: "serviceNameKey \<notin> dim_name ` set dims"
    and key: "buildMetricKey service sp dims r p = (k, q)"
  shows "(\<exists>rest. k = key_start p sp @ service @ metricKeySeparator @ rest) \<and>
    map_of (fst (buildDimensionKVs service sp dims r q)) serviceNameKey = Some (StrValue overflowServiceName) \<and>
    (\<exists>rest. fst (buildMetricKey service sp dims r q) = key_start p sp @ overflowServiceName @ metricKeySeparator @ rest)"
proof -
  have n: "fst (overflow_names p service (ms_Name sp)) = service" using full by (simp add: overflow_names_def Let_def)
  have "serviceToOperations q = track service (snd (overflow_names p service (ms_Name sp))) (serviceToOperations p)"
    using key n by (auto simp: buildMetricKey_def buildKey_def Let_def split: prod.splits)
  then have "map fst (serviceToOperations q) = map fst (serviceToOperations p) @ [service]"
    using fresh(1) by (simp add: track_def AList.update_keys)
  then have "length (serviceToOperations q) = Suc (length (serviceToOperations p))" by (metis length_append_singleton length_map)
  moreover have su: "sp_setup q = sp_setup p" by (rule buildMetricKey_frame(1) [OF key])
  ultimately have ov: "fst (overflow_names q service name) = overflowServiceName" for name
    using full by (simp add: overflow_names_def Let_def sp_setup_def)
  have start: "key_start q sp = key_start p sp" using su by (simp add: key_start_def sp_setup_def)
  have starts: "\<exists>rest. fst (buildMetricKey service sp dims r p') =
      key_start p' sp @ fst (overflow_names p' service (ms_Name sp)) @ metricKeySeparator @ rest" for p' :: "('a, 'b) processorImp"
  proof -
    have "\<exists>rest. join metricKeySeparator (key_fields p' service sp dims r) =
      join metricKeySeparator (time_prefix p' sp @ [fst (overflow_names p' service (ms_Name sp))]) @ metricKeySeparator @ rest"
      by (auto simp: key_fields_def time_prefix_def join_Cons)
    then show ?thesis
      unfolding buildMetricKey_fields by (auto simp: time_prefix_def key_start_def AddTimeToKeyBuf_def join_Cons)
  qed
  from starts [of p] starts [of q] key n ov start service_label [OF dims, of service sp r q] show ?thesis by simp
qed

text \<open>A key does not say where a dimension was found, the labels do: a span with the dimension in its
  resource and one with it in its own attributes share their key, but not their labels.\<close>

lemma key_misses_resource:
  fixes p :: "('l, 'h) processorImp"
  defines "d \<equiv> \<lparr>dim_name = ''env'', dim_value = None\<rparr>" and "attr \<equiv> [(''env'', StrValue ''x'')]"
  assumes "ms_Attributes sp = []"
  shows "fst (buildMetricKey s (sp\<lparr>ms_Attributes := attr\<rparr>) [d] [] p) = fst (buildMetricKey s sp [d] attr p) \<and>
    map_of (fst (buildDimensionKVs s (sp\<lparr>ms_Attributes := attr\<rparr>) [d] [] p)) ''resource_env'' = None \<and>
    map_of (fst (buildDimensionKVs s sp [d] attr p)) ''resource_env'' = Some (StrValue ''x'')"
  using assms
  by (simp add: buildMetricKey_fields key_fields_def time_prefix_def dim_texts_def List.map_filter_def getDimensionValue_def
      buildDimensionKVs_def put_dims_def getDimensionValueWithResource_def tagHTTPStatusCode_def AList.update_conv'
      resourcePrefix_def key_names Let_def split: prod.split)

section \<open>Time buckets\<close>

lemma digits_value_append:
  "digits_value acc (xs @ ys) = (case digits_value acc xs of None \<Rightarrow> None | Some a \<Rightarrow> digits_value a ys)"
  by (induction xs arbitrary: acc) (simp_all add: Let_def)

lemma digits_value_digit: "d < 10 \<Longrightarrow> digits_value acc [digit_char d] = Some (10 * acc + d)"
  by (simp add: digit_char_def Let_def)

lemma digits_value_show_nat: "digits_value 0 (show_nat n) = Some n"
proof (induction n rule: show_nat.induct)
  case (1 n)
  show ?case
  proof (cases "n < 10")
    case True
    then show ?thesis using digits_value_digit [of n 0] by (simp add: show_nat_small)
  next
    case False
    have "10 * (n div 10) + n mod 10 = n" by simp
    with 1 False digits_value_digit [of "n mod 10"] show ?thesis by (simp add: show_nat_big digits_value_append)
  qed
qed

lemma show_nat_hd_digit: "\<exists>d<10. hd (show_nat n) = digit_char d"
proof (induction n rule: show_nat.induct)
  case (1 n)
  then show ?case by (cases "n < 10") (auto simp: show_nat_small show_nat_big)
qed

lemma digit_not_sign: "d < 10 \<Longrightarrow> digit_char d \<noteq> CHR ''-'' \<and> digit_char d \<noteq> CHR ''+''"
proof (intro conjI notI)
  assume d: "d < 10"
  have v: "(of_char (digit_char d) :: nat) = 48 + d" using d by (simp add: digit_char_def)
  show "False" if "digit_char d = CHR ''-''" using v that d by simp
  show "False" if "digit_char d = CHR ''+''" using v that d by simp
qed

lemma ParseInt_show_int: "int64_range i \<Longrightarrow> ParseInt (show_int i) = Some i"
proof -
  assume r: "int64_range i"
  have sign: "hd (show_nat n) \<noteq> CHR ''-''" "hd (show_nat n) \<noteq> CHR ''+''" for n
    using show_nat_hd_digit [of n] digit_not_sign by metis+
  with r show ?thesis by (auto simp: ParseInt_def show_int_def digits_value_show_nat)
qed

text \<open>The time bucket survives the key. In delta temporality, for an interval of whole seconds, the
  points of the series of a span are timed, start and end, at the beginning of the bucket its start
  lies in, whatever the clock says when they are built.\<close>

theorem bucket_roundtrip:
  assumes delta: "GetAggregationTemporality (sp_config p) = AggregationTemporalityDelta"
    and interval: "GetTimeBucketInterval (sp_config p) = secs * 10 ^ 9" "0 < secs" "int64_range (secs * 10 ^ 9)"
    and key: "buildMetricKey service sp dims r p = (k, q)"
  shows "\<exists>bucket. parseTimesFromKeyOrNow k now started = (NewTimestampFromTime bucket, NewTimestampFromTime bucket) \<and>
    bucket \<le> AsTime (ms_Start sp) \<and> AsTime (ms_Start sp) < bucket + secs * 10 ^ 9 \<and>
    (bucket - zero_time) mod (secs * 10 ^ 9) = 0"
proof -
  let ?t = "AsTime (ms_Start sp)" and ?I = "secs * 10 ^ 9"
  define b where "b = ?t - (?t - zero_time) mod ?I"
  have I: "0 < ?I" using interval(2) by simp
  have trunc: "time_Truncate ?t (GetTimeBucketInterval (sp_config p)) = b"
    using interval I by (simp add: time_Truncate_def b_def)
  have "b - zero_time = ?I * ((?t - zero_time) div ?I)"
    using minus_mod_eq_mult_div [of "?t - zero_time" ?I] unfolding b_def by linarith
  then have mods: "(b - zero_time) mod ?I = 0" by (simp only: mod_mult_self1_is_0)
  have lo: "b \<le> ?t" "?t < b + ?I"
    using pos_mod_sign [OF I, of "?t - zero_time"] pos_mod_bound [OF I, of "?t - zero_time"] by (simp_all add: b_def)
  have "?I dvd b - zero_time" using mods by (simp add: dvd_eq_mod_eq_0)
  moreover have "(10 :: int) ^ 9 dvd ?I" by simp
  ultimately have "(10 :: int) ^ 9 dvd b - zero_time" by (metis dvd_trans)
  moreover have "(10 :: int) ^ 9 dvd zero_time" by (simp add: zero_time_def)
  ultimately have "(10 :: int) ^ 9 dvd b" by (metis dvd_diffD diff_add_cancel dvd_add)
  then have whole: "(b div 10 ^ 9) * 10 ^ 9 = b" by simp
  have "- (2 ^ 63) \<le> ?t" "?t < 2 ^ 63"
    using sint_ge [of "ms_Start sp"] sint_lt [of "ms_Start sp"] by (simp_all add: AsTime_def)
  with lo interval(3) have "int64_range (b div 10 ^ 9)"
    by (auto simp: int64_range_def)
  note parse = ParseInt_show_int [OF this]
  let ?f = "show_int (b div 10 ^ 9)"
  have ne: "?f \<noteq> []" by (simp add: show_int_def)
  obtain rest where "k = ?f @ metricKeySeparator @ rest"
    using buildMetricKey_fields [of service sp dims r p] key delta
    by (auto simp: key_fields_def time_prefix_def trunc join_Cons)
  then have tw: "takeWhile (\<lambda>c. c \<noteq> CHR 0x00) k = ?f" "?f \<noteq> k"
    using no_nul_show_int [of "b div 10 ^ 9"] by (auto simp: metricKeySeparator_def no_nul_def takeWhile_append)
  have "parseTimesFromKeyOrNow k now started = (NewTimestampFromTime b, NewTimestampFromTime b)"
    by (simp only: parseTimesFromKeyOrNow_def Let_def tw ne parse whole option.case simp_thms if_False)
  then show ?thesis using lo mods by (intro exI [of _ b] conjI)
qed

section \<open>Buckets of a histogram\<close>

text \<open>A sample lands in its bucket. For sorted bounds a sample adds one to exactly the bucket whose
  upper bound is the first not below it, the last bucket when all bounds are below, and one to the
  counter; a consistent histogram stays consistent.\<close>

theorem sample_lands_in_bucket:
  assumes "sorted bounds" and "consistent bounds h"
  shows "\<exists>i \<le> length bounds.
    bucketCounts (observe bounds x t s h) = (bucketCounts h)[i := bucketCounts h ! i + 1] \<and>
    (0 < i \<longrightarrow> bounds ! (i - 1) < x) \<and> (i < length bounds \<longrightarrow> x \<le> bounds ! i) \<and>
    hd_count (observe bounds x t s h) = hd_count h + 1 \<and> consistent bounds (observe bounds x t s h)"
proof -
  let ?i = "SearchFloat64s bounds x"
  have "(\<forall>m < ?i. bounds ! m < x) \<and> (\<forall>m. ?i \<le> m \<and> m < length bounds \<longrightarrow> x \<le> bounds ! m)"
    unfolding SearchFloat64s_def by (rule search_floats_sorted) (use assms(1) in auto)
  with SearchFloat64s_range [of bounds x] consistent_observe [OF assms(2)] show ?thesis
    by (intro exI [of _ ?i]) (auto simp: observe_def Let_def)
qed

end
