(* ===== verification/SpanSamples.thy ===== *)
theory SpanSamples
  imports SpanLabels
begin

text \<open>
  A concrete processor, with an LRU cache of one entry and a list for the exponential histograms, on
  which the theorems of the span metrics processor are evaluated: their hypotheses can hold.
\<close>

definition sample_expo :: "rat list expo_lib" where
  "sample_expo = \<lparr>expo_Init = [], expo_Update = (#), expo_Count = (\<lambda>h. word_of_nat (length h)), expo_Sum = sum_list,
     expo_Min = (\<lambda>h. fold min h (hd h)), expo_Max = (\<lambda>h. fold max h (hd h)), expo_ZeroCount = (\<lambda>_. 0),
     expo_Scale = (\<lambda>_. 0), expo_Positive = (\<lambda>_. \<lparr>eb_Offset = 0, eb_Counts = []\<rparr>),
     expo_Negative = (\<lambda>_. \<lparr>eb_Offset = 0, eb_Counts = []\<rparr>)\<rparr>"

definition sample_env :: "((metricKey, pmap) list_lru, rat list) metrics_env" where
  "sample_env = \<lparr>dims_lru = list_lru, pattern_Compiles = (\<lambda>_. True), pattern_MatchString = (=),
     Kind_String = SpanKindStr, Code_String = StatusCodeStr, url_Host = Some, unicode_letter_digit = (\<lambda>_. True),
     expo = sample_expo\<rparr>"

definition delta_config :: spanmetrics_Config where
  "delta_config = (createDefaultConfig False)\<lparr>AggregationTemporality := ''AGGREGATION_TEMPORALITY_DELTA'',
     MetricsExporter := ''prom'', DimensionsCacheSize := 1\<rparr>"

definition sample_cache :: "(metricKey, pmap) list_lru dims_cache" where
  "sample_cache = \<lparr>cache_lru = (1, []), evictedItems = []\<rparr>"

definition sample_processor :: "((metricKey, pmap) list_lru, rat list) processorImp" where
  "sample_processor =
     \<lparr>instanceID = ''id'', sp_config = delta_config\<lparr>TimeBucketInterval := defaultTimeBucketInterval\<rparr>, metricsConsumer = [],
      sp_dimensions = [], expDimensions = [],
      callDimensions = [\<lparr>dim_name = tagHTTPStatusCode, dim_value = None\<rparr>],
      dbCallDimensions = [\<lparr>dim_name = ''db.system'', dim_value = None\<rparr>, \<lparr>dim_name = ''db.name'', dim_value = None\<rparr>],
      externalCallDimensions = [\<lparr>dim_name = tagHTTPStatusCode, dim_value = None\<rparr>],
      sp_startTimestamp = 0, histograms = [], latencyBounds = defaultLatencyHistogramBucketsMs,
      expHistograms = [], callHistograms = [], dbCallHistograms = [], externalCallHistograms = [],
      metricKeyToDimensions = sample_cache, expHistogramKeyToDimensions = sample_cache,
      callMetricKeyToDimensions = sample_cache, dbCallMetricKeyToDimensions = sample_cache,
      externalCallMetricKeyToDimensions = sample_cache, attrsCardinality = [], excludePatternRegex = [],
      sp_started = False, sp_stopped = False, shutdownOnce = False, serviceToOperations = [],
      maxNumberOfServicesToTrack = 256, maxNumberOfOperationsToTrackPerService = 2048\<rparr>"

lemma sample_new: "newProcessor sample_env ''id'' 0 delta_config = Done (Inr sample_processor)"
  by (simp add: newProcessor_def delta_config_def createDefaultConfig_def validateDimensions_def sample_env_def NewCache_def
      list_lru_def newDimensions_def named_dimension_def sample_processor_def sample_cache_def NewTimestampFromTime_def
      Let_def)

lemma sample_promises: "lru_promises (dims_lru sample_env) (\<lambda>l. map_of (snd l)) list_cap"
  by (simp add: sample_env_def list_lru_promises)

lemma sample_inv: "span_inv sample_env (\<lambda>l. map_of (snd l)) list_cap 1 sample_processor"
  using newProcessor_inv [OF sample_promises sample_new] by (simp add: delta_config_def)

definition sample_span :: mspan where
  "sample_span = \<lparr>ms_Name = ''op'', ms_Kind = SpanKindServer, ms_Status = SpanStatusOk, ms_TraceID = [1], ms_SpanID = [2],
     ms_Start = 61000000000, ms_End = 61005000000, ms_Attributes = []\<rparr>"

definition sample_traces :: "mresource list" where
  "sample_traces = [\<lparr>mr_Attributes = [(serviceNameKey, StrValue ''a'')], mr_Scopes = [[sample_span]]\<rparr>]"

lemma sample_live: "sp_setup p = sp_setup (sample_processor\<lparr>metricsConsumer := cs\<rparr>) \<Longrightarrow>
    length (live_spans sample_env (\<lambda>_. 10 ^ 11) p sample_traces) = 1"
  by (simp add: sp_setup_def live_spans_def spans_of_def sample_traces_def skips_def stale_def shouldSkip_def
      sample_processor_def delta_config_def createDefaultConfig_def GetSkipSpansOlderThan_def defaultSkipSpansOlderThan_def
      nanosecond_hour_def sample_span_def AsTime_def Let_def)

theorem spans_counted_once_witness:
  "\<exists>q. spanmetrics_ConsumeTraces sample_env (\<lambda>_. 10 ^ 11) (\<lambda>_. None) sample_traces sample_processor =
      (map (stamped ''id'') sample_traces, None, q) \<and>
    total (histograms q) = 1 \<and> total (callHistograms q) = 1"
proof -
  obtain traces' err q where c: "spanmetrics_ConsumeTraces sample_env (\<lambda>_. 10 ^ 11) (\<lambda>_. None) sample_traces sample_processor =
      (traces', err, q)" by (metis prod_cases3)
  have "length (live_spans sample_env (\<lambda>_. 10 ^ 11) sample_processor sample_traces) = 1"
    by (rule sample_live [of _ "[]"]) (simp add: sample_processor_def)
  with spans_counted_once [OF sample_inv c] c show ?thesis by (simp add: sample_processor_def total_def)
qed

lemma fair_id: "fair_order (\<lambda>_ ks. ks)"
  by (simp add: fair_order_def)

theorem export_never_fails_witness:
  "\<exists>q. exportMetrics sample_env (\<lambda>_ ks. ks) (\<lambda>_ _. 0) (sample_processor\<lparr>metricsConsumer := [''prom'']\<rparr>) =
      ([(''prom'', Some (all_metrics (\<lambda>l. map_of (snd l)) sample_env (\<lambda>_ ks. ks) (\<lambda>_ _. 0)
          (sample_processor\<lparr>metricsConsumer := [''prom'']\<rparr>)))], q) \<and>
    series_sizes q = [0, 0, 0, 0, 0]"
proof -
  have "span_inv sample_env (\<lambda>l. map_of (snd l)) list_cap 1 (sample_processor\<lparr>metricsConsumer := [''prom'']\<rparr>)"
    using sample_inv by (simp add: span_inv_def pair_defs)
  from export_never_fails [OF this fair_id, of "\<lambda>_ _. 0"] show ?thesis
    by (auto simp: sample_processor_def delta_config_def GetAggregationTemporality_def)
qed

theorem every_span_reported_once_witness:
  "\<exists>sent q. sp_run sample_env
      [Batch (\<lambda>_. 10 ^ 11) sample_traces, Tick (\<lambda>_ ks. ks) (\<lambda>_ _. 0), Batch (\<lambda>_. 10 ^ 11) sample_traces]
      (sample_processor\<lparr>metricsConsumer := [''prom''], sp_started := True\<rparr>) = (sent, q) \<and>
    calls_sent ''prom'' sent + total (callHistograms q) = 2"
proof -
  let ?p = "sample_processor\<lparr>metricsConsumer := [''prom''], sp_started := True\<rparr>"
  let ?es = "[Batch (\<lambda>_. 10 ^ 11) sample_traces, Tick (\<lambda>_ ks. ks) (\<lambda>_ _. 0), Batch (\<lambda>_. 10 ^ 11) sample_traces]"
  obtain sent q where r: "sp_run sample_env ?es ?p = (sent, q)" by fastforce
  have start: "spanmetrics_Start (Some [(''prom'', True)]) sample_processor = (None, ?p)"
    by (simp add: spanmetrics_Start_def sample_processor_def delta_config_def TrimSpace_def is_space_def)
  have "length (live_spans sample_env (\<lambda>_. 10 ^ 11) ?p sample_traces) = 1"
    by (rule sample_live [of _ "[''prom'']"]) (simp add: sp_setup_def)
  then have live: "live_count sample_env ?p ?es = 2" by simp
  have "calls_sent ''prom'' sent + total (callHistograms q) = of_nat (live_count sample_env ?p ?es)"
    by (rule every_span_reported_once [OF sample_promises sample_new start _ _ _ r])
      (simp_all add: delta_config_def fair_id)
  with r live show ?thesis by simp
qed

theorem tracking_bounded_witness:
  "\<exists>sent q. sp_run sample_env [Batch (\<lambda>_. 10 ^ 11) sample_traces] sample_processor = (sent, q) \<and>
    int (length (serviceToOperations q)) \<le> 258"
proof -
  obtain sent q where r: "sp_run sample_env [Batch (\<lambda>_. 10 ^ 11) sample_traces] sample_processor = (sent, q)" by fastforce
  from tracking_bounded [OF sample_promises sample_new _ r] r show ?thesis
    by (simp add: delta_config_def createDefaultConfig_def)
qed


theorem overflow_mislabels_witness:
  "let p = sample_processor\<lparr>maxNumberOfServicesToTrack := 0\<rparr>; q = snd (buildMetricKey ''a'' sample_span [] [] p)
   in map_of (fst (buildDimensionKVs ''a'' sample_span [] [] q)) serviceNameKey = Some (StrValue overflowServiceName)"
proof -
  let ?p = "sample_processor\<lparr>maxNumberOfServicesToTrack := 0\<rparr>"
  obtain k q where k: "buildMetricKey ''a'' sample_span [] [] ?p = (k, q)" by fastforce
  from overflow_mislabels [OF _ _ _ _ k] k show ?thesis
    by (simp add: sample_processor_def overflowServiceName_def)
qed

theorem bucket_roundtrip_witness:
  "\<exists>bucket. parseTimesFromKeyOrNow (fst (buildMetricKey ''a'' sample_span [] [] sample_processor)) 5 7 =
      (NewTimestampFromTime bucket, NewTimestampFromTime bucket) \<and>
    bucket \<le> 61000000000 \<and> 61000000000 < bucket + 60 * 10 ^ 9"
proof -
  obtain k q where k: "buildMetricKey ''a'' sample_span [] [] sample_processor = (k, q)" by fastforce
  have "GetAggregationTemporality (sp_config sample_processor) = AggregationTemporalityDelta"
    "GetTimeBucketInterval (sp_config sample_processor) = 60 * 10 ^ 9"
    by (simp_all add: sample_processor_def delta_config_def GetAggregationTemporality_def GetTimeBucketInterval_def
        defaultTimeBucketInterval_def)
  from bucket_roundtrip [OF this _ _ k, of 5 7] k show ?thesis
    by (simp add: int64_range_def sample_span_def AsTime_def) blast
qed

theorem sample_lands_in_bucket_witness:
  "\<exists>i \<le> 2. bucketCounts (observe [2, 4] 3 [1] [2] (new_histogram [2, 4])) = (replicate 3 0)[i := 1] \<and>
    (0 < i \<longrightarrow> [2, 4] ! (i - 1) < (3 :: rat)) \<and> (i < 2 \<longrightarrow> 3 \<le> ([2, 4] :: rat list) ! i)"
proof -
  let ?h = "new_histogram [2, 4]"
  have h: "bucketCounts ?h = replicate 3 0" by (simp add: new_histogram_def numeral_3_eq_3)
  have "sorted [2, 4 :: rat]" by simp
  from sample_lands_in_bucket [OF this consistent_new, of 3 "[1]" "[2]"]
  obtain i where i: "i \<le> length [2, 4 :: rat]"
    "bucketCounts (observe [2, 4] 3 [1] [2] ?h) = (bucketCounts ?h)[i := bucketCounts ?h ! i + 1]"
    "0 < i \<longrightarrow> [2, 4] ! (i - 1) < (3 :: rat)" "i < length [2, 4 :: rat] \<longrightarrow> 3 \<le> ([2, 4] :: rat list) ! i" by blast
  have two: "length [2, 4 :: rat] = 2" by simp
  have "bucketCounts ?h ! i = 0" unfolding h using i(1) by (intro nth_replicate) simp
  with i h show ?thesis unfolding two by (intro exI [of _ i] conjI) simp_all
qed

end
