(* ===== verification/ExpiringCache.thy ===== *)
theory ExpiringCache
  imports Prelude
begin

text \<open>
  The caches of \<^verbatim>\<open>jellydator/ttlcache\<close> the exporters use: the library as a record of functions, a
  reading of the clock being an argument of each, what its documentation promises, and
  a list that keeps the promises.
\<close>

record ('k, 'v, 't) ttlcache =
  ttl_New :: 't
  ttl_Fetch :: "instant \<Rightarrow> 'k \<Rightarrow> 't \<Rightarrow> 'v option \<times> 't"
  ttl_Store :: "instant \<Rightarrow> 'k \<Rightarrow> 'v \<Rightarrow> 't \<Rightarrow> 't"
  ttl_Listed :: "instant \<Rightarrow> 't \<Rightarrow> 'k list"

text \<open>
  What the documentation promises of a cache without touch on hit: \<open>live c t k\<close> is the value under
  \<open>k\<close> at the time \<open>t\<close>. A value can only be lost as time passes; a lookup answers what is live and
  changes nothing; a new value is live when it is stored, and other keys are left alone; the keys
  listed are those that are live.
\<close>

definition ttl_promises ::
  "('k, 'v, 't) ttlcache \<Rightarrow> ('t \<Rightarrow> instant \<Rightarrow> 'k \<Rightarrow> 'v option) \<Rightarrow> bool" where
  "ttl_promises T live \<longleftrightarrow>
     (\<forall>t. live (ttl_New T) t = Map.empty)
   \<and> (\<forall>c s t k. s \<le> t \<longrightarrow> live c t k = None \<or> live c t k = live c s k)
   \<and> (\<forall>c t. finite (dom (live c t)))
   \<and> (\<forall>c t k. fst (ttl_Fetch T t k c) = live c t k)
   \<and> (\<forall>c s t k. s \<le> t \<longrightarrow> live (snd (ttl_Fetch T s k c)) t = live c t)
   \<and> (\<forall>c t k v. live (ttl_Store T t k v c) t = (live c t)(k \<mapsto> v))
   \<and> (\<forall>c s t k v k'. s \<le> t \<and> k' \<noteq> k \<longrightarrow> live (ttl_Store T s k v c) t k' = live c t k')
   \<and> (\<forall>c t. distinct (ttl_Listed T t c) \<and> set (ttl_Listed T t c) = dom (live c t))"

lemma fetch_live: "ttl_promises T live \<Longrightarrow> fst (ttl_Fetch T t k x) = live x t k"
  unfolding ttl_promises_def by meson

lemma fetch_keeps: "ttl_promises T live \<Longrightarrow> s \<le> t \<Longrightarrow> live (snd (ttl_Fetch T s k x)) t = live x t"
  unfolding ttl_promises_def by meson

lemma live_shrinks: "ttl_promises T live \<Longrightarrow> s \<le> t \<Longrightarrow> live x t k = None \<or> live x t k = live x s k"
  unfolding ttl_promises_def by meson

lemma live_finite: "ttl_promises T live \<Longrightarrow> finite (dom (live x t))"
  unfolding ttl_promises_def by meson

lemma store_live: "ttl_promises T live \<Longrightarrow> live (ttl_Store T t k v x) t = (live x t)(k \<mapsto> v)"
  unfolding ttl_promises_def by meson

lemma store_others: "ttl_promises T live \<Longrightarrow> s \<le> t \<Longrightarrow> k' \<noteq> k \<Longrightarrow> live (ttl_Store T s k v x) t k' = live x t k'"
  unfolding ttl_promises_def by meson

lemma listed_distinct: "ttl_promises T live \<Longrightarrow> distinct (ttl_Listed T t x)"
  unfolding ttl_promises_def by meson

lemma listed_live: "ttl_promises T live \<Longrightarrow> set (ttl_Listed T t x) = dom (live x t)"
  unfolding ttl_promises_def by meson

lemma new_live: "ttl_promises T live \<Longrightarrow> live (ttl_New T) t = Map.empty"
  unfolding ttl_promises_def by meson

text \<open>A value stored lives for the time \<open>ttl\<close> at least.\<close>

definition ttl_lasts :: "duration \<Rightarrow> ('k, 'v, 't) ttlcache \<Rightarrow> ('t \<Rightarrow> instant \<Rightarrow> 'k \<Rightarrow> 'v option) \<Rightarrow> bool" where
  "ttl_lasts ttl T live \<longleftrightarrow>
     (\<forall>c s t k v. s \<le> t \<and> t \<le> s + ttl \<longrightarrow> live (ttl_Store T s k v c) t k = Some v)"

section \<open>A cache as a list\<close>

text \<open>
  A cache with expiry as a list of keys, values and last instants, newest first, for the expiry
  \<open>ttl\<close>; and the laws for it.
\<close>

type_synonym ('k, 'v) list_ttl = "('k \<times> 'v \<times> instant) list"

definition list_live :: "('k, 'v) list_ttl \<Rightarrow> instant \<Rightarrow> 'k \<Rightarrow> 'v option" where
  "list_live l t k = (case map_of l k of None \<Rightarrow> None | Some (v, d) \<Rightarrow> if t \<le> d then Some v else None)"

definition list_ttl :: "duration \<Rightarrow> ('k, 'v, ('k, 'v) list_ttl) ttlcache" where
  "list_ttl ttl = \<lparr>ttl_New = [],
     ttl_Fetch = (\<lambda>t k l. (list_live l t k, l)),
     ttl_Store = (\<lambda>t k v l. (k, v, t + ttl) # l),
     ttl_Listed = (\<lambda>t l. filter (\<lambda>k. list_live l t k \<noteq> None) (remdups (map fst l)))\<rparr>"

lemma list_ttl_promises: "0 \<le> ttl \<Longrightarrow> ttl_promises (list_ttl ttl) list_live"
proof -
  assume "0 \<le> ttl"
  have dom: "dom (list_live l t) \<subseteq> set (map fst l)" for l :: "('a, 'b) list_ttl" and t
    by (auto simp: list_live_def dom_def map_of_eq_None_iff split: option.splits)
  then have "finite (dom (list_live l t))" for l :: "('a, 'b) list_ttl" and t
    by (rule finite_subset) simp
  moreover have "set (ttl_Listed (list_ttl ttl) t l) = dom (list_live l t)" for l :: "('a, 'b) list_ttl" and t
    using dom [of l t] by (auto simp: list_ttl_def)
  moreover have "distinct (ttl_Listed (list_ttl ttl) t l)" for l :: "('a, 'b) list_ttl" and t
    by (simp add: list_ttl_def)
  ultimately show ?thesis
    using \<open>0 \<le> ttl\<close> unfolding ttl_promises_def
    by (auto simp: list_ttl_def list_live_def fun_eq_iff split: option.splits)
qed

lemma list_ttl_lasts: "ttl_lasts ttl (list_ttl ttl) list_live"
  by (simp add: ttl_lasts_def list_ttl_def list_live_def)

end
