(* ===== verification/MetadataCache.thy ===== *)
theory MetadataCache
  imports ExpiringCache
begin

text \<open>
  The cache of fingerprints of the metadata exporter kept in memory,
  \<^verbatim>\<open>exporter/metadataexporter/cache/inmemory.go\<close>: per signal, a cache of resources whose entries
  expire, each with the set of the fingerprints of its attributes. The cache with expiry,
  \<^verbatim>\<open>jellydator/ttlcache\<close>, is a parameter with the laws \<open>ttl_promises\<close> of its documentation; the
  entries it holds are pointers, addresses into \<open>entries\<close>. Every call of it reads the clock: the
  \<open>n\<close>-th reading of a run is \<open>now n\<close>. The lemmas show which limits hold, which limits the
  checks really read, and when they panic.
\<close>

section \<open>The cache\<close>

datatype signal = SignalTraces | SignalMetrics | SignalLogs | OtherSignal string

fun signal_String :: "signal \<Rightarrow> string" where
  "signal_String SignalTraces = ''traces''"
| "signal_String SignalMetrics = ''metrics''"
| "signal_String SignalLogs = ''logs''"
| "signal_String (OtherSignal s) = s"

record InMemoryKeyCacheOptions =
  opt_MaxTracesResourceFp :: nat
  opt_MaxMetricsResourceFp :: nat
  opt_MaxLogsResourceFp :: nat
  opt_MaxTracesCardinalityPerResource :: nat
  opt_MaxMetricsCardinalityPerResource :: nat
  opt_MaxLogsCardinalityPerResource :: nat
  opt_TracesMaxTotalCardinality :: nat
  opt_MetricsMaxTotalCardinality :: nat
  opt_LogsMaxTotalCardinality :: nat

text \<open>
  A \<^verbatim>\<open>resourceEntry\<close> is the list of the keys of its map \<^verbatim>\<open>attrs\<close>, without duplicates;
  \<open>clock_reads\<close> counts the readings of the clock so far.
\<close>

record 't InMemoryKeyCache =
  tracesCache :: 't
  metricsCache :: 't
  logsCache :: 't
  maxTracesResourceFp :: nat
  maxMetricsResourceFp :: nat
  maxLogsResourceFp :: nat
  maxTracesCardinalityPerResource :: nat
  maxMetricsCardinalityPerResource :: nat
  maxLogsCardinalityPerResource :: nat
  tracesMaxTotalCardinality :: nat
  metricsMaxTotalCardinality :: nat
  logsMaxTotalCardinality :: nat
  entries :: "uint64 list list"
  clock_reads :: nat

text \<open>The three caches differ in the expiry only, which is the caches' own.\<close>

definition NewInMemoryKeyCache ::
  "(uint64, nat, 't) ttlcache \<Rightarrow> InMemoryKeyCacheOptions \<Rightarrow> 't InMemoryKeyCache" where
  "NewInMemoryKeyCache T opts = \<lparr>
     tracesCache = ttl_New T,
     metricsCache = ttl_New T,
     logsCache = ttl_New T,
     maxTracesResourceFp = opt_MaxTracesResourceFp opts,
     maxMetricsResourceFp = opt_MaxMetricsResourceFp opts,
     maxLogsResourceFp = opt_MaxLogsResourceFp opts,
     maxTracesCardinalityPerResource = opt_MaxTracesCardinalityPerResource opts,
     maxMetricsCardinalityPerResource = opt_MaxMetricsCardinalityPerResource opts,
     maxLogsCardinalityPerResource = opt_MaxLogsCardinalityPerResource opts,
     tracesMaxTotalCardinality = opt_TracesMaxTotalCardinality opts,
     metricsMaxTotalCardinality = opt_MetricsMaxTotalCardinality opts,
     logsMaxTotalCardinality = opt_LogsMaxTotalCardinality opts,
     entries = [],
     clock_reads = 0\<rparr>"

fun getCacheAndLimits :: "signal \<Rightarrow> 't InMemoryKeyCache \<Rightarrow> ('t \<times> nat \<times> nat) option" where
  "getCacheAndLimits SignalTraces c =
     Some (tracesCache c, maxTracesResourceFp c, maxTracesCardinalityPerResource c)"
| "getCacheAndLimits SignalMetrics c =
     Some (metricsCache c, maxMetricsResourceFp c, maxMetricsCardinalityPerResource c)"
| "getCacheAndLimits SignalLogs c =
     Some (logsCache c, maxLogsResourceFp c, maxLogsCardinalityPerResource c)"
| "getCacheAndLimits (OtherSignal s) c = None"

text \<open>The cache of a signal is a pointer: what a call does to it is seen by the next one.\<close>

fun set_cache :: "signal \<Rightarrow> 't \<Rightarrow> 't InMemoryKeyCache \<Rightarrow> 't InMemoryKeyCache" where
  "set_cache SignalTraces t c = c\<lparr>tracesCache := t\<rparr>"
| "set_cache SignalMetrics t c = c\<lparr>metricsCache := t\<rparr>"
| "set_cache SignalLogs t c = c\<lparr>logsCache := t\<rparr>"
| "set_cache (OtherSignal s) t c = c"

definition tick :: "'t InMemoryKeyCache \<Rightarrow> 't InMemoryKeyCache" where
  "tick c = c\<lparr>clock_reads := clock_reads c + 1\<rparr>"

text \<open>A method of the nil cache panics: a signal that has no cache.\<close>

definition cache_Get ::
  "(uint64, nat, 't) ttlcache \<Rightarrow> (nat \<Rightarrow> instant) \<Rightarrow> signal \<Rightarrow> uint64 \<Rightarrow> 't InMemoryKeyCache \<Rightarrow>
    (nat option \<times> 't InMemoryKeyCache) outcome" where
  "cache_Get T now ds k c =
     (case getCacheAndLimits ds c of
        None \<Rightarrow> Panics
      | Some (t, _) \<Rightarrow>
          (case ttl_Fetch T (now (clock_reads c)) k t of
             (r, t') \<Rightarrow> Done (r, tick (set_cache ds t' c))))"

definition cache_Keys ::
  "(uint64, nat, 't) ttlcache \<Rightarrow> (nat \<Rightarrow> instant) \<Rightarrow> signal \<Rightarrow> 't InMemoryKeyCache \<Rightarrow>
    (uint64 list \<times> 't InMemoryKeyCache) outcome" where
  "cache_Keys T now ds c =
     (case getCacheAndLimits ds c of
        None \<Rightarrow> Panics
      | Some (t, _) \<Rightarrow> Done (ttl_Listed T (now (clock_reads c)) t, tick c))"

definition cache_Set ::
  "(uint64, nat, 't) ttlcache \<Rightarrow> (nat \<Rightarrow> instant) \<Rightarrow> signal \<Rightarrow> uint64 \<Rightarrow> nat \<Rightarrow> 't InMemoryKeyCache \<Rightarrow>
    't InMemoryKeyCache outcome" where
  "cache_Set T now ds k v c =
     (case getCacheAndLimits ds c of
        None \<Rightarrow> Panics
      | Some (t, _) \<Rightarrow> Done (tick (set_cache ds (ttl_Store T (now (clock_reads c)) k v t) c)))"

datatype cache_error = TooManyResources string | TooManyAttributes uint64 string

text \<open>The second half of \<^verbatim>\<open>AddAttrsToResource\<close>: the attributes join the entry, all or none.\<close>

definition add_to_entry ::
  "signal \<Rightarrow> uint64 \<Rightarrow> uint64 list \<Rightarrow> nat \<Rightarrow> nat \<Rightarrow> 't InMemoryKeyCache \<Rightarrow> cache_error option \<times> 't InMemoryKeyCache" where
  "add_to_entry ds resourceFp attrFps maxAttrCount a c =
     (if length (entries c ! a) + length attrFps > maxAttrCount
      then (Some (TooManyAttributes resourceFp (signal_String ds)), c)
      else (None, c\<lparr>entries := (entries c)[a := fold List.insert attrFps (entries c ! a)]\<rparr>))"

definition AddAttrsToResource ::
  "(uint64, nat, 't) ttlcache \<Rightarrow> (nat \<Rightarrow> instant) \<Rightarrow> uint64 \<Rightarrow> uint64 list \<Rightarrow> signal \<Rightarrow> 't InMemoryKeyCache \<Rightarrow>
    (cache_error option \<times> 't InMemoryKeyCache) outcome" where
  "AddAttrsToResource T now resourceFp attrFps ds c =
     (case getCacheAndLimits ds c of
        None \<Rightarrow> Panics
      | Some (_, maxResourceCount, maxAttrCount) \<Rightarrow>
          bind_outcome (cache_Get T now ds resourceFp c) (\<lambda>(entry, c).
          case entry of
            Some a \<Rightarrow> Done (add_to_entry ds resourceFp attrFps maxAttrCount a c)
          | None \<Rightarrow>
              bind_outcome (cache_Keys T now ds c) (\<lambda>(keys, c).
              if length keys \<ge> maxResourceCount
              then Done (Some (TooManyResources (signal_String ds)), c)
              else
                bind_outcome (cache_Set T now ds resourceFp (length (entries c))
                  (c\<lparr>entries := entries c @ [[]]\<rparr>)) (\<lambda>c.
                bind_outcome (cache_Get T now ds resourceFp c) (\<lambda>(entry, c).
                case entry of
                  None \<Rightarrow> Panics
                | Some a \<Rightarrow> Done (add_to_entry ds resourceFp attrFps maxAttrCount a c))))))"

definition AttrsExistForResource ::
  "(uint64, nat, 't) ttlcache \<Rightarrow> (nat \<Rightarrow> instant) \<Rightarrow> uint64 \<Rightarrow> uint64 list \<Rightarrow> signal \<Rightarrow> 't InMemoryKeyCache \<Rightarrow>
    (bool list \<times> 't InMemoryKeyCache) outcome" where
  "AttrsExistForResource T now resourceFp attrFps ds c =
     bind_outcome (cache_Get T now ds resourceFp c) (\<lambda>(entry, c).
     Done (case entry of
             None \<Rightarrow> map (\<lambda>_. False) attrFps
           | Some a \<Rightarrow> map (\<lambda>f. f \<in> set (entries c ! a)) attrFps, c))"

definition ResourcesLimitExceeded ::
  "(uint64, nat, 't) ttlcache \<Rightarrow> (nat \<Rightarrow> instant) \<Rightarrow> signal \<Rightarrow> 't InMemoryKeyCache \<Rightarrow>
    (bool \<times> 't InMemoryKeyCache) outcome" where
  "ResourcesLimitExceeded T now ds c =
     bind_outcome (cache_Keys T now ds c) (\<lambda>(keys, c).
     Done (length keys \<ge> maxTracesResourceFp c, c))"

text \<open>The loop of \<^verbatim>\<open>TotalCardinalityLimitExceeded\<close>: an entry that is gone is dereferenced.\<close>

fun total_cardinality ::
  "(uint64, nat, 't) ttlcache \<Rightarrow> (nat \<Rightarrow> instant) \<Rightarrow> uint64 list \<Rightarrow> nat \<Rightarrow> 't InMemoryKeyCache \<Rightarrow>
    (nat \<times> 't InMemoryKeyCache) outcome" where
  "total_cardinality T now [] n c = Done (n, c)"
| "total_cardinality T now (k # ks) n c =
     bind_outcome (cache_Get T now SignalTraces k c) (\<lambda>(entry, c).
     case entry of
       None \<Rightarrow> Panics
     | Some a \<Rightarrow> total_cardinality T now ks (n + length (entries c ! a)) c)"

definition TotalCardinalityLimitExceeded ::
  "(uint64, nat, 't) ttlcache \<Rightarrow> (nat \<Rightarrow> instant) \<Rightarrow> signal \<Rightarrow> 't InMemoryKeyCache \<Rightarrow>
    (bool \<times> 't InMemoryKeyCache) outcome" where
  "TotalCardinalityLimitExceeded T now ds c =
     bind_outcome (cache_Keys T now SignalTraces c) (\<lambda>(keys, c).
     bind_outcome (total_cardinality T now keys 0 c) (\<lambda>(totalCardinality, c).
     Done (totalCardinality \<ge> maxTracesCardinalityPerResource c, c)))"

definition CardinalityLimitExceeded ::
  "(uint64, nat, 't) ttlcache \<Rightarrow> (nat \<Rightarrow> instant) \<Rightarrow> uint64 \<Rightarrow> signal \<Rightarrow> 't InMemoryKeyCache \<Rightarrow>
    (bool \<times> 't InMemoryKeyCache) outcome" where
  "CardinalityLimitExceeded T now resourceFp ds c =
     bind_outcome (cache_Get T now ds resourceFp c) (\<lambda>(entry, c).
     Done (case entry of
             None \<Rightarrow> False
           | Some a \<Rightarrow> length (entries c ! a) \<ge> maxTracesCardinalityPerResource c, c))"

fun CardinalityLimitExceededMulti ::
  "(uint64, nat, 't) ttlcache \<Rightarrow> (nat \<Rightarrow> instant) \<Rightarrow> uint64 list \<Rightarrow> signal \<Rightarrow> 't InMemoryKeyCache \<Rightarrow>
    (bool list \<times> 't InMemoryKeyCache) outcome" where
  "CardinalityLimitExceededMulti T now [] ds c = Done ([], c)"
| "CardinalityLimitExceededMulti T now (resourceFp # resourceFps) ds c =
     bind_outcome (cache_Get T now ds resourceFp c) (\<lambda>(entry, c).
     bind_outcome (CardinalityLimitExceededMulti T now resourceFps ds c) (\<lambda>(out, c').
     Done ((case entry of
              None \<Rightarrow> False
            | Some a \<Rightarrow> length (entries c ! a) \<ge> maxTracesCardinalityPerResource c) # out, c')))"

section \<open>What a call reads\<close>

definition limits_of :: "'t InMemoryKeyCache \<Rightarrow> nat list" where
  "limits_of c = [maxTracesResourceFp c, maxMetricsResourceFp c, maxLogsResourceFp c,
     maxTracesCardinalityPerResource c, maxMetricsCardinalityPerResource c, maxLogsCardinalityPerResource c,
     tracesMaxTotalCardinality c, metricsMaxTotalCardinality c, logsMaxTotalCardinality c]"

fun max_resources :: "signal \<Rightarrow> 't InMemoryKeyCache \<Rightarrow> nat" where
  "max_resources SignalTraces c = maxTracesResourceFp c"
| "max_resources SignalMetrics c = maxMetricsResourceFp c"
| "max_resources SignalLogs c = maxLogsResourceFp c"
| "max_resources (OtherSignal s) c = 0"

fun max_attrs :: "signal \<Rightarrow> 't InMemoryKeyCache \<Rightarrow> nat" where
  "max_attrs SignalTraces c = maxTracesCardinalityPerResource c"
| "max_attrs SignalMetrics c = maxMetricsCardinalityPerResource c"
| "max_attrs SignalLogs c = maxLogsCardinalityPerResource c"
| "max_attrs (OtherSignal s) c = 0"

definition cached :: "signal \<Rightarrow> bool" where
  "cached ds \<longleftrightarrow> ds \<in> {SignalTraces, SignalMetrics, SignalLogs}"

lemma cached_simps [simp]:
  "cached SignalTraces" "cached SignalMetrics" "cached SignalLogs" "\<not> cached (OtherSignal s)"
  by (simp_all add: cached_def)

definition live_at ::
  "('t \<Rightarrow> instant \<Rightarrow> uint64 \<Rightarrow> nat option) \<Rightarrow> 't InMemoryKeyCache \<Rightarrow> signal \<Rightarrow> instant \<Rightarrow> uint64 \<Rightarrow> nat option" where
  "live_at live c ds t k = (case getCacheAndLimits ds c of None \<Rightarrow> None | Some (x, _) \<Rightarrow> live x t k)"

definition clock_of :: "(nat \<Rightarrow> instant) \<Rightarrow> 't InMemoryKeyCache \<Rightarrow> instant" where
  "clock_of now c = now (clock_reads c)"

text \<open>What every call leaves: the limits, the entries, and what is live from then on.\<close>

definition after_read ::
  "('t \<Rightarrow> instant \<Rightarrow> uint64 \<Rightarrow> nat option) \<Rightarrow> (nat \<Rightarrow> instant) \<Rightarrow> 't InMemoryKeyCache \<Rightarrow> 't InMemoryKeyCache \<Rightarrow> bool" where
  "after_read live now c c' \<longleftrightarrow>
     limits_of c' = limits_of c \<and> entries c' = entries c \<and> clock_reads c \<le> clock_reads c' \<and>
     (\<forall>ds t. clock_of now c' \<le> t \<longrightarrow> live_at live c' ds t = live_at live c ds t)"

lemma after_read_refl [simp]: "after_read live now c c"
  by (simp add: after_read_def)

lemma limits_max:
  "limits_of c' = limits_of c \<Longrightarrow> max_resources ds c' = max_resources ds c \<and> max_attrs ds c' = max_attrs ds c"
  by (cases ds) (auto simp: limits_of_def)

lemma getCacheAndLimits_cached:
  "cached ds \<Longrightarrow> \<exists>t. getCacheAndLimits ds c = Some (t, max_resources ds c, max_attrs ds c)"
  by (cases ds) auto

lemma getCacheAndLimits_other: "\<not> cached ds \<Longrightarrow> getCacheAndLimits ds c = None"
  by (cases ds) auto

lemma set_cache_simps [simp]:
  "limits_of (set_cache ds t c) = limits_of c" "entries (set_cache ds t c) = entries c"
  "clock_reads (set_cache ds t c) = clock_reads c"
  by (cases ds; simp add: limits_of_def)+

lemma tick_simps [simp]:
  "limits_of (tick c) = limits_of c" "entries (tick c) = entries c"
  "clock_reads (tick c) = Suc (clock_reads c)" "getCacheAndLimits ds (tick c) = getCacheAndLimits ds c"
  by (cases ds; simp add: limits_of_def tick_def)+

lemma live_at_tick [simp]: "live_at live (tick c) = live_at live c"
  by (simp add: live_at_def fun_eq_iff)

lemma live_at_set_cache:
  "cached ds \<Longrightarrow> live_at live (set_cache ds t c) ds' = (if ds' = ds then live t else live_at live c ds')"
  by (cases ds; cases ds'; simp add: live_at_def fun_eq_iff)

lemma live_at_other [simp]: "live_at live c (OtherSignal s) t k = None"
  by (simp add: live_at_def)

lemma cache_Get_reads:
  assumes "ttl_promises T live" "mono now" "cached ds"
  obtains c' where "cache_Get T now ds k c = Done (live_at live c ds (clock_of now c) k, c')"
    "after_read live now c c'" "clock_reads c' = Suc (clock_reads c)"
proof -
  obtain t where t: "getCacheAndLimits ds c = Some (t, max_resources ds c, max_attrs ds c)"
    by (rule exE [OF getCacheAndLimits_cached [OF assms(3), of c]])
  let ?f = "ttl_Fetch T (now (clock_reads c)) k t"
  let ?c' = "tick (set_cache ds (snd ?f) c)"
  have "cache_Get T now ds k c = Done (live_at live c ds (clock_of now c) k, ?c')"
    using t fetch_live [OF assms(1), of "now (clock_reads c)" k t]
    by (cases ?f) (simp add: cache_Get_def live_at_def clock_of_def)
  moreover have "live_at live ?c' ds' s = live_at live c ds' s" if "clock_of now ?c' \<le> s" for ds' s
  proof -
    have "now (clock_reads c) \<le> s"
      using that monoD [OF assms(2), of "clock_reads c" "Suc (clock_reads c)"] by (simp add: clock_of_def)
    then have "live (snd ?f) s = live t s"
      by (rule fetch_keeps [OF assms(1)])
    with t show ?thesis
      by (auto simp: live_at_set_cache [OF assms(3)] live_at_def fun_eq_iff)
  qed
  ultimately show ?thesis
    using that by (simp add: after_read_def)
qed

lemma cache_Keys_reads:
  assumes "ttl_promises T live" "cached ds"
  obtains ks c' where "cache_Keys T now ds c = Done (ks, c')" "distinct ks"
    "set ks = dom (live_at live c ds (clock_of now c))"
    "after_read live now c c'" "clock_reads c' = Suc (clock_reads c)"
proof -
  obtain t where t: "getCacheAndLimits ds c = Some (t, max_resources ds c, max_attrs ds c)"
    by (rule exE [OF getCacheAndLimits_cached [OF assms(2), of c]])
  have "live_at live c ds (clock_of now c) = live t (clock_of now c)"
    using t by (simp add: live_at_def fun_eq_iff)
  moreover have "after_read live now c (tick c)"
    by (simp add: after_read_def)
  ultimately show ?thesis
    using that [of "ttl_Listed T (clock_of now c) t" "tick c"] t listed_distinct [OF assms(1)] listed_live [OF assms(1)]
    by (simp add: cache_Keys_def clock_of_def)
qed

lemma after_read_clock: "mono now \<Longrightarrow> after_read live now a b \<Longrightarrow> clock_of now a \<le> clock_of now b"
  by (simp add: after_read_def clock_of_def monoD)

lemma after_read_trans:
  assumes "mono now" "after_read live now a b" "after_read live now b c"
  shows "after_read live now a c"
  using after_read_clock [OF assms(1,3)] assms(2,3) by (simp add: after_read_def)

section \<open>The limits that hold\<close>

text \<open>
  The invariant of the cache, at its time: the entries that are live have an address of their own,
  hold no fingerprint twice and no more fingerprints than the limit of their signal, and no
  signal has more live entries than its limit.
\<close>

definition cache_inv ::
  "('t \<Rightarrow> instant \<Rightarrow> uint64 \<Rightarrow> nat option) \<Rightarrow> (nat \<Rightarrow> instant) \<Rightarrow> 't InMemoryKeyCache \<Rightarrow> bool" where
  "cache_inv live now c \<longleftrightarrow>
     (\<forall>ds k a. live_at live c ds (clock_of now c) k = Some a \<longrightarrow>
        a < length (entries c) \<and> distinct (entries c ! a) \<and> length (entries c ! a) \<le> max_attrs ds c)
   \<and> (\<forall>ds k ds' k' a. live_at live c ds (clock_of now c) k = Some a \<and>
        live_at live c ds' (clock_of now c) k' = Some a \<longrightarrow> ds = ds' \<and> k = k')
   \<and> (\<forall>ds. cached ds \<longrightarrow> card (dom (live_at live c ds (clock_of now c))) \<le> max_resources ds c)"

lemma live_at_shrinks:
  assumes "ttl_promises T live" "s \<le> t"
  shows "live_at live c ds t \<subseteq>\<^sub>m live_at live c ds s"
proof (cases "getCacheAndLimits ds c")
  case None
  then show ?thesis by (simp add: live_at_def map_le_def)
next
  case (Some p)
  have "live x t k = Some a \<Longrightarrow> live x s k = Some a" for x k a
    using live_shrinks [OF assms, of x k] by simp
  with Some show ?thesis by (auto simp: live_at_def map_le_def split: prod.splits)
qed

lemma live_at_finite: "ttl_promises T live \<Longrightarrow> finite (dom (live_at live c ds t))"
  using live_finite by (cases "getCacheAndLimits ds c") (auto simp: live_at_def dom_def)

lemma cache_inv_after_read:
  assumes T: "ttl_promises T live" "mono now" and inv: "cache_inv live now c" and r: "after_read live now c c'"
  shows "cache_inv live now c'"
proof -
  have le: "clock_of now c \<le> clock_of now c'"
    by (rule after_read_clock [OF T(2) r])
  have live: "live_at live c' ds (clock_of now c') \<subseteq>\<^sub>m live_at live c ds (clock_of now c)" for ds
    using live_at_shrinks [OF T(1) le] r by (simp add: after_read_def)
  have keep: "live_at live c ds (clock_of now c) k = Some a"
    if "live_at live c' ds (clock_of now c') k = Some a" for ds k a
    using live [of ds] that by (force simp: map_le_def dom_def)
  have m: "max_resources ds c' = max_resources ds c \<and> max_attrs ds c' = max_attrs ds c" for ds
    using r by (intro limits_max) (simp add: after_read_def)
  have card: "card (dom (live_at live c' ds (clock_of now c'))) \<le> max_resources ds c'" if "cached ds" for ds
  proof -
    have "card (dom (live_at live c' ds (clock_of now c'))) \<le> card (dom (live_at live c ds (clock_of now c)))"
      by (intro card_mono live_at_finite [OF T(1)] map_le_implies_dom_le live)
    also have "\<dots> \<le> max_resources ds c" using inv that unfolding cache_inv_def by blast
    finally show ?thesis by (simp add: m)
  qed
  have e: "entries c' = entries c" "max_attrs ds c' = max_attrs ds c" for ds
    using r m by (simp_all add: after_read_def)
  show ?thesis
    unfolding cache_inv_def e
  proof (intro conjI allI impI)
    fix ds k a assume "live_at live c' ds (clock_of now c') k = Some a"
    from keep [OF this] show "a < length (entries c)" "distinct (entries c ! a)"
      "length (entries c ! a) \<le> max_attrs ds c"
      using inv unfolding cache_inv_def by blast+
  next
    fix ds k ds' k' a
    assume "live_at live c' ds (clock_of now c') k = Some a \<and> live_at live c' ds' (clock_of now c') k' = Some a"
    with keep inv show "ds = ds'" "k = k'" unfolding cache_inv_def by blast+
  qed (rule card)
qed

text \<open>Changing an entry of one signal only, within the limit, keeps the invariant.\<close>

lemma cache_inv_entry:
  assumes inv: "cache_inv live now c"
    and a: "\<And>d k. live_at live c d (clock_of now c) k = Some a \<Longrightarrow> d = ds"
    and es: "distinct es" "length es \<le> max_attrs ds c"
  shows "cache_inv live now (c\<lparr>entries := (entries c)[a := es]\<rparr>)"
proof -
  let ?c' = "c\<lparr>entries := (entries c)[a := es]\<rparr>"
  have same: "live_at live ?c' d t = live_at live c d t" "clock_of now ?c' = clock_of now c"
    "max_attrs d ?c' = max_attrs d c" "max_resources d ?c' = max_resources d c" for d t
    by (cases d; simp add: live_at_def clock_of_def fun_eq_iff)+
  have "x < length (entries c) \<and> distinct ((entries c)[a := es] ! x) \<and> length ((entries c)[a := es] ! x) \<le> max_attrs d c"
    if x: "live_at live c d (clock_of now c) k = Some x" for d k x
  proof -
    have old: "x < length (entries c)" "distinct (entries c ! x)" "length (entries c ! x) \<le> max_attrs d c"
      using inv x unfolding cache_inv_def by blast+
    show ?thesis
    proof (cases "x = a")
      case True
      with a x have "d = ds" by blast
      with True old es show ?thesis by simp
    next
      case False
      then show ?thesis using old by simp
    qed
  qed
  with inv show ?thesis
    unfolding cache_inv_def same by simp
qed

lemma fold_insert_set:
  "distinct xs \<Longrightarrow> distinct (fold List.insert fs xs) \<and> set (fold List.insert fs xs) = set xs \<union> set fs \<and>
   length (fold List.insert fs xs) \<le> length xs + length fs"
proof (induction fs arbitrary: xs)
  case (Cons f fs)
  have "length (List.insert f xs) \<le> Suc (length xs)" by (simp add: List.insert_def)
  with Cons.IH [of "List.insert f xs"] Cons.prems show ?case by auto
qed simp

lemma after_read_tick: "after_read live now c (tick c)"
  by (simp add: after_read_def)

text \<open>A fresh entry under a key that is not live, where there is room.\<close>

lemma cache_Set_fresh:
  assumes T: "ttl_promises T live" "mono now" and ds: "cached ds" and inv: "cache_inv live now c"
    and room: "card (dom (live_at live c ds (clock_of now c))) < max_resources ds c"
    and set: "cache_Set T now ds k (length (entries c)) (c\<lparr>entries := entries c @ [[]]\<rparr>) = Done c'"
  shows "cache_inv live now c' \<and> limits_of c' = limits_of c"
proof -
  let ?c0 = "c\<lparr>entries := entries c @ [[]]\<rparr>"
  obtain t where "getCacheAndLimits ds ?c0 = Some (t, max_resources ds ?c0, max_attrs ds ?c0)"
    by (rule exE [OF getCacheAndLimits_cached [OF ds]])
  moreover have g: "getCacheAndLimits d ?c0 = getCacheAndLimits d c" for d by (cases d) simp_all
  ultimately have t: "getCacheAndLimits ds c = Some (t, max_resources ds ?c0, max_attrs ds ?c0)" by simp
  let ?n = "length (entries c)"
  let ?c1 = "set_cache ds (ttl_Store T (clock_of now c) k ?n t) ?c0"
  have c': "c' = tick ?c1"
    using set t by (simp add: cache_Set_def g clock_of_def)
  have "limits_of ?c0 = limits_of c" by (simp add: limits_of_def)
  then have lim: "limits_of ?c1 = limits_of c" by simp
  have clk: "clock_of now ?c1 = clock_of now c" by (simp add: clock_of_def)
  have es: "entries ?c1 = entries c @ [[]]" by simp
  have live1: "live_at live ?c1 d (clock_of now c) =
      (if d = ds then (live_at live c ds (clock_of now c))(k \<mapsto> ?n) else live_at live c d (clock_of now c))" for d
    using store_live [OF T(1), of "clock_of now c" k ?n t] t
    by (auto simp: live_at_set_cache [OF ds] live_at_def g fun_eq_iff)
  have m: "max_resources d ?c1 = max_resources d c \<and> max_attrs d ?c1 = max_attrs d c" for d
    by (rule limits_max [OF lim])
  have old: "a < ?n" "distinct (entries c ! a)" "length (entries c ! a) \<le> max_attrs d c"
    if "live_at live c d (clock_of now c) k' = Some a" for d k' a
    using inv that unfolding cache_inv_def by blast+
  have "cache_inv live now ?c1"
    unfolding cache_inv_def clk live1 es
  proof (intro conjI allI impI)
    fix d k' a
    assume "(if d = ds then (live_at live c ds (clock_of now c))(k \<mapsto> ?n) else live_at live c d (clock_of now c)) k' = Some a"
    then have "a = ?n \<or> live_at live c d (clock_of now c) k' = Some a" by (auto split: if_splits)
    then show "a < length (entries c @ [[]])" "distinct ((entries c @ [[]]) ! a)"
      "length ((entries c @ [[]]) ! a) \<le> max_attrs d ?c1"
      using old [of d k' a] m [of d] by (auto simp: nth_append)
  next
    fix d k1 d' k2 a
    assume "(if d = ds then (live_at live c ds (clock_of now c))(k \<mapsto> ?n) else live_at live c d (clock_of now c)) k1 = Some a \<and>
      (if d' = ds then (live_at live c ds (clock_of now c))(k \<mapsto> ?n) else live_at live c d' (clock_of now c)) k2 = Some a"
    then have "(a = ?n \<and> d = ds \<and> k1 = k \<and> d' = ds \<and> k2 = k) \<or>
      (live_at live c d (clock_of now c) k1 = Some a \<and> live_at live c d' (clock_of now c) k2 = Some a)"
      using old(1) [of d k1 a] old(1) [of d' k2 a] by (auto split: if_splits)
    then show "d = d'" "k1 = k2" using inv unfolding cache_inv_def by blast+
  next
    fix d assume "cached d"
    then have "card (dom (live_at live c d (clock_of now c))) \<le> max_resources d c"
      using inv unfolding cache_inv_def by blast
    then show "card (dom (if d = ds then (live_at live c ds (clock_of now c))(k \<mapsto> ?n) else live_at live c d (clock_of now c)))
      \<le> max_resources d ?c1"
      using room m [of d] live_at_finite [OF T(1)] by (simp add: card_insert_if)
  qed
  then have "cache_inv live now c'"
    unfolding c' by (rule cache_inv_after_read [OF T _ after_read_tick])
  moreover have "limits_of c' = limits_of c" by (simp only: c' tick_simps lim)
  ultimately show ?thesis ..
qed

section \<open>Runs of calls\<close>

datatype cache_call =
    CallAdd uint64 "uint64 list" signal
  | CallExist uint64 "uint64 list" signal
  | CallResources signal
  | CallTotal signal
  | CallCardinality uint64 signal
  | CallMulti "uint64 list" signal

text \<open>The state a call leaves.\<close>

fun do_call ::
  "(uint64, nat, 't) ttlcache \<Rightarrow> (nat \<Rightarrow> instant) \<Rightarrow> cache_call \<Rightarrow> 't InMemoryKeyCache \<Rightarrow> 't InMemoryKeyCache outcome" where
  "do_call T now (CallAdd fp fs ds) c = bind_outcome (AddAttrsToResource T now fp fs ds c) (\<lambda>(_, c). Done c)"
| "do_call T now (CallExist fp fs ds) c = bind_outcome (AttrsExistForResource T now fp fs ds c) (\<lambda>(_, c). Done c)"
| "do_call T now (CallResources ds) c = bind_outcome (ResourcesLimitExceeded T now ds c) (\<lambda>(_, c). Done c)"
| "do_call T now (CallTotal ds) c = bind_outcome (TotalCardinalityLimitExceeded T now ds c) (\<lambda>(_, c). Done c)"
| "do_call T now (CallCardinality fp ds) c = bind_outcome (CardinalityLimitExceeded T now fp ds c) (\<lambda>(_, c). Done c)"
| "do_call T now (CallMulti fps ds) c = bind_outcome (CardinalityLimitExceededMulti T now fps ds c) (\<lambda>(_, c). Done c)"

fun run_calls ::
  "(uint64, nat, 't) ttlcache \<Rightarrow> (nat \<Rightarrow> instant) \<Rightarrow> cache_call list \<Rightarrow> 't InMemoryKeyCache \<Rightarrow> 't InMemoryKeyCache outcome" where
  "run_calls T now [] c = Done c"
| "run_calls T now (x # xs) c = bind_outcome (do_call T now x c) (run_calls T now xs)"

lemma cache_Get_done:
  assumes "ttl_promises T live" "mono now" "cache_Get T now ds k c = Done (r, c')"
  shows "cached ds \<and> r = live_at live c ds (clock_of now c) k \<and> after_read live now c c'"
proof -
  have ds: "cached ds"
    using assms(3) getCacheAndLimits_other [of ds c] by (cases "cached ds") (auto simp: cache_Get_def)
  obtain c2 where "cache_Get T now ds k c = Done (live_at live c ds (clock_of now c) k, c2)"
    "after_read live now c c2"
    by (rule cache_Get_reads [OF assms(1,2) ds])
  with assms(3) ds show ?thesis by simp
qed

lemma cache_Keys_done:
  assumes "ttl_promises T live" "cache_Keys T now ds c = Done (ks, c')"
  shows "cached ds \<and> distinct ks \<and> set ks = dom (live_at live c ds (clock_of now c)) \<and> after_read live now c c'"
proof -
  have ds: "cached ds"
    using assms(2) getCacheAndLimits_other [of ds c] by (cases "cached ds") (auto simp: cache_Keys_def)
  obtain ks2 c2 where "cache_Keys T now ds c = Done (ks2, c2)" "distinct ks2"
    "set ks2 = dom (live_at live c ds (clock_of now c))" "after_read live now c c2"
    by (rule cache_Keys_reads [OF assms(1) ds])
  with assms(2) ds show ?thesis by simp
qed

text \<open>An entry that a lookup found is filled, even when it has expired since.\<close>

lemma add_to_entry_inv:
  assumes T: "ttl_promises T live" "mono now" and inv: "cache_inv live now c"
    and get: "cache_Get T now ds k c = Done (Some a, c1)"
    and add: "add_to_entry ds fp fs (max_attrs ds c) a c1 = (e, c')"
  shows "cache_inv live now c' \<and> limits_of c' = limits_of c"
proof -
  have r: "live_at live c ds (clock_of now c) k = Some a" "after_read live now c c1"
    using cache_Get_done [OF T get] by simp_all
  then have c1: "cache_inv live now c1" "entries c1 = entries c" "limits_of c1 = limits_of c"
    using cache_inv_after_read [OF T inv] by (auto simp: after_read_def)
  have d: "distinct (entries c ! a)"
    using inv r(1) unfolding cache_inv_def by blast
  have own: "d = ds" if "live_at live c1 d (clock_of now c1) k' = Some a" for d k'
  proof -
    have "live_at live c d (clock_of now c1) k' = Some a" using r(2) that by (simp add: after_read_def)
    then have "live_at live c d (clock_of now c) k' = Some a"
      using live_at_shrinks [OF T(1) after_read_clock [OF T(2) r(2)], of c d] by (force simp: map_le_def dom_def)
    with r(1) inv show ?thesis unfolding cache_inv_def by blast
  qed
  have m: "max_attrs ds c1 = max_attrs ds c"
    using limits_max [OF c1(3)] by simp
  have "limits_of (c1\<lparr>entries := es\<rparr>) = limits_of c1" for es
    by (simp add: limits_of_def)
  then show ?thesis
    using add c1 m fold_insert_set [OF d, of fs] cache_inv_entry [OF c1(1) own]
    by (auto simp: add_to_entry_def split: if_splits)
qed

lemma total_cardinality_reads:
  assumes "ttl_promises T live" "mono now"
  shows "total_cardinality T now ks n c = Done (r, c') \<Longrightarrow> after_read live now c c'"
proof (induction ks arbitrary: n c)
  case (Cons k ks)
  then obtain e c1 where "cache_Get T now SignalTraces k c = Done (e, c1)"
    and "total_cardinality T now ks (n + length (entries c1 ! the e)) c1 = Done (r, c')"
    by (auto simp: bind_outcome_Done split: option.splits)
  with Cons.IH cache_Get_done [OF assms] show ?case
    using after_read_trans [OF assms(2)] by blast
qed simp

lemma multi_reads:
  assumes "ttl_promises T live" "mono now"
  shows "CardinalityLimitExceededMulti T now fps ds c = Done (r, c') \<Longrightarrow> after_read live now c c'"
proof (induction fps arbitrary: c r)
  case (Cons k ks)
  then obtain e c1 out where "cache_Get T now ds k c = Done (e, c1)"
    and "CardinalityLimitExceededMulti T now ks ds c1 = Done (out, c')"
    by (auto simp: bind_outcome_Done)
  with Cons.IH cache_Get_done [OF assms] show ?case
    using after_read_trans [OF assms(2)] by blast
qed simp

lemma AddAttrs_inv:
  assumes T: "ttl_promises T live" "mono now" and inv: "cache_inv live now c"
    and add: "AddAttrsToResource T now fp fs ds c = Done (e, c')"
  shows "cache_inv live now c' \<and> limits_of c' = limits_of c"
proof -
  have ds: "cached ds"
    using add getCacheAndLimits_other [of ds c] by (cases "cached ds") (auto simp: AddAttrsToResource_def)
  obtain t where lim: "getCacheAndLimits ds c = Some (t, max_resources ds c, max_attrs ds c)"
    by (rule exE [OF getCacheAndLimits_cached [OF ds]])
  obtain r c1 where get: "cache_Get T now ds fp c = Done (r, c1)"
    using add lim by (auto simp: AddAttrsToResource_def bind_outcome_Done)
  have g1: "after_read live now c c1" "r = live_at live c ds (clock_of now c) fp"
    using cache_Get_done [OF T get] by simp_all
  show ?thesis
  proof (cases r)
    case (Some a)
    then show ?thesis
      using add lim get add_to_entry_inv [OF T inv, of ds fp a c1 fp fs e c'] by (simp add: AddAttrsToResource_def)
  next
    case None
    obtain ks c2 where keys: "cache_Keys T now ds c1 = Done (ks, c2)"
      using add lim get None by (auto simp: AddAttrsToResource_def bind_outcome_Done)
    have k2: "distinct ks" "set ks = dom (live_at live c1 ds (clock_of now c1))" "after_read live now c1 c2"
      using cache_Keys_done [OF T(1) keys] by simp_all
    have c2: "cache_inv live now c2" "limits_of c2 = limits_of c"
      using cache_inv_after_read [OF T inv after_read_trans [OF T(2) g1(1) k2(3)]] g1(1) k2(3)
      by (auto simp: after_read_def)
    show ?thesis
    proof (cases "length ks \<ge> max_resources ds c")
      case True
      then show ?thesis
        using add lim get None keys c2 by (simp add: AddAttrsToResource_def)
    next
      case False
      have "live_at live c2 ds (clock_of now c2) \<subseteq>\<^sub>m live_at live c1 ds (clock_of now c1)"
        using live_at_shrinks [OF T(1) after_read_clock [OF T(2) k2(3)], of c1 ds] k2(3) by (simp add: after_read_def)
      then have "card (dom (live_at live c2 ds (clock_of now c2))) \<le> length ks"
        using k2(1,2) card_mono [OF _ map_le_implies_dom_le] by (metis List.finite_set distinct_card)
      then have room: "card (dom (live_at live c2 ds (clock_of now c2))) < max_resources ds c2"
        using False limits_max [OF c2(2), of ds] by simp
      obtain c3 where set: "cache_Set T now ds fp (length (entries c2)) (c2\<lparr>entries := entries c2 @ [[]]\<rparr>) = Done c3"
        using add lim get None keys False by (auto simp: AddAttrsToResource_def bind_outcome_Done)
      have c3: "cache_inv live now c3" "limits_of c3 = limits_of c"
        using cache_Set_fresh [OF T ds c2(1) room set] c2(2) by simp_all
      obtain a c4 where get2: "cache_Get T now ds fp c3 = Done (Some a, c4)"
        and e: "add_to_entry ds fp fs (max_attrs ds c) a c4 = (e, c')"
        using add lim get None keys False set
        by (auto simp: AddAttrsToResource_def bind_outcome_Done split: option.splits)
      show ?thesis
        using add_to_entry_inv [OF T c3(1) get2] e c3(2) limits_max [OF c3(2), of ds] by simp
    qed
  qed
qed

lemma do_call_inv:
  assumes T: "ttl_promises T live" "mono now" and inv: "cache_inv live now c"
    and call: "do_call T now x c = Done c'"
  shows "cache_inv live now c' \<and> limits_of c' = limits_of c"
proof -
  have reads: ?thesis if "after_read live now c c'"
    using cache_inv_after_read [OF T inv that] that by (simp add: after_read_def)
  show ?thesis
  proof (cases x)
    case (CallAdd fp fs ds)
    then show ?thesis
      using call AddAttrs_inv [OF T inv] by (auto simp: bind_outcome_Done)
  next
    case (CallTotal ds)
    then obtain ks c1 n where "cache_Keys T now SignalTraces c = Done (ks, c1)"
      and "total_cardinality T now ks 0 c1 = Done (n, c')"
      using call by (auto simp: TotalCardinalityLimitExceeded_def bind_outcome_Done)
    then show ?thesis
      using cache_Keys_done [OF T(1)] total_cardinality_reads [OF T] after_read_trans [OF T(2)] reads by blast
  next
    case (CallMulti fps ds)
    then show ?thesis
      using call multi_reads [OF T] reads by (auto simp: bind_outcome_Done)
  next
    case (CallExist fp fs ds)
    then show ?thesis
      using call cache_Get_done [OF T] reads by (auto simp: AttrsExistForResource_def bind_outcome_Done)
  next
    case (CallResources ds)
    then show ?thesis
      using call cache_Keys_done [OF T(1)] reads by (auto simp: ResourcesLimitExceeded_def bind_outcome_Done)
  next
    case (CallCardinality fp ds)
    then show ?thesis
      using call cache_Get_done [OF T] reads by (auto simp: CardinalityLimitExceeded_def bind_outcome_Done)
  qed
qed

lemma run_calls_inv:
  assumes "ttl_promises T live" "mono now"
  shows "cache_inv live now c \<Longrightarrow> run_calls T now xs c = Done c' \<Longrightarrow> cache_inv live now c' \<and> limits_of c' = limits_of c"
proof (induction xs arbitrary: c)
  case (Cons x xs)
  from Cons.prems(2) obtain c1 where c1: "do_call T now x c = Done c1" "run_calls T now xs c1 = Done c'"
    by (auto simp: bind_outcome_Done)
  have "cache_inv live now c1 \<and> limits_of c1 = limits_of c"
    by (rule do_call_inv [OF assms Cons.prems(1) c1(1)])
  with Cons.IH [of c1] c1(2) show ?case by simp
qed simp

lemma new_inv: "ttl_promises T live \<Longrightarrow> cache_inv live now (NewInMemoryKeyCache T opts)"
proof -
  assume T: "ttl_promises T live"
  have "live_at live (NewInMemoryKeyCache T opts) ds t = Map.empty" for ds t
    by (cases ds) (simp_all add: live_at_def NewInMemoryKeyCache_def new_live [OF T] fun_eq_iff)
  then show ?thesis by (simp add: cache_inv_def)
qed

fun configured_limits :: "InMemoryKeyCacheOptions \<Rightarrow> signal \<Rightarrow> nat \<times> nat" where
  "configured_limits opts SignalTraces =
     (opt_MaxTracesResourceFp opts, opt_MaxTracesCardinalityPerResource opts)"
| "configured_limits opts SignalMetrics =
     (opt_MaxMetricsResourceFp opts, opt_MaxMetricsCardinalityPerResource opts)"
| "configured_limits opts SignalLogs =
     (opt_MaxLogsResourceFp opts, opt_MaxLogsCardinalityPerResource opts)"
| "configured_limits opts (OtherSignal s) = (0, 0)"

text \<open>C19: After every run of calls that returns, every signal has at most as many live resources as
  configured for it, and every live resource at most as many attributes, each once.\<close>

theorem cache_limits_hold:
  assumes "ttl_promises T live" "mono now" "run_calls T now xs (NewInMemoryKeyCache T opts) = Done c"
  shows "card (dom (live_at live c ds (clock_of now c))) \<le> fst (configured_limits opts ds) \<and>
    (live_at live c ds (clock_of now c) k = Some a \<longrightarrow>
       distinct (entries c ! a) \<and> length (entries c ! a) \<le> snd (configured_limits opts ds))"
proof -
  have inv: "cache_inv live now c" and lim: "limits_of c = limits_of (NewInMemoryKeyCache T opts)"
    using run_calls_inv [OF assms(1,2) new_inv [OF assms(1)] assms(3)] by simp_all
  have m: "configured_limits opts ds = (max_resources ds c, max_attrs ds c)"
    using limits_max [OF lim, of ds] by (cases ds) (simp_all add: NewInMemoryKeyCache_def)
  have "card (dom (live_at live c ds (clock_of now c))) \<le> max_resources ds c"
  proof (cases "cached ds")
    case True
    with inv show ?thesis unfolding cache_inv_def by blast
  next
    case False
    then have "live_at live c ds (clock_of now c) = Map.empty"
      by (simp add: live_at_def getCacheAndLimits_other fun_eq_iff)
    then show ?thesis by simp
  qed
  with inv m show ?thesis unfolding cache_inv_def by simp
qed

section \<open>The limits the checks read\<close>

text \<open>The answer of a check; a cache with other limits for everything but two limits of the traces.\<close>

definition check_answer :: "('a \<times> 's) outcome \<Rightarrow> 'a outcome" where
  "check_answer m = bind_outcome m (\<lambda>(b, _). Done b)"

definition other_limits :: "nat \<Rightarrow> nat \<Rightarrow> nat \<Rightarrow> nat \<Rightarrow> nat \<Rightarrow> nat \<Rightarrow> nat \<Rightarrow> 't InMemoryKeyCache \<Rightarrow> 't InMemoryKeyCache" where
  "other_limits r1 r2 a1 a2 n1 n2 n3 c = c\<lparr>
     maxMetricsResourceFp := r1, maxLogsResourceFp := r2,
     maxMetricsCardinalityPerResource := a1, maxLogsCardinalityPerResource := a2,
     tracesMaxTotalCardinality := n1, metricsMaxTotalCardinality := n2, logsMaxTotalCardinality := n3\<rparr>"

fun through :: "('s \<Rightarrow> 's) \<Rightarrow> ('a \<times> 's) outcome \<Rightarrow> ('a \<times> 's) outcome" where
  "through g m = bind_outcome m (\<lambda>(x, s). Done (x, g s))"

lemma answer_through [simp]: "check_answer (through g m) = check_answer m"
  by (cases m) (auto simp: check_answer_def)

lemma other_limits_simps [simp]:
  "entries (other_limits r1 r2 a1 a2 n1 n2 n3 c) = entries c"
  "clock_reads (other_limits r1 r2 a1 a2 n1 n2 n3 c) = clock_reads c"
  "maxTracesResourceFp (other_limits r1 r2 a1 a2 n1 n2 n3 c) = maxTracesResourceFp c"
  "maxTracesCardinalityPerResource (other_limits r1 r2 a1 a2 n1 n2 n3 c) = maxTracesCardinalityPerResource c"
  by (simp_all add: other_limits_def)

lemma cache_Get_other:
  "cache_Get T now ds k (other_limits r1 r2 a1 a2 n1 n2 n3 c) =
     through (other_limits r1 r2 a1 a2 n1 n2 n3) (cache_Get T now ds k c)"
  by (cases ds) (simp_all add: cache_Get_def other_limits_def tick_def split: prod.split)

lemma cache_Keys_other:
  "cache_Keys T now ds (other_limits r1 r2 a1 a2 n1 n2 n3 c) =
     through (other_limits r1 r2 a1 a2 n1 n2 n3) (cache_Keys T now ds c)"
  by (cases ds) (simp_all add: cache_Keys_def other_limits_def tick_def)

lemma bind_through:
  "bind_outcome (through g m) f = bind_outcome m (\<lambda>(x, s). f (x, g s))"
  "through g (bind_outcome m h) = bind_outcome m (\<lambda>x. through g (h x))"
  by (cases m; auto)+

lemma total_other:
  "total_cardinality T now ks n (other_limits r1 r2 a1 a2 n1 n2 n3 c) =
     through (other_limits r1 r2 a1 a2 n1 n2 n3) (total_cardinality T now ks n c)"
proof (induction ks arbitrary: n c)
  case (Cons k ks)
  show ?case
    by (cases "cache_Get T now SignalTraces k c")
      (auto simp: cache_Get_other Cons.IH split: option.split)
qed simp

lemma multi_other:
  "CardinalityLimitExceededMulti T now fps ds (other_limits r1 r2 a1 a2 n1 n2 n3 c) =
     through (other_limits r1 r2 a1 a2 n1 n2 n3) (CardinalityLimitExceededMulti T now fps ds c)"
proof (induction fps arbitrary: c)
  case (Cons k fps)
  show ?case
  proof (cases "cache_Get T now ds k c")
    case (Done p)
    then show ?thesis
      by (cases p; cases "CardinalityLimitExceededMulti T now fps ds (snd p)")
        (auto simp: cache_Get_other Cons.IH split: option.splits)
  qed (simp_all add: cache_Get_other)
qed simp

text \<open>The checks of the limits read two limits of the traces only, whatever the signal: its own
  number of resources, its own attributes per resource and every configured total are without
  effect on the answers. The check of the total sums up the traces for every signal.\<close>

theorem checks_read_traces_limits:
  "check_answer (ResourcesLimitExceeded T now ds (other_limits r1 r2 a1 a2 n1 n2 n3 c)) =
     check_answer (ResourcesLimitExceeded T now ds c) \<and>
   check_answer (TotalCardinalityLimitExceeded T now ds' (other_limits r1 r2 a1 a2 n1 n2 n3 c)) =
     check_answer (TotalCardinalityLimitExceeded T now ds c) \<and>
   check_answer (CardinalityLimitExceeded T now fp ds (other_limits r1 r2 a1 a2 n1 n2 n3 c)) =
     check_answer (CardinalityLimitExceeded T now fp ds c) \<and>
   check_answer (CardinalityLimitExceededMulti T now fps ds (other_limits r1 r2 a1 a2 n1 n2 n3 c)) =
     check_answer (CardinalityLimitExceededMulti T now fps ds c)"
proof (intro conjI)
  show "check_answer (ResourcesLimitExceeded T now ds (other_limits r1 r2 a1 a2 n1 n2 n3 c)) =
      check_answer (ResourcesLimitExceeded T now ds c)"
    by (cases "cache_Keys T now ds c") (auto simp: check_answer_def ResourcesLimitExceeded_def cache_Keys_other)
  show "check_answer (CardinalityLimitExceeded T now fp ds (other_limits r1 r2 a1 a2 n1 n2 n3 c)) =
      check_answer (CardinalityLimitExceeded T now fp ds c)"
    by (cases "cache_Get T now ds fp c")
      (auto simp: check_answer_def CardinalityLimitExceeded_def cache_Get_other split: option.split)
  show "check_answer (TotalCardinalityLimitExceeded T now ds' (other_limits r1 r2 a1 a2 n1 n2 n3 c)) =
      check_answer (TotalCardinalityLimitExceeded T now ds c)"
  proof (cases "cache_Keys T now SignalTraces c")
    case (Done p)
    then show ?thesis
      by (cases p; cases "total_cardinality T now (fst p) 0 (snd p)")
        (auto simp: check_answer_def TotalCardinalityLimitExceeded_def cache_Keys_other total_other)
  qed (simp_all add: check_answer_def TotalCardinalityLimitExceeded_def cache_Keys_other)
qed (simp only: multi_other answer_through)

lemma total_cardinality_panics:
  assumes T: "ttl_promises T live" "mono now"
  shows "total_cardinality T now ks n c = Panics \<longleftrightarrow>
    (\<exists>i<length ks. live_at live c SignalTraces (now (clock_reads c + i)) (ks ! i) = None)"
proof (induction ks arbitrary: n c)
  case (Cons k ks)
  obtain c1 where get: "cache_Get T now SignalTraces k c = Done (live_at live c SignalTraces (clock_of now c) k, c1)"
    and r: "after_read live now c c1" "clock_reads c1 = Suc (clock_reads c)"
    by (rule cache_Get_reads [OF T cached_simps(1)])
  have later: "live_at live c1 SignalTraces (now (clock_reads c1 + i)) = live_at live c SignalTraces (now (clock_reads c + Suc i))" for i
    using r monoD [OF T(2), of "clock_reads c1" "clock_reads c1 + i"]
    by (simp add: after_read_def clock_of_def)
  have split: "(\<exists>i<length (k # ks). P i) \<longleftrightarrow> P 0 \<or> (\<exists>i<length ks. P (Suc i))" for P
    by (auto simp: less_Suc_eq_0_disj)
  show ?case
  proof (cases "live_at live c SignalTraces (clock_of now c) k")
    case None
    with get split show ?thesis by (simp add: clock_of_def)
  next
    case (Some a)
    then show ?thesis
      unfolding split using get Cons.IH [of "n + length (entries c1 ! a)" c1] later by (simp add: clock_of_def)
  qed
qed simp

text \<open>The check of the total panics exactly when a resource of the traces expires between the
  listing of the keys and the lookup of its own.\<close>

theorem total_check_panics:
  assumes T: "ttl_promises T live" "mono now"
  shows "TotalCardinalityLimitExceeded T now ds c = Panics \<longleftrightarrow>
    (let ks = ttl_Listed T (now (clock_reads c)) (tracesCache c) in
     \<exists>i<length ks. live_at live c SignalTraces (now (clock_reads c + 1 + i)) (ks ! i) = None)"
proof -
  let ?ks = "ttl_Listed T (now (clock_reads c)) (tracesCache c)"
  have "TotalCardinalityLimitExceeded T now ds c = Panics \<longleftrightarrow>
      total_cardinality T now ?ks 0 (tick c) = Panics"
    by (cases "total_cardinality T now ?ks 0 (tick c)")
      (auto simp: TotalCardinalityLimitExceeded_def cache_Keys_def)
  then show ?thesis
    using total_cardinality_panics [OF T, of ?ks 0 "tick c"] by (simp add: Let_def)
qed

section \<open>A cache filled\<close>

text \<open>A clock that advances by one second at every reading, and a cache for 16 fingerprints.\<close>

definition second_clock :: "nat \<Rightarrow> instant" where
  "second_clock n = int n * 10 ^ 9"

lemma second_clock_mono: "mono second_clock"
  by (simp add: mono_def second_clock_def)

definition small_options :: InMemoryKeyCacheOptions where
  "small_options = \<lparr>
     opt_MaxTracesResourceFp = 1, opt_MaxMetricsResourceFp = 2, opt_MaxLogsResourceFp = 3,
     opt_MaxTracesCardinalityPerResource = 2, opt_MaxMetricsCardinalityPerResource = 4,
     opt_MaxLogsCardinalityPerResource = 8, opt_TracesMaxTotalCardinality = 100,
     opt_MetricsMaxTotalCardinality = 200, opt_LogsMaxTotalCardinality = 300\<rparr>"

definition filled_cache :: "(uint64, nat) list_ttl InMemoryKeyCache" where
  "filled_cache = (NewInMemoryKeyCache (list_ttl (6 * nanosecond_hour)) small_options)\<lparr>
     tracesCache := [(7, 0, 2 * 10 ^ 9 + 6 * nanosecond_hour)], entries := [[11, 12]], clock_reads := 4\<rparr>"

lemmas list_ttl_hours = list_ttl_promises [of "6 * nanosecond_hour"]

lemma filled_run:
  "run_calls (list_ttl (6 * nanosecond_hour)) second_clock
     [CallAdd 7 [12, 11] SignalTraces] (NewInMemoryKeyCache (list_ttl (6 * nanosecond_hour)) small_options) =
   Done filled_cache"
  by (simp add: AddAttrsToResource_def cache_Get_def cache_Keys_def cache_Set_def list_ttl_def list_live_def
      NewInMemoryKeyCache_def small_options_def tick_def second_clock_def nanosecond_hour_def
      add_to_entry_def filled_cache_def)

theorem cache_limits_hold_witness:
  "card (dom (live_at list_live filled_cache SignalTraces (clock_of second_clock filled_cache))) \<le> 1 \<and>
   live_at list_live filled_cache SignalTraces (clock_of second_clock filled_cache) 7 = Some 0 \<and>
   length (entries filled_cache ! 0) \<le> 2"
proof -
  have live: "live_at list_live filled_cache SignalTraces (clock_of second_clock filled_cache) 7 = Some 0"
    by (simp add: filled_cache_def live_at_def clock_of_def second_clock_def list_live_def nanosecond_hour_def)
  show ?thesis
    using cache_limits_hold [OF list_ttl_hours second_clock_mono filled_run, of SignalTraces 7 0] live
    by (simp add: small_options_def nanosecond_hour_def)
qed

text \<open>An entry whose last instant is that of the listing is gone at the next reading.\<close>

theorem total_check_panics_witness:
  "TotalCardinalityLimitExceeded (list_ttl 0) second_clock SignalLogs
     (filled_cache\<lparr>tracesCache := [(7, 0, 4 * 10 ^ 9)]\<rparr>) = Panics"
  by (subst total_check_panics [OF list_ttl_promises second_clock_mono])
    (simp_all add: filled_cache_def list_ttl_def list_live_def second_clock_def live_at_def Let_def)

end
