(* ===== verification/MetadataValues.thy ===== *)
theory MetadataValues
  imports MetadataCache SpanCache
begin

text \<open>
  Which attributes the metadata exporter leaves out: the tracker of unique values
  (\<^verbatim>\<open>exporter/metadataexporter/vt.go\<close>), the counts read from the database and the decisions of
  \<^verbatim>\<open>exporter.go\<close> built on both, up to \<^verbatim>\<open>filterAttrs\<close>. A tracker is a cache with expiry
  of pointers to LRU caches, addresses into \<open>vt_lrus\<close>; both libraries are parameters. The lemmas
  show that the tracker never makes the exporter skip anything.
\<close>

section \<open>Trackers of unique values\<close>

text \<open>
  What is used of a cache with expiry whose items are touched by lookups and which has a capacity:
  a lookup answers only with what was stored under the key.
\<close>

definition ttl_holds ::
  "('k, 'v, 't) ttlcache \<Rightarrow> ('t \<Rightarrow> ('k \<times> 'v) set) \<Rightarrow> bool" where
  "ttl_holds T stored \<longleftrightarrow>
     stored (ttl_New T) = {}
   \<and> (\<forall>c t k v. fst (ttl_Fetch T t k c) = Some v \<longrightarrow> (k, v) \<in> stored c)
   \<and> (\<forall>c t k. stored (snd (ttl_Fetch T t k c)) \<subseteq> stored c)
   \<and> (\<forall>c t k v. stored (ttl_Store T t k v c) \<subseteq> insert (k, v) (stored c))"

record ('l, 't) ValueTracker =
  vt_ttl :: 't
  maxValuesPerKey :: int
  vt_lrus :: "'l list"
  vt_reads :: nat

text \<open>The libraries, with the clock: the capacity and the expiry of a tracker are the library's own.\<close>

record ('l, 't) tracker_env =
  env_ttl :: "(string, nat, 't) ttlcache"
  env_lru :: "(string, unit, 'l) simplelru"
  env_now :: "nat \<Rightarrow> instant"

definition NewValueTracker :: "('l, 't) tracker_env \<Rightarrow> int \<Rightarrow> int \<Rightarrow> ('l, 't) ValueTracker" where
  "NewValueTracker env maxKeys maxValues =
     \<lparr>vt_ttl = ttl_New (env_ttl env), maxValuesPerKey = maxValues, vt_lrus = [], vt_reads = 0\<rparr>"

definition vt_Get :: "('l, 't) tracker_env \<Rightarrow> string \<Rightarrow> ('l, 't) ValueTracker \<Rightarrow> nat option \<times> ('l, 't) ValueTracker" where
  "vt_Get env key vt =
     (case ttl_Fetch (env_ttl env) (env_now env (vt_reads vt)) key (vt_ttl vt) of
        (item, t) \<Rightarrow> (item, vt\<lparr>vt_ttl := t, vt_reads := vt_reads vt + 1\<rparr>))"

definition vt_add :: "('l, 't) tracker_env \<Rightarrow> nat \<Rightarrow> string \<Rightarrow> ('l, 't) ValueTracker \<Rightarrow> ('l, 't) ValueTracker" where
  "vt_add env a value vt =
     (case lru_Insert (env_lru env) value () (vt_lrus vt ! a) of
        (_, l, _) \<Rightarrow> vt\<lparr>vt_lrus := (vt_lrus vt)[a := l]\<rparr>)"

definition AddValue :: "('l, 't) tracker_env \<Rightarrow> string \<Rightarrow> string \<Rightarrow> ('l, 't) ValueTracker \<Rightarrow> ('l, 't) ValueTracker" where
  "AddValue env key value vt =
     (case vt_Get env key vt of
        (Some a, vt) \<Rightarrow> vt_add env a value vt
      | (None, vt) \<Rightarrow>
          (case lru_NewLRU (env_lru env) (maxValuesPerKey vt) of
             Inl _ \<Rightarrow> vt
           | Inr l \<Rightarrow>
               let a = length (vt_lrus vt) in
               vt_add env a value (vt\<lparr>
                 vt_lrus := vt_lrus vt @ [l],
                 vt_ttl := ttl_Store (env_ttl env) (env_now env (vt_reads vt)) key a (vt_ttl vt),
                 vt_reads := vt_reads vt + 1\<rparr>)))"

definition GetUniqueValueCount ::
  "('l, 't) tracker_env \<Rightarrow> string \<Rightarrow> ('l, 't) ValueTracker \<Rightarrow> nat \<times> ('l, 't) ValueTracker" where
  "GetUniqueValueCount env key vt =
     (case vt_Get env key vt of
        (Some a, vt) \<Rightarrow> (lru_Size (env_lru env) (vt_lrus vt ! a), vt)
      | (None, vt) \<Rightarrow> (0, vt))"

text \<open>Every item is an LRU cache of the tracker's size.\<close>

definition tracker_ok ::
  "('t \<Rightarrow> (string \<times> nat) set) \<Rightarrow> ('l \<Rightarrow> string \<Rightarrow> unit option) \<Rightarrow> ('l \<Rightarrow> nat) \<Rightarrow> ('l, 't) ValueTracker \<Rightarrow> bool" where
  "tracker_ok stored contents cap vt \<longleftrightarrow>
     (\<forall>(k, a) \<in> stored (vt_ttl vt). a < length (vt_lrus vt)) \<and>
     (\<forall>l \<in> set (vt_lrus vt). lru_valid contents cap l \<and> cap l = nat (maxValuesPerKey vt))"

lemma vt_Get_ok:
  assumes "ttl_holds (env_ttl env) stored" "tracker_ok stored contents cap vt" "vt_Get env key vt = (r, vt')"
  shows "tracker_ok stored contents cap vt' \<and> vt_lrus vt' = vt_lrus vt \<and> maxValuesPerKey vt' = maxValuesPerKey vt \<and>
    (\<forall>a. r = Some a \<longrightarrow> a < length (vt_lrus vt))"
proof -
  let ?f = "ttl_Fetch (env_ttl env) (env_now env (vt_reads vt)) key (vt_ttl vt)"
  have "stored (snd ?f) \<subseteq> stored (vt_ttl vt)" "fst ?f = Some a \<Longrightarrow> (key, a) \<in> stored (vt_ttl vt)" for a
    using assms(1) unfolding ttl_holds_def by blast+
  then show ?thesis
    using assms(2,3) by (cases ?f) (fastforce simp: vt_Get_def tracker_ok_def)
qed

lemma vt_add_ok:
  assumes L: "lru_promises (env_lru env) contents cap" and ok: "tracker_ok stored contents cap vt"
    and a: "a < length (vt_lrus vt)"
  shows "tracker_ok stored contents cap (vt_add env a value vt) \<and> maxValuesPerKey (vt_add env a value vt) = maxValuesPerKey vt"
proof -
  obtain e l evs where i: "lru_Insert (env_lru env) value () (vt_lrus vt ! a) = (e, l, evs)" by (metis prod_cases3)
  have "vt_lrus vt ! a \<in> set (vt_lrus vt)" using a by simp
  with ok have v: "lru_valid contents cap (vt_lrus vt ! a)" "cap (vt_lrus vt ! a) = nat (maxValuesPerKey vt)"
    by (auto simp: tracker_ok_def)
  with lru_insert [OF L v(1) i] have "lru_valid contents cap l" "cap l = nat (maxValuesPerKey vt)" by simp_all
  then show ?thesis
    using ok i by (auto simp: vt_add_def tracker_ok_def dest!: set_update_subset_insert [THEN subsetD])
qed

lemma AddValue_ok:
  assumes T: "ttl_holds (env_ttl env) stored" and L: "lru_promises (env_lru env) contents cap"
    and ok: "tracker_ok stored contents cap vt"
  shows "tracker_ok stored contents cap (AddValue env key value vt) \<and>
    maxValuesPerKey (AddValue env key value vt) = maxValuesPerKey vt"
proof -
  obtain r vt1 where g: "vt_Get env key vt = (r, vt1)" by fastforce
  have ok1: "tracker_ok stored contents cap vt1" "maxValuesPerKey vt1 = maxValuesPerKey vt"
    "r = Some a \<Longrightarrow> a < length (vt_lrus vt1)" for a
    using vt_Get_ok [OF T ok g] by simp_all
  show ?thesis
  proof (cases r)
    case (Some a)
    with g ok1 vt_add_ok [OF L ok1(1) ok1(3)] show ?thesis by (simp add: AddValue_def)
  next
    case None
    show ?thesis
    proof (cases "lru_NewLRU (env_lru env) (maxValuesPerKey vt1)")
      case (Inl e)
      with None g ok1 show ?thesis by (simp add: AddValue_def)
    next
      case (Inr l)
      let ?a = "length (vt_lrus vt1)"
      let ?vt2 = "vt1\<lparr>vt_lrus := vt_lrus vt1 @ [l],
        vt_ttl := ttl_Store (env_ttl env) (env_now env (vt_reads vt1)) key ?a (vt_ttl vt1),
        vt_reads := vt_reads vt1 + 1\<rparr>"
      have "0 < maxValuesPerKey vt1" "contents l = Map.empty" "cap l = nat (maxValuesPerKey vt1)"
        using L Inr unfolding lru_promises_def by blast+
      then have l: "lru_valid contents cap l" "cap l = nat (maxValuesPerKey vt1)"
        by (simp_all add: lru_valid_def)
      have "stored (vt_ttl ?vt2) \<subseteq> insert (key, ?a) (stored (vt_ttl vt1))"
        using T unfolding ttl_holds_def by simp
      then have "tracker_ok stored contents cap ?vt2"
        using ok1(1) l unfolding tracker_ok_def by fastforce
      from vt_add_ok [OF L this, of ?a "value"] show ?thesis
        using None Inr g ok1(2) by (simp add: AddValue_def Let_def)
    qed
  qed
qed

lemma unique_value_count_bounded:
  assumes T: "ttl_holds (env_ttl env) stored" and L: "lru_promises (env_lru env) contents cap"
    and ok: "tracker_ok stored contents cap vt" and c: "GetUniqueValueCount env key vt = (n, vt')"
  shows "n \<le> nat (maxValuesPerKey vt) \<and> tracker_ok stored contents cap vt' \<and> maxValuesPerKey vt' = maxValuesPerKey vt"
proof -
  obtain r vt1 where g: "vt_Get env key vt = (r, vt1)" by fastforce
  have ok1: "tracker_ok stored contents cap vt1" "maxValuesPerKey vt1 = maxValuesPerKey vt"
    "r = Some a \<Longrightarrow> a < length (vt_lrus vt1)" for a
    using vt_Get_ok [OF T ok g] by simp_all
  show ?thesis
  proof (cases r)
    case None
    with c g ok1 show ?thesis by (simp add: GetUniqueValueCount_def)
  next
    case (Some a)
    then have "vt_lrus vt1 ! a \<in> set (vt_lrus vt1)" using ok1(3) by simp
    with ok1(1,2) have v: "lru_valid contents cap (vt_lrus vt1 ! a)" "cap (vt_lrus vt1 ! a) = nat (maxValuesPerKey vt)"
      by (auto simp: tracker_ok_def)
    have "lru_Size (env_lru env) (vt_lrus vt1 ! a) = card (dom (contents (vt_lrus vt1 ! a)))"
      using L v(1) unfolding lru_promises_def by blast
    moreover have "GetUniqueValueCount env key vt = (lru_Size (env_lru env) (vt_lrus vt1 ! a), vt1)"
      using g Some by (simp add: GetUniqueValueCount_def)
    ultimately show ?thesis using c v ok1(1,2) unfolding lru_valid_def by auto
  qed
qed

section \<open>Skipped attributes\<close>

record LimitsConfig =
  MaxKeys :: nat
  MaxStringDistinctValues :: nat
  MaxStringLength :: nat

record tagValueCountFromDB =
  tagDataType :: string
  stringTagValueCount :: nat
  numberValueCount :: nat

type_synonym tag_counts = "(string \<times> tagValueCountFromDB) list"

text \<open>
  The part of the exporter the decisions read. A map is an association list, the counts of a
  signal the value of its atomic pointer.
\<close>

record ('l, 't) metadataExporter =
  cfg_Traces :: LimitsConfig
  cfg_Logs :: LimitsConfig
  cfg_Metrics :: LimitsConfig
  tracesTracker :: "('l, 't) ValueTracker"
  metricsTracker :: "('l, 't) ValueTracker"
  logsTracker :: "('l, 't) ValueTracker"
  logTagValueCountFromDB :: tag_counts
  tracesTagValueCountFromDB :: tag_counts
  metricsTagValueCountFromDB :: tag_counts
  alwaysIncludeTracesAttributes :: "string list"
  alwaysIncludeLogsAttributes :: "string list"
  alwaysIncludeMetricsAttributes :: "string list"

text \<open>The conversion of a \<^verbatim>\<open>uint64\<close> to \<^verbatim>\<open>int\<close>, and the start of the exporter.\<close>

definition go_int :: "nat \<Rightarrow> int" where
  "go_int n = wrap64 (int n)"

definition newMetadataExporter ::
  "('l, 't) tracker_env \<Rightarrow> LimitsConfig \<Rightarrow> LimitsConfig \<Rightarrow> LimitsConfig \<Rightarrow>
    string list \<Rightarrow> string list \<Rightarrow> string list \<Rightarrow> ('l, 't) metadataExporter" where
  "newMetadataExporter env traces logs metrics alwaysTraces alwaysLogs alwaysMetrics = \<lparr>
     cfg_Traces = traces, cfg_Logs = logs, cfg_Metrics = metrics,
     tracesTracker = NewValueTracker env (go_int (MaxKeys traces)) (go_int (MaxStringDistinctValues traces)),
     metricsTracker = NewValueTracker env (go_int (MaxKeys metrics)) (go_int (MaxStringDistinctValues metrics)),
     logsTracker = NewValueTracker env (go_int (MaxKeys logs)) (go_int (MaxStringDistinctValues logs)),
     logTagValueCountFromDB = [], tracesTagValueCountFromDB = [], metricsTagValueCountFromDB = [],
     alwaysIncludeTracesAttributes = alwaysTraces,
     alwaysIncludeLogsAttributes = alwaysLogs,
     alwaysIncludeMetricsAttributes = alwaysMetrics\<rparr>"

text \<open>
  A query that fails changes nothing; a row that cannot be scanned, \<open>None\<close>, is passed over, and a
  later row of a key replaces an earlier one.
\<close>

definition counted_rows :: "(string \<times> tagValueCountFromDB) option list \<Rightarrow> tag_counts" where
  "counted_rows rows = fold (\<lambda>r m. case r of None \<Rightarrow> m | Some (k, c) \<Rightarrow> AList.update k c m) rows []"

definition updateLogTagValueCount ::
  "(string \<times> tagValueCountFromDB) option list option \<Rightarrow> ('l, 't) metadataExporter \<Rightarrow> ('l, 't) metadataExporter" where
  "updateLogTagValueCount answer e =
     (case answer of None \<Rightarrow> e | Some rows \<Rightarrow> e\<lparr>logTagValueCountFromDB := counted_rows rows\<rparr>)"

definition updateTracesTagValueCount ::
  "(string \<times> tagValueCountFromDB) option list option \<Rightarrow> ('l, 't) metadataExporter \<Rightarrow> ('l, 't) metadataExporter" where
  "updateTracesTagValueCount answer e =
     (case answer of None \<Rightarrow> e | Some rows \<Rightarrow> e\<lparr>tracesTagValueCountFromDB := counted_rows rows\<rparr>)"

text \<open>The fields of a datasource, which is the name of a signal.\<close>

definition counts_of :: "string \<Rightarrow> ('l, 't) metadataExporter \<Rightarrow> tag_counts option" where
  "counts_of datasource e =
     (if datasource = signal_String SignalTraces then Some (tracesTagValueCountFromDB e)
      else if datasource = signal_String SignalLogs then Some (logTagValueCountFromDB e)
      else if datasource = signal_String SignalMetrics then Some (metricsTagValueCountFromDB e)
      else None)"

definition getType :: "string \<Rightarrow> string \<Rightarrow> ('l, 't) metadataExporter \<Rightarrow> string" where
  "getType key datasource e =
     (case counts_of datasource e of
        None \<Rightarrow> ''string''
      | Some m \<Rightarrow> (case map_of m key of None \<Rightarrow> ''string'' | Some val \<Rightarrow> tagDataType val))"

definition always_include :: "string \<Rightarrow> ('l, 't) metadataExporter \<Rightarrow> string list" where
  "always_include datasource e =
     (if datasource = signal_String SignalTraces then alwaysIncludeTracesAttributes e
      else if datasource = signal_String SignalLogs then alwaysIncludeLogsAttributes e
      else if datasource = signal_String SignalMetrics then alwaysIncludeMetricsAttributes e
      else [])"

definition limits_config :: "string \<Rightarrow> ('l, 't) metadataExporter \<Rightarrow> LimitsConfig" where
  "limits_config datasource e =
     (if datasource = signal_String SignalTraces then cfg_Traces e
      else if datasource = signal_String SignalLogs then cfg_Logs e
      else if datasource = signal_String SignalMetrics then cfg_Metrics e
      else \<lparr>MaxKeys = 0, MaxStringDistinctValues = 0, MaxStringLength = 0\<rparr>)"

definition shouldSkipAttributeFromDB :: "string \<Rightarrow> string \<Rightarrow> ('l, 't) metadataExporter \<Rightarrow> bool" where
  "shouldSkipAttributeFromDB key datasource e =
     (case counts_of datasource e of
        None \<Rightarrow> False
      | Some m \<Rightarrow>
          if key \<in> set (always_include datasource e) then False
          else case map_of m key of
            None \<Rightarrow> False
          | Some val \<Rightarrow>
              if tagDataType val = ''string''
              then stringTagValueCount val > MaxStringDistinctValues (limits_config datasource e)
              else tagDataType val = ''float64'' \<or> tagDataType val = ''int64'')"

definition makeUVTKey :: "string \<Rightarrow> string \<Rightarrow> string" where
  "makeUVTKey key datasource = key @ '':'' @ datasource"

definition addToUVT ::
  "('l, 't) tracker_env \<Rightarrow> string \<Rightarrow> string \<Rightarrow> string \<Rightarrow> ('l, 't) metadataExporter \<Rightarrow> ('l, 't) metadataExporter" where
  "addToUVT env key val datasource e =
     (if datasource = signal_String SignalTraces
      then e\<lparr>tracesTracker := AddValue env key val (tracesTracker e)\<rparr>
      else if datasource = signal_String SignalMetrics
      then e\<lparr>metricsTracker := AddValue env key val (metricsTracker e)\<rparr>
      else if datasource = signal_String SignalLogs
      then e\<lparr>logsTracker := AddValue env key val (logsTracker e)\<rparr>
      else e)"

text \<open>The test on the count of a tracker, the same in the three cases of the switch.\<close>

definition skip_by_count :: "string \<Rightarrow> nat \<Rightarrow> LimitsConfig \<Rightarrow> bool" where
  "skip_by_count typ cnt limits \<longleftrightarrow>
     typ = ''string'' \<and> MaxStringDistinctValues limits > 0 \<and> int cnt > go_int (MaxStringDistinctValues limits) \<or>
     typ = ''float64''"

definition shouldSkipAttributeUVT ::
  "('l, 't) tracker_env \<Rightarrow> string \<Rightarrow> string \<Rightarrow> ('l, 't) metadataExporter \<Rightarrow> bool \<times> ('l, 't) metadataExporter" where
  "shouldSkipAttributeUVT env key datasource e =
     (let typ = getType key datasource e in
      if datasource = signal_String SignalTraces then
        if key \<in> set (alwaysIncludeTracesAttributes e) then (False, e)
        else case GetUniqueValueCount env (makeUVTKey key datasource) (tracesTracker e) of
          (cnt, t) \<Rightarrow> (skip_by_count typ cnt (cfg_Traces e), e\<lparr>tracesTracker := t\<rparr>)
      else if datasource = signal_String SignalMetrics then
        if key \<in> set (alwaysIncludeMetricsAttributes e) then (False, e)
        else case GetUniqueValueCount env (makeUVTKey key datasource) (metricsTracker e) of
          (cnt, t) \<Rightarrow> (skip_by_count typ cnt (cfg_Metrics e), e\<lparr>metricsTracker := t\<rparr>)
      else if datasource = signal_String SignalLogs then
        if key \<in> set (alwaysIncludeLogsAttributes e) then (False, e)
        else case GetUniqueValueCount env (makeUVTKey key datasource) (logsTracker e) of
          (cnt, t) \<Rightarrow> (skip_by_count typ cnt (cfg_Logs e), e\<lparr>logsTracker := t\<rparr>)
      else (False, e))"

text \<open>
  The values of a flattened map, and \<^verbatim>\<open>filterAttrs\<close> over the entries in the order in which the
  range over the map visits them: what is skipped is deleted, a string that is neither empty nor too
  long is tracked.
\<close>

datatype 'f flat = FlatString string | FlatFloat 'f | FlatBool bool

fun filterAttrs ::
  "('l, 't) tracker_env \<Rightarrow> (string \<times> 'f flat) list \<Rightarrow> string \<Rightarrow> ('l, 't) metadataExporter \<Rightarrow>
    (string \<times> 'f flat) list \<times> ('l, 't) metadataExporter" where
  "filterAttrs env [] datasource e = ([], e)"
| "filterAttrs env ((k, v) # attrs) datasource e =
     (case shouldSkipAttributeUVT env k datasource e of
        (True, e) \<Rightarrow> filterAttrs env attrs datasource e
      | (False, e) \<Rightarrow>
          let e = (case v of
              FlatString s \<Rightarrow>
                if s = [] \<or> int (length s) > go_int (MaxStringLength (limits_config datasource e)) then e
                else addToUVT env (makeUVTKey k datasource) s datasource e
            | _ \<Rightarrow> e) in
          case filterAttrs env attrs datasource e of (kept, e) \<Rightarrow> ((k, v) # kept, e))"

section \<open>The tracker skips nothing\<close>

definition exporter_ok ::
  "('t \<Rightarrow> (string \<times> nat) set) \<Rightarrow> ('l \<Rightarrow> string \<Rightarrow> unit option) \<Rightarrow> ('l \<Rightarrow> nat) \<Rightarrow> ('l, 't) metadataExporter \<Rightarrow> bool" where
  "exporter_ok stored contents cap e \<longleftrightarrow>
     tracker_ok stored contents cap (tracesTracker e) \<and>
     tracker_ok stored contents cap (metricsTracker e) \<and>
     tracker_ok stored contents cap (logsTracker e) \<and>
     maxValuesPerKey (tracesTracker e) = go_int (MaxStringDistinctValues (cfg_Traces e)) \<and>
     maxValuesPerKey (metricsTracker e) = go_int (MaxStringDistinctValues (cfg_Metrics e)) \<and>
     maxValuesPerKey (logsTracker e) = go_int (MaxStringDistinctValues (cfg_Logs e))"

text \<open>What stays the same in every step but an update of the counts: all but the trackers.\<close>

definition fixed_part ::
  "('l, 't) metadataExporter \<Rightarrow> LimitsConfig list \<times> tag_counts list \<times> string list list" where
  "fixed_part e = ([cfg_Traces e, cfg_Logs e, cfg_Metrics e],
     [logTagValueCountFromDB e, tracesTagValueCountFromDB e, metricsTagValueCountFromDB e],
     [alwaysIncludeTracesAttributes e, alwaysIncludeLogsAttributes e, alwaysIncludeMetricsAttributes e])"

lemma fixed_reads:
  assumes "fixed_part e' = fixed_part e"
  shows "getType key ds e' = getType key ds e" "always_include ds e' = always_include ds e"
    "limits_config ds e' = limits_config ds e"
  using assms by (auto simp: fixed_part_def getType_def counts_of_def always_include_def limits_config_def)

definition bounded_config :: "('l, 't) metadataExporter \<Rightarrow> bool" where
  "bounded_config e \<longleftrightarrow> MaxStringDistinctValues (cfg_Traces e) < 2 ^ 63 \<and>
     MaxStringDistinctValues (cfg_Logs e) < 2 ^ 63 \<and> MaxStringDistinctValues (cfg_Metrics e) < 2 ^ 63"

lemma fixed_bounded: "fixed_part e' = fixed_part e \<Longrightarrow> bounded_config e' = bounded_config e"
  by (auto simp: fixed_part_def bounded_config_def)

lemma skip_by_count_number:
  assumes "n \<le> nat (go_int (MaxStringDistinctValues limits))" "MaxStringDistinctValues limits < 2 ^ 63"
  shows "skip_by_count typ n limits \<longleftrightarrow> typ = ''float64''"
proof -
  have "int64_range (int (MaxStringDistinctValues limits))"
    using assms(2) by (simp add: int64_range_def)
  then have "go_int (MaxStringDistinctValues limits) = int (MaxStringDistinctValues limits)"
    by (simp add: go_int_def)
  with assms(1) show ?thesis by (auto simp: skip_by_count_def)
qed

definition skipped_number :: "string \<Rightarrow> string \<Rightarrow> ('l, 't) metadataExporter \<Rightarrow> bool" where
  "skipped_number key datasource e \<longleftrightarrow>
     datasource \<in> {''traces'', ''metrics'', ''logs''} \<and>
     key \<notin> set (always_include datasource e) \<and> getType key datasource e = ''float64''"

lemma shouldSkip_number:
  assumes T: "ttl_holds (env_ttl env) stored" and L: "lru_promises (env_lru env) contents cap"
    and ok: "exporter_ok stored contents cap e" and b: "bounded_config e"
    and s: "shouldSkipAttributeUVT env key ds e = (r, e')"
  shows "r = skipped_number key ds e \<and> exporter_ok stored contents cap e' \<and> fixed_part e' = fixed_part e"
proof -
  have count: "tracker_ok stored contents cap vt \<Longrightarrow> GetUniqueValueCount env k vt = (n, vt') \<Longrightarrow>
      n \<le> nat (maxValuesPerKey vt) \<and> tracker_ok stored contents cap vt' \<and> maxValuesPerKey vt' = maxValuesPerKey vt"
    for vt vt' k n by (rule unique_value_count_bounded [OF T L])
  note skip = skip_by_count_number
  consider "ds = ''traces''" | "ds = ''metrics''" | "ds = ''logs''" | "ds \<notin> {''traces'', ''metrics'', ''logs''}"
    by blast
  then show ?thesis
  proof cases
    case 1
    obtain n vt where g: "GetUniqueValueCount env (makeUVTKey key ds) (tracesTracker e) = (n, vt)" by fastforce
    from count [OF _ this] ok have n: "n \<le> nat (go_int (MaxStringDistinctValues (cfg_Traces e)))"
      "tracker_ok stored contents cap vt" "maxValuesPerKey vt = go_int (MaxStringDistinctValues (cfg_Traces e))"
      by (simp_all add: exporter_ok_def)
    have "shouldSkipAttributeUVT env key ds e = (if key \<in> set (always_include ds e) then (False, e)
        else (skip_by_count (getType key ds e) n (cfg_Traces e), e\<lparr>tracesTracker := vt\<rparr>))"
      using g 1 by (simp add: shouldSkipAttributeUVT_def always_include_def Let_def)
    moreover have "exporter_ok stored contents cap (e\<lparr>tracesTracker := vt\<rparr>)"
      using ok n(2,3) by (simp add: exporter_ok_def)
    moreover have "fixed_part (e\<lparr>tracesTracker := vt\<rparr>) = fixed_part e"
      by (simp add: fixed_part_def)
    moreover have "skip_by_count (getType key ds e) n (cfg_Traces e) \<longleftrightarrow> getType key ds e = ''float64''"
      by (rule skip [OF n(1)]) (use b in \<open>simp add: bounded_config_def\<close>)
    ultimately show ?thesis
      using s ok 1 by (simp add: skipped_number_def split: if_splits)
  next
    case 2
    obtain n vt where g: "GetUniqueValueCount env (makeUVTKey key ds) (metricsTracker e) = (n, vt)" by fastforce
    from count [OF _ this] ok have n: "n \<le> nat (go_int (MaxStringDistinctValues (cfg_Metrics e)))"
      "tracker_ok stored contents cap vt" "maxValuesPerKey vt = go_int (MaxStringDistinctValues (cfg_Metrics e))"
      by (simp_all add: exporter_ok_def)
    have "shouldSkipAttributeUVT env key ds e = (if key \<in> set (always_include ds e) then (False, e)
        else (skip_by_count (getType key ds e) n (cfg_Metrics e), e\<lparr>metricsTracker := vt\<rparr>))"
      using g 2 by (simp add: shouldSkipAttributeUVT_def always_include_def Let_def)
    moreover have "exporter_ok stored contents cap (e\<lparr>metricsTracker := vt\<rparr>)"
      using ok n(2,3) by (simp add: exporter_ok_def)
    moreover have "fixed_part (e\<lparr>metricsTracker := vt\<rparr>) = fixed_part e"
      by (simp add: fixed_part_def)
    moreover have "skip_by_count (getType key ds e) n (cfg_Metrics e) \<longleftrightarrow> getType key ds e = ''float64''"
      by (rule skip [OF n(1)]) (use b in \<open>simp add: bounded_config_def\<close>)
    ultimately show ?thesis
      using s ok 2 by (simp add: skipped_number_def split: if_splits)
  next
    case 3
    obtain n vt where g: "GetUniqueValueCount env (makeUVTKey key ds) (logsTracker e) = (n, vt)" by fastforce
    from count [OF _ this] ok have n: "n \<le> nat (go_int (MaxStringDistinctValues (cfg_Logs e)))"
      "tracker_ok stored contents cap vt" "maxValuesPerKey vt = go_int (MaxStringDistinctValues (cfg_Logs e))"
      by (simp_all add: exporter_ok_def)
    have "shouldSkipAttributeUVT env key ds e = (if key \<in> set (always_include ds e) then (False, e)
        else (skip_by_count (getType key ds e) n (cfg_Logs e), e\<lparr>logsTracker := vt\<rparr>))"
      using g 3 by (simp add: shouldSkipAttributeUVT_def always_include_def Let_def)
    moreover have "exporter_ok stored contents cap (e\<lparr>logsTracker := vt\<rparr>)"
      using ok n(2,3) by (simp add: exporter_ok_def)
    moreover have "fixed_part (e\<lparr>logsTracker := vt\<rparr>) = fixed_part e"
      by (simp add: fixed_part_def)
    moreover have "skip_by_count (getType key ds e) n (cfg_Logs e) \<longleftrightarrow> getType key ds e = ''float64''"
      by (rule skip [OF n(1)]) (use b in \<open>simp add: bounded_config_def\<close>)
    ultimately show ?thesis
      using s ok 3 by (simp add: skipped_number_def split: if_splits)
  next
    case 4
    with s ok show ?thesis by (auto simp: shouldSkipAttributeUVT_def skipped_number_def Let_def)
  qed
qed

lemma addToUVT_ok:
  assumes "ttl_holds (env_ttl env) stored" "lru_promises (env_lru env) contents cap" "exporter_ok stored contents cap e"
  shows "exporter_ok stored contents cap (addToUVT env k v ds e) \<and> fixed_part (addToUVT env k v ds e) = fixed_part e"
  using assms(3) AddValue_ok [OF assms(1,2)] by (auto simp: addToUVT_def exporter_ok_def fixed_part_def)

lemma filterAttrs_numbers:
  assumes T: "ttl_holds (env_ttl env) stored" and L: "lru_promises (env_lru env) contents cap"
  shows "exporter_ok stored contents cap e \<Longrightarrow> bounded_config e \<Longrightarrow>
    fst (filterAttrs env attrs ds e) = filter (\<lambda>(k, v). \<not> skipped_number k ds e) attrs \<and>
    exporter_ok stored contents cap (snd (filterAttrs env attrs ds e)) \<and>
    fixed_part (snd (filterAttrs env attrs ds e)) = fixed_part e"
proof (induction attrs arbitrary: e)
  case (Cons kv attrs)
  obtain k v where kv: "kv = (k, v)" by fastforce
  obtain r e1 where s: "shouldSkipAttributeUVT env k ds e = (r, e1)" by fastforce
  have e1: "r = skipped_number k ds e" "exporter_ok stored contents cap e1" "fixed_part e1 = fixed_part e"
    using shouldSkip_number [OF T L Cons.prems s] by simp_all
  have same: "skipped_number x ds e' = skipped_number x ds e" if "fixed_part e' = fixed_part e" for x and e' :: "('b, 'a) metadataExporter"
    using fixed_reads [OF that] by (simp add: skipped_number_def)
  define e2 where "e2 = (case v of FlatString s \<Rightarrow>
      if s = [] \<or> int (length s) > go_int (MaxStringLength (limits_config ds e1)) then e1
      else addToUVT env (makeUVTKey k ds) s ds e1 | _ \<Rightarrow> e1)"
  have e2: "exporter_ok stored contents cap e2" "fixed_part e2 = fixed_part e"
    using addToUVT_ok [OF T L e1(2)] e1(2,3) by (auto simp: e2_def split: flat.split)
  let ?d = "if r then e1 else e2"
  have d: "exporter_ok stored contents cap ?d" "fixed_part ?d = fixed_part e" using e1 e2 by simp_all
  with Cons.IH [OF d(1)] Cons.prems(2) fixed_bounded [OF d(2)] same [OF d(2)]
  have IH: "fst (filterAttrs env attrs ds ?d) = filter (\<lambda>(k, v). \<not> skipped_number k ds e) attrs"
    "exporter_ok stored contents cap (snd (filterAttrs env attrs ds ?d))"
    "fixed_part (snd (filterAttrs env attrs ds ?d)) = fixed_part e" by simp_all
  show ?case
    using IH e1(1) s by (cases r; cases "filterAttrs env attrs ds e2") (simp_all add: kv Let_def e2_def [symmetric])
qed simp

text \<open>Runs of the exporter: what reads and writes the trackers and the counts.\<close>

datatype 'f value_event =
    FilterAttrs "(string \<times> 'f flat) list" string
  | LogCounts "(string \<times> tagValueCountFromDB) option list option"
  | TracesCounts "(string \<times> tagValueCountFromDB) option list option"

fun value_step :: "('l, 't) tracker_env \<Rightarrow> 'f value_event \<Rightarrow> ('l, 't) metadataExporter \<Rightarrow> ('l, 't) metadataExporter" where
  "value_step env (FilterAttrs attrs datasource) e = snd (filterAttrs env attrs datasource e)"
| "value_step env (LogCounts answer) e = updateLogTagValueCount answer e"
| "value_step env (TracesCounts answer) e = updateTracesTagValueCount answer e"

lemma value_run_ok:
  assumes T: "ttl_holds (env_ttl env) stored" and L: "lru_promises (env_lru env) contents cap"
  shows "exporter_ok stored contents cap e \<Longrightarrow> bounded_config e \<Longrightarrow>
    exporter_ok stored contents cap (fold (value_step env) evs e) \<and> bounded_config (fold (value_step env) evs e)"
proof (induction evs arbitrary: e)
  case (Cons ev evs)
  have "exporter_ok stored contents cap (value_step env ev e) \<and> bounded_config (value_step env ev e)"
  proof (cases ev)
    case (FilterAttrs attrs ds)
    then show ?thesis
      using filterAttrs_numbers [OF T L Cons.prems, of attrs ds] fixed_bounded Cons.prems(2) by simp blast
  qed (use Cons.prems in \<open>auto simp: updateLogTagValueCount_def updateTracesTagValueCount_def
      exporter_ok_def bounded_config_def split: option.split\<close>)
  with Cons.IH [of "value_step env ev e"] show ?case by simp
qed simp

text \<open>C29: The tracker of unique values leaves nothing out: after every run of the exporter the
  attributes that are filtered are exactly those the database counts as numbers and the
  configuration does not always include. However many values of a string attribute were tracked,
  their count never exceeds the configured limit, because the tracker holds no more than that.\<close>

theorem tracker_never_skips:
  assumes "ttl_holds (env_ttl env) stored" "lru_promises (env_lru env) contents cap"
    and "MaxStringDistinctValues traces < 2 ^ 63" "MaxStringDistinctValues logs < 2 ^ 63"
      "MaxStringDistinctValues metrics < 2 ^ 63"
    and "e = fold (value_step env) evs (newMetadataExporter env traces logs metrics ts ls ms)"
  shows "fst (filterAttrs env attrs datasource e) = filter (\<lambda>(k, v). \<not> skipped_number k datasource e) attrs"
proof -
  have "exporter_ok stored contents cap (newMetadataExporter env traces logs metrics ts ls ms)"
    using assms(1) by (simp add: newMetadataExporter_def exporter_ok_def NewValueTracker_def tracker_ok_def ttl_holds_def)
  moreover have "bounded_config (newMetadataExporter env traces logs metrics ts ls ms)"
    using assms(3-5) by (simp add: newMetadataExporter_def bounded_config_def)
  ultimately show ?thesis
    using value_run_ok [OF assms(1,2)] filterAttrs_numbers [OF assms(1,2)] assms(6) by blast
qed

text \<open>A cache with expiry as a list, without a capacity, and what it holds.\<close>

definition list_env :: "((string, unit) list_lru, (string \<times> nat \<times> instant) list) tracker_env" where
  "list_env = \<lparr>
     env_ttl = \<lparr>ttl_New = [], ttl_Fetch = (\<lambda>t k l. (map_option fst (map_of l k), l)),
       ttl_Store = (\<lambda>t k v l. (k, v, t) # l), ttl_Listed = (\<lambda>t l. remdups (map fst l))\<rparr>,
     env_lru = list_lru,
     env_now = (\<lambda>n. int n)\<rparr>"

definition list_stored :: "(string \<times> nat \<times> instant) list \<Rightarrow> (string \<times> nat) set" where
  "list_stored l = (\<lambda>(k, v, d). (k, v)) ` set l"

lemma list_env_holds: "ttl_holds (env_ttl list_env) list_stored"
  by (force simp: ttl_holds_def list_env_def list_stored_def dest: map_of_SomeD)

definition one_value :: LimitsConfig where
  "one_value = \<lparr>MaxKeys = 10, MaxStringDistinctValues = 1, MaxStringLength = 64\<rparr>"

theorem tracker_never_skips_witness:
  "let e = fold (value_step list_env)
       [FilterAttrs [(''k'', FlatString ''a'')] ''logs'', FilterAttrs [(''k'', FlatString ''b'')] ''logs'',
        LogCounts (Some [Some (''n'', \<lparr>tagDataType = ''float64'', stringTagValueCount = 0, numberValueCount = 5\<rparr>)])
        :: int value_event]
       (newMetadataExporter list_env one_value one_value one_value [] [] []) in
   fst (filterAttrs list_env [(''k'', FlatString ''c''), (''n'', FlatFloat (3 :: int))] ''logs'' e) =
     [(''k'', FlatString ''c'')]"
proof -
  let ?events = "[FilterAttrs [(''k'', FlatString ''a'')] ''logs'', FilterAttrs [(''k'', FlatString ''b'')] ''logs'',
    LogCounts (Some [Some (''n'', \<lparr>tagDataType = ''float64'', stringTagValueCount = 0, numberValueCount = 5\<rparr>)])]
    :: int value_event list"
  let ?start = "newMetadataExporter list_env one_value one_value one_value [] [] []"
  let ?after = "snd (filterAttrs list_env [(''k'', FlatString ''b'' :: int flat)] ''logs''
    (snd (filterAttrs list_env [(''k'', FlatString ''a'' :: int flat)] ''logs'' ?start)))"
  have L: "lru_promises (env_lru list_env) (\<lambda>l. map_of (snd l)) list_cap"
    by (simp add: list_env_def list_lru_promises)
  have c: "MaxStringDistinctValues one_value < 2 ^ 63" by (simp add: one_value_def)
  have ok: "exporter_ok list_stored (\<lambda>l. map_of (snd l)) list_cap ?start" "bounded_config ?start"
    using list_env_holds c
    by (simp_all add: newMetadataExporter_def exporter_ok_def NewValueTracker_def tracker_ok_def ttl_holds_def bounded_config_def)
  let ?mid = "snd (filterAttrs list_env [(''k'', FlatString ''a'' :: int flat)] ''logs'' ?start)"
  have first: "fst (filterAttrs list_env [(''k'', FlatString ''a'' :: int flat)] ''logs'' ?start) =
      filter (\<lambda>(k, v). \<not> skipped_number k ''logs'' ?start) [(''k'', FlatString ''a'')]"
    "exporter_ok list_stored (\<lambda>l. map_of (snd l)) list_cap ?mid" "fixed_part ?mid = fixed_part ?start"
    using filterAttrs_numbers [OF list_env_holds L ok, of "[(''k'', FlatString ''a'' :: int flat)]" "''logs''"] by simp_all
  then have "bounded_config ?mid" using fixed_bounded ok(2) by blast
  note first = first this
  have "fixed_part ?after = fixed_part ?start"
    by (rule trans [OF conjunct2 [OF conjunct2 [OF filterAttrs_numbers [OF list_env_holds L first(2,4)]]] first(3)])
  then have skip: "skipped_number ''n'' ''logs'' (fold (value_step list_env) ?events ?start)"
    "\<not> skipped_number ''k'' ''logs'' (fold (value_step list_env) ?events ?start)"
    by (simp_all add: skipped_number_def always_include_def getType_def counts_of_def fixed_part_def
        newMetadataExporter_def updateLogTagValueCount_def counted_rows_def)
  have run: "fold (value_step list_env) ?events ?start = fold (value_step list_env) ?events ?start" by (rule refl)
  show ?thesis
    unfolding Let_def
    by (rule trans [OF tracker_never_skips [OF list_env_holds L c c c run]])
      (simp only: filter.simps case_prod_conv skip not_False_eq_True not_True_eq_False if_True if_False)
qed

end
