(* ===== verification/Fingerprints.thy ===== *)
theory Fingerprints
  imports Prelude "HOL-Library.AList" "HOL-Library.List_Lexorder" "HOL-Library.Char_ord"
begin

text \<open>
  The fingerprints of attributes and the labels of a series, \<^verbatim>\<open>internal/common/fingerprint\<close>. A
  \<^verbatim>\<open>pcommon.Map\<close> is the list of its entries, a value its type and the text \<^verbatim>\<open>AsString\<close> gives;
  a Go map is an association list with different keys. The lemmas show that a fingerprint is the
  FNV-1a hash of an encoding of the attributes sorted by name, that the order in which the
  attributes come does not matter, that the encoding of texts in UTF-8 is injective, and that the
  labels are read back from their JSON.
\<close>

section \<open>Attributes\<close>

datatype ValueType =
    ValueTypeEmpty | ValueTypeStr | ValueTypeInt | ValueTypeDouble | ValueTypeBool | ValueTypeMap
  | ValueTypeSlice | ValueTypeBytes

text \<open>A \<^verbatim>\<open>pcommon.Map\<close> with, for each value, its type and its text.\<close>

type_synonym pcommon_map = "(string \<times> ValueType \<times> string) list"

record Value =
  DataType :: ValueType
  Val :: string

type_synonym attributes = "(string \<times> Value) list"

definition NewAttributesFromPcommonMap :: "pcommon_map \<Rightarrow> attributes" where
  "NewAttributesFromPcommonMap attrs =
     fold (\<lambda>(k, t, s) m. AList.update k \<lparr>DataType = t, Val = s\<rparr> m) attrs []"

section \<open>Hashes\<close>

unbundle bit_operations_syntax

definition InitialOffset :: uint64 where
  "InitialOffset = 14695981039346656037"

definition prime64 :: uint64 where
  "prime64 = 1099511628211"

definition separatorByte :: byte where
  "separatorByte = 255"

definition hashAdd :: "uint64 \<Rightarrow> string \<Rightarrow> uint64" where
  "hashAdd h s = fold (\<lambda>c h. (h XOR of_char c) * prime64) s h"

definition hashAddByte :: "uint64 \<Rightarrow> byte \<Rightarrow> uint64" where
  "hashAddByte h b = (h XOR ucast b) * prime64"

section \<open>Fingerprints\<close>

datatype FingerprintType = FingerprintType string

fun FingerprintType_String :: "FingerprintType \<Rightarrow> string" where
  "FingerprintType_String (FingerprintType s) = s"

definition ResourceFingerprintType :: FingerprintType where
  "ResourceFingerprintType = FingerprintType ''resource''"

definition ScopeFingerprintType :: FingerprintType where
  "ScopeFingerprintType = FingerprintType ''scope''"

definition PointFingerprintType :: FingerprintType where
  "PointFingerprintType = FingerprintType ''point''"

record Fingerprint =
  fp_attributes :: attributes
  fp_hash :: uint64
  fp_typ :: FingerprintType

definition with_extras :: "(string \<times> string) list \<Rightarrow> attributes \<Rightarrow> attributes" where
  "with_extras extras attributes =
     fold (\<lambda>(k, v) m. AList.update k \<lparr>DataType = ValueTypeStr, Val = v\<rparr> m) extras attributes"

definition lookup_value :: "attributes \<Rightarrow> string \<Rightarrow> Value" where
  "lookup_value m k = (case map_of m k of Some v \<Rightarrow> v | None \<Rightarrow> \<lparr>DataType = ValueTypeEmpty, Val = []\<rparr>)"

definition NewFingerprint ::
  "FingerprintType \<Rightarrow> uint64 \<Rightarrow> pcommon_map \<Rightarrow> (string \<times> string) list \<Rightarrow> Fingerprint" where
  "NewFingerprint typ offset attrs extras =
     (let attributes = with_extras extras (NewAttributesFromPcommonMap attrs);
          sortedKeys = sort (map fst attributes);
          h = fold (\<lambda>k h.
                let h = hashAdd h k; h = hashAddByte h separatorByte;
                    h = hashAdd h (Val (lookup_value attributes k))
                in hashAddByte h separatorByte) sortedKeys offset
      in \<lparr>fp_attributes = attributes, fp_hash = h, fp_typ = typ\<rparr>)"

definition AttributesAsMap :: "Fingerprint \<Rightarrow> (string \<times> string) list" where
  "AttributesAsMap f = map (\<lambda>(k, v). (k, Val v)) (fp_attributes f)"

definition HashWithName :: "Fingerprint \<Rightarrow> string \<Rightarrow> uint64" where
  "HashWithName f name =
     (let s = hashAdd (fp_hash f) ''__name__''; s = hashAddByte s separatorByte in hashAdd s name)"

section \<open>Labels\<close>

definition escape_byte :: "char \<Rightarrow> string" where
  "escape_byte c =
     (if c = CHR 0x5C \<or> c = CHR 0x22 then [CHR 0x5C, c]
      else if c = CHR 0x0A then [CHR 0x5C, CHR ''n'']
      else if c = CHR 0x0D then [CHR 0x5C, CHR ''r'']
      else if c = CHR 0x09 then [CHR 0x5C, CHR ''t'']
      else [c])"

text \<open>The bytes appended for one label, with the comma after it, which becomes the last brace.\<close>

definition label_bytes :: "string \<Rightarrow> string \<Rightarrow> string" where
  "label_bytes name val =
     [CHR 0x22] @ name @ [CHR 0x22, CHR '':'', CHR 0x22] @ concat (map escape_byte val) @ [CHR 0x22, CHR '','']"

definition marshalLabels :: "(string \<times> string) list \<Rightarrow> string \<Rightarrow> string" where
  "marshalLabels attrs b =
     (let keys = sort (map fst attrs) in
      if attrs = [] then b @ ''{}''
      else butlast (b @ ''{'' @
        concat (map (\<lambda>name. label_bytes name (case map_of attrs name of Some v \<Rightarrow> v | None \<Rightarrow> [])) keys)) @ ''}'')"

definition merge_labels :: "(string \<times> string) list list \<Rightarrow> (string \<times> string) list" where
  "merge_labels ms = fold (\<lambda>m attrs. fold (\<lambda>(k, v). AList.update k v) m attrs) ms []"

definition NewLabelsAsJSONString :: "string \<Rightarrow> (string \<times> string) list list \<Rightarrow> string" where
  "NewLabelsAsJSONString name ms = marshalLabels (AList.update ''__name__'' name (merge_labels ms)) []"

section \<open>Fingerprints hash an encoding\<close>

text \<open>Names and values, each followed by the separator, sorted by name.\<close>

definition sep :: char where
  "sep = CHR 0xFF"

definition entry_text :: "string \<times> string \<Rightarrow> string" where
  "entry_text e = fst e @ sep # snd e @ [sep]"

definition sorted_texts :: "attributes \<Rightarrow> (string \<times> string) list" where
  "sorted_texts m = map (\<lambda>k. (k, Val (lookup_value m k))) (sort (map fst m))"

definition encoding :: "attributes \<Rightarrow> string" where
  "encoding m = concat (map entry_text (sorted_texts m))"

lemma hashAdd_append: "hashAdd h (s @ t) = hashAdd (hashAdd h s) t"
  by (simp add: hashAdd_def)

lemma hashAddByte_sep: "hashAddByte h separatorByte = hashAdd h [sep]"
  by (simp add: hashAddByte_def hashAdd_def separatorByte_def sep_def)

lemma hash_fold:
  "fold (\<lambda>k h.
     let h = hashAdd h k; h = hashAddByte h separatorByte; h = hashAdd h (f k)
     in hashAddByte h separatorByte) ks h = hashAdd h (concat (map (\<lambda>k. entry_text (k, f k)) ks))"
  by (induction ks arbitrary: h)
    (simp_all add: hashAddByte_sep hashAdd_append [symmetric] entry_text_def Let_def, simp add: hashAdd_def)

lemma fp_hash_encoding:
  "fp_hash (NewFingerprint typ offset attrs extras) =
     hashAdd offset (encoding (fp_attributes (NewFingerprint typ offset attrs extras)))"
  by (simp add: NewFingerprint_def hash_fold [unfolded Let_def] encoding_def sorted_texts_def comp_def Let_def)

lemma HashWithName_hash: "HashWithName f name = hashAdd (fp_hash f) (''__name__'' @ sep # name)"
  by (simp add: HashWithName_def hashAddByte_sep hashAdd_append [symmetric])

text \<open>The fingerprint of a series is the FNV-1a hash of a single text: the attributes of the resource,
  of the scope and of the point, each level sorted by name with a separator after every name and
  value, then the name of the metric. Nothing else goes into it.\<close>

theorem series_fingerprint_encoding:
  "let R = NewFingerprint ResourceFingerprintType InitialOffset resource [];
       S = NewFingerprint ScopeFingerprintType (fp_hash R) scope scope_extras;
       P = NewFingerprint PointFingerprintType (fp_hash S) point point_extras
   in HashWithName P name =
      hashAdd InitialOffset
        (encoding (fp_attributes R) @ encoding (fp_attributes S) @ encoding (fp_attributes P) @
         ''__name__'' @ sep # name)"
  by (simp only: Let_def HashWithName_hash fp_hash_encoding hashAdd_append)

section \<open>The order of attributes\<close>

lemma distinct_pcommon: "distinct (map fst (NewAttributesFromPcommonMap attrs))"
  unfolding NewAttributesFromPcommonMap_def
  by (rule fold_invariant [where P = "\<lambda>m. distinct (map fst m)" and Q = "\<lambda>_. True"])
    (auto simp: distinct_update split: prod.split)

lemma distinct_extras: "distinct (map fst m) \<Longrightarrow> distinct (map fst (with_extras extras m))"
  unfolding with_extras_def
  by (rule fold_invariant [where P = "\<lambda>m. distinct (map fst m)" and Q = "\<lambda>_. True"])
    (auto simp: distinct_update split: prod.split)

lemma distinct_fingerprint: "distinct (map fst (fp_attributes (NewFingerprint typ offset attrs extras)))"
  by (simp add: NewFingerprint_def Let_def distinct_pcommon distinct_extras)

lemma map_of_fold_update: "map_of (fold (\<lambda>(k, v). AList.update k v) es m) = map_of m ++ map_of (rev es)"
  by (induction es arbitrary: m) (auto simp: update_conv')

lemma map_of_pcommon:
  "map_of (NewAttributesFromPcommonMap attrs) =
     map_of (rev (map (\<lambda>(k, t, s). (k, \<lparr>DataType = t, Val = s\<rparr>)) attrs))"
proof -
  have "NewAttributesFromPcommonMap attrs =
      fold (\<lambda>(k, v). AList.update k v) (map (\<lambda>(k, t, s). (k, \<lparr>DataType = t, Val = s\<rparr>)) attrs) []"
    unfolding NewAttributesFromPcommonMap_def by (simp add: fold_map comp_def case_prod_unfold)
  then show ?thesis by (simp add: map_of_fold_update)
qed

lemma map_of_extras:
  "map_of (with_extras extras m) =
     map_of m ++ map_of (rev (map (\<lambda>(k, v). (k, \<lparr>DataType = ValueTypeStr, Val = v\<rparr>)) extras))"
proof -
  have "with_extras extras m =
      fold (\<lambda>(k, v). AList.update k v) (map (\<lambda>(k, v). (k, \<lparr>DataType = ValueTypeStr, Val = v\<rparr>)) extras) m"
    unfolding with_extras_def by (simp add: fold_map comp_def case_prod_unfold)
  then show ?thesis by (simp add: map_of_fold_update)
qed

lemma map_of_mset_cong: "mset xs = mset ys \<Longrightarrow> distinct (map fst xs) \<Longrightarrow> map_of (rev xs) = map_of (rev ys)"
  using map_of_inject_set [of "rev xs" "rev ys"]
  by (metis distinct_rev mset_eq_imp_distinct_iff mset_map rev_map set_mset_mset set_rev)

lemma sorted_keys_cong:
  assumes "distinct (map fst m)" "distinct (map fst m')" "map_of m = map_of m'"
  shows "sort (map fst m) = sort (map fst m')"
proof -
  have "set (map fst m) = set (map fst m')" using assms(3) by (metis dom_map_of_conv_image_fst set_map)
  with assms(1,2) show ?thesis by (simp add: sorted_list_of_set.idem_if_sorted_distinct sorted_distinct_set_unique)
qed

lemma encoding_cong:
  assumes "distinct (map fst m)" "distinct (map fst m')" "map_of m = map_of m'"
  shows "encoding m = encoding m'"
  using sorted_keys_cong [OF assms] assms(3) by (simp add: encoding_def sorted_texts_def lookup_value_def)

lemma map_of_AttributesAsMap: "map_of (AttributesAsMap f) = map_option Val \<circ> map_of (fp_attributes f)"
  by (simp add: AttributesAsMap_def map_of_map)

text \<open>The order in which the attributes come, and the order of the extras, do not matter: the
  same attributes in another order have the same fingerprint, with the same attributes.\<close>

theorem attribute_order_irrelevant:
  assumes "distinct (map fst attrs)" "mset attrs = mset attrs'"
    and "distinct (map fst extras)" "mset extras = mset extras'"
  shows "let F = NewFingerprint typ offset attrs extras; F' = NewFingerprint typ offset attrs' extras'
    in fp_hash F = fp_hash F' \<and> HashWithName F name = HashWithName F' name \<and>
       map_of (AttributesAsMap F) = map_of (AttributesAsMap F')"
proof -
  let ?F = "NewFingerprint typ offset attrs extras" and ?F' = "NewFingerprint typ offset attrs' extras'"
  let ?f = "\<lambda>(k, t, s). (k, \<lparr>DataType = t, Val = s\<rparr>)" and ?g = "\<lambda>(k, v). (k, \<lparr>DataType = ValueTypeStr, Val = v\<rparr>)"
  have "map fst (map ?f attrs) = map fst attrs" "map fst (map ?g extras) = map fst extras"
    by (simp_all add: comp_def case_prod_unfold)
  then have "map_of (rev (map ?f attrs)) = map_of (rev (map ?f attrs'))"
    "map_of (rev (map ?g extras)) = map_of (rev (map ?g extras'))"
    using assms by (simp_all only: map_of_mset_cong mset_map)
  then have "map_of (fp_attributes ?F) = map_of (fp_attributes ?F')"
    by (simp add: NewFingerprint_def Let_def map_of_extras map_of_pcommon)
  then have "encoding (fp_attributes ?F) = encoding (fp_attributes ?F')"
    by (intro encoding_cong distinct_fingerprint)
  then show ?thesis
    using \<open>map_of (fp_attributes ?F) = map_of (fp_attributes ?F')\<close>
    by (simp add: Let_def HashWithName_hash fp_hash_encoding map_of_AttributesAsMap)
qed

section \<open>Different attributes, different encodings\<close>

text \<open>The separator is no byte of a text in UTF-8.\<close>

definition no_sep :: "string \<Rightarrow> bool" where
  "no_sep s \<longleftrightarrow> sep \<notin> set s"

lemma split_at_sep: "no_sep a \<Longrightarrow> no_sep b \<Longrightarrow> a @ sep # s = b @ sep # t \<Longrightarrow> a = b \<and> s = t"
proof (induction a arbitrary: b)
  case (Cons c a)
  then show ?case by (cases b) (auto simp: no_sep_def)
qed (auto simp: no_sep_def neq_Nil_conv Cons_eq_append_conv)

lemma entries_inj:
  assumes "\<forall>(k, v) \<in> set xs. no_sep k \<and> no_sep v" "\<forall>(k, v) \<in> set ys. no_sep k \<and> no_sep v"
    and "concat (map entry_text xs) = concat (map entry_text ys)"
  shows "xs = ys"
  using assms
proof (induction xs arbitrary: ys)
  case Nil
  then show ?case by (cases ys) (auto simp: entry_text_def)
next
  case (Cons x xs)
  then obtain y zs where ys: "ys = y # zs" by (cases ys) (auto simp: entry_text_def)
  obtain k v l w where x: "x = (k, v)" "y = (l, w)" by fastforce
  have "k @ sep # v @ sep # concat (map entry_text xs) = l @ sep # w @ sep # concat (map entry_text zs)"
    using Cons.prems(3) ys x by (simp add: entry_text_def [of "(_, _)"])
  moreover have n: "no_sep k" "no_sep l" "no_sep v" "no_sep w" using Cons.prems ys x by auto
  ultimately have "k = l" "v = w" "concat (map entry_text xs) = concat (map entry_text zs)"
    using split_at_sep by metis+
  with Cons.IH [of zs] Cons.prems(1,2) ys x show ?case by auto
qed

lemma sorted_texts_map_of:
  assumes "distinct (map fst m)"
  shows "map_of (sorted_texts m) = map_option Val \<circ> map_of m"
proof
  fix k
  have "map_of (sorted_texts m) k = (if k \<in> set (map fst m) then Some (Val (lookup_value m k)) else None)"
    unfolding sorted_texts_def by (auto simp: map_of_map_restrict restrict_map_def)
  also have "\<dots> = (map_option Val \<circ> map_of m) k"
    by (auto simp: lookup_value_def map_of_eq_None_iff split: option.split dest: map_of_SomeD)
  finally show "map_of (sorted_texts m) k = (map_option Val \<circ> map_of m) k" .
qed

lemma sorted_texts_set:
  assumes "distinct (map fst (fp_attributes F))"
  shows "set (sorted_texts (fp_attributes F)) = set (AttributesAsMap F)"
  using assms by (force simp: sorted_texts_def AttributesAsMap_def lookup_value_def split: option.split)

lemma sorted_texts_cong:
  assumes "distinct (map fst m)" "distinct (map fst m')"
    and "map_option Val \<circ> map_of m = map_option Val \<circ> map_of m'"
  shows "sorted_texts m = sorted_texts m'"
proof -
  have "dom (map_of m) = dom (map_option Val \<circ> map_of m)" for m :: attributes by (auto simp: dom_def)
  then have "set (map fst m) = set (map fst m')" using assms(3) by (metis dom_map_of_conv_image_fst set_map)
  with assms(1,2) have k: "sort (map fst m) = sort (map fst m')"
    by (simp add: sorted_distinct_set_unique)
  have "Val (lookup_value m k) = Val (lookup_value m' k)" for k
  proof -
    have "map_option Val (map_of m k) = map_option Val (map_of m' k)" using assms(3) by (simp add: fun_eq_iff)
    then show ?thesis by (simp add: lookup_value_def split: option.split_asm) (auto split: option.split)
  qed
  with k show ?thesis by (simp add: sorted_texts_def)
qed

text \<open>The encoding of names and values in UTF-8 is injective: fingerprints whose encodings agree
  have the same names with the same texts, so two different sets of attributes share a hash only
  where FNV-1a itself collides.\<close>

theorem encoding_injective:
  assumes "\<forall>(k, v) \<in> set (AttributesAsMap F). no_sep k \<and> no_sep v"
    and "\<forall>(k, v) \<in> set (AttributesAsMap F'). no_sep k \<and> no_sep v"
    and "F = NewFingerprint typ offset attrs extras" "F' = NewFingerprint typ' offset' attrs' extras'"
  shows "encoding (fp_attributes F) = encoding (fp_attributes F') \<longleftrightarrow>
    map_of (AttributesAsMap F) = map_of (AttributesAsMap F')"
proof
  let ?m = "fp_attributes F" and ?m' = "fp_attributes F'"
  have d: "distinct (map fst ?m)" "distinct (map fst ?m')"
    using assms(3,4) by (simp_all add: distinct_fingerprint)
  show "map_of (AttributesAsMap F) = map_of (AttributesAsMap F')" if "encoding ?m = encoding ?m'"
  proof -
    have "\<forall>(k, v) \<in> set (sorted_texts ?m). no_sep k \<and> no_sep v" "\<forall>(k, v) \<in> set (sorted_texts ?m'). no_sep k \<and> no_sep v"
      using assms(1,2) d by (simp_all only: sorted_texts_set)
    with that have "sorted_texts ?m = sorted_texts ?m'" unfolding encoding_def by (intro entries_inj)
    then show ?thesis using sorted_texts_map_of d by (metis map_of_AttributesAsMap)
  qed
  show "encoding ?m = encoding ?m'" if "map_of (AttributesAsMap F) = map_of (AttributesAsMap F')"
    unfolding encoding_def using sorted_texts_cong [OF d] that by (simp add: map_of_AttributesAsMap)
qed

section \<open>Labels are read back\<close>

text \<open>A reader of an object of strings in JSON, for the escapes that are written.\<close>

definition unescape :: "char \<Rightarrow> char" where
  "unescape c =
     (if c = CHR ''n'' then CHR 0x0A else if c = CHR ''r'' then CHR 0x0D
      else if c = CHR ''t'' then CHR 0x09 else c)"

fun read_string :: "string \<Rightarrow> (string \<times> string) option" where
  "read_string [] = None"
| "read_string (c # s) =
     (if c = CHR 0x22 then Some ([], s)
      else if c = CHR 0x5C then
        (case s of [] \<Rightarrow> None
         | d # t \<Rightarrow> map_option (\<lambda>(u, r). (unescape d # u, r)) (read_string t))
      else map_option (\<lambda>(u, r). (c # u, r)) (read_string s))"

lemma read_string_shorter: "read_string s = Some (t, r) \<Longrightarrow> length r < length s"
  by (induction s arbitrary: t r rule: read_string.induct)
    (fastforce split: if_splits list.splits)+

fun read_expected :: "string \<Rightarrow> string \<Rightarrow> string option" where
  "read_expected [] s = Some s"
| "read_expected (c # cs) (d # s) = (if c = d then read_expected cs s else None)"
| "read_expected (c # cs) [] = None"

lemma read_expected_shorter: "read_expected e s = Some r \<Longrightarrow> length r \<le> length s"
  by (induction e s rule: read_expected.induct) (auto split: if_splits)

lemma read_expected_append [simp]: "read_expected e (e @ s) = Some s"
  by (induction e) auto

text \<open>The labels after a quote, up to the brace.\<close>

function read_labels_from :: "string \<Rightarrow> (string \<times> string) list option" where
  "read_labels_from s =
     (case read_string s of None \<Rightarrow> None
      | Some (k, s1) \<Rightarrow>
          (case read_expected [CHR '':'', CHR 0x22] s1 of None \<Rightarrow> None
           | Some s2 \<Rightarrow>
               (case read_string s2 of None \<Rightarrow> None
                | Some (v, s3) \<Rightarrow>
                    if s3 = ''}'' then Some [(k, v)]
                    else
                      (case read_expected [CHR '','', CHR 0x22] s3 of None \<Rightarrow> None
                       | Some s4 \<Rightarrow> map_option (\<lambda>ls. (k, v) # ls) (read_labels_from s4)))))"
  by pat_completeness auto
termination
  by (relation "measure length")
    (auto dest!: read_string_shorter read_expected_shorter)

declare read_labels_from.simps [simp del]

definition read_labels :: "string \<Rightarrow> (string \<times> string) list option" where
  "read_labels s =
     (if s = ''{}'' then Some []
      else case read_expected [CHR ''{'', CHR 0x22] s of None \<Rightarrow> None | Some t \<Rightarrow> read_labels_from t)"

text \<open>Names that need no escape.\<close>

definition plain_name :: "string \<Rightarrow> bool" where
  "plain_name k \<longleftrightarrow> CHR 0x22 \<notin> set k \<and> CHR 0x5C \<notin> set k"

lemma read_plain: "plain_name k \<Longrightarrow> read_string (k @ CHR 0x22 # r) = Some (k, r)"
  by (induction k) (auto simp: plain_name_def)

lemma read_escaped: "read_string (concat (map escape_byte v) @ CHR 0x22 # r) = Some (v, r)"
proof (induction v)
  case (Cons c v)
  then show ?case by (auto simp: escape_byte_def unescape_def)
qed simp

lemma read_labels_written:
  assumes "ls \<noteq> []" "\<forall>(k, v) \<in> set ls. plain_name k"
  shows "read_labels_from (tl (butlast (concat (map (\<lambda>(k, v). label_bytes k v) ls)) @ ''}'')) = Some ls"
  using assms
proof (induction ls)
  case (Cons l ls)
  obtain k v where l: "l = (k, v)" by fastforce
  have k: "plain_name k" using Cons.prems l by simp
  let ?rest = "concat (map (\<lambda>(k, v). label_bytes k v) ls)"
  let ?v = "concat (map escape_byte v)"
  show ?case
  proof (cases "ls = []")
    case True
    have "tl (butlast (label_bytes k v) @ ''}'') = k @ CHR 0x22 # CHR '':'' # CHR 0x22 # ?v @ CHR 0x22 # ''}''"
      by (simp add: label_bytes_def butlast_append)
    then show ?thesis
      using True l k by (subst read_labels_from.simps) (simp add: read_plain read_escaped)
  next
    case False
    then obtain k' v' ls' where ls: "ls = (k', v') # ls'" by (cases ls) auto
    have r: "?rest \<noteq> []" "hd ?rest = CHR 0x22" unfolding ls by (simp_all add: label_bytes_def)
    then obtain q where q: "?rest = CHR 0x22 # q" by (cases ?rest) auto
    then have qn: "q \<noteq> []" unfolding ls by (auto simp: label_bytes_def)
    have t: "tl (butlast ?rest @ ''}'') = butlast q @ ''}''" using q qn by simp
    have "tl (butlast (label_bytes k v @ ?rest) @ ''}'') =
        k @ CHR 0x22 # CHR '':'' # CHR 0x22 # ?v @ CHR 0x22 # CHR '','' # CHR 0x22 # butlast q @ ''}''"
      using q qn by (simp add: label_bytes_def butlast_append)
    moreover have "read_labels_from (butlast q @ ''}'') = Some ls"
      using Cons.IH False Cons.prems(2) t by simp
    ultimately show ?thesis
      using l k by (subst read_labels_from.simps) (simp add: read_plain read_escaped)
  qed
qed simp

definition sorted_labels :: "(string \<times> string) list \<Rightarrow> (string \<times> string) list" where
  "sorted_labels m = map (\<lambda>k. (k, case map_of m k of Some v \<Rightarrow> v | None \<Rightarrow> [])) (sort (map fst m))"

lemma sort_empty: "sort xs = [] \<longleftrightarrow> xs = []"
  by (metis length_0_conv length_sort)

lemma read_marshalLabels:
  assumes "\<forall>k \<in> set (map fst m). plain_name k"
  shows "read_labels (marshalLabels m []) = Some (sorted_labels m)"
proof (cases "m = []")
  case True
  then show ?thesis by (simp add: marshalLabels_def read_labels_def sorted_labels_def)
next
  case False
  let ?ls = "sorted_labels m"
  let ?c = "concat (map (\<lambda>(k, v). label_bytes k v) ?ls)"
  have ls: "?ls \<noteq> []" "\<forall>(k, v) \<in> set ?ls. plain_name k"
    using False assms sort_empty [of "map fst m"] by (auto simp: sorted_labels_def)
  have c: "marshalLabels m [] = butlast (CHR ''{'' # ?c) @ ''}''"
    using False by (simp add: marshalLabels_def sorted_labels_def comp_def Let_def)
  obtain k v r where kv: "?ls = (k, v) # r" using ls(1) by (cases ?ls) auto
  then obtain q where q: "?c = CHR 0x22 # q" "q \<noteq> []" by (auto simp: label_bytes_def)
  then have "marshalLabels m [] = CHR ''{'' # CHR 0x22 # (butlast q @ ''}'')" using c by simp
  moreover have "butlast q @ ''}'' = tl (butlast ?c @ ''}'')" using q by simp
  ultimately show ?thesis
    using read_labels_written [OF ls] by (simp add: read_labels_def)
qed

lemma map_of_sorted_labels: "map_of (sorted_labels m) = map_of m"
proof
  fix k
  have l: "map_of (sorted_labels m) k =
      (if k \<in> fst ` set m then Some (case map_of m k of Some v \<Rightarrow> v | None \<Rightarrow> []) else None)"
    unfolding sorted_labels_def by (auto simp: map_of_map_restrict restrict_map_def)
  show "map_of (sorted_labels m) k = map_of m k"
  proof (cases "map_of m k")
    case None
    then have "k \<notin> fst ` set m" by (simp add: map_of_eq_None_iff)
    with l None show ?thesis by simp
  next
    case (Some v)
    then have "k \<in> fst ` set m" by (metis map_of_eq_None_iff option.distinct(1))
    with l Some show ?thesis by simp
  qed
qed

lemma ball_subset: "A \<subseteq> B \<Longrightarrow> \<forall>x \<in> B. P x \<Longrightarrow> \<forall>x \<in> A. P x"
  by blast

lemma map_of_rev_distinct: "distinct (map fst m) \<Longrightarrow> map_of (rev m) = map_of m"
  using map_of_mset_cong [of m "rev m"] by simp

lemma merge_labels_map:
  "\<forall>m \<in> set ms. distinct (map fst m) \<Longrightarrow>
    map_of (fold (\<lambda>m attrs. fold (\<lambda>(k, v). AList.update k v) m attrs) ms attrs) =
      foldl (++) (map_of attrs) (map map_of ms)"
  by (induction ms arbitrary: attrs) (simp_all add: map_of_fold_update map_of_rev_distinct)

lemma merge_labels_keys:
  "set (map fst (fold (\<lambda>m attrs. fold (\<lambda>(k, v). AList.update k v) m attrs) ms attrs)) \<subseteq>
     set (map fst attrs) \<union> (\<Union>m \<in> set ms. set (map fst m))"
proof (induction ms arbitrary: attrs)
  case (Cons m ms)
  let ?X = "fold (\<lambda>(k, v). AList.update k v) m attrs"
  have step: "set (map fst ?X) = set (map fst attrs) \<union> set (map fst m)"
    by (simp add: dom_map_of_conv_image_fst [symmetric] map_of_fold_update)
      (simp add: dom_map_of_conv_image_fst Un_commute)
  show ?case using Cons.IH [of ?X] unfolding fold_simps comp_apply step by (simp add: Un_assoc)
qed simp

lemma merge_labels_distinct:
  "distinct (map fst attrs) \<Longrightarrow>
    distinct (map fst (fold (\<lambda>m attrs. fold (\<lambda>(k, v). AList.update k v) m attrs) ms attrs))"
proof (induction ms arbitrary: attrs)
  case (Cons m ms)
  have "distinct (map fst attrs) \<Longrightarrow> distinct (map fst (fold (\<lambda>(k, v). AList.update k v) m attrs))" for attrs
    by (induction m arbitrary: attrs) (auto simp: distinct_update)
  with Cons show ?case by simp
qed simp


section \<open>Examples\<close>

theorem attribute_order_irrelevant_witness:
  "fp_hash (NewFingerprint PointFingerprintType 7 [(''a'', ValueTypeStr, ''1''), (''b'', ValueTypeInt, ''2'')] [(''le'', ''5'')]) =
   fp_hash (NewFingerprint PointFingerprintType 7 [(''b'', ValueTypeInt, ''2''), (''a'', ValueTypeStr, ''1'')] [(''le'', ''5'')])"
  using attribute_order_irrelevant [of "[(''a'', ValueTypeStr, ''1''), (''b'', ValueTypeInt, ''2'')]"
      "[(''b'', ValueTypeInt, ''2''), (''a'', ValueTypeStr, ''1'')]" "[(''le'', ''5'')]" "[(''le'', ''5'')]"
      PointFingerprintType 7]
  by (simp add: Let_def)

theorem encoding_injective_witness:
  "encoding (fp_attributes (NewFingerprint PointFingerprintType 7 [(''a'', ValueTypeStr, ''bc'')] [])) \<noteq>
   encoding (fp_attributes (NewFingerprint PointFingerprintType 7 [(''ab'', ValueTypeStr, ''c'')] []))"
  by (subst encoding_injective [OF _ _ refl refl])
    (simp_all add: NewFingerprint_def NewAttributesFromPcommonMap_def with_extras_def AttributesAsMap_def
      no_sep_def sep_def Let_def fun_eq_iff exI [of _ "''a''"])


end
