(* ===== verification/FloatText.thy ===== *)
theory FloatText
  imports Float64
begin

text \<open>
  Conversions of integers to \<^verbatim>\<open>float64\<close> and the text of a \<^verbatim>\<open>float64\<close> that
  \<^verbatim>\<open>strconv.FormatFloat(v, 'f', -1, 64)\<close> gives: the fewest significant digits that are read back as
  the same value, and of those the nearest. The model of the values has one zero, so the
  text of a negative zero is that of zero. The text is shown to be read back as the value.
\<close>

section \<open>Conversions\<close>

definition float_of_int :: "int \<Rightarrow> float64" where
  "float_of_int i = Finite_f64 (if 0 \<le> i then round_float64 (of_int i) else - round_float64 (of_int (- i)))"

section \<open>Decimals\<close>

definition pow10 :: "int \<Rightarrow> rat" where
  "pow10 e = (if 0 \<le> e then 10 ^ nat e else 1 / 10 ^ nat (- e))"

text \<open>The decimal exponent of a positive number.\<close>

definition dec_exponent :: "rat \<Rightarrow> int" where
  "dec_exponent x =
     (if 1 \<le> x then int (length (show_nat (nat \<lfloor>x\<rfloor>))) - 1
      else - int (length (show_nat (nat (\<lceil>1 / x\<rceil> - 1)))))"

text \<open>The multiple of \<open>10\<close> to the power \<open>q\<close> next to \<open>x\<close> that is read back as \<open>x\<close>.\<close>

definition decimal_at :: "rat \<Rightarrow> int \<Rightarrow> int option" where
  "decimal_at x q =
     (let y = x / pow10 q; d = \<lfloor>y\<rfloor>;
          down = (round_float64 (of_int d * pow10 q) = x);
          up = (round_float64 (of_int (d + 1) * pow10 q) = x)
      in if down \<and> up then Some (round_half_even y)
         else if down then Some d
         else if up then Some (d + 1)
         else None)"

text \<open>One digit more at a time; seventeen are always enough.\<close>

fun first_decimal :: "rat \<Rightarrow> nat \<Rightarrow> int \<Rightarrow> int \<times> int" where
  "first_decimal x 0 q = (round_half_even (x / pow10 q), q)"
| "first_decimal x (Suc n) q =
     (case decimal_at x q of Some d \<Rightarrow> (d, q) | None \<Rightarrow> first_decimal x n (q - 1))"

fun strip_zeros :: "nat \<Rightarrow> int \<Rightarrow> nat \<times> int" where
  "strip_zeros d q = (if d \<noteq> 0 \<and> d mod 10 = 0 then strip_zeros (d div 10) (q + 1) else (d, q))"

declare strip_zeros.simps [simp del]

definition shortest_decimal :: "rat \<Rightarrow> nat \<times> int" where
  "shortest_decimal x = (case first_decimal x 16 (dec_exponent x) of (d, q) \<Rightarrow> strip_zeros (nat d) q)"

definition zero_pad :: "nat \<Rightarrow> nat \<Rightarrow> string" where
  "zero_pad w n = replicate (w - length (show_nat n)) CHR ''0'' @ show_nat n"

definition format_f :: "nat \<Rightarrow> int \<Rightarrow> string" where
  "format_f d q =
     (if 0 \<le> q then show_nat d @ replicate (nat q) CHR ''0''
      else let p = 10 ^ nat (- q) in show_nat (d div p) @ ''.'' @ zero_pad (nat (- q)) (d mod p))"

fun FormatFloat :: "float64 \<Rightarrow> string" where
  "FormatFloat NaN = ''NaN''"
| "FormatFloat PosInf = ''+Inf''"
| "FormatFloat NegInf = ''-Inf''"
| "FormatFloat (Finite_f64 r) =
     (if r = 0 then ''0''
      else if r < 0 then CHR ''-'' # (case shortest_decimal (- r) of (d, q) \<Rightarrow> format_f d q)
      else (case shortest_decimal r of (d, q) \<Rightarrow> format_f d q))"

section \<open>Reading the text back\<close>

text \<open>The value of a decimal text, and the \<^verbatim>\<open>float64\<close> nearest to it.\<close>

definition nat_of_digits :: "string \<Rightarrow> nat" where
  "nat_of_digits s = foldl (\<lambda>a c. 10 * a + (of_char c - 48)) 0 s"

definition decimal_value :: "string \<Rightarrow> rat" where
  "decimal_value s =
     (let i = takeWhile (\<lambda>c. c \<noteq> CHR ''.'') s; f = drop (length i + 1) s
      in of_nat (nat_of_digits i) + of_nat (nat_of_digits f) / 10 ^ length f)"

definition read_float :: "string \<Rightarrow> float64" where
  "read_float s =
     (if s = ''NaN'' then NaN else if s = ''+Inf'' then PosInf else if s = ''-Inf'' then NegInf
      else if s \<noteq> [] \<and> hd s = CHR ''-'' then Finite_f64 (- round_float64 (decimal_value (tl s)))
      else Finite_f64 (round_float64 (decimal_value s)))"

text \<open>The values a \<^verbatim>\<open>float64\<close> has.\<close>

fun is_float64 :: "float64 \<Rightarrow> bool" where
  "is_float64 (Finite_f64 r) \<longleftrightarrow> round_float64 \<bar>r\<bar> = \<bar>r\<bar>"
| "is_float64 v \<longleftrightarrow> True"

section \<open>Powers of ten\<close>

lemma pow10_pos [simp]: "0 < pow10 e"
  by (simp add: pow10_def)

lemma pow10_nz [simp]: "pow10 e \<noteq> 0"
  using pow10_pos [of e] by linarith

lemma pow10_eq_powi: "pow10 e = 10 powi e"
  by (simp add: pow10_def power_int_def inverse_eq_divide power_divide)

lemma pow10_add: "pow10 (a + b) = pow10 a * pow10 b"
  by (simp add: pow10_eq_powi power_int_add)

lemma pow10_nat: "pow10 (int n) = 10 ^ n"
  by (simp add: pow10_def)

lemma show_nat_less: "n < 10 ^ length (show_nat n)"
proof (induction n rule: show_nat.induct)
  case (1 n)
  then show ?case
    by (cases "n < 10") (auto simp: show_nat_small show_nat_big [of n])
qed

lemma show_nat_ge: "0 < n \<Longrightarrow> 10 ^ (length (show_nat n) - 1) \<le> n"
proof (induction n rule: show_nat.induct)
  case (1 n)
  show ?case
  proof (cases "n < 10")
    case True
    then show ?thesis using "1.prems" by (simp add: show_nat_small)
  next
    case False
    then have "10 ^ (length (show_nat (n div 10)) - 1) \<le> n div 10" using "1.IH" by simp
    then have "10 * 10 ^ (length (show_nat (n div 10)) - 1) \<le> n" by linarith
    then show ?thesis
      using False by (cases "show_nat (n div 10)") (simp_all add: show_nat_big [of n])
  qed
qed

lemma show_nat_bounds:
  assumes "0 < n"
  shows "(10 :: rat) ^ (length (show_nat n) - 1) \<le> of_nat n" "of_nat n + 1 \<le> (10 :: rat) ^ length (show_nat n)"
proof -
  have "(of_nat (10 ^ (length (show_nat n) - 1)) :: rat) \<le> of_nat n"
    "(of_nat (n + 1) :: rat) \<le> of_nat (10 ^ length (show_nat n))"
    using show_nat_ge [OF assms] show_nat_less [of n] by (simp_all only: of_nat_le_iff)
  then show "(10 :: rat) ^ (length (show_nat n) - 1) \<le> of_nat n" "of_nat n + 1 \<le> (10 :: rat) ^ length (show_nat n)"
    by simp_all
qed

lemma dec_exponent_bounds:
  assumes x: "0 < x"
  shows "pow10 (dec_exponent x) \<le> x \<and> x < pow10 (dec_exponent x + 1)"
proof (cases "1 \<le> x")
  case True
  let ?n = "nat \<lfloor>x\<rfloor>" and ?L = "length (show_nat (nat \<lfloor>x\<rfloor>))"
  have n: "0 < ?n" "of_nat ?n \<le> x" "x < of_nat ?n + 1"
    using True floor_correct [of x] by (simp_all add: le_floor_iff)
  have L: "int ?L - 1 = int (?L - 1)" by (cases "show_nat ?n") simp_all
  have "(10 :: rat) ^ (?L - 1) \<le> x" "x < 10 ^ ?L"
    using show_nat_bounds [OF n(1)] n(2,3) by linarith+
  moreover have e: "dec_exponent x = int ?L - 1" using True by (simp add: dec_exponent_def)
  moreover have "pow10 (int ?L - 1) = 10 ^ (?L - 1)" unfolding L by (rule pow10_nat)
  moreover have "pow10 (int ?L - 1 + 1) = 10 ^ ?L" using pow10_nat [of ?L] by simp
  ultimately show ?thesis by simp
next
  case False
  let ?m = "\<lceil>1 / x\<rceil> - 1" let ?n = "nat ?m" let ?L = "length (show_nat ?n)"
  have y: "1 < 1 / x" using False x by simp
  then have m: "0 < ?m" by (simp add: less_ceiling_iff)
  have "of_int ?m < 1 / x" "1 / x \<le> of_int ?m + 1" using ceiling_correct [of "1 / x"] by simp_all
  moreover have "(of_nat ?n :: rat) = of_int ?m" using m by (simp only: of_nat_nat less_imp_le)
  ultimately have n: "0 < ?n" "of_nat ?n < 1 / x" "1 / x \<le> of_nat ?n + 1" using m by simp_all
  have "(10 :: rat) ^ (?L - 1) < 1 / x" "1 / x \<le> 10 ^ ?L"
    using show_nat_bounds [OF n(1)] n(2,3) by linarith+
  then have "1 / 10 ^ ?L \<le> x" "x < 1 / 10 ^ (?L - 1)"
    using x by (simp_all add: field_simps)
  moreover have "dec_exponent x = - int ?L" using False by (simp add: dec_exponent_def)
  moreover have "pow10 (- int ?L) = 1 / 10 ^ ?L" by (simp add: pow10_eq_powi power_int_minus field_simps)
  moreover have "- int ?L + 1 = - int (?L - 1)" by (cases "show_nat ?n") simp_all
  moreover have "pow10 (- int (?L - 1)) = 1 / 10 ^ (?L - 1)" by (simp add: pow10_eq_powi power_int_minus field_simps)
  ultimately show ?thesis by metis
qed

section \<open>Seventeen digits\<close>

lemma round_half_even_near:
  assumes "\<bar>y - of_int m\<bar> < 1 / 2"
  shows "round_half_even y = m"
proof -
  have "\<lfloor>y\<rfloor> = m \<or> \<lfloor>y\<rfloor> = m - 1" using assms by (auto simp: floor_eq_iff abs_if split: if_splits)
  with assms show ?thesis by (auto simp: round_half_even_def Let_def abs_if split: if_splits)
qed

lemma round_half_even_dist: "\<bar>y - of_int (round_half_even y)\<bar> \<le> 1 / 2"
proof -
  define f where "f = \<lfloor>y\<rfloor>"
  then have "of_int f \<le> y" "y < of_int f + 1" "\<lfloor>y\<rfloor> = f" using floor_correct [of y] by simp_all
  then show ?thesis by (auto simp: round_half_even_def Let_def abs_if)
qed

text \<open>A number within half a unit of the seventeenth digit of a value is read as the value.\<close>

lemma round_at_near: "\<bar>y - of_int m * pow2 Q\<bar> < pow2 Q / 2 \<Longrightarrow> round_at Q y = of_int m * pow2 Q"
proof -
  assume a: "\<bar>y - of_int m * pow2 Q\<bar> < pow2 Q / 2"
  have "y / pow2 Q - of_int m = (y - of_int m * pow2 Q) / pow2 Q" by (simp add: diff_divide_distrib)
  then have "\<bar>y / pow2 Q - of_int m\<bar> < 1 / 2" using a by (simp add: abs_divide field_simps)
  then show ?thesis by (simp add: round_at_def round_half_even_near)
qed

lemma pow2_multiple: "Q \<le> e \<Longrightarrow> \<exists>n. pow2 e = of_int n * pow2 Q"
proof -
  assume "Q \<le> e"
  then have "pow2 e = of_int (2 ^ nat (e - Q)) * pow2 Q"
    using pow2_add [of "e - Q" Q] by (simp add: pow2_def)
  then show ?thesis by blast
qed

lemma pow2_shift: "pow2 (e + 1) = 2 * pow2 e" "pow2 (e - 1) = pow2 e / 2" "pow2 (e - 52) = pow2 e / 2 ^ 52"
  "pow2 (e - 53) = pow2 e / 2 ^ 53"
  by (simp_all add: pow2_eq_powi power_int_add power_int_diff)

lemma round_float64_near:
  assumes x: "0 < x" "round_float64 x = x" and near: "\<bar>y - x\<bar> * (2 * 10 ^ 16) \<le> x"
  shows "round_float64 y = x"
proof -
  define E where "E = exponent x"
  define Q where "Q = max (E - 52) (- 1074)"
  obtain m where m: "x = of_int m * pow2 Q"
    using x unfolding round_float64_def round_at_def E_def Q_def by (metis not_le)
  have bE: "pow2 E \<le> x" "x < 2 * pow2 E"
    using exponent_bounds [OF x(1)] by (simp_all add: E_def pow2_shift)
  have "pow2 (E - 52) \<le> pow2 Q" by (rule pow2_mono) (simp add: Q_def)
  then have bQ: "pow2 E \<le> 2 ^ 52 * pow2 Q" by (simp add: pow2_shift)
  have y: "0 < y" "\<bar>y - x\<bar> < pow2 Q / 2"
    using near x(1) bE bQ by (auto simp: abs_if split: if_splits)
  have F: "pow2 (exponent y) \<le> y" "y < 2 * pow2 (exponent y)"
    using exponent_bounds [OF y(1)] by (simp_all add: pow2_shift)
  have r: "round_float64 y = round_at (max (exponent y - 52) (- 1074)) y"
    using y by (simp add: round_float64_def)
  have "0 < m" using m x(1) pow2_pos [of Q] by (metis of_int_0_less_iff zero_less_mult_pos2)
  then have "pow2 Q \<le> x" using m by simp
  then have "Q < E + 1" using bE pow2_mono [of "E + 1" Q] by (fastforce simp: pow2_shift)
  then have QE: "Q \<le> E" by simp
  show ?thesis
  proof (cases "exponent y" E rule: linorder_cases)
    case equal
    with r round_at_near [of y m Q] y(2) m show ?thesis by (simp add: Q_def)
  next
    case less
    let ?R = "max (exponent y - 52) (- 1074)"
    have "2 * pow2 (exponent y) \<le> pow2 E" using pow2_mono [of "exponent y + 1" E] less by (simp add: pow2_shift)
    with F have below: "y < pow2 E" by linarith
    obtain n where n: "pow2 E = of_int n * pow2 Q" using pow2_multiple [OF QE] by blast
    have "x - pow2 E < pow2 Q" using y(2) below by linarith
    then have "of_int (m - n) * pow2 Q < 1 * pow2 Q" unfolding n by (subst (asm) m) (simp add: left_diff_distrib)
    then have "m - n < 1" by (simp add: mult_less_cancel_right)
    moreover have "n \<le> m" using bE(1) unfolding n by (subst (asm) m) (simp add: mult_le_cancel_right)
    ultimately have xE: "x = pow2 E" using m n by simp
    have "\<not> exponent y \<le> E - 2"
    proof
      assume "exponent y \<le> E - 2"
      then have "2 * pow2 (exponent y) \<le> pow2 E / 2"
        using pow2_mono [of "exponent y + 1" "E - 1"] by (simp add: pow2_shift)
      then show False using F(2) near x(1) unfolding xE by (auto simp: abs_if split: if_splits)
    qed
    then have "pow2 (E - 53) \<le> pow2 ?R" by (intro pow2_mono) simp
    then have "pow2 E \<le> 9007199254740992 * pow2 ?R" by (simp add: pow2_shift)
    moreover have "\<bar>y - x\<bar> * 20000000000000000 \<le> pow2 E" using near unfolding xE by simp
    moreover have "a < r / 2" if "e \<le> 9007199254740992 * r" "a * 20000000000000000 \<le> e" "0 < r" for a e r :: rat
      using that by linarith
    ultimately have "\<bar>y - x\<bar> < pow2 ?R / 2" using pow2_pos [of ?R] by blast
    moreover obtain k where "pow2 E = of_int k * pow2 ?R" using pow2_multiple [of ?R E] QE less by (fastforce simp: Q_def)
    ultimately show ?thesis using r round_at_near [of y k ?R] xE by simp
  next
    case greater
    have "pow2 (E + 1) \<le> pow2 (exponent y)" using greater by (intro pow2_mono) simp
    with F have above: "2 * pow2 E \<le> y" by (simp add: pow2_shift)
    obtain n where n: "pow2 (E + 1) = of_int n * pow2 Q" using pow2_multiple [of Q "E + 1"] QE by auto
    have "of_int m * pow2 Q < of_int n * pow2 Q" using bE(2) n m by (simp add: pow2_shift)
    then have "m + 1 \<le> n" by (simp add: mult_less_cancel_right_pos less_imp_le)
    then have "of_int (m + 1) * pow2 Q \<le> of_int n * pow2 Q" by (intro mult_right_mono) (simp_all add: less_imp_le)
    then have "x + pow2 Q \<le> 2 * pow2 E" using n m by (simp add: pow2_shift distrib_right)
    with above y(2) have False by (auto simp: abs_if split: if_splits)
    then show ?thesis ..
  qed
qed

lemma round_float64_pos: "0 < round_float64 y \<Longrightarrow> 0 < y"
  by (rule ccontr) (simp add: round_float64_def)

lemma pos_multiple: "0 < of_int r * (p :: rat) \<Longrightarrow> 0 < p \<Longrightarrow> 0 < r"
  by (simp add: zero_less_mult_iff)

lemma near_digit: "e \<le> 1 / 2 * p \<Longrightarrow> p * 10 ^ 16 \<le> x \<Longrightarrow> e * (2 * 10 ^ 16) \<le> (x :: rat)"
  by simp

lemma round_half_even_scaled:
  assumes "0 < p"
  shows "\<bar>of_int (round_half_even (x / p)) * p - x\<bar> \<le> 1 / 2 * p"
proof -
  let ?r = "round_half_even (x / p)"
  have "x - of_int ?r * p = (x / p - of_int ?r) * p" using assms by (simp add: left_diff_distrib)
  then have "\<bar>of_int ?r * p - x\<bar> = \<bar>x / p - of_int ?r\<bar> * p"
    using assms by (simp add: abs_minus_commute abs_mult)
  also have "\<dots> \<le> 1 / 2 * p" using assms by (intro mult_right_mono round_half_even_dist) simp
  finally show ?thesis .
qed

lemma first_decimal_reads:
  assumes x: "0 < x" "round_float64 x = x"
  shows "first_decimal x n q = (d, q') \<Longrightarrow> q + 16 = dec_exponent x + int n \<Longrightarrow>
    0 < d \<and> round_float64 (of_int d * pow10 q') = x"
proof (induction n arbitrary: q)
  case 0
  let ?r = "round_half_even (x / pow10 q)"
  have "pow10 q * 10 ^ 16 = pow10 (dec_exponent x)"
    using "0.prems"(2) pow10_add [of q 16] by (simp add: pow10_def)
  then have "pow10 q * 10 ^ 16 \<le> x" using dec_exponent_bounds [OF x(1)] by simp
  from round_float64_near [OF x near_digit [OF round_half_even_scaled [OF pow10_pos] this]]
  have r: "round_float64 (of_int ?r * pow10 q) = x" .
  have "0 < of_int ?r * pow10 q" by (rule round_float64_pos) (simp only: r x(1))
  then have "0 < ?r" by (rule pos_multiple) simp
  with r show ?case using "0.prems"(1) by auto
next
  case (Suc n)
  show ?case
  proof (cases "decimal_at x q")
    case None
    with Suc show ?thesis by simp
  next
    case (Some e)
    have "round_half_even (x / pow10 q) = \<lfloor>x / pow10 q\<rfloor> \<or> round_half_even (x / pow10 q) = \<lfloor>x / pow10 q\<rfloor> + 1"
      by (simp add: round_half_even_def Let_def)
    with Some have e: "round_float64 (of_int e * pow10 q) = x"
      by (auto simp: decimal_at_def Let_def split: if_splits)
    have "0 < of_int e * pow10 q" by (rule round_float64_pos) (simp only: e x(1))
    then have "0 < e" by (rule pos_multiple) simp
    with e show ?thesis using Suc.prems(1) Some by simp
  qed
qed

lemma strip_zeros_value: "strip_zeros d q = (d', q') \<Longrightarrow> of_nat d' * pow10 q' = of_nat d * pow10 q"
proof (induction d q arbitrary: d' q' rule: strip_zeros.induct)
  case (1 d q)
  show ?case
  proof (cases "d \<noteq> 0 \<and> d mod 10 = 0")
    case True
    then have "of_nat d = (10 :: rat) * of_nat (d div 10)"
      by (metis add.right_neutral of_nat_mult of_nat_numeral div_mult_mod_eq mult.commute)
    moreover have "pow10 (q + 1) = 10 * pow10 q" by (simp add: pow10_eq_powi power_int_add)
    ultimately show ?thesis using 1 True by (simp add: strip_zeros.simps [of d])
  qed (use 1 in \<open>auto simp: strip_zeros.simps [of d]\<close>)
qed

lemma shortest_decimal_reads:
  assumes "0 < x" "round_float64 x = x" "shortest_decimal x = (d, q)"
  shows "round_float64 (of_nat d * pow10 q) = x"
proof -
  obtain e r where f: "first_decimal x 16 (dec_exponent x) = (e, r)" by fastforce
  then have e: "0 < e" "round_float64 (of_int e * pow10 r) = x"
    using first_decimal_reads [OF assms(1,2) f] by simp_all
  have "strip_zeros (nat e) r = (d, q)" using assms(3) f by (simp add: shortest_decimal_def)
  from strip_zeros_value [OF this] e show ?thesis by simp
qed

section \<open>Digits\<close>

lemma nat_of_digits_append: "nat_of_digits (s @ t) = nat_of_digits s * 10 ^ length t + nat_of_digits t"
proof (induction t rule: rev_induct)
  case (snoc c t)
  then show ?case
    by (simp add: nat_of_digits_def add_mult_distrib2)
qed (simp add: nat_of_digits_def)

lemma digit_char_code [simp]: "d < 10 \<Longrightarrow> of_char (digit_char d) = 48 + d"
  by (simp add: digit_char_def)

lemma nat_of_digits_show [simp]: "nat_of_digits (show_nat n) = n"
proof (induction n rule: show_nat.induct)
  case (1 n)
  show ?case
  proof (cases "n < 10")
    case True
    then show ?thesis by (simp add: show_nat_small nat_of_digits_def)
  next
    case False
    with 1 show ?thesis
      by (simp add: show_nat_big [of n] nat_of_digits_append) (simp add: nat_of_digits_def)
  qed
qed

lemma nat_of_digits_zeros [simp]: "nat_of_digits (replicate k CHR ''0'') = 0"
proof (induction k)
  case (Suc k)
  have "replicate (Suc k) CHR ''0'' = replicate k CHR ''0'' @ [CHR ''0'']" by (simp add: replicate_append_same)
  with Suc show ?case by (simp add: nat_of_digits_append del: replicate_Suc) (simp add: nat_of_digits_def)
qed (simp add: nat_of_digits_def)

lemma nat_of_digits_pad [simp]: "nat_of_digits (zero_pad w n) = n"
  by (simp add: zero_pad_def nat_of_digits_append)

lemma length_zero_pad: "n < 10 ^ w \<Longrightarrow> 0 < w \<Longrightarrow> length (zero_pad w n) = w"
proof -
  assume n: "n < 10 ^ w" "0 < w"
  have "length (show_nat n) \<le> w"
  proof (cases "n = 0")
    case True
    with n show ?thesis by (simp add: show_nat_small)
  next
    case False
    then have "0 < n" by simp
    then have "10 ^ (length (show_nat n) - 1) \<le> n" by (rule show_nat_ge)
    with n(1) have "(10 :: nat) ^ (length (show_nat n) - 1) < 10 ^ w" by linarith
    then have "length (show_nat n) - 1 < w" by (rule power_less_imp_less_exp [rotated]) simp
    then show ?thesis by linarith
  qed
  then show ?thesis by (simp add: zero_pad_def)
qed

lemma show_nat_digits: "c \<in> set (show_nat n) \<Longrightarrow> 48 \<le> (of_char c :: nat) \<and> (of_char c :: nat) \<le> 57"
proof (induction n rule: show_nat.induct)
  case (1 n)
  then show ?case
    by (cases "n < 10") (auto simp: show_nat_small show_nat_big [of n])
qed

lemma format_f_value: "decimal_value (format_f d q) = of_nat d * pow10 q"
proof -
  have dot: "c \<noteq> CHR ''.''" if "c \<in> set (show_nat n)" for c n
    using show_nat_digits [OF that] by auto
  show ?thesis
  proof (cases "0 \<le> q")
    case True
    let ?s = "show_nat d @ replicate (nat q) CHR ''0''"
    have "takeWhile (\<lambda>c. c \<noteq> CHR ''.'') ?s = ?s"
      using dot by (intro takeWhile_eq_all_conv [THEN iffD2]) (auto split: if_splits)
    with True show ?thesis
      by (simp add: format_f_def decimal_value_def nat_of_digits_append pow10_def) (simp add: nat_of_digits_def)
  next
    case False
    let ?w = "nat (- q)" let ?p = "10 ^ ?w :: nat"
    let ?i = "show_nat (d div ?p)" and ?f = "zero_pad ?w (d mod ?p)"
    have i: "takeWhile (\<lambda>c. c \<noteq> CHR ''.'') (?i @ CHR ''.'' # ?f) = ?i"
      using dot by (subst takeWhile_append2) auto
    have f: "length ?f = ?w" using False by (intro length_zero_pad) simp_all
    have "of_nat d = (of_nat ?p :: rat) * of_nat (d div ?p) + of_nat (d mod ?p)"
      by (metis mult_div_mod_eq of_nat_add of_nat_mult)
    then show ?thesis
      using False i f by (simp add: format_f_def decimal_value_def Let_def pow10_def field_simps)
  qed
qed

lemma format_f_start: "\<exists>c s. format_f d q = c # s \<and> 48 \<le> (of_char c :: nat) \<and> (of_char c :: nat) \<le> 57"
proof -
  have "\<exists>c s. show_nat n @ t = c # s \<and> 48 \<le> (of_char c :: nat) \<and> (of_char c :: nat) \<le> 57" for n t
    using show_nat_digits [of "hd (show_nat n)" n] by (cases "show_nat n") auto
  then show ?thesis by (simp add: format_f_def Let_def)
qed

lemma read_float_format:
  "read_float (format_f d q) = Finite_f64 (round_float64 (of_nat d * pow10 q))"
  "read_float (CHR ''-'' # format_f d q) = Finite_f64 (- round_float64 (of_nat d * pow10 q))"
  using format_f_start [of d q] format_f_value [of d q] by (auto simp: read_float_def)

text \<open>The text of a value is read back as the value; so different values have different texts.\<close>

lemma read_FormatFloat: "is_float64 v \<Longrightarrow> read_float (FormatFloat v) = v"
proof (cases v)
  case (Finite_f64 r)
  assume v: "is_float64 v"
  consider "r = 0" | "0 < r" | "r < 0" by linarith
  then show ?thesis
  proof cases
    case 1
    then show ?thesis
      using Finite_f64 by (simp add: read_float_def decimal_value_def nat_of_digits_def round_float64_def)
  next
    case 2
    obtain d q where s: "shortest_decimal r = (d, q)" by fastforce
    with shortest_decimal_reads [OF _ _ s] 2 v Finite_f64 show ?thesis by (simp add: read_float_format)
  next
    case 3
    obtain d q where s: "shortest_decimal (- r) = (d, q)" by fastforce
    with shortest_decimal_reads [OF _ _ s] 3 v Finite_f64 show ?thesis by (simp add: read_float_format)
  qed
qed (simp_all add: read_float_def)

lemma FormatFloat_inj: "is_float64 v \<Longrightarrow> is_float64 w \<Longrightarrow> FormatFloat v = FormatFloat w \<longleftrightarrow> v = w"
  by (metis read_FormatFloat)

end
