(* ===== verification/MetricsBatch.thy ===== *)
theory MetricsBatch
  imports Fingerprints FloatText
begin

text \<open>
  The rows the metrics exporter prepares, \<^verbatim>\<open>exporter/signozclickhousemetrics\<close>: a batch
  (\<^verbatim>\<open>batch.go\<close>), the processing of the five types of metrics and \<^verbatim>\<open>prepareBatch\<close>
  (\<^verbatim>\<open>exporter.go\<close>). The data of \<^verbatim>\<open>pmetric\<close> are records and lists; a field that may be absent is
  an \<open>option\<close>, of which the getter gives zero. \<^verbatim>\<open>math.Pow\<close> and the order in which a
  range visits a map are arguments. Messages to the log are left out.
\<close>

section \<open>Metrics\<close>

datatype temporality =
  AggregationTemporalityUnspecified | AggregationTemporalityDelta | AggregationTemporalityCumulative

fun temporality_String :: "temporality \<Rightarrow> string" where
  "temporality_String AggregationTemporalityUnspecified = ''Unspecified''"
| "temporality_String AggregationTemporalityDelta = ''Delta''"
| "temporality_String AggregationTemporalityCumulative = ''Cumulative''"

datatype metric_type =
    MetricTypeEmpty | MetricTypeGauge | MetricTypeSum | MetricTypeHistogram
  | MetricTypeExponentialHistogram | MetricTypeSummary

fun metric_type_String :: "metric_type \<Rightarrow> string" where
  "metric_type_String MetricTypeEmpty = ''Empty''"
| "metric_type_String MetricTypeGauge = ''Gauge''"
| "metric_type_String MetricTypeSum = ''Sum''"
| "metric_type_String MetricTypeHistogram = ''Histogram''"
| "metric_type_String MetricTypeExponentialHistogram = ''ExponentialHistogram''"
| "metric_type_String MetricTypeSummary = ''Summary''"

datatype number = NumberEmpty | NumberInt int | NumberDouble float64

record number_point =
  np_Attributes :: pcommon_map
  np_Timestamp :: uint64
  np_Value :: number
  np_Flags :: "32 word"

record histogram_point =
  hp_Attributes :: pcommon_map
  hp_Timestamp :: uint64
  hp_Count :: uint64
  hp_Sum :: "float64 option"
  hp_Min :: "float64 option"
  hp_Max :: "float64 option"
  hp_BucketCounts :: "uint64 list"
  hp_ExplicitBounds :: "float64 list"
  hp_Flags :: "32 word"

record buckets =
  bk_Offset :: int
  bk_BucketCounts :: "uint64 list"

record exponential_point =
  ep_Attributes :: pcommon_map
  ep_Timestamp :: uint64
  ep_Count :: uint64
  ep_Sum :: "float64 option"
  ep_Min :: "float64 option"
  ep_Max :: "float64 option"
  ep_Scale :: int
  ep_ZeroCount :: uint64
  ep_Positive :: buckets
  ep_Negative :: buckets
  ep_Flags :: "32 word"

record summary_point =
  sp_Attributes :: pcommon_map
  sp_Timestamp :: uint64
  sp_Count :: uint64
  sp_Sum :: float64
  sp_QuantileValues :: "(float64 \<times> float64) list"
  sp_Flags :: "32 word"

datatype metric_data =
    EmptyData
  | GaugeData "number_point list"
  | SumData temporality bool "number_point list"
  | HistogramData temporality "histogram_point list"
  | ExponentialHistogramData temporality "exponential_point list"
  | SummaryData "summary_point list"

record pmetric =
  m_Name :: string
  m_Description :: string
  m_Unit :: string
  m_Data :: metric_data

fun data_type :: "metric_data \<Rightarrow> metric_type" where
  "data_type EmptyData = MetricTypeEmpty"
| "data_type (GaugeData _) = MetricTypeGauge"
| "data_type (SumData _ _ _) = MetricTypeSum"
| "data_type (HistogramData _ _) = MetricTypeHistogram"
| "data_type (ExponentialHistogramData _ _) = MetricTypeExponentialHistogram"
| "data_type (SummaryData _) = MetricTypeSummary"

record scope_metrics =
  sm_Name :: string
  sm_Version :: string
  sm_Attributes :: pcommon_map
  sm_SchemaUrl :: string
  sm_Metrics :: "pmetric list"

record resource_metrics =
  rm_Attributes :: pcommon_map
  rm_Scopes :: "scope_metrics list"

text \<open>The milliseconds of a \<^verbatim>\<open>pcommon.Timestamp\<close>.\<close>

definition unix_milli :: "uint64 \<Rightarrow> int" where
  "unix_milli t = sint t div 1000000"

lemma unix_milli_range [simp]: "int64_range (unix_milli t)"
proof -
  have "- (2 ^ 63) \<le> sint t" "sint t < 2 ^ 63" using sint_greater_eq [of t] sint_less [of t] by simp_all
  then show ?thesis unfolding int64_range_def unix_milli_def by linarith
qed

definition zero_float :: float64 where
  "zero_float = Finite_f64 0"

definition getter :: "float64 option \<Rightarrow> float64" where
  "getter v = (case v of Some x \<Rightarrow> x | None \<Rightarrow> zero_float)"

definition float_of_uint :: "uint64 \<Rightarrow> float64" where
  "float_of_uint n = float_of_int (uint n)"

section \<open>Batches\<close>

record sample =
  sample_env :: string
  sample_temporality :: temporality
  sample_metricName :: string
  sample_fingerprint :: uint64
  sample_unixMilli :: int
  sample_value :: float64
  sample_flags :: "32 word"

text \<open>A DDSketch: its gamma, the two stores and the count of zeros.\<close>

record store =
  ContiguousBinIndexOffset :: int
  ContiguousBinCounts :: "float64 list"

record sketch =
  dd_Gamma :: float64
  dd_PositiveValues :: store
  dd_NegativeValues :: store
  dd_ZeroCount :: float64

record exponentialHistogramSample =
  ehs_env :: string
  ehs_temporality :: temporality
  ehs_metricName :: string
  ehs_fingerprint :: uint64
  ehs_unixMilli :: int
  ehs_sketch :: sketch
  ehs_count :: float64
  ehs_sum :: float64
  ehs_min :: float64
  ehs_max :: float64
  ehs_flags :: "32 word"

record ts =
  ts_env :: string
  ts_temporality :: temporality
  ts_metricName :: string
  ts_description :: string
  ts_unit :: string
  ts_typ :: metric_type
  ts_isMonotonic :: bool
  ts_fingerprint :: uint64
  ts_unixMilli :: int
  ts_labels :: string
  ts_attrs :: "(string \<times> string) list"
  ts_scopeAttrs :: "(string \<times> string) list"
  ts_resourceAttrs :: "(string \<times> string) list"

record metadata =
  md_metricName :: string
  md_temporality :: temporality
  md_description :: string
  md_unit :: string
  md_typ :: metric_type
  md_isMonotonic :: bool
  md_attrName :: string
  md_attrType :: string
  md_attrDatatype :: ValueType
  md_attrStringValue :: string

record batch =
  b_samples :: "sample list"
  b_expHist :: "exponentialHistogramSample list"
  b_ts :: "ts list"
  b_metadata :: "metadata list"
  b_metaSeen :: "string list"

definition newBatch :: batch where
  "newBatch = \<lparr>b_samples = [], b_expHist = [], b_ts = [], b_metadata = [], b_metaSeen = []\<rparr>"

text \<open>What the processing takes from libraries: the order of a range over a map, and \<^verbatim>\<open>math.Pow\<close>.\<close>

record metric_lib =
  lib_range :: "attributes \<Rightarrow> attributes"
  lib_Pow :: "float64 \<Rightarrow> float64 \<Rightarrow> float64"

definition seen_key :: "string \<Rightarrow> string \<Rightarrow> string \<Rightarrow> string" where
  "seen_key key name val = (if key = ''le'' then key @ name @ val else key @ name)"

definition addMetadata ::
  "metric_lib \<Rightarrow> string \<Rightarrow> string \<Rightarrow> string \<Rightarrow> metric_type \<Rightarrow> temporality \<Rightarrow> bool \<Rightarrow> Fingerprint \<Rightarrow> batch \<Rightarrow> batch" where
  "addMetadata L name desc unt typ temp isMonotonic fingerprint b =
     fold (\<lambda>(key, v) b.
         let seenKey = seen_key key name (Val v) in
         if seenKey \<in> set (b_metaSeen b) then b
         else b\<lparr>b_metaSeen := seenKey # b_metaSeen b,
                b_metadata := b_metadata b @ [\<lparr>md_metricName = name, md_temporality = temp,
                  md_description = desc, md_unit = unt, md_typ = typ, md_isMonotonic = isMonotonic,
                  md_attrName = key, md_attrType = FingerprintType_String (fp_typ fingerprint),
                  md_attrDatatype = DataType v, md_attrStringValue = Val v\<rparr>]\<rparr>)
       (lib_range L (fp_attributes fingerprint)) b"

definition addSample :: "sample \<Rightarrow> batch \<Rightarrow> batch" where
  "addSample s b = b\<lparr>b_samples := b_samples b @ [s]\<rparr>"

definition addTs :: "ts \<Rightarrow> batch \<Rightarrow> batch" where
  "addTs t b = b\<lparr>b_ts := b_ts b @ [t]\<rparr>"

definition addExpHist :: "exponentialHistogramSample \<Rightarrow> batch \<Rightarrow> batch" where
  "addExpHist h b = b\<lparr>b_expHist := b_expHist b @ [h]\<rparr>"

section \<open>Points\<close>

text \<open>What the rows of a point share, and the three calls every point makes.\<close>

record series_info =
  si_env :: string
  si_name :: string
  si_desc :: string
  si_unit :: string
  si_typ :: metric_type
  si_temporality :: temporality
  si_isMonotonic :: bool
  si_unixMilli :: int

definition series_row :: "series_info \<Rightarrow> Fingerprint \<Rightarrow> Fingerprint \<Rightarrow> Fingerprint \<Rightarrow> ts" where
  "series_row si fingerprint scopeFingerprint resourceFingerprint =
     (let fingerprintMap = AttributesAsMap fingerprint;
          scopeFingerprintMap = AttributesAsMap scopeFingerprint;
          resourceFingerprintMap = AttributesAsMap resourceFingerprint in
      \<lparr>ts_env = si_env si, ts_temporality = si_temporality si, ts_metricName = si_name si,
       ts_description = si_desc si, ts_unit = si_unit si, ts_typ = si_typ si,
       ts_isMonotonic = si_isMonotonic si, ts_fingerprint = HashWithName fingerprint (si_name si),
       ts_unixMilli = si_unixMilli si,
       ts_labels = NewLabelsAsJSONString (si_name si) [fingerprintMap, scopeFingerprintMap, resourceFingerprintMap],
       ts_attrs = fingerprintMap, ts_scopeAttrs = scopeFingerprintMap, ts_resourceAttrs = resourceFingerprintMap\<rparr>)"

definition sample_row :: "series_info \<Rightarrow> Fingerprint \<Rightarrow> float64 \<Rightarrow> 32 word \<Rightarrow> sample" where
  "sample_row si fingerprint v flags =
     \<lparr>sample_env = si_env si, sample_temporality = si_temporality si, sample_metricName = si_name si,
      sample_fingerprint = HashWithName fingerprint (si_name si), sample_unixMilli = si_unixMilli si,
      sample_value = v, sample_flags = flags\<rparr>"

definition add_metadata_of :: "metric_lib \<Rightarrow> series_info \<Rightarrow> Fingerprint \<Rightarrow> batch \<Rightarrow> batch" where
  "add_metadata_of L si fingerprint b =
     addMetadata L (si_name si) (si_desc si) (si_unit si) (si_typ si) (si_temporality si) (si_isMonotonic si)
       fingerprint b"

definition add_point ::
  "metric_lib \<Rightarrow> series_info \<Rightarrow> Fingerprint \<Rightarrow> Fingerprint \<Rightarrow> Fingerprint \<Rightarrow> float64 \<Rightarrow> 32 word \<Rightarrow> batch \<Rightarrow> batch" where
  "add_point L si fingerprint scopeFingerprint resourceFingerprint v flags b =
     (let b = addSample (sample_row si fingerprint v flags) b;
          b = add_metadata_of L si fingerprint b
      in addTs (series_row si fingerprint scopeFingerprint resourceFingerprint) b)"

text \<open>The metadata of a resource and of a scope, and the fingerprint of a point.\<close>

definition add_levels :: "metric_lib \<Rightarrow> series_info \<Rightarrow> Fingerprint \<Rightarrow> Fingerprint \<Rightarrow> batch \<Rightarrow> batch" where
  "add_levels L si scopeFingerprint resourceFingerprint b =
     add_metadata_of L si scopeFingerprint (add_metadata_of L si resourceFingerprint b)"

definition point_fingerprint ::
  "Fingerprint \<Rightarrow> pcommon_map \<Rightarrow> temporality \<Rightarrow> (string \<times> string) list \<Rightarrow> Fingerprint" where
  "point_fingerprint scopeFingerprint attrs temp extras =
     NewFingerprint PointFingerprintType (fp_hash scopeFingerprint) attrs
       (extras @ [(''__temporality__'', temporality_String temp)])"

fun number_value :: "number \<Rightarrow> float64" where
  "number_value NumberEmpty = zero_float"
| "number_value (NumberInt i) = float_of_int i"
| "number_value (NumberDouble x) = x"

section \<open>Gauges and sums\<close>

definition info_of :: "string \<Rightarrow> pmetric \<Rightarrow> temporality \<Rightarrow> bool \<Rightarrow> series_info" where
  "info_of env metric temp isMonotonic =
     \<lparr>si_env = env, si_name = m_Name metric, si_desc = m_Description metric, si_unit = m_Unit metric,
      si_typ = data_type (m_Data metric), si_temporality = temp, si_isMonotonic = isMonotonic, si_unixMilli = 0\<rparr>"

text \<open>The loop over the points, the same for gauges and for sums.\<close>

definition number_points ::
  "metric_lib \<Rightarrow> series_info \<Rightarrow> Fingerprint \<Rightarrow> Fingerprint \<Rightarrow> number_point list \<Rightarrow> batch \<Rightarrow> batch" where
  "number_points L si scopeFingerprint resourceFingerprint points b =
     fold (\<lambda>dp b.
         let v = number_value (np_Value dp) in
         if v = NaN then b
         else add_point L (si\<lparr>si_unixMilli := unix_milli (np_Timestamp dp)\<rparr>)
           (point_fingerprint scopeFingerprint (np_Attributes dp) (si_temporality si) [])
           scopeFingerprint resourceFingerprint v (np_Flags dp) b) points b"

definition processGauge ::
  "metric_lib \<Rightarrow> pmetric \<Rightarrow> number_point list \<Rightarrow> string \<Rightarrow> Fingerprint \<Rightarrow> Fingerprint \<Rightarrow> batch \<Rightarrow> batch" where
  "processGauge L metric points env resourceFingerprint scopeFingerprint b =
     (let si = info_of env metric AggregationTemporalityUnspecified False;
          b = add_levels L si scopeFingerprint resourceFingerprint b
      in number_points L si scopeFingerprint resourceFingerprint points b)"

definition processSum ::
  "metric_lib \<Rightarrow> pmetric \<Rightarrow> temporality \<Rightarrow> bool \<Rightarrow> number_point list \<Rightarrow> string \<Rightarrow> Fingerprint \<Rightarrow> Fingerprint \<Rightarrow>
    batch \<Rightarrow> batch" where
  "processSum L metric temp isMonotonic points env resourceFingerprint scopeFingerprint b =
     (let si = info_of env metric temp isMonotonic;
          b = add_levels L si scopeFingerprint resourceFingerprint b
      in number_points L si scopeFingerprint resourceFingerprint points b)"

section \<open>Histograms\<close>

definition countSuffix :: string where "countSuffix = ''.count''"
definition sumSuffix :: string where "sumSuffix = ''.sum''"
definition minSuffix :: string where "minSuffix = ''.min''"
definition maxSuffix :: string where "maxSuffix = ''.max''"
definition bucketSuffix :: string where "bucketSuffix = ''.bucket''"
definition quantilesSuffix :: string where "quantilesSuffix = ''.quantile''"

text \<open>The name, the type and the temporality of the series with a suffix: the switch of \<^verbatim>\<open>addSample\<close>.\<close>

definition suffixed :: "string \<Rightarrow> series_info \<Rightarrow> series_info" where
  "suffixed suffix si = si\<lparr>
     si_name := si_name si @ suffix,
     si_typ := (if suffix = countSuffix \<or> suffix = sumSuffix then MetricTypeSum
                else if suffix = minSuffix \<or> suffix = maxSuffix then MetricTypeGauge
                else si_typ si),
     si_temporality := (if suffix = minSuffix \<or> suffix = maxSuffix then AggregationTemporalityUnspecified
                else si_temporality si)\<rparr>"

definition histogram_value :: "histogram_point \<Rightarrow> string \<Rightarrow> float64" where
  "histogram_value dp suffix =
     (if suffix = countSuffix then float_of_uint (hp_Count dp)
      else if suffix = sumSuffix then getter (hp_Sum dp)
      else if suffix = minSuffix then getter (hp_Min dp)
      else if suffix = maxSuffix then getter (hp_Max dp)
      else zero_float)"

definition histogram_addSample ::
  "metric_lib \<Rightarrow> series_info \<Rightarrow> Fingerprint \<Rightarrow> Fingerprint \<Rightarrow> histogram_point \<Rightarrow> string \<Rightarrow> batch \<Rightarrow> batch" where
  "histogram_addSample L si scopeFingerprint resourceFingerprint dp suffix b =
     (let si = (suffixed suffix si)\<lparr>si_unixMilli := unix_milli (hp_Timestamp dp)\<rparr>
      in add_point L si (point_fingerprint scopeFingerprint (hp_Attributes dp) (si_temporality si) [])
           scopeFingerprint resourceFingerprint (histogram_value dp suffix) (hp_Flags dp) b)"

text \<open>The counts are added in 64 bits; there are as many buckets as both bounds and counts.\<close>

fun bucket_loop ::
  "(string \<Rightarrow> float64 \<Rightarrow> batch \<Rightarrow> batch) \<Rightarrow> uint64 \<Rightarrow> float64 list \<Rightarrow> uint64 list \<Rightarrow> batch \<Rightarrow> batch" where
  "bucket_loop add cumulativeCount (bound # bounds) (n # counts) b =
     (let cumulativeCount = cumulativeCount + n
      in bucket_loop add cumulativeCount bounds counts
           (add (FormatFloat bound) (float_of_uint cumulativeCount) b))"
| "bucket_loop add cumulativeCount _ _ b = b"

definition addBucketSample ::
  "metric_lib \<Rightarrow> series_info \<Rightarrow> Fingerprint \<Rightarrow> Fingerprint \<Rightarrow> histogram_point \<Rightarrow> string \<Rightarrow> batch \<Rightarrow> batch" where
  "addBucketSample L si scopeFingerprint resourceFingerprint dp suffix b =
     (let si = si\<lparr>si_name := si_name si @ suffix, si_unixMilli := unix_milli (hp_Timestamp dp)\<rparr>;
          add = (\<lambda>le v. add_point L si
            (point_fingerprint scopeFingerprint (hp_Attributes dp) (si_temporality si) [(''le'', le)])
            scopeFingerprint resourceFingerprint v (hp_Flags dp));
          b = bucket_loop add 0 (hp_ExplicitBounds dp) (hp_BucketCounts dp) b
      in add ''+Inf'' (float_of_uint (hp_Count dp)) b)"

definition add_when :: "bool \<Rightarrow> (batch \<Rightarrow> batch) \<Rightarrow> batch \<Rightarrow> batch" where
  "add_when p f b = (if p then f b else b)"

definition histogram_levels :: "string list" where
  "histogram_levels = [countSuffix, sumSuffix, minSuffix, maxSuffix]"

definition processHistogram ::
  "metric_lib \<Rightarrow> pmetric \<Rightarrow> temporality \<Rightarrow> histogram_point list \<Rightarrow> string \<Rightarrow> Fingerprint \<Rightarrow> Fingerprint \<Rightarrow>
    batch \<Rightarrow> batch" where
  "processHistogram L metric temp points env resourceFingerprint scopeFingerprint b =
     (let si = info_of env metric temp True;
          b = fold (\<lambda>suffix. add_levels L (suffixed suffix si) scopeFingerprint resourceFingerprint)
                (histogram_levels @ [bucketSuffix]) b
      in fold (\<lambda>dp b.
           if getter (hp_Sum dp) = NaN \<or> getter (hp_Min dp) = NaN \<or> getter (hp_Max dp) = NaN then b
           else
             let add = histogram_addSample L si scopeFingerprint resourceFingerprint dp;
                 b = add countSuffix b;
                 b = add_when (hp_Sum dp \<noteq> None) (add sumSuffix) b;
                 b = add_when (hp_Min dp \<noteq> None) (add minSuffix) b;
                 b = add_when (hp_Max dp \<noteq> None) (add maxSuffix) b
             in addBucketSample L si scopeFingerprint resourceFingerprint dp bucketSuffix b) points b)"

section \<open>Summaries\<close>

definition summary_value :: "summary_point \<Rightarrow> string \<Rightarrow> float64" where
  "summary_value dp suffix =
     (if suffix = countSuffix then float_of_uint (sp_Count dp)
      else if suffix = sumSuffix then sp_Sum dp
      else zero_float)"

definition summary_addSample ::
  "metric_lib \<Rightarrow> series_info \<Rightarrow> Fingerprint \<Rightarrow> Fingerprint \<Rightarrow> summary_point \<Rightarrow> string \<Rightarrow> batch \<Rightarrow> batch" where
  "summary_addSample L si scopeFingerprint resourceFingerprint dp suffix b =
     (let si = (suffixed suffix si)\<lparr>si_unixMilli := unix_milli (sp_Timestamp dp)\<rparr>
      in add_point L si (point_fingerprint scopeFingerprint (sp_Attributes dp) (si_temporality si) [])
           scopeFingerprint resourceFingerprint (summary_value dp suffix) (sp_Flags dp) b)"

definition addQuantileSample ::
  "metric_lib \<Rightarrow> series_info \<Rightarrow> Fingerprint \<Rightarrow> Fingerprint \<Rightarrow> summary_point \<Rightarrow> string \<Rightarrow> batch \<Rightarrow> batch" where
  "addQuantileSample L si scopeFingerprint resourceFingerprint dp suffix b =
     (let si = si\<lparr>si_name := si_name si @ suffix, si_unixMilli := unix_milli (sp_Timestamp dp)\<rparr>
      in fold (\<lambda>(quantile, v). add_point L si
           (point_fingerprint scopeFingerprint (sp_Attributes dp) (si_temporality si) [(''quantile'', FormatFloat quantile)])
           scopeFingerprint resourceFingerprint v (sp_Flags dp)) (sp_QuantileValues dp) b)"

definition processSummary ::
  "metric_lib \<Rightarrow> pmetric \<Rightarrow> summary_point list \<Rightarrow> string \<Rightarrow> Fingerprint \<Rightarrow> Fingerprint \<Rightarrow> batch \<Rightarrow> batch" where
  "processSummary L metric points env resourceFingerprint scopeFingerprint b =
     (let si = info_of env metric AggregationTemporalityCumulative True;
          b = fold (\<lambda>suffix. add_levels L (suffixed suffix si) scopeFingerprint resourceFingerprint)
                [countSuffix, sumSuffix, quantilesSuffix] b
      in fold (\<lambda>dp b.
           if sp_Sum dp = NaN \<or> NaN \<in> snd ` set (sp_QuantileValues dp) then b
           else
             let add = summary_addSample L si scopeFingerprint resourceFingerprint dp;
                 b = add countSuffix b;
                 b = add sumSuffix b
             in addQuantileSample L si scopeFingerprint resourceFingerprint dp quantilesSuffix b) points b)"

section \<open>Exponential histograms\<close>

definition exponential_value :: "exponential_point \<Rightarrow> string \<Rightarrow> float64" where
  "exponential_value dp suffix =
     (if suffix = countSuffix then float_of_uint (ep_Count dp)
      else if suffix = sumSuffix then getter (ep_Sum dp)
      else if suffix = minSuffix then getter (ep_Min dp)
      else if suffix = maxSuffix then getter (ep_Max dp)
      else zero_float)"

text \<open>The fingerprint has the temporality of the metric, the row that of the suffix.\<close>

definition exponential_addSample ::
  "metric_lib \<Rightarrow> series_info \<Rightarrow> Fingerprint \<Rightarrow> Fingerprint \<Rightarrow> exponential_point \<Rightarrow> string \<Rightarrow> batch \<Rightarrow> batch" where
  "exponential_addSample L si scopeFingerprint resourceFingerprint dp suffix b =
     (let fingerprint = point_fingerprint scopeFingerprint (ep_Attributes dp) (si_temporality si) [];
          si = (suffixed suffix si)\<lparr>si_unixMilli := unix_milli (ep_Timestamp dp)\<rparr>
      in add_point L si fingerprint scopeFingerprint resourceFingerprint (exponential_value dp suffix) (ep_Flags dp) b)"

definition toStore :: "buckets \<Rightarrow> store" where
  "toStore bs = \<lparr>ContiguousBinIndexOffset = bk_Offset bs, ContiguousBinCounts = map float_of_uint (bk_BucketCounts bs)\<rparr>"

definition float_two :: float64 where
  "float_two = Finite_f64 2"

text \<open>\<^verbatim>\<open>-dp.Scale()\<close> is negated in 32 bits.\<close>

definition neg32 :: "int \<Rightarrow> int" where
  "neg32 i = (- i + 2 ^ 31) mod 2 ^ 32 - 2 ^ 31"

definition addDDSketchSample ::
  "metric_lib \<Rightarrow> series_info \<Rightarrow> Fingerprint \<Rightarrow> Fingerprint \<Rightarrow> exponential_point \<Rightarrow> batch \<Rightarrow> batch" where
  "addDDSketchSample L si scopeFingerprint resourceFingerprint dp b =
     (let si = si\<lparr>si_unixMilli := unix_milli (ep_Timestamp dp)\<rparr>;
          gamma = lib_Pow L float_two (lib_Pow L float_two (float_of_int (neg32 (ep_Scale dp))));
          dd = \<lparr>dd_Gamma = gamma, dd_PositiveValues = toStore (ep_Positive dp),
                dd_NegativeValues = toStore (ep_Negative dp), dd_ZeroCount = float_of_uint (ep_ZeroCount dp)\<rparr>;
          fingerprint = point_fingerprint scopeFingerprint (ep_Attributes dp) (si_temporality si) [];
          b = addExpHist \<lparr>ehs_env = si_env si, ehs_temporality = si_temporality si, ehs_metricName = si_name si,
                ehs_fingerprint = HashWithName fingerprint (si_name si), ehs_unixMilli = si_unixMilli si,
                ehs_sketch = dd, ehs_count = float_of_uint (ep_Count dp), ehs_sum = getter (ep_Sum dp),
                ehs_min = getter (ep_Min dp), ehs_max = getter (ep_Max dp), ehs_flags = ep_Flags dp\<rparr> b;
          b = add_metadata_of L si fingerprint b
      in addTs (series_row si fingerprint scopeFingerprint resourceFingerprint) b)"

definition processExponentialHistogram ::
  "metric_lib \<Rightarrow> bool \<Rightarrow> pmetric \<Rightarrow> temporality \<Rightarrow> exponential_point list \<Rightarrow> string \<Rightarrow> Fingerprint \<Rightarrow> Fingerprint \<Rightarrow>
    batch \<Rightarrow> batch" where
  "processExponentialHistogram L enableExpHist metric temp points env resourceFingerprint scopeFingerprint b =
     (if \<not> enableExpHist then b
      else if temp \<noteq> AggregationTemporalityDelta then b
      else
        let si = info_of env metric temp True;
            b = fold (\<lambda>suffix. add_levels L (suffixed suffix si) scopeFingerprint resourceFingerprint)
                  histogram_levels b
        in fold (\<lambda>dp b.
             if getter (ep_Sum dp) = NaN \<or> getter (ep_Min dp) = NaN \<or> getter (ep_Max dp) = NaN then b
             else
               let add = exponential_addSample L si scopeFingerprint resourceFingerprint dp;
                   b = add countSuffix b;
                   b = add_when (ep_Sum dp \<noteq> None) (add sumSuffix) b;
                   b = add_when (ep_Min dp \<noteq> None) (add minSuffix) b;
                   b = add_when (ep_Max dp \<noteq> None) (add maxSuffix) b
               in addDDSketchSample L si scopeFingerprint resourceFingerprint dp b) points b)"

section \<open>Preparing a batch\<close>

definition AttributeDeploymentEnvironment :: string where
  "AttributeDeploymentEnvironment = ''deployment.environment''"

definition process_metric ::
  "metric_lib \<Rightarrow> bool \<Rightarrow> string \<Rightarrow> Fingerprint \<Rightarrow> Fingerprint \<Rightarrow> pmetric \<Rightarrow> batch \<Rightarrow> batch" where
  "process_metric L enableExpHist env resourceFingerprint scopeFingerprint metric b =
     (case m_Data metric of
        GaugeData points \<Rightarrow> processGauge L metric points env resourceFingerprint scopeFingerprint b
      | SumData temp isMonotonic points \<Rightarrow>
          processSum L metric temp isMonotonic points env resourceFingerprint scopeFingerprint b
      | HistogramData temp points \<Rightarrow>
          processHistogram L metric temp points env resourceFingerprint scopeFingerprint b
      | SummaryData points \<Rightarrow> processSummary L metric points env resourceFingerprint scopeFingerprint b
      | ExponentialHistogramData temp points \<Rightarrow>
          processExponentialHistogram L enableExpHist metric temp points env resourceFingerprint scopeFingerprint b
      | EmptyData \<Rightarrow> b)"

definition resource_fingerprint :: "resource_metrics \<Rightarrow> Fingerprint" where
  "resource_fingerprint rm = NewFingerprint ResourceFingerprintType InitialOffset (rm_Attributes rm) []"

definition scope_fingerprint :: "Fingerprint \<Rightarrow> scope_metrics \<Rightarrow> Fingerprint" where
  "scope_fingerprint resourceFingerprint sm =
     NewFingerprint ScopeFingerprintType (fp_hash resourceFingerprint) (sm_Attributes sm)
       [(''__scope.name__'', sm_Name sm), (''__scope.version__'', sm_Version sm),
        (''__scope.schema_url__'', sm_SchemaUrl sm)]"

definition resource_env :: "resource_metrics \<Rightarrow> string" where
  "resource_env rm =
     (case map_of (rm_Attributes rm) AttributeDeploymentEnvironment of Some (_, s) \<Rightarrow> s | None \<Rightarrow> [])"

definition prepareBatch :: "metric_lib \<Rightarrow> bool \<Rightarrow> resource_metrics list \<Rightarrow> batch" where
  "prepareBatch L enableExpHist md =
     fold (\<lambda>rm b.
         let resourceFingerprint = resource_fingerprint rm; env = resource_env rm in
         fold (\<lambda>sm b.
             let scopeFingerprint = scope_fingerprint resourceFingerprint sm in
             fold (process_metric L enableExpHist env resourceFingerprint scopeFingerprint) (sm_Metrics sm) b)
           (rm_Scopes rm) b) md newBatch"

end
