(* ===== verification/MetricsRows.thy ===== *)
theory MetricsRows
  imports MetricsBatch
begin

text \<open>
  What holds of every batch the metrics exporter prepares: each sample has its series, none has a
  value that is not a number, their times fit 64 bits, there are as many samples as the points ask for, the buckets of a
  histogram are cumulative, and two attributes can hide each other in the metadata.
\<close>

section \<open>Invariants of batches\<close>

lemma fold_same: "(\<And>x b. f (g x b) = f b) \<Longrightarrow> f (fold g xs b) = f b"
  by (induction xs arbitrary: b) simp_all

lemma addMetadata_rows [simp]:
  "b_samples (addMetadata L name desc unt typ temp mon f b) = b_samples b"
  "b_expHist (addMetadata L name desc unt typ temp mon f b) = b_expHist b"
  "b_ts (addMetadata L name desc unt typ temp mon f b) = b_ts b"
  unfolding addMetadata_def by (rule fold_same, auto simp: Let_def)+

lemma float_not_NaN [simp]: "float_of_int i \<noteq> NaN" "float_of_uint n \<noteq> NaN" "zero_float \<noteq> NaN"
  by (simp_all add: float_of_int_def float_of_uint_def zero_float_def)

text \<open>An invariant of batches that every row keeps holds of the batch prepared. The points that are
  added have a value that is a number.\<close>

locale batch_invariant =
  fixes L :: metric_lib and P :: "batch \<Rightarrow> bool"
  assumes start: "P newBatch"
    and metadata: "\<And>name desc unt typ temp mon f b. P b \<Longrightarrow> P (addMetadata L name desc unt typ temp mon f b)"
    and point: "\<And>si f sf rf v flags b. v \<noteq> NaN \<Longrightarrow> int64_range (si_unixMilli si) \<Longrightarrow> P b \<Longrightarrow>
      P (add_point L si f sf rf v flags b)"
    and sketch: "\<And>si sf rf dp b. getter (ep_Sum dp) \<noteq> NaN \<Longrightarrow> getter (ep_Min dp) \<noteq> NaN \<Longrightarrow>
      getter (ep_Max dp) \<noteq> NaN \<Longrightarrow> P b \<Longrightarrow> P (addDDSketchSample L si sf rf dp b)"
begin

lemma folds: "(\<And>x b. x \<in> set xs \<Longrightarrow> P b \<Longrightarrow> P (f x b)) \<Longrightarrow> P b \<Longrightarrow> P (fold f xs b)"
  by (induction xs arbitrary: b) auto

lemma levels: "P b \<Longrightarrow> P (add_levels L si sf rf b)"
  by (simp add: add_levels_def add_metadata_of_def metadata)

lemma whens: "(q \<Longrightarrow> P b \<Longrightarrow> P (f b)) \<Longrightarrow> P b \<Longrightarrow> P (add_when q f b)"
  by (simp add: add_when_def)

lemma numbers: "P b \<Longrightarrow> P (number_points L si sf rf points b)"
  unfolding number_points_def by (rule folds) (simp_all add: Let_def point)

lemma bucket_loops: "(\<And>le v b. v \<noteq> NaN \<Longrightarrow> P b \<Longrightarrow> P (add le v b)) \<Longrightarrow> P b \<Longrightarrow> P (bucket_loop add n bounds counts b)"
  by (induction add n bounds counts b rule: bucket_loop.induct) (simp_all add: Let_def)

lemma buckets: "P b \<Longrightarrow> P (addBucketSample L si sf rf dp suffix b)"
  by (simp add: addBucketSample_def Let_def point bucket_loops)

lemma histograms:
  assumes "P b"
  shows "P (processHistogram L metric temp points env rf sf b)"
proof -
  have "P (histogram_addSample L si sf rf dp suffix b)"
    if "getter (hp_Sum dp) \<noteq> NaN" "getter (hp_Min dp) \<noteq> NaN" "getter (hp_Max dp) \<noteq> NaN" "P b" for si dp suffix b
    using that by (simp add: histogram_addSample_def Let_def point histogram_value_def)
  then show ?thesis
    unfolding processHistogram_def Let_def
    by (intro folds assms) (auto intro!: whens levels buckets)
qed

lemma summaries:
  assumes "P b"
  shows "P (processSummary L metric points env rf sf b)"
proof -
  have "P (summary_addSample L si sf rf dp suffix b)" if "sp_Sum dp \<noteq> NaN" "P b" for si dp suffix b
    using that by (simp add: summary_addSample_def Let_def point summary_value_def)
  moreover have "P (addQuantileSample L si sf rf dp suffix b)" if "NaN \<notin> snd ` set (sp_QuantileValues dp)" "P b" for si dp suffix b
    unfolding addQuantileSample_def Let_def using that by (intro folds) (auto intro!: point, force)
  ultimately show ?thesis
    unfolding processSummary_def Let_def by (intro folds assms) (auto intro!: levels)
qed

lemma exponentials:
  assumes "P b"
  shows "P (processExponentialHistogram L enabled metric temp points env rf sf b)"
proof -
  have "P (exponential_addSample L si sf rf dp suffix b)"
    if "getter (ep_Sum dp) \<noteq> NaN" "getter (ep_Min dp) \<noteq> NaN" "getter (ep_Max dp) \<noteq> NaN" "P b" for si dp suffix b
    using that by (simp add: exponential_addSample_def Let_def point exponential_value_def)
  then have "P (fold (\<lambda>dp b.
             if getter (ep_Sum dp) = NaN \<or> getter (ep_Min dp) = NaN \<or> getter (ep_Max dp) = NaN then b
             else
               let add = exponential_addSample L si sf rf dp;
                   b = add countSuffix b;
                   b = add_when (ep_Sum dp \<noteq> None) (add sumSuffix) b;
                   b = add_when (ep_Min dp \<noteq> None) (add minSuffix) b;
                   b = add_when (ep_Max dp \<noteq> None) (add maxSuffix) b
               in addDDSketchSample L si sf rf dp b) points b)" if "P b" for si b
    using that unfolding Let_def by (intro folds) (auto intro!: whens sketch)
  moreover have "P (fold (\<lambda>suffix. add_levels L (suffixed suffix si) sf rf) suffixes b)" for si suffixes
    by (intro folds assms levels)
  ultimately show ?thesis using assms by (simp add: processExponentialHistogram_def Let_def)
qed

lemma prepared: "P (prepareBatch L enabled md)"
proof -
  have "P (process_metric L enabled env rf sf metric b)" if "P b" for env rf sf metric b
    using that by (auto simp: process_metric_def processGauge_def processSum_def Let_def
        intro!: numbers levels histograms summaries exponentials split: metric_data.split)
  then show ?thesis
    unfolding prepareBatch_def Let_def by (intro folds start)
qed

end

section \<open>Samples and series\<close>

definition sample_key :: "sample \<Rightarrow> string \<times> temporality \<times> string \<times> uint64 \<times> int" where
  "sample_key s = (sample_env s, sample_temporality s, sample_metricName s, sample_fingerprint s, sample_unixMilli s)"

definition ehs_key :: "exponentialHistogramSample \<Rightarrow> string \<times> temporality \<times> string \<times> uint64 \<times> int" where
  "ehs_key h = (ehs_env h, ehs_temporality h, ehs_metricName h, ehs_fingerprint h, ehs_unixMilli h)"

definition ts_key :: "ts \<Rightarrow> string \<times> temporality \<times> string \<times> uint64 \<times> int" where
  "ts_key t = (ts_env t, ts_temporality t, ts_metricName t, ts_fingerprint t, ts_unixMilli t)"

lemma add_point_rows [simp]:
  "b_samples (add_point L si f sf rf v flags b) = b_samples b @ [sample_row si f v flags]"
  "b_expHist (add_point L si f sf rf v flags b) = b_expHist b"
  "b_ts (add_point L si f sf rf v flags b) = b_ts b @ [series_row si f sf rf]"
  by (simp_all add: add_point_def Let_def addSample_def addTs_def add_metadata_of_def)

lemma keys_agree: "ts_key (series_row si f sf rf) = sample_key (sample_row si f v flags)"
  by (simp add: series_row_def sample_row_def ts_key_def sample_key_def Let_def)

definition series_ok :: "batch \<Rightarrow> bool" where
  "series_ok b \<longleftrightarrow>
     mset (map ts_key (b_ts b)) = mset (map sample_key (b_samples b)) + mset (map ehs_key (b_expHist b))"

lemma sketch_rows:
  "\<exists>h t. b_samples (addDDSketchSample L si sf rf dp b) = b_samples b \<and>
    b_expHist (addDDSketchSample L si sf rf dp b) = b_expHist b @ [h] \<and>
    b_ts (addDDSketchSample L si sf rf dp b) = b_ts b @ [t] \<and> ts_key t = ehs_key h \<and>
    ehs_sum h = getter (ep_Sum dp) \<and> ehs_min h = getter (ep_Min dp) \<and> ehs_max h = getter (ep_Max dp)"
  by (simp add: addDDSketchSample_def Let_def addExpHist_def addTs_def add_metadata_of_def
      series_row_def ts_key_def ehs_key_def)

interpretation series: batch_invariant L series_ok for L
proof
  fix si sf rf b and dp :: exponential_point
  assume "series_ok b"
  with sketch_rows [of L si sf rf dp b] show "series_ok (addDDSketchSample L si sf rf dp b)"
    by (auto simp: series_ok_def)
qed (auto simp: series_ok_def newBatch_def keys_agree)

text \<open>C13: Every sample and every exponential histogram of a batch that is prepared has a series of its own in the
  same batch, with the same environment, temporality, metric name, fingerprint and time, and there
  is no other series: the two tables always join.\<close>

theorem every_sample_has_series:
  "mset (map ts_key (b_ts (prepareBatch L enableExpHist md))) =
     mset (map sample_key (b_samples (prepareBatch L enableExpHist md))) +
     mset (map ehs_key (b_expHist (prepareBatch L enableExpHist md)))"
  using series.prepared by (simp add: series_ok_def)

section \<open>Values\<close>

definition numbers_only :: "batch \<Rightarrow> bool" where
  "numbers_only b \<longleftrightarrow>
     (\<forall>s \<in> set (b_samples b). sample_value s \<noteq> NaN) \<and>
     (\<forall>h \<in> set (b_expHist b). ehs_sum h \<noteq> NaN \<and> ehs_min h \<noteq> NaN \<and> ehs_max h \<noteq> NaN)"

interpretation numbers: batch_invariant L numbers_only for L
proof
  fix si sf rf b and dp :: exponential_point
  assume "getter (ep_Sum dp) \<noteq> NaN" "getter (ep_Min dp) \<noteq> NaN" "getter (ep_Max dp) \<noteq> NaN" "numbers_only b"
  with sketch_rows [of L si sf rf dp b] show "numbers_only (addDDSketchSample L si sf rf dp b)"
    by (auto simp: numbers_only_def)
qed (auto simp: numbers_only_def newBatch_def sample_row_def)

text \<open>No sample with a value that is not a number is ever prepared, whatever the metrics that come in, nor
  an exponential histogram with such a sum, minimum or maximum.\<close>

theorem no_NaN_prepared:
  "numbers_only (prepareBatch L enableExpHist md)"
  by (rule numbers.prepared)

section \<open>Times\<close>

definition times_ok :: "batch \<Rightarrow> bool" where
  "times_ok b \<longleftrightarrow> (\<forall>t \<in> set (b_ts b). int64_range (ts_unixMilli t))"

interpretation times: batch_invariant L times_ok for L
proof
  fix si sf rf b and dp :: exponential_point
  assume "times_ok b"
  then show "times_ok (addDDSketchSample L si sf rf dp b)"
    by (simp add: times_ok_def addDDSketchSample_def Let_def addExpHist_def addTs_def add_metadata_of_def series_row_def)
qed (auto simp: times_ok_def newBatch_def series_row_def Let_def)

section \<open>As many samples as points\<close>

text \<open>The samples a metric asks for.\<close>

fun expected_samples :: "bool \<Rightarrow> metric_data \<Rightarrow> nat" where
  "expected_samples enabled EmptyData = 0"
| "expected_samples enabled (GaugeData ps) = length (filter (\<lambda>p. number_value (np_Value p) \<noteq> NaN) ps)"
| "expected_samples enabled (SumData _ _ ps) = length (filter (\<lambda>p. number_value (np_Value p) \<noteq> NaN) ps)"
| "expected_samples enabled (HistogramData _ ps) =
     sum_list (map (\<lambda>p. if getter (hp_Sum p) = NaN \<or> getter (hp_Min p) = NaN \<or> getter (hp_Max p) = NaN then 0
       else 2 + of_bool (hp_Sum p \<noteq> None) + of_bool (hp_Min p \<noteq> None) + of_bool (hp_Max p \<noteq> None) +
         min (length (hp_ExplicitBounds p)) (length (hp_BucketCounts p))) ps)"
| "expected_samples enabled (SummaryData ps) =
     sum_list (map (\<lambda>p. if sp_Sum p = NaN \<or> NaN \<in> snd ` set (sp_QuantileValues p) then 0
       else 2 + length (sp_QuantileValues p)) ps)"
| "expected_samples enabled (ExponentialHistogramData t ps) =
     (if enabled \<and> t = AggregationTemporalityDelta then
        sum_list (map (\<lambda>p. if getter (ep_Sum p) = NaN \<or> getter (ep_Min p) = NaN \<or> getter (ep_Max p) = NaN then 0
          else 1 + of_bool (ep_Sum p \<noteq> None) + of_bool (ep_Min p \<noteq> None) + of_bool (ep_Max p \<noteq> None)) ps)
      else 0)"

lemma fold_counts:
  "(\<And>x b. x \<in> set xs \<Longrightarrow> n (g x b) = n b + c x) \<Longrightarrow> n (fold g xs b) = (n b :: nat) + sum_list (map c xs)"
  by (induction xs arbitrary: b) auto

lemma sum_of_bool_filter: "sum_list (map (\<lambda>x. of_bool (q x)) xs) = length (filter q xs)"
  by (induction xs) simp_all

lemma add_levels_samples [simp]: "b_samples (add_levels L si sf rf b) = b_samples b"
  by (simp add: add_levels_def add_metadata_of_def)

lemma fold_levels_samples [simp]:
  "b_samples (fold (\<lambda>suffix. add_levels L (f suffix) sf rf) suffixes b) = b_samples b"
  by (rule fold_same) simp

lemma bucket_loop_samples:
  "(\<And>le v b. length (b_samples (add le v b)) = Suc (length (b_samples b))) \<Longrightarrow>
    length (b_samples (bucket_loop add n bounds counts b)) = length (b_samples b) + min (length bounds) (length counts)"
  by (induction add n bounds counts b rule: bucket_loop.induct) (simp_all add: Let_def)

lemma addBucketSample_samples [simp]:
  "length (b_samples (addBucketSample L si sf rf dp suffix b)) =
     length (b_samples b) + min (length (hp_ExplicitBounds dp)) (length (hp_BucketCounts dp)) + 1"
  by (simp add: addBucketSample_def Let_def bucket_loop_samples)

lemma add_when_samples:
  "(\<And>b. length (b_samples (f b)) = Suc (length (b_samples b))) \<Longrightarrow>
    length (b_samples (add_when q f b)) = length (b_samples b) + of_bool q"
  by (simp add: add_when_def)

lemma one_sample [simp]:
  "length (b_samples (histogram_addSample L si sf rf hp suffix b)) = Suc (length (b_samples b))"
  "length (b_samples (summary_addSample L si sf rf sp suffix b)) = Suc (length (b_samples b))"
  "length (b_samples (exponential_addSample L si sf rf ep suffix b)) = Suc (length (b_samples b))"
  by (simp_all add: histogram_addSample_def summary_addSample_def exponential_addSample_def Let_def)

lemma sketch_samples [simp]: "b_samples (addDDSketchSample L si sf rf dp b) = b_samples b"
  using sketch_rows [of L si sf rf dp b] by blast

lemma quantile_samples [simp]:
  "length (b_samples (addQuantileSample L si sf rf dp suffix b)) = length (b_samples b) + length (sp_QuantileValues dp)"
  unfolding addQuantileSample_def Let_def
  by (subst fold_counts [where n = "\<lambda>b. length (b_samples b)" and c = "\<lambda>_. 1"])
    (auto simp: sum_list_triv)

lemma number_points_samples [simp]:
  "length (b_samples (number_points L si sf rf points b)) =
     length (b_samples b) + length (filter (\<lambda>p. number_value (np_Value p) \<noteq> NaN) points)"
  unfolding number_points_def
  by (subst fold_counts [where n = "\<lambda>b. length (b_samples b)" and c = "\<lambda>p. of_bool (number_value (np_Value p) \<noteq> NaN)"])
    (auto simp: Let_def sum_of_bool_filter)

lemma process_metric_samples:
  "length (b_samples (process_metric L enabled env rf sf metric b)) =
     length (b_samples b) + expected_samples enabled (m_Data metric)"
proof (cases "m_Data metric")
  case (HistogramData t ps)
  show ?thesis
    unfolding process_metric_def HistogramData processHistogram_def Let_def metric_data.case expected_samples.simps
    by (subst fold_counts [where n = "\<lambda>b. length (b_samples b)" and
        c = "\<lambda>p. if getter (hp_Sum p) = NaN \<or> getter (hp_Min p) = NaN \<or> getter (hp_Max p) = NaN then 0
       else 2 + of_bool (hp_Sum p \<noteq> None) + of_bool (hp_Min p \<noteq> None) + of_bool (hp_Max p \<noteq> None) +
         min (length (hp_ExplicitBounds p)) (length (hp_BucketCounts p))"]) (simp_all add: add_when_samples)
next
  case (SummaryData ps)
  show ?thesis
    unfolding process_metric_def SummaryData processSummary_def Let_def metric_data.case expected_samples.simps
    by (subst fold_counts [where n = "\<lambda>b. length (b_samples b)" and
        c = "\<lambda>p. if sp_Sum p = NaN \<or> NaN \<in> snd ` set (sp_QuantileValues p) then 0
       else 2 + length (sp_QuantileValues p)"]) (simp_all only: fold_levels_samples, simp)
next
  case (ExponentialHistogramData t ps)
  let ?c = "\<lambda>p. if getter (ep_Sum p) = NaN \<or> getter (ep_Min p) = NaN \<or> getter (ep_Max p) = NaN then 0
          else 1 + of_bool (ep_Sum p \<noteq> None) + of_bool (ep_Min p \<noteq> None) + of_bool (ep_Max p \<noteq> None)"
  show ?thesis
  proof (cases "enabled \<and> t = AggregationTemporalityDelta")
    case True
    then have on: "enabled" "t = AggregationTemporalityDelta" by simp_all
    show ?thesis
      unfolding process_metric_def ExponentialHistogramData processExponentialHistogram_def Let_def metric_data.case
        expected_samples.simps
      using on by simp (subst fold_counts [where n = "\<lambda>b. length (b_samples b)" and c = ?c], simp_all add: add_when_samples)
  qed (auto simp: ExponentialHistogramData process_metric_def processExponentialHistogram_def)
qed (simp_all add: process_metric_def processGauge_def processSum_def Let_def)


section \<open>Buckets\<close>

fun bucket_rows :: "uint64 \<Rightarrow> float64 list \<Rightarrow> uint64 list \<Rightarrow> (string \<times> uint64) list" where
  "bucket_rows n (bound # bounds) (c # counts) = (FormatFloat bound, n + c) # bucket_rows (n + c) bounds counts"
| "bucket_rows n _ _ = []"

lemma bucket_rows_texts: "map fst (bucket_rows n bounds counts) = map FormatFloat (take (length counts) bounds)"
  by (induction n bounds counts rule: bucket_rows.induct) auto

lemma bucket_rows_sums:
  "map snd (bucket_rows n bounds counts) =
     map (\<lambda>i. n + sum_list (take (Suc i) counts)) [0..<min (length bounds) (length counts)]"
proof (induction n bounds counts rule: bucket_rows.induct)
  case (1 n bound bounds c counts)
  have "[0..<min (length (bound # bounds)) (length (c # counts))] =
      0 # map Suc [0..<min (length bounds) (length counts)]"
    by (simp add: map_Suc_upt upt_conv_Cons del: upt_Suc)
  with 1 show ?case by (simp add: add.assoc)
qed simp_all

lemma bucket_loop_rows:
  assumes "\<And>le v b. b_samples (add le v b) = b_samples b @ [f le v]" "\<And>le v b. b_ts (add le v b) = b_ts b @ [g le v]"
  shows "b_samples (bucket_loop add n bounds counts b) =
      b_samples b @ map (\<lambda>(le, c). f le (float_of_uint c)) (bucket_rows n bounds counts) \<and>
    b_ts (bucket_loop add n bounds counts b) =
      b_ts b @ map (\<lambda>(le, c). g le (float_of_uint c)) (bucket_rows n bounds counts)"
  by (induction n bounds counts arbitrary: b rule: bucket_rows.induct) (simp_all add: assms Let_def)

lemma uint_sum_list:
  "sum_list (map uint ns) < 2 ^ 64 \<Longrightarrow> uint (sum_list ns :: uint64) = sum_list (map uint ns)"
proof (induction ns)
  case (Cons n ns)
  have n: "0 \<le> sum_list (map uint ns)" "0 \<le> uint n" by (auto intro: sum_list_nonneg)
  moreover have "uint n + sum_list (map uint ns) < 2 ^ 64" using Cons.prems by simp
  ultimately have "sum_list (map uint ns) < 2 ^ 64" by linarith
  then have "uint (sum_list ns) = sum_list (map uint ns)" by (rule Cons.IH)
  with Cons.prems n show ?case by (simp add: uint_word_ariths)
qed simp

lemma uint_sum_take:
  "sum_list (map uint ns) < 2 ^ 64 \<Longrightarrow> uint (sum_list (take i ns) :: uint64) = sum_list (map uint (take i ns))"
proof -
  assume s: "sum_list (map uint ns) < 2 ^ 64"
  have "sum_list (map uint ns) = sum_list (map uint (take i ns)) + sum_list (map uint (drop i ns))"
    by (metis append_take_drop_id map_append sum_list_append)
  moreover have "0 \<le> sum_list (map uint (drop i ns))" by (rule sum_list_nonneg) auto
  ultimately show ?thesis using s by (intro uint_sum_list) linarith
qed

lemma sorted_map_upt: "(\<And>i j. i \<le> j \<Longrightarrow> f i \<le> f j) \<Longrightarrow> sorted (map f [a..<b])"
  by (simp add: sorted_iff_nth_mono)

lemma point_le: "map_of (AttributesAsMap (point_fingerprint sf attrs temp [(''le'', le)])) ''le'' = Some le"
  by (simp add: point_fingerprint_def NewFingerprint_def Let_def map_of_AttributesAsMap map_of_extras)

lemma sum_take_mono: "i \<le> j \<Longrightarrow> sum_list (map uint (take i ns)) \<le> sum_list (map uint (take j (ns :: uint64 list)))"
proof -
  assume "i \<le> j"
  then have "take j ns = take i ns @ take (j - i) (drop i ns)" by (metis le_add_diff_inverse take_add)
  moreover have "0 \<le> sum_list (map uint (take (j - i) (drop i ns)))" by (rule sum_list_nonneg) auto
  ultimately show ?thesis by simp
qed

text \<open>The buckets of a histogram are written cumulatively: a series per bound, labelled with the
  shortest text of the bound, whose value is the count of all observations up to it, then one labelled
  \<^verbatim>\<open>+Inf\<close> with the count of the point. If the buckets do not count more than the
  point, the values never decrease. The last bucket is not read.\<close>

theorem bucket_samples_cumulative:
  assumes "sum_list (map uint (hp_BucketCounts dp)) \<le> uint (hp_Count dp)"
  shows "let n = min (length (hp_ExplicitBounds dp)) (length (hp_BucketCounts dp));
      b' = addBucketSample L si sf rf dp suffix b;
      samples = drop (length (b_samples b)) (b_samples b'); series = drop (length (b_ts b)) (b_ts b');
      below = (\<lambda>i. sum_list (map uint (take (i + 1) (hp_BucketCounts dp)))) in
    map sample_value samples = map (\<lambda>i. float_of_int (below i)) [0..<n] @ [float_of_uint (hp_Count dp)] \<and>
    map (\<lambda>t. map_of (ts_attrs t) ''le'') series =
      map (\<lambda>i. Some (FormatFloat (hp_ExplicitBounds dp ! i))) [0..<n] @ [Some ''+Inf''] \<and>
    (\<exists>rs. map sample_value samples = map Finite_f64 rs \<and> sorted rs)"
proof -
  let ?n = "min (length (hp_ExplicitBounds dp)) (length (hp_BucketCounts dp))"
  let ?below = "\<lambda>i. sum_list (map uint (take (i + 1) (hp_BucketCounts dp)))"
  let ?rows = "bucket_rows 0 (hp_ExplicitBounds dp) (hp_BucketCounts dp)"
  let ?si = "si\<lparr>si_name := si_name si @ suffix, si_unixMilli := unix_milli (hp_Timestamp dp)\<rparr>"
  let ?fp = "\<lambda>le. point_fingerprint sf (hp_Attributes dp) (si_temporality si) [(''le'', le)]"
  let ?add = "\<lambda>le v. add_point L ?si (?fp le) sf rf v (hp_Flags dp)"
  note loop = bucket_loop_rows [where add = ?add and f = "\<lambda>le v. sample_row ?si (?fp le) v (hp_Flags dp)" and
      g = "\<lambda>le v. series_row ?si (?fp le) sf rf", OF add_point_rows(1) add_point_rows(3)]
  have rows: "b_samples (addBucketSample L si sf rf dp suffix b) = b_samples b @
      map (\<lambda>(le, c). sample_row ?si (?fp le) (float_of_uint c) (hp_Flags dp)) (?rows @ [(''+Inf'', hp_Count dp)])"
    "b_ts (addBucketSample L si sf rf dp suffix b) = b_ts b @
      map (\<lambda>(le, c). series_row ?si (?fp le) sf rf) (?rows @ [(''+Inf'', hp_Count dp)])"
    by (simp_all add: addBucketSample_def Let_def loop)
  have bound: "sum_list (map uint (hp_BucketCounts dp)) < 2 ^ 64"
    using assms uint_lt2p [of "hp_Count dp"] by simp
  have "map (\<lambda>(le, c). float_of_uint c) ?rows = map float_of_uint (map snd ?rows)" by (simp add: case_prod_unfold comp_def)
  also have "\<dots> = map (\<lambda>i. float_of_int (?below i)) [0..<?n]"
    unfolding bucket_rows_sums by (simp add: float_of_uint_def uint_sum_take [OF bound])
  finally have samples: "map sample_value (map (\<lambda>(le, c). sample_row ?si (?fp le) (float_of_uint c) (hp_Flags dp))
      (?rows @ [(''+Inf'', hp_Count dp)])) = map (\<lambda>i. float_of_int (?below i)) [0..<?n] @ [float_of_uint (hp_Count dp)]"
    by (simp add: case_prod_unfold comp_def sample_row_def)
  have "map (\<lambda>t. map_of (ts_attrs t) ''le'') (map (\<lambda>(le, c). series_row ?si (?fp le) sf rf) ?rows) = map Some (map fst ?rows)"
    by (simp add: case_prod_unfold comp_def series_row_def Let_def point_le)
  also have "map fst ?rows = map (\<lambda>i. FormatFloat (hp_ExplicitBounds dp ! i)) [0..<?n]"
    unfolding bucket_rows_texts by (rule nth_equalityI) auto
  finally have series: "map (\<lambda>t. map_of (ts_attrs t) ''le'') (map (\<lambda>(le, c). series_row ?si (?fp le) sf rf)
      (?rows @ [(''+Inf'', hp_Count dp)])) =
      map (\<lambda>i. Some (FormatFloat (hp_ExplicitBounds dp ! i))) [0..<?n] @ [Some ''+Inf'']"
    by (simp add: series_row_def Let_def point_le comp_def)
  let ?rs = "map (\<lambda>i. round_float64 (of_int (?below i))) [0..<?n] @ [round_float64 (of_int (uint (hp_Count dp)))]"
  have "0 \<le> ?below i" for i by (rule sum_list_nonneg) auto
  then have finite: "map (\<lambda>i. float_of_int (?below i)) [0..<?n] @ [float_of_uint (hp_Count dp)] = map Finite_f64 ?rs"
    by (simp add: float_of_int_def float_of_uint_def)
  have "?below i \<le> ?below j" if "i \<le> j" for i j using that by (intro sum_take_mono) simp
  then have "sorted (map (\<lambda>i. round_float64 (of_int (?below i))) [0..<?n])"
    by (intro sorted_map_upt) (simp add: round_float64_mono)
  moreover have "?below i \<le> uint (hp_Count dp)" for i
    using sum_take_mono [of "i + 1" "max (i + 1) (length (hp_BucketCounts dp))" "hp_BucketCounts dp"] assms by simp
  then have "round_float64 (of_int (?below i)) \<le> round_float64 (of_int (uint (hp_Count dp)))" for i
    by (intro round_float64_mono) (simp only: of_int_le_iff)
  ultimately have sorted: "sorted ?rs" by (simp add: sorted_append)
  have drops: "drop (length xs) ys = zs" if "ys = xs @ zs" for xs ys zs :: "'x list" using that by simp
  show ?thesis
    unfolding Let_def drops [OF rows(1)] drops [OF rows(2)] samples series
    by (intro conjI refl exI [of _ ?rs]) (rule finite, rule sorted)
qed

section \<open>Metadata\<close>

lemma addMetadata_seen:
  "set (b_metaSeen (addMetadata L name desc unt typ temp mon f b)) =
     set (b_metaSeen b) \<union> (\<lambda>(k, v). seen_key k name (Val v)) ` set (lib_range L (fp_attributes f))"
proof -
  define g :: "string \<times> Value \<Rightarrow> batch \<Rightarrow> batch" where "g = (\<lambda>(key, v) b. let seenKey = seen_key key name (Val v) in
      if seenKey \<in> set (b_metaSeen b) then b
      else b\<lparr>b_metaSeen := seenKey # b_metaSeen b,
        b_metadata := b_metadata b @ [\<lparr>md_metricName = name, md_temporality = temp,
          md_description = desc, md_unit = unt, md_typ = typ, md_isMonotonic = mon,
          md_attrName = key, md_attrType = FingerprintType_String (fp_typ f),
          md_attrDatatype = DataType v, md_attrStringValue = Val v\<rparr>]\<rparr>)"
  have step: "set (b_metaSeen (g x b)) = insert (case x of (k, v) \<Rightarrow> seen_key k name (Val v)) (set (b_metaSeen b))" for x b
    by (auto simp: g_def Let_def split: prod.split)
  have "set (b_metaSeen (fold g xs b)) = set (b_metaSeen b) \<union> (\<lambda>(k, v). seen_key k name (Val v)) ` set xs"
    for xs and b :: batch
    by (induction xs arbitrary: b) (auto simp: step)
  then show ?thesis by (simp add: addMetadata_def g_def)
qed

lemma fold_fixed: "(\<And>x. x \<in> set xs \<Longrightarrow> g x b = b) \<Longrightarrow> fold g xs b = b"
  by (induction xs) simp_all

lemma addMetadata_all_seen:
  assumes "\<forall>(k, v) \<in> set (lib_range L (fp_attributes f)). seen_key k name (Val v) \<in> set (b_metaSeen b)"
  shows "addMetadata L name desc unt typ temp mon f b = b"
  unfolding addMetadata_def by (rule fold_fixed) (use assms in \<open>auto simp: Let_def\<close>)

text \<open>Metadata is lost where names run together: what has been recorded is remembered under the name of the
  attribute followed by that of the metric, without a separator. Once an attribute \<open>a\<close> of the
  metric \<open>x @ name\<close> is recorded, nothing is recorded of the attribute \<open>a @ x\<close> of the metric
  \<open>name\<close>.\<close>

theorem metadata_hidden:
  assumes range: "\<And>m. set (lib_range L m) = set m"
    and "(a, v) \<in> set (fp_attributes F)" "a \<noteq> ''le''" "fp_attributes G = [(a @ x, w)]" "a @ x \<noteq> ''le''"
  shows "let B = addMetadata L (x @ name) desc unt typ temp mon F b
    in addMetadata L name desc' unt' typ' temp' mon' G B = B"
proof -
  have "seen_key a (x @ name) (Val v) = seen_key (a @ x) name (Val w)"
    using assms by (simp add: seen_key_def)
  moreover have "seen_key a (x @ name) (Val v) \<in> set (b_metaSeen (addMetadata L (x @ name) desc unt typ temp mon F b))"
    unfolding addMetadata_seen using assms(2) range by force
  ultimately show ?thesis
    unfolding Let_def using range assms(4) by (intro addMetadata_all_seen) simp
qed

section \<open>Examples\<close>

definition plain_lib :: metric_lib where
  "plain_lib = \<lparr>lib_range = (\<lambda>m. m), lib_Pow = (\<lambda>x y. zero_float)\<rparr>"

theorem metadata_hidden_witness:
  "b_metadata (addMetadata plain_lib ''count'' [] [] MetricTypeSum AggregationTemporalityDelta True
       (NewFingerprint PointFingerprintType 0 [(''pod.'', ValueTypeStr, ''v'')] [])
     (addMetadata plain_lib ''.count'' [] [] MetricTypeSum AggregationTemporalityDelta True
       (NewFingerprint PointFingerprintType 0 [(''pod'', ValueTypeStr, ''v'')] []) newBatch)) =
   b_metadata (addMetadata plain_lib ''.count'' [] [] MetricTypeSum AggregationTemporalityDelta True
       (NewFingerprint PointFingerprintType 0 [(''pod'', ValueTypeStr, ''v'')] []) newBatch)"
  using metadata_hidden [of plain_lib "''pod''" "\<lparr>DataType = ValueTypeStr, Val = ''v''\<rparr>"
      "NewFingerprint PointFingerprintType 0 [(''pod'', ValueTypeStr, ''v'')] []"
      "NewFingerprint PointFingerprintType 0 [(''pod.'', ValueTypeStr, ''v'')] []" "''.''" "\<lparr>DataType = ValueTypeStr, Val = ''v''\<rparr>"
      "''count''" "[]" "[]" MetricTypeSum AggregationTemporalityDelta True newBatch]
  by (simp add: plain_lib_def NewFingerprint_def NewAttributesFromPcommonMap_def with_extras_def Let_def)

definition two_buckets :: histogram_point where
  "two_buckets = \<lparr>hp_Attributes = [], hp_Timestamp = 0, hp_Count = 6, hp_Sum = None, hp_Min = None, hp_Max = None,
     hp_BucketCounts = [1, 2, 3], hp_ExplicitBounds = [Finite_f64 5, Finite_f64 10], hp_Flags = 0\<rparr>"

theorem bucket_samples_cumulative_witness:
  "\<forall>si sf rf. map sample_value (drop (length (b_samples newBatch))
     (b_samples (addBucketSample plain_lib si sf rf two_buckets bucketSuffix newBatch))) =
   [float_of_int 1, float_of_int 3, float_of_int 6]"
proof (intro allI)
  fix si sf rf
  have "sum_list (map uint (hp_BucketCounts two_buckets)) \<le> uint (hp_Count two_buckets)"
    by (simp add: two_buckets_def)
  from bucket_samples_cumulative [OF this, of plain_lib si sf rf bucketSuffix newBatch]
  show "map sample_value (drop (length (b_samples newBatch))
      (b_samples (addBucketSample plain_lib si sf rf two_buckets bucketSuffix newBatch))) =
    [float_of_int 1, float_of_int 3, float_of_int 6]"
    by (simp add: two_buckets_def Let_def float_of_uint_def upt_rec)
qed

end
