(* ===== verification/Statements.thy ===== *)
theory Statements
  imports ExpiringCache "HOL-Library.AList"
begin

text \<open>
  Statements of the ClickHouse driver as the exporters use them: \<^verbatim>\<open>PrepareBatch\<close>, \<^verbatim>\<open>Append\<close> and
  \<^verbatim>\<open>Send\<close>, whose answers are an argument; what is appended and whether it is sent is the result.
  Rows that an expiring cache has seen are left out of a statement; what that means is
  shown here once, for the exporters of logs and of traces.
\<close>

section \<open>Statements\<close>

record 'e answers =
  ans_prepare :: "'e option"
  ans_append :: "nat \<Rightarrow> 'e option"
  ans_send :: "'e option"

record ('r, 'e) written =
  wr_rows :: "'r list"
  wr_sent :: bool
  wr_error :: "'e option"

definition unsent :: "'r list \<Rightarrow> 'e option \<Rightarrow> ('r, 'e) written" where
  "unsent rows err = \<lparr>wr_rows = rows, wr_sent = False, wr_error = err\<rparr>"

definition send :: "'e answers \<Rightarrow> 'r list \<Rightarrow> ('r, 'e) written" where
  "send ans rows = \<lparr>wr_rows = rows, wr_sent = (ans_send ans = None), wr_error = ans_send ans\<rparr>"

text \<open>The loop that appends a row for every element and stops at the first error.\<close>

fun append_rows :: "'e answers \<Rightarrow> (nat \<Rightarrow> 'a \<Rightarrow> 'r) \<Rightarrow> 'a list \<Rightarrow> 'r list \<Rightarrow> 'e option \<times> 'r list" where
  "append_rows ans f [] rows = (None, rows)"
| "append_rows ans f (x # xs) rows =
     (case ans_append ans (length rows) of
        Some err \<Rightarrow> (Some err, rows)
      | None \<Rightarrow> append_rows ans f xs (rows @ [f (length rows) x]))"

definition write_rows :: "'e answers \<Rightarrow> (nat \<Rightarrow> 'a \<Rightarrow> 'r) \<Rightarrow> 'a list \<Rightarrow> ('r, 'e) written" where
  "write_rows ans f xs =
     (if xs = [] then unsent [] None
      else case ans_prepare ans of
        Some err \<Rightarrow> unsent [] (Some err)
      | None \<Rightarrow>
          (case append_rows ans f xs [] of
             (Some err, rows) \<Rightarrow> unsent rows (Some err)
           | (None, rows) \<Rightarrow> send ans rows))"

text \<open>ClickHouse accepts every statement.\<close>

definition accepts :: "'e answers \<Rightarrow> bool" where
  "accepts ans \<longleftrightarrow> ans_prepare ans = None \<and> (\<forall>i. ans_append ans i = None) \<and> ans_send ans = None"

lemma append_rows_accepts: "(\<And>i. ans_append ans i = None) \<Longrightarrow> fst (append_rows ans f xs rows) = None"
  by (induction xs arbitrary: rows) simp_all

lemma write_rows_accepts: "accepts ans \<Longrightarrow> wr_error (write_rows ans f xs) = None"
  using append_rows_accepts [of ans f xs "[]"]
  by (auto simp: write_rows_def accepts_def unsent_def send_def split: prod.splits option.splits)

section \<open>Usage and loops\<close>

text \<open>The count and the size per tenant.\<close>

definition AddMetric :: "string \<Rightarrow> int \<Rightarrow> int \<Rightarrow> (string \<times> int \<times> int) list \<Rightarrow> (string \<times> int \<times> int) list" where
  "AddMetric tenant cnt sz metrics =
     (case map_of metrics tenant of
        Some (c, s) \<Rightarrow> AList.update tenant (c + cnt, s + sz) metrics
      | None \<Rightarrow> AList.update tenant (cnt, sz) metrics)"

text \<open>A loop over elements that threads a state and stops at the first error.\<close>

fun for_each :: "('x \<Rightarrow> 's \<Rightarrow> 'e option \<times> 's) \<Rightarrow> 'x list \<Rightarrow> 's \<Rightarrow> 'e option \<times> 's" where
  "for_each f [] s = (None, s)"
| "for_each f (x # xs) s = (case f x s of (Some err, s) \<Rightarrow> (Some err, s) | (None, s) \<Rightarrow> for_each f xs s)"

lemma for_each_inv:
  "(\<And>x s. x \<in> set xs \<Longrightarrow> P s \<Longrightarrow> P (snd (f x s))) \<Longrightarrow> P s \<Longrightarrow> P (snd (for_each f xs s))"
proof (induction xs arbitrary: s)
  case (Cons x xs)
  obtain err s' where f: "f x s = (err, s')" by fastforce
  from Cons.prems have "P s'" using f by (metis list.set_intros(1) snd_conv)
  with Cons f show ?case by (cases err) simp_all
qed simp

text \<open>A row the statement refuses is left out.\<close>

definition append_ignoring :: "'e answers \<Rightarrow> 'r \<Rightarrow> 'r list \<Rightarrow> 'r list" where
  "append_ignoring ans r rows = (if ans_append ans (length rows) = None then rows @ [r] else rows)"

lemma append_ignoring_set: "set (append_ignoring ans r rows) \<subseteq> insert r (set rows)"
  by (auto simp: append_ignoring_def)

section \<open>Rows the cache has seen\<close>

text \<open>
  A cache together with the number of times the clock has been read. The loop appends a row for
  every element whose key is not in the cache, and then stores the key. An error of the statement
  stops the loop or is passed over.
\<close>

type_synonym 't clocked = "'t \<times> nat"

definition cache_Get ::
  "(string, 'v, 't) ttlcache \<Rightarrow> (nat \<Rightarrow> instant) \<Rightarrow> string \<Rightarrow> 't clocked \<Rightarrow> 'v option \<times> 't clocked" where
  "cache_Get T now k s = (case ttl_Fetch T (now (snd s)) k (fst s) of (item, c) \<Rightarrow> (item, (c, snd s + 1)))"

definition cache_Set ::
  "(string, 'v, 't) ttlcache \<Rightarrow> (nat \<Rightarrow> instant) \<Rightarrow> string \<Rightarrow> 'v \<Rightarrow> 't clocked \<Rightarrow> 't clocked" where
  "cache_Set T now k v s = (ttl_Store T (now (snd s)) k v (fst s), snd s + 1)"

fun append_new ::
  "(string, unit, 't) ttlcache \<Rightarrow> (nat \<Rightarrow> instant) \<Rightarrow> bool \<Rightarrow> 'e answers \<Rightarrow> ('x \<Rightarrow> string) \<Rightarrow> ('x \<Rightarrow> 'r) \<Rightarrow>
    'x list \<Rightarrow> 'r list \<Rightarrow> 't clocked \<Rightarrow> ('e option \<times> 'r list) \<times> 't clocked" where
  "append_new T now stops ans key row [] rows s = ((None, rows), s)"
| "append_new T now stops ans key row (x # xs) rows s =
     (case cache_Get T now (key x) s of
        (item, s) \<Rightarrow>
          if item \<noteq> None then append_new T now stops ans key row xs rows s
          else case ans_append ans (length rows) of
            Some err \<Rightarrow>
              if stops then ((Some err, rows), s)
              else append_new T now stops ans key row xs rows (cache_Set T now (key x) () s)
          | None \<Rightarrow> append_new T now stops ans key row xs (rows @ [row x]) (cache_Set T now (key x) () s))"

section \<open>What a cache knows\<close>

text \<open>
  Of a cache with a bounded number of entries less is promised than of one without: a store may also
  evict other keys. Nothing is live that has not been stored.
\<close>

definition ttl_sound :: "('k, 'v, 't) ttlcache \<Rightarrow> ('t \<Rightarrow> instant \<Rightarrow> 'k \<Rightarrow> 'v option) \<Rightarrow> bool" where
  "ttl_sound T live \<longleftrightarrow>
     (\<forall>t k. live (ttl_New T) t k = None)
   \<and> (\<forall>c t k. fst (ttl_Fetch T t k c) = live c t k)
   \<and> (\<forall>c s t k k'. s \<le> t \<longrightarrow> live (snd (ttl_Fetch T s k c)) t k' \<noteq> None \<longrightarrow> live c t k' \<noteq> None)
   \<and> (\<forall>c s t k v k'. s \<le> t \<longrightarrow> k' \<noteq> k \<longrightarrow> live (ttl_Store T s k v c) t k' \<noteq> None \<longrightarrow> live c t k' \<noteq> None)"

lemma promises_sound: "ttl_promises T live \<Longrightarrow> ttl_sound T live"
  unfolding ttl_sound_def by (simp add: new_live fetch_live fetch_keeps store_others)

definition known :: "('t \<Rightarrow> instant \<Rightarrow> string \<Rightarrow> 'v option) \<Rightarrow> (nat \<Rightarrow> instant) \<Rightarrow> 't clocked \<Rightarrow> string set" where
  "known live now s = {k. \<exists>t \<ge> now (snd s). live (fst s) t k \<noteq> None}"

lemma cache_Get_known:
  assumes T: "ttl_sound T live" and m: "mono now" and g: "cache_Get T now k s = (item, s')"
  shows "item = live (fst s) (now (snd s)) k" "known live now s' \<subseteq> known live now s" "snd s' = snd s + 1"
proof -
  from g have s': "snd s' = snd s + 1" "fst s' = snd (ttl_Fetch T (now (snd s)) k (fst s))"
    and "item = fst (ttl_Fetch T (now (snd s)) k (fst s))"
    by (auto simp: cache_Get_def split: prod.splits)
  with T show "item = live (fst s) (now (snd s)) k" "snd s' = snd s + 1" by (simp_all add: ttl_sound_def)
  have le: "now (snd s) \<le> now (snd s')" using m s'(1) by (auto intro: monoD)
  show "known live now s' \<subseteq> known live now s"
  proof
    fix k' assume "k' \<in> known live now s'"
    then obtain t where t: "now (snd s') \<le> t" "live (fst s') t k' \<noteq> None" by (auto simp: known_def)
    with le have "now (snd s) \<le> t" by linarith
    moreover from T this t(2) s'(2) have "live (fst s) t k' \<noteq> None" unfolding ttl_sound_def by metis
    ultimately show "k' \<in> known live now s" unfolding known_def by blast
  qed
qed

lemma cache_Set_known:
  assumes T: "ttl_sound T live" and m: "mono now"
  shows "known live now (cache_Set T now k v s) \<subseteq> insert k (known live now s)"
proof -
  have le: "now (snd s) \<le> now (snd s + 1)" using m by (auto intro: monoD)
  show ?thesis
  proof
    fix k' assume "k' \<in> known live now (cache_Set T now k v s)"
    then obtain t where t: "now (snd s + 1) \<le> t" "live (ttl_Store T (now (snd s)) k v (fst s)) t k' \<noteq> None"
      by (auto simp: known_def cache_Set_def)
    with le have "now (snd s) \<le> t" by linarith
    moreover from T this t(2) have "k' = k \<or> live (fst s) t k' \<noteq> None" unfolding ttl_sound_def by metis
    ultimately show "k' \<in> insert k (known live now s)" unfolding known_def by blast
  qed
qed

lemma append_new_rows:
  "append_new T now stops ans key row xs rows s = ((err, rows'), s') \<Longrightarrow>
    set rows \<subseteq> set rows' \<and> set rows' \<subseteq> set rows \<union> row ` set xs"
proof (induction xs arbitrary: rows s stops)
  case (Cons x xs)
  show ?case
    using Cons.prems by (auto split: prod.splits if_splits option.splits dest!: Cons.IH)
qed simp

text \<open>The keys of the elements whose row is among \<open>rows\<close>.\<close>

definition row_keys :: "('x \<Rightarrow> string) \<Rightarrow> ('x \<Rightarrow> 'r) \<Rightarrow> 'x set \<Rightarrow> 'r list \<Rightarrow> string set" where
  "row_keys key row X rows = {key x | x. x \<in> X \<and> row x \<in> set rows}"

lemma row_keys_mono: "X \<subseteq> Y \<Longrightarrow> row_keys key row X rows \<subseteq> row_keys key row Y rows"
  by (auto simp: row_keys_def)

lemma known_chain: "K \<subseteq> insert x A \<Longrightarrow> x \<in> R' \<Longrightarrow> R \<subseteq> R' \<Longrightarrow> X \<subseteq> K \<union> R \<Longrightarrow> X \<subseteq> A \<union> R'"
  by blast

lemma append_new_writes:
  assumes T: "ttl_sound T live" and m: "mono now" and ok: "\<And>i. ans_append ans i = None"
  shows "append_new T now stops ans key row xs rows s = ((err, rows'), s') \<Longrightarrow>
    err = None \<and> key ` set xs \<subseteq> known live now s \<union> row_keys key row (set xs) rows' \<and>
    known live now s' \<subseteq> known live now s \<union> row_keys key row (set xs) rows'"
proof (induction xs arbitrary: rows s)
  case (Cons x xs)
  obtain item s1 where g: "cache_Get T now (key x) s = (item, s1)" by (metis surj_pair)
  note get = cache_Get_known [OF T m g]
  have mono: "row_keys key row (set xs) rows' \<subseteq> row_keys key row (set (x # xs)) rows'"
    by (rule row_keys_mono) auto
  show ?case
  proof (cases "item = None")
    case False
    then have "key x \<in> known live now s" using get(1) by (auto simp: known_def)
    moreover have "append_new T now stops ans key row xs rows s1 = ((err, rows'), s')"
      using Cons.prems g False by simp
    note IH = Cons.IH [OF this]
    ultimately show ?thesis using IH get(2) mono by (simp del: list.set) (auto 0 2)
  next
    case True
    let ?s2 = "cache_Set T now (key x) () s1"
    have run: "append_new T now stops ans key row xs (rows @ [row x]) ?s2 = ((err, rows'), s')"
      using Cons.prems g True ok by simp
    have "row x \<in> set rows'" using append_new_rows [OF run] by simp
    then have k: "key x \<in> row_keys key row (set (x # xs)) rows'" by (auto simp: row_keys_def)
    have "known live now ?s2 \<subseteq> insert (key x) (known live now s)"
      using cache_Set_known [OF T m, of "key x" "()" s1] get(2) by blast
    note chain = known_chain [OF this k mono]
    from Cons.IH [OF run] chain k show ?thesis by simp
  qed
qed simp

section \<open>Once in the lifetime of the cache\<close>

text \<open>The keys of \<open>K\<close> are in the cache until \<open>until\<close>.\<close>

definition remembers :: "('t \<Rightarrow> instant \<Rightarrow> string \<Rightarrow> 'v option) \<Rightarrow> (nat \<Rightarrow> instant) \<Rightarrow> instant \<Rightarrow> string set \<Rightarrow> 't clocked \<Rightarrow> bool" where
  "remembers live now until K s \<longleftrightarrow> (\<forall>k \<in> K. \<forall>t. now (snd s) \<le> t \<and> t \<le> until \<longrightarrow> live (fst s) t k \<noteq> None)"

lemma append_new_clock:
  "append_new T now stops ans key row xs rows s = (res, s') \<Longrightarrow> snd s \<le> snd s'"
proof (induction xs arbitrary: rows s stops)
  case (Cons x xs)
  obtain item s1 where g: "cache_Get T now (key x) s = (item, s1)" by (metis surj_pair)
  then have "snd s1 = snd s + 1" by (auto simp: cache_Get_def split: prod.splits)
  moreover have "snd (cache_Set T now (key x) () s1) = snd s1 + 1" by (simp add: cache_Set_def)
  ultimately show ?case using Cons.prems g
    by (auto split: if_splits option.splits dest!: Cons.IH)
qed simp

lemma remembers_Get:
  assumes T: "ttl_promises T live" and m: "mono now" and g: "cache_Get T now k s = (item, s')"
    and r: "remembers live now until K s"
  shows "remembers live now until K s'"
proof -
  from g have s': "snd s' = snd s + 1" "fst s' = snd (ttl_Fetch T (now (snd s)) k (fst s))"
    by (auto simp: cache_Get_def split: prod.splits)
  have "now (snd s) \<le> now (snd s')" using m s'(1) by (auto intro: monoD)
  with r fetch_keeps [OF T] s' show ?thesis unfolding remembers_def by (metis order_trans)
qed

lemma remembers_Set:
  assumes T: "ttl_promises T live" "ttl_lasts ttl T live" "mono now"
    and r: "remembers live now until K s" and u: "until \<le> now (snd s) + ttl"
  shows "remembers live now until (insert k K) (cache_Set T now k v s)"
proof -
  have le: "now (snd s) \<le> now (snd s + 1)" using T(3) by (auto intro: monoD)
  show ?thesis
    unfolding remembers_def cache_Set_def fst_conv snd_conv
  proof (intro ballI allI impI)
    fix k' t assume k': "k' \<in> insert k K" and t: "now (snd s + 1) \<le> t \<and> t \<le> until"
    with le u have b: "now (snd s) \<le> t" "t \<le> now (snd s) + ttl" by linarith+
    show "live (ttl_Store T (now (snd s)) k v (fst s)) t k' \<noteq> None"
    proof (cases "k' = k")
      case True
      with T(2) b show ?thesis by (simp add: ttl_lasts_def)
    next
      case False
      with k' r b t show ?thesis by (simp add: store_others [OF T(1) b(1)] remembers_def)
    qed
  qed
qed

lemma append_new_once:
  assumes T: "ttl_promises T live" "ttl_lasts ttl T live" "mono now"
  shows "append_new T now stops ans key row xs rows s = ((err, rows'), s') \<Longrightarrow> now (snd s') \<le> until \<Longrightarrow>
    until \<le> now (snd s) + ttl \<Longrightarrow> remembers live now until K s \<Longrightarrow>
    \<exists>new. rows' = rows @ map row new \<and> key ` set new \<inter> K = {} \<and> set new \<subseteq> set xs \<and>
      remembers live now until (K \<union> key ` set new) s'"
proof (induction xs arbitrary: rows s K stops)
  case (Cons x xs)
  obtain item s1 where g: "cache_Get T now (key x) s = (item, s1)" by (metis surj_pair)
  note get = cache_Get_known [OF promises_sound [OF T(1)] T(3) g]
  note r1 = remembers_Get [OF T(1,3) g Cons.prems(4)]
  have le: "now (snd s) \<le> now (snd s1)" using T(3) get(3) by (auto intro: monoD)
  then have u1: "until \<le> now (snd s1) + ttl" using Cons.prems(3) by linarith
  show ?case
  proof (cases "item = None")
    case False
    with Cons.prems(1) g have "append_new T now stops ans key row xs rows s1 = ((err, rows'), s')" by simp
    from Cons.IH [OF this Cons.prems(2) u1 r1] show ?thesis by auto
  next
    case True
    let ?s2 = "cache_Set T now (key x) () s1"
    note r2 = remembers_Set [OF T r1 u1, of "key x" "()"]
    have "now (snd s1) \<le> now (snd ?s2)" using T(3) by (auto simp: cache_Set_def intro: monoD)
    with u1 have u2: "until \<le> now (snd ?s2) + ttl" by linarith
    have "now (snd s) \<le> now (snd s')" using append_new_clock [OF Cons.prems(1)] T(3) by (auto intro: monoD)
    with Cons.prems(2) have "now (snd s) \<le> until" by linarith
    with True get(1) Cons.prems(4) have new: "key x \<notin> K" by (auto simp: remembers_def)
    show ?thesis
    proof (cases "ans_append ans (length rows)")
      case None
      with Cons.prems(1) g True
      have run: "append_new T now stops ans key row xs (rows @ [row x]) ?s2 = ((err, rows'), s')" by simp
      from Cons.IH [OF run Cons.prems(2) u2 r2] obtain ys where ys: "rows' = (rows @ [row x]) @ map row ys"
        "key ` set ys \<inter> insert (key x) K = {}" "set ys \<subseteq> set xs"
        "remembers live now until (insert (key x) K \<union> key ` set ys) s'" by blast
      with new show ?thesis by (intro exI [of _ "x # ys"]) auto
    next
      case (Some e)
      show ?thesis
      proof (cases stops)
        case True
        with Cons.prems(1) g \<open>item = None\<close> Some r1 show ?thesis by auto
      next
        case False
        with Cons.prems(1) g \<open>item = None\<close> Some
        have run: "append_new T now False ans key row xs rows ?s2 = ((err, rows'), s')" by simp
        from Cons.IH [OF run Cons.prems(2) u2 r2] obtain ys where "rows' = rows @ map row ys"
          "key ` set ys \<inter> insert (key x) K = {}" "set ys \<subseteq> set xs"
          "remembers live now until (insert (key x) K \<union> key ` set ys) s'" by blast
        then show ?thesis by (intro exI [of _ ys]) (auto simp: remembers_def)
      qed
    qed
  qed
qed simp

end
