(* ===== verification/MetricsWriter.thy ===== *)
theory MetricsWriter
  imports MetricsRows Statements
begin

text \<open>
  How the metrics exporter writes a batch, \<^verbatim>\<open>writeBatch\<close>, \<^verbatim>\<open>PushMetrics\<close> and
  \<^verbatim>\<open>Shutdown\<close> of \<^verbatim>\<open>exporter/signozclickhousemetrics/exporter.go\<close>: four statements, of which
  that of the series leaves out what the cache has seen. The answers of ClickHouse to a
  statement, the clock and the expiring cache are arguments; what is appended and what is
  sent are results. The four goroutines work on separate statements, and only the series touch the
  cache, so they are modelled one after the other; the order in which their errors arrive is an argument.
\<close>

section \<open>The exporter\<close>

record metrics_config =
  mc_EnableExpHist :: bool
  mc_Database :: string
  mc_SamplesTable :: string
  mc_TimeSeriesTable :: string
  mc_ExpHistTable :: string
  mc_MetadataTable :: string

record 't clickhouseMetricsExporter =
  enableExpHist :: bool
  series_cache :: 't
  cache_reads :: nat
  cacheRunning :: bool
  closed :: bool
  samplesSQL :: string
  timeSeriesSQL :: string
  expHistSQL :: string
  metadataSQL :: string

definition samplesSQLTmpl :: "string \<Rightarrow> string \<Rightarrow> string" where
  "samplesSQLTmpl db table = ''INSERT INTO '' @ db @ ''.'' @ table @
     '' (env, temporality, metric_name, fingerprint, unix_milli, value, flags) VALUES (?, ?, ?, ?, ?, ?, ?)''"

definition timeSeriesSQLTmpl :: "string \<Rightarrow> string \<Rightarrow> string" where
  "timeSeriesSQLTmpl db table = ''INSERT INTO '' @ db @ ''.'' @ table @
     '' (env, temporality, metric_name, description, unit, type, is_monotonic, fingerprint, unix_milli, labels, attrs, scope_attrs, resource_attrs, __normalized) VALUES (?, ?, ?, ?, ?, ?, ?, ?, ?, ?, ?, ?, ?, ?)''"

definition expHistSQLTmpl :: "string \<Rightarrow> string \<Rightarrow> string" where
  "expHistSQLTmpl db table = ''INSERT INTO '' @ db @ ''.'' @ table @
     '' (env, temporality, metric_name, fingerprint, unix_milli, count, sum, min, max, sketch, flags) VALUES (?, ?, ?, ?, ?, ?, ?, ?, ?, ?, ?)''"

definition metadataSQLTmpl :: "string \<Rightarrow> string \<Rightarrow> string" where
  "metadataSQLTmpl db table = ''INSERT INTO '' @ db @ ''.'' @ table @
     '' (temporality, metric_name, description, unit, type, is_monotonic, attr_name, attr_type, attr_datatype, attr_string_value, first_reported_unix_milli, last_reported_unix_milli) VALUES (?, ?, ?, ?, ?, ?, ?, ?, ?, ?, ?, ?)''"

definition NewClickHouseExporter :: "(string, bool, 't) ttlcache \<Rightarrow> metrics_config \<Rightarrow> 't clickhouseMetricsExporter" where
  "NewClickHouseExporter T cfg = \<lparr>
     enableExpHist = mc_EnableExpHist cfg, series_cache = ttl_New T, cache_reads = 0, cacheRunning = False, closed = False,
     samplesSQL = samplesSQLTmpl (mc_Database cfg) (mc_SamplesTable cfg),
     timeSeriesSQL = timeSeriesSQLTmpl (mc_Database cfg) (mc_TimeSeriesTable cfg),
     expHistSQL = expHistSQLTmpl (mc_Database cfg) (mc_ExpHistTable cfg),
     metadataSQL = metadataSQLTmpl (mc_Database cfg) (mc_MetadataTable cfg)\<rparr>"

section \<open>Series\<close>

definition makeCacheKey :: "uint64 \<Rightarrow> uint64 \<Rightarrow> string" where
  "makeCacheKey a b = show_nat (unat a) @ '':'' @ show_nat (unat b)"

definition rounded_hour :: "int \<Rightarrow> int" where
  "rounded_hour ms = go_div ms 3600000 * 3600000"

record ts_columns =
  col_env :: string
  col_temporality :: string
  col_metric_name :: string
  col_description :: string
  col_unit :: string
  col_type :: string
  col_is_monotonic :: bool
  col_fingerprint :: uint64
  col_unix_milli :: int
  col_labels :: string
  col_attrs :: "(string \<times> string) list"
  col_scope_attrs :: "(string \<times> string) list"
  col_resource_attrs :: "(string \<times> string) list"
  col_normalized :: bool

definition series_columns :: "ts \<Rightarrow> ts_columns" where
  "series_columns t = \<lparr>
     col_env = ts_env t, col_temporality = temporality_String (ts_temporality t),
     col_metric_name = ts_metricName t, col_description = ts_description t, col_unit = ts_unit t,
     col_type = metric_type_String (ts_typ t), col_is_monotonic = ts_isMonotonic t,
     col_fingerprint = ts_fingerprint t, col_unix_milli = rounded_hour (ts_unixMilli t),
     col_labels = ts_labels t, col_attrs = ts_attrs t, col_scope_attrs = ts_scopeAttrs t,
     col_resource_attrs = ts_resourceAttrs t, col_normalized = False\<rparr>"

definition series_Get ::
  "(string, bool, 't) ttlcache \<Rightarrow> (nat \<Rightarrow> instant) \<Rightarrow> string \<Rightarrow> 't clickhouseMetricsExporter \<Rightarrow>
    bool option \<times> 't clickhouseMetricsExporter" where
  "series_Get T now k e =
     (case ttl_Fetch T (now (cache_reads e)) k (series_cache e) of
        (item, c) \<Rightarrow> (item, e\<lparr>series_cache := c, cache_reads := cache_reads e + 1\<rparr>))"

definition series_Set ::
  "(string, bool, 't) ttlcache \<Rightarrow> (nat \<Rightarrow> instant) \<Rightarrow> string \<Rightarrow> 't clickhouseMetricsExporter \<Rightarrow>
    't clickhouseMetricsExporter" where
  "series_Set T now k e =
     e\<lparr>series_cache := ttl_Store T (now (cache_reads e)) k True (series_cache e), cache_reads := cache_reads e + 1\<rparr>"

fun append_series ::
  "(string, bool, 't) ttlcache \<Rightarrow> (nat \<Rightarrow> instant) \<Rightarrow> 'e answers \<Rightarrow> ts list \<Rightarrow> ts_columns list \<Rightarrow>
    't clickhouseMetricsExporter \<Rightarrow> ('e option \<times> ts_columns list) \<times> 't clickhouseMetricsExporter" where
  "append_series T now ans [] rows e = ((None, rows), e)"
| "append_series T now ans (t # series) rows e =
     (let cacheKey = makeCacheKey (ts_fingerprint t) (word_of_int (rounded_hour (ts_unixMilli t))) in
      case series_Get T now cacheKey e of
        (item, e) \<Rightarrow>
          if item = Some True then append_series T now ans series rows e
          else case ans_append ans (length rows) of
            Some err \<Rightarrow> ((Some err, rows), e)
          | None \<Rightarrow> append_series T now ans series (rows @ [series_columns t]) (series_Set T now cacheKey e))"

definition writeTimeSeries ::
  "(string, bool, 't) ttlcache \<Rightarrow> (nat \<Rightarrow> instant) \<Rightarrow> 'e answers \<Rightarrow> ts list \<Rightarrow> 't clickhouseMetricsExporter \<Rightarrow>
    (ts_columns, 'e) written \<times> 't clickhouseMetricsExporter" where
  "writeTimeSeries T now ans series e =
     (if series = [] then (unsent [] None, e)
      else case ans_prepare ans of
        Some err \<Rightarrow> (unsent [] (Some err), e)
      | None \<Rightarrow>
          (case append_series T now ans series [] e of
             ((Some err, rows), e) \<Rightarrow> (unsent rows (Some err), e)
           | ((None, rows), e) \<Rightarrow> (send ans rows, e)))"

section \<open>Samples, exponential histograms and metadata\<close>

definition HasPrefix :: "string \<Rightarrow> string \<Rightarrow> bool" where
  "HasPrefix s p \<longleftrightarrow> take (length p) s = p"

definition collects_usage :: "sample \<Rightarrow> bool" where
  "collects_usage s \<longleftrightarrow>
     \<not> (HasPrefix (sample_metricName s) ''signoz'' \<or> HasPrefix (sample_metricName s) ''chi'' \<or>
        HasPrefix (sample_metricName s) ''otelcol'')"

type_synonym sample_columns = "string \<times> string \<times> string \<times> uint64 \<times> int \<times> float64 \<times> 32 word"

definition sample_columns :: "sample \<Rightarrow> sample_columns" where
  "sample_columns s = (sample_env s, temporality_String (sample_temporality s), sample_metricName s,
     sample_fingerprint s, sample_unixMilli s, sample_value s, sample_flags s)"

text \<open>The usage is recorded once all rows are appended, before the statement is sent.\<close>

definition writeSamples ::
  "'e answers \<Rightarrow> sample list \<Rightarrow> (sample_columns, 'e) written \<times> (string \<times> int \<times> int) list" where
  "writeSamples ans samples =
     (let w = write_rows ans (\<lambda>_. sample_columns) samples;
          metrics = fold (\<lambda>s m. if collects_usage s then AddMetric ''default'' 1 0 m else m) samples []
      in (w, if ans_prepare ans = None \<and> fst (append_rows ans (\<lambda>_. sample_columns) samples []) = None then metrics else []))"

type_synonym exp_hist_columns =
  "string \<times> string \<times> string \<times> uint64 \<times> int \<times> float64 \<times> float64 \<times> float64 \<times> float64 \<times> sketch \<times> 32 word"

definition exp_hist_columns :: "exponentialHistogramSample \<Rightarrow> exp_hist_columns" where
  "exp_hist_columns h = (ehs_env h, temporality_String (ehs_temporality h), ehs_metricName h, ehs_fingerprint h,
     ehs_unixMilli h, ehs_count h, ehs_sum h, ehs_min h, ehs_max h, ehs_sketch h, ehs_flags h)"

definition writeExpHist :: "'e answers \<Rightarrow> exponentialHistogramSample list \<Rightarrow> (exp_hist_columns, 'e) written" where
  "writeExpHist ans expHist = write_rows ans (\<lambda>_. exp_hist_columns) expHist"

type_synonym metadata_columns =
  "string \<times> string \<times> string \<times> string \<times> string \<times> bool \<times> string \<times> string \<times> ValueType \<times> string \<times> int \<times> int"

text \<open>Every row reads the wall clock twice.\<close>

definition metadata_columns :: "(nat \<Rightarrow> instant) \<Rightarrow> nat \<Rightarrow> metadata \<Rightarrow> metadata_columns" where
  "metadata_columns clock i m = (temporality_String (md_temporality m), md_metricName m, md_description m,
     md_unit m, metric_type_String (md_typ m), md_isMonotonic m, md_attrName m, md_attrType m,
     md_attrDatatype m, md_attrStringValue m, clock (2 * i) div 1000000, clock (2 * i + 1) div 1000000)"

definition writeMetadata :: "(nat \<Rightarrow> instant) \<Rightarrow> 'e answers \<Rightarrow> metadata list \<Rightarrow> (metadata_columns, 'e) written" where
  "writeMetadata clock ans metadata = write_rows ans (metadata_columns clock) metadata"

section \<open>Batches\<close>

record 'e batch_answers =
  ba_series :: "'e answers"
  ba_samples :: "'e answers"
  ba_expHist :: "'e answers"
  ba_metadata :: "'e answers"
  ba_clock :: "nat \<Rightarrow> instant"
  ba_arrival :: "'e option list \<Rightarrow> 'e option list"

record 'e report =
  rep_series :: "(ts_columns, 'e) written"
  rep_samples :: "(sample_columns, 'e) written"
  rep_usage :: "(string \<times> int \<times> int) list"
  rep_expHist :: "(exp_hist_columns, 'e) written"
  rep_metadata :: "(metadata_columns, 'e) written"
  rep_errors :: "'e list"

text \<open>An error of the metadata is only logged; the others are joined in the order they arrive.\<close>

definition writeBatch ::
  "(string, bool, 't) ttlcache \<Rightarrow> (nat \<Rightarrow> instant) \<Rightarrow> 'e batch_answers \<Rightarrow> batch \<Rightarrow> 't clickhouseMetricsExporter \<Rightarrow>
    'e report \<times> 't clickhouseMetricsExporter" where
  "writeBatch T now A b e =
     (case writeTimeSeries T now (ba_series A) (b_ts b) e of
        (series, e) \<Rightarrow>
          (case writeSamples (ba_samples A) (b_samples b) of
             (samples, use) \<Rightarrow>
               let expHist = writeExpHist (ba_expHist A) (b_expHist b);
                   metadata = writeMetadata (ba_clock A) (ba_metadata A) (b_metadata b);
                   errC = ba_arrival A [wr_error series, wr_error samples, wr_error expHist, None]
               in (\<lparr>rep_series = series, rep_samples = samples, rep_usage = use, rep_expHist = expHist,
                    rep_metadata = metadata, rep_errors = map the (filter (\<lambda>err. err \<noteq> None) errC)\<rparr>, e)))"

definition PushMetrics ::
  "metric_lib \<Rightarrow> (string, bool, 't) ttlcache \<Rightarrow> (nat \<Rightarrow> instant) \<Rightarrow> 'e batch_answers \<Rightarrow> resource_metrics list \<Rightarrow>
    't clickhouseMetricsExporter \<Rightarrow> (string + 'e report) \<times> 't clickhouseMetricsExporter" where
  "PushMetrics L T now A md e =
     (if closed e then (Inl ''shutdown has been called'', e)
      else case writeBatch T now A (prepareBatch L (enableExpHist e) md) e of (r, e) \<Rightarrow> (Inr r, e))"

definition metrics_Start :: "'t clickhouseMetricsExporter \<Rightarrow> 't clickhouseMetricsExporter" where
  "metrics_Start e = e\<lparr>cacheRunning := True\<rparr>"

text \<open>Closing the channel a second time panics.\<close>

definition metrics_Shutdown :: "'t clickhouseMetricsExporter \<Rightarrow> 't clickhouseMetricsExporter outcome" where
  "metrics_Shutdown e = (if closed e then Panics else Done (e\<lparr>closed := True\<rparr>))"

section \<open>Keys\<close>

lemma colon_not_digit: "CHR '':'' \<notin> set (show_nat n)"
  using show_nat_digits [of "CHR '':''" n] by auto

lemma makeCacheKey_inj: "makeCacheKey a b = makeCacheKey c d \<longleftrightarrow> a = c \<and> b = d"
proof
  assume eq: "makeCacheKey a b = makeCacheKey c d"
  let ?p = "\<lambda>x. x \<noteq> CHR '':''"
  have t: "takeWhile ?p (makeCacheKey x y) = show_nat (unat x)" "dropWhile ?p (makeCacheKey x y) = CHR '':'' # show_nat (unat y)" for x y
    using colon_not_digit unfolding makeCacheKey_def
    by (subst takeWhile_append2 dropWhile_append2, auto)+
  from eq t [of a b] t [of c d] have "show_nat (unat a) = show_nat (unat c)" "show_nat (unat b) = show_nat (unat d)"
    by simp_all
  then show "a = c \<and> b = d" by (metis show_nat_inj word_unat_eq_iff)
qed simp

text \<open>The key of a series, and of a row written.\<close>

definition series_key :: "ts \<Rightarrow> string" where
  "series_key t = makeCacheKey (ts_fingerprint t) (word_of_int (rounded_hour (ts_unixMilli t)))"

definition row_key :: "ts_columns \<Rightarrow> string" where
  "row_key r = makeCacheKey (col_fingerprint r) (word_of_int (col_unix_milli r))"

lemma row_key_series [simp]: "row_key (series_columns t) = series_key t"
  by (simp add: row_key_def series_key_def series_columns_def)

section \<open>The cache of series\<close>

definition clock_at :: "(nat \<Rightarrow> instant) \<Rightarrow> 't clickhouseMetricsExporter \<Rightarrow> instant" where
  "clock_at now e = now (cache_reads e)"

lemma series_Get_live:
  assumes T: "ttl_promises T live" and m: "mono now" and g: "series_Get T now k e = (item, e')"
  shows "item = live (series_cache e) (clock_at now e) k" "clock_at now e \<le> clock_at now e'"
    "clock_at now e \<le> t \<Longrightarrow> live (series_cache e') t = live (series_cache e) t"
    "cache_reads e' = cache_reads e + 1"
  using g fetch_live [OF T, of "now (cache_reads e)" k "series_cache e"]
    fetch_keeps [OF T, of "now (cache_reads e)" t k "series_cache e"] monoD [OF m, of "cache_reads e" "cache_reads e + 1"]
  by (auto simp: series_Get_def clock_at_def split: prod.splits)

lemma series_Set_live:
  assumes T: "ttl_promises T live" and m: "mono now"
  shows "clock_at now e \<le> clock_at now (series_Set T now k e)"
    "k' \<noteq> k \<Longrightarrow> clock_at now e \<le> t \<Longrightarrow> live (series_cache (series_Set T now k e)) t k' = live (series_cache e) t k'"
    "ttl_lasts ttl T live \<Longrightarrow> clock_at now e \<le> t \<Longrightarrow> t \<le> clock_at now e + ttl \<Longrightarrow>
      live (series_cache (series_Set T now k e)) t k = Some True"
  using store_others [OF T, of "now (cache_reads e)" t k' k True "series_cache e"] monoD [OF m, of "cache_reads e" "cache_reads e + 1"]
  by (auto simp: series_Set_def clock_at_def ttl_lasts_def)

text \<open>What a cache knows: keys that are live from now on.\<close>

definition knows :: "('t \<Rightarrow> instant \<Rightarrow> string \<Rightarrow> bool option) \<Rightarrow> (nat \<Rightarrow> instant) \<Rightarrow> 't clickhouseMetricsExporter \<Rightarrow> string set" where
  "knows live now e = {k. \<exists>t \<ge> clock_at now e. live (series_cache e) t k \<noteq> None}"

lemma append_series_rows:
  "append_series T now ans series rows e = ((err, rows'), e') \<Longrightarrow>
    set rows \<subseteq> set rows' \<and> set rows' \<subseteq> set rows \<union> series_columns ` set series"
proof (induction series arbitrary: rows e)
  case (Cons t series)
  obtain item e1 where g: "series_Get T now (series_key t) e = (item, e1)" by fastforce
  show ?case
  proof (cases "item = Some True")
    case True
    with Cons.prems g have "append_series T now ans series rows e1 = ((err, rows'), e')"
      by (simp add: series_key_def Let_def)
    from Cons.IH [OF this] show ?thesis by auto
  next
    case False
    show ?thesis
    proof (cases "ans_append ans (length rows)")
      case None
      with Cons.prems g False have
        "append_series T now ans series (rows @ [series_columns t]) (series_Set T now (series_key t) e1) = ((err, rows'), e')"
        by (simp add: series_key_def Let_def)
      from Cons.IH [OF this] show ?thesis by auto
    next
      case (Some err')
      with Cons.prems g False show ?thesis by (auto simp: series_key_def Let_def)
    qed
  qed
qed simp

lemma append_series_writes:
  assumes T: "ttl_promises T live" and m: "mono now" and ok: "\<And>i. ans_append ans i = None"
  shows "append_series T now ans series rows e = ((err, rows'), e') \<Longrightarrow>
    err = None \<and> (\<forall>t \<in> set series. series_key t \<in> knows live now e \<union> row_key ` set rows') \<and>
    knows live now e' \<subseteq> knows live now e \<union> row_key ` set rows'"
proof (induction series arbitrary: rows e)
  case (Cons t series)
  obtain item e1 where g: "series_Get T now (series_key t) e = (item, e1)" by fastforce
  note get = series_Get_live [OF T m g]
  have k1: "knows live now e1 \<subseteq> knows live now e"
    using get(2,3) by (auto simp: knows_def) (metis order_trans)
  show ?case
  proof (cases "item = Some True")
    case True
    then have "series_key t \<in> knows live now e" using get(1) by (auto simp: knows_def)
    with True Cons.IH [of rows e1] Cons.prems g k1 show ?thesis
      by (auto simp: series_key_def Let_def)
  next
    case False
    let ?e2 = "series_Set T now (series_key t) e1"
    have k2: "knows live now ?e2 \<subseteq> insert (series_key t) (knows live now e1)"
      using series_Set_live(1,2) [OF T m, where k = "series_key t" and e = e1]
      by (auto simp: knows_def) (metis order_trans)
    have run: "append_series T now ans series (rows @ [series_columns t]) ?e2 = ((err, rows'), e')"
      using Cons.prems g ok False by (simp add: series_key_def Let_def)
    note IH = Cons.IH [OF this]
    have "series_key t \<in> row_key ` set rows'"
      using append_series_rows [OF run] row_key_series [of t] by (metis image_eqI in_set_conv_decomp subsetD)
    with IH k1 k2 show ?thesis by auto
  qed
qed simp

section \<open>Runs\<close>

text \<open>Pushes one after the other: the answers to each and its metrics.\<close>

fun run_pushes ::
  "metric_lib \<Rightarrow> (string, bool, 't) ttlcache \<Rightarrow> (nat \<Rightarrow> instant) \<Rightarrow> ('e batch_answers \<times> resource_metrics list) list \<Rightarrow>
    't clickhouseMetricsExporter \<Rightarrow> (string + 'e report) list \<times> 't clickhouseMetricsExporter" where
  "run_pushes L T now [] e = ([], e)"
| "run_pushes L T now ((A, md) # pushes) e =
     (case PushMetrics L T now A md e of
        (r, e) \<Rightarrow> (case run_pushes L T now pushes e of (rs, e) \<Rightarrow> (r # rs, e)))"

lemma append_series_static:
  "append_series T now ans series rows e = (res, e') \<Longrightarrow> closed e' = closed e \<and> enableExpHist e' = enableExpHist e"
  by (induction T now ans series rows e rule: append_series.induct)
    (auto simp: Let_def series_Get_def series_Set_def split: prod.splits if_splits option.splits)

lemma writeTimeSeries_static:
  "writeTimeSeries T now ans series e = (w, e') \<Longrightarrow> closed e' = closed e \<and> enableExpHist e' = enableExpHist e"
  by (auto simp: writeTimeSeries_def split: if_splits option.splits prod.splits dest!: append_series_static)

lemma PushMetrics_series:
  assumes "PushMetrics L T now A md e = (Inr r, e')"
  shows "writeTimeSeries T now (ba_series A) (b_ts (prepareBatch L (enableExpHist e) md)) e = (rep_series r, e')"
    "\<not> closed e'" "enableExpHist e' = enableExpHist e"
proof -
  from assms show w: "writeTimeSeries T now (ba_series A) (b_ts (prepareBatch L (enableExpHist e) md)) e = (rep_series r, e')"
    by (auto simp: PushMetrics_def writeBatch_def Let_def split: if_splits prod.splits)
  from assms have "\<not> closed e" by (auto simp: PushMetrics_def)
  then show "\<not> closed e'" "enableExpHist e' = enableExpHist e" using writeTimeSeries_static [OF w] by simp_all
qed

lemma PushMetrics_open: "\<not> closed e \<Longrightarrow> \<exists>r e'. PushMetrics L T now A md e = (Inr r, e')"
  by (simp add: PushMetrics_def split: prod.splits)

section \<open>Every series is written\<close>

definition sent_keys :: "(string + 'e report) list \<Rightarrow> string set" where
  "sent_keys rs = {row_key row | r row. Inr r \<in> set rs \<and> wr_sent (rep_series r) \<and> row \<in> set (wr_rows (rep_series r))}"

lemma sent_keys_simps [simp]:
  "sent_keys [] = {}"
  "sent_keys (Inr r # rs) = (if wr_sent (rep_series r) then row_key ` set (wr_rows (rep_series r)) else {}) \<union> sent_keys rs"
  by (auto simp: sent_keys_def)

lemma push_writes:
  assumes T: "ttl_promises T live" "mono now" and ok: "accepts (ba_series A)"
    and p: "PushMetrics L T now A md e = (Inr r, e')"
  shows "\<forall>t \<in> set (b_ts (prepareBatch L (enableExpHist e) md)). series_key t \<in> knows live now e \<union> sent_keys [Inr r]"
    "knows live now e' \<subseteq> knows live now e \<union> sent_keys [Inr r]"
proof -
  let ?series = "b_ts (prepareBatch L (enableExpHist e) md)"
  note w = PushMetrics_series(1) [OF p]
  show "\<forall>t \<in> set ?series. series_key t \<in> knows live now e \<union> sent_keys [Inr r]"
    "knows live now e' \<subseteq> knows live now e \<union> sent_keys [Inr r]"
  proof (atomize (full), cases "?series = []")
    case True
    with w show "(\<forall>t \<in> set ?series. series_key t \<in> knows live now e \<union> sent_keys [Inr r]) \<and>
      knows live now e' \<subseteq> knows live now e \<union> sent_keys [Inr r]" by (auto simp: writeTimeSeries_def)
  next
    case False
    obtain err rows e1 where a: "append_series T now (ba_series A) ?series [] e = ((err, rows), e1)"
      by (metis surj_pair)
    from ok have acc: "ans_append (ba_series A) i = None" for i by (simp add: accepts_def)
    note ws = append_series_writes [OF T acc a]
    with w a False ok have "rep_series r = send (ba_series A) rows" "e' = e1"
      by (auto simp: writeTimeSeries_def accepts_def)
    with ok have "e' = e1" "wr_rows (rep_series r) = rows" "wr_sent (rep_series r)"
      by (simp_all add: send_def accepts_def)
    with ws show "(\<forall>t \<in> set ?series. series_key t \<in> knows live now e \<union> sent_keys [Inr r]) \<and>
      knows live now e' \<subseteq> knows live now e \<union> sent_keys [Inr r]" by auto
  qed
qed

lemma run_writes:
  assumes T: "ttl_promises T live" "mono now"
  shows "run_pushes L T now pushes e = (rs, e') \<Longrightarrow> \<not> closed e \<Longrightarrow> \<forall>(A, md) \<in> set pushes. accepts (ba_series A) \<Longrightarrow>
    (A, md) \<in> set pushes \<Longrightarrow> t \<in> set (b_ts (prepareBatch L (enableExpHist e) md)) \<Longrightarrow>
    series_key t \<in> knows live now e \<union> sent_keys rs"
proof (induction pushes arbitrary: e rs)
  case (Cons p pushes)
  obtain A1 md1 where p: "p = (A1, md1)" by fastforce
  obtain r e1 where push: "PushMetrics L T now A1 md1 e = (Inr r, e1)"
    using PushMetrics_open [OF Cons.prems(2)] by blast
  obtain rs1 where run: "run_pushes L T now pushes e1 = (rs1, e')" and rs: "rs = Inr r # rs1"
    using Cons.prems(1) push by (auto simp: p split: prod.splits)
  have acc: "accepts (ba_series A1)" using Cons.prems(3) by (simp add: p)
  note w = push_writes [OF T acc push]
  note st = PushMetrics_series(2,3) [OF push]
  show ?case
  proof (cases "(A, md) = p")
    case True
    with w(1) Cons.prems(5) show ?thesis unfolding rs p by auto
  next
    case False
    with Cons.prems(3-5) have "\<forall>(A, md) \<in> set pushes. accepts (ba_series A)" "(A, md) \<in> set pushes"
      "t \<in> set (b_ts (prepareBatch L (enableExpHist e1) md))" by (auto simp: st(2))
    from Cons.IH [OF run st(1) this] w(2) show ?thesis unfolding rs by auto
  qed
qed simp

lemma new_exporter [simp]:
  "\<not> closed (NewClickHouseExporter T cfg)" "enableExpHist (NewClickHouseExporter T cfg) = mc_EnableExpHist cfg"
  by (simp_all add: NewClickHouseExporter_def)

lemma new_knows: "ttl_promises T live \<Longrightarrow> knows live now (NewClickHouseExporter T cfg) = {}"
  by (simp add: knows_def NewClickHouseExporter_def new_live)

lemma rounded_hour_range:
  assumes "int64_range ms"
  shows "int64_range (rounded_hour ms)"
proof -
  have n: "\<bar>ms\<bar> div 3600000 * 3600000 \<le> \<bar>ms\<bar>" "0 \<le> \<bar>ms\<bar> div 3600000 * 3600000" by simp_all
  have "rounded_hour ms = (if ms < 0 then - (\<bar>ms\<bar> div 3600000 * 3600000) else \<bar>ms\<bar> div 3600000 * 3600000)"
    by (auto simp: rounded_hour_def go_div_def sgn_if)
  then have "\<bar>rounded_hour ms\<bar> \<le> \<bar>ms\<bar>" "ms < 0 \<longrightarrow> rounded_hour ms \<le> 0" "\<not> ms < 0 \<longrightarrow> 0 \<le> rounded_hour ms"
    using n by auto
  with assms show ?thesis unfolding int64_range_def by linarith
qed

lemma int64_word_inj: "int64_range a \<Longrightarrow> int64_range b \<Longrightarrow> word_of_int a = (word_of_int b :: uint64) \<Longrightarrow> a = b"
proof -
  assume r: "int64_range a" "int64_range b" and eq: "word_of_int a = (word_of_int b :: uint64)"
  from eq have "a mod 2 ^ 64 = b mod 2 ^ 64" by (simp add: word_of_int_eq_iff take_bit_eq_mod)
  then have "(a + 2 ^ 63) mod 2 ^ 64 = (b + 2 ^ 63) mod 2 ^ 64" by (metis mod_add_left_eq)
  with r show "a = b" by (simp add: int64_range_def)
qed

lemma push_rows:
  assumes "PushMetrics L T now A md e = (Inr r, e')"
  shows "set (wr_rows (rep_series r)) \<subseteq> series_columns ` set (b_ts (prepareBatch L (enableExpHist e) md))"
proof -
  let ?series = "b_ts (prepareBatch L (enableExpHist e) md)"
  obtain err rows e1 where a: "append_series T now (ba_series A) ?series [] e = ((err, rows), e1)"
    by (metis surj_pair)
  from append_series_rows [OF this] have "set rows \<subseteq> series_columns ` set ?series" by simp
  moreover have "wr_rows (rep_series r) \<in> {[], rows}"
    using PushMetrics_series(1) [OF assms] a
    by (cases "rep_series r") (auto simp: writeTimeSeries_def unsent_def send_def split: if_splits option.splits)
  ultimately show ?thesis by auto
qed

lemma series_row_range:
  assumes "PushMetrics L T now A md e = (Inr r, e')" and "row \<in> set (wr_rows (rep_series r))"
  shows "int64_range (col_unix_milli row)"
proof -
  obtain t where "t \<in> set (b_ts (prepareBatch L (enableExpHist e) md))" "row = series_columns t"
    using push_rows [OF assms(1)] assms(2) by blast
  moreover have "times_ok (prepareBatch L (enableExpHist e) md)" by (rule times.prepared)
  ultimately show ?thesis by (simp add: times_ok_def series_columns_def rounded_hour_range)
qed

lemma run_row_range:
  "run_pushes L T now pushes e = (rs, e') \<Longrightarrow> Inr r \<in> set rs \<Longrightarrow> row \<in> set (wr_rows (rep_series r)) \<Longrightarrow>
    int64_range (col_unix_milli row)"
proof (induction pushes arbitrary: e rs)
  case (Cons p pushes)
  obtain A md where p: "p = (A, md)" by fastforce
  obtain r1 e1 where push: "PushMetrics L T now A md e = (r1, e1)" by fastforce
  obtain rs1 where run: "run_pushes L T now pushes e1 = (rs1, e')" and rs: "rs = r1 # rs1"
    using Cons.prems(1) push by (auto simp: p split: prod.splits)
  show ?case
  proof (cases "Inr r = r1")
    case True
    with push Cons.prems(3) show ?thesis by (auto intro: series_row_range)
  next
    case False
    with Cons.prems(2) have "Inr r \<in> set rs1" by (simp add: rs)
    with Cons.IH [OF run] Cons.prems(3) show ?thesis by blast
  qed
qed simp

text \<open>C5: When ClickHouse accepts the statements, every series of every batch pushed to a new exporter is
  written: a row with its fingerprint and the hour of its time is in a statement that was sent, whatever
  the cache left out of the others.\<close>

theorem every_series_written:
  assumes "ttl_promises T live" and "mono now"
    and "run_pushes L T now pushes (NewClickHouseExporter T cfg) = (rs, e)"
    and "\<forall>(A, md) \<in> set pushes. accepts (ba_series A)"
    and "(A, md) \<in> set pushes" and "t \<in> set (b_ts (prepareBatch L (mc_EnableExpHist cfg) md))"
  shows "\<exists>r row. Inr r \<in> set rs \<and> wr_sent (rep_series r) \<and> row \<in> set (wr_rows (rep_series r)) \<and>
    col_fingerprint row = ts_fingerprint t \<and> col_unix_milli row = rounded_hour (ts_unixMilli t)"
proof -
  from run_writes [OF assms(1-3) _ assms(4,5)] assms(6) have "series_key t \<in> sent_keys rs"
    by (simp add: new_knows [OF assms(1)])
  then obtain r row where r: "Inr r \<in> set rs" "wr_sent (rep_series r)" "row \<in> set (wr_rows (rep_series r))"
    and k: "row_key row = series_key t" by (auto simp: sent_keys_def)
  have "times_ok (prepareBatch L (mc_EnableExpHist cfg) md)" by (rule times.prepared)
  with assms(6) have "int64_range (rounded_hour (ts_unixMilli t))" by (simp add: times_ok_def rounded_hour_range)
  with k run_row_range [OF assms(3) r(1,3)]
  have "col_fingerprint row = ts_fingerprint t \<and> col_unix_milli row = rounded_hour (ts_unixMilli t)"
    by (auto simp: row_key_def series_key_def makeCacheKey_inj intro: int64_word_inj)
  with r show ?thesis by blast
qed

section \<open>No series twice\<close>

text \<open>The keys of \<open>K\<close> are in the cache until \<open>until\<close>.\<close>

definition cached :: "('t \<Rightarrow> instant \<Rightarrow> string \<Rightarrow> bool option) \<Rightarrow> (nat \<Rightarrow> instant) \<Rightarrow> instant \<Rightarrow> string set \<Rightarrow>
    't clickhouseMetricsExporter \<Rightarrow> bool" where
  "cached live now until K e \<longleftrightarrow>
     (\<forall>k \<in> K. \<forall>t. clock_at now e \<le> t \<and> t \<le> until \<longrightarrow> live (series_cache e) t k = Some True)"

lemma append_series_clock:
  assumes m: "mono now"
  shows "append_series T now ans series rows e = (res, e') \<Longrightarrow> clock_at now e \<le> clock_at now e'"
proof -
  have "append_series T now ans series rows e = (res, e') \<Longrightarrow> cache_reads e \<le> cache_reads e'"
    by (induction T now ans series rows e rule: append_series.induct)
      (auto simp: Let_def series_Get_def series_Set_def split: prod.splits if_splits option.splits
        dest: Suc_leD intro: order_trans [OF _ Suc_leD])
  then show "append_series T now ans series rows e = (res, e') \<Longrightarrow> clock_at now e \<le> clock_at now e'"
    using m by (auto simp: clock_at_def dest: monoD)
qed

lemma append_series_once:
  assumes T: "ttl_promises T live" and l: "ttl_lasts ttl T live" and m: "mono now"
  shows "append_series T now ans series rows e = ((err, rows'), e') \<Longrightarrow> clock_at now e' \<le> until \<Longrightarrow>
    until \<le> clock_at now e + ttl \<Longrightarrow> cached live now until K e \<Longrightarrow>
    \<exists>new. rows' = rows @ new \<and> row_key ` set new \<inter> K = {} \<and> cached live now until (K \<union> row_key ` set new) e'"
proof (induction series arbitrary: rows e K)
  case (Cons t series)
  obtain item e1 where g: "series_Get T now (series_key t) e = (item, e1)" by fastforce
  note get = series_Get_live [OF T m g]
  have c1: "cached live now until K e1" using Cons.prems(4) get(2,3) by (auto simp: cached_def)
  have u1: "until \<le> clock_at now e1 + ttl" using Cons.prems(3) get(2) by linarith
  show ?case
  proof (cases "item = Some True")
    case True
    with Cons.prems(1) g have "append_series T now ans series rows e1 = ((err, rows'), e')"
      by (simp add: series_key_def Let_def)
    from Cons.IH [OF this Cons.prems(2) u1 c1] show ?thesis .
  next
    case False
    have "clock_at now e \<le> until"
      using append_series_clock [OF m Cons.prems(1)] Cons.prems(2) by linarith
    with False get(1) Cons.prems(4) have new: "series_key t \<notin> K" by (auto simp: cached_def)
    show ?thesis
    proof (cases "ans_append ans (length rows)")
      case None
      let ?e2 = "series_Set T now (series_key t) e1"
      note set = series_Set_live [OF T m, where k = "series_key t" and e = e1]
      have run: "append_series T now ans series (rows @ [series_columns t]) ?e2 = ((err, rows'), e')"
        using Cons.prems(1) g False None by (simp add: series_key_def Let_def)
      have u2: "until \<le> clock_at now ?e2 + ttl" using u1 set(1) by linarith
      have "cached live now until (insert (series_key t) K) ?e2"
        unfolding cached_def
      proof (intro ballI allI impI)
        fix k s assume k: "k \<in> insert (series_key t) K" and s: "clock_at now ?e2 \<le> s \<and> s \<le> until"
        with set(1) u1 have s1: "clock_at now e1 \<le> s" "s \<le> clock_at now e1 + ttl" by linarith+
        show "live (series_cache ?e2) s k = Some True"
          using k s s1 set(2) [of k s] set(3) [OF l s1] c1 by (cases "k = series_key t") (auto simp: cached_def)
      qed
      from Cons.IH [OF run Cons.prems(2) u2 this] obtain new' where
        "rows' = (rows @ [series_columns t]) @ new'" "row_key ` set new' \<inter> insert (series_key t) K = {}"
        "cached live now until (insert (series_key t) K \<union> row_key ` set new') e'" by blast
      with new show ?thesis by (intro exI [of _ "series_columns t # new'"]) auto
    next
      case (Some err')
      have "rows' = rows" "e' = e1"
        using Cons.prems(1) g False Some by (auto simp: series_key_def Let_def)
      with c1 show ?thesis by simp
    qed
  qed
qed simp

lemma writeTimeSeries_once:
  assumes T: "ttl_promises T live" "ttl_lasts ttl T live" "mono now"
    and w: "writeTimeSeries T now ans series e = (w, e')" and u: "clock_at now e' \<le> until" "until \<le> clock_at now e + ttl"
    and c: "cached live now until K e"
  shows "row_key ` set (wr_rows w) \<inter> K = {} \<and> cached live now until (K \<union> row_key ` set (wr_rows w)) e'"
proof (cases "series = [] \<or> ans_prepare ans \<noteq> None")
  case True
  with w have "wr_rows w = []" "e' = e" by (auto simp: writeTimeSeries_def unsent_def split: if_splits)
  with c show ?thesis by simp
next
  case False
  obtain err rows e1 where a: "append_series T now ans series [] e = ((err, rows), e1)" by (metis surj_pair)
  with False w have "e' = e1" "wr_rows w = rows"
    by (auto simp: writeTimeSeries_def unsent_def send_def split: option.splits)
  with append_series_once [OF T a _ u(2) c] u(1) show ?thesis by auto
qed

lemma writeTimeSeries_clock:
  "mono now \<Longrightarrow> writeTimeSeries T now ans series e = (w, e') \<Longrightarrow> clock_at now e \<le> clock_at now e'"
  by (auto simp: writeTimeSeries_def split: if_splits option.splits prod.splits dest: append_series_clock)

lemma PushMetrics_clock:
  assumes "mono now" and p: "PushMetrics L T now A md e = (r, e')"
  shows "clock_at now e \<le> clock_at now e'"
proof (cases "closed e")
  case True
  with p show ?thesis by (simp add: PushMetrics_def)
next
  case False
  then obtain r1 e1 where "PushMetrics L T now A md e = (Inr r1, e1)" using PushMetrics_open by blast
  with p PushMetrics_series(1) writeTimeSeries_clock [OF assms(1)] show ?thesis by fastforce
qed

lemma run_pushes_clock:
  "mono now \<Longrightarrow> run_pushes L T now pushes e = (rs, e') \<Longrightarrow> clock_at now e \<le> clock_at now e'"
proof (induction pushes arbitrary: e rs)
  case (Cons p pushes)
  obtain A md where p: "p = (A, md)" by fastforce
  obtain r1 e1 where push: "PushMetrics L T now A md e = (r1, e1)" by fastforce
  obtain rs1 where run: "run_pushes L T now pushes e1 = (rs1, e')"
    using Cons.prems(2) push by (auto simp: p split: prod.splits)
  from PushMetrics_clock [OF Cons.prems(1) push] Cons.IH [OF Cons.prems(1) run] show ?case by linarith
qed simp

lemma run_once:
  assumes T: "ttl_promises T live" "ttl_lasts ttl T live" "mono now"
  shows "run_pushes L T now pushes e = (rs, e') \<Longrightarrow> clock_at now e' \<le> until \<Longrightarrow> until \<le> clock_at now e + ttl \<Longrightarrow>
    cached live now until K e \<Longrightarrow> Inr r \<in> set rs \<Longrightarrow> row_key ` set (wr_rows (rep_series r)) \<inter> K = {}"
proof (induction pushes arbitrary: e rs K)
  case (Cons p pushes)
  obtain A md where p: "p = (A, md)" by fastforce
  obtain r1 e1 where push: "PushMetrics L T now A md e = (r1, e1)" by fastforce
  obtain rs1 where run: "run_pushes L T now pushes e1 = (rs1, e')" and rs: "rs = r1 # rs1"
    using Cons.prems(1) push by (auto simp: p split: prod.splits)
  note c1 = PushMetrics_clock [OF T(3) push] run_pushes_clock [OF T(3) run]
  have u: "clock_at now e1 \<le> until" "until \<le> clock_at now e1 + ttl" using c1 Cons.prems(2,3) by linarith+
  show ?case
  proof (cases r1)
    case (Inl x)
    with push have "e1 = e" by (auto simp: PushMetrics_def split: if_splits prod.splits)
    with Cons.IH [OF run Cons.prems(2) u(2)] Cons.prems(4,5) show ?thesis by (simp add: rs Inl)
  next
    case (Inr r')
    note once = writeTimeSeries_once [OF T PushMetrics_series(1) [OF push [unfolded Inr]] u(1) Cons.prems(3,4)]
    show ?thesis
    proof (cases "r = r'")
      case False
      with Cons.prems(5) have "Inr r \<in> set rs1" by (simp add: rs Inr)
      from Cons.IH [OF run Cons.prems(2) u(2) conjunct2 [OF once] this] show ?thesis by blast
    qed (use once in simp)
  qed
qed simp

text \<open>The cache lets a series through once in its lifetime: what one push has put into the statement of the
  series, no push after it puts there again while the cache still remembers it.\<close>

theorem series_appended_once:
  assumes "ttl_promises T live" and "ttl_lasts ttl T live" and "mono now"
    and "PushMetrics L T now A md e = (Inr r, e1)" and "run_pushes L T now pushes e1 = (rs, e2)"
    and "clock_at now e2 \<le> clock_at now e + ttl"
    and "row \<in> set (wr_rows (rep_series r))" and "Inr r' \<in> set rs" and "row' \<in> set (wr_rows (rep_series r'))"
  shows "(col_fingerprint row', col_unix_milli row') \<noteq> (col_fingerprint row, col_unix_milli row)"
proof -
  note c = PushMetrics_clock [OF assms(3,4)] run_pushes_clock [OF assms(3,5)]
  have "cached live now (clock_at now e2) {} e" by (simp add: cached_def)
  from conjunct2 [OF writeTimeSeries_once [OF assms(1-3) PushMetrics_series(1) [OF assms(4)] c(2) assms(6) this]]
  have "cached live now (clock_at now e2) (row_key ` set (wr_rows (rep_series r))) e1" by simp
  from run_once [OF assms(1-3,5) order_refl _ this assms(8)] c assms(6,7,9)
  have "row_key row' \<noteq> row_key row" by fastforce
  then show ?thesis by (auto simp: row_key_def)
qed

section \<open>Errors\<close>

text \<open>The errors of the four writers arrive in some order, each of them once.\<close>

definition fair_arrival :: "'e batch_answers \<Rightarrow> bool" where
  "fair_arrival A \<longleftrightarrow> (\<forall>xs. mset (ba_arrival A xs) = mset xs)"

lemma mset_single_list: "mset xs = {#x#} \<Longrightarrow> xs = [x]"
  by (metis mset_single_iff_right)

lemma PushMetrics_errors:
  assumes "PushMetrics L T now A md e = (Inr r, e')" and "fair_arrival A"
    and "accepts (ba_samples A)" and "accepts (ba_expHist A)"
  shows "rep_errors r = (case wr_error (rep_series r) of None \<Rightarrow> [] | Some err \<Rightarrow> [err])"
proof -
  have "rep_errors r = map the (filter (\<lambda>err. err \<noteq> None)
      (ba_arrival A [wr_error (rep_series r), wr_error (rep_samples r), wr_error (rep_expHist r), None]))"
    "wr_error (rep_samples r) = None" "wr_error (rep_expHist r) = None"
    using assms(1,3,4) by (auto simp: PushMetrics_def writeBatch_def writeSamples_def writeExpHist_def Let_def
        write_rows_accepts split: if_splits prod.splits)
  moreover from this have "mset (rep_errors r) =
      image_mset the (filter_mset (\<lambda>err. err \<noteq> None) {#wr_error (rep_series r), None, None, None#})"
    using assms(2) by (simp add: fair_arrival_def)
  ultimately have "mset (rep_errors r) = mset (case wr_error (rep_series r) of None \<Rightarrow> [] | Some err \<Rightarrow> [err])"
    by (cases "wr_error (rep_series r)") simp_all
  then show ?thesis by (cases "wr_error (rep_series r)") (simp_all add: mset_single_list)
qed

text \<open>C7: A series whose statement could not be sent is lost for the lifetime of the cache. The push reports
  the error, a retry of the same metrics reports success, and yet no row of the statement that failed
  is in the statement that was sent: the cache is told before the statement is.\<close>

theorem failed_series_lost:
  assumes "ttl_promises T live" and "ttl_lasts ttl T live" and "mono now"
    and "fair_arrival A" and "accepts (ba_samples A)" and "accepts (ba_expHist A)"
    and "ans_prepare (ba_series A) = None" and "\<forall>i. ans_append (ba_series A) i = None"
    and "ans_send (ba_series A) = Some err"
    and "fair_arrival A'" and "accepts (ba_series A')" and "accepts (ba_samples A')" and "accepts (ba_expHist A')"
    and "b_ts (prepareBatch L (enableExpHist e) md) \<noteq> []"
    and "run_pushes L T now [(A, md), (A', md)] e = ([Inr r, Inr r'], e2)"
    and "clock_at now e2 \<le> clock_at now e + ttl"
  shows "rep_errors r = [err] \<and> rep_errors r' = [] \<and> wr_sent (rep_series r') \<and>
    set (wr_rows (rep_series r)) \<inter> set (wr_rows (rep_series r')) = {}"
proof -
  let ?series = "b_ts (prepareBatch L (enableExpHist e) md)"
  obtain e1 where p: "PushMetrics L T now A md e = (Inr r, e1)" "PushMetrics L T now A' md e1 = (Inr r', e2)"
    using assms(15) by (auto split: prod.splits)
  have w: "writeTimeSeries T now (ba_series A) ?series e = (rep_series r, e1)"
    "writeTimeSeries T now (ba_series A') ?series e1 = (rep_series r', e2)"
    using PushMetrics_series [OF p(1)] PushMetrics_series(1) [OF p(2)] by simp_all
  have outcome: "wr_error x = ans_send ans \<and> wr_sent x = (ans_send ans = None)"
    if "writeTimeSeries T now ans ?series a = (x, b)" "ans_prepare ans = None" "\<forall>i. ans_append ans i = None" for ans x a b
  proof -
    obtain err rows e1 where s: "append_series T now ans ?series [] a = ((err, rows), e1)" by (metis surj_pair)
    with append_series_writes [OF assms(1,3)] that(3) have "err = None" by blast
    with s that assms(14) have "x = send ans rows" by (simp add: writeTimeSeries_def)
    then show ?thesis by (simp add: send_def)
  qed
  have "wr_error (rep_series r) = Some err" "wr_error (rep_series r') = None" "wr_sent (rep_series r')"
    using outcome [OF w(1) assms(7,8)] outcome [OF w(2)] assms(9,11) by (simp_all add: accepts_def)
  with PushMetrics_errors [OF p(1) assms(4-6)] PushMetrics_errors [OF p(2) assms(10,12,13)]
  have e: "rep_errors r = [err]" "rep_errors r' = []" "wr_sent (rep_series r')" by simp_all
  note c = PushMetrics_clock [OF assms(3) p(1)] PushMetrics_clock [OF assms(3) p(2)]
  have "cached live now (clock_at now e2) {} e" by (simp add: cached_def)
  from conjunct2 [OF writeTimeSeries_once [OF assms(1-3) w(1) c(2) assms(16) this]]
  have k: "cached live now (clock_at now e2) (row_key ` set (wr_rows (rep_series r))) e1" by simp
  have "clock_at now e2 \<le> clock_at now e1 + ttl" using c(1) assms(16) by linarith
  from conjunct1 [OF writeTimeSeries_once [OF assms(1-3) w(2) order_refl this k]] e show ?thesis by auto
qed

section \<open>Examples\<close>

definition one_gauge :: "uint64 \<Rightarrow> resource_metrics list" where
  "one_gauge t = [\<lparr>rm_Attributes = [], rm_Scopes = [\<lparr>sm_Name = [], sm_Version = [], sm_Attributes = [], sm_SchemaUrl = [],
     sm_Metrics = [\<lparr>m_Name = ''up'', m_Description = [], m_Unit = [],
       m_Data = GaugeData [\<lparr>np_Attributes = [], np_Timestamp = t, np_Value = NumberInt 1, np_Flags = 0\<rparr>]\<rparr>]\<rparr>]\<rparr>]"

lemma number_value_one [simp]: "number_value (NumberInt 1) \<noteq> NaN"
  by simp

lemma one_gauge_series: "\<exists>s. b_ts (prepareBatch L enabled (one_gauge t)) = [s] \<and> ts_unixMilli s = unix_milli t"
  by (simp add: prepareBatch_def one_gauge_def process_metric_def processGauge_def number_points_def
      add_levels_def add_metadata_of_def newBatch_def series_row_def info_of_def Let_def)

definition fine :: "string answers" where
  "fine = \<lparr>ans_prepare = None, ans_append = (\<lambda>_. None), ans_send = None\<rparr>"

definition all_fine :: "string batch_answers" where
  "all_fine = \<lparr>ba_series = fine, ba_samples = fine, ba_expHist = fine, ba_metadata = fine, ba_clock = (\<lambda>_. 0), ba_arrival = rev\<rparr>"

definition series_timeout :: "string batch_answers" where
  "series_timeout = all_fine\<lparr>ba_series := fine\<lparr>ans_send := Some ''timeout''\<rparr>\<rparr>"

definition hour_cache :: "(string, bool, (string, bool) list_ttl) ttlcache" where
  "hour_cache = list_ttl 2700000000000"

definition small_exporter :: "(string, bool) list_ttl clickhouseMetricsExporter" where
  "small_exporter = NewClickHouseExporter hour_cache
     \<lparr>mc_EnableExpHist = False, mc_Database = ''signoz_metrics'', mc_SamplesTable = ''distributed_samples_v4'',
      mc_TimeSeriesTable = ''distributed_time_series_v4'', mc_ExpHistTable = ''distributed_exp_hist'',
      mc_MetadataTable = ''distributed_metadata''\<rparr>"

lemma example_facts [simp]:
  "accepts fine" "ans_prepare fine = None" "ans_append fine = (\<lambda>_. None)" "ans_send fine = None" "fair_arrival all_fine" "fair_arrival series_timeout"
  "ba_series all_fine = fine" "ba_samples all_fine = fine" "ba_expHist all_fine = fine"
  "ba_samples series_timeout = fine" "ba_expHist series_timeout = fine"
  "ba_series series_timeout = fine\<lparr>ans_send := Some ''timeout''\<rparr>"
  "ttl_promises hour_cache list_live" "ttl_lasts 2700000000000 hour_cache list_live" "mono (\<lambda>_. 0 :: instant)"
  by (simp_all add: accepts_def fine_def fair_arrival_def all_fine_def series_timeout_def hour_cache_def
      list_ttl_promises list_ttl_lasts monotone_on_def)

theorem every_series_written_witness:
  "\<exists>r row. Inr r \<in> set (fst (run_pushes plain_lib hour_cache (\<lambda>_. 0) [(all_fine, one_gauge 0)] small_exporter)) \<and>
     wr_sent (rep_series r) \<and> row \<in> set (wr_rows (rep_series r)) \<and> col_unix_milli row = 0"
proof -
  obtain s where s: "b_ts (prepareBatch plain_lib False (one_gauge 0)) = [s]" "ts_unixMilli s = unix_milli 0"
    using one_gauge_series by blast
  have run: "run_pushes plain_lib hour_cache (\<lambda>_. 0) [(all_fine, one_gauge 0)] small_exporter =
      (fst (run_pushes plain_lib hour_cache (\<lambda>_. 0) [(all_fine, one_gauge 0)] small_exporter),
       snd (run_pushes plain_lib hour_cache (\<lambda>_. 0) [(all_fine, one_gauge 0)] small_exporter))" by simp
  from every_series_written [OF _ _ run [unfolded small_exporter_def], of list_live all_fine "one_gauge 0" s] s
  show ?thesis by (auto simp: small_exporter_def unix_milli_def rounded_hour_def)
qed

theorem failed_series_lost_witness:
  "\<exists>r r' e2. run_pushes plain_lib hour_cache (\<lambda>_. 0) [(series_timeout, one_gauge 0), (all_fine, one_gauge 0)] small_exporter =
       ([Inr r, Inr r'], e2) \<and>
     rep_errors r = [''timeout''] \<and> rep_errors r' = [] \<and> wr_sent (rep_series r') \<and>
     set (wr_rows (rep_series r)) \<inter> set (wr_rows (rep_series r')) = {}"
proof -
  obtain r e1 where p: "PushMetrics plain_lib hour_cache (\<lambda>_. 0) series_timeout (one_gauge 0) small_exporter = (Inr r, e1)"
    using PushMetrics_open [of small_exporter] by (force simp: small_exporter_def)
  obtain r' e2 where p': "PushMetrics plain_lib hour_cache (\<lambda>_. 0) all_fine (one_gauge 0) e1 = (Inr r', e2)"
    using PushMetrics_open [OF PushMetrics_series(2) [OF p]] by blast
  have run: "run_pushes plain_lib hour_cache (\<lambda>_. 0) [(series_timeout, one_gauge 0), (all_fine, one_gauge 0)] small_exporter =
      ([Inr r, Inr r'], e2)" by (simp add: p p')
  obtain s where s: "b_ts (prepareBatch plain_lib (enableExpHist small_exporter) (one_gauge 0)) = [s]"
    using one_gauge_series by blast
  have "rep_errors r = [''timeout''] \<and> rep_errors r' = [] \<and> wr_sent (rep_series r') \<and>
      set (wr_rows (rep_series r)) \<inter> set (wr_rows (rep_series r')) = {}"
    by (rule failed_series_lost [OF _ _ _ _ _ _ _ _ _ _ _ _ _ _ run, where live = list_live and ttl = 2700000000000])
      (simp_all add: s clock_at_def)
  with run show ?thesis by blast
qed

text \<open>The same gauge at two hours is two rows.\<close>

lemma push_one_gauge:
  assumes s: "b_ts (prepareBatch plain_lib (enableExpHist e) md) = [s]" and o: "\<not> closed e"
    and c: "list_live (series_cache e) 0 (series_key s) = None"
  shows "\<exists>r e'. PushMetrics plain_lib hour_cache (\<lambda>_. 0) all_fine md e = (Inr r, e') \<and> wr_rows (rep_series r) = [series_columns s] \<and>
    series_cache e' = (series_key s, True, 2700000000000) # series_cache e"
proof -
  have "writeTimeSeries hour_cache (\<lambda>_. 0) fine [s] e =
      (send fine [series_columns s],
       e\<lparr>series_cache := (series_key s, True, 2700000000000) # series_cache e, cache_reads := cache_reads e + 2\<rparr>)"
    using c by (simp add: writeTimeSeries_def series_Get_def series_Set_def hour_cache_def list_ttl_def series_key_def)
  with s o show ?thesis
    by (simp add: PushMetrics_def writeBatch_def Let_def send_def split: prod.splits)
qed

theorem series_appended_once_witness:
  "\<exists>r r' e1 e2 row row'. PushMetrics plain_lib hour_cache (\<lambda>_. 0) all_fine (one_gauge 0) small_exporter = (Inr r, e1) \<and>
     run_pushes plain_lib hour_cache (\<lambda>_. 0) [(all_fine, one_gauge 3600000000000)] e1 = ([Inr r'], e2) \<and>
     wr_rows (rep_series r) = [row] \<and> wr_rows (rep_series r') = [row'] \<and>
     (col_fingerprint row', col_unix_milli row') \<noteq> (col_fingerprint row, col_unix_milli row)"
proof -
  obtain s where s: "b_ts (prepareBatch plain_lib (enableExpHist small_exporter) (one_gauge 0)) = [s]" "ts_unixMilli s = 0"
    using one_gauge_series [of plain_lib _ 0] by (auto simp: unix_milli_def)
  obtain s' where s': "b_ts (prepareBatch plain_lib (enableExpHist small_exporter) (one_gauge 3600000000000)) = [s']"
      "ts_unixMilli s' = 3600000"
    using one_gauge_series [of plain_lib _ 3600000000000] by (auto simp: unix_milli_def)
  have new: "series_key s' \<noteq> series_key s"
    using s(2) s'(2) by (simp add: series_key_def makeCacheKey_inj rounded_hour_def)
  obtain r e1 where p: "PushMetrics plain_lib hour_cache (\<lambda>_. 0) all_fine (one_gauge 0) small_exporter = (Inr r, e1)"
    and r: "wr_rows (rep_series r) = [series_columns s]" "series_cache e1 = [(series_key s, True, 2700000000000)]"
    using push_one_gauge [OF s(1)] by (auto simp: small_exporter_def NewClickHouseExporter_def hour_cache_def list_ttl_def list_live_def)
  have "enableExpHist e1 = enableExpHist small_exporter" "\<not> closed e1" using PushMetrics_series [OF p] by simp_all
  then obtain r' e2 where p': "PushMetrics plain_lib hour_cache (\<lambda>_. 0) all_fine (one_gauge 3600000000000) e1 = (Inr r', e2)"
    and r': "wr_rows (rep_series r') = [series_columns s']"
    using push_one_gauge [of e1 "one_gauge 3600000000000" s'] s'(1) new by (auto simp: r list_live_def)
  have run: "run_pushes plain_lib hour_cache (\<lambda>_. 0) [(all_fine, one_gauge 3600000000000)] e1 = ([Inr r'], e2)"
    by (simp add: p')
  have "(col_fingerprint (series_columns s'), col_unix_milli (series_columns s')) \<noteq>
      (col_fingerprint (series_columns s), col_unix_milli (series_columns s))"
    by (rule series_appended_once [OF _ _ _ p run, where live = list_live and ttl = 2700000000000 and r' = r'])
      (simp_all add: r r' clock_at_def)
  with p run r(1) r' show ?thesis by blast
qed

end
