(* ===== verification/PdataValues.thy ===== *)
theory PdataValues
  imports Fingerprints FloatText
begin

text \<open>
  The attribute values of the exporters: \<^verbatim>\<open>pcommon.Value\<close> as a datatype, a \<^verbatim>\<open>pcommon.Map\<close> as
  the list of its entries, the flattening of nested values (\<^verbatim>\<open>utils/flatten\<close>), and the keys,
  tag types and identifiers of \<^verbatim>\<open>utils/utils.go\<close>. The texts \<^verbatim>\<open>AsString\<close>, \<^verbatim>\<open>%v\<close> and \<^verbatim>\<open>%s\<close> give for
  values that are not strings, and the encoding of JSON, are arguments.
\<close>

section \<open>Values\<close>

datatype pvalue =
    VEmpty
  | VStr string
  | VInt int
  | VDouble float64
  | VBool bool
  | VMap "(string \<times> pvalue) list"
  | VSlice "pvalue list"
  | VBytes string

type_synonym pmap = "(string \<times> pvalue) list"

fun value_type :: "pvalue \<Rightarrow> ValueType" where
  "value_type VEmpty = ValueTypeEmpty"
| "value_type (VStr _) = ValueTypeStr"
| "value_type (VInt _) = ValueTypeInt"
| "value_type (VDouble _) = ValueTypeDouble"
| "value_type (VBool _) = ValueTypeBool"
| "value_type (VMap _) = ValueTypeMap"
| "value_type (VSlice _) = ValueTypeSlice"
| "value_type (VBytes _) = ValueTypeBytes"

text \<open>\<^verbatim>\<open>Str\<close> and \<^verbatim>\<open>Int\<close> of a value of another type are the zero values.\<close>

fun value_Str :: "pvalue \<Rightarrow> string" where
  "value_Str (VStr s) = s"
| "value_Str _ = []"

fun value_Int :: "pvalue \<Rightarrow> int" where
  "value_Int (VInt i) = i"
| "value_Int _ = 0"

record text_lib =
  lib_AsString :: "pvalue \<Rightarrow> string"
  lib_verb_v :: "pvalue \<Rightarrow> string"
  lib_verb_s :: "pvalue \<Rightarrow> string"
  lib_Marshal :: "(string \<times> string) list \<Rightarrow> string"
  lib_MarshalMap :: "pmap \<Rightarrow> string"

text \<open>What the documentation says of them: a string is its own text.\<close>

definition plain_texts :: "text_lib \<Rightarrow> bool" where
  "plain_texts L \<longleftrightarrow> (\<forall>s. lib_AsString L (VStr s) = s \<and> lib_verb_v L (VStr s) = s \<and> lib_verb_s L (VStr s) = s)"

text \<open>Library functions for evaluation, for strings only.\<close>

definition simple_texts :: text_lib where
  "simple_texts = \<lparr>lib_AsString = value_Str, lib_verb_v = value_Str, lib_verb_s = value_Str,
     lib_Marshal = NewLabelsAsJSONString [] \<circ> (\<lambda>m. [m]), lib_MarshalMap = (\<lambda>_. ''{}'')\<rparr>"

lemma simple_texts_plain [simp]: "plain_texts simple_texts"
  by (simp add: plain_texts_def simple_texts_def)

section \<open>Flattening\<close>

text \<open>
  The data come from \<^verbatim>\<open>AsRaw\<close>, so that an integer is an \<^verbatim>\<open>int64\<close> and a number a \<^verbatim>\<open>float64\<close>. The
  order of the entries stands for the order of the range over the map.
\<close>

datatype flat = FlatString string | FlatNumber float64 | FlatBool bool

definition full_key :: "string \<Rightarrow> string \<Rightarrow> string" where
  "full_key pre key = (if pre \<noteq> [] then pre @ ''.'' @ key else key)"

fun FlattenJSON :: "text_lib \<Rightarrow> pmap \<Rightarrow> string \<Rightarrow> (string \<times> flat) list"
  and flatten_entry :: "text_lib \<Rightarrow> string \<Rightarrow> pvalue \<Rightarrow> (string \<times> flat) list"
  and flatten_slice :: "text_lib \<Rightarrow> nat \<Rightarrow> pvalue list \<Rightarrow> string \<Rightarrow> (string \<times> flat) list" where
  "FlattenJSON L [] pre = []"
| "FlattenJSON L ((key, v) # data) pre =
     fold (\<lambda>(k, x). AList.update k x) (FlattenJSON L data pre) (flatten_entry L (full_key pre key) v)"
| "flatten_entry L fullKey (VMap m) = FlattenJSON L m fullKey"
| "flatten_entry L fullKey (VSlice vs) = flatten_slice L 0 vs fullKey"
| "flatten_entry L fullKey (VInt i) = [(fullKey, FlatNumber (float_of_int i))]"
| "flatten_entry L fullKey (VDouble x) = [(fullKey, FlatNumber x)]"
| "flatten_entry L fullKey (VBool b) = [(fullKey, FlatBool b)]"
| "flatten_entry L fullKey (VStr s) = [(fullKey, FlatString (lib_verb_v L (VStr s)))]"
| "flatten_entry L fullKey (VBytes s) = [(fullKey, FlatString (lib_verb_v L (VBytes s)))]"
| "flatten_entry L fullKey VEmpty = [(fullKey, FlatString (lib_verb_v L VEmpty))]"
| "flatten_slice L i [] pre = []"
| "flatten_slice L i (v # vs) pre =
     fold (\<lambda>(k, x). AList.update k x) (flatten_slice L (i + 1) vs pre) (flatten_entry L (full_key pre (show_nat i)) v)"

text \<open>The leaves of nested data with their paths, in order.\<close>

fun leaves :: "text_lib \<Rightarrow> pmap \<Rightarrow> string \<Rightarrow> (string \<times> flat) list"
  and entry_leaves :: "text_lib \<Rightarrow> string \<Rightarrow> pvalue \<Rightarrow> (string \<times> flat) list"
  and slice_leaves :: "text_lib \<Rightarrow> nat \<Rightarrow> pvalue list \<Rightarrow> string \<Rightarrow> (string \<times> flat) list" where
  "leaves L [] path = []"
| "leaves L ((key, v) # data) path = entry_leaves L (full_key path key) v @ leaves L data path"
| "entry_leaves L path (VMap m) = leaves L m path"
| "entry_leaves L path (VSlice vs) = slice_leaves L 0 vs path"
| "entry_leaves L path (VInt i) = [(path, FlatNumber (float_of_int i))]"
| "entry_leaves L path (VDouble x) = [(path, FlatNumber x)]"
| "entry_leaves L path (VBool b) = [(path, FlatBool b)]"
| "entry_leaves L path (VStr s) = [(path, FlatString (lib_verb_v L (VStr s)))]"
| "entry_leaves L path (VBytes s) = [(path, FlatString (lib_verb_v L (VBytes s)))]"
| "entry_leaves L path VEmpty = [(path, FlatString (lib_verb_v L VEmpty))]"
| "slice_leaves L i [] path = []"
| "slice_leaves L i (v # vs) path = entry_leaves L (full_key path (show_nat i)) v @ slice_leaves L (i + 1) vs path"

lemma merge_map_of: "map_of (fold (\<lambda>(k, x). AList.update k x) new old) = map_of (rev new @ old)"
  by (induction new arbitrary: old) (auto simp: update_conv map_add_def fun_eq_iff split: option.splits)

lemma merge_distinct: "distinct (map fst old) \<Longrightarrow> distinct (map fst (fold (\<lambda>(k, x). AList.update k x) new old))"
  by (induction new arbitrary: old) (auto simp: distinct_update)

lemma flatten_lookup:
  "map_of (FlattenJSON L data pre) = map_of (rev (leaves L data pre)) \<and> distinct (map fst (FlattenJSON L data pre))"
  "map_of (flatten_entry L key v) = map_of (rev (entry_leaves L key v)) \<and> distinct (map fst (flatten_entry L key v))"
  "map_of (flatten_slice L i vs pre) = map_of (rev (slice_leaves L i vs pre)) \<and> distinct (map fst (flatten_slice L i vs pre))"
  by (induction L data pre and L key v and L i vs pre rule: FlattenJSON_flatten_entry_flatten_slice.induct)
    (simp_all add: merge_map_of merge_distinct map_of_rev_distinct)


section \<open>Identifiers and keys\<close>

definition hex_lower :: "nat \<Rightarrow> char" where
  "hex_lower d = (if d < 10 then char_of (48 + d) else char_of (87 + d))"

definition EncodeToString :: "byte list \<Rightarrow> string" where
  "EncodeToString bs = concat (map (\<lambda>b. [hex_lower (unat b div 16), hex_lower (unat b mod 16)]) bs)"

text \<open>An identifier of zeros is empty.\<close>

definition id_IsEmpty :: "byte list \<Rightarrow> bool" where
  "id_IsEmpty i \<longleftrightarrow> list_all (\<lambda>b. b = 0) i"

definition TraceIDToHexOrEmptyString :: "byte list \<Rightarrow> string" where
  "TraceIDToHexOrEmptyString traceID = (if \<not> id_IsEmpty traceID then EncodeToString traceID else [])"

definition SpanIDToHexOrEmptyString :: "byte list \<Rightarrow> string" where
  "SpanIDToHexOrEmptyString spanID = (if \<not> id_IsEmpty spanID then EncodeToString spanID else [])"

definition IsValidFloat :: "float64 \<Rightarrow> bool" where
  "IsValidFloat x \<longleftrightarrow> x \<noteq> NaN \<and> x \<noteq> PosInf \<and> x \<noteq> NegInf"

datatype TagType = TagTypeAttribute | TagTypeScope | TagTypeResource | TagTypeSpanField | TagTypeLogField

fun TagType_String :: "TagType \<Rightarrow> string" where
  "TagType_String TagTypeAttribute = ''tag''"
| "TagType_String TagTypeScope = ''scope''"
| "TagType_String TagTypeResource = ''resource''"
| "TagType_String TagTypeSpanField = ''spanfield''"
| "TagType_String TagTypeLogField = ''logfield''"

datatype TagDataType = TagDataTypeString | TagDataTypeBool | TagDataTypeNumber

fun TagDataType_String :: "TagDataType \<Rightarrow> string" where
  "TagDataType_String TagDataTypeString = ''string''"
| "TagDataType_String TagDataTypeBool = ''bool''"
| "TagDataType_String TagDataTypeNumber = ''float64''"

definition MakeKeyForRFCache :: "int \<Rightarrow> string \<Rightarrow> string" where
  "MakeKeyForRFCache bucketTs fingerprint = show_int bucketTs @ '':'' @ fingerprint"

definition MakeKeyForAttributeKeys :: "string \<Rightarrow> string \<Rightarrow> string \<Rightarrow> string" where
  "MakeKeyForAttributeKeys tagKey tagType tagDataType = tagKey @ '':'' @ tagType @ '':'' @ tagDataType"

lemma colon_splits:
  assumes "CHR '':'' \<notin> set a" "CHR '':'' \<notin> set b"
  shows "a @ CHR '':'' # x = b @ CHR '':'' # y \<longleftrightarrow> a = b \<and> x = y"
proof
  assume eq: "a @ CHR '':'' # x = b @ CHR '':'' # y"
  let ?p = "\<lambda>c. c \<noteq> CHR '':''"
  have t: "takeWhile ?p (c @ CHR '':'' # z) = c" if "CHR '':'' \<notin> set c" for c z
    using that by (subst takeWhile_append2) auto
  from eq t [OF assms(1), of x] t [OF assms(2), of y] have "a = b" by simp
  with eq show "a = b \<and> x = y" by simp
qed simp

lemma show_int_chars: "c \<in> set (show_int i) \<Longrightarrow> c = CHR ''-'' \<or> 48 \<le> (of_char c :: nat) \<and> (of_char c :: nat) \<le> 57"
  using show_nat_digits by (auto simp: show_int_def split: if_splits)

lemma show_int_inj [simp]: "show_int i = show_int j \<longleftrightarrow> i = j"
proof
  assume eq: "show_int i = show_int j"
  have "CHR ''-'' \<notin> set (show_nat n)" for n using show_nat_digits [of "CHR ''-''" n] by auto
  then have "show_nat n \<noteq> CHR ''-'' # s" for n s by (metis list.set_intros(1))
  with eq show "i = j"
    by (auto simp: show_int_def eq_commute [of "_ # _" "show_nat _"] split: if_splits dest!: show_nat_inj)
qed simp

lemma MakeKeyForRFCache_inj [simp]: "MakeKeyForRFCache b f = MakeKeyForRFCache b' f' \<longleftrightarrow> b = b' \<and> f = f'"
proof -
  have "CHR '':'' \<notin> set (show_int i)" for i using show_int_chars [of "CHR '':''" i] by auto
  then show ?thesis by (simp add: MakeKeyForRFCache_def colon_splits)
qed

lemma MakeKeyForAttributeKeys_inj:
  assumes "CHR '':'' \<notin> set t" "CHR '':'' \<notin> set d" "CHR '':'' \<notin> set t'" "CHR '':'' \<notin> set d'"
  shows "MakeKeyForAttributeKeys k t d = MakeKeyForAttributeKeys k' t' d' \<longleftrightarrow> k = k' \<and> t = t' \<and> d = d'"
proof -
  have "MakeKeyForAttributeKeys k t d = MakeKeyForAttributeKeys k' t' d' \<longleftrightarrow>
      rev d @ CHR '':'' # rev t @ CHR '':'' # rev k = rev d' @ CHR '':'' # rev t' @ CHR '':'' # rev k'"
    unfolding MakeKeyForAttributeKeys_def by (subst rev_is_rev_conv [symmetric]) simp
  then show ?thesis using assms by (auto simp: colon_splits)
qed

end
