(* ===== verification/ExportRows.thy ===== *)
theory ExportRows
  imports Statements PdataValues Runes
begin

text \<open>
  What the exporters of logs and of traces share: the cells of a row, the templates of the statements,
  the keys to be skipped, the attributes of a workspace, and the resources that a push has
  seen with the rows and the cache keys of these.
\<close>

section \<open>Rows\<close>

datatype cell =
    CellInt int
  | CellString string
  | CellBool bool
  | CellStringList "string list"
  | CellStrings "(string \<times> string) list"
  | CellNumbers "(string \<times> float64) list"
  | CellBools "(string \<times> bool) list"

definition newline_tabs :: "nat \<Rightarrow> string" where
  "newline_tabs n = CHR 0x0A # replicate n (CHR 0x09)"

text \<open>The templates: a line per column, a line per placeholder.\<close>

definition insert_template :: "string list \<Rightarrow> nat \<Rightarrow> nat \<Rightarrow> string \<Rightarrow> string \<Rightarrow> string" where
  "insert_template columns placeholders tabs db table =
     ''INSERT INTO '' @ db @ ''.'' @ table @ '' ('' @ newline_tabs 2 @ join ('','' @ newline_tabs 2) columns @
     newline_tabs 2 @ '') VALUES ('' @ newline_tabs 3 @ join ('','' @ newline_tabs 3) (replicate placeholders ''?'') @
     newline_tabs tabs @ '')''"

definition MaxAttributeValueLength :: nat where "MaxAttributeValueLength = 256"

text \<open>The pattern \<^verbatim>\<open>^signoz.workspace.*\<close>, whose first dot is one character that is not a new line.\<close>

definition ExcludeSigNozWorkspaceResourceAttrs :: "string \<Rightarrow> bool" where
  "ExcludeSigNozWorkspaceResourceAttrs k =
     (let rest = drop (length ''signoz'') k in
      take (length ''signoz'') k = ''signoz'' \<and> rest \<noteq> [] \<and> hd rest \<noteq> CHR 0x0A \<and>
      take (length ''workspace'') (drop (snd (rune_at rest)) rest) = ''workspace'')"

section \<open>Keys to be skipped\<close>

record shouldSkipKey =
  TagKey :: string
  sk_TagType :: string
  sk_TagDataType :: string
  StringCount :: uint64
  NumberCount :: uint64

text \<open>The keys of the map; what \<^verbatim>\<open>Select\<close> gives is kept even with an error.\<close>

definition skip_map :: "shouldSkipKey list \<times> string option \<Rightarrow> string list" where
  "skip_map selected = map (\<lambda>k. MakeKeyForAttributeKeys (TagKey k) (sk_TagType k) (sk_TagDataType k)) (fst selected)"

section \<open>Resources seen\<close>

text \<open>By bucket and labels, the fingerprint; the entries in the order the iteration takes them.\<close>

type_synonym resourcesSeenMap = "(int \<times> (string \<times> string) list) list"

definition getOrCreateFingerprint ::
  "int \<Rightarrow> string \<Rightarrow> string \<Rightarrow> resourcesSeenMap \<Rightarrow> string \<times> resourcesSeenMap" where
  "getOrCreateFingerprint bucket resourceJSON fp r =
     (let innerMap = (case map_of r bucket of Some m \<Rightarrow> m | None \<Rightarrow> []) in
      case map_of innerMap resourceJSON of
        Some fpVal \<Rightarrow> (fpVal, AList.update bucket innerMap r)
      | None \<Rightarrow> (fp, AList.update bucket (AList.update resourceJSON fp innerMap) r))"

definition rangeAll :: "resourcesSeenMap \<Rightarrow> (int \<times> string \<times> string) list" where
  "rangeAll r = concat (map (\<lambda>(bucket, m). map (\<lambda>(resourceJSON, fp). (bucket, resourceJSON, fp)) m) r)"

definition resource_key :: "int \<times> string \<times> string \<Rightarrow> string" where
  "resource_key r = (case r of (bucketTs, _, fp) \<Rightarrow> MakeKeyForRFCache bucketTs fp)"

definition resource_row :: "int \<times> string \<times> string \<Rightarrow> string \<times> string \<times> int" where
  "resource_row r = (case r of (bucketTs, labels, fp) \<Rightarrow> (labels, fp, bucketTs))"

definition row_key :: "string \<times> string \<times> int \<Rightarrow> string" where
  "row_key row = (case row of (labels, fp, bucketTs) \<Rightarrow> MakeKeyForRFCache bucketTs fp)"

lemma row_key_resource: "row_key (resource_row x) = resource_key x"
  by (cases x) (simp add: row_key_def resource_key_def resource_row_def)

lemma row_keys_resources: "row_keys resource_key resource_row X rows \<subseteq> row_key ` set rows"
  unfolding row_keys_def row_key_resource [symmetric] by blast

definition seen_fp :: "resourcesSeenMap \<Rightarrow> int \<Rightarrow> string \<Rightarrow> string option" where
  "seen_fp r b json = (case map_of r b of Some m \<Rightarrow> map_of m json | None \<Rightarrow> None)"

lemma getOrCreate_seen:
  assumes "getOrCreateFingerprint b json fp r = (fp', r')"
  shows "seen_fp r' b json = Some fp'" "seen_fp r b' json' = Some v \<Longrightarrow> seen_fp r' b' json' = Some v"
  using assms
  by (auto simp: getOrCreateFingerprint_def seen_fp_def Let_def update_conv split: option.splits if_splits)

lemma seen_in_range: "seen_fp r b json = Some fp \<Longrightarrow> (b, json, fp) \<in> set (rangeAll r)"
  by (force simp: seen_fp_def rangeAll_def dest: map_of_SomeD split: option.splits)

lemma known_later: "mono now \<Longrightarrow> n \<le> m \<Longrightarrow> known live now (c, m) \<subseteq> known live now (c, n)"
proof -
  assume "mono now" "n \<le> m"
  then have "now n \<le> now m" by (rule monoD)
  then have "now m \<le> t \<Longrightarrow> now n \<le> t" for t by (rule order_trans)
  then show ?thesis unfolding known_def by auto
qed

lemma remembers_later:
  "mono now \<Longrightarrow> n \<le> m \<Longrightarrow> remembers live now until K (c, n) \<Longrightarrow> remembers live now until K (c, m)"
proof -
  assume "mono now" "n \<le> m" "remembers live now until K (c, n)"
  moreover from this(1,2) have "now n \<le> now m" by (rule monoD)
  ultimately show ?thesis unfolding remembers_def by auto
qed

section \<open>The time of rows\<close>

text \<open>The oldest time allowed; the arithmetic of durations and times is that of 64 bits.\<close>

definition oldest_allowed :: "int \<Rightarrow> instant \<Rightarrow> uint64" where
  "oldest_allowed days now = word_of_int (now - days * (24 * 3600000000000))"

definition tsBucket :: "int \<Rightarrow> int \<Rightarrow> int" where
  "tsBucket ts bucketSize = go_div ts bucketSize * bucketSize"

definition bucket_of :: "uint64 \<Rightarrow> int" where
  "bucket_of ts = tsBucket (uint (ts div 1000000000)) 1800"

lemma bucket_word: "uint (word_of_int (bucket_of ts) :: uint64) = bucket_of ts"
proof -
  have "0 \<le> uint (ts div 1000000000)" "uint (ts div 1000000000) < 2 ^ 64"
    using uint_lt2p [of "ts div 1000000000"] by simp_all
  moreover have "bucket_of ts = uint (ts div 1000000000) div 1800 * 1800"
    by (simp add: bucket_of_def tsBucket_def)
  moreover have "x div 1800 * 1800 \<le> x" for x :: int by (simp flip: minus_mod_eq_div_mult)
  ultimately have "0 \<le> bucket_of ts" "bucket_of ts < 2 ^ 64" by (simp_all add: order_le_less_trans pos_imp_zdiv_nonneg_iff)
  then show ?thesis by (simp add: uint_word_of_int)
qed

section \<open>Writing the resources\<close>

definition resource_writes ::
  "(string, unit, 't) ttlcache \<Rightarrow> (nat \<Rightarrow> instant) \<Rightarrow> bool \<Rightarrow> 'e answers \<Rightarrow> resourcesSeenMap \<Rightarrow> 't clocked \<Rightarrow>
    ('e option \<times> (string \<times> string \<times> int) list) \<times> 't clocked" where
  "resource_writes T now stops ans seen s = append_new T now stops ans resource_key resource_row (rangeAll seen) [] s"

lemma resource_writes_known:
  assumes "ttl_sound T live" "mono now" "\<And>i. ans_append ans i = None"
    and "resource_writes T now stops ans seen s = ((err, rows), s')"
  shows "err = None" "resource_key ` set (rangeAll seen) \<subseteq> known live now s \<union> row_key ` set rows"
    "known live now s' \<subseteq> known live now s \<union> row_key ` set rows"
  using append_new_writes [OF assms(1-3) assms(4) [unfolded resource_writes_def]]
    row_keys_resources [of "set (rangeAll seen)" rows] by blast+

lemma resource_writes_once:
  assumes "ttl_promises T live" "ttl_lasts ttl T live" "mono now"
    and "resource_writes T now stops ans seen s = ((err, rows), s')"
    and "now (snd s') \<le> until" "until \<le> now (snd s) + ttl" "remembers live now until K s"
  shows "row_key ` set rows \<inter> K = {} \<and> remembers live now until (K \<union> row_key ` set rows) s'"
proof -
  obtain new where "rows = map resource_row new" "resource_key ` set new \<inter> K = {}"
    "remembers live now until (K \<union> resource_key ` set new) s'"
    using append_new_once [OF assms(1-3) assms(4) [unfolded resource_writes_def] assms(5-7)] by auto
  then show ?thesis by (simp add: image_image row_key_resource)
qed

lemma resource_writes_clock:
  "resource_writes T now stops ans seen s = (res, s') \<Longrightarrow> snd s \<le> snd s'"
  unfolding resource_writes_def by (rule append_new_clock)

section \<open>Answers and a cache for evaluation\<close>

definition quiet :: "string answers" where
  "quiet = \<lparr>ans_prepare = None, ans_append = (\<lambda>_. None), ans_send = None\<rparr>"

definition timing_out :: "string answers" where
  "timing_out = \<lparr>ans_prepare = None, ans_append = (\<lambda>_. None), ans_send = Some ''timeout''\<rparr>"

definition day_cache :: "(string, unit, (string, unit) list_ttl) ttlcache" where
  "day_cache = list_ttl 86400000000000"

lemma quiet_accepts [simp]: "accepts quiet"
  by (simp add: quiet_def accepts_def)

lemma day_cache_promises: "ttl_promises day_cache list_live" "ttl_lasts 86400000000000 day_cache list_live"
  "ttl_sound day_cache list_live"
  using list_ttl_promises [of 86400000000000] promises_sound list_ttl_lasts by (auto simp: day_cache_def)

end
