(* ===== verification/KeyCheck.thy ===== *)
theory KeyCheck
  imports Runes Float64
begin

text \<open>
  Keys that look random (\<^verbatim>\<open>pkg/keycheck/keycheck.go\<close>), which the exporters of logs and of
  metadata leave out. The four regular expressions are written out as matchers; which runes
  beyond ASCII are letters is an argument, the Unicode tables.
\<close>

section \<open>Regular expressions\<close>

definition MaxKeyLength :: nat where "MaxKeyLength = 256"
definition ShortKeyLength :: nat where "ShortKeyLength = 15"
definition MediumKeyLength :: nat where "MediumKeyLength = 25"
definition LetterThreshold :: rat where "LetterThreshold = 7 / 10"

lemmas key_lengths = MaxKeyLength_def ShortKeyLength_def MediumKeyLength_def

definition digit :: "char \<Rightarrow> bool" where
  "digit c \<longleftrightarrow> ascii_digit (of_char c)"

definition hex_digit :: "char \<Rightarrow> bool" where
  "hex_digit c \<longleftrightarrow> digit c \<or> c \<in> set ''abcdefABCDEF''"

definition base64_char :: "char \<Rightarrow> bool" where
  "base64_char c \<longleftrightarrow> digit c \<or> ascii_letter (of_char c) \<or> c = CHR ''+'' \<or> c = CHR ''/''"

text \<open>A sequence of classes matches a string of that length.\<close>

definition matches :: "(char \<Rightarrow> bool) list \<Rightarrow> string \<Rightarrow> bool" where
  "matches classes s \<longleftrightarrow> list_all2 (\<lambda>p c. p c) classes s"

definition uuidRegex :: "string \<Rightarrow> bool" where
  "uuidRegex s \<longleftrightarrow> matches
     (replicate 8 hex_digit @ [\<lambda>c. c = CHR ''-''] @ replicate 4 hex_digit @ [\<lambda>c. c = CHR ''-''] @
      [\<lambda>c. c \<in> set ''12345''] @ replicate 3 hex_digit @ [\<lambda>c. c = CHR ''-''] @
      [\<lambda>c. c \<in> set ''89abAB''] @ replicate 3 hex_digit @ [\<lambda>c. c = CHR ''-''] @ replicate 12 hex_digit) s"

definition hexRegex :: "string \<Rightarrow> bool" where
  "hexRegex s \<longleftrightarrow> 16 \<le> length s \<and> list_all hex_digit s"

definition base64Regex :: "string \<Rightarrow> bool" where
  "base64Regex s \<longleftrightarrow> 16 \<le> length (takeWhile base64_char s) \<and>
     dropWhile base64_char s \<in> {[], ''='', ''==''}"

definition timestampRegex :: "string \<Rightarrow> bool" where
  "timestampRegex s \<longleftrightarrow> matches (replicate 13 digit) s"

section \<open>Letters\<close>

record unicode =
  letter_beyond :: "nat \<Rightarrow> bool"
  lower_beyond :: "nat \<Rightarrow> bool"

definition IsLetter :: "unicode \<Rightarrow> nat \<Rightarrow> bool" where
  "IsLetter u r = (if r < 128 then ascii_letter r else r \<noteq> 0xFFFD \<and> letter_beyond u r)"

definition IsLower :: "unicode \<Rightarrow> nat \<Rightarrow> bool" where
  "IsLower u r = (if r < 128 then 97 \<le> r \<and> r \<le> 122 else r \<noteq> 0xFFFD \<and> lower_beyond u r)"

definition isMostlyLetters :: "unicode \<Rightarrow> string \<Rightarrow> bool" where
  "isMostlyLetters u s \<longleftrightarrow>
     (let n = length (filter (IsLetter u) (runes s)) in
      length s \<noteq> 0 \<and> round_float64 LetterThreshold < round_float64 (of_nat n / of_nat (length s)))"

definition isAlphaLower :: "unicode \<Rightarrow> string \<Rightarrow> bool" where
  "isAlphaLower u s \<longleftrightarrow> \<not> list_ex (\<lambda>r. \<not> IsLower u r \<and> \<not> IsLetter u r) (runes s)"

definition containsNonAlpha :: "unicode \<Rightarrow> string \<Rightarrow> bool" where
  "containsNonAlpha u s \<longleftrightarrow> list_ex (\<lambda>r. \<not> IsLetter u r) (runes s)"

section \<open>Random segments\<close>

definition isBase64String :: "unicode \<Rightarrow> string \<Rightarrow> bool" where
  "isBase64String u s = (if \<not> containsNonAlpha u s then False else base64Regex s)"

definition ulid_rune :: "nat \<Rightarrow> bool" where
  "ulid_rune r \<longleftrightarrow> (65 \<le> r \<and> r \<le> 90 \<or> 48 \<le> r \<and> r \<le> 57) \<and> r \<notin> {73, 76, 79, 85}"

definition isULID :: "string \<Rightarrow> bool" where
  "isULID s = (if length s \<noteq> 26 then False else list_all ulid_rune (runes s))"

definition isRandomSegment :: "unicode \<Rightarrow> string \<Rightarrow> bool" where
  "isRandomSegment u segment =
     (if MaxKeyLength < length segment then True
      else if uuidRegex segment then True
      else if hexRegex segment then True
      else if isBase64String u segment then True
      else if timestampRegex segment then True
      else isULID segment)"

section \<open>Random keys\<close>

text \<open>The loop over the bytes: \<open>segment\<close> is what lies between the start of the segment and the byte.\<close>

fun segments_from :: "unicode \<Rightarrow> string \<Rightarrow> string \<Rightarrow> bool" where
  "segments_from u segment [] = (if segment = [] then False else isRandomSegment u segment)"
| "segments_from u segment (c # key) =
     (if c = CHR ''.'' then
        if segment = [] then segments_from u [] key
        else if isRandomSegment u segment then True
        else segments_from u [] key
      else segments_from u (segment @ [c]) key)"

definition processKeySegments :: "unicode \<Rightarrow> string \<Rightarrow> bool" where
  "processKeySegments u key = segments_from u [] key"

definition IsRandomKey :: "unicode \<Rightarrow> string \<Rightarrow> bool" where
  "IsRandomKey u key =
     (if MaxKeyLength < length key then True
      else if length key \<le> ShortKeyLength \<and> isAlphaLower u key then False
      else if length key \<le> MediumKeyLength \<and> list_ex (\<lambda>c. c \<in> set ''_-'') key \<and> isMostlyLetters u key then False
      else processKeySegments u key)"

section \<open>Segments\<close>

text \<open>A segment of a key lies between dots or the ends, and has none itself.\<close>

definition segment_of :: "string \<Rightarrow> string \<Rightarrow> bool" where
  "segment_of segment key \<longleftrightarrow> (\<exists>before after. key = before @ segment @ after \<and> CHR ''.'' \<notin> set segment \<and>
     (before = [] \<or> last before = CHR ''.'') \<and> (after = [] \<or> hd after = CHR ''.''))"

fun segments :: "string \<Rightarrow> string list" where
  "segments [] = [[]]"
| "segments (c # key) = (if c = CHR ''.'' then [] # segments key else (c # hd (segments key)) # tl (segments key))"

lemma segments_nonempty [simp]: "segments key \<noteq> []"
  by (cases key) auto

lemma segments_from_append:
  "segments_from u segment key \<longleftrightarrow>
    (\<exists>s \<in> set ((segment @ hd (segments key)) # tl (segments key)). s \<noteq> [] \<and> isRandomSegment u s)"
proof (induction u segment key rule: segments_from.induct)
  case (2 u segment c key)
  show ?case
  proof (cases "c = CHR ''.''")
    case True
    have "set (segments key) = insert (hd (segments key)) (set (tl (segments key)))"
      by (metis list.collapse list.simps(15) segments_nonempty)
    with True 2 show ?thesis by auto
  qed (use 2 in auto)
qed auto

lemma hd_segments: "hd (segments key) = takeWhile (\<lambda>c. c \<noteq> CHR ''.'') key"
  by (induction key) auto

lemma first_segment:
  "s = takeWhile (\<lambda>c. c \<noteq> CHR ''.'') key \<longleftrightarrow>
    (\<exists>after. key = s @ after \<and> CHR ''.'' \<notin> set s \<and> (after = [] \<or> hd after = CHR ''.''))" (is "_ \<longleftrightarrow> ?r")
proof
  assume s: "s = takeWhile (\<lambda>c. c \<noteq> CHR ''.'') key"
  have "key = s @ dropWhile (\<lambda>c. c \<noteq> CHR ''.'') key" "CHR ''.'' \<notin> set s"
    by (auto simp: s dest: set_takeWhileD)
  moreover have "dropWhile (\<lambda>c. c \<noteq> CHR ''.'') key = [] \<or> hd (dropWhile (\<lambda>c. c \<noteq> CHR ''.'') key) = CHR ''.''"
    using hd_dropWhile [of "\<lambda>c. c \<noteq> CHR ''.''" key] by blast
  ultimately show ?r by blast
next
  assume ?r
  then obtain after where "key = s @ after" "CHR ''.'' \<notin> set s" "after = [] \<or> hd after = CHR ''.''" by blast
  then show "s = takeWhile (\<lambda>c. c \<noteq> CHR ''.'') key"
    by (cases after) (auto simp: takeWhile_append intro: takeWhile_eq_all_conv [THEN iffD2, symmetric])
qed

lemma later_segments:
  "set (tl (segments key)) = {s. \<exists>before after. before \<noteq> [] \<and> last before = CHR ''.'' \<and> key = before @ s @ after \<and>
    CHR ''.'' \<notin> set s \<and> (after = [] \<or> hd after = CHR ''.'')}" (is "_ = ?later key")
proof (induction key)
  case (Cons c key)
  have step: "?later (c # key) = (if c = CHR ''.'' then insert (hd (segments key)) (?later key) else ?later key)"
  proof (intro set_eqI iffI)
    fix s assume "s \<in> ?later (c # key)"
    then obtain before after where b: "before \<noteq> []" "last before = CHR ''.''" "c # key = before @ s @ after"
      "CHR ''.'' \<notin> set s" "after = [] \<or> hd after = CHR ''.''" by blast
    obtain before' where b': "before = c # before'" using b(1,3) by (cases before) auto
    show "s \<in> (if c = CHR ''.'' then insert (hd (segments key)) (?later key) else ?later key)"
    proof (cases "before' = []")
      case True
      with b b' have "c = CHR ''.''" "s = hd (segments key)"
        unfolding hd_segments first_segment by auto
      then show ?thesis by simp
    next
      case False
      with b b' have "s \<in> ?later key" by auto
      then show ?thesis by simp
    qed
  next
    fix s assume s: "s \<in> (if c = CHR ''.'' then insert (hd (segments key)) (?later key) else ?later key)"
    show "s \<in> ?later (c # key)"
    proof (cases "s \<in> ?later key")
      case True
      then obtain before after where "before \<noteq> []" "last before = CHR ''.''" "key = before @ s @ after"
        "CHR ''.'' \<notin> set s" "after = [] \<or> hd after = CHR ''.''" by blast
      then show ?thesis by (intro CollectI exI [of _ "c # before"] exI [of _ after]) simp
    next
      case False
      with s have "c = CHR ''.''" "s = takeWhile (\<lambda>c. c \<noteq> CHR ''.'') key"
        by (auto simp: hd_segments split: if_splits)
      then show ?thesis unfolding first_segment by (auto intro: exI [of _ "[c]"])
    qed
  qed
  have "set (tl (segments (c # key))) = (if c = CHR ''.'' then insert (hd (segments key)) (set (tl (segments key)))
      else set (tl (segments key)))"
    by simp (metis list.collapse list.simps(15) segments_nonempty)
  then show ?case unfolding step Cons.IH .
qed auto

lemma segments_of: "set (segments key) = {s. segment_of s key}"
proof -
  have "set (segments key) = insert (hd (segments key)) (set (tl (segments key)))"
    by (metis list.collapse list.simps(15) segments_nonempty)
  also have "\<dots> = {s. segment_of s key}"
  proof (intro set_eqI)
    fix s
    have "s = takeWhile (\<lambda>c. c \<noteq> CHR ''.'') key \<Longrightarrow> segment_of s key"
      unfolding first_segment segment_of_def by (metis append_Nil)
    moreover have "s \<in> set (tl (segments key)) \<Longrightarrow> segment_of s key"
      unfolding later_segments segment_of_def by blast
    moreover have "s = takeWhile (\<lambda>c. c \<noteq> CHR ''.'') key \<or> s \<in> set (tl (segments key))" if seg: "segment_of s key"
    proof -
      obtain before after where b: "key = before @ s @ after" "CHR ''.'' \<notin> set s"
        "before = [] \<or> last before = CHR ''.''" "after = [] \<or> hd after = CHR ''.''"
        using seg unfolding segment_of_def by blast
      show ?thesis
      proof (cases "before = []")
        case True
        with b show ?thesis unfolding first_segment by auto
      qed (use b in \<open>unfold later_segments, blast\<close>)
    qed
    ultimately show "s \<in> insert (hd (segments key)) (set (tl (segments key))) \<longleftrightarrow> s \<in> {s. segment_of s key}"
      unfolding hd_segments by blast
  qed
  finally show ?thesis .
qed

text \<open>C27: A key is random exactly when it is longer than 256 bytes, or one of its segments between dots is random
  and it is not one of the two kinds of key taken to be meaningful.\<close>

theorem random_key_exact:
  "IsRandomKey u key \<longleftrightarrow>
     256 < length key \<or>
     (\<exists>segment. segment_of segment key \<and> segment \<noteq> [] \<and> isRandomSegment u segment) \<and>
     \<not> (length key \<le> 15 \<and> isAlphaLower u key) \<and>
     \<not> (length key \<le> 25 \<and> (CHR ''_'' \<in> set key \<or> CHR ''-'' \<in> set key) \<and> isMostlyLetters u key)"
proof -
  have "processKeySegments u key \<longleftrightarrow> (\<exists>s. segment_of s key \<and> s \<noteq> [] \<and> isRandomSegment u s)"
    using segments_of [of key] unfolding processKeySegments_def segments_from_append by auto
  moreover have "list_ex (\<lambda>c. c \<in> set ''_-'') key \<longleftrightarrow> CHR ''_'' \<in> set key \<or> CHR ''-'' \<in> set key"
    by (auto simp: list_ex_iff)
  ultimately show ?thesis by (simp add: IsRandomKey_def key_lengths)
qed

section \<open>Letters exactly\<close>

lemma round_dyadic: "round_float64 (359 / 512) = 359 / 512" "round_float64 (45 / 64) = 45 / 64"
  by code_simp+

text \<open>The comparison in floating point is exact for the keys it is made for.\<close>

lemma mostly_letters_exact:
  assumes "length s \<le> MediumKeyLength"
  shows "isMostlyLetters u s \<longleftrightarrow> 7 * length s < 10 * length (filter (IsLetter u) (runes s))"
proof -
  let ?n = "length (filter (IsLetter u) (runes s))" and ?l = "length s"
  let ?q = "of_nat ?n / of_nat ?l :: rat"
  have l: "?l \<le> 25" using assms by (simp add: MediumKeyLength_def)
  show ?thesis
  proof (cases "7 * ?l < 10 * ?n")
    case True
    then have pos: "0 < ?l" using length_runes [of s] length_filter_le [of "IsLetter u" "runes s"] by linarith
    have "45 * ?l \<le> 64 * ?n" using True l by linarith
    then have "of_nat (45 * ?l) \<le> (of_nat (64 * ?n) :: rat)" unfolding of_nat_le_iff .
    then have "(45 / 64 :: rat) \<le> ?q" using pos by (simp add: field_simps)
    from round_float64_mono [OF this] round_float64_mono [of "7 / 10" "359 / 512"] round_dyadic
    have "round_float64 (7 / 10) < round_float64 ?q" by simp
    with True pos show ?thesis by (simp add: isMostlyLetters_def LetterThreshold_def)
  next
    case False
    then have "of_nat (10 * ?n) \<le> (of_nat (7 * ?l) :: rat)" unfolding of_nat_le_iff by linarith
    then have "?l \<noteq> 0 \<Longrightarrow> ?q \<le> 7 / 10" by (simp add: field_simps)
    from round_float64_mono [OF this] False show ?thesis by (auto simp: isMostlyLetters_def LetterThreshold_def Let_def)
  qed
qed

end
