(* ===== verification/ResourceFingerprint.thy ===== *)
theory ResourceFingerprint
  imports PdataValues
begin

text \<open>
  The fingerprints the exporters of logs and traces give to a resource (\<^verbatim>\<open>utils/fingerprint\<close>): a tree
  of labels ranks what identifies a resource, and a fingerprint is the identifying labels with their
  values and a hash of all attributes.
\<close>

section \<open>Hierarchies of labels\<close>

datatype DimensionHierarchyNode = HierarchyNode (node_labels: "string list") (subHierachies: "DimensionHierarchyNode list")

definition first_nonempty :: "'a list list \<Rightarrow> 'a list" where
  "first_nonempty xss = (case find (\<lambda>xs. xs \<noteq> []) xss of Some xs \<Rightarrow> xs | None \<Rightarrow> [])"

fun Identifier :: "DimensionHierarchyNode \<Rightarrow> pmap \<Rightarrow> (string \<times> pvalue) list" where
  "Identifier (HierarchyNode labels subs) attributes =
     (case find (\<lambda>l. map_of attributes l \<noteq> None) labels of
        Some l \<Rightarrow> [(l, the (map_of attributes l))]
      | None \<Rightarrow> []) @
     first_nonempty (map (\<lambda>s. Identifier s attributes) subs)"

fun Synonyms :: "DimensionHierarchyNode \<Rightarrow> string \<Rightarrow> string list" where
  "Synonyms (HierarchyNode labels subs) attribute =
     (if attribute \<in> set labels then labels
      else first_nonempty (map (\<lambda>h. Synonyms h attribute) subs))"

text \<open>A hierarchy that is nil has no synonyms.\<close>

definition Synonyms_opt :: "DimensionHierarchyNode option \<Rightarrow> string \<Rightarrow> string list" where
  "Synonyms_opt node attribute = (case node of None \<Rightarrow> [] | Some h \<Rightarrow> Synonyms h attribute)"

definition ResourceHierarchy :: DimensionHierarchyNode where
  "ResourceHierarchy =
    (HierarchyNode [''cloud.provider''] [
     (HierarchyNode [''cloud.account.id''] [
      (HierarchyNode [''gcp.project''] [
       (HierarchyNode [''cloud.region'', ''aws.region''] [
        (HierarchyNode [''cloud.platform'', ''source_type''] [
         (HierarchyNode [''k8s.cluster.name'', ''k8s.cluster.uid'', ''aws.ecs.cluster.arn''] [
          (HierarchyNode [''service.namespace'', ''k8s.namespace.name'', ''ec2.tag.service-group''] [
           (HierarchyNode [''service.name'', ''cloudwatch.log.group.name'', ''k8s.deployment.name'',
                    ''k8s.deployment.uid'', ''k8s.statefulset.name'', ''k8s.statefulset.uid'',
                    ''k8s.daemonset.name'', ''k8s.daemonset.uid'', ''k8s.job.name'', ''k8s.job.uid'',
                    ''k8s.cronjob.name'', ''k8s.cronjob.uid'', ''faas.name'', ''ec2.tag.service''] [
            (HierarchyNode [''deployment.environment'', ''ec2.tag.env-short'', ''ec2.tag.env'', ''env''] [
             (HierarchyNode [''service.instance.id'', ''k8s.pod.name'', ''k8s.pod.uid'', ''aws.ecs.task.id'',
                    ''aws.ecs.task.arn'', ''cloudwatch.log.stream'', ''cloud.resource_id'', ''faas.instance'',
                    ''host.id'', ''host.name'', ''host.ip'', ''host''] [
              (HierarchyNode [''k8s.container.name'', ''container.name'', ''container_name''] [
               (HierarchyNode [''component''] [])])])])])]),
          (HierarchyNode [''cloud.availability_zone''] [
           (HierarchyNode [''k8s.node.name'', ''k8s.node.uid'', ''host.id'', ''host.name'', ''host.ip'', ''host''] [
            (HierarchyNode [''k8s.pod.name'', ''k8s.pod.uid'', ''aws.ecs.task.id'', ''aws.ecs.task.arn''] [
             (HierarchyNode [''k8s.container.name'', ''container.name''] [])])])])])])])])])])"

section \<open>Fingerprints\<close>

definition FingerprintHash :: "text_lib \<Rightarrow> pmap \<Rightarrow> uint64" where
  "FingerprintHash L attribs =
     (if attribs = [] then InitialOffset
      else fold (\<lambda>k h.
             let h = hashAdd h k; h = hashAddByte h separatorByte;
                 h = hashAdd h (lib_verb_v L (case map_of attribs k of Some v \<Rightarrow> v | None \<Rightarrow> VEmpty))
             in hashAddByte h separatorByte) (sort (map fst attribs)) InitialOffset)"

definition CalculateFingerprint :: "text_lib \<Rightarrow> pmap \<Rightarrow> DimensionHierarchyNode \<Rightarrow> string" where
  "CalculateFingerprint L attributes hierarchy =
     (let parts = map (\<lambda>(l, v). l @ ''='' @ lib_verb_s L v) (Identifier hierarchy attributes);
          h = FingerprintHash L attributes
      in join '';'' (parts @ [''hash='' @ show_nat (unat h)]))"

section \<open>Identifying labels\<close>

fun nodes :: "DimensionHierarchyNode \<Rightarrow> string list list" where
  "nodes (HierarchyNode labels subs) = labels # concat (map nodes subs)"

lemma first_nonempty_simps [simp]:
  "first_nonempty [] = []"
  "first_nonempty (xs # xss) = (if xs \<noteq> [] then xs else first_nonempty xss)"
  by (simp_all add: first_nonempty_def)

lemma first_nonempty_empty: "first_nonempty xss = [] \<longleftrightarrow> (\<forall>xs \<in> set xss. xs = [])"
  by (induction xss) auto

lemma first_nonempty_in: "first_nonempty xss \<noteq> [] \<Longrightarrow> first_nonempty xss \<in> set xss"
  by (induction xss) (auto split: if_splits)

lemma first_nonempty_elem: "x \<in> set (first_nonempty xss) \<Longrightarrow> \<exists>xs \<in> set xss. x \<in> set xs"
  using first_nonempty_in [of xss] by force


text \<open>The synonyms of an attribute are the labels of the first node, in depth-first order, that has it; there are
  none when no node has it.\<close>

theorem synonyms_exact:
  "Synonyms h attribute = (case find (\<lambda>ls. attribute \<in> set ls) (nodes h) of Some ls \<Rightarrow> ls | None \<Rightarrow> [])"
proof (induction h)
  case (HierarchyNode labels subs)
  have find: "(case find (\<lambda>ls. attribute \<in> set ls) (concat (map nodes hs)) of Some ls \<Rightarrow> ls | None \<Rightarrow> []) =
      first_nonempty (map (\<lambda>h. Synonyms h attribute) hs)" if "set hs \<subseteq> set subs" for hs
    using that
  proof (induction hs)
    case (Cons h hs)
    have f: "find p (xs @ ys) = (case find p xs of None \<Rightarrow> find p ys | Some x \<Rightarrow> Some x)" for p :: "string list \<Rightarrow> bool" and xs ys
      by (induction xs) auto
    from Cons HierarchyNode have "Synonyms h attribute = (case find (\<lambda>ls. attribute \<in> set ls) (nodes h) of Some ls \<Rightarrow> ls | None \<Rightarrow> [])"
      by simp
    moreover have "ls \<noteq> []" if "find (\<lambda>ls. attribute \<in> set ls) (nodes h) = Some ls" for ls
      using that by (auto simp: find_Some_iff)
    ultimately show ?case using Cons by (cases "find (\<lambda>ls. attribute \<in> set ls) (nodes h)") (simp_all add: f)
  qed simp
  show ?case by (simp add: find)
qed

section \<open>Order of attributes\<close>

text \<open>The fingerprint of a resource does not depend on the order of its attributes.\<close>

theorem fingerprint_order_irrelevant:
  assumes "distinct (map fst attributes)" and "mset attributes' = mset attributes"
  shows "CalculateFingerprint L attributes' h = CalculateFingerprint L attributes h"
proof -
  have "distinct (map fst attributes')"
    using assms by (metis mset_eq_imp_distinct_iff mset_map)
  then have m: "map_of attributes' = map_of attributes"
    using assms by (intro map_of_inject_set [THEN iffD2]) (metis mset_eq_setD)+
  have k: "sort (map fst attributes') = sort (map fst attributes)"
    using assms(2) by (metis mset_map sorted_list_of_multiset_mset)
  have e: "attributes' = [] \<longleftrightarrow> attributes = []" using assms(2) by auto
  have "Identifier h attributes' = Identifier h attributes"
    by (induction h) (simp add: m cong: map_cong option.case_cong)
  then show ?thesis unfolding CalculateFingerprint_def FingerprintHash_def m k e by simp
qed

section \<open>Examples\<close>

lemmas hash_defs = FingerprintHash_def hashAdd_def hashAddByte_def prime64_def InitialOffset_def separatorByte_def
  simple_texts_def Let_def

text \<open>The first vector of the unit tests.\<close>

lemma unit_test_hash: "FingerprintHash simple_texts [(''a'', VStr ''b'')] = 15182603570120227210"
  by (simp add: hash_defs)

lemma unit_test_identifier:
  "Identifier ResourceHierarchy [(''cloudwatch.log.stream'', VStr ''mystr''), (''ec2.tag.env'', VStr ''fn-prod''),
     (''host.image.id'', VStr ''ami-fce3c696'')] =
   [(''ec2.tag.env'', VStr ''fn-prod''), (''cloudwatch.log.stream'', VStr ''mystr'')]"
  by (simp add: ResourceHierarchy_def)

theorem fingerprint_order_irrelevant_witness:
  "CalculateFingerprint simple_texts [(''host.image.id'', VStr ''ami''), (''env'', VStr ''prod'')] ResourceHierarchy =
   CalculateFingerprint simple_texts [(''env'', VStr ''prod''), (''host.image.id'', VStr ''ami'')] ResourceHierarchy"
  by (rule fingerprint_order_irrelevant) simp_all

end
