(* ===== verification/PromotedPaths.thy ===== *)
theory PromotedPaths
  imports PdataValues
begin

text \<open>
  Promoted paths of JSON bodies (\<^verbatim>\<open>exporter/clickhouselogsexporter/promoted.go\<close>): the values under
  certain paths are moved from the body into a map of their own. A body that is changed in place is
  returned changed; the order of the range over the set of paths is that of a list.
\<close>

section \<open>Moving a path\<close>

fun map_Remove :: "string \<Rightarrow> pmap \<Rightarrow> pmap" where
  "map_Remove key [] = []"
| "map_Remove key ((k, v) # m) = (if k = key then m else (k, v) # map_Remove key m)"

definition before_dot :: "string \<Rightarrow> string" where
  "before_dot s = takeWhile (\<lambda>c. c \<noteq> CHR ''.'') s"

definition after_dot :: "string \<Rightarrow> string" where
  "after_dot s = tl (dropWhile (\<lambda>c. c \<noteq> CHR ''.'') s)"

lemma after_dot_shorter: "CHR ''.'' \<in> set s \<Longrightarrow> length (after_dot s) < length s"
  by (induction s) (auto simp: after_dot_def)

lemma dot_split: "CHR ''.'' \<in> set s \<Longrightarrow> before_dot s @ ''.'' @ after_dot s = s"
  by (induction s) (auto simp: after_dot_def before_dot_def)

function handleSinglePath :: "pmap \<Rightarrow> pmap \<Rightarrow> string \<Rightarrow> string \<Rightarrow> pmap \<times> pmap" where
  "handleSinglePath bodyMap promotedMap fullPath remainingPath =
     (if map_of bodyMap remainingPath \<noteq> None \<and> value_type (the (map_of bodyMap remainingPath)) \<noteq> ValueTypeMap
      then (map_Remove remainingPath bodyMap, AList.update fullPath (the (map_of bodyMap remainingPath)) promotedMap)
      else if CHR ''.'' \<notin> set remainingPath then (bodyMap, promotedMap)
      else
        let head = before_dot remainingPath; tail = after_dot remainingPath in
        case map_of bodyMap head of
          Some (VMap nestedMap) \<Rightarrow>
            (case handleSinglePath nestedMap promotedMap fullPath tail of
               (nestedMap, promotedMap) \<Rightarrow>
                 (if nestedMap = [] then map_Remove head bodyMap else AList.update head (VMap nestedMap) bodyMap,
                  promotedMap))
        | _ \<Rightarrow> (bodyMap, promotedMap))"
  by pat_completeness auto

termination
  by (relation "measure (\<lambda>(_, _, _, p). length p)") (simp_all add: after_dot_shorter)

declare handleSinglePath.simps [simp del]

definition buildPromotedAndPruneBody :: "pvalue \<Rightarrow> string list \<Rightarrow> pvalue \<times> pmap" where
  "buildPromotedAndPruneBody body promotedPaths =
     (if promotedPaths = [] then (body, [])
      else case body of
        VMap bm \<Rightarrow>
          (case fold (\<lambda>path (bm, pm). handleSinglePath bm pm path path) promotedPaths (bm, []) of
             (bm, pm) \<Rightarrow> (VMap bm, pm))
      | _ \<Rightarrow> (body, []))"

section \<open>Nothing is lost\<close>

text \<open>The values of a map that are not maps themselves, under their paths.\<close>

fun value_paths :: "pmap \<Rightarrow> (string \<times> pvalue) list" where
  "value_paths [] = []"
| "value_paths ((k, VMap m) # rest) = map (\<lambda>(p, v). (k @ ''.'' @ p, v)) (value_paths m) @ value_paths rest"
| "value_paths ((k, v) # rest) = (k, v) # value_paths rest"

definition under :: "string \<Rightarrow> pmap \<Rightarrow> (string \<times> pvalue) list" where
  "under k m = map (\<lambda>(p, v). (k @ ''.'' @ p, v)) (value_paths m)"

lemma value_paths_Cons:
  "value_paths ((k, v) # rest) = (case v of VMap m \<Rightarrow> under k m | _ \<Rightarrow> [(k, v)]) @ value_paths rest"
  by (cases v) (simp_all add: under_def)

lemma paths_found:
  "map_of m k = Some v \<Longrightarrow>
    mset (value_paths m) = mset (value_paths [(k, v)]) + mset (value_paths (map_Remove k m))"
  by (induction m) (auto simp: value_paths_Cons split: pvalue.split)

lemma paths_updated:
  "map_of m k = Some v \<Longrightarrow>
    mset (value_paths (AList.update k w m)) = mset (value_paths [(k, w)]) + mset (value_paths (map_Remove k m))"
  by (induction m) (auto simp: value_paths_Cons split: pvalue.split)

lemma handle_conserves:
  "handleSinglePath body promoted full path = (body', promoted') \<Longrightarrow> full \<notin> fst ` set promoted \<Longrightarrow>
    promoted' = promoted \<and> mset (value_paths body') = mset (value_paths body) \<or>
    (\<exists>v. value_type v \<noteq> ValueTypeMap \<and> promoted' = promoted @ [(full, v)] \<and>
      mset (value_paths body) = add_mset (path, v) (mset (value_paths body')))"
proof (induction body promoted full path arbitrary: body' promoted' rule: handleSinglePath.induct)
  case (1 body promoted full path)
  let ?head = "before_dot path" and ?tail = "after_dot path"
  have new: "AList.update full v promoted = promoted @ [(full, v)]" for v
    using "1.prems"(2) by (induction promoted) auto
  consider (literal) v where "map_of body path = Some v" "value_type v \<noteq> ValueTypeMap"
    | (nested) m where "\<not> (map_of body path \<noteq> None \<and> value_type (the (map_of body path)) \<noteq> ValueTypeMap)"
        "CHR ''.'' \<in> set path" "map_of body ?head = Some (VMap m)"
    | (none) "handleSinglePath body promoted full path = (body, promoted)"
  proof (cases "map_of body path \<noteq> None \<and> value_type (the (map_of body path)) \<noteq> ValueTypeMap")
    case True
    with literal show thesis by auto
  next
    case False
    show thesis
    proof (cases "CHR ''.'' \<in> set path \<and> (\<exists>m. map_of body ?head = Some (VMap m))")
      case True
      with nested False show thesis by blast
    next
      case stop: False
      have "handleSinglePath body promoted full path = (body, promoted)"
        using False stop by (subst handleSinglePath.simps) (auto simp: Let_def split: option.splits pvalue.splits)
      with none show thesis .
    qed
  qed
  then show ?case
  proof cases
    case literal
    then have "body' = map_Remove path body" "promoted' = promoted @ [(full, v)]"
      using "1.prems"(1) new by (simp_all add: handleSinglePath.simps [of body])
    moreover have "value_paths [(path, v)] = [(path, v)]" using literal(2) by (cases v) simp_all
    ultimately show ?thesis using literal paths_found [OF literal(1)] by auto
  next
    case nested
    obtain m' where h: "handleSinglePath m promoted full ?tail = (m', promoted')"
      and b: "body' = (if m' = [] then map_Remove ?head body else AList.update ?head (VMap m') body)"
      using "1.prems"(1) nested by (auto simp: handleSinglePath.simps [of body] Let_def split: prod.splits)
    have IH: "promoted' = promoted \<and> mset (value_paths m') = mset (value_paths m) \<or>
        (\<exists>v. value_type v \<noteq> ValueTypeMap \<and> promoted' = promoted @ [(full, v)] \<and>
          mset (value_paths m) = add_mset (?tail, v) (mset (value_paths m')))"
      using "1.IH" [OF nested(1) _ refl refl nested(3) refl h] nested(2) "1.prems"(2) by simp
    have body: "mset (value_paths body) = mset (under ?head m) + mset (value_paths (map_Remove ?head body))"
      using paths_found [OF nested(3)] by (simp add: under_def)
    have body': "mset (value_paths body') = mset (under ?head m') + mset (value_paths (map_Remove ?head body))"
      using paths_updated [OF nested(3), of "VMap m'"] by (simp add: b under_def)
    have "mset (under ?head n) = image_mset (\<lambda>(p, v). (?head @ ''.'' @ p, v)) (mset (value_paths n))" for n
      by (simp add: under_def)
    with IH body body' dot_split [OF nested(2)] show ?thesis by auto
  next
    case none
    with "1.prems"(1) show ?thesis by simp
  qed
qed

lemma paths_conserved:
  "fold (\<lambda>path (bm, pm). handleSinglePath bm pm path path) paths (bm, pm) = (bm', pm') \<Longrightarrow>
    distinct paths \<Longrightarrow> fst ` set pm \<inter> set paths = {} \<Longrightarrow>
    mset (value_paths bm) + mset pm = mset (value_paths bm') + mset pm' \<and>
    set pm' \<subseteq> set pm \<union> {(p, v). p \<in> set paths \<and> value_type v \<noteq> ValueTypeMap}"
proof (induction paths arbitrary: bm pm)
  case (Cons path paths)
  obtain bm1 pm1 where h: "handleSinglePath bm pm path path = (bm1, pm1)" by fastforce
  have f: "fold (\<lambda>path (bm, pm). handleSinglePath bm pm path path) paths (bm1, pm1) = (bm', pm')"
    using Cons.prems(1) h by simp
  have c: "pm1 = pm \<and> mset (value_paths bm1) = mset (value_paths bm) \<or>
      (\<exists>v. value_type v \<noteq> ValueTypeMap \<and> pm1 = pm @ [(path, v)] \<and>
        mset (value_paths bm) = add_mset (path, v) (mset (value_paths bm1)))"
    using handle_conserves [OF h] Cons.prems(3) by auto
  then have "fst ` set pm1 \<inter> set paths = {}"
    using Cons.prems(2,3) by (elim disjE exE) (simp, simp, blast?)
  from Cons.IH [OF f _ this] Cons.prems(2) c show ?case by auto
qed simp

text \<open>C24: Promotion moves values and loses none: the values of the body, each under its path, are those that stay
  and those that are promoted, and only values that are not maps are promoted, under paths of the
  set.\<close>

theorem promotion_conserves:
  assumes "distinct paths" and "buildPromotedAndPruneBody (VMap body) paths = (VMap body', promoted)"
  shows "mset (value_paths body) = mset (value_paths body') + mset promoted \<and>
    set promoted \<subseteq> {(p, v). p \<in> set paths \<and> value_type v \<noteq> ValueTypeMap}"
proof (cases "paths = []")
  case True
  with assms(2) show ?thesis by (simp add: buildPromotedAndPruneBody_def)
next
  case False
  with assms(2) have "fold (\<lambda>path (bm, pm). handleSinglePath bm pm path path) paths (body, []) = (body', promoted)"
    by (auto simp: buildPromotedAndPruneBody_def split: prod.splits)
  from paths_conserved [OF this assms(1)] show ?thesis by simp
qed

section \<open>Examples\<close>

lemma documented_example:
  "buildPromotedAndPruneBody
     (VMap [(''message'', VStr ''log''), (''user'', VMap [(''id'', VStr ''123''), (''name'', VStr ''john'')])]) [''user.id''] =
   (VMap [(''message'', VStr ''log''), (''user'', VMap [(''name'', VStr ''john'')])], [(''user.id'', VStr ''123'')])"
  by (simp add: buildPromotedAndPruneBody_def handleSinglePath.simps before_dot_def after_dot_def)

theorem promotion_conserves_witness:
  "mset (value_paths [(''message'', VStr ''log''), (''user'', VMap [(''id'', VStr ''123''), (''name'', VStr ''john'')])]) =
   mset (value_paths [(''message'', VStr ''log''), (''user'', VMap [(''name'', VStr ''john'')])]) +
   mset [(''user.id'', VStr ''123'')]"
  using promotion_conserves [OF _ documented_example] by simp

end
