(* ===== verification/LogsPipeline.thy ===== *)
theory LogsPipeline
  imports Prelude
begin

text \<open>
  The goroutines of \<^verbatim>\<open>pushToClickhouse\<close> of the logs exporter
  (\<^verbatim>\<open>exporter/clickhouselogsexporter/exporter.go\<close>) as a step relation: a loop that starts a producer
  per log while the limiter has a free slot, the producers, which send records over a buffered channel
  and then give their slot back, and the one consumer, which stops at an error. The limiter
  and the channel have the same capacity \<open>N\<close>.
\<close>

section \<open>Steps\<close>

datatype 'r produced = Skipped | Failed | Sent 'r

record ('a, 'r) pipeline =
  pp_pending :: "'a list"
  pp_running :: "'a list"
  pp_stream :: "'r list"
  pp_consumed :: "'r list"
  pp_loop :: bool
  pp_consuming :: bool
  pp_cancelled :: bool
  pp_closed :: bool

definition pipe_start :: "'a list \<Rightarrow> ('a, 'r) pipeline" where
  "pipe_start logs = \<lparr>pp_pending = logs, pp_running = [], pp_stream = [], pp_consumed = [],
     pp_loop = True, pp_consuming = True, pp_cancelled = False, pp_closed = False\<rparr>"

text \<open>
  When the context is cancelled and the limiter has a free slot, \<^verbatim>\<open>select\<close> takes either case.
\<close>

inductive pipe_step ::
  "nat \<Rightarrow> ('a \<Rightarrow> 'r produced) \<Rightarrow> ('r \<Rightarrow> bool) \<Rightarrow> ('a, 'r) pipeline \<Rightarrow> ('a, 'r) pipeline \<Rightarrow> bool"
  for N produce accepted where
  start_producer: "pp_loop s \<Longrightarrow> pp_pending s = x # xs \<Longrightarrow> length (pp_running s) < N \<Longrightarrow>
    pipe_step N produce accepted s (s\<lparr>pp_pending := xs, pp_running := pp_running s @ [x]\<rparr>)"
| loop_cancelled: "pp_loop s \<Longrightarrow> pp_cancelled s \<Longrightarrow> pipe_step N produce accepted s (s\<lparr>pp_loop := False\<rparr>)"
| loop_ends: "pp_loop s \<Longrightarrow> pp_pending s = [] \<Longrightarrow> pipe_step N produce accepted s (s\<lparr>pp_loop := False\<rparr>)"
| producer_skips: "x \<in> set (pp_running s) \<Longrightarrow> produce x = Skipped \<Longrightarrow>
    pipe_step N produce accepted s (s\<lparr>pp_running := remove1 x (pp_running s)\<rparr>)"
| producer_fails: "x \<in> set (pp_running s) \<Longrightarrow> produce x = Failed \<Longrightarrow>
    pipe_step N produce accepted s (s\<lparr>pp_running := remove1 x (pp_running s), pp_cancelled := True\<rparr>)"
| producer_sends: "x \<in> set (pp_running s) \<Longrightarrow> produce x = Sent r \<Longrightarrow> length (pp_stream s) < N \<Longrightarrow>
    pipe_step N produce accepted s
      (s\<lparr>pp_running := remove1 x (pp_running s), pp_stream := pp_stream s @ [r]\<rparr>)"
| consumer_accepts: "pp_consuming s \<Longrightarrow> pp_stream s = r # rs \<Longrightarrow> accepted r \<Longrightarrow>
    pipe_step N produce accepted s (s\<lparr>pp_stream := rs, pp_consumed := pp_consumed s @ [r]\<rparr>)"
| consumer_fails: "pp_consuming s \<Longrightarrow> pp_stream s = r # rs \<Longrightarrow> \<not> accepted r \<Longrightarrow>
    pipe_step N produce accepted s (s\<lparr>pp_stream := rs, pp_consuming := False, pp_cancelled := True\<rparr>)"
| consumer_cancelled: "pp_consuming s \<Longrightarrow> pp_cancelled s \<Longrightarrow>
    pipe_step N produce accepted s (s\<lparr>pp_consuming := False\<rparr>)"
| consumer_ends: "pp_consuming s \<Longrightarrow> pp_stream s = [] \<Longrightarrow> pp_closed s \<Longrightarrow>
    pipe_step N produce accepted s (s\<lparr>pp_consuming := False\<rparr>)"
| close_stream: "\<not> pp_loop s \<Longrightarrow> pp_running s = [] \<Longrightarrow> \<not> pp_closed s \<Longrightarrow>
    pipe_step N produce accepted s (s\<lparr>pp_closed := True\<rparr>)"

definition pipe_reachable ::
  "nat \<Rightarrow> ('a \<Rightarrow> 'r produced) \<Rightarrow> ('r \<Rightarrow> bool) \<Rightarrow> 'a list \<Rightarrow> ('a, 'r) pipeline \<Rightarrow> bool" where
  "pipe_reachable N produce accepted logs s \<longleftrightarrow> (pipe_step N produce accepted)\<^sup>*\<^sup>* (pipe_start logs) s"

text \<open>\<^verbatim>\<open>group.Wait\<close> returns when the loop, the producers and the consumer have returned.\<close>

definition pipe_finished :: "('a, 'r) pipeline \<Rightarrow> bool" where
  "pipe_finished s \<longleftrightarrow> \<not> pp_loop s \<and> pp_running s = [] \<and> \<not> pp_consuming s"

definition pipe_stuck :: "nat \<Rightarrow> ('a \<Rightarrow> 'r produced) \<Rightarrow> ('r \<Rightarrow> bool) \<Rightarrow> ('a, 'r) pipeline \<Rightarrow> bool" where
  "pipe_stuck N produce accepted s \<longleftrightarrow> (\<nexists>s'. pipe_step N produce accepted s s')"

fun records_of :: "('a \<Rightarrow> 'r produced) \<Rightarrow> 'a list \<Rightarrow> 'r list" where
  "records_of produce [] = []"
| "records_of produce (x # xs) = (case produce x of Sent r \<Rightarrow> r # records_of produce xs | _ \<Rightarrow> records_of produce xs)"

section \<open>Records are conserved\<close>

lemma records_of_append [simp]: "records_of produce (xs @ ys) = records_of produce xs @ records_of produce ys"
  by (induction xs) (auto split: produced.split)

lemma records_of_remove1:
  "x \<in> set xs \<Longrightarrow> mset (records_of produce xs) =
    (case produce x of Sent r \<Rightarrow> {#r#} | _ \<Rightarrow> {#}) + mset (records_of produce (remove1 x xs))"
  by (induction xs) (auto split: produced.split)

definition pipe_inv :: "nat \<Rightarrow> ('a \<Rightarrow> 'r produced) \<Rightarrow> 'a list \<Rightarrow> ('a, 'r) pipeline \<Rightarrow> bool" where
  "pipe_inv N produce logs s \<longleftrightarrow>
     length (pp_running s) \<le> N \<and> length (pp_stream s) \<le> N \<and>
     (pp_closed s \<longrightarrow> \<not> pp_loop s \<and> pp_running s = []) \<and>
     (\<not> pp_cancelled s \<longrightarrow>
        mset (records_of produce logs) = mset (records_of produce (pp_pending s)) +
          mset (records_of produce (pp_running s)) + mset (pp_stream s) + mset (pp_consumed s) \<and>
        (\<not> pp_loop s \<longrightarrow> pp_pending s = []) \<and>
        (\<not> pp_consuming s \<longrightarrow> pp_stream s = [] \<and> pp_closed s))"

lemma pipe_inv_start [simp]: "pipe_inv N produce logs (pipe_start logs)"
  by (simp add: pipe_inv_def pipe_start_def)

lemma pipe_inv_step:
  assumes "pipe_step N produce accepted s s'" and "pipe_inv N produce logs s"
  shows "pipe_inv N produce logs s'"
  using assms
proof (induction rule: pipe_step.induct)
  case (start_producer s x xs)
  then show ?case by (auto simp: pipe_inv_def split: produced.split)
next
  case (producer_skips x s)
  then show ?case using records_of_remove1 [of x "pp_running s" produce] length_remove1 [of x "pp_running s"]
    by (auto simp: pipe_inv_def split: if_splits)
next
  case (producer_fails x s)
  then show ?case using length_remove1 [of x "pp_running s"] by (auto simp: pipe_inv_def split: if_splits)
next
  case (producer_sends x s r)
  then show ?case using records_of_remove1 [of x "pp_running s" produce] length_remove1 [of x "pp_running s"]
    by (auto simp: pipe_inv_def split: if_splits)
qed (auto simp: pipe_inv_def)

lemma pipe_inv_reachable: "pipe_reachable N produce accepted logs s \<Longrightarrow> pipe_inv N produce logs s"
  unfolding pipe_reachable_def
  by (induction rule: rtranclp_induct) (auto intro: pipe_inv_step)

text \<open>C25: When a push comes to its end and nothing has failed, the consumer has taken exactly the records the
  producers made of the logs, each once, in some order.\<close>

theorem pipeline_conserves:
  assumes "pipe_reachable N produce accepted logs s" and "pipe_finished s" and "\<not> pp_cancelled s"
  shows "mset (pp_consumed s) = mset (records_of produce logs)"
  using pipe_inv_reachable [OF assms(1)] assms(2,3) by (auto simp: pipe_inv_def pipe_finished_def)

section \<open>Progress\<close>

lemma running_moves:
  assumes "x \<in> set (pp_running s)" and "length (pp_stream s) < N"
  shows "\<exists>s'. pipe_step N produce accepted s s'"
  using assms by (cases "produce x") (blast intro: pipe_step.intros)+

text \<open>While nothing has failed a push never hangs: until it is finished it has a next step.\<close>

theorem pipeline_progress:
  assumes "0 < N" and "pipe_reachable N produce accepted logs s" and "\<not> pp_cancelled s" and "\<not> pipe_finished s"
  shows "\<exists>s'. pipe_step N produce accepted s s'"
proof (rule ccontr)
  assume no: "\<nexists>s'. pipe_step N produce accepted s s'"
  note inv = pipe_inv_reachable [OF assms(2), unfolded pipe_inv_def]
  have consuming: "pp_consuming s"
    using inv assms(3,4) by (auto simp: pipe_finished_def)
  have stream: "pp_stream s = []"
  proof (rule ccontr)
    assume "pp_stream s \<noteq> []"
    then obtain r rs where "pp_stream s = r # rs" by (cases "pp_stream s") auto
    with consuming no show False by (cases "accepted r") (blast intro: pipe_step.intros)+
  qed
  with running_moves [of _ s N produce accepted] no assms(1) have "pp_running s = []"
    by (cases "pp_running s") auto
  moreover have "\<not> pp_loop s"
  proof
    assume l: "pp_loop s"
    show False
    proof (cases "pp_pending s")
      case Nil
      with l no show False by (blast intro: pipe_step.intros)
    next
      case (Cons x xs)
      with l no \<open>pp_running s = []\<close> assms(1) show False by (metis list.size(3) pipe_step.start_producer)
    qed
  qed
  ultimately have "pp_closed s" using no by (blast intro: pipe_step.intros)
  with consuming stream no show False by (blast intro: pipe_step.intros)
qed

text \<open>C26: Whatever fails, no push goes on for ever: every sequence of steps ends.\<close>

theorem pipeline_terminates:
  "wfp (\<lambda>s' s. pipe_step N produce accepted s s')"
proof (rule wfp_if_convertible_to_nat)
  fix s' s
  assume "pipe_step N produce accepted s s'"
  then show "4 * length (pp_pending s') + 3 * length (pp_running s') + 2 * length (pp_stream s') +
      (of_bool (pp_loop s') + of_bool (pp_consuming s') + of_bool (\<not> pp_closed s')) <
    4 * length (pp_pending s) + 3 * length (pp_running s) + 2 * length (pp_stream s) +
      (of_bool (pp_loop s) + of_bool (pp_consuming s) + (of_bool (\<not> pp_closed s) :: nat))"
  proof cases
    case (producer_sends x r)
    from this(2) have "0 < length (pp_running s)" by (rule length_pos_if_in_set)
    then obtain n where "length (pp_running s) = Suc n" by (cases "length (pp_running s)") auto
    with producer_sends show ?thesis by (simp add: length_remove1)
  qed (auto simp: length_remove1 dest: length_pos_if_in_set)
qed

section \<open>A push that hangs\<close>

definition filled :: "nat \<Rightarrow> ('a \<Rightarrow> 'r) \<Rightarrow> 'a list \<Rightarrow> nat \<Rightarrow> nat \<Rightarrow> ('a, 'r) pipeline" where
  "filled N f logs k j = (pipe_start logs)\<lparr>pp_pending := drop (k + j) logs, pp_running := take j (drop k logs),
     pp_stream := map f (take k logs)\<rparr>"

lemma fill_stream:
  assumes sent: "\<And>x. produce x = Sent (f x)" and k: "k \<le> N" "k \<le> length logs" and N: "0 < N"
  shows "pipe_reachable N produce accepted logs (filled N f logs k 0)"
  using k
proof (induction k)
  case 0
  have "filled N f logs 0 0 = pipe_start logs" by (simp add: filled_def pipe_start_def)
  then show ?case by (simp add: pipe_reachable_def)
next
  case (Suc k)
  let ?s = "filled N f logs k 0" and ?x = "logs ! k"
  let ?t = "?s\<lparr>pp_pending := drop (Suc k) logs, pp_running := pp_running ?s @ [?x]\<rparr>"
  have pending: "drop k logs = ?x # drop (Suc k) logs" using Suc.prems by (simp add: Cons_nth_drop_Suc)
  have "pipe_step N produce accepted ?s ?t"
    by (rule start_producer) (use pending N in \<open>simp_all add: filled_def pipe_start_def\<close>)
  moreover have "pipe_step N produce accepted ?t
      (?t\<lparr>pp_running := remove1 ?x (pp_running ?t), pp_stream := pp_stream ?t @ [f ?x]\<rparr>)"
    by (rule producer_sends) (use sent Suc.prems in \<open>simp_all add: filled_def pipe_start_def\<close>)
  moreover have "?t\<lparr>pp_running := remove1 ?x (pp_running ?t), pp_stream := pp_stream ?t @ [f ?x]\<rparr> = filled N f logs (Suc k) 0"
    using Suc.prems by (simp add: filled_def pipe_start_def take_Suc_conv_app_nth)
  ultimately show ?case using Suc by (auto simp: pipe_reachable_def intro: rtranclp.rtrancl_into_rtrancl)
qed

lemma fill_slots:
  assumes sent: "\<And>x. produce x = Sent (f x)" and j: "j \<le> N" "N + j \<le> length logs" and N: "0 < N"
  shows "pipe_reachable N produce accepted logs (filled N f logs N j)"
  using j
proof (induction j)
  case 0
  show ?case by (rule fill_stream [OF sent order_refl]) (use 0 N in simp_all)
next
  case (Suc j)
  let ?s = "filled N f logs N j" and ?x = "drop N logs ! j"
  have "drop (N + j) logs = ?x # drop (Suc (N + j)) logs" using Suc.prems by (simp add: Cons_nth_drop_Suc)
  then have "pipe_step N produce accepted ?s
      (?s\<lparr>pp_pending := drop (Suc (N + j)) logs, pp_running := pp_running ?s @ [?x]\<rparr>)"
    using Suc.prems by (intro start_producer) (simp_all add: filled_def pipe_start_def)
  moreover have "?s\<lparr>pp_pending := drop (Suc (N + j)) logs, pp_running := pp_running ?s @ [?x]\<rparr> = filled N f logs N (Suc j)"
    using Suc.prems by (simp add: filled_def pipe_start_def take_Suc_conv_app_nth)
  ultimately show ?case using Suc by (auto simp: pipe_reachable_def intro: rtranclp.rtrancl_into_rtrancl)
qed

text \<open>C9: After an error of the consumer a push can hang for ever: with room for at least two records, at
  least twice as many logs as there is room for, and a first record the consumer cannot append, a state is
  reachable without any step in which producers still wait to send, so that waiting for the group never
  returns.\<close>

theorem pipeline_hangs:
  assumes "2 \<le> N" and "2 * N \<le> length logs" and "\<And>x. produce x = Sent (f x)" and "\<not> accepted (f (hd logs))"
  shows "\<exists>s. pipe_reachable N produce accepted logs s \<and> pipe_stuck N produce accepted s \<and> \<not> pipe_finished s"
proof -
  let ?s = "filled N f logs N N"
  have reach: "pipe_reachable N produce accepted logs ?s"
    by (rule fill_slots [OF assms(3)]) (use assms(1,2) in simp_all)
  obtain x xs where logs: "logs = x # xs" using assms(1,2) by (cases logs) auto
  obtain y ys where running: "take N (drop N logs) = y # ys" "length ys = N - 1"
    using assms(1,2) by (cases "take N (drop N logs)") (auto dest: arg_cong [of _ _ length])
  have stream: "map f (take N logs) = f x # map f (take (N - 1) xs)" "length (take (N - 1) xs) = N - 1"
    using assms(1,2) by (auto simp: logs take_Cons')
  let ?a = "?s\<lparr>pp_stream := map f (take (N - 1) xs), pp_consuming := False, pp_cancelled := True\<rparr>"
  let ?b = "?a\<lparr>pp_running := remove1 y (pp_running ?a), pp_stream := pp_stream ?a @ [f y]\<rparr>"
  let ?c = "?b\<lparr>pp_loop := False\<rparr>"
  have "pipe_step N produce accepted ?s ?a"
    by (rule consumer_fails) (use assms(4) stream in \<open>simp_all add: filled_def pipe_start_def logs\<close>)
  moreover have "pipe_step N produce accepted ?a ?b"
    by (rule producer_sends) (use assms(1,3) running stream in \<open>simp_all add: filled_def pipe_start_def\<close>)
  moreover have "pipe_step N produce accepted ?b ?c"
    by (rule loop_cancelled) (simp_all add: filled_def pipe_start_def)
  ultimately have "pipe_reachable N produce accepted logs ?c"
    using reach by (auto simp: pipe_reachable_def intro: rtranclp.rtrancl_into_rtrancl)
  moreover have c: "pp_running ?c = ys" "length (pp_stream ?c) = N" "\<not> pp_loop ?c" "\<not> pp_consuming ?c"
    using assms(1) running stream by (simp_all add: filled_def pipe_start_def)
  moreover have "ys \<noteq> []" using running(2) assms(1) by auto
  moreover have "pipe_stuck N produce accepted ?c"
    unfolding pipe_stuck_def
  proof
    assume "\<exists>s'. pipe_step N produce accepted ?c s'"
    then obtain s' where "pipe_step N produce accepted ?c s'" by blast
    then show False using c \<open>ys \<noteq> []\<close> assms(3) by cases auto
  qed
  ultimately show ?thesis by (auto simp: pipe_finished_def intro!: exI [of _ ?c])
qed

section \<open>Examples\<close>

theorem pipeline_conserves_witness:
  "\<exists>s. pipe_reachable 1 (\<lambda>x. Sent x) (\<lambda>_. True) [7 :: nat] s \<and> pipe_finished s \<and> mset (pp_consumed s) = mset [7]"
proof -
  let ?s1 = "(pipe_start [7 :: nat])\<lparr>pp_pending := [], pp_running := [7]\<rparr> :: (nat, nat) pipeline"
  let ?s2 = "?s1\<lparr>pp_running := [], pp_stream := [7]\<rparr>" let ?s3 = "?s2\<lparr>pp_stream := [], pp_consumed := [7]\<rparr>"
  let ?s4 = "?s3\<lparr>pp_loop := False\<rparr>" let ?s5 = "?s4\<lparr>pp_closed := True\<rparr>" let ?s6 = "?s5\<lparr>pp_consuming := False\<rparr>"
  let ?step = "pipe_step 1 (\<lambda>x :: nat. Sent x) (\<lambda>_. True)"
  have "?step (pipe_start [7]) ?s1" using start_producer [of "pipe_start [7]" 7 "[]" 1 "\<lambda>x. Sent x" "\<lambda>_. True"]
    by (simp add: pipe_start_def)
  moreover have "?step ?s1 ?s2" using producer_sends [of 7 ?s1 "\<lambda>x. Sent x" 7 1 "\<lambda>_. True"] by (simp add: pipe_start_def)
  moreover have "?step ?s2 ?s3" using consumer_accepts [of ?s2 7 "[]" "\<lambda>_. True" 1 "\<lambda>x. Sent x"] by (simp add: pipe_start_def)
  moreover have "?step ?s3 ?s4" by (rule loop_ends) (simp_all add: pipe_start_def)
  moreover have "?step ?s4 ?s5" by (rule close_stream) (simp_all add: pipe_start_def)
  moreover have "?step ?s5 ?s6" by (rule consumer_ends) (simp_all add: pipe_start_def)
  ultimately have "pipe_reachable 1 (\<lambda>x. Sent x) (\<lambda>_. True) [7] ?s6"
    unfolding pipe_reachable_def by (meson converse_rtranclp_into_rtranclp rtranclp.rtrancl_refl)
  moreover have "pipe_finished ?s6" "\<not> pp_cancelled ?s6" by (simp_all add: pipe_finished_def pipe_start_def)
  moreover note pipeline_conserves [OF calculation]
  ultimately show ?thesis by (intro exI [of _ ?s6]) simp
qed

theorem pipeline_hangs_witness:
  "\<exists>s. pipe_reachable 2 (\<lambda>x. Sent x) (\<lambda>r. r \<noteq> 1) [1, 2, 3, 4 :: nat] s \<and>
     pipe_stuck 2 (\<lambda>x. Sent x) (\<lambda>r. r \<noteq> 1) s \<and> \<not> pipe_finished s"
  by (rule pipeline_hangs [where f = "\<lambda>x. x"]) simp_all

theorem pipeline_progress_witness:
  "\<exists>s'. pipe_step 1 (\<lambda>x. Sent x) (\<lambda>_. True) (pipe_start [7 :: nat] :: (nat, nat) pipeline) s'"
  by (rule pipeline_progress [where logs = "[7]"]) (simp_all add: pipe_reachable_def pipe_start_def pipe_finished_def)

end
