(* ===== verification/LogsExporter.thy ===== *)
theory LogsExporter
  imports ExportRows KeyCheck ResourceFingerprint PromotedPaths LogsPipeline
begin

text \<open>
  The logs exporter (\<^verbatim>\<open>exporter/clickhouselogsexporter/exporter.go\<close>): the records made of logs, the
  statements they are appended to, the caches of attribute keys and of resource fingerprints, and a push
  with its errors, which are texts. The goroutines of a push are \<open>LogsPipeline\<close>; here the
  producers run and the consumer receives in an order that is an argument. The answers of ClickHouse, the
  clock, the identifiers and the caches are arguments.
\<close>

section \<open>Logs\<close>

record log_record =
  lg_Timestamp :: uint64
  lg_ObservedTimestamp :: uint64
  lg_TraceID :: "byte list"
  lg_SpanID :: "byte list"
  lg_Flags :: "32 word"
  lg_SeverityText :: string
  lg_SeverityNumber :: int
  lg_Body :: pvalue
  lg_Attributes :: pmap

record scope_logs =
  sl_Name :: string
  sl_Version :: string
  sl_Attributes :: pmap
  sl_LogRecords :: "log_record list"

record resource_logs =
  rl_Attributes :: pmap
  rl_ScopeLogs :: "scope_logs list"

record attributeMap =
  StringData :: "(string \<times> string) list"
  NumberData :: "(string \<times> float64) list"
  BoolData :: "(string \<times> bool) list"

record Record =
  rec_tsBucketStart :: uint64
  rec_resourceFP :: string
  rec_ts :: uint64
  rec_ots :: uint64
  rec_id :: string
  rec_traceID :: string
  rec_spanID :: string
  rec_traceFlags :: "32 word"
  rec_severityText :: string
  rec_severityNum :: byte
  rec_body :: string
  rec_bodyJSON :: string
  rec_bodyJSONPromoted :: string
  rec_scopeName :: string
  rec_scopeVersion :: string
  rec_resourceMap :: attributeMap
  rec_scopeMap :: attributeMap
  rec_attrsMap :: attributeMap
  rec_logFields :: attributeMap
  rec_recordSize :: int

section \<open>Statements\<close>

definition databaseName :: string where "databaseName = ''signoz_logs''"
definition distributedTagAttributesV2 :: string where "distributedTagAttributesV2 = ''distributed_tag_attributes_v2''"
definition distributedLogsTableV2 :: string where "distributedLogsTableV2 = ''distributed_logs_v2''"
definition distributedLogsResourceV2 :: string where "distributedLogsResourceV2 = ''distributed_logs_v2_resource''"

definition insertLogsResourceSQLTemplate :: "string \<Rightarrow> string \<Rightarrow> string" where
  "insertLogsResourceSQLTemplate = insert_template [''labels'', ''fingerprint'', ''seen_at_ts_bucket_start''] 3 1"

definition log_columns :: "bool \<Rightarrow> string list" where
  "log_columns withBodyJSON =
     [''ts_bucket_start'', ''resource_fingerprint'', ''timestamp'', ''observed_timestamp'', ''id'', ''trace_id'',
      ''span_id'', ''trace_flags'', ''severity_text'', ''severity_number'', ''body''] @
     (if withBodyJSON then [''body_json'', ''body_json_promoted''] else []) @
     [''attributes_string'', ''attributes_number'', ''attributes_bool'', ''resources_string'', ''resource'',
      ''scope_name'', ''scope_version'', ''scope_string'']"

definition insertLogsSQLTemplateV2 :: "string \<Rightarrow> string \<Rightarrow> string" where
  "insertLogsSQLTemplateV2 = insert_template (log_columns False) 19 3"

definition insertLogsSQLTemplateV2WithBodyJSON :: "string \<Rightarrow> string \<Rightarrow> string" where
  "insertLogsSQLTemplateV2WithBodyJSON = insert_template (log_columns True) 21 3"

definition renderInsertLogsSQLV2 :: "bool \<Rightarrow> string" where
  "renderInsertLogsSQLV2 includeBodyJSON =
     (let template = (if includeBodyJSON then insertLogsSQLTemplateV2WithBodyJSON else insertLogsSQLTemplateV2)
      in template databaseName distributedLogsTableV2)"

definition renderInsertLogsResourceSQL :: string where
  "renderInsertLogsResourceSQL = insertLogsResourceSQLTemplate databaseName distributedLogsResourceV2"

section \<open>The exporter\<close>

record logs_config =
  lc_BodyJSONEnabled :: bool
  lc_BodyJSONOldBodyEnabled :: bool
  lc_MaxDistinctValues :: int

text \<open>The keys of the map of keys to skip; the number of readings of the clock.\<close>

record 't clickhouseLogsExporter =
  insertLogsSQLV2 :: string
  insertLogsResourceSQL :: string
  bodyJSONEnabled :: bool
  bodyJSONOldBodyEnabled :: bool
  keysCache :: 't
  rfCache :: 't
  shouldSkipKeyValue :: "string list option"
  maxDistinctValues :: int
  maxAllowedDataAgeDays :: int
  promotedPaths :: "string list"
  logs_closed :: bool
  clock_reads :: nat

text \<open>The libraries: texts, Unicode, the two caches, the clock, identifiers for the log with a number.\<close>

record 't logs_env =
  le_texts :: text_lib
  le_unicode :: unicode
  le_keysT :: "(string, unit, 't) ttlcache"
  le_rfT :: "(string, unit, 't) ttlcache"
  le_now :: "nat \<Rightarrow> instant"
  le_ksuid :: "nat \<Rightarrow> instant \<Rightarrow> string + string"
  le_observed :: "nat \<Rightarrow> instant"

definition newExporter :: "'t logs_env \<Rightarrow> logs_config \<Rightarrow> 't clickhouseLogsExporter" where
  "newExporter E cfg = \<lparr>
     insertLogsSQLV2 = renderInsertLogsSQLV2 (lc_BodyJSONEnabled cfg), insertLogsResourceSQL = renderInsertLogsResourceSQL,
     bodyJSONEnabled = lc_BodyJSONEnabled cfg, bodyJSONOldBodyEnabled = lc_BodyJSONOldBodyEnabled cfg,
     keysCache = ttl_New (le_keysT E), rfCache = ttl_New (le_rfT E), shouldSkipKeyValue = None,
     maxDistinctValues = lc_MaxDistinctValues cfg, maxAllowedDataAgeDays = 15, promotedPaths = [],
     logs_closed = False, clock_reads = 0\<rparr>"

definition doFetchShouldSkipKeys ::
  "shouldSkipKey list \<times> string option \<Rightarrow> 't clickhouseLogsExporter \<Rightarrow> 't clickhouseLogsExporter" where
  "doFetchShouldSkipKeys selected e = e\<lparr>shouldSkipKeyValue := Some (skip_map selected)\<rparr>"

definition doFetchPromotedPaths ::
  "string list \<times> string option \<Rightarrow> 't clickhouseLogsExporter \<Rightarrow> 't clickhouseLogsExporter" where
  "doFetchPromotedPaths selected e =
     (if snd selected \<noteq> None then e
      else e\<lparr>promotedPaths := remdups (filter (\<lambda>path. path \<noteq> []) (fst selected))\<rparr>)"

definition logs_Start ::
  "shouldSkipKey list \<times> string option \<Rightarrow> string list \<times> string option \<Rightarrow> 't clickhouseLogsExporter \<Rightarrow>
    't clickhouseLogsExporter" where
  "logs_Start keys paths e =
     (let e = doFetchShouldSkipKeys keys e
      in if bodyJSONEnabled e then doFetchPromotedPaths paths e else e)"

definition logs_Shutdown :: "'t clickhouseLogsExporter \<Rightarrow> 't clickhouseLogsExporter outcome" where
  "logs_Shutdown e = (if logs_closed e then Panics else Done (e\<lparr>logs_closed := True\<rparr>))"

section \<open>Attributes and bodies\<close>

definition attributesToMap :: "text_lib \<Rightarrow> pmap \<Rightarrow> bool \<Rightarrow> attributeMap" where
  "attributesToMap L attributes forceStringValues =
     fold (\<lambda>(k, v) response.
         if forceStringValues then response\<lparr>StringData := AList.update k (lib_AsString L v) (StringData response)\<rparr>
         else case v of
           VInt i \<Rightarrow> response\<lparr>NumberData := AList.update k (float_of_int i) (NumberData response)\<rparr>
         | VDouble x \<Rightarrow> response\<lparr>NumberData := AList.update k x (NumberData response)\<rparr>
         | VBool b \<Rightarrow> response\<lparr>BoolData := AList.update k b (BoolData response)\<rparr>
         | _ \<Rightarrow> response\<lparr>StringData := AList.update k (lib_AsString L v) (StringData response)\<rparr>)
       attributes \<lparr>StringData = [], NumberData = [], BoolData = []\<rparr>"

fun getStringifiedBody :: "text_lib \<Rightarrow> pvalue \<Rightarrow> string" where
  "getStringifiedBody L (VBytes s) = s"
| "getStringifiedBody L body = lib_AsString L body"

definition processBody :: "text_lib \<Rightarrow> 't clickhouseLogsExporter \<Rightarrow> pvalue \<Rightarrow> string \<times> string \<times> string" where
  "processBody L e body =
     (case (if bodyJSONEnabled e \<and> value_type body = ValueTypeMap then
              (case buildPromotedAndPruneBody body (promotedPaths e) of
                 (bodyJSON, promoted) \<Rightarrow>
                   (if \<not> bodyJSONOldBodyEnabled e then VEmpty else body, bodyJSON, VMap promoted))
            else (body, VMap [], VMap [])) of
        (body, bodyJSON, promoted) \<Rightarrow>
          (getStringifiedBody L body, getStringifiedBody L bodyJSON, getStringifiedBody L promoted))"

definition getResourceAttributesByte :: "text_lib \<Rightarrow> pmap \<Rightarrow> string" where
  "getResourceAttributesByte L attributes =
     lib_MarshalMap L (filter (\<lambda>(k, v). \<not> ExcludeSigNozWorkspaceResourceAttrs k) attributes)"

section \<open>Tags\<close>

record log_answers =
  la_tags :: "string answers"
  la_attributeKeys :: "string answers"
  la_resourceKeys :: "string answers"
  la_logs :: "string answers"
  la_resources :: "string answers"

type_synonym tag_row = "int \<times> string \<times> TagType \<times> TagDataType \<times> string option \<times> float64 option"

text \<open>What the consumer has appended, and the usage it has counted.\<close>

record consumed =
  cs_tags :: "tag_row list"
  cs_attributeKeys :: "(string \<times> TagDataType) list"
  cs_resourceKeys :: "(string \<times> TagDataType) list"
  cs_logs :: "cell list list"
  cs_metrics :: "(string \<times> int \<times> int) list"

definition nothing_consumed :: consumed where
  "nothing_consumed = \<lparr>cs_tags = [], cs_attributeKeys = [], cs_resourceKeys = [], cs_logs = [], cs_metrics = []\<rparr>"

definition attribute_key :: "string \<Rightarrow> TagType \<Rightarrow> TagDataType \<Rightarrow> string" where
  "attribute_key key tagType datatype = MakeKeyForAttributeKeys key (TagType_String tagType) (TagDataType_String datatype)"

definition keys_Get :: "'t logs_env \<Rightarrow> string \<Rightarrow> 't clickhouseLogsExporter \<Rightarrow> unit option \<times> 't clickhouseLogsExporter" where
  "keys_Get E k e =
     (case cache_Get (le_keysT E) (le_now E) k (keysCache e, clock_reads e) of
        (item, (c, n)) \<Rightarrow> (item, e\<lparr>keysCache := c, clock_reads := n\<rparr>))"

definition keys_Set :: "'t logs_env \<Rightarrow> string \<Rightarrow> 't clickhouseLogsExporter \<Rightarrow> 't clickhouseLogsExporter" where
  "keys_Set E k e =
     (case cache_Set (le_keysT E) (le_now E) k () (keysCache e, clock_reads e) of
        (c, n) \<Rightarrow> e\<lparr>keysCache := c, clock_reads := n\<rparr>)"

definition addAttrsToAttributeKeysStatement ::
  "'t logs_env \<Rightarrow> log_answers \<Rightarrow> string \<Rightarrow> TagType \<Rightarrow> TagDataType \<Rightarrow> consumed \<times> 't clickhouseLogsExporter \<Rightarrow>
    consumed \<times> 't clickhouseLogsExporter" where
  "addAttrsToAttributeKeysStatement E A key tagType datatype ce =
     (case ce of (cs, e) \<Rightarrow>
        if IsRandomKey (le_unicode E) key then (cs, e)
        else let cacheKey = attribute_key key tagType datatype in
          case keys_Get E cacheKey e of
            (Some _, e) \<Rightarrow> (cs, e)
          | (None, e) \<Rightarrow>
              ((case tagType of
                  TagTypeResource \<Rightarrow> cs\<lparr>cs_resourceKeys := append_ignoring (la_resourceKeys A) (key, datatype) (cs_resourceKeys cs)\<rparr>
                | TagTypeAttribute \<Rightarrow> cs\<lparr>cs_attributeKeys := append_ignoring (la_attributeKeys A) (key, datatype) (cs_attributeKeys cs)\<rparr>
                | _ \<Rightarrow> cs), keys_Set E cacheKey e))"

text \<open>One attribute of one of the three maps: only strings have a length, and a text of the error.\<close>

definition addTag ::
  "'t logs_env \<Rightarrow> log_answers \<Rightarrow> int \<Rightarrow> TagType \<Rightarrow> TagDataType \<Rightarrow> string list \<Rightarrow> string \<Rightarrow> string \<Rightarrow> string option \<Rightarrow>
    float64 option \<Rightarrow> consumed \<times> 't clickhouseLogsExporter \<Rightarrow> string option \<times> consumed \<times> 't clickhouseLogsExporter" where
  "addTag E A unixMilli tagType datatype shouldSkipKeys what key strVal numVal ce =
     (if IsRandomKey (le_unicode E) key then (None, ce)
      else case addAttrsToAttributeKeysStatement E A key tagType datatype ce of
        (cs, e) \<Rightarrow>
          if (case strVal of Some v \<Rightarrow> MaxAttributeValueLength < length v | None \<Rightarrow> False) then (None, cs, e)
          else if attribute_key key tagType datatype \<in> set shouldSkipKeys then (None, cs, e)
          else case ans_append (la_tags A) (length (cs_tags cs)) of
            Some err \<Rightarrow> (Some (''could not append '' @ what @ '' attribute to batch, err: '' @ err), cs, e)
          | None \<Rightarrow> (None, cs\<lparr>cs_tags := cs_tags cs @ [(unixMilli, key, tagType, datatype, strVal, numVal)]\<rparr>, e))"

definition addAttrsToTagStatement ::
  "'t logs_env \<Rightarrow> log_answers \<Rightarrow> TagType \<Rightarrow> attributeMap \<Rightarrow> string list \<Rightarrow> consumed \<times> 't clickhouseLogsExporter \<Rightarrow>
    string option \<times> consumed \<times> 't clickhouseLogsExporter" where
  "addAttrsToTagStatement E A tagType attrs shouldSkipKeys ce =
     (let e = snd ce;
          unixMilli = go_div (le_now E (clock_reads e) div 1000000) 3600000 * 3600000;
          ce = (fst ce, e\<lparr>clock_reads := clock_reads e + 1\<rparr>)
      in case for_each (\<lambda>(k, v). addTag E A unixMilli tagType TagDataTypeString shouldSkipKeys ''string'' k (Some v) None)
             (StringData attrs) ce of
           (Some err, ce) \<Rightarrow> (Some err, ce)
         | (None, ce) \<Rightarrow>
             case for_each (\<lambda>(k, v). addTag E A unixMilli tagType TagDataTypeNumber shouldSkipKeys ''number'' k None (Some v))
                 (NumberData attrs) ce of
               (Some err, ce) \<Rightarrow> (Some err, ce)
             | (None, ce) \<Rightarrow>
                 for_each (\<lambda>(k, v). addTag E A unixMilli tagType TagDataTypeBool shouldSkipKeys ''bool'' k None None)
                   (BoolData attrs) ce)"

section \<open>The consumer\<close>

definition log_args :: "bool \<Rightarrow> Record \<Rightarrow> cell list" where
  "log_args withBodyJSON rec =
     [CellInt (uint (rec_tsBucketStart rec)), CellString (rec_resourceFP rec), CellInt (uint (rec_ts rec)),
      CellInt (uint (rec_ots rec)), CellString (rec_id rec), CellString (rec_traceID rec), CellString (rec_spanID rec),
      CellInt (uint (rec_traceFlags rec)), CellString (rec_severityText rec), CellInt (uint (rec_severityNum rec)),
      CellString (rec_body rec)] @
     (if withBodyJSON then [CellString (rec_bodyJSON rec), CellString (rec_bodyJSONPromoted rec)] else []) @
     [CellStrings (StringData (rec_attrsMap rec)), CellNumbers (NumberData (rec_attrsMap rec)),
      CellBools (BoolData (rec_attrsMap rec)), CellStrings (StringData (rec_resourceMap rec)),
      CellStrings (StringData (rec_resourceMap rec)), CellString (rec_scopeName rec), CellString (rec_scopeVersion rec),
      CellStrings (StringData (rec_scopeMap rec))]"

definition GetTenantNameFromResource :: string where
  "GetTenantNameFromResource = ''default''"

text \<open>The tags of the log fields are the only ones whose error is passed over.\<close>

definition consume ::
  "'t logs_env \<Rightarrow> log_answers \<Rightarrow> string list \<Rightarrow> Record \<Rightarrow> consumed \<times> 't clickhouseLogsExporter \<Rightarrow>
    string option \<times> consumed \<times> 't clickhouseLogsExporter" where
  "consume E A shouldSkipKeys rec ce =
     (case addAttrsToTagStatement E A TagTypeResource (rec_resourceMap rec) shouldSkipKeys ce of
        (Some err, ce) \<Rightarrow> (Some err, ce)
      | (None, ce) \<Rightarrow>
          case addAttrsToTagStatement E A TagTypeScope (rec_scopeMap rec) shouldSkipKeys ce of
            (Some err, ce) \<Rightarrow> (Some err, ce)
          | (None, ce) \<Rightarrow>
              case addAttrsToTagStatement E A TagTypeAttribute (rec_attrsMap rec) shouldSkipKeys ce of
                (Some err, ce) \<Rightarrow> (Some err, ce)
              | (None, ce) \<Rightarrow>
                  case addAttrsToTagStatement E A TagTypeLogField (rec_logFields rec) shouldSkipKeys ce of
                    (_, (cs, e)) \<Rightarrow>
                      case ans_append (la_logs A) (length (cs_logs cs)) of
                        Some err \<Rightarrow> (Some (''StatementAppendLogsV2:'' @ err), cs, e)
                      | None \<Rightarrow>
                          (None, cs\<lparr>cs_logs := cs_logs cs @ [log_args (bodyJSONEnabled e) rec],
                             cs_metrics := AddMetric GetTenantNameFromResource 1 (rec_recordSize rec) (cs_metrics cs)\<rparr>, e))"

section \<open>The producers\<close>

text \<open>A log with its resource and scope, and what is computed once for these.\<close>

record log_source =
  src_attributes :: pmap
  src_resourcesMap :: attributeMap
  src_resourceJson :: string
  src_resBytes :: string
  src_scopeName :: string
  src_scopeVersion :: string
  src_scopeMap :: attributeMap
  src_record :: log_record

definition log_sources :: "'t logs_env \<Rightarrow> resource_logs list \<Rightarrow> log_source list" where
  "log_sources E ld =
     concat (map (\<lambda>rl.
       let L = le_texts E;
           resBytes = getResourceAttributesByte L (rl_Attributes rl);
           resourcesMap = attributesToMap L (rl_Attributes rl) True;
           resourceJson = lib_Marshal L (StringData resourcesMap)
       in concat (map (\<lambda>sl.
            let scopeMap = attributesToMap L (sl_Attributes sl) True
            in map (\<lambda>r. \<lparr>src_attributes = rl_Attributes rl, src_resourcesMap = resourcesMap, src_resourceJson = resourceJson,
                 src_resBytes = resBytes, src_scopeName = sl_Name sl, src_scopeVersion = sl_Version sl,
                 src_scopeMap = scopeMap, src_record = r\<rparr>) (sl_LogRecords sl)) (rl_ScopeLogs rl))) ld)"

text \<open>The time of a log, which falls back on the time it was observed and then on the clock.\<close>

definition log_ots :: "'t logs_env \<Rightarrow> nat \<Rightarrow> log_record \<Rightarrow> uint64" where
  "log_ots E i r = (if lg_ObservedTimestamp r = 0 then word_of_int (le_observed E i) else lg_ObservedTimestamp r)"

definition log_ts :: "'t logs_env \<Rightarrow> nat \<Rightarrow> log_record \<Rightarrow> uint64" where
  "log_ts E i r = (if lg_Timestamp r = 0 then log_ots E i r else lg_Timestamp r)"

text \<open>The record of a log, given the fingerprint of its resource and its identifier.\<close>

definition make_record ::
  "'t logs_env \<Rightarrow> 't clickhouseLogsExporter \<Rightarrow> nat \<Rightarrow> log_source \<Rightarrow> string \<Rightarrow> string \<Rightarrow> Record" where
  "make_record E e i src fp ident =
     (let r = src_record src; L = le_texts E in
      case processBody L e (lg_Body r) of
        (body, bodyJSON, promoted) \<Rightarrow> \<lparr>
          rec_tsBucketStart = word_of_int (bucket_of (log_ts E i r)), rec_resourceFP = fp, rec_ts = log_ts E i r,
          rec_ots = log_ots E i r, rec_id = ident, rec_traceID = TraceIDToHexOrEmptyString (lg_TraceID r),
          rec_spanID = SpanIDToHexOrEmptyString (lg_SpanID r), rec_traceFlags = lg_Flags r,
          rec_severityText = lg_SeverityText r, rec_severityNum = word_of_int (lg_SeverityNumber r),
          rec_body = body, rec_bodyJSON = bodyJSON, rec_bodyJSONPromoted = promoted,
          rec_scopeName = src_scopeName src, rec_scopeVersion = src_scopeVersion src,
          rec_resourceMap = src_resourcesMap src, rec_scopeMap = src_scopeMap src,
          rec_attrsMap = attributesToMap L (lg_Attributes r) False,
          rec_logFields = \<lparr>StringData = [(''severity_text'', lg_SeverityText r)],
            NumberData = [(''severity_number'', float_of_int (lg_SeverityNumber r))], BoolData = []\<rparr>,
          rec_recordSize = int (length (lib_AsString L (lg_Body r)) +
            length (lib_MarshalMap L (lg_Attributes r)) + length (src_resBytes src))\<rparr>)"

text \<open>The result of a producer: an error, nothing for a log that is too old, or a record.\<close>

definition produce_record ::
  "'t logs_env \<Rightarrow> 't clickhouseLogsExporter \<Rightarrow> uint64 \<Rightarrow> nat \<times> log_source \<Rightarrow> resourcesSeenMap \<Rightarrow>
    (string + Record option) \<times> resourcesSeenMap" where
  "produce_record E e oldestAllowedTs isrc resourcesSeen =
     (let i = fst isrc; src = snd isrc; ts = log_ts E i (src_record src)
      in if ts < oldestAllowedTs then (Inr None, resourcesSeen)
         else case le_ksuid E i (sint ts) of
           Inl err \<Rightarrow> (Inl (''IdGenError:'' @ err), resourcesSeen)
         | Inr ident \<Rightarrow>
             (case getOrCreateFingerprint (bucket_of ts) (src_resourceJson src)
                 (CalculateFingerprint (le_texts E) (src_attributes src) ResourceHierarchy) resourcesSeen of
               (fp, resourcesSeen) \<Rightarrow> (Inr (Some (make_record E e i src fp ident)), resourcesSeen)))"

fun produce_all ::
  "'t logs_env \<Rightarrow> 't clickhouseLogsExporter \<Rightarrow> uint64 \<Rightarrow> (nat \<times> log_source) list \<Rightarrow> resourcesSeenMap \<Rightarrow>
    (string + Record option) list \<times> resourcesSeenMap" where
  "produce_all E e oldest [] seen = ([], seen)"
| "produce_all E e oldest (s # ss) seen =
     (case produce_record E e oldest s seen of
        (res, seen) \<Rightarrow> (case produce_all E e oldest ss seen of (rs, seen) \<Rightarrow> (res # rs, seen)))"

end
