(* ===== verification/LogsPush.thy ===== *)
theory LogsPush
  imports LogsExporter
begin

text \<open>
  A push of the logs exporter, \<^verbatim>\<open>pushToClickhouse\<close> and \<^verbatim>\<open>pushLogsData\<close> of
  \<^verbatim>\<open>exporter/clickhouselogsexporter/exporter.go\<close>, and what it writes: every log that is not too
  old becomes one row, the row names a resource that a push has written, and the rows of tags
  leave out what they have to. What the goroutines did is an argument, the schedule.
\<close>

section \<open>Schedules\<close>

text \<open>
  The logs by number in the order in which their producers finish, the positions of the records
  in the order in which the consumer receives them, whether a producer was the first to fail, and
  the order in which the five statements answer. A schedule is complete if every log was
  produced and every record received, which \<open>pipeline_conserves\<close> shows of a run that ends without
  errors; an error, or the end of the context, leaves it incomplete.
\<close>

record logs_schedule =
  sch_run :: "nat list"
  sch_receive :: "nat list"
  sch_producer_first :: bool
  sch_answers :: "nat list"

definition picked :: "nat list \<Rightarrow> 'a list \<Rightarrow> 'a list" where
  "picked is xs = map (\<lambda>i. xs ! i) (filter (\<lambda>i. i < length xs) is)"

definition produced_errors :: "(string + Record option) list \<Rightarrow> string list" where
  "produced_errors results = concat (map (\<lambda>r. case r of Inl err \<Rightarrow> [err] | Inr _ \<Rightarrow> []) results)"

definition produced_records :: "(string + Record option) list \<Rightarrow> Record list" where
  "produced_records results = concat (map (\<lambda>r. case r of Inr (Some rec) \<Rightarrow> [rec] | _ \<Rightarrow> []) results)"

section \<open>A push\<close>

record logs_written =
  lw_logs :: "(cell list, string) written"
  lw_resources :: "(string \<times> string \<times> int, string) written"
  lw_attributeKeys :: "(string \<times> TagDataType, string) written"
  lw_resourceKeys :: "(string \<times> TagDataType, string) written"
  lw_tags :: "(tag_row, string) written"
  lw_usage :: "(string \<times> int \<times> int) list"

definition nothing_sent :: "consumed \<Rightarrow> (string \<times> string \<times> int) list \<Rightarrow> logs_written" where
  "nothing_sent cs resources = \<lparr>lw_logs = unsent (cs_logs cs) None, lw_resources = unsent resources None,
     lw_attributeKeys = unsent (cs_attributeKeys cs) None, lw_resourceKeys = unsent (cs_resourceKeys cs) None,
     lw_tags = unsent (cs_tags cs) None, lw_usage = []\<rparr>"

definition append_resources ::
  "'t logs_env \<Rightarrow> string answers \<Rightarrow> resourcesSeenMap \<Rightarrow> 't clickhouseLogsExporter \<Rightarrow>
    (string option \<times> (string \<times> string \<times> int) list) \<times> 't clickhouseLogsExporter" where
  "append_resources E ans seen e =
     (case resource_writes (le_rfT E) (le_now E) True ans seen (rfCache e, clock_reads e) of
        (res, (c, n)) \<Rightarrow> (res, e\<lparr>rfCache := c, clock_reads := n\<rparr>))"

definition prepare_errors :: "log_answers \<Rightarrow> string list" where
  "prepare_errors A =
     concat (map (\<lambda>(what, ans). case ans_prepare ans of Some err \<Rightarrow> [what @ err] | None \<Rightarrow> [])
       [(''PrepareTagBatchV2:'', la_tags A), (''PrepareAttributeKeysBatch:'', la_attributeKeys A),
        (''PrepareResourceKeysBatch:'', la_resourceKeys A), (''PrepareBatchV2:'', la_logs A)])"

text \<open>The error of the goroutines, which \<^verbatim>\<open>group.Wait\<close> returns: that of the first to fail.\<close>

definition group_error :: "logs_schedule \<Rightarrow> string list \<Rightarrow> string option \<Rightarrow> string option" where
  "group_error S producer consumer =
     (case (producer, consumer) of
        ([], err) \<Rightarrow> err
      | (err # _, None) \<Rightarrow> Some err
      | (err # _, Some err') \<Rightarrow> Some (if sch_producer_first S then err else err'))"

definition send_errors :: "log_answers \<Rightarrow> logs_schedule \<Rightarrow> string list" where
  "send_errors A S =
     concat (map (\<lambda>ans. case ans_send ans of Some err \<Rightarrow> [''StatementSend:'' @ err] | None \<Rightarrow> [])
       (picked (sch_answers S) [la_logs A, la_resources A, la_attributeKeys A, la_resourceKeys A, la_tags A]))"

definition numbered_logs :: "'t logs_env \<Rightarrow> resource_logs list \<Rightarrow> (nat \<times> log_source) list" where
  "numbered_logs E ld = List.enumerate 0 (log_sources E ld)"

definition produce_logs ::
  "'t logs_env \<Rightarrow> logs_schedule \<Rightarrow> resource_logs list \<Rightarrow> 't clickhouseLogsExporter \<Rightarrow>
    (string + Record option) list \<times> resourcesSeenMap" where
  "produce_logs E S ld e =
     produce_all E e (oldest_allowed (maxAllowedDataAgeDays e) (le_now E (clock_reads e)))
       (picked (sch_run S) (numbered_logs E ld)) []"

definition first_error :: "string list \<Rightarrow> string option" where
  "first_error errs = (case errs of [] \<Rightarrow> None | err # _ \<Rightarrow> Some err)"

text \<open>From the resources on: the statements, and the usage once all of them are sent.\<close>

definition write_logs ::
  "'t logs_env \<Rightarrow> log_answers \<Rightarrow> logs_schedule \<Rightarrow> resourcesSeenMap \<Rightarrow> consumed \<Rightarrow> 't clickhouseLogsExporter \<Rightarrow>
    (string option \<times> logs_written) \<times> 't clickhouseLogsExporter" where
  "write_logs E A S seen cs e =
     (case ans_prepare (la_resources A) of
        Some err \<Rightarrow>
          ((Some (''couldn't PrepareBatch for inserting resource fingerprints :'' @ err), nothing_sent cs []), e)
      | None \<Rightarrow>
          (case append_resources E (la_resources A) seen e of
             ((Some err, resources), e) \<Rightarrow>
               ((Some (''error appending resources to batch: '' @ err), nothing_sent cs resources), e)
           | ((None, resources), e) \<Rightarrow>
               let errs = send_errors A S in
               ((first_error errs,
                 \<lparr>lw_logs = send (la_logs A) (cs_logs cs), lw_resources = send (la_resources A) resources,
                  lw_attributeKeys = send (la_attributeKeys A) (cs_attributeKeys cs),
                  lw_resourceKeys = send (la_resourceKeys A) (cs_resourceKeys cs), lw_tags = send (la_tags A) (cs_tags cs),
                  lw_usage = (if errs = [] then cs_metrics cs else [])\<rparr>), e)))"

definition pushToClickhouse ::
  "'t logs_env \<Rightarrow> log_answers \<Rightarrow> logs_schedule \<Rightarrow> resource_logs list \<Rightarrow> 't clickhouseLogsExporter \<Rightarrow>
    (string option \<times> logs_written) \<times> 't clickhouseLogsExporter" where
  "pushToClickhouse E A S ld e =
     (case produce_logs E S ld e of
        (results, seen) \<Rightarrow>
          let e = e\<lparr>clock_reads := clock_reads e + 1\<rparr> in
          if logs_closed e then ((Some ''shutdown has been called'', nothing_sent nothing_consumed []), e)
          else case prepare_errors A of
            err # _ \<Rightarrow> ((Some err, nothing_sent nothing_consumed []), e)
          | [] \<Rightarrow>
              (case for_each (consume E A (case shouldSkipKeyValue e of Some ks \<Rightarrow> ks | None \<Rightarrow> []))
                  (picked (sch_receive S) (produced_records results)) (nothing_consumed, e) of
                 (err, (cs, e)) \<Rightarrow>
                   (case group_error S (produced_errors results) err of
                      Some err \<Rightarrow> ((Some err, nothing_sent cs []), e)
                    | None \<Rightarrow> write_logs E A S seen cs e)))"

definition contains :: "string \<Rightarrow> string \<Rightarrow> bool" where
  "contains part s \<longleftrightarrow> (\<exists>i \<in> set [0..<Suc (length s)]. take (length part) (drop i s) = part)"

text \<open>Too many partitions for one block: the batch is dropped.\<close>

definition pushLogsData ::
  "'t logs_env \<Rightarrow> log_answers \<Rightarrow> logs_schedule \<Rightarrow> resource_logs list \<Rightarrow> 't clickhouseLogsExporter \<Rightarrow>
    (string option \<times> logs_written) \<times> 't clickhouseLogsExporter" where
  "pushLogsData E A S ld e =
     (case pushToClickhouse E A S ld e of
        ((err, w), e) \<Rightarrow>
          ((case err of Some msg \<Rightarrow> if contains ''code: 252'' msg then None else Some msg | None \<Rightarrow> None, w), e))"

section \<open>What the producers make\<close>

definition too_old :: "'t logs_env \<Rightarrow> uint64 \<Rightarrow> nat \<times> log_source \<Rightarrow> bool" where
  "too_old E oldest isrc \<longleftrightarrow> log_ts E (fst isrc) (src_record (snd isrc)) < oldest"

text \<open>The result of a producer, with what the resources seen at the end say of it.\<close>

inductive made_of ::
  "'t logs_env \<Rightarrow> 't clickhouseLogsExporter \<Rightarrow> uint64 \<Rightarrow> resourcesSeenMap \<Rightarrow> nat \<times> log_source \<Rightarrow> string + Record option \<Rightarrow> bool"
  for E e oldest seen where
  made_error: "\<not> too_old E oldest s \<Longrightarrow> made_of E e oldest seen s (Inl err)"
| made_nothing: "too_old E oldest s \<Longrightarrow> made_of E e oldest seen s (Inr None)"
| made_record: "\<not> too_old E oldest (i, src) \<Longrightarrow> le_ksuid E i (sint (log_ts E i (src_record src))) = Inr ident \<Longrightarrow>
    seen_fp seen (bucket_of (log_ts E i (src_record src))) (src_resourceJson src) = Some fp \<Longrightarrow>
    made_of E e oldest seen (i, src) (Inr (Some (make_record E e i src fp ident)))"

inductive_cases made_of_cases [elim]:
  "made_of E e oldest seen s (Inl err)" "made_of E e oldest seen s (Inr None)" "made_of E e oldest seen s (Inr (Some rec))"

lemma made_of_mono:
  "made_of E e oldest seen isrc res \<Longrightarrow> (\<And>b j v. seen_fp seen b j = Some v \<Longrightarrow> seen_fp seen' b j = Some v) \<Longrightarrow>
    made_of E e oldest seen' isrc res"
  by (induction rule: made_of.induct) (auto intro: made_of.intros)

lemma produce_record_made:
  assumes "produce_record E e oldest isrc seen = (res, seen')"
  shows "made_of E e oldest seen' isrc res" "seen_fp seen b j = Some v \<Longrightarrow> seen_fp seen' b j = Some v"
  using assms getOrCreate_seen
  by (cases isrc; auto simp: produce_record_def too_old_def Let_def intro!: made_of.intros split: if_splits sum.splits prod.splits)+

lemma produce_all_made:
  "produce_all E e oldest ss seen = (rs, seen') \<Longrightarrow>
    list_all2 (made_of E e oldest seen') ss rs \<and> (\<forall>b j v. seen_fp seen b j = Some v \<longrightarrow> seen_fp seen' b j = Some v)"
proof (induction ss arbitrary: seen rs seen')
  case (Cons s ss)
  obtain r seen1 where r: "produce_record E e oldest s seen = (r, seen1)" by fastforce
  obtain rs' seen2 where rs: "produce_all E e oldest ss seen1 = (rs', seen2)" by fastforce
  from Cons.prems r rs have eq: "rs = r # rs'" "seen' = seen2" by simp_all
  note IH = Cons.IH [OF rs] and p = produce_record_made [OF r]
  from made_of_mono [OF p(1), of seen2] IH have "made_of E e oldest seen2 s r" by blast
  with IH p(2) eq show ?case by auto
qed simp

text \<open>Without errors, the records are those of the logs that are not too old.\<close>

lemma records_made:
  "list_all2 (made_of E e oldest seen) ss rs \<Longrightarrow> produced_errors rs = [] \<Longrightarrow>
    list_all2 (\<lambda>s rec. made_of E e oldest seen s (Inr (Some rec))) (filter (\<lambda>s. \<not> too_old E oldest s) ss) (produced_records rs)"
proof (induction ss rs rule: list_all2_induct)
  case (Cons s ss r rs)
  then show ?case
    by (auto simp: produced_errors_def produced_records_def split: sum.splits option.splits)
qed (simp add: produced_records_def)

section \<open>What the consumer keeps\<close>

text \<open>The consumer changes nothing of the exporter but the cache of keys and the clock.\<close>

definition same_but_keys :: "'t clickhouseLogsExporter \<Rightarrow> 't clickhouseLogsExporter \<Rightarrow> bool" where
  "same_but_keys e e' \<longleftrightarrow> clock_reads e \<le> clock_reads e' \<and>
     e' = e\<lparr>keysCache := keysCache e', clock_reads := clock_reads e'\<rparr>"

lemma same_but_keys_trans: "same_but_keys e e' \<Longrightarrow> same_but_keys e' e'' \<Longrightarrow> same_but_keys e e''"
  unfolding same_but_keys_def by (cases e, cases e', cases e'') simp

lemma same_but_keys_fields:
  assumes "same_but_keys e e'"
  shows "bodyJSONEnabled e' = bodyJSONEnabled e" "rfCache e' = rfCache e" "shouldSkipKeyValue e' = shouldSkipKeyValue e"
    "logs_closed e' = logs_closed e" "clock_reads e \<le> clock_reads e'" "maxAllowedDataAgeDays e' = maxAllowedDataAgeDays e"
  using assms by (cases e; cases e'; simp add: same_but_keys_def)+

lemma same_but_keys_refl [simp]: "same_but_keys e e"
  by (simp add: same_but_keys_def)

text \<open>
  The tags of a record without their time; a tag of the statement is neither random, nor to be skipped, nor too long.
\<close>

type_synonym tag = "string \<times> TagType \<times> TagDataType \<times> string option \<times> float64 option"

definition map_tags :: "TagType \<Rightarrow> attributeMap \<Rightarrow> tag list" where
  "map_tags tagType m =
     map (\<lambda>(k, v). (k, tagType, TagDataTypeString, Some v, None)) (StringData m) @
     map (\<lambda>(k, v). (k, tagType, TagDataTypeNumber, None, Some v)) (NumberData m) @
     map (\<lambda>(k, v). (k, tagType, TagDataTypeBool, None, None)) (BoolData m)"

definition record_tags :: "Record \<Rightarrow> tag set" where
  "record_tags rec = set (map_tags TagTypeResource (rec_resourceMap rec)) \<union> set (map_tags TagTypeScope (rec_scopeMap rec)) \<union>
     set (map_tags TagTypeAttribute (rec_attrsMap rec)) \<union> set (map_tags TagTypeLogField (rec_logFields rec))"

definition tag_ok :: "'t logs_env \<Rightarrow> string list \<Rightarrow> tag \<Rightarrow> bool" where
  "tag_ok E keys tag \<longleftrightarrow>
     (case tag of (key, tagType, datatype, strVal, numVal) \<Rightarrow>
        \<not> IsRandomKey (le_unicode E) key \<and> attribute_key key tagType datatype \<notin> set keys \<and>
        (case strVal of Some v \<Rightarrow> length v \<le> MaxAttributeValueLength | None \<Rightarrow> True))"

definition tagged ::
  "'t logs_env \<Rightarrow> string list \<Rightarrow> tag set \<Rightarrow> consumed \<times> 't clickhouseLogsExporter \<Rightarrow> consumed \<times> 't clickhouseLogsExporter \<Rightarrow> bool"
where
  "tagged E keys X ce ce' \<longleftrightarrow> same_but_keys (snd ce) (snd ce') \<and> cs_logs (fst ce') = cs_logs (fst ce) \<and>
     cs_metrics (fst ce') = cs_metrics (fst ce) \<and> set (cs_tags (fst ce)) \<subseteq> set (cs_tags (fst ce')) \<and>
     (\<forall>row \<in> set (cs_tags (fst ce')). row \<in> set (cs_tags (fst ce)) \<or> tag_ok E keys (snd row) \<and> snd row \<in> X)"

lemma tagged_refl: "tagged E keys X ce ce"
  by (simp add: tagged_def)

lemma tagged_trans: "tagged E keys X ce ce' \<Longrightarrow> tagged E keys X ce' ce'' \<Longrightarrow> tagged E keys X ce ce''"
  unfolding tagged_def using same_but_keys_trans by (metis (no_types, lifting) order_trans)

lemma addKeys_tagged: "tagged E keys X ce (addAttrsToAttributeKeysStatement E A key tagType datatype ce)"
  by (auto simp: tagged_def addAttrsToAttributeKeysStatement_def keys_Get_def keys_Set_def cache_Get_def cache_Set_def
      same_but_keys_def Let_def split: prod.splits option.splits TagType.splits)

lemma addTag_tagged:
  assumes "(key, tagType, datatype, strVal, numVal) \<in> X"
  shows "tagged E keys X ce (snd (addTag E A ms tagType datatype keys what key strVal numVal ce))"
proof -
  obtain cs e where ce: "addAttrsToAttributeKeysStatement E A key tagType datatype ce = (cs, e)" by fastforce
  have "tagged E keys X ce (cs, e)" using addKeys_tagged ce by metis
  then show ?thesis using ce tagged_refl assms
    by (auto simp: addTag_def tagged_def tag_ok_def split: option.splits)
qed

lemma tag_statement_tagged:
  assumes X: "set (map_tags tagType attrs) \<subseteq> X"
  shows "tagged E keys X ce (snd (addAttrsToTagStatement E A tagType attrs keys ce))"
proof -
  let ?ms = "go_div (le_now E (clock_reads (snd ce)) div 1000000) 3600000 * 3600000"
  let ?ce = "(fst ce, (snd ce)\<lparr>clock_reads := clock_reads (snd ce) + 1\<rparr>)"
  have start: "tagged E keys X ce ?ce" by (simp add: tagged_def same_but_keys_def)
  have step: "tagged E keys X ce (snd (for_each (\<lambda>(k, v). addTag E A ?ms tagType dt keys what k (sv v) (nv v)) xs ce'))"
    if "tagged E keys X ce ce'" "\<And>k v. (k, v) \<in> set xs \<Longrightarrow> (k, tagType, dt, sv v, nv v) \<in> X" for dt what sv nv xs ce'
  proof (rule for_each_inv [of _ "tagged E keys X ce"])
    show "tagged E keys X ce (snd ((case x of (k, v) \<Rightarrow> addTag E A ?ms tagType dt keys what k (sv v) (nv v)) s))"
      if "x \<in> set xs" "tagged E keys X ce s" for x s
      using tagged_trans [OF that(2) addTag_tagged] that(1) \<open>\<And>k v. (k, v) \<in> set xs \<Longrightarrow> (k, tagType, dt, sv v, nv v) \<in> X\<close>
      by (cases x) auto
  qed (rule that(1))
  have in_X: "(k, v) \<in> set (StringData attrs) \<Longrightarrow> (k, tagType, TagDataTypeString, Some v, None) \<in> X"
    "(k, x) \<in> set (NumberData attrs) \<Longrightarrow> (k, tagType, TagDataTypeNumber, None, Some x) \<in> X"
    "(k, b) \<in> set (BoolData attrs) \<Longrightarrow> (k, tagType, TagDataTypeBool, None, None) \<in> X" for k v x b
    using X by (force simp: map_tags_def)+
  let ?s1 = "snd (for_each (\<lambda>(k, v). addTag E A ?ms tagType TagDataTypeString keys ''string'' k (Some v) None) (StringData attrs) ?ce)"
  let ?s2 = "snd (for_each (\<lambda>(k, v). addTag E A ?ms tagType TagDataTypeNumber keys ''number'' k None (Some v)) (NumberData attrs) ?s1)"
  let ?s3 = "snd (for_each (\<lambda>(k, v). addTag E A ?ms tagType TagDataTypeBool keys ''bool'' k None None) (BoolData attrs) ?s2)"
  have s1: "tagged E keys X ce ?s1" by (rule step [OF start]) (rule in_X(1))
  have s2: "tagged E keys X ce ?s2" by (rule step [OF s1]) (rule in_X(2))
  have s3: "tagged E keys X ce ?s3" by (rule step [OF s2]) (rule in_X(3))
  from s1 s2 s3 show ?thesis
    by (auto simp: addAttrsToTagStatement_def Let_def split: prod.splits option.splits)
qed

text \<open>A record received is a row, unless an error stops the consumer.\<close>

lemma consume_appends:
  assumes "consume E A keys rec ce = (err, ce')"
  obtains ce1 where "tagged E keys (record_tags rec) ce ce1"
    "ce' = ce1 \<or> ce' = ((fst ce1)\<lparr>cs_logs := cs_logs (fst ce) @ [log_args (bodyJSONEnabled (snd ce)) rec],
       cs_metrics := AddMetric GetTenantNameFromResource 1 (rec_recordSize rec) (cs_metrics (fst ce))\<rparr>, snd ce1)"
    "err = None \<Longrightarrow> cs_logs (fst ce') = cs_logs (fst ce) @ [log_args (bodyJSONEnabled (snd ce)) rec]"
proof -
  define step where "step tt attrs ce = addAttrsToTagStatement E A tt attrs keys ce" for tt attrs ce
  let ?X = "record_tags rec"
  have tag: "tagged E keys ?X ce0 (snd (step tt attrs ce1))" if "tagged E keys ?X ce0 ce1" "set (map_tags tt attrs) \<subseteq> ?X"
    for ce0 ce1 tt attrs
    using tagged_trans [OF that(1) tag_statement_tagged [OF that(2)]] by (simp add: step_def)
  obtain e1 c1 where 1: "step TagTypeResource (rec_resourceMap rec) ce = (e1, c1)" by (rule prod.exhaust)
  obtain e2 c2 where 2: "step TagTypeScope (rec_scopeMap rec) c1 = (e2, c2)" by (rule prod.exhaust)
  obtain e3 c3 where 3: "step TagTypeAttribute (rec_attrsMap rec) c2 = (e3, c3)" by (rule prod.exhaust)
  obtain e4 c4 where 4: "step TagTypeLogField (rec_logFields rec) c3 = (e4, c4)" by (rule prod.exhaust)
  have X: "set (map_tags TagTypeResource (rec_resourceMap rec)) \<subseteq> ?X" "set (map_tags TagTypeScope (rec_scopeMap rec)) \<subseteq> ?X"
    "set (map_tags TagTypeAttribute (rec_attrsMap rec)) \<subseteq> ?X" "set (map_tags TagTypeLogField (rec_logFields rec)) \<subseteq> ?X"
    by (auto simp: record_tags_def)
  have t1: "tagged E keys ?X ce c1" using tag [OF tagged_refl X(1), of ce] 1 by simp
  have t2: "tagged E keys ?X ce c2" using tag [OF t1 X(2)] 2 by simp
  have t3: "tagged E keys ?X ce c3" using tag [OF t2 X(3)] 3 by simp
  have t4: "tagged E keys ?X ce c4" using tag [OF t3 X(4)] 4 by simp
  have same: "bodyJSONEnabled (snd c4) = bodyJSONEnabled (snd ce)" "cs_logs (fst c4) = cs_logs (fst ce)"
    "cs_metrics (fst c4) = cs_metrics (fst ce)"
    using t4 by (auto simp: tagged_def dest: same_but_keys_fields)
  note run = assms [unfolded consume_def, folded step_def, unfolded 1 prod.case]
  show ?thesis
  proof (cases e1)
    case (Some x)
    show ?thesis by (rule that [OF t1]) (use run Some in auto)
  next
    case None
    note run = run [unfolded None option.case 2 prod.case]
    show ?thesis
    proof (cases e2)
      case (Some x)
      show ?thesis by (rule that [OF t2]) (use run Some in auto)
    next
      case None
      note run = run [unfolded None option.case 3 prod.case]
      show ?thesis
      proof (cases e3)
        case (Some x)
        show ?thesis by (rule that [OF t3]) (use run Some in auto)
      next
        case None
        note run = run [unfolded None option.case 4 prod.case]
        show ?thesis by (rule that [OF t4]) (use run same in \<open>cases c4; auto split: option.splits\<close>)+
      qed
    qed
  qed
qed

lemma picked_subset: "set (picked is xs) \<subseteq> set xs"
  by (auto simp: picked_def)

definition tags_ok :: "'t logs_env \<Rightarrow> string list \<Rightarrow> tag set \<Rightarrow> consumed \<Rightarrow> bool" where
  "tags_ok E keys X cs \<longleftrightarrow> (\<forall>row \<in> set (cs_tags cs). tag_ok E keys (snd row) \<and> snd row \<in> X)"

lemma consume_all:
  "for_each (consume E A keys) recs ce = (err, ce') \<Longrightarrow> tags_ok E keys X (fst ce) \<Longrightarrow> (\<forall>rec \<in> set recs. record_tags rec \<subseteq> X) \<Longrightarrow>
    same_but_keys (snd ce) (snd ce') \<and> tags_ok E keys X (fst ce') \<and>
    (err = None \<longrightarrow> cs_logs (fst ce') = cs_logs (fst ce) @ map (log_args (bodyJSONEnabled (snd ce))) recs)"
proof (induction recs arbitrary: ce)
  case (Cons rec recs)
  obtain err1 ce1 where c: "consume E A keys rec ce = (err1, ce1)" by (rule prod.exhaust)
  obtain ce0 where t: "tagged E keys (record_tags rec) ce ce0" and
    eq: "ce1 = ce0 \<or> ce1 = ((fst ce0)\<lparr>cs_logs := cs_logs (fst ce) @ [log_args (bodyJSONEnabled (snd ce)) rec],
       cs_metrics := AddMetric GetTenantNameFromResource 1 (rec_recordSize rec) (cs_metrics (fst ce))\<rparr>, snd ce0)"
    and logs: "err1 = None \<Longrightarrow> cs_logs (fst ce1) = cs_logs (fst ce) @ [log_args (bodyJSONEnabled (snd ce)) rec]"
    using consume_appends [OF c] by metis
  from t eq Cons.prems(2,3) have s: "same_but_keys (snd ce) (snd ce1)" "tags_ok E keys X (fst ce1)"
    by (auto simp: tagged_def tags_ok_def)
  show ?case
  proof (cases err1)
    case None
    then have "for_each (consume E A keys) recs ce1 = (err, ce')" using Cons.prems(1) c by simp
    note IH = Cons.IH [OF this s(2)]
    from Cons.prems(3) have "\<forall>rec \<in> set recs. record_tags rec \<subseteq> X" by simp
    note IH = IH [OF this]
    then show ?thesis using s logs [OF None] same_but_keys_trans [OF s(1)] same_but_keys_fields(1) [OF s(1)] by auto
  next
    case (Some x)
    with Cons.prems(1) c s show ?thesis by auto
  qed
qed simp

text \<open>A push that has sent its statements, or that returns without an error.\<close>

definition skip_keys :: "'t clickhouseLogsExporter \<Rightarrow> string list" where
  "skip_keys e = (case shouldSkipKeyValue e of Some ks \<Rightarrow> ks | None \<Rightarrow> [])"

definition produced_tags :: "(string + Record option) list \<Rightarrow> tag set" where
  "produced_tags results = (\<Union>rec \<in> set (produced_records results). record_tags rec)"

lemma push_cases:
  assumes p: "pushToClickhouse E A S ld e = ((err, w), e')" and made: "produce_logs E S ld e = (results, seen)"
  obtains
    (nothing) cs err' where "err = Some err'" "w = nothing_sent cs []" "tags_ok E (skip_keys e) (produced_tags results) cs"
      "rfCache e' = rfCache e" "clock_reads e \<le> clock_reads e'"
  | (wrote) cs e1 where "write_logs E A S seen cs e1 = ((err, w), e')" "tags_ok E (skip_keys e) (produced_tags results) cs"
      "rfCache e1 = rfCache e" "clock_reads e \<le> clock_reads e1" "produced_errors results = []"
      "cs_logs cs = map (log_args (bodyJSONEnabled e)) (picked (sch_receive S) (produced_records results))"
      "for_each (consume E A (skip_keys e)) (picked (sch_receive S) (produced_records results))
         (nothing_consumed, e\<lparr>clock_reads := clock_reads e + 1\<rparr>) = (None, (cs, e1))"
proof -
  let ?e = "e\<lparr>clock_reads := clock_reads e + 1\<rparr>" and ?recs = "picked (sch_receive S) (produced_records results)"
  have none: "tags_ok E (skip_keys e) X nothing_consumed" for X by (simp add: tags_ok_def nothing_consumed_def)
  obtain cerr ce where c: "for_each (consume E A (skip_keys e)) ?recs (nothing_consumed, ?e) = (cerr, ce)"
    by (rule prod.exhaust)
  obtain cs e1 where ce: "ce = (cs, e1)" by (rule prod.exhaust)
  have X: "\<forall>rec \<in> set ?recs. record_tags rec \<subseteq> produced_tags results"
    unfolding produced_tags_def by (auto dest: subsetD [OF picked_subset])
  note consumed = consume_all [OF c [unfolded ce] _ X, unfolded fst_conv snd_conv, OF none]
  have same: "same_but_keys ?e e1" using consumed by (rule conjunct1)
  have tags: "tags_ok E (skip_keys e) (produced_tags results) cs" using consumed by blast
  have logs: "cs_logs cs = map (log_args (bodyJSONEnabled e)) ?recs" if "cerr = None"
    using consumed that by (simp add: nothing_consumed_def)
  note fields = same_but_keys_fields [OF same]
  note run = p [unfolded pushToClickhouse_def made prod.case Let_def, folded skip_keys_def]
  show ?thesis
  proof (cases "logs_closed e \<or> prepare_errors A \<noteq> []")
    case True
    with run have "\<exists>x. err = Some x \<and> w = nothing_sent nothing_consumed [] \<and> e' = ?e"
      by (auto split: list.splits if_splits)
    then obtain x where x: "err = Some x" "w = nothing_sent nothing_consumed []" "e' = ?e" by blast
    from x have "rfCache e' = rfCache e" "clock_reads e \<le> clock_reads e'" by simp_all
    with x(1,2) none show ?thesis by (rule that(1))
  next
    case False
    then have run: "(case (cs, e1) of (cs, e1) \<Rightarrow> case group_error S (produced_errors results) cerr of
        Some err \<Rightarrow> ((Some err, nothing_sent cs []), e1) | None \<Rightarrow> write_logs E A S seen cs e1) = ((err, w), e')"
      using run c ce by (simp add: skip_keys_def)
    show ?thesis
    proof (cases "group_error S (produced_errors results) cerr")
      case None
      then have "produced_errors results = []" "cerr = None"
        by (auto simp: group_error_def split: list.splits option.splits)
      with run None that(2) [of cs e1] tags logs fields c ce show ?thesis by simp
    next
      case (Some x)
      with run have eq: "err = Some x" "w = nothing_sent cs []" "e' = e1" by auto
      from fields eq(3) have "rfCache e' = rfCache e" "clock_reads e \<le> clock_reads e'" by simp_all
      with eq(1,2) tags show ?thesis by (rule that(1))
    qed
  qed
qed

section \<open>Every log becomes a row\<close>

text \<open>The schedule is complete: every log is produced, every record received, every statement answers.\<close>

definition complete_schedule :: "logs_schedule \<Rightarrow> nat \<Rightarrow> (string + Record option) list \<Rightarrow> bool" where
  "complete_schedule S logs results \<longleftrightarrow>
     mset (sch_run S) = mset [0..<logs] \<and> mset (sch_receive S) = mset [0..<length (produced_records results)] \<and>
     mset (sch_answers S) = mset [0..<5]"

lemma mset_picked: "mset is = mset [0..<length xs] \<Longrightarrow> mset (picked is xs) = mset xs"
proof -
  assume m: "mset is = mset [0..<length xs]"
  from mset_eq_setD [OF m] have "filter (\<lambda>i. i < length xs) is = is" by (simp add: filter_id_conv)
  with m have "mset (picked is xs) = mset (map (\<lambda>i. xs ! i) [0..<length xs])"
    by (simp only: picked_def mset_map)
  then show ?thesis by (simp only: map_nth)
qed

lemma picked_all: "mset is = mset [0..<length xs] \<Longrightarrow> set (picked is xs) = set xs"
  using mset_picked mset_eq_setD by metis

text \<open>A row of the logs: the columns of the record of a log that is not too old.\<close>

definition row_of_log :: "'t logs_env \<Rightarrow> 't clickhouseLogsExporter \<Rightarrow> nat \<times> log_source \<Rightarrow> cell list \<Rightarrow> bool" where
  "row_of_log E e s row \<longleftrightarrow> (\<exists>fp ident. le_ksuid E (fst s) (sint (log_ts E (fst s) (src_record (snd s)))) = Inr ident \<and>
     row = log_args (bodyJSONEnabled e) (make_record E e (fst s) (snd s) fp ident))"

lemma send_error_none:
  "first_error (send_errors A S) = None \<Longrightarrow> mset (sch_answers S) = mset [0..<5] \<Longrightarrow>
    \<forall>ans \<in> {la_logs A, la_resources A, la_attributeKeys A, la_resourceKeys A, la_tags A}. ans_send ans = None"
proof -
  let ?answers = "[la_logs A, la_resources A, la_attributeKeys A, la_resourceKeys A, la_tags A]"
  assume f: "first_error (send_errors A S) = None" and "mset (sch_answers S) = mset [0..<5]"
  moreover have "length ?answers = 5" by simp
  ultimately have "set (picked (sch_answers S) ?answers) = set ?answers" by (intro picked_all) (simp only:)
  moreover have "\<forall>ans \<in> set (picked (sch_answers S) ?answers). ans_send ans = None"
    using f by (auto simp: first_error_def send_errors_def split: list.splits option.splits)
  ultimately show ?thesis by simp
qed


section \<open>The resources of the logs\<close>

text \<open>The pushes of an exporter, and the resources of the statements that were sent.\<close>

fun logs_pushes ::
  "'t logs_env \<Rightarrow> (log_answers \<times> logs_schedule \<times> resource_logs list) list \<Rightarrow> 't clickhouseLogsExporter \<Rightarrow>
    (string option \<times> logs_written) list \<times> 't clickhouseLogsExporter" where
  "logs_pushes E [] e = ([], e)"
| "logs_pushes E ((A, S, ld) # ps) e =
     (case pushToClickhouse E A S ld e of
        (r, e) \<Rightarrow> (case logs_pushes E ps e of (rs, e) \<Rightarrow> (r # rs, e)))"

definition stored_resources :: "(string option \<times> logs_written) list \<Rightarrow> (string \<times> string \<times> int) set" where
  "stored_resources rs = {row. \<exists>(err, w) \<in> set rs. wr_sent (lw_resources w) \<and> row \<in> set (wr_rows (lw_resources w))}"

definition rf_known :: "'t logs_env \<Rightarrow> ('t \<Rightarrow> instant \<Rightarrow> string \<Rightarrow> unit option) \<Rightarrow> 't clickhouseLogsExporter \<Rightarrow> string set" where
  "rf_known E live e = known live (le_now E) (rfCache e, clock_reads e)"

lemma write_logs_resources:
  assumes T: "ttl_sound (le_rfT E) live" "mono (le_now E)" and a: "accepts (la_resources A)"
    and w: "write_logs E A S seen cs e = ((err, w), e')"
  shows "wr_sent (lw_resources w) \<and> resource_key ` set (rangeAll seen) \<subseteq> rf_known E live e \<union> row_key ` set (wr_rows (lw_resources w)) \<and>
    rf_known E live e' \<subseteq> rf_known E live e \<union> row_key ` set (wr_rows (lw_resources w)) \<and> lw_logs w = send (la_logs A) (cs_logs cs)"
proof -
  obtain err1 rows s' where n: "resource_writes (le_rfT E) (le_now E) True (la_resources A) seen (rfCache e, clock_reads e) =
      ((err1, rows), s')" by (metis prod.exhaust)
  from a have ok: "\<And>i. ans_append (la_resources A) i = None" "ans_prepare (la_resources A) = None" "ans_send (la_resources A) = None"
    by (simp_all add: accepts_def)
  note new = resource_writes_known [OF T ok(1) n]
  obtain c k where s': "s' = (c, k)" by (rule prod.exhaust)
  from w n new ok s' have "wr_sent (lw_resources w) \<and> wr_rows (lw_resources w) = rows \<and> e' = e\<lparr>rfCache := c, clock_reads := k\<rparr> \<and>
      lw_logs w = send (la_logs A) (cs_logs cs)"
    by (auto simp: write_logs_def append_resources_def Let_def send_def)
  moreover have "resource_key ` set (rangeAll seen) \<subseteq> rf_known E live e \<union> row_key ` set rows"
    "known live (le_now E) (c, k) \<subseteq> rf_known E live e \<union> row_key ` set rows"
    using new s' unfolding rf_known_def by blast+
  ultimately show ?thesis by (simp add: rf_known_def)
qed

text \<open>The rows of logs of a push name resources seen by its producers.\<close>

lemma log_args_front:
  "\<exists>cells. log_args b (make_record E e i src fp ident) = CellInt (bucket_of (log_ts E i (src_record src))) # CellString fp # cells"
  by (simp add: log_args_def make_record_def Let_def bucket_word split: prod.splits)

lemma made_row_seen:
  assumes "list_all2 (made_of E e oldest seen) ss results" "rec \<in> set (produced_records results)"
    "log_args b rec = CellInt bucket # CellString fp # cells"
  shows "\<exists>labels. (bucket, labels, fp) \<in> set (rangeAll seen)"
proof -
  from assms(2) have "Inr (Some rec) \<in> set results"
    by (auto simp: produced_records_def split: sum.splits option.splits)
  with assms(1) obtain s where "made_of E e oldest seen s (Inr (Some rec))"
    by (metis list_all2_conv_all_nth in_set_conv_nth)
  then obtain i src fp' ident where r: "rec = make_record E e i src fp' ident"
    and s: "seen_fp seen (bucket_of (log_ts E i (src_record src))) (src_resourceJson src) = Some fp'"
    by (auto elim: made_of_cases)
  from r assms(3) log_args_front [of b E e i src fp' ident] have "bucket = bucket_of (log_ts E i (src_record src))" "fp = fp'"
    by auto
  with seen_in_range [OF s] show ?thesis by blast
qed

text \<open>One push: the resources of its rows of logs are known before it, or it writes them.\<close>

lemma push_resources:
  assumes T: "ttl_sound (le_rfT E) live" "mono (le_now E)" and a: "accepts (la_resources A)"
    and p: "pushToClickhouse E A S ld e = ((err, w), e')"
  shows "rf_known E live e' \<subseteq> rf_known E live e \<union> row_key ` stored_resources [(err, w)]"
    "wr_sent (lw_logs w) \<Longrightarrow> (CellInt bucket # CellString fp # cells) \<in> set (wr_rows (lw_logs w)) \<Longrightarrow>
      MakeKeyForRFCache bucket fp \<in> rf_known E live e \<union> row_key ` stored_resources [(err, w)]"
proof -
  obtain results seen where made: "produce_logs E S ld e = (results, seen)" by (rule prod.exhaust)
  have later: "rf_known E live e1 \<subseteq> rf_known E live e" if "rfCache e1 = rfCache e" "clock_reads e \<le> clock_reads e1" for e1
    using known_later [OF T(2) that(2), of live "rfCache e"] that(1) by (simp add: rf_known_def)
  have all: "rf_known E live e' \<subseteq> rf_known E live e \<union> row_key ` stored_resources [(err, w)] \<and>
    (wr_sent (lw_logs w) \<longrightarrow> (CellInt bucket # CellString fp # cells) \<in> set (wr_rows (lw_logs w)) \<longrightarrow>
      MakeKeyForRFCache bucket fp \<in> rf_known E live e \<union> row_key ` stored_resources [(err, w)])"
  proof (rule push_cases [OF p made])
    fix cs err' assume "w = nothing_sent cs []" "rfCache e' = rfCache e" "clock_reads e \<le> clock_reads e'"
    with later show ?thesis by (auto simp: nothing_sent_def unsent_def)
  next
    fix cs e1 assume w: "write_logs E A S seen cs e1 = ((err, w), e')" and e1: "rfCache e1 = rfCache e" "clock_reads e \<le> clock_reads e1"
      and logs: "cs_logs cs = map (log_args (bodyJSONEnabled e)) (picked (sch_receive S) (produced_records results))"
    note wr = write_logs_resources [OF T a w]
    then have stored: "stored_resources [(err, w)] = set (wr_rows (lw_resources w))" by (simp add: stored_resources_def)
    have "MakeKeyForRFCache bucket fp \<in> resource_key ` set (rangeAll seen)"
      if "(CellInt bucket # CellString fp # cells) \<in> set (wr_rows (lw_logs w))"
    proof -
      from that wr logs have "CellInt bucket # CellString fp # cells \<in>
          log_args (bodyJSONEnabled e) ` set (picked (sch_receive S) (produced_records results))" by (simp add: send_def)
      then obtain rec where rec: "rec \<in> set (produced_records results)"
        "log_args (bodyJSONEnabled e) rec = CellInt bucket # CellString fp # cells"
        by (elim imageE) (auto dest!: subsetD [OF picked_subset])
      from made have "list_all2 (made_of E e (oldest_allowed (maxAllowedDataAgeDays e) (le_now E (clock_reads e))) seen)
          (picked (sch_run S) (numbered_logs E ld)) results"
        using produce_all_made unfolding produce_logs_def by blast
      from made_row_seen [OF this rec] show ?thesis by (force simp: resource_key_def)
    qed
    with wr stored later [OF e1] show ?thesis by blast
  qed
  from all show "rf_known E live e' \<subseteq> rf_known E live e \<union> row_key ` stored_resources [(err, w)]"
    "wr_sent (lw_logs w) \<Longrightarrow> (CellInt bucket # CellString fp # cells) \<in> set (wr_rows (lw_logs w)) \<Longrightarrow>
      MakeKeyForRFCache bucket fp \<in> rf_known E live e \<union> row_key ` stored_resources [(err, w)]" by blast+
qed

lemma stored_resources_Cons: "stored_resources (r # rs) = stored_resources [r] \<union> stored_resources rs"
  by (auto simp: stored_resources_def)

lemma pushes_resources:
  assumes T: "ttl_sound (le_rfT E) live" "mono (le_now E)"
  shows "\<forall>(A, S, ld) \<in> set ps. accepts (la_resources A) \<Longrightarrow> logs_pushes E ps e = (rs, e') \<Longrightarrow>
    k < length rs \<Longrightarrow> rs ! k = (err, w) \<Longrightarrow> wr_sent (lw_logs w) \<Longrightarrow>
    (CellInt bucket # CellString fp # cells) \<in> set (wr_rows (lw_logs w)) \<Longrightarrow>
    MakeKeyForRFCache bucket fp \<in> rf_known E live e \<union> row_key ` stored_resources (take (Suc k) rs)"
proof (induction ps arbitrary: e rs k e')
  case (Cons p ps)
  obtain A S ld where p: "p = (A, S, ld)" by (metis prod.exhaust)
  obtain r e1 where r: "pushToClickhouse E A S ld e = (r, e1)" by (rule prod.exhaust)
  obtain rs' e2 where rs: "logs_pushes E ps e1 = (rs', e2)" by (rule prod.exhaust)
  from Cons.prems(2) p r rs have eq: "rs = r # rs'" by simp
  obtain err1 w1 where rw: "r = (err1, w1)" by (rule prod.exhaust)
  have a: "accepts (la_resources A)" using Cons.prems(1) p by simp
  note one = push_resources [OF T a r [unfolded rw]]
  show ?case
  proof (cases k)
    case 0
    with Cons.prems(4-6) eq rw one(2) show ?thesis by simp
  next
    case (Suc j)
    have "MakeKeyForRFCache bucket fp \<in> rf_known E live e1 \<union> row_key ` stored_resources (take (Suc j) rs')"
      by (rule Cons.IH [OF _ rs _ _ Cons.prems(5,6)]) (use Cons.prems(1,3,4) eq Suc in auto)
    then show ?thesis
      unfolding eq Suc take_Suc_Cons stored_resources_Cons [of r "take (Suc j) rs'"] using one(1) rw by blast
  qed
qed simp


section \<open>Resources told to the cache but not stored\<close>

lemma push_clock:
  assumes p: "pushToClickhouse E A S ld e = ((err, w), e')"
  shows "clock_reads e \<le> clock_reads e'"
proof -
  obtain results seen where made: "produce_logs E S ld e = (results, seen)" by (rule prod.exhaust)
  show ?thesis
  proof (rule push_cases [OF p made])
    fix cs e1 assume w: "write_logs E A S seen cs e1 = ((err, w), e')" and c: "clock_reads e \<le> clock_reads e1"
    obtain res c' k where n: "resource_writes (le_rfT E) (le_now E) True (la_resources A) seen
        (rfCache e1, clock_reads e1) = (res, (c', k))" by (metis prod.exhaust)
    from resource_writes_clock [OF n] w n c show ?thesis
      by (auto simp: write_logs_def append_resources_def Let_def split: option.splits prod.splits)
  qed
qed

text \<open>What a push appends is told to the cache at once, whatever becomes of the statement.\<close>

lemma push_remembers:
  assumes T: "ttl_promises (le_rfT E) live" "ttl_lasts ttl (le_rfT E) live" "mono (le_now E)"
    and p: "pushToClickhouse E A S ld e = ((err, w), e')"
    and until: "le_now E (clock_reads e') \<le> until" "until \<le> le_now E (clock_reads e) + ttl"
    and K: "remembers live (le_now E) until K (rfCache e, clock_reads e)"
  shows "row_key ` set (wr_rows (lw_resources w)) \<inter> K = {} \<and> clock_reads e \<le> clock_reads e' \<and>
    remembers live (le_now E) until (K \<union> row_key ` set (wr_rows (lw_resources w))) (rfCache e', clock_reads e')"
proof -
  note later = remembers_later [OF T(3)]
  obtain results seen where made: "produce_logs E S ld e = (results, seen)" by (rule prod.exhaust)
  show ?thesis
  proof (rule push_cases [OF p made])
    fix cs err' assume w: "w = nothing_sent cs []" and e': "rfCache e' = rfCache e" and c: "clock_reads e \<le> clock_reads e'"
    from later [OF c K] w e' c show ?thesis by (simp add: nothing_sent_def unsent_def)
  next
    fix cs e1 assume w: "write_logs E A S seen cs e1 = ((err, w), e')" and e1: "rfCache e1 = rfCache e"
      and c: "clock_reads e \<le> clock_reads e1"
    from monoD [OF T(3) c] until(2) have u1: "until \<le> le_now E (clock_reads e1) + ttl" by linarith
    note K1 = later [OF c K, folded e1]
    show ?thesis
    proof (cases "ans_prepare (la_resources A)")
      case (Some x)
      with w e1 K1 c show ?thesis by (auto simp: write_logs_def nothing_sent_def unsent_def)
    next
      case None
      obtain err1 rows s' where n: "resource_writes (le_rfT E) (le_now E) True (la_resources A) seen
          (rfCache e1, clock_reads e1) = ((err1, rows), s')" by (metis prod.exhaust)
      obtain c' k where s': "s' = (c', k)" by (rule prod.exhaust)
      from w None n s' have r: "wr_rows (lw_resources w) = rows" "rfCache e' = c'" "clock_reads e' = k"
        by (auto simp: write_logs_def append_resources_def nothing_sent_def unsent_def send_def Let_def split: option.splits)
      have "row_key ` set rows \<inter> K = {} \<and> remembers live (le_now E) until (K \<union> row_key ` set rows) s'"
        by (rule resource_writes_once [OF T n]) (use until(1) u1 K1 r(3) s' in simp_all)
      moreover have "clock_reads e1 \<le> k" using resource_writes_clock [OF n] s' by simp
      ultimately show ?thesis using r s' c by simp
    qed
  qed
qed


section \<open>The tags of the logs\<close>

lemma for_each_covers:
  "for_each f xs s = (None, s') \<Longrightarrow> x \<in> set xs \<Longrightarrow> (\<And>s s'. f x s = (None, s') \<Longrightarrow> Q s') \<Longrightarrow>
    (\<And>y s s'. f y s = (None, s') \<Longrightarrow> Q s \<Longrightarrow> Q s') \<Longrightarrow> Q s'"
proof (induction xs arbitrary: s)
  case (Cons y ys)
  obtain err s1 where f: "f y s = (err, s1)" by (rule prod.exhaust)
  with Cons.prems(1) have none: "err = None" "for_each f ys s1 = (None, s')" by (simp_all split: option.splits)
  have keep: "Q s1 \<Longrightarrow> for_each f ys s1 = (None, s') \<Longrightarrow> Q s'" for s1
  proof (induction ys arbitrary: s1)
    case (Cons z zs)
    obtain err2 s2 where z: "f z s1 = (err2, s2)" by (rule prod.exhaust)
    with Cons.prems(2) have "err2 = None" "for_each f zs s2 = (None, s')" by (simp_all split: option.splits)
    with Cons.IH \<open>\<And>y s s'. f y s = (None, s') \<Longrightarrow> Q s \<Longrightarrow> Q s'\<close> z Cons.prems(1) show ?case by blast
  qed simp
  show ?case
  proof (cases "x = y")
    case True
    with Cons.prems(3) f none keep show ?thesis by blast
  next
    case False
    with Cons.prems(2) Cons.IH [OF none(2) _ Cons.prems(3,4)] show ?thesis by simp
  qed
qed simp

definition has_tag :: "tag \<Rightarrow> consumed \<times> 't clickhouseLogsExporter \<Rightarrow> bool" where
  "has_tag tag ce \<longleftrightarrow> tag \<in> snd ` set (cs_tags (fst ce))"

lemma tagged_has_tag: "tagged E keys X ce ce' \<Longrightarrow> has_tag tag ce \<Longrightarrow> has_tag tag ce'"
  by (auto simp: tagged_def has_tag_def)

lemma addTag_has_tag:
  assumes "\<And>i. ans_append (la_tags A) i = None" "tag_ok E keys (key, tagType, datatype, strVal, numVal)"
  shows "has_tag (key, tagType, datatype, strVal, numVal) (snd (addTag E A ms tagType datatype keys what key strVal numVal ce))"
  using assms by (force simp: addTag_def has_tag_def tag_ok_def image_iff split: prod.splits option.splits)

lemma tag_loop:
  assumes "\<And>i. ans_append (la_tags A) i = None" "(k, v) \<in> set xs" "tag_ok E keys (k, tagType, dt, sv v, nv v)"
    and f: "for_each (\<lambda>(k, v). addTag E A ms tagType dt keys what k (sv v) (nv v)) xs ce = (None, ce')"
  shows "has_tag (k, tagType, dt, sv v, nv v) ce'"
proof (rule for_each_covers [OF f assms(2)])
  show "has_tag (k, tagType, dt, sv v, nv v) s'"
    if "(case (k, v) of (k, v) \<Rightarrow> addTag E A ms tagType dt keys what k (sv v) (nv v)) s = (None, s')" for s s'
    using addTag_has_tag [OF assms(1,3), of ms what s] that by simp
  show "has_tag (k, tagType, dt, sv v, nv v) s'"
    if "(case y of (k, v) \<Rightarrow> addTag E A ms tagType dt keys what k (sv v) (nv v)) s = (None, s')"
      "has_tag (k, tagType, dt, sv v, nv v) s" for y s s'
    using addTag_tagged [OF UNIV_I, of E keys s A ms tagType dt what "fst y" "sv (snd y)" "nv (snd y)"]
      tagged_has_tag [OF _ that(2)] that(1) by (simp add: case_prod_beta)
qed

lemma loop_tagged:
  "for_each (\<lambda>(k, v). addTag E A ms tagType dt keys what k (sv v) (nv v)) xs ce = (err, ce') \<Longrightarrow> tagged E keys UNIV ce ce'"
proof -
  assume f: "for_each (\<lambda>(k, v). addTag E A ms tagType dt keys what k (sv v) (nv v)) xs ce = (err, ce')"
  have "tagged E keys UNIV ce (snd (for_each (\<lambda>(k, v). addTag E A ms tagType dt keys what k (sv v) (nv v)) xs ce))"
  proof (rule for_each_inv [of _ "tagged E keys UNIV ce"])
    show "tagged E keys UNIV ce (snd ((case x of (k, v) \<Rightarrow> addTag E A ms tagType dt keys what k (sv v) (nv v)) s))"
      if "tagged E keys UNIV ce s" for x s
      using tagged_trans [OF that addTag_tagged [OF UNIV_I]] by (cases x) simp
  qed (rule tagged_refl)
  with f show ?thesis by simp
qed

lemma for_each_none: "(\<And>x s. fst (f x s) = None) \<Longrightarrow> fst (for_each f xs s) = None"
proof (induction xs arbitrary: s)
  case (Cons x xs)
  then show ?case by (cases "f x s") (metis (no_types, lifting) for_each.simps(2) fst_conv option.case(1) prod.case)
qed simp

lemma tag_loop_accepts:
  assumes "\<And>i. ans_append (la_tags A) i = None"
  shows "fst (for_each (\<lambda>(k, v). addTag E A ms tagType dt keys what k (sv v) (nv v)) xs s) = None"
  by (rule for_each_none) (simp add: addTag_def assms split: prod.splits)

lemma tag_loop_runs:
  assumes "\<And>i. ans_append (la_tags A) i = None"
  shows "\<exists>s'. for_each (\<lambda>(k, v). addTag E A ms tagType dt keys what k (sv v) (nv v)) xs s = (None, s')"
  using tag_loop_accepts [OF assms] by (intro exI) (rule prod_eqI, simp_all)

lemma tag_statement_runs:
  assumes a: "\<And>i. ans_append (la_tags A) i = None"
  obtains ce' where "addAttrsToTagStatement E A tagType attrs keys ce = (None, ce')"
    "\<And>tag. tag \<in> set (map_tags tagType attrs) \<Longrightarrow> tag_ok E keys tag \<Longrightarrow> has_tag tag ce'"
proof -
  let ?ms = "go_div (le_now E (clock_reads (snd ce)) div 1000000) 3600000 * 3600000"
  let ?ce = "(fst ce, (snd ce)\<lparr>clock_reads := clock_reads (snd ce) + 1\<rparr>)"
  obtain c1 where 1: "for_each (\<lambda>(k, v). addTag E A ?ms tagType TagDataTypeString keys ''string'' k (Some v) None)
      (StringData attrs) ?ce = (None, c1)" using tag_loop_runs [OF a, where sv = Some and nv = "\<lambda>_. None"] by blast
  obtain c2 where 2: "for_each (\<lambda>(k, v). addTag E A ?ms tagType TagDataTypeNumber keys ''number'' k None (Some v))
      (NumberData attrs) c1 = (None, c2)" using tag_loop_runs [OF a, where sv = "\<lambda>_. None" and nv = Some] by blast
  obtain c3 where 3: "for_each (\<lambda>(k, v). addTag E A ?ms tagType TagDataTypeBool keys ''bool'' k None None)
      (BoolData attrs) c2 = (None, c3)" using tag_loop_runs [OF a, where sv = "\<lambda>_. None" and nv = "\<lambda>_. None"] by blast
  note t2 = tagged_has_tag [OF loop_tagged [OF 2]] and t3 = tagged_has_tag [OF loop_tagged [OF 3]]
  have strings: "has_tag (k, tagType, TagDataTypeString, Some v, None) c3"
    if "(k, v) \<in> set (StringData attrs)" "tag_ok E keys (k, tagType, TagDataTypeString, Some v, None)" for k v
    by (rule t3, rule t2, rule tag_loop [OF a that 1])
  have numbers: "has_tag (k, tagType, TagDataTypeNumber, None, Some v) c3"
    if "(k, v) \<in> set (NumberData attrs)" "tag_ok E keys (k, tagType, TagDataTypeNumber, None, Some v)" for k v
    by (rule t3, rule tag_loop [OF a that 2])
  have bools: "has_tag (k, tagType, TagDataTypeBool, None, None) c3"
    if "(k, v) \<in> set (BoolData attrs)" "tag_ok E keys (k, tagType, TagDataTypeBool, None, None)" for k v
    by (rule tag_loop [OF a that 3])
  show ?thesis
  proof (rule that)
    show "addAttrsToTagStatement E A tagType attrs keys ce = (None, c3)"
      unfolding addAttrsToTagStatement_def Let_def fst_conv snd_conv by (simp only: 1 2 3 prod.case option.case)
    show "has_tag tag c3" if "tag \<in> set (map_tags tagType attrs)" "tag_ok E keys tag" for tag
      using that strings numbers bools by (auto simp: map_tags_def)
  qed
qed

text \<open>The tags of every record received that are not left out are in the statement.\<close>

lemma consume_runs:
  assumes a: "\<And>i. ans_append (la_tags A) i = None" and l: "\<And>i. ans_append (la_logs A) i = None"
  obtains ce' where "consume E A keys rec ce = (None, ce')"
    "\<And>tag. tag \<in> record_tags rec \<Longrightarrow> tag_ok E keys tag \<Longrightarrow> has_tag tag ce'"
    "\<And>tag. has_tag tag ce \<Longrightarrow> has_tag tag ce'"
proof -
  obtain c1 where 1: "addAttrsToTagStatement E A TagTypeResource (rec_resourceMap rec) keys ce = (None, c1)"
    "\<And>tag. tag \<in> set (map_tags TagTypeResource (rec_resourceMap rec)) \<Longrightarrow> tag_ok E keys tag \<Longrightarrow> has_tag tag c1"
    using tag_statement_runs [OF a, of E TagTypeResource "rec_resourceMap rec" keys ce] by blast
  obtain c2 where 2: "addAttrsToTagStatement E A TagTypeScope (rec_scopeMap rec) keys c1 = (None, c2)"
    "\<And>tag. tag \<in> set (map_tags TagTypeScope (rec_scopeMap rec)) \<Longrightarrow> tag_ok E keys tag \<Longrightarrow> has_tag tag c2"
    using tag_statement_runs [OF a, of E TagTypeScope "rec_scopeMap rec" keys c1] by blast
  obtain c3 where 3: "addAttrsToTagStatement E A TagTypeAttribute (rec_attrsMap rec) keys c2 = (None, c3)"
    "\<And>tag. tag \<in> set (map_tags TagTypeAttribute (rec_attrsMap rec)) \<Longrightarrow> tag_ok E keys tag \<Longrightarrow> has_tag tag c3"
    using tag_statement_runs [OF a, of E TagTypeAttribute "rec_attrsMap rec" keys c2] by blast
  obtain c4 where 4: "addAttrsToTagStatement E A TagTypeLogField (rec_logFields rec) keys c3 = (None, c4)"
    "\<And>tag. tag \<in> set (map_tags TagTypeLogField (rec_logFields rec)) \<Longrightarrow> tag_ok E keys tag \<Longrightarrow> has_tag tag c4"
    using tag_statement_runs [OF a, of E TagTypeLogField "rec_logFields rec" keys c3] by blast
  have grows: "has_tag tag c \<Longrightarrow> has_tag tag c'" if "addAttrsToTagStatement E A tt m keys c = (None, c')" for tag tt m c c'
    using tagged_has_tag [OF tag_statement_tagged [OF subset_UNIV, of E keys c A tt m]] that by simp
  note g1 = grows [OF 1(1)] and g2 = grows [OF 2(1)] and g3 = grows [OF 3(1)] and g4 = grows [OF 4(1)]
  obtain cs e where c4: "c4 = (cs, e)" by (rule prod.exhaust)
  let ?ce = "(cs\<lparr>cs_logs := cs_logs cs @ [log_args (bodyJSONEnabled e) rec],
     cs_metrics := AddMetric GetTenantNameFromResource 1 (rec_recordSize rec) (cs_metrics cs)\<rparr>, e)"
  have last: "has_tag tag c4 \<Longrightarrow> has_tag tag ?ce" for tag by (simp add: has_tag_def c4)
  show ?thesis
  proof (rule that)
    show "consume E A keys rec ce = (None, ?ce)" by (simp add: consume_def 1(1) 2(1) 3(1) 4(1) c4 l)
    show "has_tag tag ?ce" if "has_tag tag ce" for tag by (rule last, rule g4, rule g3, rule g2, rule g1, rule that)
    show "has_tag tag ?ce" if t: "tag \<in> record_tags rec" "tag_ok E keys tag" for tag
      using t(1) unfolding record_tags_def
    proof (elim UnE)
      assume "tag \<in> set (map_tags TagTypeResource (rec_resourceMap rec))"
      then show ?thesis by (intro last g4 g3 g2 1(2) t(2))
    next
      assume "tag \<in> set (map_tags TagTypeScope (rec_scopeMap rec))"
      then show ?thesis by (intro last g4 g3 2(2) t(2))
    next
      assume "tag \<in> set (map_tags TagTypeAttribute (rec_attrsMap rec))"
      then show ?thesis by (intro last g4 3(2) t(2))
    next
      assume "tag \<in> set (map_tags TagTypeLogField (rec_logFields rec))"
      then show ?thesis by (intro last 4(2) t(2))
    qed
  qed
qed

lemma consume_accepts:
  assumes "\<And>i. ans_append (la_tags A) i = None" "\<And>i. ans_append (la_logs A) i = None"
  shows "fst (consume E A keys rec ce) = None"
  by (rule consume_runs [OF assms, of E keys rec ce]) simp_all

lemma consumed_tags:
  assumes "\<And>i. ans_append (la_tags A) i = None" "\<And>i. ans_append (la_logs A) i = None"
    and "for_each (consume E A keys) recs ce = (None, ce')" "rec \<in> set recs" "tag \<in> record_tags rec" "tag_ok E keys tag"
  shows "has_tag tag ce'"
proof (rule for_each_covers [OF assms(3,4)])
  show "has_tag tag s'" if "consume E A keys rec s = (None, s')" for s s'
    by (rule consume_runs [OF assms(1,2), of E keys rec s]) (use that assms(5,6) in auto)
  show "has_tag tag s'" if "consume E A keys y s = (None, s')" "has_tag tag s" for y s s'
    by (rule consume_runs [OF assms(1,2), of E keys y s]) (use that in auto)
qed

text \<open>C15: the tags of a push that returns without an error, all of whose rows of tags and logs ClickHouse takes, are exactly
  the attributes of the records that have neither a random key, nor a key to be skipped, nor a text
  of more than 256 bytes.\<close>

theorem tags_exact:
  assumes "pushToClickhouse E A S ld e = ((None, w), e')"
    and "produce_logs E S ld e = (results, seen)"
    and "complete_schedule S (length (log_sources E ld)) results"
    and "\<And>i. ans_append (la_tags A) i = None" "\<And>i. ans_append (la_logs A) i = None"
  shows "snd ` set (wr_rows (lw_tags w)) = {tag \<in> produced_tags results. tag_ok E (skip_keys e) tag}"
proof -
  obtain cs e1 where w: "write_logs E A S seen cs e1 = ((None, w), e')" and tags: "tags_ok E (skip_keys e) (produced_tags results) cs"
    and c: "for_each (consume E A (skip_keys e)) (picked (sch_receive S) (produced_records results))
         (nothing_consumed, e\<lparr>clock_reads := clock_reads e + 1\<rparr>) = (None, (cs, e1))"
    using push_cases [OF assms(1,2)] by (metis option.distinct(1))
  from w have rows: "wr_rows (lw_tags w) = cs_tags cs"
    by (auto simp: write_logs_def Let_def send_def split: option.splits prod.splits)
  have "tag \<in> snd ` set (cs_tags cs)" if "tag \<in> produced_tags results" "tag_ok E (skip_keys e) tag" for tag
  proof -
    from that(1) obtain rec where r: "rec \<in> set (produced_records results)" "tag \<in> record_tags rec" by (auto simp: produced_tags_def)
    then have "rec \<in> set (picked (sch_receive S) (produced_records results))"
      using picked_all [of "sch_receive S" "produced_records results"] assms(3) unfolding complete_schedule_def by blast
    from consumed_tags [OF assms(4,5) c this r(2) that(2)] show ?thesis by (simp add: has_tag_def)
  qed
  with tags rows show ?thesis by (auto simp: tags_ok_def)
qed

section \<open>A push that ClickHouse accepts\<close>

text \<open>Only the end of the exporter, the identifiers and ClickHouse make a push fail.\<close>

lemma push_reaches_write:
  assumes "\<not> logs_closed e" "accepts (la_tags A)" "accepts (la_attributeKeys A)" "accepts (la_resourceKeys A)" "accepts (la_logs A)"
    and "produce_logs E S ld e = (results, seen)" "produced_errors results = []"
  obtains cs e1 where "pushToClickhouse E A S ld e = write_logs E A S seen cs e1"
    "rfCache e1 = rfCache e" "clock_reads e \<le> clock_reads e1" "maxAllowedDataAgeDays e1 = maxAllowedDataAgeDays e"
    "\<not> logs_closed e1" "cs_logs cs = map (log_args (bodyJSONEnabled e)) (picked (sch_receive S) (produced_records results))"
proof -
  let ?e = "e\<lparr>clock_reads := clock_reads e + 1\<rparr>"
  obtain err cs e1 where c: "for_each (consume E A (skip_keys e)) (picked (sch_receive S) (produced_records results))
      (nothing_consumed, ?e) = (err, (cs, e1))" by (metis prod.exhaust)
  have "fst (for_each (consume E A (skip_keys e)) (picked (sch_receive S) (produced_records results)) (nothing_consumed, ?e)) = None"
    using assms(2,5) by (intro for_each_none consume_accepts) (simp_all add: accepts_def)
  with c have "err = None" by simp
  moreover have "same_but_keys ?e e1 \<and>
      (err = None \<longrightarrow> cs_logs cs = map (log_args (bodyJSONEnabled e)) (picked (sch_receive S) (produced_records results)))"
    using consume_all [OF c, of UNIV] by (simp add: tags_ok_def nothing_consumed_def)
  moreover note same_but_keys_fields [of ?e e1]
  moreover have "prepare_errors A = []" using assms(2-5) by (simp add: prepare_errors_def accepts_def)
  ultimately show ?thesis using that [of cs e1] assms(1,6,7) c
    by (simp add: pushToClickhouse_def skip_keys_def group_error_def)
qed

section \<open>One log\<close>

definition all_quiet :: log_answers where
  "all_quiet = \<lparr>la_tags = quiet, la_attributeKeys = quiet, la_resourceKeys = quiet, la_logs = quiet, la_resources = quiet\<rparr>"

definition small_env :: "(string, unit) list_ttl logs_env" where
  "small_env = \<lparr>le_texts = simple_texts, le_unicode = \<lparr>letter_beyond = \<lambda>_. False, lower_beyond = \<lambda>_. False\<rparr>,
     le_keysT = day_cache, le_rfT = day_cache, le_now = \<lambda>_. 1700000000000000000, le_ksuid = \<lambda>_ _. Inr ''id'',
     le_observed = \<lambda>_. 1700000000000000000\<rparr>"

definition small_config :: logs_config where
  "small_config = \<lparr>lc_BodyJSONEnabled = False, lc_BodyJSONOldBodyEnabled = False, lc_MaxDistinctValues = 10\<rparr>"

definition one_log :: resource_logs where
  "one_log = \<lparr>rl_Attributes = [], rl_ScopeLogs = [\<lparr>sl_Name = ''s'', sl_Version = ''1'', sl_Attributes = [], sl_LogRecords =
     [\<lparr>lg_Timestamp = 1700000000000000000, lg_ObservedTimestamp = 0, lg_TraceID = [], lg_SpanID = [], lg_Flags = 0,
       lg_SeverityText = ''INFO'', lg_SeverityNumber = 9, lg_Body = VStr ''hi'', lg_Attributes = []\<rparr>]\<rparr>]\<rparr>"

definition in_order :: "nat \<Rightarrow> logs_schedule" where
  "in_order n = \<lparr>sch_run = [0..<n], sch_receive = [0..<n], sch_producer_first = True, sch_answers = [0, 1, 2, 3, 4]\<rparr>"



definition one_source :: log_source where
  "one_source = \<lparr>src_attributes = [], src_resourcesMap = attributesToMap simple_texts [] True,
     src_resourceJson = lib_Marshal simple_texts [], src_resBytes = getResourceAttributesByte simple_texts [],
     src_scopeName = ''s'', src_scopeVersion = ''1'', src_scopeMap = attributesToMap simple_texts [] True,
     src_record = hd (sl_LogRecords (hd (rl_ScopeLogs one_log)))\<rparr>"

lemma numbered_one: "numbered_logs small_env [one_log] = [(0, one_source)]"
  by (simp add: numbered_logs_def log_sources_def one_log_def one_source_def small_env_def Let_def attributesToMap_def)

definition no_attributes_fp :: string where
  "no_attributes_fp = CalculateFingerprint simple_texts [] ResourceHierarchy"

lemma one_ts:
  "log_ts small_env 0 (src_record one_source) = 1700000000000000000"
  "\<not> (1700000000000000000 < oldest_allowed 15 1700000000000000000)"
  by (simp_all add: log_ts_def log_ots_def one_source_def one_log_def oldest_allowed_def word_less_alt)

lemma produce_one:
  assumes "maxAllowedDataAgeDays e = 15"
  shows "produce_logs small_env (in_order 1) [one_log] e =
    ([Inr (Some (make_record small_env e 0 one_source no_attributes_fp ''id''))],
     [(1699999200, [(src_resourceJson one_source, no_attributes_fp)])])"
proof -
  have b: "bucket_of 1700000000000000000 = 1699999200"
    by (simp add: bucket_of_def tsBucket_def)
  have now: "le_now small_env n = 1700000000000000000" "le_ksuid small_env i t = Inr ''id''" "le_texts small_env = simple_texts"
     "src_attributes one_source = []" for n i t
    by (simp_all add: small_env_def one_source_def)
  show ?thesis
    by (simp add: produce_logs_def picked_def in_order_def numbered_one produce_record_def one_ts now assms b
        getOrCreateFingerprint_def no_attributes_fp_def)
qed

lemma produced_one:
  "produced_errors [Inr (Some rec)] = []" "produced_records [Inr (Some rec)] = [rec]"
  by (simp_all add: produced_errors_def produced_records_def)

lemma one_complete: "complete_schedule (in_order 1) (length (log_sources small_env [one_log])) [Inr (Some rec)]"
proof -
  have "length (log_sources small_env [one_log]) = length (numbered_logs small_env [one_log])" by (simp add: numbered_logs_def)
  then have "length (log_sources small_env [one_log]) = 1" by (simp add: numbered_one)
  moreover have "[0..<5] = [0, 1, 2, 3, 4::nat]" by code_simp
  ultimately show ?thesis unfolding complete_schedule_def in_order_def produced_one by simp
qed

definition one_resource :: resourcesSeenMap where
  "one_resource = [(1699999200, [(src_resourceJson one_source, no_attributes_fp)])]"

text \<open>A push of the log, and what it does with its resource.\<close>

lemma push_one_log:
  assumes e: "\<not> logs_closed e" "maxAllowedDataAgeDays e = 15" and n: "list_live (rfCache e) (le_now small_env 0) key = item"
    and key: "key = MakeKeyForRFCache 1699999200 no_attributes_fp" and a: "ans \<in> {quiet, timing_out}"
  obtains w e' where "pushToClickhouse small_env (all_quiet\<lparr>la_resources := ans\<rparr>) (in_order 1) [one_log] e =
      ((if ans = quiet then None else Some ''StatementSend:timeout'', w), e')"
    "wr_rows (lw_logs w) = [log_args (bodyJSONEnabled e) (make_record small_env e 0 one_source no_attributes_fp ''id'')]"
    "wr_sent (lw_logs w)" "wr_sent (lw_resources w) = (ans = quiet)"
    "wr_rows (lw_resources w) = (if item = None then [resource_row (1699999200, src_resourceJson one_source, no_attributes_fp)] else [])"
    "\<not> logs_closed e'" "maxAllowedDataAgeDays e' = 15"
proof -
  let ?A = "all_quiet\<lparr>la_resources := ans\<rparr>" and ?r = "(1699999200, src_resourceJson one_source, no_attributes_fp)"
  note made = produce_one [OF e(2), folded one_resource_def]
  let ?rec = "make_record small_env e 0 one_source no_attributes_fp ''id''"
  have A: "accepts (la_tags ?A)" "accepts (la_attributeKeys ?A)" "accepts (la_resourceKeys ?A)" "accepts (la_logs ?A)"
    "la_resources ?A = ans" by (simp_all add: all_quiet_def)
  obtain cs e1 where p: "pushToClickhouse small_env ?A (in_order 1) [one_log] e = write_logs small_env ?A (in_order 1) one_resource cs e1"
    and e1: "rfCache e1 = rfCache e" "maxAllowedDataAgeDays e1 = maxAllowedDataAgeDays e" "\<not> logs_closed e1"
    and "cs_logs cs = map (log_args (bodyJSONEnabled e)) (picked (sch_receive (in_order 1)) (produced_records [Inr (Some ?rec)]))"
    using push_reaches_write [OF e(1) A(1-4) made produced_one(1)] by metis
  then have logs: "cs_logs cs = [log_args (bodyJSONEnabled e) ?rec]" by (simp add: produced_one picked_def in_order_def)
  have range: "rangeAll one_resource = [?r]" by (simp add: rangeAll_def one_resource_def)
  have now: "le_now small_env n = 1700000000000000000" for n by (simp add: small_env_def)
  have "ans_append ans 0 = None" using a by (auto simp: quiet_def timing_out_def)
  moreover have "resource_key ?r = key" by (simp add: resource_key_def key)
  ultimately obtain c k where n: "append_resources small_env ans one_resource e1 =
      ((None, if item = None then [resource_row ?r] else []), e1\<lparr>rfCache := c, clock_reads := k\<rparr>)"
    using n e1(1) now
    by (cases "item = None") (auto simp: append_resources_def resource_writes_def range cache_Get_def cache_Set_def list_ttl_def small_env_def day_cache_def)
  have errs: "first_error (send_errors ?A (in_order 1)) = (if ans = quiet then None else Some ''StatementSend:timeout'')"
    using a by (auto simp: send_errors_def first_error_def picked_def in_order_def all_quiet_def quiet_def timing_out_def)
  have ans: "ans_prepare ans = None" "ans_send ans = (if ans = quiet then None else Some ''timeout'')"
    using a by (auto simp: quiet_def timing_out_def)
  have quiet: "la_logs ?A = quiet" "ans_send quiet = None" by (simp_all add: all_quiet_def quiet_def)
  show ?thesis
  proof (rule that)
    show "pushToClickhouse small_env ?A (in_order 1) [one_log] e =
        ((if ans = quiet then None else Some ''StatementSend:timeout'',
          \<lparr>lw_logs = send (la_logs ?A) (cs_logs cs), lw_resources = send ans (if item = None then [resource_row ?r] else []),
           lw_attributeKeys = send (la_attributeKeys ?A) (cs_attributeKeys cs),
           lw_resourceKeys = send (la_resourceKeys ?A) (cs_resourceKeys cs), lw_tags = send (la_tags ?A) (cs_tags cs),
           lw_usage = (if send_errors ?A (in_order 1) = [] then cs_metrics cs else [])\<rparr>),
         e1\<lparr>rfCache := c, clock_reads := k\<rparr>)"
      unfolding p write_logs_def A(5) ans(1) n by (simp add: errs [unfolded One_nat_def])
  qed (use logs e1 e ans(2) quiet in \<open>simp_all add: send_def\<close>)
qed

lemma small_env_caches:
  "ttl_promises (le_rfT small_env) list_live" "ttl_lasts 86400000000000 (le_rfT small_env) list_live"
  "ttl_sound (le_rfT small_env) list_live" "mono (le_now small_env)"
  by (simp_all add: small_env_def day_cache_promises mono_def)

definition small_exporter :: "(string, unit) list_ttl clickhouseLogsExporter" where
  "small_exporter = newExporter small_env small_config"

lemma small_exporter_facts [simp]:
  "\<not> logs_closed small_exporter" "maxAllowedDataAgeDays small_exporter = 15" "rfCache small_exporter = []" "clock_reads small_exporter = 0"
  by (simp_all add: small_exporter_def newExporter_def small_env_def day_cache_def list_ttl_def)




text \<open>The first tag of the log.\<close>

lemma severity_keys [simp]:
  "IsRandomKey \<lparr>letter_beyond = \<lambda>_. False, lower_beyond = \<lambda>_. False\<rparr> ''severity_text'' = False"
  "IsRandomKey \<lparr>letter_beyond = \<lambda>_. False, lower_beyond = \<lambda>_. False\<rparr> ''severity_number'' = False"
  by code_simp+

theorem tags_exact_witness:
  "\<exists>w e'. pushToClickhouse small_env all_quiet (in_order 1) [one_log] small_exporter = ((None, w), e') \<and>
     snd ` set (wr_rows (lw_tags w)) = {(''severity_text'', TagTypeLogField, TagDataTypeString, Some ''INFO'', None),
       (''severity_number'', TagTypeLogField, TagDataTypeNumber, None, Some (float_of_int 9))}"
proof -
  have same: "all_quiet\<lparr>la_resources := quiet\<rparr> = all_quiet" by (simp add: all_quiet_def)
  obtain w e' where p: "pushToClickhouse small_env all_quiet (in_order 1) [one_log] small_exporter = ((None, w), e')"
    by (rule push_one_log [of small_exporter, OF _ _ refl refl, of quiet, unfolded same]) simp_all
  let ?rec = "make_record small_env small_exporter 0 one_source no_attributes_fp ''id''"
  have rec: "rec_resourceMap ?rec = \<lparr>StringData = [], NumberData = [], BoolData = []\<rparr>"
    "rec_scopeMap ?rec = \<lparr>StringData = [], NumberData = [], BoolData = []\<rparr>"
    "rec_attrsMap ?rec = \<lparr>StringData = [], NumberData = [], BoolData = []\<rparr>"
    "rec_logFields ?rec = \<lparr>StringData = [(''severity_text'', ''INFO'')], NumberData = [(''severity_number'', float_of_int 9)], BoolData = []\<rparr>"
    by (simp_all add: make_record_def one_source_def one_log_def attributesToMap_def Let_def split: prod.splits)
  have "snd ` set (wr_rows (lw_tags w)) = {tag \<in> produced_tags [Inr (Some ?rec)]. tag_ok small_env (skip_keys small_exporter) tag}"
    by (rule tags_exact [OF p produce_one one_complete]) (simp_all add: all_quiet_def quiet_def)
  moreover have "skip_keys small_exporter = []" by (simp add: skip_keys_def small_exporter_def newExporter_def)
  moreover have "produced_tags [Inr (Some ?rec)] = {(''severity_text'', TagTypeLogField, TagDataTypeString, Some ''INFO'', None),
       (''severity_number'', TagTypeLogField, TagDataTypeNumber, None, Some (float_of_int 9))}"
    by (simp add: produced_tags_def produced_one record_tags_def rec map_tags_def)
  moreover have "tag_ok small_env [] (''severity_text'', TagTypeLogField, TagDataTypeString, Some ''INFO'', None)"
    "tag_ok small_env [] (''severity_number'', TagTypeLogField, TagDataTypeNumber, None, Some x)" for x
    by (simp_all add: tag_ok_def small_env_def MaxAttributeValueLength_def)
  ultimately have "snd ` set (wr_rows (lw_tags w)) = {(''severity_text'', TagTypeLogField, TagDataTypeString, Some ''INFO'', None),
       (''severity_number'', TagTypeLogField, TagDataTypeNumber, None, Some (float_of_int 9))}" by auto
  with p show ?thesis by blast
qed

end
