(* ===== verification/TracesSpans.thy ===== *)
theory TracesSpans
  imports ExportRows ResourceFingerprint
begin

text \<open>
  The spans of the traces exporter (\<^verbatim>\<open>exporter/clickhousetracesexporter/clickhouse_exporter_v3.go\<close>): how a
  span of \<^verbatim>\<open>pdata\<close> becomes the structured span that is written: its attributes and those
  of its resource, its references, its events and errors, and the columns made of attributes. The
  names of kinds and status codes, the encoding of JSON, the hash of a text, the host of a URL and fresh identifiers
  are arguments.
\<close>

section \<open>Spans\<close>

record span_link =
  ln_TraceID :: "byte list"
  ln_SpanID :: "byte list"

record span_event =
  ev_Name :: string
  ev_Timestamp :: uint64
  ev_Attributes :: pmap

record otel_span =
  os_TraceID :: "byte list"
  os_SpanID :: "byte list"
  os_ParentSpanID :: "byte list"
  os_TraceState :: string
  os_Flags :: "32 word"
  os_Name :: string
  os_Kind :: int
  os_StartTimestamp :: uint64
  os_EndTimestamp :: uint64
  os_StatusCode :: int
  os_StatusMessage :: string
  os_Attributes :: pmap
  os_Links :: "span_link list"
  os_Events :: "span_event list"

record resource_spans =
  rs_Attributes :: pmap
  rs_ScopeSpans :: "otel_span list list"

section \<open>Structured spans\<close>

record Event =
  event_Name :: string
  event_TimeUnixNano :: uint64
  event_AttributeMap :: "(string \<times> string) list"
  event_IsError :: bool

record ErrorEvent =
  error_Event :: Event
  error_ErrorID :: string
  error_ErrorGroupID :: string

record OtelSpanRef =
  ref_TraceId :: string
  ref_SpanId :: string
  ref_RefType :: string

record SpanAttribute =
  sa_Key :: string
  sa_TagType :: string
  sa_DataType :: string
  sa_StringValue :: string
  sa_NumberValue :: float64
  sa_IsColumn :: bool

record SpanV3 =
  TsBucketStart :: uint64
  FingerPrint :: string
  StartTimeUnixNano :: uint64
  TraceId :: string
  SpanId :: string
  TraceState :: string
  ParentSpanId :: string
  Flags :: "32 word"
  Name :: string
  Kind :: int
  SpanKind :: string
  DurationNano :: uint64
  StatusCode :: int
  StatusMessage :: string
  StatusCodeString :: string
  AttributeString :: "(string \<times> string) list"
  AttributesNumber :: "(string \<times> float64) list"
  AttributesBool :: "(string \<times> bool) list"
  ResourcesString :: "(string \<times> string) list"
  BillableResourcesString :: "(string \<times> string) list"
  Events :: "string list"
  ErrorEvents :: "ErrorEvent list"
  ServiceName :: string
  ResponseStatusCode :: string
  ExternalHttpUrl :: string
  HttpUrl :: string
  ExternalHttpMethod :: string
  HttpMethod :: string
  HttpHost :: string
  DBName :: string
  DBOperation :: string
  HasError :: bool
  IsRemote :: string
  References :: string
  SpanAttributes :: "SpanAttribute list"

text \<open>Libraries: \<^verbatim>\<open>uuid.New\<close> by the number of the call; the host is none if the URL does not parse.\<close>

record trace_lib =
  tl_texts :: text_lib
  tl_KindString :: "int \<Rightarrow> string"
  tl_CodeString :: "int \<Rightarrow> string"
  tl_Hostname :: "string \<Rightarrow> string option"
  tl_md5 :: "string \<Rightarrow> byte list"
  tl_uuid :: "nat \<Rightarrow> string"
  tl_MarshalEvent :: "Event \<Rightarrow> string"
  tl_MarshalRefs :: "OtelSpanRef list \<Rightarrow> string"
  tl_MarshalSpan :: "SpanV3 \<Rightarrow> string"

section \<open>References\<close>

definition makeJaegerProtoReferences :: "span_link list \<Rightarrow> byte list \<Rightarrow> byte list \<Rightarrow> OtelSpanRef list" where
  "makeJaegerProtoReferences links parentSpanID traceID =
     (let parentSpanIDSet = (length (replicate 8 (0 :: byte)) \<noteq> 0) in
      if \<not> parentSpanIDSet \<and> links = [] then []
      else (if parentSpanIDSet then [\<lparr>ref_TraceId = TraceIDToHexOrEmptyString traceID,
              ref_SpanId = SpanIDToHexOrEmptyString parentSpanID, ref_RefType = ''CHILD_OF''\<rparr>] else []) @
           map (\<lambda>l. \<lparr>ref_TraceId = TraceIDToHexOrEmptyString (ln_TraceID l),
              ref_SpanId = SpanIDToHexOrEmptyString (ln_SpanID l), ref_RefType = ''FOLLOWS_FROM''\<rparr>) links)"

definition ServiceNameForResource :: "pmap \<Rightarrow> string" where
  "ServiceNameForResource attributes =
     (case map_of attributes ''service.name'' of None \<Rightarrow> ''<nil-service-name>'' | Some v \<Rightarrow> value_Str v)"

section \<open>Columns made of attributes\<close>

text \<open>\<^verbatim>\<open>strconv.Atoi\<close>: an optional sign and digits, in the range of 64 bits.\<close>

definition Atoi :: "string \<Rightarrow> int option" where
  "Atoi s =
     (let (neg, ds) = (case s of [] \<Rightarrow> (False, []) | c # cs \<Rightarrow>
            if c = CHR ''-'' then (True, cs) else if c = CHR ''+'' then (False, cs) else (False, s));
          n = (if neg then - int (nat_of_digits ds) else int (nat_of_digits ds))
      in if ds = [] \<or> \<not> list_all (\<lambda>c. ascii_digit (of_char c)) ds \<or> \<not> int64_range n then None else Some n)"

definition status_code_text :: "pvalue \<Rightarrow> string" where
  "status_code_text v =
     (case Atoi (value_Str v) of
        Some n \<Rightarrow> if n \<noteq> 0 then show_int n else show_int (value_Int v)
      | None \<Rightarrow> show_int (value_Int v))"

definition one_of :: "string list \<Rightarrow> string \<Rightarrow> bool" where
  "one_of names k \<longleftrightarrow> k \<in> set names"

definition populateCustomAttr :: "trace_lib \<Rightarrow> string \<times> pvalue \<Rightarrow> SpanV3 \<Rightarrow> SpanV3" where
  "populateCustomAttr L kv sp =
     (let k = fst kv; v = snd kv in
      if one_of [''http.status_code'', ''http.response.status_code''] k then
        sp\<lparr>ResponseStatusCode := status_code_text v\<rparr>
      else if one_of [''http.url'', ''url.full''] k \<and> Kind sp = 3 then
        let value = (case tl_Hostname L (value_Str v) of Some host \<Rightarrow> host | None \<Rightarrow> value_Str v)
        in sp\<lparr>ExternalHttpUrl := value, HttpUrl := value_Str v\<rparr>
      else if one_of [''http.method'', ''http.request.method''] k \<and> Kind sp = 3 then
        sp\<lparr>ExternalHttpMethod := value_Str v, HttpMethod := value_Str v\<rparr>
      else if one_of [''http.url'', ''url.full''] k \<and> Kind sp \<noteq> 3 then sp\<lparr>HttpUrl := value_Str v\<rparr>
      else if one_of [''http.method'', ''http.request.method''] k \<and> Kind sp \<noteq> 3 then sp\<lparr>HttpMethod := value_Str v\<rparr>
      else if one_of [''http.host'', ''server.address'', ''client.address'', ''http.request.header.host''] k then
        sp\<lparr>HttpHost := value_Str v\<rparr>
      else if one_of [''db.name'', ''db.namespace''] k then sp\<lparr>DBName := value_Str v\<rparr>
      else if one_of [''db.operation'', ''db.operation.name''] k then sp\<lparr>DBOperation := value_Str v\<rparr>
      else if k = ''rpc.grpc.status_code'' then sp\<lparr>ResponseStatusCode := status_code_text v\<rparr>
      else if k = ''rpc.jsonrpc.error_code'' then sp\<lparr>ResponseStatusCode := value_Str v\<rparr>
      else sp)"

definition populateCustomAttrsAndAttrs :: "trace_lib \<Rightarrow> pmap \<Rightarrow> SpanV3 \<Rightarrow> SpanV3" where
  "populateCustomAttrsAndAttrs L attributes sp = fold (populateCustomAttr L) attributes sp"

section \<open>Events\<close>

definition no_event :: Event where
  "no_event = \<lparr>event_Name = [], event_TimeUnixNano = 0, event_AttributeMap = [], event_IsError = False\<rparr>"

definition no_error :: ErrorEvent where
  "no_error = \<lparr>error_Event = no_event, error_ErrorID = [], error_ErrorGroupID = []\<rparr>"

text \<open>A key that is missing in a map is the empty text.\<close>

definition attr_text :: "Event \<Rightarrow> string \<Rightarrow> string" where
  "attr_text e k = (case map_of (event_AttributeMap e) k of Some s \<Rightarrow> s | None \<Rightarrow> [])"

definition error_group :: "trace_lib \<Rightarrow> bool \<Rightarrow> string \<Rightarrow> Event \<Rightarrow> string" where
  "error_group L lowCardinal service e =
     EncodeToString (tl_md5 L (service @ attr_text e ''exception.type'' @
       (if lowCardinal then [] else attr_text e ''exception.message'')))"

definition populateEvent :: "trace_lib \<Rightarrow> bool \<Rightarrow> span_event \<Rightarrow> SpanV3 \<times> nat \<Rightarrow> SpanV3 \<times> nat" where
  "populateEvent L lowCardinal ev sn =
     (case sn of (sp, n) \<Rightarrow>
        let exception = (ev_Name ev = ''exception'');
            event = \<lparr>event_Name = ev_Name ev, event_TimeUnixNano = ev_Timestamp ev,
              event_AttributeMap = fold (\<lambda>(k, v). AList.update k (lib_AsString (tl_texts L) v)) (ev_Attributes ev) [],
              event_IsError = exception\<rparr>;
            errorEvent = (if exception then
                \<lparr>error_Event = event, error_ErrorID = filter (\<lambda>c. c \<noteq> CHR ''-'') (tl_uuid L n),
                 error_ErrorGroupID = error_group L lowCardinal (ServiceName sp) event\<rparr>
              else no_error)
        in (sp\<lparr>Events := Events sp @ [tl_MarshalEvent L event], ErrorEvents := ErrorEvents sp @ [errorEvent]\<rparr>,
            if exception then n + 1 else n))"

definition populateEventsV3 :: "trace_lib \<Rightarrow> bool \<Rightarrow> span_event list \<Rightarrow> SpanV3 \<times> nat \<Rightarrow> SpanV3 \<times> nat" where
  "populateEventsV3 L lowCardinal events sn = fold (populateEvent L lowCardinal) events sn"

section \<open>Attributes\<close>

record attributesData =
  StringMap :: "(string \<times> string) list"
  NumberMap :: "(string \<times> float64) list"
  BoolMap :: "(string \<times> bool) list"
  ad_SpanAttributes :: "SpanAttribute list"

definition no_attributes :: attributesData where
  "no_attributes = \<lparr>StringMap = [], NumberMap = [], BoolMap = [], ad_SpanAttributes = []\<rparr>"

definition span_attribute :: "string \<Rightarrow> string \<Rightarrow> string \<Rightarrow> string \<Rightarrow> float64 \<Rightarrow> SpanAttribute" where
  "span_attribute key tagType dataType strVal numVal = \<lparr>sa_Key = key, sa_TagType = tagType, sa_DataType = dataType,
     sa_StringValue = strVal, sa_NumberValue = numVal, sa_IsColumn = False\<rparr>"

text \<open>A string, a number or a truth value of an attribute, whether it is flattened or not.\<close>

fun add_flat :: "string \<times> flat \<Rightarrow> attributesData \<Rightarrow> attributesData" where
  "add_flat (key, FlatString s) m =
     m\<lparr>StringMap := AList.update key s (StringMap m),
       ad_SpanAttributes := ad_SpanAttributes m @ [span_attribute key ''tag'' ''string'' s (Finite_f64 0)]\<rparr>"
| "add_flat (key, FlatNumber x) m =
     (if IsValidFloat x then
        m\<lparr>NumberMap := AList.update key x (NumberMap m),
          ad_SpanAttributes := ad_SpanAttributes m @ [span_attribute key ''tag'' ''float64'' [] x]\<rparr>
      else m)"
| "add_flat (key, FlatBool b) m =
     m\<lparr>BoolMap := AList.update key b (BoolMap m),
       ad_SpanAttributes := ad_SpanAttributes m @ [span_attribute key ''tag'' ''bool'' [] (Finite_f64 0)]\<rparr>"

fun attributesData_add :: "text_lib \<Rightarrow> string \<Rightarrow> pvalue \<Rightarrow> attributesData \<Rightarrow> attributesData" where
  "attributesData_add L key (VDouble x) m = add_flat (key, FlatNumber x) m"
| "attributesData_add L key (VInt i) m = add_flat (key, FlatNumber (float_of_int i)) m"
| "attributesData_add L key (VBool b) m = add_flat (key, FlatBool b) m"
| "attributesData_add L key (VMap kvs) m = fold add_flat (FlattenJSON L kvs key) m"
| "attributesData_add L key v m = add_flat (key, FlatString (lib_AsString L v)) m"

text \<open>The text \<^verbatim>\<open>%v\<close> gives for a value of flattened data.\<close>

fun flat_text :: "text_lib \<Rightarrow> flat \<Rightarrow> string" where
  "flat_text L (FlatString s) = s"
| "flat_text L (FlatNumber x) = lib_verb_v L (VDouble x)"
| "flat_text L (FlatBool b) = lib_verb_v L (VBool b)"

text \<open>The attributes of a resource as texts.\<close>

fun resource_texts :: "text_lib \<Rightarrow> string \<times> pvalue \<Rightarrow> (string \<times> string) list" where
  "resource_texts L (k, VMap kvs) = map (\<lambda>(key, x). (key, flat_text L x)) (FlattenJSON L kvs k)"
| "resource_texts L (k, v) = [(k, lib_AsString L v)]"

definition update_all :: "('k \<times> 'v) list \<Rightarrow> ('k \<times> 'v) list \<Rightarrow> ('k \<times> 'v) list" where
  "update_all kvs m = fold (\<lambda>(k, v). AList.update k v) kvs m"

definition resource_attrs :: "text_lib \<Rightarrow> pmap \<Rightarrow> (string \<times> string) list" where
  "resource_attrs L attributes = update_all (concat (map (resource_texts L) attributes)) []"

definition billable_attrs :: "text_lib \<Rightarrow> pmap \<Rightarrow> (string \<times> string) list" where
  "billable_attrs L attributes =
     update_all (concat (map (resource_texts L) (filter (\<lambda>(k, v). \<not> ExcludeSigNozWorkspaceResourceAttrs k) attributes))) []"

definition resource_span_attributes :: "text_lib \<Rightarrow> pmap \<Rightarrow> SpanAttribute list" where
  "resource_span_attributes L attributes =
     map (\<lambda>(k, s). span_attribute k ''resource'' ''string'' s (Finite_f64 0)) (concat (map (resource_texts L) attributes))"

section \<open>A structured span\<close>

definition hasIsRemoteMask :: "32 word" where "hasIsRemoteMask = 0x100"
definition isRemoteMask :: "32 word" where "isRemoteMask = 0x200"

definition is_remote :: "32 word \<Rightarrow> string" where
  "is_remote flags =
     (if and flags hasIsRemoteMask \<noteq> 0 then if and flags isRemoteMask \<noteq> 0 then ''yes'' else ''no'' else ''unknown'')"

text \<open>Integers of 8 and of 16 bits.\<close>

definition int_bits :: "nat \<Rightarrow> int \<Rightarrow> int" where
  "int_bits n i = (i + 2 ^ (n - 1)) mod 2 ^ n - 2 ^ (n - 1)"

definition newStructuredSpanV3 ::
  "trace_lib \<Rightarrow> bool \<Rightarrow> uint64 \<Rightarrow> string \<Rightarrow> otel_span \<Rightarrow> string \<Rightarrow> pmap \<Rightarrow> nat \<Rightarrow> SpanV3 \<times> nat" where
  "newStructuredSpanV3 L lowCardinal bucketStart fingerprint otelSpan service resource n =
     (let T = tl_texts L;
          attrMap = fold (\<lambda>(k, v). attributesData_add T k v) (os_Attributes otelSpan) no_attributes;
          sp = \<lparr>
            TsBucketStart = bucketStart, FingerPrint = fingerprint,
            StartTimeUnixNano = os_StartTimestamp otelSpan,
            TraceId = TraceIDToHexOrEmptyString (os_TraceID otelSpan),
            SpanId = SpanIDToHexOrEmptyString (os_SpanID otelSpan),
            TraceState = os_TraceState otelSpan,
            ParentSpanId = SpanIDToHexOrEmptyString (os_ParentSpanID otelSpan),
            Flags = os_Flags otelSpan, Name = os_Name otelSpan,
            Kind = int_bits 8 (os_Kind otelSpan), SpanKind = tl_KindString L (os_Kind otelSpan),
            DurationNano = os_EndTimestamp otelSpan - os_StartTimestamp otelSpan,
            StatusCode = int_bits 16 (os_StatusCode otelSpan), StatusMessage = os_StatusMessage otelSpan,
            StatusCodeString = tl_CodeString L (os_StatusCode otelSpan),
            AttributeString = StringMap attrMap, AttributesNumber = NumberMap attrMap, AttributesBool = BoolMap attrMap,
            ResourcesString = resource_attrs T resource, BillableResourcesString = billable_attrs T resource,
            Events = [], ErrorEvents = [], ServiceName = service,
            ResponseStatusCode = [], ExternalHttpUrl = [], HttpUrl = [], ExternalHttpMethod = [], HttpMethod = [],
            HttpHost = [], DBName = [], DBOperation = [],
            HasError = (os_StatusCode otelSpan = 2), IsRemote = is_remote (os_Flags otelSpan),
            References = tl_MarshalRefs L
              (makeJaegerProtoReferences (os_Links otelSpan) (os_ParentSpanID otelSpan) (os_TraceID otelSpan)),
            SpanAttributes = ad_SpanAttributes attrMap @ resource_span_attributes T resource\<rparr>
      in populateEventsV3 L lowCardinal (os_Events otelSpan)
           (populateCustomAttrsAndAttrs L (os_Attributes otelSpan) sp, n))"

end
