(* ===== verification/TracesWriter.thy ===== *)
theory TracesWriter
  imports TracesSpans
begin

text \<open>
  How the traces exporter writes (\<^verbatim>\<open>exporter/clickhousetracesexporter/writer.go\<close> and
  \<^verbatim>\<open>pushTraceDataV3\<close> of \<^verbatim>\<open>clickhouse_exporter_v3.go\<close>): the statements of spans, errors,
  attributes and resources, and a push. The answers of ClickHouse, the clock and the caches are arguments. The
  three goroutines of a batch work on separate statements, and only that of attributes uses a
  cache, so they are modelled one after the other; which of two errors arrives first is an argument.
\<close>

section \<open>The writer and the exporter\<close>

definition defaultTraceDatabase :: string where "defaultTraceDatabase = ''signoz_traces''"
definition defaultIndexTableV3 :: string where "defaultIndexTableV3 = ''distributed_signoz_index_v3''"

definition span_columns :: "string list" where
  "span_columns =
     [''ts_bucket_start'', ''resource_fingerprint'', ''timestamp'', ''trace_id'', ''span_id'', ''trace_state'',
      ''parent_span_id'', ''flags'', ''name'', ''kind'', ''kind_string'', ''duration_nano'', ''status_code'',
      ''status_message'', ''status_code_string'', ''attributes_string'', ''attributes_number'', ''attributes_bool'',
      ''resources_string'', ''resource'', ''events'', ''links'', ''response_status_code'', ''external_http_url'',
      ''http_url'', ''external_http_method'', ''http_method'', ''http_host'', ''db_name'', ''db_operation'',
      ''has_error'', ''is_remote'']"

definition insertTraceSQLTemplateV2 :: "string \<Rightarrow> string \<Rightarrow> string" where
  "insertTraceSQLTemplateV2 = insert_template span_columns 31 3"

record 't SpanWriter =
  sw_keysCache :: 't
  sw_rfCache :: 't
  sw_shouldSkipKeys :: "string list option"
  sw_clock_reads :: nat

record 't tracesExporter =
  te_Writer :: "'t SpanWriter"
  te_lowCardinal :: bool
  te_closed :: bool
  te_maxAllowedDataAgeDays :: int
  te_uuids :: nat

record 't traces_env =
  tv_lib :: trace_lib
  tv_keysT :: "(string, unit, 't) ttlcache"
  tv_rfT :: "(string, unit, 't) ttlcache"
  tv_now :: "nat \<Rightarrow> instant"

definition NewSpanWriter :: "'t traces_env \<Rightarrow> 't SpanWriter" where
  "NewSpanWriter E = \<lparr>sw_keysCache = ttl_New (tv_keysT E), sw_rfCache = ttl_New (tv_rfT E), sw_shouldSkipKeys = None,
     sw_clock_reads = 0\<rparr>"

definition newTracesExporter :: "'t traces_env \<Rightarrow> bool \<Rightarrow> 't tracesExporter" where
  "newTracesExporter E lowCardinal = \<lparr>te_Writer = NewSpanWriter E, te_lowCardinal = lowCardinal, te_closed = False,
     te_maxAllowedDataAgeDays = 15, te_uuids = 0\<rparr>"

definition fetchTracesSkipKeys :: "shouldSkipKey list \<times> string option \<Rightarrow> 't SpanWriter \<Rightarrow> 't SpanWriter" where
  "fetchTracesSkipKeys selected w = w\<lparr>sw_shouldSkipKeys := Some (skip_map selected)\<rparr>"

definition traces_Shutdown :: "'t tracesExporter \<Rightarrow> 't tracesExporter outcome" where
  "traces_Shutdown e = (if te_closed e then Panics else Done (e\<lparr>te_closed := True\<rparr>))"

section \<open>Spans and errors\<close>

record trace_answers =
  ta_index :: "string answers"
  ta_errors :: "string answers"
  ta_keys :: "string answers"
  ta_tags :: "string answers"
  ta_resources :: "string answers"

definition span_args :: "SpanV3 \<Rightarrow> cell list" where
  "span_args sp =
     [CellInt (uint (TsBucketStart sp)), CellString (FingerPrint sp), CellInt (sint (StartTimeUnixNano sp)),
      CellString (TraceId sp), CellString (SpanId sp), CellString (TraceState sp), CellString (ParentSpanId sp),
      CellInt (uint (Flags sp)), CellString (Name sp), CellInt (Kind sp), CellString (SpanKind sp),
      CellInt (uint (DurationNano sp)), CellInt (StatusCode sp), CellString (StatusMessage sp),
      CellString (StatusCodeString sp), CellStrings (AttributeString sp), CellNumbers (AttributesNumber sp),
      CellBools (AttributesBool sp), CellStrings (ResourcesString sp), CellStrings (ResourcesString sp),
      CellStringList (Events sp), CellString (References sp), CellString (ResponseStatusCode sp),
      CellString (ExternalHttpUrl sp), CellString (HttpUrl sp), CellString (ExternalHttpMethod sp),
      CellString (HttpMethod sp), CellString (HttpHost sp), CellString (DBName sp), CellString (DBOperation sp),
      CellBool (HasError sp), CellString (IsRemote sp)]"

text \<open>A statement is prepared and sent even if it has no rows.\<close>

definition write_statement :: "string \<Rightarrow> string answers \<Rightarrow> ('a \<Rightarrow> 'r) \<Rightarrow> 'a list \<Rightarrow> ('r, string) written" where
  "write_statement table ans row xs =
     (case ans_prepare ans of
        Some err \<Rightarrow> unsent [] (Some (''could not prepare batch for '' @ table @ '' table: '' @ err))
      | None \<Rightarrow>
          (case append_rows ans (\<lambda>_. row) xs [] of
             (Some err, rows) \<Rightarrow> unsent rows (Some (''could not append span to batch: '' @ err))
           | (None, rows) \<Rightarrow> send ans rows))"

definition writeIndexBatchV3 :: "string answers \<Rightarrow> SpanV3 list \<Rightarrow> (cell list, string) written" where
  "writeIndexBatchV3 ans spans = write_statement ''index'' ans span_args spans"

definition stringToBool :: "string \<Rightarrow> bool" where
  "stringToBool s \<longleftrightarrow> map ascii_lower s = ''true''"

definition error_args :: "SpanV3 \<times> ErrorEvent \<Rightarrow> cell list" where
  "error_args se =
     (let sp = fst se; err = snd se; ev = error_Event err in
      [CellInt (sint (event_TimeUnixNano ev)), CellString (error_ErrorID err), CellString (error_ErrorGroupID err),
       CellString (TraceId sp), CellString (SpanId sp), CellString (ServiceName sp),
       CellString (attr_text ev ''exception.type''), CellString (attr_text ev ''exception.message''),
       CellString (attr_text ev ''exception.stacktrace''), CellBool (stringToBool (attr_text ev ''exception.escaped'')),
       CellStrings (ResourcesString sp)])"

definition named_errors :: "SpanV3 list \<Rightarrow> (SpanV3 \<times> ErrorEvent) list" where
  "named_errors spans =
     concat (map (\<lambda>sp. map (Pair sp) (filter (\<lambda>err. event_Name (error_Event err) \<noteq> []) (ErrorEvents sp))) spans)"

definition writeErrorBatchV3 :: "string answers \<Rightarrow> SpanV3 list \<Rightarrow> (cell list, string) written" where
  "writeErrorBatchV3 ans spans = write_statement ''error'' ans error_args (named_errors spans)"

section \<open>Attributes\<close>

type_synonym span_tag_row = "int \<times> string \<times> string \<times> string \<times> string option \<times> float64 option"
type_synonym key_row = "string \<times> string \<times> string \<times> bool"

text \<open>The rows of the two statements, and the three maps that avoid duplicates.\<close>

record tag_batch =
  tb_keyRows :: "key_row list"
  tb_tagRows :: "span_tag_row list"
  tb_keys :: "string list"
  tb_values :: "string list"
  tb_fields :: "string list"

definition empty_tag_batch :: tag_batch where
  "empty_tag_batch = \<lparr>tb_keyRows = [], tb_tagRows = [], tb_keys = [], tb_values = [], tb_fields = []\<rparr>"

definition attribute_value_key :: "SpanAttribute \<Rightarrow> string" where
  "attribute_value_key a = sa_Key a @ sa_TagType a @ sa_DataType a @ sa_StringValue a @ FormatFloat (sa_NumberValue a)"

definition span_attribute_key :: "SpanAttribute \<Rightarrow> string" where
  "span_attribute_key a = sa_Key a @ sa_TagType a @ sa_DataType a @ (if sa_IsColumn a then ''true'' else ''false'')"

definition span_unixMilli :: "SpanV3 \<Rightarrow> int" where
  "span_unixMilli sp = go_div (uint (StartTimeUnixNano sp div 1000000)) 3600000 * 3600000"

definition sw_Get :: "'t traces_env \<Rightarrow> string \<Rightarrow> 't SpanWriter \<Rightarrow> unit option \<times> 't SpanWriter" where
  "sw_Get E k w = (case cache_Get (tv_keysT E) (tv_now E) k (sw_keysCache w, sw_clock_reads w) of
     (item, (c, n)) \<Rightarrow> (item, w\<lparr>sw_keysCache := c, sw_clock_reads := n\<rparr>))"

definition sw_Set :: "'t traces_env \<Rightarrow> string \<Rightarrow> 't SpanWriter \<Rightarrow> 't SpanWriter" where
  "sw_Set E k w = (case cache_Set (tv_keysT E) (tv_now E) k () (sw_keysCache w, sw_clock_reads w) of
     (c, n) \<Rightarrow> w\<lparr>sw_keysCache := c, sw_clock_reads := n\<rparr>)"

definition attribute_row :: "int \<Rightarrow> SpanAttribute \<Rightarrow> span_tag_row option" where
  "attribute_row unixMilli a =
     (let row = (\<lambda>s x. Some (unixMilli, sa_Key a, sa_TagType a, sa_DataType a, s, x)) in
      if sa_DataType a = ''string'' then row (Some (sa_StringValue a)) None
      else if sa_DataType a = ''float64'' then row None (Some (sa_NumberValue a))
      else if sa_DataType a = ''bool'' then row None None
      else None)"

text \<open>The key of an attribute, for the statement of keys; an error of it is an error of the batch.\<close>

definition append_key ::
  "'t traces_env \<Rightarrow> string answers \<Rightarrow> SpanAttribute \<Rightarrow> tag_batch \<times> 't SpanWriter \<Rightarrow> string option \<times> tag_batch \<times> 't SpanWriter" where
  "append_key E ans a s =
     (case s of (tb, w) \<Rightarrow>
        let key = span_attribute_key a; add = tb\<lparr>tb_keys := key # tb_keys tb\<rparr> in
        if key \<in> set (tb_keys tb) then (None, add, w)
        else case sw_Get E key w of
          (Some _, w) \<Rightarrow> (None, add, w)
        | (None, w) \<Rightarrow>
            (case ans_append ans (length (tb_keyRows tb)) of
               Some err \<Rightarrow> (Some (''could not append span to tagKey Statement to batch due to error: '' @ err), tb, w)
             | None \<Rightarrow>
                 (None, add\<lparr>tb_keyRows := tb_keyRows tb @ [(sa_Key a, sa_TagType a, sa_DataType a, sa_IsColumn a)]\<rparr>,
                  sw_Set E key w)))"

definition writeSpanAttribute ::
  "'t traces_env \<Rightarrow> trace_answers \<Rightarrow> string list \<Rightarrow> int \<Rightarrow> SpanAttribute \<Rightarrow> tag_batch \<times> 't SpanWriter \<Rightarrow>
    string option \<times> tag_batch \<times> 't SpanWriter" where
  "writeSpanAttribute E A shouldSkipKeys unixMilli a s =
     (case s of (tb, w) \<Rightarrow>
        if attribute_value_key a \<in> set (tb_values tb) then (None, tb, w)
        else case append_key E (ta_keys A) a (tb\<lparr>tb_values := attribute_value_key a # tb_values tb\<rparr>, w) of
          (Some err, tb, w) \<Rightarrow> (Some err, tb, w)
        | (None, tb, w) \<Rightarrow>
            if MaxAttributeValueLength < length (sa_StringValue a) then (None, tb, w)
            else if MakeKeyForAttributeKeys (sa_Key a) (sa_TagType a) (sa_DataType a) \<in> set shouldSkipKeys then (None, tb, w)
            else (None,
              (case attribute_row unixMilli a of
                 Some row \<Rightarrow> tb\<lparr>tb_tagRows := append_ignoring (ta_tags A) row (tb_tagRows tb)\<rparr>
               | None \<Rightarrow> tb), w))"

text \<open>The fields of a span: one map keeps the names, the kinds and the status codes seen.\<close>

definition append_field :: "string answers \<Rightarrow> string \<Rightarrow> span_tag_row list \<Rightarrow> tag_batch \<Rightarrow> tag_batch" where
  "append_field ans field rows tb =
     (if field \<in> set (tb_fields tb) then tb
      else tb\<lparr>tb_fields := field # tb_fields tb, tb_tagRows := fold (append_ignoring ans) rows (tb_tagRows tb)\<rparr>)"

definition span_field :: "string" where "span_field = TagType_String TagTypeSpanField"

definition name_rows :: "int \<Rightarrow> SpanV3 \<Rightarrow> span_tag_row list" where
  "name_rows ms sp = [(ms, ''name'', span_field, ''string'', Some (Name sp), None)]"

definition kind_rows :: "int \<Rightarrow> SpanV3 \<Rightarrow> span_tag_row list" where
  "kind_rows ms sp = [(ms, ''kind_string'', span_field, ''string'', Some (SpanKind sp), None),
     (ms, ''kind'', span_field, ''float64'', None, Some (float_of_int (Kind sp)))]"

definition status_rows :: "int \<Rightarrow> SpanV3 \<Rightarrow> span_tag_row list" where
  "status_rows ms sp = [(ms, ''status_code_string'', span_field, ''string'', Some (StatusCodeString sp), None),
     (ms, ''status_code'', span_field, ''float64'', None, Some (float_of_int (StatusCode sp)))]"

definition append_fields :: "string answers \<Rightarrow> SpanV3 \<Rightarrow> tag_batch \<Rightarrow> tag_batch" where
  "append_fields ans sp tb =
     (let ms = span_unixMilli sp in
      append_field ans (StatusCodeString sp) (status_rows ms sp)
        (append_field ans (SpanKind sp) (kind_rows ms sp) (append_field ans (Name sp) (name_rows ms sp) tb)))"

definition writeSpanTags ::
  "'t traces_env \<Rightarrow> trace_answers \<Rightarrow> string list \<Rightarrow> SpanV3 \<Rightarrow> tag_batch \<times> 't SpanWriter \<Rightarrow>
    string option \<times> tag_batch \<times> 't SpanWriter" where
  "writeSpanTags E A shouldSkipKeys sp s =
     (case for_each (writeSpanAttribute E A shouldSkipKeys (span_unixMilli sp)) (SpanAttributes sp) s of
        (Some err, s) \<Rightarrow> (Some err, s)
      | (None, tb, w) \<Rightarrow> (None, append_fields (ta_tags A) sp tb, w))"

definition writeTagBatchV3 ::
  "'t traces_env \<Rightarrow> trace_answers \<Rightarrow> SpanV3 list \<Rightarrow> 't SpanWriter \<Rightarrow>
    (key_row, string) written \<times> (span_tag_row, string) written \<times> 't SpanWriter" where
  "writeTagBatchV3 E A spans w =
     (case ans_prepare (ta_keys A) of
        Some err \<Rightarrow>
          (unsent [] (Some (''could not prepare batch for span attributes key table due to error: '' @ err)), unsent [] None, w)
      | None \<Rightarrow>
          (case ans_prepare (ta_tags A) of
             Some err \<Rightarrow>
               (unsent [] None, unsent [] (Some (''could not prepare batch for span attributes table v2 due to error: '' @ err)), w)
           | None \<Rightarrow>
               (case for_each (writeSpanTags E A (case sw_shouldSkipKeys w of Some ks \<Rightarrow> ks | None \<Rightarrow> [])) spans (empty_tag_batch, w) of
                  (Some err, tb, w) \<Rightarrow> (unsent (tb_keyRows tb) (Some err), unsent (tb_tagRows tb) None, w)
                | (None, tb, w) \<Rightarrow>
                    (case ans_send (ta_tags A) of
                       Some err \<Rightarrow>
                         (unsent (tb_keyRows tb) None,
                          unsent (tb_tagRows tb) (Some (''could not write to span attributes table due to error: '' @ err)), w)
                     | None \<Rightarrow>
                         ((case ans_send (ta_keys A) of
                             Some err \<Rightarrow>
                               unsent (tb_keyRows tb) (Some (''could not write to span attributes key table due to error: '' @ err))
                           | None \<Rightarrow> send (ta_keys A) (tb_keyRows tb)), send (ta_tags A) (tb_tagRows tb), w)))))"

section \<open>A batch and its resources\<close>

record traces_written =
  tw_index :: "(cell list, string) written"
  tw_errors :: "(cell list, string) written"
  tw_keys :: "(key_row, string) written"
  tw_tags :: "(span_tag_row, string) written"
  tw_resources :: "(string \<times> string \<times> int, string) written"
  tw_usage :: "(string \<times> int \<times> int) list"

text \<open>The errors of spans and of error events, the first to arrive first; those of attributes are only logged.\<close>

definition batch_errors :: "bool \<Rightarrow> (cell list, string) written \<Rightarrow> (cell list, string) written \<Rightarrow> string list" where
  "batch_errors index_first index errs =
     (let texts = (\<lambda>w. case wr_error w of Some err \<Rightarrow> [''TracesWriteBatchOfSpansV3:'' @ err] | None \<Rightarrow> [])
      in if index_first then texts index @ texts errs else texts errs @ texts index)"

definition WriteBatchOfSpansV3 ::
  "'t traces_env \<Rightarrow> trace_answers \<Rightarrow> bool \<Rightarrow> SpanV3 list \<Rightarrow> (string \<times> int \<times> int) list \<Rightarrow> 't SpanWriter \<Rightarrow>
    (string list \<times> traces_written) \<times> 't SpanWriter" where
  "WriteBatchOfSpansV3 E A index_first spans metrics w =
     (let index = writeIndexBatchV3 (ta_index A) spans; errs = writeErrorBatchV3 (ta_errors A) spans in
      case writeTagBatchV3 E A spans w of
        (keys, tags, w) \<Rightarrow>
          ((batch_errors index_first index errs,
            \<lparr>tw_index = index, tw_errors = errs, tw_keys = keys, tw_tags = tags, tw_resources = unsent [] None,
             tw_usage = metrics\<rparr>), w))"

definition WriteResourcesV3 ::
  "'t traces_env \<Rightarrow> string answers \<Rightarrow> resourcesSeenMap \<Rightarrow> 't SpanWriter \<Rightarrow>
    (string \<times> string \<times> int, string) written \<times> 't SpanWriter" where
  "WriteResourcesV3 E ans resourcesSeen w =
     (case ans_prepare ans of
        Some err \<Rightarrow> (unsent [] (Some (''couldn't PrepareBatch for inserting resource fingerprints :'' @ err)), w)
      | None \<Rightarrow>
          (case resource_writes (tv_rfT E) (tv_now E) False ans resourcesSeen (sw_rfCache w, sw_clock_reads w) of
             ((_, rows), (c, n)) \<Rightarrow>
               ((case ans_send ans of
                   Some err \<Rightarrow> unsent rows (Some (''couldn't send resource fingerprints :'' @ err))
                 | None \<Rightarrow> send ans rows), w\<lparr>sw_rfCache := c, sw_clock_reads := n\<rparr>)))"

section \<open>A push\<close>

text \<open>A span with its resource.\<close>

record span_source =
  ss_resource :: pmap
  ss_service :: string
  ss_json :: string
  ss_span :: otel_span

definition span_sources :: "trace_lib \<Rightarrow> resource_spans list \<Rightarrow> span_source list" where
  "span_sources L td =
     concat (map (\<lambda>rs.
       let service = ServiceNameForResource (rs_Attributes rs);
           json = lib_Marshal (tl_texts L) (update_all (map (\<lambda>(k, v). (k, lib_AsString (tl_texts L) v)) (rs_Attributes rs)) [])
       in map (\<lambda>sp. \<lparr>ss_resource = rs_Attributes rs, ss_service = service, ss_json = json, ss_span = sp\<rparr>)
            (concat (rs_ScopeSpans rs))) td)"

fun structure_spans ::
  "trace_lib \<Rightarrow> bool \<Rightarrow> uint64 \<Rightarrow> span_source list \<Rightarrow> resourcesSeenMap \<times> nat \<Rightarrow> SpanV3 list \<times> resourcesSeenMap \<times> nat" where
  "structure_spans L lowCardinal oldestAllowedTs [] sn = ([], sn)"
| "structure_spans L lowCardinal oldestAllowedTs (src # srcs) sn =
     (let ts = os_StartTimestamp (ss_span src); lBucketStart = bucket_of ts in
      if ts < oldestAllowedTs then structure_spans L lowCardinal oldestAllowedTs srcs sn
      else case getOrCreateFingerprint lBucketStart (ss_json src)
          (CalculateFingerprint (tl_texts L) (ss_resource src) ResourceHierarchy) (fst sn) of
        (fp, resourcesSeen) \<Rightarrow>
          case newStructuredSpanV3 L lowCardinal (word_of_int lBucketStart) fp (ss_span src) (ss_service src) (ss_resource src) (snd sn) of
            (sp, n) \<Rightarrow>
              case structure_spans L lowCardinal oldestAllowedTs srcs (resourcesSeen, n) of
                (sps, sn) \<Rightarrow> (sp # sps, sn))"

definition no_traces_written :: traces_written where
  "no_traces_written = \<lparr>tw_index = unsent [] None, tw_errors = unsent [] None, tw_keys = unsent [] None,
     tw_tags = unsent [] None, tw_resources = unsent [] None, tw_usage = []\<rparr>"

definition spans_size :: "trace_lib \<Rightarrow> SpanV3 list \<Rightarrow> int" where
  "spans_size L spans = sum_list (map (\<lambda>sp. int (length (tl_MarshalSpan L sp))) spans)"

definition pushTraceDataV3 ::
  "'t traces_env \<Rightarrow> trace_answers \<Rightarrow> bool \<Rightarrow> resource_spans list \<Rightarrow> 't tracesExporter \<Rightarrow>
    (string option \<times> traces_written) \<times> 't tracesExporter" where
  "pushTraceDataV3 E A index_first td e =
     (let L = tv_lib E; w = te_Writer e;
          oldestAllowedTs = oldest_allowed (te_maxAllowedDataAgeDays e) (tv_now E (sw_clock_reads w));
          w = w\<lparr>sw_clock_reads := sw_clock_reads w + 1\<rparr>
      in if te_closed e then ((Some ''shutdown has been called'', no_traces_written), e\<lparr>te_Writer := w\<rparr>)
         else case structure_spans L (te_lowCardinal e) oldestAllowedTs (span_sources L td) ([], te_uuids e) of
           (spans, resourcesSeen, n) \<Rightarrow>
             let metrics = AddMetric ''default'' (int (length spans)) (spans_size L spans) [] in
             case WriteBatchOfSpansV3 E A index_first spans metrics w of
               ((err # _, tw), w) \<Rightarrow>
                 ((Some (''error in writing spans to clickhouse: '' @ err), tw), e\<lparr>te_Writer := w, te_uuids := n\<rparr>)
             | (([], tw), w) \<Rightarrow>
                 (case WriteResourcesV3 E (ta_resources A) resourcesSeen w of
                    (resources, w) \<Rightarrow>
                      (((case wr_error resources of
                           Some err \<Rightarrow> Some (''error in writing resources to clickhouse: '' @ err)
                         | None \<Rightarrow> None), tw\<lparr>tw_resources := resources\<rparr>), e\<lparr>te_Writer := w, te_uuids := n\<rparr>)))"

definition pushTraceData ::
  "'t traces_env \<Rightarrow> trace_answers \<Rightarrow> bool \<Rightarrow> resource_spans list \<Rightarrow> 't tracesExporter \<Rightarrow>
    (string option \<times> traces_written) \<times> 't tracesExporter" where
  "pushTraceData E A index_first td e = pushTraceDataV3 E A index_first td e"

end
