(* ===== verification/TracesPush.thy ===== *)
theory TracesPush
  imports TracesWriter
begin

text \<open>
  What a push of the traces exporter writes: every span that is not too old is one row, every exception
  of it one row of errors, and a push that succeeds has stored the resources its rows name; and what it
  leaves out or counts twice.
\<close>

section \<open>Structured spans\<close>

lemma populateCustomAttr_keeps [simp]:
  "TsBucketStart (populateCustomAttr L kv sp) = TsBucketStart sp" "FingerPrint (populateCustomAttr L kv sp) = FingerPrint sp"
  "TraceId (populateCustomAttr L kv sp) = TraceId sp" "SpanId (populateCustomAttr L kv sp) = SpanId sp"
  "ErrorEvents (populateCustomAttr L kv sp) = ErrorEvents sp" "DurationNano (populateCustomAttr L kv sp) = DurationNano sp"
  "ServiceName (populateCustomAttr L kv sp) = ServiceName sp" "SpanAttributes (populateCustomAttr L kv sp) = SpanAttributes sp"
  "Kind (populateCustomAttr L kv sp) = Kind sp" "References (populateCustomAttr L kv sp) = References sp"
  by (simp_all add: populateCustomAttr_def Let_def)

lemma populateCustomAttrs_keeps [simp]:
  "TsBucketStart (populateCustomAttrsAndAttrs L kvs sp) = TsBucketStart sp"
  "FingerPrint (populateCustomAttrsAndAttrs L kvs sp) = FingerPrint sp"
  "TraceId (populateCustomAttrsAndAttrs L kvs sp) = TraceId sp" "SpanId (populateCustomAttrsAndAttrs L kvs sp) = SpanId sp"
  "ErrorEvents (populateCustomAttrsAndAttrs L kvs sp) = ErrorEvents sp"
  "DurationNano (populateCustomAttrsAndAttrs L kvs sp) = DurationNano sp"
  "ServiceName (populateCustomAttrsAndAttrs L kvs sp) = ServiceName sp"
  "SpanAttributes (populateCustomAttrsAndAttrs L kvs sp) = SpanAttributes sp"
  "Kind (populateCustomAttrsAndAttrs L kvs sp) = Kind sp"
  unfolding populateCustomAttrsAndAttrs_def by (induction kvs arbitrary: sp) simp_all

text \<open>The errors a span gets from its events: an entry per event, with a name for the exceptions alone.\<close>

definition exceptions :: "span_event list \<Rightarrow> span_event list" where
  "exceptions events = filter (\<lambda>ev. ev_Name ev = ''exception'') events"

definition error_of :: "trace_lib \<Rightarrow> span_event \<Rightarrow> ErrorEvent \<Rightarrow> bool" where
  "error_of L ev err \<longleftrightarrow> error_Event err = \<lparr>event_Name = ''exception'', event_TimeUnixNano = ev_Timestamp ev,
     event_AttributeMap = fold (\<lambda>(k, v). AList.update k (lib_AsString (tl_texts L) v)) (ev_Attributes ev) [],
     event_IsError = True\<rparr>"

lemma populateEvents_errors:
  "populateEventsV3 L lc events (sp, n) = (sp', n') \<Longrightarrow>
    TsBucketStart sp' = TsBucketStart sp \<and> FingerPrint sp' = FingerPrint sp \<and> TraceId sp' = TraceId sp \<and> SpanId sp' = SpanId sp \<and>
    DurationNano sp' = DurationNano sp \<and> SpanAttributes sp' = SpanAttributes sp \<and> ServiceName sp' = ServiceName sp \<and>
    (\<exists>errs. filter (\<lambda>err. event_Name (error_Event err) \<noteq> []) (ErrorEvents sp') =
       filter (\<lambda>err. event_Name (error_Event err) \<noteq> []) (ErrorEvents sp) @ errs \<and>
     list_all2 (error_of L) (exceptions events) errs)"
proof (induction events arbitrary: sp n)
  case Nil
  then show ?case by (simp add: populateEventsV3_def exceptions_def)
next
  case (Cons ev events)
  obtain sp1 n1 where 1: "populateEvent L lc ev (sp, n) = (sp1, n1)" by (rule prod.exhaust)
  with Cons.prems have "populateEventsV3 L lc events (sp1, n1) = (sp', n')" by (simp add: populateEventsV3_def)
  note IH = Cons.IH [OF this]
  from 1 have sp1: "TsBucketStart sp1 = TsBucketStart sp" "FingerPrint sp1 = FingerPrint sp" "TraceId sp1 = TraceId sp"
    "SpanId sp1 = SpanId sp" "DurationNano sp1 = DurationNano sp" "SpanAttributes sp1 = SpanAttributes sp"
    "ServiceName sp1 = ServiceName sp"
    by (auto simp: populateEvent_def Let_def)
  show ?case
  proof (cases "ev_Name ev = ''exception''")
    case True
    with 1 obtain err where "ErrorEvents sp1 = ErrorEvents sp @ [err]" "error_of L ev err"
      "event_Name (error_Event err) \<noteq> []"
      by (auto simp: populateEvent_def Let_def error_of_def)
    with IH sp1 True show ?thesis by (auto simp: exceptions_def)
  next
    case False
    with 1 have "ErrorEvents sp1 = ErrorEvents sp @ [no_error]" by (auto simp: populateEvent_def Let_def)
    with IH sp1 False show ?thesis by (auto simp: exceptions_def no_error_def no_event_def)
  qed
qed

text \<open>A structured span: its bucket, its resource, its identifiers and its exceptions.\<close>

lemma newStructuredSpan_facts:
  assumes "newStructuredSpanV3 L lc bucket fp otel service resource n = (sp, n')"
  shows "TsBucketStart sp = bucket" "FingerPrint sp = fp" "TraceId sp = TraceIDToHexOrEmptyString (os_TraceID otel)"
    "SpanId sp = SpanIDToHexOrEmptyString (os_SpanID otel)"
    "DurationNano sp = os_EndTimestamp otel - os_StartTimestamp otel"
    "\<exists>errs. filter (\<lambda>err. event_Name (error_Event err) \<noteq> []) (ErrorEvents sp) = errs \<and>
       list_all2 (error_of L) (exceptions (os_Events otel)) errs"
  using populateEvents_errors [OF assms [unfolded newStructuredSpanV3_def Let_def]] by simp_all

definition span_too_old :: "uint64 \<Rightarrow> span_source \<Rightarrow> bool" where
  "span_too_old oldest src \<longleftrightarrow> os_StartTimestamp (ss_span src) < oldest"

definition structured_as :: "trace_lib \<Rightarrow> bool \<Rightarrow> resourcesSeenMap \<Rightarrow> span_source \<Rightarrow> SpanV3 \<Rightarrow> bool" where
  "structured_as L lc seen src sp \<longleftrightarrow>
     (\<exists>fp n n'. newStructuredSpanV3 L lc (word_of_int (bucket_of (os_StartTimestamp (ss_span src)))) fp (ss_span src)
        (ss_service src) (ss_resource src) n = (sp, n') \<and>
      seen_fp seen (bucket_of (os_StartTimestamp (ss_span src))) (ss_json src) = Some fp)"

lemma structure_spans_all:
  "structure_spans L lc oldest srcs sn = (sps, sn') \<Longrightarrow>
    list_all2 (structured_as L lc (fst sn')) (filter (\<lambda>s. \<not> span_too_old oldest s) srcs) sps \<and>
    (\<forall>b j v. seen_fp (fst sn) b j = Some v \<longrightarrow> seen_fp (fst sn') b j = Some v)"
proof (induction srcs arbitrary: sn sps sn')
  case (Cons src srcs)
  show ?case
  proof (cases "span_too_old oldest src")
    case True
    with Cons show ?thesis by (simp add: span_too_old_def)
  next
    case False
    let ?ts = "os_StartTimestamp (ss_span src)"
    obtain fp seen1 where fp: "getOrCreateFingerprint (bucket_of ?ts) (ss_json src)
        (CalculateFingerprint (tl_texts L) (ss_resource src) ResourceHierarchy) (fst sn) = (fp, seen1)" by (rule prod.exhaust)
    obtain sp n1 where sp: "newStructuredSpanV3 L lc (word_of_int (bucket_of ?ts)) fp (ss_span src) (ss_service src)
        (ss_resource src) (snd sn) = (sp, n1)" by (rule prod.exhaust)
    obtain sps1 sn2 where rest: "structure_spans L lc oldest srcs (seen1, n1) = (sps1, sn2)" by (rule prod.exhaust)
    from Cons.prems False fp sp rest have eq: "sps = sp # sps1" "sn' = sn2" by (simp_all add: span_too_old_def Let_def)
    note IH = Cons.IH [OF rest] and seen = getOrCreate_seen [OF fp]
    from IH seen(1) have "seen_fp (fst sn2) (bucket_of ?ts) (ss_json src) = Some fp" by simp
    with sp have "structured_as L lc (fst sn2) src sp" unfolding structured_as_def by blast
    with IH False eq seen(2) show ?thesis by auto
  qed
qed simp

section \<open>A push\<close>

lemma append_rows_all: "append_rows ans (\<lambda>_. f) xs rows = (None, rows') \<Longrightarrow> rows' = rows @ map f xs"
  by (induction xs arbitrary: rows) (fastforce split: option.splits)+

lemma write_statement_sent:
  "wr_error (write_statement table ans f xs) = None \<Longrightarrow>
    wr_sent (write_statement table ans f xs) \<and> wr_rows (write_statement table ans f xs) = map f xs"
  using append_rows_all [of ans f xs "[]"]
  by (auto simp: write_statement_def unsent_def send_def split: option.splits prod.splits)

text \<open>The attributes of a batch change nothing of the writer but the cache of keys and the clock.\<close>

definition same_but_attributes :: "'t SpanWriter \<Rightarrow> 't SpanWriter \<Rightarrow> bool" where
  "same_but_attributes w w' \<longleftrightarrow> sw_rfCache w' = sw_rfCache w \<and> sw_shouldSkipKeys w' = sw_shouldSkipKeys w \<and>
     sw_clock_reads w \<le> sw_clock_reads w'"

lemma same_refl [simp]: "same_but_attributes w w"
  by (simp add: same_but_attributes_def)

lemma same_trans: "same_but_attributes w w' \<Longrightarrow> same_but_attributes w' w'' \<Longrightarrow> same_but_attributes w w''"
  by (auto simp: same_but_attributes_def)

lemma append_key_same: "same_but_attributes w (snd (snd (append_key E ans a (tb, w))))"
  by (auto simp: append_key_def sw_Get_def sw_Set_def cache_Get_def cache_Set_def same_but_attributes_def Let_def
      split: prod.splits option.splits)

lemma writeSpanAttribute_same: "same_but_attributes w (snd (snd (writeSpanAttribute E A keys ms a (tb, w))))"
proof -
  obtain err tb1 w1 where "append_key E (ta_keys A) a (tb\<lparr>tb_values := attribute_value_key a # tb_values tb\<rparr>, w) = (err, tb1, w1)"
    by (metis prod.exhaust)
  with append_key_same [of w E "ta_keys A" a "tb\<lparr>tb_values := attribute_value_key a # tb_values tb\<rparr>"]
  show ?thesis by (auto simp: writeSpanAttribute_def split: option.splits)
qed

lemma for_each_same:
  assumes "\<And>x tb w. same_but_attributes w (snd (snd (f x (tb, w))))"
  shows "same_but_attributes w (snd (snd (for_each f xs (tb, w))))"
proof (rule for_each_inv [of _ "\<lambda>s. same_but_attributes w (snd s)" _ "(tb, w)", unfolded snd_conv])
  show "same_but_attributes w (snd (snd (f x s)))" if "same_but_attributes w (snd s)" for x s
    using same_trans [OF that] assms [of "snd s" x "fst s"] by simp
qed simp

lemma writeSpanTags_same: "same_but_attributes w (snd (snd (writeSpanTags E A keys sp (tb, w))))"
  using for_each_same [of "writeSpanAttribute E A keys (span_unixMilli sp)" w "SpanAttributes sp" tb, OF writeSpanAttribute_same]
  by (auto simp: writeSpanTags_def split: prod.splits option.splits)

lemma writeTagBatch_same: "writeTagBatchV3 E A spans w = (keys, tags, w') \<Longrightarrow> same_but_attributes w w'"
  using for_each_same [of "writeSpanTags E A (case sw_shouldSkipKeys w of Some ks \<Rightarrow> ks | None \<Rightarrow> [])" w spans empty_tag_batch,
      OF writeSpanTags_same]
  by (auto simp: writeTagBatchV3_def split: option.splits prod.splits)

definition spans_of_push ::
  "'t traces_env \<Rightarrow> resource_spans list \<Rightarrow> 't tracesExporter \<Rightarrow> SpanV3 list \<times> resourcesSeenMap \<times> nat" where
  "spans_of_push E td e = structure_spans (tv_lib E) (te_lowCardinal e)
     (oldest_allowed (te_maxAllowedDataAgeDays e) (tv_now E (sw_clock_reads (te_Writer e)))) (span_sources (tv_lib E) td) ([], te_uuids e)"

text \<open>A push that is not closed, up to the resources.\<close>

lemma push_batch:
  assumes p: "pushTraceDataV3 E A i td e = ((err, tw), e')" and not_closed: "\<not> te_closed e"
    and spans: "spans_of_push E td e = (spans, seen, n)"
  obtains w1 where "same_but_attributes (te_Writer e) w1"
    "tw_index tw = writeIndexBatchV3 (ta_index A) spans" "tw_errors tw = writeErrorBatchV3 (ta_errors A) spans"
    "tw_usage tw = AddMetric ''default'' (int (length spans)) (spans_size (tv_lib E) spans) []"
    "(if batch_errors i (tw_index tw) (tw_errors tw) = [] then
        WriteResourcesV3 E (ta_resources A) seen w1 = (tw_resources tw, te_Writer e') \<and>
        (err = None \<longleftrightarrow> wr_error (tw_resources tw) = None)
      else tw_resources tw = unsent [] None \<and> te_Writer e' = w1 \<and> err \<noteq> None)"
    "te_closed e' = te_closed e" "te_maxAllowedDataAgeDays e' = te_maxAllowedDataAgeDays e"
    "\<And>tags keys w. writeTagBatchV3 E A spans ((te_Writer e)\<lparr>sw_clock_reads := sw_clock_reads (te_Writer e) + 1\<rparr>) = (keys, tags, w) \<Longrightarrow>
       tw_keys tw = keys \<and> tw_tags tw = tags"
proof -
  let ?w = "(te_Writer e)\<lparr>sw_clock_reads := sw_clock_reads (te_Writer e) + 1\<rparr>"
  obtain keys tags w1 where t: "writeTagBatchV3 E A spans ?w = (keys, tags, w1)" by (metis prod.exhaust)
  have same: "same_but_attributes (te_Writer e) w1"
    using writeTagBatch_same [OF t] by (simp add: same_but_attributes_def)
  obtain resources w2 where r: "WriteResourcesV3 E (ta_resources A) seen w1 = (resources, w2)" by (rule prod.exhaust)
  let ?index = "writeIndexBatchV3 (ta_index A) spans" and ?errs = "writeErrorBatchV3 (ta_errors A) spans"
  note run = p [unfolded pushTraceDataV3_def Let_def, folded spans_of_push_def]
  show ?thesis
  proof (cases "batch_errors i ?index ?errs")
    case Nil
    with run not_closed spans t r have "tw = \<lparr>tw_index = ?index, tw_errors = ?errs, tw_keys = keys, tw_tags = tags, tw_resources = resources,
        tw_usage = AddMetric ''default'' (int (length spans)) (spans_size (tv_lib E) spans) []\<rparr>"
      "e' = e\<lparr>te_Writer := w2, te_uuids := n\<rparr>" "err = None \<longleftrightarrow> wr_error resources = None"
      by (auto simp: WriteBatchOfSpansV3_def Let_def split: option.splits)
    with same t r Nil show ?thesis by (intro that) simp_all
  next
    case (Cons x xs)
    with run not_closed spans t have "tw = \<lparr>tw_index = ?index, tw_errors = ?errs, tw_keys = keys, tw_tags = tags,
        tw_resources = unsent [] None,
        tw_usage = AddMetric ''default'' (int (length spans)) (spans_size (tv_lib E) spans) []\<rparr>"
      "e' = e\<lparr>te_Writer := w1, te_uuids := n\<rparr>" "err \<noteq> None"
      by (auto simp: WriteBatchOfSpansV3_def Let_def)
    with same t Cons show ?thesis by (intro that) simp_all
  qed
qed

lemma push_closed: "te_closed e \<Longrightarrow> pushTraceDataV3 E A i td e =
    ((Some ''shutdown has been called'', no_traces_written),
     e\<lparr>te_Writer := (te_Writer e)\<lparr>sw_clock_reads := sw_clock_reads (te_Writer e) + 1\<rparr>\<rparr>)"
  by (simp add: pushTraceDataV3_def Let_def)

lemma batch_errors_none: "batch_errors i index errs = [] \<longleftrightarrow> wr_error index = None \<and> wr_error errs = None"
  by (auto simp: batch_errors_def Let_def split: option.splits)

lemma push_succeeds:
  assumes p: "pushTraceDataV3 E A i td e = ((None, tw), e')" and spans: "spans_of_push E td e = (spans, seen, n)"
  shows "wr_sent (tw_index tw) \<and> wr_rows (tw_index tw) = map span_args spans \<and>
    wr_sent (tw_errors tw) \<and> wr_rows (tw_errors tw) = map error_args (named_errors spans)"
proof -
  have not_closed: "\<not> te_closed e" using p push_closed [of e E A i td] by auto
  obtain w1 where w: "tw_index tw = writeIndexBatchV3 (ta_index A) spans" "tw_errors tw = writeErrorBatchV3 (ta_errors A) spans"
    and none: "batch_errors i (tw_index tw) (tw_errors tw) = []"
    using push_batch [OF p not_closed spans] by metis
  from none w show ?thesis
    using write_statement_sent [of "''index''" "ta_index A" span_args spans]
      write_statement_sent [of "''error''" "ta_errors A" error_args "named_errors spans"]
    by (simp add: batch_errors_none writeIndexBatchV3_def writeErrorBatchV3_def)
qed

lemma spans_of_push_all:
  "spans_of_push E td e = (spans, seen, n) \<Longrightarrow>
    list_all2 (structured_as (tv_lib E) (te_lowCardinal e) seen)
      (filter (\<lambda>s. \<not> span_too_old (oldest_allowed (te_maxAllowedDataAgeDays e) (tv_now E (sw_clock_reads (te_Writer e)))) s)
        (span_sources (tv_lib E) td)) spans"
  unfolding spans_of_push_def using structure_spans_all by fastforce

text \<open>A row of the index: the columns of the structured span, for some fingerprint.\<close>

definition row_of_span :: "trace_lib \<Rightarrow> bool \<Rightarrow> span_source \<Rightarrow> cell list \<Rightarrow> bool" where
  "row_of_span L lc src row \<longleftrightarrow>
     (\<exists>fp n. row = span_args (fst (newStructuredSpanV3 L lc (word_of_int (bucket_of (os_StartTimestamp (ss_span src)))) fp
        (ss_span src) (ss_service src) (ss_resource src) n)))"

text \<open>The identifiers, the type and the message of an exception of a span.\<close>

definition exception_cells :: "trace_lib \<Rightarrow> span_source \<Rightarrow> span_event \<Rightarrow> cell list" where
  "exception_cells L src ev =
     (let m = fold (\<lambda>(k, v). AList.update k (lib_AsString (tl_texts L) v)) (ev_Attributes ev) [];
          text = (\<lambda>k. CellString (case map_of m k of Some s \<Rightarrow> s | None \<Rightarrow> []))
      in [CellInt (sint (ev_Timestamp ev)), CellString (TraceIDToHexOrEmptyString (os_TraceID (ss_span src))),
          CellString (SpanIDToHexOrEmptyString (os_SpanID (ss_span src))), text ''exception.type'', text ''exception.message''])"

definition error_cells :: "cell list \<Rightarrow> cell list" where
  "error_cells row = [row ! 0, row ! 3, row ! 4, row ! 6, row ! 7]"

lemma error_rows_of:
  assumes "structured_as L lc seen src sp"
  shows "map (error_cells \<circ> error_args \<circ> Pair sp) (filter (\<lambda>err. event_Name (error_Event err) \<noteq> []) (ErrorEvents sp)) =
    map (exception_cells L src) (exceptions (os_Events (ss_span src)))"
proof -
  from assms obtain fp n n' where sp: "newStructuredSpanV3 L lc (word_of_int (bucket_of (os_StartTimestamp (ss_span src)))) fp
      (ss_span src) (ss_service src) (ss_resource src) n = (sp, n')" by (auto simp: structured_as_def)
  note facts = newStructuredSpan_facts [OF sp]
  have one: "error_cells (error_args (sp, err)) = exception_cells L src ev" if "error_of L ev err" for ev err
    using that facts(3,4) by (simp add: error_cells_def error_args_def exception_cells_def error_of_def attr_text_def Let_def)
  have "list_all2 (error_of L) evs errs \<Longrightarrow> map (error_cells \<circ> error_args \<circ> Pair sp) errs = map (exception_cells L src) evs" for evs errs
    by (induction rule: list_all2_induct) (simp_all add: one)
  with facts(6) show ?thesis by auto
qed


section \<open>The resources of the spans\<close>

fun traces_pushes ::
  "'t traces_env \<Rightarrow> (trace_answers \<times> bool \<times> resource_spans list) list \<Rightarrow> 't tracesExporter \<Rightarrow>
    (string option \<times> traces_written) list \<times> 't tracesExporter" where
  "traces_pushes E [] e = ([], e)"
| "traces_pushes E ((A, i, td) # ps) e =
     (case pushTraceDataV3 E A i td e of
        (r, e) \<Rightarrow> (case traces_pushes E ps e of (rs, e) \<Rightarrow> (r # rs, e)))"

definition stored_span_resources :: "(string option \<times> traces_written) list \<Rightarrow> (string \<times> string \<times> int) set" where
  "stored_span_resources rs = {row. \<exists>(err, w) \<in> set rs. wr_sent (tw_resources w) \<and> row \<in> set (wr_rows (tw_resources w))}"

definition span_rf_known ::
  "'t traces_env \<Rightarrow> ('t \<Rightarrow> instant \<Rightarrow> string \<Rightarrow> unit option) \<Rightarrow> 't SpanWriter \<Rightarrow> string set" where
  "span_rf_known E live w = known live (tv_now E) (sw_rfCache w, sw_clock_reads w)"

lemma same_known: "mono (tv_now E) \<Longrightarrow> same_but_attributes w w' \<Longrightarrow> span_rf_known E live w' \<subseteq> span_rf_known E live w"
  using known_later [of "tv_now E" "sw_clock_reads w" "sw_clock_reads w'" live "sw_rfCache w"]
  by (simp add: span_rf_known_def same_but_attributes_def)

lemma WriteResources_known:
  assumes T: "ttl_sound (tv_rfT E) live" "mono (tv_now E)" and a: "accepts ans"
    and w: "WriteResourcesV3 E ans seen w = (r, w')"
  shows "wr_sent r \<and> wr_error r = None \<and> resource_key ` set (rangeAll seen) \<subseteq> span_rf_known E live w \<union> row_key ` set (wr_rows r) \<and>
    span_rf_known E live w' \<subseteq> span_rf_known E live w \<union> row_key ` set (wr_rows r)"
proof -
  obtain err rows c k where n: "resource_writes (tv_rfT E) (tv_now E) False ans seen (sw_rfCache w, sw_clock_reads w) =
      ((err, rows), (c, k))" by (metis prod.exhaust)
  from a have ok: "\<And>i. ans_append ans i = None" "ans_prepare ans = None" "ans_send ans = None" by (simp_all add: accepts_def)
  note new = resource_writes_known [OF T ok(1) n]
  from w n ok have "wr_sent r \<and> wr_error r = None \<and> wr_rows r = rows \<and> w' = w\<lparr>sw_rfCache := c, sw_clock_reads := k\<rparr>"
    by (auto simp: WriteResourcesV3_def send_def)
  with new(2,3) show ?thesis by (simp add: span_rf_known_def)
qed

lemma span_args_front:
  assumes "structured_as L lc seen src sp" "span_args sp = CellInt bucket # CellString fp # cells"
  shows "\<exists>labels. (bucket, labels, fp) \<in> set (rangeAll seen)"
proof -
  from assms(1) obtain fp' n n' where sp: "newStructuredSpanV3 L lc (word_of_int (bucket_of (os_StartTimestamp (ss_span src)))) fp'
      (ss_span src) (ss_service src) (ss_resource src) n = (sp, n')"
    and seen: "seen_fp seen (bucket_of (os_StartTimestamp (ss_span src))) (ss_json src) = Some fp'" by (auto simp: structured_as_def)
  from newStructuredSpan_facts(1,2) [OF sp] assms(2)
  have "bucket = bucket_of (os_StartTimestamp (ss_span src))" "fp = fp'" by (auto simp: span_args_def bucket_word)
  with seen_in_range [OF seen] show ?thesis by blast
qed

lemma push_span_resources:
  assumes T: "ttl_sound (tv_rfT E) live" "mono (tv_now E)" and a: "accepts (ta_resources A)"
    and p: "pushTraceDataV3 E A i td e = ((err, tw), e')"
  shows "span_rf_known E live (te_Writer e') \<subseteq> span_rf_known E live (te_Writer e) \<union> row_key ` stored_span_resources [(err, tw)]"
    "err = None \<Longrightarrow> (CellInt bucket # CellString fp # cells) \<in> set (wr_rows (tw_index tw)) \<Longrightarrow>
      MakeKeyForRFCache bucket fp \<in> span_rf_known E live (te_Writer e) \<union> row_key ` stored_span_resources [(err, tw)]"
proof -
  obtain spans seen n where spans: "spans_of_push E td e = (spans, seen, n)" by (metis prod.exhaust)
  have all: "span_rf_known E live (te_Writer e') \<subseteq> span_rf_known E live (te_Writer e) \<union> row_key ` stored_span_resources [(err, tw)] \<and>
    (err = None \<longrightarrow> (CellInt bucket # CellString fp # cells) \<in> set (wr_rows (tw_index tw)) \<longrightarrow>
      MakeKeyForRFCache bucket fp \<in> span_rf_known E live (te_Writer e) \<union> row_key ` stored_span_resources [(err, tw)])"
  proof (cases "te_closed e")
    case True
    with p push_closed [OF this, of E A i td] have "err \<noteq> None"
      "te_Writer e' = (te_Writer e)\<lparr>sw_clock_reads := sw_clock_reads (te_Writer e) + 1\<rparr>" by auto
    with same_known [OF T(2), of "te_Writer e" "te_Writer e'" live] show ?thesis by (auto simp: same_but_attributes_def)
  next
    case False
    obtain w1 where same: "same_but_attributes (te_Writer e) w1"
      and r: "if batch_errors i (tw_index tw) (tw_errors tw) = [] then
          WriteResourcesV3 E (ta_resources A) seen w1 = (tw_resources tw, te_Writer e') \<and> (err = None \<longleftrightarrow> wr_error (tw_resources tw) = None)
        else tw_resources tw = unsent [] None \<and> te_Writer e' = w1 \<and> err \<noteq> None"
      using push_batch [OF p False spans] by metis
    note less = same_known [OF T(2) same, of live]
    show ?thesis
    proof (cases "batch_errors i (tw_index tw) (tw_errors tw) = []")
      case False
      with r less show ?thesis by auto
    next
      case True
      with r have wr: "WriteResourcesV3 E (ta_resources A) seen w1 = (tw_resources tw, te_Writer e')" by simp
      note known = WriteResources_known [OF T a wr]
      then have stored: "stored_span_resources [(err, tw)] = set (wr_rows (tw_resources tw))" by (simp add: stored_span_resources_def)
      have "MakeKeyForRFCache bucket fp \<in> resource_key ` set (rangeAll seen)"
        if err: "err = None" and row: "(CellInt bucket # CellString fp # cells) \<in> set (wr_rows (tw_index tw))"
      proof -
        from push_succeeds [OF p [unfolded err] spans] row obtain sp where sp: "sp \<in> set spans"
          "span_args sp = CellInt bucket # CellString fp # cells" by auto
        from spans_of_push_all [OF spans] sp(1) obtain src where "structured_as (tv_lib E) (te_lowCardinal e) seen src sp"
          by (metis list_all2_conv_all_nth in_set_conv_nth)
        from span_args_front [OF this sp(2)] show ?thesis by (force simp: resource_key_def)
      qed
      with known stored less show ?thesis by blast
    qed
  qed
  from all show "span_rf_known E live (te_Writer e') \<subseteq> span_rf_known E live (te_Writer e) \<union> row_key ` stored_span_resources [(err, tw)]"
    "err = None \<Longrightarrow> (CellInt bucket # CellString fp # cells) \<in> set (wr_rows (tw_index tw)) \<Longrightarrow>
      MakeKeyForRFCache bucket fp \<in> span_rf_known E live (te_Writer e) \<union> row_key ` stored_span_resources [(err, tw)]" by blast+
qed

lemma stored_span_resources_Cons: "stored_span_resources (r # rs) = stored_span_resources [r] \<union> stored_span_resources rs"
  by (auto simp: stored_span_resources_def)

lemma pushes_span_resources:
  assumes T: "ttl_sound (tv_rfT E) live" "mono (tv_now E)"
  shows "\<forall>(A, i, td) \<in> set ps. accepts (ta_resources A) \<Longrightarrow> traces_pushes E ps e = (rs, e') \<Longrightarrow>
    k < length rs \<Longrightarrow> rs ! k = (None, tw) \<Longrightarrow> (CellInt bucket # CellString fp # cells) \<in> set (wr_rows (tw_index tw)) \<Longrightarrow>
    MakeKeyForRFCache bucket fp \<in> span_rf_known E live (te_Writer e) \<union> row_key ` stored_span_resources (take (Suc k) rs)"
proof (induction ps arbitrary: e rs k e')
  case (Cons p ps)
  obtain A i td where p: "p = (A, i, td)" by (metis prod.exhaust)
  obtain r e1 where r: "pushTraceDataV3 E A i td e = (r, e1)" by (rule prod.exhaust)
  obtain rs' e2 where rs: "traces_pushes E ps e1 = (rs', e2)" by (rule prod.exhaust)
  from Cons.prems(2) p r rs have eq: "rs = r # rs'" by simp
  obtain err1 w1 where rw: "r = (err1, w1)" by (rule prod.exhaust)
  have a: "accepts (ta_resources A)" using Cons.prems(1) p by simp
  note one = push_span_resources [OF T a r [unfolded rw]]
  show ?case
  proof (cases k)
    case 0
    with Cons.prems(4,5) eq rw one(2) show ?thesis by simp
  next
    case (Suc j)
    have "MakeKeyForRFCache bucket fp \<in> span_rf_known E live (te_Writer e1) \<union> row_key ` stored_span_resources (take (Suc j) rs')"
      by (rule Cons.IH [OF _ rs _ _ Cons.prems(5)]) (use Cons.prems(1,3,4) eq Suc in auto)
    then show ?thesis
      unfolding eq Suc take_Suc_Cons stored_span_resources_Cons [of r "take (Suc j) rs'"] using one(1) rw by blast
  qed
qed simp


section \<open>What failures leave behind\<close>

text \<open>C33: whatever ClickHouse answers, a push that is not closed counts all its spans as sent, also those
  that it has not sent and that will come again.\<close>

theorem usage_of_failed_push:
  assumes "\<not> te_closed e" "pushTraceDataV3 E A i td e = ((err, tw), e')"
  shows "\<exists>sz. tw_usage tw = [(''default'', int (length (filter
     (\<lambda>s. \<not> span_too_old (oldest_allowed (te_maxAllowedDataAgeDays e) (tv_now E (sw_clock_reads (te_Writer e)))) s)
     (span_sources (tv_lib E) td))), sz)]"
proof -
  obtain spans seen n where spans: "spans_of_push E td e = (spans, seen, n)" by (metis prod.exhaust)
  have "tw_usage tw = AddMetric ''default'' (int (length spans)) (spans_size (tv_lib E) spans) []"
    using push_batch [OF assms(2,1) spans] by metis
  with list_all2_lengthD [OF spans_of_push_all [OF spans]] show ?thesis by (simp add: AddMetric_def)
qed

lemma WriteResources_clock: "WriteResourcesV3 E ans seen w = (r, w') \<Longrightarrow> sw_clock_reads w \<le> sw_clock_reads w'"
proof -
  assume w: "WriteResourcesV3 E ans seen w = (r, w')"
  obtain res c k where n: "resource_writes (tv_rfT E) (tv_now E) False ans seen (sw_rfCache w, sw_clock_reads w) = (res, (c, k))"
    by (metis prod.exhaust)
  from resource_writes_clock [OF n] w n show ?thesis
    by (auto simp: WriteResourcesV3_def split: option.splits prod.splits)
qed

lemma push_span_clock:
  assumes p: "pushTraceDataV3 E A i td e = ((err, tw), e')"
  shows "sw_clock_reads (te_Writer e) \<le> sw_clock_reads (te_Writer e')"
proof (cases "te_closed e")
  case True
  with p push_closed [OF this, of E A i td] show ?thesis by auto
next
  case False
  obtain spans seen n where spans: "spans_of_push E td e = (spans, seen, n)" by (metis prod.exhaust)
  obtain w1 where same: "same_but_attributes (te_Writer e) w1"
    and r: "if batch_errors i (tw_index tw) (tw_errors tw) = [] then
        WriteResourcesV3 E (ta_resources A) seen w1 = (tw_resources tw, te_Writer e') \<and> (err = None \<longleftrightarrow> wr_error (tw_resources tw) = None)
      else tw_resources tw = unsent [] None \<and> te_Writer e' = w1 \<and> err \<noteq> None"
    using push_batch [OF p False spans] by metis
  from r WriteResources_clock [of E "ta_resources A" seen w1 "tw_resources tw" "te_Writer e'"] same show ?thesis
    by (auto simp: same_but_attributes_def split: if_splits)
qed

lemma WriteResources_remembers:
  assumes T: "ttl_promises (tv_rfT E) live" "ttl_lasts ttl (tv_rfT E) live" "mono (tv_now E)"
    and w: "WriteResourcesV3 E ans seen w = (r, w')"
    and until: "tv_now E (sw_clock_reads w') \<le> until" "until \<le> tv_now E (sw_clock_reads w) + ttl"
    and K: "remembers live (tv_now E) until K (sw_rfCache w, sw_clock_reads w)"
  shows "row_key ` set (wr_rows r) \<inter> K = {} \<and>
    remembers live (tv_now E) until (K \<union> row_key ` set (wr_rows r)) (sw_rfCache w', sw_clock_reads w')"
proof (cases "ans_prepare ans")
  case (Some err)
  with w have "wr_rows r = []" "w' = w" by (auto simp: WriteResourcesV3_def unsent_def)
  with K show ?thesis by simp
next
  case None
  obtain err rows c k where n: "resource_writes (tv_rfT E) (tv_now E) False ans seen (sw_rfCache w, sw_clock_reads w) =
      ((err, rows), (c, k))" by (metis prod.exhaust)
  from w None n have eq: "wr_rows r = rows" "w' = w\<lparr>sw_rfCache := c, sw_clock_reads := k\<rparr>"
    by (auto simp: WriteResourcesV3_def unsent_def send_def split: option.splits)
  have "row_key ` set rows \<inter> K = {} \<and> remembers live (tv_now E) until (K \<union> row_key ` set rows) (c, k)"
    by (rule resource_writes_once [OF T n]) (use until K eq(2) in simp_all)
  with eq show ?thesis by simp
qed

lemma push_span_remembers:
  assumes T: "ttl_promises (tv_rfT E) live" "ttl_lasts ttl (tv_rfT E) live" "mono (tv_now E)"
    and p: "pushTraceDataV3 E A i td e = ((err, tw), e')"
    and until: "tv_now E (sw_clock_reads (te_Writer e')) \<le> until" "until \<le> tv_now E (sw_clock_reads (te_Writer e)) + ttl"
    and K: "remembers live (tv_now E) until K (sw_rfCache (te_Writer e), sw_clock_reads (te_Writer e))"
  shows "row_key ` set (wr_rows (tw_resources tw)) \<inter> K = {} \<and>
    remembers live (tv_now E) until (K \<union> row_key ` set (wr_rows (tw_resources tw)))
      (sw_rfCache (te_Writer e'), sw_clock_reads (te_Writer e'))"
proof (cases "te_closed e")
  case True
  with p push_closed [OF this, of E A i td] have "tw = no_traces_written"
    "te_Writer e' = (te_Writer e)\<lparr>sw_clock_reads := sw_clock_reads (te_Writer e) + 1\<rparr>" by auto
  with remembers_later [OF T(3) _ K, of "sw_clock_reads (te_Writer e) + 1"] show ?thesis
    by (simp add: no_traces_written_def unsent_def)
next
  case False
  obtain spans seen n where spans: "spans_of_push E td e = (spans, seen, n)" by (metis prod.exhaust)
  obtain w1 where same: "same_but_attributes (te_Writer e) w1"
    and r: "if batch_errors i (tw_index tw) (tw_errors tw) = [] then
        WriteResourcesV3 E (ta_resources A) seen w1 = (tw_resources tw, te_Writer e') \<and> (err = None \<longleftrightarrow> wr_error (tw_resources tw) = None)
      else tw_resources tw = unsent [] None \<and> te_Writer e' = w1 \<and> err \<noteq> None"
    using push_batch [OF p False spans] by metis
  from same have c: "sw_rfCache w1 = sw_rfCache (te_Writer e)" "sw_clock_reads (te_Writer e) \<le> sw_clock_reads w1"
    by (simp_all add: same_but_attributes_def)
  note K1 = remembers_later [OF T(3) c(2) K, folded c(1)]
  show ?thesis
  proof (cases "batch_errors i (tw_index tw) (tw_errors tw) = []")
    case False
    with r K1 show ?thesis by (simp add: unsent_def)
  next
    case True
    with r have w: "WriteResourcesV3 E (ta_resources A) seen w1 = (tw_resources tw, te_Writer e')" by simp
    from monoD [OF T(3) c(2)] until(2) have "until \<le> tv_now E (sw_clock_reads w1) + ttl" by linarith
    from WriteResources_remembers [OF T w until(1) this] K1 show ?thesis by simp
  qed
qed

text \<open>a resource that a push of spans has appended is not written by a later push within the lifetime of the
  cache, even if the statement of the first push has failed.\<close>

theorem failed_span_resources_lost:
  assumes "ttl_promises (tv_rfT E) live" "ttl_lasts ttl (tv_rfT E) live" "mono (tv_now E)"
    and "pushTraceDataV3 E A i td e = ((err, tw), e1)" "pushTraceDataV3 E A' i' td' e1 = ((err', tw'), e2)"
    and "tv_now E (sw_clock_reads (te_Writer e2)) \<le> tv_now E (sw_clock_reads (te_Writer e)) + ttl"
  shows "row_key ` set (wr_rows (tw_resources tw)) \<inter> row_key ` set (wr_rows (tw_resources tw')) = {}"
proof -
  let ?until = "tv_now E (sw_clock_reads (te_Writer e2))"
  note le = monoD [OF assms(3) push_span_clock [OF assms(4)]] monoD [OF assms(3) push_span_clock [OF assms(5)]]
  have "remembers live (tv_now E) ?until {} (sw_rfCache (te_Writer e), sw_clock_reads (te_Writer e))" by (simp add: remembers_def)
  from push_span_remembers [OF assms(1-4) le(2) assms(6) this]
  have r: "remembers live (tv_now E) ?until (row_key ` set (wr_rows (tw_resources tw)))
      (sw_rfCache (te_Writer e1), sw_clock_reads (te_Writer e1))" by simp
  from le(1) assms(6) have "?until \<le> tv_now E (sw_clock_reads (te_Writer e1)) + ttl" by linarith
  from push_span_remembers [OF assms(1-3,5) order.refl this r] show ?thesis by blast
qed

section \<open>Fields and attributes that hide each other\<close>

text \<open>No row of the statement has \<open>x\<close> as kind, and the map has the field \<open>x\<close>.\<close>

definition kind_hidden :: "string \<Rightarrow> tag_batch \<Rightarrow> bool" where
  "kind_hidden x tb \<longleftrightarrow> (\<forall>ms num. (ms, ''kind_string'', span_field, ''string'', Some x, num) \<notin> set (tb_tagRows tb))"

lemma append_key_tags:
  "append_key E ans a (tb, w) = (err, tb', w') \<Longrightarrow> tb_tagRows tb' = tb_tagRows tb \<and> tb_fields tb' = tb_fields tb"
  by (auto simp: append_key_def Let_def split: if_splits option.splits prod.splits)

lemma attribute_hidden:
  assumes "kind_hidden x tb" "sa_TagType a \<noteq> span_field" "writeSpanAttribute E A keys ms a (tb, w) = (err, tb', w')"
  shows "kind_hidden x tb' \<and> tb_fields tb' = tb_fields tb"
proof -
  obtain err1 tb1 w1 where k: "append_key E (ta_keys A) a (tb\<lparr>tb_values := attribute_value_key a # tb_values tb\<rparr>, w) = (err1, tb1, w1)"
    by (metis prod.exhaust)
  from append_key_tags [OF k] assms(1) have tb1: "kind_hidden x tb1" "tb_fields tb1 = tb_fields tb" by (simp_all add: kind_hidden_def)
  have row: "attribute_row ms a = Some row \<Longrightarrow> kind_hidden x (tb1\<lparr>tb_tagRows := append_ignoring (ta_tags A) row (tb_tagRows tb1)\<rparr>)" for row
    using tb1(1) assms(2) by (auto simp: kind_hidden_def append_ignoring_def attribute_row_def Let_def split: if_splits)
  show ?thesis
    using assms(1,3) k tb1 row by (auto simp: writeSpanAttribute_def split: if_splits option.splits)
qed

lemma attributes_hidden:
  assumes "\<forall>a \<in> set as. sa_TagType a \<noteq> span_field" "kind_hidden x tb"
    and "for_each (writeSpanAttribute E A keys ms) as (tb, w) = (err, tb', w')"
  shows "kind_hidden x tb' \<and> tb_fields tb' = tb_fields tb"
proof -
  have "kind_hidden x (fst (snd (for_each (writeSpanAttribute E A keys ms) as (tb, w)))) \<and>
      tb_fields (fst (snd (for_each (writeSpanAttribute E A keys ms) as (tb, w)))) = tb_fields tb"
  proof (rule for_each_inv [of _ "\<lambda>s. kind_hidden x (fst s) \<and> tb_fields (fst s) = tb_fields tb"])
    show "kind_hidden x (fst (snd (writeSpanAttribute E A keys ms a s))) \<and> tb_fields (fst (snd (writeSpanAttribute E A keys ms a s))) = tb_fields tb"
      if "a \<in> set as" "kind_hidden x (fst s) \<and> tb_fields (fst s) = tb_fields tb" for a s
      using attribute_hidden [of x "fst s" a E A keys ms "snd s"] that assms(1)
      by (metis prod.collapse)
  qed (use assms(2) in simp)
  with assms(3) show ?thesis by simp
qed

lemma fold_append_ignoring: "set (fold (append_ignoring ans) rows rs) \<subseteq> set rows \<union> set rs"
proof (induction rows arbitrary: rs)
  case (Cons r rows)
  from Cons.IH [of "append_ignoring ans r rs"] append_ignoring_set [of ans r rs] show ?case by auto
qed simp

lemma kind_hidden_add:
  "kind_hidden x tb \<Longrightarrow> (\<And>ms num. (ms, ''kind_string'', span_field, ''string'', Some x, num) \<notin> set rows) \<Longrightarrow>
    kind_hidden x (append_field ans field rows tb)"
  using fold_append_ignoring [of ans rows "tb_tagRows tb"]
  by (simp add: append_field_def kind_hidden_def) blast

lemma fields_hidden:
  assumes "kind_hidden x tb" "x = Name sp \<or> x \<in> set (tb_fields tb)"
  shows "kind_hidden x (append_fields ans sp tb) \<and> x \<in> set (tb_fields (append_fields ans sp tb))"
proof -
  let ?ms = "span_unixMilli sp"
  let ?tb1 = "append_field ans (Name sp) (name_rows ?ms sp) tb"
  let ?tb2 = "append_field ans (SpanKind sp) (kind_rows ?ms sp) ?tb1"
  have 1: "kind_hidden x ?tb1" "x \<in> set (tb_fields ?tb1)"
    using assms kind_hidden_add [OF assms(1)] by (auto simp: name_rows_def append_field_def split: if_splits)
  have "kind_hidden x ?tb2"
  proof (cases "SpanKind sp = x")
    case True
    with 1 show ?thesis by (simp add: append_field_def)
  next
    case False
    then show ?thesis by (intro kind_hidden_add 1) (simp add: kind_rows_def)
  qed
  moreover have "x \<in> set (tb_fields ?tb2)" using 1(2) by (simp add: append_field_def)
  ultimately show ?thesis
    using kind_hidden_add [of x ?tb2 "status_rows ?ms sp" ans "StatusCodeString sp"]
    by (auto simp: append_fields_def Let_def status_rows_def append_field_def)
qed

lemma span_hidden:
  assumes "\<forall>a \<in> set (SpanAttributes sp). sa_TagType a \<noteq> span_field" "kind_hidden x tb" "x = Name sp \<or> x \<in> set (tb_fields tb)"
    and "writeSpanTags E A keys sp (tb, w) = (err, tb', w')"
  shows "kind_hidden x tb' \<and> (err = None \<longrightarrow> x \<in> set (tb_fields tb'))"
proof -
  obtain err1 tb1 w1 where f: "for_each (writeSpanAttribute E A keys (span_unixMilli sp)) (SpanAttributes sp) (tb, w) = (err1, tb1, w1)"
    by (metis prod.exhaust)
  from attributes_hidden [OF assms(1,2) f] have "kind_hidden x tb1" "tb_fields tb1 = tb_fields tb" by simp_all
  with fields_hidden [of x tb1 sp "ta_tags A"] assms(3,4) f show ?thesis
    by (auto simp: writeSpanTags_def split: option.splits)
qed

lemma spans_hidden:
  "\<forall>sp \<in> set sps. \<forall>a \<in> set (SpanAttributes sp). sa_TagType a \<noteq> span_field \<Longrightarrow> kind_hidden x tb \<Longrightarrow> x \<in> set (tb_fields tb) \<Longrightarrow>
    for_each (writeSpanTags E A keys) sps (tb, w) = (err, tb', w') \<Longrightarrow> kind_hidden x tb'"
proof (induction sps arbitrary: tb w)
  case (Cons sp sps)
  obtain err1 tb1 w1 where s: "writeSpanTags E A keys sp (tb, w) = (err1, tb1, w1)" by (metis prod.exhaust)
  from span_hidden [OF _ Cons.prems(2) _ s] Cons.prems(1,3) have h: "kind_hidden x tb1" "err1 = None \<Longrightarrow> x \<in> set (tb_fields tb1)" by auto
  from Cons.prems(4) s show ?case
    using h Cons.IH [of tb1 w1] Cons.prems(1) by (cases err1) auto
qed simp


text \<open>the keys of attributes are their texts one after the other, so that of two attributes whose texts together are
  the same the second is written neither as a key nor as a tag.\<close>

theorem attribute_hidden_by_text:
  assumes "attribute_value_key a = attribute_value_key b" "writeSpanAttribute E A keys ms a s = (None, s1)"
  shows "writeSpanAttribute E A keys ms b s1 = (None, s1)"
proof -
  obtain tb w where s: "s = (tb, w)" by (rule prod.exhaust)
  have kept: "append_key E ans a (tb, w) = (err, tb', w') \<Longrightarrow> tb_values tb' = tb_values tb" for ans tb w err tb' w'
    by (auto simp: append_key_def Let_def split: if_splits option.splits prod.splits)
  have "attribute_value_key a \<in> set (tb_values (fst s1))"
    using assms(2) s
    by (auto simp: writeSpanAttribute_def split: if_splits option.splits prod.splits dest!: kept)
  then show ?thesis using assms(1) by (cases s1) (simp add: writeSpanAttribute_def)
qed

section \<open>One span\<close>

lemma write_statement_accepts: "accepts ans \<Longrightarrow> wr_error (write_statement table ans f xs) = None"
  using append_rows_accepts [of ans "\<lambda>_. f" xs "[]"]
  by (auto simp: write_statement_def accepts_def send_def unsent_def split: prod.splits option.splits)

lemma WriteResources_result:
  "WriteResourcesV3 E ans seen w = (r, w') \<Longrightarrow> ans_prepare ans = None \<Longrightarrow>
    (wr_error r = None \<longleftrightarrow> ans_send ans = None) \<and> (wr_sent r \<longleftrightarrow> ans_send ans = None)"
  by (auto simp: WriteResourcesV3_def send_def unsent_def split: option.splits prod.splits)

lemma push_accepted:
  assumes "\<not> te_closed e" "accepts (ta_index A)" "accepts (ta_errors A)" "accepts (ta_resources A)"
  obtains tw e' where "pushTraceDataV3 E A i td e = ((None, tw), e')"
proof -
  obtain spans seen n where spans: "spans_of_push E td e = (spans, seen, n)" by (metis prod.exhaust)
  obtain err tw e' where p: "pushTraceDataV3 E A i td e = ((err, tw), e')" by (metis prod.exhaust)
  obtain w1 where b: "tw_index tw = writeIndexBatchV3 (ta_index A) spans" "tw_errors tw = writeErrorBatchV3 (ta_errors A) spans"
    and r: "if batch_errors i (tw_index tw) (tw_errors tw) = [] then
        WriteResourcesV3 E (ta_resources A) seen w1 = (tw_resources tw, te_Writer e') \<and> (err = None \<longleftrightarrow> wr_error (tw_resources tw) = None)
      else tw_resources tw = unsent [] None \<and> te_Writer e' = w1 \<and> err \<noteq> None"
    using push_batch [OF p assms(1) spans] by metis
  have "batch_errors i (tw_index tw) (tw_errors tw) = []"
    using b assms(2,3) by (simp add: batch_errors_none writeIndexBatchV3_def writeErrorBatchV3_def write_statement_accepts)
  with r have wr: "WriteResourcesV3 E (ta_resources A) seen w1 = (tw_resources tw, te_Writer e')" "err = None \<longleftrightarrow> wr_error (tw_resources tw) = None"
    by simp_all
  from WriteResources_result [OF wr(1)] wr(2) assms(4) have "err = None" by (simp add: accepts_def)
  with p that show ?thesis by blast
qed

definition quiet_traces :: trace_answers where
  "quiet_traces = \<lparr>ta_index = quiet, ta_errors = quiet, ta_keys = quiet, ta_tags = quiet, ta_resources = quiet\<rparr>"

definition small_lib :: trace_lib where
  "small_lib = \<lparr>tl_texts = simple_texts, tl_KindString = \<lambda>_. ''Server'', tl_CodeString = \<lambda>_. ''Unset'', tl_Hostname = \<lambda>_. None,
     tl_md5 = \<lambda>_. [], tl_uuid = \<lambda>_. ''u'', tl_MarshalEvent = \<lambda>_. ''{}'', tl_MarshalRefs = \<lambda>_. ''[]'', tl_MarshalSpan = \<lambda>_. ''{}''\<rparr>"

definition small_traces :: "(string, unit) list_ttl traces_env" where
  "small_traces = \<lparr>tv_lib = small_lib, tv_keysT = day_cache, tv_rfT = day_cache, tv_now = \<lambda>_. 1700000000000000000\<rparr>"

definition failing_span :: otel_span where
  "failing_span = \<lparr>os_TraceID = [], os_SpanID = [], os_ParentSpanID = [], os_TraceState = [], os_Flags = 0, os_Name = ''Server'',
     os_Kind = 2, os_StartTimestamp = 1700000000000000000, os_EndTimestamp = 1700000000000000005, os_StatusCode = 2,
     os_StatusMessage = [], os_Attributes = [], os_Links = [],
     os_Events = [\<lparr>ev_Name = ''log'', ev_Timestamp = 3, ev_Attributes = []\<rparr>,
       \<lparr>ev_Name = ''exception'', ev_Timestamp = 4, ev_Attributes = [(''exception.type'', VStr ''E''), (''exception.message'', VStr ''m'')]\<rparr>]\<rparr>"

definition one_trace :: resource_spans where
  "one_trace = \<lparr>rs_Attributes = [], rs_ScopeSpans = [[failing_span]]\<rparr>"

definition traces_exporter :: "(string, unit) list_ttl tracesExporter" where
  "traces_exporter = newTracesExporter small_traces False"

lemma traces_exporter_facts [simp]:
  "\<not> te_closed traces_exporter" "te_maxAllowedDataAgeDays traces_exporter = 15" "sw_clock_reads (te_Writer traces_exporter) = 0"
  by (simp_all add: traces_exporter_def newTracesExporter_def NewSpanWriter_def)

lemma quiet_traces_accepts [simp]:
  "accepts (ta_index quiet_traces)" "accepts (ta_errors quiet_traces)" "accepts (ta_resources quiet_traces)"
  by (simp_all add: quiet_traces_def)

lemma one_trace_sources:
  "\<exists>src. filter (\<lambda>s. \<not> span_too_old (oldest_allowed 15 (tv_now small_traces n)) s) (span_sources (tv_lib small_traces) [one_trace]) = [src] \<and>
    ss_span src = failing_span"
  by (simp add: span_sources_def one_trace_def Let_def span_too_old_def failing_span_def oldest_allowed_def small_traces_def word_less_alt)

lemma no_ids [simp]: "TraceIDToHexOrEmptyString [] = []" "SpanIDToHexOrEmptyString [] = []"
  by code_simp+


theorem usage_of_failed_push_witness:
  "\<exists>err tw e' sz. pushTraceDataV3 small_traces (quiet_traces\<lparr>ta_index := timing_out\<rparr>) True [one_trace] traces_exporter = ((Some err, tw), e') \<and>
     \<not> wr_sent (tw_index tw) \<and> tw_usage tw = [(''default'', 1, sz)]"
proof -
  let ?A = "quiet_traces\<lparr>ta_index := timing_out\<rparr>"
  obtain spans seen n where spans: "spans_of_push small_traces [one_trace] traces_exporter = (spans, seen, n)" by (metis prod.exhaust)
  obtain err tw e' where p: "pushTraceDataV3 small_traces ?A True [one_trace] traces_exporter = ((err, tw), e')" by (metis prod.exhaust)
  have "\<not> te_closed traces_exporter" by simp
  from push_batch [OF p this spans] obtain w1 where b: "tw_index tw = writeIndexBatchV3 timing_out spans"
    and r: "if batch_errors True (tw_index tw) (tw_errors tw) = [] then
        WriteResourcesV3 small_traces (ta_resources ?A) seen w1 = (tw_resources tw, te_Writer e') \<and> (err = None \<longleftrightarrow> wr_error (tw_resources tw) = None)
      else tw_resources tw = unsent [] None \<and> te_Writer e' = w1 \<and> err \<noteq> None"
    by (metis (no_types, lifting) trace_answers.select_convs(1) trace_answers.simps(6) trace_answers.surjective trace_answers.update_convs(1))
  have "fst (append_rows timing_out (\<lambda>_. span_args) spans []) = None" by (rule append_rows_accepts) (simp add: timing_out_def)
  with b have w: "wr_error (tw_index tw) = Some ''timeout''" "\<not> wr_sent (tw_index tw)"
    by (auto simp: writeIndexBatchV3_def write_statement_def send_def timing_out_def split: prod.splits)
  then have "err \<noteq> None" using r by (simp add: batch_errors_none split: if_splits)
  moreover obtain sz where "tw_usage tw = [(''default'', 1, sz)]"
    using usage_of_failed_push [OF _ p] one_trace_sources [of 0] by auto
  ultimately show ?thesis using p w(2) by blast
qed

lemma small_traces_caches:
  "ttl_promises (tv_rfT small_traces) list_live" "ttl_lasts 86400000000000 (tv_rfT small_traces) list_live"
  "ttl_sound (tv_rfT small_traces) list_live" "mono (tv_now small_traces)"
  by (simp_all add: small_traces_def day_cache_promises mono_def)

lemma one_trace_row:
  assumes "pushTraceDataV3 small_traces A i [one_trace] traces_exporter = ((None, tw), e')"
  obtains fp cells where "(CellInt 1699999200 # CellString fp # cells) \<in> set (wr_rows (tw_index tw))"
proof -
  obtain spans seen n where spans: "spans_of_push small_traces [one_trace] traces_exporter = (spans, seen, n)" by (metis prod.exhaust)
  obtain src where src: "filter (\<lambda>s. \<not> span_too_old (oldest_allowed 15 (tv_now small_traces 0)) s)
      (span_sources (tv_lib small_traces) [one_trace]) = [src]" "ss_span src = failing_span" using one_trace_sources by blast
  from spans_of_push_all [OF spans] src(1) obtain sp where sp: "spans = [sp]" "structured_as small_lib False seen src sp"
    by (auto simp: list_all2_Cons1 traces_exporter_def newTracesExporter_def small_traces_def)
  have bucket: "bucket_of 1700000000000000000 = 1699999200" by (simp add: bucket_of_def tsBucket_def)
  from sp(2) have "TsBucketStart sp = word_of_int 1699999200"
    using newStructuredSpan_facts(1) src(2) bucket by (fastforce simp: structured_as_def failing_span_def)
  moreover have "uint (word_of_int 1699999200 :: uint64) = 1699999200" using bucket_word [of 1700000000000000000] bucket by simp
  ultimately obtain cells where "span_args sp = CellInt 1699999200 # CellString (FingerPrint sp) # cells"
    by (simp add: span_args_def)
  with push_succeeds [OF assms spans] sp(1) that show ?thesis by auto
qed


definition late_resources :: trace_answers where
  "late_resources = quiet_traces\<lparr>ta_resources := timing_out\<rparr>"

theorem failed_span_resources_lost_witness:
  "\<exists>err tw e1 tw' e2. pushTraceDataV3 small_traces late_resources True [one_trace] traces_exporter = ((Some err, tw), e1) \<and>
     pushTraceDataV3 small_traces quiet_traces True [one_trace] e1 = ((None, tw'), e2) \<and>
     wr_sent (tw_index tw) \<and> \<not> wr_sent (tw_resources tw) \<and> wr_sent (tw_index tw') \<and>
     row_key ` set (wr_rows (tw_resources tw)) \<inter> row_key ` set (wr_rows (tw_resources tw')) = {}"
proof -
  obtain spans seen n where spans: "spans_of_push small_traces [one_trace] traces_exporter = (spans, seen, n)" by (metis prod.exhaust)
  obtain err tw e1 where p: "pushTraceDataV3 small_traces late_resources True [one_trace] traces_exporter = ((err, tw), e1)"
    by (metis prod.exhaust)
  have "\<not> te_closed traces_exporter" by simp
  from push_batch [OF p this spans] obtain w1 where b: "tw_index tw = writeIndexBatchV3 (ta_index late_resources) spans"
      "tw_errors tw = writeErrorBatchV3 (ta_errors late_resources) spans"
    and r: "if batch_errors True (tw_index tw) (tw_errors tw) = [] then
        WriteResourcesV3 small_traces (ta_resources late_resources) seen w1 = (tw_resources tw, te_Writer e1) \<and>
        (err = None \<longleftrightarrow> wr_error (tw_resources tw) = None)
      else tw_resources tw = unsent [] None \<and> te_Writer e1 = w1 \<and> err \<noteq> None"
    and closed: "te_closed e1 = te_closed traces_exporter" by metis
  have late: "accepts (ta_index late_resources)" "accepts (ta_errors late_resources)" "ta_resources late_resources = timing_out"
    by (simp_all add: late_resources_def quiet_traces_def)
  have none: "batch_errors True (tw_index tw) (tw_errors tw) = []"
    using b late by (simp add: batch_errors_none writeIndexBatchV3_def writeErrorBatchV3_def write_statement_accepts)
  then have i: "wr_sent (tw_index tw)"
    using b(1) write_statement_sent [of "''index''" _ span_args spans] by (simp add: batch_errors_none writeIndexBatchV3_def)
  from none r late(3) have wr: "WriteResourcesV3 small_traces timing_out seen w1 = (tw_resources tw, te_Writer e1)"
    "err = None \<longleftrightarrow> wr_error (tw_resources tw) = None" by simp_all
  from WriteResources_result [OF wr(1)] wr(2) have "\<not> wr_sent (tw_resources tw)" "err \<noteq> None" by (simp_all add: timing_out_def)
  moreover obtain tw' e2 where p': "pushTraceDataV3 small_traces quiet_traces True [one_trace] e1 = ((None, tw'), e2)"
    by (rule push_accepted [of e1 quiet_traces]) (use closed in simp_all)
  moreover have "row_key ` set (wr_rows (tw_resources tw)) \<inter> row_key ` set (wr_rows (tw_resources tw')) = {}"
    by (rule failed_span_resources_lost [OF small_traces_caches(1,2,4) p p']) (simp add: small_traces_def)
  moreover obtain spans' seen' n' where "spans_of_push small_traces [one_trace] e1 = (spans', seen', n')" by (metis prod.exhaust)
  note push_succeeds [OF p' this]
  ultimately show ?thesis using p i by blast
qed

text \<open>A span whose name is its kind, and two attributes with the same text.\<close>

definition server_span :: SpanV3 where
  "server_span = fst (newStructuredSpanV3 small_lib False 0 [] (failing_span\<lparr>os_Events := []\<rparr>) [] [] 0)"

lemma server_span_facts: "Name server_span = ''Server''" "SpanKind server_span = ''Server''" "SpanAttributes server_span = []"
  by (simp_all add: server_span_def newStructuredSpanV3_def populateEventsV3_def populateCustomAttrsAndAttrs_def failing_span_def
      small_lib_def no_attributes_def resource_span_attributes_def Let_def)


lemma attribute_accepted:
  assumes "\<And>i. ans_append (ta_keys A) i = None"
  shows "\<exists>s'. writeSpanAttribute E A keys ms a s = (None, s')"
proof -
  obtain tb w where s: "s = (tb, w)" by (rule prod.exhaust)
  let ?s = "(tb\<lparr>tb_values := attribute_value_key a # tb_values tb\<rparr>, w)"
  have "fst (append_key E (ta_keys A) a ?s) = None"
    using assms by (simp add: append_key_def Let_def split: prod.splits option.splits)
  then obtain s1 where "append_key E (ta_keys A) a ?s = (None, s1)" by (metis prod.collapse)
  then show ?thesis by (cases s1) (simp add: writeSpanAttribute_def s)
qed

definition long_value :: SpanAttribute where
  "long_value = span_attribute ''a'' ''tag'' ''string'' ''xtagstringy'' (Finite_f64 0)"

definition long_key :: SpanAttribute where
  "long_key = span_attribute ''atagstringx'' ''tag'' ''string'' ''y'' (Finite_f64 0)"

theorem attribute_hidden_by_text_witness:
  "long_value \<noteq> long_key \<and> (\<exists>s. writeSpanAttribute small_traces quiet_traces [] 0 long_value (empty_tag_batch, NewSpanWriter small_traces) = (None, s) \<and>
     writeSpanAttribute small_traces quiet_traces [] 0 long_key s = (None, s))"
proof -
  have same: "attribute_value_key long_value = attribute_value_key long_key"
    by (simp add: long_value_def long_key_def attribute_value_key_def span_attribute_def)
  obtain s where s: "writeSpanAttribute small_traces quiet_traces [] 0 long_value (empty_tag_batch, NewSpanWriter small_traces) = (None, s)"
    using attribute_accepted [of quiet_traces small_traces "[]" 0 long_value "(empty_tag_batch, NewSpanWriter small_traces)"]
    by (auto simp: quiet_traces_def quiet_def)
  have "long_value \<noteq> long_key" by (simp add: long_value_def long_key_def span_attribute_def)
  with s attribute_hidden_by_text [OF same s] show ?thesis by blast
qed

section \<open>The statement of spans\<close>

text \<open>A column for every value of a row, but a placeholder too few in the text of the statement.\<close>

lemma span_statement:
  "length (span_args sp) = length span_columns"
  "length (filter (\<lambda>c. c = CHR ''?'') (insertTraceSQLTemplateV2 defaultTraceDatabase defaultIndexTableV3)) + 1 = length span_columns"
  by (simp add: span_args_def span_columns_def, code_simp)

text \<open>A span without a parent gets a reference to a parent without an identifier.\<close>

lemma root_reference:
  "makeJaegerProtoReferences [] [] traceID =
    [\<lparr>ref_TraceId = TraceIDToHexOrEmptyString traceID, ref_SpanId = [], ref_RefType = ''CHILD_OF''\<rparr>]"
  by (simp add: makeJaegerProtoReferences_def)

text \<open>The duration of a span that ends before it starts is not negative.\<close>

lemma duration_wraps:
  assumes "os_EndTimestamp otel < os_StartTimestamp otel" "newStructuredSpanV3 L lc bucket fp otel service resource n = (sp, n')"
  shows "uint (DurationNano sp) = 2 ^ 64 - (uint (os_StartTimestamp otel) - uint (os_EndTimestamp otel))"
  using assms(1) newStructuredSpan_facts(5) [OF assms(2)] by (simp add: uint_sub_if' word_less_alt)

end
