(* ===== verification/Spec2Isabelle.thy ===== *)
theory Spec2Isabelle
  imports LicenseGate TailSampler ShippedMigrations SchemaIndex SpanSamples MetadataValues MetricsWriter LogsPush TracesPush
begin

text \<open>
  A model of the OpenTelemetry gateway of K-O11y, a collector that receives traces, logs and metrics,
  checks a license, samples and aggregates, and writes to ClickHouse, with a tool that migrates the
  schema of the database. The development follows the Go code definition by definition; every
  definition computes, so that it can be evaluated on an input.

  \<^bold>\<open>Parts and theories\<close>

  \<^item> \<open>Prelude\<close>: Go's 64-bit integers, durations and instants, outcomes of channel
    operations (a value, blocking for ever, a panic), decimal text and \<^verbatim>\<open>strings.Join\<close>.
  \<^item> \<open>LicenseGuard\<close> (\<^verbatim>\<open>extension/licenseguardextension\<close>): configuration, creation, verification of
    the token, \<^verbatim>\<open>checkLicense\<close> with its grace period and fail modes, the validation loop, the queries.
    The JWT library, the RSA key and the clock are arguments.
  \<^item> \<open>LicenseGate\<close> (\<^verbatim>\<open>processor/licensegateprocessor\<close>): lazy linking to the guard and the three
    consume methods. The locale of the checker is interpreted on the guard of the extension.
  \<^item> \<open>IdBatcher\<close>, \<open>Float64\<close>, \<open>Sampling\<close>, \<open>TailEvaluator\<close>, \<open>TailSampler\<close>
    (\<^verbatim>\<open>processor/signoztailsampler\<close>): the pipe of batches of trace ids, every sampling policy, the
    evaluator of a policy group, and the processor with its ticks, its map of traces and its deletion
    queue. \<open>Float64\<close> is binary floating point, rounded to nearest even, which
    the span metrics use too.
  \<^item> \<open>SchemaTypes\<close>, \<open>SchemaOps\<close>, \<open>SchemaIndex\<close>, \<open>MigrationManager\<close>, \<open>MigrationRun\<close>
    (\<^verbatim>\<open>cmd/signozschemamigrator/schema_migrator\<close>): column types, columns and engines and the SQL they
    render to; the 22 operations; the indexes on JSON sub-columns; the manager that runs one operation
    with its waits; the runs up and down, synchronous and asynchronous. ClickHouse with its driver, the
    clock and the backoff are one record of functions on a state of the world.
  \<^item> \<open>MigrationTerms\<close>, \<open>MigrationsTraces\<close>, \<open>MigrationsMetrics\<close>, \<open>MigrationsLogs\<close>,
    \<open>MigrationsOthers\<close>: the migrations themselves, one definition per record of the lists
    in \<^verbatim>\<open>traces_migrations.go\<close>, \<^verbatim>\<open>metrics_migrations.go\<close>, \<^verbatim>\<open>logs_migrations.go\<close> and their
    squashed and later versions, a long record being split after some of its operations.
    \<open>ShippedMigrations\<close> gives them to the runs and states what holds of all of them.
  \<^item> \<open>MetadataCache\<close>, \<open>MetadataValues\<close> (\<^verbatim>\<open>exporter/metadataexporter\<close>): the cache in memory of the
    fingerprints written, and the attributes that are left out, by the trackers of unique values and by
    the counts read from the database. The expiring cache and the LRU cache are parameters.
  \<^item> \<open>SpanCache\<close>, \<open>SpanMetrics\<close>, \<open>SpanAggregate\<close>, \<open>SpanExport\<close>, \<open>SpanLabels\<close>,
    \<open>SpanSamples\<close> (\<^verbatim>\<open>processor/signozspanmetricsprocessor\<close>): the cache that keeps what it evicts until
    an export, the configuration, keys, labels, histograms, the aggregation of batches, the export on a
    tick, and a concrete processor for evaluation.
  \<^item> \<open>ExpiringCache\<close>, \<open>Statements\<close>: a cache whose entries expire and what is promised of it, and the
    batches of the ClickHouse driver as the exporters use them.
  \<^item> \<open>Fingerprints\<close> (\<^verbatim>\<open>internal/common/fingerprint\<close>), \<open>FloatText\<close>, \<open>MetricsBatch\<close>, \<open>MetricsRows\<close>,
    \<open>MetricsWriter\<close> (\<^verbatim>\<open>exporter/signozclickhousemetrics\<close>): the fingerprints and labels of series, the
    text of a number, the rows prepared for every type of metric, and the statements that write them.
  \<^item> \<open>Runes\<close>, \<open>KeyCheck\<close> (\<^verbatim>\<open>pkg/keycheck\<close>), \<open>PdataValues\<close> (\<^verbatim>\<open>utils/flatten\<close>, \<^verbatim>\<open>utils/utils.go\<close>),
    \<open>ResourceFingerprint\<close> (\<^verbatim>\<open>utils/fingerprint\<close>), \<open>ExportRows\<close>: UTF-8, keys that look random,
    attribute values and their flattening, what identifies a resource, and the rows of resources, which
    the exporters of logs and of traces share.
  \<^item> \<open>PromotedPaths\<close>, \<open>LogsPipeline\<close>, \<open>LogsExporter\<close>, \<open>LogsPush\<close>
    (\<^verbatim>\<open>exporter/clickhouselogsexporter\<close>): the paths of JSON bodies that get columns of their own, the
    goroutines of a push as a step relation, records, tags and keys, and a push, in which the order the
    goroutines run in is an argument, a schedule.
  \<^item> \<open>TracesSpans\<close>, \<open>TracesWriter\<close>, \<open>TracesPush\<close> (\<^verbatim>\<open>exporter/clickhousetracesexporter\<close>): structured spans,
    the five statements of a push, and a push.
  \<^item> \<open>Spec2Isabelle\<close>, this theory: the guard and the gate together.

  \<^bold>\<open>How state and effects are modelled\<close>

  A component's state is a record and an operation a function from state to state, with its errors as
  values. Go maps that are only read by key are maps, those that are iterated over are association
  lists, and the order of an iteration that matters is an argument. Channels and locks: a
  call under a lock is one step; the goroutines of the batcher, the ticker and the waits
  are steps of their own, ordered by the sequences of steps the theorems range over. The
  migration programs are functions on the driver's world that also record what they executed, so that
  theorems speak of the exact sequence of statements. Third-party code is an argument with named laws
  where a proof needs them (\<open>lru_promises\<close>, \<open>lru_lawful\<close>, \<open>ttl_promises\<close>, \<open>ttl_sound\<close>, \<open>fair_order\<close>,
  \<open>plain_texts\<close>), each shown to hold for a concrete instance. A statement of the exporters is the list of
  the rows appended and whether it was sent; ClickHouse answers every call with success or an error,
  which is an argument, and a failed push can be followed by its retry on the exporter it leaves.
  Readings of the clock are numbered and never go back.

  \<^bold>\<open>What the theorems show\<close>

  License: the state of the guard after a check is exactly what expiry, grace period and fail mode say,
  a valid license was signed with the configured key, and behind the gate exactly the batches in time
  pass, the others being counted. Tail sampler: memory stays bounded, the batcher loses nothing, the
  evaluator refines its configuration, the first policy with an opinion decides; and the policies of the
  configuration are never loaded. Migrations: a run executes exactly the entries and statements it
  should, ends when its waits end, renders balanced statements, and marks a whole migration finished
  after its first operation. The migrations shipped: their identifiers increase, a first installation
  refers to nothing it has not created, and every distributed table declares columns of its local one;
  three lists have migrations down that are never executed. Metadata: the caches stay within their
  limits, the checks of the limits read those of the traces only, and the tracker of unique values leaves
  nothing out. Span metrics: the cache refines a map, an export never fails and leaves
  bounded memory, every span is reported exactly once, keys determine labels under stated conditions,
  and time buckets survive the key. Exporters: the series of a batch are those of its samples, every
  series is written although the cache leaves rows out, labels can be read back; a push of logs or
  spans writes one row for each that is not too old, whose resource is written by the same push or an
  earlier one; the goroutines of the logs exporter conserve the records and always come to an end, but
  after an error that end can be a deadlock. Since the caches are told of rows before they
  are sent, the retry of a push that failed leaves series and resources out.

  \<^bold>\<open>Loops and bounds\<close>

  Loops over data are structural recursion. The waits of the migrations are \<open>partial_function\<close>s, where
  not returning is \<open>None\<close>: \<open>run_operation_returns\<close> shows that they return when the backoff stops; the
  ten attempts and the sixteen polls are those of the code. The binary search of the histograms and the
  walk over the runes of a string terminate by a measure. Counters are 64-bit words, so sums of counters
  are exact modulo two to the power 64.

  \<^bold>\<open>Not modelled\<close>

  The exporters of meters, JSON types and Kafka, the receivers, the operators of the logs pipeline, the
  transform processor, the meter connector, OpAMP, health checks and the commands are not modelled; the
  manifest lists each with its reason. Within the modelled parts: logging, durations and usage in
  OpenCensus views, the contexts of Go, failures of the encoding of JSON, the interleaving of goroutines
  inside a locked section, and concurrent pushes of one exporter.
\<close>

section \<open>The license, end to end\<close>

text \<open>The guard after a sequence of checks, each with its own clock.\<close>

definition checked :: "'k jwt_parser \<Rightarrow> (nat \<Rightarrow> instant) list \<Rightarrow> 'k licenseGuardExtension \<Rightarrow> 'k licenseGuardExtension" where
  "checked P clocks e = fold (\<lambda>clock e. fst (checkLicense P clock e)) clocks e"

lemma checked_frame:
  "guard_conf (checked P clocks e) = guard_conf e \<and> publicKey (checked P clocks e) = publicKey e \<and>
   passThrough (checked P clocks e) = passThrough e"
proof (induction clocks arbitrary: e)
  case (Cons clock clocks)
  obtain e' err logs where c: "checkLicense P clock e = (e', err, logs)" by (metis prod_cases3)
  from Cons.IH [of e'] checkLicense_frame [OF c] show ?case by (simp add: checked_def c)
qed (simp add: checked_def)

lemma checked_valid:
  assumes "verifyJWT P e (LicenseKey (guard_conf e)) = Inr c" "\<not> passThrough e" "clocks \<noteq> []"
  shows "IsValid guard_checker (checked P clocks e) \<longleftrightarrow>
    last clocks 0 < max (claims_expiry c) (claims_grace_end (guard_conf e) c)"
proof -
  obtain cs clock where cs: "clocks = cs @ [clock]" using assms(3) by (cases clocks rule: rev_cases) auto
  let ?e = "checked P cs e"
  note f = checked_frame [of P cs e]
  have v: "verifyJWT P ?e (LicenseKey (guard_conf ?e)) = Inr c"
    using assms(1) f verifyJWT_cong [of ?e e P] by simp
  obtain e' err logs where c: "checkLicense P clock ?e = (e', err, logs)" by (metis prod_cases3)
  have "checked P clocks e = e'" using c by (simp add: checked_def cs)
  moreover have "passThrough e' = False" using checkLicense_frame [OF c] f assms(2) by simp
  moreover have "guard_valid e' \<longleftrightarrow> clock 0 < max (claims_expiry c) (claims_grace_end (guard_conf e) c)"
    using checkLicense_Inr(2) [OF v c] f by (auto simp: max_def)
  ultimately show ?thesis by (simp add: guard_checker_def guard_IsValid_def cs)
qed

text \<open>C1: The license is enforced end to end. A guard whose token verifies, in front of a gate that
  is linked to it: whatever the signal, whatever number of checks comes before each batch, the
  batches passed on are exactly those whose last check came before the expiry or before the end of
  the grace period, in order; every other batch is dropped and counted with its size. Nothing
  else of the history of the guard matters.\<close>

theorem license_enforced:
  assumes verified: "verifyJWT P e (LicenseKey (guard_conf e)) = Inr c" and active: "\<not> passThrough e"
    and linked: "getChecker p = (Some i, p1, logs)" and counting: "gate_metrics p = Some []"
    and signal: "signal \<in> {''traces'', ''logs'', ''metrics''}"
    and checks: "\<And>clocks d. (clocks, d) \<in> set xs \<Longrightarrow> clocks \<noteq> []"
    and run: "gate_run signal guard_checker cnt next p
      (map (\<lambda>(clocks, d). ((\<lambda>_. checked P clocks e), d)) xs) = (p', fwd)"
  shows "let in_time = (\<lambda>(clocks, d). last clocks 0 < max (claims_expiry c) (claims_grace_end (guard_conf e) c)) in
    fwd = map snd (filter in_time xs) \<and>
    gate_metrics p' = Some (map (\<lambda>(clocks, d). (cnt d, ''license_expired'', signal)) (filter (\<lambda>x. \<not> in_time x) xs))"
proof -
  let ?in = "\<lambda>(clocks, d). last clocks 0 < max (claims_expiry c) (claims_grace_end (guard_conf e) c)"
  let ?ev = "\<lambda>(clocks, d). ((\<lambda>_. checked P clocks e), d)"
  let ?pass = "\<lambda>(exts, d). gate_passes guard_checker exts (Some i)"
  have sig: "signal \<in> set signals" using signal by (simp add: signals_def)
  have pass: "?pass (?ev x) = ?in x" if "x \<in> set xs" for x
  proof (cases x)
    case (Pair clocks d)
    with that checks have "clocks \<noteq> []" by blast
    from checked_valid [OF verified active this] Pair show ?thesis by (simp add: gate_passes_def)
  qed
  have "filter ?pass (map ?ev xs) = map ?ev (filter ?in xs)"
    "filter (\<lambda>x. \<not> ?pass x) (map ?ev xs) = map ?ev (filter (\<lambda>x. \<not> ?in x) xs)"
    using pass by (simp_all add: filter_map comp_def cong: filter_cong)
  with gate_run_accounts [OF sig run counting linked] show ?thesis
    by (simp add: Let_def case_prod_unfold comp_def)
qed

theorem license_enforced_witness:
  "\<exists>p'. gate_run ''logs'' guard_checker int (\<lambda>_. None) sample_gate
      (map (\<lambda>(clocks, d). ((\<lambda>_. checked (sample_parser 1000) clocks (sample_guard FailModeClosed)), d))
        [([\<lambda>_. 5], 3), ([\<lambda>_. 5, \<lambda>_. 10 ^ 18], 4::nat)]) = (p', [3])
    \<and> gate_metrics p' = Some [(4, ''license_expired'', ''logs'')]"
proof -
  let ?xs = "[([\<lambda>_. 5], 3), ([\<lambda>_. 5, \<lambda>_. 10 ^ 18], 4::nat)] :: ((nat \<Rightarrow> instant) list \<times> nat) list"
  obtain p' fwd where r: "gate_run ''logs'' guard_checker int (\<lambda>_. None) sample_gate
      (map (\<lambda>(clocks, d). ((\<lambda>_. checked (sample_parser 1000) clocks (sample_guard FailModeClosed)), d)) ?xs) = (p', fwd)"
    by (metis prod.exhaust)
  obtain p1 logs where link: "getChecker sample_gate = (Some 1, p1, logs)" using sample_gate_links by blast
  have "\<not> passThrough (sample_guard FailModeClosed)" "gate_metrics sample_gate = Some []"
    by (simp_all add: sample_guard_def sample_gate_def)
  note w = license_enforced [OF sample_verified this(1) link this(2) _ _ r]
  have "fwd = [3] \<and> gate_metrics p' = Some [(4, ''license_expired'', ''logs'')]"
    using w by (simp add: claims_expiry_def claims_grace_end_def grace_duration_exact sample_defs
        nanosecond_day_def nanosecond_hour_def) auto
  with r show ?thesis by blast
qed

end
